(* ===== verification/Js_Values.thy ===== *)
theory Js_Values
  imports Main "HOL-Library.Char_ord" "HOL-Library.List_Lexorder"
begin

section \<open>Prelude: JavaScript values, thrown errors and the shared validators\<close>

text \<open>
  The values that cross the boundaries of the flow engine are plain JavaScript data (persisted
  JSON, destructured constructor arguments).  This theory holds the part of the language the
  sources use:
  \<^item> \<open>jsval\<close>: undefined, null, booleans, numbers, strings, arrays and plain objects.  An
    integer that \<open>JSON.stringify\<close> prints in plain decimal is \<open>JInt\<close>; every other number
    (fractions, NaN, infinities, magnitudes from \<open>10^21\<close> on) is \<open>JNum\<close>, carried by its
    text.  An object is an association list; its keys are distinct (\<open>js_distinct\<close>).
    Strings are lists of code units below 256.
  \<^item> \<open>jserr\<close>: what a \<open>throw\<close> of the sources raises, with its message; \<open>'a res\<close>
    is the result of a computation that may throw.
  \<^item> \<open>bindE\<close>: sequencing, the first throw wins, as in the source.
  \<^item> the locale \<open>json_codec\<close>, the contract every value class with a validating
    constructor and a \<open>toJSON\<close> method keeps: what the constructor accepts is well formed,
    and a well-formed value is rebuilt unchanged from its own JSON.
\<close>

subsection \<open>Values and errors\<close>

datatype jsval =
    JUndef
  | JNull
  | JBool bool
  | JInt int
  | JNum string
  | JStr string
  | JArr "jsval list"
  | JObj "(string \<times> jsval) list"

datatype jserr = Error string | TypeError string

type_synonym 'a res = "jserr + 'a"
type_synonym jsfields = "(string \<times> jsval) list"

named_theorems validate_simps \<open>unfolding of the validators\<close>
named_theorems json_simps \<open>unfolding of toJSON methods and constructors\<close>
named_theorems wf_simps \<open>unfolding of the well-formedness predicates\<close>

fun bindE :: "'a res \<Rightarrow> ('a \<Rightarrow> 'b res) \<Rightarrow> 'b res" where
  "bindE (Inl e) f = Inl e"
| "bindE (Inr x) f = f x"

lemma bindE_eq_Inr [simp]: "bindE m f = Inr y \<longleftrightarrow> (\<exists>x. m = Inr x \<and> f x = Inr y)"
  by (cases m) auto

lemma bindE_eq_Inl: "bindE m f = Inl e \<longleftrightarrow> m = Inl e \<or> (\<exists>x. m = Inr x \<and> f x = Inl e)"
  by (cases m) auto

text \<open>A guard that throws.\<close>

lemma if_refused: "(if c then Inl e else m) = Inr y \<longleftrightarrow> \<not> c \<and> m = Inr y"
  by simp

lemma bindE_assoc: "bindE (bindE m f) g = bindE m (\<lambda>x. bindE (f x) g)"
  by (cases m) auto

lemma bindE_cong [fundef_cong]:
  "m = m' \<Longrightarrow> (\<And>x. m' = Inr x \<Longrightarrow> f x = f' x) \<Longrightarrow> bindE m f = bindE m' f'"
  by (cases m') auto

text \<open>\<open>array.map(f)\<close> with a callback that may throw: the first throw wins.\<close>

fun mapE :: "('a \<Rightarrow> 'b res) \<Rightarrow> 'a list \<Rightarrow> 'b list res" where
  "mapE f [] = Inr []"
| "mapE f (x # xs) = bindE (f x) (\<lambda>y. bindE (mapE f xs) (\<lambda>ys. Inr (y # ys)))"

lemma mapE_Inr_map: "(\<And>x. x \<in> set xs \<Longrightarrow> f x = Inr (g x)) \<Longrightarrow> mapE f xs = Inr (map g xs)"
  by (induction xs) auto

lemma mapE_eq_Inr: "mapE f xs = Inr ys \<longleftrightarrow> list_all2 (\<lambda>x y. f x = Inr y) xs ys"
  by (induction xs arbitrary: ys) (auto simp: list_all2_Cons1)

text \<open>\<open>array.find(f)\<close> with a callback that may throw: elements after the first hit are not
  looked at.\<close>

fun findE :: "('a \<Rightarrow> bool res) \<Rightarrow> 'a list \<Rightarrow> 'a option res" where
  "findE f [] = Inr None"
| "findE f (x # xs) = bindE (f x) (\<lambda>b. if b then Inr (Some x) else findE f xs)"

lemma findE_Some:
  "findE f xs = Inr (Some x) \<Longrightarrow> x \<in> set xs \<and> f x = Inr True"
  by (induction xs) (auto split: if_splits)

lemma findE_total:
  "(\<And>x. x \<in> set xs \<Longrightarrow> f x = Inr (P x)) \<Longrightarrow> findE f xs = Inr (find P xs)"
  by (induction xs) auto

lemma findE_None:
  "findE f xs = Inr None \<Longrightarrow> x \<in> set xs \<Longrightarrow> f x = Inr False"
  by (induction xs) (auto split: if_splits)

subsection \<open>Property access and destructuring\<close>

definition fld :: "jsfields \<Rightarrow> string \<Rightarrow> jsval" where
  "fld ob k = (case map_of ob k of None \<Rightarrow> JUndef | Some v \<Rightarrow> v)"

lemma fld_simps [simp]:
  "fld [] k = JUndef"
  "fld ((a, v) # ob) k = (if a = k then v else fld ob k)"
  by (auto simp: fld_def)

lemma fld_append: "k \<notin> fst ` set xs \<Longrightarrow> fld (xs @ ys) k = fld ys k"
proof -
  assume "k \<notin> fst ` set xs"
  then have "map_of xs k = None" by (simp add: map_of_eq_None_iff)
  then show ?thesis by (simp add: fld_def map_add_def split: option.split)
qed

text \<open>A destructured field with a default: the default replaces \<open>undefined\<close> only.\<close>

definition fld_or :: "jsfields \<Rightarrow> string \<Rightarrow> jsval \<Rightarrow> jsval" where
  "fld_or ob k d = (if fld ob k = JUndef then d else fld ob k)"

lemma fld_or_Nil [simp]: "fld_or [] k d = d"
  by (simp add: fld_or_def)

lemma fld_or_Cons [simp]:
  "fld_or ((a, v) # ob) k d = (if a = k then (if v = JUndef then d else v) else fld_or ob k d)"
  by (auto simp: fld_or_def)

text \<open>
  Destructuring a parameter \<open>({ ... } = {})\<close>: a missing argument is the empty object,
  \<open>null\<close> throws, and the other values have none of the named own properties.
\<close>

definition destructure :: "jsval \<Rightarrow> jsfields res" where
  "destructure v = (case v of
     JUndef \<Rightarrow> Inr []
   | JNull \<Rightarrow> Inl (TypeError ''Cannot destructure null'')
   | JObj ob \<Rightarrow> Inr ob
   | _ \<Rightarrow> Inr [])"

lemma destructure_simps [simp]:
  "destructure (JObj ob) = Inr ob"
  "destructure JUndef = Inr []"
  "destructure JNull = Inl (TypeError ''Cannot destructure null'')"
  by (simp_all add: destructure_def)

fun is_object :: "jsval \<Rightarrow> bool" where
  "is_object (JObj ob) = True"
| "is_object _ = False"

lemma is_object_conv: "is_object v \<longleftrightarrow> (\<exists>ob. v = JObj ob)"
  by (cases v) auto

text \<open>Property reads \<open>v.k\<close> and \<open>v?.k\<close> on plain data, and the truthiness and type tests the
  sources use.\<close>

fun propq :: "jsval \<Rightarrow> string \<Rightarrow> jsval" where
  "propq (JObj ob) k = fld ob k"
| "propq _ k = JUndef"

definition prop_of :: "jsval \<Rightarrow> string \<Rightarrow> jsval res" where
  "prop_of v k = (if v = JNull \<or> v = JUndef
     then Inl (TypeError ''Cannot read properties of undefined or null'') else Inr (propq v k))"

text \<open>\<open>===\<close> on plain data: two separately built objects or arrays are never identical, nor is
  NaN with itself.\<close>

fun strict_eq :: "jsval \<Rightarrow> jsval \<Rightarrow> bool" where
  "strict_eq (JArr _) _ = False"
| "strict_eq (JObj _) _ = False"
| "strict_eq (JNum t) v = (t \<noteq> ''NaN'' \<and> v = JNum t)"
| "strict_eq u v = (u = v)"

lemma strict_eq_JStr [simp]: "strict_eq v (JStr s) \<longleftrightarrow> v = JStr s"
  by (cases v) auto

text \<open>The receiver of \<open>v?.find(..)\<close>: nothing for \<open>undefined\<close> and \<open>null\<close>, a throw for a value
  without the method.\<close>

definition optional_list :: "jsval \<Rightarrow> jsval list option res" where
  "optional_list v = (case v of
     JUndef \<Rightarrow> Inr None
   | JNull \<Rightarrow> Inr None
   | JArr vs \<Rightarrow> Inr (Some vs)
   | _ \<Rightarrow> Inl (TypeError ''find is not a function''))"

fun typeof_object :: "jsval \<Rightarrow> bool" where
  "typeof_object (JObj ob) = True"
| "typeof_object (JArr vs) = True"
| "typeof_object JNull = True"
| "typeof_object _ = False"

text \<open>\<open>!v || typeof v !== "object"\<close> is the negation of this test.\<close>

definition truthy_object :: "jsval \<Rightarrow> bool" where
  "truthy_object v \<longleftrightarrow> typeof_object v \<and> v \<noteq> JNull"

lemma truthy_object_JObj [simp]: "truthy_object (JObj ob)"
  by (simp add: truthy_object_def)

text \<open>Objects of the language have distinct keys, at every depth.\<close>

fun js_distinct :: "jsval \<Rightarrow> bool" where
  "js_distinct (JArr vs) = list_all js_distinct vs"
| "js_distinct (JObj ob) = (distinct (map fst ob) \<and> list_all (\<lambda>(k, v). js_distinct v) ob)"
| "js_distinct _ = True"

subsection \<open>Strings\<close>

text \<open>\<open>String.prototype.trim\<close>, on the white space and line terminators below 256.\<close>

definition js_ws :: "char \<Rightarrow> bool" where
  "js_ws c \<longleftrightarrow> c \<in> {CHR 0x09, CHR 0x0A, CHR 0x0B, CHR 0x0C, CHR 0x0D, CHR 0x20, CHR 0xA0}"

definition js_trim :: "string \<Rightarrow> string" where
  "js_trim s = rev (dropWhile js_ws (rev (dropWhile js_ws s)))"

lemma dropWhile_idem_hd: "dropWhile P xs = xs \<longleftrightarrow> xs = [] \<or> \<not> P (hd xs)"
  by (cases xs) (auto dest: arg_cong [where f = length] simp: less_Suc_eq_le
      intro: length_dropWhile_le le_antisym, metis Suc_n_not_le_n length_Cons length_dropWhile_le)

lemma js_trim_hd: "js_trim s \<noteq> [] \<Longrightarrow> \<not> js_ws (hd (js_trim s))"
proof -
  assume ne: "js_trim s \<noteq> []"
  let ?d = "dropWhile js_ws s"
  obtain ys where ys: "?d = js_trim s @ ys"
    unfolding js_trim_def by (metis append_take_drop_id dropWhile_eq_drop rev_append rev_rev_ident)
  with ne have "hd ?d = hd (js_trim s)" and "?d \<noteq> []" by auto
  then show ?thesis using hd_dropWhile [of js_ws s] by auto
qed

lemma js_trim_last: "js_trim s \<noteq> [] \<Longrightarrow> \<not> js_ws (last (js_trim s))"
  unfolding js_trim_def by (simp add: last_rev hd_dropWhile)

lemma js_trim_id: "s = [] \<or> (\<not> js_ws (hd s) \<and> \<not> js_ws (last s)) \<Longrightarrow> js_trim s = s"
proof (cases "s = []")
  case False
  assume "s = [] \<or> (\<not> js_ws (hd s) \<and> \<not> js_ws (last s))"
  with False have "dropWhile js_ws s = s" "dropWhile js_ws (rev s) = rev s"
    by (auto simp: dropWhile_idem_hd hd_rev)
  then show ?thesis by (simp add: js_trim_def)
qed (simp add: js_trim_def)

lemma js_trim_idem [simp]: "js_trim (js_trim s) = js_trim s"
  using js_trim_hd js_trim_last by (intro js_trim_id) blast

text \<open>A text value: trimmed and not blank, what every required-text validator returns.\<close>

definition is_text :: "string \<Rightarrow> bool" where
  "is_text s \<longleftrightarrow> s \<noteq> [] \<and> js_trim s = s"

lemma is_text_trim [simp]: "is_text (js_trim s) \<longleftrightarrow> js_trim s \<noteq> []"
  by (simp add: is_text_def)

lemma is_text_ne [dest]: "is_text s \<Longrightarrow> s \<noteq> []"
  by (simp add: is_text_def)

lemma is_textD [simp]: "is_text s \<Longrightarrow> js_trim s = s"
  by (simp add: is_text_def)

lemma is_text_append: "is_text s \<Longrightarrow> is_text t \<Longrightarrow> is_text (s @ u @ t)"
  unfolding is_text_def
  by (metis (no_types, lifting) Nil_is_append_conv hd_append2 js_trim_hd js_trim_id js_trim_last
      last_appendR)

text \<open>Required text, with the error the caller's file throws: the trimmed string.\<close>

definition text_or :: "jserr \<Rightarrow> jsval \<Rightarrow> string res" where
  "text_or e v = (case v of
     JStr s \<Rightarrow> if js_trim s = [] then Inl e else Inr (js_trim s)
   | _ \<Rightarrow> Inl e)"

lemma text_or_eq_Inr [simp]:
  "text_or e v = Inr t \<longleftrightarrow> (\<exists>s. v = JStr s \<and> js_trim s = t \<and> t \<noteq> [])"
  by (auto simp: text_or_def split: jsval.splits)

lemma text_or_is_text: "text_or e v = Inr t \<Longrightarrow> is_text t"
  by auto

lemma text_or_text [simp]: "is_text t \<Longrightarrow> text_or e (JStr t) = Inr t"
  by (auto simp: text_or_def)

text \<open>\<open>String.prototype.endsWith\<close> and \<open>toLowerCase\<close>.\<close>

definition ends_with :: "string \<Rightarrow> string \<Rightarrow> bool" where
  "ends_with s suf \<longleftrightarrow> take (length suf) (rev s) = rev suf"

lemma ends_with_append [simp]: "ends_with (s @ suf) suf"
  by (simp add: ends_with_def)

lemma ends_withE: "ends_with s suf \<Longrightarrow> s = take (length s - length suf) s @ suf"
proof -
  assume "ends_with s suf"
  then have "rev s = rev suf @ drop (length suf) (rev s)"
    unfolding ends_with_def by (metis append_take_drop_id)
  then have "rev (rev s) = rev (drop (length suf) (rev s)) @ suf"
    by (metis rev_append rev_rev_ident)
  then show "s = take (length s - length suf) s @ suf" by (simp add: rev_drop)
qed

definition js_lower_char :: "char \<Rightarrow> char" where
  "js_lower_char c = (let n = (of_char c :: nat) in
     if 65 \<le> n \<and> n \<le> 90 \<or> 192 \<le> n \<and> n \<le> 222 \<and> n \<noteq> 215 then char_of (n + 32) else c)"

definition js_lower :: "string \<Rightarrow> string" where
  "js_lower s = map js_lower_char s"

subsection \<open>Numbers\<close>

definition max_safe :: int where
  "max_safe = 9007199254740991"

text \<open>\<open>Number.isSafeInteger\<close>, with the integer when it is one.\<close>

definition safeInteger :: "jsval \<Rightarrow> int option" where
  "safeInteger v = (case v of
     JInt n \<Rightarrow> if \<bar>n\<bar> \<le> max_safe then Some n else None
   | _ \<Rightarrow> None)"

definition int_from :: "int \<Rightarrow> jserr \<Rightarrow> jsval \<Rightarrow> nat res" where
  "int_from lo e v = (case safeInteger v of
     Some n \<Rightarrow> if n < lo then Inl e else Inr (nat n)
   | None \<Rightarrow> Inl e)"

definition is_safe :: "nat \<Rightarrow> bool" where
  "is_safe n \<longleftrightarrow> int n \<le> max_safe"

lemma safeInteger_eq_Some [simp]: "safeInteger v = Some n \<longleftrightarrow> v = JInt n \<and> \<bar>n\<bar> \<le> max_safe"
  by (auto simp: safeInteger_def split: jsval.splits)

lemma int_from_eq_Inr [simp]:
  "int_from lo e v = Inr n \<longleftrightarrow> (\<exists>i. v = JInt i \<and> \<bar>i\<bar> \<le> max_safe \<and> lo \<le> i \<and> n = nat i)"
  by (cases "safeInteger v") (auto simp: int_from_def safeInteger_def split: jsval.splits if_splits)

lemma int_from_int [simp]: "is_safe n \<Longrightarrow> lo \<le> int n \<Longrightarrow> int_from lo e (JInt (int n)) = Inr n"
  by (simp add: is_safe_def)

lemma int_from_result: "int_from lo e v = Inr n \<Longrightarrow> 0 \<le> lo \<Longrightarrow> is_safe n \<and> lo \<le> int n"
  by (auto simp: is_safe_def)

text \<open>\<open>typeof v === "boolean"\<close>.\<close>

definition bool_or :: "jserr \<Rightarrow> jsval \<Rightarrow> bool res" where
  "bool_or e v = (case v of JBool b \<Rightarrow> Inr b | _ \<Rightarrow> Inl e)"

lemma bool_or_eq_Inr [simp]: "bool_or e v = Inr b \<longleftrightarrow> v = JBool b"
  by (auto simp: bool_or_def split: jsval.splits)

text \<open>Membership of a text in a \<open>Set\<close> of literals.\<close>

definition one_of :: "string list \<Rightarrow> jserr \<Rightarrow> string \<Rightarrow> string res" where
  "one_of S e s = (if s \<in> set S then Inr s else Inl e)"

lemma one_of_eq_Inr [simp]: "one_of S e s = Inr t \<longleftrightarrow> s \<in> set S \<and> t = s"
  by (auto simp: one_of_def)

text \<open>The same test on an unconverted value: only the literal strings themselves pass.\<close>

definition lit_of :: "string list \<Rightarrow> jserr \<Rightarrow> jsval \<Rightarrow> string res" where
  "lit_of S e v = (case v of JStr s \<Rightarrow> one_of S e s | _ \<Rightarrow> Inl e)"

lemma lit_of_eq_Inr [simp]: "lit_of S e v = Inr t \<longleftrightarrow> v = JStr t \<and> t \<in> set S"
  by (auto simp: lit_of_def split: jsval.splits)

text \<open>\<open>typeof v === "object" && v !== null && !Array.isArray(v)\<close>: the fields of a plain object.\<close>

definition object_or :: "jserr \<Rightarrow> jsval \<Rightarrow> jsfields res" where
  "object_or e v = (case v of JObj ob \<Rightarrow> Inr ob | _ \<Rightarrow> Inl e)"

lemma object_or_eq_Inr [simp]: "object_or e v = Inr ob \<longleftrightarrow> v = JObj ob"
  by (auto simp: object_or_def split: jsval.splits)

lemma object_or_JObj [simp]: "object_or e (JObj ob) = Inr ob"
  by simp

subsection \<open>Optional fields\<close>

text \<open>\<open>value === null ? null : f(value)\<close> and \<open>value == null ? null : f(value)\<close>.\<close>

definition nullable :: "(jsval \<Rightarrow> 'a res) \<Rightarrow> jsval \<Rightarrow> 'a option res" where
  "nullable f v = (if v = JNull then Inr None else bindE (f v) (\<lambda>x. Inr (Some x)))"

definition nullish :: "(jsval \<Rightarrow> 'a res) \<Rightarrow> jsval \<Rightarrow> 'a option res" where
  "nullish f v = (if v = JNull \<or> v = JUndef then Inr None else bindE (f v) (\<lambda>x. Inr (Some x)))"

definition js_opt :: "('a \<Rightarrow> jsval) \<Rightarrow> 'a option \<Rightarrow> jsval" where
  "js_opt f x = (case x of None \<Rightarrow> JNull | Some y \<Rightarrow> f y)"

lemma js_opt_simps [simp]: "js_opt f None = JNull" "js_opt f (Some y) = f y"
  by (simp_all add: js_opt_def)

lemma js_opt_not_undef [simp]: "(\<And>y. f y \<noteq> JUndef) \<Longrightarrow> js_opt f x \<noteq> JUndef"
  by (cases x) auto

lemma nullable_eq_Inr:
  "nullable f v = Inr x \<longleftrightarrow> (if v = JNull then x = None else \<exists>y. f v = Inr y \<and> x = Some y)"
  by (auto simp: nullable_def)

lemma nullish_eq_Inr:
  "nullish f v = Inr x \<longleftrightarrow> (if v = JNull \<or> v = JUndef then x = None else \<exists>y. f v = Inr y \<and> x = Some y)"
  by (auto simp: nullish_def)

lemma nullable_wf:
  "nullable f v = Inr x \<Longrightarrow> (\<And>v y. f v = Inr y \<Longrightarrow> P y) \<Longrightarrow> pred_option P x"
  by (auto simp: nullable_eq_Inr split: if_splits)

lemma nullish_wf:
  "nullish f v = Inr x \<Longrightarrow> (\<And>v y. f v = Inr y \<Longrightarrow> P y) \<Longrightarrow> pred_option P x"
  by (auto simp: nullish_eq_Inr split: if_splits)

lemma nullable_opt:
  "pred_option P x \<Longrightarrow> (\<And>y. P y \<Longrightarrow> f (g y) = Inr y) \<Longrightarrow> (\<And>y. g y \<noteq> JNull) \<Longrightarrow>
   nullable f (js_opt g x) = Inr x"
  by (cases x) (auto simp: nullable_def)

lemma nullish_opt:
  "pred_option P x \<Longrightarrow> (\<And>y. P y \<Longrightarrow> f (g y) = Inr y) \<Longrightarrow> (\<And>y. g y \<noteq> JNull \<and> g y \<noteq> JUndef) \<Longrightarrow>
   nullish f (js_opt g x) = Inr x"
  by (cases x) (auto simp: nullish_def)

lemma nullish_text [simp]:
  "pred_option is_text x \<Longrightarrow> nullish (text_or e) (js_opt JStr x) = Inr x"
  by (rule nullish_opt [where P = is_text]) auto

lemma nullish_text_wf: "nullish (text_or e) v = Inr x \<Longrightarrow> pred_option is_text x"
  by (erule nullish_wf) (rule text_or_is_text)

subsection \<open>Digests\<close>

definition hex_digit :: "char \<Rightarrow> bool" where
  "hex_digit c \<longleftrightarrow> c \<in> set ''0123456789abcdef''"

text \<open>The pattern \<open>/^[a-f0-9]{64}$/\<close> on a string.\<close>

definition is_sha256 :: "string \<Rightarrow> bool" where
  "is_sha256 s \<longleftrightarrow> length s = 64 \<and> list_all hex_digit s"

lemma hex_digit_not_ws: "hex_digit c \<Longrightarrow> \<not> js_ws c"
  by (auto simp: hex_digit_def js_ws_def)

lemma hex_digit_lower: "hex_digit c \<Longrightarrow> js_lower_char c = c"
proof -
  have "list_all (\<lambda>c. js_lower_char c = c) ''0123456789abcdef''" by code_simp
  then show "hex_digit c \<Longrightarrow> js_lower_char c = c" unfolding hex_digit_def list_all_iff by blast
qed

lemma hex_lower: "list_all hex_digit s \<Longrightarrow> js_lower s = s"
  by (simp add: js_lower_def list_all_iff hex_digit_lower map_idI)

lemma is_sha256_text: "is_sha256 s \<Longrightarrow> is_text s"
proof -
  assume s: "is_sha256 s"
  then have ne: "s \<noteq> []" by (auto simp: is_sha256_def)
  with s have "\<not> js_ws (hd s)" "\<not> js_ws (last s)"
    by (auto simp: is_sha256_def list_all_iff hex_digit_not_ws)
  with ne show ?thesis by (simp add: is_text_def js_trim_id)
qed

text \<open>
  \<open>RegExp.prototype.test\<close> of the same pattern on an arbitrary value: the argument is
  converted to a string first.  The string of a one-element array is the string of its element
  (\<open>null\<close> and \<open>undefined\<close> give the empty string); no other non-string has 64
  hexadecimal digits as its text.
\<close>

fun sha256_test :: "jsval \<Rightarrow> bool" where
  "sha256_test (JStr s) = is_sha256 s"
| "sha256_test (JArr [v]) = sha256_test v"
| "sha256_test _ = False"

subsection \<open>The contract of a value class\<close>

locale json_codec =
  fixes mk :: "jsval \<Rightarrow> 'a res"
    and wf :: "'a \<Rightarrow> bool"
    and js :: "'a \<Rightarrow> jsval"
  assumes mk_wf: "mk v = Inr x \<Longrightarrow> wf x"
    and mk_js: "wf x \<Longrightarrow> mk (js x) = Inr x"
    and js_object: "is_object (js x)"
begin

lemma js_not_null [simp]: "js x \<noteq> JNull" "js x \<noteq> JUndef"
  using js_object [of x] by auto

lemma reparse: "mk v = Inr x \<Longrightarrow> mk (js x) = Inr x"
  by (rule mk_js) (rule mk_wf)

lemma wf_iff: "wf x \<longleftrightarrow> (\<exists>v. mk v = Inr x)"
  using mk_wf mk_js by blast

lemma js_inj: "wf x \<Longrightarrow> wf y \<Longrightarrow> js x = js y \<Longrightarrow> x = y"
  by (metis mk_js sum.inject(2))

lemma nullable_mk_js: "pred_option wf x \<Longrightarrow> nullable mk (js_opt js x) = Inr x"
  by (rule nullable_opt [where P = wf]) (auto intro: mk_js)

lemma nullish_mk_js: "pred_option wf x \<Longrightarrow> nullish mk (js_opt js x) = Inr x"
  by (rule nullish_opt [where P = wf]) (auto intro: mk_js)

lemma nullable_mk_wf: "nullable mk v = Inr x \<Longrightarrow> pred_option wf x"
  by (erule nullable_wf) (rule mk_wf)

lemma nullish_mk_wf: "nullish mk v = Inr x \<Longrightarrow> pred_option wf x"
  by (erule nullish_wf) (rule mk_wf)

end

end
