(* ===== verification/Sha256.thy ===== *)
theory Sha256
  imports Js_Values "HOL-Library.Word"
begin

unbundle bit_operations_syntax

section \<open>The digest of \<^verbatim>\<open>node:crypto\<close>\<close>

text \<open>
  The flow engine names its facts, plans and actions by
  \<^verbatim>\<open>createHash("sha256").update(text).digest("hex")\<close>.  This theory defines that function of
  the standard library as FIPS 180-4 states it, on 32-bit words: UTF-8 encoding of the text,
  padding, message schedule, compression, and the lower-case hexadecimal rendering.  What the
  flow engine relies on is the shape of the result (64 hexadecimal digits); the locale
  \<open>digest\<close> names that contract and \<open>sha256_hex\<close> is its interpretation.
\<close>

type_synonym w32 = "32 word"

definition K256 :: "w32 list" where
  "K256 = [
   1116352408, 1899447441, 3049323471, 3921009573,
   961987163, 1508970993, 2453635748, 2870763221,
   3624381080, 310598401, 607225278, 1426881987,
   1925078388, 2162078206, 2614888103, 3248222580,
   3835390401, 4022224774, 264347078, 604807628,
   770255983, 1249150122, 1555081692, 1996064986,
   2554220882, 2821834349, 2952996808, 3210313671,
   3336571891, 3584528711, 113926993, 338241895,
   666307205, 773529912, 1294757372, 1396182291,
   1695183700, 1986661051, 2177026350, 2456956037,
   2730485921, 2820302411, 3259730800, 3345764771,
   3516065817, 3600352804, 4094571909, 275423344,
   430227734, 506948616, 659060556, 883997877,
   958139571, 1322822218, 1537002063, 1747873779,
   1955562222, 2024104815, 2227730452, 2361852424,
   2428436474, 2756734187, 3204031479, 3329325298]"

definition H256 :: "w32 list" where
  "H256 = [1779033703, 3144134277, 1013904242, 2773480762,
   1359893119, 2600822924, 528734635, 1541459225]"

definition rotr :: "nat \<Rightarrow> w32 \<Rightarrow> w32" where
  "rotr n x = (drop_bit n x) OR (push_bit (32 - n) x)"

definition big_sigma0 :: "w32 \<Rightarrow> w32" where
  "big_sigma0 x = rotr 2 x XOR rotr 13 x XOR rotr 22 x"
definition big_sigma1 :: "w32 \<Rightarrow> w32" where
  "big_sigma1 x = rotr 6 x XOR rotr 11 x XOR rotr 25 x"
definition small_sigma0 :: "w32 \<Rightarrow> w32" where
  "small_sigma0 x = rotr 7 x XOR rotr 18 x XOR drop_bit 3 x"
definition small_sigma1 :: "w32 \<Rightarrow> w32" where
  "small_sigma1 x = rotr 17 x XOR rotr 19 x XOR drop_bit 10 x"

subsection \<open>Padding and blocks\<close>

definition utf8_byte :: "char \<Rightarrow> nat list" where
  "utf8_byte c = (let n = (of_char c :: nat) in
     if n < 128 then [n] else [192 + n div 64, 128 + n mod 64])"

definition be_bytes :: "nat \<Rightarrow> nat \<Rightarrow> nat list" where
  "be_bytes k n = map (\<lambda>i. (n div 256 ^ (k - 1 - i)) mod 256) [0..<k]"

definition pad :: "nat list \<Rightarrow> nat list" where
  "pad bs = bs @ [128] @ replicate ((119 - length bs mod 64) mod 64) 0 @ be_bytes 8 (8 * length bs)"

definition word_of_bytes :: "nat list \<Rightarrow> w32" where
  "word_of_bytes bs = foldl (\<lambda>a b. a * 256 + of_nat b) 0 bs"

fun words_of :: "nat list \<Rightarrow> w32 list" where
  "words_of (a # b # c # d # r) = word_of_bytes [a, b, c, d] # words_of r"
| "words_of _ = []"

fun chunks16 :: "nat \<Rightarrow> 'a list \<Rightarrow> 'a list list" where
  "chunks16 0 ws = []"
| "chunks16 (Suc n) ws = take 16 ws # chunks16 n (drop 16 ws)"

subsection \<open>Message schedule and compression\<close>

text \<open>The schedule is kept as a window of the last sixteen words, oldest first.\<close>

fun schedule :: "nat \<Rightarrow> w32 list \<Rightarrow> w32 list" where
  "schedule 0 win = []"
| "schedule (Suc n) win = hd win # schedule n (tl win @
     [small_sigma1 (win ! 14) + win ! 9 + small_sigma0 (win ! 1) + win ! 0])"

fun sha_round :: "w32 list \<Rightarrow> w32 \<times> w32 \<Rightarrow> w32 list" where
  "sha_round [a, b, c, d, e, f, g, h] (k, w) =
    (let t1 = h + big_sigma1 e + ((e AND f) XOR (NOT e AND g)) + k + w;
         t2 = big_sigma0 a + ((a AND b) XOR (a AND c) XOR (b AND c))
     in [t1 + t2, a, b, c, d + t1, e, f, g])"
| "sha_round s _ = s"

definition compress :: "w32 list \<Rightarrow> w32 list \<Rightarrow> w32 list" where
  "compress hs blk = map2 (+) hs (foldl sha_round hs (zip K256 (schedule 64 blk)))"

definition sha256_words :: "nat list \<Rightarrow> w32 list" where
  "sha256_words bs = (let p = pad bs in
     foldl compress H256 (chunks16 (length p div 64) (words_of p)))"

definition nibble_char :: "nat \<Rightarrow> char" where
  "nibble_char n = ''0123456789abcdef'' ! (n mod 16)"

definition word_hex :: "w32 \<Rightarrow> string" where
  "word_hex w = map (\<lambda>i. nibble_char (unat w div 16 ^ (7 - i))) [0..<8]"

definition sha256_hex :: "string \<Rightarrow> string" where
  "sha256_hex s = concat (map word_hex (sha256_words (concat (map utf8_byte s))))"

subsection \<open>The shape of the digest\<close>

lemma nibble_char_hex: "hex_digit (nibble_char n)"
proof -
  have "n mod 16 < length ''0123456789abcdef''" by simp
  then have "''0123456789abcdef'' ! (n mod 16) \<in> set ''0123456789abcdef''" by (rule nth_mem)
  then show ?thesis by (simp add: hex_digit_def nibble_char_def)
qed

lemma length_sha_round [simp]: "length (sha_round s kw) = length s"
  by (cases "(s, kw)" rule: sha_round.cases) (auto simp: Let_def)

lemma length_rounds [simp]: "length (foldl sha_round hs xs) = length hs"
  by (induction xs arbitrary: hs) auto

lemma length_compress [simp]: "length (compress hs blk) = length hs"
  by (simp add: compress_def)

lemma length_blocks [simp]: "length (foldl compress hs bs) = length hs"
  by (induction bs arbitrary: hs) auto

lemma length_sha256_words: "length (sha256_words bs) = 8"
  by (simp add: sha256_words_def Let_def H256_def)

lemma concat_word_hex:
  "length (concat (map word_hex ws)) = 8 * length ws \<and> list_all hex_digit (concat (map word_hex ws))"
  by (induction ws) (auto simp: word_hex_def list_all_iff nibble_char_hex)

theorem sha256_hex_shape: "is_sha256 (sha256_hex s)"
  by (simp add: is_sha256_def sha256_hex_def concat_word_hex length_sha256_words)

locale digest =
  fixes dig :: "string \<Rightarrow> string"
  assumes dig_shape: "is_sha256 (dig s)"
begin

lemma dig_text [simp]: "is_text (dig s)"
  by (rule is_sha256_text) (rule dig_shape)

lemma dig_not_blank [simp]: "dig s \<noteq> []" "js_trim (dig s) \<noteq> []"
  using is_textD [OF dig_text [of s]] is_text_ne [OF dig_text [of s]] by auto

lemma dig_text_or [simp]: "text_or e (JStr (dig s)) = Inr (dig s)"
  by (rule text_or_text) (rule dig_text)

end

interpretation sha: digest sha256_hex
  by unfold_locales (rule sha256_hex_shape)

end
