(* ===== verification/Canonical_Json.thy ===== *)
theory Canonical_Json
  imports Sha256
begin

section \<open>Canonical JSON text and fingerprints\<close>

text \<open>
  Models the key-sorting serialiser \<open>stableGateJson\<close> of src/src/flow/definition.js (the same
  function is \<open>stableJson\<close> in task-review-stage-transition.js and
  \<open>stableStringify\<close> in plan-gate-repair.js), whose SHA-256 names facts, plans and actions.
  \<open>None\<close> is the value \<open>undefined\<close> that \<open>JSON.stringify(undefined)\<close> returns.
  The theorem of this theory: two plain values have the same text exactly when they differ at
  most in the order of their keys, so a fingerprint is a function of the value, and different
  values can only share a fingerprint through a collision of SHA-256 itself.
\<close>

subsection \<open>\<open>JSON.stringify\<close> on primitive values\<close>

definition hex2 :: "nat \<Rightarrow> string" where
  "hex2 n = [nibble_char (n div 16), nibble_char n]"

definition json_esc :: "char \<Rightarrow> string" where
  "json_esc c =
    (if c = CHR 0x22 then [CHR 0x5C, CHR 0x22]
     else if c = CHR 0x5C then [CHR 0x5C, CHR 0x5C]
     else if c = CHR 0x08 then [CHR 0x5C, CHR ''b'']
     else if c = CHR 0x09 then [CHR 0x5C, CHR ''t'']
     else if c = CHR 0x0A then [CHR 0x5C, CHR ''n'']
     else if c = CHR 0x0C then [CHR 0x5C, CHR ''f'']
     else if c = CHR 0x0D then [CHR 0x5C, CHR ''r'']
     else if (of_char c :: nat) < 32 then [CHR 0x5C, CHR ''u'', CHR ''0'', CHR ''0''] @ hex2 (of_char c)
     else [c])"

definition json_string :: "string \<Rightarrow> string" where
  "json_string s = CHR 0x22 # concat (map json_esc s) @ [CHR 0x22]"

definition digit_char :: "nat \<Rightarrow> char" where
  "digit_char n = ''0123456789'' ! (n mod 10)"

fun nat_text :: "nat \<Rightarrow> string" where
  "nat_text n = (if n < 10 then [digit_char n] else nat_text (n div 10) @ [digit_char (n mod 10)])"

declare nat_text.simps [simp del]

definition int_text :: "int \<Rightarrow> string" where
  "int_text n = (if n < 0 then CHR ''-'' # nat_text (nat (- n)) else nat_text (nat n))"

fun join :: "string \<Rightarrow> string list \<Rightarrow> string" where
  "join sep [] = []"
| "join sep [x] = x"
| "join sep (x # y # r) = x @ sep @ join sep (y # r)"

text \<open>\<open>Array.prototype.join\<close> renders \<open>undefined\<close> as the empty string; a template
  literal renders it as its name.\<close>

definition in_join :: "string option \<Rightarrow> string" where
  "in_join x = (case x of None \<Rightarrow> [] | Some t \<Rightarrow> t)"

definition in_template :: "string option \<Rightarrow> string" where
  "in_template x = (case x of None \<Rightarrow> ''undefined'' | Some t \<Rightarrow> t)"

lemma in_Some [simp]: "in_join (Some t) = t" "in_template (Some t) = t"
  by (simp_all add: in_join_def in_template_def)

subsection \<open>The serialiser\<close>

text \<open>\<open>JSON.stringify\<close> writes \<open>NaN\<close> and the infinities as \<open>null\<close>.\<close>

definition number_json :: "string \<Rightarrow> string" where
  "number_json t = (if t \<in> {''NaN'', ''Infinity'', ''-Infinity''} then ''null'' else t)"

fun stableGateJson :: "jsval \<Rightarrow> string option" where
  "stableGateJson (JArr vs) =
     Some (''['' @ join '','' (map (\<lambda>v. in_join (stableGateJson v)) vs) @ '']'')"
| "stableGateJson (JObj fs) =
     Some (''{'' @ join '','' (map (\<lambda>(k, t). json_string k @ '':'' @ in_template t)
        (sort_key fst (map (\<lambda>(k, v). (k, stableGateJson v)) fs))) @ ''}'')"
| "stableGateJson JUndef = None"
| "stableGateJson JNull = Some ''null''"
| "stableGateJson (JBool b) = Some (if b then ''true'' else ''false'')"
| "stableGateJson (JInt n) = Some (int_text n)"
| "stableGateJson (JNum t) = Some (number_json t)"
| "stableGateJson (JStr s) = Some (json_string s)"

text \<open>\<open>JSON.stringify\<close> itself, keys in insertion order: an \<open>undefined\<close> member is left
  out of an object and is \<open>null\<close> in an array.\<close>

fun JSON_stringify :: "jsval \<Rightarrow> string option" where
  "JSON_stringify (JArr vs) = Some (''['' @ join '','' (map (\<lambda>v. case JSON_stringify v of
     None \<Rightarrow> ''null'' | Some t \<Rightarrow> t) vs) @ '']'')"
| "JSON_stringify (JObj fs) = Some (''{'' @ join '','' (concat (map (\<lambda>(k, v). case JSON_stringify v of
     None \<Rightarrow> [] | Some t \<Rightarrow> [json_string k @ '':'' @ t]) fs)) @ ''}'')"
| "JSON_stringify JUndef = None"
| "JSON_stringify JNull = Some ''null''"
| "JSON_stringify (JBool b) = Some (if b then ''true'' else ''false'')"
| "JSON_stringify (JInt n) = Some (int_text n)"
| "JSON_stringify (JNum t) = Some (number_json t)"
| "JSON_stringify (JStr s) = Some (json_string s)"

text \<open>\<open>createHash("sha256").update(stableGateJson(value)).digest("hex")\<close>; hashing
  \<open>undefined\<close> throws.\<close>

definition fingerprint :: "jsval \<Rightarrow> string res" where
  "fingerprint v = (case stableGateJson v of
     None \<Rightarrow> Inl (TypeError ''The \"data\" argument must be of type string'')
   | Some t \<Rightarrow> Inr (sha256_hex t))"

subsection \<open>Values up to key order\<close>

fun key_norm :: "jsval \<Rightarrow> jsval" where
  "key_norm (JArr vs) = JArr (map key_norm vs)"
| "key_norm (JObj fs) = JObj (sort_key fst (map (\<lambda>(k, v). (k, key_norm v)) fs))"
| "key_norm v = v"

text \<open>Plain JSON: no \<open>undefined\<close> inside, numbers are integers.\<close>

fun json_plain :: "jsval \<Rightarrow> bool" where
  "json_plain (JArr vs) = list_all json_plain vs"
| "json_plain (JObj fs) = list_all (\<lambda>(k, v). json_plain v) fs"
| "json_plain JUndef = False"
| "json_plain (JNum t) = False"
| "json_plain v = True"

text \<open>The serialiser without sorting, as a function into text.\<close>

fun enc0 :: "jsval \<Rightarrow> string" where
  "enc0 (JArr vs) = ''['' @ join '','' (map enc0 vs) @ '']''"
| "enc0 (JObj fs) =
     ''{'' @ join '','' (map (\<lambda>(k, v). json_string k @ '':'' @ enc0 v) fs) @ ''}''"
| "enc0 JNull = ''null''"
| "enc0 (JBool b) = (if b then ''true'' else ''false'')"
| "enc0 (JInt n) = int_text n"
| "enc0 (JStr s) = json_string s"
| "enc0 JUndef = ''undefined''"
| "enc0 (JNum t) = t"

lemma map_insort_key: "map f (insort_key (\<lambda>a. g (f a)) x ys) = insort_key g (f x) (map f ys)"
  by (induction ys) auto

lemma map_sort_key: "map f (sort_key (\<lambda>a. g (f a)) xs) = sort_key g (map f xs)"
  by (induction xs) (simp_all add: map_insort_key)

lemma sort_key_map_snd:
  "sort_key fst (map (\<lambda>(k, v). (k, f v)) fs) = map (\<lambda>(k, v). (k, f v)) (sort_key fst fs)"
  using map_sort_key [of "\<lambda>(k, v). (k, f v)" fst fs] by (simp add: case_prod_unfold)

lemma stableGateJson_enc0: "json_plain v \<Longrightarrow> stableGateJson v = Some (enc0 (key_norm v))"
proof (induction v)
  case (JArr vs)
  then have "map (\<lambda>v. in_join (stableGateJson v)) vs = map (\<lambda>v. enc0 (key_norm v)) vs"
    by (simp add: list_all_iff)
  then show ?case by (simp only: stableGateJson.simps key_norm.simps enc0.simps map_map comp_def)
next
  case (JObj fs)
  have "stableGateJson v = Some (enc0 (key_norm v))" if "(k, v) \<in> set fs" for k v
    using JObj.IH [OF that] JObj.prems that by (auto simp: list_all_iff)
  then have "map (\<lambda>(k, v). (k, stableGateJson v)) fs = map (\<lambda>(k, v). (k, Some (enc0 (key_norm v)))) fs"
    by auto
  then have "sort_key fst (map (\<lambda>(k, v). (k, stableGateJson v)) fs)
      = map (\<lambda>(k, v). (k, Some (enc0 (key_norm v)))) (sort_key fst fs)"
    using sort_key_map_snd [of "\<lambda>v. Some (enc0 (key_norm v))" fs] by (simp only:)
  then have "stableGateJson (JObj fs) = Some (''{'' @ join '','' (map (\<lambda>(k, t). json_string k @ '':'' @
      in_template t) (map (\<lambda>(k, v). (k, Some (enc0 (key_norm v)))) (sort_key fst fs))) @ ''}'')"
    by (simp only: stableGateJson.simps)
  also have "\<dots> = Some (enc0 (JObj (map (\<lambda>(k, v). (k, key_norm v)) (sort_key fst fs))))"
    by (simp add: case_prod_unfold comp_def)
  finally show ?case by (simp only: key_norm.simps sort_key_map_snd)
qed auto

lemma concat_map_single: "concat (map (\<lambda>x. [f x]) xs) = map f xs"
  by (induction xs) auto

lemma JSON_stringify_enc0: "json_plain v \<Longrightarrow> JSON_stringify v = Some (enc0 v)"
proof (induction v)
  case (JArr vs)
  then have "map (\<lambda>v. case JSON_stringify v of None \<Rightarrow> ''null'' | Some t \<Rightarrow> t) vs = map enc0 vs"
    by (simp add: list_all_iff)
  then show ?case by (simp only: JSON_stringify.simps enc0.simps)
next
  case (JObj fs)
  have "JSON_stringify v = Some (enc0 v)" if "(k, v) \<in> set fs" for k v
    using JObj.IH [OF that] JObj.prems that by (auto simp: list_all_iff)
  then have "map (\<lambda>(k, v). case JSON_stringify v of None \<Rightarrow> [] | Some t \<Rightarrow> [json_string k @ '':'' @ t]) fs
      = map (\<lambda>x. [(\<lambda>(k, v). json_string k @ '':'' @ enc0 v) x]) fs"
    by auto
  then show ?case by (simp only: JSON_stringify.simps enc0.simps concat_map_single)
qed auto

subsection \<open>Unique readability\<close>

definition is_digit :: "char \<Rightarrow> bool" where
  "is_digit c \<longleftrightarrow> c \<in> set ''0123456789''"

lemma is_digit_simps [simp]:
  "\<not> is_digit CHR ''-''" "\<not> is_digit CHR '',''" "\<not> is_digit CHR '']''" "\<not> is_digit CHR ''}''"
  "\<not> is_digit CHR ''['' " "\<not> is_digit CHR ''{''" "\<not> is_digit CHR 0x22" "\<not> is_digit CHR ''n''"
  "\<not> is_digit CHR ''t''" "\<not> is_digit CHR ''f''"
  by (simp_all add: is_digit_def)

lemma digit_char_digit: "is_digit (digit_char k)"
proof -
  have "k mod 10 < length ''0123456789''" by simp
  then show ?thesis unfolding digit_char_def is_digit_def by (rule nth_mem)
qed

lemma digit_char_value: "k < 10 \<Longrightarrow> of_char (digit_char k) - 48 = k"
proof -
  have "list_all (\<lambda>k. of_char (digit_char k) - (48::nat) = k) [0..<10]" by code_simp
  then show "k < 10 \<Longrightarrow> of_char (digit_char k) - 48 = k" by (simp only: list_all_iff set_upt) simp
qed

lemma nat_text_digits: "list_all is_digit (nat_text n) \<and> nat_text n \<noteq> []"
proof (induction n rule: nat_text.induct)
  case (1 n)
  show ?case
  proof (cases "n < 10")
    case True
    then show ?thesis using digit_char_digit [of n] by (simp add: nat_text.simps [of n])
  next
    case False
    with 1 digit_char_digit [of "n mod 10"] show ?thesis
      by (simp add: nat_text.simps [of n])
  qed
qed

definition text_nat :: "string \<Rightarrow> nat" where
  "text_nat s = foldl (\<lambda>a c. a * 10 + (of_char c - 48)) 0 s"

lemma text_nat_text [simp]: "text_nat (nat_text n) = n"
proof (induction n rule: nat_text.induct)
  case (1 n)
  note d = digit_char_value
  show ?case
  proof (cases "n < 10")
    case True
    then show ?thesis using d [of n] by (simp add: nat_text.simps [of n] text_nat_def)
  next
    case False
    with 1 have "text_nat (nat_text (n div 10)) = n div 10" by simp
    with False d [of "n mod 10"] show ?thesis
      by (simp add: nat_text.simps [of n] text_nat_def)
  qed
qed

lemma nat_text_inj: "nat_text m = nat_text n \<Longrightarrow> m = n"
  by (metis text_nat_text)

definition numeric :: "char \<Rightarrow> bool" where
  "numeric c \<longleftrightarrow> c = CHR ''-'' \<or> is_digit c"

lemma int_text_numeric: "list_all numeric (int_text n) \<and> int_text n \<noteq> []"
  using nat_text_digits [of "nat n"] nat_text_digits [of "nat (- n)"]
  by (auto simp: int_text_def numeric_def list_all_iff)

lemma nat_text_no_minus: "nat_text n \<noteq> CHR ''-'' # r"
  using nat_text_digits [of n] by auto

lemma int_text_inj: "int_text m = int_text n \<Longrightarrow> m = n"
proof -
  assume e: "int_text m = int_text n"
  have sgn: "m < 0 \<longleftrightarrow> n < 0"
    using e nat_text_no_minus nat_text_no_minus [symmetric] by (auto simp: int_text_def split: if_splits)
  show ?thesis
  proof (cases "m < 0")
    case True
    with e sgn have "nat (- m) = nat (- n)" by (auto simp: int_text_def intro: nat_text_inj)
    with True sgn show ?thesis by simp
  next
    case False
    with e sgn have "nat m = nat n" by (auto simp: int_text_def intro: nat_text_inj)
    with False sgn show ?thesis by simp
  qed
qed

text \<open>What may follow a value: the end, a comma or a closing bracket.\<close>

definition delim :: "string \<Rightarrow> bool" where
  "delim s \<longleftrightarrow> (case s of [] \<Rightarrow> True | c # _ \<Rightarrow> c \<in> {CHR '','', CHR '']'', CHR ''}''})"

lemma delim_simps [simp]:
  "delim []" "delim (CHR '','' # s)" "delim (CHR '']'' # s)" "delim (CHR ''}'' # s)"
  by (simp_all add: delim_def)

lemma span_unique:
  assumes "list_all P xs" "list_all P ys" "xs @ s = ys @ t"
    and "s = [] \<or> \<not> P (hd s)" "t = [] \<or> \<not> P (hd t)"
  shows "xs = ys \<and> s = t"
proof -
  have "takeWhile P (zs @ r) = zs" if "list_all P zs" "r = [] \<or> \<not> P (hd r)" for zs r
    using that by (cases r) (auto simp: takeWhile_append list_all_iff)
  with assms have "xs = ys" by metis
  with assms(3) show ?thesis by simp
qed

lemma int_text_read:
  assumes "int_text m @ s = int_text n @ t" "delim s" "delim t"
  shows "m = n \<and> s = t"
proof -
  have "s = [] \<or> \<not> numeric (hd s)" "t = [] \<or> \<not> numeric (hd t)"
    using assms(2,3) by (auto simp: delim_def numeric_def split: list.splits)
  with assms(1) span_unique [of numeric "int_text m" "int_text n" s t] int_text_numeric
  show ?thesis by (auto dest: int_text_inj)
qed

subsubsection \<open>Escaped strings\<close>

definition esc_special :: "char list" where
  "esc_special = [CHR 0x22, CHR 0x5C] @ map char_of [0..<32::nat]"

lemma json_esc_plain: "c \<notin> set esc_special \<Longrightarrow> json_esc c = [c]"
proof -
  assume c: "c \<notin> set esc_special"
  have "\<not> (of_char c :: nat) < 32"
  proof
    assume "(of_char c :: nat) < 32"
    then have "char_of (of_char c :: nat) \<in> char_of ` {0..<32::nat}" by (intro imageI) simp
    with c show False by (simp add: esc_special_def del: upt_rec_numeral)
  qed
  with c show ?thesis by (auto simp: json_esc_def esc_special_def)
qed

lemma json_esc_special_shape:
  "list_all (\<lambda>c. case json_esc c of a # b # r \<Rightarrow> a = CHR 0x5C \<and> (b = CHR ''u'' \<longrightarrow> length r = 4)
      \<and> (b \<noteq> CHR ''u'' \<longrightarrow> r = []) | _ \<Rightarrow> False) esc_special"
  by code_simp

lemma json_esc_special_distinct: "distinct (map json_esc esc_special)"
  by code_simp

lemma json_esc_special:
  assumes "c \<in> set esc_special"
  shows "\<exists>b r. json_esc c = CHR 0x5C # b # r \<and> (b = CHR ''u'' \<longrightarrow> length r = 4) \<and> (b \<noteq> CHR ''u'' \<longrightarrow> r = [])"
  using json_esc_special_shape assms unfolding list_all_iff by (fastforce split: list.splits)

lemma json_esc_special_inj:
  "c \<in> set esc_special \<Longrightarrow> d \<in> set esc_special \<Longrightarrow> json_esc c = json_esc d \<Longrightarrow> c = d"
  using json_esc_special_distinct unfolding distinct_map inj_on_def by blast

lemma json_esc_prefix:
  assumes "json_esc c @ x = json_esc d @ y"
  shows "c = d \<and> x = y"
proof -
  have special: "CHR 0x5C \<in> set esc_special" by (simp add: esc_special_def)
  consider (plain) "c \<notin> set esc_special" "d \<notin> set esc_special"
    | (mixed) "(c \<in> set esc_special) \<noteq> (d \<in> set esc_special)"
    | (both) "c \<in> set esc_special" "d \<in> set esc_special" by blast
  then show ?thesis
  proof cases
    case plain
    with assms show ?thesis by (simp add: json_esc_plain)
  next
    case mixed
    with assms special show ?thesis
      by (auto simp: json_esc_plain dest!: json_esc_special)
  next
    case both
    from json_esc_special [OF both(1)] json_esc_special [OF both(2)] assms
    have "json_esc c = json_esc d \<and> x = y" by auto
    with json_esc_special_inj both show ?thesis by blast
  qed
qed

lemma json_esc_not_quote: "json_esc c @ x \<noteq> CHR 0x22 # y"
proof (cases "c \<in> set esc_special")
  case True
  then show ?thesis by (auto dest!: json_esc_special)
next
  case False
  then show ?thesis by (auto simp: json_esc_plain esc_special_def)
qed

lemma escaped_read:
  "concat (map json_esc s) @ CHR 0x22 # x = concat (map json_esc t) @ CHR 0x22 # y \<Longrightarrow> s = t \<and> x = y"
proof (induction s arbitrary: t)
  case Nil
  then show ?case using json_esc_not_quote [symmetric] by (cases t) auto
next
  case (Cons c s)
  show ?case
  proof (cases t)
    case Nil
    with Cons.prems show ?thesis using json_esc_not_quote by auto
  next
    case (Cons d t')
    with Cons.prems have "json_esc c @ (concat (map json_esc s) @ CHR 0x22 # x)
        = json_esc d @ (concat (map json_esc t') @ CHR 0x22 # y)" by simp
    from json_esc_prefix [OF this] Cons.IH [of t'] Cons show ?thesis by simp
  qed
qed

lemma json_string_read: "json_string s @ x = json_string t @ y \<Longrightarrow> s = t \<and> x = y"
  using escaped_read [of s x t y] by (simp add: json_string_def)

subsubsection \<open>Values\<close>

lemma join_Cons: "join sep (x # xs) = (if xs = [] then x else x @ sep @ join sep xs)"
  by (cases xs) auto

lemma int_text_first: "\<exists>c r. int_text n = c # r \<and> numeric c"
  using int_text_numeric [of n] by (cases "int_text n") auto

definition closing :: "char \<Rightarrow> bool" where
  "closing c \<longleftrightarrow> c = CHR '']'' \<or> c = CHR ''}'' \<or> c = CHR '',''"

lemma numeric_not_closing: "numeric c \<Longrightarrow> \<not> closing c"
  by (auto simp: numeric_def closing_def)

lemma enc0_first: "json_plain v \<Longrightarrow> \<exists>c r. enc0 v = c # r \<and> \<not> closing c"
  using int_text_first numeric_not_closing
  by (cases v) (fastforce simp: json_string_def closing_def)+

text \<open>Two comma-separated sequences of readable items, each closed by the same bracket.\<close>

lemma join_read:
  assumes items: "\<And>x y s t. x \<in> set xs \<Longrightarrow> Q y \<Longrightarrow> delim s \<Longrightarrow> delim t \<Longrightarrow> f x @ s = f y @ t \<Longrightarrow> x = y \<and> s = t"
    and first: "\<And>y. Q y \<or> y \<in> set xs \<Longrightarrow> \<exists>c r. f y = c # r \<and> \<not> closing c"
    and close: "closing b" "b \<noteq> CHR '',''"
    and ys: "list_all Q ys"
    and eq: "join '','' (map f xs) @ b # s = join '','' (map f ys) @ b # t"
  shows "xs = ys \<and> s = t"
  using items first ys eq
proof (induction xs arbitrary: ys)
  case Nil
  then show ?case using close
    by (cases ys) (fastforce simp: join_Cons split: if_splits)+
next
  case (Cons x xs)
  show ?case
  proof (cases ys)
    case Nil
    with Cons.prems(2) [of x] Cons.prems(4) close show ?thesis
      by (fastforce simp: join_Cons split: if_splits)
  next
    case (Cons y ys')
    let ?rest = "\<lambda>zs u. (if zs = [] then b # u else CHR '','' # join '','' (map f zs) @ b # u)"
    have delims: "delim (?rest zs u)" for zs u using close by (auto simp: closing_def)
    have "f x @ ?rest xs s = f y @ ?rest ys' t"
      using Cons.prems(4) Cons by (auto simp: join_Cons split: if_splits)
    from Cons.prems(1) [OF _ _ delims delims this] Cons.prems(3) Cons
    have xy: "x = y" and rest: "?rest xs s = ?rest ys' t" by auto
    show ?thesis
    proof (cases "xs = []")
      case True
      with rest close(2) xy Cons show ?thesis by (auto split: if_splits)
    next
      case False
      with rest close(2) have "join '','' (map f xs) @ b # s = join '','' (map f ys') @ b # t"
        by (auto split: if_splits)
      then have "xs = ys' \<and> s = t"
      proof (rule Cons.IH [rotated -1])
        show "x = y \<and> s = t" if "x \<in> set xs" "Q y" "delim s" "delim t" "f x @ s = f y @ t" for x y s t
          using Cons.prems(1) [of x y s t] that by simp
        show "\<exists>c r. f y = c # r \<and> \<not> closing c" if "Q y \<or> y \<in> set xs" for y
          using Cons.prems(2) [of y] that by auto
        show "list_all Q ys'" using Cons.prems(3) Cons by simp
      qed
      with xy Cons show ?thesis by simp
    qed
  qed
qed

text \<open>The first character tells the kind of a value.\<close>

fun json_kind :: "jsval \<Rightarrow> nat" where
  "json_kind JNull = 0"
| "json_kind (JBool b) = (if b then 1 else 2)"
| "json_kind (JStr _) = 3"
| "json_kind (JArr _) = 4"
| "json_kind (JObj _) = 5"
| "json_kind _ = 6"

definition kind_of_char :: "char \<Rightarrow> nat" where
  "kind_of_char c = (if c = CHR ''n'' then 0 else if c = CHR ''t'' then 1 else if c = CHR ''f'' then 2
     else if c = CHR 0x22 then 3 else if c = CHR ''['' then 4 else if c = CHR ''{'' then 5 else 6)"

lemma kind_of_numeric: "numeric c \<Longrightarrow> kind_of_char c = 6"
  by (auto simp: numeric_def kind_of_char_def)

lemma enc0_kind: "json_plain v \<Longrightarrow> \<exists>c r. enc0 v = c # r \<and> kind_of_char c = json_kind v"
proof (cases v)
  case (JInt n)
  obtain c r where "int_text n = c # r" "numeric c" using int_text_first by blast
  with JInt show ?thesis by (simp add: kind_of_numeric)
qed (simp_all add: json_string_def kind_of_char_def)

lemma enc0_same_kind:
  assumes "json_plain v" "json_plain w" "enc0 v @ s = enc0 w @ t"
  shows "json_kind v = json_kind w"
  using enc0_kind [OF assms(1)] enc0_kind [OF assms(2)] assms(3) by auto

lemma enc0_read:
  "json_plain v \<Longrightarrow> json_plain w \<Longrightarrow> delim s \<Longrightarrow> delim t \<Longrightarrow> enc0 v @ s = enc0 w @ t \<Longrightarrow> v = w \<and> s = t"
proof (induction v arbitrary: w s t)
  case (JArr vs)
  then obtain ws where w: "w = JArr ws"
    using enc0_same_kind [OF JArr.prems(1,2,5)] by (cases w) (auto split: if_splits)
  have "vs = ws \<and> s = t"
  proof (rule join_read [where f = enc0 and Q = json_plain and b = "CHR '']''"])
    show "x = y \<and> s' = t'" if "x \<in> set vs" "json_plain y" "delim s'" "delim t'" "enc0 x @ s' = enc0 y @ t'"
      for x y s' t'
      using JArr.IH [OF that(1) _ that(2-)] JArr.prems(1) that(1) by (simp add: list_all_iff)
    show "\<exists>c r. enc0 y = c # r \<and> \<not> closing c" if "json_plain y \<or> y \<in> set vs" for y
    proof (rule enc0_first)
      show "json_plain y" using that JArr.prems(1) by (auto simp: list_all_iff)
    qed
  qed (use JArr.prems w in \<open>auto simp: closing_def\<close>)
  with w show ?case by simp
next
  case (JObj fs)
  then obtain gs where w: "w = JObj gs"
    using enc0_same_kind [OF JObj.prems(1,2,5)] by (cases w) (auto split: if_splits)
  have "fs = gs \<and> s = t"
  proof (rule join_read [where f = "\<lambda>(k, v). json_string k @ '':'' @ enc0 v"
        and Q = "\<lambda>(k, v). json_plain v" and b = "CHR ''}''"])
    show "x = y \<and> s' = t'" if x: "x \<in> set fs" and y: "(\<lambda>(k, v). json_plain v) y" and d: "delim s'" "delim t'"
      and e: "(\<lambda>(k, v). json_string k @ '':'' @ enc0 v) x @ s' = (\<lambda>(k, v). json_string k @ '':'' @ enc0 v) y @ t'"
      for x y s' t'
    proof -
      obtain k v where kv: "x = (k, v)" by force
      obtain l u where lu: "y = (l, u)" by force
      from e kv lu have "json_string k @ ('':'' @ enc0 v @ s') = json_string l @ ('':'' @ enc0 u @ t')" by simp
      from json_string_read [OF this] have "k = l" "enc0 v @ s' = enc0 u @ t'" by auto
      moreover have "json_plain v" using JObj.prems(1) x kv by (auto simp: list_all_iff)
      ultimately show ?thesis using JObj.IH [of x v u s' t'] x y d kv lu by auto
    qed
    show "\<exists>c r. (\<lambda>(k, v). json_string k @ '':'' @ enc0 v) y = c # r \<and> \<not> closing c" for y
      by (cases y) (simp add: json_string_def closing_def)
  qed (use JObj.prems w in \<open>auto simp: closing_def\<close>)
  with w show ?case by simp
next
  case (JInt n)
  then obtain m where "w = JInt m"
    using enc0_same_kind [OF JInt.prems(1,2,5)] by (cases w) (auto split: if_splits)
  with JInt.prems show ?case using int_text_read [of n s m t] by simp
next
  case (JStr a)
  then obtain b where "w = JStr b"
    using enc0_same_kind [OF JStr.prems(1,2,5)] by (cases w) (auto split: if_splits)
  with JStr.prems show ?case using json_string_read [of a s b t] by simp
next
  case JNull
  then show ?case using enc0_same_kind [OF JNull.prems(1,2,5)] by (cases w) (auto split: if_splits)
next
  case (JBool b)
  then show ?case using enc0_same_kind [OF JBool.prems(1,2,5)] by (cases w) (auto split: if_splits)
qed auto

text \<open>\<open>JSON.stringify\<close> is injective on plain values.\<close>

lemma JSON_stringify_inj:
  "json_plain v \<Longrightarrow> json_plain w \<Longrightarrow> JSON_stringify v = JSON_stringify w \<longleftrightarrow> v = w"
  using enc0_read [of v w "[]" "[]"] by (auto simp: JSON_stringify_enc0)

lemma json_plain_key_norm: "json_plain v \<Longrightarrow> json_plain (key_norm v)"
  by (induction v) (fastforce simp: list_all_iff)+

text \<open>Claim C34.  The canonical text behind every fingerprint determines the value up to the order of keys, and depends on
  nothing else.\<close>

theorem stableGateJson_canonical:
  assumes "json_plain v" "json_plain w"
  shows "stableGateJson v = stableGateJson w \<longleftrightarrow> key_norm v = key_norm w"
proof
  assume "stableGateJson v = stableGateJson w"
  then have "enc0 (key_norm v) @ [] = enc0 (key_norm w) @ []"
    using assms by (simp add: stableGateJson_enc0)
  with enc0_read [OF json_plain_key_norm json_plain_key_norm, of v w "[]" "[]"] assms
  show "key_norm v = key_norm w" by simp
next
  assume "key_norm v = key_norm w"
  then show "stableGateJson v = stableGateJson w" using assms by (simp add: stableGateJson_enc0)
qed

theorem stableGateJson_canonical_witness:
  "stableGateJson (JObj [(''b'', JInt 1), (''a'', JStr ''x'')]) = stableGateJson (JObj [(''a'', JStr ''x''), (''b'', JInt 1)])
    \<and> key_norm (JObj [(''b'', JInt 1), (''a'', JStr ''x'')]) = key_norm (JObj [(''a'', JStr ''x''), (''b'', JInt 1)])"
proof -
  let ?v = "JObj [(''b'', JInt 1), (''a'', JStr ''x'')]" and ?w = "JObj [(''a'', JStr ''x''), (''b'', JInt 1)]"
  have k: "key_norm ?v = key_norm ?w" by code_simp
  then show ?thesis using stableGateJson_canonical [of ?v ?w] by simp
qed

lemma fingerprint_shape: "fingerprint v = Inr h \<Longrightarrow> is_sha256 h"
  by (auto simp: fingerprint_def sha256_hex_shape split: option.splits)

lemma fingerprint_total: "v \<noteq> JUndef \<Longrightarrow> fingerprint v = Inr (sha256_hex (the (stableGateJson v)))"
  by (cases v) (simp_all add: fingerprint_def)

end
