(* ===== verification/Task_Step.thy ===== *)
theory Task_Step
  imports Canonical_Json
begin

section \<open>Task step identities and the Task execution budget\<close>

text \<open>
  Models \<open>src/flow/lib/task-step-identity.js\<close> (the translation between the node id
  \<open><taskId>-<role>\<close> of the Version state and the alias \<open>task-<role>\<close> of the definition) and
  \<open>src/flow/lib/task-execution-policy.js\<close> (the two-round budget of a Task and the facts and
  decision of its overrun recovery).  A state that is a live \<open>CurrentFlowState\<close> object is
  outside the model: a state here is plain data with a \<open>tasks\<close> array.
\<close>

subsection \<open>Task step identity\<close>

definition TASK_STEP_ROLES :: "string list" where
  "TASK_STEP_ROLES = [''impl'', ''review'', ''triage'', ''repair'', ''gate'']"

record TaskStepIdentity =
  tsi_taskId :: string
  tsi_role :: string

definition requiredText :: "string \<Rightarrow> jsval \<Rightarrow> string res" where
  "requiredText field = text_or (TypeError (field @ '' must be a non-empty string''))"

definition new_TaskStepIdentity :: "jsval \<Rightarrow> jsval \<Rightarrow> TaskStepIdentity res" where
  "new_TaskStepIdentity taskId role =
     bindE (requiredText ''Task Step taskId'' taskId) (\<lambda>t.
     bindE (requiredText ''Task Step role'' role) (\<lambda>r.
     if r \<notin> set TASK_STEP_ROLES then Inl (TypeError (''unsupported Task Step role: '' @ r))
     else Inr \<lparr>tsi_taskId = t, tsi_role = r\<rparr>))"

definition tsi_nodeId :: "TaskStepIdentity \<Rightarrow> string" where
  "tsi_nodeId i = tsi_taskId i @ ''-'' @ tsi_role i"

definition tsi_definitionId :: "TaskStepIdentity \<Rightarrow> string" where
  "tsi_definitionId i = ''task-'' @ tsi_role i"

definition matchesNode :: "TaskStepIdentity \<Rightarrow> jsval \<Rightarrow> bool" where
  "matchesNode i nodeId = strict_eq nodeId (JStr (tsi_nodeId i))"

fun fromNodeId_roles :: "string list \<Rightarrow> string \<Rightarrow> TaskStepIdentity option res" where
  "fromNodeId_roles [] nodeId = Inr None"
| "fromNodeId_roles (role # roles) nodeId =
     (let suffix = ''-'' @ role in
      if \<not> ends_with nodeId suffix then fromNodeId_roles roles nodeId
      else let taskId = take (length nodeId - length suffix) nodeId in
        if taskId = [] then Inr None
        else bindE (new_TaskStepIdentity (JStr taskId) (JStr role)) (\<lambda>i. Inr (Some i)))"

definition fromNodeId :: "jsval \<Rightarrow> TaskStepIdentity option res" where
  "fromNodeId nodeId = (case nodeId of
     JStr s \<Rightarrow> fromNodeId_roles TASK_STEP_ROLES s
   | _ \<Rightarrow> Inr None)"

definition fromDefinitionId :: "jsval \<Rightarrow> jsval \<Rightarrow> TaskStepIdentity option res" where
  "fromDefinitionId taskId definitionId = (case definitionId of
     JStr d \<Rightarrow> (case find (\<lambda>candidate. d = ''task-'' @ candidate) TASK_STEP_ROLES of
         None \<Rightarrow> Inr None
       | Some role \<Rightarrow> bindE (new_TaskStepIdentity taskId (JStr role)) (\<lambda>i. Inr (Some i)))
   | _ \<Rightarrow> Inr None)"

definition fromTaskNode :: "jsval \<Rightarrow> string \<Rightarrow> TaskStepIdentity option res" where
  "fromTaskNode task nodeId = (case propq task ''steps'' of
     JArr steps \<Rightarrow>
       bindE (findE (\<lambda>step. bindE (prop_of step ''id'') (\<lambda>v. Inr (strict_eq v (JStr nodeId)))) steps) (\<lambda>hit.
       if hit = None then Inr None
       else bindE (fromNodeId (JStr nodeId)) (\<lambda>identity.
         Inr (case identity of
           None \<Rightarrow> None
         | Some i \<Rightarrow> if strict_eq (propq task ''id'') (JStr (tsi_taskId i)) then Some i else None)))
   | _ \<Rightarrow> Inr None)"

fun fromTasks :: "jsval list \<Rightarrow> string \<Rightarrow> TaskStepIdentity option res" where
  "fromTasks [] nodeId = Inr None"
| "fromTasks (task # tasks) nodeId =
     bindE (fromTaskNode task nodeId) (\<lambda>identity.
       if identity \<noteq> None then Inr identity else fromTasks tasks nodeId)"

definition fromStateNode :: "jsval \<Rightarrow> jsval \<Rightarrow> TaskStepIdentity option res" where
  "fromStateNode state nodeId = (case nodeId of
     JStr s \<Rightarrow> (case propq state ''tasks'' of JArr tasks \<Rightarrow> fromTasks tasks s | _ \<Rightarrow> Inr None)
   | _ \<Rightarrow> Inr None)"

definition nullish_or :: "jsval \<Rightarrow> jsval res \<Rightarrow> jsval res" where
  "nullish_or v w = (if v = JUndef \<or> v = JNull then w else Inr v)"

definition find_in :: "jsval \<Rightarrow> (jsval \<Rightarrow> bool res) \<Rightarrow> jsval res" where
  "find_in v f = bindE (optional_list v) (\<lambda>vs. case vs of
     None \<Rightarrow> Inr JUndef
   | Some vs \<Rightarrow> bindE (findE f vs) (\<lambda>hit. Inr (case hit of None \<Rightarrow> JUndef | Some x \<Rightarrow> x)))"

definition active_nodeId :: "jsval \<Rightarrow> jsval res" where
  "active_nodeId state =
     nullish_or (propq state ''currentNodeId'')
       (bindE (find_in (propq state ''tasks'') (\<lambda>task. bindE (prop_of task ''id'')
                 (\<lambda>v. Inr (strict_eq v (propq state ''currentTaskId''))))) (\<lambda>task.
        bindE (find_in (propq task ''steps'') (\<lambda>step. bindE (prop_of step ''status'')
                 (\<lambda>v. Inr (strict_eq v (JStr ''in_progress''))))) (\<lambda>step.
        nullish_or (propq step ''id'') (Inr JNull))))"

definition active_identity :: "jsval \<Rightarrow> TaskStepIdentity option res" where
  "active_identity state = bindE (active_nodeId state) (fromStateNode state)"

subsubsection \<open>Round trips and lookup\<close>

definition wf_TaskStepIdentity :: "TaskStepIdentity \<Rightarrow> bool" where
  "wf_TaskStepIdentity i \<longleftrightarrow> is_text (tsi_taskId i) \<and> tsi_role i \<in> set TASK_STEP_ROLES"

lemma new_TaskStepIdentity_wf:
  "new_TaskStepIdentity t r = Inr i \<Longrightarrow> wf_TaskStepIdentity i"
  by (auto simp: new_TaskStepIdentity_def requiredText_def wf_TaskStepIdentity_def split: if_splits)

lemma role_text: "r \<in> set TASK_STEP_ROLES \<Longrightarrow> is_text r"
  by (auto simp: TASK_STEP_ROLES_def is_text_def js_trim_def js_ws_def)

lemma new_TaskStepIdentity_self [simp]:
  "wf_TaskStepIdentity i \<Longrightarrow> new_TaskStepIdentity (JStr (tsi_taskId i)) (JStr (tsi_role i)) = Inr i"
  by (auto simp: new_TaskStepIdentity_def requiredText_def wf_TaskStepIdentity_def role_text)

lemma ends_with_dash:
  "ends_with (t @ ''-'' @ r) (''-'' @ q) \<Longrightarrow> r \<in> set TASK_STEP_ROLES \<Longrightarrow> q \<in> set TASK_STEP_ROLES \<Longrightarrow> r = q"
  by (auto simp: ends_with_def TASK_STEP_ROLES_def)

lemma fromNodeId_roles_self:
  assumes wf: "wf_TaskStepIdentity i"
  shows "tsi_role i \<in> set roles \<Longrightarrow> set roles \<subseteq> set TASK_STEP_ROLES \<Longrightarrow>
    fromNodeId_roles roles (tsi_nodeId i) = Inr (Some i)"
proof (induction roles)
  case (Cons q roles)
  show ?case
  proof (cases "q = tsi_role i")
    case True
    then show ?thesis using wf ends_with_append [of "tsi_taskId i" "''-'' @ tsi_role i"]
      by (auto simp: tsi_nodeId_def Let_def wf_TaskStepIdentity_def)
  next
    case False
    then have "\<not> ends_with (tsi_nodeId i) (''-'' @ q)"
      using ends_with_dash [of "tsi_taskId i" "tsi_role i" q] wf Cons.prems
      by (auto simp: tsi_nodeId_def wf_TaskStepIdentity_def)
    then show ?thesis using Cons False by (simp add: Let_def)
  qed
qed simp

lemma fromNodeId_self:
  "wf_TaskStepIdentity i \<Longrightarrow> fromNodeId (JStr (tsi_nodeId i)) = Inr (Some i)"
  by (auto simp: fromNodeId_def intro!: fromNodeId_roles_self) (auto simp: wf_TaskStepIdentity_def)

lemma fromNodeId_roles_wf: "fromNodeId_roles roles s = Inr (Some i) \<Longrightarrow> wf_TaskStepIdentity i"
  by (induction roles s rule: fromNodeId_roles.induct)
    (auto simp: Let_def split: if_splits dest: new_TaskStepIdentity_wf)

lemma fromTaskNode_Some:
  assumes "fromTaskNode task nodeId = Inr (Some i)"
  shows "fromNodeId (JStr nodeId) = Inr (Some i) \<and> propq task ''id'' = JStr (tsi_taskId i) \<and>
    (\<exists>steps step. propq task ''steps'' = JArr steps \<and> step \<in> set steps \<and> propq step ''id'' = JStr nodeId)"
  using assms
  by (auto simp: fromTaskNode_def prop_of_def split: jsval.splits if_splits option.splits dest!: findE_Some)

lemma fromTasks_Some:
  "fromTasks tasks nodeId = Inr (Some i) \<Longrightarrow> \<exists>task\<in>set tasks. fromTaskNode task nodeId = Inr (Some i)"
  by (induction tasks) (auto split: if_splits)

text \<open>A plain state is regular at a node id when no task list or step list of it holds
  \<open>undefined\<close> or \<open>null\<close>.\<close>

definition regular_task :: "jsval \<Rightarrow> bool" where
  "regular_task task = (case propq task ''steps'' of
     JArr steps \<Rightarrow> list_all (\<lambda>step. step \<noteq> JNull \<and> step \<noteq> JUndef) steps
   | _ \<Rightarrow> True)"

definition has_step :: "jsval \<Rightarrow> string \<Rightarrow> bool" where
  "has_step task nodeId = (case propq task ''steps'' of
     JArr steps \<Rightarrow> list_ex (\<lambda>step. propq step ''id'' = JStr nodeId) steps
   | _ \<Rightarrow> False)"

lemma find_ex: "find P xs = None \<longleftrightarrow> \<not> list_ex P xs"
  by (induction xs) auto

lemma fromTaskNode_regular:
  assumes "regular_task task" and "fromNodeId (JStr nodeId) = Inr (Some i)"
  shows "fromTaskNode task nodeId =
    Inr (if has_step task nodeId \<and> propq task ''id'' = JStr (tsi_taskId i) then Some i else None)"
proof (cases "\<exists>steps. propq task ''steps'' = JArr steps")
  case True
  then obtain steps where steps: "propq task ''steps'' = JArr steps" ..
  have "findE (\<lambda>step. bindE (prop_of step ''id'') (\<lambda>v. Inr (strict_eq v (JStr nodeId)))) steps
      = Inr (find (\<lambda>step. propq step ''id'' = JStr nodeId) steps)"
    using assms(1) steps by (intro findE_total) (auto simp: regular_task_def prop_of_def list_all_iff)
  with steps assms(2) show ?thesis
    by (auto simp: fromTaskNode_def has_step_def find_ex)
next
  case False
  then show ?thesis by (auto simp: fromTaskNode_def has_step_def split: jsval.splits)
qed

lemma fromTasks_regular:
  assumes "list_all regular_task tasks" and "fromNodeId (JStr nodeId) = Inr (Some i)"
  shows "fromTasks tasks nodeId =
    Inr (if list_ex (\<lambda>task. has_step task nodeId \<and> propq task ''id'' = JStr (tsi_taskId i)) tasks
         then Some i else None)"
  using assms(1) by (induction tasks) (auto simp: fromTaskNode_regular [OF _ assms(2)])

subsection \<open>Execution rounds\<close>

definition MAXIMUM_ROUNDS :: nat where
  "MAXIMUM_ROUNDS = 2"

definition tep_positive :: "string \<Rightarrow> jsval \<Rightarrow> nat res" where
  "tep_positive field = int_from 1 (Error (field @ '' must be a positive integer''))"

definition tep_text :: "string \<Rightarrow> jsval \<Rightarrow> string res" where
  "tep_text field = text_or (Error (field @ '' is required''))"

definition new_TaskExecutionRoundPolicy :: "jsval \<Rightarrow> nat res" where
  "new_TaskExecutionRoundPolicy arg = bindE (destructure arg) (\<lambda>ob.
     if fld_or ob ''maximumRounds'' (JInt 2) \<noteq> JInt (int MAXIMUM_ROUNDS)
     then Inl (Error ''Task execution maximumRounds must be 2'') else Inr MAXIMUM_ROUNDS)"

definition assertRound :: "jsval \<Rightarrow> nat res" where
  "assertRound round = bindE (tep_positive ''Task execution round'' round) (\<lambda>r.
     if r > MAXIMUM_ROUNDS then Inl (Error ''Task execution round exceeds the 2-round contract'')
     else Inr r)"

definition isFinalRound :: "jsval \<Rightarrow> bool res" where
  "isFinalRound round = bindE (assertRound round) (\<lambda>r. Inr (r = MAXIMUM_ROUNDS))"

record TaskExecutionBudget =
  teb_round :: nat
  teb_reviewAttemptSequenceAtStart :: nat
  teb_gateAttemptSequenceAtStart :: nat

definition new_TaskExecutionBudget :: "jsval \<Rightarrow> TaskExecutionBudget res" where
  "new_TaskExecutionBudget arg = bindE (destructure arg) (\<lambda>ob.
     bindE (assertRound (fld ob ''round'')) (\<lambda>r.
     bindE (int_from 0 (Error ''Task execution reviewAttemptSequenceAtStart is invalid'')
              (fld ob ''reviewAttemptSequenceAtStart'')) (\<lambda>rv.
     bindE (int_from 0 (Error ''Task execution gateAttemptSequenceAtStart is invalid'')
              (fld ob ''gateAttemptSequenceAtStart'')) (\<lambda>g.
     Inr \<lparr>teb_round = r, teb_reviewAttemptSequenceAtStart = rv, teb_gateAttemptSequenceAtStart = g\<rparr>))))"

definition teb_finalRound :: "TaskExecutionBudget \<Rightarrow> bool" where
  "teb_finalRound b \<longleftrightarrow> teb_round b = MAXIMUM_ROUNDS"

definition TaskExecutionBudget_toJSON :: "TaskExecutionBudget \<Rightarrow> jsval" where
  "TaskExecutionBudget_toJSON b = JObj
     [(''round'', JInt (int (teb_round b))),
      (''reviewAttemptSequenceAtStart'', JInt (int (teb_reviewAttemptSequenceAtStart b))),
      (''gateAttemptSequenceAtStart'', JInt (int (teb_gateAttemptSequenceAtStart b)))]"

definition wf_TaskExecutionBudget :: "TaskExecutionBudget \<Rightarrow> bool" where
  "wf_TaskExecutionBudget b \<longleftrightarrow> 1 \<le> teb_round b \<and> teb_round b \<le> MAXIMUM_ROUNDS \<and>
     is_safe (teb_reviewAttemptSequenceAtStart b) \<and> is_safe (teb_gateAttemptSequenceAtStart b)"

lemma assertRound_eq_Inr [simp]:
  "assertRound v = Inr r \<longleftrightarrow> v = JInt (int r) \<and> 1 \<le> r \<and> r \<le> MAXIMUM_ROUNDS"
  by (auto simp: assertRound_def tep_positive_def MAXIMUM_ROUNDS_def max_safe_def
      intro!: exI [of _ r] split: if_splits)

interpretation budget: json_codec new_TaskExecutionBudget wf_TaskExecutionBudget TaskExecutionBudget_toJSON
  by unfold_locales
    (auto simp: new_TaskExecutionBudget_def wf_TaskExecutionBudget_def TaskExecutionBudget_toJSON_def
      is_safe_def)

lemma isFinalRound_budget:
  "new_TaskExecutionBudget v = Inr b \<Longrightarrow> isFinalRound (JInt (int (teb_round b))) = Inr (teb_finalRound b)"
proof -
  assume "new_TaskExecutionBudget v = Inr b"
  then have "wf_TaskExecutionBudget b" by (rule budget.mk_wf)
  then have "assertRound (JInt (int (teb_round b))) = Inr (teb_round b)"
    by (simp add: wf_TaskExecutionBudget_def)
  then show ?thesis by (simp add: isFinalRound_def teb_finalRound_def)
qed

subsection \<open>Overrun facts and their recovery decision\<close>

definition digest_or :: "string \<Rightarrow> jsval \<Rightarrow> string res" where
  "digest_or field v = bindE (tep_text field v) (\<lambda>t.
     if is_sha256 (js_lower t) then Inr (js_lower t)
     else Inl (Error (field @ '' must be a SHA-256 digest'')))"

definition is_git_sha :: "string \<Rightarrow> bool" where
  "is_git_sha s \<longleftrightarrow> (length s = 40 \<or> length s = 64) \<and> list_all hex_digit s"

record TaskExecutionOverrunPublication =
  top_logicalKey :: string
  top_relativePath :: string
  top_hash :: string
  top_activityId :: string

definition new_TaskExecutionOverrunPublication :: "jsval \<Rightarrow> TaskExecutionOverrunPublication res" where
  "new_TaskExecutionOverrunPublication arg = bindE (destructure arg) (\<lambda>ob.
     bindE (tep_text ''Task execution overrun publication logicalKey'' (fld ob ''logicalKey'')) (\<lambda>k.
     bindE (tep_text ''Task execution overrun publication relativePath'' (fld ob ''relativePath'')) (\<lambda>p.
     bindE (digest_or ''Task execution overrun publication hash'' (fld ob ''hash'')) (\<lambda>h.
     bindE (tep_text ''Task execution overrun publication Activity id'' (fld ob ''activityId'')) (\<lambda>a.
     Inr \<lparr>top_logicalKey = k, top_relativePath = p, top_hash = h, top_activityId = a\<rparr>)))))"

definition TaskExecutionOverrunPublication_toJSON :: "TaskExecutionOverrunPublication \<Rightarrow> jsval" where
  "TaskExecutionOverrunPublication_toJSON p = JObj
     [(''logicalKey'', JStr (top_logicalKey p)), (''relativePath'', JStr (top_relativePath p)),
      (''hash'', JStr (top_hash p)), (''activityId'', JStr (top_activityId p))]"

record TaskExecutionOverrunWorktree =
  tow_headSha :: string
  tow_worktreeHash :: string

definition new_TaskExecutionOverrunWorktree :: "jsval \<Rightarrow> TaskExecutionOverrunWorktree res" where
  "new_TaskExecutionOverrunWorktree arg = bindE (destructure arg) (\<lambda>ob.
     bindE (tep_text ''Task execution overrun worktree HEAD'' (fld ob ''headSha'')) (\<lambda>head.
     bindE (digest_or ''Task execution overrun worktree hash'' (fld ob ''worktreeHash'')) (\<lambda>h.
     if \<not> is_git_sha (js_lower head)
     then Inl (Error ''Task execution overrun worktree HEAD must be a Git SHA'')
     else Inr \<lparr>tow_headSha = js_lower head, tow_worktreeHash = h\<rparr>)))"

definition TaskExecutionOverrunWorktree_toJSON :: "TaskExecutionOverrunWorktree \<Rightarrow> jsval" where
  "TaskExecutionOverrunWorktree_toJSON w = JObj
     [(''headSha'', JStr (tow_headSha w)), (''worktreeHash'', JStr (tow_worktreeHash w))]"

text \<open>The anonymous objects of the facts: \<open>{ id, sequence }\<close>, the Gate and the repair provenance.\<close>

record OverrunAttempt =
  oa_id :: string
  oa_sequence :: nat

definition overrun_attempt :: "string \<Rightarrow> jsval \<Rightarrow> OverrunAttempt res" where
  "overrun_attempt field v =
     bindE (tep_text (field @ '' id'') (propq v ''id'')) (\<lambda>i.
     bindE (tep_positive (field @ '' sequence'') (propq v ''sequence'')) (\<lambda>s.
     Inr \<lparr>oa_id = i, oa_sequence = s\<rparr>))"

definition overrun_attempt_js :: "OverrunAttempt \<Rightarrow> jsval" where
  "overrun_attempt_js a = JObj [(''id'', JStr (oa_id a)), (''sequence'', JInt (int (oa_sequence a)))]"

record OverrunGate =
  og_sourceStep :: string
  og_sourceArtifact :: string
  og_attempts :: nat
  og_attempt :: OverrunAttempt
  og_failure_activityId :: string
  og_failure_category :: string
  og_failure_code :: string
  og_startActivityId :: string
  og_publication :: TaskExecutionOverrunPublication

definition overrun_gate :: "jsval \<Rightarrow> OverrunGate res" where
  "overrun_gate g =
     (if \<not> truthy_object g then Inl (Error ''Task execution overrun Gate provenance is required'') else
     bindE (tep_text ''Task execution overrun Gate source Step'' (propq g ''sourceStep'')) (\<lambda>st.
     bindE (tep_text ''Task execution overrun Gate source artifact'' (propq g ''sourceArtifact'')) (\<lambda>ar.
     bindE (tep_positive ''Task execution overrun Gate attempts'' (propq g ''attempts'')) (\<lambda>n.
     bindE (overrun_attempt ''Task execution overrun Gate Attempt'' (propq g ''attempt'')) (\<lambda>at.
     let f = propq g ''failure'' in
     bindE (tep_text ''Task execution overrun Gate failure Activity id'' (propq f ''activityId'')) (\<lambda>fa.
     bindE (tep_text ''Task execution overrun Gate failure category'' (propq f ''category'')) (\<lambda>fc.
     bindE (tep_text ''Task execution overrun Gate failure code'' (propq f ''code'')) (\<lambda>fd.
     bindE (tep_text ''Task execution overrun Gate start Activity id'' (propq g ''startActivityId'')) (\<lambda>sa.
     bindE (new_TaskExecutionOverrunPublication (propq g ''publication'')) (\<lambda>p.
     Inr \<lparr>og_sourceStep = st, og_sourceArtifact = ar, og_attempts = n, og_attempt = at,
          og_failure_activityId = fa, og_failure_category = fc, og_failure_code = fd,
          og_startActivityId = sa, og_publication = p\<rparr>))))))))))"

definition overrun_gate_js :: "OverrunGate \<Rightarrow> jsval" where
  "overrun_gate_js g = JObj
     [(''sourceStep'', JStr (og_sourceStep g)), (''sourceArtifact'', JStr (og_sourceArtifact g)),
      (''attempts'', JInt (int (og_attempts g))), (''attempt'', overrun_attempt_js (og_attempt g)),
      (''failure'', JObj [(''activityId'', JStr (og_failure_activityId g)),
         (''category'', JStr (og_failure_category g)), (''code'', JStr (og_failure_code g))]),
      (''startActivityId'', JStr (og_startActivityId g)),
      (''publication'', TaskExecutionOverrunPublication_toJSON (og_publication g))]"

record OverrunRepair =
  orp_activityId :: string
  orp_attempt :: OverrunAttempt
  orp_recordId :: string
  orp_sourceIssueLogId :: string
  orp_sourceEntryDigest :: string

definition overrun_repair :: "jsval \<Rightarrow> OverrunRepair res" where
  "overrun_repair r =
     (if \<not> truthy_object r then Inl (Error ''Task execution overrun repair provenance is required'') else
     bindE (tep_text ''Task execution overrun repair Activity id'' (propq r ''activityId'')) (\<lambda>a.
     bindE (overrun_attempt ''Task execution overrun repair Attempt'' (propq r ''attempt'')) (\<lambda>at.
     bindE (tep_text ''Task execution overrun repair record id'' (propq r ''recordId'')) (\<lambda>i.
     bindE (tep_text ''Task execution overrun repair source issue-log id'' (propq r ''sourceIssueLogId'')) (\<lambda>l.
     bindE (digest_or ''Task execution overrun repair source entry digest'' (propq r ''sourceEntryDigest'')) (\<lambda>d.
     Inr \<lparr>orp_activityId = a, orp_attempt = at, orp_recordId = i, orp_sourceIssueLogId = l,
          orp_sourceEntryDigest = d\<rparr>))))))"

definition overrun_repair_js :: "OverrunRepair \<Rightarrow> jsval" where
  "overrun_repair_js r = JObj
     [(''activityId'', JStr (orp_activityId r)), (''attempt'', overrun_attempt_js (orp_attempt r)),
      (''recordId'', JStr (orp_recordId r)), (''sourceIssueLogId'', JStr (orp_sourceIssueLogId r)),
      (''sourceEntryDigest'', JStr (orp_sourceEntryDigest r))]"

record TaskExecutionOverrunFacts =
  tof_runId :: string
  tof_specId :: string
  tof_taskId :: string
  tof_attempt :: OverrunAttempt
  tof_completedRounds :: nat
  tof_snapshotRevision :: string
  tof_gate :: OverrunGate
  tof_issueLog :: TaskExecutionOverrunPublication
  tof_repair :: OverrunRepair
  tof_sourceFingerprint :: string
  tof_worktree :: TaskExecutionOverrunWorktree

definition new_TaskExecutionOverrunFacts :: "jsval \<Rightarrow> TaskExecutionOverrunFacts res" where
  "new_TaskExecutionOverrunFacts arg = bindE (destructure arg) (\<lambda>ob.
     bindE (tep_text ''Task execution overrun runId'' (fld ob ''runId'')) (\<lambda>r.
     bindE (tep_text ''Task execution overrun specId'' (fld ob ''specId'')) (\<lambda>s.
     bindE (tep_text ''Task execution overrun taskId'' (fld ob ''taskId'')) (\<lambda>t.
     if \<not> truthy_object (fld ob ''attempt'') then Inl (Error ''Task execution overrun Attempt is required'') else
     bindE (overrun_attempt ''Task execution overrun Attempt'' (fld ob ''attempt'')) (\<lambda>a.
     bindE (tep_positive ''Task execution completed rounds'' (fld ob ''completedRounds'')) (\<lambda>c.
     bindE (tep_text ''Task execution overrun snapshot revision'' (fld ob ''snapshotRevision'')) (\<lambda>v.
     bindE (overrun_gate (fld ob ''gate'')) (\<lambda>g.
     bindE (new_TaskExecutionOverrunPublication (fld ob ''issueLog'')) (\<lambda>l.
     bindE (overrun_repair (fld ob ''repair'')) (\<lambda>rp.
     bindE (digest_or ''Task execution overrun source fingerprint'' (fld ob ''sourceFingerprint'')) (\<lambda>f.
     bindE (new_TaskExecutionOverrunWorktree (fld ob ''worktree'')) (\<lambda>w.
     Inr \<lparr>tof_runId = r, tof_specId = s, tof_taskId = t, tof_attempt = a, tof_completedRounds = c,
          tof_snapshotRevision = v, tof_gate = g, tof_issueLog = l, tof_repair = rp,
          tof_sourceFingerprint = f, tof_worktree = w\<rparr>))))))))))))"

definition TaskExecutionOverrunFacts_toJSON :: "TaskExecutionOverrunFacts \<Rightarrow> jsval" where
  "TaskExecutionOverrunFacts_toJSON f = JObj
     [(''runId'', JStr (tof_runId f)), (''specId'', JStr (tof_specId f)), (''taskId'', JStr (tof_taskId f)),
      (''attempt'', overrun_attempt_js (tof_attempt f)),
      (''completedRounds'', JInt (int (tof_completedRounds f))),
      (''maximumRounds'', JInt (int MAXIMUM_ROUNDS)),
      (''snapshotRevision'', JStr (tof_snapshotRevision f)),
      (''gate'', overrun_gate_js (tof_gate f)),
      (''issueLog'', TaskExecutionOverrunPublication_toJSON (tof_issueLog f)),
      (''repair'', overrun_repair_js (tof_repair f)),
      (''sourceFingerprint'', JStr (tof_sourceFingerprint f)),
      (''worktree'', TaskExecutionOverrunWorktree_toJSON (tof_worktree f))]"

definition tof_overrun :: "TaskExecutionOverrunFacts \<Rightarrow> bool" where
  "tof_overrun f \<longleftrightarrow> tof_completedRounds f \<ge> MAXIMUM_ROUNDS"

definition tof_matches :: "TaskExecutionOverrunFacts \<Rightarrow> TaskExecutionOverrunFacts \<Rightarrow> bool" where
  "tof_matches f g \<longleftrightarrow>
     JSON_stringify (TaskExecutionOverrunFacts_toJSON f) = JSON_stringify (TaskExecutionOverrunFacts_toJSON g)"

record TaskExecutionOverrunDecision =
  tod_facts :: TaskExecutionOverrunFacts
  tod_operation :: string

definition resolveTaskExecutionOverrun ::
  "TaskExecutionOverrunFacts option \<Rightarrow> TaskExecutionOverrunDecision option" where
  "resolveTaskExecutionOverrun facts = (case facts of
     None \<Rightarrow> None
   | Some f \<Rightarrow> if tof_overrun f
       then Some \<lparr>tod_facts = f, tod_operation = ''recover-task-execution-overrun''\<rparr> else None)"

subsubsection \<open>Well-formedness and the codecs\<close>

definition wf_TaskExecutionOverrunPublication :: "TaskExecutionOverrunPublication \<Rightarrow> bool" where
  "wf_TaskExecutionOverrunPublication p \<longleftrightarrow> is_text (top_logicalKey p) \<and> is_text (top_relativePath p) \<and>
     is_sha256 (top_hash p) \<and> is_text (top_activityId p)"

definition wf_TaskExecutionOverrunWorktree :: "TaskExecutionOverrunWorktree \<Rightarrow> bool" where
  "wf_TaskExecutionOverrunWorktree w \<longleftrightarrow> is_git_sha (tow_headSha w) \<and> is_sha256 (tow_worktreeHash w)"

definition wf_OverrunAttempt :: "OverrunAttempt \<Rightarrow> bool" where
  "wf_OverrunAttempt a \<longleftrightarrow> is_text (oa_id a) \<and> 1 \<le> oa_sequence a \<and> is_safe (oa_sequence a)"

definition wf_OverrunGate :: "OverrunGate \<Rightarrow> bool" where
  "wf_OverrunGate g \<longleftrightarrow> is_text (og_sourceStep g) \<and> is_text (og_sourceArtifact g) \<and> 1 \<le> og_attempts g \<and>
     is_safe (og_attempts g) \<and> wf_OverrunAttempt (og_attempt g) \<and> is_text (og_failure_activityId g) \<and>
     is_text (og_failure_category g) \<and> is_text (og_failure_code g) \<and> is_text (og_startActivityId g) \<and>
     wf_TaskExecutionOverrunPublication (og_publication g)"

definition wf_OverrunRepair :: "OverrunRepair \<Rightarrow> bool" where
  "wf_OverrunRepair r \<longleftrightarrow> is_text (orp_activityId r) \<and> wf_OverrunAttempt (orp_attempt r) \<and>
     is_text (orp_recordId r) \<and> is_text (orp_sourceIssueLogId r) \<and> is_sha256 (orp_sourceEntryDigest r)"

definition wf_TaskExecutionOverrunFacts :: "TaskExecutionOverrunFacts \<Rightarrow> bool" where
  "wf_TaskExecutionOverrunFacts f \<longleftrightarrow> is_text (tof_runId f) \<and> is_text (tof_specId f) \<and>
     is_text (tof_taskId f) \<and> wf_OverrunAttempt (tof_attempt f) \<and> 1 \<le> tof_completedRounds f \<and>
     is_safe (tof_completedRounds f) \<and> is_text (tof_snapshotRevision f) \<and> wf_OverrunGate (tof_gate f) \<and>
     wf_TaskExecutionOverrunPublication (tof_issueLog f) \<and> wf_OverrunRepair (tof_repair f) \<and>
     is_sha256 (tof_sourceFingerprint f) \<and> wf_TaskExecutionOverrunWorktree (tof_worktree f)"

lemma tep_text_eq_Inr [simp]:
  "tep_text f v = Inr t \<longleftrightarrow> (\<exists>s. v = JStr s \<and> js_trim s = t \<and> t \<noteq> [])"
  by (simp add: tep_text_def)

lemma tep_text_text [simp]: "is_text t \<Longrightarrow> tep_text f (JStr t) = Inr t"
  by (simp add: tep_text_def)

lemma tep_positive_wf: "tep_positive f v = Inr n \<Longrightarrow> 1 \<le> n \<and> is_safe n"
  by (auto simp: tep_positive_def is_safe_def)

lemma tep_positive_int [simp]:
  "1 \<le> n \<Longrightarrow> is_safe n \<Longrightarrow> tep_positive f (JInt (int n)) = Inr n"
  by (simp add: tep_positive_def)

lemma digest_or_sha [simp]: "is_sha256 h \<Longrightarrow> digest_or f (JStr h) = Inr h"
  using is_sha256_text [of h] hex_lower [of h] by (simp add: digest_or_def is_sha256_def)

lemma digest_or_wf: "digest_or f v = Inr h \<Longrightarrow> is_sha256 h"
  by (auto simp: digest_or_def split: if_splits)

lemma is_git_sha_text: "is_git_sha h \<Longrightarrow> is_text h \<and> js_lower h = h"
proof -
  assume s: "is_git_sha h"
  then have ne: "h \<noteq> []" by (auto simp: is_git_sha_def)
  with s have "\<not> js_ws (hd h)" "\<not> js_ws (last h)"
    by (auto simp: is_git_sha_def list_all_iff hex_digit_not_ws)
  with ne s show ?thesis by (simp add: is_text_def js_trim_id is_git_sha_def hex_lower)
qed

lemma git_sha_simps [simp]:
  "is_git_sha h \<Longrightarrow> js_trim h = h" "is_git_sha h \<Longrightarrow> js_lower h = h" "\<not> is_git_sha []"
  using is_git_sha_text by (auto simp: is_git_sha_def)

lemma overrun_attempt_wf: "overrun_attempt f v = Inr a \<Longrightarrow> wf_OverrunAttempt a"
  by (auto simp: overrun_attempt_def wf_OverrunAttempt_def dest!: tep_positive_wf)

lemma overrun_attempt_js [simp]:
  "wf_OverrunAttempt a \<Longrightarrow> overrun_attempt f (overrun_attempt_js a) = Inr a"
  by (auto simp: overrun_attempt_def overrun_attempt_js_def wf_OverrunAttempt_def)

interpretation publication: json_codec new_TaskExecutionOverrunPublication
  wf_TaskExecutionOverrunPublication TaskExecutionOverrunPublication_toJSON
  by unfold_locales
    (auto simp: new_TaskExecutionOverrunPublication_def wf_TaskExecutionOverrunPublication_def
      TaskExecutionOverrunPublication_toJSON_def dest: digest_or_wf)

interpretation worktree: json_codec new_TaskExecutionOverrunWorktree
  wf_TaskExecutionOverrunWorktree TaskExecutionOverrunWorktree_toJSON
  by unfold_locales
    (auto simp: new_TaskExecutionOverrunWorktree_def wf_TaskExecutionOverrunWorktree_def
      TaskExecutionOverrunWorktree_toJSON_def dest: digest_or_wf split: if_splits)

interpretation overrun_gate: json_codec overrun_gate wf_OverrunGate overrun_gate_js
  by unfold_locales
    (auto simp: overrun_gate_def wf_OverrunGate_def overrun_gate_js_def Let_def publication.mk_js
      dest: overrun_attempt_wf tep_positive_wf publication.mk_wf split: if_splits)

interpretation overrun_repair: json_codec overrun_repair wf_OverrunRepair overrun_repair_js
  by unfold_locales
    (auto simp: overrun_repair_def wf_OverrunRepair_def overrun_repair_js_def
      dest: overrun_attempt_wf digest_or_wf split: if_splits)

lemma overrun_attempt_object [simp]: "truthy_object (overrun_attempt_js a)"
  by (simp add: overrun_attempt_js_def)

interpretation overrun: json_codec new_TaskExecutionOverrunFacts wf_TaskExecutionOverrunFacts
  TaskExecutionOverrunFacts_toJSON
proof (unfold_locales, goal_cases)
  case (1 v x)
  then show ?case
    by (auto simp: new_TaskExecutionOverrunFacts_def wf_TaskExecutionOverrunFacts_def
      dest: overrun_attempt_wf digest_or_wf tep_positive_wf publication.mk_wf worktree.mk_wf
        overrun_gate.mk_wf overrun_repair.mk_wf split: if_splits)
next
  case (2 x)
  then show ?case
    by (simp add: new_TaskExecutionOverrunFacts_def wf_TaskExecutionOverrunFacts_def
      TaskExecutionOverrunFacts_toJSON_def publication.mk_js worktree.mk_js
        overrun_gate.mk_js overrun_repair.mk_js)
qed (simp add: TaskExecutionOverrunFacts_toJSON_def)

lemma overrun_plain: "json_plain (TaskExecutionOverrunFacts_toJSON f)"
  by (simp add: TaskExecutionOverrunFacts_toJSON_def overrun_attempt_js_def overrun_gate_js_def
      overrun_repair_js_def TaskExecutionOverrunPublication_toJSON_def
      TaskExecutionOverrunWorktree_toJSON_def)

lemma tof_matches_eq:
  "wf_TaskExecutionOverrunFacts f \<Longrightarrow> wf_TaskExecutionOverrunFacts g \<Longrightarrow> tof_matches f g \<longleftrightarrow> f = g"
  by (auto simp: tof_matches_def JSON_stringify_inj [OF overrun_plain overrun_plain] dest: overrun.js_inj)

subsection \<open>Properties\<close>

lemma fromDefinitionId_self:
  "wf_TaskStepIdentity i \<Longrightarrow>
   fromDefinitionId (JStr (tsi_taskId i)) (JStr (tsi_definitionId i)) = Inr (Some i)"
proof -
  assume wf: "wf_TaskStepIdentity i"
  then have "find (\<lambda>c. tsi_definitionId i = ''task-'' @ c) TASK_STEP_ROLES = Some (tsi_role i)"
    by (auto simp: tsi_definitionId_def wf_TaskStepIdentity_def TASK_STEP_ROLES_def)
  then show ?thesis using wf by (simp add: fromDefinitionId_def)
qed

text \<open>A Task step identity is recovered both from its node id and from its definition
  alias, and its node id belongs to no other identity: the two naming schemes of a Task leaf
  translate into each other without loss.\<close>

theorem task_step_identity_roundtrip:
  assumes "new_TaskStepIdentity t r = Inr i"
  shows "fromNodeId (JStr (tsi_nodeId i)) = Inr (Some i)
    \<and> fromDefinitionId (JStr (tsi_taskId i)) (JStr (tsi_definitionId i)) = Inr (Some i)
    \<and> (\<forall>t' r' j. new_TaskStepIdentity t' r' = Inr j \<longrightarrow> tsi_nodeId j = tsi_nodeId i \<longrightarrow> j = i)"
proof -
  have i: "wf_TaskStepIdentity i" using assms by (rule new_TaskStepIdentity_wf)
  have "j = i" if "new_TaskStepIdentity t' r' = Inr j" "tsi_nodeId j = tsi_nodeId i" for t' r' j
    using fromNodeId_self [OF i] fromNodeId_self [OF new_TaskStepIdentity_wf [OF that(1)]] that(2)
    by simp
  then show ?thesis using fromNodeId_self [OF i] fromDefinitionId_self [OF i] by blast
qed

lemma sample_identity:
  "new_TaskStepIdentity (JStr ''T1'') (JStr ''gate'') = Inr \<lparr>tsi_taskId = ''T1'', tsi_role = ''gate''\<rparr>"
  by (simp add: new_TaskStepIdentity_def requiredText_def text_or_def js_trim_def js_ws_def
      TASK_STEP_ROLES_def)

theorem task_step_identity_roundtrip_witness:
  "new_TaskStepIdentity (JStr ''T1'') (JStr ''gate'') = Inr \<lparr>tsi_taskId = ''T1'', tsi_role = ''gate''\<rparr>
   \<and> fromNodeId (JStr ''T1-gate'') = Inr (Some \<lparr>tsi_taskId = ''T1'', tsi_role = ''gate''\<rparr>)"
  using task_step_identity_roundtrip [OF sample_identity, THEN conjunct1] sample_identity
  by (simp add: tsi_nodeId_def)

text \<open>Looking a node id up in a plain state finds the Task step exactly when some Task of
  the state carries that id and owns a step with that node id; neither the order of the Tasks nor
  other Tasks listing the same step change the answer.\<close>

theorem fromStateNode_exact:
  assumes "new_TaskStepIdentity t r = Inr i"
    and "propq state ''tasks'' = JArr tasks" and "list_all regular_task tasks"
  shows "fromStateNode state (JStr (tsi_nodeId i)) =
    Inr (if list_ex (\<lambda>task. has_step task (tsi_nodeId i) \<and> propq task ''id'' = JStr (tsi_taskId i)) tasks
         then Some i else None)"
  using assms fromTasks_regular [OF assms(3) fromNodeId_self [OF new_TaskStepIdentity_wf [OF assms(1)]]]
  by (simp add: fromStateNode_def)

definition sample_tasks :: "jsval list" where
  "sample_tasks =
     [JObj [(''id'', JStr ''T0''), (''steps'', JArr [JObj [(''id'', JStr ''T1-gate'')]])],
      JObj [(''id'', JStr ''T1''), (''steps'', JArr [JObj [(''id'', JStr ''T1-impl'')],
                                              JObj [(''id'', JStr ''T1-gate'')]])]]"

theorem fromStateNode_exact_witness:
  "fromStateNode (JObj [(''tasks'', JArr sample_tasks)]) (JStr ''T1-gate'')
     = Inr (Some \<lparr>tsi_taskId = ''T1'', tsi_role = ''gate''\<rparr>)"
  using fromStateNode_exact [OF sample_identity, of "JObj [(''tasks'', JArr sample_tasks)]" sample_tasks]
  by (simp add: sample_tasks_def regular_task_def has_step_def tsi_nodeId_def)

text \<open>The overrun facts of a Task survive their JSON form, two facts match exactly when
  they are the same facts, and Definition selects overrun recovery exactly when the two rounds of
  the Task contract are used up.\<close>

theorem overrun_facts_exact:
  assumes "new_TaskExecutionOverrunFacts v = Inr f" and "new_TaskExecutionOverrunFacts w = Inr g"
  shows "new_TaskExecutionOverrunFacts (TaskExecutionOverrunFacts_toJSON f) = Inr f
    \<and> (tof_matches f g \<longleftrightarrow> f = g)
    \<and> resolveTaskExecutionOverrun (Some f) = (if tof_completedRounds f < 2 then None
         else Some \<lparr>tod_facts = f, tod_operation = ''recover-task-execution-overrun''\<rparr>)"
  using assms
  by (auto simp: resolveTaskExecutionOverrun_def tof_overrun_def MAXIMUM_ROUNDS_def
      tof_matches_eq [OF overrun.mk_wf overrun.mk_wf] intro: overrun.reparse)

definition sample_sha :: string where
  "sample_sha = replicate 64 CHR ''a''"

lemma sample_sha_simps [simp]: "is_sha256 sample_sha" "is_git_sha sample_sha"
  by (simp_all add: sample_sha_def is_sha256_def is_git_sha_def list_all_iff hex_digit_def)

definition sample_overrun :: TaskExecutionOverrunFacts where
  "sample_overrun =
     (let a = \<lparr>oa_id = ''A1'', oa_sequence = 3\<rparr>;
          p = \<lparr>top_logicalKey = ''k'', top_relativePath = ''p'', top_hash = sample_sha, top_activityId = ''act''\<rparr>
      in \<lparr>tof_runId = ''r'', tof_specId = ''s'', tof_taskId = ''T1'', tof_attempt = a,
          tof_completedRounds = 2, tof_snapshotRevision = ''v1'',
          tof_gate = \<lparr>og_sourceStep = ''T1-gate'', og_sourceArtifact = ''x'', og_attempts = 1,
            og_attempt = a, og_failure_activityId = ''f'', og_failure_category = ''c'',
            og_failure_code = ''d'', og_startActivityId = ''s'', og_publication = p\<rparr>,
          tof_issueLog = p,
          tof_repair = \<lparr>orp_activityId = ''q'', orp_attempt = a, orp_recordId = ''rec'',
            orp_sourceIssueLogId = ''log'', orp_sourceEntryDigest = sample_sha\<rparr>,
          tof_sourceFingerprint = sample_sha,
          tof_worktree = \<lparr>tow_headSha = sample_sha, tow_worktreeHash = sample_sha\<rparr>\<rparr>)"

lemma sample_overrun_wf: "wf_TaskExecutionOverrunFacts sample_overrun"
  by (simp add: sample_overrun_def wf_TaskExecutionOverrunFacts_def wf_OverrunAttempt_def
      wf_OverrunGate_def wf_OverrunRepair_def wf_TaskExecutionOverrunPublication_def
      wf_TaskExecutionOverrunWorktree_def Let_def is_text_def js_trim_def js_ws_def is_safe_def max_safe_def)

theorem overrun_facts_exact_witness:
  "tof_matches sample_overrun sample_overrun \<and> resolveTaskExecutionOverrun (Some sample_overrun) \<noteq> None"
  using overrun_facts_exact [OF overrun.mk_js overrun.mk_js, OF sample_overrun_wf sample_overrun_wf]
  by (simp add: sample_overrun_def Let_def)

end
