(* ===== verification/Task_Review_Stage.thy ===== *)
theory Task_Review_Stage
  imports Task_Step
begin

section \<open>The Task-local review funnel\<close>

text \<open>
  Models \<open>src/flow/lib/task-review-stage-transition.js\<close> and \<open>resolveTaskReviewStageTransition\<close> of
  \<open>src/flow/definition.js\<close>: the facts a Task's review, triage and repair stages publish, the
  no-change continuation, the evidence of an unavailable review, and the plan Definition derives
  (which leaves are done, skipped or invalidated, which leaf runs next, whether the review budget
  is consumed).  The accounting of review results per round is \<open>TaskReviewAccounting\<close> of
  \<open>src/flow/lib/task-review-accounting.js\<close>.
\<close>

subsection \<open>Literals and validators\<close>

definition STAGES :: "string list" where
  "STAGES = [''review'', ''triage'', ''repair'']"

definition SEMANTIC_VERDICTS :: "string list" where
  "SEMANTIC_VERDICTS = [''PASS'', ''ADVISORY'', ''REJECTED'']"

definition VERDICTS :: "string list" where
  "VERDICTS = SEMANTIC_VERDICTS @ [''UNAVAILABLE'']"

definition TRIAGE_DISPOSITIONS :: "string list" where
  "TRIAGE_DISPOSITIONS = [''apply'', ''all-reject'']"

definition OPERATIONS :: "string list" where
  "OPERATIONS = [''review-to-gate'', ''review-unavailable-to-gate'', ''review-to-triage'',
     ''review-no-change-complete'', ''triage-to-repair'', ''triage-all-reject-to-gate'',
     ''triage-no-change-correction'', ''triage-no-change-to-gate'', ''triage-no-change-complete'',
     ''repair-to-review'', ''repair-unreviewed-to-gate'']"

definition trs_text :: "string \<Rightarrow> jsval \<Rightarrow> string res" where
  "trs_text field = text_or (Error (field @ '' must be a non-empty string''))"

definition trs_digest :: "string \<Rightarrow> jsval \<Rightarrow> string res" where
  "trs_digest field v = bindE (trs_text field v) (\<lambda>t.
     if is_sha256 t then Inr t else Inl (Error (field @ '' must be a SHA-256 digest'')))"

lemma trs_text_eq_Inr [simp]:
  "trs_text f v = Inr t \<longleftrightarrow> (\<exists>s. v = JStr s \<and> js_trim s = t \<and> t \<noteq> [])"
  by (simp add: trs_text_def)

lemma trs_text_text [simp]: "is_text t \<Longrightarrow> trs_text f (JStr t) = Inr t"
  by (simp add: trs_text_def)

lemma trs_digest_sha [simp]: "is_sha256 h \<Longrightarrow> trs_digest f (JStr h) = Inr h"
  using is_sha256_text [of h] by (simp add: trs_digest_def)

lemma trs_digest_wf: "trs_digest f v = Inr h \<Longrightarrow> is_sha256 h"
  by (auto simp: trs_digest_def split: if_splits)

subsection \<open>The binding of a stage\<close>

record TaskReviewStageBinding =
  trb_runId :: string
  trb_specId :: string
  trb_taskId :: string
  trb_stage :: string
  trb_attemptId :: string
  trb_attemptSequence :: nat
  trb_sourceFingerprint :: string
  trb_artifactDigest :: string
  trb_catalogFingerprint :: string

definition new_TaskReviewStageBinding :: "jsval \<Rightarrow> TaskReviewStageBinding res" where
  "new_TaskReviewStageBinding arg = bindE (destructure arg) (\<lambda>ob.
     bindE (trs_text ''Task Review stage binding runId'' (fld ob ''runId'')) (\<lambda>r.
     bindE (trs_text ''Task Review stage binding specId'' (fld ob ''specId'')) (\<lambda>s.
     bindE (trs_text ''Task Review stage binding taskId'' (fld ob ''taskId'')) (\<lambda>t.
     bindE (trs_text ''Task Review stage binding stage'' (fld ob ''stage'')) (\<lambda>st.
     if st \<notin> set STAGES then Inl (Error ''Task Review stage binding stage is invalid'') else
     bindE (trs_text ''Task Review stage binding attemptId'' (fld ob ''attemptId'')) (\<lambda>a.
     bindE (int_from 1 (Error ''Task Review stage binding attemptSequence must be a positive integer'')
              (fld ob ''attemptSequence'')) (\<lambda>n.
     bindE (trs_digest ''Task Review stage binding sourceFingerprint'' (fld ob ''sourceFingerprint'')) (\<lambda>sf.
     bindE (trs_digest ''Task Review stage binding artifactDigest'' (fld ob ''artifactDigest'')) (\<lambda>ad.
     bindE (trs_digest ''Task Review stage binding catalogFingerprint'' (fld ob ''catalogFingerprint'')) (\<lambda>cf.
     Inr \<lparr>trb_runId = r, trb_specId = s, trb_taskId = t, trb_stage = st, trb_attemptId = a,
          trb_attemptSequence = n, trb_sourceFingerprint = sf, trb_artifactDigest = ad,
          trb_catalogFingerprint = cf\<rparr>))))))))))"

definition TaskReviewStageBinding_toJSON :: "TaskReviewStageBinding \<Rightarrow> jsval" where
  "TaskReviewStageBinding_toJSON b = JObj
     [(''runId'', JStr (trb_runId b)), (''specId'', JStr (trb_specId b)), (''taskId'', JStr (trb_taskId b)),
      (''stage'', JStr (trb_stage b)), (''attemptId'', JStr (trb_attemptId b)),
      (''attemptSequence'', JInt (int (trb_attemptSequence b))),
      (''sourceFingerprint'', JStr (trb_sourceFingerprint b)),
      (''artifactDigest'', JStr (trb_artifactDigest b)),
      (''catalogFingerprint'', JStr (trb_catalogFingerprint b))]"

definition trb_sourceStepId :: "TaskReviewStageBinding \<Rightarrow> string res" where
  "trb_sourceStepId b =
     bindE (new_TaskStepIdentity (JStr (trb_taskId b)) (JStr (trb_stage b))) (\<lambda>i. Inr (tsi_nodeId i))"

definition trb_matches :: "TaskReviewStageBinding \<Rightarrow> TaskReviewStageBinding \<Rightarrow> bool" where
  "trb_matches b c \<longleftrightarrow>
     stableGateJson (TaskReviewStageBinding_toJSON b) = stableGateJson (TaskReviewStageBinding_toJSON c)"

definition wf_TaskReviewStageBinding :: "TaskReviewStageBinding \<Rightarrow> bool" where
  "wf_TaskReviewStageBinding b \<longleftrightarrow> is_text (trb_runId b) \<and> is_text (trb_specId b) \<and> is_text (trb_taskId b) \<and>
     trb_stage b \<in> set STAGES \<and> is_text (trb_attemptId b) \<and> 1 \<le> trb_attemptSequence b \<and>
     is_safe (trb_attemptSequence b) \<and> is_sha256 (trb_sourceFingerprint b) \<and>
     is_sha256 (trb_artifactDigest b) \<and> is_sha256 (trb_catalogFingerprint b)"

lemma stage_text: "s \<in> set STAGES \<Longrightarrow> is_text s"
  by (auto simp: STAGES_def is_text_def js_trim_def js_ws_def)

interpretation stage_binding: json_codec new_TaskReviewStageBinding wf_TaskReviewStageBinding
  TaskReviewStageBinding_toJSON
proof (unfold_locales, goal_cases)
  case (1 v x)
  then show ?case
    by (auto simp: new_TaskReviewStageBinding_def wf_TaskReviewStageBinding_def is_safe_def
      dest: trs_digest_wf split: if_splits)
next
  case (2 x)
  then show ?case
    by (simp add: new_TaskReviewStageBinding_def wf_TaskReviewStageBinding_def
      TaskReviewStageBinding_toJSON_def stage_text)
qed (simp add: TaskReviewStageBinding_toJSON_def)

lemma trb_sourceStepId_wf:
  "wf_TaskReviewStageBinding b \<Longrightarrow> trb_sourceStepId b = Inr (trb_taskId b @ ''-'' @ trb_stage b)"
proof -
  assume b: "wf_TaskReviewStageBinding b"
  then have "wf_TaskStepIdentity \<lparr>tsi_taskId = trb_taskId b, tsi_role = trb_stage b\<rparr>"
    by (auto simp: wf_TaskReviewStageBinding_def wf_TaskStepIdentity_def STAGES_def TASK_STEP_ROLES_def)
  from new_TaskStepIdentity_self [OF this] show ?thesis
    by (simp add: trb_sourceStepId_def tsi_nodeId_def)
qed

subsection \<open>The no-change continuation\<close>

record NoChangeTriage =
  nct_disposition :: string
  nct_artifactDigest :: string
  nct_reviewArtifactDigest :: string
  nct_sourceFingerprint :: string

record TaskNoChangeContinuationFacts =
  ncf_source_fingerprint :: string
  ncf_source_allowList :: "string list"
  ncf_source_reasons :: "string list"
  ncf_review_verdict :: string
  ncf_review_artifactDigest :: string
  ncf_review_sourceFingerprint :: string
  ncf_triage :: "NoChangeTriage option"
  ncf_acceptance_handoffId :: string
  ncf_acceptance_reviewArtifactDigest :: string
  ncf_acceptance_sourceFingerprint :: string

text \<open>\<open>Array.isArray(v) && v.every((x) => typeof x === "string")\<close>.\<close>

definition string_array :: "jsval \<Rightarrow> string list option" where
  "string_array v = (case v of
     JArr vs \<Rightarrow> those (map (\<lambda>x. case x of JStr s \<Rightarrow> Some s | _ \<Rightarrow> None) vs)
   | _ \<Rightarrow> None)"

definition no_change_source :: "jsval \<Rightarrow> (string \<times> string list \<times> string list) res" where
  "no_change_source v =
     (let e = Error ''Task no-change continuation source is invalid'' in
      bindE (object_or e v) (\<lambda>ob.
      case (string_array (fld ob ''allowList''), string_array (fld ob ''reasons'')) of
        (Some allow, Some reasons) \<Rightarrow>
          if reasons = [] \<or> (\<exists>r\<in>set reasons. js_trim r = []) then Inl e
          else bindE (trs_digest ''Task no-change source fingerprint'' (fld ob ''fingerprint'')) (\<lambda>f.
               Inr (f, allow, map js_trim reasons))
      | _ \<Rightarrow> Inl e))"

definition no_change_review :: "jsval \<Rightarrow> (string \<times> string \<times> string) res" where
  "no_change_review v =
     (let e = Error ''Task no-change continuation review is invalid'' in
      bindE (object_or e v) (\<lambda>ob.
      bindE (lit_of SEMANTIC_VERDICTS e (fld ob ''verdict'')) (\<lambda>verdict.
      if fld ob ''canonical'' \<noteq> JBool True then Inl e else
      bindE (trs_digest ''Task no-change Review artifact digest'' (fld ob ''artifactDigest'')) (\<lambda>a.
      bindE (trs_digest ''Task no-change Review source fingerprint'' (fld ob ''sourceFingerprint'')) (\<lambda>f.
      Inr (verdict, a, f))))))"

definition no_change_triage :: "jsval \<Rightarrow> NoChangeTriage res" where
  "no_change_triage v =
     (let e = Error ''Task no-change continuation triage must be an all-reject result'' in
      bindE (object_or e v) (\<lambda>ob.
      bindE (lit_of [''all-reject''] e (fld ob ''disposition'')) (\<lambda>d.
      bindE (trs_digest ''Task no-change triage artifact digest'' (fld ob ''artifactDigest'')) (\<lambda>a.
      bindE (trs_digest ''Task no-change triage Review digest'' (fld ob ''reviewArtifactDigest'')) (\<lambda>r.
      bindE (trs_digest ''Task no-change triage source fingerprint'' (fld ob ''sourceFingerprint'')) (\<lambda>f.
      Inr \<lparr>nct_disposition = d, nct_artifactDigest = a, nct_reviewArtifactDigest = r,
           nct_sourceFingerprint = f\<rparr>))))))"

definition no_change_acceptance :: "jsval \<Rightarrow> (string \<times> string \<times> string) res" where
  "no_change_acceptance v =
     bindE (object_or (Error ''Task no-change continuation Acceptance binding is invalid'') v) (\<lambda>ob.
     bindE (trs_text ''Task no-change Acceptance handoffId'' (fld ob ''handoffId'')) (\<lambda>h.
     bindE (trs_digest ''Task no-change Acceptance Review digest'' (fld ob ''reviewArtifactDigest'')) (\<lambda>r.
     bindE (trs_digest ''Task no-change Acceptance source fingerprint'' (fld ob ''sourceFingerprint'')) (\<lambda>f.
     Inr (h, r, f)))))"

definition new_TaskNoChangeContinuationFacts :: "jsval \<Rightarrow> TaskNoChangeContinuationFacts res" where
  "new_TaskNoChangeContinuationFacts arg = bindE (destructure arg) (\<lambda>ob.
     bindE (no_change_source (fld ob ''source'')) (\<lambda>(sf, sa, sr).
     bindE (no_change_review (fld ob ''review'')) (\<lambda>(rv, ra, rf).
     bindE (nullable no_change_triage (fld_or ob ''triage'' JNull)) (\<lambda>t.
     bindE (no_change_acceptance (fld ob ''acceptance'')) (\<lambda>(ah, ar, af).
     Inr \<lparr>ncf_source_fingerprint = sf, ncf_source_allowList = sa, ncf_source_reasons = sr,
          ncf_review_verdict = rv, ncf_review_artifactDigest = ra, ncf_review_sourceFingerprint = rf,
          ncf_triage = t, ncf_acceptance_handoffId = ah, ncf_acceptance_reviewArtifactDigest = ar,
          ncf_acceptance_sourceFingerprint = af\<rparr>)))))"

definition no_change_triage_js :: "NoChangeTriage \<Rightarrow> jsval" where
  "no_change_triage_js t = JObj
     [(''disposition'', JStr (nct_disposition t)), (''artifactDigest'', JStr (nct_artifactDigest t)),
      (''reviewArtifactDigest'', JStr (nct_reviewArtifactDigest t)),
      (''sourceFingerprint'', JStr (nct_sourceFingerprint t))]"

definition TaskNoChangeContinuationFacts_toJSON :: "TaskNoChangeContinuationFacts \<Rightarrow> jsval" where
  "TaskNoChangeContinuationFacts_toJSON f = JObj
     [(''source'', JObj [(''fingerprint'', JStr (ncf_source_fingerprint f)),
         (''allowList'', JArr (map JStr (ncf_source_allowList f))),
         (''reasons'', JArr (map JStr (ncf_source_reasons f)))]),
      (''review'', JObj [(''verdict'', JStr (ncf_review_verdict f)), (''canonical'', JBool True),
         (''artifactDigest'', JStr (ncf_review_artifactDigest f)),
         (''sourceFingerprint'', JStr (ncf_review_sourceFingerprint f))]),
      (''triage'', js_opt no_change_triage_js (ncf_triage f)),
      (''acceptance'', JObj [(''handoffId'', JStr (ncf_acceptance_handoffId f)),
         (''reviewArtifactDigest'', JStr (ncf_acceptance_reviewArtifactDigest f)),
         (''sourceFingerprint'', JStr (ncf_acceptance_sourceFingerprint f))])]"

record TaskNoChangeContinuationSelection =
  ncs_facts :: TaskNoChangeContinuationFacts
  ncs_decision :: string
  ncs_reason :: string
  ncs_eligible :: bool
  ncs_acceptanceHandoffId :: string

definition new_TaskNoChangeContinuationSelection ::
  "TaskNoChangeContinuationFacts \<Rightarrow> TaskNoChangeContinuationSelection" where
  "new_TaskNoChangeContinuationSelection f =
     \<lparr>ncs_facts = f, ncs_decision = ''continue'', ncs_reason = join ''; '' (ncf_source_reasons f),
      ncs_eligible = True, ncs_acceptanceHandoffId = ncf_acceptance_handoffId f\<rparr>"

definition TaskNoChangeContinuationSelection_toJSON :: "TaskNoChangeContinuationSelection \<Rightarrow> jsval" where
  "TaskNoChangeContinuationSelection_toJSON s = JObj
     [(''decision'', JStr (ncs_decision s)), (''reason'', JStr (ncs_reason s)),
      (''acceptanceHandoffId'', JStr (ncs_acceptanceHandoffId s)),
      (''facts'', TaskNoChangeContinuationFacts_toJSON (ncs_facts s))]"

definition taskNoChangeContinuationFromJSON :: "jsval \<Rightarrow> TaskNoChangeContinuationSelection res" where
  "taskNoChangeContinuationFromJSON v =
     (if propq v ''decision'' = JStr ''continue'' then
        bindE (new_TaskNoChangeContinuationFacts (propq v ''facts'')) (\<lambda>f.
        let sel = new_TaskNoChangeContinuationSelection f in
        if propq v ''reason'' \<noteq> JStr (ncs_reason sel)
           \<or> propq v ''acceptanceHandoffId'' \<noteq> JStr (ncs_acceptanceHandoffId sel)
        then Inl (Error ''Task no-change continuation decision is invalid'') else Inr sel)
      else Inl (Error ''Task no-change continuation requires a Definition selection''))"

definition selectTaskNoChangeContinuation ::
  "TaskNoChangeContinuationFacts \<Rightarrow> TaskNoChangeContinuationSelection res" where
  "selectTaskNoChangeContinuation f =
     (if length (ncf_source_allowList f) \<noteq> 0
      then Inl (Error ''Task no-change continuation requires an empty allow-list'')
      else if ncf_review_sourceFingerprint f \<noteq> ncf_source_fingerprint f
        \<or> ncf_acceptance_sourceFingerprint f \<noteq> ncf_source_fingerprint f
        \<or> ncf_acceptance_reviewArtifactDigest f \<noteq> ncf_review_artifactDigest f
      then Inl (Error ''Task no-change continuation source or Review binding does not match'')
      else if ncf_review_verdict f = ''REJECTED'' then
        (case ncf_triage f of
           None \<Rightarrow> Inl (Error ''rejected Task no-change continuation requires its bound all-reject triage'')
         | Some t \<Rightarrow>
             if nct_sourceFingerprint t \<noteq> ncf_source_fingerprint f
               \<or> nct_reviewArtifactDigest t \<noteq> ncf_review_artifactDigest f
             then Inl (Error ''rejected Task no-change continuation requires its bound all-reject triage'')
             else Inr (new_TaskNoChangeContinuationSelection f))
      else if ncf_triage f \<noteq> None
      then Inl (Error ''PASS or ADVISORY Task no-change continuation must not invent triage evidence'')
      else Inr (new_TaskNoChangeContinuationSelection f))"

subsection \<open>Evidence of an unavailable review\<close>

record TaskReviewUnavailableEvidence =
  tue_code :: string
  tue_message :: string
  tue_checkpointDigest :: string
  tue_workUnitManifestDigest :: string
  tue_specDigest :: string
  tue_contextDigest :: string
  tue_sourceFingerprint :: string
  tue_cycle_runId :: "string option"
  tue_cycle_planRewindAt :: "string option"
  tue_digest :: string

definition tue_unsignedJSON_fields :: "TaskReviewUnavailableEvidence \<Rightarrow> jsfields" where
  "tue_unsignedJSON_fields e =
     [(''code'', JStr (tue_code e)), (''message'', JStr (tue_message e)),
      (''checkpointDigest'', JStr (tue_checkpointDigest e)),
      (''workUnitManifestDigest'', JStr (tue_workUnitManifestDigest e)),
      (''specDigest'', JStr (tue_specDigest e)), (''contextDigest'', JStr (tue_contextDigest e)),
      (''sourceFingerprint'', JStr (tue_sourceFingerprint e)),
      (''reviewCycle'', JObj ((case tue_cycle_runId e of None \<Rightarrow> [] | Some r \<Rightarrow> [(''runId'', JStr r)]) @
         [(''planRewindAt'', js_opt JStr (tue_cycle_planRewindAt e))]))]"

definition review_cycle :: "jsval \<Rightarrow> (string option \<times> string option) res" where
  "review_cycle v =
     (let e = Error ''Task Review unavailable Review cycle is invalid'' in
      bindE (object_or e v) (\<lambda>ob.
      if \<not> (case fld ob ''runId'' of JUndef \<Rightarrow> True | JNull \<Rightarrow> True | JStr _ \<Rightarrow> True | _ \<Rightarrow> False)
         \<or> \<not> (case fld ob ''planRewindAt'' of JNull \<Rightarrow> True | JStr _ \<Rightarrow> True | _ \<Rightarrow> False)
      then Inl e
      else bindE (nullish (trs_text ''Task Review unavailable cycle runId'') (fld ob ''runId'')) (\<lambda>r.
        Inr (r, case fld ob ''planRewindAt'' of JStr s \<Rightarrow> Some s | _ \<Rightarrow> None))))"

definition new_TaskReviewUnavailableEvidence :: "jsval \<Rightarrow> TaskReviewUnavailableEvidence res" where
  "new_TaskReviewUnavailableEvidence arg = bindE (destructure arg) (\<lambda>ob.
     bindE (trs_text ''Task Review unavailable code'' (fld ob ''code'')) (\<lambda>c.
     bindE (trs_text ''Task Review unavailable message'' (fld ob ''message'')) (\<lambda>m.
     bindE (trs_digest ''Task Review unavailable checkpointDigest'' (fld ob ''checkpointDigest'')) (\<lambda>cd.
     bindE (trs_digest ''Task Review unavailable workUnitManifestDigest'' (fld ob ''workUnitManifestDigest'')) (\<lambda>wd.
     bindE (trs_digest ''Task Review unavailable specDigest'' (fld ob ''specDigest'')) (\<lambda>sd.
     bindE (trs_digest ''Task Review unavailable contextDigest'' (fld ob ''contextDigest'')) (\<lambda>xd.
     bindE (trs_digest ''Task Review unavailable sourceFingerprint'' (fld ob ''sourceFingerprint'')) (\<lambda>sf.
     bindE (review_cycle (fld ob ''reviewCycle'')) (\<lambda>(cr, cp).
     let e = \<lparr>tue_code = c, tue_message = m, tue_checkpointDigest = cd, tue_workUnitManifestDigest = wd,
              tue_specDigest = sd, tue_contextDigest = xd, tue_sourceFingerprint = sf,
              tue_cycle_runId = cr, tue_cycle_planRewindAt = cp, tue_digest = []\<rparr> in
     bindE (fingerprint (JObj (tue_unsignedJSON_fields e))) (\<lambda>h.
     bindE (nullable (trs_digest ''Task Review unavailable digest'') (fld_or ob ''digest'' JNull)) (\<lambda>expected.
     if expected \<noteq> None \<and> expected \<noteq> Some h
     then Inl (Error ''Task Review unavailable digest does not match its evidence'')
     else Inr (e\<lparr>tue_digest := h\<rparr>))))))))))))"

definition TaskReviewUnavailableEvidence_toJSON :: "TaskReviewUnavailableEvidence \<Rightarrow> jsval" where
  "TaskReviewUnavailableEvidence_toJSON e =
     JObj (tue_unsignedJSON_fields e @ [(''digest'', JStr (tue_digest e))])"

subsection \<open>The facts of a stage\<close>

record TaskReviewStageFacts =
  trf_binding :: TaskReviewStageBinding
  trf_taskRound :: nat
  trf_reviewResultCount :: nat
  trf_verdict :: "string option"
  trf_mustFixCount :: "nat option"
  trf_findingCount :: "nat option"
  trf_sourceNoChange :: bool
  trf_triageDisposition :: "string option"
  trf_repairChanged :: "bool option"
  trf_sameReviewBinding :: bool
  trf_noChangeContinuation :: "TaskNoChangeContinuationSelection option"
  trf_acceptanceCarryForwardReady :: bool
  trf_reason :: "string option"
  trf_unavailable :: "TaskReviewUnavailableEvidence option"

definition semantic_verdict :: "string option \<Rightarrow> bool" where
  "semantic_verdict v = (case v of None \<Rightarrow> False | Some s \<Rightarrow> s \<in> set SEMANTIC_VERDICTS)"

definition no_findings :: "nat option \<Rightarrow> bool" where
  "no_findings c = (case c of None \<Rightarrow> True | Some n \<Rightarrow> n < 1)"

definition assertStageShape :: "TaskReviewStageFacts \<Rightarrow> unit res" where
  "assertStageShape f =
     (let stage = trb_stage (trf_binding f) in
      if stage = ''review'' then
        if trf_verdict f = None \<or> trf_mustFixCount f = None \<or> trf_findingCount f = None
          \<or> trf_triageDisposition f \<noteq> None \<or> trf_repairChanged f \<noteq> None
        then Inl (Error ''Task Review facts do not match the review stage'')
        else if trf_verdict f = Some ''UNAVAILABLE'' then
          if trf_reviewResultCount f > 3 \<or> trf_mustFixCount f \<noteq> Some 0 \<or> trf_findingCount f \<noteq> Some 0
            \<or> trf_reason f = None
            \<or> (case trf_unavailable f of None \<Rightarrow> True
               | Some u \<Rightarrow> trb_artifactDigest (trf_binding f) \<noteq> tue_digest u)
          then Inl (Error ''unavailable Task Review facts require zero semantic results and bound failure evidence'')
          else Inr ()
        else if trf_reviewResultCount f < 1 \<or> trf_unavailable f \<noteq> None
          \<or> (trf_verdict f = Some ''REJECTED'') \<noteq> (case trf_mustFixCount f of None \<Rightarrow> False | Some n \<Rightarrow> n > 0)
        then Inl (Error ''Task Review REJECTED verdict must carry must-fix findings'')
        else Inr ()
      else if stage = ''triage'' then
        if \<not> semantic_verdict (trf_verdict f) \<or> no_findings (trf_findingCount f)
          \<or> trf_triageDisposition f = None \<or> trf_repairChanged f \<noteq> None \<or> \<not> trf_sameReviewBinding f
        then Inl (Error ''Task Review facts do not match the triage stage'')
        else if trf_reason f = None then Inl (Error ''Task Review triage requires a canonical reason'')
        else Inr ()
      else
        if \<not> semantic_verdict (trf_verdict f) \<or> no_findings (trf_findingCount f)
          \<or> trf_triageDisposition f \<noteq> Some ''apply'' \<or> trf_repairChanged f = None \<or> \<not> trf_sameReviewBinding f
        then Inl (Error ''Task Review facts do not match the repair stage'')
        else if trf_repairChanged f = Some False \<and> trf_reason f = None
        then Inl (Error ''Task repair no-change requires a canonical reason'')
        else Inr ())"

definition producerDigest :: "TaskReviewStageFacts \<Rightarrow> TaskNoChangeContinuationSelection \<Rightarrow> string option" where
  "producerDigest f sel =
     (if trb_stage (trf_binding f) = ''review'' then Some (ncf_review_artifactDigest (ncs_facts sel))
      else if trb_stage (trf_binding f) = ''triage'' then map_option nct_artifactDigest (ncf_triage (ncs_facts sel))
      else None)"

definition assertContinuationBinding :: "TaskReviewStageFacts \<Rightarrow> unit res" where
  "assertContinuationBinding f =
     bindE (case trf_noChangeContinuation f of
         None \<Rightarrow> Inr ()
       | Some sel \<Rightarrow>
           if \<not> trf_sourceNoChange f
             \<or> ncf_source_fingerprint (ncs_facts sel) \<noteq> trb_sourceFingerprint (trf_binding f)
           then Inl (Error ''Task no-change continuation does not bind the stage source'')
           else if producerDigest f sel \<noteq> Some (trb_artifactDigest (trf_binding f))
           then Inl (Error ''Task no-change continuation does not bind the stage artifact'')
           else Inr ()) (\<lambda>_.
     if trb_stage (trf_binding f) \<noteq> ''repair'' \<and> trf_acceptanceCarryForwardReady f
     then Inl (Error ''only Task repair may carry unreviewed Acceptance evidence'') else Inr ())"

definition finding_count :: "nat option \<Rightarrow> jsval \<Rightarrow> nat res" where
  "finding_count mustFix v =
     (let e = Error ''Task Review stage findingCount is invalid'' in
      bindE (int_from 0 e v) (\<lambda>n. if n < (case mustFix of None \<Rightarrow> 0 | Some m \<Rightarrow> m) then Inl e else Inr n))"

definition int_range :: "nat \<Rightarrow> nat \<Rightarrow> jserr \<Rightarrow> jsval \<Rightarrow> nat res" where
  "int_range lo hi e v = bindE (int_from (int lo) e v) (\<lambda>n. if n > hi then Inl e else Inr n)"

definition new_TaskReviewStageFacts :: "jsval \<Rightarrow> TaskReviewStageFacts res" where
  "new_TaskReviewStageFacts arg = bindE (destructure arg) (\<lambda>ob.
     let be = Error ''Task Review stage boolean facts are invalid'' in
     bindE (new_TaskReviewStageBinding (fld ob ''binding'')) (\<lambda>b.
     bindE (int_range 1 2 (Error ''Task Review stage round must be 1 or 2'') (fld ob ''taskRound'')) (\<lambda>round.
     bindE (int_range 0 4 (Error ''Task Review stage result count must be between 0 and 4'')
              (fld ob ''reviewResultCount'')) (\<lambda>count.
     bindE (nullable (lit_of VERDICTS (Error ''Task Review stage verdict is invalid'')) (fld_or ob ''verdict'' JNull)) (\<lambda>verdict.
     bindE (nullable (int_from 0 (Error ''Task Review stage mustFixCount is invalid'')) (fld_or ob ''mustFixCount'' JNull)) (\<lambda>mustFix.
     bindE (nullable (finding_count mustFix) (fld_or ob ''findingCount'' JNull)) (\<lambda>findings.
     bindE (bool_or be (fld_or ob ''sourceNoChange'' (JBool False))) (\<lambda>noChange.
     bindE (bool_or be (fld_or ob ''sameReviewBinding'' (JBool False))) (\<lambda>same.
     bindE (bool_or be (fld_or ob ''acceptanceCarryForwardReady'' (JBool False))) (\<lambda>carry.
     bindE (nullable (lit_of TRIAGE_DISPOSITIONS (Error ''Task Review stage triage disposition is invalid''))
              (fld_or ob ''triageDisposition'' JNull)) (\<lambda>disposition.
     bindE (nullable (bool_or (Error ''Task Review stage repairChanged is invalid'')) (fld_or ob ''repairChanged'' JNull)) (\<lambda>changed.
     bindE (nullable taskNoChangeContinuationFromJSON (fld_or ob ''noChangeContinuation'' JNull)) (\<lambda>continuation.
     bindE (nullish (trs_text ''Task Review stage reason'') (fld ob ''reason'')) (\<lambda>reason.
     bindE (nullable new_TaskReviewUnavailableEvidence (fld_or ob ''unavailable'' JNull)) (\<lambda>unavailable.
     let f = \<lparr>trf_binding = b, trf_taskRound = round, trf_reviewResultCount = count, trf_verdict = verdict,
              trf_mustFixCount = mustFix, trf_findingCount = findings, trf_sourceNoChange = noChange,
              trf_triageDisposition = disposition, trf_repairChanged = changed,
              trf_sameReviewBinding = same, trf_noChangeContinuation = continuation,
              trf_acceptanceCarryForwardReady = carry, trf_reason = reason, trf_unavailable = unavailable\<rparr> in
     bindE (assertStageShape f) (\<lambda>_.
     bindE (assertContinuationBinding f) (\<lambda>_. Inr f)))))))))))))))))"

definition TaskReviewStageFacts_toJSON :: "TaskReviewStageFacts \<Rightarrow> jsval" where
  "TaskReviewStageFacts_toJSON f = JObj
     [(''binding'', TaskReviewStageBinding_toJSON (trf_binding f)),
      (''taskRound'', JInt (int (trf_taskRound f))),
      (''reviewResultCount'', JInt (int (trf_reviewResultCount f))),
      (''verdict'', js_opt JStr (trf_verdict f)),
      (''mustFixCount'', js_opt (\<lambda>n. JInt (int n)) (trf_mustFixCount f)),
      (''findingCount'', js_opt (\<lambda>n. JInt (int n)) (trf_findingCount f)),
      (''sourceNoChange'', JBool (trf_sourceNoChange f)),
      (''triageDisposition'', js_opt JStr (trf_triageDisposition f)),
      (''repairChanged'', js_opt JBool (trf_repairChanged f)),
      (''sameReviewBinding'', JBool (trf_sameReviewBinding f)),
      (''noChangeContinuation'', js_opt TaskNoChangeContinuationSelection_toJSON (trf_noChangeContinuation f)),
      (''acceptanceCarryForwardReady'', JBool (trf_acceptanceCarryForwardReady f)),
      (''reason'', js_opt JStr (trf_reason f)),
      (''unavailable'', js_opt TaskReviewUnavailableEvidence_toJSON (trf_unavailable f))]"

subsection \<open>Effects and plans\<close>

record TaskReviewStageStepEffect =
  tse_stepId :: string
  tse_status :: string
  tse_reason :: "string option"

definition new_TaskReviewStageStepEffect :: "jsval \<Rightarrow> TaskReviewStageStepEffect res" where
  "new_TaskReviewStageStepEffect arg = bindE (destructure arg) (\<lambda>ob.
     bindE (trs_text ''Task Review stage effect stepId'' (fld ob ''stepId'')) (\<lambda>i.
     bindE (trs_text ''Task Review stage effect status'' (fld ob ''status'')) (\<lambda>s.
     if s \<notin> {''done'', ''skipped'', ''invalidated''} then Inl (Error ''Task Review stage effect status is invalid'') else
     bindE (nullish (trs_text ''Task Review stage effect reason'') (fld ob ''reason'')) (\<lambda>r.
     if (s = ''skipped'') \<noteq> (r \<noteq> None) then Inl (Error ''Task Review skipped effect requires exactly one reason'')
     else Inr \<lparr>tse_stepId = i, tse_status = s, tse_reason = r\<rparr>))))"

definition TaskReviewStageStepEffect_toJSON :: "TaskReviewStageStepEffect \<Rightarrow> jsval" where
  "TaskReviewStageStepEffect_toJSON e = JObj
     [(''stepId'', JStr (tse_stepId e)), (''status'', JStr (tse_status e)), (''reason'', js_opt JStr (tse_reason e))]"

record TaskReviewStageTransitionPlan =
  trp_facts :: TaskReviewStageFacts
  trp_operation :: string
  trp_effects :: "TaskReviewStageStepEffect list"
  trp_targetStepId :: "string option"
  trp_reviewBudgetConsumed :: nat
  trp_acceptanceUnreviewed :: bool
  trp_continuationDecision :: "string option"
  trp_terminalReason :: "string option"
  trp_identity :: string

definition review_budget :: "TaskReviewStageFacts \<Rightarrow> nat" where
  "review_budget f = (if trb_stage (trf_binding f) = ''review'' \<and> trf_verdict f \<noteq> Some ''UNAVAILABLE'' then 1 else 0)"

text \<open>The stored target keeps its white space: the constructor only checks that it is not blank.\<close>

definition nonblank :: "jserr \<Rightarrow> jsval \<Rightarrow> string res" where
  "nonblank e v = (case v of JStr s \<Rightarrow> if js_trim s = [] then Inl e else Inr s | _ \<Rightarrow> Inl e)"

definition trp_unsigned :: "TaskReviewStageTransitionPlan \<Rightarrow> jsval" where
  "trp_unsigned p = JObj
     [(''facts'', TaskReviewStageFacts_toJSON (trp_facts p)), (''operation'', JStr (trp_operation p)),
      (''effects'', JArr (map TaskReviewStageStepEffect_toJSON (trp_effects p))),
      (''targetStepId'', js_opt JStr (trp_targetStepId p)),
      (''reviewBudgetConsumed'', JInt (int (trp_reviewBudgetConsumed p))),
      (''acceptanceUnreviewed'', JBool (trp_acceptanceUnreviewed p)),
      (''terminalReason'', js_opt JStr (trp_terminalReason p)),
      (''continuationDecision'', js_opt JStr (trp_continuationDecision p))]"

definition new_TaskReviewStageTransitionPlan ::
  "TaskReviewStageFacts \<Rightarrow> jsval \<Rightarrow> TaskReviewStageStepEffect list \<Rightarrow> jsval \<Rightarrow> jsval \<Rightarrow> jsval \<Rightarrow> jsval \<Rightarrow>
   TaskReviewStageTransitionPlan res" where
  "new_TaskReviewStageTransitionPlan facts operation effects targetStepId budget unreviewed terminalReason =
     bindE (lit_of OPERATIONS (Error ''Task Review stage plan operation is invalid'') operation) (\<lambda>op.
     bindE (nullable (nonblank (Error ''Task Review stage plan targetStepId must be a non-empty string'')) targetStepId) (\<lambda>target.
     bindE (int_range 0 1 (Error ''Task Review stage review budget effect is invalid'') budget) (\<lambda>bud.
     if bud \<noteq> review_budget facts
     then Inl (Error ''only Task Review result publication consumes the Review semantic budget'') else
     bindE (bool_or (Error ''Task Review acceptance handoff must be boolean'') unreviewed) (\<lambda>unrev.
     bindE (nullish (trs_text ''Task Review stage terminal reason'') terminalReason) (\<lambda>term.
     let p = \<lparr>trp_facts = facts, trp_operation = op, trp_effects = effects, trp_targetStepId = target,
              trp_reviewBudgetConsumed = bud, trp_acceptanceUnreviewed = unrev,
              trp_continuationDecision =
                (if op \<in> {''review-no-change-complete'', ''triage-no-change-complete''} then Some ''continue'' else None),
              trp_terminalReason = term, trp_identity = []\<rparr> in
     bindE (fingerprint (trp_unsigned p)) (\<lambda>h. Inr (p\<lparr>trp_identity := h\<rparr>)))))))"

definition trp_matches :: "TaskReviewStageTransitionPlan \<Rightarrow> TaskReviewStageTransitionPlan \<Rightarrow> bool" where
  "trp_matches p q \<longleftrightarrow> trp_identity p = trp_identity q"

definition TaskReviewStageTransitionPlan_toJSON :: "TaskReviewStageTransitionPlan \<Rightarrow> jsval" where
  "TaskReviewStageTransitionPlan_toJSON p = JObj
     [(''facts'', TaskReviewStageFacts_toJSON (trp_facts p)), (''operation'', JStr (trp_operation p)),
      (''effects'', JArr (map TaskReviewStageStepEffect_toJSON (trp_effects p))),
      (''targetStepId'', js_opt JStr (trp_targetStepId p)),
      (''reviewBudgetConsumed'', JInt (int (trp_reviewBudgetConsumed p))),
      (''acceptanceUnreviewed'', JBool (trp_acceptanceUnreviewed p)),
      (''continuationDecision'', js_opt JStr (trp_continuationDecision p)),
      (''terminalReason'', js_opt JStr (trp_terminalReason p)),
      (''identity'', JStr (trp_identity p))]"

text \<open>\<open>(value.effects || [])\<close>.\<close>

definition effects_list :: "jsval \<Rightarrow> jsval list res" where
  "effects_list v = (case v of
     JArr vs \<Rightarrow> Inr vs
   | JUndef \<Rightarrow> Inr []
   | JNull \<Rightarrow> Inr []
   | JBool False \<Rightarrow> Inr []
   | JInt n \<Rightarrow> if n = 0 then Inr [] else Inl (TypeError ''map is not a function'')
   | JNum t \<Rightarrow> if t = ''NaN'' then Inr [] else Inl (TypeError ''map is not a function'')
   | JStr s \<Rightarrow> if s = [] then Inr [] else Inl (TypeError ''map is not a function'')
   | _ \<Rightarrow> Inl (TypeError ''map is not a function''))"

definition undef_or :: "jsval \<Rightarrow> jsval \<Rightarrow> jsval" where
  "undef_or v d = (if v = JUndef then d else v)"

definition taskReviewStagePlanFromJSON :: "jsval \<Rightarrow> TaskReviewStageTransitionPlan res" where
  "taskReviewStagePlanFromJSON v =
     bindE (object_or (Error ''Task Review stage plan is invalid'') v) (\<lambda>ob.
     bindE (new_TaskReviewStageFacts (fld ob ''facts'')) (\<lambda>facts.
     bindE (effects_list (fld ob ''effects'')) (\<lambda>vs.
     bindE (mapE new_TaskReviewStageStepEffect vs) (\<lambda>es.
     bindE (new_TaskReviewStageTransitionPlan facts (fld ob ''operation'') es
              (undef_or (fld ob ''targetStepId'') JNull) (undef_or (fld ob ''reviewBudgetConsumed'') (JInt 0))
              (undef_or (fld ob ''acceptanceUnreviewed'') (JBool False)) (undef_or (fld ob ''terminalReason'') JNull)) (\<lambda>p.
     if fld ob ''identity'' \<noteq> JStr (trp_identity p)
     then Inl (Error ''Task Review stage plan identity is invalid'') else Inr p)))))"

subsection \<open>Failures of the review itself\<close>

record TaskReviewFailureFacts =
  tff_taskReview :: bool
  tff_sourceIntegrityFailure :: bool
  tff_workerStopped :: bool
  tff_canonicalEvidenceAvailable :: bool
  tff_retryable :: bool
  tff_toolingRecoveryAvailable :: bool
  tff_code :: string
  tff_message :: string
  tff_classification :: "string option"
  tff_category :: string

definition failure_bool :: "jsfields \<Rightarrow> string \<Rightarrow> bool res" where
  "failure_bool ob k = bool_or (Error (''Task Review failure '' @ k @ '' must be boolean'')) (fld ob k)"

definition FAILURE_CLASSIFICATIONS :: "string list" where
  "FAILURE_CLASSIFICATIONS = [''provider_failure'', ''input_size_failure'', ''schema_failure'',
     ''subprocess_failure'', ''publication_failure'']"

definition new_TaskReviewFailureFacts :: "jsval \<Rightarrow> TaskReviewFailureFacts res" where
  "new_TaskReviewFailureFacts arg = bindE (destructure arg) (\<lambda>ob.
     bindE (failure_bool ob ''taskReview'') (\<lambda>tr.
     bindE (failure_bool ob ''sourceIntegrityFailure'') (\<lambda>si.
     bindE (failure_bool ob ''workerStopped'') (\<lambda>ws.
     bindE (failure_bool ob ''canonicalEvidenceAvailable'') (\<lambda>ce.
     bindE (failure_bool ob ''retryable'') (\<lambda>re.
     bindE (bool_or (Error ''Task Review failure toolingRecoveryAvailable must be boolean'')
              (fld_or ob ''toolingRecoveryAvailable'' (JBool False))) (\<lambda>ta.
     bindE (trs_text ''Task Review failure code'' (fld ob ''code'')) (\<lambda>c.
     bindE (trs_text ''Task Review failure message'' (fld ob ''message'')) (\<lambda>m.
     bindE (nullable (lit_of FAILURE_CLASSIFICATIONS (Error ''Task Review failure classification is invalid''))
              (fld_or ob ''classification'' JNull)) (\<lambda>k.
     Inr \<lparr>tff_taskReview = tr, tff_sourceIntegrityFailure = si, tff_workerStopped = ws,
          tff_canonicalEvidenceAvailable = ce, tff_retryable = re, tff_toolingRecoveryAvailable = ta,
          tff_code = c, tff_message = m, tff_classification = k,
          tff_category = (case k of None \<Rightarrow> ''internal'' | Some s \<Rightarrow> s)\<rparr>))))))))))"

record TaskReviewFailurePlan =
  tfp_facts :: TaskReviewFailureFacts
  tfp_disposition :: string

definition resolveTaskReviewFailure :: "TaskReviewFailureFacts \<Rightarrow> TaskReviewFailurePlan" where
  "resolveTaskReviewFailure f =
     (let safe = tff_taskReview f \<and> tff_classification f \<noteq> None
          \<and> (\<not> tff_retryable f \<or> \<not> tff_toolingRecoveryAvailable f)
          \<and> \<not> tff_sourceIntegrityFailure f \<and> tff_workerStopped f \<and> tff_canonicalEvidenceAvailable f in
      \<lparr>tfp_facts = f, tfp_disposition = (if safe then ''publish-unavailable'' else ''stop'')\<rparr>)"

definition TaskReviewFailureFacts_toJSON :: "TaskReviewFailureFacts \<Rightarrow> jsval" where
  "TaskReviewFailureFacts_toJSON f = JObj
     [(''taskReview'', JBool (tff_taskReview f)), (''sourceIntegrityFailure'', JBool (tff_sourceIntegrityFailure f)),
      (''workerStopped'', JBool (tff_workerStopped f)),
      (''canonicalEvidenceAvailable'', JBool (tff_canonicalEvidenceAvailable f)),
      (''retryable'', JBool (tff_retryable f)),
      (''toolingRecoveryAvailable'', JBool (tff_toolingRecoveryAvailable f)),
      (''code'', JStr (tff_code f)), (''message'', JStr (tff_message f)),
      (''classification'', js_opt JStr (tff_classification f)), (''category'', JStr (tff_category f))]"

subsection \<open>Meaning of a stage and the plan for it\<close>

record TaskReviewStageMeaning =
  tsm_stage :: string
  tsm_operation :: string
  tsm_resultKind :: string

definition meaning :: "string \<Rightarrow> string \<Rightarrow> string \<Rightarrow> TaskReviewStageMeaning" where
  "meaning s op k = \<lparr>tsm_stage = s, tsm_operation = op, tsm_resultKind = k\<rparr>"

definition taskReviewStageMeaningDefinitions :: "TaskReviewStageMeaning list" where
  "taskReviewStageMeaningDefinitions =
     [meaning ''review'' ''review-to-triage'' ''task-review-findings'',
      meaning ''review'' ''review-to-gate'' ''task-review-gate-required'',
      meaning ''review'' ''review-no-change-complete'' ''task-review-no-change-completed'',
      meaning ''review'' ''review-unavailable-to-gate'' ''task-review-unavailable'',
      meaning ''triage'' ''triage-to-repair'' ''task-triage-repair-required'',
      meaning ''triage'' ''triage-all-reject-to-gate'' ''task-triage-gate-required'',
      meaning ''triage'' ''triage-no-change-complete'' ''task-triage-no-change-completed'',
      meaning ''triage'' ''triage-no-change-correction'' ''task-triage-correction-required'',
      meaning ''triage'' ''triage-no-change-to-gate'' ''task-triage-unreviewed-gate'',
      meaning ''repair'' ''repair-to-review'' ''task-repair-review-required'',
      meaning ''repair'' ''repair-unreviewed-to-gate'' ''task-repair-unreviewed-gate'']"

definition continuation_eligible :: "TaskReviewStageFacts \<Rightarrow> bool" where
  "continuation_eligible f = (case trf_noChangeContinuation f of None \<Rightarrow> False | Some sel \<Rightarrow> ncs_eligible sel)"

definition taskReviewStageOperation :: "TaskReviewStageFacts \<Rightarrow> string res" where
  "taskReviewStageOperation f =
     (let stage = trb_stage (trf_binding f);
          missing = Error ''Task no-change completion requires canonical continuation evidence'' in
      if stage = ''review'' then
        if trf_verdict f = Some ''UNAVAILABLE'' then Inr ''review-unavailable-to-gate''
        else if \<not> no_findings (trf_findingCount f) then Inr ''review-to-triage''
        else if trf_sourceNoChange f then
          if \<not> continuation_eligible f then Inl missing else Inr ''review-no-change-complete''
        else Inr ''review-to-gate''
      else if stage = ''triage'' then
        if trf_triageDisposition f = Some ''all-reject'' then
          if trf_sourceNoChange f then
            if \<not> continuation_eligible f then Inl missing else Inr ''triage-no-change-complete''
          else Inr ''triage-all-reject-to-gate''
        else if trf_sourceNoChange f then
          Inr (if trf_taskRound f = 2 then ''triage-no-change-to-gate'' else ''triage-no-change-correction'')
        else Inr ''triage-to-repair''
      else if trf_repairChanged f = Some False \<and> trf_reviewResultCount f = 4 \<and> \<not> trf_acceptanceCarryForwardReady f
        then Inl (Error ''fourth Task repair no-change requires the unreviewed Acceptance handoff'')
      else if trf_reviewResultCount f < 4 then Inr ''repair-to-review''
      else if \<not> trf_acceptanceCarryForwardReady f
        then Inl (Error ''fourth Task repair requires the unreviewed Acceptance handoff'')
      else Inr ''repair-unreviewed-to-gate'')"

definition new_TaskReviewStageMeaning :: "TaskReviewStageFacts \<Rightarrow> TaskReviewStageMeaning res" where
  "new_TaskReviewStageMeaning f = bindE (taskReviewStageOperation f) (\<lambda>op.
     case find (\<lambda>d. tsm_operation d = op) taskReviewStageMeaningDefinitions of
       None \<Rightarrow> Inl (TypeError ''Cannot read properties of undefined'')
     | Some d \<Rightarrow> if tsm_stage d \<noteq> trb_stage (trf_binding f)
         then Inl (TypeError ''Task stage meaning belongs to another responsibility'') else Inr d)"

definition assertResultKind :: "TaskReviewStageMeaning \<Rightarrow> string \<Rightarrow> TaskReviewStageMeaning res" where
  "assertResultKind m kind = (if kind \<noteq> tsm_resultKind m
     then Inl (TypeError ''Task stage Result kind contradicts its canonical semantic evidence'') else Inr m)"

definition taskReviewStageOperationForResultKind :: "string \<Rightarrow> string res" where
  "taskReviewStageOperationForResultKind kind =
     (case find (\<lambda>d. tsm_resultKind d = kind) taskReviewStageMeaningDefinitions of
        None \<Rightarrow> Inl (TypeError ''Task stage Result kind has no declared semantic relation'')
      | Some d \<Rightarrow> Inr (tsm_operation d))"

definition selectTaskReviewStageMeaning :: "TaskReviewStageFacts \<Rightarrow> string res" where
  "selectTaskReviewStageMeaning f = bindE (new_TaskReviewStageMeaning f) (\<lambda>m. Inr (tsm_operation m))"

definition role_nodeId :: "string \<Rightarrow> string \<Rightarrow> string res" where
  "role_nodeId taskId role =
     bindE (new_TaskStepIdentity (JStr taskId) (JStr role)) (\<lambda>i. Inr (tsi_nodeId i))"

definition taskReviewStageEffects ::
  "string \<Rightarrow> (string \<times> string \<times> string option) list \<Rightarrow> TaskReviewStageStepEffect list res" where
  "taskReviewStageEffects taskId entries = mapE (\<lambda>(role, status, reason).
     bindE (role_nodeId taskId role) (\<lambda>node.
     new_TaskReviewStageStepEffect (JObj [(''stepId'', JStr node), (''status'', JStr status),
       (''reason'', js_opt JStr reason)]))) entries"

definition createTaskReviewStageTransitionPlan ::
  "TaskReviewStageFacts \<Rightarrow> string \<Rightarrow> (string \<times> string \<times> string option) list \<Rightarrow> string option \<Rightarrow> bool \<Rightarrow>
   TaskReviewStageTransitionPlan res" where
  "createTaskReviewStageTransitionPlan f operation entries targetRole unreviewed =
     (let taskId = trb_taskId (trf_binding f) in
      bindE (taskReviewStageEffects taskId entries) (\<lambda>es.
      bindE (case targetRole of None \<Rightarrow> Inr JNull
             | Some r \<Rightarrow> bindE (role_nodeId taskId r) (\<lambda>n. Inr (JStr n))) (\<lambda>target.
      new_TaskReviewStageTransitionPlan f (JStr operation) es target (JInt (int (review_budget f)))
        (JBool unreviewed) JNull)))"

definition continuation_reason :: "TaskReviewStageFacts \<Rightarrow> string res" where
  "continuation_reason f = (case trf_noChangeContinuation f of
     None \<Rightarrow> Inl (TypeError ''Cannot read properties of null'')
   | Some sel \<Rightarrow> Inr (ncs_reason sel))"

definition buildTaskReviewStagePlanForResult ::
  "TaskReviewStageFacts \<Rightarrow> string \<Rightarrow> TaskReviewStageTransitionPlan res" where
  "buildTaskReviewStagePlanForResult f operation =
     (let plan = createTaskReviewStageTransitionPlan f operation;
          none = Some ''Task Review has no findings.'' in
      if operation = ''review-unavailable-to-gate'' then
        plan [(''review'', ''done'', None), (''triage'', ''skipped'', trf_reason f),
              (''repair'', ''skipped'', trf_reason f)] (Some ''gate'') True
      else if operation = ''review-to-triage'' then plan [(''review'', ''done'', None)] (Some ''triage'') False
      else if operation = ''review-no-change-complete'' then
        bindE (continuation_reason f) (\<lambda>reason.
        plan [(''review'', ''done'', None), (''triage'', ''skipped'', Some reason),
              (''repair'', ''skipped'', Some reason), (''gate'', ''skipped'', Some reason)] None False)
      else if operation = ''review-to-gate'' then
        plan [(''review'', ''done'', None), (''triage'', ''skipped'', none), (''repair'', ''skipped'', none)]
          (Some ''gate'') False
      else if operation = ''triage-no-change-complete'' then
        bindE (continuation_reason f) (\<lambda>reason.
        plan [(''triage'', ''done'', None), (''repair'', ''skipped'', Some reason),
              (''gate'', ''skipped'', Some reason)] None False)
      else if operation = ''triage-all-reject-to-gate'' then
        plan [(''triage'', ''done'', None), (''repair'', ''skipped'', trf_reason f)] (Some ''gate'') False
      else if operation = ''triage-no-change-to-gate'' then
        plan [(''triage'', ''done'', None), (''repair'', ''skipped'',
                Some ''The final implementation round made no source change; selected findings are carried to Task Gate.'')]
          (Some ''gate'') True
      else if operation = ''triage-no-change-correction'' then
        plan [(''impl'', ''invalidated'', None), (''review'', ''invalidated'', None),
              (''triage'', ''invalidated'', None), (''repair'', ''invalidated'', None),
              (''gate'', ''invalidated'', None)] (Some ''impl'') False
      else if operation = ''triage-to-repair'' then plan [(''triage'', ''done'', None)] (Some ''repair'') False
      else if operation = ''repair-to-review'' then
        plan [(''review'', ''invalidated'', None), (''triage'', ''invalidated'', None),
              (''repair'', ''invalidated'', None), (''gate'', ''invalidated'', None)] (Some ''review'') False
      else if operation = ''repair-unreviewed-to-gate'' then plan [(''repair'', ''done'', None)] (Some ''gate'') True
      else Inl (TypeError ''Task stage Result selected an unsupported operation''))"

definition resolveTaskReviewStageTransition :: "TaskReviewStageFacts \<Rightarrow> TaskReviewStageTransitionPlan res" where
  "resolveTaskReviewStageTransition f =
     bindE (selectTaskReviewStageMeaning f) (buildTaskReviewStagePlanForResult f)"

subsection \<open>Well-formedness and the codecs\<close>

definition wf_NoChangeTriage :: "NoChangeTriage \<Rightarrow> bool" where
  "wf_NoChangeTriage t \<longleftrightarrow> nct_disposition t = ''all-reject'' \<and> is_sha256 (nct_artifactDigest t) \<and>
     is_sha256 (nct_reviewArtifactDigest t) \<and> is_sha256 (nct_sourceFingerprint t)"

definition wf_TaskNoChangeContinuationFacts :: "TaskNoChangeContinuationFacts \<Rightarrow> bool" where
  "wf_TaskNoChangeContinuationFacts f \<longleftrightarrow> is_sha256 (ncf_source_fingerprint f) \<and>
     ncf_source_reasons f \<noteq> [] \<and> list_all is_text (ncf_source_reasons f) \<and>
     ncf_review_verdict f \<in> set SEMANTIC_VERDICTS \<and> is_sha256 (ncf_review_artifactDigest f) \<and>
     is_sha256 (ncf_review_sourceFingerprint f) \<and> pred_option wf_NoChangeTriage (ncf_triage f) \<and>
     is_text (ncf_acceptance_handoffId f) \<and> is_sha256 (ncf_acceptance_reviewArtifactDigest f) \<and>
     is_sha256 (ncf_acceptance_sourceFingerprint f)"

definition wf_TaskNoChangeContinuationSelection :: "TaskNoChangeContinuationSelection \<Rightarrow> bool" where
  "wf_TaskNoChangeContinuationSelection s \<longleftrightarrow> wf_TaskNoChangeContinuationFacts (ncs_facts s) \<and>
     s = new_TaskNoChangeContinuationSelection (ncs_facts s)"

lemma those_strings:
  "those (map (\<lambda>x. case x of JStr s \<Rightarrow> Some s | _ \<Rightarrow> None) vs) = Some xs \<longleftrightarrow> vs = map JStr xs"
proof (induction vs arbitrary: xs)
  case (Cons v vs)
  then show ?case by (cases v; cases xs) auto
qed auto

lemma string_array_Some: "string_array v = Some xs \<longleftrightarrow> v = JArr (map JStr xs)"
  by (cases v) (auto simp: string_array_def those_strings)

lemma string_array_JArr [simp]: "string_array (JArr (map JStr xs)) = Some xs"
  by (simp add: string_array_Some)

lemma no_change_source_Inr:
  "no_change_source v = Inr (f, a, r) \<Longrightarrow> is_sha256 f \<and> r \<noteq> [] \<and> list_all is_text r"
proof -
  assume h: "no_change_source v = Inr (f, a, r)"
  then obtain ob where ob: "v = JObj ob" by (cases v) (auto simp: no_change_source_def object_or_def)
  show ?thesis using h ob
    by (cases "string_array (fld ob ''allowList'')"; cases "string_array (fld ob ''reasons'')")
      (auto simp: no_change_source_def Let_def list_all_iff split: if_splits dest: trs_digest_wf)
qed

lemma no_change_source_js:
  assumes "is_sha256 f" "r \<noteq> []" "list_all is_text r"
  shows "no_change_source (JObj [(''fingerprint'', JStr f), (''allowList'', JArr (map JStr a)),
    (''reasons'', JArr (map JStr r))]) = Inr (f, a, r)"
proof -
  have "map js_trim r = r" using assms(3) by (auto simp: list_all_iff intro!: map_idI)
  then show ?thesis using assms by (auto simp: no_change_source_def Let_def list_all_iff)
qed

interpretation no_change_triage: json_codec no_change_triage wf_NoChangeTriage no_change_triage_js
  by unfold_locales
    (auto simp: no_change_triage_def wf_NoChangeTriage_def no_change_triage_js_def Let_def dest: trs_digest_wf)

interpretation no_change: json_codec new_TaskNoChangeContinuationFacts wf_TaskNoChangeContinuationFacts
  TaskNoChangeContinuationFacts_toJSON
proof (unfold_locales, goal_cases)
  case (1 v x)
  then show ?case
    by (auto simp: new_TaskNoChangeContinuationFacts_def wf_TaskNoChangeContinuationFacts_def
      no_change_review_def no_change_acceptance_def Let_def
      dest: trs_digest_wf no_change_source_Inr no_change_triage.nullable_mk_wf split: if_splits)
next
  case (2 x)
  then show ?case
    by (auto simp: new_TaskNoChangeContinuationFacts_def wf_TaskNoChangeContinuationFacts_def
      TaskNoChangeContinuationFacts_toJSON_def no_change_source_js no_change_review_def
      no_change_acceptance_def Let_def no_change_triage.nullable_mk_js)
qed (simp add: TaskNoChangeContinuationFacts_toJSON_def)

interpretation continuation: json_codec taskNoChangeContinuationFromJSON
  wf_TaskNoChangeContinuationSelection TaskNoChangeContinuationSelection_toJSON
proof (unfold_locales, goal_cases)
  case (1 v x)
  then show ?case
    by (auto simp: taskNoChangeContinuationFromJSON_def wf_TaskNoChangeContinuationSelection_def Let_def
      new_TaskNoChangeContinuationSelection_def dest: no_change.mk_wf split: if_splits)
next
  case (2 x)
  then have "new_TaskNoChangeContinuationFacts (TaskNoChangeContinuationFacts_toJSON (ncs_facts x)) = Inr (ncs_facts x)"
    and x: "x = new_TaskNoChangeContinuationSelection (ncs_facts x)"
    by (auto simp: wf_TaskNoChangeContinuationSelection_def no_change.mk_js)
  moreover have "ncs_decision x = ''continue''"
    by (subst x) (simp add: new_TaskNoChangeContinuationSelection_def)
  ultimately show ?case
    by (simp add: taskNoChangeContinuationFromJSON_def TaskNoChangeContinuationSelection_toJSON_def Let_def
        flip: x)
qed (simp add: TaskNoChangeContinuationSelection_toJSON_def)

definition wf_TaskReviewUnavailableEvidence :: "TaskReviewUnavailableEvidence \<Rightarrow> bool" where
  "wf_TaskReviewUnavailableEvidence e \<longleftrightarrow> is_text (tue_code e) \<and> is_text (tue_message e) \<and>
     is_sha256 (tue_checkpointDigest e) \<and> is_sha256 (tue_workUnitManifestDigest e) \<and>
     is_sha256 (tue_specDigest e) \<and> is_sha256 (tue_contextDigest e) \<and> is_sha256 (tue_sourceFingerprint e) \<and>
     pred_option is_text (tue_cycle_runId e) \<and> fingerprint (JObj (tue_unsignedJSON_fields e)) = Inr (tue_digest e)"

lemma tue_unsigned_digest [simp]:
  "tue_unsignedJSON_fields (e\<lparr>tue_digest := h\<rparr>) = tue_unsignedJSON_fields e"
  by (simp add: tue_unsignedJSON_fields_def)

lemma review_cycle_wf: "review_cycle v = Inr (r, p) \<Longrightarrow> pred_option is_text r"
  by (auto simp: review_cycle_def Let_def trs_text_def split: if_splits dest: nullish_text_wf)

lemma review_cycle_js:
  "pred_option is_text r \<Longrightarrow>
   review_cycle (JObj ((case r of None \<Rightarrow> [] | Some r \<Rightarrow> [(''runId'', JStr r)]) @ [(''planRewindAt'', js_opt JStr p)]))
     = Inr (r, p)"
  by (cases r; cases p) (auto simp: review_cycle_def nullish_def Let_def)

interpretation unavailable: json_codec new_TaskReviewUnavailableEvidence wf_TaskReviewUnavailableEvidence
  TaskReviewUnavailableEvidence_toJSON
proof (unfold_locales, goal_cases)
  case (1 v x)
  then show ?case
    by (auto simp: new_TaskReviewUnavailableEvidence_def wf_TaskReviewUnavailableEvidence_def Let_def
      tue_unsignedJSON_fields_def dest: trs_digest_wf review_cycle_wf split: if_splits)
next
  case (2 x)
  then have sha: "is_sha256 (tue_digest x)"
    by (auto simp: wf_TaskReviewUnavailableEvidence_def dest: fingerprint_shape)
  have unsigned: "tue_unsignedJSON_fields (x\<lparr>tue_digest := []\<rparr>) = tue_unsignedJSON_fields x" by simp
  have flds: "fld (tue_unsignedJSON_fields x @ [(''digest'', JStr (tue_digest x))]) ''digest'' = JStr (tue_digest x)"
    by (simp add: tue_unsignedJSON_fields_def)
  from 2 sha show ?case
    unfolding new_TaskReviewUnavailableEvidence_def TaskReviewUnavailableEvidence_toJSON_def
    by (simp add: fld_or_def flds)
      (auto simp: tue_unsignedJSON_fields_def wf_TaskReviewUnavailableEvidence_def review_cycle_js nullable_def)
qed (simp add: TaskReviewUnavailableEvidence_toJSON_def)

definition wf_TaskReviewStageFacts :: "TaskReviewStageFacts \<Rightarrow> bool" where
  "wf_TaskReviewStageFacts f \<longleftrightarrow> wf_TaskReviewStageBinding (trf_binding f) \<and>
     1 \<le> trf_taskRound f \<and> trf_taskRound f \<le> 2 \<and> trf_reviewResultCount f \<le> 4 \<and>
     pred_option (\<lambda>v. v \<in> set VERDICTS) (trf_verdict f) \<and> pred_option is_safe (trf_mustFixCount f) \<and>
     pred_option (\<lambda>n. is_safe n \<and> n \<ge> (case trf_mustFixCount f of None \<Rightarrow> 0 | Some m \<Rightarrow> m)) (trf_findingCount f) \<and>
     pred_option (\<lambda>v. v \<in> set TRIAGE_DISPOSITIONS) (trf_triageDisposition f) \<and>
     pred_option wf_TaskNoChangeContinuationSelection (trf_noChangeContinuation f) \<and>
     pred_option is_text (trf_reason f) \<and> pred_option wf_TaskReviewUnavailableEvidence (trf_unavailable f) \<and>
     assertStageShape f = Inr () \<and> assertContinuationBinding f = Inr ()"

lemma int_range_eq_Inr [simp]:
  "int_range lo hi e v = Inr n \<longleftrightarrow> (\<exists>i. v = JInt i \<and> \<bar>i\<bar> \<le> max_safe \<and> int lo \<le> i \<and> n = nat i \<and> n \<le> hi)"
  by (auto simp: int_range_def intro!: exI [of _ n] split: if_splits)

lemma int_range_int [simp]:
  "lo \<le> n \<Longrightarrow> n \<le> hi \<Longrightarrow> int hi \<le> max_safe \<Longrightarrow> int_range lo hi e (JInt (int n)) = Inr n"
  by simp

lemma finding_count_wf:
  "finding_count m v = Inr n \<Longrightarrow> is_safe n \<and> n \<ge> (case m of None \<Rightarrow> 0 | Some m \<Rightarrow> m)"
  by (auto simp: finding_count_def Let_def is_safe_def split: if_splits)

lemma finding_count_int:
  "is_safe n \<and> n \<ge> (case m of None \<Rightarrow> 0 | Some m \<Rightarrow> m) \<Longrightarrow> finding_count m (JInt (int n)) = Inr n"
  by (auto simp: finding_count_def Let_def is_safe_def)

lemma nullable_nat_wf: "nullable (int_from 0 e) v = Inr x \<Longrightarrow> pred_option is_safe x"
  by (erule nullable_wf) (auto simp: is_safe_def)

lemma nullable_nat [simp]:
  "pred_option is_safe x \<Longrightarrow> nullable (int_from 0 e) (js_opt (\<lambda>n. JInt (int n)) x) = Inr x"
  by (rule nullable_opt [where P = is_safe]) auto

lemma nullable_lit_wf: "nullable (lit_of S e) v = Inr x \<Longrightarrow> pred_option (\<lambda>v. v \<in> set S) x"
  by (erule nullable_wf) auto

lemma nullable_lit [simp]:
  "pred_option (\<lambda>v. v \<in> set S) x \<Longrightarrow> nullable (lit_of S e) (js_opt JStr x) = Inr x"
  by (rule nullable_opt [where P = "\<lambda>v. v \<in> set S"]) auto

lemma nullable_bool [simp]: "nullable (bool_or e) (js_opt JBool x) = Inr x"
  by (cases x) (auto simp: nullable_def)

lemma nullable_finding [simp]:
  "pred_option (\<lambda>n. is_safe n \<and> n \<ge> (case m of None \<Rightarrow> 0 | Some m \<Rightarrow> m)) x \<Longrightarrow>
   nullable (finding_count m) (js_opt (\<lambda>n. JInt (int n)) x) = Inr x"
  by (rule nullable_opt [where P = "\<lambda>n. is_safe n \<and> n \<ge> (case m of None \<Rightarrow> 0 | Some m \<Rightarrow> m)"])
    (auto simp: finding_count_int)

lemma nullish_trs_text [simp]: "pred_option is_text x \<Longrightarrow> nullish (trs_text f) (js_opt JStr x) = Inr x"
  by (simp add: trs_text_def)

lemma nullish_trs_text_wf: "nullish (trs_text f) v = Inr x \<Longrightarrow> pred_option is_text x"
  unfolding trs_text_def by (rule nullish_text_wf)

interpretation stage_facts: json_codec new_TaskReviewStageFacts wf_TaskReviewStageFacts TaskReviewStageFacts_toJSON
proof (unfold_locales, goal_cases)
  case (1 v x)
  then show ?case
    unfolding new_TaskReviewStageFacts_def Let_def
    by (auto simp: wf_TaskReviewStageFacts_def
      dest: stage_binding.mk_wf nullable_lit_wf nullable_nat_wf nullish_trs_text_wf
        continuation.nullable_mk_wf unavailable.nullable_mk_wf
        nullable_wf [where P = "\<lambda>n. is_safe n \<and> n \<ge> (case m of None \<Rightarrow> 0 | Some m \<Rightarrow> m)" for m, OF _ finding_count_wf])
next
  case (2 x)
  then show ?case
    by (cases x) (simp add: wf_TaskReviewStageFacts_def new_TaskReviewStageFacts_def TaskReviewStageFacts_toJSON_def Let_def
      stage_binding.mk_js continuation.nullable_mk_js unavailable.nullable_mk_js max_safe_def)
qed (simp add: TaskReviewStageFacts_toJSON_def)

definition wf_TaskReviewStageStepEffect :: "TaskReviewStageStepEffect \<Rightarrow> bool" where
  "wf_TaskReviewStageStepEffect e \<longleftrightarrow> is_text (tse_stepId e) \<and>
     tse_status e \<in> {''done'', ''skipped'', ''invalidated''} \<and> pred_option is_text (tse_reason e) \<and>
     (tse_status e = ''skipped'' \<longleftrightarrow> tse_reason e \<noteq> None)"

lemma status_text: "s \<in> {''done'', ''skipped'', ''invalidated''} \<Longrightarrow> is_text s"
  by (auto simp: is_text_def js_trim_def js_ws_def)

interpretation step_effect: json_codec new_TaskReviewStageStepEffect wf_TaskReviewStageStepEffect
  TaskReviewStageStepEffect_toJSON
proof (unfold_locales, goal_cases)
  case (1 v x)
  then show ?case
    unfolding new_TaskReviewStageStepEffect_def
    by (auto simp: wf_TaskReviewStageStepEffect_def dest: nullish_trs_text_wf split: if_splits)
next
  case (2 x)
  then have "is_text (tse_status x)" unfolding wf_TaskReviewStageStepEffect_def by (blast intro: status_text)
  with 2 show ?case
    by (auto simp: wf_TaskReviewStageStepEffect_def new_TaskReviewStageStepEffect_def
        TaskReviewStageStepEffect_toJSON_def)
qed (simp add: TaskReviewStageStepEffect_toJSON_def)

end
