(* ===== verification/Task_Review_Funnel.thy ===== *)
theory Task_Review_Funnel
  imports Task_Review_Stage
begin

section \<open>Properties of the review funnel\<close>

text \<open>
  The plan of every stage in closed form, the exact conditions under which a stage has no plan, the
  leaf frontier a plan keeps (everything before the next leaf is settled, everything from it on is
  open), the bound on the number of stages, and the round trip of a plan through its JSON.
\<close>

subsection \<open>Closed form of the plans\<close>

definition leaf :: "string \<Rightarrow> string \<Rightarrow> string" where
  "leaf taskId role = taskId @ ''-'' @ role"

definition valid_entry :: "string \<times> string \<times> string option \<Rightarrow> bool" where
  "valid_entry x \<longleftrightarrow> fst x \<in> set TASK_STEP_ROLES \<and> fst (snd x) \<in> {''done'', ''skipped'', ''invalidated''} \<and>
     pred_option is_text (snd (snd x)) \<and> (fst (snd x) = ''skipped'' \<longleftrightarrow> snd (snd x) \<noteq> None)"

definition entry_effect :: "string \<Rightarrow> string \<times> string \<times> string option \<Rightarrow> TaskReviewStageStepEffect" where
  "entry_effect taskId x =
     \<lparr>tse_stepId = leaf taskId (fst x), tse_status = fst (snd x), tse_reason = snd (snd x)\<rparr>"

definition plan_of :: "TaskReviewStageFacts \<Rightarrow> string \<Rightarrow> (string \<times> string \<times> string option) list \<Rightarrow>
    string option \<Rightarrow> bool \<Rightarrow> TaskReviewStageTransitionPlan" where
  "plan_of f op entries target unreviewed =
     (let t = trb_taskId (trf_binding f);
          p = \<lparr>trp_facts = f, trp_operation = op, trp_effects = map (entry_effect t) entries,
               trp_targetStepId = map_option (leaf t) target, trp_reviewBudgetConsumed = review_budget f,
               trp_acceptanceUnreviewed = unreviewed,
               trp_continuationDecision =
                 (if op \<in> {''review-no-change-complete'', ''triage-no-change-complete''} then Some ''continue'' else None),
               trp_terminalReason = None, trp_identity = []\<rparr>
      in p\<lparr>trp_identity := sha256_hex (the (stableGateJson (trp_unsigned p)))\<rparr>)"

lemma role_nodeId_leaf:
  "is_text t \<Longrightarrow> r \<in> set TASK_STEP_ROLES \<Longrightarrow> role_nodeId t r = Inr (leaf t r)"
  using new_TaskStepIdentity_self [of "\<lparr>tsi_taskId = t, tsi_role = r\<rparr>"]
  by (simp add: role_nodeId_def wf_TaskStepIdentity_def tsi_nodeId_def leaf_def)

lemma leaf_text: "is_text t \<Longrightarrow> r \<in> set TASK_STEP_ROLES \<Longrightarrow> is_text (leaf t r)"
  unfolding leaf_def by (rule is_text_append) (auto intro: role_text)

lemma leaf_inj:
  assumes "is_text t" "is_text u" "r \<in> set TASK_STEP_ROLES" "q \<in> set TASK_STEP_ROLES"
  shows "leaf t r = leaf u q \<longleftrightarrow> t = u \<and> r = q"
proof
  assume eq: "leaf t r = leaf u q"
  have "fromNodeId (JStr (leaf t r)) = Inr (Some \<lparr>tsi_taskId = t, tsi_role = r\<rparr>)"
    using fromNodeId_self [of "\<lparr>tsi_taskId = t, tsi_role = r\<rparr>"] assms
    by (simp add: wf_TaskStepIdentity_def tsi_nodeId_def leaf_def)
  moreover have "fromNodeId (JStr (leaf u q)) = Inr (Some \<lparr>tsi_taskId = u, tsi_role = q\<rparr>)"
    using fromNodeId_self [of "\<lparr>tsi_taskId = u, tsi_role = q\<rparr>"] assms
    by (simp add: wf_TaskStepIdentity_def tsi_nodeId_def leaf_def)
  ultimately have "\<lparr>tsi_taskId = t, tsi_role = r\<rparr> = \<lparr>tsi_taskId = u, tsi_role = q\<rparr>"
    by (simp only: eq sum.inject option.inject)
  then show "t = u \<and> r = q" by simp
qed simp

lemma effects_valid:
  assumes "is_text t" "list_all valid_entry entries"
  shows "taskReviewStageEffects t entries = Inr (map (entry_effect t) entries)"
  unfolding taskReviewStageEffects_def
proof (rule mapE_Inr_map)
  fix x assume "x \<in> set entries"
  then have v: "valid_entry x" using assms(2) by (simp add: list_all_iff)
  obtain r s re where x: "x = (r, s, re)" by (cases x)
  have w: "wf_TaskReviewStageStepEffect (entry_effect t x)"
    using v leaf_text [OF assms(1), of r]
    by (auto simp: x valid_entry_def wf_TaskReviewStageStepEffect_def entry_effect_def)
  have j: "JObj [(''stepId'', JStr (leaf t r)), (''status'', JStr s), (''reason'', js_opt JStr re)]
      = TaskReviewStageStepEffect_toJSON (entry_effect t x)"
    by (simp add: x TaskReviewStageStepEffect_toJSON_def entry_effect_def)
  show "(case x of (role, status, reason) \<Rightarrow> bindE (role_nodeId t role) (\<lambda>node.
      new_TaskReviewStageStepEffect (JObj [(''stepId'', JStr node), (''status'', JStr status),
        (''reason'', js_opt JStr reason)]))) = Inr (entry_effect t x)"
    using v step_effect.mk_js [OF w] by (simp add: x valid_entry_def role_nodeId_leaf [OF assms(1)] flip: j) 
      (simp add: j x)
qed

lemma nonblank_leaf: "is_text t \<Longrightarrow> r \<in> set TASK_STEP_ROLES \<Longrightarrow> nonblank e (JStr (leaf t r)) = Inr (leaf t r)"
  using leaf_text [of t r] by (auto simp: nonblank_def)

lemma budget_range: "review_budget f \<le> Suc 0" "int (review_budget f) \<le> max_safe"
  by (auto simp: review_budget_def max_safe_def)

lemma createPlan_valid:
  assumes "is_text (trb_taskId (trf_binding f))" "list_all valid_entry entries" "op \<in> set OPERATIONS"
    "pred_option (\<lambda>r. r \<in> set TASK_STEP_ROLES) target"
  shows "createTaskReviewStageTransitionPlan f op entries target unreviewed = Inr (plan_of f op entries target unreviewed)"
  using assms
  by (cases target)
    (simp_all add: createTaskReviewStageTransitionPlan_def Let_def effects_valid role_nodeId_leaf
      new_TaskReviewStageTransitionPlan_def nullable_def nullish_def nonblank_leaf budget_range
      plan_of_def fingerprint_total trp_unsigned_def)

text \<open>What each operation does to the five leaves of its Task, the leaf that runs next, and whether
  unreviewed work is handed to Acceptance: the specification of the funnel, one row per operation.\<close>

record funnel_row =
  fr_stage :: string
  fr_moves :: "(string \<times> string) list"
  fr_next :: "string option"
  fr_unreviewed :: bool

definition funnel_table :: "(string \<times> funnel_row) list" where
  "funnel_table =
    [(''review-to-triage'', \<lparr>fr_stage = ''review'', fr_moves = [(''review'', ''done'')],
       fr_next = Some ''triage'', fr_unreviewed = False\<rparr>),
     (''review-to-gate'', \<lparr>fr_stage = ''review'',
       fr_moves = [(''review'', ''done''), (''triage'', ''skipped''), (''repair'', ''skipped'')],
       fr_next = Some ''gate'', fr_unreviewed = False\<rparr>),
     (''review-unavailable-to-gate'', \<lparr>fr_stage = ''review'',
       fr_moves = [(''review'', ''done''), (''triage'', ''skipped''), (''repair'', ''skipped'')],
       fr_next = Some ''gate'', fr_unreviewed = True\<rparr>),
     (''review-no-change-complete'', \<lparr>fr_stage = ''review'',
       fr_moves = [(''review'', ''done''), (''triage'', ''skipped''), (''repair'', ''skipped''), (''gate'', ''skipped'')],
       fr_next = None, fr_unreviewed = False\<rparr>),
     (''triage-to-repair'', \<lparr>fr_stage = ''triage'', fr_moves = [(''triage'', ''done'')],
       fr_next = Some ''repair'', fr_unreviewed = False\<rparr>),
     (''triage-all-reject-to-gate'', \<lparr>fr_stage = ''triage'',
       fr_moves = [(''triage'', ''done''), (''repair'', ''skipped'')], fr_next = Some ''gate'', fr_unreviewed = False\<rparr>),
     (''triage-no-change-to-gate'', \<lparr>fr_stage = ''triage'',
       fr_moves = [(''triage'', ''done''), (''repair'', ''skipped'')], fr_next = Some ''gate'', fr_unreviewed = True\<rparr>),
     (''triage-no-change-complete'', \<lparr>fr_stage = ''triage'',
       fr_moves = [(''triage'', ''done''), (''repair'', ''skipped''), (''gate'', ''skipped'')],
       fr_next = None, fr_unreviewed = False\<rparr>),
     (''triage-no-change-correction'', \<lparr>fr_stage = ''triage'',
       fr_moves = [(''impl'', ''invalidated''), (''review'', ''invalidated''), (''triage'', ''invalidated''),
         (''repair'', ''invalidated''), (''gate'', ''invalidated'')], fr_next = Some ''impl'', fr_unreviewed = False\<rparr>),
     (''repair-to-review'', \<lparr>fr_stage = ''repair'',
       fr_moves = [(''review'', ''invalidated''), (''triage'', ''invalidated''), (''repair'', ''invalidated''),
         (''gate'', ''invalidated'')], fr_next = Some ''review'', fr_unreviewed = False\<rparr>),
     (''repair-unreviewed-to-gate'', \<lparr>fr_stage = ''repair'', fr_moves = [(''repair'', ''done'')],
       fr_next = Some ''gate'', fr_unreviewed = True\<rparr>)]"

definition row_of :: "string \<Rightarrow> funnel_row" where
  "row_of op = the (map_of funnel_table op)"

definition implements_row :: "TaskReviewStageFacts \<Rightarrow> string \<Rightarrow> TaskReviewStageTransitionPlan \<Rightarrow> bool" where
  "implements_row f op p \<longleftrightarrow> trp_facts p = f \<and> trp_operation p = op \<and>
     map (\<lambda>e. (tse_stepId e, tse_status e)) (trp_effects p) =
       map (\<lambda>(r, s). (leaf (trb_taskId (trf_binding f)) r, s)) (fr_moves (row_of op)) \<and>
     trp_targetStepId p = map_option (leaf (trb_taskId (trf_binding f))) (fr_next (row_of op)) \<and>
     trp_acceptanceUnreviewed p = fr_unreviewed (row_of op) \<and> trp_reviewBudgetConsumed p = review_budget f"

lemma plan_of_implements:
  assumes "map (\<lambda>x. (fst x, fst (snd x))) entries = fr_moves (row_of op)" "fr_next (row_of op) = target"
    "fr_unreviewed (row_of op) = unreviewed"
  shows "implements_row f op (plan_of f op entries target unreviewed)"
  using assms(2,3) assms(1) [symmetric]
  by (simp add: implements_row_def plan_of_def Let_def entry_effect_def split_def)

lemma join_text: "rs \<noteq> [] \<Longrightarrow> list_all is_text rs \<Longrightarrow> is_text (join sep rs)"
proof (induction rs)
  case (Cons r rs)
  then show ?case by (cases "rs = []") (auto simp: join_Cons intro: is_text_append)
qed simp

lemma continuation_text:
  "wf_TaskReviewStageFacts f \<Longrightarrow> trf_noChangeContinuation f = Some sel \<Longrightarrow> is_text (ncs_reason sel)"
proof -
  assume "wf_TaskReviewStageFacts f" "trf_noChangeContinuation f = Some sel"
  then have "wf_TaskNoChangeContinuationSelection sel" by (simp add: wf_TaskReviewStageFacts_def)
  then have w: "wf_TaskNoChangeContinuationFacts (ncs_facts sel)"
    and sel: "sel = new_TaskNoChangeContinuationSelection (ncs_facts sel)"
    by (simp_all add: wf_TaskNoChangeContinuationSelection_def)
  show ?thesis
    by (subst sel) (use w in \<open>simp add: new_TaskNoChangeContinuationSelection_def join_text
        wf_TaskNoChangeContinuationFacts_def\<close>)
qed

lemma stage_cases:
  "wf_TaskReviewStageFacts f \<Longrightarrow>
   trb_stage (trf_binding f) = ''review'' \<or> trb_stage (trf_binding f) = ''triage'' \<or> trb_stage (trf_binding f) = ''repair''"
  by (simp add: wf_TaskReviewStageFacts_def wf_TaskReviewStageBinding_def STAGES_def)

text \<open>The step function of each stage alone, and the table read at each operation.\<close>

lemma operation_review:
  "trb_stage (trf_binding f) = ''review'' \<Longrightarrow> taskReviewStageOperation f =
     (if trf_verdict f = Some ''UNAVAILABLE'' then Inr ''review-unavailable-to-gate''
      else if \<not> no_findings (trf_findingCount f) then Inr ''review-to-triage''
      else if \<not> trf_sourceNoChange f then Inr ''review-to-gate''
      else if continuation_eligible f then Inr ''review-no-change-complete''
      else Inl (Error ''Task no-change completion requires canonical continuation evidence''))"
  by (simp add: taskReviewStageOperation_def Let_def)

lemma operation_triage:
  "trb_stage (trf_binding f) = ''triage'' \<Longrightarrow> taskReviewStageOperation f =
     (if trf_triageDisposition f = Some ''all-reject'' then
        if \<not> trf_sourceNoChange f then Inr ''triage-all-reject-to-gate''
        else if continuation_eligible f then Inr ''triage-no-change-complete''
        else Inl (Error ''Task no-change completion requires canonical continuation evidence'')
      else if \<not> trf_sourceNoChange f then Inr ''triage-to-repair''
      else if trf_taskRound f = 2 then Inr ''triage-no-change-to-gate'' else Inr ''triage-no-change-correction'')"
  by (simp add: taskReviewStageOperation_def Let_def)

lemma operation_repair:
  "trb_stage (trf_binding f) = ''repair'' \<Longrightarrow> wf_TaskReviewStageFacts f \<Longrightarrow> taskReviewStageOperation f =
     (if trf_reviewResultCount f < 4 then Inr ''repair-to-review''
      else if trf_acceptanceCarryForwardReady f then Inr ''repair-unreviewed-to-gate''
      else Inl (Error (if trf_repairChanged f = Some False
        then ''fourth Task repair no-change requires the unreviewed Acceptance handoff''
        else ''fourth Task repair requires the unreviewed Acceptance handoff'')))"
  by (simp add: taskReviewStageOperation_def Let_def wf_TaskReviewStageFacts_def)

lemma operations [simp]:
  "''review-unavailable-to-gate'' \<in> set OPERATIONS"
  "''review-to-triage'' \<in> set OPERATIONS"
  "''review-to-gate'' \<in> set OPERATIONS"
  "''triage-all-reject-to-gate'' \<in> set OPERATIONS"
  "''triage-no-change-to-gate'' \<in> set OPERATIONS"
  "''triage-no-change-correction'' \<in> set OPERATIONS"
  "''triage-to-repair'' \<in> set OPERATIONS"
  "''repair-to-review'' \<in> set OPERATIONS"
  "''repair-unreviewed-to-gate'' \<in> set OPERATIONS"
  "''review-no-change-complete'' \<in> set OPERATIONS"
  "''triage-no-change-complete'' \<in> set OPERATIONS"
  by (simp_all add: OPERATIONS_def)

lemma rows [simp]:
  "row_of ''review-to-triage'' = snd (funnel_table ! 0)"
  "row_of ''review-to-gate'' = snd (funnel_table ! 1)"
  "row_of ''review-unavailable-to-gate'' = snd (funnel_table ! 2)"
  "row_of ''review-no-change-complete'' = snd (funnel_table ! 3)"
  "row_of ''triage-to-repair'' = snd (funnel_table ! 4)"
  "row_of ''triage-all-reject-to-gate'' = snd (funnel_table ! 5)"
  "row_of ''triage-no-change-to-gate'' = snd (funnel_table ! 6)"
  "row_of ''triage-no-change-complete'' = snd (funnel_table ! 7)"
  "row_of ''triage-no-change-correction'' = snd (funnel_table ! 8)"
  "row_of ''repair-to-review'' = snd (funnel_table ! 9)"
  "row_of ''repair-unreviewed-to-gate'' = snd (funnel_table ! 10)"
  by (simp_all add: row_of_def funnel_table_def)

lemma build_simps:
  "buildTaskReviewStagePlanForResult f ''review-unavailable-to-gate'' =
     createTaskReviewStageTransitionPlan f ''review-unavailable-to-gate''
      [(''review'', ''done'', None), (''triage'', ''skipped'', trf_reason f), (''repair'', ''skipped'', trf_reason f)] (Some ''gate'') True"
  "buildTaskReviewStagePlanForResult f ''review-to-triage'' =
     createTaskReviewStageTransitionPlan f ''review-to-triage''
      [(''review'', ''done'', None)] (Some ''triage'') False"
  "buildTaskReviewStagePlanForResult f ''review-to-gate'' =
     createTaskReviewStageTransitionPlan f ''review-to-gate''
      [(''review'', ''done'', None), (''triage'', ''skipped'', Some ''Task Review has no findings.''),
       (''repair'', ''skipped'', Some ''Task Review has no findings.'')] (Some ''gate'') False"
  "buildTaskReviewStagePlanForResult f ''triage-all-reject-to-gate'' =
     createTaskReviewStageTransitionPlan f ''triage-all-reject-to-gate''
      [(''triage'', ''done'', None), (''repair'', ''skipped'', trf_reason f)] (Some ''gate'') False"
  "buildTaskReviewStagePlanForResult f ''triage-no-change-to-gate'' =
     createTaskReviewStageTransitionPlan f ''triage-no-change-to-gate''
      [(''triage'', ''done'', None), (''repair'', ''skipped'',
       Some ''The final implementation round made no source change; selected findings are carried to Task Gate.'')] (Some ''gate'') True"
  "buildTaskReviewStagePlanForResult f ''triage-no-change-correction'' =
     createTaskReviewStageTransitionPlan f ''triage-no-change-correction''
      [(''impl'', ''invalidated'', None), (''review'', ''invalidated'', None), (''triage'', ''invalidated'', None),
       (''repair'', ''invalidated'', None), (''gate'', ''invalidated'', None)] (Some ''impl'') False"
  "buildTaskReviewStagePlanForResult f ''triage-to-repair'' =
     createTaskReviewStageTransitionPlan f ''triage-to-repair''
      [(''triage'', ''done'', None)] (Some ''repair'') False"
  "buildTaskReviewStagePlanForResult f ''repair-to-review'' =
     createTaskReviewStageTransitionPlan f ''repair-to-review''
      [(''review'', ''invalidated'', None), (''triage'', ''invalidated'', None), (''repair'', ''invalidated'', None),
       (''gate'', ''invalidated'', None)] (Some ''review'') False"
  "buildTaskReviewStagePlanForResult f ''repair-unreviewed-to-gate'' =
     createTaskReviewStageTransitionPlan f ''repair-unreviewed-to-gate''
      [(''repair'', ''done'', None)] (Some ''gate'') True"
  "buildTaskReviewStagePlanForResult f ''review-no-change-complete'' = bindE (continuation_reason f) (\<lambda>reason.
     createTaskReviewStageTransitionPlan f ''review-no-change-complete''
      [(''review'', ''done'', None), (''triage'', ''skipped'', Some reason),
       (''repair'', ''skipped'', Some reason), (''gate'', ''skipped'', Some reason)] None False)"
  "buildTaskReviewStagePlanForResult f ''triage-no-change-complete'' = bindE (continuation_reason f) (\<lambda>reason.
     createTaskReviewStageTransitionPlan f ''triage-no-change-complete''
      [(''triage'', ''done'', None), (''repair'', ''skipped'', Some reason), (''gate'', ''skipped'', Some reason)] None False)"
  by (simp_all add: buildTaskReviewStagePlanForResult_def Let_def)

lemma operation_stage:
  assumes f: "wf_TaskReviewStageFacts f" and op: "taskReviewStageOperation f = Inr op"
  shows "op \<in> set OPERATIONS \<and> fr_stage (row_of op) = trb_stage (trf_binding f)"
  using stage_cases [OF f]
proof (elim disjE)
  assume s: "trb_stage (trf_binding f) = ''review''"
  show ?thesis using op by (auto simp: operation_review [OF s] s funnel_table_def split: if_splits)
next
  assume s: "trb_stage (trf_binding f) = ''triage''"
  show ?thesis using op by (auto simp: operation_triage [OF s] s funnel_table_def split: if_splits)
next
  assume s: "trb_stage (trf_binding f) = ''repair''"
  show ?thesis using op by (auto simp: operation_repair [OF s f] s funnel_table_def split: if_splits)
qed

lemma stage_of_row:
  "wf_TaskReviewStageFacts f \<Longrightarrow> taskReviewStageOperation f = Inr op \<Longrightarrow> fr_stage (row_of op) = s \<Longrightarrow>
   trb_stage (trf_binding f) = s"
  using operation_stage by auto

lemma operation_reason:
  assumes f: "wf_TaskReviewStageFacts f" and op: "taskReviewStageOperation f = Inr op"
    and o: "op = ''review-unavailable-to-gate'' \<or> op = ''triage-all-reject-to-gate''"
  shows "\<exists>r. trf_reason f = Some r \<and> is_text r"
proof -
  have shape: "assertStageShape f = Inr ()" and r: "pred_option is_text (trf_reason f)"
    using f by (auto simp: wf_TaskReviewStageFacts_def)
  have "trf_reason f \<noteq> None"
    using o
  proof
    assume o: "op = ''review-unavailable-to-gate''"
    then have s: "trb_stage (trf_binding f) = ''review''" using stage_of_row [OF f op] by (simp add: funnel_table_def)
    then have "trf_verdict f = Some ''UNAVAILABLE''" using op o by (auto simp: operation_review split: if_splits)
    then show ?thesis using shape s by (auto simp: assertStageShape_def Let_def split: if_splits)
  next
    assume o: "op = ''triage-all-reject-to-gate''"
    then have s: "trb_stage (trf_binding f) = ''triage''" using stage_of_row [OF f op] by (simp add: funnel_table_def)
    then show ?thesis using shape by (auto simp: assertStageShape_def Let_def split: if_splits)
  qed
  then show ?thesis using r by (cases "trf_reason f") auto
qed

lemma operation_continuation:
  assumes f: "wf_TaskReviewStageFacts f" and op: "taskReviewStageOperation f = Inr op"
    and o: "op = ''review-no-change-complete'' \<or> op = ''triage-no-change-complete''"
  shows "\<exists>sel. trf_noChangeContinuation f = Some sel \<and> is_text (ncs_reason sel)"
proof -
  have "continuation_eligible f"
    using o
  proof
    assume o: "op = ''review-no-change-complete''"
    then have s: "trb_stage (trf_binding f) = ''review''" using stage_of_row [OF f op] by (simp add: funnel_table_def)
    show ?thesis using op o by (auto simp: operation_review [OF s] split: if_splits)
  next
    assume o: "op = ''triage-no-change-complete''"
    then have s: "trb_stage (trf_binding f) = ''triage''" using stage_of_row [OF f op] by (simp add: funnel_table_def)
    show ?thesis using op o by (auto simp: operation_triage [OF s] split: if_splits)
  qed
  then show ?thesis using continuation_text [OF f] by (auto simp: continuation_eligible_def split: option.splits)
qed

lemma reason_texts [simp]:
  "is_text ''Task Review has no findings.''"
  "is_text ''The final implementation round made no source change; selected findings are carried to Task Gate.''"
  by (simp_all add: is_text_def js_trim_def js_ws_def)

lemma build_row:
  assumes f: "wf_TaskReviewStageFacts f" and op: "taskReviewStageOperation f = Inr op"
  shows "\<exists>entries. list_all valid_entry entries \<and> map (\<lambda>x. (fst x, fst (snd x))) entries = fr_moves (row_of op) \<and>
    buildTaskReviewStagePlanForResult f op =
      createTaskReviewStageTransitionPlan f op entries (fr_next (row_of op)) (fr_unreviewed (row_of op))"
proof -
  note simps = build_simps valid_entry_def TASK_STEP_ROLES_def funnel_table_def
  from operation_stage [OF f op] consider
    (reason) "op = ''review-unavailable-to-gate'' \<or> op = ''triage-all-reject-to-gate''"
    | (nochange) "op = ''review-no-change-complete'' \<or> op = ''triage-no-change-complete''"
    | (plain) "op = ''review-to-gate'' \<or> op = ''review-to-triage'' \<or> op = ''triage-to-repair'' \<or>
        op = ''triage-no-change-correction'' \<or> op = ''triage-no-change-to-gate'' \<or> op = ''repair-to-review'' \<or>
        op = ''repair-unreviewed-to-gate''"
    by (fastforce simp: OPERATIONS_def)
  then show ?thesis
  proof cases
    case reason
    then obtain r where r: "trf_reason f = Some r" "is_text r" using operation_reason [OF f op] by blast
    from reason show ?thesis
      by (elim disjE; hypsubst; intro exI conjI; simp add: simps r)
  next
    case nochange
    then obtain sel where sel: "trf_noChangeContinuation f = Some sel" "is_text (ncs_reason sel)"
      using operation_continuation [OF f op] by blast
    then have "continuation_reason f = Inr (ncs_reason sel)" by (simp add: continuation_reason_def)
    with sel nochange show ?thesis
      by (elim disjE; hypsubst; intro exI conjI; simp add: simps)
  next
    case plain
    then show ?thesis
      by (elim disjE; hypsubst; intro exI conjI; simp add: simps)
  qed
qed

lemma meaning_find:
  assumes "op \<in> set OPERATIONS"
  shows "\<exists>d. find (\<lambda>d. tsm_operation d = op) taskReviewStageMeaningDefinitions = Some d \<and>
     tsm_operation d = op \<and> tsm_stage d = fr_stage (row_of op) \<and>
     taskReviewStageOperationForResultKind (tsm_resultKind d) = Inr op"
proof -
  have ops: "op = ''review-to-gate'' \<or> op = ''review-unavailable-to-gate'' \<or> op = ''review-to-triage'' \<or>
     op = ''review-no-change-complete'' \<or> op = ''triage-to-repair'' \<or> op = ''triage-all-reject-to-gate'' \<or>
     op = ''triage-no-change-correction'' \<or> op = ''triage-no-change-to-gate'' \<or> op = ''triage-no-change-complete'' \<or>
     op = ''repair-to-review'' \<or> op = ''repair-unreviewed-to-gate''"
    using assms unfolding OPERATIONS_def by simp
  show ?thesis using ops
    by (elim disjE; hypsubst; simp add: taskReviewStageMeaningDefinitions_def meaning_def
        taskReviewStageOperationForResultKind_def funnel_table_def)
qed

lemma new_meaning:
  assumes f: "wf_TaskReviewStageFacts f" and op: "taskReviewStageOperation f = Inr op"
  obtains m where "new_TaskReviewStageMeaning f = Inr m" "tsm_operation m = op"
    "taskReviewStageOperationForResultKind (tsm_resultKind m) = Inr op"
  using meaning_find [of op] operation_stage [OF f op] op by (auto simp: new_TaskReviewStageMeaning_def)

lemma resolve_ok:
  assumes f: "wf_TaskReviewStageFacts f" and op: "taskReviewStageOperation f = Inr op"
  obtains entries where "list_all valid_entry entries" "map (\<lambda>x. (fst x, fst (snd x))) entries = fr_moves (row_of op)"
    "resolveTaskReviewStageTransition f = Inr (plan_of f op entries (fr_next (row_of op)) (fr_unreviewed (row_of op)))"
proof -
  have t: "is_text (trb_taskId (trf_binding f))"
    using f by (simp add: wf_TaskReviewStageFacts_def wf_TaskReviewStageBinding_def)
  have "list_all (\<lambda>op. case fr_next (row_of op) of None \<Rightarrow> True | Some r \<Rightarrow> r \<in> set TASK_STEP_ROLES) OPERATIONS"
    by code_simp
  then have n: "pred_option (\<lambda>r. r \<in> set TASK_STEP_ROLES) (fr_next (row_of op))"
    using operation_stage [OF f op] by (cases "fr_next (row_of op)") (auto simp: list_all_iff split: option.splits)
  obtain entries where e: "list_all valid_entry entries"
    "map (\<lambda>x. (fst x, fst (snd x))) entries = fr_moves (row_of op)"
    "buildTaskReviewStagePlanForResult f op =
      createTaskReviewStageTransitionPlan f op entries (fr_next (row_of op)) (fr_unreviewed (row_of op))"
    using build_row [OF f op] by blast
  obtain m where "new_TaskReviewStageMeaning f = Inr m" "tsm_operation m = op" using new_meaning [OF f op] by blast
  then have "resolveTaskReviewStageTransition f = Inr (plan_of f op entries (fr_next (row_of op)) (fr_unreviewed (row_of op)))"
    using createPlan_valid [OF t e(1) conjunct1 [OF operation_stage [OF f op]] n] e(3)
    by (simp add: resolveTaskReviewStageTransition_def selectTaskReviewStageMeaning_def)
  with e(1,2) show ?thesis by (rule that)
qed

lemma resolve_row:
  assumes f: "wf_TaskReviewStageFacts f" and op: "taskReviewStageOperation f = Inr op"
  obtains p where "resolveTaskReviewStageTransition f = Inr p" "implements_row f op p"
proof -
  obtain entries where e: "map (\<lambda>x. (fst x, fst (snd x))) entries = fr_moves (row_of op)"
    "resolveTaskReviewStageTransition f = Inr (plan_of f op entries (fr_next (row_of op)) (fr_unreviewed (row_of op)))"
    using resolve_ok [OF f op] by blast
  show ?thesis by (rule that [OF e(2)]) (rule plan_of_implements [OF e(1) refl refl])
qed

lemma resolve_error:
  "taskReviewStageOperation f = Inl e \<Longrightarrow> resolveTaskReviewStageTransition f = Inl e"
  by (simp add: resolveTaskReviewStageTransition_def selectTaskReviewStageMeaning_def new_TaskReviewStageMeaning_def)

lemma resolve_operation:
  assumes f: "wf_TaskReviewStageFacts f" and p: "resolveTaskReviewStageTransition f = Inr p"
  shows "taskReviewStageOperation f = Inr (trp_operation p) \<and> implements_row f (trp_operation p) p"
proof (cases "taskReviewStageOperation f")
  case (Inl e)
  then show ?thesis using p resolve_error by simp
next
  case (Inr op)
  from resolve_row [OF f Inr] p have "implements_row f op p" by auto
  then show ?thesis using Inr by (simp add: implements_row_def)
qed

subsection \<open>The leaf frontier\<close>

text \<open>Statuses of the leaves by node id; applying a plan writes the status of each effect.\<close>

definition apply_effects :: "TaskReviewStageStepEffect list \<Rightarrow> (string \<Rightarrow> string) \<Rightarrow> string \<Rightarrow> string" where
  "apply_effects es st = fold (\<lambda>e st. st(tse_stepId e := tse_status e)) es st"

definition settled :: "string \<Rightarrow> bool" where
  "settled s \<longleftrightarrow> s = ''done'' \<or> s = ''skipped''"

definition frontier :: "(string \<Rightarrow> string) \<Rightarrow> string \<Rightarrow> nat \<Rightarrow> bool" where
  "frontier st taskId k \<longleftrightarrow>
     map (\<lambda>r. settled (st (leaf taskId r))) TASK_STEP_ROLES = replicate k True @ replicate (5 - k) False"

definition role_index :: "string \<Rightarrow> nat" where
  "role_index r = length (takeWhile (\<lambda>x. x \<noteq> r) TASK_STEP_ROLES)"

lemma fold_moves:
  assumes t: "is_text t"
  shows "list_all (\<lambda>(r, s). r \<in> set TASK_STEP_ROLES) moves \<Longrightarrow> q \<in> set TASK_STEP_ROLES \<Longrightarrow>
    fold (\<lambda>(n, s) st. st(n := s)) (map (\<lambda>(r, s). (leaf t r, s)) moves) st (leaf t q) =
      (case map_of (rev moves) q of None \<Rightarrow> st (leaf t q) | Some s \<Rightarrow> s)"
proof (induction moves arbitrary: st)
  case (Cons m moves)
  then show ?case using leaf_inj [OF t t, of "fst m" q]
    by (cases m) (auto simp: map_add_def split: option.split)
qed simp

lemma apply_effects_fold:
  "apply_effects es st = fold (\<lambda>(n, s) st. st(n := s)) (map (\<lambda>e. (tse_stepId e, tse_status e)) es) st"
  by (induction es arbitrary: st) (simp_all add: apply_effects_def)

lemma fold_other: "n \<notin> fst ` set ms \<Longrightarrow> fold (\<lambda>(n, s) st. st(n := s)) ms st n = st n"
  by (induction ms arbitrary: st) auto

lemma apply_row:
  assumes t: "is_text (trb_taskId (trf_binding f))" and op: "op \<in> set OPERATIONS" and p: "implements_row f op p"
  shows "q \<in> set TASK_STEP_ROLES \<Longrightarrow> apply_effects (trp_effects p) st (leaf (trb_taskId (trf_binding f)) q) =
      (case map_of (rev (fr_moves (row_of op))) q of None \<Rightarrow> st (leaf (trb_taskId (trf_binding f)) q) | Some s \<Rightarrow> s)"
    and "n \<notin> leaf (trb_taskId (trf_binding f)) ` set TASK_STEP_ROLES \<Longrightarrow> apply_effects (trp_effects p) st n = st n"
proof -
  have "list_all (\<lambda>op. list_all (\<lambda>(r, s). r \<in> set TASK_STEP_ROLES) (fr_moves (row_of op))) OPERATIONS" by code_simp
  with op have m: "list_all (\<lambda>(r, s). r \<in> set TASK_STEP_ROLES) (fr_moves (row_of op))" by (simp add: list_all_iff)
  show "apply_effects (trp_effects p) st (leaf (trb_taskId (trf_binding f)) q) =
      (case map_of (rev (fr_moves (row_of op))) q of None \<Rightarrow> st (leaf (trb_taskId (trf_binding f)) q) | Some s \<Rightarrow> s)"
    if "q \<in> set TASK_STEP_ROLES"
    using fold_moves [OF t m that] p by (simp add: apply_effects_fold implements_row_def)
  show "apply_effects (trp_effects p) st n = st n" if "n \<notin> leaf (trb_taskId (trf_binding f)) ` set TASK_STEP_ROLES"
  proof -
    have "fst ` set (map (\<lambda>(r, s). (leaf (trb_taskId (trf_binding f)) r, s)) (fr_moves (row_of op)))
        \<subseteq> leaf (trb_taskId (trf_binding f)) ` set TASK_STEP_ROLES"
      using m by (fastforce simp: list_all_iff)
    then have "n \<notin> fst ` set (map (\<lambda>(r, s). (leaf (trb_taskId (trf_binding f)) r, s)) (fr_moves (row_of op)))"
      using that by blast
    from fold_other [OF this] p show ?thesis by (simp add: apply_effects_fold implements_row_def)
  qed
qed

definition next_index :: "string option \<Rightarrow> nat" where
  "next_index r = (case r of None \<Rightarrow> 5 | Some r \<Rightarrow> role_index r)"

text \<open>The table keeps the frontier: a finite check over the eleven operations.\<close>

definition moved :: "(string \<times> string) list \<Rightarrow> bool list \<Rightarrow> bool list" where
  "moved moves old = map (\<lambda>(r, b). case map_of (rev moves) r of None \<Rightarrow> b | Some s \<Rightarrow> settled s) (zip TASK_STEP_ROLES old)"

lemma table_frontier:
  assumes "op \<in> set OPERATIONS"
  shows "moved (fr_moves (row_of op)) (replicate (role_index (fr_stage (row_of op))) True
           @ replicate (5 - role_index (fr_stage (row_of op))) False) =
         replicate (next_index (fr_next (row_of op))) True @ replicate (5 - next_index (fr_next (row_of op))) False"
proof -
  have "list_all (\<lambda>op. moved (fr_moves (row_of op)) (replicate (role_index (fr_stage (row_of op))) True
           @ replicate (5 - role_index (fr_stage (row_of op))) False) =
         replicate (next_index (fr_next (row_of op))) True @ replicate (5 - next_index (fr_next (row_of op))) False)
       OPERATIONS"
    by code_simp
  then show ?thesis using assms by (simp add: list_all_iff)
qed

lemma frontier_row:
  assumes t: "is_text (trb_taskId (trf_binding f))" and op: "op \<in> set OPERATIONS" and p: "implements_row f op p"
    and st: "frontier st (trb_taskId (trf_binding f)) (role_index (fr_stage (row_of op)))"
  shows "frontier (apply_effects (trp_effects p) st) (trb_taskId (trf_binding f)) (next_index (fr_next (row_of op)))"
proof -
  let ?t = "trb_taskId (trf_binding f)"
  have "map (\<lambda>r. settled (apply_effects (trp_effects p) st (leaf ?t r))) TASK_STEP_ROLES
      = moved (fr_moves (row_of op)) (map (\<lambda>r. settled (st (leaf ?t r))) TASK_STEP_ROLES)"
    unfolding moved_def zip_map2 zip_same_conv_map
    by (simp add: apply_row(1) [OF t op p] split: option.split)
  also have "\<dots> = replicate (next_index (fr_next (row_of op))) True @ replicate (5 - next_index (fr_next (row_of op))) False"
    using st table_frontier [OF op] by (simp add: frontier_def)
  finally show ?thesis by (simp add: frontier_def)
qed

subsection \<open>Where a stage leads\<close>

lemma wf_task_text: "wf_TaskReviewStageFacts f \<Longrightarrow> is_text (trb_taskId (trf_binding f))"
  by (simp add: wf_TaskReviewStageFacts_def wf_TaskReviewStageBinding_def)

lemma target_of_row:
  assumes f: "wf_TaskReviewStageFacts f" and p: "resolveTaskReviewStageTransition f = Inr p"
    and r: "r \<in> set TASK_STEP_ROLES"
    and target: "trp_targetStepId p = Some (leaf (trb_taskId (trf_binding f)) r)"
  shows "fr_next (row_of (trp_operation p)) = Some r"
proof -
  let ?op = "trp_operation p"
  have op: "taskReviewStageOperation f = Inr ?op" "implements_row f ?op p"
    using resolve_operation [OF f p] by auto
  have "list_all (\<lambda>op. case fr_next (row_of op) of None \<Rightarrow> True | Some r \<Rightarrow> r \<in> set TASK_STEP_ROLES) OPERATIONS"
    by code_simp
  then have roles: "case fr_next (row_of ?op) of None \<Rightarrow> True | Some r \<Rightarrow> r \<in> set TASK_STEP_ROLES"
    using operation_stage [OF f op(1)] by (simp add: list_all_iff)
  show ?thesis
    using op(2) target roles leaf_inj [OF wf_task_text [OF f] wf_task_text [OF f] _ r]
    by (cases "fr_next (row_of ?op)") (auto simp: implements_row_def)
qed

lemma target_iff:
  assumes f: "wf_TaskReviewStageFacts f" and p: "resolveTaskReviewStageTransition f = Inr p" and r: "r \<in> set TASK_STEP_ROLES"
  shows "trp_targetStepId p = Some (leaf (trb_taskId (trf_binding f)) r) \<longleftrightarrow> fr_next (row_of (trp_operation p)) = Some r"
  using target_of_row [OF f p r] resolve_operation [OF f p] by (auto simp: implements_row_def)

lemma funnel_moves:
  assumes f: "wf_TaskReviewStageFacts f" and op: "taskReviewStageOperation f = Inr op"
  shows "fr_next (row_of op) = Some ''triage'' \<longleftrightarrow> trb_stage (trf_binding f) = ''review'' \<and> trf_verdict f \<noteq> Some ''UNAVAILABLE'' \<and> \<not> no_findings (trf_findingCount f)"
    and "fr_next (row_of op) = Some ''repair'' \<longleftrightarrow>
      trb_stage (trf_binding f) = ''triage'' \<and> trf_triageDisposition f \<noteq> Some ''all-reject'' \<and> \<not> trf_sourceNoChange f"
    and "fr_next (row_of op) = Some ''review'' \<longleftrightarrow> trb_stage (trf_binding f) = ''repair'' \<and> trf_reviewResultCount f < 4"
    and "fr_next (row_of op) = Some ''impl'' \<longleftrightarrow>
      trb_stage (trf_binding f) = ''triage'' \<and> trf_triageDisposition f \<noteq> Some ''all-reject'' \<and> trf_sourceNoChange f \<and> trf_taskRound f = 1"
proof -
  have round: "trf_taskRound f \<noteq> 2 \<longleftrightarrow> trf_taskRound f = 1" using f by (auto simp: wf_TaskReviewStageFacts_def)
  note ops = operation_review operation_triage operation_repair [OF _ f] funnel_table_def
  show "fr_next (row_of op) = Some ''triage'' \<longleftrightarrow> trb_stage (trf_binding f) = ''review'' \<and> trf_verdict f \<noteq> Some ''UNAVAILABLE'' \<and> \<not> no_findings (trf_findingCount f)"
    using stage_cases [OF f] op by (elim disjE) (auto simp: ops split: if_splits)
  show "fr_next (row_of op) = Some ''repair'' \<longleftrightarrow>
      trb_stage (trf_binding f) = ''triage'' \<and> trf_triageDisposition f \<noteq> Some ''all-reject'' \<and> \<not> trf_sourceNoChange f"
    using stage_cases [OF f] op by (elim disjE) (auto simp: ops split: if_splits)
  show "fr_next (row_of op) = Some ''review'' \<longleftrightarrow> trb_stage (trf_binding f) = ''repair'' \<and> trf_reviewResultCount f < 4"
    using stage_cases [OF f] op by (elim disjE) (auto simp: ops split: if_splits)
  show "fr_next (row_of op) = Some ''impl'' \<longleftrightarrow>
      trb_stage (trf_binding f) = ''triage'' \<and> trf_triageDisposition f \<noteq> Some ''all-reject'' \<and> trf_sourceNoChange f \<and> trf_taskRound f = 1"
    using stage_cases [OF f] op round by (elim disjE) (auto simp: ops split: if_splits)
qed

subsection \<open>Plans as persisted values\<close>

definition wf_TaskReviewStageTransitionPlan :: "TaskReviewStageTransitionPlan \<Rightarrow> bool" where
  "wf_TaskReviewStageTransitionPlan p \<longleftrightarrow> wf_TaskReviewStageFacts (trp_facts p) \<and> trp_operation p \<in> set OPERATIONS \<and>
     list_all wf_TaskReviewStageStepEffect (trp_effects p) \<and>
     pred_option (\<lambda>s. js_trim s \<noteq> []) (trp_targetStepId p) \<and>
     trp_reviewBudgetConsumed p = review_budget (trp_facts p) \<and>
     trp_continuationDecision p = (if trp_operation p \<in> {''review-no-change-complete'', ''triage-no-change-complete''}
       then Some ''continue'' else None) \<and>
     pred_option is_text (trp_terminalReason p) \<and> fingerprint (trp_unsigned p) = Inr (trp_identity p)"

lemma trp_unsigned_identity [simp]: "trp_unsigned (p\<lparr>trp_identity := h\<rparr>) = trp_unsigned p"
  by (simp add: trp_unsigned_def)

lemma nonblank_eq_Inr [simp]: "nonblank e v = Inr s \<longleftrightarrow> v = JStr s \<and> js_trim s \<noteq> []"
  by (auto simp: nonblank_def split: jsval.splits)

lemma nullable_nonblank [simp]:
  "pred_option (\<lambda>s. js_trim s \<noteq> []) x \<Longrightarrow> nullable (nonblank e) (js_opt JStr x) = Inr x"
  by (rule nullable_opt [where P = "\<lambda>s. js_trim s \<noteq> []"]) auto

lemma nullable_nonblank_wf: "nullable (nonblank e) v = Inr x \<Longrightarrow> pred_option (\<lambda>s. js_trim s \<noteq> []) x"
  by (erule nullable_wf) auto

lemma new_plan_wf:
  assumes "wf_TaskReviewStageFacts f" "list_all wf_TaskReviewStageStepEffect es"
    and "new_TaskReviewStageTransitionPlan f op es target budget unreviewed reason = Inr p"
  shows "wf_TaskReviewStageTransitionPlan p"
proof -
  from assms(3) obtain o' t b u r where
    parts: "lit_of OPERATIONS (Error ''Task Review stage plan operation is invalid'') op = Inr o'"
      "nullable (nonblank (Error ''Task Review stage plan targetStepId must be a non-empty string'')) target = Inr t"
      "b = review_budget f" "nullish (trs_text ''Task Review stage terminal reason'') reason = Inr r" and
    p: "fingerprint (trp_unsigned p) = Inr (trp_identity p)" "trp_facts p = f" "trp_operation p = o'" "trp_effects p = es"
      "trp_targetStepId p = t" "trp_reviewBudgetConsumed p = b" "trp_terminalReason p = r"
      "trp_continuationDecision p = (if o' \<in> {''review-no-change-complete'', ''triage-no-change-complete''}
       then Some ''continue'' else None)"
    unfolding new_TaskReviewStageTransitionPlan_def Let_def
    by (auto simp del: lit_of_eq_Inr nonblank_eq_Inr split del: if_split split: if_splits
        simp: trp_unsigned_def)
  show ?thesis
    using assms(1,2) parts p nullable_nonblank_wf [OF parts(2)] nullish_trs_text_wf [OF parts(4)]
    by (simp add: wf_TaskReviewStageTransitionPlan_def)
qed

lemma new_plan_self:
  assumes "wf_TaskReviewStageTransitionPlan p"
  shows "new_TaskReviewStageTransitionPlan (trp_facts p) (JStr (trp_operation p)) (trp_effects p)
    (js_opt JStr (trp_targetStepId p)) (JInt (int (trp_reviewBudgetConsumed p)))
    (JBool (trp_acceptanceUnreviewed p)) (js_opt JStr (trp_terminalReason p)) = Inr p"
  using assms budget_range [of "trp_facts p"]
  by (cases p) (simp add: new_TaskReviewStageTransitionPlan_def wf_TaskReviewStageTransitionPlan_def Let_def
      trp_unsigned_def split del: if_split)

interpretation stage_plan: json_codec taskReviewStagePlanFromJSON wf_TaskReviewStageTransitionPlan
  TaskReviewStageTransitionPlan_toJSON
proof (unfold_locales, goal_cases)
  case (1 v x)
  then obtain ob facts vs es op t b u r where
    "new_TaskReviewStageFacts (fld ob ''facts'') = Inr facts" and es: "mapE new_TaskReviewStageStepEffect vs = Inr es" and
    "new_TaskReviewStageTransitionPlan facts op es t b u r = Inr x"
    by (auto simp: taskReviewStagePlanFromJSON_def split: if_splits)
  moreover have "list_all wf_TaskReviewStageStepEffect es"
    using es unfolding mapE_eq_Inr by (induction rule: list_all2_induct) (auto intro: step_effect.mk_wf)
  ultimately show ?case using new_plan_wf stage_facts.mk_wf by blast
next
  case (2 x)
  have u: "undef_or (js_opt JStr y) d = js_opt JStr y" for y d by (cases y) (auto simp: undef_or_def)
  have "mapE new_TaskReviewStageStepEffect (map TaskReviewStageStepEffect_toJSON (trp_effects x)) = Inr (trp_effects x)"
    using 2 step_effect.mk_js
    by (auto simp: mapE_eq_Inr list_all_iff list_all2_conv_all_nth wf_TaskReviewStageTransitionPlan_def)
  moreover have "new_TaskReviewStageFacts (TaskReviewStageFacts_toJSON (trp_facts x)) = Inr (trp_facts x)"
    using 2 by (auto simp: wf_TaskReviewStageTransitionPlan_def intro: stage_facts.mk_js)
  ultimately show ?case using new_plan_self [OF 2]
    by (simp add: taskReviewStagePlanFromJSON_def TaskReviewStageTransitionPlan_toJSON_def effects_list_def u)
      (auto simp: undef_or_def)
qed (simp add: TaskReviewStageTransitionPlan_toJSON_def)

lemma js_trim_blank: "js_trim s = [] \<Longrightarrow> c \<in> set s \<Longrightarrow> js_ws c"
proof -
  assume "js_trim s = []" "c \<in> set s"
  then have "\<forall>x\<in>set (dropWhile js_ws s). js_ws x" by (simp add: js_trim_def)
  moreover have "c \<in> set (takeWhile js_ws s) \<or> c \<in> set (dropWhile js_ws s)"
    using \<open>c \<in> set s\<close> takeWhile_dropWhile_id [of js_ws s] by (metis Un_iff set_append)
  ultimately show ?thesis by (auto dest: set_takeWhileD)
qed

lemma leaf_nonblank: "js_trim (leaf t r) \<noteq> []"
proof
  assume "js_trim (leaf t r) = []"
  then have "js_ws CHR ''-''" by (rule js_trim_blank) (simp add: leaf_def)
  then show False by (simp add: js_ws_def)
qed

lemma trp_unsigned_object: "trp_unsigned p \<noteq> JUndef"
  by (simp add: trp_unsigned_def)

lemma plan_of_identity:
  "fingerprint (trp_unsigned (plan_of f op es n u)) = Inr (trp_identity (plan_of f op es n u))"
  unfolding plan_of_def Let_def trp_unsigned_identity fingerprint_total [OF trp_unsigned_object]
  by (simp only: TaskReviewStageTransitionPlan.simps)

lemma plan_of_sel:
  "trp_facts (plan_of f op es n u) = f" "trp_operation (plan_of f op es n u) = op"
  "trp_effects (plan_of f op es n u) = map (entry_effect (trb_taskId (trf_binding f))) es"
  "trp_targetStepId (plan_of f op es n u) = map_option (leaf (trb_taskId (trf_binding f))) n"
  "trp_reviewBudgetConsumed (plan_of f op es n u) = review_budget f"
  "trp_continuationDecision (plan_of f op es n u) =
     (if op \<in> {''review-no-change-complete'', ''triage-no-change-complete''} then Some ''continue'' else None)"
  "trp_terminalReason (plan_of f op es n u) = None"
  by (simp_all add: plan_of_def Let_def)

lemma resolve_wf:
  assumes f: "wf_TaskReviewStageFacts f" and p: "resolveTaskReviewStageTransition f = Inr p"
  shows "wf_TaskReviewStageTransitionPlan p"
proof -
  obtain op where op: "taskReviewStageOperation f = Inr op" using resolve_operation [OF f p] by blast
  obtain entries where e: "list_all valid_entry entries"
    "p = plan_of f op entries (fr_next (row_of op)) (fr_unreviewed (row_of op))"
    using resolve_ok [OF f op] p by auto
  have "wf_TaskReviewStageStepEffect (entry_effect (trb_taskId (trf_binding f)) x)" if "x \<in> set entries" for x
    using e(1) that leaf_text [OF wf_task_text [OF f], of "fst x"]
    by (auto simp: list_all_iff valid_entry_def wf_TaskReviewStageStepEffect_def entry_effect_def)
  moreover have "pred_option (\<lambda>s. js_trim s \<noteq> []) (map_option (leaf (trb_taskId (trf_binding f))) n)" for n
    by (cases n) (auto simp: leaf_nonblank)
  ultimately show ?thesis
    unfolding e(2) wf_TaskReviewStageTransitionPlan_def plan_of_sel plan_of_identity
    using f operation_stage [OF f op] by (simp add: list_all_iff del: rows)
qed

subsection \<open>Accounting of review results\<close>

definition MAXIMUM_TASK_REVIEW_RESULTS :: nat where
  "MAXIMUM_TASK_REVIEW_RESULTS = 4"

record ReviewHistoryEntry =
  rhe_attempt :: nat
  rhe_payload :: jsval

record ActiveAttempt =
  aat_nodeId :: string
  aat_sequence :: nat

record TaskReviewAccounting =
  tra_taskId :: string
  tra_budget :: TaskExecutionBudget
  tra_activeAttempt :: "ActiveAttempt option"
  tra_roundEndAttemptSequence :: "nat option"
  tra_completed :: "ReviewHistoryEntry list"
  tra_completedReviewCount :: nat
  tra_inflightReviewOrdinal :: "nat option"

definition over_limit :: "nat option \<Rightarrow> bool" where
  "over_limit n = (case n of None \<Rightarrow> False | Some n \<Rightarrow> n > MAXIMUM_TASK_REVIEW_RESULTS)"

lemma over_limit_simps [simp]:
  "\<not> over_limit None" "over_limit (Some n) \<longleftrightarrow> n > 4"
  by (simp_all add: over_limit_def MAXIMUM_TASK_REVIEW_RESULTS_def)

definition new_TaskReviewAccounting ::
  "jsval \<Rightarrow> TaskExecutionBudget \<Rightarrow> ReviewHistoryEntry list \<Rightarrow> ActiveAttempt option \<Rightarrow> jsval \<Rightarrow> TaskReviewAccounting res" where
  "new_TaskReviewAccounting taskId budget history active roundEnd =
     bindE (trs_text ''Task Review accounting taskId'' taskId) (\<lambda>t.
     bindE (nullable (int_from (int (teb_reviewAttemptSequenceAtStart budget))
              (Error ''Task Review accounting round end is invalid'')) roundEnd) (\<lambda>end.
     bindE (new_TaskStepIdentity (JStr t) (JStr ''review'')) (\<lambda>identity.
     if (case active of None \<Rightarrow> False | Some a \<Rightarrow> \<not> matchesNode identity (JStr (aat_nodeId a)))
     then Inl (Error ''Task Review accounting active Attempt does not match its Task'') else
     let completed = filter (\<lambda>e. rhe_attempt e > teb_reviewAttemptSequenceAtStart budget
           \<and> (case end of None \<Rightarrow> True | Some n \<Rightarrow> rhe_attempt e \<le> n)) history in
     if length completed > MAXIMUM_TASK_REVIEW_RESULTS
     then Inl (Error ''Task Review completed result count exceeds the current Task round budget'') else
     let publishedActive = (case active of None \<Rightarrow> False
           | Some a \<Rightarrow> list_ex (\<lambda>e. rhe_attempt e = aat_sequence a) completed) in
     if (case active of None \<Rightarrow> False | Some a \<Rightarrow> list_ex (\<lambda>e. rhe_attempt e > aat_sequence a) completed)
     then Inl (Error ''Task Review accounting history is newer than its active Attempt'') else
     let inflight = (if active = None \<or> publishedActive then None else Some (length completed + 1)) in
     if over_limit inflight
     then Inl (Error ''Task Review inflight ordinal exceeds the current Task round budget'')
     else Inr \<lparr>tra_taskId = t, tra_budget = budget, tra_activeAttempt = active, tra_roundEndAttemptSequence = end,
               tra_completed = completed, tra_completedReviewCount = length completed,
               tra_inflightReviewOrdinal = inflight\<rparr>)))"

subsection \<open>Sample facts\<close>

definition sample_binding :: "string \<Rightarrow> TaskReviewStageBinding" where
  "sample_binding stage = \<lparr>trb_runId = ''r'', trb_specId = ''s'', trb_taskId = ''T1'', trb_stage = stage,
     trb_attemptId = ''A1'', trb_attemptSequence = 1, trb_sourceFingerprint = sample_sha,
     trb_artifactDigest = sample_sha, trb_catalogFingerprint = sample_sha\<rparr>"

definition sample_review :: TaskReviewStageFacts where
  "sample_review = \<lparr>trf_binding = sample_binding ''review'', trf_taskRound = 1, trf_reviewResultCount = 1,
     trf_verdict = Some ''REJECTED'', trf_mustFixCount = Some 1, trf_findingCount = Some 1, trf_sourceNoChange = False,
     trf_triageDisposition = None, trf_repairChanged = None, trf_sameReviewBinding = False,
     trf_noChangeContinuation = None, trf_acceptanceCarryForwardReady = False, trf_reason = None, trf_unavailable = None\<rparr>"

definition sample_triage :: TaskReviewStageFacts where
  "sample_triage = sample_review\<lparr>trf_binding := sample_binding ''triage'', trf_triageDisposition := Some ''apply'',
     trf_sameReviewBinding := True, trf_reason := Some ''fix it''\<rparr>"

lemmas sample_simps = sample_binding_def sample_review_def sample_triage_def wf_TaskReviewStageFacts_def
  wf_TaskReviewStageBinding_def assertStageShape_def assertContinuationBinding_def STAGES_def VERDICTS_def
  SEMANTIC_VERDICTS_def TRIAGE_DISPOSITIONS_def semantic_verdict_def no_findings_def is_text_def js_trim_def
  js_ws_def is_safe_def max_safe_def

lemma sample_review_wf: "wf_TaskReviewStageFacts sample_review"
  by (simp add: sample_simps)

lemma sample_review_operation: "taskReviewStageOperation sample_review = Inr ''review-to-triage''"
  by (simp add: operation_review sample_review_def sample_binding_def no_findings_def)

lemma sample_review_plan:
  obtains p where "resolveTaskReviewStageTransition sample_review = Inr p" "implements_row sample_review ''review-to-triage'' p"
  using resolve_row [OF sample_review_wf sample_review_operation] by blast

subsection \<open>Properties\<close>

lemma next_target:
  assumes "op \<in> set OPERATIONS" "implements_row f op p"
  shows "trp_targetStepId p = (if next_index (fr_next (row_of op)) = 5 then None
    else Some (leaf (trb_taskId (trf_binding f)) (TASK_STEP_ROLES ! next_index (fr_next (row_of op)))))"
proof -
  have "list_all (\<lambda>op. fr_next (row_of op) = (if next_index (fr_next (row_of op)) = 5 then None
    else Some (TASK_STEP_ROLES ! next_index (fr_next (row_of op))))) OPERATIONS" by code_simp
  then have "fr_next (row_of op) = (if next_index (fr_next (row_of op)) = 5 then None
    else Some (TASK_STEP_ROLES ! next_index (fr_next (row_of op))))" using assms(1) by (simp add: list_all_iff)
  moreover have "trp_targetStepId p = map_option (leaf (trb_taskId (trf_binding f))) (fr_next (row_of op))"
    using assms(2) by (simp add: implements_row_def)
  ultimately show ?thesis by (metis option.map(1) option.map(2))
qed

text \<open>Claim C29. The review funnel keeps the leaf frontier of its Task: if everything before the active
  stage is settled and everything from it on is open, then after the effects of the plan everything
  before the next leaf is settled and everything from it on is open, the plan targets exactly that
  leaf (none when all five leaves are settled), and no leaf outside the Task is touched.\<close>

theorem review_funnel_frontier:
  assumes "new_TaskReviewStageFacts v = Inr f"
    and "resolveTaskReviewStageTransition f = Inr p"
    and "frontier st (trb_taskId (trf_binding f)) (role_index (trb_stage (trf_binding f)))"
  shows "\<exists>k. frontier (apply_effects (trp_effects p) st) (trb_taskId (trf_binding f)) k
    \<and> trp_targetStepId p = (if k = 5 then None else Some (leaf (trb_taskId (trf_binding f)) (TASK_STEP_ROLES ! k)))
    \<and> (\<forall>n. n \<notin> leaf (trb_taskId (trf_binding f)) ` set TASK_STEP_ROLES \<longrightarrow> apply_effects (trp_effects p) st n = st n)"
proof -
  let ?op = "trp_operation p"
  have f: "wf_TaskReviewStageFacts f" using assms(1) by (rule stage_facts.mk_wf)
  have op: "taskReviewStageOperation f = Inr ?op" and row: "implements_row f ?op p"
    using resolve_operation [OF f assms(2)] by auto
  have member: "?op \<in> set OPERATIONS" and stage: "fr_stage (row_of ?op) = trb_stage (trf_binding f)"
    using operation_stage [OF f op] by auto
  show ?thesis
    using frontier_row [OF wf_task_text [OF f] member row] assms(3) stage next_target [OF member row]
      apply_row(2) [OF wf_task_text [OF f] member row] by metis
qed

theorem review_funnel_frontier_witness:
  "\<exists>p. resolveTaskReviewStageTransition sample_review = Inr p \<and>
     (\<exists>k. frontier (apply_effects (trp_effects p) (\<lambda>n. if n = ''T1-impl'' then ''done'' else ''pending'')) ''T1'' k)"
proof -
  obtain p where p: "resolveTaskReviewStageTransition sample_review = Inr p" by (rule sample_review_plan)
  have t: "trb_taskId (trf_binding sample_review) = ''T1''" by (simp add: sample_review_def sample_binding_def)
  have "frontier (\<lambda>n. if n = ''T1-impl'' then ''done'' else ''pending'') (trb_taskId (trf_binding sample_review))
      (role_index (trb_stage (trf_binding sample_review)))"
    by (simp add: sample_review_def sample_binding_def frontier_def role_index_def TASK_STEP_ROLES_def settled_def
        leaf_def numeral_eq_Suc)
  from review_funnel_frontier [OF stage_facts.mk_js [OF sample_review_wf] p this] p show ?thesis
    unfolding t by blast
qed

text \<open>Claim C32. The plan of a stage is the row of its operation: the statuses of its leaves, the leaf
  that runs next and the Acceptance handoff are those of the table, the review budget is consumed
  exactly by a semantic review result, and the operation is the one the published Result kind of
  the stage stands for.\<close>

theorem review_funnel_table:
  assumes "new_TaskReviewStageFacts v = Inr f" and "resolveTaskReviewStageTransition f = Inr p"
  shows "implements_row f (trp_operation p) p \<and> fr_stage (row_of (trp_operation p)) = trb_stage (trf_binding f)
    \<and> (\<exists>m. new_TaskReviewStageMeaning f = Inr m \<and>
          taskReviewStageOperationForResultKind (tsm_resultKind m) = Inr (trp_operation p))"
proof -
  have f: "wf_TaskReviewStageFacts f" using assms(1) by (rule stage_facts.mk_wf)
  have op: "taskReviewStageOperation f = Inr (trp_operation p)" using resolve_operation [OF f assms(2)] by simp
  show ?thesis
    using resolve_operation [OF f assms(2)] operation_stage [OF f op] new_meaning [OF f op] by blast
qed

theorem review_funnel_table_witness:
  "\<exists>p. resolveTaskReviewStageTransition sample_review = Inr p \<and> trp_targetStepId p = Some ''T1-triage''
     \<and> trp_reviewBudgetConsumed p = 1"
proof -
  obtain p where p: "resolveTaskReviewStageTransition sample_review = Inr p"
      "implements_row sample_review ''review-to-triage'' p" by (rule sample_review_plan)
  from review_funnel_table [OF stage_facts.mk_js [OF sample_review_wf] p(1)] p
  have "implements_row sample_review ''review-to-triage'' p" by (simp add: implements_row_def)
  then show ?thesis using p(1)
    by (auto simp: implements_row_def funnel_table_def sample_review_def sample_binding_def leaf_def review_budget_def)
qed

lemma continuation_eligible_iff:
  "wf_TaskReviewStageFacts f \<Longrightarrow> continuation_eligible f \<longleftrightarrow> trf_noChangeContinuation f \<noteq> None"
proof -
  have "ncs_eligible sel" if "wf_TaskNoChangeContinuationSelection sel" for sel
    using that unfolding wf_TaskNoChangeContinuationSelection_def
    by (metis TaskNoChangeContinuationSelection.select_convs(4) new_TaskNoChangeContinuationSelection_def)
  then show "wf_TaskReviewStageFacts f \<Longrightarrow> continuation_eligible f \<longleftrightarrow> trf_noChangeContinuation f \<noteq> None"
    by (auto simp: continuation_eligible_def wf_TaskReviewStageFacts_def split: option.splits)
qed

lemma resolve_Inl_iff:
  "wf_TaskReviewStageFacts f \<Longrightarrow>
   (\<exists>e. resolveTaskReviewStageTransition f = Inl e) \<longleftrightarrow> (\<exists>e. taskReviewStageOperation f = Inl e)"
proof (cases "taskReviewStageOperation f")
  case (Inr op)
  assume "wf_TaskReviewStageFacts f"
  then obtain p where "resolveTaskReviewStageTransition f = Inr p" using resolve_row Inr by blast
  with Inr show ?thesis by simp
qed (simp add: resolve_error)

lemma review_findings: "wf_TaskReviewStageFacts f \<Longrightarrow> trb_stage (trf_binding f) = ''review'' \<Longrightarrow>
  no_findings (trf_findingCount f) \<longleftrightarrow> trf_findingCount f = Some 0"
  by (cases "trf_findingCount f")
    (auto simp: no_findings_def wf_TaskReviewStageFacts_def assertStageShape_def Let_def)

text \<open>Claim C31. The funnel is stuck in three situations and in no other: a Task without source changes
  that would complete (no findings at review, all findings rejected at triage) has no continuation
  evidence, or a fourth repair is not ready to hand its unreviewed work to Acceptance.\<close>

theorem review_funnel_stops:
  assumes "new_TaskReviewStageFacts v = Inr f"
  shows "(\<exists>e. resolveTaskReviewStageTransition f = Inl e) \<longleftrightarrow>
      (trb_stage (trf_binding f) = ''review'' \<and> trf_verdict f \<noteq> Some ''UNAVAILABLE'' \<and> trf_findingCount f = Some 0
         \<and> trf_sourceNoChange f \<and> trf_noChangeContinuation f = None)
    \<or> (trb_stage (trf_binding f) = ''triage'' \<and> trf_triageDisposition f = Some ''all-reject''
         \<and> trf_sourceNoChange f \<and> trf_noChangeContinuation f = None)
    \<or> (trb_stage (trf_binding f) = ''repair'' \<and> trf_reviewResultCount f = 4 \<and> \<not> trf_acceptanceCarryForwardReady f)"
    (is "_ \<longleftrightarrow> ?stuck")
proof -
  have f: "wf_TaskReviewStageFacts f" using assms by (rule stage_facts.mk_wf)
  have count: "trf_reviewResultCount f \<le> 4" using f by (simp add: wf_TaskReviewStageFacts_def)
  show ?thesis
    unfolding resolve_Inl_iff [OF f]
    using stage_cases [OF f]
  proof (elim disjE)
    assume s: "trb_stage (trf_binding f) = ''review''"
    show "(\<exists>e. taskReviewStageOperation f = Inl e) \<longleftrightarrow> ?stuck"
      by (auto simp: operation_review [OF s] s continuation_eligible_iff [OF f] review_findings [OF f s])
  next
    assume s: "trb_stage (trf_binding f) = ''triage''"
    show "(\<exists>e. taskReviewStageOperation f = Inl e) \<longleftrightarrow> ?stuck"
      by (auto simp: operation_triage [OF s] s continuation_eligible_iff [OF f])
  next
    assume s: "trb_stage (trf_binding f) = ''repair''"
    show "(\<exists>e. taskReviewStageOperation f = Inl e) \<longleftrightarrow> ?stuck"
      using count by (auto simp: operation_repair [OF s f] s)
  qed
qed

theorem review_funnel_stops_witness: "\<not> (\<exists>e. resolveTaskReviewStageTransition sample_review = Inl e)"
  using review_funnel_stops [OF stage_facts.mk_js [OF sample_review_wf]]
  by (simp add: sample_review_def sample_binding_def)

text \<open>Claim C30. The loops of the review funnel are bounded by its counters: a plan leads back to the Review exactly
  from a repair with fewer than four review results, and back to the implementation exactly from a triage in the
  first round that keeps a finding of an unchanged source.  Forward, it leads to the triage exactly from an available
  Review with findings and to the repair exactly from a triage that keeps a finding of a changed source.\<close>

theorem review_funnel_reentry:
  assumes "new_TaskReviewStageFacts v = Inr f" and "resolveTaskReviewStageTransition f = Inr p"
  shows "(trp_targetStepId p = Some (leaf (trb_taskId (trf_binding f)) ''review'') \<longleftrightarrow>
      trb_stage (trf_binding f) = ''repair'' \<and> trf_reviewResultCount f < 4)
    \<and> (trp_targetStepId p = Some (leaf (trb_taskId (trf_binding f)) ''impl'') \<longleftrightarrow>
      trb_stage (trf_binding f) = ''triage'' \<and> trf_triageDisposition f \<noteq> Some ''all-reject'' \<and> trf_sourceNoChange f \<and> trf_taskRound f = 1)
    \<and> (trp_targetStepId p = Some (leaf (trb_taskId (trf_binding f)) ''triage'') \<longleftrightarrow>
      trb_stage (trf_binding f) = ''review'' \<and> trf_verdict f \<noteq> Some ''UNAVAILABLE'' \<and> \<not> no_findings (trf_findingCount f))
    \<and> (trp_targetStepId p = Some (leaf (trb_taskId (trf_binding f)) ''repair'') \<longleftrightarrow>
      trb_stage (trf_binding f) = ''triage'' \<and> trf_triageDisposition f \<noteq> Some ''all-reject'' \<and> \<not> trf_sourceNoChange f)"
proof -
  have f: "wf_TaskReviewStageFacts f" by (rule stage_facts.mk_wf [OF assms(1)])
  have op: "taskReviewStageOperation f = Inr (trp_operation p)" using resolve_operation [OF f assms(2)] by blast
  have roles: "''impl'' \<in> set TASK_STEP_ROLES" "''review'' \<in> set TASK_STEP_ROLES" "''triage'' \<in> set TASK_STEP_ROLES" "''repair'' \<in> set TASK_STEP_ROLES"
    by (simp_all add: TASK_STEP_ROLES_def)
  show ?thesis unfolding target_iff [OF f assms(2) roles(1)] target_iff [OF f assms(2) roles(2)] target_iff [OF f assms(2) roles(3)]
      target_iff [OF f assms(2) roles(4)] using funnel_moves [OF f op] by blast
qed

theorem review_funnel_reentry_witness:
  "\<exists>p. resolveTaskReviewStageTransition sample_review = Inr p
     \<and> trp_targetStepId p = Some (leaf (trb_taskId (trf_binding sample_review)) ''triage'')"
proof -
  obtain p where p: "resolveTaskReviewStageTransition sample_review = Inr p" by (rule sample_review_plan)
  have "trb_stage (trf_binding sample_review) = ''review''" "trf_verdict sample_review \<noteq> Some ''UNAVAILABLE''" "\<not> no_findings (trf_findingCount sample_review)"
    by (simp_all add: sample_review_def sample_binding_def no_findings_def)
  then show ?thesis using review_funnel_reentry [OF stage_facts.mk_js [OF sample_review_wf] p] p by blast
qed

text \<open>Stage facts and the plan derived from them are rebuilt unchanged from their persisted
  JSON, the identity digest included.\<close>

theorem review_plan_roundtrip:
  assumes "new_TaskReviewStageFacts v = Inr f" and "resolveTaskReviewStageTransition f = Inr p"
  shows "new_TaskReviewStageFacts (TaskReviewStageFacts_toJSON f) = Inr f
    \<and> taskReviewStagePlanFromJSON (TaskReviewStageTransitionPlan_toJSON p) = Inr p"
  using stage_facts.reparse [OF assms(1)] stage_plan.mk_js [OF resolve_wf [OF stage_facts.mk_wf [OF assms(1)] assms(2)]]
  by simp

theorem review_plan_roundtrip_witness:
  "\<exists>p. resolveTaskReviewStageTransition sample_review = Inr p
     \<and> taskReviewStagePlanFromJSON (TaskReviewStageTransitionPlan_toJSON p) = Inr p"
proof -
  obtain p where p: "resolveTaskReviewStageTransition sample_review = Inr p" by (rule sample_review_plan)
  from review_plan_roundtrip [OF stage_facts.mk_js [OF sample_review_wf] p] p show ?thesis by blast
qed

text \<open>A review accounting that is accepted never exceeds the four results of a round: at most
  four completed results lie in its window, and the ordinal of a review in flight is the next one,
  again at most four, all completed results being older than the active Attempt.\<close>

theorem review_accounting_bounds:
  assumes "new_TaskReviewAccounting t b h active roundEnd = Inr a"
  shows "tra_completedReviewCount a = length (tra_completed a) \<and> tra_completedReviewCount a \<le> 4
    \<and> (\<forall>n. tra_inflightReviewOrdinal a = Some n \<longrightarrow> n = tra_completedReviewCount a + 1 \<and> n \<le> 4
        \<and> (\<exists>x. active = Some x \<and> (\<forall>e\<in>set (tra_completed a). rhe_attempt e < aat_sequence x)))"
proof (cases active)
  case None
  with assms show ?thesis
    by (auto simp: new_TaskReviewAccounting_def Let_def MAXIMUM_TASK_REVIEW_RESULTS_def split: if_splits)
next
  case (Some x)
  let ?newer = "list_ex (\<lambda>e. rhe_attempt e > aat_sequence x) (tra_completed a)"
  let ?published = "list_ex (\<lambda>e. rhe_attempt e = aat_sequence x) (tra_completed a)"
  have "tra_completedReviewCount a = length (tra_completed a)" "length (tra_completed a) \<le> 4" "\<not> ?newer"
    "tra_inflightReviewOrdinal a = (if ?published then None else Some (length (tra_completed a) + 1))"
    "\<not> over_limit (tra_inflightReviewOrdinal a)"
    using assms Some unfolding new_TaskReviewAccounting_def Let_def MAXIMUM_TASK_REVIEW_RESULTS_def
    by (auto split: if_splits)
  then show ?thesis using Some by (auto simp: list_ex_iff split: if_splits) (meson linorder_neqE_nat)
qed

definition sample_accounting :: "TaskReviewAccounting res" where
  "sample_accounting = new_TaskReviewAccounting (JStr ''T1'')
     \<lparr>teb_round = 1, teb_reviewAttemptSequenceAtStart = 0, teb_gateAttemptSequenceAtStart = 0\<rparr>
     [\<lparr>rhe_attempt = 1, rhe_payload = JNull\<rparr>] (Some \<lparr>aat_nodeId = ''T1-review'', aat_sequence = 2\<rparr>) JNull"

theorem review_accounting_bounds_witness:
  "\<exists>a. sample_accounting = Inr a \<and> tra_completedReviewCount a \<le> 4 \<and> tra_inflightReviewOrdinal a = Some 2"
proof -
  have "\<exists>a. sample_accounting = Inr a \<and> tra_inflightReviewOrdinal a = Some 2"
    by (simp add: sample_accounting_def new_TaskReviewAccounting_def trs_text_def text_or_def js_trim_def js_ws_def
        nullable_def new_TaskStepIdentity_def requiredText_def TASK_STEP_ROLES_def matchesNode_def tsi_nodeId_def
        Let_def MAXIMUM_TASK_REVIEW_RESULTS_def)
  then obtain a where a: "sample_accounting = Inr a" "tra_inflightReviewOrdinal a = Some 2" by blast
  from review_accounting_bounds [OF a(1) [unfolded sample_accounting_def]] a show ?thesis by blast
qed

lemma selected_without_triage:
  "selectTaskNoChangeContinuation c = Inr sel \<Longrightarrow> ncf_review_verdict c \<noteq> ''REJECTED'' \<Longrightarrow> ncf_triage c = None"
  by (auto simp: selectTaskNoChangeContinuation_def split: if_splits)

text \<open>Claim C33. A Task without source changes whose review is advisory and whose findings triage
  rejects as a whole cannot leave triage: the continuation Definition selects for such a review must
  carry no triage evidence, while the facts of the triage stage require the triage digest in it.\<close>

theorem advisory_all_reject_stuck:
  assumes "new_TaskReviewStageFacts v = Inr f"
    and "trb_stage (trf_binding f) = ''triage''" "trf_triageDisposition f = Some ''all-reject''" "trf_sourceNoChange f"
    and "trf_verdict f = Some verdict" "verdict \<noteq> ''REJECTED''"
    and selected: "\<And>sel. trf_noChangeContinuation f = Some sel \<Longrightarrow>
      selectTaskNoChangeContinuation (ncs_facts sel) = Inr sel \<and> ncf_review_verdict (ncs_facts sel) = verdict"
  shows "\<exists>e. resolveTaskReviewStageTransition f = Inl e"
proof -
  have f: "wf_TaskReviewStageFacts f" using assms(1) by (rule stage_facts.mk_wf)
  have "trf_noChangeContinuation f = None"
  proof (rule ccontr)
    assume "trf_noChangeContinuation f \<noteq> None"
    then obtain sel where sel: "trf_noChangeContinuation f = Some sel" by auto
    then have "ncf_triage (ncs_facts sel) = None" using selected [OF sel] selected_without_triage assms(6) by blast
    moreover have "assertContinuationBinding f = Inr ()" using f by (simp add: wf_TaskReviewStageFacts_def)
    ultimately show False
      using sel assms(2) by (auto simp: assertContinuationBinding_def producerDigest_def split: if_splits)
  qed
  then show ?thesis unfolding resolve_Inl_iff [OF f] using assms(3,4) f
    by (simp add: operation_triage [OF assms(2)] continuation_eligible_iff)
qed

definition sample_advisory :: TaskReviewStageFacts where
  "sample_advisory = sample_triage\<lparr>trf_verdict := Some ''ADVISORY'', trf_mustFixCount := Some 0,
     trf_sourceNoChange := True, trf_triageDisposition := Some ''all-reject''\<rparr>"

theorem advisory_all_reject_stuck_witness: "\<exists>e. resolveTaskReviewStageTransition sample_advisory = Inl e"
proof -
  have wf: "wf_TaskReviewStageFacts sample_advisory" by (simp add: sample_advisory_def sample_simps)
  show ?thesis
    by (rule advisory_all_reject_stuck [OF stage_facts.mk_js [OF wf], of "''ADVISORY''"])
      (simp_all add: sample_advisory_def sample_triage_def sample_review_def sample_binding_def)
qed

text \<open>A continuation read back from JSON is only checked against its own reason and handoff id: the
  checks of the selection itself are not repeated.\<close>

lemma persisted_continuation_unchecked:
  "wf_TaskNoChangeContinuationFacts c \<Longrightarrow> taskNoChangeContinuationFromJSON
     (TaskNoChangeContinuationSelection_toJSON (new_TaskNoChangeContinuationSelection c)) =
     Inr (new_TaskNoChangeContinuationSelection c)"
  by (rule continuation.mk_js) (simp add: wf_TaskNoChangeContinuationSelection_def new_TaskNoChangeContinuationSelection_def)

end
