(* ===== verification/Gate_Facts.thy ===== *)
theory Gate_Facts
  imports Task_Review_Stage
begin

section \<open>Gate transition facts\<close>

text \<open>
  Models \<open>src/flow/lib/gate-transition.js\<close>: the immutable value classes from which Definition
  decides a Gate (Attempt identity, catalog publication, failure category, lineage, recovery
  evidence, review readiness, retry metrics, producer and target binding, Task lifecycle, budget and
  settlement progress, observation convergence), the complete facts with their cross-field rules,
  and the integrity check.  Every class has its validating constructor, its \<open>toJSON\<close> and the codec
  law; a constructor argument that is already an instance of the class is not a separate case.
\<close>

subsection \<open>Literals and validators\<close>

definition GATE_PHASES :: "string list" where
  "GATE_PHASES = [''draft'', ''spec'', ''task-spec'', ''task-impl'', ''integration'']"

definition GATE_SCOPES :: "string list" where
  "GATE_SCOPES = [''flow'', ''task'']"

definition GATE_RESULTS :: "string list" where
  "GATE_RESULTS = [''pass'', ''fail'', ''recovered'']"

definition FAILURE_CATEGORIES :: "string list" where
  "FAILURE_CATEGORIES = [''semantic'', ''local'', ''tooling'']"

definition LOCAL_FAILURE_KINDS :: "string list" where
  "LOCAL_FAILURE_KINDS = [''mechanical'', ''mechanical_guardrail_fail'']"

definition RECOVERY_KINDS :: "string list" where
  "RECOVERY_KINDS = [''none'', ''repair'', ''defer'', ''recovered'']"

definition POST_PUBLICATION_STATES :: "string list" where
  "POST_PUBLICATION_STATES = [''unclassified'', ''classified'']"

definition gt_text :: "string \<Rightarrow> jsval \<Rightarrow> string res" where
  "gt_text field = text_or (Error (field @ '' is required''))"

definition gt_optional :: "string \<Rightarrow> jsval \<Rightarrow> string option res" where
  "gt_optional field = nullish (gt_text field)"

definition nonNegativeInteger :: "string \<Rightarrow> jsval \<Rightarrow> nat res" where
  "nonNegativeInteger field = int_from 0 (Error (field @ '' must be a non-negative integer''))"

definition positiveInteger :: "string \<Rightarrow> jsval \<Rightarrow> nat res" where
  "positiveInteger field = int_from 1 (Error (field @ '' must be a positive integer''))"

definition requireObject :: "string \<Rightarrow> jsval \<Rightarrow> jsfields res" where
  "requireObject field = object_or (Error (field @ '' must be an object''))"

text \<open>\<open>requiredText\<close> followed by the membership test of a literal set.\<close>

definition gt_literal :: "string list \<Rightarrow> string \<Rightarrow> string \<Rightarrow> jsval \<Rightarrow> string res" where
  "gt_literal S field message v = bindE (gt_text field v) (one_of S (Error message))"

definition taskGateStepId :: "jsval \<Rightarrow> string \<Rightarrow> string res" where
  "taskGateStepId taskId role = bindE (gt_text ''gate Task id'' taskId) (\<lambda>t.
     bindE (new_TaskStepIdentity (JStr t) (JStr role)) (\<lambda>i. Inr (tsi_nodeId i)))"

definition taskGateBindingIsValid :: "string option \<Rightarrow> string \<Rightarrow> bool res" where
  "taskGateBindingIsValid taskId stepId =
     bindE (taskGateStepId (js_opt JStr taskId) ''gate'') (\<lambda>n. Inr (stepId = n))"

lemma gt_text_eq_Inr [simp]: "gt_text f v = Inr t \<longleftrightarrow> (\<exists>s. v = JStr s \<and> js_trim s = t \<and> t \<noteq> [])"
  by (simp add: gt_text_def)

lemma gt_text_text [simp]: "is_text t \<Longrightarrow> gt_text f (JStr t) = Inr t"
  by (simp add: gt_text_def)

lemma gt_optional_wf: "gt_optional f v = Inr x \<Longrightarrow> pred_option is_text x"
  unfolding gt_optional_def gt_text_def by (rule nullish_text_wf)

lemma gt_optional_text [simp]: "pred_option is_text x \<Longrightarrow> gt_optional f (js_opt JStr x) = Inr x"
  by (simp add: gt_optional_def gt_text_def)

lemma gt_literal_wf: "gt_literal S f m v = Inr t \<Longrightarrow> t \<in> set S"
  by (auto simp: gt_literal_def)

lemma gt_literal_text [simp]: "t \<in> set S \<Longrightarrow> is_text t \<Longrightarrow> gt_literal S f m (JStr t) = Inr t"
  by (simp add: gt_literal_def)

lemma nonNegativeInteger_wf: "nonNegativeInteger f v = Inr n \<Longrightarrow> is_safe n"
  by (auto simp: nonNegativeInteger_def is_safe_def)

lemma nonNegativeInteger_int [simp]: "is_safe n \<Longrightarrow> nonNegativeInteger f (JInt (int n)) = Inr n"
  by (simp add: nonNegativeInteger_def)

lemma positiveInteger_wf: "positiveInteger f v = Inr n \<Longrightarrow> is_safe n \<and> 1 \<le> n"
  by (auto simp: positiveInteger_def is_safe_def)

lemma positiveInteger_int [simp]: "is_safe n \<Longrightarrow> 1 \<le> n \<Longrightarrow> positiveInteger f (JInt (int n)) = Inr n"
  by (simp add: positiveInteger_def)

lemma literal_texts:
  "list_all is_text GATE_PHASES" "list_all is_text GATE_SCOPES" "list_all is_text GATE_RESULTS"
  "list_all is_text FAILURE_CATEGORIES" "list_all is_text RECOVERY_KINDS" "list_all is_text POST_PUBLICATION_STATES"
  by (simp_all add: GATE_PHASES_def GATE_SCOPES_def GATE_RESULTS_def FAILURE_CATEGORIES_def RECOVERY_KINDS_def
      POST_PUBLICATION_STATES_def is_text_def js_trim_def js_ws_def)

lemma literal_text [simp]:
  "p \<in> set GATE_PHASES \<Longrightarrow> is_text p" "p \<in> set GATE_SCOPES \<Longrightarrow> is_text p" "p \<in> set GATE_RESULTS \<Longrightarrow> is_text p"
  "p \<in> set FAILURE_CATEGORIES \<Longrightarrow> is_text p" "p \<in> set RECOVERY_KINDS \<Longrightarrow> is_text p"
  "p \<in> set POST_PUBLICATION_STATES \<Longrightarrow> is_text p"
  using literal_texts by (auto simp: list_all_iff)

lemmas gate_wfs = gt_optional_wf gt_literal_wf nonNegativeInteger_wf positiveInteger_wf

subsection \<open>Attempts and publications\<close>

record GateAttemptIdentity =
  gai_id :: string
  gai_sequence :: nat

definition new_GateAttemptIdentity :: "jsval \<Rightarrow> GateAttemptIdentity res" where
  "new_GateAttemptIdentity arg = bindE (destructure arg) (\<lambda>ob.
     bindE (gt_text ''gate Attempt id'' (fld ob ''id'')) (\<lambda>i.
     bindE (positiveInteger ''gate Attempt sequence'' (fld ob ''sequence'')) (\<lambda>s.
     Inr \<lparr>gai_id = i, gai_sequence = s\<rparr>)))"

definition gai_matches :: "GateAttemptIdentity \<Rightarrow> GateAttemptIdentity \<Rightarrow> bool" where
  "gai_matches a b \<longleftrightarrow> gai_id a = gai_id b \<and> gai_sequence a = gai_sequence b"

definition GateAttemptIdentity_toJSON :: "GateAttemptIdentity \<Rightarrow> jsval" where
  "GateAttemptIdentity_toJSON a = JObj [(''id'', JStr (gai_id a)), (''sequence'', JInt (int (gai_sequence a)))]"

definition wf_GateAttemptIdentity :: "GateAttemptIdentity \<Rightarrow> bool" where
  "wf_GateAttemptIdentity a \<longleftrightarrow> is_text (gai_id a) \<and> is_safe (gai_sequence a) \<and> 1 \<le> gai_sequence a"

lemma gai_matches_eq [simp]: "gai_matches a b \<longleftrightarrow> a = (b :: GateAttemptIdentity)"
  by (auto simp: gai_matches_def)

interpretation attempt: json_codec new_GateAttemptIdentity wf_GateAttemptIdentity GateAttemptIdentity_toJSON
  by unfold_locales
    (auto simp: new_GateAttemptIdentity_def wf_GateAttemptIdentity_def GateAttemptIdentity_toJSON_def dest: gate_wfs)

record GateCatalogPublication =
  gcp_attempt :: GateAttemptIdentity
  gcp_producerActivityId :: string
  gcp_artifactId :: string
  gcp_fingerprint :: string

definition new_GateCatalogPublication :: "jsval \<Rightarrow> GateCatalogPublication res" where
  "new_GateCatalogPublication arg = bindE (destructure arg) (\<lambda>ob.
     bindE (new_GateAttemptIdentity (JObj [(''id'', fld ob ''attemptId''), (''sequence'', fld ob ''sequence'')])) (\<lambda>a.
     bindE (gt_text ''gate catalog producer activityId'' (fld ob ''producerActivityId'')) (\<lambda>p.
     bindE (gt_text ''gate catalog artifactId'' (fld ob ''artifactId'')) (\<lambda>i.
     bindE (gt_text ''gate catalog fingerprint'' (fld ob ''fingerprint'')) (\<lambda>f.
     Inr \<lparr>gcp_attempt = a, gcp_producerActivityId = p, gcp_artifactId = i, gcp_fingerprint = f\<rparr>)))))"

definition GateCatalogPublication_toJSON :: "GateCatalogPublication \<Rightarrow> jsval" where
  "GateCatalogPublication_toJSON p = JObj
     [(''attemptId'', JStr (gai_id (gcp_attempt p))), (''sequence'', JInt (int (gai_sequence (gcp_attempt p)))),
      (''producerActivityId'', JStr (gcp_producerActivityId p)), (''artifactId'', JStr (gcp_artifactId p)),
      (''fingerprint'', JStr (gcp_fingerprint p))]"

definition wf_GateCatalogPublication :: "GateCatalogPublication \<Rightarrow> bool" where
  "wf_GateCatalogPublication p \<longleftrightarrow> wf_GateAttemptIdentity (gcp_attempt p) \<and> is_text (gcp_producerActivityId p) \<and>
     is_text (gcp_artifactId p) \<and> is_text (gcp_fingerprint p)"

interpretation catalog: json_codec new_GateCatalogPublication wf_GateCatalogPublication GateCatalogPublication_toJSON
proof (unfold_locales, goal_cases)
  case (1 v x)
  then show ?case
    by (auto simp: new_GateCatalogPublication_def wf_GateCatalogPublication_def dest: attempt.mk_wf)
next
  case (2 x)
  then show ?case using attempt.mk_js [of "gcp_attempt x"]
    by (simp add: new_GateCatalogPublication_def wf_GateCatalogPublication_def GateCatalogPublication_toJSON_def
        GateAttemptIdentity_toJSON_def)
qed (simp add: GateCatalogPublication_toJSON_def)

record GateFailureCategory =
  gfc_category :: string
  gfc_code :: "string option"

definition new_GateFailureCategory :: "jsval \<Rightarrow> GateFailureCategory res" where
  "new_GateFailureCategory arg = bindE (destructure arg) (\<lambda>ob.
     bindE (gt_literal FAILURE_CATEGORIES ''gate failure category'' ''gate failure category is invalid'' (fld ob ''category'')) (\<lambda>c.
     bindE (gt_optional ''gate failure code'' (fld ob ''code'')) (\<lambda>d.
     Inr \<lparr>gfc_category = c, gfc_code = d\<rparr>)))"

definition GateFailureCategory_toJSON :: "GateFailureCategory \<Rightarrow> jsval" where
  "GateFailureCategory_toJSON f = JObj [(''category'', JStr (gfc_category f)), (''code'', js_opt JStr (gfc_code f))]"

definition fromObservedGateResult :: "jsval \<Rightarrow> GateFailureCategory res" where
  "fromObservedGateResult result =
     (if propq result ''result'' \<noteq> JStr ''fail'' then Inl (Error ''observed Gate failure requires a failed result'') else
      bindE (requireObject ''observed Gate failure artifacts'' (propq result ''artifacts'')) (\<lambda>artifacts.
      bindE (gt_text ''observed Gate failure kind'' (fld artifacts ''failureKind'')) (\<lambda>failureKind.
      let category = (if failureKind = ''ai_semantic_fail'' then ''semantic''
            else if failureKind \<in> set LOCAL_FAILURE_KINDS then ''local'' else ''tooling'');
          code = (if fld artifacts ''failureCode'' = JUndef \<or> fld artifacts ''failureCode'' = JNull
            then JStr failureKind else fld artifacts ''failureCode'') in
      new_GateFailureCategory (JObj [(''category'', JStr category), (''code'', code)]))))"

definition wf_GateFailureCategory :: "GateFailureCategory \<Rightarrow> bool" where
  "wf_GateFailureCategory f \<longleftrightarrow> gfc_category f \<in> set FAILURE_CATEGORIES \<and> pred_option is_text (gfc_code f)"

interpretation failure: json_codec new_GateFailureCategory wf_GateFailureCategory GateFailureCategory_toJSON
  by unfold_locales
    (auto simp: new_GateFailureCategory_def wf_GateFailureCategory_def GateFailureCategory_toJSON_def dest: gate_wfs)

subsection \<open>Lineage and recovery evidence\<close>

record GateLineage =
  gln_sourceAttempt :: GateAttemptIdentity
  gln_canonicalAttempt :: GateAttemptIdentity
  gln_sourceFingerprint :: string
  gln_canonicalFingerprint :: string
  gln_sourceRevisionFingerprint :: "string option"
  gln_canonicalRevisionFingerprint :: "string option"

definition new_GateLineage :: "jsval \<Rightarrow> GateLineage res" where
  "new_GateLineage arg = bindE (destructure arg) (\<lambda>ob.
     bindE (new_GateAttemptIdentity (fld ob ''sourceAttempt'')) (\<lambda>sa.
     bindE (new_GateAttemptIdentity (fld ob ''canonicalAttempt'')) (\<lambda>ca.
     bindE (gt_text ''gate source fingerprint'' (fld ob ''sourceFingerprint'')) (\<lambda>sf.
     bindE (gt_text ''gate canonical fingerprint'' (fld ob ''canonicalFingerprint'')) (\<lambda>cf.
     bindE (gt_optional ''gate source revision fingerprint'' (fld ob ''sourceRevisionFingerprint'')) (\<lambda>sr.
     bindE (gt_optional ''gate canonical revision fingerprint'' (fld ob ''canonicalRevisionFingerprint'')) (\<lambda>cr.
     if (sr = None) \<noteq> (cr = None) then Inl (Error ''gate lineage revision bindings must be present together'')
     else Inr \<lparr>gln_sourceAttempt = sa, gln_canonicalAttempt = ca, gln_sourceFingerprint = sf,
       gln_canonicalFingerprint = cf, gln_sourceRevisionFingerprint = sr, gln_canonicalRevisionFingerprint = cr\<rparr>)))))))"

definition gln_isCurrent :: "GateLineage \<Rightarrow> bool" where
  "gln_isCurrent l \<longleftrightarrow> gai_matches (gln_sourceAttempt l) (gln_canonicalAttempt l) \<and>
     (if gln_sourceRevisionFingerprint l = None then gln_sourceFingerprint l = gln_canonicalFingerprint l
      else gln_sourceRevisionFingerprint l = gln_canonicalRevisionFingerprint l)"

definition GateLineage_toJSON :: "GateLineage \<Rightarrow> jsval" where
  "GateLineage_toJSON l = JObj
     [(''sourceAttempt'', GateAttemptIdentity_toJSON (gln_sourceAttempt l)),
      (''canonicalAttempt'', GateAttemptIdentity_toJSON (gln_canonicalAttempt l)),
      (''sourceFingerprint'', JStr (gln_sourceFingerprint l)),
      (''canonicalFingerprint'', JStr (gln_canonicalFingerprint l)),
      (''sourceRevisionFingerprint'', js_opt JStr (gln_sourceRevisionFingerprint l)),
      (''canonicalRevisionFingerprint'', js_opt JStr (gln_canonicalRevisionFingerprint l))]"

definition wf_GateLineage :: "GateLineage \<Rightarrow> bool" where
  "wf_GateLineage l \<longleftrightarrow> wf_GateAttemptIdentity (gln_sourceAttempt l) \<and> wf_GateAttemptIdentity (gln_canonicalAttempt l) \<and>
     is_text (gln_sourceFingerprint l) \<and> is_text (gln_canonicalFingerprint l) \<and>
     pred_option is_text (gln_sourceRevisionFingerprint l) \<and> pred_option is_text (gln_canonicalRevisionFingerprint l) \<and>
     (gln_sourceRevisionFingerprint l = None \<longleftrightarrow> gln_canonicalRevisionFingerprint l = None)"

interpretation lineage: json_codec new_GateLineage wf_GateLineage GateLineage_toJSON
proof (unfold_locales, goal_cases)
  case (1 v x)
  then show ?case
    unfolding new_GateLineage_def
    by (auto simp: wf_GateLineage_def dest: gate_wfs attempt.mk_wf split: if_splits)
next
  case (2 x)
  then show ?case
    by (auto simp: new_GateLineage_def wf_GateLineage_def GateLineage_toJSON_def attempt.mk_js)
qed (simp add: GateLineage_toJSON_def)

record GateRecoveryEvidence =
  gre_kind :: string
  gre_attempt :: "GateAttemptIdentity option"
  gre_fingerprint :: "string option"

definition new_GateRecoveryEvidence :: "jsval \<Rightarrow> GateRecoveryEvidence res" where
  "new_GateRecoveryEvidence arg = bindE (destructure arg) (\<lambda>ob.
     bindE (gt_literal RECOVERY_KINDS ''gate recovery evidence kind'' ''gate recovery evidence kind is invalid''
              (fld_or ob ''kind'' (JStr ''none''))) (\<lambda>k.
     bindE (nullish new_GateAttemptIdentity (fld ob ''attempt'')) (\<lambda>a.
     bindE (gt_optional ''gate recovery evidence fingerprint'' (fld ob ''fingerprint'')) (\<lambda>f.
     if k = ''none'' \<and> (a \<noteq> None \<or> f \<noteq> None)
     then Inl (Error ''empty gate recovery evidence must not carry a binding'')
     else if k \<noteq> ''none'' \<and> (a = None \<or> f = None)
     then Inl (Error ''gate recovery evidence requires Attempt and fingerprint binding'')
     else Inr \<lparr>gre_kind = k, gre_attempt = a, gre_fingerprint = f\<rparr>))))"

definition gre_isBoundTo :: "GateRecoveryEvidence \<Rightarrow> GateLineage \<Rightarrow> bool" where
  "gre_isBoundTo e l = (case gre_attempt e of
     None \<Rightarrow> True
   | Some a \<Rightarrow> gai_matches a (gln_canonicalAttempt l) \<and> gre_fingerprint e = Some (gln_canonicalFingerprint l))"

definition GateRecoveryEvidence_toJSON :: "GateRecoveryEvidence \<Rightarrow> jsval" where
  "GateRecoveryEvidence_toJSON e = JObj
     [(''kind'', JStr (gre_kind e)), (''attempt'', js_opt GateAttemptIdentity_toJSON (gre_attempt e)),
      (''fingerprint'', js_opt JStr (gre_fingerprint e))]"

definition wf_GateRecoveryEvidence :: "GateRecoveryEvidence \<Rightarrow> bool" where
  "wf_GateRecoveryEvidence e \<longleftrightarrow> gre_kind e \<in> set RECOVERY_KINDS \<and> pred_option wf_GateAttemptIdentity (gre_attempt e) \<and>
     pred_option is_text (gre_fingerprint e) \<and>
     (if gre_kind e = ''none'' then gre_attempt e = None \<and> gre_fingerprint e = None
      else gre_attempt e \<noteq> None \<and> gre_fingerprint e \<noteq> None)"

interpretation recovery: json_codec new_GateRecoveryEvidence wf_GateRecoveryEvidence GateRecoveryEvidence_toJSON
proof (unfold_locales, goal_cases)
  case (1 v x)
  then show ?case
    unfolding new_GateRecoveryEvidence_def
    by (auto simp: wf_GateRecoveryEvidence_def dest: gate_wfs attempt.nullish_mk_wf split: if_splits)
next
  case (2 x)
  then show ?case
    by (auto simp: new_GateRecoveryEvidence_def wf_GateRecoveryEvidence_def GateRecoveryEvidence_toJSON_def
        attempt.nullish_mk_js split: if_splits)
qed (simp add: GateRecoveryEvidence_toJSON_def)

record GatePostPublicationState =
  gps_status :: string

definition new_GatePostPublicationState :: "jsval \<Rightarrow> GatePostPublicationState res" where
  "new_GatePostPublicationState arg = bindE (destructure arg) (\<lambda>ob.
     bindE (gt_literal POST_PUBLICATION_STATES ''gate post-publication status'' ''gate post-publication status is invalid''
              (fld ob ''status'')) (\<lambda>s. Inr \<lparr>gps_status = s\<rparr>))"

definition gps_requiresReconciliation :: "GatePostPublicationState \<Rightarrow> bool" where
  "gps_requiresReconciliation p \<longleftrightarrow> gps_status p = ''unclassified''"

definition GatePostPublicationState_toJSON :: "GatePostPublicationState \<Rightarrow> jsval" where
  "GatePostPublicationState_toJSON p = JObj [(''status'', JStr (gps_status p))]"

definition wf_GatePostPublicationState :: "GatePostPublicationState \<Rightarrow> bool" where
  "wf_GatePostPublicationState p \<longleftrightarrow> gps_status p \<in> set POST_PUBLICATION_STATES"

interpretation post_publication: json_codec new_GatePostPublicationState wf_GatePostPublicationState
  GatePostPublicationState_toJSON
  by unfold_locales
    (auto simp: new_GatePostPublicationState_def wf_GatePostPublicationState_def GatePostPublicationState_toJSON_def
      dest: gate_wfs)

subsection \<open>Review readiness\<close>

text \<open>The receipt and result digests are stored as received: the pattern test converts its argument
  to text but the constructor does not.\<close>

record GateTaskReviewUnavailableObservation =
  guo_binding :: TaskReviewStageBinding
  guo_failure :: TaskReviewUnavailableEvidence
  guo_taskRound :: nat
  guo_semanticReviewCount :: nat
  guo_activityId :: string
  guo_receiptId :: jsval
  guo_resultDigest :: jsval

definition new_GateTaskReviewUnavailableObservation ::
  "TaskReviewStageBinding \<Rightarrow> TaskReviewUnavailableEvidence \<Rightarrow> jsfields \<Rightarrow> GateTaskReviewUnavailableObservation res" where
  "new_GateTaskReviewUnavailableObservation binding failure ob =
     (if trb_stage binding \<noteq> ''review'' \<or> trb_sourceFingerprint binding \<noteq> tue_sourceFingerprint failure
        \<or> trb_artifactDigest binding \<noteq> tue_digest failure
        \<or> \<not> sha256_test (fld ob ''receiptId'') \<or> \<not> sha256_test (fld ob ''resultDigest'')
      then Inl (Error ''Gate unavailable Review observation requires its exact source and saved receipt'') else
      bindE (assertRound (fld ob ''taskRound'')) (\<lambda>r.
      bindE (nonNegativeInteger ''Gate unavailable semantic Review count'' (fld ob ''semanticReviewCount'')) (\<lambda>c.
      if c > 3 then Inl (Error ''Gate unavailable Review count is invalid'') else
      bindE (gt_text ''Gate unavailable Review Activity'' (fld ob ''activityId'')) (\<lambda>a.
      Inr \<lparr>guo_binding = binding, guo_failure = failure, guo_taskRound = r, guo_semanticReviewCount = c,
           guo_activityId = a, guo_receiptId = fld ob ''receiptId'', guo_resultDigest = fld ob ''resultDigest''\<rparr>))))"

definition own_keys :: "jsval \<Rightarrow> string list" where
  "own_keys v = (case v of JObj ob \<Rightarrow> remdups (map fst ob) | _ \<Rightarrow> [])"

definition unavailable_fromJSON :: "jsval \<Rightarrow> GateTaskReviewUnavailableObservation res" where
  "unavailable_fromJSON v =
     (if join '','' (sort (own_keys v)) \<noteq> ''activityId,binding,failure,receiptId,resultDigest,semanticReviewCount,taskRound''
      then Inl (Error ''Gate unavailable Review observation has an invalid schema'') else
      bindE (destructure v) (\<lambda>ob.
      bindE (new_TaskReviewStageBinding (fld ob ''binding'')) (\<lambda>b.
      bindE (new_TaskReviewUnavailableEvidence (fld ob ''failure'')) (\<lambda>f.
      new_GateTaskReviewUnavailableObservation b f ob))))"

definition GateTaskReviewUnavailableObservation_toJSON :: "GateTaskReviewUnavailableObservation \<Rightarrow> jsval" where
  "GateTaskReviewUnavailableObservation_toJSON u = JObj
     [(''binding'', TaskReviewStageBinding_toJSON (guo_binding u)),
      (''failure'', TaskReviewUnavailableEvidence_toJSON (guo_failure u)),
      (''taskRound'', JInt (int (guo_taskRound u))), (''semanticReviewCount'', JInt (int (guo_semanticReviewCount u))),
      (''activityId'', JStr (guo_activityId u)), (''receiptId'', guo_receiptId u), (''resultDigest'', guo_resultDigest u)]"

definition wf_GateTaskReviewUnavailableObservation :: "GateTaskReviewUnavailableObservation \<Rightarrow> bool" where
  "wf_GateTaskReviewUnavailableObservation u \<longleftrightarrow> wf_TaskReviewStageBinding (guo_binding u) \<and>
     wf_TaskReviewUnavailableEvidence (guo_failure u) \<and> trb_stage (guo_binding u) = ''review'' \<and>
     trb_sourceFingerprint (guo_binding u) = tue_sourceFingerprint (guo_failure u) \<and>
     trb_artifactDigest (guo_binding u) = tue_digest (guo_failure u) \<and> sha256_test (guo_receiptId u) \<and>
     sha256_test (guo_resultDigest u) \<and> 1 \<le> guo_taskRound u \<and> guo_taskRound u \<le> MAXIMUM_ROUNDS \<and>
     guo_semanticReviewCount u \<le> 3 \<and> is_text (guo_activityId u)"

lemma observation_schema:
  "join '','' (sort (own_keys (GateTaskReviewUnavailableObservation_toJSON u))) =
     ''activityId,binding,failure,receiptId,resultDigest,semanticReviewCount,taskRound''"
proof -
  have "join '','' (sort [''binding'', ''failure'', ''taskRound'', ''semanticReviewCount'', ''activityId'',
      ''receiptId'', ''resultDigest'']) =
    ''activityId,binding,failure,receiptId,resultDigest,semanticReviewCount,taskRound''" by code_simp
  then show ?thesis by (simp add: own_keys_def GateTaskReviewUnavailableObservation_toJSON_def)
qed

lemma small_safe: "n \<le> 3 \<Longrightarrow> is_safe n"
  by (simp add: is_safe_def max_safe_def)

interpretation observation: json_codec unavailable_fromJSON wf_GateTaskReviewUnavailableObservation
  GateTaskReviewUnavailableObservation_toJSON
proof (unfold_locales, goal_cases)
  case (1 v x)
  then show ?case
    unfolding unavailable_fromJSON_def new_GateTaskReviewUnavailableObservation_def
    by (auto simp: wf_GateTaskReviewUnavailableObservation_def dest: stage_binding.mk_wf unavailable.mk_wf split: if_splits)
next
  case (2 x)
  then show ?case
    by (simp add: unavailable_fromJSON_def observation_schema)
      (simp add: GateTaskReviewUnavailableObservation_toJSON_def new_GateTaskReviewUnavailableObservation_def
        wf_GateTaskReviewUnavailableObservation_def stage_binding.mk_js unavailable.mk_js small_safe)
qed (simp add: GateTaskReviewUnavailableObservation_toJSON_def)

record GateReviewFindingReadiness =
  grr_status :: string
  grr_findingFingerprints :: "string list"
  grr_reviewFingerprints :: "string list"
  grr_triageFingerprint :: "string option"
  grr_repairFingerprint :: "string option"
  grr_decisionFingerprint :: string
  grr_unavailable :: "GateTaskReviewUnavailableObservation option"

definition READINESS :: "string list" where
  "READINESS = [''ready'', ''blocking'', ''unavailable'']"

text \<open>\<open>Array.isArray(v)\<close> with only non-empty strings.\<close>

definition nonempty_strings :: "jserr \<Rightarrow> jsval \<Rightarrow> string list res" where
  "nonempty_strings e v = (case string_array v of
     None \<Rightarrow> Inl e
   | Some xs \<Rightarrow> if [] \<in> set xs then Inl e else Inr xs)"

definition readiness_mismatch :: "string \<Rightarrow> string list \<Rightarrow> 'a option \<Rightarrow> bool" where
  "readiness_mismatch s fs u \<longleftrightarrow> (s = ''blocking'') \<noteq> (length fs > 0) \<or> s = ''unavailable'' \<and> u = None
     \<or> s = ''ready'' \<and> u \<noteq> None"

definition new_GateReviewFindingReadiness :: "jsval \<Rightarrow> GateReviewFindingReadiness res" where
  "new_GateReviewFindingReadiness arg = bindE (destructure arg) (\<lambda>ob.
     bindE (gt_literal READINESS ''gate review finding readiness status'' ''gate review finding readiness status is invalid''
              (fld ob ''status'')) (\<lambda>s.
     bindE (nonempty_strings (Error ''gate review finding readiness finding fingerprints are invalid'')
              (fld_or ob ''findingFingerprints'' (JArr []))) (\<lambda>fs.
     bindE (nonempty_strings (Error ''gate review finding readiness review fingerprints are invalid'')
              (fld_or ob ''reviewFingerprints'' (JArr []))) (\<lambda>rs.
     bindE (gt_optional ''gate review finding readiness triage fingerprint'' (fld ob ''triageFingerprint'')) (\<lambda>t.
     bindE (gt_optional ''gate review finding readiness repair fingerprint'' (fld ob ''repairFingerprint'')) (\<lambda>r.
     bindE (gt_text ''gate review finding readiness decision fingerprint'' (fld ob ''decisionFingerprint'')) (\<lambda>d.
     bindE (nullable unavailable_fromJSON (fld_or ob ''unavailable'' JNull)) (\<lambda>u.
     if readiness_mismatch s (sort fs) u
     then Inl (Error ''gate review finding readiness status does not match unresolved findings'')
     else Inr \<lparr>grr_status = s, grr_findingFingerprints = sort fs, grr_reviewFingerprints = rs,
       grr_triageFingerprint = t, grr_repairFingerprint = r, grr_decisionFingerprint = d, grr_unavailable = u\<rparr>))))))))"

definition grr_allowsPass :: "GateReviewFindingReadiness \<Rightarrow> bool" where
  "grr_allowsPass r \<longleftrightarrow> grr_status r = ''ready''"

definition grr_allowsGatePass :: "GateReviewFindingReadiness \<Rightarrow> bool" where
  "grr_allowsGatePass r \<longleftrightarrow> grr_status r = ''ready'' \<or> grr_status r = ''unavailable''"

definition GateReviewFindingReadiness_toJSON :: "GateReviewFindingReadiness \<Rightarrow> jsval" where
  "GateReviewFindingReadiness_toJSON r = JObj
     ([(''status'', JStr (grr_status r)), (''findingFingerprints'', JArr (map JStr (grr_findingFingerprints r))),
       (''reviewFingerprints'', JArr (map JStr (grr_reviewFingerprints r))),
       (''triageFingerprint'', js_opt JStr (grr_triageFingerprint r)),
       (''repairFingerprint'', js_opt JStr (grr_repairFingerprint r)),
       (''decisionFingerprint'', JStr (grr_decisionFingerprint r))] @
      (case grr_unavailable r of None \<Rightarrow> []
       | Some u \<Rightarrow> [(''unavailable'', GateTaskReviewUnavailableObservation_toJSON u)]))"

definition wf_GateReviewFindingReadiness :: "GateReviewFindingReadiness \<Rightarrow> bool" where
  "wf_GateReviewFindingReadiness r \<longleftrightarrow> grr_status r \<in> set READINESS \<and>
     sorted (grr_findingFingerprints r) \<and> [] \<notin> set (grr_findingFingerprints r) \<and> [] \<notin> set (grr_reviewFingerprints r) \<and>
     pred_option is_text (grr_triageFingerprint r) \<and> pred_option is_text (grr_repairFingerprint r) \<and>
     is_text (grr_decisionFingerprint r) \<and> pred_option wf_GateTaskReviewUnavailableObservation (grr_unavailable r) \<and>
     \<not> readiness_mismatch (grr_status r) (grr_findingFingerprints r) (grr_unavailable r)"

lemma nonempty_strings_wf: "nonempty_strings e v = Inr xs \<Longrightarrow> [] \<notin> set xs"
  by (auto simp: nonempty_strings_def split: option.splits if_splits)

lemma nonempty_strings_js [simp]: "[] \<notin> set xs \<Longrightarrow> nonempty_strings e (JArr (map JStr xs)) = Inr xs"
  by (simp add: nonempty_strings_def)

lemma readiness_text: "s \<in> set READINESS \<Longrightarrow> is_text s"
  by (auto simp: READINESS_def is_text_def js_trim_def js_ws_def)

interpretation readiness: json_codec new_GateReviewFindingReadiness wf_GateReviewFindingReadiness
  GateReviewFindingReadiness_toJSON
proof (unfold_locales, goal_cases)
  case (1 v x)
  then show ?case
    unfolding new_GateReviewFindingReadiness_def
    by (auto simp: wf_GateReviewFindingReadiness_def split: if_splits
      dest: gate_wfs nonempty_strings_wf observation.nullable_mk_wf)
next
  case (2 x)
  then have st: "sort (grr_findingFingerprints x) = grr_findingFingerprints x"
    by (simp add: wf_GateReviewFindingReadiness_def sorted_sort_id)
  have r: "is_text (grr_status x)" using 2 by (simp add: wf_GateReviewFindingReadiness_def readiness_text)
  show ?case
  proof (cases "grr_unavailable x")
    case None
    with 2 st r show ?thesis
      by (simp add: new_GateReviewFindingReadiness_def wf_GateReviewFindingReadiness_def
        GateReviewFindingReadiness_toJSON_def nullable_def)
  next
    case (Some u)
    with 2 st r show ?thesis
      by (simp add: new_GateReviewFindingReadiness_def wf_GateReviewFindingReadiness_def
        GateReviewFindingReadiness_toJSON_def nullable_def observation.mk_js)
  qed
qed (simp add: GateReviewFindingReadiness_toJSON_def)

subsection \<open>Retry metrics, cycle progress, ownership and target\<close>

record GateRetryMetrics =
  grm_used :: nat
  grm_maximum :: nat

definition new_GateRetryMetrics :: "jsval \<Rightarrow> GateRetryMetrics res" where
  "new_GateRetryMetrics arg = bindE (destructure arg) (\<lambda>ob.
     bindE (nonNegativeInteger ''gate retry metrics used'' (fld_or ob ''used'' (JInt 0))) (\<lambda>u.
     bindE (positiveInteger ''gate retry metrics maximum'' (fld ob ''maximum'')) (\<lambda>m.
     Inr \<lparr>grm_used = u, grm_maximum = m\<rparr>)))"

definition grm_remaining :: "GateRetryMetrics \<Rightarrow> nat" where
  "grm_remaining r = nat (max 0 (int (grm_maximum r) - int (grm_used r)))"

definition grm_exhausted :: "GateRetryMetrics \<Rightarrow> bool" where
  "grm_exhausted r \<longleftrightarrow> grm_used r \<ge> grm_maximum r"

definition GateRetryMetrics_toJSON :: "GateRetryMetrics \<Rightarrow> jsval" where
  "GateRetryMetrics_toJSON r = JObj
     [(''used'', JInt (int (grm_used r))), (''maximum'', JInt (int (grm_maximum r))),
      (''remaining'', JInt (int (grm_remaining r)))]"

definition wf_GateRetryMetrics :: "GateRetryMetrics \<Rightarrow> bool" where
  "wf_GateRetryMetrics r \<longleftrightarrow> is_safe (grm_used r) \<and> is_safe (grm_maximum r) \<and> 1 \<le> grm_maximum r"

interpretation retry: json_codec new_GateRetryMetrics wf_GateRetryMetrics GateRetryMetrics_toJSON
  by unfold_locales
    (auto simp: new_GateRetryMetrics_def wf_GateRetryMetrics_def GateRetryMetrics_toJSON_def dest: gate_wfs)

record SpecGateCycleProgress =
  sgc_completedRepairs :: nat

definition new_SpecGateCycleProgress :: "jsval \<Rightarrow> SpecGateCycleProgress res" where
  "new_SpecGateCycleProgress arg = bindE (destructure arg) (\<lambda>ob.
     bindE (nonNegativeInteger ''Spec Gate completed repairs'' (fld ob ''completedRepairs'')) (\<lambda>n.
     Inr \<lparr>sgc_completedRepairs = n\<rparr>))"

definition sgc_cycle :: "SpecGateCycleProgress \<Rightarrow> nat" where
  "sgc_cycle c = sgc_completedRepairs c + 1"

definition SpecGateCycleProgress_toJSON :: "SpecGateCycleProgress \<Rightarrow> jsval" where
  "SpecGateCycleProgress_toJSON c = JObj
     [(''cycle'', JInt (int (sgc_cycle c))), (''completedRepairs'', JInt (int (sgc_completedRepairs c)))]"

definition wf_SpecGateCycleProgress :: "SpecGateCycleProgress \<Rightarrow> bool" where
  "wf_SpecGateCycleProgress c \<longleftrightarrow> is_safe (sgc_completedRepairs c)"

interpretation spec_cycle: json_codec new_SpecGateCycleProgress wf_SpecGateCycleProgress SpecGateCycleProgress_toJSON
  by unfold_locales
    (auto simp: new_SpecGateCycleProgress_def wf_SpecGateCycleProgress_def SpecGateCycleProgress_toJSON_def
      dest: gate_wfs)

record GateProducerOwnership =
  gpo_runId :: string
  gpo_specId :: string
  gpo_activityId :: string
  gpo_phase :: string
  gpo_scope :: string
  gpo_taskId :: "string option"
  gpo_stepId :: string

definition new_GateProducerOwnership :: "jsval \<Rightarrow> GateProducerOwnership res" where
  "new_GateProducerOwnership arg = bindE (destructure arg) (\<lambda>ob.
     bindE (gt_text ''gate producer runId'' (fld ob ''runId'')) (\<lambda>r.
     bindE (gt_text ''gate producer specId'' (fld ob ''specId'')) (\<lambda>s.
     bindE (gt_text ''gate producer activityId'' (fld ob ''activityId'')) (\<lambda>a.
     bindE (gt_literal GATE_PHASES ''gate producer phase'' ''gate producer phase is invalid'' (fld ob ''phase'')) (\<lambda>p.
     bindE (gt_literal GATE_SCOPES ''gate producer scope'' ''gate producer scope is invalid'' (fld ob ''scope'')) (\<lambda>sc.
     bindE (gt_optional ''gate producer taskId'' (fld ob ''taskId'')) (\<lambda>t.
     if (sc = ''task'') \<noteq> (t \<noteq> None)
     then Inl (Error ''gate producer task scope requires exactly one taskId binding'') else
     bindE (gt_text ''gate producer stepId'' (fld ob ''stepId'')) (\<lambda>st.
     Inr \<lparr>gpo_runId = r, gpo_specId = s, gpo_activityId = a, gpo_phase = p, gpo_scope = sc,
          gpo_taskId = t, gpo_stepId = st\<rparr>))))))))"

definition GateProducerOwnership_toJSON :: "GateProducerOwnership \<Rightarrow> jsval" where
  "GateProducerOwnership_toJSON p = JObj
     [(''runId'', JStr (gpo_runId p)), (''specId'', JStr (gpo_specId p)), (''activityId'', JStr (gpo_activityId p)),
      (''phase'', JStr (gpo_phase p)), (''scope'', JStr (gpo_scope p)), (''taskId'', js_opt JStr (gpo_taskId p)),
      (''stepId'', JStr (gpo_stepId p))]"

definition wf_GateProducerOwnership :: "GateProducerOwnership \<Rightarrow> bool" where
  "wf_GateProducerOwnership p \<longleftrightarrow> is_text (gpo_runId p) \<and> is_text (gpo_specId p) \<and> is_text (gpo_activityId p) \<and>
     gpo_phase p \<in> set GATE_PHASES \<and> gpo_scope p \<in> set GATE_SCOPES \<and> pred_option is_text (gpo_taskId p) \<and>
     (gpo_scope p = ''task'' \<longleftrightarrow> gpo_taskId p \<noteq> None) \<and> is_text (gpo_stepId p)"

interpretation producer: json_codec new_GateProducerOwnership wf_GateProducerOwnership GateProducerOwnership_toJSON
proof (unfold_locales, goal_cases)
  case (1 v x)
  then show ?case
    unfolding new_GateProducerOwnership_def
    by (auto simp: wf_GateProducerOwnership_def dest: gate_wfs split: if_splits)
next
  case (2 x)
  then show ?case
    by (auto simp: new_GateProducerOwnership_def wf_GateProducerOwnership_def GateProducerOwnership_toJSON_def)
qed (simp add: GateProducerOwnership_toJSON_def)

record GateTargetBinding =
  gtb_runId :: string
  gtb_specId :: string
  gtb_taskId :: "string option"
  gtb_stepId :: string
  gtb_attempt :: GateAttemptIdentity

definition new_GateTargetBinding :: "jsval \<Rightarrow> GateTargetBinding res" where
  "new_GateTargetBinding arg = bindE (destructure arg) (\<lambda>ob.
     bindE (gt_text ''gate target runId'' (fld ob ''runId'')) (\<lambda>r.
     bindE (gt_text ''gate target specId'' (fld ob ''specId'')) (\<lambda>s.
     bindE (gt_optional ''gate target taskId'' (fld ob ''taskId'')) (\<lambda>t.
     bindE (gt_text ''gate target stepId'' (fld ob ''stepId'')) (\<lambda>st.
     bindE (new_GateAttemptIdentity (fld ob ''attempt'')) (\<lambda>a.
     Inr \<lparr>gtb_runId = r, gtb_specId = s, gtb_taskId = t, gtb_stepId = st, gtb_attempt = a\<rparr>))))))"

definition GateTargetBinding_toJSON :: "GateTargetBinding \<Rightarrow> jsval" where
  "GateTargetBinding_toJSON b = JObj
     [(''runId'', JStr (gtb_runId b)), (''specId'', JStr (gtb_specId b)), (''taskId'', js_opt JStr (gtb_taskId b)),
      (''stepId'', JStr (gtb_stepId b)), (''attempt'', GateAttemptIdentity_toJSON (gtb_attempt b))]"

definition wf_GateTargetBinding :: "GateTargetBinding \<Rightarrow> bool" where
  "wf_GateTargetBinding b \<longleftrightarrow> is_text (gtb_runId b) \<and> is_text (gtb_specId b) \<and> pred_option is_text (gtb_taskId b) \<and>
     is_text (gtb_stepId b) \<and> wf_GateAttemptIdentity (gtb_attempt b)"

interpretation target: json_codec new_GateTargetBinding wf_GateTargetBinding GateTargetBinding_toJSON
proof (unfold_locales, goal_cases)
  case (1 v x)
  then show ?case
    unfolding new_GateTargetBinding_def by (auto simp: wf_GateTargetBinding_def dest: gate_wfs attempt.mk_wf)
next
  case (2 x)
  then show ?case
    by (auto simp: new_GateTargetBinding_def wf_GateTargetBinding_def GateTargetBinding_toJSON_def attempt.mk_js)
qed (simp add: GateTargetBinding_toJSON_def)

subsection \<open>Task lifecycle and budget\<close>

record GateTaskLifecycle =
  gtl_taskId :: string
  gtl_implStepId :: string
  gtl_reviewStepId :: string
  gtl_triageStepId :: string
  gtl_repairStepId :: string
  gtl_gateStepId :: string
  gtl_nextTaskId :: "string option"
  gtl_integrationStepId :: string

definition lifecycle_step :: "string \<Rightarrow> jsfields \<Rightarrow> string \<Rightarrow> string \<Rightarrow> string res" where
  "lifecycle_step taskId ob field role =
     (if fld_or ob field JNull = JNull then taskGateStepId (JStr taskId) role
      else gt_text (''gate Task lifecycle '' @ field) (fld ob field))"

definition lifecycle_mismatch :: "string \<Rightarrow> (string \<times> string) list \<Rightarrow> bool res" where
  "lifecycle_mismatch taskId steps = bindE (findE (\<lambda>(step, role). bindE (taskGateStepId (JStr taskId) role)
     (\<lambda>n. Inr (step \<noteq> n))) steps) (\<lambda>hit. Inr (hit \<noteq> None))"

definition new_GateTaskLifecycle :: "jsval \<Rightarrow> GateTaskLifecycle res" where
  "new_GateTaskLifecycle arg = bindE (destructure arg) (\<lambda>ob.
     bindE (gt_text ''gate Task lifecycle taskId'' (fld ob ''taskId'')) (\<lambda>t.
     bindE (lifecycle_step t ob ''implStepId'' ''impl'') (\<lambda>i.
     bindE (lifecycle_step t ob ''reviewStepId'' ''review'') (\<lambda>rv.
     bindE (lifecycle_step t ob ''triageStepId'' ''triage'') (\<lambda>tr.
     bindE (lifecycle_step t ob ''repairStepId'' ''repair'') (\<lambda>rp.
     bindE (lifecycle_step t ob ''gateStepId'' ''gate'') (\<lambda>g.
     bindE (lifecycle_mismatch t [(i, ''impl''), (rv, ''review''), (tr, ''triage''), (rp, ''repair''), (g, ''gate'')]) (\<lambda>bad.
     if bad then Inl (Error ''gate Task lifecycle Step identities must bind one Task'') else
     bindE (gt_optional ''gate Task lifecycle nextTaskId'' (fld ob ''nextTaskId'')) (\<lambda>n.
     bindE (gt_text ''gate Task lifecycle integrationStepId'' (fld ob ''integrationStepId'')) (\<lambda>s.
     Inr \<lparr>gtl_taskId = t, gtl_implStepId = i, gtl_reviewStepId = rv, gtl_triageStepId = tr, gtl_repairStepId = rp,
          gtl_gateStepId = g, gtl_nextTaskId = n, gtl_integrationStepId = s\<rparr>))))))))))"

definition gtl_successorStepId :: "GateTaskLifecycle \<Rightarrow> string res" where
  "gtl_successorStepId l = (case gtl_nextTaskId l of
     None \<Rightarrow> Inr (gtl_integrationStepId l)
   | Some t \<Rightarrow> taskGateStepId (JStr t) ''impl'')"

definition GateTaskLifecycle_toJSON :: "GateTaskLifecycle \<Rightarrow> jsval" where
  "GateTaskLifecycle_toJSON l = JObj
     [(''taskId'', JStr (gtl_taskId l)), (''implStepId'', JStr (gtl_implStepId l)),
      (''reviewStepId'', JStr (gtl_reviewStepId l)), (''triageStepId'', JStr (gtl_triageStepId l)),
      (''repairStepId'', JStr (gtl_repairStepId l)), (''gateStepId'', JStr (gtl_gateStepId l)),
      (''nextTaskId'', js_opt JStr (gtl_nextTaskId l)), (''integrationStepId'', JStr (gtl_integrationStepId l))]"

definition task_leaf :: "string \<Rightarrow> string \<Rightarrow> string" where
  "task_leaf taskId role = taskId @ ''-'' @ role"

definition wf_GateTaskLifecycle :: "GateTaskLifecycle \<Rightarrow> bool" where
  "wf_GateTaskLifecycle l \<longleftrightarrow> is_text (gtl_taskId l) \<and> gtl_implStepId l = task_leaf (gtl_taskId l) ''impl'' \<and>
     gtl_reviewStepId l = task_leaf (gtl_taskId l) ''review'' \<and> gtl_triageStepId l = task_leaf (gtl_taskId l) ''triage'' \<and>
     gtl_repairStepId l = task_leaf (gtl_taskId l) ''repair'' \<and> gtl_gateStepId l = task_leaf (gtl_taskId l) ''gate'' \<and>
     pred_option is_text (gtl_nextTaskId l) \<and> is_text (gtl_integrationStepId l)"

lemma roles [simp]:
  "''impl'' \<in> set TASK_STEP_ROLES" "''review'' \<in> set TASK_STEP_ROLES" "''triage'' \<in> set TASK_STEP_ROLES"
  "''repair'' \<in> set TASK_STEP_ROLES" "''gate'' \<in> set TASK_STEP_ROLES"
  by (simp_all add: TASK_STEP_ROLES_def)

lemma taskGateStepId_leaf [simp]:
  "is_text t \<Longrightarrow> r \<in> set TASK_STEP_ROLES \<Longrightarrow> taskGateStepId (JStr t) r = Inr (task_leaf t r)"
  using new_TaskStepIdentity_self [of "\<lparr>tsi_taskId = t, tsi_role = r\<rparr>"]
  by (simp add: taskGateStepId_def wf_TaskStepIdentity_def tsi_nodeId_def task_leaf_def)

lemma task_leaf_text [simp]: "is_text t \<Longrightarrow> r \<in> set TASK_STEP_ROLES \<Longrightarrow> is_text (task_leaf t r)"
  unfolding task_leaf_def by (rule is_text_append) (auto intro: role_text)

lemma lifecycle_mismatch_False:
  "is_text t \<Longrightarrow> lifecycle_mismatch t [(i, ''impl''), (rv, ''review''), (tr, ''triage''), (rp, ''repair''), (g, ''gate'')] =
     Inr False \<longleftrightarrow> i = task_leaf t ''impl'' \<and> rv = task_leaf t ''review'' \<and> tr = task_leaf t ''triage'' \<and>
       rp = task_leaf t ''repair'' \<and> g = task_leaf t ''gate''"
  by (auto simp: lifecycle_mismatch_def)

lemma lifecycle_step_js:
  "fld ob field = JStr s \<Longrightarrow> is_text s \<Longrightarrow> lifecycle_step t ob field role = Inr s"
  by (simp add: lifecycle_step_def fld_or_def)

interpretation lifecycle: json_codec new_GateTaskLifecycle wf_GateTaskLifecycle GateTaskLifecycle_toJSON
proof (unfold_locales, goal_cases)
  case (1 v x)
  then show ?case
    unfolding new_GateTaskLifecycle_def
    by (auto simp: wf_GateTaskLifecycle_def lifecycle_mismatch_False dest: gate_wfs split: if_splits)
next
  case (2 x)
  then show ?case
    by (auto simp: new_GateTaskLifecycle_def wf_GateTaskLifecycle_def GateTaskLifecycle_toJSON_def lifecycle_step_js
        lifecycle_mismatch_False)
qed (simp add: GateTaskLifecycle_toJSON_def)

record GateTaskBudget =
  gtg_round :: nat
  gtg_maximumRounds :: nat

definition new_GateTaskBudget :: "jsval \<Rightarrow> GateTaskBudget res" where
  "new_GateTaskBudget arg = bindE (destructure arg) (\<lambda>ob.
     bindE (positiveInteger ''gate Task budget round'' (fld ob ''round'')) (\<lambda>r.
     bindE (positiveInteger ''gate Task budget maximumRounds''
              (fld_or ob ''maximumRounds'' (JInt (int MAXIMUM_ROUNDS)))) (\<lambda>m.
     bindE (assertRound (JInt (int r))) (\<lambda>_.
     if m \<noteq> MAXIMUM_ROUNDS
     then Inl (Error ''gate Task budget does not match the Definition-owned Task execution policy'')
     else Inr \<lparr>gtg_round = r, gtg_maximumRounds = m\<rparr>))))"

definition gtg_finalRound :: "GateTaskBudget \<Rightarrow> bool" where
  "gtg_finalRound b \<longleftrightarrow> gtg_round b = gtg_maximumRounds b"

definition GateTaskBudget_toJSON :: "GateTaskBudget \<Rightarrow> jsval" where
  "GateTaskBudget_toJSON b = JObj
     [(''round'', JInt (int (gtg_round b))), (''maximumRounds'', JInt (int (gtg_maximumRounds b))),
      (''finalRound'', JBool (gtg_finalRound b))]"

definition wf_GateTaskBudget :: "GateTaskBudget \<Rightarrow> bool" where
  "wf_GateTaskBudget b \<longleftrightarrow> 1 \<le> gtg_round b \<and> gtg_round b \<le> MAXIMUM_ROUNDS \<and> gtg_maximumRounds b = MAXIMUM_ROUNDS"

lemma rounds_safe: "n \<le> MAXIMUM_ROUNDS \<Longrightarrow> is_safe n" "1 \<le> MAXIMUM_ROUNDS"
  by (simp_all add: is_safe_def max_safe_def MAXIMUM_ROUNDS_def)

interpretation task_budget: json_codec new_GateTaskBudget wf_GateTaskBudget GateTaskBudget_toJSON
proof (unfold_locales, goal_cases)
  case (1 v x)
  then show ?case
    unfolding new_GateTaskBudget_def by (auto simp: wf_GateTaskBudget_def split: if_splits)
next
  case (2 x)
  then show ?case
    by (simp add: new_GateTaskBudget_def wf_GateTaskBudget_def GateTaskBudget_toJSON_def rounds_safe)
qed (simp add: GateTaskBudget_toJSON_def)

subsection \<open>Observation convergence\<close>

record GateObservationConvergenceFacts =
  goc_evidenceKey :: string
  goc_observationFingerprints :: "string list"
  goc_occurrenceCount :: nat
  goc_repairCount :: nat
  goc_recurrenceCount :: nat
  goc_recurringObservationCount :: nat
  goc_latestOutcomeDisposition :: "string option"
  goc_latestOutcomeChangedEvidence :: bool
  goc_finalRound :: bool

definition OUTCOME_DISPOSITIONS :: "string list" where
  "OUTCOME_DISPOSITIONS = [''applied'', ''rejected-no-progress'', ''rejected-invalid'']"

definition new_GateObservationConvergenceFacts :: "jsval \<Rightarrow> GateObservationConvergenceFacts res" where
  "new_GateObservationConvergenceFacts arg = bindE (destructure arg) (\<lambda>ob.
     let fe = Error ''Gate convergence observation fingerprints must be a non-empty array'';
         be = Error ''Gate convergence evidence-change and final-round facts must be boolean'' in
     bindE (gt_text ''Gate convergence evidence key'' (fld ob ''evidenceKey'')) (\<lambda>k.
     bindE (nonempty_strings fe (fld_or ob ''observationFingerprints'' (JArr []))) (\<lambda>fs0.
     if fs0 = [] then Inl fe else
     let fs = sort fs0 in
     if \<not> distinct fs then Inl (Error ''Gate convergence observation fingerprints must be unique'') else
     bindE (positiveInteger ''Gate convergence occurrenceCount'' (fld ob ''occurrenceCount'')) (\<lambda>oc.
     bindE (nonNegativeInteger ''Gate convergence repairCount'' (fld ob ''repairCount'')) (\<lambda>rc.
     bindE (nonNegativeInteger ''Gate convergence recurrenceCount'' (fld ob ''recurrenceCount'')) (\<lambda>cc.
     bindE (nonNegativeInteger ''Gate convergence recurringObservationCount'' (fld ob ''recurringObservationCount'')) (\<lambda>ro.
     if cc > oc - 1 then Inl (Error ''Gate convergence recurrenceCount exceeds its occurrences'')
     else if ro > length fs then Inl (Error ''Gate convergence recurringObservationCount exceeds its observations'')
     else if ro > cc then Inl (Error ''Gate convergence recurring observations exceed recurrence occurrences'') else
     bindE (gt_optional ''Gate convergence latest outcome disposition'' (fld ob ''latestOutcomeDisposition'')) (\<lambda>ld.
     if ld \<noteq> None \<and> the ld \<notin> set OUTCOME_DISPOSITIONS
     then Inl (Error ''Gate convergence latest outcome disposition is invalid'') else
     bindE (bool_or be (fld_or ob ''latestOutcomeChangedEvidence'' (JBool False))) (\<lambda>lc.
     bindE (bool_or be (fld_or ob ''finalRound'' (JBool False))) (\<lambda>fr.
     Inr \<lparr>goc_evidenceKey = k, goc_observationFingerprints = fs, goc_occurrenceCount = oc, goc_repairCount = rc,
          goc_recurrenceCount = cc, goc_recurringObservationCount = ro, goc_latestOutcomeDisposition = ld,
          goc_latestOutcomeChangedEvidence = lc, goc_finalRound = fr\<rparr>))))))))))"

definition goc_appliedChangedRepair :: "GateObservationConvergenceFacts \<Rightarrow> bool" where
  "goc_appliedChangedRepair c \<longleftrightarrow> goc_latestOutcomeDisposition c = Some ''applied'' \<and> goc_latestOutcomeChangedEvidence c"

definition goc_sameEvidence :: "GateObservationConvergenceFacts \<Rightarrow> bool" where
  "goc_sameEvidence c \<longleftrightarrow> goc_latestOutcomeDisposition c \<noteq> None \<and> \<not> goc_appliedChangedRepair c"

definition goc_recurring :: "GateObservationConvergenceFacts \<Rightarrow> bool" where
  "goc_recurring c \<longleftrightarrow> goc_recurrenceCount c > 0"

definition goc_allRecurring :: "GateObservationConvergenceFacts \<Rightarrow> bool" where
  "goc_allRecurring c \<longleftrightarrow> goc_recurringObservationCount c = length (goc_observationFingerprints c)"

definition goc_freshObservationCount :: "GateObservationConvergenceFacts \<Rightarrow> int" where
  "goc_freshObservationCount c = int (length (goc_observationFingerprints c)) - int (goc_recurringObservationCount c)"

definition GateObservationConvergenceFacts_toJSON :: "GateObservationConvergenceFacts \<Rightarrow> jsval" where
  "GateObservationConvergenceFacts_toJSON c = JObj
     [(''evidenceKey'', JStr (goc_evidenceKey c)),
      (''observationFingerprints'', JArr (map JStr (goc_observationFingerprints c))),
      (''occurrenceCount'', JInt (int (goc_occurrenceCount c))), (''repairCount'', JInt (int (goc_repairCount c))),
      (''recurrenceCount'', JInt (int (goc_recurrenceCount c))),
      (''recurringObservationCount'', JInt (int (goc_recurringObservationCount c))),
      (''freshObservationCount'', JInt (goc_freshObservationCount c)),
      (''latestOutcomeDisposition'', js_opt JStr (goc_latestOutcomeDisposition c)),
      (''latestOutcomeChangedEvidence'', JBool (goc_latestOutcomeChangedEvidence c)),
      (''sameEvidence'', JBool (goc_sameEvidence c)), (''recurring'', JBool (goc_recurring c)),
      (''appliedChangedRepair'', JBool (goc_appliedChangedRepair c)), (''finalRound'', JBool (goc_finalRound c))]"

definition wf_GateObservationConvergenceFacts :: "GateObservationConvergenceFacts \<Rightarrow> bool" where
  "wf_GateObservationConvergenceFacts c \<longleftrightarrow> is_text (goc_evidenceKey c) \<and> goc_observationFingerprints c \<noteq> [] \<and>
     [] \<notin> set (goc_observationFingerprints c) \<and> sorted (goc_observationFingerprints c) \<and>
     distinct (goc_observationFingerprints c) \<and> is_safe (goc_occurrenceCount c) \<and> 1 \<le> goc_occurrenceCount c \<and>
     is_safe (goc_repairCount c) \<and> is_safe (goc_recurrenceCount c) \<and> is_safe (goc_recurringObservationCount c) \<and>
     goc_recurrenceCount c \<le> goc_occurrenceCount c - 1 \<and>
     goc_recurringObservationCount c \<le> length (goc_observationFingerprints c) \<and>
     goc_recurringObservationCount c \<le> goc_recurrenceCount c \<and>
     pred_option is_text (goc_latestOutcomeDisposition c) \<and>
     pred_option (\<lambda>d. d \<in> set OUTCOME_DISPOSITIONS) (goc_latestOutcomeDisposition c)"

lemma nonempty_sort: "xs \<noteq> [] \<Longrightarrow> sort xs \<noteq> []"
  by (metis length_0_conv length_sort)

lemma outcome_wf:
  "\<not> (ld \<noteq> None \<and> the ld \<notin> set OUTCOME_DISPOSITIONS) \<Longrightarrow> pred_option (\<lambda>d. d \<in> set OUTCOME_DISPOSITIONS) ld"
  by (cases ld) auto

interpretation convergence: json_codec new_GateObservationConvergenceFacts wf_GateObservationConvergenceFacts
  GateObservationConvergenceFacts_toJSON
proof (unfold_locales, goal_cases)
  case (1 v x)
  then show ?case
    unfolding new_GateObservationConvergenceFacts_def Let_def
    by (auto simp: wf_GateObservationConvergenceFacts_def not_less split: if_splits
      dest: gate_wfs nonempty_strings_wf nonempty_sort intro: outcome_wf)
next
  case (2 x)
  moreover from 2 have "sort (goc_observationFingerprints x) = goc_observationFingerprints x"
    by (simp add: wf_GateObservationConvergenceFacts_def sorted_sort_id)
  moreover from 2 have "\<not> (goc_latestOutcomeDisposition x \<noteq> None \<and>
      the (goc_latestOutcomeDisposition x) \<notin> set OUTCOME_DISPOSITIONS)"
    by (cases "goc_latestOutcomeDisposition x") (auto simp: wf_GateObservationConvergenceFacts_def)
  ultimately show ?case
    unfolding new_GateObservationConvergenceFacts_def wf_GateObservationConvergenceFacts_def
      GateObservationConvergenceFacts_toJSON_def Let_def by (simp add: not_less)
qed (simp add: GateObservationConvergenceFacts_toJSON_def)

subsection \<open>Settlement progress of a Task Gate\<close>

record TaskGateClassificationRecoveryProgress =
  tcr_status :: string
  tcr_failedActivityId :: "string option"
  tcr_recoveryActivityId :: "string option"

definition RECOVERY_STATUSES :: "string list" where
  "RECOVERY_STATUSES = [''not-required'', ''required'', ''recorded'']"

definition new_TaskGateClassificationRecoveryProgress :: "jsval \<Rightarrow> TaskGateClassificationRecoveryProgress res" where
  "new_TaskGateClassificationRecoveryProgress arg = bindE (destructure arg) (\<lambda>ob.
     bindE (gt_literal RECOVERY_STATUSES ''Task Gate classification recovery status''
              ''Task Gate classification recovery status is invalid'' (fld_or ob ''status'' (JStr ''not-required''))) (\<lambda>s.
     bindE (gt_optional ''Task Gate classification recovery failed Activity id'' (fld ob ''failedActivityId'')) (\<lambda>f.
     bindE (gt_optional ''Task Gate classification recovery Activity id'' (fld ob ''recoveryActivityId'')) (\<lambda>r.
     if s = ''not-required'' \<and> (f \<noteq> None \<or> r \<noteq> None)
     then Inl (Error ''Task Gate classification recovery absence cannot carry Activity identities'')
     else if s = ''required'' \<and> (f = None \<or> r \<noteq> None)
     then Inl (Error ''required Task Gate classification recovery must identify only the failed Activity'')
     else if s = ''recorded'' \<and> (f = None \<or> r = None)
     then Inl (Error ''recorded Task Gate classification recovery requires both Activity identities'')
     else Inr \<lparr>tcr_status = s, tcr_failedActivityId = f, tcr_recoveryActivityId = r\<rparr>))))"

definition tcr_required :: "TaskGateClassificationRecoveryProgress \<Rightarrow> bool" where
  "tcr_required p \<longleftrightarrow> tcr_status p = ''required''"

definition TaskGateClassificationRecoveryProgress_toJSON :: "TaskGateClassificationRecoveryProgress \<Rightarrow> jsval" where
  "TaskGateClassificationRecoveryProgress_toJSON p = JObj
     [(''status'', JStr (tcr_status p)), (''failedActivityId'', js_opt JStr (tcr_failedActivityId p)),
      (''recoveryActivityId'', js_opt JStr (tcr_recoveryActivityId p))]"

definition wf_TaskGateClassificationRecoveryProgress :: "TaskGateClassificationRecoveryProgress \<Rightarrow> bool" where
  "wf_TaskGateClassificationRecoveryProgress p \<longleftrightarrow> tcr_status p \<in> set RECOVERY_STATUSES \<and>
     pred_option is_text (tcr_failedActivityId p) \<and> pred_option is_text (tcr_recoveryActivityId p) \<and>
     \<not> (tcr_status p = ''not-required'' \<and> (tcr_failedActivityId p \<noteq> None \<or> tcr_recoveryActivityId p \<noteq> None)) \<and>
     \<not> (tcr_status p = ''required'' \<and> (tcr_failedActivityId p = None \<or> tcr_recoveryActivityId p \<noteq> None)) \<and>
     \<not> (tcr_status p = ''recorded'' \<and> (tcr_failedActivityId p = None \<or> tcr_recoveryActivityId p = None))"

lemma recovery_status_text: "s \<in> set RECOVERY_STATUSES \<Longrightarrow> is_text s"
  by (auto simp: RECOVERY_STATUSES_def is_text_def js_trim_def js_ws_def)

interpretation classification: json_codec new_TaskGateClassificationRecoveryProgress
  wf_TaskGateClassificationRecoveryProgress TaskGateClassificationRecoveryProgress_toJSON
proof (unfold_locales, goal_cases)
  case (1 v x)
  then show ?case
    unfolding new_TaskGateClassificationRecoveryProgress_def wf_TaskGateClassificationRecoveryProgress_def
    by (auto dest: gate_wfs split: if_splits simp del: de_Morgan_conj de_Morgan_disj)
next
  case (2 x)
  then show ?case
    unfolding new_TaskGateClassificationRecoveryProgress_def wf_TaskGateClassificationRecoveryProgress_def
      TaskGateClassificationRecoveryProgress_toJSON_def
    by (simp add: recovery_status_text del: de_Morgan_conj de_Morgan_disj)
qed (simp add: TaskGateClassificationRecoveryProgress_toJSON_def)

record TaskGateSettlementProgress =
  tgs_classificationRecorded :: bool
  tgs_classificationRecovery :: TaskGateClassificationRecoveryProgress
  tgs_metricOperations :: "string list"
  tgs_issueLogRecorded :: bool
  tgs_terminalLifecycleRecorded :: bool

definition metric_operations :: "jsval \<Rightarrow> string list res" where
  "metric_operations v =
     (let e = Error ''Task Gate settlement metric operations are invalid'' in
      case string_array v of
        None \<Rightarrow> Inl e
      | Some ops \<Rightarrow>
          if list_ex (\<lambda>x. x \<notin> set [''increment'', ''reset'']) ops then Inl e
          else if \<not> distinct ops then Inl (Error ''Task Gate settlement metric operations must be unique'')
          else if length ops > 1 then Inl (Error ''Task Gate settlement cannot record conflicting metric operations'')
          else Inr ops)"

definition new_TaskGateSettlementProgress :: "jsval \<Rightarrow> TaskGateSettlementProgress res" where
  "new_TaskGateSettlementProgress arg = bindE (destructure arg) (\<lambda>ob.
     let le = Error ''Task Gate settlement lifecycle progress must be boolean'' in
     bindE (bool_or le (fld ob ''classificationRecorded'')) (\<lambda>c.
     bindE (bool_or le (fld ob ''terminalLifecycleRecorded'')) (\<lambda>t.
     bindE (metric_operations (fld ob ''metricOperations'')) (\<lambda>ops.
     bindE (bool_or (Error ''Task Gate settlement issue-log progress must be boolean'') (fld ob ''issueLogRecorded'')) (\<lambda>i.
     if t \<and> \<not> i then Inl (Error ''Task Gate terminal lifecycle requires its issue-log effect'') else
     bindE (new_TaskGateClassificationRecoveryProgress
              (fld_or ob ''classificationRecovery'' (JObj [(''status'', JStr ''not-required'')]))) (\<lambda>r.
     if tcr_required r \<and> c
     then Inl (Error ''Task Gate classification recovery cannot coexist with a completed classification'')
     else Inr \<lparr>tgs_classificationRecorded = c, tgs_classificationRecovery = r, tgs_metricOperations = sort ops,
          tgs_issueLogRecorded = i, tgs_terminalLifecycleRecorded = t\<rparr>))))))"

text \<open>A metric effect is read through its \<open>operation\<close> only.\<close>

definition tgs_hasMetric :: "TaskGateSettlementProgress \<Rightarrow> string option \<Rightarrow> bool" where
  "tgs_hasMetric p effect = (case effect of None \<Rightarrow> False | Some operation \<Rightarrow> operation \<in> set (tgs_metricOperations p))"

definition tgs_requiresReconciliation ::
  "TaskGateSettlementProgress \<Rightarrow> bool \<Rightarrow> string option \<Rightarrow> bool \<Rightarrow> bool \<Rightarrow> bool" where
  "tgs_requiresReconciliation p classificationRequired metricEffect issueLogRequired terminalLifecycleRequired \<longleftrightarrow>
     tcr_required (tgs_classificationRecovery p)
     \<or> (classificationRequired \<and> \<not> tgs_classificationRecorded p)
     \<or> (metricEffect \<noteq> None \<and> \<not> tgs_hasMetric p metricEffect)
     \<or> (issueLogRequired \<and> \<not> tgs_issueLogRecorded p)
     \<or> (terminalLifecycleRequired \<and> \<not> tgs_terminalLifecycleRecorded p)"

definition TaskGateSettlementProgress_toJSON :: "TaskGateSettlementProgress \<Rightarrow> jsval" where
  "TaskGateSettlementProgress_toJSON p = JObj
     [(''classificationRecorded'', JBool (tgs_classificationRecorded p)),
      (''classificationRecovery'', TaskGateClassificationRecoveryProgress_toJSON (tgs_classificationRecovery p)),
      (''metricOperations'', JArr (map JStr (tgs_metricOperations p))),
      (''issueLogRecorded'', JBool (tgs_issueLogRecorded p)),
      (''terminalLifecycleRecorded'', JBool (tgs_terminalLifecycleRecorded p))]"

definition wf_TaskGateSettlementProgress :: "TaskGateSettlementProgress \<Rightarrow> bool" where
  "wf_TaskGateSettlementProgress p \<longleftrightarrow> wf_TaskGateClassificationRecoveryProgress (tgs_classificationRecovery p) \<and>
     list_all (\<lambda>x. x \<in> set [''increment'', ''reset'']) (tgs_metricOperations p) \<and> length (tgs_metricOperations p) \<le> 1 \<and>
     (tgs_terminalLifecycleRecorded p \<longrightarrow> tgs_issueLogRecorded p) \<and>
     \<not> (tcr_required (tgs_classificationRecovery p) \<and> tgs_classificationRecorded p)"

lemma short_list: "length xs \<le> 1 \<Longrightarrow> distinct xs \<and> sort xs = (xs :: string list)"
  by (cases xs) auto

lemma metric_operations_wf:
  "metric_operations v = Inr ops \<Longrightarrow> list_all (\<lambda>x. x \<in> set [''increment'', ''reset'']) ops \<and> length ops \<le> 1 \<and> sort ops = ops"
  unfolding metric_operations_def Let_def
  by (cases "string_array v") (auto simp: list_all_iff list_ex_iff not_less short_list split: if_splits)

lemma metric_operations_js:
  "list_all (\<lambda>x. x \<in> set [''increment'', ''reset'']) ops \<Longrightarrow> length ops \<le> 1 \<Longrightarrow>
   metric_operations (JArr (map JStr ops)) = Inr ops"
  using short_list [of ops] by (auto simp: metric_operations_def Let_def list_all_iff list_ex_iff)

interpretation settlement: json_codec new_TaskGateSettlementProgress wf_TaskGateSettlementProgress
  TaskGateSettlementProgress_toJSON
proof (unfold_locales, goal_cases)
  case (1 v x)
  then show ?case
    unfolding new_TaskGateSettlementProgress_def Let_def
    by (auto simp: wf_TaskGateSettlementProgress_def dest!: metric_operations_wf dest: classification.mk_wf split: if_splits)
next
  case (2 x)
  then show ?case using short_list [of "tgs_metricOperations x"]
    by (simp add: new_TaskGateSettlementProgress_def wf_TaskGateSettlementProgress_def
        TaskGateSettlementProgress_toJSON_def Let_def metric_operations_js classification.mk_js)
qed (simp add: TaskGateSettlementProgress_toJSON_def)

end
