(* ===== verification/Gate_Transition_Facts.thy ===== *)
theory Gate_Transition_Facts
  imports Gate_Facts
begin

section \<open>The complete input of a Gate decision\<close>

text \<open>
  \<open>GateTransitionFacts\<close> of \<open>src/flow/lib/gate-transition.js\<close>: the constructor with its cross-field
  rules in the order of the source, \<open>toJSON\<close>, \<open>fromPersisted\<close> and the integrity check that names
  the first binding that does not hold.
\<close>

record GateTransitionFacts =
  gtf_phase :: string
  gtf_scope :: string
  gtf_snapshotRevision :: "string option"
  gtf_producer :: GateProducerOwnership
  gtf_currentAttempt :: GateAttemptIdentity
  gtf_target :: GateTargetBinding
  gtf_catalogPublication :: GateCatalogPublication
  gtf_result :: string
  gtf_failure :: "GateFailureCategory option"
  gtf_retry :: GateRetryMetrics
  gtf_lineage :: GateLineage
  gtf_recoveryEvidence :: GateRecoveryEvidence
  gtf_postPublication :: GatePostPublicationState
  gtf_nonblocking :: bool
  gtf_reviewReadiness :: "GateReviewFindingReadiness option"
  gtf_taskLifecycle :: "GateTaskLifecycle option"
  gtf_taskBudget :: "GateTaskBudget option"
  gtf_taskSettlementProgress :: "TaskGateSettlementProgress option"
  gtf_observationConvergence :: "GateObservationConvergenceFacts option"
  gtf_specCycle :: "SpecGateCycleProgress option"

subsection \<open>Cross-field rules\<close>

definition failure_shape :: "string \<Rightarrow> GateFailureCategory option \<Rightarrow> bool" where
  "failure_shape result failure \<longleftrightarrow> (result = ''fail'') = (failure \<noteq> None)"

definition readiness_scope :: "string \<Rightarrow> GateReviewFindingReadiness option \<Rightarrow> bool" where
  "readiness_scope phase readiness \<longleftrightarrow> \<not> (phase = ''integration'' \<and> readiness = None
     \<or> readiness \<noteq> None \<and> phase \<notin> {''integration'', ''task-impl''})"

definition exactly_task :: "string \<Rightarrow> 'a option \<Rightarrow> bool" where
  "exactly_task scope x \<longleftrightarrow> (scope = ''task'') = (x \<noteq> None)"

definition assertTarget :: "GateReviewFindingReadiness \<Rightarrow> GateTargetBinding \<Rightarrow> GateTaskBudget option \<Rightarrow> bool" where
  "assertTarget readiness target budget = (case grr_unavailable readiness of
     None \<Rightarrow> True
   | Some u \<Rightarrow> (case budget of None \<Rightarrow> False
     | Some b \<Rightarrow> gtb_taskId target = Some (trb_taskId (guo_binding u)) \<and> gtb_runId target = trb_runId (guo_binding u)
         \<and> gtb_specId target = trb_specId (guo_binding u) \<and> gtg_round b = guo_taskRound u))"

definition readiness_target :: "GateReviewFindingReadiness option \<Rightarrow> GateTargetBinding \<Rightarrow> GateTaskBudget option \<Rightarrow> bool" where
  "readiness_target readiness target budget = (case readiness of None \<Rightarrow> True | Some r \<Rightarrow> assertTarget r target budget)"

definition recovered_shape :: "string \<Rightarrow> GateRecoveryEvidence \<Rightarrow> bool" where
  "recovered_shape result evidence \<longleftrightarrow> (result = ''recovered'') = (gre_kind evidence = ''recovered'')"

definition failure_category :: "GateFailureCategory option \<Rightarrow> string option" where
  "failure_category f = map_option gfc_category f"

definition repair_shape :: "GateRecoveryEvidence \<Rightarrow> GateFailureCategory option \<Rightarrow> bool" where
  "repair_shape evidence failure \<longleftrightarrow> \<not> (gre_kind evidence \<in> {''repair'', ''defer''} \<and> failure_category failure \<noteq> Some ''semantic'')"

definition convergence_failure :: "GateObservationConvergenceFacts option \<Rightarrow> GateFailureCategory option \<Rightarrow> bool" where
  "convergence_failure c failure \<longleftrightarrow> \<not> (c \<noteq> None \<and> failure_category failure \<noteq> Some ''semantic'')"

definition budget_finalRound :: "GateTaskBudget option \<Rightarrow> bool" where
  "budget_finalRound b = (case b of None \<Rightarrow> False | Some b \<Rightarrow> gtg_finalRound b)"

definition convergence_round :: "GateObservationConvergenceFacts option \<Rightarrow> GateTaskBudget option \<Rightarrow> bool" where
  "convergence_round c budget = (case c of None \<Rightarrow> True | Some c \<Rightarrow> goc_finalRound c = budget_finalRound budget)"

definition spec_cycle_shape :: "string \<Rightarrow> SpecGateCycleProgress option \<Rightarrow> bool" where
  "spec_cycle_shape phase c \<longleftrightarrow> (phase = ''spec'') = (c \<noteq> None)"

text \<open>\<open>if (!rule) throw new Error(message)\<close>.\<close>

definition require :: "bool \<Rightarrow> string \<Rightarrow> unit res" where
  "require rule message = (if rule then Inr () else Inl (Error message))"

lemma require_eq_Inr [simp]: "require rule message = Inr u \<longleftrightarrow> rule"
  by (simp add: require_def)

definition new_GateTransitionFacts :: "jsval \<Rightarrow> GateTransitionFacts res" where
  "new_GateTransitionFacts arg = bindE (destructure arg) (\<lambda>ob.
     bindE (gt_literal GATE_PHASES ''gate phase'' ''gate phase is invalid'' (fld ob ''phase'')) (\<lambda>phase.
     bindE (gt_literal GATE_SCOPES ''gate scope'' ''gate scope is invalid'' (fld_or ob ''scope'' (JStr ''flow''))) (\<lambda>scope.
     bindE (gt_optional ''gate snapshot revision'' (fld ob ''snapshotRevision'')) (\<lambda>snapshot.
     bindE (new_GateProducerOwnership (fld ob ''producer'')) (\<lambda>producer.
     bindE (new_GateAttemptIdentity (fld ob ''currentAttempt'')) (\<lambda>attempt.
     bindE (new_GateTargetBinding (fld ob ''target'')) (\<lambda>target.
     bindE (new_GateCatalogPublication (fld ob ''catalogPublication'')) (\<lambda>catalog.
     bindE (gt_literal GATE_RESULTS ''gate result'' ''gate result is invalid'' (fld ob ''result'')) (\<lambda>result.
     bindE (nullish new_GateFailureCategory (fld ob ''failure'')) (\<lambda>failure.
     bindE (require (failure_shape result failure) ''gate failure facts must accompany exactly a failed result'') (\<lambda>_.
     bindE (new_GateRetryMetrics (fld ob ''retry'')) (\<lambda>retry.
     bindE (new_GateLineage (fld ob ''lineage'')) (\<lambda>lineage.
     bindE (new_GateRecoveryEvidence (fld_or ob ''recoveryEvidence'' (JObj []))) (\<lambda>evidence.
     bindE (new_GatePostPublicationState
              (fld_or ob ''postPublication'' (JObj [(''status'', JStr ''classified'')]))) (\<lambda>post.
     bindE (bool_or (Error ''gate nonblocking fact must be boolean'') (fld_or ob ''nonblocking'' (JBool False))) (\<lambda>nonblocking.
     bindE (nullable new_GateReviewFindingReadiness (fld_or ob ''reviewReadiness'' JNull)) (\<lambda>readiness.
     bindE (require (readiness_scope phase readiness)
              ''implementation Gate review finding readiness has an invalid scope'') (\<lambda>_.
     bindE (nullable new_GateTaskLifecycle (fld_or ob ''taskLifecycle'' JNull)) (\<lambda>lifecycle.
     bindE (require (exactly_task scope lifecycle) ''gate Task lifecycle must exist exactly for task scope'') (\<lambda>_.
     bindE (nullable new_GateTaskBudget (fld_or ob ''taskBudget'' JNull)) (\<lambda>budget.
     bindE (require (exactly_task scope budget) ''gate Task budget must exist exactly for task scope'') (\<lambda>_.
     bindE (require (readiness_target readiness target budget)
              ''Gate unavailable Review observation belongs to another Task, source or round'') (\<lambda>_.
     bindE (nullable new_TaskGateSettlementProgress (fld_or ob ''taskSettlementProgress'' JNull)) (\<lambda>settlement.
     bindE (require (exactly_task scope settlement) ''gate Task settlement progress must exist exactly for task scope'') (\<lambda>_.
     bindE (require (exactly_task scope snapshot)
              ''gate snapshot revision is required exactly for Task settlement scope'') (\<lambda>_.
     bindE (require (recovered_shape result evidence) ''recovered gate result requires matching recovery evidence'') (\<lambda>_.
     bindE (require (repair_shape evidence failure) ''gate repair or defer evidence requires a semantic failure'') (\<lambda>_.
     bindE (nullable new_GateObservationConvergenceFacts (fld_or ob ''observationConvergence'' JNull)) (\<lambda>convergence.
     bindE (require (convergence_failure convergence failure)
              ''Gate observation convergence requires a semantic failure'') (\<lambda>_.
     bindE (require (convergence_round convergence budget)
              ''Gate observation convergence final round does not match Task budget'') (\<lambda>_.
     bindE (nullable new_SpecGateCycleProgress (fld_or ob ''specCycle'' JNull)) (\<lambda>cycle.
     bindE (require (spec_cycle_shape phase cycle)
              ''Spec Gate cycle progress must exist exactly for the spec phase'') (\<lambda>_.
     Inr \<lparr>gtf_phase = phase, gtf_scope = scope, gtf_snapshotRevision = snapshot, gtf_producer = producer,
          gtf_currentAttempt = attempt, gtf_target = target, gtf_catalogPublication = catalog, gtf_result = result,
          gtf_failure = failure, gtf_retry = retry, gtf_lineage = lineage, gtf_recoveryEvidence = evidence,
          gtf_postPublication = post, gtf_nonblocking = nonblocking, gtf_reviewReadiness = readiness,
          gtf_taskLifecycle = lifecycle, gtf_taskBudget = budget, gtf_taskSettlementProgress = settlement,
          gtf_observationConvergence = convergence, gtf_specCycle = cycle\<rparr>)))))))))))))))))))))))))))))))))"

definition fromPersisted :: "jsval \<Rightarrow> GateTransitionFacts res" where
  "fromPersisted v = bindE (requireObject ''persisted gate transition facts'' v) (\<lambda>_. new_GateTransitionFacts v)"

definition GateTransitionFacts_toJSON :: "GateTransitionFacts \<Rightarrow> jsval" where
  "GateTransitionFacts_toJSON f = JObj
     ([(''phase'', JStr (gtf_phase f)), (''scope'', JStr (gtf_scope f))] @
      (case gtf_snapshotRevision f of None \<Rightarrow> [] | Some s \<Rightarrow> [(''snapshotRevision'', JStr s)]) @
      [(''producer'', GateProducerOwnership_toJSON (gtf_producer f)),
       (''target'', GateTargetBinding_toJSON (gtf_target f)),
       (''currentAttempt'', GateAttemptIdentity_toJSON (gtf_currentAttempt f)),
       (''catalogPublication'', GateCatalogPublication_toJSON (gtf_catalogPublication f)),
       (''result'', JStr (gtf_result f)), (''failure'', js_opt GateFailureCategory_toJSON (gtf_failure f)),
       (''retry'', GateRetryMetrics_toJSON (gtf_retry f)), (''lineage'', GateLineage_toJSON (gtf_lineage f)),
       (''recoveryEvidence'', GateRecoveryEvidence_toJSON (gtf_recoveryEvidence f)),
       (''postPublication'', GatePostPublicationState_toJSON (gtf_postPublication f)),
       (''nonblocking'', JBool (gtf_nonblocking f)),
       (''reviewReadiness'', js_opt GateReviewFindingReadiness_toJSON (gtf_reviewReadiness f)),
       (''taskLifecycle'', js_opt GateTaskLifecycle_toJSON (gtf_taskLifecycle f)),
       (''taskBudget'', js_opt GateTaskBudget_toJSON (gtf_taskBudget f)),
       (''observationConvergence'', js_opt GateObservationConvergenceFacts_toJSON (gtf_observationConvergence f)),
       (''specCycle'', js_opt SpecGateCycleProgress_toJSON (gtf_specCycle f))] @
      (case gtf_taskSettlementProgress f of None \<Rightarrow> []
       | Some p \<Rightarrow> [(''taskSettlementProgress'', TaskGateSettlementProgress_toJSON p)]))"

text \<open>The integrity getter returns the name of the first condition that holds, in this order.  The
  Task binding check may throw on a missing Task id; it is only reached once the ids agree.\<close>

definition first_failure :: "(bool \<times> string) list \<Rightarrow> string option" where
  "first_failure cs = map_option snd (find fst cs)"

definition ownership_failure :: "GateTransitionFacts \<Rightarrow> string option" where
  "ownership_failure f =
     (let p = gtf_producer f; t = gtf_target f in first_failure
       [((gtf_phase f = ''task-impl'') \<noteq> (gtf_scope f = ''task''), ''phase_scope_mismatch''),
        (gpo_phase p \<noteq> gtf_phase f \<or> gpo_scope p \<noteq> gtf_scope f, ''producer_ownership_mismatch''),
        (gpo_runId p \<noteq> gtb_runId t \<or> gpo_specId p \<noteq> gtb_specId t, ''target_binding_mismatch''),
        (gpo_taskId p \<noteq> gtb_taskId t, ''target_task_mismatch'')])"

definition task_binding_failure :: "GateTransitionFacts \<Rightarrow> bool res" where
  "task_binding_failure f =
     (if gtf_scope f = ''task'' then
        bindE (taskGateBindingIsValid (gtb_taskId (gtf_target f)) (gtb_stepId (gtf_target f))) (\<lambda>a.
        if \<not> a then Inr True else
        bindE (taskGateBindingIsValid (gpo_taskId (gtf_producer f)) (gpo_stepId (gtf_producer f))) (\<lambda>b. Inr (\<not> b)))
      else Inr False)"

definition lifecycle_failure :: "GateTransitionFacts \<Rightarrow> bool" where
  "lifecycle_failure f = (case gtf_taskLifecycle f of None \<Rightarrow> False
     | Some l \<Rightarrow> Some (gtl_taskId l) \<noteq> gtb_taskId (gtf_target f) \<or> gtl_gateStepId l \<noteq> gtb_stepId (gtf_target f))"

definition binding_failure :: "GateTransitionFacts \<Rightarrow> string option" where
  "binding_failure f = first_failure
     [(lifecycle_failure f, ''task_lifecycle_mismatch''),
      (\<not> gai_matches (gtf_currentAttempt f) (gtb_attempt (gtf_target f)), ''target_attempt_mismatch''),
      (gpo_stepId (gtf_producer f) \<noteq> gtb_stepId (gtf_target f), ''producer_target_mismatch''),
      (gpo_activityId (gtf_producer f) \<noteq> gcp_producerActivityId (gtf_catalogPublication f), ''catalog_producer_mismatch''),
      (\<not> gai_matches (gtf_currentAttempt f) (gcp_attempt (gtf_catalogPublication f)), ''attempt_catalog_mismatch''),
      (gcp_fingerprint (gtf_catalogPublication f) \<noteq> gln_canonicalFingerprint (gtf_lineage f), ''catalog_lineage_mismatch''),
      (\<not> gai_matches (gtf_currentAttempt f) (gln_canonicalAttempt (gtf_lineage f)), ''attempt_lineage_mismatch''),
      (\<not> gln_isCurrent (gtf_lineage f), ''source_canonical_lineage_mismatch''),
      (\<not> gre_isBoundTo (gtf_recoveryEvidence f) (gtf_lineage f), ''recovery_lineage_mismatch'')]"

definition integrityFailure :: "GateTransitionFacts \<Rightarrow> string option res" where
  "integrityFailure f = (case ownership_failure f of
     Some reason \<Rightarrow> Inr (Some reason)
   | None \<Rightarrow> bindE (task_binding_failure f) (\<lambda>mismatch.
       Inr (if mismatch then Some ''task_step_identity_mismatch'' else binding_failure f)))"

subsection \<open>The codec\<close>

definition wf_GateTransitionFacts :: "GateTransitionFacts \<Rightarrow> bool" where
  "wf_GateTransitionFacts f \<longleftrightarrow> gtf_phase f \<in> set GATE_PHASES \<and> gtf_scope f \<in> set GATE_SCOPES \<and>
     pred_option is_text (gtf_snapshotRevision f) \<and> wf_GateProducerOwnership (gtf_producer f) \<and>
     wf_GateAttemptIdentity (gtf_currentAttempt f) \<and> wf_GateTargetBinding (gtf_target f) \<and>
     wf_GateCatalogPublication (gtf_catalogPublication f) \<and> gtf_result f \<in> set GATE_RESULTS \<and>
     pred_option wf_GateFailureCategory (gtf_failure f) \<and> failure_shape (gtf_result f) (gtf_failure f) \<and>
     wf_GateRetryMetrics (gtf_retry f) \<and> wf_GateLineage (gtf_lineage f) \<and>
     wf_GateRecoveryEvidence (gtf_recoveryEvidence f) \<and> wf_GatePostPublicationState (gtf_postPublication f) \<and>
     pred_option wf_GateReviewFindingReadiness (gtf_reviewReadiness f) \<and>
     readiness_scope (gtf_phase f) (gtf_reviewReadiness f) \<and> pred_option wf_GateTaskLifecycle (gtf_taskLifecycle f) \<and>
     exactly_task (gtf_scope f) (gtf_taskLifecycle f) \<and> pred_option wf_GateTaskBudget (gtf_taskBudget f) \<and>
     exactly_task (gtf_scope f) (gtf_taskBudget f) \<and>
     readiness_target (gtf_reviewReadiness f) (gtf_target f) (gtf_taskBudget f) \<and>
     pred_option wf_TaskGateSettlementProgress (gtf_taskSettlementProgress f) \<and>
     exactly_task (gtf_scope f) (gtf_taskSettlementProgress f) \<and> exactly_task (gtf_scope f) (gtf_snapshotRevision f) \<and>
     recovered_shape (gtf_result f) (gtf_recoveryEvidence f) \<and> repair_shape (gtf_recoveryEvidence f) (gtf_failure f) \<and>
     pred_option wf_GateObservationConvergenceFacts (gtf_observationConvergence f) \<and>
     convergence_failure (gtf_observationConvergence f) (gtf_failure f) \<and>
     convergence_round (gtf_observationConvergence f) (gtf_taskBudget f) \<and>
     pred_option wf_SpecGateCycleProgress (gtf_specCycle f) \<and> spec_cycle_shape (gtf_phase f) (gtf_specCycle f)"

lemmas facts_wfs = gate_wfs producer.mk_wf attempt.mk_wf target.mk_wf catalog.mk_wf failure.nullish_mk_wf retry.mk_wf
  lineage.mk_wf recovery.mk_wf post_publication.mk_wf readiness.nullable_mk_wf lifecycle.nullable_mk_wf
  task_budget.nullable_mk_wf settlement.nullable_mk_wf convergence.nullable_mk_wf spec_cycle.nullable_mk_wf

lemmas facts_jss = producer.mk_js attempt.mk_js target.mk_js catalog.mk_js failure.nullish_mk_js retry.mk_js
  lineage.mk_js recovery.mk_js post_publication.mk_js readiness.nullable_mk_js lifecycle.nullable_mk_js
  task_budget.nullable_mk_js settlement.nullable_mk_js convergence.nullable_mk_js spec_cycle.nullable_mk_js

lemma optional_simps:
  "is_text s \<Longrightarrow> gt_optional k (JStr s) = Inr (Some s)" "gt_optional k JUndef = Inr None" "nullable g JNull = Inr None"
  by (simp_all add: gt_optional_def nullish_def nullable_def)

lemma settlement_present:
  "wf_TaskGateSettlementProgress p \<Longrightarrow>
   nullable new_TaskGateSettlementProgress (TaskGateSettlementProgress_toJSON p) = Inr (Some p)"
  using settlement.nullable_mk_js [of "Some p"] by simp

interpretation gate_facts: json_codec new_GateTransitionFacts wf_GateTransitionFacts GateTransitionFacts_toJSON
proof (unfold_locales, goal_cases)
  case (1 v x)
  then show ?case
    unfolding new_GateTransitionFacts_def wf_GateTransitionFacts_def by (auto dest: facts_wfs)
next
  case (2 x)
  show ?case
  proof (cases "gtf_scope x = ''task''")
    case True
    with 2 obtain s p where "gtf_snapshotRevision x = Some s" "gtf_taskSettlementProgress x = Some p"
      by (auto simp: wf_GateTransitionFacts_def exactly_task_def)
    with 2 show ?thesis
      unfolding new_GateTransitionFacts_def wf_GateTransitionFacts_def GateTransitionFacts_toJSON_def
      by (simp add: facts_jss require_def optional_simps settlement_present)
  next
    case False
    with 2 have "gtf_snapshotRevision x = None" "gtf_taskSettlementProgress x = None"
      by (auto simp: wf_GateTransitionFacts_def exactly_task_def)
    with 2 show ?thesis
      unfolding new_GateTransitionFacts_def wf_GateTransitionFacts_def GateTransitionFacts_toJSON_def
      by (simp add: facts_jss require_def optional_simps)
  qed
qed (simp add: GateTransitionFacts_toJSON_def)

lemma fromPersisted_JObj [simp]: "fromPersisted (JObj ob) = new_GateTransitionFacts (JObj ob)"
  by (simp add: fromPersisted_def requireObject_def)

subsection \<open>The integrity check\<close>

text \<open>What an intact binding is: the check returns \<open>null\<close> exactly for these facts.\<close>

definition intact :: "GateTransitionFacts \<Rightarrow> bool" where
  "intact f \<longleftrightarrow> (gtf_phase f = ''task-impl'' \<longleftrightarrow> gtf_scope f = ''task'')
     \<and> gpo_phase (gtf_producer f) = gtf_phase f \<and> gpo_scope (gtf_producer f) = gtf_scope f
     \<and> gpo_runId (gtf_producer f) = gtb_runId (gtf_target f) \<and> gpo_specId (gtf_producer f) = gtb_specId (gtf_target f)
     \<and> gpo_taskId (gtf_producer f) = gtb_taskId (gtf_target f)
     \<and> (gtf_scope f = ''task'' \<longrightarrow> gtb_stepId (gtf_target f) = task_leaf (the (gtb_taskId (gtf_target f))) ''gate'')
     \<and> (\<forall>l. gtf_taskLifecycle f = Some l \<longrightarrow> gtb_taskId (gtf_target f) = Some (gtl_taskId l)
          \<and> gtb_stepId (gtf_target f) = gtl_gateStepId l)
     \<and> gtf_currentAttempt f = gtb_attempt (gtf_target f) \<and> gpo_stepId (gtf_producer f) = gtb_stepId (gtf_target f)
     \<and> gpo_activityId (gtf_producer f) = gcp_producerActivityId (gtf_catalogPublication f)
     \<and> gtf_currentAttempt f = gcp_attempt (gtf_catalogPublication f)
     \<and> gcp_fingerprint (gtf_catalogPublication f) = gln_canonicalFingerprint (gtf_lineage f)
     \<and> gtf_currentAttempt f = gln_canonicalAttempt (gtf_lineage f) \<and> gln_isCurrent (gtf_lineage f)
     \<and> gre_isBoundTo (gtf_recoveryEvidence f) (gtf_lineage f)"

lemma first_failure_None: "first_failure cs = None \<longleftrightarrow> (\<forall>c\<in>set cs. \<not> fst c)"
  by (auto simp: first_failure_def find_None_iff)

lemma lifecycle_failure_iff:
  "\<not> lifecycle_failure f \<longleftrightarrow> (\<forall>l. gtf_taskLifecycle f = Some l \<longrightarrow> gtb_taskId (gtf_target f) = Some (gtl_taskId l)
     \<and> gtb_stepId (gtf_target f) = gtl_gateStepId l)"
  by (auto simp: lifecycle_failure_def split: option.splits)

lemma ownership_failure_None:
  "ownership_failure f = None \<longleftrightarrow> (gtf_phase f = ''task-impl'' \<longleftrightarrow> gtf_scope f = ''task'')
     \<and> gpo_phase (gtf_producer f) = gtf_phase f \<and> gpo_scope (gtf_producer f) = gtf_scope f
     \<and> gpo_runId (gtf_producer f) = gtb_runId (gtf_target f) \<and> gpo_specId (gtf_producer f) = gtb_specId (gtf_target f)
     \<and> gpo_taskId (gtf_producer f) = gtb_taskId (gtf_target f)"
  by (simp add: ownership_failure_def first_failure_None Let_def)

lemma binding_failure_None:
  "binding_failure f = None \<longleftrightarrow> \<not> lifecycle_failure f
     \<and> gtf_currentAttempt f = gtb_attempt (gtf_target f) \<and> gpo_stepId (gtf_producer f) = gtb_stepId (gtf_target f)
     \<and> gpo_activityId (gtf_producer f) = gcp_producerActivityId (gtf_catalogPublication f)
     \<and> gtf_currentAttempt f = gcp_attempt (gtf_catalogPublication f)
     \<and> gcp_fingerprint (gtf_catalogPublication f) = gln_canonicalFingerprint (gtf_lineage f)
     \<and> gtf_currentAttempt f = gln_canonicalAttempt (gtf_lineage f) \<and> gln_isCurrent (gtf_lineage f)
     \<and> gre_isBoundTo (gtf_recoveryEvidence f) (gtf_lineage f)"
  by (simp add: binding_failure_def first_failure_None)

lemma taskGateBindingIsValid_Some:
  "is_text t \<Longrightarrow> taskGateBindingIsValid (Some t) s = Inr (s = task_leaf t ''gate'')"
  by (simp add: taskGateBindingIsValid_def)

lemma task_binding_check:
  assumes "wf_GateTransitionFacts f" "ownership_failure f = None"
  shows "task_binding_failure f = Inr (gtf_scope f = ''task'' \<and>
    (gtb_stepId (gtf_target f) \<noteq> task_leaf (the (gtb_taskId (gtf_target f))) ''gate'' \<or>
     gpo_stepId (gtf_producer f) \<noteq> task_leaf (the (gtb_taskId (gtf_target f))) ''gate''))"
proof (cases "gtf_scope f = ''task''")
  case True
  with assms obtain t where t: "gpo_taskId (gtf_producer f) = Some t" "gtb_taskId (gtf_target f) = Some t" "is_text t"
    by (auto simp: wf_GateTransitionFacts_def wf_GateProducerOwnership_def ownership_failure_None)
  then show ?thesis using True by (simp add: task_binding_failure_def taskGateBindingIsValid_Some)
qed (simp add: task_binding_failure_def)

lemma integrityFailure_total:
  assumes f: "wf_GateTransitionFacts f"
  shows "\<exists>r. integrityFailure f = Inr r \<and> (r = None \<longleftrightarrow> intact f)"
proof (cases "ownership_failure f")
  case None
  let ?M = "gtf_scope f = ''task'' \<and>
    (gtb_stepId (gtf_target f) \<noteq> task_leaf (the (gtb_taskId (gtf_target f))) ''gate'' \<or>
     gpo_stepId (gtf_producer f) \<noteq> task_leaf (the (gtb_taskId (gtf_target f))) ''gate'')"
  have "integrityFailure f = Inr (if ?M then Some ''task_step_identity_mismatch'' else binding_failure f)"
    by (simp add: integrityFailure_def None task_binding_check [OF f None])
  moreover have "(if ?M then Some ''task_step_identity_mismatch'' else binding_failure f) = None \<longleftrightarrow> intact f"
  proof (cases ?M)
    case True
    then have "\<not> intact f" unfolding intact_def by (elim conjE disjE) (metis, metis)
    with True show ?thesis by simp
  next
    case False
    then have step: "gtf_scope f = ''task'' \<longrightarrow> gtb_stepId (gtf_target f) = task_leaf (the (gtb_taskId (gtf_target f))) ''gate''"
      by blast
    have "binding_failure f = None \<longleftrightarrow> intact f"
      unfolding intact_def binding_failure_None lifecycle_failure_iff
      using ownership_failure_None [THEN iffD1, OF None] step by simp
    with False show ?thesis by (simp only: if_False)
  qed
  ultimately show ?thesis by (intro exI conjI)
next
  case (Some r)
  have "intact f \<Longrightarrow> ownership_failure f = None"
    unfolding intact_def ownership_failure_None by (elim conjE) (intro conjI; assumption)
  with Some have "\<not> intact f" by auto
  with Some show ?thesis by (simp add: integrityFailure_def)
qed

end
