(* ===== verification/Gate_Routes.thy ===== *)
theory Gate_Routes
  imports Gate_Facts
begin

section \<open>Routes around a Gate\<close>

text \<open>
  Models \<open>src/flow/lib/nonblocking-route.js\<close> (the acceptance-backed continuation routes) and the
  route part of \<open>src/flow/lib/plan-gate-repair.js\<close> (which steps a failed Gate resets and where its
  repair starts).  The route tables are built by the constructors, as the modules do on loading.
\<close>

subsection \<open>Nonblocking routes\<close>

definition nbr_string :: "string \<Rightarrow> jsval \<Rightarrow> string res" where
  "nbr_string field = text_or (Error (field @ '' must be a non-empty string''))"

definition requireStringList :: "string \<Rightarrow> jsval \<Rightarrow> string list res" where
  "requireStringList field v = (case v of
     JArr vs \<Rightarrow> mapE (nbr_string field) vs
   | _ \<Rightarrow> Inl (Error (field @ '' must be an array'')))"

record NonBlockingRoute =
  nbr_sourceStep :: string
  nbr_artifact :: string
  nbr_kind :: string
  nbr_phase :: "string option"
  nbr_targetStep :: "string option"
  nbr_skippedSteps :: "string list"
  nbr_taskScoped :: bool

definition new_NonBlockingRoute :: "jsval \<Rightarrow> NonBlockingRoute res" where
  "new_NonBlockingRoute arg = bindE (destructure arg) (\<lambda>ob.
     bindE (nbr_string ''sourceStep'' (fld ob ''sourceStep'')) (\<lambda>s.
     bindE (nbr_string ''artifact'' (fld ob ''artifact'')) (\<lambda>a.
     bindE (nbr_string ''kind'' (fld ob ''kind'')) (\<lambda>k.
     if k \<notin> set [''review'', ''gate'', ''verification'', ''acceptance'', ''regression'']
     then Inl (Error ''nonblocking route kind is invalid'') else
     bindE (nullish (nbr_string ''phase'') (fld ob ''phase'')) (\<lambda>p.
     bindE (nullish (nbr_string ''targetStep'') (fld ob ''targetStep'')) (\<lambda>t.
     bindE (requireStringList ''skippedSteps'' (fld_or ob ''skippedSteps'' (JArr []))) (\<lambda>sk.
     bindE (bool_or (Error ''taskScoped must be a boolean'') (fld_or ob ''taskScoped'' (JBool False))) (\<lambda>ts.
     if ts \<noteq> (s = ''task-review'' \<or> s = ''task-gate'')
     then Inl (Error ''taskScoped is reserved for task review and task gate'')
     else Inr \<lparr>nbr_sourceStep = s, nbr_artifact = a, nbr_kind = k, nbr_phase = p, nbr_targetStep = t,
               nbr_skippedSteps = sk, nbr_taskScoped = ts\<rparr>))))))))"

definition nbr_continueAction :: "NonBlockingRoute \<Rightarrow> string" where
  "nbr_continueAction r = (case nbr_targetStep r of None \<Rightarrow> ''refresh-next-action'' | Some t \<Rightarrow> ''run-'' @ t)"

definition ROUTE_LITERALS :: "jsval list" where
  "ROUTE_LITERALS =
     [JObj [(''sourceStep'', JStr ''spec-gate''), (''artifact'', JStr ''spec-gate-result.json''), (''kind'', JStr ''gate''),
        (''phase'', JStr ''spec''), (''targetStep'', JStr ''approval''), (''skippedSteps'', JArr [JStr ''spec-gate-repair''])],
      JObj [(''sourceStep'', JStr ''test-result-review''), (''artifact'', JStr ''test-result-review.json''),
        (''kind'', JStr ''verification''), (''targetStep'', JStr ''impl-review'')],
      JObj [(''sourceStep'', JStr ''task-review''), (''artifact'', JStr ''impl-review.json''), (''kind'', JStr ''review''),
        (''phase'', JStr ''impl''), (''targetStep'', JStr ''task-gate''),
        (''skippedSteps'', JArr [JStr ''task-triage'', JStr ''task-repair'']), (''taskScoped'', JBool True)],
      JObj [(''sourceStep'', JStr ''task-gate''), (''artifact'', JStr ''task-impl-gate-result.json''), (''kind'', JStr ''gate''),
        (''phase'', JStr ''task-impl''), (''taskScoped'', JBool True)],
      JObj [(''sourceStep'', JStr ''impl-review''), (''artifact'', JStr ''impl-review.json''), (''kind'', JStr ''review''),
        (''phase'', JStr ''impl''), (''targetStep'', JStr ''impl-gate''),
        (''skippedSteps'', JArr [JStr ''impl-triage'', JStr ''impl-repair''])],
      JObj [(''sourceStep'', JStr ''impl-gate''), (''artifact'', JStr ''impl-gate-result.json''), (''kind'', JStr ''gate''),
        (''phase'', JStr ''integration''), (''targetStep'', JStr ''retro'')],
      JObj [(''sourceStep'', JStr ''retro''), (''artifact'', JStr ''retro.json''), (''kind'', JStr ''verification''),
        (''targetStep'', JStr ''acceptance-review'')],
      JObj [(''sourceStep'', JStr ''acceptance-review''), (''artifact'', JStr ''acceptance-review.json''),
        (''kind'', JStr ''acceptance''), (''targetStep'', JStr ''final-regression''),
        (''skippedSteps'', JArr [JStr ''acceptance-decision''])],
      JObj [(''sourceStep'', JStr ''final-regression''), (''artifact'', JStr ''final-regression-result.json''),
        (''kind'', JStr ''regression''), (''targetStep'', JStr ''report'')]]"

definition NONBLOCKING_ROUTES :: "NonBlockingRoute list" where
  "NONBLOCKING_ROUTES =
     (case mapE new_NonBlockingRoute ROUTE_LITERALS of Inr routes \<Rightarrow> routes | Inl _ \<Rightarrow> [])"

definition nonblockingRouteFor :: "string \<Rightarrow> NonBlockingRoute option" where
  "nonblockingRouteFor step = find (\<lambda>r. nbr_sourceStep r = step) NONBLOCKING_ROUTES"

definition route_row :: "NonBlockingRoute \<Rightarrow> string \<times> string \<times> string option \<times> string list \<times> bool" where
  "route_row r = (nbr_sourceStep r, nbr_kind r, nbr_targetStep r, nbr_skippedSteps r, nbr_taskScoped r)"

text \<open>Loading the module succeeds: the constructor accepts all nine literals, and the source steps are
  unique.\<close>

lemma routes_load:
  "map route_row NONBLOCKING_ROUTES =
     [(''spec-gate'', ''gate'', Some ''approval'', [''spec-gate-repair''], False),
      (''test-result-review'', ''verification'', Some ''impl-review'', [], False),
      (''task-review'', ''review'', Some ''task-gate'', [''task-triage'', ''task-repair''], True),
      (''task-gate'', ''gate'', None, [], True),
      (''impl-review'', ''review'', Some ''impl-gate'', [''impl-triage'', ''impl-repair''], False),
      (''impl-gate'', ''gate'', Some ''retro'', [], False),
      (''retro'', ''verification'', Some ''acceptance-review'', [], False),
      (''acceptance-review'', ''acceptance'', Some ''final-regression'', [''acceptance-decision''], False),
      (''final-regression'', ''regression'', Some ''report'', [], False)]"
  by code_simp

subsection \<open>Plan Gate repair routes\<close>

definition pgr_string :: "nat \<Rightarrow> string \<Rightarrow> jsval \<Rightarrow> string res" where
  "pgr_string maxLength field v = bindE (text_or (Error (field @ '' must be a non-empty string'')) v) (\<lambda>t.
     if length t > maxLength then Inl (Error (field @ '' exceeds '' @ nat_text maxLength @ '' characters'')) else Inr t)"

definition pgr_strings :: "string \<Rightarrow> jsval list \<Rightarrow> string list res" where
  "pgr_strings field vs =
     mapE (\<lambda>(i, v). pgr_string 100 (field @ ''['' @ nat_text i @ '']'') v) (List.enumerate 0 vs)"

record PlanGateRepairRoute =
  pgr_phase :: string
  pgr_gateStepId :: string
  pgr_targetStepId :: string
  pgr_resetStepIds :: "string list"
  pgr_skippableSourceStepIds :: "string list"

definition new_PlanGateRepairRoute :: "jsval \<Rightarrow> PlanGateRepairRoute res" where
  "new_PlanGateRepairRoute arg = bindE (destructure arg) (\<lambda>ob.
     bindE (pgr_string 100 ''plan gate repair phase'' (fld ob ''phase'')) (\<lambda>p.
     bindE (pgr_string 100 ''plan gate repair gateStepId'' (fld ob ''gateStepId'')) (\<lambda>g.
     bindE (pgr_string 100 ''plan gate repair targetStepId'' (fld ob ''targetStepId'')) (\<lambda>t.
     case fld ob ''resetStepIds'' of
       JArr [] \<Rightarrow> Inl (Error ''plan gate repair resetStepIds must be a non-empty array'')
     | JArr (v # vs) \<Rightarrow>
         bindE (pgr_strings ''plan gate repair resetStepIds'' (v # vs)) (\<lambda>reset.
         if hd reset \<noteq> t \<or> g \<notin> set reset
         then Inl (Error (''plan gate repair route is inconsistent for '' @ p)) else
         (case fld_or ob ''skippableSourceStepIds'' (JArr []) of
            JArr ss \<Rightarrow>
              bindE (pgr_strings ''plan gate repair skippable source steps'' ss) (\<lambda>skip.
              if \<not> distinct skip \<or> list_ex (\<lambda>s. s = g \<or> s \<notin> set reset) skip
              then Inl (Error (''plan gate repair skippable source steps are inconsistent for '' @ p))
              else Inr \<lparr>pgr_phase = p, pgr_gateStepId = g, pgr_targetStepId = t, pgr_resetStepIds = reset,
                        pgr_skippableSourceStepIds = skip\<rparr>)
          | _ \<Rightarrow> Inl (Error ''plan gate repair skippable source steps must be an array'')))
     | _ \<Rightarrow> Inl (Error ''plan gate repair resetStepIds must be a non-empty array'')))))"

definition acceptedSourceStatuses :: "PlanGateRepairRoute \<Rightarrow> string \<Rightarrow> string list res" where
  "acceptedSourceStatuses r stepId =
     (if stepId \<notin> set (pgr_resetStepIds r) then Inl (Error (''step is outside plan gate repair route: '' @ stepId))
      else if stepId = pgr_gateStepId r then Inr [''in_progress'']
      else if stepId \<in> set (pgr_skippableSourceStepIds r) then Inr [''done'', ''skipped'']
      else Inr [''done''])"

definition requestedStatus :: "PlanGateRepairRoute \<Rightarrow> string \<Rightarrow> string res" where
  "requestedStatus r stepId =
     (if stepId \<notin> set (pgr_resetStepIds r) then Inl (Error (''step is outside plan gate repair route: '' @ stepId))
      else Inr (if stepId = pgr_targetStepId r then ''in_progress'' else ''pending''))"

definition node_of :: "string \<Rightarrow> string \<Rightarrow> string res" where
  "node_of taskId role = bindE (new_TaskStepIdentity (JStr taskId) (JStr role)) (\<lambda>i. Inr (tsi_nodeId i))"

definition taskRoute :: "string \<Rightarrow> PlanGateRepairRoute res" where
  "taskRoute taskId =
     bindE (node_of taskId ''gate'') (\<lambda>g.
     bindE (node_of taskId ''impl'') (\<lambda>i.
     bindE (mapE (node_of taskId) [''impl'', ''review'', ''triage'', ''repair'', ''gate'']) (\<lambda>reset.
     new_PlanGateRepairRoute (JObj [(''phase'', JStr ''task-impl''), (''gateStepId'', JStr g),
       (''targetStepId'', JStr i), (''resetStepIds'', JArr (map JStr reset))]))))"

definition taskIdForMaterializedStep :: "string \<Rightarrow> string \<Rightarrow> string option res" where
  "taskIdForMaterializedStep stepId role = bindE (fromNodeId (JStr stepId)) (\<lambda>identity.
     Inr (case identity of
       None \<Rightarrow> None
     | Some i \<Rightarrow> if tsi_role i = role \<and> tsi_taskId i \<noteq> ''impl'' then Some (tsi_taskId i) else None))"

definition REPAIR_ROUTE_LITERALS :: "jsval list" where
  "REPAIR_ROUTE_LITERALS =
     [JObj [(''phase'', JStr ''draft''), (''gateStepId'', JStr ''draft-gate''), (''targetStepId'', JStr ''draft-gate-repair''),
        (''resetStepIds'', JArr [JStr ''draft-gate-repair'', JStr ''draft-coverage-review'', JStr ''draft-coverage-triage'',
           JStr ''draft-coverage-repair'', JStr ''draft-gate'']),
        (''skippableSourceStepIds'', JArr [JStr ''draft-gate-repair'', JStr ''draft-coverage-triage'',
           JStr ''draft-coverage-repair''])],
      JObj [(''phase'', JStr ''spec''), (''gateStepId'', JStr ''spec-gate''), (''targetStepId'', JStr ''spec-gate-repair''),
        (''resetStepIds'', JArr [JStr ''spec-gate-repair'', JStr ''spec-gate'']),
        (''skippableSourceStepIds'', JArr [JStr ''spec-gate-repair''])]]"

definition REPAIR_ROUTES :: "PlanGateRepairRoute list" where
  "REPAIR_ROUTES =
     (case mapE new_PlanGateRepairRoute REPAIR_ROUTE_LITERALS of Inr routes \<Rightarrow> routes | Inl _ \<Rightarrow> [])"

definition EVIDENCE_BY_PHASE :: "(string \<times> string) list" where
  "EVIDENCE_BY_PHASE = [(''draft'', ''draft.gate''), (''spec'', ''spec.gate''), (''task-impl'', ''task.gate'')]"

definition planGateRepairRouteForPhase :: "string \<Rightarrow> PlanGateRepairRoute option" where
  "planGateRepairRouteForPhase phase = find (\<lambda>r. pgr_phase r = phase) REPAIR_ROUTES"

definition route_or_task :: "PlanGateRepairRoute option \<Rightarrow> string option \<Rightarrow> PlanGateRepairRoute option res" where
  "route_or_task hit taskId = (case hit of
     Some r \<Rightarrow> Inr (Some r)
   | None \<Rightarrow> (case taskId of None \<Rightarrow> Inr None | Some t \<Rightarrow> bindE (taskRoute t) (\<lambda>r. Inr (Some r))))"

definition planGateRepairRouteForTargetStep :: "string \<Rightarrow> PlanGateRepairRoute option res" where
  "planGateRepairRouteForTargetStep stepId = bindE (taskIdForMaterializedStep stepId ''impl'') (\<lambda>t.
     route_or_task (find (\<lambda>r. pgr_targetStepId r = stepId) REPAIR_ROUTES) t)"

definition planGateRepairRouteForGateStep :: "string \<Rightarrow> PlanGateRepairRoute option res" where
  "planGateRepairRouteForGateStep stepId = bindE (taskIdForMaterializedStep stepId ''gate'') (\<lambda>t.
     route_or_task (find (\<lambda>r. pgr_gateStepId r = stepId) REPAIR_ROUTES) t)"

definition planGateRepairResultLogicalKey :: "PlanGateRepairRoute \<Rightarrow> string option" where
  "planGateRepairResultLogicalKey r = map_of EVIDENCE_BY_PHASE (pgr_phase r)"

subsubsection \<open>The table and the Task routes\<close>

lemma repair_routes_load:
  "REPAIR_ROUTES =
     [\<lparr>pgr_phase = ''draft'', pgr_gateStepId = ''draft-gate'', pgr_targetStepId = ''draft-gate-repair'',
       pgr_resetStepIds = [''draft-gate-repair'', ''draft-coverage-review'', ''draft-coverage-triage'',
         ''draft-coverage-repair'', ''draft-gate''],
       pgr_skippableSourceStepIds = [''draft-gate-repair'', ''draft-coverage-triage'', ''draft-coverage-repair'']\<rparr>,
      \<lparr>pgr_phase = ''spec'', pgr_gateStepId = ''spec-gate'', pgr_targetStepId = ''spec-gate-repair'',
       pgr_resetStepIds = [''spec-gate-repair'', ''spec-gate''],
       pgr_skippableSourceStepIds = [''spec-gate-repair'']\<rparr>]"
  by code_simp

text \<open>The route of a Task resets its five leaves, in order, and starts again at its implementation.
  It exists exactly when the longest leaf id fits in the hundred characters of a route field.\<close>

definition task_route :: "string \<Rightarrow> PlanGateRepairRoute" where
  "task_route t = \<lparr>pgr_phase = ''task-impl'', pgr_gateStepId = task_leaf t ''gate'', pgr_targetStepId = task_leaf t ''impl'',
     pgr_resetStepIds = map (task_leaf t) TASK_STEP_ROLES, pgr_skippableSourceStepIds = []\<rparr>"

lemma node_of_leaf [simp]: "is_text t \<Longrightarrow> r \<in> set TASK_STEP_ROLES \<Longrightarrow> node_of t r = Inr (task_leaf t r)"
  using new_TaskStepIdentity_self [of "\<lparr>tsi_taskId = t, tsi_role = r\<rparr>"]
  by (simp add: node_of_def wf_TaskStepIdentity_def tsi_nodeId_def task_leaf_def)

lemma pgr_string_text:
  "is_text s \<Longrightarrow> pgr_string n f (JStr s) =
     (if length s > n then Inl (Error (f @ '' exceeds '' @ nat_text n @ '' characters'')) else Inr s)"
  by (simp add: pgr_string_def)

lemma pgr_task_impl [simp]: "pgr_string 100 f (JStr ''task-impl'') = Inr ''task-impl''"
  by (simp add: pgr_string_def text_or_def js_trim_def js_ws_def)

lemma leaf_length: "r \<in> set TASK_STEP_ROLES \<Longrightarrow> length (task_leaf t r) \<le> length t + 7"
  by (auto simp: task_leaf_def TASK_STEP_ROLES_def)

lemma taskRoute_short:
  assumes "is_text t" "length t \<le> 93"
  shows "taskRoute t = Inr (task_route t)"
proof -
  have "pgr_string 100 f (JStr (task_leaf t r)) = Inr (task_leaf t r)" if "r \<in> set TASK_STEP_ROLES" for r f
    using assms that task_leaf_text [OF assms(1) that] leaf_length [OF that, of t] by (simp add: pgr_string_text)
  with assms(1) show ?thesis
    by (simp add: taskRoute_def new_PlanGateRepairRoute_def pgr_strings_def task_route_def TASK_STEP_ROLES_def)
qed

lemma taskRoute_long:
  assumes "is_text t" "length t > 93"
  shows "\<exists>m. taskRoute t = Inl (Error m)"
proof -
  have s: "pgr_string 100 f (JStr (task_leaf t r)) =
      (if length t + 1 + length r > 100 then Inl (Error (f @ '' exceeds '' @ nat_text 100 @ '' characters''))
       else Inr (task_leaf t r))" if "r \<in> set TASK_STEP_ROLES" for r f
    using task_leaf_text [OF assms(1) that] by (simp add: pgr_string_text) (simp add: task_leaf_def)
  show ?thesis using assms
    by (simp add: taskRoute_def new_PlanGateRepairRoute_def pgr_strings_def s)
qed

lemma fromNodeId_leaf:
  "is_text t \<Longrightarrow> r \<in> set TASK_STEP_ROLES \<Longrightarrow>
   fromNodeId (JStr (task_leaf t r)) = Inr (Some \<lparr>tsi_taskId = t, tsi_role = r\<rparr>)"
  using fromNodeId_self [of "\<lparr>tsi_taskId = t, tsi_role = r\<rparr>"]
  by (simp add: wf_TaskStepIdentity_def tsi_nodeId_def task_leaf_def)

lemma gate_leaf_eq [simp]:
  "''draft-gate'' = task_leaf t ''gate'' \<longleftrightarrow> t = ''draft''" "''spec-gate'' = task_leaf t ''gate'' \<longleftrightarrow> t = ''spec''"
proof -
  have "a @ ''-gate'' = task_leaf t ''gate'' \<longleftrightarrow> t = a" for a by (auto simp: task_leaf_def)
  from this [of "''draft''"] this [of "''spec''"] show
    "''draft-gate'' = task_leaf t ''gate'' \<longleftrightarrow> t = ''draft''" "''spec-gate'' = task_leaf t ''gate'' \<longleftrightarrow> t = ''spec''"
    by simp_all
qed

text \<open>Which route a Gate step selects: the two plan Gates their own, the integration Gate none, every
  other materialized Task Gate the route of its Task.\<close>

lemma route_for_task_gate:
  assumes t: "is_text t" "t \<notin> {''impl'', ''draft'', ''spec''}"
  shows "planGateRepairRouteForGateStep (task_leaf t ''gate'') = bindE (taskRoute t) (\<lambda>r. Inr (Some r))"
  using t by (simp add: planGateRepairRouteForGateStep_def taskIdForMaterializedStep_def fromNodeId_leaf
      repair_routes_load route_or_task_def)

lemma route_for_plan_gates:
  "planGateRepairRouteForGateStep ''draft-gate'' = Inr (planGateRepairRouteForPhase ''draft'')"
  "planGateRepairRouteForGateStep ''spec-gate'' = Inr (planGateRepairRouteForPhase ''spec'')"
  "planGateRepairRouteForGateStep ''impl-gate'' = Inr None"
  by code_simp+

end
