(* ===== verification/Gate_Decision.thy ===== *)
theory Gate_Decision
  imports Gate_Transition_Facts Gate_Routes
begin

section \<open>Definition-owned Gate decisions\<close>

text \<open>
  Models the Gate part of \<open>src/flow/definition.js\<close>: dispositions, step updates, retry metric, Task
  lifecycle and recovery effects, the plan and action identity, and the resolvers that select exactly
  one decision from the Gate facts.  The classes are created only inside the module (their
  constructors take a private token), so their arguments are typed here; the remaining checks of each
  constructor are kept and fail as errors.  Digests are real: canonical JSON hashed with SHA-256.
\<close>

subsection \<open>Shared checks\<close>

definition requireString :: "string \<Rightarrow> string \<Rightarrow> string res" where
  "requireString field s = (if js_trim s = [] then Inl (Error (field @ '' must be a non-empty string'')) else Inr s)"

definition requireOptionalStepList :: "string \<Rightarrow> string list \<Rightarrow> string list res" where
  "requireOptionalStepList field steps = bindE (mapE (requireString field) steps) (\<lambda>ss.
     if distinct ss then Inr ss else Inl (Error (field @ '' must not contain duplicates'')))"

definition nonblockingSelectionDigest :: "jsval \<Rightarrow> string res" where
  "nonblockingSelectionDigest v = (case JSON_stringify v of
     None \<Rightarrow> Inl (TypeError ''The \"data\" argument must be of type string'')
   | Some t \<Rightarrow> Inr (sha256_hex t))"

text \<open>Reading a property of \<open>null\<close> throws.\<close>

definition present :: "'a option \<Rightarrow> 'a res" where
  "present x = (case x of None \<Rightarrow> Inl (TypeError ''Cannot read properties of null'') | Some y \<Rightarrow> Inr y)"

definition andE :: "bool res \<Rightarrow> bool res \<Rightarrow> bool res" where
  "andE a b = bindE a (\<lambda>x. if x then b else Inr False)"

lemma present_eq_Inr [simp]: "present x = Inr y \<longleftrightarrow> x = Some y"
  by (simp add: present_def split: option.splits)

lemma present_Some [simp]: "present (Some y) = Inr y"
  by (simp add: present_def)

lemma andE_simps [simp]: "andE (Inr True) b = b" "andE (Inr False) b = Inr False" "andE (Inl e) b = Inl e"
  by (simp_all add: andE_def)

lemma requireString_text [simp]: "is_text s \<Longrightarrow> requireString field s = Inr s"
  by (simp add: requireString_def is_text_def)

lemma requireString_eq_Inr: "requireString field s = Inr t \<longleftrightarrow> t = s \<and> js_trim s \<noteq> []"
  by (auto simp: requireString_def)

subsection \<open>Dispositions\<close>

datatype gate_disposition =
    GatePass | GateRetry | GateRepair | GateDefer | DraftGateCarryForward
  | GateExternalBlocked string | GateBlocked string
  | GateRecovery | GateReconcilePublication | GateNonblocking | GateAdvance

definition GATE_DISPOSITIONS :: "string list" where
  "GATE_DISPOSITIONS = [''pass'', ''retry'', ''repair'', ''defer'', ''external-blocked'', ''blocked'', ''recovery'',
     ''reconcile'', ''nonblocking'', ''advance'']"

fun gd_operation :: "gate_disposition \<Rightarrow> string" where
  "gd_operation GatePass = ''pass''"
| "gd_operation GateRetry = ''retry''"
| "gd_operation GateRepair = ''repair''"
| "gd_operation GateDefer = ''defer''"
| "gd_operation DraftGateCarryForward = ''defer''"
| "gd_operation (GateExternalBlocked r) = ''external-blocked''"
| "gd_operation (GateBlocked r) = ''blocked''"
| "gd_operation GateRecovery = ''recovery''"
| "gd_operation GateReconcilePublication = ''reconcile''"
| "gd_operation GateNonblocking = ''nonblocking''"
| "gd_operation GateAdvance = ''advance''"

fun gd_reason :: "gate_disposition \<Rightarrow> string option" where
  "gd_reason (GateExternalBlocked r) = Some r"
| "gd_reason (GateBlocked r) = Some r"
| "gd_reason d = None"

definition new_GateDisposition :: "gate_disposition \<Rightarrow> gate_disposition res" where
  "new_GateDisposition d =
     bindE (requireString ''gate disposition operation'' (gd_operation d)) (\<lambda>op.
     if op \<notin> set GATE_DISPOSITIONS then Inl (Error ''gate disposition operation is invalid'') else
     (case gd_reason d of
        None \<Rightarrow> Inr d
      | Some r \<Rightarrow> bindE (requireString ''gate disposition reason'' r) (\<lambda>_. Inr d)))"

definition GateDisposition_toJSON :: "gate_disposition \<Rightarrow> jsval" where
  "GateDisposition_toJSON d = JObj [(''operation'', JStr (gd_operation d)), (''reason'', js_opt JStr (gd_reason d))]"

subsection \<open>Effects of a plan\<close>

record GateStepUpdate =
  gsu_stepId :: string
  gsu_status :: string

definition new_GateStepUpdate :: "string \<Rightarrow> string \<Rightarrow> GateStepUpdate res" where
  "new_GateStepUpdate stepId status =
     bindE (requireString ''gate step update stepId'' stepId) (\<lambda>s.
     bindE (requireString ''gate step update status'' status) (\<lambda>t.
     if t \<in> {''in_progress'', ''done''} then Inr \<lparr>gsu_stepId = s, gsu_status = t\<rparr>
     else Inl (Error ''gate step update status is invalid'')))"

definition GateStepUpdate_toJSON :: "GateStepUpdate \<Rightarrow> jsval" where
  "GateStepUpdate_toJSON u = JObj [(''stepId'', JStr (gsu_stepId u)), (''status'', JStr (gsu_status u))]"

record GatePhaseDefinition =
  gpd_phase :: string
  gpd_passPrescription :: string
  gpd_failurePrescription :: string

definition new_GatePhaseDefinition :: "string \<Rightarrow> string \<Rightarrow> string \<Rightarrow> GatePhaseDefinition res" where
  "new_GatePhaseDefinition phase pass fail =
     bindE (requireString ''gate phase definition phase'' phase) (\<lambda>p.
     bindE (requireString ''gate phase definition pass prescription'' pass) (\<lambda>a.
     bindE (requireString ''gate phase definition failure prescription'' fail) (\<lambda>b.
     Inr \<lparr>gpd_phase = p, gpd_passPrescription = a, gpd_failurePrescription = b\<rparr>)))"

definition GatePhaseDefinition_toJSON :: "GatePhaseDefinition \<Rightarrow> jsval" where
  "GatePhaseDefinition_toJSON d = JObj
     [(''phase'', JStr (gpd_phase d)), (''passPrescription'', JStr (gpd_passPrescription d)),
      (''failurePrescription'', JStr (gpd_failurePrescription d))]"

definition PASS_PRESCRIPTION :: string where
  "PASS_PRESCRIPTION = ''Continue with the Definition-selected Gate action.''"

definition GATE_PHASE_PRESCRIPTIONS :: "(string \<times> string) list" where
  "GATE_PHASE_PRESCRIPTIONS =
     [(''draft'', ''Repair the draft evidence selected by Definition.''),
      (''spec'', ''Repair the specification evidence selected by Definition.''),
      (''task-spec'', ''Return to the flow-level specification approval path.''),
      (''task-impl'', ''Repair the Task implementation selected by Definition.''),
      (''integration'', ''Repair the integration evidence selected by Definition.'')]"

definition GATE_PHASE_DEFINITIONS :: "(string \<times> GatePhaseDefinition) list" where
  "GATE_PHASE_DEFINITIONS =
     (case mapE (\<lambda>(p, t). bindE (new_GatePhaseDefinition p PASS_PRESCRIPTION t) (\<lambda>d. Inr (p, d))) GATE_PHASE_PRESCRIPTIONS
      of Inr defs \<Rightarrow> defs | Inl _ \<Rightarrow> [])"

definition gatePhaseDefinition :: "string \<Rightarrow> GatePhaseDefinition res" where
  "gatePhaseDefinition phase = (case map_of GATE_PHASE_DEFINITIONS phase of
     None \<Rightarrow> Inl (Error (''missing Gate phase definition: '' @ phase))
   | Some d \<Rightarrow> Inr d)"

definition gateReportPrescription :: "string \<Rightarrow> string \<Rightarrow> string res" where
  "gateReportPrescription phase result =
     (if result \<noteq> ''pass'' \<and> result \<noteq> ''fail'' then Inl (Error ''gate report prescription requires pass or fail'') else
      bindE (gatePhaseDefinition phase) (\<lambda>d.
      Inr (if result = ''pass'' then gpd_passPrescription d else gpd_failurePrescription d)))"

record GateRetryMetricEffect =
  gme_operation :: string
  gme_phase :: string

definition new_GateRetryMetricEffect :: "string \<Rightarrow> string \<Rightarrow> GateRetryMetricEffect res" where
  "new_GateRetryMetricEffect operation phase =
     bindE (requireString ''gate retry metric operation'' operation) (\<lambda>op.
     bindE (requireString ''gate retry metric phase'' phase) (\<lambda>p.
     if op \<notin> {''increment'', ''reset''} then Inl (Error ''gate retry metric operation is invalid'')
     else if map_of GATE_PHASE_DEFINITIONS p = None then Inl (Error ''gate retry metric phase is invalid'')
     else Inr \<lparr>gme_operation = op, gme_phase = p\<rparr>))"

definition GateRetryMetricEffect_toJSON :: "GateRetryMetricEffect \<Rightarrow> jsval" where
  "GateRetryMetricEffect_toJSON e = JObj [(''operation'', JStr (gme_operation e)), (''phase'', JStr (gme_phase e))]"

record GateTaskLifecycleEffect =
  gte_operation :: string
  gte_taskId :: string
  gte_successorStepId :: string
  gte_resetStepIds :: "string list"

definition collectTaskLeafIds :: "string list" where
  "collectTaskLeafIds = [''task-impl'', ''task-review'', ''task-triage'', ''task-repair'', ''task-gate'']"

definition string_list_json :: "string list \<Rightarrow> string option" where
  "string_list_json xs = JSON_stringify (JArr (map JStr xs))"

definition materialized_leaves :: "string \<Rightarrow> string list res" where
  "materialized_leaves taskId = mapE (\<lambda>d. bindE (fromDefinitionId (JStr taskId) (JStr d)) (\<lambda>identity.
     bindE (present identity) (\<lambda>i. Inr (tsi_nodeId i)))) collectTaskLeafIds"

definition new_GateTaskLifecycleEffect :: "string \<Rightarrow> string \<Rightarrow> string \<Rightarrow> string list \<Rightarrow> GateTaskLifecycleEffect res" where
  "new_GateTaskLifecycleEffect operation taskId successorStepId resetStepIds =
     bindE (requireString ''gate Task lifecycle operation'' operation) (\<lambda>op.
     if op \<notin> {''complete-and-advance'', ''repair-task-impl'', ''defer-and-advance''}
     then Inl (Error ''gate Task lifecycle operation is invalid'') else
     bindE (requireString ''gate Task lifecycle taskId'' taskId) (\<lambda>t.
     bindE (requireString ''gate Task lifecycle successorStepId'' successorStepId) (\<lambda>s.
     if [] \<in> set resetStepIds then Inl (Error ''gate Task lifecycle reset Step ids are invalid'') else
     let e = \<lparr>gte_operation = op, gte_taskId = t, gte_successorStepId = s, gte_resetStepIds = resetStepIds\<rparr> in
     if op = ''repair-task-impl'' then
       bindE (materialized_leaves t) (\<lambda>expected.
       if string_list_json resetStepIds \<noteq> string_list_json expected
       then Inl (Error ''gate Task repair lifecycle must reset only its materialized Task Steps'') else Inr e)
     else if resetStepIds \<noteq> [] then Inl (Error ''non-repair Task lifecycle must not reset Task Steps'')
     else Inr e)))"

definition GateTaskLifecycleEffect_toJSON :: "GateTaskLifecycleEffect \<Rightarrow> jsval" where
  "GateTaskLifecycleEffect_toJSON e = JObj
     [(''operation'', JStr (gte_operation e)), (''taskId'', JStr (gte_taskId e)),
      (''successorStepId'', JStr (gte_successorStepId e)), (''resetStepIds'', JArr (map JStr (gte_resetStepIds e)))]"

record GateRecoveryEffect =
  gve_operation :: string
  gve_sourceStepId :: string
  gve_targetStepId :: string

definition new_GateRecoveryEffect :: "string \<Rightarrow> string \<Rightarrow> string \<Rightarrow> GateRecoveryEffect res" where
  "new_GateRecoveryEffect operation sourceStepId targetStepId =
     bindE (requireString ''gate recovery operation'' operation) (\<lambda>op.
     bindE (requireString ''gate recovery source Step'' sourceStepId) (\<lambda>s.
     bindE (requireString ''gate recovery target Step'' targetStepId) (\<lambda>t.
     if op \<noteq> ''rewind-test-evidence'' \<or> s \<noteq> ''impl-gate'' \<or> t \<noteq> ''test-execute''
     then Inl (Error ''gate recovery effect is invalid'')
     else Inr \<lparr>gve_operation = op, gve_sourceStepId = s, gve_targetStepId = t\<rparr>)))"

definition GateRecoveryEffect_toJSON :: "GateRecoveryEffect \<Rightarrow> jsval" where
  "GateRecoveryEffect_toJSON e = JObj
     [(''operation'', JStr (gve_operation e)), (''sourceStepId'', JStr (gve_sourceStepId e)),
      (''targetStepId'', JStr (gve_targetStepId e))]"

record GateNonblockingHandoff =
  gnh_sourceStepId :: string
  gnh_targetStepId :: string
  gnh_taskId :: "string option"

definition optional_string :: "string \<Rightarrow> string option \<Rightarrow> string option res" where
  "optional_string field x = (case x of None \<Rightarrow> Inr None | Some s \<Rightarrow> bindE (requireString field s) (\<lambda>t. Inr (Some t)))"

definition new_GateNonblockingHandoff :: "string \<Rightarrow> string \<Rightarrow> string option \<Rightarrow> GateNonblockingHandoff res" where
  "new_GateNonblockingHandoff sourceStepId targetStepId taskId =
     bindE (requireString ''gate nonblocking source Step'' sourceStepId) (\<lambda>s.
     bindE (requireString ''gate nonblocking target Step'' targetStepId) (\<lambda>t.
     bindE (optional_string ''gate nonblocking Task id'' taskId) (\<lambda>k.
     let invalid = Error ''gate nonblocking handoff is not acceptance-backed'' in
     (case nonblockingRouteFor s of
        None \<Rightarrow> Inl invalid
      | Some route \<Rightarrow>
          if nbr_kind route \<noteq> ''gate'' \<or> nbr_taskScoped route \<noteq> (k \<noteq> None) then Inl invalid
          else if nbr_targetStep route \<noteq> None \<and> nbr_targetStep route \<noteq> Some t
          then Inl (Error ''gate nonblocking handoff target is invalid'')
          else Inr \<lparr>gnh_sourceStepId = s, gnh_targetStepId = t, gnh_taskId = k\<rparr>))))"

definition GateNonblockingHandoff_toJSON :: "GateNonblockingHandoff \<Rightarrow> jsval" where
  "GateNonblockingHandoff_toJSON h = JObj
     ([(''sourceStepId'', JStr (gnh_sourceStepId h)), (''targetStepId'', JStr (gnh_targetStepId h))] @
      (case gnh_taskId h of None \<Rightarrow> [] | Some t \<Rightarrow> [(''taskId'', JStr t)]))"

subsection \<open>The repair connector and the action identity\<close>

record PlanGateRepairConnector =
  prc_phase :: string
  prc_sourceGateStepId :: string
  prc_sourceAttempt :: GateAttemptIdentity
  prc_resultLogicalKey :: "string option"
  prc_resultArtifactId :: string
  prc_catalogFingerprint :: string
  prc_targetStepId :: string
  prc_resetStepIds :: "string list"
  prc_taskLifecycle :: "GateTaskLifecycleEffect option"

definition connector_lifecycle_mismatch :: "PlanGateRepairRoute \<Rightarrow> GateTaskLifecycleEffect option \<Rightarrow> bool" where
  "connector_lifecycle_mismatch route lifecycle = (case lifecycle of
     None \<Rightarrow> False
   | Some e \<Rightarrow> gte_operation e \<noteq> ''repair-task-impl'' \<or> gte_successorStepId e \<noteq> pgr_targetStepId route
       \<or> stableGateJson (JArr (map JStr (gte_resetStepIds e))) \<noteq> stableGateJson (JArr (map JStr (pgr_resetStepIds route))))"

definition new_PlanGateRepairConnector ::
  "GateTransitionFacts \<Rightarrow> PlanGateRepairRoute option \<Rightarrow> GateTaskLifecycleEffect option \<Rightarrow> PlanGateRepairConnector res" where
  "new_PlanGateRepairConnector f route lifecycle =
     (let sealed = Error ''plan Gate repair connectors are created only by Definition'' in
      case route of
        None \<Rightarrow> Inl sealed
      | Some r \<Rightarrow>
          if gre_kind (gtf_recoveryEvidence f) \<noteq> ''repair'' \<and> gtf_phase f \<noteq> ''draft'' then Inl sealed
          else if pgr_phase r \<noteq> gtf_phase f \<or> pgr_gateStepId r \<noteq> gtb_stepId (gtf_target f)
          then Inl (Error ''plan Gate repair connector route does not match its Gate facts'')
          else if (gtf_scope f = ''task'') \<noteq> (lifecycle \<noteq> None)
          then Inl (Error ''plan Gate repair connector Task lifecycle is inconsistent'')
          else if connector_lifecycle_mismatch r lifecycle
          then Inl (Error ''plan Gate repair connector does not match its sealed Task lifecycle'')
          else Inr \<lparr>prc_phase = pgr_phase r, prc_sourceGateStepId = pgr_gateStepId r,
            prc_sourceAttempt = gtf_currentAttempt f, prc_resultLogicalKey = planGateRepairResultLogicalKey r,
            prc_resultArtifactId = gcp_artifactId (gtf_catalogPublication f),
            prc_catalogFingerprint = gcp_fingerprint (gtf_catalogPublication f),
            prc_targetStepId = pgr_targetStepId r, prc_resetStepIds = pgr_resetStepIds r, prc_taskLifecycle = lifecycle\<rparr>)"

definition PlanGateRepairConnector_toJSON :: "PlanGateRepairConnector \<Rightarrow> jsval" where
  "PlanGateRepairConnector_toJSON c = JObj
     [(''phase'', JStr (prc_phase c)), (''sourceGateStepId'', JStr (prc_sourceGateStepId c)),
      (''sourceAttempt'', GateAttemptIdentity_toJSON (prc_sourceAttempt c)),
      (''resultLogicalKey'', js_opt JStr (prc_resultLogicalKey c)), (''resultArtifactId'', JStr (prc_resultArtifactId c)),
      (''catalogFingerprint'', JStr (prc_catalogFingerprint c)), (''targetStepId'', JStr (prc_targetStepId c)),
      (''resetStepIds'', JArr (map JStr (prc_resetStepIds c))),
      (''taskLifecycle'', js_opt GateTaskLifecycleEffect_toJSON (prc_taskLifecycle c))]"

record GateActionIdentity =
  gac_runId :: string
  gac_specId :: string
  gac_taskId :: "string option"
  gac_stepId :: string
  gac_attempt :: GateAttemptIdentity
  gac_catalogFingerprint :: string
  gac_factsFingerprint :: string
  gac_selectedFingerprint :: string
  gac_operation :: string

definition new_GateActionIdentity ::
  "string \<Rightarrow> string \<Rightarrow> string option \<Rightarrow> string \<Rightarrow> GateAttemptIdentity \<Rightarrow> string \<Rightarrow> string \<Rightarrow> string \<Rightarrow> string \<Rightarrow> GateActionIdentity res" where
  "new_GateActionIdentity runId specId taskId stepId attempt catalogFp factsFp selectedFp operation =
     bindE (requireString ''gate Action runId'' runId) (\<lambda>r.
     bindE (requireString ''gate Action specId'' specId) (\<lambda>s.
     bindE (optional_string ''gate Action taskId'' taskId) (\<lambda>t.
     bindE (requireString ''gate Action stepId'' stepId) (\<lambda>st.
     bindE (requireString ''gate Action catalog fingerprint'' catalogFp) (\<lambda>c.
     bindE (requireString ''gate Action facts fingerprint'' factsFp) (\<lambda>ff.
     bindE (requireString ''gate Action selected fingerprint'' selectedFp) (\<lambda>sf.
     bindE (requireString ''gate Action operation'' operation) (\<lambda>op.
     if op \<notin> set GATE_DISPOSITIONS then Inl (Error ''gate Action operation is invalid'') else
     Inr \<lparr>gac_runId = r, gac_specId = s, gac_taskId = t, gac_stepId = st, gac_attempt = attempt,
          gac_catalogFingerprint = c, gac_factsFingerprint = ff, gac_selectedFingerprint = sf, gac_operation = op\<rparr>))))))))"

definition gac_matches :: "GateActionIdentity \<Rightarrow> GateActionIdentity \<Rightarrow> bool" where
  "gac_matches a b \<longleftrightarrow> gac_runId a = gac_runId b \<and> gac_specId a = gac_specId b \<and> gac_taskId a = gac_taskId b
     \<and> gac_stepId a = gac_stepId b \<and> gai_matches (gac_attempt a) (gac_attempt b)
     \<and> gac_catalogFingerprint a = gac_catalogFingerprint b \<and> gac_factsFingerprint a = gac_factsFingerprint b
     \<and> gac_selectedFingerprint a = gac_selectedFingerprint b \<and> gac_operation a = gac_operation b"

definition GateActionIdentity_toJSON :: "GateActionIdentity \<Rightarrow> jsval" where
  "GateActionIdentity_toJSON a = JObj
     ([(''runId'', JStr (gac_runId a)), (''specId'', JStr (gac_specId a))] @
      (case gac_taskId a of None \<Rightarrow> [] | Some t \<Rightarrow> [(''taskId'', JStr t)]) @
      [(''stepId'', JStr (gac_stepId a)), (''attempt'', GateAttemptIdentity_toJSON (gac_attempt a)),
       (''catalogFingerprint'', JStr (gac_catalogFingerprint a)), (''factsFingerprint'', JStr (gac_factsFingerprint a)),
       (''selectedFingerprint'', JStr (gac_selectedFingerprint a)), (''operation'', JStr (gac_operation a))])"

subsection \<open>Plans and decisions\<close>

record GateStepUpdatePlan =
  gup_identity :: GateActionIdentity
  gup_phaseDefinition :: GatePhaseDefinition
  gup_updates :: "GateStepUpdate list"
  gup_taskLifecycle :: "GateTaskLifecycleEffect option"
  gup_repairConnector :: "PlanGateRepairConnector option"
  gup_recoveryEffect :: "GateRecoveryEffect option"
  gup_nonblockingHandoff :: "GateNonblockingHandoff option"
  gup_retryMetric :: "GateRetryMetricEffect option"

definition GateStepUpdatePlan_toJSON :: "GateStepUpdatePlan \<Rightarrow> jsval" where
  "GateStepUpdatePlan_toJSON p = JObj
     [(''action'', JObj [(''identity'', GateActionIdentity_toJSON (gup_identity p))]),
      (''phaseDefinition'', GatePhaseDefinition_toJSON (gup_phaseDefinition p)),
      (''updates'', JArr (map GateStepUpdate_toJSON (gup_updates p))),
      (''taskLifecycle'', js_opt GateTaskLifecycleEffect_toJSON (gup_taskLifecycle p)),
      (''repairConnector'', js_opt PlanGateRepairConnector_toJSON (gup_repairConnector p)),
      (''recoveryEffect'', js_opt GateRecoveryEffect_toJSON (gup_recoveryEffect p)),
      (''nonblockingHandoff'', js_opt GateNonblockingHandoff_toJSON (gup_nonblockingHandoff p)),
      (''retryMetric'', js_opt GateRetryMetricEffect_toJSON (gup_retryMetric p))]"

record GateTransitionDecision =
  gtd_facts :: GateTransitionFacts
  gtd_disposition :: gate_disposition
  gtd_advance :: "gate_disposition option"
  gtd_plan :: GateStepUpdatePlan

definition new_GateTransitionDecision ::
  "GateTransitionFacts \<Rightarrow> gate_disposition \<Rightarrow> gate_disposition option \<Rightarrow> GateStepUpdatePlan \<Rightarrow> GateTransitionDecision res" where
  "new_GateTransitionDecision f d advance plan =
     (if advance \<noteq> None \<and> advance \<noteq> Some GateAdvance then Inl (Error ''gate decision advance must be typed'')
      else if gac_operation (gup_identity plan) \<noteq> gd_operation d
      then Inl (Error ''gate decision plan Action does not match disposition'')
      else Inr \<lparr>gtd_facts = f, gtd_disposition = d, gtd_advance = advance, gtd_plan = plan\<rparr>)"

definition GateTransitionDecision_toJSON :: "GateTransitionDecision \<Rightarrow> jsval" where
  "GateTransitionDecision_toJSON D = JObj
     [(''facts'', GateTransitionFacts_toJSON (gtd_facts D)), (''disposition'', GateDisposition_toJSON (gtd_disposition D)),
      (''advance'', js_opt GateDisposition_toJSON (gtd_advance D)), (''plan'', GateStepUpdatePlan_toJSON (gtd_plan D))]"

definition taskLifecycleEffect :: "GateTransitionFacts \<Rightarrow> gate_disposition \<Rightarrow> GateTaskLifecycleEffect option res" where
  "taskLifecycleEffect f d = (case gtf_taskLifecycle f of
     None \<Rightarrow> Inr None
   | Some l \<Rightarrow>
       if gd_operation d = ''pass'' then
         bindE (gtl_successorStepId l) (\<lambda>s.
         bindE (new_GateTaskLifecycleEffect ''complete-and-advance'' (gtl_taskId l) s []) (\<lambda>e. Inr (Some e)))
       else if gd_operation d = ''defer'' \<or> gd_operation d = ''nonblocking'' then
         bindE (gtl_successorStepId l) (\<lambda>s.
         bindE (new_GateTaskLifecycleEffect ''defer-and-advance'' (gtl_taskId l) s []) (\<lambda>e. Inr (Some e)))
       else if gd_operation d = ''repair'' then
         bindE (new_GateTaskLifecycleEffect ''repair-task-impl'' (gtl_taskId l) (gtl_implStepId l)
           [gtl_implStepId l, gtl_reviewStepId l, gtl_triageStepId l, gtl_repairStepId l, gtl_gateStepId l]) (\<lambda>e. Inr (Some e))
       else Inr None)"

text \<open>The options of \<open>gatePlan\<close> and \<open>gateDecision\<close>, with their defaults.\<close>

record gate_options =
  go_advance :: "gate_disposition option"
  go_status :: string
  go_updates :: "GateStepUpdate list option"
  go_recoveryEffect :: "GateRecoveryEffect option"
  go_handoff :: "GateNonblockingHandoff option"
  go_retryMetric :: "GateRetryMetricEffect option"

definition defaults :: gate_options where
  "defaults = \<lparr>go_advance = None, go_status = ''in_progress'', go_updates = None, go_recoveryEffect = None,
     go_handoff = None, go_retryMetric = None\<rparr>"

definition selection_json :: "gate_disposition \<Rightarrow> GatePhaseDefinition \<Rightarrow> GateStepUpdate list \<Rightarrow>
    GateTaskLifecycleEffect option \<Rightarrow> PlanGateRepairConnector option \<Rightarrow> gate_options \<Rightarrow> jsval" where
  "selection_json d phase updates lifecycle connector opts = JObj
     [(''disposition'', GateDisposition_toJSON d), (''phaseDefinition'', GatePhaseDefinition_toJSON phase),
      (''updates'', JArr (map GateStepUpdate_toJSON updates)),
      (''taskLifecycle'', js_opt GateTaskLifecycleEffect_toJSON lifecycle),
      (''repairConnector'', js_opt PlanGateRepairConnector_toJSON connector),
      (''recoveryEffect'', js_opt GateRecoveryEffect_toJSON (go_recoveryEffect opts)),
      (''nonblockingHandoff'', js_opt GateNonblockingHandoff_toJSON (go_handoff opts)),
      (''retryMetric'', js_opt GateRetryMetricEffect_toJSON (go_retryMetric opts))]"

definition plan_updates :: "GateTransitionFacts \<Rightarrow> gate_options \<Rightarrow> GateStepUpdate list res" where
  "plan_updates f opts = (case go_updates opts of
     Some us \<Rightarrow> Inr us
   | None \<Rightarrow> bindE (new_GateStepUpdate (gtb_stepId (gtf_target f)) (go_status opts)) (\<lambda>u. Inr [u]))"

definition plan_connector ::
  "GateTransitionFacts \<Rightarrow> gate_disposition \<Rightarrow> GateTaskLifecycleEffect option \<Rightarrow> PlanGateRepairConnector option res" where
  "plan_connector f d lifecycle =
     (if gd_operation d = ''repair'' then
        bindE (planGateRepairRouteForGateStep (gtb_stepId (gtf_target f))) (\<lambda>route.
        bindE (new_PlanGateRepairConnector f route lifecycle) (\<lambda>c. Inr (Some c)))
      else Inr None)"

definition gatePlan :: "GateTransitionFacts \<Rightarrow> gate_disposition \<Rightarrow> gate_options \<Rightarrow> GateStepUpdatePlan res" where
  "gatePlan f d opts =
     bindE (gatePhaseDefinition (gtf_phase f)) (\<lambda>phase.
     bindE (plan_updates f opts) (\<lambda>updates.
     bindE (taskLifecycleEffect f d) (\<lambda>lifecycle.
     bindE (plan_connector f d lifecycle) (\<lambda>connector.
     bindE (fingerprint (selection_json d phase updates lifecycle connector opts)) (\<lambda>selectedFp.
     bindE (fingerprint (GateTransitionFacts_toJSON f)) (\<lambda>factsFp.
     bindE (new_GateActionIdentity (gpo_runId (gtf_producer f)) (gpo_specId (gtf_producer f)) (gtb_taskId (gtf_target f))
              (gtb_stepId (gtf_target f)) (gtf_currentAttempt f) (gcp_fingerprint (gtf_catalogPublication f))
              factsFp selectedFp (gd_operation d)) (\<lambda>identity.
     Inr \<lparr>gup_identity = identity, gup_phaseDefinition = phase, gup_updates = updates, gup_taskLifecycle = lifecycle,
          gup_repairConnector = connector, gup_recoveryEffect = go_recoveryEffect opts,
          gup_nonblockingHandoff = go_handoff opts, gup_retryMetric = go_retryMetric opts\<rparr>)))))))"

definition gateDecision :: "GateTransitionFacts \<Rightarrow> gate_disposition \<Rightarrow> gate_options \<Rightarrow> GateTransitionDecision res" where
  "gateDecision f d opts = bindE (gatePlan f d opts) (\<lambda>plan. new_GateTransitionDecision f d (go_advance opts) plan)"

text \<open>\<open>gateDecision(facts, new <Disposition>(...), options)\<close>.\<close>

definition decide :: "GateTransitionFacts \<Rightarrow> gate_disposition \<Rightarrow> gate_options \<Rightarrow> GateTransitionDecision res" where
  "decide f d opts = bindE (new_GateDisposition d) (\<lambda>d'. gateDecision f d' opts)"

end
