(* ===== verification/Gate_Resolver.thy ===== *)
theory Gate_Resolver
  imports Gate_Decision
begin

section \<open>Gate resolvers\<close>

text \<open>
  The functions of \<open>src/flow/definition.js\<close> that select a Gate decision: advisory (nonblocking)
  eligibility, classification of a published result, publication and settlement recovery, admission
  of a new evaluation, and the public outcome of a decision.
\<close>

subsection \<open>Nonblocking eligibility\<close>

definition RESULT_KINDS :: "string list" where
  "RESULT_KINDS = [''quality'', ''tooling'', ''unavailable'']"

record NonblockingDecisionEffect =
  nde_action :: string
  nde_operation :: string
  nde_sourceStepId :: string
  nde_targetStepId :: string
  nde_skippedStepIds :: "string list"
  nde_nextAction :: string

definition new_NonblockingDecisionEffect ::
  "string \<Rightarrow> string \<Rightarrow> string \<Rightarrow> string list \<Rightarrow> NonblockingDecisionEffect res" where
  "new_NonblockingDecisionEffect action sourceStepId targetStepId skippedStepIds =
     (if action \<notin> {''repair'', ''retry'', ''continue''}
      then Inl (Error ''nonblocking decision effect action is invalid'') else
      let operation = (if action = ''continue'' then ''continue''
            else if action = ''repair'' \<and> targetStepId = ''spec-gate-repair'' \<and> sourceStepId = ''spec-gate''
            then ''repair-spec'' else ''restart-source'') in
      bindE (requireString ''nonblocking decision effect source Step'' sourceStepId) (\<lambda>s.
      bindE (requireString ''nonblocking decision effect target Step'' targetStepId) (\<lambda>t.
      bindE (requireOptionalStepList ''nonblocking decision effect skipped Steps'' skippedStepIds) (\<lambda>ss.
      if operation = ''restart-source'' \<and> (t \<noteq> s \<or> ss \<noteq> [])
      then Inl (Error ''nonblocking restart effect must target only its source Step'') else
      Inr \<lparr>nde_action = action, nde_operation = operation, nde_sourceStepId = s, nde_targetStepId = t,
           nde_skippedStepIds = ss,
           nde_nextAction = (if action = ''continue'' then ''refresh-next-action'' else ''run-'' @ t)\<rparr>))))"

definition NonblockingDecisionEffect_toJSON :: "NonblockingDecisionEffect \<Rightarrow> jsval" where
  "NonblockingDecisionEffect_toJSON e = JObj
     [(''action'', JStr (nde_action e)), (''operation'', JStr (nde_operation e)),
      (''sourceStepId'', JStr (nde_sourceStepId e)), (''targetStepId'', JStr (nde_targetStepId e)),
      (''skippedStepIds'', JArr (map JStr (nde_skippedStepIds e))), (''nextAction'', JStr (nde_nextAction e))]"

record NonblockingEligibility =
  nel_sourceStep :: string
  nel_resultKind :: string
  nel_blocker :: string
  nel_definitionDigest :: string
  nel_continueTargetStepId :: string
  nel_skippedStepIds :: "string list"
  nel_selectedFindingFingerprints :: "string list"
  nel_repairTargetStepId :: string
  nel_strictStopKind :: string
  nel_allowedActions :: "string list"
  nel_acceptancePublication :: string
  nel_gateDecision :: "GateTransitionDecision option"

text \<open>The optional arguments of the constructor, with their defaults.\<close>

record eligibility_options =
  eo_continueTarget :: "string option"
  eo_skipped :: "string list option"
  eo_fingerprints :: "string list"
  eo_repairAllowed :: bool
  eo_repairTarget :: "string option"
  eo_strictStopKind :: string
  eo_gateDecision :: "GateTransitionDecision option"

definition eligibility_defaults :: eligibility_options where
  "eligibility_defaults = \<lparr>eo_continueTarget = None, eo_skipped = None, eo_fingerprints = [], eo_repairAllowed = True,
     eo_repairTarget = None, eo_strictStopKind = ''await-user-decision'', eo_gateDecision = None\<rparr>"

definition first_some :: "'a option \<Rightarrow> 'a option \<Rightarrow> 'a option" where
  "first_some a b = (case a of Some x \<Rightarrow> Some x | None \<Rightarrow> b)"

definition string_or_null :: "string \<Rightarrow> string option \<Rightarrow> string res" where
  "string_or_null field x = (case x of
     None \<Rightarrow> Inl (Error (field @ '' must be a non-empty string''))
   | Some s \<Rightarrow> requireString field s)"

definition allowed_actions :: "string \<Rightarrow> bool \<Rightarrow> string list" where
  "allowed_actions resultKind repairAllowed =
     (if resultKind = ''quality'' then if repairAllowed then [''repair'', ''continue''] else [''continue'']
      else [''retry'', ''continue''])"

definition acceptance_publication :: "string \<Rightarrow> string \<Rightarrow> string" where
  "acceptance_publication resultKind routeKind =
     (if resultKind = ''quality'' \<and> routeKind \<in> {''gate'', ''review''} then ''semantic-findings'' else ''nonblocking-handoff'')"

definition new_NonblockingEligibility ::
  "string \<Rightarrow> jsval \<Rightarrow> string \<Rightarrow> jsval \<Rightarrow> eligibility_options \<Rightarrow> NonblockingEligibility res" where
  "new_NonblockingEligibility sourceStep resultKind blocker selection opts =
     bindE (requireString ''nonblocking eligibility source Step'' sourceStep) (\<lambda>s.
     (case nonblockingRouteFor s of
        None \<Rightarrow> Inl (Error ''nonblocking eligibility requires an acceptance-backed route'')
      | Some route \<Rightarrow>
     bindE (lit_of RESULT_KINDS (Error ''nonblocking eligibility result kind is invalid'') resultKind) (\<lambda>k.
     bindE (requireString ''nonblocking eligibility blocker'' blocker) (\<lambda>b.
     if \<not> truthy_object selection then Inl (Error ''nonblocking eligibility requires its Definition selection'') else
     bindE (nonblockingSelectionDigest selection) (\<lambda>digest.
     bindE (string_or_null ''nonblocking continuation target Step''
              (first_some (eo_continueTarget opts) (nbr_targetStep route))) (\<lambda>c.
     bindE (requireOptionalStepList ''nonblocking continuation skipped Steps''
              (case eo_skipped opts of Some ss \<Rightarrow> ss | None \<Rightarrow> nbr_skippedSteps route)) (\<lambda>ss.
     bindE (requireOptionalStepList ''nonblocking selected finding fingerprints'' (eo_fingerprints opts)) (\<lambda>fps.
     bindE (case eo_repairTarget opts of None \<Rightarrow> Inr s
            | Some t \<Rightarrow> requireString ''nonblocking repair target Step'' t) (\<lambda>rt.
     if eo_strictStopKind opts \<notin> {''await-user-decision'', ''blocked''}
     then Inl (Error ''nonblocking strict stop kind is invalid'')
     else if rt \<noteq> s \<and> (s \<noteq> ''spec-gate'' \<or> rt \<noteq> ''spec-gate-repair'')
     then Inl (Error ''nonblocking repair target is invalid'') else
     Inr \<lparr>nel_sourceStep = s, nel_resultKind = k, nel_blocker = b, nel_definitionDigest = digest,
          nel_continueTargetStepId = c, nel_skippedStepIds = ss, nel_selectedFindingFingerprints = fps,
          nel_repairTargetStepId = rt, nel_strictStopKind = eo_strictStopKind opts,
          nel_allowedActions = allowed_actions k (eo_repairAllowed opts),
          nel_acceptancePublication = acceptance_publication k (nbr_kind route),
          nel_gateDecision = eo_gateDecision opts\<rparr>)))))))))"

definition effectFor :: "NonblockingEligibility \<Rightarrow> string \<Rightarrow> NonblockingDecisionEffect res" where
  "effectFor e action =
     (if action \<notin> set (nel_allowedActions e)
      then Inl (Error (''nonblocking action '' @ action @ '' is not selected by Definition'')) else
      new_NonblockingDecisionEffect action (nel_sourceStep e)
        (if action = ''continue'' then nel_continueTargetStepId e
         else if action = ''repair'' then nel_repairTargetStepId e else nel_sourceStep e)
        (if action = ''continue'' then nel_skippedStepIds e else []))"

definition NonblockingEligibility_fields :: "NonblockingEligibility \<Rightarrow> jsfields" where
  "NonblockingEligibility_fields e =
     [(''sourceStep'', JStr (nel_sourceStep e)), (''resultKind'', JStr (nel_resultKind e)),
      (''blocker'', JStr (nel_blocker e)), (''allowedActions'', JArr (map JStr (nel_allowedActions e))),
      (''continueTargetStepId'', JStr (nel_continueTargetStepId e)),
      (''skippedStepIds'', JArr (map JStr (nel_skippedStepIds e)))] @
     (if nel_selectedFindingFingerprints e = [] then []
      else [(''selectedFindingFingerprints'', JArr (map JStr (nel_selectedFindingFingerprints e)))]) @
     [(''acceptancePublication'', JStr (nel_acceptancePublication e)),
      (''definitionDigest'', JStr (nel_definitionDigest e))]"

definition acceptanceBoundaryNonblockingEligibility :: "jsval \<Rightarrow> jsval \<Rightarrow> NonblockingEligibility option res" where
  "acceptanceBoundaryNonblockingEligibility sourceStep resultKind =
     (if sourceStep \<noteq> JStr ''retro'' \<and> sourceStep \<noteq> JStr ''acceptance-review'' then Inr None else
      let s = (if sourceStep = JStr ''retro'' then ''retro'' else ''acceptance-review'') in
      if nonblockingRouteFor s = None then Inr None else
      bindE (new_NonblockingEligibility s resultKind
        (if s = ''acceptance-review'' then ''Acceptance requires an explicit disposition of the recorded blocker.''
         else ''Retrospective completion has unresolved acceptance evidence and no ordinary retry route.'')
        (JObj [(''sourceStep'', JStr s), (''resultKind'', resultKind), (''disposition'', JStr ''acceptance-boundary'')])
        eligibility_defaults) (\<lambda>e. Inr (Some e)))"

subsection \<open>Eligibility of a Gate decision\<close>

definition gateNonblockingSourceStep :: "GateTransitionFacts \<Rightarrow> string option" where
  "gateNonblockingSourceStep f =
     (if gtf_scope f = ''task'' then Some ''task-gate''
      else if gtf_phase f = ''draft'' then Some ''draft-gate''
      else if gtf_phase f = ''spec'' \<or> gtf_phase f = ''task-spec'' then Some ''spec-gate''
      else if gtf_phase f = ''integration'' then Some ''impl-gate'' else None)"

record GateNonblockingEligibility = NonblockingEligibility +
  gne_strictDisposition :: gate_disposition
  gne_handoff :: GateNonblockingHandoff

text \<open>The identity of the selection: the facts without the two fields that may change between the
  strict stop and its advisory continuation.\<close>

definition recovery_facts :: "GateTransitionFacts \<Rightarrow> jsval" where
  "recovery_facts f = (case GateTransitionFacts_toJSON f of
     JObj ob \<Rightarrow> JObj (filter (\<lambda>(k, v). k \<noteq> ''snapshotRevision'' \<and> k \<noteq> ''nonblocking'') ob)
   | v \<Rightarrow> v)"

definition selection_identity :: "GateTransitionDecision \<Rightarrow> GateNonblockingHandoff \<Rightarrow> string \<Rightarrow> jsval res" where
  "selection_identity strict handoff resultKind =
     (if resultKind \<notin> set RESULT_KINDS
      then Inl (Error ''Gate nonblocking selection identity result kind is invalid'') else
      Inr (JObj [(''disposition'', GateDisposition_toJSON (gtd_disposition strict)),
        (''recoveryFacts'', recovery_facts (gtd_facts strict)), (''resultKind'', JStr resultKind),
        (''handoff'', GateNonblockingHandoff_toJSON handoff)]))"

definition STRICT_STOPS :: "string list" where
  "STRICT_STOPS = [''defer'', ''external-blocked'', ''blocked'']"

definition reason_or :: "string option \<Rightarrow> string \<Rightarrow> string" where
  "reason_or reason fallback = (case reason of None \<Rightarrow> fallback | Some r \<Rightarrow> if r = [] then fallback else r)"

definition new_GateNonblockingEligibility ::
  "GateTransitionDecision \<Rightarrow> GateTransitionDecision \<Rightarrow> string \<Rightarrow> GateNonblockingHandoff \<Rightarrow> GateNonblockingEligibility res" where
  "new_GateNonblockingEligibility strict selected resultKind handoff =
     (if gd_operation (gtd_disposition selected) \<noteq> ''nonblocking''
      then Inl (Error ''Gate nonblocking eligibility is created only by the definition resolver'')
      else if gd_operation (gtd_disposition strict) \<notin> set STRICT_STOPS
      then Inl (Error ''Gate nonblocking eligibility requires an exhausted or unavailable strict disposition'') else
      bindE (selection_identity strict handoff resultKind) (\<lambda>selection.
      bindE (new_NonblockingEligibility (gnh_sourceStepId handoff) (JStr resultKind)
        (reason_or (gd_reason (gtd_disposition strict)) ''Strict Gate recovery is exhausted.'') selection
        (eligibility_defaults\<lparr>eo_continueTarget := Some (gnh_targetStepId handoff), eo_gateDecision := Some selected\<rparr>)) (\<lambda>e.
      Inr (NonblockingEligibility.extend e
        \<lparr>gne_strictDisposition = gtd_disposition strict, gne_handoff = handoff\<rparr>))))"

definition GateNonblockingEligibility_toJSON :: "GateNonblockingEligibility \<Rightarrow> jsval" where
  "GateNonblockingEligibility_toJSON e = JObj
     ((''strictDisposition'', GateDisposition_toJSON (gne_strictDisposition e)) #
      NonblockingEligibility_fields (NonblockingEligibility.truncate e) @
      [(''handoff'', GateNonblockingHandoff_toJSON (gne_handoff e))])"

definition with_nonblocking :: "jsval \<Rightarrow> bool \<Rightarrow> jsval" where
  "with_nonblocking v b = (case v of
     JObj ob \<Rightarrow> JObj (map (\<lambda>(k, w). if k = ''nonblocking'' then (k, JBool b) else (k, w)) ob) | w \<Rightarrow> w)"

definition enabled_facts :: "GateTransitionFacts \<Rightarrow> GateTransitionFacts res" where
  "enabled_facts f = (if gtf_nonblocking f then Inr f
     else fromPersisted (with_nonblocking (GateTransitionFacts_toJSON f) True))"

definition handoff_target :: "GateTransitionFacts \<Rightarrow> NonBlockingRoute \<Rightarrow> string option res" where
  "handoff_target f route =
     (if gtf_scope f = ''task'' then
        (case gtf_taskLifecycle f of None \<Rightarrow> Inr None | Some l \<Rightarrow> bindE (gtl_successorStepId l) (\<lambda>s. Inr (Some s)))
      else Inr (nbr_targetStep route))"

definition failure_result_kind :: "GateFailureCategory option \<Rightarrow> string" where
  "failure_result_kind failure = (if failure_category failure = Some ''semantic'' then ''quality''
     else if failure_category failure = Some ''local'' then ''unavailable'' else ''tooling'')"

definition gateNonblockingEligibilityForDecision :: "GateTransitionDecision \<Rightarrow> GateNonblockingEligibility option res" where
  "gateNonblockingEligibilityForDecision D =
     (let f = gtd_facts D in
      if gtf_result f \<noteq> ''fail'' then Inr None else
      bindE (integrityFailure f) (\<lambda>i.
      if i \<noteq> None then Inr None
      else if gtd_disposition D = DraftGateCarryForward then Inr None
      else if gd_operation (gtd_disposition D) \<notin> set STRICT_STOPS then Inr None else
      (case gateNonblockingSourceStep f of
         None \<Rightarrow> Inr None
       | Some source \<Rightarrow>
      (case nonblockingRouteFor source of
         None \<Rightarrow> Inr None
       | Some route \<Rightarrow>
      if nbr_kind route \<noteq> ''gate'' then Inr None else
      bindE (handoff_target f route) (\<lambda>target. case target of
         None \<Rightarrow> Inr None
       | Some t \<Rightarrow>
      bindE (enabled_facts f) (\<lambda>enabled.
      bindE (new_GateNonblockingHandoff source t (gtb_taskId (gtf_target f))) (\<lambda>handoff.
      bindE (decide enabled GateNonblocking (defaults\<lparr>go_handoff := Some handoff\<rparr>)) (\<lambda>selected.
      bindE (new_GateNonblockingEligibility D selected (failure_result_kind (gtf_failure f)) handoff) (\<lambda>e.
      Inr (Some e))))))))))"

definition selectGateNonblockingDecision ::
  "GateTransitionFacts \<Rightarrow> GateTransitionDecision \<Rightarrow> GateTransitionDecision res" where
  "selectGateNonblockingDecision f strict =
     (if \<not> gtf_nonblocking f then Inr strict else
      bindE (gateNonblockingEligibilityForDecision strict) (\<lambda>eligibility. case eligibility of
        None \<Rightarrow> Inr strict
      | Some e \<Rightarrow> decide f GateNonblocking (defaults\<lparr>go_handoff := Some (gne_handoff e)\<rparr>)))"

subsection \<open>Classification\<close>

definition SPEC_GATE_MAXIMUM_CYCLE :: nat where
  "SPEC_GATE_MAXIMUM_CYCLE = 4"

definition strict_stop :: "GateTransitionFacts \<Rightarrow> gate_disposition \<Rightarrow> GateTransitionDecision res" where
  "strict_stop f d = bindE (decide f d defaults) (selectGateNonblockingDecision f)"

definition sameEvidence :: "GateTransitionFacts \<Rightarrow> bool" where
  "sameEvidence f = (case gtf_observationConvergence f of None \<Rightarrow> False | Some c \<Rightarrow> goc_sameEvidence c)"

definition allRecurring :: "GateTransitionFacts \<Rightarrow> bool" where
  "allRecurring f = (case gtf_observationConvergence f of None \<Rightarrow> False | Some c \<Rightarrow> goc_allRecurring c)"

text \<open>\<open>facts.scope === "task" && facts.taskBudget.finalRound\<close>.\<close>

definition task_final :: "GateTransitionFacts \<Rightarrow> bool res" where
  "task_final f = andE (Inr (gtf_scope f = ''task''))
     (bindE (present (gtf_taskBudget f)) (\<lambda>b. Inr (gtg_finalRound b)))"

definition task_not_final :: "GateTransitionFacts \<Rightarrow> bool res" where
  "task_not_final f = andE (Inr (gtf_scope f = ''task''))
     (bindE (present (gtf_taskBudget f)) (\<lambda>b. Inr (\<not> gtg_finalRound b)))"

text \<open>\<open>facts.scope !== "task" || !facts.taskBudget.finalRound\<close>.\<close>

definition repair_admissible :: "GateTransitionFacts \<Rightarrow> bool res" where
  "repair_admissible f = (if gtf_scope f \<noteq> ''task'' then Inr True
     else bindE (present (gtf_taskBudget f)) (\<lambda>b. Inr (\<not> gtg_finalRound b)))"

definition spec_cycle_reached :: "GateTransitionFacts \<Rightarrow> bool res" where
  "spec_cycle_reached f = andE (Inr (gtf_phase f = ''spec''))
     (bindE (present (gtf_specCycle f)) (\<lambda>c. Inr (sgc_cycle c \<ge> SPEC_GATE_MAXIMUM_CYCLE)))"

definition spec_cycle_reason :: "GateTransitionFacts \<Rightarrow> string res" where
  "spec_cycle_reason f = bindE (present (gtf_specCycle f)) (\<lambda>c.
     Inr (''Spec Gate cycle '' @ nat_text (sgc_cycle c) @ '' reached maximum '' @ nat_text SPEC_GATE_MAXIMUM_CYCLE @ ''.''))"

definition unresolved_review :: "GateTransitionFacts \<Rightarrow> bool res" where
  "unresolved_review f = andE (Inr (gtf_phase f = ''integration'' \<and> gtf_result f = ''pass''))
     (bindE (present (gtf_reviewReadiness f)) (\<lambda>r. Inr (\<not> grr_allowsPass r)))"

text \<open>The tail of the policy: what to do with a semantic failure that neither the draft funnel nor a
  repair receipt settles.\<close>

definition classify_exhaustion :: "GateTransitionFacts \<Rightarrow> GateTransitionDecision res" where
  "classify_exhaustion f =
     (if sameEvidence f then strict_stop f (GateBlocked ''same_gate_observation_without_changed_repair'')
      else if \<not> grm_exhausted (gtf_retry f) then
        bindE (new_GateRetryMetricEffect ''increment'' (gtf_phase f)) (\<lambda>m.
        decide f GateRetry (defaults\<lparr>go_retryMetric := Some m\<rparr>))
      else bindE (task_not_final f) (\<lambda>open_round.
        if open_round then decide f (GateBlocked ''missing_plan_gate_repair_evidence'') defaults
        else strict_stop f GateDefer))"

definition classify_semantic :: "GateTransitionFacts \<Rightarrow> GateTransitionDecision res" where
  "classify_semantic f =
     bindE (spec_cycle_reached f) (\<lambda>cycle_limit.
     if cycle_limit then bindE (spec_cycle_reason f) (\<lambda>reason. strict_stop f (GateBlocked reason))
     else if gtf_phase f = ''draft'' \<and> (sameEvidence f \<or> grm_exhausted (gtf_retry f))
     then decide f DraftGateCarryForward defaults else
     bindE (andE (Inr (gre_kind (gtf_recoveryEvidence f) = ''repair'')) (repair_admissible f)) (\<lambda>repairable.
     if repairable then decide f GateRepair defaults
     else if gtf_phase f = ''draft'' then decide f GateRepair defaults else
     bindE (task_final f) (\<lambda>final_round.
     if final_round \<and> gre_kind (gtf_recoveryEvidence f) = ''repair'' then strict_stop f GateDefer
     else if final_round \<and> allRecurring f then strict_stop f GateDefer
     else classify_exhaustion f)))"

definition classify_failure :: "GateTransitionFacts \<Rightarrow> GateTransitionDecision res" where
  "classify_failure f = bindE (present (gtf_failure f)) (\<lambda>failure.
     if gfc_category failure = ''tooling'' then
       strict_stop f (GateExternalBlocked (reason_or (gfc_code failure) ''tooling_failure''))
     else if gfc_category failure = ''local'' then
       strict_stop f (GateBlocked (reason_or (gfc_code failure) ''local_input_invalid''))
     else classify_semantic f)"

definition classify_recovered :: "GateTransitionFacts \<Rightarrow> GateTransitionDecision res" where
  "classify_recovered f =
     bindE (if gtf_phase f = ''integration'' then
              bindE (new_GateRecoveryEffect ''rewind-test-evidence'' (gtb_stepId (gtf_target f)) ''test-execute'')
                (\<lambda>e. Inr (Some e))
            else Inr None) (\<lambda>effect.
     decide f GateRecovery (defaults\<lparr>go_updates := Some [], go_recoveryEffect := effect\<rparr>))"

definition classify_pass :: "GateTransitionFacts \<Rightarrow> GateTransitionDecision res" where
  "classify_pass f =
     bindE (new_GateDisposition GateAdvance) (\<lambda>advance.
     bindE (new_GateRetryMetricEffect ''reset'' (gtf_phase f)) (\<lambda>m.
     decide f GatePass (defaults\<lparr>go_advance := Some advance, go_status := ''done'', go_retryMetric := Some m\<rparr>)))"

definition resolveGateClassification :: "GateTransitionFacts \<Rightarrow> GateTransitionDecision res" where
  "resolveGateClassification f =
     bindE (integrityFailure f) (\<lambda>integrity. case integrity of
       Some reason \<Rightarrow> decide f (GateBlocked reason) defaults
     | None \<Rightarrow>
     bindE (unresolved_review f) (\<lambda>unresolved.
     if unresolved then decide f (GateBlocked ''unresolved_review_findings'') defaults
     else if gtf_result f = ''pass'' then classify_pass f
     else if gtf_result f = ''recovered'' \<or> gre_kind (gtf_recoveryEvidence f) = ''recovered'' then classify_recovered f
     else classify_failure f))"

definition resolveGateTransition :: "GateTransitionFacts \<Rightarrow> GateTransitionDecision res" where
  "resolveGateTransition f = resolveGateClassification f"

subsection \<open>Recovery after publication, admission and the public outcome\<close>

definition resolveGatePublicationRecovery :: "GateTransitionFacts \<Rightarrow> GateTransitionDecision option res" where
  "resolveGatePublicationRecovery f =
     bindE (integrityFailure f) (\<lambda>i.
     if i \<noteq> None then Inr None
     else if gtf_phase f = ''spec'' \<or> gtf_phase f = ''task-spec'' then Inr None
     else if gtf_scope f \<noteq> ''task'' then
       (if gps_requiresReconciliation (gtf_postPublication f) then
          bindE (decide f GateReconcilePublication (defaults\<lparr>go_updates := Some []\<rparr>)) (\<lambda>D. Inr (Some D))
        else Inr None)
     else bindE (resolveGateClassification f) (\<lambda>classified.
       bindE (present (gtf_taskSettlementProgress f)) (\<lambda>progress.
       if \<not> gps_requiresReconciliation (gtf_postPublication f)
          \<and> \<not> tgs_requiresReconciliation progress (gtf_result f = ''fail'')
                (map_option gme_operation (gup_retryMetric (gtd_plan classified)))
                (gtf_result f = ''pass'' \<or> gtf_result f = ''fail'')
                (list_ex (\<lambda>u. gsu_status u = ''done'') (gup_updates (gtd_plan classified)))
       then Inr None
       else bindE (decide f GateReconcilePublication (defaults\<lparr>go_updates := Some []\<rparr>)) (\<lambda>D. Inr (Some D)))))"

definition resolveTaskGateSettlementRecovery :: "GateTransitionFacts \<Rightarrow> GateTransitionDecision option res" where
  "resolveTaskGateSettlementRecovery f =
     (if gtf_scope f \<noteq> ''task'' then Inr None else resolveGatePublicationRecovery f)"

record GateEvaluationAdmission =
  gea_facts :: "GateTransitionFacts option"
  gea_recoveryDecision :: "GateTransitionDecision option"
  gea_transitionDecision :: "GateTransitionDecision option"

definition new_GateEvaluationAdmission :: "GateTransitionFacts option \<Rightarrow> GateTransitionDecision option \<Rightarrow>
    GateTransitionDecision option \<Rightarrow> GateEvaluationAdmission res" where
  "new_GateEvaluationAdmission facts recovery transition =
     (if facts = None \<and> (recovery \<noteq> None \<or> transition \<noteq> None)
      then Inl (Error ''unpublished Gate evaluation admission cannot select a decision'')
      else if recovery \<noteq> None \<and> transition \<noteq> None
      then Inl (Error ''Gate evaluation admission selects one recovery or transition decision'')
      else Inr \<lparr>gea_facts = facts, gea_recoveryDecision = recovery, gea_transitionDecision = transition\<rparr>)"

definition gea_admitted :: "GateEvaluationAdmission \<Rightarrow> bool" where
  "gea_admitted a \<longleftrightarrow> gea_facts a = None"

definition gea_selectedDecision :: "GateEvaluationAdmission \<Rightarrow> GateTransitionDecision option" where
  "gea_selectedDecision a = first_some (gea_recoveryDecision a) (gea_transitionDecision a)"

definition GateEvaluationAdmission_toJSON :: "GateEvaluationAdmission \<Rightarrow> jsval" where
  "GateEvaluationAdmission_toJSON a = JObj
     ((''admitted'', JBool (gea_admitted a)) #
      (case gea_selectedDecision a of None \<Rightarrow> []
       | Some D \<Rightarrow> [(''selectedOperation'', JStr (gd_operation (gtd_disposition D))),
           (''recovery'', JBool (gea_recoveryDecision a \<noteq> None))]))"

definition resolveGateEvaluationAdmission :: "GateTransitionFacts option \<Rightarrow> GateEvaluationAdmission res" where
  "resolveGateEvaluationAdmission facts = (case facts of
     None \<Rightarrow> new_GateEvaluationAdmission None None None
   | Some f \<Rightarrow>
       bindE (bindE (resolveTaskGateSettlementRecovery f) (\<lambda>r.
         case r of Some D \<Rightarrow> Inr (Some D) | None \<Rightarrow> resolveGatePublicationRecovery f)) (\<lambda>recovery.
       if recovery \<noteq> None then new_GateEvaluationAdmission (Some f) recovery None
       else bindE (resolveGateTransition f) (\<lambda>D. new_GateEvaluationAdmission (Some f) None (Some D))))"

record GatePublicOutcome =
  gpx_failureCode :: "string option"
  gpx_nextStepId :: "string option"

definition new_GatePublicOutcome :: "string option \<Rightarrow> string option \<Rightarrow> GatePublicOutcome res" where
  "new_GatePublicOutcome code next =
     bindE (optional_string ''gate public failure code'' code) (\<lambda>c.
     bindE (optional_string ''gate public next Step'' next) (\<lambda>n.
     Inr \<lparr>gpx_failureCode = c, gpx_nextStepId = n\<rparr>))"

definition gpx_failed :: "GatePublicOutcome \<Rightarrow> bool" where
  "gpx_failed p \<longleftrightarrow> gpx_failureCode p \<noteq> None"

definition GatePublicOutcome_toJSON :: "GatePublicOutcome \<Rightarrow> jsval" where
  "GatePublicOutcome_toJSON p = JObj
     [(''failed'', JBool (gpx_failed p)), (''failureCode'', js_opt JStr (gpx_failureCode p)),
      (''nextStepId'', js_opt JStr (gpx_nextStepId p))]"

definition source_code :: "GateFailureCategory option \<Rightarrow> string" where
  "source_code failure = (case failure of
     None \<Rightarrow> ''GATE_EXTERNAL_BLOCKED''
   | Some x \<Rightarrow> (case gfc_code x of None \<Rightarrow> ''GATE_EXTERNAL_BLOCKED'' | Some c \<Rightarrow> c))"

definition projectGatePublicOutcome :: "GateTransitionDecision \<Rightarrow> GatePublicOutcome res" where
  "projectGatePublicOutcome D = (case gup_recoveryEffect (gtd_plan D) of
     Some e \<Rightarrow> new_GatePublicOutcome None (Some (gve_targetStepId e))
   | None \<Rightarrow>
       if gd_operation (gtd_disposition D) \<notin> {''external-blocked'', ''blocked''} then new_GatePublicOutcome None None
       else if failure_category (gtf_failure (gtd_facts D)) = Some ''local''
       then new_GatePublicOutcome (Some ''GATE_LOCAL_INPUT_INVALID'') None
       else let code = source_code (gtf_failure (gtd_facts D)) in
         new_GatePublicOutcome (Some
           (if gtf_phase (gtd_facts D) \<in> {''draft'', ''spec'', ''task-spec''} \<or> code = ''GATE_EXTERNAL_BLOCKED''
            then ''STEP_EXTERNAL_BLOCKED'' else code)) None)"

subsection \<open>A failed post hook of the Spec Gate\<close>

record SpecGatePostFailureFacts =
  spf_failure :: jsval
  spf_settlementStatus :: string
  spf_detail :: "string option"

definition new_SpecGatePostFailureFacts :: "jsval \<Rightarrow> jsval \<Rightarrow> string option \<Rightarrow> SpecGatePostFailureFacts res" where
  "new_SpecGatePostFailureFacts failure settlementStatus detail =
     bindE (lit_of [''present'', ''missing'', ''invalid'']
              (TypeError ''Spec Gate post-failure settlement status is invalid'') settlementStatus) (\<lambda>s.
     Inr \<lparr>spf_failure = failure, spf_settlementStatus = s, spf_detail = detail\<rparr>)"

record SpecGatePostFailureBlocked =
  spb_code :: string
  spb_reason :: string
  spb_resumeInstruction :: string

definition new_SpecGatePostFailureBlocked :: "SpecGatePostFailureFacts \<Rightarrow> SpecGatePostFailureBlocked res" where
  "new_SpecGatePostFailureBlocked f =
     (if spf_settlementStatus f = ''present''
      then Inl (TypeError ''Spec Gate post-failure block requires unresolved facts'') else
      Inr \<lparr>spb_code = ''SPEC_GATE_POST_FAILED'',
        spb_reason = (if spf_settlementStatus f = ''missing''
          then ''The failed Spec Gate post hook has no current Result and Settlement receipt authorizing replay.''
          else ''The failed Spec Gate post hook has no valid current settlement: '' @
            (case spf_detail f of None \<Rightarrow> ''null'' | Some d \<Rightarrow> d)),
        spb_resumeInstruction = ''No recovery is authorized for this Attempt. Replay requires a current matching Result and settlement receipt from the canonical producer. Preserve the existing failure and publication evidence.''\<rparr>)"

definition resolveSpecGatePostFailure :: "SpecGatePostFailureFacts \<Rightarrow> SpecGatePostFailureBlocked option res" where
  "resolveSpecGatePostFailure f =
     (if propq (spf_failure f) ''code'' = JStr ''SPEC_GATE_POST_FAILED'' \<and> propq (spf_failure f) ''retryable'' = JBool False
         \<and> spf_settlementStatus f \<noteq> ''present''
      then bindE (new_SpecGatePostFailureBlocked f) (\<lambda>b. Inr (Some b)) else Inr None)"

end
