(* ===== verification/Gate_Plan.thy ===== *)
theory Gate_Plan
  imports Gate_Resolver
begin

section \<open>What a Gate plan holds, and when it exists\<close>

text \<open>
  Closed forms for the building blocks of a decision: for well-formed facts the phase definition, the
  lifecycle effect, the digests and the action identity always exist, so a decision other than a
  repair always exists and is determined by the facts, the disposition and the options.  A repair
  decision exists exactly when the Gate step has a repair route of the same phase.
\<close>

subsection \<open>Texts\<close>

lemma disposition_operation [simp]: "gd_operation d \<in> set GATE_DISPOSITIONS" "is_text (gd_operation d)"
  by (cases d; simp add: GATE_DISPOSITIONS_def is_text_def js_trim_def js_ws_def)+

lemma new_GateDisposition_ok: "pred_option is_text (gd_reason d) \<Longrightarrow> new_GateDisposition d = Inr d"
  by (cases "gd_reason d") (simp_all add: new_GateDisposition_def del: bindE_eq_Inr)

lemma optional_string_text [simp]: "pred_option is_text x \<Longrightarrow> optional_string field x = Inr x"
  by (cases x) (simp_all add: optional_string_def)

lemma status_texts [simp]: "is_text ''in_progress''" "is_text ''done''" "is_text ''increment''" "is_text ''reset''"
  by (simp_all add: is_text_def js_trim_def js_ws_def)

lemma fingerprint_object: "fingerprint (JObj ob) = Inr (sha256_hex (the (stableGateJson (JObj ob))))"
  by (rule fingerprint_total) simp

lemma sha256_hex_text [simp]: "is_text (sha256_hex t)"
  by (rule is_sha256_text) (rule sha256_hex_shape)

subsection \<open>Phases\<close>

definition phase_definition :: "string \<Rightarrow> GatePhaseDefinition" where
  "phase_definition p = \<lparr>gpd_phase = p, gpd_passPrescription = PASS_PRESCRIPTION,
     gpd_failurePrescription = the (map_of GATE_PHASE_PRESCRIPTIONS p)\<rparr>"

lemma phase_definitions_load:
  "list_all (\<lambda>p. map_of GATE_PHASE_DEFINITIONS p = Some (phase_definition p)) GATE_PHASES"
  by code_simp

lemma phase_definition_found [simp]:
  "p \<in> set GATE_PHASES \<Longrightarrow> map_of GATE_PHASE_DEFINITIONS p = Some (phase_definition p)"
  using phase_definitions_load by (simp add: list_all_iff)

lemma gatePhaseDefinition_ok [simp]: "p \<in> set GATE_PHASES \<Longrightarrow> gatePhaseDefinition p = Inr (phase_definition p)"
  by (simp add: gatePhaseDefinition_def)

lemma retry_metric_ok [simp]:
  "p \<in> set GATE_PHASES \<Longrightarrow> op \<in> {''increment'', ''reset''} \<Longrightarrow>
   new_GateRetryMetricEffect op p = Inr \<lparr>gme_operation = op, gme_phase = p\<rparr>"
  by (elim insertE emptyE) (simp_all add: new_GateRetryMetricEffect_def)

subsection \<open>The Task lifecycle effect\<close>

definition successor :: "GateTaskLifecycle \<Rightarrow> string" where
  "successor l = (case gtl_nextTaskId l of None \<Rightarrow> gtl_integrationStepId l | Some t \<Rightarrow> task_leaf t ''impl'')"

definition lifecycle_of :: "GateTransitionFacts \<Rightarrow> gate_disposition \<Rightarrow> GateTaskLifecycleEffect option" where
  "lifecycle_of f d = (case gtf_taskLifecycle f of
     None \<Rightarrow> None
   | Some l \<Rightarrow>
       if gd_operation d = ''pass'' then
         Some \<lparr>gte_operation = ''complete-and-advance'', gte_taskId = gtl_taskId l, gte_successorStepId = successor l,
               gte_resetStepIds = []\<rparr>
       else if gd_operation d = ''defer'' \<or> gd_operation d = ''nonblocking'' then
         Some \<lparr>gte_operation = ''defer-and-advance'', gte_taskId = gtl_taskId l, gte_successorStepId = successor l,
               gte_resetStepIds = []\<rparr>
       else if gd_operation d = ''repair'' then
         Some \<lparr>gte_operation = ''repair-task-impl'', gte_taskId = gtl_taskId l,
               gte_successorStepId = task_leaf (gtl_taskId l) ''impl'',
               gte_resetStepIds = map (task_leaf (gtl_taskId l)) TASK_STEP_ROLES\<rparr>
       else None)"

lemma successor_ok:
  "wf_GateTaskLifecycle l \<Longrightarrow> gtl_successorStepId l = Inr (successor l) \<and> is_text (successor l)"
  by (auto simp: gtl_successorStepId_def successor_def wf_GateTaskLifecycle_def split: option.splits)

lemma materialized_leaves_ok [simp]:
  assumes "is_text t"
  shows "materialized_leaves t = Inr (map (task_leaf t) TASK_STEP_ROLES)"
proof -
  have "new_TaskStepIdentity (JStr t) (JStr r) = Inr \<lparr>tsi_taskId = t, tsi_role = r\<rparr>" if "r \<in> set TASK_STEP_ROLES" for r
    using new_TaskStepIdentity_self [of "\<lparr>tsi_taskId = t, tsi_role = r\<rparr>"] assms that
    by (simp add: wf_TaskStepIdentity_def)
  then show ?thesis
    by (simp add: materialized_leaves_def collectTaskLeafIds_def fromDefinitionId_def TASK_STEP_ROLES_def
        tsi_nodeId_def task_leaf_def)
qed

lemma leaf_nonempty [simp]: "task_leaf t r \<noteq> []" "[] \<noteq> task_leaf t r"
  by (simp_all add: task_leaf_def)

lemma lifecycle_effect_ops:
  "is_text ''complete-and-advance''" "is_text ''defer-and-advance''" "is_text ''repair-task-impl''"
  by (simp_all add: is_text_def js_trim_def js_ws_def)

lemma advance_effect_ok:
  "is_text t \<Longrightarrow> is_text s \<Longrightarrow> op \<in> {''complete-and-advance'', ''defer-and-advance''} \<Longrightarrow>
   new_GateTaskLifecycleEffect op t s [] =
     Inr \<lparr>gte_operation = op, gte_taskId = t, gte_successorStepId = s, gte_resetStepIds = []\<rparr>"
  by (elim insertE emptyE) (simp_all add: new_GateTaskLifecycleEffect_def lifecycle_effect_ops Let_def)

lemma leaves_nonempty: "[] \<notin> set (map (task_leaf t) rs)"
  by (simp add: image_iff)

lemma repair_effect_ok:
  "is_text t \<Longrightarrow> new_GateTaskLifecycleEffect ''repair-task-impl'' t (task_leaf t ''impl'') (map (task_leaf t) TASK_STEP_ROLES) =
     Inr \<lparr>gte_operation = ''repair-task-impl'', gte_taskId = t, gte_successorStepId = task_leaf t ''impl'',
          gte_resetStepIds = map (task_leaf t) TASK_STEP_ROLES\<rparr>"
  using leaves_nonempty [of t TASK_STEP_ROLES]
  by (simp add: new_GateTaskLifecycleEffect_def lifecycle_effect_ops Let_def del: set_map)

lemma taskLifecycleEffect_ok [simp]:
  assumes "wf_GateTransitionFacts f"
  shows "taskLifecycleEffect f d = Inr (lifecycle_of f d)"
proof (cases "gtf_taskLifecycle f")
  case None
  then show ?thesis by (simp add: taskLifecycleEffect_def lifecycle_of_def)
next
  case (Some l)
  with assms have l: "wf_GateTaskLifecycle l" by (simp add: wf_GateTransitionFacts_def)
  then have t: "is_text (gtl_taskId l)" by (simp add: wf_GateTaskLifecycle_def)
  have reset: "[gtl_implStepId l, gtl_reviewStepId l, gtl_triageStepId l, gtl_repairStepId l, gtl_gateStepId l] =
      map (task_leaf (gtl_taskId l)) TASK_STEP_ROLES"
    and impl: "gtl_implStepId l = task_leaf (gtl_taskId l) ''impl''"
    using l by (simp_all add: wf_GateTaskLifecycle_def TASK_STEP_ROLES_def)
  show ?thesis
    unfolding taskLifecycleEffect_def lifecycle_of_def Some option.case reset
    unfolding impl
    by (simp add: successor_ok [OF l] advance_effect_ok repair_effect_ok t)
qed

subsection \<open>Decisions without a repair connector\<close>

definition decided :: "GateTransitionFacts \<Rightarrow> gate_disposition \<Rightarrow> gate_options \<Rightarrow> GateStepUpdate list \<Rightarrow>
    PlanGateRepairConnector option \<Rightarrow> GateTransitionDecision \<Rightarrow> bool" where
  "decided f d opts us connector D \<longleftrightarrow> gtd_facts D = f \<and> gtd_disposition D = d \<and> gtd_advance D = go_advance opts
     \<and> gup_updates (gtd_plan D) = us \<and> gup_taskLifecycle (gtd_plan D) = lifecycle_of f d
     \<and> gup_repairConnector (gtd_plan D) = connector \<and> gup_recoveryEffect (gtd_plan D) = go_recoveryEffect opts
     \<and> gup_nonblockingHandoff (gtd_plan D) = go_handoff opts \<and> gup_retryMetric (gtd_plan D) = go_retryMetric opts
     \<and> gup_phaseDefinition (gtd_plan D) = phase_definition (gtf_phase f)
     \<and> gac_operation (gup_identity (gtd_plan D)) = gd_operation d
     \<and> gac_factsFingerprint (gup_identity (gtd_plan D)) = sha256_hex (the (stableGateJson (GateTransitionFacts_toJSON f)))"

lemma facts_texts:
  assumes "wf_GateTransitionFacts f"
  shows "gtf_phase f \<in> set GATE_PHASES" "is_text (gpo_runId (gtf_producer f))" "is_text (gpo_specId (gtf_producer f))"
    "pred_option is_text (gtb_taskId (gtf_target f))" "is_text (gtb_stepId (gtf_target f))"
    "is_text (gcp_fingerprint (gtf_catalogPublication f))"
  using assms
  by (simp_all add: wf_GateTransitionFacts_def wf_GateProducerOwnership_def wf_GateTargetBinding_def wf_GateCatalogPublication_def)

lemma gateDecision_exists:
  assumes f: "wf_GateTransitionFacts f" and us: "plan_updates f opts = Inr us"
    and c: "plan_connector f d (lifecycle_of f d) = Inr connector"
    and adv: "go_advance opts = None \<or> go_advance opts = Some GateAdvance"
  shows "\<exists>D. gateDecision f d opts = Inr D \<and> decided f d opts us connector D"
proof -
  obtain fo where fo: "GateTransitionFacts_toJSON f = JObj fo" by (simp add: GateTransitionFacts_toJSON_def)
  note texts = facts_texts [OF f]
  obtain sfp where sfp: "fingerprint (selection_json d (phase_definition (gtf_phase f)) us (lifecycle_of f d) connector opts) = Inr sfp"
    "is_text sfp"
    by (simp add: selection_json_def fingerprint_object)
  obtain i where i: "new_GateActionIdentity (gpo_runId (gtf_producer f)) (gpo_specId (gtf_producer f)) (gtb_taskId (gtf_target f))
      (gtb_stepId (gtf_target f)) (gtf_currentAttempt f) (gcp_fingerprint (gtf_catalogPublication f))
      (sha256_hex (the (stableGateJson (JObj fo)))) sfp (gd_operation d) = Inr i"
    "gac_operation i = gd_operation d" "gac_factsFingerprint i = sha256_hex (the (stableGateJson (JObj fo)))"
    by (simp add: new_GateActionIdentity_def texts sfp)
  have ff: "fingerprint (GateTransitionFacts_toJSON f) = Inr (sha256_hex (the (stableGateJson (JObj fo))))"
    by (simp add: fo fingerprint_object)
  let ?P = "\<lparr>gup_identity = i, gup_phaseDefinition = phase_definition (gtf_phase f), gup_updates = us,
    gup_taskLifecycle = lifecycle_of f d, gup_repairConnector = connector, gup_recoveryEffect = go_recoveryEffect opts,
    gup_nonblockingHandoff = go_handoff opts, gup_retryMetric = go_retryMetric opts\<rparr>"
  have "gatePlan f d opts = Inr ?P"
    by (simp add: gatePlan_def texts us c f sfp ff i del: bindE_eq_Inr stableGateJson.simps)
  moreover have "new_GateTransitionDecision f d (go_advance opts) ?P =
      Inr \<lparr>gtd_facts = f, gtd_disposition = d, gtd_advance = go_advance opts, gtd_plan = ?P\<rparr>"
    using adv by (elim disjE) (simp_all add: new_GateTransitionDecision_def i)
  ultimately have "gateDecision f d opts =
      Inr \<lparr>gtd_facts = f, gtd_disposition = d, gtd_advance = go_advance opts, gtd_plan = ?P\<rparr>"
    by (simp add: gateDecision_def del: bindE_eq_Inr)
  then show ?thesis by (intro exI conjI) (assumption, simp add: decided_def i fo del: stableGateJson.simps)
qed

lemma gateDecision_connector_fails:
  assumes f: "wf_GateTransitionFacts f" and us: "plan_updates f opts = Inr us"
    and c: "plan_connector f d (lifecycle_of f d) = Inl e"
  shows "gateDecision f d opts = Inl e"
  using facts_texts [OF f] by (simp add: gateDecision_def gatePlan_def us c f)

lemma decide_exists:
  assumes "wf_GateTransitionFacts f" "plan_updates f opts = Inr us" "gd_operation d \<noteq> ''repair''"
    and "pred_option is_text (gd_reason d)" "go_advance opts = None \<or> go_advance opts = Some GateAdvance"
  shows "\<exists>D. decide f d opts = Inr D \<and> decided f d opts us None D"
  using gateDecision_exists [OF assms(1,2) _ assms(5), of d None] assms(3,4)
  by (simp add: decide_def new_GateDisposition_ok plan_connector_def)

definition own_update :: "GateTransitionFacts \<Rightarrow> string \<Rightarrow> GateStepUpdate" where
  "own_update f status = \<lparr>gsu_stepId = gtb_stepId (gtf_target f), gsu_status = status\<rparr>"

lemma plan_updates_own:
  "wf_GateTransitionFacts f \<Longrightarrow> go_updates opts = None \<Longrightarrow> go_status opts \<in> {''in_progress'', ''done''} \<Longrightarrow>
   plan_updates f opts = Inr [own_update f (go_status opts)]"
  by (simp add: plan_updates_def new_GateStepUpdate_def own_update_def facts_texts(5) del: bindE_eq_Inr)
    (elim disjE; simp)

lemma plan_updates_none: "go_updates opts = Some us \<Longrightarrow> plan_updates f opts = Inr us"
  by (simp add: plan_updates_def)

lemma defaults_sel [simp]:
  "go_advance defaults = None" "go_status defaults = ''in_progress''" "go_updates defaults = None"
  "go_recoveryEffect defaults = None" "go_handoff defaults = None" "go_retryMetric defaults = None"
  by (simp_all add: defaults_def)

subsection \<open>Repair connectors\<close>

text \<open>Which Gates have a repair route of their own phase: the draft and the spec Gate, and the Gate of a
  Task whose id is not shadowed by a flow Gate and leaves room for the longest leaf name.\<close>

definition repairable_target :: "GateTransitionFacts \<Rightarrow> bool" where
  "repairable_target f \<longleftrightarrow>
     gtf_phase f = ''draft'' \<and> gtb_stepId (gtf_target f) = ''draft-gate''
     \<or> gtf_phase f = ''spec'' \<and> gtb_stepId (gtf_target f) = ''spec-gate''
     \<or> gtf_phase f = ''task-impl'' \<and> (\<exists>t. gtb_taskId (gtf_target f) = Some t \<and> t \<notin> {''impl'', ''draft'', ''spec''} \<and> length t \<le> 93)"

definition repair_evidence :: "GateTransitionFacts \<Rightarrow> bool" where
  "repair_evidence f \<longleftrightarrow> gre_kind (gtf_recoveryEvidence f) = ''repair'' \<or> gtf_phase f = ''draft''"

definition connector_of :: "GateTransitionFacts \<Rightarrow> PlanGateRepairRoute \<Rightarrow> PlanGateRepairConnector" where
  "connector_of f r = \<lparr>prc_phase = pgr_phase r, prc_sourceGateStepId = pgr_gateStepId r,
     prc_sourceAttempt = gtf_currentAttempt f, prc_resultLogicalKey = planGateRepairResultLogicalKey r,
     prc_resultArtifactId = gcp_artifactId (gtf_catalogPublication f),
     prc_catalogFingerprint = gcp_fingerprint (gtf_catalogPublication f),
     prc_targetStepId = pgr_targetStepId r, prc_resetStepIds = pgr_resetStepIds r,
     prc_taskLifecycle = lifecycle_of f GateRepair\<rparr>"

definition repair_route :: "GateTransitionFacts \<Rightarrow> PlanGateRepairRoute" where
  "repair_route f = (if gtf_scope f = ''task'' then task_route (the (gtb_taskId (gtf_target f)))
     else the (planGateRepairRouteForPhase (gtf_phase f)))"

lemma new_PlanGateRepairRoute_phase:
  assumes "new_PlanGateRepairRoute (JObj ((''phase'', JStr ''task-impl'') # fs)) = Inr r"
  shows "pgr_phase r = ''task-impl''"
proof (cases "fld fs ''resetStepIds''")
  case (JArr vs)
  then show ?thesis using assms
    by (cases vs; cases "fld_or fs ''skippableSourceStepIds'' (JArr [])")
      (auto simp: new_PlanGateRepairRoute_def split: if_splits)
qed (use assms in \<open>simp_all add: new_PlanGateRepairRoute_def\<close>)

lemma route_for_gate_cases:
  assumes "planGateRepairRouteForGateStep s = Inr (Some r)"
  shows "r \<in> set REPAIR_ROUTES \<and> pgr_gateStepId r = s \<or> pgr_phase r = ''task-impl''"
proof -
  from assms obtain t where "route_or_task (find (\<lambda>r. pgr_gateStepId r = s) REPAIR_ROUTES) t = Inr (Some r)"
    by (auto simp: planGateRepairRouteForGateStep_def)
  then consider "find (\<lambda>r. pgr_gateStepId r = s) REPAIR_ROUTES = Some r" | u where "taskRoute u = Inr r"
    by (auto simp: route_or_task_def split: option.splits)
  then show ?thesis
    by cases (auto simp: find_Some_iff taskRoute_def intro: new_PlanGateRepairRoute_phase)
qed

lemma connector_needs_route:
  assumes "new_PlanGateRepairConnector f route e = Inr c"
  obtains r where "route = Some r" "pgr_phase r = gtf_phase f" "pgr_gateStepId r = gtb_stepId (gtf_target f)"
  using assms by (auto simp: new_PlanGateRepairConnector_def Let_def split: option.splits if_splits)

lemma flow_connector:
  assumes "planGateRepairRouteForGateStep (gtb_stepId (gtf_target f)) = Inr (Some r)" "repair_evidence f"
    "pgr_phase r = gtf_phase f" "pgr_gateStepId r = gtb_stepId (gtf_target f)" "gtf_scope f \<noteq> ''task''"
    "gtf_taskLifecycle f = None"
  shows "plan_connector f GateRepair (lifecycle_of f GateRepair) = Inr (Some (connector_of f r))"
proof -
  have e: "\<not> (gre_kind (gtf_recoveryEvidence f) \<noteq> ''repair'' \<and> gtf_phase f \<noteq> ''draft'')"
    using assms(2) by (auto simp: repair_evidence_def)
  show ?thesis using assms(1,3-6) e
    unfolding plan_connector_def new_PlanGateRepairConnector_def Let_def
    by (simp add: lifecycle_of_def connector_lifecycle_mismatch_def connector_of_def del: bindE_eq_Inr de_Morgan_conj)
qed

lemma task_connector:
  assumes route: "planGateRepairRouteForGateStep (gtb_stepId (gtf_target f)) = Inr (Some (task_route t))"
    and ev: "repair_evidence f" and ph: "gtf_phase f = ''task-impl''" "gtf_scope f = ''task''"
    and step: "gtb_stepId (gtf_target f) = task_leaf t ''gate''"
    and l: "gtf_taskLifecycle f = Some l" "gtl_taskId l = t"
  shows "plan_connector f GateRepair (lifecycle_of f GateRepair) = Inr (Some (connector_of f (task_route t)))"
proof -
  have e: "gre_kind (gtf_recoveryEvidence f) = ''repair''" using ev ph by (simp add: repair_evidence_def)
  have m: "\<not> connector_lifecycle_mismatch (task_route t) (lifecycle_of f GateRepair)"
    by (simp add: connector_lifecycle_mismatch_def lifecycle_of_def l task_route_def del: stableGateJson.simps)
  have lf: "lifecycle_of f GateRepair \<noteq> None" by (simp add: lifecycle_of_def l)
  have r: "pgr_phase (task_route t) = ''task-impl''" "pgr_gateStepId (task_route t) = task_leaf t ''gate''"
    by (simp_all add: task_route_def)
  show ?thesis
    unfolding plan_connector_def new_PlanGateRepairConnector_def Let_def
    using e m lf r ph step route
    by (simp add: connector_of_def del: bindE_eq_Inr not_None_eq)
qed

end
