(* ===== verification/Gate_Policy.thy ===== *)
theory Gate_Policy
  imports Gate_Plan
begin

section \<open>The Gate policy\<close>

text \<open>
  The policy that the resolver implements, as a table over the facts, and the theorem that the
  resolver returns exactly the decision of the table, or throws in exactly two situations.  The
  safety properties of a Gate decision follow from it.
\<close>

subsection \<open>Intact facts\<close>

lemma integrity_cases:
  assumes "wf_GateTransitionFacts f"
  shows "intact f \<Longrightarrow> integrityFailure f = Inr None"
    and "\<not> intact f \<Longrightarrow> \<exists>r. integrityFailure f = Inr (Some r)"
  using integrityFailure_total [OF assms] by auto

lemma task_iff: "intact f \<Longrightarrow> gtf_scope f = ''task'' \<longleftrightarrow> gtf_phase f = ''task-impl''"
  unfolding intact_def by blast

lemma flow_target:
  assumes "wf_GateTransitionFacts f" "intact f" "gtf_scope f \<noteq> ''task''"
  shows "gtb_taskId (gtf_target f) = None" "gtf_taskLifecycle f = None"
proof -
  have p: "wf_GateProducerOwnership (gtf_producer f)" "exactly_task (gtf_scope f) (gtf_taskLifecycle f)"
    using assms(1) unfolding wf_GateTransitionFacts_def by blast+
  have q: "gpo_taskId (gtf_producer f) = gtb_taskId (gtf_target f)" "gpo_scope (gtf_producer f) = gtf_scope f"
    using assms(2) unfolding intact_def by blast+
  show "gtb_taskId (gtf_target f) = None" using p(1) q assms(3) by (simp add: wf_GateProducerOwnership_def)
  show "gtf_taskLifecycle f = None" using p(2) assms(3) by (simp add: exactly_task_def)
qed

lemma task_target:
  assumes "wf_GateTransitionFacts f" "intact f" "gtf_scope f = ''task''"
  obtains t l where "gtb_taskId (gtf_target f) = Some t" "is_text t" "gtb_stepId (gtf_target f) = task_leaf t ''gate''"
    "gtf_taskLifecycle f = Some l" "gtl_taskId l = t" "wf_GateTaskLifecycle l"
proof -
  have "exactly_task (gtf_scope f) (gtf_taskLifecycle f)" "pred_option wf_GateTaskLifecycle (gtf_taskLifecycle f)"
    using assms(1) unfolding wf_GateTransitionFacts_def by blast+
  then obtain l where l: "gtf_taskLifecycle f = Some l" "wf_GateTaskLifecycle l"
    using assms(3) by (auto simp: exactly_task_def)
  have t: "gtb_taskId (gtf_target f) = Some (gtl_taskId l)" "gtb_stepId (gtf_target f) = gtl_gateStepId l"
    using assms(2) l(1) unfolding intact_def by blast+
  show thesis using that [OF t(1) _ _ l(1) refl l(2)] t(2) l(2) by (simp add: wf_GateTaskLifecycle_def)
qed

subsection \<open>Repair decisions\<close>

lemma decide_repair:
  assumes f: "wf_GateTransitionFacts f" and c: "plan_connector f GateRepair (lifecycle_of f GateRepair) = Inr connector"
  shows "\<exists>D. decide f GateRepair defaults = Inr D \<and> decided f GateRepair defaults [own_update f ''in_progress''] connector D"
  using gateDecision_exists [OF f _ c, of defaults "[own_update f ''in_progress'']"]
    plan_updates_own [OF f, of defaults]
  by (simp add: decide_def new_GateDisposition_ok)

lemma decide_repair_fails:
  assumes f: "wf_GateTransitionFacts f" and c: "plan_connector f GateRepair (lifecycle_of f GateRepair) = Inl e"
  shows "decide f GateRepair defaults = Inl e"
  using gateDecision_connector_fails [OF f _ c, of defaults "[own_update f ''in_progress'']"]
    plan_updates_own [OF f, of defaults]
  by (simp add: decide_def new_GateDisposition_ok)

lemma repair_exists:
  assumes f: "wf_GateTransitionFacts f" "intact f" "repair_evidence f" "repairable_target f"
  shows "\<exists>D. decide f GateRepair defaults = Inr D \<and>
    decided f GateRepair defaults [own_update f ''in_progress''] (Some (connector_of f (repair_route f))) D"
proof (rule decide_repair [OF f(1)], cases "gtf_scope f = ''task''")
  case True
  then have ph: "gtf_phase f = ''task-impl''" using task_iff [OF f(2)] by simp
  obtain t l where t: "gtb_taskId (gtf_target f) = Some t" "is_text t" "gtb_stepId (gtf_target f) = task_leaf t ''gate''"
    "gtf_taskLifecycle f = Some l" "gtl_taskId l = t" using task_target [OF f(1,2) True] by blast
  have u: "t \<notin> {''impl'', ''draft'', ''spec''}" "length t \<le> 93" using f(4) ph t(1) by (auto simp: repairable_target_def)
  have "planGateRepairRouteForGateStep (gtb_stepId (gtf_target f)) = Inr (Some (task_route t))"
    using route_for_task_gate [OF t(2) u(1)] taskRoute_short [OF t(2) u(2)] t(3) by simp
  from task_connector [OF this f(3) ph True t(3-5)]
  show "plan_connector f GateRepair (lifecycle_of f GateRepair) = Inr (Some (connector_of f (repair_route f)))"
    using True t(1) by (simp add: repair_route_def)
next
  case False
  then have "gtf_phase f \<noteq> ''task-impl''" using task_iff [OF f(2)] by simp
  then consider "gtf_phase f = ''draft''" "gtb_stepId (gtf_target f) = ''draft-gate''"
    | "gtf_phase f = ''spec''" "gtb_stepId (gtf_target f) = ''spec-gate''"
    using f(4) by (auto simp: repairable_target_def)
  then show "plan_connector f GateRepair (lifecycle_of f GateRepair) = Inr (Some (connector_of f (repair_route f)))"
    using flow_connector [OF _ f(3) _ _ False flow_target(2) [OF f(1,2) False], of "repair_route f"] False
    by cases (simp_all add: repair_route_def route_for_plan_gates planGateRepairRouteForPhase_def repair_routes_load)
qed

lemma repair_missing:
  assumes f: "wf_GateTransitionFacts f" "intact f" "\<not> repairable_target f"
  shows "\<exists>e. decide f GateRepair defaults = Inl e"
proof (cases "plan_connector f GateRepair (lifecycle_of f GateRepair)")
  case (Inl e)
  then show ?thesis using decide_repair_fails [OF f(1)] by blast
next
  case (Inr c)
  then obtain route c' where route: "planGateRepairRouteForGateStep (gtb_stepId (gtf_target f)) = Inr route"
    "new_PlanGateRepairConnector f route (lifecycle_of f GateRepair) = Inr c'"
    by (auto simp: plan_connector_def)
  then obtain r where r: "route = Some r" "pgr_phase r = gtf_phase f" "pgr_gateStepId r = gtb_stepId (gtf_target f)"
    by (elim connector_needs_route)
  have "gtf_phase f \<noteq> ''task-impl''"
  proof
    assume ph: "gtf_phase f = ''task-impl''"
    then have "gtf_scope f = ''task''" using task_iff [OF f(2)] by simp
    then obtain t l where t: "gtb_taskId (gtf_target f) = Some t" "is_text t"
      "gtb_stepId (gtf_target f) = task_leaf t ''gate''" using task_target [OF f(1,2)] by blast
    then consider "t = ''impl''" | "t = ''draft''" | "t = ''spec''" | "t \<notin> {''impl'', ''draft'', ''spec''}" "length t > 93"
      using f(3) ph unfolding repairable_target_def not_le by (auto simp: not_le)
    then show False
    proof cases
      case 1 then show False using route r t(3) route_for_plan_gates(3) by (simp add: task_leaf_def)
    next
      case 2 then show False using route r t(3) ph route_for_plan_gates(1)
        by (auto simp: task_leaf_def planGateRepairRouteForPhase_def repair_routes_load)
    next
      case 3 then show False using route r t(3) ph route_for_plan_gates(2)
        by (auto simp: task_leaf_def planGateRepairRouteForPhase_def repair_routes_load)
    next
      case 4
      then show False using route_for_task_gate [OF t(2) 4(1)] taskRoute_long [OF t(2) 4(2)] route(1) t(3) by auto
    qed
  qed
  with route_for_gate_cases [of "gtb_stepId (gtf_target f)" r] route(1) r
  have "r \<in> set REPAIR_ROUTES" by auto
  then have "repairable_target f" using r(2,3) by (auto simp: repair_routes_load repairable_target_def)
  with f(3) show ?thesis by simp
qed

subsection \<open>Advisory continuation\<close>

lemma gate_route_rows:
  "nonblockingRouteFor ''draft-gate'' = None"
  "nonblockingRouteFor ''spec-gate'' = Some \<lparr>nbr_sourceStep = ''spec-gate'', nbr_artifact = ''spec-gate-result.json'',
     nbr_kind = ''gate'', nbr_phase = Some ''spec'', nbr_targetStep = Some ''approval'',
     nbr_skippedSteps = [''spec-gate-repair''], nbr_taskScoped = False\<rparr>"
  "nonblockingRouteFor ''task-gate'' = Some \<lparr>nbr_sourceStep = ''task-gate'', nbr_artifact = ''task-impl-gate-result.json'',
     nbr_kind = ''gate'', nbr_phase = Some ''task-impl'', nbr_targetStep = None, nbr_skippedSteps = [], nbr_taskScoped = True\<rparr>"
  "nonblockingRouteFor ''impl-gate'' = Some \<lparr>nbr_sourceStep = ''impl-gate'', nbr_artifact = ''impl-gate-result.json'',
     nbr_kind = ''gate'', nbr_phase = Some ''integration'', nbr_targetStep = Some ''retro'', nbr_skippedSteps = [],
     nbr_taskScoped = False\<rparr>"
  by code_simp+

text \<open>Where an advisory continuation of a Gate leads.\<close>

definition handoff_of :: "GateTransitionFacts \<Rightarrow> GateNonblockingHandoff" where
  "handoff_of f =
     (if gtf_scope f = ''task'' then \<lparr>gnh_sourceStepId = ''task-gate'',
        gnh_targetStepId = successor (the (gtf_taskLifecycle f)), gnh_taskId = gtb_taskId (gtf_target f)\<rparr>
      else if gtf_phase f = ''integration''
      then \<lparr>gnh_sourceStepId = ''impl-gate'', gnh_targetStepId = ''retro'', gnh_taskId = None\<rparr>
      else \<lparr>gnh_sourceStepId = ''spec-gate'', gnh_targetStepId = ''approval'', gnh_taskId = None\<rparr>)"

lemma step_texts [simp]:
  "is_text ''task-gate''" "is_text ''impl-gate''" "is_text ''spec-gate''" "is_text ''retro''" "is_text ''approval''"
  "is_text ''spec-gate-repair''" "is_text ''Strict Gate recovery is exhausted.''"
  by (simp_all add: is_text_def js_trim_def js_ws_def)

lemma with_nonblocking_json:
  "with_nonblocking (GateTransitionFacts_toJSON f) True = GateTransitionFacts_toJSON (f\<lparr>gtf_nonblocking := True\<rparr>)"
  by (simp add: with_nonblocking_def GateTransitionFacts_toJSON_def split: option.splits)

lemma enabled_wf: "wf_GateTransitionFacts f \<Longrightarrow> wf_GateTransitionFacts (f\<lparr>gtf_nonblocking := b\<rparr>)"
  by (simp add: wf_GateTransitionFacts_def)

lemma enabled_facts_ok:
  assumes "wf_GateTransitionFacts f"
  shows "enabled_facts f = Inr (f\<lparr>gtf_nonblocking := True\<rparr>)"
proof (cases "gtf_nonblocking f")
  case True
  then have "f\<lparr>gtf_nonblocking := True\<rparr> = f" by (cases f) simp
  with True show ?thesis by (simp add: enabled_facts_def)
next
  case False
  obtain ob where ob: "GateTransitionFacts_toJSON (f\<lparr>gtf_nonblocking := True\<rparr>) = JObj ob"
    by (simp add: GateTransitionFacts_toJSON_def)
  have "new_GateTransitionFacts (JObj ob) = Inr (f\<lparr>gtf_nonblocking := True\<rparr>)"
    using gate_facts.mk_js [OF enabled_wf [OF assms, of True]] by (simp add: ob)
  with False show ?thesis by (simp add: enabled_facts_def with_nonblocking_json ob)
qed

text \<open>The eligibility of a strict stop: it exists for every Gate but the draft Gate, offers
  continuation, and carries the handoff of its Gate.\<close>

definition offers :: "'a NonblockingEligibility_scheme \<Rightarrow> string \<Rightarrow> string \<Rightarrow> string \<Rightarrow> string list \<Rightarrow> bool" where
  "offers e source kind target skipped \<longleftrightarrow> nel_sourceStep e = source \<and> nel_resultKind e = kind
     \<and> nel_continueTargetStepId e = target \<and> nel_skippedStepIds e = skipped \<and> nel_repairTargetStepId e = source
     \<and> nel_allowedActions e = allowed_actions kind True"

lemma eligibility_exists:
  assumes route: "nonblockingRouteFor s = Some r" "is_text s" "list_all is_text (nbr_skippedSteps r)" "distinct (nbr_skippedSteps r)"
    and k: "k \<in> set RESULT_KINDS" and b: "is_text b" and t: "is_text t"
  shows "\<exists>e. new_NonblockingEligibility s (JStr k) b (JObj ob)
    (eligibility_defaults\<lparr>eo_continueTarget := Some t, eo_gateDecision := g\<rparr>) = Inr e
    \<and> offers e s k t (nbr_skippedSteps r) \<and> nel_gateDecision e = g"
proof -
  have d: "\<exists>h. nonblockingSelectionDigest (JObj ob) = Inr h" by (simp add: nonblockingSelectionDigest_def)
  have m: "mapE (requireString field) (nbr_skippedSteps r) = Inr (nbr_skippedSteps r)" for field
    using route(3) mapE_Inr_map [of "nbr_skippedSteps r" "requireString field" "\<lambda>x. x"] by (simp add: list_all_iff)
  obtain h where h: "nonblockingSelectionDigest (JObj ob) = Inr h" using d by blast
  have l: "lit_of RESULT_KINDS err (JStr k) = Inr k" for err using k by simp
  show ?thesis
    by (simp add: new_NonblockingEligibility_def route m h l b t eligibility_defaults_def first_some_def string_or_null_def
        requireOptionalStepList_def route(4) offers_def del: bindE_eq_Inr lit_of_eq_Inr)
qed

lemma kind_known: "failure_result_kind x \<in> set RESULT_KINDS"
  by (simp add: failure_result_kind_def RESULT_KINDS_def)

lemma blocker_text: "pred_option is_text r \<Longrightarrow> is_text (reason_or r ''Strict Gate recovery is exhausted.'')"
  by (cases r) (auto simp: reason_or_def)


lemma handoff_exists:
  assumes f: "wf_GateTransitionFacts f" "intact f" "gtf_phase f \<noteq> ''draft''"
  obtains r where "gateNonblockingSourceStep f = Some (gnh_sourceStepId (handoff_of f))"
    "nonblockingRouteFor (gnh_sourceStepId (handoff_of f)) = Some r" "nbr_kind r = ''gate''"
    "is_text (gnh_sourceStepId (handoff_of f))" "is_text (gnh_targetStepId (handoff_of f))"
    "list_all is_text (nbr_skippedSteps r)" "distinct (nbr_skippedSteps r)"
    "handoff_target f r = Inr (Some (gnh_targetStepId (handoff_of f)))"
    "new_GateNonblockingHandoff (gnh_sourceStepId (handoff_of f)) (gnh_targetStepId (handoff_of f))
       (gtb_taskId (gtf_target f)) = Inr (handoff_of f)"
proof (cases "gtf_scope f = ''task''")
  case True
  obtain t l where t: "gtb_taskId (gtf_target f) = Some t" "is_text t" "gtf_taskLifecycle f = Some l" "wf_GateTaskLifecycle l"
    using task_target [OF f(1,2) True] by blast
  note s = successor_ok [OF t(4)]
  show thesis
    by (rule that [of "the (nonblockingRouteFor ''task-gate'')"]) (simp_all add: True t s handoff_of_def gate_route_rows gateNonblockingSourceStep_def handoff_target_def
        new_GateNonblockingHandoff_def)
next
  case False
  note nt = flow_target [OF f(1,2) False]
  have ph: "gtf_phase f \<in> {''integration'', ''spec'', ''task-spec''}"
    using f(3) False task_iff [OF f(2)] facts_texts(1) [OF f(1)] by (auto simp: GATE_PHASES_def)
  show thesis
  proof (cases "gtf_phase f = ''integration''")
    case True
    show ?thesis
      by (rule that [of "the (nonblockingRouteFor ''impl-gate'')"]) (simp_all add: False True nt handoff_of_def gate_route_rows gateNonblockingSourceStep_def
          handoff_target_def new_GateNonblockingHandoff_def)
  next
    case no: False
    with ph have "gtf_phase f = ''spec'' \<or> gtf_phase f = ''task-spec''" by blast
    with f(3) show ?thesis
      by (intro that [of "the (nonblockingRouteFor ''spec-gate'')"]) (simp_all add: False no nt handoff_of_def gate_route_rows gateNonblockingSourceStep_def
          handoff_target_def new_GateNonblockingHandoff_def)
  qed
qed

definition strict_stop_disposition :: "gate_disposition \<Rightarrow> bool" where
  "strict_stop_disposition d \<longleftrightarrow> gd_operation d \<in> set STRICT_STOPS \<and> d \<noteq> DraftGateCarryForward \<and> pred_option is_text (gd_reason d)"

lemma gate_eligibility_exists:
  assumes f: "wf_GateTransitionFacts f" "intact f" "gtf_phase f \<noteq> ''draft''" "gtf_result f = ''fail''"
    and D: "gtd_facts D = f" "strict_stop_disposition (gtd_disposition D)"
  shows "\<exists>e. gateNonblockingEligibilityForDecision D = Inr (Some e) \<and> gne_handoff e = handoff_of f
    \<and> gne_strictDisposition e = gtd_disposition D
    \<and> offers e (gnh_sourceStepId (handoff_of f)) (failure_result_kind (gtf_failure f)) (gnh_targetStepId (handoff_of f))
        (nbr_skippedSteps (the (nonblockingRouteFor (gnh_sourceStepId (handoff_of f)))))
    \<and> (\<exists>S. nel_gateDecision e = Some S \<and> gtd_disposition S = GateNonblocking
        \<and> gup_nonblockingHandoff (gtd_plan S) = Some (handoff_of f) \<and> gtd_facts S = f\<lparr>gtf_nonblocking := True\<rparr>)"
proof -
  let ?h = "handoff_of f" let ?F = "f\<lparr>gtf_nonblocking := True\<rparr>"
  obtain r where r: "gateNonblockingSourceStep f = Some (gnh_sourceStepId ?h)"
    "nonblockingRouteFor (gnh_sourceStepId ?h) = Some r" "nbr_kind r = ''gate''"
    "is_text (gnh_sourceStepId ?h)" "is_text (gnh_targetStepId ?h)"
    "list_all is_text (nbr_skippedSteps r)" "distinct (nbr_skippedSteps r)"
    "handoff_target f r = Inr (Some (gnh_targetStepId ?h))"
    "new_GateNonblockingHandoff (gnh_sourceStepId ?h) (gnh_targetStepId ?h) (gtb_taskId (gtf_target f)) = Inr ?h"
    using handoff_exists [OF f(1-3)] by blast
  have F: "wf_GateTransitionFacts ?F" using enabled_wf [OF f(1)] .
  let ?o = "defaults\<lparr>go_handoff := Some ?h\<rparr>"
  obtain S where S: "decide ?F GateNonblocking ?o = Inr S" "decided ?F GateNonblocking ?o [own_update ?F ''in_progress''] None S"
    using decide_exists [OF F, of ?o "[own_update ?F ''in_progress'']" GateNonblocking] plan_updates_own [OF F, of ?o] by auto
  have op: "gd_operation (gtd_disposition S) = ''nonblocking''" using S(2) by (simp add: decided_def)
  obtain ob where ob: "selection_identity D ?h (failure_result_kind (gtf_failure f)) = Inr (JObj ob)"
    using kind_known by (simp add: selection_identity_def)
  have reason: "pred_option is_text (gd_reason (gtd_disposition D))" and stop: "gd_operation (gtd_disposition D) \<in> set STRICT_STOPS"
    and carry: "gtd_disposition D \<noteq> DraftGateCarryForward"
    using D(2) by (simp_all add: strict_stop_disposition_def)
  obtain e where e: "new_NonblockingEligibility (gnh_sourceStepId ?h) (JStr (failure_result_kind (gtf_failure f)))
      (reason_or (gd_reason (gtd_disposition D)) ''Strict Gate recovery is exhausted.'') (JObj ob)
      (eligibility_defaults\<lparr>eo_continueTarget := Some (gnh_targetStepId ?h), eo_gateDecision := Some S\<rparr>) = Inr e"
    and off: "offers e (gnh_sourceStepId ?h) (failure_result_kind (gtf_failure f)) (gnh_targetStepId ?h) (nbr_skippedSteps r)"
      "nel_gateDecision e = Some S"
    using eligibility_exists [OF r(2) r(4) r(6) r(7) kind_known blocker_text [OF reason] r(5)] by blast
  let ?E = "NonblockingEligibility.extend e \<lparr>gne_strictDisposition = gtd_disposition D, gne_handoff = ?h\<rparr>"
  have "new_GateNonblockingEligibility D S (failure_result_kind (gtf_failure f)) ?h = Inr ?E"
    using op stop by (simp add: new_GateNonblockingEligibility_def ob e del: bindE_eq_Inr)
  then have "gateNonblockingEligibilityForDecision D = Inr (Some ?E)"
    using stop carry r enabled_facts_ok [OF f(1)] S(1) integrity_cases(1) [OF f(1,2)] f(4) D(1)
    by (simp add: gateNonblockingEligibilityForDecision_def del: bindE_eq_Inr)
  moreover have "gtd_disposition S = GateNonblocking" "gup_nonblockingHandoff (gtd_plan S) = Some ?h" "gtd_facts S = ?F"
    using S(2) by (simp_all add: decided_def)
  ultimately show ?thesis using off r(2)
    by (intro exI [of _ ?E]) (simp add: NonblockingEligibility.defs offers_def)
qed

lemma draft_eligibility:
  assumes f: "wf_GateTransitionFacts f" "intact f" "gtf_phase f = ''draft''" "gtd_facts D = f"
  shows "gateNonblockingEligibilityForDecision D = Inr None"
proof -
  have "gtf_scope f \<noteq> ''task''" using f(3) task_iff [OF f(2)] by simp
  then show ?thesis using f(3,4) integrity_cases(1) [OF f(1,2)]
    by (simp add: gateNonblockingEligibilityForDecision_def gateNonblockingSourceStep_def gate_route_rows del: bindE_eq_Inr)
qed

subsection \<open>The table\<close>

definition advisory_active :: "GateTransitionFacts \<Rightarrow> bool" where
  "advisory_active f \<longleftrightarrow> gtf_nonblocking f \<and> gtf_phase f \<noteq> ''draft''"

definition advisory :: "GateTransitionFacts \<Rightarrow> gate_disposition \<Rightarrow> gate_disposition" where
  "advisory f d = (if advisory_active f then GateNonblocking else d)"

definition task_round_final :: "GateTransitionFacts \<Rightarrow> bool" where
  "task_round_final f \<longleftrightarrow> gtf_scope f = ''task'' \<and> budget_finalRound (gtf_taskBudget f)"

definition spec_exhausted :: "GateTransitionFacts \<Rightarrow> bool" where
  "spec_exhausted f \<longleftrightarrow> gtf_phase f = ''spec'' \<and> SPEC_GATE_MAXIMUM_CYCLE \<le> sgc_cycle (the (gtf_specCycle f))"

definition repair_receipt :: "GateTransitionFacts \<Rightarrow> bool" where
  "repair_receipt f \<longleftrightarrow> gre_kind (gtf_recoveryEvidence f) = ''repair''"

definition exhaustion_policy :: "GateTransitionFacts \<Rightarrow> gate_disposition" where
  "exhaustion_policy f =
     (if sameEvidence f then advisory f (GateBlocked ''same_gate_observation_without_changed_repair'')
      else if \<not> grm_exhausted (gtf_retry f) then GateRetry
      else if gtf_scope f = ''task'' \<and> \<not> task_round_final f then GateBlocked ''missing_plan_gate_repair_evidence''
      else advisory f GateDefer)"

definition semantic_policy :: "GateTransitionFacts \<Rightarrow> gate_disposition" where
  "semantic_policy f =
     (if spec_exhausted f then advisory f (GateBlocked (case spec_cycle_reason f of Inr r \<Rightarrow> r | Inl _ \<Rightarrow> []))
      else if gtf_phase f = ''draft''
      then (if sameEvidence f \<or> grm_exhausted (gtf_retry f) then DraftGateCarryForward else GateRepair)
      else if repair_receipt f then (if task_round_final f then advisory f GateDefer else GateRepair)
      else if task_round_final f \<and> allRecurring f then advisory f GateDefer
      else exhaustion_policy f)"

definition gate_policy :: "GateTransitionFacts \<Rightarrow> gate_disposition" where
  "gate_policy f =
     (if \<not> intact f then GateBlocked (case integrityFailure f of Inr (Some r) \<Rightarrow> r | _ \<Rightarrow> [])
      else if gtf_result f = ''pass'' then
        (if gtf_phase f = ''integration'' \<and> \<not> grr_allowsPass (the (gtf_reviewReadiness f))
         then GateBlocked ''unresolved_review_findings'' else GatePass)
      else if gtf_result f = ''recovered'' then GateRecovery
      else if failure_category (gtf_failure f) = Some ''tooling''
      then advisory f (GateExternalBlocked (reason_or (gfc_code (the (gtf_failure f))) ''tooling_failure''))
      else if failure_category (gtf_failure f) = Some ''local''
      then advisory f (GateBlocked (reason_or (gfc_code (the (gtf_failure f))) ''local_input_invalid''))
      else semantic_policy f)"

definition rewind_effect :: "GateTransitionFacts \<Rightarrow> GateRecoveryEffect option" where
  "rewind_effect f = (if gtf_phase f = ''integration'' then Some \<lparr>gve_operation = ''rewind-test-evidence'',
     gve_sourceStepId = ''impl-gate'', gve_targetStepId = ''test-execute''\<rparr> else None)"

definition policy_options :: "GateTransitionFacts \<Rightarrow> gate_disposition \<Rightarrow> gate_options" where
  "policy_options f d = (case d of
     GatePass \<Rightarrow> defaults\<lparr>go_advance := Some GateAdvance, go_status := ''done'',
       go_retryMetric := Some \<lparr>gme_operation = ''reset'', gme_phase = gtf_phase f\<rparr>\<rparr>
   | GateRetry \<Rightarrow> defaults\<lparr>go_retryMetric := Some \<lparr>gme_operation = ''increment'', gme_phase = gtf_phase f\<rparr>\<rparr>
   | GateRecovery \<Rightarrow> defaults\<lparr>go_updates := Some [], go_recoveryEffect := rewind_effect f\<rparr>
   | GateNonblocking \<Rightarrow> defaults\<lparr>go_handoff := Some (handoff_of f)\<rparr>
   | _ \<Rightarrow> defaults)"

definition policy_updates :: "GateTransitionFacts \<Rightarrow> gate_disposition \<Rightarrow> GateStepUpdate list" where
  "policy_updates f d = (case d of GateRecovery \<Rightarrow> [] | GatePass \<Rightarrow> [own_update f ''done''] | _ \<Rightarrow> [own_update f ''in_progress''])"

definition policy_connector :: "GateTransitionFacts \<Rightarrow> gate_disposition \<Rightarrow> PlanGateRepairConnector option" where
  "policy_connector f d = (if d = GateRepair then Some (connector_of f (repair_route f)) else None)"

text \<open>A decision that carries out disposition \<open>d\<close>, and the two situations without a decision.\<close>

definition carries_out :: "GateTransitionFacts \<Rightarrow> gate_disposition \<Rightarrow> GateTransitionDecision \<Rightarrow> bool" where
  "carries_out f d D \<longleftrightarrow> decided f d (policy_options f d) (policy_updates f d) (policy_connector f d) D"

definition stuck :: "GateTransitionFacts \<Rightarrow> bool" where
  "stuck f \<longleftrightarrow> gate_policy f = GateRepair \<and> \<not> repairable_target f
     \<or> gate_policy f = GateRecovery \<and> gtf_phase f = ''integration'' \<and> gtb_stepId (gtf_target f) \<noteq> ''impl-gate''"

definition outcome :: "GateTransitionFacts \<Rightarrow> gate_disposition \<Rightarrow> GateTransitionDecision res \<Rightarrow> bool" where
  "outcome f d R \<longleftrightarrow> (\<exists>D. R = Inr D \<and> carries_out f d D)"

subsection \<open>The resolver implements the table\<close>

lemma first_failure_text: "first_failure cs = Some r \<Longrightarrow> list_all (\<lambda>c. is_text (snd c)) cs \<Longrightarrow> is_text r"
  by (induction cs) (auto simp: first_failure_def split: if_splits)

lemma reason_text: "integrityFailure f = Inr (Some r) \<Longrightarrow> is_text r"
proof -
  assume "integrityFailure f = Inr (Some r)"
  then have "ownership_failure f = Some r \<or> r = ''task_step_identity_mismatch'' \<or> binding_failure f = Some r"
    by (auto simp: integrityFailure_def split: option.splits if_splits)
  then show "is_text r"
    unfolding ownership_failure_def binding_failure_def Let_def
  proof (elim disjE first_failure_text)
    assume "r = ''task_step_identity_mismatch''"
    then show ?thesis by (simp add: is_text_def js_trim_def js_ws_def)
  qed (simp_all add: is_text_def js_trim_def js_ws_def)
qed

lemma plain_outcome:
  assumes "wf_GateTransitionFacts f" "gd_operation d \<noteq> ''repair''" "pred_option is_text (gd_reason d)"
    and "plan_updates f (policy_options f d) = Inr (policy_updates f d)"
    and "go_advance (policy_options f d) = None \<or> go_advance (policy_options f d) = Some GateAdvance"
  shows "outcome f d (decide f d (policy_options f d))"
  using decide_exists [OF assms(1,4,2,3,5)] assms(2) unfolding outcome_def carries_out_def policy_connector_def
  by (cases "d = GateRepair") simp_all

lemma default_outcome:
  assumes "wf_GateTransitionFacts f" "d \<in> {GateDefer, DraftGateCarryForward} \<or> (\<exists>r. is_text r \<and> d \<in> {GateBlocked r, GateExternalBlocked r})"
  shows "outcome f d (decide f d defaults)"
proof -
  have o: "policy_options f d = defaults" "policy_updates f d = [own_update f ''in_progress'']"
    "gd_operation d \<noteq> ''repair''" "pred_option is_text (gd_reason d)"
    using assms(2) by (auto simp: policy_options_def policy_updates_def)
  show ?thesis using plain_outcome [OF assms(1) o(3,4)] plan_updates_own [OF assms(1), of defaults] by (simp add: o)
qed

lemma nonblocking_outcome:
  "wf_GateTransitionFacts f \<Longrightarrow> outcome f GateNonblocking (decide f GateNonblocking (defaults\<lparr>go_handoff := Some (handoff_of f)\<rparr>))"
  using plain_outcome [of f GateNonblocking] plan_updates_own [of f "defaults\<lparr>go_handoff := Some (handoff_of f)\<rparr>"]
  by (simp add: policy_options_def policy_updates_def)

definition stopping :: "gate_disposition \<Rightarrow> bool" where
  "stopping d \<longleftrightarrow> d = GateDefer \<or> (\<exists>r. is_text r \<and> d \<in> {GateBlocked r, GateExternalBlocked r})"

lemma stopping_strict: "stopping d \<Longrightarrow> strict_stop_disposition d"
  by (auto simp: stopping_def strict_stop_disposition_def STRICT_STOPS_def)

lemma strict_stop_outcome:
  assumes f: "wf_GateTransitionFacts f" "intact f" "gtf_result f = ''fail''" and d: "stopping d"
  shows "outcome f (advisory f d) (strict_stop f d)"
proof -
  have "outcome f d (decide f d defaults)" using default_outcome [OF f(1), of d] d by (auto simp: stopping_def)
  then obtain S where S: "decide f d defaults = Inr S" "carries_out f d S" by (auto simp: outcome_def)
  have fS: "gtd_facts S = f" "gtd_disposition S = d" using S(2) by (simp_all add: carries_out_def decided_def)
  show ?thesis
  proof (cases "gtf_nonblocking f")
    case False
    with S show ?thesis
      by (simp add: strict_stop_def selectGateNonblockingDecision_def advisory_def advisory_active_def outcome_def)
  next
    case nb: True
    show ?thesis
    proof (cases "gtf_phase f = ''draft''")
      case True
      then show ?thesis using S draft_eligibility [OF f(1,2) True fS(1)]
        by (simp add: strict_stop_def selectGateNonblockingDecision_def advisory_def advisory_active_def outcome_def)
    next
      case False
      obtain e where e: "gateNonblockingEligibilityForDecision S = Inr (Some e)" "gne_handoff e = handoff_of f"
        using gate_eligibility_exists [OF f(1,2) False f(3) fS(1)] stopping_strict [OF d] fS(2) by auto
      have "strict_stop f d = decide f GateNonblocking (defaults\<lparr>go_handoff := Some (handoff_of f)\<rparr>)"
        using nb S(1) e by (simp add: strict_stop_def selectGateNonblockingDecision_def del: bindE_eq_Inr)
      then show ?thesis using nb False nonblocking_outcome [OF f(1)] by (simp add: advisory_def advisory_active_def)
    qed
  qed
qed

text \<open>For well-formed facts the guards of the resolver read no missing value.\<close>

lemma budget_present:
  assumes "wf_GateTransitionFacts f" "gtf_scope f = ''task''"
  obtains b where "gtf_taskBudget f = Some b"
proof -
  have "exactly_task (gtf_scope f) (gtf_taskBudget f)" using assms(1) unfolding wf_GateTransitionFacts_def by blast
  then show thesis using assms(2) that by (auto simp: exactly_task_def)
qed

lemma task_guards:
  assumes "wf_GateTransitionFacts f"
  shows "task_final f = Inr (task_round_final f)"
    and "task_not_final f = Inr (gtf_scope f = ''task'' \<and> \<not> task_round_final f)"
    and "repair_admissible f = Inr (\<not> task_round_final f)"
  by (cases "gtf_scope f = ''task''"; use budget_present [OF assms] in
      \<open>force simp: task_final_def task_not_final_def repair_admissible_def task_round_final_def budget_finalRound_def andE_def\<close>)+

lemma cycle_guard:
  assumes "wf_GateTransitionFacts f"
  shows "spec_cycle_reached f = Inr (spec_exhausted f)"
    and "gtf_phase f = ''spec'' \<Longrightarrow> \<exists>r. spec_cycle_reason f = Inr r \<and> is_text r"
proof -
  have "spec_cycle_shape (gtf_phase f) (gtf_specCycle f)" using assms unfolding wf_GateTransitionFacts_def by blast
  then have c: "gtf_phase f = ''spec'' \<longleftrightarrow> gtf_specCycle f \<noteq> None" by (simp add: spec_cycle_shape_def)
  show "spec_cycle_reached f = Inr (spec_exhausted f)"
    using c by (auto simp: spec_cycle_reached_def spec_exhausted_def andE_def)
  assume "gtf_phase f = ''spec''"
  then obtain k where "gtf_specCycle f = Some k" using c by auto
  then have "spec_cycle_reason f = Inr (''Spec Gate cycle '' @ (nat_text (sgc_cycle k) @ '' reached maximum '' @
      nat_text SPEC_GATE_MAXIMUM_CYCLE) @ ''.'')"
    by (simp add: spec_cycle_reason_def)
  moreover have "is_text (''Spec Gate cycle '' @ x @ ''.'')" for x
    by (simp add: is_text_def js_trim_id js_ws_def)
  ultimately show "\<exists>r. spec_cycle_reason f = Inr r \<and> is_text r" by blast
qed

lemma readiness_guard:
  assumes "wf_GateTransitionFacts f"
  shows "unresolved_review f = Inr (gtf_phase f = ''integration'' \<and> gtf_result f = ''pass'' \<and>
    \<not> grr_allowsPass (the (gtf_reviewReadiness f)))"
proof -
  have "readiness_scope (gtf_phase f) (gtf_reviewReadiness f)" using assms unfolding wf_GateTransitionFacts_def by blast
  then show ?thesis by (auto simp: unresolved_review_def readiness_scope_def andE_def)
qed

lemma literal_reasons:
  "is_text ''same_gate_observation_without_changed_repair''" "is_text ''missing_plan_gate_repair_evidence''"
  "is_text ''unresolved_review_findings''" "is_text ''tooling_failure''" "is_text ''local_input_invalid''"
  by (simp_all add: is_text_def js_trim_def js_ws_def)

lemma stopping_intros [simp]: "stopping GateDefer" "is_text r \<Longrightarrow> stopping (GateBlocked r)"
  "is_text r \<Longrightarrow> stopping (GateExternalBlocked r)"
  by (simp_all add: stopping_def)

lemma blocked_outcome: "wf_GateTransitionFacts f \<Longrightarrow> is_text r \<Longrightarrow> outcome f (GateBlocked r) (decide f (GateBlocked r) defaults)"
  by (rule default_outcome) blast+

lemma retry_outcome:
  assumes "wf_GateTransitionFacts f"
  shows "outcome f GateRetry (bindE (new_GateRetryMetricEffect ''increment'' (gtf_phase f)) (\<lambda>m.
    decide f GateRetry (defaults\<lparr>go_retryMetric := Some m\<rparr>)))"
  using plain_outcome [OF assms, of GateRetry] plan_updates_own [OF assms, of "policy_options f GateRetry"]
    facts_texts(1) [OF assms]
  by (simp add: policy_options_def policy_updates_def)

lemma pass_outcome:
  assumes "wf_GateTransitionFacts f"
  shows "outcome f GatePass (classify_pass f)"
  using plain_outcome [OF assms, of GatePass] plan_updates_own [OF assms, of "policy_options f GatePass"]
    facts_texts(1) [OF assms] new_GateDisposition_ok [of GateAdvance]
  by (simp add: policy_options_def policy_updates_def classify_pass_def)

lemma rewind_texts: "is_text ''rewind-test-evidence''" "is_text ''test-execute''"
  by (simp_all add: is_text_def js_trim_def js_ws_def)

lemma recovery_outcome:
  assumes f: "wf_GateTransitionFacts f" and s: "gtf_phase f = ''integration'' \<longrightarrow> gtb_stepId (gtf_target f) = ''impl-gate''"
  shows "outcome f GateRecovery (classify_recovered f)"
proof -
  have "(if gtf_phase f = ''integration'' then
      bindE (new_GateRecoveryEffect ''rewind-test-evidence'' (gtb_stepId (gtf_target f)) ''test-execute'') (\<lambda>e. Inr (Some e))
      else Inr None) = Inr (rewind_effect f)"
    using s by (simp add: new_GateRecoveryEffect_def rewind_effect_def rewind_texts)
  then have "classify_recovered f = decide f GateRecovery (policy_options f GateRecovery)"
    by (simp add: classify_recovered_def policy_options_def del: bindE_eq_Inr)
  then show ?thesis using plain_outcome [OF f, of GateRecovery]
    by (simp add: policy_updates_def policy_options_def plan_updates_def)
qed

lemma recovery_throws:
  assumes f: "wf_GateTransitionFacts f" and s: "gtf_phase f = ''integration''" "gtb_stepId (gtf_target f) \<noteq> ''impl-gate''"
  shows "\<exists>e. classify_recovered f = Inl e"
  using s facts_texts(5) [OF f] by (simp add: classify_recovered_def new_GateRecoveryEffect_def rewind_texts)

text \<open>A repair is the only disposition of a failure that may have no decision.\<close>

definition implements :: "GateTransitionFacts \<Rightarrow> gate_disposition \<Rightarrow> GateTransitionDecision res \<Rightarrow> bool" where
  "implements f d R \<longleftrightarrow> (if d = GateRepair \<and> \<not> repairable_target f then (\<exists>e. R = Inl e) else outcome f d R)"

lemma outcome_implements: "outcome f d R \<Longrightarrow> d \<noteq> GateRepair \<Longrightarrow> implements f d R"
  by (simp add: implements_def)

lemma repair_implements:
  assumes "wf_GateTransitionFacts f" "intact f" "repair_evidence f"
  shows "implements f GateRepair (decide f GateRepair defaults)"
  using repair_exists [OF assms] repair_missing [OF assms(1,2)]
  by (auto simp: implements_def outcome_def carries_out_def policy_options_def policy_updates_def policy_connector_def)

lemma advisory_not_repair [simp]: "d \<noteq> GateRepair \<Longrightarrow> advisory f d \<noteq> GateRepair"
  by (simp add: advisory_def)

lemma exhaustion_implements:
  assumes f: "wf_GateTransitionFacts f" "intact f" "gtf_result f = ''fail''"
  shows "implements f (exhaustion_policy f) (classify_exhaustion f)"
proof (rule outcome_implements)
  show "outcome f (exhaustion_policy f) (classify_exhaustion f)"
    using strict_stop_outcome [OF f] retry_outcome [OF f(1)] blocked_outcome [OF f(1)] task_guards(2) [OF f(1)]
    by (simp add: exhaustion_policy_def classify_exhaustion_def literal_reasons)
qed (simp add: exhaustion_policy_def)

lemma semantic_implements:
  assumes f: "wf_GateTransitionFacts f" "intact f" "gtf_result f = ''fail''"
  shows "implements f (semantic_policy f) (classify_semantic f)"
proof -
  consider (cycle) "spec_exhausted f" | (draft) "\<not> spec_exhausted f" "gtf_phase f = ''draft''"
    | (receipt) "\<not> spec_exhausted f" "gtf_phase f \<noteq> ''draft''" "repair_receipt f"
    | (other) "\<not> spec_exhausted f" "gtf_phase f \<noteq> ''draft''" "\<not> repair_receipt f" by blast
  then show ?thesis
  proof cases
    case cycle
    then obtain r where r: "spec_cycle_reason f = Inr r" "is_text r"
      using cycle_guard(2) [OF f(1)] by (auto simp: spec_exhausted_def)
    have "outcome f (semantic_policy f) (classify_semantic f)"
      using cycle r strict_stop_outcome [OF f, of "GateBlocked r"] cycle_guard(1) [OF f(1)]
      by (simp add: semantic_policy_def classify_semantic_def)
    then show ?thesis by (rule outcome_implements) (simp add: semantic_policy_def cycle)
  next
    case draft
    then have ev: "repair_evidence f" and nf: "\<not> task_round_final f"
      using task_iff [OF f(2)] by (simp_all add: repair_evidence_def task_round_final_def)
    then show ?thesis
      using draft repair_implements [OF f(1,2) ev] default_outcome [OF f(1), of DraftGateCarryForward]
        outcome_implements [of f DraftGateCarryForward] cycle_guard(1) [OF f(1)] task_guards(3) [OF f(1)]
      by (cases "repair_receipt f") (simp_all add: semantic_policy_def classify_semantic_def repair_receipt_def)
  next
    case receipt
    then have ev: "repair_evidence f" by (simp add: repair_evidence_def repair_receipt_def)
    show ?thesis
      using receipt repair_implements [OF f(1,2) ev] strict_stop_outcome [OF f, of GateDefer]
        outcome_implements [of f "advisory f GateDefer"] cycle_guard(1) [OF f(1)] task_guards [OF f(1)]
      by (cases "task_round_final f") (simp_all add: semantic_policy_def classify_semantic_def repair_receipt_def)
  next
    case other
    then show ?thesis
      using strict_stop_outcome [OF f, of GateDefer] exhaustion_implements [OF f]
        outcome_implements [of f "advisory f GateDefer"] cycle_guard(1) [OF f(1)] task_guards [OF f(1)]
      by (simp add: semantic_policy_def classify_semantic_def repair_receipt_def)
  qed
qed

text \<open>The resolver returns the decision of the table, and throws exactly on the stuck facts.\<close>

lemma failure_present:
  assumes "wf_GateTransitionFacts f" "gtf_result f = ''fail''"
  obtains x where "gtf_failure f = Some x" "pred_option is_text (gfc_code x)"
proof -
  have "failure_shape (gtf_result f) (gtf_failure f)" "pred_option wf_GateFailureCategory (gtf_failure f)"
    using assms(1) unfolding wf_GateTransitionFacts_def by blast+
  with assms(2) that show thesis by (auto simp: failure_shape_def wf_GateFailureCategory_def)
qed

lemma reason_or_text: "pred_option is_text r \<Longrightarrow> is_text x \<Longrightarrow> is_text (reason_or r x)"
  by (cases r) (auto simp: reason_or_def)

lemma failure_implements:
  assumes f: "wf_GateTransitionFacts f" "intact f" "gtf_result f = ''fail''"
  shows "implements f (gate_policy f) (classify_failure f)"
proof -
  obtain x where x: "gtf_failure f = Some x" "pred_option is_text (gfc_code x)" using failure_present [OF f(1,3)] .
  note r = reason_or_text [OF x(2) literal_reasons(4)] reason_or_text [OF x(2) literal_reasons(5)]
  consider (tooling) "gfc_category x = ''tooling''" | (loc) "gfc_category x = ''local''"
    | (semantic) "gfc_category x \<noteq> ''tooling''" "gfc_category x \<noteq> ''local''" by blast
  then show ?thesis
  proof cases
    case tooling
    show ?thesis
      using tooling strict_stop_outcome [OF f stopping_intros(3) [OF r(1)]] f(2,3)
      by (simp add: implements_def gate_policy_def classify_failure_def x failure_category_def)
  next
    case loc
    then show ?thesis
      using strict_stop_outcome [OF f stopping_intros(2) [OF r(2)]] f(2,3)
      by (simp add: implements_def gate_policy_def classify_failure_def x failure_category_def)
  next
    case semantic
    then show ?thesis using semantic_implements [OF f] f(2,3)
      by (simp add: gate_policy_def classify_failure_def x failure_category_def)
  qed
qed

lemma recovered_evidence:
  assumes "wf_GateTransitionFacts f"
  shows "gre_kind (gtf_recoveryEvidence f) = ''recovered'' \<longleftrightarrow> gtf_result f = ''recovered''"
  using assms unfolding wf_GateTransitionFacts_def recovered_shape_def by blast

lemma result_cases:
  assumes "wf_GateTransitionFacts f"
  obtains (pass) "gtf_result f = ''pass''" | (fail) "gtf_result f = ''fail''" | (recovered) "gtf_result f = ''recovered''"
proof -
  have "gtf_result f \<in> set GATE_RESULTS" using assms unfolding wf_GateTransitionFacts_def by blast
  then show thesis using that by (auto simp: GATE_RESULTS_def)
qed

lemma failure_not_recovery: "gtf_result f = ''fail'' \<Longrightarrow> gate_policy f \<noteq> GateRecovery"
  by (simp add: gate_policy_def semantic_policy_def exhaustion_policy_def advisory_def)

lemma resolver_table:
  assumes f: "wf_GateTransitionFacts f"
  shows "if stuck f then \<exists>e. resolveGateTransition f = Inl e else outcome f (gate_policy f) (resolveGateTransition f)"
proof (cases "intact f")
  case False
  then obtain r where r: "integrityFailure f = Inr (Some r)" using integrity_cases(2) [OF f] by blast
  have p: "gate_policy f = GateBlocked r" by (simp add: gate_policy_def False r)
  have "outcome f (GateBlocked r) (resolveGateTransition f)"
    using blocked_outcome [OF f reason_text [OF r]] by (simp add: resolveGateTransition_def resolveGateClassification_def r)
  then show ?thesis by (simp add: stuck_def p)
next
  case True
  note i = integrity_cases(1) [OF f True]
  from f show ?thesis
  proof (cases rule: result_cases)
    case pass
    then show ?thesis
      using True blocked_outcome [OF f literal_reasons(3)] pass_outcome [OF f]
      by (simp add: resolveGateTransition_def resolveGateClassification_def i readiness_guard [OF f] stuck_def gate_policy_def)
  next
    case fail
    have "resolveGateTransition f = classify_failure f"
      using fail recovered_evidence [OF f] by (simp add: resolveGateTransition_def resolveGateClassification_def i readiness_guard [OF f])
    then show ?thesis using failure_implements [OF f True fail] failure_not_recovery [OF fail]
      by (simp add: implements_def stuck_def)
  next
    case recovered
    have p: "gate_policy f = GateRecovery" using recovered True by (simp add: gate_policy_def)
    have "resolveGateTransition f = classify_recovered f"
      using recovered by (simp add: resolveGateTransition_def resolveGateClassification_def i readiness_guard [OF f])
    then show ?thesis using recovery_outcome [OF f] recovery_throws [OF f] by (auto simp: stuck_def p)
  qed
qed

end
