(* ===== verification/Gate_Properties.thy ===== *)
theory Gate_Properties
  imports Gate_Policy
begin

section \<open>Properties of Gate decisions\<close>

text \<open>
  The properties of \<open>resolveGateTransition\<close>, the publication recovery, the evaluation admission and
  the public outcome, each derived from the policy table, with concrete Gate facts as witnesses.
\<close>

subsection \<open>Concrete facts\<close>

definition sample_attempt :: GateAttemptIdentity where
  "sample_attempt = \<lparr>gai_id = ''attempt-1'', gai_sequence = 1\<rparr>"

definition sample_gate :: GateTransitionFacts where
  "sample_gate = \<lparr>gtf_phase = ''spec'', gtf_scope = ''flow'', gtf_snapshotRevision = None,
     gtf_producer = \<lparr>gpo_runId = ''run-1'', gpo_specId = ''spec-1'', gpo_activityId = ''act-1'', gpo_phase = ''spec'',
       gpo_scope = ''flow'', gpo_taskId = None, gpo_stepId = ''spec-gate''\<rparr>,
     gtf_currentAttempt = sample_attempt,
     gtf_target = \<lparr>gtb_runId = ''run-1'', gtb_specId = ''spec-1'', gtb_taskId = None, gtb_stepId = ''spec-gate'',
       gtb_attempt = sample_attempt\<rparr>,
     gtf_catalogPublication = \<lparr>gcp_attempt = sample_attempt, gcp_producerActivityId = ''act-1'', gcp_artifactId = ''art-1'',
       gcp_fingerprint = ''fp-1''\<rparr>,
     gtf_result = ''fail'', gtf_failure = Some \<lparr>gfc_category = ''semantic'', gfc_code = None\<rparr>,
     gtf_retry = \<lparr>grm_used = 0, grm_maximum = 3\<rparr>,
     gtf_lineage = \<lparr>gln_sourceAttempt = sample_attempt, gln_canonicalAttempt = sample_attempt, gln_sourceFingerprint = ''fp-1'',
       gln_canonicalFingerprint = ''fp-1'', gln_sourceRevisionFingerprint = None, gln_canonicalRevisionFingerprint = None\<rparr>,
     gtf_recoveryEvidence = \<lparr>gre_kind = ''none'', gre_attempt = None, gre_fingerprint = None\<rparr>,
     gtf_postPublication = \<lparr>gps_status = ''classified''\<rparr>, gtf_nonblocking = False, gtf_reviewReadiness = None,
     gtf_taskLifecycle = None, gtf_taskBudget = None, gtf_taskSettlementProgress = None,
     gtf_observationConvergence = None, gtf_specCycle = Some \<lparr>sgc_completedRepairs = 0\<rparr>\<rparr>"

definition sample_receipt :: GateRecoveryEvidence where
  "sample_receipt = \<lparr>gre_kind = ''repair'', gre_attempt = Some sample_attempt, gre_fingerprint = Some ''fp-1''\<rparr>"

definition sample_repair :: GateTransitionFacts where
  "sample_repair = sample_gate\<lparr>gtf_recoveryEvidence := sample_receipt\<rparr>"

definition sample_pass :: GateTransitionFacts where
  "sample_pass = sample_gate\<lparr>gtf_result := ''pass'', gtf_failure := None\<rparr>"

definition sample_gate_advisory :: GateTransitionFacts where
  "sample_gate_advisory = sample_gate\<lparr>gtf_failure := Some \<lparr>gfc_category = ''tooling'', gfc_code = Some ''TIMEOUT''\<rparr>, gtf_nonblocking := True\<rparr>"

definition sample_draft :: GateTransitionFacts where
  "sample_draft = sample_gate\<lparr>gtf_phase := ''draft'', gtf_specCycle := None,
     gtf_producer := (gtf_producer sample_gate)\<lparr>gpo_phase := ''draft'', gpo_stepId := ''draft-gate''\<rparr>,
     gtf_target := (gtf_target sample_gate)\<lparr>gtb_stepId := ''draft-gate''\<rparr>\<rparr>"

definition sample_strict :: GateTransitionFacts where
  "sample_strict = sample_gate_advisory\<lparr>gtf_nonblocking := False\<rparr>"

text \<open>A Task Gate in its first round, with a repair receipt, for any Task id.\<close>

definition sample_task :: "string \<Rightarrow> GateTransitionFacts" where
  "sample_task t = sample_repair\<lparr>gtf_phase := ''task-impl'', gtf_scope := ''task'', gtf_snapshotRevision := Some ''rev-1'',
     gtf_specCycle := None,
     gtf_producer := (gtf_producer sample_gate)\<lparr>gpo_phase := ''task-impl'', gpo_scope := ''task'', gpo_taskId := Some t,
       gpo_stepId := task_leaf t ''gate''\<rparr>,
     gtf_target := (gtf_target sample_gate)\<lparr>gtb_taskId := Some t, gtb_stepId := task_leaf t ''gate''\<rparr>,
     gtf_taskLifecycle := Some \<lparr>gtl_taskId = t, gtl_implStepId = task_leaf t ''impl'', gtl_reviewStepId = task_leaf t ''review'',
       gtl_triageStepId = task_leaf t ''triage'', gtl_repairStepId = task_leaf t ''repair'', gtl_gateStepId = task_leaf t ''gate'',
       gtl_nextTaskId = None, gtl_integrationStepId = ''test-execute''\<rparr>,
     gtf_taskBudget := Some \<lparr>gtg_round = 1, gtg_maximumRounds = MAXIMUM_ROUNDS\<rparr>,
     gtf_taskSettlementProgress := Some \<lparr>tgs_classificationRecorded = True,
       tgs_classificationRecovery = \<lparr>tcr_status = ''not-required'', tcr_failedActivityId = None, tcr_recoveryActivityId = None\<rparr>,
       tgs_metricOperations = [], tgs_issueLogRecorded = True, tgs_terminalLifecycleRecorded = False\<rparr>\<rparr>"

lemma sample_texts:
  "is_text ''attempt-1''" "is_text ''run-1''" "is_text ''spec-1''" "is_text ''act-1''" "is_text ''art-1''" "is_text ''fp-1''"
  "is_text ''draft-gate''" "is_text ''TIMEOUT''" "is_text ''rev-1''"
  by (simp_all add: is_text_def js_trim_def js_ws_def)

lemma small_numbers: "is_safe 0" "is_safe 1" "is_safe (Suc 0)" "is_safe 3"
  by (simp_all add: is_safe_def max_safe_def)

lemmas sample_defs = sample_gate_def sample_repair_def sample_pass_def sample_gate_advisory_def sample_draft_def sample_task_def sample_strict_def
  sample_receipt_def sample_attempt_def

lemmas wf_facts_defs = wf_GateTransitionFacts_def wf_GateProducerOwnership_def wf_GateAttemptIdentity_def wf_GateTargetBinding_def
  wf_GateCatalogPublication_def wf_GateFailureCategory_def wf_GateRetryMetrics_def wf_GateLineage_def wf_GateRecoveryEvidence_def
  wf_GatePostPublicationState_def wf_SpecGateCycleProgress_def wf_GateTaskLifecycle_def wf_GateTaskBudget_def
  wf_TaskGateSettlementProgress_def wf_TaskGateClassificationRecoveryProgress_def

lemmas rule_defs = failure_shape_def readiness_scope_def exactly_task_def readiness_target_def recovered_shape_def
  repair_shape_def convergence_failure_def convergence_round_def spec_cycle_shape_def failure_category_def

lemmas literal_defs = GATE_PHASES_def GATE_SCOPES_def GATE_RESULTS_def FAILURE_CATEGORIES_def RECOVERY_KINDS_def
  POST_PUBLICATION_STATES_def RECOVERY_STATUSES_def

lemma sample_wf:
  "wf_GateTransitionFacts sample_gate" "wf_GateTransitionFacts sample_repair" "wf_GateTransitionFacts sample_pass"
  "wf_GateTransitionFacts sample_gate_advisory" "wf_GateTransitionFacts sample_draft" "wf_GateTransitionFacts sample_strict"
  by (simp_all add: sample_defs wf_facts_defs rule_defs literal_defs sample_texts small_numbers)

lemma sample_task_wf: "is_text t \<Longrightarrow> wf_GateTransitionFacts (sample_task t)"
  by (simp add: sample_defs wf_facts_defs rule_defs literal_defs sample_texts small_numbers rewind_texts MAXIMUM_ROUNDS_def
      tcr_required_def)

lemma sample_intact:
  "intact sample_gate" "intact sample_repair" "intact sample_pass" "intact sample_gate_advisory" "intact sample_draft"
  "intact (sample_task t)" "intact sample_strict"
  by (simp_all add: sample_defs intact_def gln_isCurrent_def gre_isBoundTo_def)

subsection \<open>Reading a decision\<close>

lemma decision_returned:
  assumes "wf_GateTransitionFacts f" "resolveGateTransition f = Inr D"
  shows "carries_out f (gate_policy f) D" "\<not> stuck f"
  using resolver_table [OF assms(1)] assms(2) by (auto simp: outcome_def split: if_splits)

lemma decision_exists:
  assumes "wf_GateTransitionFacts f" "\<not> stuck f"
  shows "\<exists>D. resolveGateTransition f = Inr D \<and> carries_out f (gate_policy f) D"
  using resolver_table [OF assms(1)] assms(2) by (simp add: outcome_def)

lemma carried:
  assumes "carries_out f d D"
  shows "gtd_facts D = f" "gtd_disposition D = d" "gup_updates (gtd_plan D) = policy_updates f d"
    "gup_taskLifecycle (gtd_plan D) = lifecycle_of f d" "gup_repairConnector (gtd_plan D) = policy_connector f d"
    "gup_recoveryEffect (gtd_plan D) = go_recoveryEffect (policy_options f d)"
    "gup_nonblockingHandoff (gtd_plan D) = go_handoff (policy_options f d)"
    "gup_retryMetric (gtd_plan D) = go_retryMetric (policy_options f d)"
    "gtd_advance D = go_advance (policy_options f d)"
  using assms by (simp_all add: carries_out_def decided_def)

definition pass_ready :: "GateTransitionFacts \<Rightarrow> bool" where
  "pass_ready f \<longleftrightarrow> intact f \<and> gtf_result f = ''pass'' \<and>
     (gtf_phase f = ''integration'' \<longrightarrow> grr_allowsPass (the (gtf_reviewReadiness f)))"

definition semantic_failure :: "GateTransitionFacts \<Rightarrow> bool" where
  "semantic_failure f \<longleftrightarrow> gtf_result f = ''fail'' \<and> failure_category (gtf_failure f) = Some ''semantic''"

lemma semantic_iff:
  assumes "wf_GateTransitionFacts f"
  shows "semantic_failure f \<longleftrightarrow> gtf_result f = ''fail'' \<and> failure_category (gtf_failure f) \<noteq> Some ''tooling''
    \<and> failure_category (gtf_failure f) \<noteq> Some ''local''"
proof (cases "gtf_result f = ''fail''")
  case True
  have "failure_shape (gtf_result f) (gtf_failure f)" "pred_option wf_GateFailureCategory (gtf_failure f)"
    using assms unfolding wf_GateTransitionFacts_def by blast+
  with True show ?thesis
    by (auto simp: semantic_failure_def failure_shape_def wf_GateFailureCategory_def FAILURE_CATEGORIES_def failure_category_def)
qed (simp add: semantic_failure_def)

text \<open>When the table selects each disposition.\<close>

lemma policy_pass: "gate_policy f = GatePass \<longleftrightarrow> pass_ready f"
  by (auto simp: gate_policy_def pass_ready_def advisory_def semantic_policy_def exhaustion_policy_def)

lemma policy_stages:
  assumes "wf_GateTransitionFacts f" "intact f" "semantic_failure f"
  shows "gate_policy f = semantic_policy f"
proof -
  have "gtf_result f = ''fail''" "failure_category (gtf_failure f) = Some ''semantic''"
    using assms(3) by (simp_all add: semantic_failure_def)
  with assms(2) show ?thesis by (simp add: gate_policy_def)
qed

lemma policy_semantic_only:
  assumes "wf_GateTransitionFacts f" "gate_policy f \<in> {GateRetry, GateRepair, DraftGateCarryForward, GateDefer}"
  shows "intact f \<and> semantic_failure f"
proof -
  from assms(1) show ?thesis
  proof (cases rule: result_cases)
    case fail
    then show ?thesis using assms(2) semantic_iff [OF assms(1)] by (auto simp: gate_policy_def advisory_def split: if_splits)
  qed (use assms(2) in \<open>auto simp: gate_policy_def split: if_splits\<close>)
qed

definition retry_due :: "GateTransitionFacts \<Rightarrow> bool" where
  "retry_due f \<longleftrightarrow> intact f \<and> semantic_failure f \<and> gtf_phase f \<noteq> ''draft'' \<and> \<not> spec_exhausted f \<and> \<not> repair_receipt f
     \<and> \<not> (task_round_final f \<and> allRecurring f) \<and> \<not> sameEvidence f \<and> grm_used (gtf_retry f) < grm_maximum (gtf_retry f)"

lemma policy_retry:
  assumes "wf_GateTransitionFacts f"
  shows "gate_policy f = GateRetry \<longleftrightarrow> retry_due f"
proof (cases "intact f \<and> semantic_failure f")
  case True
  then show ?thesis using policy_stages [OF assms]
    by (auto simp: retry_due_def semantic_policy_def exhaustion_policy_def advisory_def grm_exhausted_def)
next
  case False
  then show ?thesis using policy_semantic_only [OF assms] by (auto simp: retry_due_def)
qed

definition repair_due :: "GateTransitionFacts \<Rightarrow> bool" where
  "repair_due f \<longleftrightarrow> intact f \<and> semantic_failure f \<and> \<not> spec_exhausted f \<and>
     (if gtf_phase f = ''draft'' then \<not> sameEvidence f \<and> grm_used (gtf_retry f) < grm_maximum (gtf_retry f)
      else repair_receipt f \<and> \<not> task_round_final f)"

lemma policy_repair:
  assumes "wf_GateTransitionFacts f"
  shows "gate_policy f = GateRepair \<longleftrightarrow> repair_due f"
proof (cases "intact f \<and> semantic_failure f")
  case True
  then show ?thesis using policy_stages [OF assms]
    by (auto simp: repair_due_def semantic_policy_def exhaustion_policy_def advisory_def grm_exhausted_def)
next
  case False
  then show ?thesis using policy_semantic_only [OF assms] by (auto simp: repair_due_def)
qed

lemma policy_carry: "gate_policy f = DraftGateCarryForward \<Longrightarrow> gtf_phase f = ''draft''"
  by (simp add: gate_policy_def semantic_policy_def exhaustion_policy_def advisory_def split: if_splits)

lemma policy_nonblocking: "gate_policy f = GateNonblocking \<Longrightarrow>
    intact f \<and> gtf_nonblocking f \<and> gtf_phase f \<noteq> ''draft'' \<and> gtf_result f \<notin> {''pass'', ''recovered''}"
  by (auto simp: gate_policy_def advisory_def advisory_active_def semantic_policy_def exhaustion_policy_def split: if_splits)

subsection \<open>The properties\<close>

text \<open>Claim C1.  The resolver refines the policy table: for well-formed facts \<open>resolveGateTransition\<close> returns a
  decision that carries out the disposition of the table (facts, step update, Task lifecycle, repair
  connector, recovery effect, handoff, retry metric and the digest of the facts), unless the facts are
  stuck, and then it throws.\<close>

theorem gate_resolver_refines_policy:
  assumes "wf_GateTransitionFacts f"
  shows "(\<exists>D. resolveGateTransition f = Inr D \<and> carries_out f (gate_policy f) D) \<and> \<not> stuck f
    \<or> (\<exists>e. resolveGateTransition f = Inl e) \<and> stuck f"
  using resolver_table [OF assms] by (auto simp: outcome_def split: if_splits)

lemma sample_policies:
  "gate_policy sample_gate = GateRetry" "gate_policy sample_repair = GateRepair" "gate_policy sample_pass = GatePass"
  "gate_policy sample_draft = GateRepair" "gate_policy sample_gate_advisory = GateNonblocking"
  by (simp_all add: gate_policy_def sample_intact)
    (simp_all add: sample_defs failure_category_def semantic_policy_def exhaustion_policy_def spec_exhausted_def
      SPEC_GATE_MAXIMUM_CYCLE_def sgc_cycle_def repair_receipt_def task_round_final_def sameEvidence_def grm_exhausted_def
      advisory_def advisory_active_def)

lemma sample_not_stuck: "\<not> stuck sample_gate" "\<not> stuck sample_repair" "\<not> stuck sample_pass" "\<not> stuck sample_draft"
    "\<not> stuck sample_gate_advisory"
  by (simp_all add: stuck_def sample_policies repairable_target_def) (simp_all add: sample_defs)

theorem gate_resolver_refines_policy_witness:
  "\<exists>D. resolveGateTransition sample_repair = Inr D \<and> carries_out sample_repair GateRepair D"
  using gate_resolver_refines_policy [OF sample_wf(2)] sample_not_stuck(2) by (auto simp: sample_policies)

text \<open>Claim C2.  No unearned pass: a decision marks the Gate step \<open>done\<close>, advances and resets the retry
  metric exactly when it is a pass, and it is a pass exactly when every binding of the facts is intact,
  the published result is \<open>pass\<close> and, for the integration Gate, the implementation review is ready.\<close>

theorem gate_pass_safety:
  assumes "wf_GateTransitionFacts f" "resolveGateTransition f = Inr D"
  shows "(gtd_disposition D = GatePass \<longleftrightarrow> pass_ready f)
    \<and> ((\<exists>u\<in>set (gup_updates (gtd_plan D)). gsu_status u = ''done'') \<longleftrightarrow> gtd_disposition D = GatePass)
    \<and> (gtd_advance D \<noteq> None \<longleftrightarrow> gtd_disposition D = GatePass)
    \<and> (gup_retryMetric (gtd_plan D) = Some \<lparr>gme_operation = ''reset'', gme_phase = gtf_phase f\<rparr> \<longleftrightarrow> gtd_disposition D = GatePass)"
proof -
  note c = carried [OF decision_returned(1) [OF assms]]
  show ?thesis unfolding c policy_pass [symmetric]
    by (cases "gate_policy f") (simp_all add: policy_updates_def policy_options_def own_update_def)
qed

theorem gate_pass_safety_witness:
  "\<exists>D. resolveGateTransition sample_pass = Inr D \<and> gtd_disposition D = GatePass \<and> gtd_advance D \<noteq> None"
proof -
  obtain D where D: "resolveGateTransition sample_pass = Inr D" using decision_exists [OF sample_wf(3) sample_not_stuck(3)] by blast
  have "pass_ready sample_pass" using sample_policies(3) by (simp only: policy_pass)
  then show ?thesis using gate_pass_safety [OF sample_wf(3) D] D by blast
qed

text \<open>Claim C4.  Retries are bounded: the resolver selects a retry exactly for an intact semantic failure that no
  other rule settles while the retry budget is not used up, and only a retry increments the metric, so
  \<open>maximum - used\<close> decreases with each retry.\<close>

theorem gate_retry_bounded:
  assumes "wf_GateTransitionFacts f" "resolveGateTransition f = Inr D"
  shows "(gtd_disposition D = GateRetry \<longleftrightarrow> retry_due f)
    \<and> (gup_retryMetric (gtd_plan D) = Some \<lparr>gme_operation = ''increment'', gme_phase = gtf_phase f\<rparr> \<longleftrightarrow> retry_due f)
    \<and> (retry_due f \<longrightarrow> grm_used (gtf_retry f) < grm_maximum (gtf_retry f) \<and> gup_updates (gtd_plan D) = [own_update f ''in_progress'']
        \<and> gup_taskLifecycle (gtd_plan D) = None)"
proof -
  note c = carried [OF decision_returned(1) [OF assms]]
  have "retry_due f \<longrightarrow> grm_used (gtf_retry f) < grm_maximum (gtf_retry f)" by (simp add: retry_due_def)
  then show ?thesis unfolding c policy_retry [OF assms(1), symmetric]
    by (cases "gate_policy f") (simp_all add: policy_updates_def policy_options_def lifecycle_of_def split: option.splits)
qed

theorem gate_retry_bounded_witness:
  "\<exists>D. resolveGateTransition sample_gate = Inr D \<and> gtd_disposition D = GateRetry \<and> gup_taskLifecycle (gtd_plan D) = None"
proof -
  obtain D where D: "resolveGateTransition sample_gate = Inr D" using decision_exists [OF sample_wf(1) sample_not_stuck(1)] by blast
  have "retry_due sample_gate" using sample_policies(1) policy_retry [OF sample_wf(1)] by simp
  then show ?thesis using gate_retry_bounded [OF sample_wf(1) D] D by blast
qed

text \<open>The steps a repair runs again, by phase: the draft coverage funnel and the draft Gate, the Spec Gate with its
  repair, or the five leaves of the Task.\<close>

definition repaired_steps :: "GateTransitionFacts \<Rightarrow> string list" where
  "repaired_steps f =
     (if gtf_scope f = ''task'' then map (task_leaf (the (gtb_taskId (gtf_target f)))) [''impl'', ''review'', ''triage'', ''repair'', ''gate'']
      else if gtf_phase f = ''draft''
      then [''draft-gate-repair'', ''draft-coverage-review'', ''draft-coverage-triage'', ''draft-coverage-repair'', ''draft-gate'']
      else [''spec-gate-repair'', ''spec-gate''])"

lemma repair_connector_shape:
  assumes f: "wf_GateTransitionFacts f" "intact f" "repairable_target f"
  shows "prc_resetStepIds (connector_of f (repair_route f)) = repaired_steps f"
    "prc_targetStepId (connector_of f (repair_route f)) = hd (repaired_steps f)"
    "gtb_stepId (gtf_target f) = last (repaired_steps f)"
proof -
  have "prc_resetStepIds (connector_of f (repair_route f)) = repaired_steps f
    \<and> prc_targetStepId (connector_of f (repair_route f)) = hd (repaired_steps f) \<and> gtb_stepId (gtf_target f) = last (repaired_steps f)"
  proof (cases "gtf_scope f = ''task''")
    case True
    obtain t l where "gtb_taskId (gtf_target f) = Some t" "gtb_stepId (gtf_target f) = task_leaf t ''gate''"
      using task_target [OF f(1,2) True] by blast
    with True show ?thesis by (simp add: connector_of_def repair_route_def task_route_def TASK_STEP_ROLES_def repaired_steps_def)
  next
    case False
    then have "gtf_phase f \<noteq> ''task-impl''" using task_iff [OF f(2)] by simp
    then consider "gtf_phase f = ''draft''" "gtb_stepId (gtf_target f) = ''draft-gate''"
      | "gtf_phase f = ''spec''" "gtb_stepId (gtf_target f) = ''spec-gate''"
      using f(3) unfolding repairable_target_def by blast
    then show ?thesis using False
      by cases (simp_all add: connector_of_def repair_route_def planGateRepairRouteForPhase_def repair_routes_load repaired_steps_def)
  qed
  then show "prc_resetStepIds (connector_of f (repair_route f)) = repaired_steps f"
    "prc_targetStepId (connector_of f (repair_route f)) = hd (repaired_steps f)"
    "gtb_stepId (gtf_target f) = last (repaired_steps f)" by blast+
qed

text \<open>Claim C3.  Repairs are bounded and confined: a repair is selected exactly when \<open>repair_due\<close> (never in the final
  round of a Task, never from the fourth Spec Gate cycle on, never for a draft without progress or
  budget); it comes with a connector that resets exactly the steps of its phase, starts at the first of them and
  ends with the Gate itself: five steps for the draft, two for the Spec, the five leaves of the Task for a Task.
  No other disposition has a connector.\<close>

theorem gate_repair_confined:
  assumes "wf_GateTransitionFacts f" "resolveGateTransition f = Inr D"
  shows "(gtd_disposition D = GateRepair \<longleftrightarrow> repair_due f) \<and> (gup_repairConnector (gtd_plan D) \<noteq> None \<longleftrightarrow> repair_due f)
    \<and> (\<forall>c. gup_repairConnector (gtd_plan D) = Some c \<longrightarrow> prc_resetStepIds c = repaired_steps f
        \<and> prc_targetStepId c = hd (repaired_steps f) \<and> gtb_stepId (gtf_target f) = last (repaired_steps f))"
proof -
  note c = carried [OF decision_returned(1) [OF assms]]
  note p = policy_repair [OF assms(1)]
  show ?thesis
  proof (cases "repair_due f")
    case True
    then have "repairable_target f" "intact f" using decision_returned(2) [OF assms] p
      by (auto simp: stuck_def repair_due_def)
    then show ?thesis using True p repair_connector_shape [OF assms(1)] by (simp add: c policy_connector_def)
  qed (use p in \<open>simp add: c policy_connector_def\<close>)
qed

theorem gate_repair_confined_witness:
  "\<exists>D c. resolveGateTransition sample_repair = Inr D \<and> gup_repairConnector (gtd_plan D) = Some c
     \<and> prc_resetStepIds c = repaired_steps sample_repair"
proof -
  obtain D where D: "resolveGateTransition sample_repair = Inr D" using decision_exists [OF sample_wf(2) sample_not_stuck(2)] by blast
  have "repair_due sample_repair" using sample_policies(2) policy_repair [OF sample_wf(2)] by simp
  then show ?thesis using gate_repair_confined [OF sample_wf(2) D] D by blast
qed

text \<open>Claim C21.  Advisory continuation: the resolver selects the nonblocking disposition only for an intact failed
  Gate whose advisory mode is on and that is not the draft Gate; the plan then carries the handoff of
  that Gate, leaves the Gate in progress, and defers the Task of a Task Gate.  Without advisory mode no
  decision is nonblocking and none has a handoff.\<close>

theorem gate_nonblocking_safety:
  assumes "wf_GateTransitionFacts f" "resolveGateTransition f = Inr D"
  shows "(gup_nonblockingHandoff (gtd_plan D) \<noteq> None \<longleftrightarrow> gtd_disposition D = GateNonblocking)
    \<and> (gtd_disposition D = GateNonblocking \<longrightarrow> intact f \<and> gtf_result f = ''fail'' \<and> gtf_nonblocking f \<and> gtf_phase f \<noteq> ''draft''
        \<and> gup_nonblockingHandoff (gtd_plan D) = Some (handoff_of f)
        \<and> gup_updates (gtd_plan D) = [own_update f ''in_progress'']
        \<and> (gtf_scope f = ''task'' \<longrightarrow> map_option gte_operation (gup_taskLifecycle (gtd_plan D)) = Some ''defer-and-advance''))"
proof -
  note c = carried [OF decision_returned(1) [OF assms]]
  show ?thesis
  proof (cases "gate_policy f = GateNonblocking")
    case True
    note n = policy_nonblocking [OF True]
    have fail: "gtf_result f = ''fail''" using result_cases [OF assms(1)] n by (metis insert_iff)
    have "map_option gte_operation (lifecycle_of f GateNonblocking) = Some ''defer-and-advance''"
      if scope: "gtf_scope f = ''task''"
    proof -
      obtain t l where "gtf_taskLifecycle f = Some l" using task_target [OF assms(1) _ scope] n by blast
      then show ?thesis by (simp add: lifecycle_of_def)
    qed
    with n fail show ?thesis by (simp add: c True policy_options_def policy_updates_def)
  next
    case False
    then show ?thesis by (cases "gate_policy f") (simp_all add: c policy_options_def)
  qed
qed

theorem gate_nonblocking_safety_witness:
  "\<exists>D. resolveGateTransition sample_gate_advisory = Inr D \<and> gup_nonblockingHandoff (gtd_plan D) = Some (handoff_of sample_gate_advisory)"
proof -
  obtain D where D: "resolveGateTransition sample_gate_advisory = Inr D" "carries_out sample_gate_advisory GateNonblocking D"
    using decision_exists [OF sample_wf(4) sample_not_stuck(5)] sample_policies(5) by metis
  then have "gtd_disposition D = GateNonblocking" using carried(2) by blast
  then show ?thesis using gate_nonblocking_safety [OF sample_wf(4) D(1)] D(1) by blast
qed

text \<open>Claim C22.  Every failure of an intact draft Gate is decided, and never by a retry or an advisory continuation: a
  tooling failure blocks externally and a local one blocks, each with its code as the reason; a semantic failure is
  repaired, or carried forward to the Spec as soon as the evidence did not change or the evaluations are used up.\<close>

theorem draft_gate_funnel:
  assumes "wf_GateTransitionFacts f" "intact f" "gtf_result f = ''fail''" "gtf_phase f = ''draft''"
    "gtb_stepId (gtf_target f) = ''draft-gate''"
  shows "\<exists>D. resolveGateTransition f = Inr D \<and> gtd_disposition D =
    (if failure_category (gtf_failure f) = Some ''tooling''
     then GateExternalBlocked (reason_or (gfc_code (the (gtf_failure f))) ''tooling_failure'')
     else if failure_category (gtf_failure f) = Some ''local''
     then GateBlocked (reason_or (gfc_code (the (gtf_failure f))) ''local_input_invalid'')
     else if sameEvidence f \<or> grm_maximum (gtf_retry f) \<le> grm_used (gtf_retry f) then DraftGateCarryForward else GateRepair)
    \<and> gateNonblockingEligibilityForDecision D = Inr None"
proof -
  have p: "gate_policy f = (if failure_category (gtf_failure f) = Some ''tooling''
     then GateExternalBlocked (reason_or (gfc_code (the (gtf_failure f))) ''tooling_failure'')
     else if failure_category (gtf_failure f) = Some ''local''
     then GateBlocked (reason_or (gfc_code (the (gtf_failure f))) ''local_input_invalid'')
     else if sameEvidence f \<or> grm_maximum (gtf_retry f) \<le> grm_used (gtf_retry f) then DraftGateCarryForward else GateRepair)"
    using assms(2-4) by (simp add: gate_policy_def semantic_policy_def spec_exhausted_def grm_exhausted_def advisory_def advisory_active_def)
  have "\<not> stuck f" unfolding stuck_def using assms(4,5) by (simp add: repairable_target_def)
  then obtain D where "resolveGateTransition f = Inr D" "carries_out f (gate_policy f) D" using decision_exists [OF assms(1)] by blast
  then show ?thesis using carried(1,2) draft_eligibility [OF assms(1,2,4)] by (metis p)
qed

theorem draft_gate_funnel_witness:
  "\<exists>D. resolveGateTransition sample_draft = Inr D \<and> gtd_disposition D = GateRepair"
proof -
  have "gtf_result sample_draft = ''fail''" "failure_category (gtf_failure sample_draft) = Some ''semantic''" "gtf_phase sample_draft = ''draft''" "gtb_stepId (gtf_target sample_draft) = ''draft-gate''"
    "\<not> (sameEvidence sample_draft \<or> grm_maximum (gtf_retry sample_draft) \<le> grm_used (gtf_retry sample_draft))"
    by (simp_all add: sample_defs failure_category_def sameEvidence_def)
  then show ?thesis using draft_gate_funnel [OF sample_wf(5) sample_intact(5)] by auto
qed

text \<open>Claim C23.  A Task id of more than 93 characters cannot be repaired: an intact semantic failure of its Gate with a
  repair receipt before the final round makes the resolver throw, because the repair route limits every
  step id to 100 characters while Task ids are not limited.\<close>

theorem gate_repair_long_task_throws:
  assumes "wf_GateTransitionFacts f" "intact f" "semantic_failure f" "gtf_scope f = ''task''" "repair_receipt f"
    "\<not> task_round_final f" "gtb_taskId (gtf_target f) = Some t" "length t > 93"
  shows "\<exists>e. resolveGateTransition f = Inl e"
proof -
  have ph: "gtf_phase f = ''task-impl''" using task_iff [OF assms(2)] assms(4) by simp
  have "gate_policy f = GateRepair" unfolding policy_repair [OF assms(1)] using assms ph by (simp add: repair_due_def spec_exhausted_def)
  then have "stuck f" using ph assms(7,8) by (simp add: stuck_def repairable_target_def)
  then show ?thesis using resolver_table [OF assms(1)] by simp
qed

theorem gate_repair_long_task_throws_witness:
  "\<exists>e. resolveGateTransition (sample_task (replicate 94 CHR ''t'')) = Inl e"
proof -
  let ?t = "replicate 94 CHR ''t''"
  have t: "is_text ?t" by (simp add: is_text_def js_trim_id js_ws_def hd_replicate last_replicate)
  have "semantic_failure (sample_task ?t)" "gtf_scope (sample_task ?t) = ''task''" "repair_receipt (sample_task ?t)"
    "\<not> task_round_final (sample_task ?t)" "gtb_taskId (gtf_target (sample_task ?t)) = Some ?t" "length ?t > 93"
    by (simp_all add: sample_defs semantic_failure_def failure_category_def repair_receipt_def task_round_final_def
        budget_finalRound_def gtg_finalRound_def MAXIMUM_ROUNDS_def)
  then show ?thesis using gate_repair_long_task_throws [OF sample_task_wf [OF t] sample_intact(6)] by blast
qed

text \<open>Advisory eligibility is exact: for a decision of the resolver it exists if and only if an intact failed
  Gate other than the draft Gate stopped with \<open>defer\<close>, \<open>external-blocked\<close> or \<open>blocked\<close>; it carries that strict
  disposition and the handoff of the Gate, its sealed decision is the nonblocking one, and continuing
  leads from the Gate to the handoff target.\<close>

lemma eligibility_none:
  assumes f: "wf_GateTransitionFacts f" "gtd_facts D = f"
    and no: "\<not> intact f \<or> gtf_result f \<noteq> ''fail'' \<or> gtf_phase f = ''draft'' \<or> gd_operation (gtd_disposition D) \<notin> set STRICT_STOPS"
  shows "gateNonblockingEligibilityForDecision D = Inr None"
proof (cases "intact f")
  case True
  show ?thesis
  proof (cases "gtf_phase f = ''draft''")
    case draft: True
    then show ?thesis using draft_eligibility [OF f(1) True draft f(2)] by simp
  next
    case False
    then show ?thesis using no True integrity_cases(1) [OF f(1) True] f(2)
      by (auto simp: gateNonblockingEligibilityForDecision_def)
  qed
next
  case False
  then obtain r where "integrityFailure f = Inr (Some r)" using integrity_cases(2) [OF f(1)] by blast
  then show ?thesis using f(2) by (simp add: gateNonblockingEligibilityForDecision_def)
qed

lemma advisory_reason: "pred_option is_text (gd_reason d) \<Longrightarrow> pred_option is_text (gd_reason (advisory f d))"
  by (simp add: advisory_def)

lemma semantic_reason:
  assumes "wf_GateTransitionFacts f"
  shows "pred_option is_text (gd_reason (semantic_policy f))"
proof (cases "spec_exhausted f")
  case True
  then obtain r where "spec_cycle_reason f = Inr r" "is_text r" using cycle_guard(2) [OF assms] by (auto simp: spec_exhausted_def)
  with True show ?thesis by (simp add: semantic_policy_def advisory_reason)
qed (simp add: semantic_policy_def exhaustion_policy_def advisory_reason literal_reasons)

lemma policy_reason:
  assumes "wf_GateTransitionFacts f"
  shows "pred_option is_text (gd_reason (gate_policy f))"
proof (cases "intact f")
  case False
  then obtain r where "integrityFailure f = Inr (Some r)" using integrity_cases(2) [OF assms] by blast
  with False show ?thesis using reason_text by (simp add: gate_policy_def)
next
  case True
  from assms show ?thesis
  proof (cases rule: result_cases)
    case fail
    obtain x where "gtf_failure f = Some x" "pred_option is_text (gfc_code x)" using failure_present [OF assms fail] .
    with True fail show ?thesis
      by (simp add: gate_policy_def advisory_reason reason_or_text literal_reasons semantic_reason [OF assms])
  qed (use True in \<open>simp_all add: gate_policy_def literal_reasons\<close>)
qed

lemma continue_effect:
  assumes "is_text s" "is_text t" "list_all is_text ss" "distinct ss" "''continue'' \<in> set (nel_allowedActions e)"
    "nel_sourceStep e = s" "nel_continueTargetStepId e = t" "nel_skippedStepIds e = ss"
  shows "effectFor e ''continue'' = Inr \<lparr>nde_action = ''continue'', nde_operation = ''continue'', nde_sourceStepId = s,
    nde_targetStepId = t, nde_skippedStepIds = ss, nde_nextAction = ''refresh-next-action''\<rparr>"
proof -
  have "mapE (requireString field) ss = Inr ss" for field
    using assms(3) mapE_Inr_map [of ss "requireString field" "\<lambda>x. x"] by (simp add: list_all_iff)
  with assms show ?thesis
    by (simp add: effectFor_def new_NonblockingDecisionEffect_def requireOptionalStepList_def Let_def del: bindE_eq_Inr)
qed

theorem gate_eligibility_exact:
  assumes "wf_GateTransitionFacts f" "resolveGateTransition f = Inr D"
  shows "if intact f \<and> gtf_result f = ''fail'' \<and> gtf_phase f \<noteq> ''draft'' \<and> gd_operation (gtd_disposition D) \<in> set STRICT_STOPS
    then \<exists>e s x. gateNonblockingEligibilityForDecision D = Inr (Some e) \<and> gne_strictDisposition e = gtd_disposition D
      \<and> gne_handoff e = handoff_of f \<and> nel_gateDecision e = Some s \<and> gtd_disposition s = GateNonblocking
      \<and> effectFor (NonblockingEligibility.truncate e) ''continue'' = Inr x \<and> nde_operation x = ''continue''
      \<and> nde_sourceStepId x = gnh_sourceStepId (handoff_of f) \<and> nde_targetStepId x = gnh_targetStepId (handoff_of f)
    else gateNonblockingEligibilityForDecision D = Inr None"
proof -
  note c = carried [OF decision_returned(1) [OF assms]]
  let ?h = "handoff_of f"
  show ?thesis
  proof (cases "intact f \<and> gtf_result f = ''fail'' \<and> gtf_phase f \<noteq> ''draft'' \<and> gd_operation (gtd_disposition D) \<in> set STRICT_STOPS")
    case True
    then have t: "intact f" "gtf_phase f \<noteq> ''draft''" "gtf_result f = ''fail''" by blast+
    have "gate_policy f \<noteq> DraftGateCarryForward"
      using t(2) policy_carry by blast
    then have "strict_stop_disposition (gtd_disposition D)"
      using True policy_reason [OF assms(1)] by (simp add: strict_stop_disposition_def c)
    from gate_eligibility_exists [OF assms(1) t c(1) this] obtain e S where e: "gateNonblockingEligibilityForDecision D = Inr (Some e)"
      "gne_handoff e = ?h" "gne_strictDisposition e = gtd_disposition D"
      "offers e (gnh_sourceStepId ?h) (failure_result_kind (gtf_failure f)) (gnh_targetStepId ?h)
         (nbr_skippedSteps (the (nonblockingRouteFor (gnh_sourceStepId ?h))))"
      "nel_gateDecision e = Some S" "gtd_disposition S = GateNonblocking" by blast
    obtain r where r: "nonblockingRouteFor (gnh_sourceStepId ?h) = Some r" "is_text (gnh_sourceStepId ?h)"
      "is_text (gnh_targetStepId ?h)" "list_all is_text (nbr_skippedSteps r)" "distinct (nbr_skippedSteps r)"
      using handoff_exists [OF assms(1) t(1,2)] by blast
    have "effectFor (NonblockingEligibility.truncate e) ''continue'' = Inr \<lparr>nde_action = ''continue'', nde_operation = ''continue'',
        nde_sourceStepId = gnh_sourceStepId ?h, nde_targetStepId = gnh_targetStepId ?h, nde_skippedStepIds = nbr_skippedSteps r,
        nde_nextAction = ''refresh-next-action''\<rparr>"
      using e(4) r(1) by (intro continue_effect r) (simp_all add: offers_def NonblockingEligibility.defs allowed_actions_def)
    note x = this
    show ?thesis unfolding if_P [OF True]
      by (intro exI conjI) (rule e(1), rule e(3), rule e(2), rule e(5), rule e(6), rule x, simp_all)
  next
    case False
    then show ?thesis using eligibility_none [OF assms(1) c(1)] by (simp only: if_False) blast
  qed
qed

theorem gate_eligibility_exact_witness:
  "\<exists>D e. resolveGateTransition sample_strict = Inr D \<and> gateNonblockingEligibilityForDecision D = Inr (Some e)
    \<and> gne_handoff e = \<lparr>gnh_sourceStepId = ''spec-gate'', gnh_targetStepId = ''approval'', gnh_taskId = None\<rparr>"
proof -
  have p: "gate_policy sample_strict = GateExternalBlocked ''TIMEOUT''"
    by (simp add: gate_policy_def sample_intact)
      (simp add: sample_defs failure_category_def advisory_def advisory_active_def reason_or_def)
  obtain D where D: "resolveGateTransition sample_strict = Inr D" "carries_out sample_strict (gate_policy sample_strict) D"
    using decision_exists [OF sample_wf(6)] by (auto simp: p stuck_def)
  have d: "gd_operation (gtd_disposition D) \<in> set STRICT_STOPS" using carried(2) [OF D(2)] by (simp add: p STRICT_STOPS_def)
  have f: "gtf_result sample_strict = ''fail''" "gtf_phase sample_strict \<noteq> ''draft''"
    "handoff_of sample_strict = \<lparr>gnh_sourceStepId = ''spec-gate'', gnh_targetStepId = ''approval'', gnh_taskId = None\<rparr>"
    by (simp_all add: sample_defs handoff_of_def)
  show ?thesis using gate_eligibility_exact [OF sample_wf(6) D(1)] D(1) d f sample_intact(7) by auto
qed

text \<open>A new evaluation of a Gate is admitted exactly when no result is published; for published facts exactly
  one decision is selected: a reconciliation that updates no step, or the decision of the resolver.\<close>

lemma reconcile_outcome:
  assumes "wf_GateTransitionFacts f"
  shows "\<exists>D. decide f GateReconcilePublication (defaults\<lparr>go_updates := Some []\<rparr>) = Inr D
    \<and> decided f GateReconcilePublication (defaults\<lparr>go_updates := Some []\<rparr>) [] None D"
  using decide_exists [OF assms, of "defaults\<lparr>go_updates := Some []\<rparr>" "[]" GateReconcilePublication]
  by (simp add: plan_updates_def)

definition reconciles :: "GateTransitionFacts \<Rightarrow> GateTransitionDecision \<Rightarrow> bool" where
  "reconciles f D \<longleftrightarrow> gtd_facts D = f \<and> gtd_disposition D = GateReconcilePublication \<and> gup_updates (gtd_plan D) = []
     \<and> gup_taskLifecycle (gtd_plan D) = None \<and> gup_repairConnector (gtd_plan D) = None \<and> gup_retryMetric (gtd_plan D) = None"

lemma decided_reconciles: "decided f GateReconcilePublication (defaults\<lparr>go_updates := Some []\<rparr>) [] None D \<Longrightarrow> reconciles f D"
  by (simp add: decided_def reconciles_def lifecycle_of_def split: option.splits)

text \<open>What remains to be recorded for a classified Task Gate result.\<close>

definition settlement_open :: "GateTransitionFacts \<Rightarrow> bool" where
  "settlement_open f \<longleftrightarrow> (let p = the (gtf_taskSettlementProgress f); d = gate_policy f in
     tcr_required (tgs_classificationRecovery p)
     \<or> gtf_result f = ''fail'' \<and> \<not> tgs_classificationRecorded p
     \<or> d = GatePass \<and> ''reset'' \<notin> set (tgs_metricOperations p)
     \<or> d = GateRetry \<and> ''increment'' \<notin> set (tgs_metricOperations p)
     \<or> gtf_result f \<in> {''pass'', ''fail''} \<and> \<not> tgs_issueLogRecorded p
     \<or> d = GatePass \<and> \<not> tgs_terminalLifecycleRecorded p)"

definition recovery_due :: "GateTransitionFacts \<Rightarrow> bool" where
  "recovery_due f \<longleftrightarrow> intact f \<and> gtf_phase f \<notin> {''spec'', ''task-spec''} \<and>
     (gps_requiresReconciliation (gtf_postPublication f) \<or> gtf_scope f = ''task'' \<and> settlement_open f)"

lemma settlement_required:
  assumes "carries_out f (gate_policy f) D" "gtf_taskSettlementProgress f = Some p"
  shows "tgs_requiresReconciliation p (gtf_result f = ''fail'') (map_option gme_operation (gup_retryMetric (gtd_plan D)))
      (gtf_result f = ''pass'' \<or> gtf_result f = ''fail'') (list_ex (\<lambda>u. gsu_status u = ''done'') (gup_updates (gtd_plan D)))
    \<longleftrightarrow> settlement_open f"
  unfolding carried(3,8) [OF assms(1)] tgs_requiresReconciliation_def tgs_hasMetric_def settlement_open_def
  by (cases "gate_policy f") (auto simp: assms(2) Let_def policy_options_def policy_updates_def own_update_def)

lemma publication_recovery:
  assumes f: "wf_GateTransitionFacts f" and ns: "gtf_scope f = ''task'' \<Longrightarrow> \<not> stuck f"
  shows "if recovery_due f then \<exists>D. resolveGatePublicationRecovery f = Inr (Some D) \<and> reconciles f D
    else resolveGatePublicationRecovery f = Inr None"
proof (cases "intact f")
  case False
  then obtain r where "integrityFailure f = Inr (Some r)" using integrity_cases(2) [OF f] by blast
  with False show ?thesis by (simp add: resolveGatePublicationRecovery_def recovery_due_def)
next
  case True
  note i = integrity_cases(1) [OF f True]
  obtain R where R: "decide f GateReconcilePublication (defaults\<lparr>go_updates := Some []\<rparr>) = Inr R" "reconciles f R"
    using reconcile_outcome [OF f] decided_reconciles by blast
  show ?thesis
  proof (cases "gtf_scope f = ''task''")
    case task: True
    then have ph: "gtf_phase f = ''task-impl''" using task_iff [OF True] by simp
    obtain D where D: "resolveGateClassification f = Inr D" "carries_out f (gate_policy f) D"
      using decision_exists [OF f ns [OF task]] by (auto simp: resolveGateTransition_def)
    have "exactly_task (gtf_scope f) (gtf_taskSettlementProgress f)" using f unfolding wf_GateTransitionFacts_def by blast
    then obtain p where p: "gtf_taskSettlementProgress f = Some p" using task by (auto simp: exactly_task_def)
    show ?thesis
      using True task ph R settlement_required [OF D(2) p]
      by (simp add: resolveGatePublicationRecovery_def recovery_due_def i D(1) p del: bindE_eq_Inr)
  next
    case False
    show ?thesis using True False R
      by (cases "gtf_phase f = ''spec'' \<or> gtf_phase f = ''task-spec''")
        (auto simp: resolveGatePublicationRecovery_def recovery_due_def i)
  qed
qed

lemma settlement_recovery:
  assumes "wf_GateTransitionFacts f" "gtf_scope f = ''task'' \<Longrightarrow> \<not> stuck f"
  shows "bindE (resolveTaskGateSettlementRecovery f) (\<lambda>r. case r of Some D \<Rightarrow> Inr (Some D) | None \<Rightarrow> resolveGatePublicationRecovery f)
    = resolveGatePublicationRecovery f"
  using publication_recovery [OF assms]
  by (cases "recovery_due f") (auto simp: resolveTaskGateSettlementRecovery_def)

theorem gate_evaluation_admission:
  assumes "pred_option wf_GateTransitionFacts x" "pred_option (\<lambda>f. \<not> stuck f) x"
  shows "\<exists>a. resolveGateEvaluationAdmission x = Inr a \<and> (gea_admitted a \<longleftrightarrow> x = None)
    \<and> (case x of None \<Rightarrow> gea_selectedDecision a = None
       | Some f \<Rightarrow> if recovery_due f
           then gea_transitionDecision a = None \<and> (\<exists>D. gea_selectedDecision a = Some D \<and> reconciles f D)
           else gea_recoveryDecision a = None \<and> (\<exists>D. gea_selectedDecision a = Some D \<and> resolveGateTransition f = Inr D
             \<and> carries_out f (gate_policy f) D))"
proof (cases x)
  case None
  then show ?thesis
    by (simp add: resolveGateEvaluationAdmission_def new_GateEvaluationAdmission_def gea_admitted_def gea_selectedDecision_def
        first_some_def)
next
  case (Some f)
  with assms have f: "wf_GateTransitionFacts f" "\<not> stuck f" by simp_all
  note r = publication_recovery [OF f(1,2)]
  obtain D where D: "resolveGateTransition f = Inr D" "carries_out f (gate_policy f) D" using decision_exists [OF f] by blast
  show ?thesis
    unfolding Some resolveGateEvaluationAdmission_def option.case settlement_recovery [OF f(1,2)]
    using r D
    by (cases "recovery_due f")
      (auto simp: new_GateEvaluationAdmission_def gea_admitted_def gea_selectedDecision_def first_some_def)
qed

theorem gate_evaluation_admission_witness:
  "\<exists>a D. resolveGateEvaluationAdmission (Some sample_pass) = Inr a \<and> \<not> gea_admitted a \<and> gea_selectedDecision a = Some D
    \<and> carries_out sample_pass GatePass D"
proof -
  have "\<not> recovery_due sample_pass" by (simp add: recovery_due_def sample_defs)
  with gate_evaluation_admission [of "Some sample_pass"] show ?thesis
    using sample_wf(3) sample_not_stuck(3) by (auto simp: sample_policies)
qed

text \<open>The public outcome fails exactly for blocked decisions, names the next step only when the test evidence
  is rewound, reports a local failure as invalid input, and hides the source code of draft and spec
  failures.\<close>

lemma next_texts: "is_text ''GATE_LOCAL_INPUT_INVALID''" "is_text ''STEP_EXTERNAL_BLOCKED''"
  by (simp_all add: is_text_def js_trim_def js_ws_def)

lemma source_code_text: "wf_GateTransitionFacts f \<Longrightarrow> is_text (source_code (gtf_failure f))"
proof -
  assume "wf_GateTransitionFacts f"
  then have "pred_option wf_GateFailureCategory (gtf_failure f)" unfolding wf_GateTransitionFacts_def by blast
  moreover have "is_text ''GATE_EXTERNAL_BLOCKED''" by (simp add: is_text_def js_trim_def js_ws_def)
  ultimately show ?thesis by (auto simp: source_code_def wf_GateFailureCategory_def split: option.splits)
qed

definition public_code :: "GateTransitionFacts \<Rightarrow> string" where
  "public_code f = (if failure_category (gtf_failure f) = Some ''local'' then ''GATE_LOCAL_INPUT_INVALID''
     else if gtf_phase f \<in> {''draft'', ''spec'', ''task-spec''} \<or> source_code (gtf_failure f) = ''GATE_EXTERNAL_BLOCKED''
     then ''STEP_EXTERNAL_BLOCKED'' else source_code (gtf_failure f))"

lemma public_code_text: "wf_GateTransitionFacts f \<Longrightarrow> is_text (public_code f)"
  using source_code_text [of f] by (simp add: public_code_def next_texts)

lemma outcome_ok:
  "pred_option is_text c \<Longrightarrow> pred_option is_text n \<Longrightarrow> new_GatePublicOutcome c n = Inr \<lparr>gpx_failureCode = c, gpx_nextStepId = n\<rparr>"
  by (simp add: new_GatePublicOutcome_def del: bindE_eq_Inr)

lemma blocked_operation: "gd_operation d \<in> {''external-blocked'', ''blocked''} \<longleftrightarrow> gd_reason d \<noteq> None"
  by (cases d) simp_all

theorem gate_public_outcome:
  assumes "wf_GateTransitionFacts f" "resolveGateTransition f = Inr D"
  shows "projectGatePublicOutcome D = Inr
    \<lparr>gpx_failureCode = (if gd_reason (gtd_disposition D) \<noteq> None then Some (public_code f) else None),
     gpx_nextStepId = (if gtd_disposition D = GateRecovery \<and> gtf_phase f = ''integration'' then Some ''test-execute'' else None)\<rparr>"
proof -
  note c = carried [OF decision_returned(1) [OF assms]]
  show ?thesis
  proof (cases "gate_policy f = GateRecovery \<and> gtf_phase f = ''integration''")
    case True
    then show ?thesis by (simp add: projectGatePublicOutcome_def c policy_options_def rewind_effect_def outcome_ok rewind_texts)
  next
    case False
    have e: "gup_recoveryEffect (gtd_plan D) = None"
      using False by (cases "gate_policy f") (auto simp: c policy_options_def rewind_effect_def)
    show ?thesis using False source_code_text [OF assms(1)]
      by (simp add: projectGatePublicOutcome_def e c blocked_operation outcome_ok next_texts public_code_def Let_def del: insert_iff)
  qed
qed

theorem gate_public_outcome_witness:
  "\<exists>D. resolveGateTransition sample_strict = Inr D \<and> projectGatePublicOutcome D =
     Inr \<lparr>gpx_failureCode = Some ''STEP_EXTERNAL_BLOCKED'', gpx_nextStepId = None\<rparr>"
proof -
  have p: "gate_policy sample_strict = GateExternalBlocked ''TIMEOUT''"
    by (simp add: gate_policy_def sample_intact)
      (simp add: sample_defs failure_category_def advisory_def advisory_active_def reason_or_def)
  obtain D where D: "resolveGateTransition sample_strict = Inr D" "carries_out sample_strict (gate_policy sample_strict) D"
    using decision_exists [OF sample_wf(6)] by (auto simp: p stuck_def)
  have "public_code sample_strict = ''STEP_EXTERNAL_BLOCKED''" by (simp add: public_code_def sample_defs failure_category_def)
  then show ?thesis using gate_public_outcome [OF sample_wf(6) D(1)] D(1) carried(2) [OF D(2)] by (simp add: p)
qed

text \<open>Claim C24.  Gate facts survive persistence: facts accepted by the constructor are well formed and are rebuilt
  unchanged from their JSON form.\<close>

theorem gate_facts_roundtrip:
  assumes "new_GateTransitionFacts v = Inr f"
  shows "wf_GateTransitionFacts f \<and> fromPersisted (GateTransitionFacts_toJSON f) = Inr f"
proof -
  have f: "wf_GateTransitionFacts f" using assms by (rule gate_facts.mk_wf)
  obtain ob where "GateTransitionFacts_toJSON f = JObj ob" by (simp add: GateTransitionFacts_toJSON_def)
  then show ?thesis using f gate_facts.mk_js [OF f] by simp
qed

theorem gate_facts_roundtrip_witness:
  "new_GateTransitionFacts (GateTransitionFacts_toJSON sample_repair) = Inr sample_repair
    \<and> fromPersisted (GateTransitionFacts_toJSON sample_repair) = Inr sample_repair"
  using gate_facts_roundtrip [OF gate_facts.mk_js [OF sample_wf(2)]] gate_facts.mk_js [OF sample_wf(2)] by blast

text \<open>Claim C20.  The integrity check never throws on well-formed facts and accepts exactly the facts whose producer,
  target, Attempt, catalog publication, lineage and recovery evidence are bound to each other; every
  other fact is blocked with the name of the first broken binding, whatever its result.\<close>

theorem gate_integrity_exact:
  assumes "wf_GateTransitionFacts f"
  shows "(integrityFailure f = Inr None \<longleftrightarrow> intact f) \<and>
    (\<not> intact f \<longrightarrow> (\<exists>r D. integrityFailure f = Inr (Some r) \<and> resolveGateTransition f = Inr D \<and> gtd_disposition D = GateBlocked r
      \<and> gup_updates (gtd_plan D) = [own_update f ''in_progress''] \<and> gateNonblockingEligibilityForDecision D = Inr None))"
proof (cases "intact f")
  case True
  then show ?thesis using integrity_cases(1) [OF assms] by simp
next
  case False
  then obtain r where r: "integrityFailure f = Inr (Some r)" using integrity_cases(2) [OF assms] by blast
  have p: "gate_policy f = GateBlocked r" by (simp add: gate_policy_def False r)
  obtain D where D: "resolveGateTransition f = Inr D" "carries_out f (GateBlocked r) D"
    using decision_exists [OF assms] p by (auto simp: stuck_def)
  note c = carried [OF D(2)]
  have "gateNonblockingEligibilityForDecision D = Inr None" using eligibility_none [OF assms c(1)] False by blast
  with False r D(1) c show ?thesis by (simp add: policy_updates_def)
qed

theorem gate_integrity_exact_witness:
  "\<exists>r. integrityFailure (sample_pass\<lparr>gtf_scope := ''flow'', gtf_currentAttempt := \<lparr>gai_id = ''attempt-2'', gai_sequence = 2\<rparr>\<rparr>) = Inr (Some r)"
proof -
  let ?f = "sample_pass\<lparr>gtf_scope := ''flow'', gtf_currentAttempt := \<lparr>gai_id = ''attempt-2'', gai_sequence = 2\<rparr>\<rparr>"
  have t: "is_text ''attempt-2''" "is_safe 2" by (simp_all add: is_text_def js_trim_def js_ws_def is_safe_def max_safe_def)
  have "wf_GateTransitionFacts ?f"
    by (simp add: sample_defs wf_facts_defs rule_defs literal_defs sample_texts small_numbers t)
  moreover have "\<not> intact ?f" by (simp add: sample_defs intact_def)
  ultimately show ?thesis using gate_integrity_exact [of ?f] by blast
qed

end
