(* ===== verification/Finalization_Recovery.thy ===== *)
theory Finalization_Recovery
  imports Gate_Decision
begin

section \<open>Finalization recovery\<close>

text \<open>
  Models the finalization part of \<open>src/flow/definition.js\<close>: the immutable facts about a finalization
  step (outbox entry, receipt of an exact recovery, durable proof, operation lock, authority over the
  main repository, interrupted runtime log, pre-sync state) and \<open>resolveFinalizationRecovery\<close>, which
  selects exactly one route.  Whether a time stamp can be parsed (\<open>Date.parse\<close>) is a parameter.
\<close>

subsection \<open>Facts\<close>

definition js_string :: "string \<Rightarrow> jsval \<Rightarrow> string res" where
  "js_string field v = (case v of
     JStr s \<Rightarrow> requireString field s
   | _ \<Rightarrow> Inl (Error (field @ '' must be a non-empty string'')))"

definition FINALIZATION_STEPS :: "string list" where
  "FINALIZATION_STEPS = [''report'', ''finalize-commit'', ''finalize-merge'', ''finalize-sync'', ''finalize-cleanup'']"

record FinalizationRecoveryTargetFact =
  frt_scope :: string
  frt_stepId :: string

definition new_FinalizationRecoveryTargetFact :: "jsval \<Rightarrow> FinalizationRecoveryTargetFact res" where
  "new_FinalizationRecoveryTargetFact arg = bindE (destructure arg) (\<lambda>ob.
     if fld ob ''scope'' \<noteq> JStr ''flow'' then Inl (Error ''finalization recovery target must be flow scoped'') else
     bindE (lit_of FINALIZATION_STEPS (Error ''finalization recovery target step is invalid'') (fld ob ''stepId'')) (\<lambda>s.
     Inr \<lparr>frt_scope = ''flow'', frt_stepId = s\<rparr>))"

record FinalizationExactRecoveryReceiptFact =
  fer_idempotencyKey :: string
  fer_attempt :: nat
  fer_failure :: string
  fer_recoveryKey :: "string option"

definition new_FinalizationExactRecoveryReceiptFact :: "jsval \<Rightarrow> FinalizationExactRecoveryReceiptFact res" where
  "new_FinalizationExactRecoveryReceiptFact arg = bindE (destructure arg) (\<lambda>ob.
     bindE (js_string ''finalization exact recovery receipt idempotencyKey'' (fld ob ''idempotencyKey'')) (\<lambda>k.
     bindE (int_from 1 (Error ''finalization exact recovery receipt attempt is invalid'') (fld ob ''attempt'')) (\<lambda>a.
     bindE (js_string ''finalization exact recovery receipt failure'' (fld ob ''failure'')) (\<lambda>f.
     bindE (nullable (js_string ''finalization exact recovery receipt recoveryKey'') (fld_or ob ''recoveryKey'' JNull)) (\<lambda>r.
     Inr \<lparr>fer_idempotencyKey = k, fer_attempt = a, fer_failure = f, fer_recoveryKey = r\<rparr>)))))"

record FinalizationOutboxFact =
  fof_idempotencyKey :: "string option"
  fof_status :: string
  fof_attempt :: nat
  fof_failure :: "string option"
  fof_recovery :: "jsfields option"
  fof_exactRecoveryReceipt :: "FinalizationExactRecoveryReceiptFact option"

definition OUTBOX_STATUSES :: "string list" where
  "OUTBOX_STATUSES = [''missing'', ''pending'', ''done'', ''failed'']"

definition outbox_failure :: "string \<Rightarrow> jsval \<Rightarrow> string option res" where
  "outbox_failure status failure =
     (if status = ''failed'' then bindE (js_string ''finalization outbox failure'' failure) (\<lambda>x. Inr (Some x))
      else if failure \<noteq> JNull then Inl (Error ''only failed finalization outbox may carry a failure'') else Inr None)"

definition receipt_unbound :: "FinalizationExactRecoveryReceiptFact option \<Rightarrow> string option \<Rightarrow> nat \<Rightarrow> bool" where
  "receipt_unbound receipt key attempt = (case receipt of
     None \<Rightarrow> False
   | Some r \<Rightarrow> Some (fer_idempotencyKey r) \<noteq> key \<or> fer_attempt r \<noteq> attempt)"

definition new_FinalizationOutboxFact :: "jsval \<Rightarrow> FinalizationOutboxFact res" where
  "new_FinalizationOutboxFact arg = bindE (destructure arg) (\<lambda>ob.
     let failure = fld_or ob ''failure'' JNull in
     bindE (lit_of OUTBOX_STATUSES (Error ''finalization outbox status is invalid'') (fld_or ob ''status'' (JStr ''missing''))) (\<lambda>s.
     bindE (nullable (js_string ''finalization outbox idempotencyKey'') (fld_or ob ''idempotencyKey'' JNull)) (\<lambda>k.
     bindE (int_from 0 (Error ''finalization outbox attempt is invalid'') (fld_or ob ''attempt'' (JInt 0))) (\<lambda>a.
     if s = ''missing'' \<and> (k \<noteq> None \<or> a \<noteq> 0 \<or> failure \<noteq> JNull)
     then Inl (Error ''missing finalization outbox cannot carry persisted identity or outcome facts'')
     else if s \<noteq> ''missing'' \<and> (k = None \<or> a < 1)
     then Inl (Error ''persisted finalization outbox requires identity and attempt facts'') else
     bindE (outbox_failure s failure) (\<lambda>f.
     bindE (nullable (object_or (Error ''finalization outbox recovery is invalid'')) (fld_or ob ''recovery'' JNull)) (\<lambda>r.
     bindE (nullable new_FinalizationExactRecoveryReceiptFact (fld_or ob ''exactRecoveryReceipt'' JNull)) (\<lambda>e.
     if receipt_unbound e k a
     then Inl (Error ''finalization exact recovery receipt must bind its outbox identity and attempt'')
     else Inr \<lparr>fof_idempotencyKey = k, fof_status = s, fof_attempt = a, fof_failure = f, fof_recovery = r,
               fof_exactRecoveryReceipt = e\<rparr>)))))))"

record FinalizationDurableProofFact =
  fdp_durable :: bool

definition new_FinalizationDurableProofFact :: "jsval \<Rightarrow> FinalizationDurableProofFact res" where
  "new_FinalizationDurableProofFact arg = bindE (destructure arg) (\<lambda>ob.
     bindE (bool_or (Error ''finalization durable proof must be boolean'') (fld_or ob ''durable'' (JBool False))) (\<lambda>b.
     Inr \<lparr>fdp_durable = b\<rparr>))"

record FinalizationOperationLockFact =
  fol_status :: string

definition new_FinalizationOperationLockFact :: "jsval \<Rightarrow> FinalizationOperationLockFact res" where
  "new_FinalizationOperationLockFact arg = bindE (destructure arg) (\<lambda>ob.
     bindE (lit_of [''not-acquired'', ''busy'', ''available''] (Error ''finalization operation lock status is invalid'')
       (fld_or ob ''status'' (JStr ''not-acquired''))) (\<lambda>s. Inr \<lparr>fol_status = s\<rparr>))"

record FinalizationMainAuthorityFact =
  fma_mainRoot :: string
  fma_authorityRoot :: string

definition new_FinalizationMainAuthorityFact :: "jsval \<Rightarrow> FinalizationMainAuthorityFact res" where
  "new_FinalizationMainAuthorityFact arg = bindE (destructure arg) (\<lambda>ob.
     bindE (js_string ''finalization main authority root'' (fld ob ''mainRoot'')) (\<lambda>m.
     bindE (js_string ''finalization state authority root'' (fld ob ''authorityRoot'')) (\<lambda>a.
     Inr \<lparr>fma_mainRoot = m, fma_authorityRoot = a\<rparr>)))"

definition ownsMainState :: "FinalizationMainAuthorityFact \<Rightarrow> bool" where
  "ownsMainState f \<longleftrightarrow> fma_authorityRoot f = fma_mainRoot f"

record FinalizationPreSyncFact =
  fps_state :: "string option"

definition new_FinalizationPreSyncFact :: "jsval \<Rightarrow> FinalizationPreSyncFact res" where
  "new_FinalizationPreSyncFact arg = bindE (destructure arg) (\<lambda>ob.
     bindE (nullable (lit_of [''rebased'', ''needs-repair'', ''unavailable''] (Error ''finalization pre-sync state is invalid''))
       (fld_or ob ''state'' JNull)) (\<lambda>s. Inr \<lparr>fps_state = s\<rparr>))"

record RuntimeReceipt =
  rrc_runId :: string
  rrc_sequence :: nat
  rrc_startedAt :: string

record InterruptedRuntimeLogFact =
  irl_receipt :: "RuntimeReceipt option"

definition RECEIPT_FIELDS :: "string list" where
  "RECEIPT_FIELDS = sort [''command'', ''complete'', ''runId'', ''sequence'', ''startedAt'']"

definition runtime_receipt :: "(string \<Rightarrow> bool) \<Rightarrow> jsval \<Rightarrow> RuntimeReceipt res" where
  "runtime_receipt parses v = (case v of
     JObj ob \<Rightarrow>
       if string_list_json (sort (remdups (map fst ob))) \<noteq> string_list_json RECEIPT_FIELDS
       then Inl (Error ''interrupted finalize-sync runtime receipt fields are invalid'') else
       bindE (js_string ''interrupted finalize-sync runtime receipt runId'' (fld ob ''runId'')) (\<lambda>r.
       bindE (int_from 1 (Error ''interrupted finalize-sync runtime receipt sequence is invalid'') (fld ob ''sequence'')) (\<lambda>s.
       if fld ob ''command'' \<noteq> JStr ''flow run finalize-sync''
       then Inl (Error ''interrupted finalize-sync runtime receipt command is invalid'') else
       bindE (js_string ''interrupted finalize-sync runtime receipt startedAt'' (fld ob ''startedAt'')) (\<lambda>t.
       if \<not> parses t then Inl (Error ''interrupted finalize-sync runtime receipt startedAt is invalid'')
       else if fld ob ''complete'' \<noteq> JBool False
       then Inl (Error ''interrupted finalize-sync runtime receipt must be incomplete'')
       else Inr \<lparr>rrc_runId = r, rrc_sequence = s, rrc_startedAt = t\<rparr>)))
   | _ \<Rightarrow> Inl (Error ''interrupted finalize-sync runtime receipt is invalid''))"

definition new_InterruptedRuntimeLogFact :: "(string \<Rightarrow> bool) \<Rightarrow> jsval \<Rightarrow> InterruptedRuntimeLogFact res" where
  "new_InterruptedRuntimeLogFact parses arg = bindE (destructure arg) (\<lambda>ob.
     bindE (nullable (runtime_receipt parses) (fld_or ob ''receipt'' JNull)) (\<lambda>r. Inr \<lparr>irl_receipt = r\<rparr>))"

record FinalizationRecoveryFacts =
  frf_target :: FinalizationRecoveryTargetFact
  frf_outbox :: FinalizationOutboxFact
  frf_durableProof :: FinalizationDurableProofFact
  frf_operationLock :: FinalizationOperationLockFact
  frf_mainAuthority :: FinalizationMainAuthorityFact
  frf_interruptedRuntimeLog :: InterruptedRuntimeLogFact
  frf_preSync :: FinalizationPreSyncFact

subsection \<open>Selection\<close>

definition FINALIZATION_RECOVERY_OPERATIONS :: "string list" where
  "FINALIZATION_RECOVERY_OPERATIONS = [''ordinary-execute'', ''exact-outbox-recovery'', ''interrupted-sync-settlement'',
     ''pre-sync-conflict-repair'', ''blocked'', ''exhausted'']"

record FinalizationRecoveryDecision =
  frd_facts :: FinalizationRecoveryFacts
  frd_operation :: string
  frd_reason :: "string option"

definition new_FinalizationRecoveryDecision ::
  "FinalizationRecoveryFacts \<Rightarrow> string \<Rightarrow> string option \<Rightarrow> FinalizationRecoveryDecision res" where
  "new_FinalizationRecoveryDecision f operation reason =
     (if operation \<notin> set FINALIZATION_RECOVERY_OPERATIONS then Inl (Error ''finalization recovery operation is invalid'') else
      bindE (optional_string ''finalization recovery reason'' reason) (\<lambda>r.
      Inr \<lparr>frd_facts = f, frd_operation = operation, frd_reason = r\<rparr>))"

definition interrupted_sync :: "FinalizationRecoveryFacts \<Rightarrow> bool" where
  "interrupted_sync f \<longleftrightarrow> frt_stepId (frf_target f) = ''finalize-sync'' \<and> fof_status (frf_outbox f) = ''pending''
     \<and> irl_receipt (frf_interruptedRuntimeLog f) \<noteq> None"

definition recoveryPending :: "FinalizationRecoveryFacts \<Rightarrow> bool" where
  "recoveryPending f \<longleftrightarrow> interrupted_sync f \<or> fof_status (frf_outbox f) = ''failed''"

text \<open>\<open>outbox.recovery?.baseHead ?? null\<close>.\<close>

definition recoveryKey :: "FinalizationOutboxFact \<Rightarrow> jsval" where
  "recoveryKey b = (case fof_recovery b of
     None \<Rightarrow> JNull
   | Some ob \<Rightarrow> if fld ob ''baseHead'' = JUndef then JNull else fld ob ''baseHead'')"

definition exact_recovery_consumed :: "FinalizationOutboxFact \<Rightarrow> bool" where
  "exact_recovery_consumed b = (case fof_exactRecoveryReceipt b of
     None \<Rightarrow> False
   | Some r \<Rightarrow> recoveryKey b = JNull \<or> strict_eq (js_opt JStr (fer_recoveryKey r)) (recoveryKey b))"

definition resolveFinalizationRecovery :: "FinalizationRecoveryFacts \<Rightarrow> FinalizationRecoveryDecision res" where
  "resolveFinalizationRecovery f =
     (let step = frt_stepId (frf_target f); outbox = frf_outbox f; state = fps_state (frf_preSync f) in
      if recoveryPending f \<and> fol_status (frf_operationLock f) = ''busy''
      then new_FinalizationRecoveryDecision f ''blocked'' (Some ''operation_lock_busy'')
      else if step \<in> {''finalize-sync'', ''finalize-cleanup''} \<and> recoveryPending f \<and> \<not> ownsMainState (frf_mainAuthority f)
      then new_FinalizationRecoveryDecision f ''blocked'' (Some ''main_authority_required'')
      else if interrupted_sync f then new_FinalizationRecoveryDecision f ''interrupted-sync-settlement'' None
      else if fof_status outbox \<noteq> ''failed'' then new_FinalizationRecoveryDecision f ''ordinary-execute'' None
      else if state = Some ''needs-repair'' then new_FinalizationRecoveryDecision f ''pre-sync-conflict-repair'' None
      else if state = Some ''unavailable''
      then new_FinalizationRecoveryDecision f ''blocked'' (Some ''pre_sync_state_unavailable'')
      else if exact_recovery_consumed outbox
      then new_FinalizationRecoveryDecision f ''exhausted'' (Some ''exact_recovery_consumed'')
      else if step \<noteq> ''finalize-merge'' \<and> \<not> fdp_durable (frf_durableProof f)
      then new_FinalizationRecoveryDecision f ''blocked'' (Some ''durable_proof_unavailable'')
      else new_FinalizationRecoveryDecision f ''exact-outbox-recovery'' None)"

subsection \<open>Properties\<close>

lemma finalization_reason_texts:
  "is_text ''operation_lock_busy''" "is_text ''main_authority_required''" "is_text ''pre_sync_state_unavailable''"
  "is_text ''exact_recovery_consumed''" "is_text ''durable_proof_unavailable''"
  by (simp_all add: is_text_def js_trim_def js_ws_def)

lemma new_decision_ok:
  "operation \<in> set FINALIZATION_RECOVERY_OPERATIONS \<Longrightarrow> pred_option is_text reason \<Longrightarrow>
   new_FinalizationRecoveryDecision f operation reason = Inr \<lparr>frd_facts = f, frd_operation = operation, frd_reason = reason\<rparr>"
  by (cases reason) (simp_all add: new_FinalizationRecoveryDecision_def optional_string_def)

lemma operation_known [simp]:
  "''blocked'' \<in> set FINALIZATION_RECOVERY_OPERATIONS" "''interrupted-sync-settlement'' \<in> set FINALIZATION_RECOVERY_OPERATIONS"
  "''ordinary-execute'' \<in> set FINALIZATION_RECOVERY_OPERATIONS" "''pre-sync-conflict-repair'' \<in> set FINALIZATION_RECOVERY_OPERATIONS"
  "''exhausted'' \<in> set FINALIZATION_RECOVERY_OPERATIONS" "''exact-outbox-recovery'' \<in> set FINALIZATION_RECOVERY_OPERATIONS"
  by (simp_all add: FINALIZATION_RECOVERY_OPERATIONS_def)

text \<open>The route as a function of the facts, without the decision object.\<close>

definition finalization_route :: "FinalizationRecoveryFacts \<Rightarrow> string \<times> string option" where
  "finalization_route f =
     (let step = frt_stepId (frf_target f) in
      if \<not> recoveryPending f then (''ordinary-execute'', None)
      else if fol_status (frf_operationLock f) = ''busy'' then (''blocked'', Some ''operation_lock_busy'')
      else if step \<in> {''finalize-sync'', ''finalize-cleanup''} \<and> \<not> ownsMainState (frf_mainAuthority f)
      then (''blocked'', Some ''main_authority_required'')
      else if interrupted_sync f then (''interrupted-sync-settlement'', None)
      else if fps_state (frf_preSync f) = Some ''needs-repair'' then (''pre-sync-conflict-repair'', None)
      else if fps_state (frf_preSync f) = Some ''unavailable'' then (''blocked'', Some ''pre_sync_state_unavailable'')
      else if exact_recovery_consumed (frf_outbox f) then (''exhausted'', Some ''exact_recovery_consumed'')
      else if step \<noteq> ''finalize-merge'' \<and> \<not> fdp_durable (frf_durableProof f)
      then (''blocked'', Some ''durable_proof_unavailable'')
      else (''exact-outbox-recovery'', None))"

lemma resolve_route:
  "resolveFinalizationRecovery f =
     Inr \<lparr>frd_facts = f, frd_operation = fst (finalization_route f), frd_reason = snd (finalization_route f)\<rparr>"
  by (simp add: resolveFinalizationRecovery_def finalization_route_def new_decision_ok finalization_reason_texts recoveryPending_def Let_def)

text \<open>Every finalization step gets exactly one route: the resolver never throws, keeps the facts, gives a
  reason exactly for a blocked or exhausted route, and executes the step ordinarily exactly when no
  recovery is pending.\<close>

theorem finalization_total:
  "\<exists>d. resolveFinalizationRecovery f = Inr d \<and> frd_facts d = f \<and> frd_operation d \<in> set FINALIZATION_RECOVERY_OPERATIONS
    \<and> (frd_reason d \<noteq> None \<longleftrightarrow> frd_operation d \<in> {''blocked'', ''exhausted''})
    \<and> (frd_operation d = ''ordinary-execute'' \<longleftrightarrow> \<not> recoveryPending f)"
  unfolding resolve_route
  by (simp add: finalization_route_def Let_def)

text \<open>Claim C25.  An exact replay of the outbox entry is selected exactly for a failed entry that is not under the busy
  operation lock, is executed by the owner of the main state where the step needs it, waits for no
  pre-sync repair, has not consumed its exact recovery, and has durable proof unless it is the merge.\<close>

theorem exact_recovery_safety:
  assumes "resolveFinalizationRecovery f = Inr d"
  shows "frd_operation d = ''exact-outbox-recovery'' \<longleftrightarrow>
    fof_status (frf_outbox f) = ''failed'' \<and> \<not> interrupted_sync f \<and> fol_status (frf_operationLock f) \<noteq> ''busy''
    \<and> (frt_stepId (frf_target f) \<in> {''finalize-sync'', ''finalize-cleanup''} \<longrightarrow> ownsMainState (frf_mainAuthority f))
    \<and> fps_state (frf_preSync f) \<notin> {Some ''needs-repair'', Some ''unavailable''}
    \<and> \<not> exact_recovery_consumed (frf_outbox f)
    \<and> (frt_stepId (frf_target f) \<noteq> ''finalize-merge'' \<longrightarrow> fdp_durable (frf_durableProof f))"
proof -
  have "frd_operation d = fst (finalization_route f)" using assms by (auto simp: resolve_route)
  then show ?thesis by (simp add: finalization_route_def recoveryPending_def Let_def)
qed

definition sample_outbox :: FinalizationOutboxFact where
  "sample_outbox = \<lparr>fof_idempotencyKey = Some ''merge-1'', fof_status = ''failed'', fof_attempt = 1, fof_failure = Some ''boom'',
     fof_recovery = Some [(''baseHead'', JStr ''abc'')], fof_exactRecoveryReceipt = None\<rparr>"

definition sample_finalization :: FinalizationRecoveryFacts where
  "sample_finalization = \<lparr>frf_target = \<lparr>frt_scope = ''flow'', frt_stepId = ''finalize-merge''\<rparr>, frf_outbox = sample_outbox,
     frf_durableProof = \<lparr>fdp_durable = False\<rparr>, frf_operationLock = \<lparr>fol_status = ''available''\<rparr>,
     frf_mainAuthority = \<lparr>fma_mainRoot = ''/main'', fma_authorityRoot = ''/worktree''\<rparr>,
     frf_interruptedRuntimeLog = \<lparr>irl_receipt = None\<rparr>, frf_preSync = \<lparr>fps_state = None\<rparr>\<rparr>"

definition sample_exact_receipt :: FinalizationExactRecoveryReceiptFact where
  "sample_exact_receipt = \<lparr>fer_idempotencyKey = ''merge-1'', fer_attempt = 1, fer_failure = ''boom'', fer_recoveryKey = Some ''abc''\<rparr>"

lemma sample_finalization_route: "finalization_route sample_finalization = (''exact-outbox-recovery'', None)"
  by (simp add: finalization_route_def sample_finalization_def sample_outbox_def recoveryPending_def interrupted_sync_def
      exact_recovery_consumed_def)

theorem exact_recovery_safety_witness:
  "\<exists>d. resolveFinalizationRecovery sample_finalization = Inr d \<and> frd_operation d = ''exact-outbox-recovery''
    \<and> \<not> exact_recovery_consumed sample_outbox"
proof -
  let ?d = "\<lparr>frd_facts = sample_finalization, frd_operation = ''exact-outbox-recovery'', frd_reason = None\<rparr>"
  have "resolveFinalizationRecovery sample_finalization = Inr ?d" by (simp add: resolve_route sample_finalization_route)
  from exact_recovery_safety [OF this] this show ?thesis by (auto simp: sample_finalization_def)
qed

text \<open>Claim C26.  An exact recovery happens at most once per failure: once its receipt for the same outbox identity, Attempt
  and base head is recorded, the same facts select \<open>exhausted\<close>.\<close>

theorem exact_recovery_once:
  assumes "resolveFinalizationRecovery f = Inr d" "frd_operation d = ''exact-outbox-recovery''"
    "recoveryKey (frf_outbox f) = js_opt JStr (fer_recoveryKey r)"
  shows "\<exists>e. resolveFinalizationRecovery (f\<lparr>frf_outbox := (frf_outbox f)\<lparr>fof_exactRecoveryReceipt := Some r\<rparr>\<rparr>) = Inr e
    \<and> frd_operation e = ''exhausted'' \<and> frd_reason e = Some ''exact_recovery_consumed''"
proof -
  let ?b = "(frf_outbox f)\<lparr>fof_exactRecoveryReceipt := Some r\<rparr>"
  have "recoveryKey ?b = recoveryKey (frf_outbox f)" by (simp add: recoveryKey_def)
  then have consumed: "exact_recovery_consumed ?b"
    using assms(3) by (cases "fer_recoveryKey r") (simp_all add: exact_recovery_consumed_def)
  have "finalization_route f = (''exact-outbox-recovery'', None)"
    using assms(1,2) by (auto simp: resolve_route finalization_route_def Let_def split: if_splits)
  then have "finalization_route (f\<lparr>frf_outbox := ?b\<rparr>) = (''exhausted'', Some ''exact_recovery_consumed'')"
    using consumed
    by (simp add: finalization_route_def Let_def recoveryPending_def interrupted_sync_def split: if_splits) blast
  then show ?thesis by (simp add: resolve_route)
qed

theorem exact_recovery_once_witness:
  "\<exists>e. resolveFinalizationRecovery (sample_finalization\<lparr>frf_outbox := sample_outbox\<lparr>fof_exactRecoveryReceipt := Some sample_exact_receipt\<rparr>\<rparr>) = Inr e
    \<and> frd_operation e = ''exhausted''"
proof -
  have "resolveFinalizationRecovery sample_finalization =
      Inr \<lparr>frd_facts = sample_finalization, frd_operation = ''exact-outbox-recovery'', frd_reason = None\<rparr>"
    by (simp add: resolve_route sample_finalization_route)
  moreover have "recoveryKey (frf_outbox sample_finalization) = js_opt JStr (fer_recoveryKey sample_exact_receipt)"
    by (simp add: recoveryKey_def sample_finalization_def sample_outbox_def sample_exact_receipt_def)
  ultimately show ?thesis using exact_recovery_once [of sample_finalization _ sample_exact_receipt]
    by (fastforce simp: sample_finalization_def)
qed

text \<open>Every accepted outbox fact is consistent: a missing entry carries nothing, a persisted one has an identity
  and an Attempt, only a failed one has a failure, and a recovery receipt binds the same identity and
  Attempt.\<close>

definition wf_FinalizationOutboxFact :: "FinalizationOutboxFact \<Rightarrow> bool" where
  "wf_FinalizationOutboxFact b \<longleftrightarrow> fof_status b \<in> set OUTBOX_STATUSES
     \<and> (fof_status b = ''missing'' \<longleftrightarrow> fof_idempotencyKey b = None) \<and> (fof_status b = ''missing'' \<longleftrightarrow> fof_attempt b = 0)
     \<and> (fof_status b = ''failed'' \<longleftrightarrow> fof_failure b \<noteq> None)
     \<and> (\<forall>r. fof_exactRecoveryReceipt b = Some r \<longrightarrow> fof_idempotencyKey b = Some (fer_idempotencyKey r) \<and> fof_attempt b = fer_attempt r
          \<and> fof_status b \<noteq> ''missing'')"

theorem outbox_fact_consistent:
  assumes "new_FinalizationOutboxFact v = Inr b"
  shows "wf_FinalizationOutboxFact b"
proof -
  obtain k s a f r e where b: "b = \<lparr>fof_idempotencyKey = k, fof_status = s, fof_attempt = a, fof_failure = f, fof_recovery = r,
      fof_exactRecoveryReceipt = e\<rparr>" by (cases b) simp
  from assms obtain x where x: "s \<in> set OUTBOX_STATUSES" "\<not> (s = ''missing'' \<and> (k \<noteq> None \<or> a \<noteq> 0 \<or> x \<noteq> JNull))"
    "\<not> (s \<noteq> ''missing'' \<and> (k = None \<or> a < 1))" "outbox_failure s x = Inr f" "\<not> receipt_unbound e k a"
    unfolding new_FinalizationOutboxFact_def Let_def b by (auto split: if_splits simp del: de_Morgan_conj de_Morgan_disj)
  have "s = ''failed'' \<longleftrightarrow> f \<noteq> None" using x(4) by (auto simp: outbox_failure_def split: if_splits)
  with x show ?thesis
    by (cases e) (auto simp: wf_FinalizationOutboxFact_def b receipt_unbound_def)
qed

theorem outbox_fact_consistent_witness:
  "\<exists>b. new_FinalizationOutboxFact (JObj [(''idempotencyKey'', JStr ''k''), (''status'', JStr ''pending''), (''attempt'', JInt 2)]) = Inr b
    \<and> wf_FinalizationOutboxFact b"
proof -
  have "\<exists>b. new_FinalizationOutboxFact (JObj [(''idempotencyKey'', JStr ''k''), (''status'', JStr ''pending''), (''attempt'', JInt 2)]) = Inr b"
    by (simp add: new_FinalizationOutboxFact_def Let_def OUTBOX_STATUSES_def nullable_def js_string_def requireString_def js_trim_def
        js_ws_def max_safe_def outbox_failure_def receipt_unbound_def)
  then show ?thesis using outbox_fact_consistent by blast
qed

end
