(* ===== verification/Retry_Recovery.thy ===== *)
theory Retry_Recovery
  imports Gate_Decision
begin

section \<open>Recovery of an exhausted retry\<close>

text \<open>
  Models the retry recovery part of \<open>src/flow/definition.js\<close>: the bases on which an exhausted retry may
  be recovered, the typed blockers with their instructions, the plan, and \<open>resolveRetryRecovery\<close>.  The
  failure of an Activity is represented by the fields and getters of \<open>ActivityFailure\<close>
  (\<open>src/flow/lib/current-flow-state.js\<close>) that the resolver reads.
\<close>

subsection \<open>The failure of an Activity\<close>

record ProviderCompletion =
  pce_signal :: "string option"
  pce_confirmedQuiescence :: bool

record ActivityFailure =
  acf_category :: string
  acf_code :: string
  acf_retryable :: bool
  acf_retryKind :: "string option"
  acf_stopConfirmed :: "bool option"
  acf_completion :: "ProviderCompletion option"

definition confirmedTimeoutRecoveryBoundary :: "ActivityFailure \<Rightarrow> bool" where
  "confirmedTimeoutRecoveryBoundary f \<longleftrightarrow> acf_code f = ''AGENT_TIMEOUT'' \<and> acf_retryable f
     \<and> acf_retryKind f = Some ''tooling'' \<and> acf_stopConfirmed f = Some True"

definition retryableProviderCompletionBoundary :: "ActivityFailure \<Rightarrow> bool" where
  "retryableProviderCompletionBoundary f \<longleftrightarrow> acf_code f \<noteq> ''AGENT_TIMEOUT'' \<and> acf_retryable f
     \<and> acf_retryKind f = Some ''tooling'' \<and> (case acf_completion f of None \<Rightarrow> False | Some c \<Rightarrow> pce_signal c = None)"

definition confirmed_quiescence :: "ActivityFailure \<Rightarrow> bool" where
  "confirmed_quiescence f = (case acf_completion f of None \<Rightarrow> False | Some c \<Rightarrow> pce_confirmedQuiescence c)"

subsection \<open>Bases, blockers and plans\<close>

datatype retry_basis = ChangedInput | ConfirmedTimeout | TransientProvider

definition RetryRecoveryBasis_from :: "jsval \<Rightarrow> retry_basis res" where
  "RetryRecoveryBasis_from v =
     (if v = JStr ''changed-input'' then Inr ChangedInput
      else if v = JStr ''confirmed-timeout'' then Inr ConfirmedTimeout
      else if v = JStr ''transient-provider'' then Inr TransientProvider
      else Inl (Error ''retry recovery basis is invalid''))"

fun basis_value :: "retry_basis \<Rightarrow> string" where
  "basis_value ChangedInput = ''changed-input''"
| "basis_value ConfirmedTimeout = ''confirmed-timeout''"
| "basis_value TransientProvider = ''transient-provider''"

datatype retry_blocker =
    BaselineUnavailable
  | CurrentObservationUnavailable
  | CurrentArtifactPresent
  | TransientProviderConsumed
  | ConfirmedTimeoutConsumed
  | TaskSourceUnavailable
  | ProviderQuiescenceUnconfirmed
  | NonRecoverableFailure
  | UnchangedEvidenceUnsupported
  | StateChanged
  | NotActive

fun blocker_code :: "retry_blocker \<Rightarrow> string" where
  "blocker_code BaselineUnavailable = ''RETRY_RECOVERY_BASELINE_UNAVAILABLE''"
| "blocker_code CurrentObservationUnavailable = ''RETRY_RECOVERY_CURRENT_OBSERVATION_UNAVAILABLE''"
| "blocker_code CurrentArtifactPresent = ''RETRY_RECOVERY_CURRENT_ARTIFACT_PRESENT''"
| "blocker_code TransientProviderConsumed = ''RETRY_RECOVERY_TRANSIENT_PROVIDER_CONSUMED''"
| "blocker_code ConfirmedTimeoutConsumed = ''RETRY_RECOVERY_CONFIRMED_TIMEOUT_CONSUMED''"
| "blocker_code TaskSourceUnavailable = ''RETRY_RECOVERY_TASK_SOURCE_UNAVAILABLE''"
| "blocker_code ProviderQuiescenceUnconfirmed = ''RETRY_RECOVERY_PROVIDER_QUIESCENCE_UNCONFIRMED''"
| "blocker_code NonRecoverableFailure = ''RETRY_RECOVERY_NON_RECOVERABLE_FAILURE''"
| "blocker_code UnchangedEvidenceUnsupported = ''RETRY_RECOVERY_UNCHANGED_EVIDENCE_UNSUPPORTED''"
| "blocker_code StateChanged = ''RETRY_RECOVERY_STATE_CHANGED''"
| "blocker_code NotActive = ''RETRY_RECOVERY_NOT_ACTIVE''"

fun blocker_instruction :: "retry_blocker \<Rightarrow> string" where
  "blocker_instruction BaselineUnavailable =
     ''Restore the durable retry baseline through the canonical producer path, then refresh next-action. Do not manufacture a baseline or reset retry counters.''"
| "blocker_instruction CurrentObservationUnavailable =
     ''Restore the current canonical Review observation, then refresh next-action. Do not retry from an unobserved input.''"
| "blocker_instruction CurrentArtifactPresent =
     ''Settle the exact current Attempt through its normal artifact transition, then refresh next-action. Do not use exhausted retry recovery after publication.''"
| "blocker_instruction TransientProviderConsumed =
     ''Resolve the provider issue or change durable canonical input before a new recovery lineage can be considered. Do not reuse the consumed transient-provider recovery.''"
| "blocker_instruction ConfirmedTimeoutConsumed =
     ''Record changed canonical evidence before another recovery can be considered. Do not reuse the consumed confirmed-timeout recovery.''"
| "blocker_instruction TaskSourceUnavailable =
     ''Restore and verify the Task Review source observation through its canonical checkpoint, then refresh next-action. Do not reset retry counters or edit recovery evidence.''"
| "blocker_instruction ProviderQuiescenceUnconfirmed =
     ''Obtain trusted normal completion evidence with confirmed provider process-tree quiescence before considering unchanged-input recovery.''"
| "blocker_instruction NonRecoverableFailure =
     ''Repair the terminal failure or change canonical evidence, then follow the Definition-selected lifecycle transition. Do not apply exhausted retry recovery to this failure.''"
| "blocker_instruction UnchangedEvidenceUnsupported =
     ''Provide changed canonical evidence or the required trusted provider-stop evidence, then refresh next-action. Do not retry unchanged unsupported input.''"
| "blocker_instruction StateChanged =
     ''Refresh next-action from the latest canonical state before selecting a recovery.''"
| "blocker_instruction NotActive =
     ''Refresh next-action and follow the active canonical Attempt. No exhausted retry recovery is active for this state.''"

record RetryRecoveryPlan =
  rrp_basis :: "retry_basis option"
  rrp_reason :: string
  rrp_inputInvalid :: bool
  rrp_blocker :: "retry_blocker option"

definition new_RetryRecoveryPlan :: "retry_basis option \<Rightarrow> string \<Rightarrow> bool \<Rightarrow> retry_blocker option \<Rightarrow> RetryRecoveryPlan res" where
  "new_RetryRecoveryPlan basis reason inputInvalid blocker =
     (if js_trim reason = [] then Inl (Error ''retry recovery plan reason is required'')
      else if basis \<noteq> None \<and> (inputInvalid \<or> blocker \<noteq> None)
      then Inl (Error ''available retry recovery plan cannot reject its input'')
      else if basis = None \<and> blocker = None
      then Inl (Error ''unavailable retry recovery plan requires a typed blocker'')
      else Inr \<lparr>rrp_basis = basis, rrp_reason = js_trim reason, rrp_inputInvalid = inputInvalid, rrp_blocker = blocker\<rparr>)"

definition plan_blocked :: "string \<Rightarrow> retry_blocker \<Rightarrow> RetryRecoveryPlan res" where
  "plan_blocked reason blocker = new_RetryRecoveryPlan None reason False (Some blocker)"

definition plan_invalidInput :: "string \<Rightarrow> retry_blocker \<Rightarrow> RetryRecoveryPlan res" where
  "plan_invalidInput reason blocker = new_RetryRecoveryPlan None reason True (Some blocker)"

definition plan_available :: "retry_basis \<Rightarrow> string \<Rightarrow> RetryRecoveryPlan res" where
  "plan_available basis reason = new_RetryRecoveryPlan (Some basis) reason False None"

definition rrp_available :: "RetryRecoveryPlan \<Rightarrow> bool" where
  "rrp_available p \<longleftrightarrow> rrp_basis p \<noteq> None"

subsection \<open>The facts and the resolver\<close>

record RetryRecoveryDecisionFacts =
  rdf_failure :: ActivityFailure
  rdf_operation :: string
  rdf_remaining :: jsval
  rdf_routeKind :: string
  rdf_baselineAvailable :: bool
  rdf_currentObservationAvailable :: bool
  rdf_evidenceChanged :: bool
  rdf_currentArtifactPresent :: bool
  rdf_confirmedTimeoutConsumed :: bool
  rdf_transientProviderConsumed :: bool
  rdf_taskSourceAvailable :: bool

definition fact_flag :: "jsfields \<Rightarrow> string \<Rightarrow> bool res" where
  "fact_flag ob field = bool_or (Error (''retry recovery facts '' @ field @ '' must be boolean'')) (fld ob field)"

definition new_RetryRecoveryDecisionFacts :: "ActivityFailure \<Rightarrow> jsval \<Rightarrow> jsval \<Rightarrow> RetryRecoveryDecisionFacts res" where
  "new_RetryRecoveryDecisionFacts failure disposition arg = bindE (destructure arg) (\<lambda>ob.
     (case propq disposition ''operation'' of
        JStr operation \<Rightarrow>
          if fld ob ''routeKind'' \<noteq> JStr ''review'' \<and> fld ob ''routeKind'' \<noteq> JStr ''gate''
          then Inl (Error ''retry recovery facts route kind is invalid'') else
          bindE (fact_flag ob ''baselineAvailable'') (\<lambda>b.
          bindE (fact_flag ob ''currentObservationAvailable'') (\<lambda>co.
          bindE (fact_flag ob ''evidenceChanged'') (\<lambda>ec.
          bindE (fact_flag ob ''currentArtifactPresent'') (\<lambda>ca.
          bindE (fact_flag ob ''confirmedTimeoutConsumed'') (\<lambda>ct.
          bindE (fact_flag ob ''transientProviderConsumed'') (\<lambda>tp.
          bindE (fact_flag ob ''taskSourceAvailable'') (\<lambda>ts.
          Inr \<lparr>rdf_failure = failure, rdf_operation = operation, rdf_remaining = propq disposition ''remaining'',
               rdf_routeKind = (if fld ob ''routeKind'' = JStr ''review'' then ''review'' else ''gate''),
               rdf_baselineAvailable = b, rdf_currentObservationAvailable = co, rdf_evidenceChanged = ec,
               rdf_currentArtifactPresent = ca, rdf_confirmedTimeoutConsumed = ct, rdf_transientProviderConsumed = tp,
               rdf_taskSourceAvailable = ts\<rparr>)))))))
      | _ \<Rightarrow> Inl (Error ''retry recovery facts require a Definition disposition'')))"

definition recordableToolingFailure :: "RetryRecoveryDecisionFacts \<Rightarrow> bool" where
  "recordableToolingFailure f \<longleftrightarrow> rdf_operation f = ''record'' \<and> rdf_remaining f = JInt 0
     \<and> acf_category (rdf_failure f) \<in> {''tooling'', ''provider''}"

definition CHANGED_OR_TIMEOUT :: string where
  "CHANGED_OR_TIMEOUT = ''changed evidence must differ unless unchanged Review input has a trusted confirmed timeout with an observed provider stop''"

text \<open>The part of the resolver after the checks of the recovery lineage.\<close>

definition resolve_unpublished :: "RetryRecoveryDecisionFacts \<Rightarrow> RetryRecoveryPlan res" where
  "resolve_unpublished f =
     (let x = rdf_failure f; review = (rdf_routeKind f = ''review'') in
      if \<not> rdf_evidenceChanged f \<and> acf_code x \<noteq> ''AGENT_TIMEOUT'' \<and> \<not> acf_retryable x
      then plan_blocked ''the current terminal failure does not authorize unchanged exhausted tooling recovery'' NonRecoverableFailure
      else if \<not> rdf_evidenceChanged f \<and> review \<and> acf_code x = ''AGENT_TIMEOUT'' \<and> acf_stopConfirmed x \<noteq> Some True
      then plan_invalidInput CHANGED_OR_TIMEOUT UnchangedEvidenceUnsupported
      else if \<not> recordableToolingFailure f
      then plan_blocked ''the Definition disposition does not authorize exhausted tooling recovery; trusted confirmed timeout evidence is required for unchanged Review input'' NonRecoverableFailure
      else if review \<and> retryableProviderCompletionBoundary x \<and> confirmed_quiescence x
      then plan_available TransientProvider ''A transient provider failure completed without publishing a Review artifact.''
      else if review \<and> retryableProviderCompletionBoundary x
      then plan_invalidInput ''unchanged transient provider recovery requires trusted normal completion evidence with confirmed process-tree quiescence'' ProviderQuiescenceUnconfirmed
      else if \<not> (review \<and> acf_code x = ''AGENT_TIMEOUT'' \<and> acf_retryable x \<and> acf_retryKind x = Some ''tooling'' \<and> acf_stopConfirmed x = Some True)
      then plan_invalidInput CHANGED_OR_TIMEOUT UnchangedEvidenceUnsupported
      else plan_available ConfirmedTimeout ''Confirmed provider timeout stopped before publishing a Review artifact.'')"

definition resolveRetryRecovery :: "RetryRecoveryDecisionFacts \<Rightarrow> RetryRecoveryPlan res" where
  "resolveRetryRecovery f =
     (if \<not> rdf_baselineAvailable f then plan_blocked ''durable retry baseline is unavailable'' BaselineUnavailable
      else if acf_category (rdf_failure f) = ''semantic''
      then plan_blocked ''exhausted retry recovery is limited to tooling failures with changed evidence'' NonRecoverableFailure
      else if \<not> rdf_currentObservationAvailable f
      then plan_blocked ''current retry recovery observation is unavailable'' CurrentObservationUnavailable
      else if rdf_transientProviderConsumed f
      then plan_blocked ''transient provider recovery already consumed this evidence lineage'' TransientProviderConsumed
      else if rdf_confirmedTimeoutConsumed f
      then plan_blocked ''confirmed timeout recovery already consumed this evidence lineage'' ConfirmedTimeoutConsumed
      else if \<not> rdf_taskSourceAvailable f
      then plan_blocked ''Task Review source observation is unavailable'' TaskSourceUnavailable
      else if rdf_evidenceChanged f \<and> recordableToolingFailure f
      then plan_available ChangedInput ''Parent-derived canonical evidence changed.''
      else if rdf_currentArtifactPresent f
      then plan_blocked ''current Attempt canonical Review artifact is already present'' CurrentArtifactPresent
      else resolve_unpublished f)"

subsection \<open>Properties\<close>

lemma plan_reasons:
  "js_trim ''durable retry baseline is unavailable'' \<noteq> []" "js_trim CHANGED_OR_TIMEOUT \<noteq> []"
  by (simp_all add: js_trim_def js_ws_def CHANGED_OR_TIMEOUT_def)

lemma plan_simps:
  "js_trim r \<noteq> [] \<Longrightarrow> plan_blocked r b = Inr \<lparr>rrp_basis = None, rrp_reason = js_trim r, rrp_inputInvalid = False, rrp_blocker = Some b\<rparr>"
  "js_trim r \<noteq> [] \<Longrightarrow> plan_invalidInput r b = Inr \<lparr>rrp_basis = None, rrp_reason = js_trim r, rrp_inputInvalid = True, rrp_blocker = Some b\<rparr>"
  "js_trim r \<noteq> [] \<Longrightarrow> plan_available k r = Inr \<lparr>rrp_basis = Some k, rrp_reason = js_trim r, rrp_inputInvalid = False, rrp_blocker = None\<rparr>"
  by (simp_all add: plan_blocked_def plan_invalidInput_def plan_available_def new_RetryRecoveryPlan_def)

text \<open>A plan offers a basis or names a blocker, never both.\<close>

definition plan_of_basis :: "retry_basis option \<Rightarrow> RetryRecoveryPlan res \<Rightarrow> bool" where
  "plan_of_basis k R \<longleftrightarrow> (\<exists>p. R = Inr p \<and> rrp_basis p = k \<and> (rrp_blocker p = None \<longleftrightarrow> k \<noteq> None) \<and> (k \<noteq> None \<longrightarrow> \<not> rrp_inputInvalid p))"

lemma plan_of_basis_intros:
  "js_trim r \<noteq> [] \<Longrightarrow> plan_of_basis None (plan_blocked r b)" "js_trim r \<noteq> [] \<Longrightarrow> plan_of_basis None (plan_invalidInput r b)"
  "js_trim r \<noteq> [] \<Longrightarrow> plan_of_basis (Some k) (plan_available k r)"
  by (simp_all add: plan_of_basis_def plan_simps)

lemma nonblank_text: "\<not> js_ws c \<Longrightarrow> js_trim (c # s) \<noteq> []"
proof -
  assume "\<not> js_ws c"
  then have "dropWhile js_ws (rev s @ [c]) \<noteq> []" by (simp add: dropWhile_append)
  then show ?thesis using \<open>\<not> js_ws c\<close> by (simp add: js_trim_def)
qed

definition recovery_admissible :: "RetryRecoveryDecisionFacts \<Rightarrow> bool" where
  "recovery_admissible f \<longleftrightarrow> rdf_baselineAvailable f \<and> acf_category (rdf_failure f) \<in> {''tooling'', ''provider''}
     \<and> rdf_operation f = ''record'' \<and> rdf_remaining f = JInt 0
     \<and> rdf_currentObservationAvailable f \<and> \<not> rdf_transientProviderConsumed f \<and> \<not> rdf_confirmedTimeoutConsumed f
     \<and> rdf_taskSourceAvailable f"

definition recovery_basis :: "RetryRecoveryDecisionFacts \<Rightarrow> retry_basis option" where
  "recovery_basis f =
     (if \<not> recovery_admissible f then None
      else if rdf_evidenceChanged f then Some ChangedInput
      else if rdf_currentArtifactPresent f \<or> rdf_routeKind f \<noteq> ''review'' then None
      else if retryableProviderCompletionBoundary (rdf_failure f) \<and> confirmed_quiescence (rdf_failure f) then Some TransientProvider
      else if confirmedTimeoutRecoveryBoundary (rdf_failure f) then Some ConfirmedTimeout
      else None)"

lemma unpublished_basis:
  assumes "\<not> rdf_evidenceChanged f \<or> \<not> recordableToolingFailure f"
  shows "plan_of_basis
    (if \<not> recordableToolingFailure f \<or> rdf_routeKind f \<noteq> ''review'' then None
     else if retryableProviderCompletionBoundary (rdf_failure f) \<and> confirmed_quiescence (rdf_failure f) then Some TransientProvider
     else if confirmedTimeoutRecoveryBoundary (rdf_failure f) then Some ConfirmedTimeout else None)
    (resolve_unpublished f)"
  using assms plan_reasons(2)
  by (auto simp: resolve_unpublished_def Let_def plan_of_basis_intros nonblank_text js_ws_def
      retryableProviderCompletionBoundary_def confirmedTimeoutRecoveryBoundary_def)

lemma recovery_basis_cases:
  "plan_of_basis (recovery_basis f) (resolveRetryRecovery f)"
proof (cases "rdf_baselineAvailable f \<and> acf_category (rdf_failure f) \<noteq> ''semantic'' \<and> rdf_currentObservationAvailable f
    \<and> \<not> rdf_transientProviderConsumed f \<and> \<not> rdf_confirmedTimeoutConsumed f \<and> rdf_taskSourceAvailable f")
  case False
  then have "recovery_basis f = None" by (auto simp: recovery_basis_def recovery_admissible_def)
  with False show ?thesis
    by (simp add: resolveRetryRecovery_def plan_of_basis_intros nonblank_text js_ws_def) blast
next
  case True
  then have adm: "recovery_admissible f \<longleftrightarrow> recordableToolingFailure f"
    by (auto simp: recovery_admissible_def recordableToolingFailure_def)
  show ?thesis
  proof (cases "rdf_evidenceChanged f \<and> recordableToolingFailure f")
    case changed: True
    then show ?thesis using True
      by (simp add: resolveRetryRecovery_def recovery_basis_def adm plan_of_basis_intros nonblank_text js_ws_def)
  next
    case False
    then have un: "\<not> rdf_evidenceChanged f \<or> \<not> recordableToolingFailure f" by blast
    show ?thesis
    proof (cases "rdf_currentArtifactPresent f")
      case pub: True
      have "recovery_basis f = None" using un pub by (auto simp: recovery_basis_def adm)
      then show ?thesis using True pub False
        by (simp add: resolveRetryRecovery_def plan_of_basis_intros nonblank_text js_ws_def) blast
    next
      case unpub: False
      have "resolveRetryRecovery f = resolve_unpublished f" using True False unpub by (auto simp: resolveRetryRecovery_def)
      then show ?thesis using unpublished_basis [OF un] un unpub by (auto simp: recovery_basis_def adm)
    qed
  qed
qed

text \<open>Claim C27.  The recovery of an exhausted retry is decided for all facts, and the offered basis is exactly the one the
  evidence supports: changed input for an admissible failure, otherwise, for an unpublished Review, a
  provider that completed with confirmed quiescence or a timeout with a confirmed process stop; all other
  facts are refused with a typed blocker.\<close>

theorem retry_recovery_exact:
  "\<exists>p. resolveRetryRecovery f = Inr p \<and> rrp_basis p = recovery_basis f \<and> (rrp_blocker p = None \<longleftrightarrow> rrp_available p)
    \<and> (rrp_available p \<longrightarrow> \<not> rrp_inputInvalid p)"
  using recovery_basis_cases [of f] by (auto simp: plan_of_basis_def rrp_available_def)

text \<open>Claim C28.  An unchanged input is never retried twice on the same lineage: a plan is offered only while neither the
  confirmed-timeout nor the transient-provider recovery of the lineage is consumed, only for tooling or
  provider failures with no retries left, and without changed evidence only before the Review artifact
  is published and with trusted proof that the provider stopped.\<close>

theorem retry_recovery_safety:
  assumes "resolveRetryRecovery f = Inr p" "rrp_available p"
  shows "\<not> rdf_transientProviderConsumed f \<and> \<not> rdf_confirmedTimeoutConsumed f \<and> rdf_baselineAvailable f
    \<and> acf_category (rdf_failure f) \<noteq> ''semantic'' \<and> rdf_remaining f = JInt 0
    \<and> (rdf_evidenceChanged f \<or> \<not> rdf_currentArtifactPresent f \<and> rdf_routeKind f = ''review'' \<and> acf_retryable (rdf_failure f)
        \<and> (acf_stopConfirmed (rdf_failure f) = Some True \<or> confirmed_quiescence (rdf_failure f)))"
proof -
  from assms recovery_basis_cases [of f] have "recovery_basis f \<noteq> None" by (auto simp: plan_of_basis_def rrp_available_def)
  then show ?thesis
    by (auto simp: recovery_basis_def recovery_admissible_def retryableProviderCompletionBoundary_def
        confirmedTimeoutRecoveryBoundary_def split: if_splits)
qed

definition sample_timeout :: RetryRecoveryDecisionFacts where
  "sample_timeout = \<lparr>rdf_failure = \<lparr>acf_category = ''provider'', acf_code = ''AGENT_TIMEOUT'', acf_retryable = True,
       acf_retryKind = Some ''tooling'', acf_stopConfirmed = Some True, acf_completion = None\<rparr>,
     rdf_operation = ''record'', rdf_remaining = JInt 0, rdf_routeKind = ''review'', rdf_baselineAvailable = True,
     rdf_currentObservationAvailable = True, rdf_evidenceChanged = False, rdf_currentArtifactPresent = False,
     rdf_confirmedTimeoutConsumed = False, rdf_transientProviderConsumed = False, rdf_taskSourceAvailable = True\<rparr>"

theorem retry_recovery_exact_witness:
  "\<exists>p. resolveRetryRecovery sample_timeout = Inr p \<and> rrp_basis p = Some ConfirmedTimeout"
proof -
  have "recovery_basis sample_timeout = Some ConfirmedTimeout"
    by (simp add: sample_timeout_def recovery_basis_def recovery_admissible_def retryableProviderCompletionBoundary_def
        confirmedTimeoutRecoveryBoundary_def)
  with retry_recovery_exact [of sample_timeout] show ?thesis by auto
qed

theorem retry_recovery_safety_witness:
  "\<exists>p. resolveRetryRecovery sample_timeout = Inr p \<and> rrp_available p \<and> acf_retryable (rdf_failure sample_timeout)"
proof -
  have "recovery_basis sample_timeout = Some ConfirmedTimeout"
    by (simp add: sample_timeout_def recovery_basis_def recovery_admissible_def retryableProviderCompletionBoundary_def
        confirmedTimeoutRecoveryBoundary_def)
  then obtain p where "resolveRetryRecovery sample_timeout = Inr p" "rrp_available p"
    using recovery_basis_cases [of sample_timeout] by (auto simp: plan_of_basis_def rrp_available_def)
  with retry_recovery_safety [of sample_timeout p] show ?thesis by (auto simp: sample_timeout_def)
qed

end
