(* ===== verification/Non_Gate_Facts.thy ===== *)
theory Non_Gate_Facts
  imports Gate_Facts
begin

section \<open>Facts of the steps that are not Gates\<close>

text \<open>
  Models the value classes of \<open>src/flow/lib/non-gate-transition.js\<close>: Attempt identity, catalog
  publications, the lineage that binds source, canonical and repair evidence to one revision, recovery
  evidence, completion, retry metrics, producer ownership and target binding.  The validators of that
  file have the same bodies and messages as those of \<open>gate-transition.js\<close> and are shared with it
  (\<open>gt_text\<close>, \<open>gt_optional\<close>, \<open>positiveInteger\<close>, \<open>nonNegativeInteger\<close>).  Each class has its validating
  constructor, its \<open>toJSON\<close> and the codec law; an argument that is already an instance of the class is
  not a separate case.
\<close>

definition NON_GATE_RECOVERY_KINDS :: "string list" where
  "NON_GATE_RECOVERY_KINDS = [''none'', ''retry'', ''repair'', ''record-and-proceed'', ''park'']"

lemma recovery_kind_text [simp]: "k \<in> set NON_GATE_RECOVERY_KINDS \<Longrightarrow> is_text k"
proof -
  have "list_all is_text NON_GATE_RECOVERY_KINDS"
    by (simp add: NON_GATE_RECOVERY_KINDS_def is_text_def js_trim_def js_ws_def)
  then show "k \<in> set NON_GATE_RECOVERY_KINDS \<Longrightarrow> is_text k" by (simp add: list_all_iff)
qed

definition plainObject :: "string \<Rightarrow> jsval \<Rightarrow> jsfields res" where
  "plainObject field = object_or (Error (field @ '' must be a plain object''))"

lemma plainObject_simps [simp]:
  "plainObject f (JObj ob) = Inr ob"
  "plainObject f v = Inr ob \<longleftrightarrow> v = JObj ob"
  by (simp_all add: plainObject_def)

subsection \<open>Attempts and publications\<close>

record NonGateAttemptIdentity =
  nai_id :: string
  nai_sequence :: nat

definition new_NonGateAttemptIdentity :: "jsval \<Rightarrow> NonGateAttemptIdentity res" where
  "new_NonGateAttemptIdentity arg = bindE (destructure arg) (\<lambda>ob.
     bindE (gt_text ''non-Gate Attempt id'' (fld ob ''id'')) (\<lambda>i.
     bindE (positiveInteger ''non-Gate Attempt sequence'' (fld ob ''sequence'')) (\<lambda>s.
     Inr \<lparr>nai_id = i, nai_sequence = s\<rparr>)))"

definition nai_matches :: "NonGateAttemptIdentity \<Rightarrow> NonGateAttemptIdentity \<Rightarrow> bool" where
  "nai_matches a b \<longleftrightarrow> nai_id a = nai_id b \<and> nai_sequence a = nai_sequence b"

definition NonGateAttemptIdentity_toJSON :: "NonGateAttemptIdentity \<Rightarrow> jsval" where
  "NonGateAttemptIdentity_toJSON a = JObj [(''id'', JStr (nai_id a)), (''sequence'', JInt (int (nai_sequence a)))]"

definition wf_NonGateAttemptIdentity :: "NonGateAttemptIdentity \<Rightarrow> bool" where
  "wf_NonGateAttemptIdentity a \<longleftrightarrow> is_text (nai_id a) \<and> is_safe (nai_sequence a) \<and> 1 \<le> nai_sequence a"

lemma nai_matches_eq [simp]: "nai_matches a b \<longleftrightarrow> a = (b :: NonGateAttemptIdentity)"
  by (auto simp: nai_matches_def)

interpretation ng_attempt: json_codec new_NonGateAttemptIdentity wf_NonGateAttemptIdentity NonGateAttemptIdentity_toJSON
  by unfold_locales
    (auto simp: new_NonGateAttemptIdentity_def wf_NonGateAttemptIdentity_def NonGateAttemptIdentity_toJSON_def
      dest: gate_wfs)

text \<open>\<open>NonGateSourcePublication\<close> and \<open>NonGateRepairPublication\<close> are subclasses without members of their
  own; the three share this record.\<close>

record NonGateCatalogPublication =
  ncp_runId :: string
  ncp_specId :: string
  ncp_stepId :: string
  ncp_attempt :: NonGateAttemptIdentity
  ncp_producerActivityId :: string
  ncp_artifactId :: string
  ncp_fingerprint :: string

definition new_NonGateCatalogPublication :: "jsval \<Rightarrow> NonGateCatalogPublication res" where
  "new_NonGateCatalogPublication arg = bindE (destructure arg) (\<lambda>ob.
     bindE (gt_text ''non-Gate catalog runId'' (fld ob ''runId'')) (\<lambda>r.
     bindE (gt_text ''non-Gate catalog specId'' (fld ob ''specId'')) (\<lambda>s.
     bindE (gt_text ''non-Gate catalog producer stepId'' (fld ob ''stepId'')) (\<lambda>st.
     bindE (new_NonGateAttemptIdentity (JObj [(''id'', fld ob ''attemptId''), (''sequence'', fld ob ''sequence'')])) (\<lambda>a.
     bindE (gt_text ''non-Gate catalog producer activityId'' (fld ob ''producerActivityId'')) (\<lambda>p.
     bindE (gt_text ''non-Gate catalog artifactId'' (fld ob ''artifactId'')) (\<lambda>i.
     bindE (gt_text ''non-Gate catalog fingerprint'' (fld ob ''fingerprint'')) (\<lambda>f.
     Inr \<lparr>ncp_runId = r, ncp_specId = s, ncp_stepId = st, ncp_attempt = a, ncp_producerActivityId = p,
          ncp_artifactId = i, ncp_fingerprint = f\<rparr>))))))))"

definition NonGateCatalogPublication_toJSON :: "NonGateCatalogPublication \<Rightarrow> jsval" where
  "NonGateCatalogPublication_toJSON p = JObj
     [(''runId'', JStr (ncp_runId p)), (''specId'', JStr (ncp_specId p)), (''stepId'', JStr (ncp_stepId p)),
      (''attemptId'', JStr (nai_id (ncp_attempt p))), (''sequence'', JInt (int (nai_sequence (ncp_attempt p)))),
      (''producerActivityId'', JStr (ncp_producerActivityId p)), (''artifactId'', JStr (ncp_artifactId p)),
      (''fingerprint'', JStr (ncp_fingerprint p))]"

definition wf_NonGateCatalogPublication :: "NonGateCatalogPublication \<Rightarrow> bool" where
  "wf_NonGateCatalogPublication p \<longleftrightarrow> is_text (ncp_runId p) \<and> is_text (ncp_specId p) \<and> is_text (ncp_stepId p) \<and>
     wf_NonGateAttemptIdentity (ncp_attempt p) \<and> is_text (ncp_producerActivityId p) \<and>
     is_text (ncp_artifactId p) \<and> is_text (ncp_fingerprint p)"

interpretation ng_catalog: json_codec new_NonGateCatalogPublication wf_NonGateCatalogPublication
  NonGateCatalogPublication_toJSON
proof (unfold_locales, goal_cases)
  case (1 v x)
  then show ?case
    by (auto simp: new_NonGateCatalogPublication_def wf_NonGateCatalogPublication_def dest: ng_attempt.mk_wf)
next
  case (2 x)
  then show ?case using ng_attempt.mk_js [of "ncp_attempt x"]
    by (simp add: new_NonGateCatalogPublication_def wf_NonGateCatalogPublication_def NonGateCatalogPublication_toJSON_def
        NonGateAttemptIdentity_toJSON_def)
qed (simp add: NonGateCatalogPublication_toJSON_def)

subsection \<open>Lineage and recovery evidence\<close>

record NonGateLineage =
  nln_sourceAttempt :: NonGateAttemptIdentity
  nln_canonicalAttempt :: NonGateAttemptIdentity
  nln_sourceFingerprint :: string
  nln_canonicalFingerprint :: string
  nln_sourceRevisionFingerprint :: "string option"
  nln_canonicalRevisionFingerprint :: "string option"
  nln_repairAttempt :: "NonGateAttemptIdentity option"
  nln_repairFingerprint :: "string option"
  nln_repairRevisionFingerprint :: "string option"

text \<open>The presence rules of the repair binding at the end of the constructor, in order.\<close>

definition lineage_refusal :: "bool \<Rightarrow> bool \<Rightarrow> bool \<Rightarrow> bool \<Rightarrow> string option" where
  "lineage_refusal sourceRevision attempt fp revision =
     (if attempt \<noteq> fp then Some ''non-Gate repair lineage requires Attempt and fingerprint together''
      else if \<not> attempt \<and> revision then Some ''empty non-Gate repair lineage must not carry a revision binding''
      else if attempt \<and> sourceRevision \<and> \<not> revision
      then Some ''revision-bound non-Gate repair lineage requires a repair revision binding''
      else if attempt \<and> \<not> sourceRevision \<and> revision
      then Some ''physical non-Gate repair lineage must not carry a revision binding''
      else None)"

definition new_NonGateLineage :: "jsval \<Rightarrow> NonGateLineage res" where
  "new_NonGateLineage arg = bindE (destructure arg) (\<lambda>ob.
     bindE (new_NonGateAttemptIdentity (fld ob ''sourceAttempt'')) (\<lambda>sa.
     bindE (new_NonGateAttemptIdentity (fld ob ''canonicalAttempt'')) (\<lambda>ca.
     bindE (gt_text ''non-Gate source fingerprint'' (fld ob ''sourceFingerprint'')) (\<lambda>sf.
     bindE (gt_text ''non-Gate canonical fingerprint'' (fld ob ''canonicalFingerprint'')) (\<lambda>cf.
     bindE (gt_optional ''non-Gate source revision fingerprint'' (fld ob ''sourceRevisionFingerprint'')) (\<lambda>sr.
     bindE (gt_optional ''non-Gate canonical revision fingerprint'' (fld ob ''canonicalRevisionFingerprint'')) (\<lambda>cr.
     if (sr = None) \<noteq> (cr = None) then Inl (Error ''non-Gate lineage revision bindings must be present together'') else
     bindE (nullish new_NonGateAttemptIdentity (fld ob ''repairAttempt'')) (\<lambda>ra.
     bindE (gt_optional ''non-Gate repair fingerprint'' (fld ob ''repairFingerprint'')) (\<lambda>rf.
     bindE (gt_optional ''non-Gate repair revision fingerprint'' (fld ob ''repairRevisionFingerprint'')) (\<lambda>rr.
     case lineage_refusal (sr \<noteq> None) (ra \<noteq> None) (rf \<noteq> None) (rr \<noteq> None) of
       Some message \<Rightarrow> Inl (Error message)
     | None \<Rightarrow> Inr \<lparr>nln_sourceAttempt = sa, nln_canonicalAttempt = ca, nln_sourceFingerprint = sf,
         nln_canonicalFingerprint = cf, nln_sourceRevisionFingerprint = sr, nln_canonicalRevisionFingerprint = cr,
         nln_repairAttempt = ra, nln_repairFingerprint = rf, nln_repairRevisionFingerprint = rr\<rparr>))))))))))"

definition nln_isCurrent :: "NonGateLineage \<Rightarrow> bool" where
  "nln_isCurrent l \<longleftrightarrow>
     (if nln_sourceRevisionFingerprint l = None then nln_sourceFingerprint l = nln_canonicalFingerprint l
      else nln_sourceRevisionFingerprint l = nln_canonicalRevisionFingerprint l)
     \<and> (nln_repairAttempt l = None \<or>
        (if nln_sourceRevisionFingerprint l = None then nln_repairFingerprint l = Some (nln_canonicalFingerprint l)
         else nln_repairRevisionFingerprint l = nln_canonicalRevisionFingerprint l))"

definition NonGateLineage_toJSON :: "NonGateLineage \<Rightarrow> jsval" where
  "NonGateLineage_toJSON l = JObj
     [(''sourceAttempt'', NonGateAttemptIdentity_toJSON (nln_sourceAttempt l)),
      (''canonicalAttempt'', NonGateAttemptIdentity_toJSON (nln_canonicalAttempt l)),
      (''sourceFingerprint'', JStr (nln_sourceFingerprint l)),
      (''canonicalFingerprint'', JStr (nln_canonicalFingerprint l)),
      (''sourceRevisionFingerprint'', js_opt JStr (nln_sourceRevisionFingerprint l)),
      (''canonicalRevisionFingerprint'', js_opt JStr (nln_canonicalRevisionFingerprint l)),
      (''repairAttempt'', js_opt NonGateAttemptIdentity_toJSON (nln_repairAttempt l)),
      (''repairFingerprint'', js_opt JStr (nln_repairFingerprint l)),
      (''repairRevisionFingerprint'', js_opt JStr (nln_repairRevisionFingerprint l))]"

definition wf_NonGateLineage :: "NonGateLineage \<Rightarrow> bool" where
  "wf_NonGateLineage l \<longleftrightarrow> wf_NonGateAttemptIdentity (nln_sourceAttempt l) \<and>
     wf_NonGateAttemptIdentity (nln_canonicalAttempt l) \<and>
     is_text (nln_sourceFingerprint l) \<and> is_text (nln_canonicalFingerprint l) \<and>
     pred_option is_text (nln_sourceRevisionFingerprint l) \<and> pred_option is_text (nln_canonicalRevisionFingerprint l) \<and>
     pred_option wf_NonGateAttemptIdentity (nln_repairAttempt l) \<and> pred_option is_text (nln_repairFingerprint l) \<and>
     pred_option is_text (nln_repairRevisionFingerprint l) \<and>
     (nln_sourceRevisionFingerprint l = None \<longleftrightarrow> nln_canonicalRevisionFingerprint l = None) \<and>
     (nln_repairAttempt l = None \<longleftrightarrow> nln_repairFingerprint l = None) \<and>
     (nln_repairRevisionFingerprint l \<noteq> None \<longleftrightarrow> nln_repairAttempt l \<noteq> None \<and> nln_sourceRevisionFingerprint l \<noteq> None)"

lemma lineage_refusal_None:
  "lineage_refusal sr a f r = None \<longleftrightarrow> a = f \<and> (r \<longleftrightarrow> a \<and> sr)"
  by (auto simp: lineage_refusal_def)

lemma unless_refused:
  "(case r of Some m \<Rightarrow> Inl (Error m) | None \<Rightarrow> Inr x) = Inr y \<longleftrightarrow> r = None \<and> x = y"
  by (simp split: option.split)

interpretation ng_lineage: json_codec new_NonGateLineage wf_NonGateLineage NonGateLineage_toJSON
proof (unfold_locales, goal_cases)
  case (1 v x)
  then show ?case
    unfolding new_NonGateLineage_def
    by (auto simp: wf_NonGateLineage_def lineage_refusal_None unless_refused split: if_splits
        dest!: gate_wfs ng_attempt.mk_wf ng_attempt.nullish_mk_wf)
next
  case (2 x)
  then show ?case
    by (auto simp: new_NonGateLineage_def wf_NonGateLineage_def NonGateLineage_toJSON_def ng_attempt.mk_js
        ng_attempt.nullish_mk_js lineage_refusal_None unless_refused)
qed (simp add: NonGateLineage_toJSON_def)

record NonGateRecoveryEvidence =
  nre_kind :: string
  nre_attempt :: "NonGateAttemptIdentity option"
  nre_fingerprint :: "string option"

definition new_NonGateRecoveryEvidence :: "jsval \<Rightarrow> NonGateRecoveryEvidence res" where
  "new_NonGateRecoveryEvidence arg = bindE (destructure arg) (\<lambda>ob.
     bindE (gt_literal NON_GATE_RECOVERY_KINDS ''non-Gate recovery kind'' ''non-Gate recovery kind is invalid''
              (fld_or ob ''kind'' (JStr ''none''))) (\<lambda>k.
     bindE (nullish new_NonGateAttemptIdentity (fld ob ''attempt'')) (\<lambda>a.
     bindE (gt_optional ''non-Gate recovery fingerprint'' (fld ob ''fingerprint'')) (\<lambda>f.
     if (k = ''none'') \<noteq> (a = None \<and> f = None)
     then Inl (Error ''empty non-Gate recovery evidence must not carry a binding'')
     else if k \<noteq> ''none'' \<and> (a = None \<or> f = None)
     then Inl (Error ''non-Gate recovery evidence requires Attempt and fingerprint'')
     else Inr \<lparr>nre_kind = k, nre_attempt = a, nre_fingerprint = f\<rparr>))))"

definition nre_isBoundTo :: "NonGateRecoveryEvidence \<Rightarrow> NonGateLineage \<Rightarrow> bool" where
  "nre_isBoundTo e l = (case nre_attempt e of
     None \<Rightarrow> True
   | Some a \<Rightarrow>
       (case nln_repairAttempt l of
          Some ra \<Rightarrow>
            if nre_kind e = ''repair'' then nai_matches a ra \<and> nre_fingerprint e = nln_repairFingerprint l
            else nai_matches a (nln_canonicalAttempt l) \<and> nre_fingerprint e = Some (nln_canonicalFingerprint l)
        | None \<Rightarrow> nai_matches a (nln_canonicalAttempt l) \<and> nre_fingerprint e = Some (nln_canonicalFingerprint l)))"

definition NonGateRecoveryEvidence_toJSON :: "NonGateRecoveryEvidence \<Rightarrow> jsval" where
  "NonGateRecoveryEvidence_toJSON e = JObj
     [(''kind'', JStr (nre_kind e)), (''attempt'', js_opt NonGateAttemptIdentity_toJSON (nre_attempt e)),
      (''fingerprint'', js_opt JStr (nre_fingerprint e))]"

definition wf_NonGateRecoveryEvidence :: "NonGateRecoveryEvidence \<Rightarrow> bool" where
  "wf_NonGateRecoveryEvidence e \<longleftrightarrow> nre_kind e \<in> set NON_GATE_RECOVERY_KINDS \<and>
     pred_option wf_NonGateAttemptIdentity (nre_attempt e) \<and> pred_option is_text (nre_fingerprint e) \<and>
     (nre_attempt e = None \<longleftrightarrow> nre_kind e = ''none'') \<and> (nre_fingerprint e = None \<longleftrightarrow> nre_kind e = ''none'')"

interpretation ng_recovery: json_codec new_NonGateRecoveryEvidence wf_NonGateRecoveryEvidence
  NonGateRecoveryEvidence_toJSON
proof (unfold_locales, goal_cases)
  case (1 v x)
  then show ?case
    unfolding new_NonGateRecoveryEvidence_def
    by (auto simp: wf_NonGateRecoveryEvidence_def dest: gate_wfs ng_attempt.nullish_mk_wf split: if_splits)
next
  case (2 x)
  then show ?case
    by (auto simp: new_NonGateRecoveryEvidence_def wf_NonGateRecoveryEvidence_def NonGateRecoveryEvidence_toJSON_def
        ng_attempt.nullish_mk_js split: if_splits)
qed (simp add: NonGateRecoveryEvidence_toJSON_def)

subsection \<open>Completion and retries\<close>

record NonGateCompletionFacts =
  ncf_completed :: bool
  ncf_partial :: bool

definition new_NonGateCompletionFacts :: "jsval \<Rightarrow> NonGateCompletionFacts res" where
  "new_NonGateCompletionFacts arg = bindE (destructure arg) (\<lambda>ob.
     bindE (bool_or (Error ''non-Gate completion facts must be boolean'') (fld_or ob ''completed'' (JBool False))) (\<lambda>c.
     bindE (bool_or (Error ''non-Gate completion facts must be boolean'') (fld_or ob ''partial'' (JBool False))) (\<lambda>p.
     if c \<and> p then Inl (Error ''completed non-Gate facts cannot be partial'')
     else Inr \<lparr>ncf_completed = c, ncf_partial = p\<rparr>)))"

definition ncf_refusalReason :: "NonGateCompletionFacts \<Rightarrow> string option" where
  "ncf_refusalReason c = (if ncf_partial c then Some ''partial_completion''
     else if ncf_completed c then None else Some ''completion_unconfirmed'')"

definition NonGateCompletionFacts_toJSON :: "NonGateCompletionFacts \<Rightarrow> jsval" where
  "NonGateCompletionFacts_toJSON c = JObj [(''completed'', JBool (ncf_completed c)), (''partial'', JBool (ncf_partial c))]"

definition wf_NonGateCompletionFacts :: "NonGateCompletionFacts \<Rightarrow> bool" where
  "wf_NonGateCompletionFacts c \<longleftrightarrow> \<not> (ncf_completed c \<and> ncf_partial c)"

interpretation ng_completion: json_codec new_NonGateCompletionFacts wf_NonGateCompletionFacts
  NonGateCompletionFacts_toJSON
  by unfold_locales
    (auto simp: new_NonGateCompletionFacts_def wf_NonGateCompletionFacts_def NonGateCompletionFacts_toJSON_def
      split: if_splits)

record NonGateRetryMetrics =
  nrm_used :: nat
  nrm_maximum :: nat

definition new_NonGateRetryMetrics :: "jsval \<Rightarrow> NonGateRetryMetrics res" where
  "new_NonGateRetryMetrics arg = bindE (destructure arg) (\<lambda>ob.
     bindE (nonNegativeInteger ''non-Gate retry used'' (fld_or ob ''used'' (JInt 0))) (\<lambda>u.
     bindE (positiveInteger ''non-Gate retry maximum'' (fld_or ob ''maximum'' (JInt 1))) (\<lambda>m.
     Inr \<lparr>nrm_used = u, nrm_maximum = m\<rparr>)))"

definition nrm_exhausted :: "NonGateRetryMetrics \<Rightarrow> bool" where
  "nrm_exhausted r \<longleftrightarrow> nrm_used r \<ge> nrm_maximum r"

definition NonGateRetryMetrics_toJSON :: "NonGateRetryMetrics \<Rightarrow> jsval" where
  "NonGateRetryMetrics_toJSON r = JObj [(''used'', JInt (int (nrm_used r))), (''maximum'', JInt (int (nrm_maximum r))),
     (''remaining'', JInt (max 0 (int (nrm_maximum r) - int (nrm_used r))))]"

definition wf_NonGateRetryMetrics :: "NonGateRetryMetrics \<Rightarrow> bool" where
  "wf_NonGateRetryMetrics r \<longleftrightarrow> is_safe (nrm_used r) \<and> is_safe (nrm_maximum r) \<and> 1 \<le> nrm_maximum r"

interpretation ng_retry: json_codec new_NonGateRetryMetrics wf_NonGateRetryMetrics NonGateRetryMetrics_toJSON
  by unfold_locales
    (auto simp: new_NonGateRetryMetrics_def wf_NonGateRetryMetrics_def NonGateRetryMetrics_toJSON_def
      dest: gate_wfs)

subsection \<open>Ownership\<close>

record NonGateProducerOwnership =
  npo_runId :: string
  npo_specId :: string
  npo_activityId :: string
  npo_stepId :: string
  npo_attempt :: NonGateAttemptIdentity

definition new_NonGateProducerOwnership :: "jsval \<Rightarrow> NonGateProducerOwnership res" where
  "new_NonGateProducerOwnership arg = bindE (destructure arg) (\<lambda>ob.
     bindE (gt_text ''non-Gate producer runId'' (fld ob ''runId'')) (\<lambda>r.
     bindE (gt_text ''non-Gate producer specId'' (fld ob ''specId'')) (\<lambda>s.
     bindE (gt_text ''non-Gate producer activityId'' (fld ob ''activityId'')) (\<lambda>a.
     bindE (gt_text ''non-Gate producer stepId'' (fld ob ''stepId'')) (\<lambda>st.
     bindE (new_NonGateAttemptIdentity (fld ob ''attempt'')) (\<lambda>at.
     Inr \<lparr>npo_runId = r, npo_specId = s, npo_activityId = a, npo_stepId = st, npo_attempt = at\<rparr>))))))"

definition NonGateProducerOwnership_toJSON :: "NonGateProducerOwnership \<Rightarrow> jsval" where
  "NonGateProducerOwnership_toJSON p = JObj
     [(''runId'', JStr (npo_runId p)), (''specId'', JStr (npo_specId p)), (''activityId'', JStr (npo_activityId p)),
      (''stepId'', JStr (npo_stepId p)), (''attempt'', NonGateAttemptIdentity_toJSON (npo_attempt p))]"

definition wf_NonGateProducerOwnership :: "NonGateProducerOwnership \<Rightarrow> bool" where
  "wf_NonGateProducerOwnership p \<longleftrightarrow> is_text (npo_runId p) \<and> is_text (npo_specId p) \<and> is_text (npo_activityId p) \<and>
     is_text (npo_stepId p) \<and> wf_NonGateAttemptIdentity (npo_attempt p)"

interpretation ng_producer: json_codec new_NonGateProducerOwnership wf_NonGateProducerOwnership
  NonGateProducerOwnership_toJSON
  by unfold_locales
    (auto simp: new_NonGateProducerOwnership_def wf_NonGateProducerOwnership_def NonGateProducerOwnership_toJSON_def
      ng_attempt.mk_js dest: ng_attempt.mk_wf)

record NonGateTargetBinding =
  ntb_runId :: string
  ntb_specId :: string
  ntb_stepId :: string
  ntb_attempt :: NonGateAttemptIdentity

definition new_NonGateTargetBinding :: "jsval \<Rightarrow> NonGateTargetBinding res" where
  "new_NonGateTargetBinding arg = bindE (destructure arg) (\<lambda>ob.
     bindE (gt_text ''non-Gate target runId'' (fld ob ''runId'')) (\<lambda>r.
     bindE (gt_text ''non-Gate target specId'' (fld ob ''specId'')) (\<lambda>s.
     bindE (gt_text ''non-Gate target stepId'' (fld ob ''stepId'')) (\<lambda>st.
     bindE (new_NonGateAttemptIdentity (fld ob ''attempt'')) (\<lambda>at.
     Inr \<lparr>ntb_runId = r, ntb_specId = s, ntb_stepId = st, ntb_attempt = at\<rparr>)))))"

definition NonGateTargetBinding_toJSON :: "NonGateTargetBinding \<Rightarrow> jsval" where
  "NonGateTargetBinding_toJSON b = JObj
     [(''runId'', JStr (ntb_runId b)), (''specId'', JStr (ntb_specId b)), (''stepId'', JStr (ntb_stepId b)),
      (''attempt'', NonGateAttemptIdentity_toJSON (ntb_attempt b))]"

definition wf_NonGateTargetBinding :: "NonGateTargetBinding \<Rightarrow> bool" where
  "wf_NonGateTargetBinding b \<longleftrightarrow> is_text (ntb_runId b) \<and> is_text (ntb_specId b) \<and> is_text (ntb_stepId b) \<and>
     wf_NonGateAttemptIdentity (ntb_attempt b)"

interpretation ng_target: json_codec new_NonGateTargetBinding wf_NonGateTargetBinding NonGateTargetBinding_toJSON
  by unfold_locales
    (auto simp: new_NonGateTargetBinding_def wf_NonGateTargetBinding_def NonGateTargetBinding_toJSON_def
      ng_attempt.mk_js dest: ng_attempt.mk_wf)

end
