(* ===== verification/Non_Gate_Steps.thy ===== *)
theory Non_Gate_Steps
  imports Non_Gate_Facts
begin

section \<open>Step facts of final regression and the test chain\<close>

text \<open>
  The subclasses of \<open>NonGateStepFacts\<close>: the observations of the final regression
  (\<open>src/flow/lib/final-regression-transition.js\<close>) and of test execution and test result review
  (\<open>src/flow/lib/test-chain-observation-values.js\<close>).  The sources keep the validated parts as plain
  JSON under \<open>values\<close> and rebuild them in the getters; here the parts are kept typed, which the codec
  laws show to be the same.
\<close>

subsection \<open>Validators\<close>

text \<open>Non-blank text, returned as received.\<close>

definition fr_text :: "string \<Rightarrow> jsval \<Rightarrow> string res" where
  "fr_text field v = (case v of
     JStr s \<Rightarrow> if js_trim s = [] then Inl (Error (field @ '' is required'')) else Inr s
   | _ \<Rightarrow> Inl (Error (field @ '' is required'')))"

definition fr_digest :: "string \<Rightarrow> jsval \<Rightarrow> string res" where
  "fr_digest field v = bindE (fr_text field v) (\<lambda>s.
     if is_sha256 s then Inr s else Inl (Error (field @ '' must be a SHA-256 digest'')))"

definition not_blank :: "string \<Rightarrow> bool" where
  "not_blank s \<longleftrightarrow> js_trim s \<noteq> []"

lemma fr_text_eq_Inr [simp]: "fr_text f v = Inr s \<longleftrightarrow> v = JStr s \<and> not_blank s"
  by (auto simp: fr_text_def not_blank_def split: jsval.splits)

lemma sha256_not_blank: "is_sha256 s \<Longrightarrow> not_blank s"
  using is_sha256_text [of s] by (simp add: not_blank_def is_text_def)

lemma fr_digest_eq_Inr [simp]: "fr_digest f v = Inr s \<longleftrightarrow> v = JStr s \<and> is_sha256 s"
  by (auto simp: fr_digest_def sha256_not_blank)

lemma nullable_fr_text: "nullable (fr_text f) v = Inr x \<longleftrightarrow> v = js_opt JStr x \<and> pred_option not_blank x"
  by (cases x) (auto simp: nullable_eq_Inr)

lemma nullable_fr_digest: "nullable (fr_digest f) v = Inr x \<longleftrightarrow> v = js_opt JStr x \<and> pred_option is_sha256 x"
  by (cases x) (auto simp: nullable_eq_Inr)

lemma js_opt_str [simp]:
  "js_opt JStr x \<noteq> JUndef"
  "js_opt JStr x = JNull \<longleftrightarrow> x = None"
  "js_opt JStr x = js_opt JStr y \<longleftrightarrow> x = y"
  by (cases x; cases y; simp)+

subsection \<open>Final regression\<close>

record FinalRegressionArtifactDigest =
  fad_value :: string

definition new_FinalRegressionArtifactDigest :: "jsval \<Rightarrow> FinalRegressionArtifactDigest res" where
  "new_FinalRegressionArtifactDigest arg = bindE (destructure arg) (\<lambda>ob.
     bindE (fr_digest ''final-regression artifact digest'' (fld ob ''value'')) (\<lambda>d. Inr \<lparr>fad_value = d\<rparr>))"

definition FinalRegressionArtifactDigest_toJSON :: "FinalRegressionArtifactDigest \<Rightarrow> jsval" where
  "FinalRegressionArtifactDigest_toJSON d = JObj [(''value'', JStr (fad_value d))]"

definition fromArtifact :: "jsval \<Rightarrow> FinalRegressionArtifactDigest res" where
  "fromArtifact artifact =
     bindE (object_or (Error ''final-regression artifact digest requires an artifact'') artifact) (\<lambda>ob.
     new_FinalRegressionArtifactDigest
       (JObj [(''value'', JStr (sha256_hex (the (JSON_stringify artifact))))]))"

interpretation fr_artifact: json_codec new_FinalRegressionArtifactDigest "\<lambda>d. is_sha256 (fad_value d)"
  FinalRegressionArtifactDigest_toJSON
  by unfold_locales (auto simp: new_FinalRegressionArtifactDigest_def FinalRegressionArtifactDigest_toJSON_def)

record FinalRegressionFailureProfileFact =
  ffp_kind :: "string option"
  ffp_category :: "string option"

definition new_FinalRegressionFailureProfileFact :: "jsval \<Rightarrow> FinalRegressionFailureProfileFact res" where
  "new_FinalRegressionFailureProfileFact arg = bindE (destructure arg) (\<lambda>ob.
     bindE (nullable (fr_text ''final-regression failure kind'') (fld_or ob ''kind'' JNull)) (\<lambda>k.
     bindE (nullable (fr_text ''final-regression failure category'') (fld_or ob ''category'' JNull)) (\<lambda>c.
     Inr \<lparr>ffp_kind = k, ffp_category = c\<rparr>)))"

definition ffp_tooling :: "FinalRegressionFailureProfileFact \<Rightarrow> bool" where
  "ffp_tooling p \<longleftrightarrow> ffp_category p \<in> {Some ''environment'', Some ''sandbox'', Some ''timeout'', Some ''dependency''}"

definition ffp_currentChange :: "FinalRegressionFailureProfileFact \<Rightarrow> bool" where
  "ffp_currentChange p \<longleftrightarrow> ffp_category p = Some ''caused_by_current_change''"

definition ffp_existing :: "FinalRegressionFailureProfileFact \<Rightarrow> bool" where
  "ffp_existing p \<longleftrightarrow> ffp_category p = Some ''existing_failure''"

definition FinalRegressionFailureProfileFact_toJSON :: "FinalRegressionFailureProfileFact \<Rightarrow> jsval" where
  "FinalRegressionFailureProfileFact_toJSON p =
     JObj [(''kind'', js_opt JStr (ffp_kind p)), (''category'', js_opt JStr (ffp_category p))]"

interpretation fr_failure: json_codec new_FinalRegressionFailureProfileFact
  "\<lambda>p. pred_option not_blank (ffp_kind p) \<and> pred_option not_blank (ffp_category p)"
  FinalRegressionFailureProfileFact_toJSON
  by unfold_locales
    (auto simp: new_FinalRegressionFailureProfileFact_def FinalRegressionFailureProfileFact_toJSON_def nullable_fr_text)

record FinalRegressionRetryHistory =
  frh_used :: nat
  frh_maximum :: nat

definition new_FinalRegressionRetryHistory :: "jsval \<Rightarrow> FinalRegressionRetryHistory res" where
  "new_FinalRegressionRetryHistory arg = bindE (destructure arg) (\<lambda>ob.
     bindE (nonNegativeInteger ''final-regression retry used'' (fld_or ob ''used'' (JInt 0))) (\<lambda>u.
     bindE (nonNegativeInteger ''final-regression retry maximum'' (fld_or ob ''maximum'' (JInt 1))) (\<lambda>m.
     if m < 1 then Inl (Error ''final-regression retry maximum must be positive'')
     else Inr \<lparr>frh_used = u, frh_maximum = m\<rparr>)))"

definition frh_exhausted :: "FinalRegressionRetryHistory \<Rightarrow> bool" where
  "frh_exhausted h \<longleftrightarrow> frh_used h \<ge> frh_maximum h"

definition FinalRegressionRetryHistory_toJSON :: "FinalRegressionRetryHistory \<Rightarrow> jsval" where
  "FinalRegressionRetryHistory_toJSON h =
     JObj [(''used'', JInt (int (frh_used h))), (''maximum'', JInt (int (frh_maximum h)))]"

definition wf_FinalRegressionRetryHistory :: "FinalRegressionRetryHistory \<Rightarrow> bool" where
  "wf_FinalRegressionRetryHistory h \<longleftrightarrow> is_safe (frh_used h) \<and> is_safe (frh_maximum h) \<and> 1 \<le> frh_maximum h"

interpretation fr_retry: json_codec new_FinalRegressionRetryHistory wf_FinalRegressionRetryHistory
  FinalRegressionRetryHistory_toJSON
proof (unfold_locales, goal_cases)
  case (1 v x)
  then show ?case
    by (auto simp: new_FinalRegressionRetryHistory_def wf_FinalRegressionRetryHistory_def dest!: gate_wfs split: if_splits)
next
  case (2 x)
  then show ?case
    by (simp add: new_FinalRegressionRetryHistory_def wf_FinalRegressionRetryHistory_def
        FinalRegressionRetryHistory_toJSON_def)
qed (simp add: FinalRegressionRetryHistory_toJSON_def)

record FinalRegressionChangedFileSnapshot =
  fcs_digest :: string
  fcs_current :: bool

definition new_FinalRegressionChangedFileSnapshot :: "jsval \<Rightarrow> FinalRegressionChangedFileSnapshot res" where
  "new_FinalRegressionChangedFileSnapshot arg = bindE (destructure arg) (\<lambda>ob.
     bindE (fr_digest ''final-regression changed-file snapshot digest'' (fld ob ''digest'')) (\<lambda>d.
     bindE (bool_or (Error ''final-regression changed-file snapshot current must be boolean'')
              (fld_or ob ''current'' (JBool True))) (\<lambda>c.
     Inr \<lparr>fcs_digest = d, fcs_current = c\<rparr>)))"

definition FinalRegressionChangedFileSnapshot_toJSON :: "FinalRegressionChangedFileSnapshot \<Rightarrow> jsval" where
  "FinalRegressionChangedFileSnapshot_toJSON s =
     JObj [(''digest'', JStr (fcs_digest s)), (''current'', JBool (fcs_current s))]"

interpretation fr_snapshot: json_codec new_FinalRegressionChangedFileSnapshot "\<lambda>s. is_sha256 (fcs_digest s)"
  FinalRegressionChangedFileSnapshot_toJSON
  by unfold_locales (auto simp: new_FinalRegressionChangedFileSnapshot_def FinalRegressionChangedFileSnapshot_toJSON_def)

record FinalRegressionProceedEvidence =
  fpe_accepted :: bool
  fpe_digest :: "string option"

definition new_FinalRegressionProceedEvidence :: "jsval \<Rightarrow> FinalRegressionProceedEvidence res" where
  "new_FinalRegressionProceedEvidence arg = bindE (destructure arg) (\<lambda>ob.
     bindE (bool_or (Error ''final-regression record-and-proceed accepted must be boolean'')
              (fld_or ob ''accepted'' (JBool False))) (\<lambda>a.
     if a \<and> fld_or ob ''digest'' JNull = JNull
     then Inl (Error ''final-regression accepted record-and-proceed requires evidence digest'') else
     bindE (nullable (fr_digest ''final-regression record-and-proceed evidence digest'') (fld_or ob ''digest'' JNull)) (\<lambda>d.
     Inr \<lparr>fpe_accepted = a, fpe_digest = d\<rparr>)))"

definition FinalRegressionProceedEvidence_toJSON :: "FinalRegressionProceedEvidence \<Rightarrow> jsval" where
  "FinalRegressionProceedEvidence_toJSON e =
     JObj [(''accepted'', JBool (fpe_accepted e)), (''digest'', js_opt JStr (fpe_digest e))]"

definition wf_FinalRegressionProceedEvidence :: "FinalRegressionProceedEvidence \<Rightarrow> bool" where
  "wf_FinalRegressionProceedEvidence e \<longleftrightarrow> pred_option is_sha256 (fpe_digest e) \<and> (fpe_accepted e \<longrightarrow> fpe_digest e \<noteq> None)"

definition fromRecord :: "jsval \<Rightarrow> FinalRegressionProceedEvidence res" where
  "fromRecord rec =
     (if propq rec ''validated'' \<noteq> JBool True then new_FinalRegressionProceedEvidence JUndef else
      bindE (fr_text ''final-regression record evidence'' (propq rec ''evidence'')) (\<lambda>e.
      bindE (fr_text ''final-regression record failure classification'' (propq rec ''failureClassification'')) (\<lambda>c.
      bindE (fr_text ''final-regression record operator justification'' (propq rec ''operatorJustification'')) (\<lambda>j.
      bindE (fr_text ''final-regression record remaining risk'' (propq rec ''remainingRisk'')) (\<lambda>r.
      bindE (object_or (Error ''final-regression record execution binding is required'') (propq rec ''executionBinding'')) (\<lambda>b.
      new_FinalRegressionProceedEvidence (JObj [(''accepted'', JBool True),
        (''digest'', JStr (sha256_hex (the (JSON_stringify (JObj
           [(''evidence'', JStr e), (''failureClassification'', JStr c), (''operatorJustification'', JStr j),
            (''remainingRisk'', JStr r), (''executionBinding'', JObj b)])))))])))))))"

interpretation fr_proceed: json_codec new_FinalRegressionProceedEvidence wf_FinalRegressionProceedEvidence
  FinalRegressionProceedEvidence_toJSON
proof (unfold_locales, goal_cases)
  case (1 v x)
  then show ?case
    by (auto simp: new_FinalRegressionProceedEvidence_def wf_FinalRegressionProceedEvidence_def nullable_fr_digest
        split: if_splits)
next
  case (2 x)
  then show ?case
    by (cases x; cases "fpe_digest x")
      (auto simp: new_FinalRegressionProceedEvidence_def wf_FinalRegressionProceedEvidence_def
        FinalRegressionProceedEvidence_toJSON_def nullable_eq_Inr)
qed (simp add: FinalRegressionProceedEvidence_toJSON_def)

record FinalRegressionNonblockingPolicy =
  fnp_enabled :: bool

definition new_FinalRegressionNonblockingPolicy :: "jsval \<Rightarrow> FinalRegressionNonblockingPolicy res" where
  "new_FinalRegressionNonblockingPolicy arg = bindE (destructure arg) (\<lambda>ob.
     bindE (bool_or (Error ''final-regression nonblocking policy enabled must be boolean'')
              (fld_or ob ''enabled'' (JBool False))) (\<lambda>e. Inr \<lparr>fnp_enabled = e\<rparr>))"

definition FinalRegressionNonblockingPolicy_toJSON :: "FinalRegressionNonblockingPolicy \<Rightarrow> jsval" where
  "FinalRegressionNonblockingPolicy_toJSON p = JObj [(''enabled'', JBool (fnp_enabled p))]"

interpretation fr_policy: json_codec new_FinalRegressionNonblockingPolicy "\<lambda>_. True" FinalRegressionNonblockingPolicy_toJSON
  by unfold_locales (auto simp: new_FinalRegressionNonblockingPolicy_def FinalRegressionNonblockingPolicy_toJSON_def)

record FinalRegressionStepFacts =
  frs_result :: string
  frs_artifactDigest :: FinalRegressionArtifactDigest
  frs_failure :: FinalRegressionFailureProfileFact
  frs_retryHistory :: FinalRegressionRetryHistory
  frs_changedFileSnapshot :: FinalRegressionChangedFileSnapshot
  frs_recordAndProceed :: FinalRegressionProceedEvidence
  frs_nonblockingPolicy :: FinalRegressionNonblockingPolicy
  frs_failureRecorded :: bool

definition FINAL_REGRESSION_RESULTS :: "string list" where
  "FINAL_REGRESSION_RESULTS = [''pass'', ''skipped'', ''fail'']"

text \<open>Constructor arguments that default to \<open>{}\<close> are passed on as \<open>undefined\<close>, whose destructuring is the
  same.\<close>

definition new_FinalRegressionStepFacts :: "jsval \<Rightarrow> FinalRegressionStepFacts res" where
  "new_FinalRegressionStepFacts arg = bindE (destructure arg) (\<lambda>ob.
     bindE (lit_of FINAL_REGRESSION_RESULTS (Error ''final-regression result is invalid'') (fld ob ''result'')) (\<lambda>res.
     bindE (new_FinalRegressionArtifactDigest (fld ob ''artifactDigest'')) (\<lambda>digest.
     bindE (new_FinalRegressionFailureProfileFact (fld ob ''failure'')) (\<lambda>profile.
     bindE (new_FinalRegressionRetryHistory (fld ob ''retry'')) (\<lambda>history.
     bindE (new_FinalRegressionChangedFileSnapshot (fld ob ''changedFileSnapshot'')) (\<lambda>snapshot.
     bindE (new_FinalRegressionProceedEvidence (fld ob ''recordAndProceed'')) (\<lambda>evidence.
     bindE (new_FinalRegressionNonblockingPolicy (fld ob ''nonblocking'')) (\<lambda>policy.
     bindE (bool_or (Error ''final-regression failureRecorded must be boolean'')
              (fld_or ob ''failureRecorded'' (JBool False))) (\<lambda>recorded.
     Inr \<lparr>frs_result = res, frs_artifactDigest = digest, frs_failure = profile, frs_retryHistory = history,
          frs_changedFileSnapshot = snapshot, frs_recordAndProceed = evidence, frs_nonblockingPolicy = policy,
          frs_failureRecorded = recorded\<rparr>)))))))))"

definition frs_values :: "FinalRegressionStepFacts \<Rightarrow> jsval" where
  "frs_values s = JObj
     [(''result'', JStr (frs_result s)), (''artifactDigest'', FinalRegressionArtifactDigest_toJSON (frs_artifactDigest s)),
      (''failure'', FinalRegressionFailureProfileFact_toJSON (frs_failure s)),
      (''retry'', FinalRegressionRetryHistory_toJSON (frs_retryHistory s)),
      (''changedFileSnapshot'', FinalRegressionChangedFileSnapshot_toJSON (frs_changedFileSnapshot s)),
      (''recordAndProceed'', FinalRegressionProceedEvidence_toJSON (frs_recordAndProceed s)),
      (''nonblocking'', FinalRegressionNonblockingPolicy_toJSON (frs_nonblockingPolicy s)),
      (''failureRecorded'', JBool (frs_failureRecorded s))]"

definition FinalRegressionStepFacts_toJSON :: "FinalRegressionStepFacts \<Rightarrow> jsval" where
  "FinalRegressionStepFacts_toJSON s = JObj [(''kind'', JStr ''final-regression''), (''values'', frs_values s)]"

definition final_regression_fromPersisted :: "jsval \<Rightarrow> FinalRegressionStepFacts res" where
  "final_regression_fromPersisted value =
     (if propq value ''kind'' \<noteq> JStr ''final-regression'' \<or> \<not> truthy_object (propq value ''values'')
      then Inl (Error ''persisted final-regression facts are invalid'') else
      let values = propq value ''values'' in
      new_FinalRegressionStepFacts (JObj (map (\<lambda>k. (k, propq values k))
        [''result'', ''artifactDigest'', ''failure'', ''retry'', ''changedFileSnapshot'', ''recordAndProceed'',
         ''nonblocking'', ''failureRecorded''])))"

definition or_null :: "jsval \<Rightarrow> jsval" where
  "or_null v = (if v = JUndef then JNull else v)"

definition fromCanonicalArtifact :: "jsval \<Rightarrow> FinalRegressionStepFacts res" where
  "fromCanonicalArtifact arg = bindE (destructure arg) (\<lambda>ob.
     let artifact = fld ob ''artifact'' in
     bindE (object_or (Error ''final-regression canonical artifact is required'') artifact) (\<lambda>a.
     bindE (fromRecord (fld a ''recordAndProceed'')) (\<lambda>proceed.
     new_FinalRegressionStepFacts (JObj
       [(''result'', fld a ''result''), (''artifactDigest'', JObj [(''value'', fld ob ''artifactDigest'')]),
        (''failure'', JObj [(''kind'', or_null (fld a ''failureKind'')), (''category'', or_null (fld a ''failureCategory''))]),
        (''retry'', fld ob ''retry''), (''changedFileSnapshot'', fld ob ''changedFileSnapshot''),
        (''recordAndProceed'', FinalRegressionProceedEvidence_toJSON proceed),
        (''nonblocking'', JObj [(''enabled'', fld_or ob ''nonblocking'' (JBool False))]),
        (''failureRecorded'', fld_or ob ''failureRecorded'' (JBool False))]))))"

definition wf_FinalRegressionStepFacts :: "FinalRegressionStepFacts \<Rightarrow> bool" where
  "wf_FinalRegressionStepFacts s \<longleftrightarrow> frs_result s \<in> set FINAL_REGRESSION_RESULTS \<and>
     is_sha256 (fad_value (frs_artifactDigest s)) \<and>
     pred_option not_blank (ffp_kind (frs_failure s)) \<and> pred_option not_blank (ffp_category (frs_failure s)) \<and>
     wf_FinalRegressionRetryHistory (frs_retryHistory s) \<and> is_sha256 (fcs_digest (frs_changedFileSnapshot s)) \<and>
     wf_FinalRegressionProceedEvidence (frs_recordAndProceed s)"

lemma FinalRegressionStepFacts_wf: "new_FinalRegressionStepFacts v = Inr s \<Longrightarrow> wf_FinalRegressionStepFacts s"
  by (auto simp: new_FinalRegressionStepFacts_def wf_FinalRegressionStepFacts_def
      dest: fr_artifact.mk_wf fr_failure.mk_wf fr_retry.mk_wf fr_snapshot.mk_wf fr_proceed.mk_wf)

interpretation final_regression: json_codec final_regression_fromPersisted wf_FinalRegressionStepFacts
  FinalRegressionStepFacts_toJSON
proof (unfold_locales, goal_cases)
  case (1 v x)
  then show ?case
    by (auto simp: final_regression_fromPersisted_def Let_def split: if_splits dest: FinalRegressionStepFacts_wf)
next
  case (2 x)
  then show ?case
    by (simp add: final_regression_fromPersisted_def FinalRegressionStepFacts_toJSON_def frs_values_def
        new_FinalRegressionStepFacts_def wf_FinalRegressionStepFacts_def fr_artifact.mk_js fr_failure.mk_js
        fr_retry.mk_js fr_snapshot.mk_js fr_proceed.mk_js fr_policy.mk_js)
qed (simp add: FinalRegressionStepFacts_toJSON_def)

subsection \<open>Test execution and its review\<close>

definition nonempty_or :: "jserr \<Rightarrow> jsval \<Rightarrow> string res" where
  "nonempty_or e v = (case v of JStr s \<Rightarrow> if s = [] then Inl e else Inr s | _ \<Rightarrow> Inl e)"

lemma nonempty_or_eq_Inr [simp]: "nonempty_or e v = Inr s \<longleftrightarrow> v = JStr s \<and> s \<noteq> []"
  by (auto simp: nonempty_or_def split: jsval.splits)

definition array_or :: "jserr \<Rightarrow> jsval \<Rightarrow> jsval list res" where
  "array_or e v = (case v of JArr vs \<Rightarrow> Inr vs | _ \<Rightarrow> Inl e)"

lemma array_or_eq_Inr [simp]: "array_or e v = Inr vs \<longleftrightarrow> v = JArr vs"
  by (auto simp: array_or_def split: jsval.splits)

lemma nullable_nonempty: "nullable (nonempty_or e) v = Inr x \<longleftrightarrow> v = js_opt JStr x \<and> pred_option (\<lambda>s. s \<noteq> []) x"
  by (cases x) (auto simp: nullable_eq_Inr)

record AuthenticatedTestExecutionCompletion =
  aec_publication :: NonGateCatalogPublication
  aec_receiptId :: string
  aec_resultDigest :: jsval
  aec_rawEvidenceFingerprint :: jsval

definition COMPLETION_MESSAGE :: string where
  "COMPLETION_MESSAGE = ''Test execution completion requires its exact publication, receipt, and fingerprints''"

definition new_AuthenticatedTestExecutionCompletion ::
  "NonGateCatalogPublication \<Rightarrow> jsval \<Rightarrow> jsval \<Rightarrow> jsval \<Rightarrow> AuthenticatedTestExecutionCompletion res" where
  "new_AuthenticatedTestExecutionCompletion publication receiptId resultDigest rawEvidenceFingerprint =
     (if ncp_stepId publication \<noteq> ''test-execute'' then Inl (TypeError COMPLETION_MESSAGE) else
      bindE (nonempty_or (TypeError COMPLETION_MESSAGE) receiptId) (\<lambda>r.
      if \<not> sha256_test resultDigest \<or> \<not> sha256_test rawEvidenceFingerprint then Inl (TypeError COMPLETION_MESSAGE)
      else Inr \<lparr>aec_publication = publication, aec_receiptId = r, aec_resultDigest = resultDigest,
                aec_rawEvidenceFingerprint = rawEvidenceFingerprint\<rparr>))"

definition aec_matches :: "AuthenticatedTestExecutionCompletion \<Rightarrow> NonGateCatalogPublication \<Rightarrow> jsval \<Rightarrow> bool" where
  "aec_matches c publication rawEvidenceFingerprint \<longleftrightarrow>
     JSON_stringify (NonGateCatalogPublication_toJSON (aec_publication c)) =
       JSON_stringify (NonGateCatalogPublication_toJSON publication)
     \<and> strict_eq (aec_rawEvidenceFingerprint c) rawEvidenceFingerprint"

definition AuthenticatedTestExecutionCompletion_toJSON :: "AuthenticatedTestExecutionCompletion \<Rightarrow> jsval" where
  "AuthenticatedTestExecutionCompletion_toJSON c = JObj
     [(''publication'', NonGateCatalogPublication_toJSON (aec_publication c)), (''receiptId'', JStr (aec_receiptId c)),
      (''resultDigest'', aec_resultDigest c), (''rawEvidenceFingerprint'', aec_rawEvidenceFingerprint c)]"

definition completion_fromJSON :: "jsval \<Rightarrow> AuthenticatedTestExecutionCompletion res" where
  "completion_fromJSON value = bindE (prop_of value ''publication'') (\<lambda>p.
     bindE (new_NonGateCatalogPublication p) (\<lambda>publication.
     new_AuthenticatedTestExecutionCompletion publication (propq value ''receiptId'') (propq value ''resultDigest'')
       (propq value ''rawEvidenceFingerprint'')))"

definition wf_AuthenticatedTestExecutionCompletion :: "AuthenticatedTestExecutionCompletion \<Rightarrow> bool" where
  "wf_AuthenticatedTestExecutionCompletion c \<longleftrightarrow> wf_NonGateCatalogPublication (aec_publication c) \<and>
     ncp_stepId (aec_publication c) = ''test-execute'' \<and> aec_receiptId c \<noteq> [] \<and> sha256_test (aec_resultDigest c) \<and>
     sha256_test (aec_rawEvidenceFingerprint c)"

interpretation tc_completion: json_codec completion_fromJSON wf_AuthenticatedTestExecutionCompletion
  AuthenticatedTestExecutionCompletion_toJSON
proof (unfold_locales, goal_cases)
  case (1 v x)
  then show ?case
    by (auto simp: completion_fromJSON_def new_AuthenticatedTestExecutionCompletion_def
        wf_AuthenticatedTestExecutionCompletion_def dest: ng_catalog.mk_wf split: if_splits)
next
  case (2 x)
  then show ?case
    by (simp add: completion_fromJSON_def prop_of_def AuthenticatedTestExecutionCompletion_toJSON_def
        new_AuthenticatedTestExecutionCompletion_def wf_AuthenticatedTestExecutionCompletion_def ng_catalog.mk_js)
qed (simp add: AuthenticatedTestExecutionCompletion_toJSON_def)

record TestChainProcessFacts =
  tcp_started :: bool
  tcp_exitCode :: "nat option"
  tcp_signal :: "string option"
  tcp_timedOut :: bool
  tcp_spawnError :: "string option"

definition new_TestChainProcessFacts :: "jsval \<Rightarrow> TestChainProcessFacts res" where
  "new_TestChainProcessFacts arg = bindE (destructure arg) (\<lambda>ob.
     bindE (bool_or (Error ''test-chain process.started must be boolean'') (fld ob ''started'')) (\<lambda>st.
     bindE (nullable (int_from 0 (Error ''test-chain process.exitCode must be a non-negative integer or null''))
              (fld ob ''exitCode'')) (\<lambda>ec.
     bindE (nullable (nonempty_or (Error ''test-chain process.signal must be a non-empty string or null''))
              (fld ob ''signal'')) (\<lambda>sg.
     bindE (bool_or (Error ''test-chain process.timedOut must be boolean'') (fld ob ''timedOut'')) (\<lambda>tm.
     bindE (nullable (nonempty_or (Error ''test-chain process.spawnError must be a non-empty string or null''))
              (fld ob ''spawnError'')) (\<lambda>sp.
     Inr \<lparr>tcp_started = st, tcp_exitCode = ec, tcp_signal = sg, tcp_timedOut = tm, tcp_spawnError = sp\<rparr>))))))"

definition process_from :: "jsval \<Rightarrow> TestChainProcessFacts res" where
  "process_from v = new_TestChainProcessFacts (if v = JNull \<or> v = JUndef then
     JObj [(''started'', JBool True), (''exitCode'', JInt 0), (''signal'', JNull), (''timedOut'', JBool False),
           (''spawnError'', JNull)] else v)"

definition tcp_toolingFailure :: "TestChainProcessFacts \<Rightarrow> bool" where
  "tcp_toolingFailure p \<longleftrightarrow> \<not> tcp_started p \<or> tcp_spawnError p \<noteq> None \<or> tcp_signal p \<noteq> None \<or> tcp_timedOut p
     \<or> tcp_exitCode p = None"

definition TestChainProcessFacts_toJSON :: "TestChainProcessFacts \<Rightarrow> jsval" where
  "TestChainProcessFacts_toJSON p = JObj
     [(''started'', JBool (tcp_started p)), (''exitCode'', js_opt (\<lambda>n. JInt (int n)) (tcp_exitCode p)),
      (''signal'', js_opt JStr (tcp_signal p)), (''timedOut'', JBool (tcp_timedOut p)),
      (''spawnError'', js_opt JStr (tcp_spawnError p))]"

definition wf_TestChainProcessFacts :: "TestChainProcessFacts \<Rightarrow> bool" where
  "wf_TestChainProcessFacts p \<longleftrightarrow> pred_option is_safe (tcp_exitCode p) \<and> pred_option (\<lambda>s. s \<noteq> []) (tcp_signal p) \<and>
     pred_option (\<lambda>s. s \<noteq> []) (tcp_spawnError p)"

lemma nullable_exit_code: "pred_option is_safe x \<Longrightarrow> nullable (int_from 0 e) (js_opt (\<lambda>n. JInt (int n)) x) = Inr x"
  by (rule nullable_opt [where P = is_safe]) simp_all

interpretation tc_process: json_codec process_from wf_TestChainProcessFacts TestChainProcessFacts_toJSON
proof (unfold_locales, goal_cases)
  case (1 v x)
  then show ?case
    unfolding process_from_def new_TestChainProcessFacts_def
    by (auto simp: wf_TestChainProcessFacts_def nullable_nonempty dest!: int_from_result intro!: nullable_wf [where P = is_safe])
next
  case (2 x)
  then show ?case
    by (simp add: process_from_def new_TestChainProcessFacts_def wf_TestChainProcessFacts_def nullable_nonempty
        nullable_exit_code TestChainProcessFacts_toJSON_def)
qed (simp add: TestChainProcessFacts_toJSON_def)

record TestExecuteStepFacts =
  tes_summary :: "jsval list"
  tes_regression :: jsfields
  tes_rawAvailable :: bool
  tes_testSourceRevision :: string
  tes_repairFingerprint :: string
  tes_rawEvidenceFingerprint :: string
  tes_catalogDigest :: string
  tes_process :: TestChainProcessFacts
  tes_regressionProcess :: "TestChainProcessFacts option"

definition regression_process :: "jsfields \<Rightarrow> TestChainProcessFacts option res" where
  "regression_process regression = nullish process_from (fld regression ''process'')"

definition new_TestExecuteStepFacts :: "jsval \<Rightarrow> TestExecuteStepFacts res" where
  "new_TestExecuteStepFacts arg = bindE (destructure arg) (\<lambda>ob.
     let invalid = Error ''test-execute observations are invalid''; missing = Error ''test-execute immutable evidence is required'';
         evidence = (\<lambda>k. nonempty_or missing (fld_or ob k (JStr ''unavailable''))) in
     bindE (array_or invalid (fld_or ob ''summary'' (JArr []))) (\<lambda>summary.
     bindE (object_or invalid (fld_or ob ''regression'' (JObj []))) (\<lambda>regression.
     bindE (bool_or missing (fld_or ob ''rawAvailable'' (JBool False))) (\<lambda>raw.
     bindE (evidence ''testSourceRevision'') (\<lambda>revision.
     bindE (evidence ''repairFingerprint'') (\<lambda>repair.
     bindE (evidence ''rawEvidenceFingerprint'') (\<lambda>rawFp.
     bindE (evidence ''catalogDigest'') (\<lambda>catalog.
     bindE (process_from (fld ob ''process'')) (\<lambda>process.
     bindE (regression_process regression) (\<lambda>regressionProcess.
     Inr \<lparr>tes_summary = summary, tes_regression = regression, tes_rawAvailable = raw, tes_testSourceRevision = revision,
          tes_repairFingerprint = repair, tes_rawEvidenceFingerprint = rawFp, tes_catalogDigest = catalog,
          tes_process = process, tes_regressionProcess = regressionProcess\<rparr>))))))))))"

definition tes_toolingFailure :: "TestExecuteStepFacts \<Rightarrow> bool" where
  "tes_toolingFailure s \<longleftrightarrow> tcp_toolingFailure (tes_process s)
     \<or> (case tes_regressionProcess s of None \<Rightarrow> False | Some p \<Rightarrow> tcp_toolingFailure p)"

definition tes_values :: "TestExecuteStepFacts \<Rightarrow> jsval" where
  "tes_values s = JObj
     [(''summary'', JArr (tes_summary s)), (''regression'', JObj (tes_regression s)),
      (''rawAvailable'', JBool (tes_rawAvailable s)), (''testSourceRevision'', JStr (tes_testSourceRevision s)),
      (''repairFingerprint'', JStr (tes_repairFingerprint s)),
      (''rawEvidenceFingerprint'', JStr (tes_rawEvidenceFingerprint s)), (''catalogDigest'', JStr (tes_catalogDigest s)),
      (''process'', TestChainProcessFacts_toJSON (tes_process s)),
      (''regressionProcess'', js_opt TestChainProcessFacts_toJSON (tes_regressionProcess s)),
      (''toolingFailure'', JBool (tes_toolingFailure s))]"

definition wf_TestExecuteStepFacts :: "TestExecuteStepFacts \<Rightarrow> bool" where
  "wf_TestExecuteStepFacts s \<longleftrightarrow> tes_testSourceRevision s \<noteq> [] \<and> tes_repairFingerprint s \<noteq> [] \<and>
     tes_rawEvidenceFingerprint s \<noteq> [] \<and> tes_catalogDigest s \<noteq> [] \<and> wf_TestChainProcessFacts (tes_process s) \<and>
     regression_process (tes_regression s) = Inr (tes_regressionProcess s)"

interpretation tc_execute: json_codec new_TestExecuteStepFacts wf_TestExecuteStepFacts tes_values
proof (unfold_locales, goal_cases)
  case (1 v x)
  then show ?case
    by (auto simp: new_TestExecuteStepFacts_def wf_TestExecuteStepFacts_def Let_def dest: tc_process.mk_wf)
next
  case (2 x)
  then show ?case
    by (simp add: new_TestExecuteStepFacts_def wf_TestExecuteStepFacts_def tes_values_def Let_def tc_process.mk_js)
qed (simp add: tes_values_def)

record TestResultReviewStepFacts =
  trr_executionCompletion :: "AuthenticatedTestExecutionCompletion option"
  trr_verdict :: string
  trr_checkedItems :: "jsval list"
  trr_rawAvailable :: bool
  trr_testSourceRevision :: string
  trr_sourceRepairFingerprint :: string
  trr_sourceRawEvidenceFingerprint :: string
  trr_repairFingerprint :: string
  trr_rawEvidenceFingerprint :: string
  trr_catalogDigest :: string
  trr_toolingFailure :: bool

definition checked_result :: "string \<Rightarrow> jsval \<Rightarrow> bool" where
  "checked_result r item \<longleftrightarrow> propq item ''result'' = JStr r"

definition review_evidence :: "jsfields \<Rightarrow> string \<Rightarrow> string \<Rightarrow> string res" where
  "review_evidence ob k field =
     nonempty_or (Error (''test-result-review '' @ field @ '' is required'')) (fld_or ob k (JStr ''unavailable''))"

definition new_TestResultReviewStepFacts ::
  "AuthenticatedTestExecutionCompletion option \<Rightarrow> jsval \<Rightarrow> TestResultReviewStepFacts res" where
  "new_TestResultReviewStepFacts completion arg = bindE (destructure arg) (\<lambda>ob.
     bindE (lit_of [''pass'', ''fail''] (Error ''test-result-review verdict is invalid'') (fld ob ''verdict'')) (\<lambda>verdict.
     bindE (bool_or (Error ''test-result-review toolingFailure must be boolean'')
              (fld_or ob ''toolingFailure'' (JBool False))) (\<lambda>tooling.
     bindE (array_or (Error ''test-result-review observations are invalid'') (fld_or ob ''checkedItems'' (JArr []))) (\<lambda>items.
     bindE (bool_or (Error ''test-result-review observations are invalid'') (fld_or ob ''rawAvailable'' (JBool False))) (\<lambda>raw.
     if items = [] \<or> list_ex (\<lambda>i. \<not> checked_result ''pass'' i \<and> \<not> checked_result ''fail'' i) items
     then Inl (Error ''test-result-review requires pass/fail checked observations'')
     else if (verdict = ''fail'') \<noteq> list_ex (checked_result ''fail'') items
     then Inl (Error ''test-result-review verdict must match its checked observations'') else
     bindE (review_evidence ob ''testSourceRevision'' ''test source revision'') (\<lambda>revision.
     bindE (review_evidence ob ''sourceRepairFingerprint'' ''source repair fingerprint'') (\<lambda>sourceRepair.
     bindE (review_evidence ob ''sourceRawEvidenceFingerprint'' ''source raw evidence fingerprint'') (\<lambda>sourceRaw.
     bindE (review_evidence ob ''repairFingerprint'' ''repair fingerprint'') (\<lambda>repair.
     bindE (review_evidence ob ''rawEvidenceFingerprint'' ''raw evidence fingerprint'') (\<lambda>rawFp.
     bindE (review_evidence ob ''catalogDigest'' ''catalog digest'') (\<lambda>catalog.
     Inr \<lparr>trr_executionCompletion = completion, trr_verdict = verdict, trr_checkedItems = items, trr_rawAvailable = raw,
          trr_testSourceRevision = revision, trr_sourceRepairFingerprint = sourceRepair,
          trr_sourceRawEvidenceFingerprint = sourceRaw, trr_repairFingerprint = repair,
          trr_rawEvidenceFingerprint = rawFp, trr_catalogDigest = catalog, trr_toolingFailure = tooling\<rparr>)))))))))))"

definition trr_values :: "TestResultReviewStepFacts \<Rightarrow> jsval" where
  "trr_values s = JObj
     ([(''verdict'', JStr (trr_verdict s)), (''checkedItems'', JArr (trr_checkedItems s)),
       (''rawAvailable'', JBool (trr_rawAvailable s)), (''testSourceRevision'', JStr (trr_testSourceRevision s)),
       (''sourceRepairFingerprint'', JStr (trr_sourceRepairFingerprint s)),
       (''sourceRawEvidenceFingerprint'', JStr (trr_sourceRawEvidenceFingerprint s)),
       (''repairFingerprint'', JStr (trr_repairFingerprint s)),
       (''rawEvidenceFingerprint'', JStr (trr_rawEvidenceFingerprint s)), (''catalogDigest'', JStr (trr_catalogDigest s)),
       (''toolingFailure'', JBool (trr_toolingFailure s))] @
      (case trr_executionCompletion s of
         None \<Rightarrow> []
       | Some c \<Rightarrow> [(''executionCompletion'', AuthenticatedTestExecutionCompletion_toJSON c)]))"

text \<open>Restoring a persisted observation from its values, as \<open>TestChainResultEvidence.fromJSON\<close> does.\<close>

definition review_fromValues :: "jsval \<Rightarrow> TestResultReviewStepFacts res" where
  "review_fromValues values =
     (if propq values ''executionCompletion'' = JUndef then new_TestResultReviewStepFacts None values else
      bindE (completion_fromJSON (propq values ''executionCompletion'')) (\<lambda>c.
      new_TestResultReviewStepFacts (Some c) values))"

definition wf_TestResultReviewStepFacts :: "TestResultReviewStepFacts \<Rightarrow> bool" where
  "wf_TestResultReviewStepFacts s \<longleftrightarrow> pred_option wf_AuthenticatedTestExecutionCompletion (trr_executionCompletion s) \<and>
     trr_verdict s \<in> {''pass'', ''fail''} \<and> trr_checkedItems s \<noteq> [] \<and>
     list_all (\<lambda>i. checked_result ''pass'' i \<or> checked_result ''fail'' i) (trr_checkedItems s) \<and>
     (trr_verdict s = ''fail'' \<longleftrightarrow> list_ex (checked_result ''fail'') (trr_checkedItems s)) \<and>
     trr_testSourceRevision s \<noteq> [] \<and> trr_sourceRepairFingerprint s \<noteq> [] \<and> trr_sourceRawEvidenceFingerprint s \<noteq> [] \<and>
     trr_repairFingerprint s \<noteq> [] \<and> trr_rawEvidenceFingerprint s \<noteq> [] \<and> trr_catalogDigest s \<noteq> []"

lemma unchecked_iff:
  "list_ex (\<lambda>i. \<not> checked_result ''pass'' i \<and> \<not> checked_result ''fail'' i) items \<longleftrightarrow>
     \<not> list_all (\<lambda>i. checked_result ''pass'' i \<or> checked_result ''fail'' i) items"
  by (induction items) auto

lemma TestResultReviewStepFacts_wf:
  assumes "new_TestResultReviewStepFacts c v = Inr s" "pred_option wf_AuthenticatedTestExecutionCompletion c"
  shows "wf_TestResultReviewStepFacts s"
  using assms unfolding new_TestResultReviewStepFacts_def unchecked_iff
  by (clarsimp simp: wf_TestResultReviewStepFacts_def review_evidence_def if_refused simp del: if_split_asm)

lemma TestResultReviewStepFacts_values:
  assumes "wf_TestResultReviewStepFacts s"
  shows "new_TestResultReviewStepFacts (trr_executionCompletion s) (trr_values s) = Inr s"
  using assms unfolding new_TestResultReviewStepFacts_def unchecked_iff wf_TestResultReviewStepFacts_def
  by (simp add: trr_values_def review_evidence_def) blast

interpretation tc_review: json_codec review_fromValues wf_TestResultReviewStepFacts trr_values
proof (unfold_locales, goal_cases)
  case (1 v x)
  then show ?case
    by (auto simp: review_fromValues_def split: if_splits dest!: tc_completion.mk_wf
        elim!: TestResultReviewStepFacts_wf)
next
  case (2 x)
  have "propq (trr_values x) ''executionCompletion'' =
      (case trr_executionCompletion x of None \<Rightarrow> JUndef | Some c \<Rightarrow> AuthenticatedTestExecutionCompletion_toJSON c)"
    by (simp add: trr_values_def split: option.split)
  moreover have "pred_option wf_AuthenticatedTestExecutionCompletion (trr_executionCompletion x)"
    using 2 by (simp add: wf_TestResultReviewStepFacts_def)
  ultimately show ?case using TestResultReviewStepFacts_values [OF 2]
    by (cases "trr_executionCompletion x") (simp_all add: review_fromValues_def tc_completion.mk_js)
qed (simp add: trr_values_def)

subsection \<open>Typed step facts\<close>

text \<open>The subclasses of \<open>NonGateStepFacts\<close>; the last is the placeholder for an artifact that was refused
  before Definition saw it.\<close>

datatype NonGateStepFacts =
    FinalRegression FinalRegressionStepFacts
  | TestExecute TestExecuteStepFacts
  | TestResultReview TestResultReviewStepFacts
  | InvalidTestChainObservation jsval jsval jsval

fun nsf_kind :: "NonGateStepFacts \<Rightarrow> string" where
  "nsf_kind (FinalRegression _) = ''final-regression''"
| "nsf_kind (TestExecute _) = ''test-execute''"
| "nsf_kind (TestResultReview _) = ''test-result-review''"
| "nsf_kind (InvalidTestChainObservation _ _ _) = ''test-chain-invalid-observation''"

fun nsf_values :: "NonGateStepFacts \<Rightarrow> jsval" where
  "nsf_values (FinalRegression s) = frs_values s"
| "nsf_values (TestExecute s) = tes_values s"
| "nsf_values (TestResultReview s) = trr_values s"
| "nsf_values (InvalidTestChainObservation stepId payload reason) =
     JObj [(''stepId'', stepId), (''payload'', payload), (''reason'', reason)]"

definition NonGateStepFacts_toJSON :: "NonGateStepFacts \<Rightarrow> jsval" where
  "NonGateStepFacts_toJSON s = JObj [(''kind'', JStr (nsf_kind s)), (''values'', nsf_values s)]"

text \<open>\<open>facts.toolingFailure\<close> on a step facts value: \<open>undefined\<close> (falsy) where the class has no such
  member.\<close>

fun nsf_toolingFailure :: "NonGateStepFacts \<Rightarrow> bool" where
  "nsf_toolingFailure (TestExecute s) = tes_toolingFailure s"
| "nsf_toolingFailure (TestResultReview s) = trr_toolingFailure s"
| "nsf_toolingFailure _ = False"

fun wf_NonGateStepFacts :: "NonGateStepFacts \<Rightarrow> bool" where
  "wf_NonGateStepFacts (FinalRegression s) = wf_FinalRegressionStepFacts s"
| "wf_NonGateStepFacts (TestExecute s) = wf_TestExecuteStepFacts s"
| "wf_NonGateStepFacts (TestResultReview s) = wf_TestResultReviewStepFacts s"
| "wf_NonGateStepFacts (InvalidTestChainObservation _ _ _) = True"

text \<open>A decoder of persisted step facts, the parameter of \<open>NonGateTransitionFacts.fromPersisted\<close>: the
  final regression's own, and the constructors of the test chain on the stored values.\<close>

definition decode_step_facts :: "jsval \<Rightarrow> NonGateStepFacts res" where
  "decode_step_facts v =
     (if propq v ''kind'' = JStr ''test-execute'' then
        bindE (new_TestExecuteStepFacts (propq v ''values'')) (\<lambda>s. Inr (TestExecute s))
      else if propq v ''kind'' = JStr ''test-result-review'' then
        bindE (review_fromValues (propq v ''values'')) (\<lambda>s. Inr (TestResultReview s))
      else bindE (final_regression_fromPersisted v) (\<lambda>s. Inr (FinalRegression s)))"

lemma decode_step_facts_wf: "decode_step_facts v = Inr s \<Longrightarrow> wf_NonGateStepFacts s"
  by (auto simp: decode_step_facts_def split: if_splits
      dest: tc_execute.mk_wf tc_review.mk_wf final_regression.mk_wf)

lemma decode_step_facts_json:
  "wf_NonGateStepFacts s \<Longrightarrow> nsf_kind s \<noteq> ''test-chain-invalid-observation'' \<Longrightarrow>
   decode_step_facts (NonGateStepFacts_toJSON s) = Inr s"
proof (cases s)
  case (FinalRegression r)
  then show "wf_NonGateStepFacts s \<Longrightarrow> ?thesis"
    using final_regression.mk_js [of r]
    by (simp add: decode_step_facts_def NonGateStepFacts_toJSON_def FinalRegressionStepFacts_toJSON_def)
qed (simp_all add: decode_step_facts_def NonGateStepFacts_toJSON_def tc_execute.mk_js tc_review.mk_js)

end
