(* ===== verification/Non_Gate_Transition_Facts.thy ===== *)
theory Non_Gate_Transition_Facts
  imports Non_Gate_Steps
begin

section \<open>Complete facts of a non-Gate transition\<close>

text \<open>
  \<open>NonGateTransitionFacts\<close> of \<open>src/flow/lib/non-gate-transition.js\<close>: the complete input of the common
  reducer, its integrity check and its persisted form.  The typed step facts are not JSON and are
  passed beside the other arguments; \<open>fromPersisted\<close> takes their decoder as its parameter, as the
  source does.
\<close>

record NonGateTransitionFacts =
  ntf_runId :: string
  ntf_specId :: string
  ntf_stepId :: string
  ntf_snapshotRevision :: string
  ntf_producer :: NonGateProducerOwnership
  ntf_target :: NonGateTargetBinding
  ntf_currentAttempt :: NonGateAttemptIdentity
  ntf_catalogPublication :: NonGateCatalogPublication
  ntf_sourcePublication :: NonGateCatalogPublication
  ntf_repairPublication :: "NonGateCatalogPublication option"
  ntf_lineage :: NonGateLineage
  ntf_retry :: NonGateRetryMetrics
  ntf_recoveryEvidence :: NonGateRecoveryEvidence
  ntf_completion :: NonGateCompletionFacts
  ntf_nonblocking :: bool
  ntf_stepFacts :: "NonGateStepFacts option"
  ntf_explicitIntegrityFailure :: "string option"

definition new_NonGateTransitionFacts :: "jsval \<Rightarrow> NonGateStepFacts option \<Rightarrow> NonGateTransitionFacts res" where
  "new_NonGateTransitionFacts arg stepFacts = bindE (destructure arg) (\<lambda>ob.
     bindE (gt_text ''non-Gate runId'' (fld ob ''runId'')) (\<lambda>runId.
     bindE (gt_text ''non-Gate specId'' (fld ob ''specId'')) (\<lambda>specId.
     bindE (gt_text ''non-Gate stepId'' (fld ob ''stepId'')) (\<lambda>stepId.
     bindE (gt_text ''non-Gate snapshot revision'' (fld ob ''snapshotRevision'')) (\<lambda>revision.
     bindE (new_NonGateProducerOwnership (fld ob ''producer'')) (\<lambda>producer.
     bindE (new_NonGateTargetBinding (fld ob ''target'')) (\<lambda>target.
     bindE (new_NonGateAttemptIdentity (fld ob ''currentAttempt'')) (\<lambda>attempt.
     bindE (new_NonGateCatalogPublication (fld ob ''catalogPublication'')) (\<lambda>catalog.
     bindE (new_NonGateCatalogPublication (fld ob ''sourcePublication'')) (\<lambda>source.
     bindE (nullable new_NonGateCatalogPublication (fld_or ob ''repairPublication'' JNull)) (\<lambda>repair.
     bindE (new_NonGateLineage (fld ob ''lineage'')) (\<lambda>lineage.
     bindE (new_NonGateRetryMetrics (fld ob ''retry'')) (\<lambda>retry.
     bindE (new_NonGateRecoveryEvidence (fld ob ''recoveryEvidence'')) (\<lambda>recovery.
     bindE (new_NonGateCompletionFacts (fld ob ''completion'')) (\<lambda>completion.
     bindE (bool_or (Error ''non-Gate nonblocking must be boolean'') (fld_or ob ''nonblocking'' (JBool False))) (\<lambda>nonblocking.
     bindE (nullable (gt_text ''non-Gate integrity failure'') (fld_or ob ''integrityFailure'' JNull)) (\<lambda>failure.
     Inr \<lparr>ntf_runId = runId, ntf_specId = specId, ntf_stepId = stepId, ntf_snapshotRevision = revision,
          ntf_producer = producer, ntf_target = target, ntf_currentAttempt = attempt, ntf_catalogPublication = catalog,
          ntf_sourcePublication = source, ntf_repairPublication = repair, ntf_lineage = lineage, ntf_retry = retry,
          ntf_recoveryEvidence = recovery, ntf_completion = completion, ntf_nonblocking = nonblocking,
          ntf_stepFacts = stepFacts, ntf_explicitIntegrityFailure = failure\<rparr>)))))))))))))))))"

text \<open>The integrity check, in the order of the source: ownership first, then the bindings of the
  publications to the lineage, then the lineage itself.\<close>

definition ng_ownership_failure :: "NonGateTransitionFacts \<Rightarrow> string option" where
  "ng_ownership_failure f =
     (let owner = (\<lambda>r s. r = ntf_runId f \<and> s = ntf_specId f); p = ntf_producer f; t = ntf_target f;
          c = ntf_catalogPublication f; src = ntf_sourcePublication f in
      if \<not> owner (npo_runId p) (npo_specId p) \<or> npo_stepId p \<noteq> ntf_stepId f then Some ''producer_ownership_mismatch''
      else if \<not> owner (ntb_runId t) (ntb_specId t) \<or> ntb_stepId t \<noteq> ntf_stepId f then Some ''target_binding_mismatch''
      else if \<not> nai_matches (ntf_currentAttempt f) (npo_attempt p) \<or> \<not> nai_matches (ntf_currentAttempt f) (ntb_attempt t)
      then Some ''target_attempt_mismatch''
      else if \<not> owner (ncp_runId c) (ncp_specId c) \<or> ncp_stepId c \<noteq> ntf_stepId f then Some ''catalog_ownership_mismatch''
      else if \<not> owner (ncp_runId src) (ncp_specId src) then Some ''source_catalog_ownership_mismatch''
      else (case ntf_repairPublication f of
          None \<Rightarrow> None
        | Some r \<Rightarrow> if owner (ncp_runId r) (ncp_specId r) then None else Some ''repair_catalog_ownership_mismatch''))"

definition repair_catalog_mismatch :: "NonGateTransitionFacts \<Rightarrow> bool" where
  "repair_catalog_mismatch f = (case ntf_repairPublication f of
     None \<Rightarrow> False
   | Some r \<Rightarrow> Some (ncp_fingerprint r) \<noteq> nln_repairFingerprint (ntf_lineage f)
       \<or> (case nln_repairAttempt (ntf_lineage f) of None \<Rightarrow> True | Some a \<Rightarrow> \<not> nai_matches (ncp_attempt r) a))"

definition ng_lineage_failure :: "NonGateTransitionFacts \<Rightarrow> string option" where
  "ng_lineage_failure f =
     (let c = ntf_catalogPublication f; src = ntf_sourcePublication f; l = ntf_lineage f in
      if npo_activityId (ntf_producer f) \<noteq> ncp_producerActivityId c then Some ''catalog_producer_mismatch''
      else if \<not> nai_matches (ntf_currentAttempt f) (ncp_attempt c) then Some ''attempt_catalog_mismatch''
      else if ncp_fingerprint c \<noteq> nln_canonicalFingerprint l then Some ''catalog_lineage_mismatch''
      else if ncp_fingerprint src \<noteq> nln_sourceFingerprint l then Some ''source_catalog_lineage_mismatch''
      else if \<not> nai_matches (ncp_attempt src) (nln_sourceAttempt l) then Some ''source_attempt_lineage_mismatch''
      else if (ntf_repairPublication f = None) \<noteq> (nln_repairAttempt l = None) then Some ''repair_publication_lineage_mismatch''
      else if repair_catalog_mismatch f then Some ''repair_catalog_lineage_mismatch''
      else if \<not> nai_matches (ntf_currentAttempt f) (nln_canonicalAttempt l) then Some ''attempt_lineage_mismatch''
      else if \<not> nln_isCurrent l then Some ''source_canonical_repair_lineage_mismatch''
      else if \<not> nre_isBoundTo (ntf_recoveryEvidence f) l then Some ''recovery_lineage_mismatch'' else None)"

definition ntf_integrityFailure :: "NonGateTransitionFacts \<Rightarrow> string option" where
  "ntf_integrityFailure f = (case ntf_explicitIntegrityFailure f of
     Some reason \<Rightarrow> Some reason
   | None \<Rightarrow> (case ng_ownership_failure f of Some reason \<Rightarrow> Some reason | None \<Rightarrow> ng_lineage_failure f))"

definition NonGateTransitionFacts_toJSON :: "NonGateTransitionFacts \<Rightarrow> jsval" where
  "NonGateTransitionFacts_toJSON f = JObj
     [(''runId'', JStr (ntf_runId f)), (''specId'', JStr (ntf_specId f)), (''stepId'', JStr (ntf_stepId f)),
      (''snapshotRevision'', JStr (ntf_snapshotRevision f)),
      (''producer'', NonGateProducerOwnership_toJSON (ntf_producer f)),
      (''target'', NonGateTargetBinding_toJSON (ntf_target f)),
      (''currentAttempt'', NonGateAttemptIdentity_toJSON (ntf_currentAttempt f)),
      (''catalogPublication'', NonGateCatalogPublication_toJSON (ntf_catalogPublication f)),
      (''sourcePublication'', NonGateCatalogPublication_toJSON (ntf_sourcePublication f)),
      (''repairPublication'', js_opt NonGateCatalogPublication_toJSON (ntf_repairPublication f)),
      (''lineage'', NonGateLineage_toJSON (ntf_lineage f)), (''retry'', NonGateRetryMetrics_toJSON (ntf_retry f)),
      (''recoveryEvidence'', NonGateRecoveryEvidence_toJSON (ntf_recoveryEvidence f)),
      (''completion'', NonGateCompletionFacts_toJSON (ntf_completion f)), (''nonblocking'', JBool (ntf_nonblocking f)),
      (''stepFacts'', js_opt NonGateStepFacts_toJSON (ntf_stepFacts f)),
      (''integrityFailure'', js_opt JStr (ntf_explicitIntegrityFailure f))]"

definition non_gate_fromPersisted ::
  "(jsval \<Rightarrow> NonGateStepFacts res) \<Rightarrow> jsval \<Rightarrow> NonGateTransitionFacts res" where
  "non_gate_fromPersisted decode value =
     bindE (plainObject ''persisted non-Gate transition facts'' value) (\<lambda>ob.
     bindE (nullish decode (fld ob ''stepFacts'')) (\<lambda>stepFacts.
     new_NonGateTransitionFacts value stepFacts))"

definition wf_NonGateTransitionFacts :: "NonGateTransitionFacts \<Rightarrow> bool" where
  "wf_NonGateTransitionFacts f \<longleftrightarrow> is_text (ntf_runId f) \<and> is_text (ntf_specId f) \<and> is_text (ntf_stepId f) \<and>
     is_text (ntf_snapshotRevision f) \<and> wf_NonGateProducerOwnership (ntf_producer f) \<and>
     wf_NonGateTargetBinding (ntf_target f) \<and> wf_NonGateAttemptIdentity (ntf_currentAttempt f) \<and>
     wf_NonGateCatalogPublication (ntf_catalogPublication f) \<and> wf_NonGateCatalogPublication (ntf_sourcePublication f) \<and>
     pred_option wf_NonGateCatalogPublication (ntf_repairPublication f) \<and> wf_NonGateLineage (ntf_lineage f) \<and>
     wf_NonGateRetryMetrics (ntf_retry f) \<and> wf_NonGateRecoveryEvidence (ntf_recoveryEvidence f) \<and>
     wf_NonGateCompletionFacts (ntf_completion f) \<and> pred_option wf_NonGateStepFacts (ntf_stepFacts f) \<and>
     pred_option is_text (ntf_explicitIntegrityFailure f)"

lemmas ng_mk_wfs = ng_producer.mk_wf ng_target.mk_wf ng_attempt.mk_wf ng_catalog.mk_wf ng_catalog.nullable_mk_wf
  ng_lineage.mk_wf ng_retry.mk_wf ng_recovery.mk_wf ng_completion.mk_wf

lemmas ng_mk_js = ng_producer.mk_js ng_target.mk_js ng_attempt.mk_js ng_catalog.mk_js ng_catalog.nullable_mk_js
  ng_lineage.mk_js ng_retry.mk_js ng_recovery.mk_js ng_completion.mk_js

lemma nullable_gt_text_wf: "nullable (gt_text f) v = Inr x \<Longrightarrow> pred_option is_text x"
  by (erule nullable_wf) auto

lemma nullable_gt_text_js: "pred_option is_text x \<Longrightarrow> nullable (gt_text f) (js_opt JStr x) = Inr x"
  by (rule nullable_opt [where P = is_text]) auto

lemma new_NonGateTransitionFacts_wf:
  assumes "new_NonGateTransitionFacts v s = Inr f" "pred_option wf_NonGateStepFacts s"
  shows "wf_NonGateTransitionFacts f"
  using assms unfolding new_NonGateTransitionFacts_def
  by (clarsimp simp: wf_NonGateTransitionFacts_def nullable_gt_text_wf dest!: ng_mk_wfs)

lemma new_NonGateTransitionFacts_json:
  assumes "wf_NonGateTransitionFacts f"
  shows "new_NonGateTransitionFacts (NonGateTransitionFacts_toJSON f) (ntf_stepFacts f) = Inr f"
  using assms unfolding new_NonGateTransitionFacts_def wf_NonGateTransitionFacts_def NonGateTransitionFacts_toJSON_def
  by (simp add: ng_mk_js nullable_gt_text_js)

lemma stepFacts_json_object [simp]:
  "NonGateStepFacts_toJSON s \<noteq> JNull" "NonGateStepFacts_toJSON s \<noteq> JUndef"
  by (simp_all add: NonGateStepFacts_toJSON_def)

lemma non_gate_fromPersisted_json:
  assumes "wf_NonGateTransitionFacts f"
    and "pred_option (\<lambda>s. decode (NonGateStepFacts_toJSON s) = Inr s) (ntf_stepFacts f)"
  shows "non_gate_fromPersisted decode (NonGateTransitionFacts_toJSON f) = Inr f"
proof -
  have "nullish decode (js_opt NonGateStepFacts_toJSON (ntf_stepFacts f)) = Inr (ntf_stepFacts f)"
    using assms(2) by (intro nullish_opt [where P = "\<lambda>s. decode (NonGateStepFacts_toJSON s) = Inr s"]) auto
  moreover obtain ob where ob: "NonGateTransitionFacts_toJSON f = JObj ob"
      "fld ob ''stepFacts'' = js_opt NonGateStepFacts_toJSON (ntf_stepFacts f)"
    by (simp add: NonGateTransitionFacts_toJSON_def)
  ultimately show ?thesis
    using new_NonGateTransitionFacts_json [OF assms(1)]
    by (simp add: non_gate_fromPersisted_def)
qed

subsection \<open>The integrity check\<close>

text \<open>What intact facts are: one run, spec and step own every part; one Attempt produced and consumes the
  publication; every fingerprint in the lineage is that of its publication; and the lineage is current.\<close>

definition ng_intact :: "NonGateTransitionFacts \<Rightarrow> bool" where
  "ng_intact f \<longleftrightarrow> ntf_explicitIntegrityFailure f = None
     \<and> ntf_producer f = \<lparr>npo_runId = ntf_runId f, npo_specId = ntf_specId f,
         npo_activityId = ncp_producerActivityId (ntf_catalogPublication f), npo_stepId = ntf_stepId f,
         npo_attempt = ntf_currentAttempt f\<rparr>
     \<and> ntf_target f = \<lparr>ntb_runId = ntf_runId f, ntb_specId = ntf_specId f, ntb_stepId = ntf_stepId f,
         ntb_attempt = ntf_currentAttempt f\<rparr>
     \<and> ncp_runId (ntf_catalogPublication f) = ntf_runId f \<and> ncp_specId (ntf_catalogPublication f) = ntf_specId f
     \<and> ncp_stepId (ntf_catalogPublication f) = ntf_stepId f
     \<and> ncp_attempt (ntf_catalogPublication f) = ntf_currentAttempt f
     \<and> nln_canonicalAttempt (ntf_lineage f) = ntf_currentAttempt f
     \<and> nln_canonicalFingerprint (ntf_lineage f) = ncp_fingerprint (ntf_catalogPublication f)
     \<and> ncp_runId (ntf_sourcePublication f) = ntf_runId f \<and> ncp_specId (ntf_sourcePublication f) = ntf_specId f
     \<and> nln_sourceFingerprint (ntf_lineage f) = ncp_fingerprint (ntf_sourcePublication f)
     \<and> nln_sourceAttempt (ntf_lineage f) = ncp_attempt (ntf_sourcePublication f)
     \<and> (case ntf_repairPublication f of
          None \<Rightarrow> nln_repairAttempt (ntf_lineage f) = None
        | Some r \<Rightarrow> ncp_runId r = ntf_runId f \<and> ncp_specId r = ntf_specId f
            \<and> nln_repairAttempt (ntf_lineage f) = Some (ncp_attempt r)
            \<and> nln_repairFingerprint (ntf_lineage f) = Some (ncp_fingerprint r))
     \<and> nln_isCurrent (ntf_lineage f) \<and> nre_isBoundTo (ntf_recoveryEvidence f) (ntf_lineage f)"

lemma ng_ownership_ok:
  "ng_ownership_failure f = None \<longleftrightarrow>
     npo_runId (ntf_producer f) = ntf_runId f \<and> npo_specId (ntf_producer f) = ntf_specId f
     \<and> npo_stepId (ntf_producer f) = ntf_stepId f
     \<and> ntb_runId (ntf_target f) = ntf_runId f \<and> ntb_specId (ntf_target f) = ntf_specId f
     \<and> ntb_stepId (ntf_target f) = ntf_stepId f
     \<and> npo_attempt (ntf_producer f) = ntf_currentAttempt f \<and> ntb_attempt (ntf_target f) = ntf_currentAttempt f
     \<and> ncp_runId (ntf_catalogPublication f) = ntf_runId f \<and> ncp_specId (ntf_catalogPublication f) = ntf_specId f
     \<and> ncp_stepId (ntf_catalogPublication f) = ntf_stepId f
     \<and> ncp_runId (ntf_sourcePublication f) = ntf_runId f \<and> ncp_specId (ntf_sourcePublication f) = ntf_specId f
     \<and> pred_option (\<lambda>r. ncp_runId r = ntf_runId f \<and> ncp_specId r = ntf_specId f) (ntf_repairPublication f)"
  unfolding ng_ownership_failure_def Let_def by (auto split: option.split)

lemma ng_lineage_ok:
  "ng_lineage_failure f = None \<longleftrightarrow>
     npo_activityId (ntf_producer f) = ncp_producerActivityId (ntf_catalogPublication f)
     \<and> ncp_attempt (ntf_catalogPublication f) = ntf_currentAttempt f
     \<and> ncp_fingerprint (ntf_catalogPublication f) = nln_canonicalFingerprint (ntf_lineage f)
     \<and> ncp_fingerprint (ntf_sourcePublication f) = nln_sourceFingerprint (ntf_lineage f)
     \<and> ncp_attempt (ntf_sourcePublication f) = nln_sourceAttempt (ntf_lineage f)
     \<and> (ntf_repairPublication f = None \<longleftrightarrow> nln_repairAttempt (ntf_lineage f) = None)
     \<and> \<not> repair_catalog_mismatch f \<and> nln_canonicalAttempt (ntf_lineage f) = ntf_currentAttempt f
     \<and> nln_isCurrent (ntf_lineage f) \<and> nre_isBoundTo (ntf_recoveryEvidence f) (ntf_lineage f)"
  unfolding ng_lineage_failure_def Let_def by auto

lemma ng_integrity_ok: "ntf_integrityFailure f = None \<longleftrightarrow> ng_intact f"
proof -
  have "ntf_integrityFailure f = None \<longleftrightarrow> ntf_explicitIntegrityFailure f = None \<and> ng_ownership_failure f = None
      \<and> ng_lineage_failure f = None"
    by (simp add: ntf_integrityFailure_def split: option.split)
  moreover have "repair_catalog_mismatch f \<longleftrightarrow> (\<exists>r. ntf_repairPublication f = Some r \<and>
      \<not> (nln_repairAttempt (ntf_lineage f) = Some (ncp_attempt r) \<and> nln_repairFingerprint (ntf_lineage f) = Some (ncp_fingerprint r)))"
    by (auto simp: repair_catalog_mismatch_def split: option.split)
  ultimately show ?thesis
    unfolding ng_ownership_ok ng_lineage_ok ng_intact_def
    by (cases "ntf_repairPublication f"; cases "ntf_producer f"; cases "ntf_target f") auto
qed

end
