(* ===== verification/Non_Gate_Decision.thy ===== *)
theory Non_Gate_Decision
  imports Non_Gate_Transition_Facts Gate_Resolver
begin

section \<open>Definition-owned decisions of the non-Gate steps\<close>

text \<open>
  Models the non-Gate part of \<open>src/flow/definition.js\<close>: dispositions, selections, step actions, the
  sealed plan with its action identity, the common reducer \<open>resolveNonGateTransition\<close> and advisory
  eligibility, with the failure classification of \<open>src/flow/lib/nonblocking-evidence.js\<close>.  Arguments
  that the private token reserves for the module are typed; every other check of a constructor is
  kept.  \<open>stableJson\<close> of \<open>review-work-unit-values.js\<close> has the body of \<open>stableGateJson\<close>, so digests use
  the same \<open>fingerprint\<close>.
\<close>

subsection \<open>Dispositions and selections\<close>

definition NON_GATE_OPERATIONS :: "string list" where
  "NON_GATE_OPERATIONS = [''advance'', ''keep-in-progress'', ''await-user-input'', ''retry'', ''repair'',
     ''record-and-proceed'', ''external-blocked'', ''blocked'', ''park'']"

datatype non_gate_disposition =
    NgAdvance | NgKeepInProgress | NgAwaitUserInput "string option" | NgRetry | NgRepair | NgRecordAndProceed
  | NgExternalBlocked string | NgBlocked string | NgPark "string option"

fun ngd_operation :: "non_gate_disposition \<Rightarrow> string" where
  "ngd_operation NgAdvance = ''advance''"
| "ngd_operation NgKeepInProgress = ''keep-in-progress''"
| "ngd_operation (NgAwaitUserInput _) = ''await-user-input''"
| "ngd_operation NgRetry = ''retry''"
| "ngd_operation NgRepair = ''repair''"
| "ngd_operation NgRecordAndProceed = ''record-and-proceed''"
| "ngd_operation (NgExternalBlocked _) = ''external-blocked''"
| "ngd_operation (NgBlocked _) = ''blocked''"
| "ngd_operation (NgPark _) = ''park''"

fun ngd_reason :: "non_gate_disposition \<Rightarrow> string option" where
  "ngd_reason (NgAwaitUserInput reason) = reason"
| "ngd_reason (NgExternalBlocked reason) = Some reason"
| "ngd_reason (NgBlocked reason) = Some reason"
| "ngd_reason (NgPark reason) = reason"
| "ngd_reason _ = None"

definition new_NonGateDisposition :: "non_gate_disposition \<Rightarrow> non_gate_disposition res" where
  "new_NonGateDisposition d =
     bindE (requireString ''non-Gate disposition operation'' (ngd_operation d)) (\<lambda>op.
     if op \<notin> set NON_GATE_OPERATIONS then Inl (Error ''non-Gate disposition operation is invalid'') else
     bindE (optional_string ''non-Gate disposition reason'' (ngd_reason d)) (\<lambda>_. Inr d))"

definition NonGateDisposition_toJSON :: "non_gate_disposition \<Rightarrow> jsval" where
  "NonGateDisposition_toJSON d = JObj [(''operation'', JStr (ngd_operation d)), (''reason'', js_opt JStr (ngd_reason d))]"

text \<open>The pattern \<open>/^[A-Z][A-Z0-9_]{2,79}$/\<close>.\<close>

definition upper_char :: "char \<Rightarrow> bool" where
  "upper_char c \<longleftrightarrow> c \<in> set ''ABCDEFGHIJKLMNOPQRSTUVWXYZ''"

definition is_action_id :: "string \<Rightarrow> bool" where
  "is_action_id s \<longleftrightarrow> 3 \<le> length s \<and> length s \<le> 80 \<and> upper_char (hd s)
     \<and> list_all (\<lambda>c. upper_char c \<or> c \<in> set ''0123456789_'') s"

record NonGateUserActionSelection =
  nus_actionId :: string

definition new_NonGateUserActionSelection :: "string \<Rightarrow> NonGateUserActionSelection res" where
  "new_NonGateUserActionSelection actionId = bindE (requireString ''non-Gate user action id'' actionId) (\<lambda>a.
     if is_action_id a then Inr \<lparr>nus_actionId = a\<rparr> else Inl (Error ''non-Gate user action id is invalid''))"

definition NonGateUserActionSelection_toJSON :: "NonGateUserActionSelection \<Rightarrow> jsval" where
  "NonGateUserActionSelection_toJSON u = JObj [(''actionId'', JStr (nus_actionId u))]"

subsection \<open>Step actions\<close>

record NonGateStepUpdate =
  nsu_stepId :: string
  nsu_status :: string

definition new_NonGateStepUpdate :: "string \<Rightarrow> string \<Rightarrow> NonGateStepUpdate res" where
  "new_NonGateStepUpdate stepId status =
     bindE (requireString ''non-Gate step update stepId'' stepId) (\<lambda>i.
     bindE (requireString ''non-Gate step update status'' status) (\<lambda>s.
     if s \<notin> {''in_progress'', ''done''} then Inl (Error ''non-Gate step update status is invalid'')
     else Inr \<lparr>nsu_stepId = i, nsu_status = s\<rparr>))"

definition NonGateStepUpdate_toJSON :: "NonGateStepUpdate \<Rightarrow> jsval" where
  "NonGateStepUpdate_toJSON u = JObj [(''stepId'', JStr (nsu_stepId u)), (''status'', JStr (nsu_status u))]"

record NonGateFailCurrentAttempt =
  nfa_category :: string
  nfa_code :: string
  nfa_retryable :: bool
  nfa_retryKind :: "string option"
  nfa_message :: string

datatype NonGateStepAction =
    SetStepStatusAction NonGateStepUpdate
  | IncrementRetryAction string
  | FailCurrentAttemptAction NonGateFailCurrentAttempt
  | RecordNonblockingAction string

definition new_NonGateIncrementRetryAction :: "string \<Rightarrow> NonGateStepAction res" where
  "new_NonGateIncrementRetryAction stepId =
     bindE (requireString ''non-Gate retry action stepId'' stepId) (\<lambda>i. Inr (IncrementRetryAction i))"

definition new_NonGateFailCurrentAttemptAction ::
  "string \<Rightarrow> string \<Rightarrow> bool \<Rightarrow> string option \<Rightarrow> string \<Rightarrow> NonGateStepAction res" where
  "new_NonGateFailCurrentAttemptAction category code retryable retryKind message =
     bindE (requireString ''non-Gate failure category'' category) (\<lambda>c.
     bindE (requireString ''non-Gate failure code'' code) (\<lambda>d.
     bindE (optional_string ''non-Gate failure retry kind'' retryKind) (\<lambda>k.
     bindE (requireString ''non-Gate failure message'' message) (\<lambda>m.
     Inr (FailCurrentAttemptAction \<lparr>nfa_category = c, nfa_code = d, nfa_retryable = retryable, nfa_retryKind = k,
       nfa_message = m\<rparr>)))))"

definition new_NonGateRecordNonblockingAction :: "string \<Rightarrow> NonGateStepAction res" where
  "new_NonGateRecordNonblockingAction stepId =
     bindE (requireString ''non-Gate nonblocking stepId'' stepId) (\<lambda>i. Inr (RecordNonblockingAction i))"

fun NonGateStepAction_toJSON :: "NonGateStepAction \<Rightarrow> jsval" where
  "NonGateStepAction_toJSON (SetStepStatusAction u) =
     JObj [(''action'', JStr ''set-step-status''), (''update'', NonGateStepUpdate_toJSON u)]"
| "NonGateStepAction_toJSON (IncrementRetryAction s) =
     JObj [(''action'', JStr ''increment-retry''), (''stepId'', JStr s)]"
| "NonGateStepAction_toJSON (FailCurrentAttemptAction a) =
     JObj [(''action'', JStr ''fail-current-attempt''), (''category'', JStr (nfa_category a)), (''code'', JStr (nfa_code a)),
       (''retryable'', JBool (nfa_retryable a)), (''retryKind'', js_opt JStr (nfa_retryKind a)),
       (''message'', JStr (nfa_message a))]"
| "NonGateStepAction_toJSON (RecordNonblockingAction s) =
     JObj [(''action'', JStr ''record-nonblocking''), (''stepId'', JStr s)]"

text \<open>A selection; \<open>selecting\<close> is the argument of its constructor with every optional member left out.\<close>

record NonGateTransitionSelection =
  nts_operation :: string
  nts_reason :: "string option"
  nts_beforeActions :: "NonGateStepAction list"
  nts_actions :: "NonGateStepAction list"
  nts_exhaustedActions :: "NonGateStepAction list"
  nts_userActions :: "NonGateUserActionSelection list"

definition selecting :: "string \<Rightarrow> NonGateTransitionSelection" where
  "selecting operation = \<lparr>nts_operation = operation, nts_reason = None, nts_beforeActions = [], nts_actions = [],
     nts_exhaustedActions = [], nts_userActions = []\<rparr>"

definition new_NonGateTransitionSelection :: "NonGateTransitionSelection \<Rightarrow> NonGateTransitionSelection res" where
  "new_NonGateTransitionSelection a =
     bindE (requireString ''non-Gate selection operation'' (nts_operation a)) (\<lambda>op.
     if op \<notin> set NON_GATE_OPERATIONS then Inl (Error ''non-Gate selection operation is invalid'') else
     bindE (optional_string ''non-Gate selection reason'' (nts_reason a)) (\<lambda>_.
     if \<not> distinct (map nus_actionId (nts_userActions a))
     then Inl (Error ''non-Gate selection user actions must be unique'') else Inr a))"

record NonGateStepDefinition =
  nsd_stepId :: string
  nsd_factsType :: "NonGateStepFacts \<Rightarrow> bool"
  nsd_select :: "NonGateStepFacts \<Rightarrow> NonGateTransitionFacts \<Rightarrow> NonGateTransitionSelection res"

definition selectionFor :: "NonGateStepDefinition \<Rightarrow> NonGateTransitionFacts \<Rightarrow> NonGateTransitionSelection res" where
  "selectionFor d f =
     (if ntf_stepId f \<noteq> nsd_stepId d then Inl (Error ''non-Gate Step Definition does not own these facts'') else
      (case ntf_stepFacts f of
         None \<Rightarrow> Inl (Error ''non-Gate Step Definition received incompatible typed Step facts'')
       | Some s \<Rightarrow>
           if nsd_factsType d s then nsd_select d s f
           else Inl (Error ''non-Gate Step Definition received incompatible typed Step facts'')))"

subsection \<open>Action identities, plans and decisions\<close>

record NonGateActionIdentity =
  nac_runId :: string
  nac_specId :: string
  nac_stepId :: string
  nac_attempt :: NonGateAttemptIdentity
  nac_catalogFingerprint :: string
  nac_factsFingerprint :: string
  nac_selectedFingerprint :: string
  nac_operation :: string

definition new_NonGateActionIdentity ::
  "string \<Rightarrow> string \<Rightarrow> string \<Rightarrow> NonGateAttemptIdentity \<Rightarrow> string \<Rightarrow> string \<Rightarrow> string \<Rightarrow> string \<Rightarrow> NonGateActionIdentity res" where
  "new_NonGateActionIdentity runId specId stepId attempt catalogFp factsFp selectedFp operation =
     bindE (requireString ''non-Gate Action runId'' runId) (\<lambda>r.
     bindE (requireString ''non-Gate Action specId'' specId) (\<lambda>s.
     bindE (requireString ''non-Gate Action stepId'' stepId) (\<lambda>st.
     bindE (requireString ''non-Gate Action catalog fingerprint'' catalogFp) (\<lambda>c.
     bindE (requireString ''non-Gate Action facts fingerprint'' factsFp) (\<lambda>ff.
     bindE (requireString ''non-Gate Action selected fingerprint'' selectedFp) (\<lambda>sf.
     bindE (requireString ''non-Gate Action operation'' operation) (\<lambda>op.
     if op \<notin> set NON_GATE_OPERATIONS then Inl (Error ''non-Gate Action operation is invalid'') else
     Inr \<lparr>nac_runId = r, nac_specId = s, nac_stepId = st, nac_attempt = attempt, nac_catalogFingerprint = c,
          nac_factsFingerprint = ff, nac_selectedFingerprint = sf, nac_operation = op\<rparr>)))))))"

definition nac_matches :: "NonGateActionIdentity \<Rightarrow> NonGateActionIdentity \<Rightarrow> bool" where
  "nac_matches a b \<longleftrightarrow> nac_runId a = nac_runId b \<and> nac_specId a = nac_specId b \<and> nac_stepId a = nac_stepId b
     \<and> nai_matches (nac_attempt a) (nac_attempt b) \<and> nac_catalogFingerprint a = nac_catalogFingerprint b
     \<and> nac_factsFingerprint a = nac_factsFingerprint b \<and> nac_selectedFingerprint a = nac_selectedFingerprint b
     \<and> nac_operation a = nac_operation b"

definition NonGateActionIdentity_toJSON :: "NonGateActionIdentity \<Rightarrow> jsval" where
  "NonGateActionIdentity_toJSON a = JObj
     [(''runId'', JStr (nac_runId a)), (''specId'', JStr (nac_specId a)), (''stepId'', JStr (nac_stepId a)),
      (''attempt'', NonGateAttemptIdentity_toJSON (nac_attempt a)), (''catalogFingerprint'', JStr (nac_catalogFingerprint a)),
      (''factsFingerprint'', JStr (nac_factsFingerprint a)), (''operation'', JStr (nac_operation a)),
      (''selectedFingerprint'', JStr (nac_selectedFingerprint a))]"

text \<open>A \<open>NonGateUserAction\<close> holds its identity and repeats its action id, so the identity stands for it.\<close>

record NonGateUserActionIdentity =
  nua_transition :: NonGateActionIdentity
  nua_actionId :: string

definition new_NonGateUserActionIdentity :: "NonGateActionIdentity \<Rightarrow> string \<Rightarrow> NonGateUserActionIdentity res" where
  "new_NonGateUserActionIdentity transition actionId =
     bindE (requireString ''non-Gate user Action id'' actionId) (\<lambda>a.
     if is_action_id a then Inr \<lparr>nua_transition = transition, nua_actionId = a\<rparr>
     else Inl (Error ''non-Gate user Action id is invalid''))"

definition nua_matches :: "NonGateUserActionIdentity \<Rightarrow> NonGateUserActionIdentity \<Rightarrow> bool" where
  "nua_matches a b \<longleftrightarrow> nua_actionId a = nua_actionId b \<and> nac_matches (nua_transition a) (nua_transition b)"

definition NonGateUserActionIdentity_toJSON :: "NonGateUserActionIdentity \<Rightarrow> jsval" where
  "NonGateUserActionIdentity_toJSON a =
     JObj [(''transition'', NonGateActionIdentity_toJSON (nua_transition a)), (''actionId'', JStr (nua_actionId a))]"

definition NonGateUserAction_toJSON :: "NonGateUserActionIdentity \<Rightarrow> jsval" where
  "NonGateUserAction_toJSON a = JObj [(''identity'', NonGateUserActionIdentity_toJSON a)]"

record NonGateTransitionPlan =
  ngp_identity :: NonGateActionIdentity
  ngp_actions :: "NonGateStepAction list"
  ngp_userActions :: "NonGateUserActionIdentity list"

definition new_NonGateTransitionPlan ::
  "NonGateActionIdentity \<Rightarrow> NonGateStepAction list \<Rightarrow> NonGateUserActionIdentity list \<Rightarrow> NonGateTransitionPlan res" where
  "new_NonGateTransitionPlan identity actions userActions =
     (if \<not> distinct (map nua_actionId userActions) then Inl (Error ''non-Gate plan user actions must be unique'')
      else Inr \<lparr>ngp_identity = identity, ngp_actions = actions, ngp_userActions = userActions\<rparr>)"

definition userActionFor :: "NonGateTransitionPlan \<Rightarrow> string \<Rightarrow> NonGateUserActionIdentity option res" where
  "userActionFor p actionId = bindE (requireString ''non-Gate user Action lookup id'' actionId) (\<lambda>i.
     Inr (find (\<lambda>a. nua_actionId a = i) (ngp_userActions p)))"

definition NonGateTransitionPlan_toJSON :: "NonGateTransitionPlan \<Rightarrow> jsval" where
  "NonGateTransitionPlan_toJSON p = JObj
     [(''action'', JObj [(''identity'', NonGateActionIdentity_toJSON (ngp_identity p))]),
      (''actions'', JArr (map NonGateStepAction_toJSON (ngp_actions p))),
      (''userActions'', JArr (map NonGateUserAction_toJSON (ngp_userActions p)))]"

record NonGateTransitionDecision =
  ngt_facts :: NonGateTransitionFacts
  ngt_disposition :: non_gate_disposition
  ngt_plan :: NonGateTransitionPlan

definition new_NonGateTransitionDecision ::
  "NonGateTransitionFacts \<Rightarrow> non_gate_disposition \<Rightarrow> NonGateTransitionPlan \<Rightarrow> NonGateTransitionDecision res" where
  "new_NonGateTransitionDecision f d plan =
     (if nac_operation (ngp_identity plan) \<noteq> ngd_operation d
      then Inl (Error ''non-Gate plan Action does not match disposition'')
      else Inr \<lparr>ngt_facts = f, ngt_disposition = d, ngt_plan = plan\<rparr>)"

definition NonGateTransitionDecision_toJSON :: "NonGateTransitionDecision \<Rightarrow> jsval" where
  "NonGateTransitionDecision_toJSON D = JObj
     [(''facts'', NonGateTransitionFacts_toJSON (ngt_facts D)),
      (''disposition'', NonGateDisposition_toJSON (ngt_disposition D)), (''plan'', NonGateTransitionPlan_toJSON (ngt_plan D))]"

definition selectedNonGateUserAction :: "NonGateTransitionDecision \<Rightarrow> string \<Rightarrow> NonGateUserActionIdentity res" where
  "selectedNonGateUserAction D actionId = bindE (userActionFor (ngt_plan D) actionId) (\<lambda>action. case action of
     None \<Rightarrow> Inl (Error ''Definition does not select the requested non-Gate user action'')
   | Some a \<Rightarrow>
       if \<not> nac_matches (nua_transition a) (ngp_identity (ngt_plan D))
       then Inl (Error ''non-Gate user action does not match the selected Definition Action'') else Inr a)"

text \<open>The options of \<open>nonGatePlan\<close> and \<open>nonGateDecision\<close>, with their defaults.\<close>

record non_gate_options =
  ngo_status :: string
  ngo_incrementRetry :: bool
  ngo_beforeActions :: "NonGateStepAction list"
  ngo_stepActions :: "NonGateStepAction list"
  ngo_userActions :: "NonGateUserActionSelection list"
  ngo_noEffects :: bool

definition ng_defaults :: non_gate_options where
  "ng_defaults = \<lparr>ngo_status = ''in_progress'', ngo_incrementRetry = False, ngo_beforeActions = [], ngo_stepActions = [],
     ngo_userActions = [], ngo_noEffects = False\<rparr>"

definition nonGateFactsFingerprint :: "NonGateTransitionFacts \<Rightarrow> string res" where
  "nonGateFactsFingerprint f = fingerprint (NonGateTransitionFacts_toJSON f)"

definition ng_selection_json ::
  "non_gate_disposition \<Rightarrow> NonGateStepAction list \<Rightarrow> NonGateUserActionSelection list \<Rightarrow> jsval" where
  "ng_selection_json d actions userActions = JObj
     [(''disposition'', NonGateDisposition_toJSON d), (''actions'', JArr (map NonGateStepAction_toJSON actions)),
      (''userActions'', JArr (map NonGateUserActionSelection_toJSON userActions))]"

text \<open>The part of \<open>nonGatePlan\<close> common to its two branches: identity, then the plan with its user actions.\<close>

definition sealed_plan ::
  "NonGateTransitionFacts \<Rightarrow> non_gate_disposition \<Rightarrow> NonGateStepAction list \<Rightarrow> NonGateUserActionSelection list \<Rightarrow>
   NonGateTransitionPlan res" where
  "sealed_plan f d actions userActions =
     bindE (nonGateFactsFingerprint f) (\<lambda>factsFp.
     bindE (fingerprint (ng_selection_json d actions userActions)) (\<lambda>selectedFp.
     bindE (new_NonGateActionIdentity (ntf_runId f) (ntf_specId f) (ntf_stepId f) (ntf_currentAttempt f)
              (ncp_fingerprint (ntf_catalogPublication f)) factsFp selectedFp (ngd_operation d)) (\<lambda>identity.
     bindE (mapE (\<lambda>u. new_NonGateUserActionIdentity identity (nus_actionId u)) userActions) (\<lambda>us.
     new_NonGateTransitionPlan identity actions us))))"

definition effect_actions :: "NonGateTransitionFacts \<Rightarrow> non_gate_options \<Rightarrow> NonGateStepAction list res" where
  "effect_actions f opts =
     bindE (new_NonGateStepUpdate (ntf_stepId f) (ngo_status opts)) (\<lambda>update.
     bindE (if ngo_incrementRetry opts
            then bindE (new_NonGateIncrementRetryAction (ntf_stepId f)) (\<lambda>a. Inr [a]) else Inr []) (\<lambda>retry.
     Inr (ngo_beforeActions opts @ SetStepStatusAction update # retry @ ngo_stepActions opts)))"

definition nonGatePlan :: "NonGateTransitionFacts \<Rightarrow> non_gate_disposition \<Rightarrow> non_gate_options \<Rightarrow> NonGateTransitionPlan res" where
  "nonGatePlan f d opts =
     (if ngo_noEffects opts then sealed_plan f d [] (ngo_userActions opts)
      else bindE (effect_actions f opts) (\<lambda>actions. sealed_plan f d actions (ngo_userActions opts)))"

definition nonGateDecision ::
  "NonGateTransitionFacts \<Rightarrow> non_gate_disposition \<Rightarrow> non_gate_options \<Rightarrow> NonGateTransitionDecision res" where
  "nonGateDecision f d opts = bindE (nonGatePlan f d opts) (\<lambda>plan. new_NonGateTransitionDecision f d plan)"

text \<open>\<open>nonGateDecision(facts, new <Disposition>(...), options)\<close>.\<close>

definition ng_decide ::
  "NonGateTransitionFacts \<Rightarrow> non_gate_disposition \<Rightarrow> non_gate_options \<Rightarrow> NonGateTransitionDecision res" where
  "ng_decide f d opts = bindE (new_NonGateDisposition d) (\<lambda>d'. nonGateDecision f d' opts)"

end
