(* ===== verification/Non_Gate_Resolver.thy ===== *)
theory Non_Gate_Resolver
  imports Non_Gate_Decision
begin

section \<open>The common reducer of the non-Gate steps\<close>

text \<open>
  \<open>resolveNonGateTransition\<close> of \<open>src/flow/definition.js\<close> with advisory eligibility, the failure
  classification of \<open>src/flow/lib/nonblocking-evidence.js\<close>, and the Step Definitions of the final
  regression and the test chain.
\<close>

subsection \<open>Classification of a failure for advisory continuation\<close>

definition TOOLING_KINDS :: "string list" where
  "TOOLING_KINDS = [''infra_failure'', ''timeout'', ''dependency_failure'', ''sandbox_restriction'',
     ''child_process_eperm'', ''permission_error'', ''unattributed_existing_failure'', ''unattributed_unknown_failure'']"

text \<open>\<open>fromFinalRegressionFailure\<close> on the kind, the category and the \<open>tooling\<close> member of the failure.\<close>

definition fromFinalRegressionFailure :: "bool \<Rightarrow> jsval \<Rightarrow> jsval \<Rightarrow> string" where
  "fromFinalRegressionFailure tooling kind category =
     (if kind = JStr ''invalid_project_test'' then ''unavailable''
      else if tooling \<or> (category \<noteq> JNull \<and> category \<noteq> JUndef \<and> category \<noteq> JStr ''caused_by_current_change'')
        \<or> kind \<in> set (map JStr TOOLING_KINDS)
      then ''tooling'' else ''quality'')"

definition fromStepFacts :: "string \<Rightarrow> NonGateStepFacts option \<Rightarrow> string res" where
  "fromStepFacts step facts =
     (if step = ''scenario-validity'' then
        bindE (present facts) (\<lambda>s. Inr (if nsf_toolingFailure s then ''tooling'' else ''unavailable''))
      else if step = ''test-result-review'' then
        bindE (present facts) (\<lambda>s. Inr (if nsf_toolingFailure s then ''tooling'' else ''quality''))
      else if step = ''final-regression'' then
        bindE (present facts) (\<lambda>s. case s of
          FinalRegression r \<Rightarrow> Inr (fromFinalRegressionFailure (ffp_tooling (frs_failure r))
            (js_opt JStr (ffp_kind (frs_failure r))) (js_opt JStr (ffp_category (frs_failure r))))
        | _ \<Rightarrow> Inl (TypeError ''Cannot read properties of undefined''))
      else Inl (Error (''nonblocking failure classification is unavailable for '' @ step)))"

definition is_nullish :: "jsval \<Rightarrow> bool" where
  "is_nullish v \<longleftrightarrow> v = JNull \<or> v = JUndef"

definition classify_artifact :: "string \<Rightarrow> jsval \<Rightarrow> string res" where
  "classify_artifact step artifact =
     (if step = ''scenario-validity'' then
        bindE (prop_of artifact ''process'') (\<lambda>process. Inr (
          if is_nullish process then ''unavailable''
          else if propq process ''started'' = JBool False \<or> \<not> is_nullish (propq process ''spawnError'')
            \<or> \<not> is_nullish (propq process ''signal'') \<or> propq process ''timedOut'' = JBool True
            \<or> is_nullish (propq process ''exitCode'')
          then ''tooling'' else ''unavailable''))
      else if step = ''test-result-review'' then
        bindE (prop_of artifact ''toolingFailure'') (\<lambda>t. Inr (if t = JBool True then ''tooling'' else ''quality''))
      else if step = ''final-regression'' then
        bindE (prop_of artifact ''failureKind'') (\<lambda>kind.
        Inr (fromFinalRegressionFailure False (or_null kind) (or_null (propq artifact ''failureCategory''))))
      else Inl (Error (''nonblocking failure classification is unavailable for '' @ step)))"

subsection \<open>Advisory eligibility\<close>

definition step_values_identity :: "jsval \<Rightarrow> jsval" where
  "step_values_identity values = (case values of
     JObj ob \<Rightarrow> JObj (filter (\<lambda>(k, v). k \<noteq> ''catalogDigest'' \<and> k \<noteq> ''nonblocking'') ob) | v \<Rightarrow> v)"

text \<open>The facts without the fields that belong to the transaction carrying the selection.\<close>

definition ng_recovery_facts :: "NonGateTransitionFacts \<Rightarrow> jsval" where
  "ng_recovery_facts f = (case NonGateTransitionFacts_toJSON f of
     JObj ob \<Rightarrow> JObj (map (\<lambda>(k, v).
         if k = ''stepFacts'' then (k, js_opt (\<lambda>s. JObj [(''kind'', JStr (nsf_kind s)),
           (''values'', step_values_identity (nsf_values s))]) (ntf_stepFacts f)) else (k, v))
       (filter (\<lambda>(k, v). k \<noteq> ''snapshotRevision'' \<and> k \<noteq> ''nonblocking'') ob))
   | v \<Rightarrow> v)"

definition ng_selection_identity :: "NonGateTransitionDecision \<Rightarrow> NonBlockingRoute \<Rightarrow> string \<Rightarrow> jsval res" where
  "ng_selection_identity D route resultKind =
     (if resultKind \<notin> set RESULT_KINDS
      then Inl (Error ''non-Gate nonblocking selection identity result kind is invalid'') else
      Inr (JObj [(''disposition'', NonGateDisposition_toJSON (ngt_disposition D)),
        (''recoveryFacts'', ng_recovery_facts (ngt_facts D)), (''resultKind'', JStr resultKind),
        (''actions'', JArr (map NonGateStepAction_toJSON (ngp_actions (ngt_plan D)))),
        (''userActions'', JArr (map (\<lambda>a. JStr (nua_actionId a)) (ngp_userActions (ngt_plan D)))),
        (''continuation'', JObj [(''targetStepId'', js_opt JStr (nbr_targetStep route)),
          (''skippedStepIds'', JArr (map JStr (nbr_skippedSteps route)))])]))"

definition nonGateNonblockingEligibilityForDecision ::
  "NonGateTransitionDecision \<Rightarrow> NonblockingEligibility option res" where
  "nonGateNonblockingEligibilityForDecision D =
     (let f = ngt_facts D; d = ngt_disposition D; step = ntf_stepId f in
      if ntf_integrityFailure f \<noteq> None \<or> ncf_partial (ntf_completion f) then Inr None
      else if ngd_operation d \<notin> {''external-blocked'', ''blocked''} then Inr None
      else if step = ''final-regression''
        \<and> ngd_reason d \<in> {Some ''stale_changed_file_snapshot'', Some ''retry_history_mismatch''} then Inr None
      else (case nonblockingRouteFor step of
        None \<Rightarrow> Inr None
      | Some route \<Rightarrow>
          bindE (fromStepFacts step (ntf_stepFacts f)) (\<lambda>resultKind.
          bindE (ng_selection_identity D route resultKind) (\<lambda>selection.
          bindE (new_NonblockingEligibility step (JStr resultKind)
                   (reason_or (ngd_reason d) ''Strict recovery is exhausted or unavailable.'') selection
                   eligibility_defaults) (\<lambda>e. Inr (Some e))))))"

subsection \<open>The reducer\<close>

definition selectedDecision ::
  "NonGateTransitionFacts \<Rightarrow> non_gate_disposition \<Rightarrow> non_gate_options \<Rightarrow> NonGateTransitionDecision res" where
  "selectedDecision f d opts = bindE (ng_decide f d opts) (\<lambda>strict.
     if \<not> ntf_nonblocking f then Inr strict else
     bindE (nonGateNonblockingEligibilityForDecision strict) (\<lambda>eligibility. case eligibility of
       None \<Rightarrow> Inr strict
     | Some e \<Rightarrow>
         bindE (new_NonGateRecordNonblockingAction (ntf_stepId f)) (\<lambda>recorded.
         ng_decide f (NgAwaitUserInput (Some (nel_blocker e))) (ng_defaults\<lparr>ngo_beforeActions := [recorded]\<rparr>))))"

text \<open>The options of a selected decision: the lists of the selection, unless the branch replaces them.\<close>

definition selection_options :: "NonGateTransitionSelection \<Rightarrow> non_gate_options" where
  "selection_options s = ng_defaults\<lparr>ngo_beforeActions := nts_beforeActions s, ngo_stepActions := nts_actions s,
     ngo_userActions := nts_userActions s\<rparr>"

definition resolveSelection ::
  "NonGateTransitionFacts \<Rightarrow> NonGateTransitionSelection \<Rightarrow> NonGateTransitionDecision res" where
  "resolveSelection f s =
     (let op = nts_operation s; opts = selection_options s in
      if op = ''advance'' then
        (case ncf_refusalReason (ntf_completion f) of
           Some refusal \<Rightarrow> selectedDecision f (NgBlocked refusal) opts
         | None \<Rightarrow> selectedDecision f NgAdvance (opts\<lparr>ngo_status := ''done''\<rparr>))
      else if op = ''keep-in-progress'' then selectedDecision f NgKeepInProgress opts
      else if op = ''await-user-input'' then selectedDecision f (NgAwaitUserInput (nts_reason s)) opts
      else if op = ''retry'' then
        if nrm_exhausted (ntf_retry f)
        then selectedDecision f (NgBlocked ''retry_exhausted'') (opts\<lparr>ngo_stepActions := nts_exhaustedActions s\<rparr>)
        else selectedDecision f NgRetry (opts\<lparr>ngo_incrementRetry := True\<rparr>)
      else if op = ''repair'' then selectedDecision f NgRepair opts
      else if op = ''record-and-proceed'' then selectedDecision f NgRecordAndProceed (opts\<lparr>ngo_status := ''done''\<rparr>)
      else if op = ''external-blocked''
      then selectedDecision f (NgExternalBlocked (reason_or (nts_reason s) ''external_blocked'')) opts
      else if op = ''park'' then selectedDecision f (NgPark (nts_reason s)) (opts\<lparr>ngo_status := ''done''\<rparr>)
      else selectedDecision f (NgBlocked (reason_or (nts_reason s) ''blocked'')) opts)"

definition resolveSelectedNonGateTransition ::
  "NonGateTransitionFacts \<Rightarrow> NonGateTransitionSelection res \<Rightarrow> NonGateTransitionDecision res" where
  "resolveSelectedNonGateTransition f select =
     (case ntf_integrityFailure f of
        Some reason \<Rightarrow> ng_decide f (NgBlocked reason) (ng_defaults\<lparr>ngo_noEffects := True\<rparr>)
      | None \<Rightarrow>
          if ncf_refusalReason (ntf_completion f) = Some ''partial_completion''
          then ng_decide f (NgBlocked ''partial_completion'') (ng_defaults\<lparr>ngo_noEffects := True\<rparr>)
          else bindE select (resolveSelection f))"

definition resolveNonGateTransition ::
  "NonGateTransitionFacts \<Rightarrow> NonGateStepDefinition \<Rightarrow> NonGateTransitionDecision res" where
  "resolveNonGateTransition f d = resolveSelectedNonGateTransition f (selectionFor d f)"

subsection \<open>Final regression\<close>

definition FINAL_REGRESSION_RECORD_AND_PROCEED_ACTION_ID :: string where
  "FINAL_REGRESSION_RECORD_AND_PROCEED_ACTION_ID = ''ACCEPT_FINAL_REGRESSION_FAILURE''"

definition finalRegressionFailureAction :: "FinalRegressionStepFacts \<Rightarrow> bool \<Rightarrow> NonGateStepAction res" where
  "finalRegressionFailureAction s retryable =
     new_NonGateFailCurrentAttemptAction (reason_or (ffp_category (frs_failure s)) ''unknown'') ''FINAL_REGRESSION_FAILED''
       retryable (if retryable then Some ''semantic'' else None)
       (''final-regression failed ('' @ reason_or (ffp_kind (frs_failure s)) ''unknown'' @ '')'')"

definition finalRegressionFailureActions :: "FinalRegressionStepFacts \<Rightarrow> bool \<Rightarrow> NonGateStepAction list res" where
  "finalRegressionFailureActions s retryable =
     (if frs_failureRecorded s then Inr []
      else bindE (finalRegressionFailureAction s retryable) (\<lambda>a. Inr [a]))"

definition accept_failure :: "NonGateUserActionSelection list res" where
  "accept_failure = bindE (new_NonGateUserActionSelection FINAL_REGRESSION_RECORD_AND_PROCEED_ACTION_ID) (\<lambda>u. Inr [u])"

definition selectFinalRegressionTransition ::
  "FinalRegressionStepFacts \<Rightarrow> NonGateTransitionFacts option \<Rightarrow> NonGateTransitionSelection res" where
  "selectFinalRegressionTransition s facts =
     (if \<not> fcs_current (frs_changedFileSnapshot s) then
        new_NonGateTransitionSelection ((selecting ''blocked'')\<lparr>nts_reason := Some ''stale_changed_file_snapshot''\<rparr>)
      else if (case facts of None \<Rightarrow> False | Some f \<Rightarrow> frh_used (frs_retryHistory s) \<noteq> nrm_used (ntf_retry f)
          \<or> frh_maximum (frs_retryHistory s) \<noteq> nrm_maximum (ntf_retry f)) then
        new_NonGateTransitionSelection ((selecting ''blocked'')\<lparr>nts_reason := Some ''retry_history_mismatch''\<rparr>)
      else if frs_result s = ''pass'' \<or> frs_result s = ''skipped'' then
        new_NonGateTransitionSelection (selecting ''advance'')
      else if fpe_accepted (frs_recordAndProceed s) then
        new_NonGateTransitionSelection (selecting ''record-and-proceed'')
      else if ffp_tooling (frs_failure s) then
        bindE (finalRegressionFailureActions s False) (\<lambda>before.
        new_NonGateTransitionSelection ((selecting ''external-blocked'')
          \<lparr>nts_reason := Some (reason_or (ffp_kind (frs_failure s)) ''tooling_failure''), nts_beforeActions := before\<rparr>))
      else if ffp_currentChange (frs_failure s) then
        if frh_exhausted (frs_retryHistory s) then
          bindE (finalRegressionFailureActions s False) (\<lambda>before.
          bindE accept_failure (\<lambda>users.
          new_NonGateTransitionSelection ((selecting ''await-user-input'')
            \<lparr>nts_reason := Some ''retry_exhausted'', nts_beforeActions := before, nts_userActions := users\<rparr>)))
        else
          bindE (finalRegressionFailureActions s True) (\<lambda>before.
          new_NonGateTransitionSelection ((selecting ''repair'')\<lparr>nts_beforeActions := before\<rparr>))
      else if ffp_existing (frs_failure s) then
        bindE (finalRegressionFailureActions s False) (\<lambda>before.
        bindE accept_failure (\<lambda>users.
        new_NonGateTransitionSelection ((selecting ''await-user-input'')
          \<lparr>nts_beforeActions := before, nts_userActions := users\<rparr>)))
      else
        bindE (finalRegressionFailureActions s False) (\<lambda>before.
        new_NonGateTransitionSelection ((selecting ''blocked'')
          \<lparr>nts_reason := Some (if frh_exhausted (frs_retryHistory s) then ''retry_exhausted'' else ''unclassified_failure''),
           nts_beforeActions := before\<rparr>)))"

fun is_FinalRegression :: "NonGateStepFacts \<Rightarrow> bool" where
  "is_FinalRegression (FinalRegression _) = True"
| "is_FinalRegression _ = False"

definition FINAL_REGRESSION_STEP_DEFINITION :: NonGateStepDefinition where
  "FINAL_REGRESSION_STEP_DEFINITION = \<lparr>nsd_stepId = ''final-regression'', nsd_factsType = is_FinalRegression,
     nsd_select = (\<lambda>s f. case s of
       FinalRegression r \<Rightarrow> selectFinalRegressionTransition r (Some f)
     | _ \<Rightarrow> Inl (Error ''final-regression Definition requires FinalRegressionStepFacts''))\<rparr>"

subsection \<open>The test chain\<close>

definition failureAction :: "string \<Rightarrow> string \<Rightarrow> bool \<Rightarrow> string option \<Rightarrow> string \<Rightarrow> NonGateStepAction res" where
  "failureAction category code retryable retryKind message =
     new_NonGateFailCurrentAttemptAction category code retryable retryKind message"

definition testChainSelection :: "string \<Rightarrow> bool \<Rightarrow> bool \<Rightarrow> bool \<Rightarrow> NonGateTransitionSelection res" where
  "testChainSelection stepId failed toolingFailure nonblocking =
     (if toolingFailure then
        bindE (failureAction ''tooling'' ''TEST_CHAIN_TOOLING_FAILURE'' False None ''Test-chain tooling failed.'') (\<lambda>a.
        new_NonGateTransitionSelection ((selecting ''external-blocked'')
          \<lparr>nts_reason := Some ''tooling_failure'', nts_actions := [a]\<rparr>))
      else if \<not> failed then new_NonGateTransitionSelection (selecting ''advance'')
      else if nonblocking then
        bindE (new_NonGateRecordNonblockingAction stepId) (\<lambda>a.
        new_NonGateTransitionSelection ((selecting ''await-user-input'')\<lparr>nts_beforeActions := [a]\<rparr>))
      else
        bindE (failureAction ''semantic'' ''TEST_CHAIN_REJECTED'' True (Some ''semantic'')
                 ''Test-chain evidence was rejected.'') (\<lambda>a.
        bindE (failureAction ''semantic'' ''TEST_CHAIN_RETRY_EXHAUSTED'' False None
                 ''Test-chain semantic retry budget is exhausted.'') (\<lambda>x.
        new_NonGateTransitionSelection ((selecting ''retry'')
          \<lparr>nts_reason := Some ''semantic_test_failure'', nts_actions := [a], nts_exhaustedActions := [x]\<rparr>))))"

text \<open>\<open>TestChainMeaning\<close> and \<open>testChainObservationMeaning\<close> of \<open>src/flow/lib/test-chain-values.js\<close>.\<close>

record TestChainMeaning =
  tcm_value :: string
  tcm_reason :: "string option"
  tcm_resultKind :: string

definition test_chain_kinds :: "string \<Rightarrow> (string \<times> string) list" where
  "test_chain_kinds stepId =
     (if stepId = ''test-execute'' then
        [(''execution'', ''test-execute-execution-required''), (''observed'', ''test-execute-observed''),
         (''error'', ''test-execute-error'')]
      else if stepId = ''test-result-review'' then
        [(''accepted'', ''test-result-review-evidence-accepted''), (''rejected'', ''test-result-review-evidence-rejected''),
         (''error'', ''test-result-review-error'')]
      else [])"

definition new_TestChainMeaning :: "string \<Rightarrow> string \<Rightarrow> string option \<Rightarrow> TestChainMeaning res" where
  "new_TestChainMeaning stepId value reason = (case map_of (test_chain_kinds stepId) value of
     None \<Rightarrow> Inl (TypeError ''Unknown test-chain meaning'')
   | Some kind \<Rightarrow> Inr \<lparr>tcm_value = value, tcm_reason = reason, tcm_resultKind = kind\<rparr>)"

fun testChainObservationMeaning :: "NonGateStepFacts \<Rightarrow> TestChainMeaning res" where
  "testChainObservationMeaning (TestExecute s) =
     new_TestChainMeaning ''test-execute'' (if tes_toolingFailure s then ''error'' else ''observed'')
       (if tes_toolingFailure s then Some ''TEST_CHAIN_TOOLING_FAILURE'' else None)"
| "testChainObservationMeaning (TestResultReview s) =
     new_TestChainMeaning ''test-result-review''
       (if trr_toolingFailure s then ''error'' else if trr_verdict s = ''fail'' then ''rejected'' else ''accepted'')
       (if trr_toolingFailure s then Some ''TEST_CHAIN_TOOLING_FAILURE'' else None)"
| "testChainObservationMeaning _ = Inl (TypeError ''Test-chain meaning requires a typed observation'')"

fun is_TestExecute :: "NonGateStepFacts \<Rightarrow> bool" where
  "is_TestExecute (TestExecute _) = True"
| "is_TestExecute _ = False"

fun is_TestResultReview :: "NonGateStepFacts \<Rightarrow> bool" where
  "is_TestResultReview (TestResultReview _) = True"
| "is_TestResultReview _ = False"

definition testExecuteTransitionDefinition :: NonGateStepDefinition where
  "testExecuteTransitionDefinition = \<lparr>nsd_stepId = ''test-execute'', nsd_factsType = is_TestExecute,
     nsd_select = (\<lambda>s f. bindE (testChainObservationMeaning s) (\<lambda>m.
       testChainSelection ''test-execute'' False (tcm_value m = ''error'') False))\<rparr>"

definition testResultReviewTransitionDefinition :: NonGateStepDefinition where
  "testResultReviewTransitionDefinition = \<lparr>nsd_stepId = ''test-result-review'', nsd_factsType = is_TestResultReview,
     nsd_select = (\<lambda>s f. bindE (testChainObservationMeaning s) (\<lambda>m.
       testChainSelection ''test-result-review'' (tcm_value m = ''rejected'') (tcm_value m = ''error'') False))\<rparr>"

end
