(* ===== verification/Non_Gate_Policy.thy ===== *)
theory Non_Gate_Policy
  imports Non_Gate_Resolver
begin

section \<open>Closed forms of the non-Gate reducer\<close>

text \<open>
  For well-formed facts and a valid selection no check inside the reducer fails: the plan, the decision
  and the advisory eligibility have closed forms.  They are collected in \<open>ng_policy\<close>, a table from the
  facts and the selection to the disposition, the ordered effects and the offered user actions, and
  \<open>reducer_table\<close> shows that the reducer implements it.
\<close>

subsection \<open>Texts\<close>

lemma not_blank_iff: "not_blank s \<longleftrightarrow> (\<exists>c\<in>set s. \<not> js_ws c)"
proof -
  have "dropWhile js_ws s = [] \<or> \<not> js_ws (hd (dropWhile js_ws s)) \<and> hd (dropWhile js_ws s) \<in> set (dropWhile js_ws s)"
    by (metis hd_dropWhile hd_in_set)
  then have "(\<forall>c\<in>set (dropWhile js_ws s). js_ws c) \<longleftrightarrow> dropWhile js_ws s = []"
    by (auto dest: set_dropWhileD)
  then show ?thesis unfolding not_blank_def js_trim_def by auto
qed

lemma text_not_blank: "is_text s \<Longrightarrow> not_blank s"
  by (auto simp: is_text_def not_blank_def)

lemma requireString_not_blank [simp]: "not_blank s \<Longrightarrow> requireString field s = Inr s"
  by (simp add: requireString_def not_blank_def)

lemma optional_string_not_blank [simp]: "pred_option not_blank x \<Longrightarrow> optional_string field x = Inr x"
  by (cases x) (simp_all add: optional_string_def)

lemma reason_or_not_blank: "pred_option not_blank r \<Longrightarrow> not_blank d \<Longrightarrow> not_blank (reason_or r d)"
  by (cases r) (auto simp: reason_or_def)

lemma reason_or_Some: "not_blank r \<Longrightarrow> reason_or (Some r) d = r"
  by (auto simp: reason_or_def not_blank_def js_trim_def)

lemma literal_not_blank: "s \<noteq> [] \<Longrightarrow> \<not> js_ws (hd s) \<Longrightarrow> not_blank s"
  unfolding not_blank_iff using hd_in_set by blast

lemma operation_not_blank [simp]: "not_blank (ngd_operation d)"
  by (cases d) (simp_all add: literal_not_blank js_ws_def)

lemma operation_valid [simp]: "ngd_operation d \<in> set NON_GATE_OPERATIONS"
  by (cases d) (simp_all add: NON_GATE_OPERATIONS_def)

lemma action_id_not_blank: "is_action_id s \<Longrightarrow> not_blank s"
proof -
  assume a: "is_action_id s"
  then have "s \<noteq> []" "upper_char (hd s)" by (auto simp: is_action_id_def)
  moreover have "list_all (\<lambda>c. \<not> js_ws c) ''ABCDEFGHIJKLMNOPQRSTUVWXYZ''" by (simp add: js_ws_def)
  ultimately show ?thesis
    by (intro literal_not_blank) (auto simp: upper_char_def list_all_iff)
qed

lemma fingerprint_digest: "v \<noteq> JUndef \<Longrightarrow> \<exists>h. fingerprint v = Inr h \<and> is_sha256 h"
  using fingerprint_total [of v] fingerprint_shape [of v] by auto

subsection \<open>Plans and decisions\<close>

definition ng_disposition_ok :: "non_gate_disposition \<Rightarrow> bool" where
  "ng_disposition_ok d \<longleftrightarrow> pred_option not_blank (ngd_reason d)"

definition ng_users_ok :: "NonGateUserActionSelection list \<Rightarrow> bool" where
  "ng_users_ok us \<longleftrightarrow> distinct (map nus_actionId us) \<and> list_all (\<lambda>u. is_action_id (nus_actionId u)) us"

definition ng_digest :: "jsval \<Rightarrow> string" where
  "ng_digest v = (case fingerprint v of Inr h \<Rightarrow> h | Inl _ \<Rightarrow> [])"

lemma ng_digest: "v \<noteq> JUndef \<Longrightarrow> fingerprint v = Inr (ng_digest v) \<and> not_blank (ng_digest v)"
  using fingerprint_digest [of v] by (auto simp: ng_digest_def intro: sha256_not_blank)

definition ng_identity ::
  "NonGateTransitionFacts \<Rightarrow> non_gate_disposition \<Rightarrow> NonGateStepAction list \<Rightarrow> NonGateUserActionSelection list \<Rightarrow>
   NonGateActionIdentity" where
  "ng_identity f d actions us = \<lparr>nac_runId = ntf_runId f, nac_specId = ntf_specId f, nac_stepId = ntf_stepId f,
     nac_attempt = ntf_currentAttempt f, nac_catalogFingerprint = ncp_fingerprint (ntf_catalogPublication f),
     nac_factsFingerprint = ng_digest (NonGateTransitionFacts_toJSON f),
     nac_selectedFingerprint = ng_digest (ng_selection_json d actions us), nac_operation = ngd_operation d\<rparr>"

definition ng_decided ::
  "NonGateTransitionFacts \<Rightarrow> non_gate_disposition \<Rightarrow> NonGateStepAction list \<Rightarrow> NonGateUserActionSelection list \<Rightarrow>
   NonGateTransitionDecision" where
  "ng_decided f d actions us = \<lparr>ngt_facts = f, ngt_disposition = d,
     ngt_plan = \<lparr>ngp_identity = ng_identity f d actions us, ngp_actions = actions,
       ngp_userActions = map (\<lambda>u. \<lparr>nua_transition = ng_identity f d actions us, nua_actionId = nus_actionId u\<rparr>) us\<rparr>\<rparr>"

lemma new_disposition_ok: "ng_disposition_ok d \<Longrightarrow> new_NonGateDisposition d = Inr d"
  by (simp add: new_NonGateDisposition_def ng_disposition_ok_def)

lemma wf_facts_texts:
  "wf_NonGateTransitionFacts f \<Longrightarrow> not_blank (ntf_runId f) \<and> not_blank (ntf_specId f) \<and> not_blank (ntf_stepId f)
    \<and> not_blank (ncp_fingerprint (ntf_catalogPublication f))"
  by (simp add: wf_NonGateTransitionFacts_def wf_NonGateCatalogPublication_def text_not_blank)

lemma identity_ok:
  assumes "wf_NonGateTransitionFacts f" "not_blank a" "not_blank b"
  shows "new_NonGateActionIdentity (ntf_runId f) (ntf_specId f) (ntf_stepId f) (ntf_currentAttempt f)
      (ncp_fingerprint (ntf_catalogPublication f)) a b (ngd_operation d) =
    Inr \<lparr>nac_runId = ntf_runId f, nac_specId = ntf_specId f, nac_stepId = ntf_stepId f,
      nac_attempt = ntf_currentAttempt f, nac_catalogFingerprint = ncp_fingerprint (ntf_catalogPublication f),
      nac_factsFingerprint = a, nac_selectedFingerprint = b, nac_operation = ngd_operation d\<rparr>"
  using wf_facts_texts [OF assms(1)] assms(2,3)
  by (simp add: new_NonGateActionIdentity_def del: bindE_eq_Inr)

lemma json_defined [simp]:
  "NonGateTransitionFacts_toJSON f \<noteq> JUndef" "ng_selection_json d actions us \<noteq> JUndef"
  by (simp_all add: NonGateTransitionFacts_toJSON_def ng_selection_json_def)

lemma sealed_plan_ok:
  assumes "wf_NonGateTransitionFacts f" "ng_users_ok us"
  shows "sealed_plan f d actions us = Inr (ngt_plan (ng_decided f d actions us))"
proof -
  let ?i = "ng_identity f d actions us"
  have users: "mapE (\<lambda>u. new_NonGateUserActionIdentity ?i (nus_actionId u)) us =
      Inr (map (\<lambda>u. \<lparr>nua_transition = ?i, nua_actionId = nus_actionId u\<rparr>) us)"
    using assms(2)
    by (intro mapE_Inr_map) (simp add: ng_users_ok_def list_all_iff new_NonGateUserActionIdentity_def action_id_not_blank)
  have plan: "new_NonGateTransitionPlan ?i actions (map (\<lambda>u. \<lparr>nua_transition = ?i, nua_actionId = nus_actionId u\<rparr>) us) =
      Inr (ngt_plan (ng_decided f d actions us))"
    using assms(2) by (simp add: new_NonGateTransitionPlan_def ng_users_ok_def ng_decided_def comp_def)
  have i: "new_NonGateActionIdentity (ntf_runId f) (ntf_specId f) (ntf_stepId f) (ntf_currentAttempt f)
      (ncp_fingerprint (ntf_catalogPublication f)) (ng_digest (NonGateTransitionFacts_toJSON f))
      (ng_digest (ng_selection_json d actions us)) (ngd_operation d) = Inr ?i"
    unfolding ng_identity_def by (intro identity_ok assms(1)) (simp_all add: ng_digest)
  show ?thesis
    unfolding sealed_plan_def nonGateFactsFingerprint_def
    by (simp add: ng_digest i users plan del: bindE_eq_Inr)
qed

definition ng_effects :: "NonGateTransitionFacts \<Rightarrow> non_gate_options \<Rightarrow> NonGateStepAction list" where
  "ng_effects f opts = (if ngo_noEffects opts then [] else
     ngo_beforeActions opts @ SetStepStatusAction \<lparr>nsu_stepId = ntf_stepId f, nsu_status = ngo_status opts\<rparr> #
     (if ngo_incrementRetry opts then [IncrementRetryAction (ntf_stepId f)] else []) @ ngo_stepActions opts)"

lemma effect_actions_ok:
  assumes "wf_NonGateTransitionFacts f" "ngo_status opts \<in> {''in_progress'', ''done''}" "\<not> ngo_noEffects opts"
  shows "effect_actions f opts = Inr (ng_effects f opts)"
proof -
  have "not_blank (ngo_status opts)" using assms(2) by (auto simp: literal_not_blank js_ws_def)
  then show ?thesis
    using wf_facts_texts [OF assms(1)] assms(2,3)
    by (simp add: effect_actions_def new_NonGateStepUpdate_def new_NonGateIncrementRetryAction_def ng_effects_def
        del: bindE_eq_Inr insert_iff)
qed

lemma ng_decide_ok:
  assumes "wf_NonGateTransitionFacts f" "ng_disposition_ok d" "ng_users_ok (ngo_userActions opts)"
    and "ngo_status opts \<in> {''in_progress'', ''done''}"
  shows "ng_decide f d opts = Inr (ng_decided f d (ng_effects f opts) (ngo_userActions opts))"
proof -
  have "nonGatePlan f d opts = Inr (ngt_plan (ng_decided f d (ng_effects f opts) (ngo_userActions opts)))"
    using sealed_plan_ok [OF assms(1,3)] effect_actions_ok [OF assms(1,4)]
    by (cases "ngo_noEffects opts") (simp_all add: nonGatePlan_def ng_effects_def del: bindE_eq_Inr)
  then show ?thesis
    by (simp add: ng_decide_def new_disposition_ok assms(2) nonGateDecision_def new_NonGateTransitionDecision_def
        ng_decided_def ng_identity_def del: bindE_eq_Inr)
qed

subsection \<open>Advisory eligibility\<close>

definition ng_advisory_step :: "string \<Rightarrow> bool" where
  "ng_advisory_step step \<longleftrightarrow> step = ''test-result-review'' \<or> step = ''final-regression''"

text \<open>The step facts a step with an advisory route carries.\<close>

definition ng_step_typed :: "NonGateTransitionFacts \<Rightarrow> bool" where
  "ng_step_typed f \<longleftrightarrow> (case ntf_stepFacts f of
     Some (FinalRegression r) \<Rightarrow> ntf_stepId f = ''final-regression''
   | Some (TestExecute s) \<Rightarrow> ntf_stepId f = ''test-execute''
   | Some (TestResultReview s) \<Rightarrow> ntf_stepId f = ''test-result-review''
   | _ \<Rightarrow> False)"

definition ng_result_kind :: "NonGateTransitionFacts \<Rightarrow> string" where
  "ng_result_kind f = (case fromStepFacts (ntf_stepId f) (ntf_stepFacts f) of Inr k \<Rightarrow> k | Inl _ \<Rightarrow> [])"

definition ng_eligible :: "NonGateTransitionFacts \<Rightarrow> non_gate_disposition \<Rightarrow> bool" where
  "ng_eligible f d \<longleftrightarrow> ng_intact f \<and> \<not> ncf_partial (ntf_completion f) \<and> ng_advisory_step (ntf_stepId f)
     \<and> ngd_operation d \<in> {''external-blocked'', ''blocked''}
     \<and> \<not> (ntf_stepId f = ''final-regression''
           \<and> ngd_reason d \<in> {Some ''stale_changed_file_snapshot'', Some ''retry_history_mismatch''})"

lemma ng_route_rows:
  "nonblockingRouteFor ''test-execute'' = None"
  "nonblockingRouteFor ''test-result-review'' = Some \<lparr>nbr_sourceStep = ''test-result-review'',
     nbr_artifact = ''test-result-review.json'', nbr_kind = ''verification'', nbr_phase = None,
     nbr_targetStep = Some ''impl-review'', nbr_skippedSteps = [], nbr_taskScoped = False\<rparr>"
  "nonblockingRouteFor ''final-regression'' = Some \<lparr>nbr_sourceStep = ''final-regression'',
     nbr_artifact = ''final-regression-result.json'', nbr_kind = ''regression'', nbr_phase = None,
     nbr_targetStep = Some ''report'', nbr_skippedSteps = [], nbr_taskScoped = False\<rparr>"
  by code_simp+

lemma ng_classified:
  assumes "ng_step_typed f" "ng_advisory_step (ntf_stepId f)"
  shows "fromStepFacts (ntf_stepId f) (ntf_stepFacts f) = Inr (ng_result_kind f) \<and> ng_result_kind f \<in> set RESULT_KINDS"
proof -
  have "\<exists>k \<in> set RESULT_KINDS. fromStepFacts (ntf_stepId f) (ntf_stepFacts f) = Inr k"
    using assms
    by (auto simp: ng_step_typed_def ng_advisory_step_def fromStepFacts_def fromFinalRegressionFailure_def RESULT_KINDS_def
        split: option.splits NonGateStepFacts.splits)
  then show ?thesis by (auto simp: ng_result_kind_def)
qed

lemma eligibility_ok:
  assumes "nonblockingRouteFor s = Some r" "nbr_targetStep r = Some t" "not_blank t" "nbr_skippedSteps r = []"
    and "not_blank s" "k \<in> set RESULT_KINDS" "not_blank b"
  shows "\<exists>e. new_NonblockingEligibility s (JStr k) b (JObj ob) eligibility_defaults = Inr e
      \<and> nel_sourceStep e = s \<and> nel_resultKind e = k \<and> nel_blocker e = b \<and> nel_continueTargetStepId e = t
      \<and> nel_skippedStepIds e = [] \<and> nel_allowedActions e = allowed_actions k True"
proof -
  have k: "lit_of RESULT_KINDS er (JStr k) = Inr k" for er using assms(6) by simp
  obtain h where h: "nonblockingSelectionDigest (JObj ob) = Inr h" by (simp add: nonblockingSelectionDigest_def)
  show ?thesis
    unfolding new_NonblockingEligibility_def eligibility_defaults_def first_some_def
    by (simp add: assms k h requireOptionalStepList_def string_or_null_def del: bindE_eq_Inr lit_of_eq_Inr)
qed

lemma eligibility_table:
  assumes "wf_NonGateTransitionFacts f" "ng_step_typed f" "ng_disposition_ok d"
    and D: "ngt_facts D = f" "ngt_disposition D = d"
  shows "if ng_eligible f d
     then \<exists>e. nonGateNonblockingEligibilityForDecision D = Inr (Some e) \<and> nel_sourceStep e = ntf_stepId f
        \<and> nel_resultKind e = ng_result_kind f \<and> Some (nel_blocker e) = ngd_reason d
        \<and> nel_allowedActions e = allowed_actions (ng_result_kind f) True
     else nonGateNonblockingEligibilityForDecision D = Inr None"
proof (cases "ng_eligible f d")
  case False
  have "ng_advisory_step (ntf_stepId f) \<or> ntf_stepId f = ''test-execute''"
    using assms(2) by (auto simp: ng_step_typed_def ng_advisory_step_def split: option.splits NonGateStepFacts.splits)
  with False show ?thesis
    unfolding nonGateNonblockingEligibilityForDecision_def Let_def D ng_eligible_def ng_integrity_ok
    by (auto simp: ng_route_rows)
next
  case True
  then have step: "ng_advisory_step (ntf_stepId f)" and int: "ntf_integrityFailure f = None"
      and ops: "ngd_operation d \<in> {''external-blocked'', ''blocked''}"
    by (simp_all add: ng_eligible_def ng_integrity_ok)
  obtain reason where reason: "ngd_reason d = Some reason" using ops by (cases d) auto
  then have nb: "not_blank reason" using assms(3) by (simp add: ng_disposition_ok_def)
  note k = ng_classified [OF assms(2) step]
  obtain route t where route: "nonblockingRouteFor (ntf_stepId f) = Some route" "nbr_targetStep route = Some t"
      "nbr_skippedSteps route = []" "not_blank t"
    using step by (auto simp: ng_advisory_step_def ng_route_rows literal_not_blank js_ws_def)
  have sel: "\<exists>ob. ng_selection_identity D route (ng_result_kind f) = Inr (JObj ob)"
    using k by (simp add: ng_selection_identity_def)
  then obtain ob where ob: "ng_selection_identity D route (ng_result_kind f) = Inr (JObj ob)" by blast
  have not_blank_step: "not_blank (ntf_stepId f)" using wf_facts_texts [OF assms(1)] by simp
  obtain e where e: "new_NonblockingEligibility (ntf_stepId f) (JStr (ng_result_kind f)) reason (JObj ob) eligibility_defaults = Inr e"
      "nel_sourceStep e = ntf_stepId f" "nel_resultKind e = ng_result_kind f" "nel_blocker e = reason"
      "nel_allowedActions e = allowed_actions (ng_result_kind f) True"
    using eligibility_ok [OF route(1,2,4,3) not_blank_step conjunct2 [OF k] nb, of ob] by blast
  have "nonGateNonblockingEligibilityForDecision D = Inr (Some e)"
    using True int unfolding nonGateNonblockingEligibilityForDecision_def Let_def D ng_eligible_def
    by (simp add: route k ob reason reason_or_Some nb e del: bindE_eq_Inr insert_iff)
  with True e reason show ?thesis by simp
qed

subsection \<open>The policy\<close>

text \<open>The strict outcome of a selection: disposition, status of the step, whether a retry is counted, and
  the step's own actions.\<close>

definition ng_strict ::
  "NonGateTransitionFacts \<Rightarrow> NonGateTransitionSelection \<Rightarrow> non_gate_disposition \<times> string \<times> bool \<times> NonGateStepAction list" where
  "ng_strict f s =
     (let op = nts_operation s; acts = nts_actions s in
      if op = ''advance'' then
        (case ncf_refusalReason (ntf_completion f) of
           Some refusal \<Rightarrow> (NgBlocked refusal, ''in_progress'', False, acts)
         | None \<Rightarrow> (NgAdvance, ''done'', False, acts))
      else if op = ''keep-in-progress'' then (NgKeepInProgress, ''in_progress'', False, acts)
      else if op = ''await-user-input'' then (NgAwaitUserInput (nts_reason s), ''in_progress'', False, acts)
      else if op = ''retry'' then
        if nrm_exhausted (ntf_retry f) then (NgBlocked ''retry_exhausted'', ''in_progress'', False, nts_exhaustedActions s)
        else (NgRetry, ''in_progress'', True, acts)
      else if op = ''repair'' then (NgRepair, ''in_progress'', False, acts)
      else if op = ''record-and-proceed'' then (NgRecordAndProceed, ''done'', False, acts)
      else if op = ''external-blocked''
      then (NgExternalBlocked (reason_or (nts_reason s) ''external_blocked''), ''in_progress'', False, acts)
      else if op = ''park'' then (NgPark (nts_reason s), ''done'', False, acts)
      else (NgBlocked (reason_or (nts_reason s) ''blocked''), ''in_progress'', False, acts))"

definition set_status :: "NonGateTransitionFacts \<Rightarrow> string \<Rightarrow> NonGateStepAction" where
  "set_status f status = SetStepStatusAction \<lparr>nsu_stepId = ntf_stepId f, nsu_status = status\<rparr>"

definition strict_decision :: "NonGateTransitionFacts \<Rightarrow> NonGateTransitionSelection \<Rightarrow> NonGateTransitionDecision" where
  "strict_decision f s = (case ng_strict f s of (d, status, inc, acts) \<Rightarrow>
     ng_decided f d (nts_beforeActions s @ set_status f status #
       (if inc then [IncrementRetryAction (ntf_stepId f)] else []) @ acts) (nts_userActions s))"

definition advisory_decision :: "NonGateTransitionFacts \<Rightarrow> string option \<Rightarrow> NonGateTransitionDecision" where
  "advisory_decision f blocker = ng_decided f (NgAwaitUserInput blocker)
     [RecordNonblockingAction (ntf_stepId f), set_status f ''in_progress''] []"

definition ng_policy :: "NonGateTransitionFacts \<Rightarrow> NonGateTransitionSelection \<Rightarrow> NonGateTransitionDecision" where
  "ng_policy f s =
     (case ntf_integrityFailure f of
        Some reason \<Rightarrow> ng_decided f (NgBlocked reason) [] []
      | None \<Rightarrow>
          if ncf_partial (ntf_completion f) then ng_decided f (NgBlocked ''partial_completion'') [] []
          else if ntf_nonblocking f \<and> ng_eligible f (fst (ng_strict f s))
          then advisory_decision f (ngd_reason (fst (ng_strict f s)))
          else strict_decision f s)"

definition ng_selection_ok :: "NonGateTransitionSelection \<Rightarrow> bool" where
  "ng_selection_ok s \<longleftrightarrow> nts_operation s \<in> set NON_GATE_OPERATIONS \<and> pred_option not_blank (nts_reason s)
     \<and> ng_users_ok (nts_userActions s)"

lemma refusal_not_blank: "ncf_refusalReason c = Some r \<Longrightarrow> not_blank r"
  by (auto simp: ncf_refusalReason_def literal_not_blank js_ws_def split: if_splits)

lemma strict_disposition_ok: "ng_selection_ok s \<Longrightarrow> ng_disposition_ok (fst (ng_strict f s))"
  unfolding ng_strict_def Let_def ng_disposition_ok_def ng_selection_ok_def
  by (auto simp: reason_or_not_blank refusal_not_blank literal_not_blank js_ws_def split: option.splits)

lemma selectedDecision_ok:
  assumes "wf_NonGateTransitionFacts f" "ng_step_typed f" "ng_disposition_ok d" "ng_users_ok (ngo_userActions opts)"
    and "ngo_status opts \<in> {''in_progress'', ''done''}"
  shows "selectedDecision f d opts = Inr (if ntf_nonblocking f \<and> ng_eligible f d then advisory_decision f (ngd_reason d)
     else ng_decided f d (ng_effects f opts) (ngo_userActions opts))"
proof -
  let ?D = "ng_decided f d (ng_effects f opts) (ngo_userActions opts)"
  note strict = ng_decide_ok [OF assms(1,3,4,5)]
  note table = eligibility_table [OF assms(1,2,3), of ?D]
  show ?thesis
  proof (cases "ntf_nonblocking f \<and> ng_eligible f d")
    case True
    then obtain e where e: "nonGateNonblockingEligibilityForDecision ?D = Inr (Some e)" "Some (nel_blocker e) = ngd_reason d"
      using table by (auto simp: ng_decided_def)
    have "ng_disposition_ok (NgAwaitUserInput (Some (nel_blocker e)))" using assms(3) e(2) by (simp add: ng_disposition_ok_def)
    then have "ng_decide f (NgAwaitUserInput (Some (nel_blocker e)))
        (ng_defaults\<lparr>ngo_beforeActions := [RecordNonblockingAction (ntf_stepId f)]\<rparr>) = Inr (advisory_decision f (ngd_reason d))"
      using ng_decide_ok [OF assms(1), of "NgAwaitUserInput (Some (nel_blocker e))"
          "ng_defaults\<lparr>ngo_beforeActions := [RecordNonblockingAction (ntf_stepId f)]\<rparr>"] e(2)
      by (simp add: ng_defaults_def ng_users_ok_def ng_effects_def advisory_decision_def set_status_def)
    with True e(1) show ?thesis
      using wf_facts_texts [OF assms(1)]
      by (simp add: selectedDecision_def strict new_NonGateRecordNonblockingAction_def del: bindE_eq_Inr)
  next
    case False
    then have "ntf_nonblocking f \<Longrightarrow> nonGateNonblockingEligibilityForDecision ?D = Inr None"
      using table by (auto simp: ng_decided_def)
    with False show ?thesis by (auto simp: selectedDecision_def strict simp del: bindE_eq_Inr)
  qed
qed

lemma resolveSelection_ok:
  assumes "wf_NonGateTransitionFacts f" "ng_step_typed f" "ng_selection_ok s"
  shows "resolveSelection f s = Inr (if ntf_nonblocking f \<and> ng_eligible f (fst (ng_strict f s))
     then advisory_decision f (ngd_reason (fst (ng_strict f s))) else strict_decision f s)"
proof -
  obtain d status inc acts where strict: "ng_strict f s = (d, status, inc, acts)" by (cases "ng_strict f s") auto
  let ?opts = "\<lparr>ngo_status = status, ngo_incrementRetry = inc, ngo_beforeActions = nts_beforeActions s,
     ngo_stepActions = acts, ngo_userActions = nts_userActions s, ngo_noEffects = False\<rparr>"
  have "resolveSelection f s = selectedDecision f d ?opts"
    using strict unfolding resolveSelection_def ng_strict_def Let_def selection_options_def ng_defaults_def
    by (auto split: if_splits option.splits)
  moreover have "status \<in> {''in_progress'', ''done''}"
    using strict unfolding ng_strict_def Let_def by (auto split: if_splits option.splits)
  moreover have "ng_disposition_ok d" using strict_disposition_ok [OF assms(3), of f] strict by simp
  moreover have "ng_users_ok (nts_userActions s)" using assms(3) by (simp add: ng_selection_ok_def)
  ultimately show ?thesis
    using selectedDecision_ok [OF assms(1,2), of d ?opts]
    by (simp add: strict strict_decision_def ng_effects_def set_status_def)
qed

lemma integrity_reason_not_blank:
  assumes "wf_NonGateTransitionFacts f" "ntf_integrityFailure f = Some r"
  shows "not_blank r"
proof -
  have "ng_ownership_failure f = Some r \<Longrightarrow> not_blank r"
    unfolding ng_ownership_failure_def Let_def
    by (auto simp: literal_not_blank js_ws_def split: if_splits option.splits)
  moreover have "ng_lineage_failure f = Some r \<Longrightarrow> not_blank r"
    unfolding ng_lineage_failure_def Let_def by (auto simp: literal_not_blank js_ws_def split: if_splits)
  moreover have "ntf_explicitIntegrityFailure f = Some r \<Longrightarrow> not_blank r"
    using assms(1) by (simp add: wf_NonGateTransitionFacts_def text_not_blank)
  ultimately show ?thesis using assms(2) by (auto simp: ntf_integrityFailure_def split: option.splits)
qed

lemma blocked_ok:
  "wf_NonGateTransitionFacts f \<Longrightarrow> not_blank r \<Longrightarrow>
   ng_decide f (NgBlocked r) (ng_defaults\<lparr>ngo_noEffects := True\<rparr>) = Inr (ng_decided f (NgBlocked r) [] [])"
  using ng_decide_ok [of f "NgBlocked r" "ng_defaults\<lparr>ngo_noEffects := True\<rparr>"]
  by (simp add: ng_defaults_def ng_disposition_ok_def ng_users_ok_def ng_effects_def)

lemma reducer_table:
  assumes "wf_NonGateTransitionFacts f" "ng_step_typed f" "ng_selection_ok s"
  shows "resolveSelectedNonGateTransition f (Inr s) = Inr (ng_policy f s)"
proof -
  have "ncf_refusalReason c = Some ''partial_completion'' \<longleftrightarrow> ncf_partial c" for c
    by (simp add: ncf_refusalReason_def)
  then show ?thesis
    using integrity_reason_not_blank [OF assms(1)] blocked_ok [OF assms(1)] resolveSelection_ok [OF assms]
    by (simp add: resolveSelectedNonGateTransition_def ng_policy_def literal_not_blank js_ws_def split: option.split
        del: bindE_eq_Inr)
qed

subsection \<open>The registered Step Definitions\<close>

definition fr_failure_action :: "FinalRegressionStepFacts \<Rightarrow> bool \<Rightarrow> NonGateStepAction list" where
  "fr_failure_action s retryable = (if frs_failureRecorded s then [] else
     [FailCurrentAttemptAction \<lparr>nfa_category = reason_or (ffp_category (frs_failure s)) ''unknown'',
        nfa_code = ''FINAL_REGRESSION_FAILED'', nfa_retryable = retryable,
        nfa_retryKind = (if retryable then Some ''semantic'' else None),
        nfa_message = ''final-regression failed ('' @ reason_or (ffp_kind (frs_failure s)) ''unknown'' @ '')''\<rparr>])"

definition accept_user :: "NonGateUserActionSelection list" where
  "accept_user = [\<lparr>nus_actionId = FINAL_REGRESSION_RECORD_AND_PROCEED_ACTION_ID\<rparr>]"

definition history_differs :: "FinalRegressionStepFacts \<Rightarrow> NonGateTransitionFacts \<Rightarrow> bool" where
  "history_differs s f \<longleftrightarrow> frh_used (frs_retryHistory s) \<noteq> nrm_used (ntf_retry f)
     \<or> frh_maximum (frs_retryHistory s) \<noteq> nrm_maximum (ntf_retry f)"

definition fr_selection :: "FinalRegressionStepFacts \<Rightarrow> NonGateTransitionFacts \<Rightarrow> NonGateTransitionSelection" where
  "fr_selection s f =
     (if \<not> fcs_current (frs_changedFileSnapshot s)
      then (selecting ''blocked'')\<lparr>nts_reason := Some ''stale_changed_file_snapshot''\<rparr>
      else if history_differs s f then (selecting ''blocked'')\<lparr>nts_reason := Some ''retry_history_mismatch''\<rparr>
      else if frs_result s = ''pass'' \<or> frs_result s = ''skipped'' then selecting ''advance''
      else if fpe_accepted (frs_recordAndProceed s) then selecting ''record-and-proceed''
      else if ffp_tooling (frs_failure s)
      then (selecting ''external-blocked'')\<lparr>nts_reason := Some (reason_or (ffp_kind (frs_failure s)) ''tooling_failure''),
        nts_beforeActions := fr_failure_action s False\<rparr>
      else if ffp_currentChange (frs_failure s) then
        if frh_exhausted (frs_retryHistory s)
        then (selecting ''await-user-input'')\<lparr>nts_reason := Some ''retry_exhausted'',
          nts_beforeActions := fr_failure_action s False, nts_userActions := accept_user\<rparr>
        else (selecting ''repair'')\<lparr>nts_beforeActions := fr_failure_action s True\<rparr>
      else if ffp_existing (frs_failure s)
      then (selecting ''await-user-input'')\<lparr>nts_beforeActions := fr_failure_action s False, nts_userActions := accept_user\<rparr>
      else (selecting ''blocked'')\<lparr>
        nts_reason := Some (if frh_exhausted (frs_retryHistory s) then ''retry_exhausted'' else ''unclassified_failure''),
        nts_beforeActions := fr_failure_action s False\<rparr>)"

lemma new_selection_ok: "ng_selection_ok s \<Longrightarrow> new_NonGateTransitionSelection s = Inr s"
proof -
  assume s: "ng_selection_ok s"
  have "list_all not_blank NON_GATE_OPERATIONS" by (simp add: NON_GATE_OPERATIONS_def literal_not_blank js_ws_def)
  with s have "not_blank (nts_operation s)" by (auto simp: ng_selection_ok_def list_all_iff)
  with s show ?thesis
    by (simp add: new_NonGateTransitionSelection_def ng_selection_ok_def ng_users_ok_def del: bindE_eq_Inr)
qed

lemma accept_user_ok: "accept_failure = Inr accept_user \<and> ng_users_ok accept_user"
proof -
  have "is_action_id FINAL_REGRESSION_RECORD_AND_PROCEED_ACTION_ID" by code_simp
  then show ?thesis
    by (simp add: accept_failure_def new_NonGateUserActionSelection_def accept_user_def ng_users_ok_def
        action_id_not_blank del: bindE_eq_Inr)
qed

lemma failure_actions_ok:
  assumes "wf_FinalRegressionStepFacts s"
  shows "finalRegressionFailureActions s retryable = Inr (fr_failure_action s retryable)"
proof -
  have "not_blank (reason_or (ffp_category (frs_failure s)) ''unknown'')"
    using assms by (intro reason_or_not_blank) (simp_all add: wf_FinalRegressionStepFacts_def literal_not_blank js_ws_def)
  moreover have "not_blank (''final-regression failed ('' @ t)" for t by (rule literal_not_blank) (simp_all add: js_ws_def)
  moreover have "not_blank ''FINAL_REGRESSION_FAILED''" "not_blank ''semantic''"
    by (simp_all add: literal_not_blank js_ws_def)
  ultimately show ?thesis
    by (simp add: finalRegressionFailureActions_def finalRegressionFailureAction_def fr_failure_action_def
        new_NonGateFailCurrentAttemptAction_def del: bindE_eq_Inr append.simps)
qed

lemma selecting_ok:
  "op \<in> set NON_GATE_OPERATIONS \<Longrightarrow> pred_option not_blank r \<Longrightarrow> ng_users_ok us \<Longrightarrow>
   ng_selection_ok ((selecting op)\<lparr>nts_reason := r, nts_beforeActions := b, nts_actions := a, nts_exhaustedActions := x,
     nts_userActions := us\<rparr>)"
  by (simp add: ng_selection_ok_def selecting_def)

lemma fr_selection_ok: "wf_FinalRegressionStepFacts s \<Longrightarrow> ng_selection_ok (fr_selection s f)"
  using accept_user_ok reason_or_not_blank [of "ffp_kind (frs_failure s)" "''tooling_failure''"]
  by (simp add: fr_selection_def ng_selection_ok_def selecting_def NON_GATE_OPERATIONS_def literal_not_blank js_ws_def
      wf_FinalRegressionStepFacts_def ng_users_ok_def [of "[]"])

lemma final_regression_select:
  assumes "wf_FinalRegressionStepFacts s"
  shows "selectFinalRegressionTransition s (Some f) = Inr (fr_selection s f)"
proof -
  have "selectFinalRegressionTransition s (Some f) = new_NonGateTransitionSelection (fr_selection s f)"
    unfolding selectFinalRegressionTransition_def fr_selection_def
    by (simp add: failure_actions_ok [OF assms] accept_user_ok history_differs_def del: bindE_eq_Inr)
  then show ?thesis by (simp add: new_selection_ok fr_selection_ok assms)
qed

definition tc_action :: "string \<Rightarrow> string \<Rightarrow> bool \<Rightarrow> string \<Rightarrow> NonGateStepAction" where
  "tc_action category code retryable message = FailCurrentAttemptAction \<lparr>nfa_category = category, nfa_code = code,
     nfa_retryable = retryable, nfa_retryKind = (if retryable then Some ''semantic'' else None), nfa_message = message\<rparr>"

definition tc_selection :: "bool \<Rightarrow> bool \<Rightarrow> NonGateTransitionSelection" where
  "tc_selection failed tooling =
     (if tooling then (selecting ''external-blocked'')\<lparr>nts_reason := Some ''tooling_failure'',
        nts_actions := [tc_action ''tooling'' ''TEST_CHAIN_TOOLING_FAILURE'' False ''Test-chain tooling failed.'']\<rparr>
      else if \<not> failed then selecting ''advance''
      else (selecting ''retry'')\<lparr>nts_reason := Some ''semantic_test_failure'',
        nts_actions := [tc_action ''semantic'' ''TEST_CHAIN_REJECTED'' True ''Test-chain evidence was rejected.''],
        nts_exhaustedActions := [tc_action ''semantic'' ''TEST_CHAIN_RETRY_EXHAUSTED'' False
          ''Test-chain semantic retry budget is exhausted.'']\<rparr>)"

lemma tc_selection_ok: "ng_selection_ok (tc_selection failed tooling)"
  by (simp add: tc_selection_def ng_selection_ok_def selecting_def NON_GATE_OPERATIONS_def literal_not_blank js_ws_def
      ng_users_ok_def)

lemma test_chain_select: "testChainSelection stepId failed tooling False = Inr (tc_selection failed tooling)"
proof -
  have "testChainSelection stepId failed tooling False = new_NonGateTransitionSelection (tc_selection failed tooling)"
    unfolding testChainSelection_def failureAction_def new_NonGateFailCurrentAttemptAction_def
    by (simp add: tc_selection_def tc_action_def literal_not_blank js_ws_def del: bindE_eq_Inr)
  then show ?thesis by (simp add: new_selection_ok tc_selection_ok)
qed

text \<open>The Step Definition registered for a step, and what it selects from typed facts.\<close>

definition ng_definition :: "string \<Rightarrow> NonGateStepDefinition" where
  "ng_definition step = (if step = ''final-regression'' then FINAL_REGRESSION_STEP_DEFINITION
     else if step = ''test-execute'' then testExecuteTransitionDefinition else testResultReviewTransitionDefinition)"

definition ng_selected :: "NonGateTransitionFacts \<Rightarrow> NonGateTransitionSelection" where
  "ng_selected f = (case ntf_stepFacts f of
     Some (FinalRegression s) \<Rightarrow> fr_selection s f
   | Some (TestExecute s) \<Rightarrow> tc_selection False (tes_toolingFailure s)
   | Some (TestResultReview s) \<Rightarrow> tc_selection (\<not> trr_toolingFailure s \<and> trr_verdict s = ''fail'') (trr_toolingFailure s)
   | _ \<Rightarrow> selecting ''blocked'')"

lemma selectionFor_typed:
  "wf_FinalRegressionStepFacts r \<Longrightarrow> ntf_stepId f = ''final-regression'' \<Longrightarrow> ntf_stepFacts f = Some (FinalRegression r) \<Longrightarrow>
     selectionFor FINAL_REGRESSION_STEP_DEFINITION f = Inr (fr_selection r f)"
  "ntf_stepId f = ''test-execute'' \<Longrightarrow> ntf_stepFacts f = Some (TestExecute e) \<Longrightarrow>
     selectionFor testExecuteTransitionDefinition f = Inr (tc_selection False (tes_toolingFailure e))"
  "ntf_stepId f = ''test-result-review'' \<Longrightarrow> ntf_stepFacts f = Some (TestResultReview t) \<Longrightarrow>
     selectionFor testResultReviewTransitionDefinition f =
       Inr (tc_selection (\<not> trr_toolingFailure t \<and> trr_verdict t = ''fail'') (trr_toolingFailure t))"
  by (simp_all add: selectionFor_def FINAL_REGRESSION_STEP_DEFINITION_def testExecuteTransitionDefinition_def
      testResultReviewTransitionDefinition_def final_regression_select test_chain_select new_TestChainMeaning_def
      test_chain_kinds_def del: bindE_eq_Inr)

lemma selectionFor_ok:
  assumes "wf_NonGateTransitionFacts f" "ng_step_typed f"
  shows "selectionFor (ng_definition (ntf_stepId f)) f = Inr (ng_selected f) \<and> ng_selection_ok (ng_selected f)"
proof -
  from assms(2) obtain s where s: "ntf_stepFacts f = Some s" by (auto simp: ng_step_typed_def split: option.splits)
  then have wf: "wf_NonGateStepFacts s" using assms(1) by (simp add: wf_NonGateTransitionFacts_def)
  show ?thesis
  proof (cases s)
    case (FinalRegression r)
    with s wf assms(2) show ?thesis
      by (simp add: ng_step_typed_def ng_definition_def ng_selected_def selectionFor_typed fr_selection_ok)
  next
    case (TestExecute e)
    with s assms(2) show ?thesis
      by (simp add: ng_step_typed_def ng_definition_def ng_selected_def selectionFor_typed tc_selection_ok)
  next
    case (TestResultReview t)
    with s assms(2) show ?thesis
      by (simp add: ng_step_typed_def ng_definition_def ng_selected_def selectionFor_typed tc_selection_ok)
  next
    case (InvalidTestChainObservation a b c)
    with s assms(2) show ?thesis by (simp add: ng_step_typed_def)
  qed
qed

lemma registered_table:
  assumes "wf_NonGateTransitionFacts f" "ng_step_typed f"
  shows "resolveNonGateTransition f (ng_definition (ntf_stepId f)) = Inr (ng_policy f (ng_selected f))"
  using reducer_table [OF assms, of "ng_selected f"] selectionFor_ok [OF assms]
  by (simp add: resolveNonGateTransition_def)

subsection \<open>Reading the strict outcome\<close>

fun is_failure :: "NonGateStepAction \<Rightarrow> bool" where
  "is_failure (FailCurrentAttemptAction _) = True"
| "is_failure _ = False"

definition strict_status :: "NonGateTransitionFacts \<Rightarrow> NonGateTransitionSelection \<Rightarrow> string" where
  "strict_status f s = fst (snd (ng_strict f s))"

definition strict_retry :: "NonGateTransitionFacts \<Rightarrow> NonGateTransitionSelection \<Rightarrow> bool" where
  "strict_retry f s = fst (snd (snd (ng_strict f s)))"

lemma strict_status_done:
  "strict_status f s = ''done'' \<longleftrightarrow> nts_operation s = ''advance'' \<and> ncf_refusalReason (ntf_completion f) = None
     \<or> nts_operation s = ''record-and-proceed'' \<or> nts_operation s = ''park''"
  by (auto simp: strict_status_def ng_strict_def Let_def split: option.splits)

lemma strict_retry_iff:
  "strict_retry f s \<longleftrightarrow> nts_operation s = ''retry'' \<and> \<not> nrm_exhausted (ntf_retry f)"
  by (auto simp: strict_retry_def ng_strict_def Let_def split: option.splits)

definition fails_only :: "NonGateTransitionSelection \<Rightarrow> bool" where
  "fails_only s \<longleftrightarrow> list_all is_failure (nts_beforeActions s) \<and> list_all is_failure (nts_actions s)
     \<and> list_all is_failure (nts_exhaustedActions s)"

lemma fr_fails_only: "fails_only (fr_selection r f)"
  by (simp add: fails_only_def fr_selection_def selecting_def fr_failure_action_def)

lemma tc_fails_only: "fails_only (tc_selection failed tooling)"
  by (simp add: fails_only_def tc_selection_def selecting_def tc_action_def)

lemma selected_fails_only: "fails_only (ng_selected f)"
  by (auto simp: ng_selected_def fr_fails_only tc_fails_only split: option.split NonGateStepFacts.split)
    (simp_all add: fails_only_def selecting_def)

lemma strict_members:
  assumes "fails_only s" "\<not> is_failure a"
  shows "a \<in> set (ngp_actions (ngt_plan (strict_decision f s))) \<longleftrightarrow>
     a = set_status f (strict_status f s) \<or> strict_retry f s \<and> a = IncrementRetryAction (ntf_stepId f)"
proof -
  obtain d status inc acts where strict: "ng_strict f s = (d, status, inc, acts)" by (cases "ng_strict f s") auto
  have "acts = nts_actions s \<or> acts = nts_exhaustedActions s"
    using strict unfolding ng_strict_def Let_def by (auto split: if_splits option.splits)
  then have "list_all is_failure acts" "list_all is_failure (nts_beforeActions s)"
    using assms(1) by (auto simp: fails_only_def)
  then have "a \<notin> set acts" "a \<notin> set (nts_beforeActions s)" using assms(2) by (auto simp: list_all_iff)
  then show ?thesis
    by (auto simp: strict_decision_def strict strict_status_def strict_retry_def ng_decided_def)
qed

lemma fr_operation:
  assumes "wf_FinalRegressionStepFacts r"
  shows "nts_operation (fr_selection r f) = ''advance'' \<longleftrightarrow>
      fcs_current (frs_changedFileSnapshot r) \<and> \<not> history_differs r f \<and> frs_result r \<noteq> ''fail''"
    and "nts_operation (fr_selection r f) = ''record-and-proceed'' \<longleftrightarrow>
      fcs_current (frs_changedFileSnapshot r) \<and> \<not> history_differs r f \<and> frs_result r = ''fail''
      \<and> fpe_accepted (frs_recordAndProceed r)"
    and "nts_operation (fr_selection r f) = ''repair'' \<longleftrightarrow>
      fcs_current (frs_changedFileSnapshot r) \<and> \<not> history_differs r f \<and> frs_result r = ''fail''
      \<and> \<not> fpe_accepted (frs_recordAndProceed r) \<and> ffp_currentChange (frs_failure r) \<and> \<not> frh_exhausted (frs_retryHistory r)"
    and "nts_operation (fr_selection r f) \<noteq> ''park''" "nts_operation (fr_selection r f) \<noteq> ''retry''"
  using assms
  by (auto simp: fr_selection_def selecting_def wf_FinalRegressionStepFacts_def FINAL_REGRESSION_RESULTS_def
      ffp_tooling_def ffp_currentChange_def)

lemma fr_users:
  assumes "wf_FinalRegressionStepFacts r"
  shows "nts_userActions (fr_selection r f) =
    (if fcs_current (frs_changedFileSnapshot r) \<and> \<not> history_differs r f \<and> frs_result r = ''fail''
       \<and> \<not> fpe_accepted (frs_recordAndProceed r)
       \<and> (ffp_existing (frs_failure r) \<or> ffp_currentChange (frs_failure r) \<and> frh_exhausted (frs_retryHistory r))
     then accept_user else [])"
  using assms
  by (auto simp: fr_selection_def selecting_def wf_FinalRegressionStepFacts_def FINAL_REGRESSION_RESULTS_def
      ffp_tooling_def ffp_currentChange_def ffp_existing_def)

lemma tc_operation:
  "nts_operation (tc_selection failed tooling) =
     (if tooling then ''external-blocked'' else if failed then ''retry'' else ''advance'')"
  "nts_userActions (tc_selection failed tooling) = []"
  by (simp_all add: tc_selection_def selecting_def)

end
