(* ===== verification/Non_Gate_Properties.thy ===== *)
theory Non_Gate_Properties
  imports Non_Gate_Policy
begin

section \<open>Properties of the non-Gate transitions\<close>

text \<open>
  What the common reducer of \<open>src/flow/definition.js\<close> guarantees for the final regression and the test
  chain: it decides every well-formed input as the policy table says, and marks a step done, counts a
  retry, offers a user action or records an advisory observation in exactly the situations stated
  here.
\<close>

lemma decided_simps [simp]:
  "ngt_facts (ng_decided f d acts us) = f" "ngt_disposition (ng_decided f d acts us) = d"
  "ngp_actions (ngt_plan (ng_decided f d acts us)) = acts"
  "map nua_actionId (ngp_userActions (ngt_plan (ng_decided f d acts us))) = map nus_actionId us"
  by (simp_all add: ng_decided_def comp_def)

definition ng_open :: "NonGateTransitionFacts \<Rightarrow> bool" where
  "ng_open f \<longleftrightarrow> ng_intact f \<and> \<not> ncf_partial (ntf_completion f)"

definition ng_advisory :: "NonGateTransitionFacts \<Rightarrow> bool" where
  "ng_advisory f \<longleftrightarrow> ng_open f \<and> ntf_nonblocking f \<and> ng_eligible f (fst (ng_strict f (ng_selected f)))"

lemma policy_cases:
  "ng_policy f s = (if \<not> ng_intact f then ng_decided f (NgBlocked (the (ntf_integrityFailure f))) [] []
     else if ncf_partial (ntf_completion f) then ng_decided f (NgBlocked ''partial_completion'') [] []
     else if ntf_nonblocking f \<and> ng_eligible f (fst (ng_strict f s)) then advisory_decision f (ngd_reason (fst (ng_strict f s)))
     else strict_decision f s)"
  unfolding ng_policy_def ng_integrity_ok [symmetric] by (auto split: option.split)

lemma resolved_cases:
  assumes "wf_NonGateTransitionFacts f" "ng_step_typed f"
    and "resolveNonGateTransition f (ng_definition (ntf_stepId f)) = Inr D"
  obtains (blocked) r where "\<not> ng_open f" "D = ng_decided f (NgBlocked r) [] []"
  | (advisory) "ng_advisory f" "D = advisory_decision f (ngd_reason (fst (ng_strict f (ng_selected f))))"
  | (strict) "ng_open f" "\<not> ng_advisory f" "D = strict_decision f (ng_selected f)"
  using registered_table [OF assms(1,2)] assms(3)
  by (auto simp: policy_cases ng_open_def ng_advisory_def split: if_splits)

lemma typed_cases:
  assumes "wf_NonGateTransitionFacts f" "ng_step_typed f"
  obtains (regression) r where "ntf_stepFacts f = Some (FinalRegression r)" "ntf_stepId f = ''final-regression''"
      "wf_FinalRegressionStepFacts r" "ng_selected f = fr_selection r f"
  | (execute) e where "ntf_stepFacts f = Some (TestExecute e)" "ntf_stepId f = ''test-execute''"
      "ng_selected f = tc_selection False (tes_toolingFailure e)"
  | (review) t where "ntf_stepFacts f = Some (TestResultReview t)" "ntf_stepId f = ''test-result-review''"
      "wf_TestResultReviewStepFacts t"
      "ng_selected f = tc_selection (\<not> trr_toolingFailure t \<and> trr_verdict t = ''fail'') (trr_toolingFailure t)"
  using assms by (auto simp: ng_step_typed_def ng_selected_def wf_NonGateTransitionFacts_def
      split: option.splits NonGateStepFacts.splits)

subsection \<open>Samples\<close>

definition ng_sample_attempt :: NonGateAttemptIdentity where
  "ng_sample_attempt = \<lparr>nai_id = ''attempt-1'', nai_sequence = 1\<rparr>"

definition sample_publication :: "string \<Rightarrow> NonGateCatalogPublication" where
  "sample_publication step = \<lparr>ncp_runId = ''run'', ncp_specId = ''spec'', ncp_stepId = step, ncp_attempt = ng_sample_attempt,
     ncp_producerActivityId = ''activity'', ncp_artifactId = ''artifact'', ncp_fingerprint = ''f1''\<rparr>"

definition sample_facts :: "string \<Rightarrow> nat \<Rightarrow> NonGateStepFacts \<Rightarrow> NonGateTransitionFacts" where
  "sample_facts step used s = \<lparr>ntf_runId = ''run'', ntf_specId = ''spec'', ntf_stepId = step, ntf_snapshotRevision = ''r1'',
     ntf_producer = \<lparr>npo_runId = ''run'', npo_specId = ''spec'', npo_activityId = ''activity'', npo_stepId = step,
       npo_attempt = ng_sample_attempt\<rparr>,
     ntf_target = \<lparr>ntb_runId = ''run'', ntb_specId = ''spec'', ntb_stepId = step, ntb_attempt = ng_sample_attempt\<rparr>,
     ntf_currentAttempt = ng_sample_attempt, ntf_catalogPublication = sample_publication step,
     ntf_sourcePublication = sample_publication ''test-execute'', ntf_repairPublication = None,
     ntf_lineage = \<lparr>nln_sourceAttempt = ng_sample_attempt, nln_canonicalAttempt = ng_sample_attempt,
       nln_sourceFingerprint = ''f1'', nln_canonicalFingerprint = ''f1'', nln_sourceRevisionFingerprint = None,
       nln_canonicalRevisionFingerprint = None, nln_repairAttempt = None, nln_repairFingerprint = None,
       nln_repairRevisionFingerprint = None\<rparr>,
     ntf_retry = \<lparr>nrm_used = used, nrm_maximum = 2\<rparr>,
     ntf_recoveryEvidence = \<lparr>nre_kind = ''none'', nre_attempt = None, nre_fingerprint = None\<rparr>,
     ntf_completion = \<lparr>ncf_completed = True, ncf_partial = False\<rparr>, ntf_nonblocking = False,
     ntf_stepFacts = Some s, ntf_explicitIntegrityFailure = None\<rparr>"

definition ng_sample_review :: "string \<Rightarrow> TestResultReviewStepFacts" where
  "ng_sample_review verdict = \<lparr>trr_executionCompletion = None, trr_verdict = verdict,
     trr_checkedItems = [JObj [(''result'', JStr verdict)]], trr_rawAvailable = True, trr_testSourceRevision = ''t1'',
     trr_sourceRepairFingerprint = ''x'', trr_sourceRawEvidenceFingerprint = ''x'', trr_repairFingerprint = ''x'',
     trr_rawEvidenceFingerprint = ''x'', trr_catalogDigest = ''x'', trr_toolingFailure = False\<rparr>"

definition sample_regression :: "string \<Rightarrow> string option \<Rightarrow> nat \<Rightarrow> FinalRegressionStepFacts" where
  "sample_regression result category used = \<lparr>frs_result = result,
     frs_artifactDigest = \<lparr>fad_value = replicate 64 (CHR ''a'')\<rparr>,
     frs_failure = \<lparr>ffp_kind = None, ffp_category = category\<rparr>,
     frs_retryHistory = \<lparr>frh_used = used, frh_maximum = 2\<rparr>,
     frs_changedFileSnapshot = \<lparr>fcs_digest = replicate 64 (CHR ''b''), fcs_current = True\<rparr>,
     frs_recordAndProceed = \<lparr>fpe_accepted = False, fpe_digest = None\<rparr>,
     frs_nonblockingPolicy = \<lparr>fnp_enabled = False\<rparr>, frs_failureRecorded = False\<rparr>"

definition review_facts :: "string \<Rightarrow> nat \<Rightarrow> NonGateTransitionFacts" where
  "review_facts verdict used = sample_facts ''test-result-review'' used (TestResultReview (ng_sample_review verdict))"

definition regression_facts :: "string \<Rightarrow> string option \<Rightarrow> nat \<Rightarrow> NonGateTransitionFacts" where
  "regression_facts result category used =
     sample_facts ''final-regression'' used (FinalRegression (sample_regression result category used))"

lemma sample_text:
  "is_text ''run''" "is_text ''spec''" "is_text ''r1''" "is_text ''activity''" "is_text ''artifact''" "is_text ''f1''"
  "is_text ''attempt-1''" "is_text ''test-execute''" "is_text ''test-result-review''" "is_text ''final-regression''"
  by (simp_all add: is_text_def js_trim_def js_ws_def)

lemma sample_facts_wf:
  "is_text step \<Longrightarrow> used \<le> 2 \<Longrightarrow> wf_NonGateStepFacts s \<Longrightarrow> wf_NonGateTransitionFacts (sample_facts step used s)"
  by (simp add: wf_NonGateTransitionFacts_def sample_facts_def wf_NonGateProducerOwnership_def ng_sample_attempt_def
      wf_NonGateAttemptIdentity_def wf_NonGateTargetBinding_def sample_publication_def wf_NonGateCatalogPublication_def
      wf_NonGateLineage_def wf_NonGateRetryMetrics_def wf_NonGateRecoveryEvidence_def wf_NonGateCompletionFacts_def
      sample_text is_safe_def max_safe_def NON_GATE_RECOVERY_KINDS_def)

lemma sample_facts_intact: "ng_intact (sample_facts step used s)"
  by (simp add: ng_intact_def sample_facts_def sample_publication_def nln_isCurrent_def nre_isBoundTo_def)

lemma sample_facts_open: "ng_open (sample_facts step used s)"
  by (simp add: ng_open_def sample_facts_intact) (simp add: sample_facts_def)

lemma review_facts_ok:
  assumes "verdict \<in> {''pass'', ''fail''}" "used \<le> 2"
  shows "wf_NonGateTransitionFacts (review_facts verdict used) \<and> ng_step_typed (review_facts verdict used)"
proof -
  have "wf_TestResultReviewStepFacts (ng_sample_review verdict)"
    using assms by (auto simp: wf_TestResultReviewStepFacts_def ng_sample_review_def checked_result_def)
  then show ?thesis
    using sample_facts_wf [OF sample_text(9) assms(2), of "TestResultReview (ng_sample_review verdict)"]
    by (simp add: review_facts_def ng_step_typed_def) (simp add: sample_facts_def)
qed

lemma sample_digest: "is_sha256 (replicate 64 (CHR ''a''))" "is_sha256 (replicate 64 (CHR ''b''))"
  by (simp_all add: is_sha256_def hex_digit_def list_all_iff)

lemma regression_facts_ok:
  assumes "result \<in> {''pass'', ''fail''}" "used \<le> 2" "pred_option not_blank category"
  shows "wf_NonGateTransitionFacts (regression_facts result category used) \<and> ng_step_typed (regression_facts result category used)"
proof -
  have "wf_FinalRegressionStepFacts (sample_regression result category used)"
    using assms by (auto simp: wf_FinalRegressionStepFacts_def sample_regression_def FINAL_REGRESSION_RESULTS_def
        sample_digest wf_FinalRegressionRetryHistory_def is_safe_def max_safe_def wf_FinalRegressionProceedEvidence_def)
  then show ?thesis
    using sample_facts_wf [OF sample_text(10) assms(2), of "FinalRegression (sample_regression result category used)"]
    by (simp add: regression_facts_def ng_step_typed_def) (simp add: sample_facts_def)
qed

subsection \<open>The reducer implements the policy\<close>

text \<open>Claim C35.  For well-formed facts whose step facts have the type of their step, the reducer of the
  registered Step Definitions never throws and returns exactly the decision of the policy table:
  blocked without effects for facts that are not intact or only partially complete, an advisory stop
  for an eligible strict stop in nonblocking mode, and otherwise the strict outcome of the selection
  with its effects in the order before-actions, status, retry, step actions.\<close>

theorem non_gate_reducer_refines_policy:
  assumes "wf_NonGateTransitionFacts f" "ng_step_typed f"
  shows "resolveNonGateTransition f (ng_definition (ntf_stepId f)) = Inr (ng_policy f (ng_selected f))"
  using assms by (rule registered_table)

theorem non_gate_reducer_refines_policy_witness:
  "resolveNonGateTransition (review_facts ''fail'' 1) testResultReviewTransitionDefinition =
     Inr (ng_policy (review_facts ''fail'' 1) (tc_selection True False))"
proof -
  have "ntf_stepId (review_facts ''fail'' 1) = ''test-result-review''" "ng_selected (review_facts ''fail'' 1) = tc_selection True False"
    by (simp_all add: review_facts_def sample_facts_def ng_selected_def ng_sample_review_def)
  then show ?thesis
    using non_gate_reducer_refines_policy [of "review_facts ''fail'' 1"] review_facts_ok [of "''fail''" 1]
    by (simp add: ng_definition_def)
qed

definition done_evidence :: "NonGateTransitionFacts \<Rightarrow> bool" where
  "done_evidence f = (case ntf_stepFacts f of
     Some (FinalRegression r) \<Rightarrow> fcs_current (frs_changedFileSnapshot r) \<and> \<not> history_differs r f
       \<and> (if frs_result r = ''fail'' then fpe_accepted (frs_recordAndProceed r) else ncf_completed (ntf_completion f))
   | Some (TestExecute e) \<Rightarrow> \<not> tes_toolingFailure e \<and> ncf_completed (ntf_completion f)
   | Some (TestResultReview t) \<Rightarrow> \<not> trr_toolingFailure t \<and> trr_verdict t = ''pass'' \<and> ncf_completed (ntf_completion f)
   | _ \<Rightarrow> False)"

lemma completed_iff: "ng_open f \<Longrightarrow> ncf_refusalReason (ntf_completion f) = None \<longleftrightarrow> ncf_completed (ntf_completion f)"
  by (simp add: ng_open_def ncf_refusalReason_def)

lemma done_iff_evidence:
  assumes "wf_NonGateTransitionFacts f" "ng_step_typed f" "ng_open f"
  shows "strict_status f (ng_selected f) = ''done'' \<longleftrightarrow> done_evidence f"
  using assms(1,2)
proof (cases rule: typed_cases)
  case (regression r)
  then show ?thesis using fr_operation [OF regression(3), of f]
    by (simp add: strict_status_done completed_iff assms(3) done_evidence_def)
next
  case (execute e)
  then show ?thesis by (simp add: strict_status_done completed_iff assms(3) done_evidence_def tc_operation)
next
  case (review t)
  then have "trr_verdict t \<in> {''pass'', ''fail''}" unfolding wf_TestResultReviewStepFacts_def by blast
  with review show ?thesis
    by (elim insertE emptyE) (simp_all add: strict_status_done completed_iff assms(3) done_evidence_def tc_operation)
qed

lemma strict_blocked:
  "ngd_operation (fst (ng_strict f s)) \<in> {''external-blocked'', ''blocked''} \<Longrightarrow> strict_status f s \<noteq> ''done''"
  by (auto simp: strict_status_def ng_strict_def Let_def split: option.splits if_splits)

lemma done_members:
  assumes "wf_NonGateTransitionFacts f" "ng_step_typed f"
    and "resolveNonGateTransition f (ng_definition (ntf_stepId f)) = Inr D"
  shows "set_status f ''done'' \<in> set (ngp_actions (ngt_plan D)) \<longleftrightarrow>
    ng_intact f \<and> \<not> ncf_partial (ntf_completion f) \<and> done_evidence f"
proof (rule resolved_cases [OF assms])
  fix r
  assume "\<not> ng_open f" "D = ng_decided f (NgBlocked r) [] []"
  then show ?thesis by (auto simp: ng_open_def)
next
  assume "ng_advisory f" "D = advisory_decision f (ngd_reason (fst (ng_strict f (ng_selected f))))"
  moreover from this have "strict_status f (ng_selected f) \<noteq> ''done''"
    by (auto simp: ng_advisory_def ng_eligible_def strict_blocked)
  moreover have "ng_open f" using calculation(1) by (simp add: ng_advisory_def)
  ultimately show ?thesis using done_iff_evidence [OF assms(1,2)]
    by (simp add: advisory_decision_def set_status_def)
next
  assume "ng_open f" "D = strict_decision f (ng_selected f)"
  then show ?thesis using done_iff_evidence [OF assms(1,2)]
    by (auto simp: strict_members selected_fails_only set_status_def ng_open_def)
qed

text \<open>Claim C36.  A step is marked done exactly when its facts are intact and not partial and its own
  evidence allows it: a final regression on a current snapshot with the canonical retry history that
  passed or was skipped and completed, or failed with an accepted record; a completed test execution
  without tooling failure; a completed test result review that passed without tooling failure.\<close>

theorem non_gate_done_exact:
  assumes "wf_NonGateTransitionFacts f" "ng_step_typed f"
    and "resolveNonGateTransition f (ng_definition (ntf_stepId f)) = Inr D"
  shows "set_status f ''done'' \<in> set (ngp_actions (ngt_plan D)) \<longleftrightarrow>
    ng_intact f \<and> \<not> ncf_partial (ntf_completion f) \<and>
    (case ntf_stepFacts f of
       Some (FinalRegression r) \<Rightarrow> fcs_current (frs_changedFileSnapshot r) \<and> \<not> history_differs r f
         \<and> (if frs_result r = ''fail'' then fpe_accepted (frs_recordAndProceed r) else ncf_completed (ntf_completion f))
     | Some (TestExecute e) \<Rightarrow> \<not> tes_toolingFailure e \<and> ncf_completed (ntf_completion f)
     | Some (TestResultReview t) \<Rightarrow> \<not> trr_toolingFailure t \<and> trr_verdict t = ''pass'' \<and> ncf_completed (ntf_completion f)
     | _ \<Rightarrow> False)"
  using done_members [OF assms] unfolding done_evidence_def .

theorem non_gate_done_exact_witness:
  "\<exists>D. resolveNonGateTransition (review_facts ''pass'' 0) testResultReviewTransitionDefinition = Inr D
     \<and> set_status (review_facts ''pass'' 0) ''done'' \<in> set (ngp_actions (ngt_plan D))"
proof -
  have step: "ntf_stepId (review_facts ''pass'' 0) = ''test-result-review''"
    by (simp add: review_facts_def sample_facts_def)
  obtain D where D: "resolveNonGateTransition (review_facts ''pass'' 0) testResultReviewTransitionDefinition = Inr D"
    using registered_table [of "review_facts ''pass'' 0"] review_facts_ok [of "''pass''" 0] step
    by (simp add: ng_definition_def)
  moreover have "ng_intact (review_facts ''pass'' 0)" by (simp add: review_facts_def sample_facts_intact)
  ultimately show ?thesis
    using non_gate_done_exact [of "review_facts ''pass'' 0" D] review_facts_ok [of "''pass''" 0] step
    by (simp add: ng_definition_def) (simp add: review_facts_def sample_facts_def ng_sample_review_def)
qed

subsection \<open>Retries, repairs and user actions\<close>

lemma retry_selected:
  assumes "wf_NonGateTransitionFacts f" "ng_step_typed f"
  shows "strict_retry f (ng_selected f) \<longleftrightarrow> nrm_used (ntf_retry f) < nrm_maximum (ntf_retry f)
    \<and> (\<exists>t. ntf_stepFacts f = Some (TestResultReview t) \<and> \<not> trr_toolingFailure t \<and> trr_verdict t = ''fail'')"
  using assms
  by (cases rule: typed_cases) (auto simp: strict_retry_iff fr_operation tc_operation nrm_exhausted_def)

lemma typed_review_step: "ng_step_typed f \<Longrightarrow> ntf_stepFacts f = Some (TestResultReview t) \<Longrightarrow> ntf_stepId f = ''test-result-review''"
  by (simp add: ng_step_typed_def)

lemma strict_not_retry:
  "ngd_operation (fst (ng_strict f s)) \<in> {''external-blocked'', ''blocked''} \<Longrightarrow> \<not> strict_retry f s"
  by (auto simp: strict_retry_def ng_strict_def Let_def split: option.splits if_splits)

text \<open>Claim C37.  A retry is counted exactly for a rejected test result review whose budget is not used
  up, so the number of counted retries never exceeds the maximum.\<close>

theorem non_gate_retry_bounded:
  assumes "wf_NonGateTransitionFacts f" "ng_step_typed f"
    and "resolveNonGateTransition f (ng_definition (ntf_stepId f)) = Inr D"
  shows "IncrementRetryAction s \<in> set (ngp_actions (ngt_plan D)) \<longleftrightarrow>
      s = ''test-result-review'' \<and> ng_open f \<and> nrm_used (ntf_retry f) < nrm_maximum (ntf_retry f)
      \<and> (\<exists>t. ntf_stepFacts f = Some (TestResultReview t) \<and> \<not> trr_toolingFailure t \<and> trr_verdict t = ''fail'')"
proof (rule resolved_cases [OF assms])
  fix r
  assume "\<not> ng_open f" "D = ng_decided f (NgBlocked r) [] []"
  then show ?thesis by simp
next
  assume "ng_advisory f" "D = advisory_decision f (ngd_reason (fst (ng_strict f (ng_selected f))))"
  moreover from this have "\<not> strict_retry f (ng_selected f)"
    by (simp add: ng_advisory_def ng_eligible_def strict_not_retry)
  ultimately show ?thesis using retry_selected [OF assms(1,2)] by (simp add: advisory_decision_def set_status_def)
next
  assume "ng_open f" "D = strict_decision f (ng_selected f)"
  then show ?thesis using retry_selected [OF assms(1,2)] typed_review_step [OF assms(2)]
    by (auto simp: strict_members selected_fails_only set_status_def)
qed

theorem non_gate_retry_bounded_witness:
  "\<exists>D. resolveNonGateTransition (review_facts ''fail'' 1) testResultReviewTransitionDefinition = Inr D
     \<and> IncrementRetryAction ''test-result-review'' \<in> set (ngp_actions (ngt_plan D))"
proof -
  have step: "ntf_stepId (review_facts ''fail'' 1) = ''test-result-review''"
    by (simp add: review_facts_def sample_facts_def)
  obtain D where D: "resolveNonGateTransition (review_facts ''fail'' 1) testResultReviewTransitionDefinition = Inr D"
    using registered_table [of "review_facts ''fail'' 1"] review_facts_ok [of "''fail''" 1] step
    by (simp add: ng_definition_def)
  moreover have "ng_open (review_facts ''fail'' 1)" by (simp add: review_facts_def sample_facts_open)
  ultimately show ?thesis
    using non_gate_retry_bounded [of "review_facts ''fail'' 1" D "''test-result-review''"] review_facts_ok [of "''fail''" 1] step
    by (simp add: ng_definition_def) (simp add: review_facts_def sample_facts_def ng_sample_review_def)
qed

definition unaccepted_failure :: "NonGateTransitionFacts \<Rightarrow> FinalRegressionStepFacts \<Rightarrow> bool" where
  "unaccepted_failure f r \<longleftrightarrow> fcs_current (frs_changedFileSnapshot r) \<and> \<not> history_differs r f
     \<and> frs_result r = ''fail'' \<and> \<not> fpe_accepted (frs_recordAndProceed r)"

lemma strict_repair: "fst (ng_strict f s) = NgRepair \<longleftrightarrow> nts_operation s = ''repair''"
  by (auto simp: ng_strict_def Let_def split: option.splits)

lemma strict_decision_parts:
  "ngt_disposition (strict_decision f s) = fst (ng_strict f s)"
  "map nua_actionId (ngp_userActions (ngt_plan (strict_decision f s))) = map nus_actionId (nts_userActions s)"
  by (simp_all add: strict_decision_def split: prod.split)

lemma exhausted_canonical:
  "\<not> history_differs r f \<Longrightarrow> frh_exhausted (frs_retryHistory r) \<longleftrightarrow> nrm_used (ntf_retry f) \<ge> nrm_maximum (ntf_retry f)"
  by (simp add: history_differs_def frh_exhausted_def)

lemma fr_recovery:
  assumes "wf_FinalRegressionStepFacts r"
  shows "nts_operation (fr_selection r f) = ''repair'' \<longleftrightarrow> unaccepted_failure f r \<and> ffp_currentChange (frs_failure r)
        \<and> nrm_used (ntf_retry f) < nrm_maximum (ntf_retry f)"
    and "map nus_actionId (nts_userActions (fr_selection r f)) = (if unaccepted_failure f r \<and> (ffp_existing (frs_failure r)
            \<or> ffp_currentChange (frs_failure r) \<and> nrm_used (ntf_retry f) \<ge> nrm_maximum (ntf_retry f))
         then [''ACCEPT_FINAL_REGRESSION_FAILURE''] else [])"
  using fr_operation(3) [OF assms, of f] fr_users [OF assms, of f] exhausted_canonical [of r f]
  by (auto simp: unaccepted_failure_def accept_user_def FINAL_REGRESSION_RECORD_AND_PROCEED_ACTION_ID_def)

lemma fr_users_await: "nts_userActions (fr_selection r f) \<noteq> [] \<Longrightarrow> nts_operation (fr_selection r f) = ''await-user-input''"
  by (simp add: fr_selection_def selecting_def split: if_splits)

lemma strict_await: "nts_operation s = ''await-user-input'' \<Longrightarrow> ngd_operation (fst (ng_strict f s)) = ''await-user-input''"
  by (simp add: ng_strict_def Let_def)

text \<open>Claim C38.  The final regression asks for a repair exactly for an unaccepted failure caused by the
  current change while the canonical retry budget lasts, and offers the operator the choice to accept
  the failure exactly for an unaccepted existing failure or one caused by the current change when the
  budget is used up; both only on intact, not partial facts of a current snapshot with the canonical
  retry history.\<close>

theorem final_regression_recovery:
  assumes "wf_NonGateTransitionFacts f" "ng_step_typed f" "ntf_stepFacts f = Some (FinalRegression r)"
    and "resolveNonGateTransition f FINAL_REGRESSION_STEP_DEFINITION = Inr D"
  shows "(ngt_disposition D = NgRepair \<longleftrightarrow> ng_open f \<and> unaccepted_failure f r \<and> ffp_currentChange (frs_failure r)
        \<and> nrm_used (ntf_retry f) < nrm_maximum (ntf_retry f))
    \<and> map nua_actionId (ngp_userActions (ngt_plan D)) =
        (if ng_open f \<and> unaccepted_failure f r \<and> (ffp_existing (frs_failure r)
            \<or> ffp_currentChange (frs_failure r) \<and> nrm_used (ntf_retry f) \<ge> nrm_maximum (ntf_retry f))
         then [''ACCEPT_FINAL_REGRESSION_FAILURE''] else [])"
proof -
  have step: "ntf_stepId f = ''final-regression''" and wf: "wf_FinalRegressionStepFacts r"
      and sel: "ng_selected f = fr_selection r f"
    using assms(1-3) by (auto simp: ng_step_typed_def wf_NonGateTransitionFacts_def ng_selected_def)
  have D: "resolveNonGateTransition f (ng_definition (ntf_stepId f)) = Inr D" using assms(4) by (simp add: step ng_definition_def)
  note rec = fr_recovery [OF wf, of f]
  show ?thesis
  proof (rule resolved_cases [OF assms(1,2) D])
    fix x
    assume "\<not> ng_open f" "D = ng_decided f (NgBlocked x) [] []"
    then show ?thesis by (simp add: ng_decided_def)
  next
    assume adv: "ng_advisory f" "D = advisory_decision f (ngd_reason (fst (ng_strict f (ng_selected f))))"
    then have op: "ngd_operation (fst (ng_strict f (fr_selection r f))) \<in> {''external-blocked'', ''blocked''}"
      by (simp add: ng_advisory_def ng_eligible_def sel)
    then have "nts_userActions (fr_selection r f) = []" using fr_users_await strict_await [of "fr_selection r f" f] by fastforce
    moreover have "nts_operation (fr_selection r f) \<noteq> ''repair''" using op strict_repair [of f "fr_selection r f"] by fastforce
    ultimately show ?thesis using rec adv by (simp add: advisory_decision_def ng_decided_def split: if_splits)
  next
    assume "ng_open f" "D = strict_decision f (ng_selected f)"
    then show ?thesis using rec by (simp add: sel strict_decision_parts strict_repair)
  qed
qed

theorem final_regression_recovery_witness:
  "\<exists>D. resolveNonGateTransition (regression_facts ''fail'' (Some ''caused_by_current_change'') 1) FINAL_REGRESSION_STEP_DEFINITION = Inr D
     \<and> ngt_disposition D = NgRepair \<and> ngp_userActions (ngt_plan D) = []"
proof -
  let ?f = "regression_facts ''fail'' (Some ''caused_by_current_change'') 1"
  let ?r = "sample_regression ''fail'' (Some ''caused_by_current_change'') 1"
  have ok: "wf_NonGateTransitionFacts ?f \<and> ng_step_typed ?f"
    by (rule regression_facts_ok) (simp_all add: literal_not_blank js_ws_def)
  have parts: "ntf_stepFacts ?f = Some (FinalRegression ?r)" "ntf_stepId ?f = ''final-regression''" "ng_open ?f"
    by (simp_all add: regression_facts_def sample_facts_open) (simp_all add: sample_facts_def)
  obtain D where D: "resolveNonGateTransition ?f FINAL_REGRESSION_STEP_DEFINITION = Inr D"
    using registered_table [of ?f] ok parts(2) by (simp add: ng_definition_def)
  have "unaccepted_failure ?f ?r" "ffp_currentChange (frs_failure ?r)" "\<not> ffp_existing (frs_failure ?r)"
      "nrm_used (ntf_retry ?f) < nrm_maximum (ntf_retry ?f)"
    by (simp_all add: unaccepted_failure_def sample_regression_def regression_facts_def sample_facts_def history_differs_def
        ffp_currentChange_def ffp_existing_def)
  with final_regression_recovery [OF conjunct1 [OF ok] conjunct2 [OF ok] parts(1) D] parts(3) D show ?thesis by auto
qed

lemma resolved_form:
  assumes "wf_NonGateTransitionFacts f" "ng_step_typed f"
    and "resolveNonGateTransition f (ng_definition (ntf_stepId f)) = Inr D"
  obtains d acts us where "D = ng_decided f d acts us" "ng_users_ok us"
proof -
  have users: "ng_users_ok []" "ng_users_ok (nts_userActions (ng_selected f))"
    using selectionFor_ok [OF assms(1,2)] by (simp_all add: ng_users_ok_def [of "[]"] ng_selection_ok_def)
  show ?thesis
    using assms by (cases rule: resolved_cases)
      (auto simp: advisory_decision_def strict_decision_def users intro: that split: prod.splits)
qed

lemma find_sealed:
  "find (\<lambda>a. nua_actionId a = i) (map (\<lambda>u. \<lparr>nua_transition = t, nua_actionId = nus_actionId u\<rparr>) us) =
     (if i \<in> nus_actionId ` set us then Some \<lparr>nua_transition = t, nua_actionId = i\<rparr> else None)"
  by (induction us) auto

lemma nac_matches_refl [simp]: "nac_matches a a"
  by (simp add: nac_matches_def)

lemma user_action_taken:
  assumes "ng_users_ok us"
  shows "selectedNonGateUserAction (ng_decided f d acts us) i = Inr a \<longleftrightarrow>
    i \<in> nus_actionId ` set us \<and> a = \<lparr>nua_transition = ng_identity f d acts us, nua_actionId = i\<rparr>"
proof (cases "i \<in> nus_actionId ` set us")
  case True
  then have "requireString field i = Inr i" for field
    using assms by (auto simp: ng_users_ok_def list_all_iff intro!: requireString_not_blank action_id_not_blank)
  with True show ?thesis
    by (auto simp: selectedNonGateUserAction_def userActionFor_def ng_decided_def find_sealed simp del: bindE_eq_Inr)
next
  case False
  then show ?thesis
    by (auto simp: selectedNonGateUserAction_def userActionFor_def ng_decided_def find_sealed requireString_def)
qed

text \<open>Claim C39.  A user action can be taken exactly when the decision offers it, and the action taken is
  sealed to the identity of that decision: every other id is refused.\<close>

theorem non_gate_user_action_sealed:
  assumes "wf_NonGateTransitionFacts f" "ng_step_typed f"
    and "resolveNonGateTransition f (ng_definition (ntf_stepId f)) = Inr D"
  shows "selectedNonGateUserAction D i = Inr a \<longleftrightarrow>
    i \<in> set (map nua_actionId (ngp_userActions (ngt_plan D)))
    \<and> a = \<lparr>nua_transition = ngp_identity (ngt_plan D), nua_actionId = i\<rparr>"
proof -
  obtain d acts us where D: "D = ng_decided f d acts us" "ng_users_ok us" using assms by (rule resolved_form)
  have "ngp_identity (ngt_plan D) = ng_identity f d acts us" by (simp add: D ng_decided_def)
  then show ?thesis using user_action_taken [OF D(2), of f d acts i a] by (simp add: D)
qed

theorem non_gate_user_action_sealed_witness:
  "\<exists>D. resolveNonGateTransition (regression_facts ''fail'' (Some ''existing_failure'') 0) FINAL_REGRESSION_STEP_DEFINITION = Inr D
     \<and> selectedNonGateUserAction D ''ACCEPT_FINAL_REGRESSION_FAILURE'' =
         Inr \<lparr>nua_transition = ngp_identity (ngt_plan D), nua_actionId = ''ACCEPT_FINAL_REGRESSION_FAILURE''\<rparr>"
proof -
  let ?f = "regression_facts ''fail'' (Some ''existing_failure'') 0"
  let ?r = "sample_regression ''fail'' (Some ''existing_failure'') 0"
  have ok: "wf_NonGateTransitionFacts ?f" "ng_step_typed ?f"
    using regression_facts_ok [of "''fail''" 0 "Some ''existing_failure''"] by (simp_all add: literal_not_blank js_ws_def)
  have parts: "ntf_stepFacts ?f = Some (FinalRegression ?r)" "ntf_stepId ?f = ''final-regression''" "ntf_nonblocking ?f = False"
      "ng_intact ?f" "\<not> ncf_partial (ntf_completion ?f)"
    by (simp_all add: regression_facts_def sample_facts_intact) (simp_all add: sample_facts_def)
  let ?D = "strict_decision ?f (fr_selection ?r ?f)"
  have D: "resolveNonGateTransition ?f FINAL_REGRESSION_STEP_DEFINITION = Inr ?D"
    using registered_table [OF ok] parts by (simp add: ng_definition_def policy_cases ng_selected_def)
  have "map nua_actionId (ngp_userActions (ngt_plan ?D)) = [''ACCEPT_FINAL_REGRESSION_FAILURE'']"
    by (simp add: strict_decision_parts) (simp add: fr_selection_def sample_regression_def history_differs_def regression_facts_def
        sample_facts_def selecting_def ffp_tooling_def ffp_currentChange_def ffp_existing_def accept_user_def
        FINAL_REGRESSION_RECORD_AND_PROCEED_ACTION_ID_def)
  then show ?thesis
    using non_gate_user_action_sealed [OF ok, of ?D "''ACCEPT_FINAL_REGRESSION_FAILURE''"] D parts(2)
    by (simp add: ng_definition_def)
qed

subsection \<open>Advisory continuation\<close>

definition advisory_evidence :: "NonGateTransitionFacts \<Rightarrow> bool" where
  "advisory_evidence f = (case ntf_stepFacts f of
     Some (FinalRegression r) \<Rightarrow> fcs_current (frs_changedFileSnapshot r) \<and> \<not> history_differs r f
       \<and> (if frs_result r = ''fail'' then \<not> fpe_accepted (frs_recordAndProceed r) \<and> \<not> ffp_currentChange (frs_failure r)
            \<and> \<not> ffp_existing (frs_failure r)
            \<and> \<not> (ffp_tooling (frs_failure r)
                 \<and> ffp_kind (frs_failure r) \<in> {Some ''stale_changed_file_snapshot'', Some ''retry_history_mismatch''})
          else \<not> ncf_completed (ntf_completion f))
   | Some (TestResultReview t) \<Rightarrow> trr_toolingFailure t
       \<or> (if trr_verdict t = ''fail'' then nrm_used (ntf_retry f) \<ge> nrm_maximum (ntf_retry f)
          else \<not> ncf_completed (ntf_completion f))
   | _ \<Rightarrow> False)"

lemma fr_strict:
  assumes "wf_FinalRegressionStepFacts r" "ng_open f"
  shows "fst (ng_strict f (fr_selection r f)) =
    (if \<not> fcs_current (frs_changedFileSnapshot r) then NgBlocked ''stale_changed_file_snapshot''
     else if history_differs r f then NgBlocked ''retry_history_mismatch''
     else if frs_result r \<noteq> ''fail''
     then if ncf_completed (ntf_completion f) then NgAdvance else NgBlocked ''completion_unconfirmed''
     else if fpe_accepted (frs_recordAndProceed r) then NgRecordAndProceed
     else if ffp_tooling (frs_failure r) then NgExternalBlocked (reason_or (ffp_kind (frs_failure r)) ''tooling_failure'')
     else if ffp_currentChange (frs_failure r)
     then if frh_exhausted (frs_retryHistory r) then NgAwaitUserInput (Some ''retry_exhausted'') else NgRepair
     else if ffp_existing (frs_failure r) then NgAwaitUserInput None
     else NgBlocked (if frh_exhausted (frs_retryHistory r) then ''retry_exhausted'' else ''unclassified_failure''))"
proof -
  have res: "frs_result r = ''pass'' \<or> frs_result r = ''skipped'' \<longleftrightarrow> frs_result r \<noteq> ''fail''"
    using assms(1) by (auto simp: wf_FinalRegressionStepFacts_def FINAL_REGRESSION_RESULTS_def)
  have refusal: "ncf_refusalReason (ntf_completion f) =
      (if ncf_completed (ntf_completion f) then None else Some ''completion_unconfirmed'')"
    using assms(2) by (simp add: ng_open_def ncf_refusalReason_def)
  have kind: "reason_or (ffp_kind (frs_failure r)) ''tooling_failure'' \<noteq> []" by (simp add: reason_or_def split: option.split)
  show ?thesis
    unfolding fr_selection_def res by (simp add: ng_strict_def Let_def selecting_def refusal kind reason_or_def [of "Some _"])
qed

lemma tc_strict:
  assumes "ng_open f"
  shows "fst (ng_strict f (tc_selection failed tooling)) =
    (if tooling then NgExternalBlocked ''tooling_failure''
     else if failed then if nrm_exhausted (ntf_retry f) then NgBlocked ''retry_exhausted'' else NgRetry
     else if ncf_completed (ntf_completion f) then NgAdvance else NgBlocked ''completion_unconfirmed'')"
  using assms by (simp add: ng_strict_def Let_def tc_selection_def selecting_def reason_or_def ng_open_def ncf_refusalReason_def)

lemma reason_kind:
  "reason_or (ffp_kind p) ''tooling_failure'' = ''stale_changed_file_snapshot'' \<longleftrightarrow> ffp_kind p = Some ''stale_changed_file_snapshot''"
  "reason_or (ffp_kind p) ''tooling_failure'' = ''retry_history_mismatch'' \<longleftrightarrow> ffp_kind p = Some ''retry_history_mismatch''"
  by (auto simp: reason_or_def split: option.splits)

lemma advisory_iff_evidence:
  assumes "wf_NonGateTransitionFacts f" "ng_step_typed f" "ng_open f"
  shows "ng_eligible f (fst (ng_strict f (ng_selected f))) \<longleftrightarrow> advisory_evidence f"
  using assms(1,2)
proof (cases rule: typed_cases)
  case (regression r)
  have tool: "ffp_tooling (frs_failure r) \<Longrightarrow> \<not> ffp_currentChange (frs_failure r) \<and> \<not> ffp_existing (frs_failure r)"
    by (auto simp: ffp_tooling_def ffp_currentChange_def ffp_existing_def)
  show ?thesis
    using assms(3) tool regression
    by (simp add: ng_eligible_def ng_open_def ng_advisory_step_def fr_strict advisory_evidence_def reason_kind)
next
  case (execute e)
  then show ?thesis by (simp add: ng_eligible_def ng_advisory_step_def advisory_evidence_def)
next
  case (review t)
  then show ?thesis using assms(3)
    by (simp add: ng_eligible_def ng_open_def ng_advisory_step_def tc_strict advisory_evidence_def nrm_exhausted_def)
qed

text \<open>In nonblocking mode an advisory observation is recorded exactly for the strict stops that
  have an acceptance route: for the final regression an unaccepted failure that is neither existing nor
  caused by the current change, or missing completion; for the test result review a tooling failure, a
  rejection with no retry left, or missing completion.  The step then stays in progress and awaits the
  user, no retry is counted, no user action is offered and the Attempt is not failed.\<close>

theorem non_gate_advisory_exact:
  assumes "wf_NonGateTransitionFacts f" "ng_step_typed f"
    and "resolveNonGateTransition f (ng_definition (ntf_stepId f)) = Inr D"
  shows "(RecordNonblockingAction s \<in> set (ngp_actions (ngt_plan D)) \<longleftrightarrow>
      s = ntf_stepId f \<and> ng_open f \<and> ntf_nonblocking f \<and> advisory_evidence f)
    \<and> (RecordNonblockingAction s \<in> set (ngp_actions (ngt_plan D)) \<longrightarrow>
      ngd_operation (ngt_disposition D) = ''await-user-input'' \<and>
      ngp_actions (ngt_plan D) = [RecordNonblockingAction s, set_status f ''in_progress''] \<and> ngp_userActions (ngt_plan D) = [])"
proof (rule resolved_cases [OF assms])
  fix r
  assume "\<not> ng_open f" "D = ng_decided f (NgBlocked r) [] []"
  then show ?thesis by simp
next
  assume "ng_advisory f" "D = advisory_decision f (ngd_reason (fst (ng_strict f (ng_selected f))))"
  then show ?thesis using advisory_iff_evidence [OF assms(1,2)]
    by (auto simp: ng_advisory_def advisory_decision_def set_status_def ng_decided_def)
next
  assume "ng_open f" "\<not> ng_advisory f" "D = strict_decision f (ng_selected f)"
  then show ?thesis using advisory_iff_evidence [OF assms(1,2)]
    by (auto simp: ng_advisory_def strict_members selected_fails_only set_status_def)
qed

theorem non_gate_advisory_exact_witness:
  "\<exists>D. resolveNonGateTransition (review_facts ''fail'' 2 \<lparr>ntf_nonblocking := True\<rparr>) testResultReviewTransitionDefinition = Inr D
     \<and> RecordNonblockingAction ''test-result-review'' \<in> set (ngp_actions (ngt_plan D)) \<and> ngp_userActions (ngt_plan D) = []"
proof -
  let ?f = "review_facts ''fail'' 2 \<lparr>ntf_nonblocking := True\<rparr>"
  have "wf_NonGateTransitionFacts ?f"
    using review_facts_ok [of "''fail''" 2] by (simp add: wf_NonGateTransitionFacts_def)
  moreover have "ng_step_typed ?f" by (simp add: ng_step_typed_def review_facts_def sample_facts_def)
  ultimately have ok: "wf_NonGateTransitionFacts ?f" "ng_step_typed ?f" by blast+
  have parts: "ntf_stepId ?f = ''test-result-review''" "ng_open ?f" "advisory_evidence ?f"
    by (simp_all add: review_facts_def sample_facts_def ng_open_def ng_intact_def sample_publication_def nln_isCurrent_def
        nre_isBoundTo_def advisory_evidence_def ng_sample_review_def)
  obtain D where D: "resolveNonGateTransition ?f testResultReviewTransitionDefinition = Inr D"
    using registered_table [OF ok] parts(1) by (simp add: ng_definition_def)
  with non_gate_advisory_exact [OF ok, of D "''test-result-review''"] parts show ?thesis by (simp add: ng_definition_def)
qed

subsection \<open>Facts\<close>

text \<open>The integrity check accepts exactly the facts all of whose parts belong to one run, spec,
  step and Attempt, whose lineage carries the fingerprints of the publications and is current; all
  other facts are blocked with the reason of the check and without any effect, whatever the step's own
  evidence says.\<close>

theorem non_gate_integrity_exact:
  assumes "wf_NonGateTransitionFacts f"
  shows "(ntf_integrityFailure f = None \<longleftrightarrow> ng_intact f)
    \<and> (\<not> ng_intact f \<longrightarrow> (\<exists>reason. ntf_integrityFailure f = Some reason
        \<and> resolveNonGateTransition f d = Inr (ng_decided f (NgBlocked reason) [] [])))"
proof (cases "ntf_integrityFailure f")
  case None
  then show ?thesis by (simp add: ng_integrity_ok [symmetric])
next
  case (Some reason)
  then have "resolveNonGateTransition f d = Inr (ng_decided f (NgBlocked reason) [] [])"
    using blocked_ok [OF assms integrity_reason_not_blank [OF assms Some]]
    by (simp add: resolveNonGateTransition_def resolveSelectedNonGateTransition_def)
  with Some show ?thesis by (simp add: ng_integrity_ok [symmetric])
qed

theorem non_gate_integrity_exact_witness:
  "\<exists>reason. resolveNonGateTransition (review_facts ''pass'' 0 \<lparr>ntf_runId := ''other''\<rparr>) testResultReviewTransitionDefinition =
     Inr (ng_decided (review_facts ''pass'' 0 \<lparr>ntf_runId := ''other''\<rparr>) (NgBlocked reason) [] [])"
proof -
  let ?f = "review_facts ''pass'' 0 \<lparr>ntf_runId := ''other''\<rparr>"
  have "wf_NonGateTransitionFacts ?f"
    using review_facts_ok [of "''pass''" 0]
    by (simp add: wf_NonGateTransitionFacts_def is_text_def js_trim_def js_ws_def)
  moreover have "\<not> ng_intact ?f" by (simp add: ng_intact_def review_facts_def sample_facts_def)
  ultimately show ?thesis using non_gate_integrity_exact [of ?f testResultReviewTransitionDefinition] by blast
qed

text \<open>What the constructor of the facts accepts is well formed, and well-formed facts with
  decodable step facts are restored unchanged from their own JSON.\<close>

theorem non_gate_facts_roundtrip:
  assumes "new_NonGateTransitionFacts v s = Inr f" "pred_option wf_NonGateStepFacts s"
    and "\<And>x. s = Some x \<Longrightarrow> nsf_kind x \<noteq> ''test-chain-invalid-observation''"
  shows "wf_NonGateTransitionFacts f
    \<and> non_gate_fromPersisted decode_step_facts (NonGateTransitionFacts_toJSON f) = Inr f"
proof -
  have wf: "wf_NonGateTransitionFacts f" using assms(1,2) by (rule new_NonGateTransitionFacts_wf)
  have "ntf_stepFacts f = s" using assms(1) by (auto simp: new_NonGateTransitionFacts_def)
  then have "pred_option (\<lambda>x. decode_step_facts (NonGateStepFacts_toJSON x) = Inr x) (ntf_stepFacts f)"
    using assms(2,3) by (cases s) (auto simp: decode_step_facts_json)
  with wf show ?thesis by (simp add: non_gate_fromPersisted_json)
qed

theorem non_gate_facts_roundtrip_witness:
  "non_gate_fromPersisted decode_step_facts (NonGateTransitionFacts_toJSON (review_facts ''pass'' 0)) = Inr (review_facts ''pass'' 0)"
proof -
  let ?f = "review_facts ''pass'' 0"
  have ok: "wf_NonGateTransitionFacts ?f" using review_facts_ok [of "''pass''" 0] by simp
  have s: "ntf_stepFacts ?f = Some (TestResultReview (ng_sample_review ''pass''))"
    by (simp add: review_facts_def sample_facts_def)
  have "pred_option wf_NonGateStepFacts (ntf_stepFacts ?f)" using ok by (simp add: wf_NonGateTransitionFacts_def)
  then show ?thesis
    using non_gate_facts_roundtrip [OF new_NonGateTransitionFacts_json [OF ok]] s by simp
qed

end
