(* ===== verification/Requirement_Test_Values.thy ===== *)
theory Requirement_Test_Values
  imports Gate_Facts Canonical_Json
begin

section \<open>Requirement test values\<close>

text \<open>
  The immutable values of the preimplementation test lifecycle
  (\<open>src/flow/lib/requirement-test-lifecycle.js\<close>) and the Spec revision identity
  (\<open>src/flow/lib/spec-revision-identity.js\<close>): budgets, counted semantic findings, source Attempts, bundle
  lineage and revision, work items and the ordered plan, each with its validating constructor, its
  strict JSON form (\<open>exactKeys\<close>) and the codec law.  Copies made by the code from typed parts
  (\<open>withState\<close>, \<open>withWorkItem\<close>) run the same final checks (\<open>checked_work_item\<close>, \<open>checked_plan\<close>) as the
  constructors.
\<close>

subsection \<open>Validators\<close>

definition exactKeys :: "string list \<Rightarrow> string \<Rightarrow> jsval \<Rightarrow> jsfields res" where
  "exactKeys keys field v = (case v of
     JObj ob \<Rightarrow> if sort (own_keys v) = sort keys then Inr ob else Inl (Error (field @ '' has an invalid schema''))
   | _ \<Rightarrow> Inl (Error (field @ '' must be an object'')))"

lemma exactKeys_eq_Inr: "exactKeys keys field v = Inr ob \<longleftrightarrow> v = JObj ob \<and> sort (own_keys v) = sort keys"
  by (auto simp: exactKeys_def split: jsval.splits)

lemma exactKeys_own [simp]:
  "distinct (map fst ob) \<Longrightarrow> map fst ob = keys \<Longrightarrow> exactKeys keys field (JObj ob) = Inr ob"
  by (simp add: exactKeys_def own_keys_def distinct_remdups_id)

text \<open>A repository-relative path in canonical form: trimmed, relative, without backslashes and without
  empty, \<open>.\<close> or \<open>..\<close> segments.  Such a path is its own \<open>path.posix.normalize\<close>, so the last conjunct of the
  source adds nothing.\<close>

fun split_on :: "char \<Rightarrow> string \<Rightarrow> string list" where
  "split_on c [] = [[]]"
| "split_on c (x # xs) = (if x = c then [] # split_on c xs
     else (case split_on c xs of [] \<Rightarrow> [[x]] | s # ss \<Rightarrow> (x # s) # ss))"

definition canonical_path :: "string \<Rightarrow> bool" where
  "canonical_path s \<longleftrightarrow> CHR 0x5C \<notin> set s
     \<and> list_all (\<lambda>seg. seg \<noteq> [] \<and> seg \<noteq> ''.'' \<and> seg \<noteq> ''..'') (split_on (CHR ''/'') s)"

definition canonicalRelativePath :: "string \<Rightarrow> jsval \<Rightarrow> string res" where
  "canonicalRelativePath field v = bindE (gt_text field v) (\<lambda>s.
     if JStr s \<noteq> v \<or> \<not> canonical_path s
     then Inl (Error (field @ '' must be a canonical repository-relative path'')) else Inr s)"

lemma canonicalRelativePath_eq_Inr:
  "canonicalRelativePath field v = Inr s \<longleftrightarrow> v = JStr s \<and> is_text s \<and> canonical_path s"
  by (auto simp: canonicalRelativePath_def is_text_def)

definition sha_text :: "jserr \<Rightarrow> jsval \<Rightarrow> string res" where
  "sha_text e v = (case v of JStr s \<Rightarrow> if is_sha256 s then Inr s else Inl e | _ \<Rightarrow> Inl e)"

lemma sha_text_eq_Inr [simp]: "sha_text e v = Inr s \<longleftrightarrow> v = JStr s \<and> is_sha256 s"
  by (auto simp: sha_text_def split: jsval.splits)

definition array_of :: "jserr \<Rightarrow> (jsval \<Rightarrow> 'a res) \<Rightarrow> jsval \<Rightarrow> 'a list res" where
  "array_of e f v = (case v of JArr vs \<Rightarrow> mapE f vs | _ \<Rightarrow> Inl e)"

lemma array_of_wf: "array_of e f v = Inr xs \<Longrightarrow> (\<And>v x. f v = Inr x \<Longrightarrow> P x) \<Longrightarrow> list_all P xs"
  by (auto simp: array_of_def mapE_eq_Inr list_all2_conv_all_nth list_all_length split: jsval.splits)

lemma array_of_js: "list_all P xs \<Longrightarrow> (\<And>x. P x \<Longrightarrow> f (g x) = Inr x) \<Longrightarrow> array_of e f (JArr (map g xs)) = Inr xs"
  using mapE_Inr_map [of "map g xs" f "\<lambda>v. SOME x. g x = v \<and> P x"]
  by (simp add: array_of_def mapE_eq_Inr list_all2_conv_all_nth list_all_length)

subsection \<open>Spec revisions\<close>

record SpecRevisionIdentity =
  sri_specId :: string
  sri_revision :: nat
  sri_digest :: string
  sri_byteLength :: nat

definition new_SpecRevisionIdentity :: "jsval \<Rightarrow> SpecRevisionIdentity res" where
  "new_SpecRevisionIdentity v =
     bindE (exactKeys [''specId'', ''revision'', ''digest'', ''byteLength''] ''spec revision identity'' v) (\<lambda>ob.
     bindE (text_or (Error ''spec revision identity.specId requires non-empty text'') (fld ob ''specId'')) (\<lambda>i.
     bindE (int_from 1 (Error ''spec revision must be a positive safe integer'') (fld ob ''revision'')) (\<lambda>r.
     bindE (sha_text (Error ''spec revision identity requires a SHA-256 digest'') (fld ob ''digest'')) (\<lambda>d.
     bindE (int_from 0 (Error ''spec revision identity requires byteLength'') (fld ob ''byteLength'')) (\<lambda>b.
     Inr \<lparr>sri_specId = i, sri_revision = r, sri_digest = d, sri_byteLength = b\<rparr>)))))"

definition sri_equals :: "SpecRevisionIdentity \<Rightarrow> SpecRevisionIdentity \<Rightarrow> bool" where
  "sri_equals a b \<longleftrightarrow> sri_specId a = sri_specId b \<and> sri_revision a = sri_revision b \<and> sri_digest a = sri_digest b
     \<and> sri_byteLength a = sri_byteLength b"

definition SpecRevisionIdentity_toJSON :: "SpecRevisionIdentity \<Rightarrow> jsval" where
  "SpecRevisionIdentity_toJSON r = JObj
     [(''specId'', JStr (sri_specId r)), (''revision'', JInt (int (sri_revision r))), (''digest'', JStr (sri_digest r)),
      (''byteLength'', JInt (int (sri_byteLength r)))]"

definition wf_SpecRevisionIdentity :: "SpecRevisionIdentity \<Rightarrow> bool" where
  "wf_SpecRevisionIdentity r \<longleftrightarrow> is_text (sri_specId r) \<and> is_safe (sri_revision r) \<and> 1 \<le> sri_revision r \<and>
     is_sha256 (sri_digest r) \<and> is_safe (sri_byteLength r)"

lemma sri_equals_eq [simp]: "sri_equals a b \<longleftrightarrow> a = (b :: SpecRevisionIdentity)"
  by (auto simp: sri_equals_def)

interpretation spec_revision: json_codec new_SpecRevisionIdentity wf_SpecRevisionIdentity SpecRevisionIdentity_toJSON
proof (unfold_locales, goal_cases)
  case (1 v x)
  then show ?case
    by (auto simp: new_SpecRevisionIdentity_def wf_SpecRevisionIdentity_def is_safe_def)
next
  case (2 x)
  then show ?case
    by (simp add: new_SpecRevisionIdentity_def wf_SpecRevisionIdentity_def SpecRevisionIdentity_toJSON_def is_safe_def)
qed (simp add: SpecRevisionIdentity_toJSON_def)

subsection \<open>Budgets and findings\<close>

record RequirementTestBudget =
  rtb_autoSemantic :: nat
  rtb_manualSemantic :: nat
  rtb_tooling :: nat

definition budget_counter :: "string \<Rightarrow> jsval \<Rightarrow> nat res" where
  "budget_counter kind = int_from 0 (Error (''Requirement test '' @ kind @ '' counter must be a non-negative integer''))"

definition new_RequirementTestBudget :: "jsval \<Rightarrow> RequirementTestBudget res" where
  "new_RequirementTestBudget arg = bindE (destructure arg) (\<lambda>ob.
     bindE (budget_counter ''autoSemantic'' (fld_or ob ''autoSemantic'' (JInt 0))) (\<lambda>a.
     bindE (budget_counter ''manualSemantic'' (fld_or ob ''manualSemantic'' (JInt 0))) (\<lambda>m.
     bindE (budget_counter ''tooling'' (fld_or ob ''tooling'' (JInt 0))) (\<lambda>t.
     Inr \<lparr>rtb_autoSemantic = a, rtb_manualSemantic = m, rtb_tooling = t\<rparr>))))"

definition initial_budget :: RequirementTestBudget where
  "initial_budget = \<lparr>rtb_autoSemantic = 0, rtb_manualSemantic = 0, rtb_tooling = 0\<rparr>"

definition RequirementTestBudget_toJSON :: "RequirementTestBudget \<Rightarrow> jsval" where
  "RequirementTestBudget_toJSON b = JObj
     [(''autoSemantic'', JInt (int (rtb_autoSemantic b))), (''manualSemantic'', JInt (int (rtb_manualSemantic b))),
      (''tooling'', JInt (int (rtb_tooling b)))]"

definition budget_fromJSON :: "jsval \<Rightarrow> RequirementTestBudget res" where
  "budget_fromJSON v = bindE (exactKeys [''autoSemantic'', ''manualSemantic'', ''tooling''] ''Requirement test budget'' v)
     (\<lambda>_. new_RequirementTestBudget v)"

definition BUDGET_KINDS :: "string list" where
  "BUDGET_KINDS = [''autoSemantic'', ''manualSemantic'', ''tooling'']"

definition rtb_increment :: "RequirementTestBudget \<Rightarrow> string \<Rightarrow> RequirementTestBudget res" where
  "rtb_increment b kind =
     (if kind \<notin> set BUDGET_KINDS then Inl (Error ''Requirement test budget kind is invalid'') else
      new_RequirementTestBudget (JObj
        [(''autoSemantic'', JInt (int (rtb_autoSemantic b) + (if kind = ''autoSemantic'' then 1 else 0))),
         (''manualSemantic'', JInt (int (rtb_manualSemantic b) + (if kind = ''manualSemantic'' then 1 else 0))),
         (''tooling'', JInt (int (rtb_tooling b) + (if kind = ''tooling'' then 1 else 0)))]))"

definition wf_RequirementTestBudget :: "RequirementTestBudget \<Rightarrow> bool" where
  "wf_RequirementTestBudget b \<longleftrightarrow> is_safe (rtb_autoSemantic b) \<and> is_safe (rtb_manualSemantic b) \<and> is_safe (rtb_tooling b)"

interpretation budget: json_codec budget_fromJSON wf_RequirementTestBudget RequirementTestBudget_toJSON
proof (unfold_locales, goal_cases)
  case (1 v x)
  then show ?case
    by (auto simp: budget_fromJSON_def new_RequirementTestBudget_def wf_RequirementTestBudget_def budget_counter_def
        is_safe_def exactKeys_eq_Inr)
next
  case (2 x)
  then show ?case
    by (simp add: budget_fromJSON_def new_RequirementTestBudget_def wf_RequirementTestBudget_def budget_counter_def
        RequirementTestBudget_toJSON_def is_safe_def)
qed (simp add: RequirementTestBudget_toJSON_def)

record RequirementTestSemanticFinding =
  rsf_requirementId :: string
  rsf_bundleRevision :: nat
  rsf_fingerprint :: string

definition new_RequirementTestSemanticFinding :: "jsval \<Rightarrow> RequirementTestSemanticFinding res" where
  "new_RequirementTestSemanticFinding arg = bindE (destructure arg) (\<lambda>ob.
     bindE (gt_text ''Requirement test semantic finding requirementId'' (fld ob ''requirementId'')) (\<lambda>r.
     bindE (positiveInteger ''Requirement test semantic finding bundleRevision'' (fld ob ''bundleRevision'')) (\<lambda>b.
     bindE (sha_text (Error ''Requirement test semantic finding fingerprint must be a SHA-256 digest'')
              (fld ob ''fingerprint'')) (\<lambda>f.
     Inr \<lparr>rsf_requirementId = r, rsf_bundleRevision = b, rsf_fingerprint = f\<rparr>))))"

definition rsf_equals :: "RequirementTestSemanticFinding \<Rightarrow> RequirementTestSemanticFinding \<Rightarrow> bool" where
  "rsf_equals a b \<longleftrightarrow> rsf_requirementId b = rsf_requirementId a \<and> rsf_bundleRevision b = rsf_bundleRevision a
     \<and> rsf_fingerprint b = rsf_fingerprint a"

definition RequirementTestSemanticFinding_toJSON :: "RequirementTestSemanticFinding \<Rightarrow> jsval" where
  "RequirementTestSemanticFinding_toJSON f = JObj
     [(''requirementId'', JStr (rsf_requirementId f)), (''bundleRevision'', JInt (int (rsf_bundleRevision f))),
      (''fingerprint'', JStr (rsf_fingerprint f))]"

definition finding_fromJSON :: "jsval \<Rightarrow> RequirementTestSemanticFinding res" where
  "finding_fromJSON v =
     bindE (exactKeys [''requirementId'', ''bundleRevision'', ''fingerprint''] ''Requirement test semantic finding'' v)
     (\<lambda>_. new_RequirementTestSemanticFinding v)"

definition wf_RequirementTestSemanticFinding :: "RequirementTestSemanticFinding \<Rightarrow> bool" where
  "wf_RequirementTestSemanticFinding f \<longleftrightarrow> is_text (rsf_requirementId f) \<and> is_safe (rsf_bundleRevision f) \<and>
     1 \<le> rsf_bundleRevision f \<and> is_sha256 (rsf_fingerprint f)"

lemma rsf_equals_eq [simp]: "rsf_equals a b \<longleftrightarrow> a = (b :: RequirementTestSemanticFinding)"
  by (auto simp: rsf_equals_def)

interpretation semantic_finding: json_codec finding_fromJSON wf_RequirementTestSemanticFinding
  RequirementTestSemanticFinding_toJSON
proof (unfold_locales, goal_cases)
  case (1 v x)
  then show ?case
    by (auto simp: finding_fromJSON_def new_RequirementTestSemanticFinding_def wf_RequirementTestSemanticFinding_def
        dest!: positiveInteger_wf)
next
  case (2 x)
  then show ?case
    by (simp add: finding_fromJSON_def new_RequirementTestSemanticFinding_def wf_RequirementTestSemanticFinding_def
        RequirementTestSemanticFinding_toJSON_def)
qed (simp add: RequirementTestSemanticFinding_toJSON_def)

lemma finding_json_plain: "json_plain (RequirementTestSemanticFinding_toJSON f)"
  by (simp add: RequirementTestSemanticFinding_toJSON_def)

lemma finding_json_inj:
  "JSON_stringify (RequirementTestSemanticFinding_toJSON a) = JSON_stringify (RequirementTestSemanticFinding_toJSON b) \<longleftrightarrow> a = b"
  using JSON_stringify_inj [OF finding_json_plain finding_json_plain, of a b]
  by (auto simp: RequirementTestSemanticFinding_toJSON_def)

subsection \<open>Attempts, publications and the Store authority\<close>

record RequirementTestSourceAttempt =
  rsa_id :: string
  rsa_sequence :: nat

definition new_RequirementTestSourceAttempt :: "jsval \<Rightarrow> RequirementTestSourceAttempt res" where
  "new_RequirementTestSourceAttempt arg = bindE (destructure arg) (\<lambda>ob.
     bindE (gt_text ''Requirement test source Attempt id'' (fld ob ''id'')) (\<lambda>i.
     bindE (positiveInteger ''Requirement test source Attempt sequence'' (fld ob ''sequence'')) (\<lambda>s.
     Inr \<lparr>rsa_id = i, rsa_sequence = s\<rparr>)))"

definition RequirementTestSourceAttempt_toJSON :: "RequirementTestSourceAttempt \<Rightarrow> jsval" where
  "RequirementTestSourceAttempt_toJSON a = JObj [(''id'', JStr (rsa_id a)), (''sequence'', JInt (int (rsa_sequence a)))]"

definition sourceAttempt_fromJSON :: "jsval \<Rightarrow> RequirementTestSourceAttempt res" where
  "sourceAttempt_fromJSON v = bindE (exactKeys [''id'', ''sequence''] ''Requirement test source Attempt'' v)
     (\<lambda>_. new_RequirementTestSourceAttempt v)"

definition wf_RequirementTestSourceAttempt :: "RequirementTestSourceAttempt \<Rightarrow> bool" where
  "wf_RequirementTestSourceAttempt a \<longleftrightarrow> is_text (rsa_id a) \<and> is_safe (rsa_sequence a) \<and> 1 \<le> rsa_sequence a"

interpretation source_attempt: json_codec sourceAttempt_fromJSON wf_RequirementTestSourceAttempt
  RequirementTestSourceAttempt_toJSON
proof (unfold_locales, goal_cases)
  case (1 v x)
  then show ?case
    by (auto simp: sourceAttempt_fromJSON_def new_RequirementTestSourceAttempt_def wf_RequirementTestSourceAttempt_def
        dest!: positiveInteger_wf)
next
  case (2 x)
  then show ?case
    by (simp add: sourceAttempt_fromJSON_def new_RequirementTestSourceAttempt_def wf_RequirementTestSourceAttempt_def
        RequirementTestSourceAttempt_toJSON_def)
qed (simp add: RequirementTestSourceAttempt_toJSON_def)

record RequirementTestPlanPublication =
  rpp_logicalKey :: string
  rpp_relativePath :: string
  rpp_hash :: string
  rpp_size :: nat
  rpp_activityId :: string

definition new_RequirementTestPlanPublication :: "jsval \<Rightarrow> RequirementTestPlanPublication res" where
  "new_RequirementTestPlanPublication arg = bindE (destructure arg) (\<lambda>ob.
     if fld ob ''logicalKey'' \<noteq> JStr ''test.requirement.plan'' \<or> fld ob ''relativePath'' \<noteq> JStr ''steps/test-generate/plan.json''
     then Inl (Error ''Requirement test plan publication must identify the canonical plan artifact'') else
     bindE (sha_text (Error ''Requirement test plan publication hash is invalid'') (fld ob ''hash'')) (\<lambda>h.
     bindE (int_from 0 (Error ''Requirement test plan publication size is invalid'') (fld ob ''size'')) (\<lambda>n.
     bindE (gt_text ''Requirement test plan publication activityId'' (fld ob ''activityId'')) (\<lambda>a.
     Inr \<lparr>rpp_logicalKey = ''test.requirement.plan'', rpp_relativePath = ''steps/test-generate/plan.json'', rpp_hash = h,
       rpp_size = n, rpp_activityId = a\<rparr>))))"

definition rpp_matches :: "RequirementTestPlanPublication \<Rightarrow> jsval \<Rightarrow> bool" where
  "rpp_matches p d \<longleftrightarrow> propq d ''logicalKey'' = JStr (rpp_logicalKey p) \<and> propq d ''relativePath'' = JStr (rpp_relativePath p)
     \<and> propq d ''hash'' = JStr (rpp_hash p) \<and> propq d ''size'' = JInt (int (rpp_size p))
     \<and> propq d ''activityId'' = JStr (rpp_activityId p)"

definition RequirementTestPlanPublication_toJSON :: "RequirementTestPlanPublication \<Rightarrow> jsval" where
  "RequirementTestPlanPublication_toJSON p = JObj
     [(''logicalKey'', JStr (rpp_logicalKey p)), (''relativePath'', JStr (rpp_relativePath p)), (''hash'', JStr (rpp_hash p)),
      (''size'', JInt (int (rpp_size p))), (''activityId'', JStr (rpp_activityId p))]"

definition wf_RequirementTestPlanPublication :: "RequirementTestPlanPublication \<Rightarrow> bool" where
  "wf_RequirementTestPlanPublication p \<longleftrightarrow> rpp_logicalKey p = ''test.requirement.plan'' \<and>
     rpp_relativePath p = ''steps/test-generate/plan.json'' \<and> is_sha256 (rpp_hash p) \<and> is_safe (rpp_size p) \<and>
     is_text (rpp_activityId p)"

interpretation plan_publication: json_codec new_RequirementTestPlanPublication wf_RequirementTestPlanPublication
  RequirementTestPlanPublication_toJSON
proof (unfold_locales, goal_cases)
  case (1 v x)
  then show ?case
    by (auto simp: new_RequirementTestPlanPublication_def wf_RequirementTestPlanPublication_def is_safe_def
        split: if_splits)
next
  case (2 x)
  then show ?case
    by (simp add: new_RequirementTestPlanPublication_def wf_RequirementTestPlanPublication_def
        RequirementTestPlanPublication_toJSON_def is_safe_def)
qed (simp add: RequirementTestPlanPublication_toJSON_def)

lemma publication_matches_own: "rpp_matches p (RequirementTestPlanPublication_toJSON q) \<longleftrightarrow> p = q"
  by (auto simp: rpp_matches_def RequirementTestPlanPublication_toJSON_def)

record RequirementTestLifecycleAuthority =
  rla_runId :: string
  rla_specId :: string
  rla_leaf :: string
  rla_attempt :: RequirementTestSourceAttempt
  rla_planPublication :: RequirementTestPlanPublication
  rla_autoApprove :: bool

definition LIFECYCLE_LEAVES :: "string list" where
  "LIFECYCLE_LEAVES = [''test-generate'', ''test-review'', ''test-repair'', ''test-gate'']"

definition new_RequirementTestLifecycleAuthority :: "jsval \<Rightarrow> RequirementTestLifecycleAuthority res" where
  "new_RequirementTestLifecycleAuthority arg = bindE (destructure arg) (\<lambda>ob.
     bindE (gt_text ''Requirement test lifecycle runId'' (fld ob ''runId'')) (\<lambda>r.
     bindE (gt_text ''Requirement test lifecycle specId'' (fld ob ''specId'')) (\<lambda>s.
     bindE (lit_of LIFECYCLE_LEAVES (Error ''Requirement test lifecycle authority leaf is invalid'') (fld ob ''leaf'')) (\<lambda>l.
     bindE (sourceAttempt_fromJSON (fld ob ''attempt'')) (\<lambda>a.
     bindE (new_RequirementTestPlanPublication (fld ob ''planPublication'')) (\<lambda>p.
     bindE (bool_or (Error ''Requirement test lifecycle autoApprove policy must be boolean'')
              (fld_or ob ''autoApprove'' (JBool False))) (\<lambda>b.
     Inr \<lparr>rla_runId = r, rla_specId = s, rla_leaf = l, rla_attempt = a, rla_planPublication = p, rla_autoApprove = b\<rparr>)))))))"

text \<open>\<open>state?.current?.at?.(-1)\<close>: the last element of an array (or the last code unit of a string).\<close>

fun at_last :: "jsval \<Rightarrow> jsval" where
  "at_last (JArr vs) = (if vs = [] then JUndef else last vs)"
| "at_last (JStr s) = (if s = [] then JUndef else JStr [last s])"
| "at_last _ = JUndef"

definition coalesce :: "jsval \<Rightarrow> jsval \<Rightarrow> jsval" where
  "coalesce a b = (if a = JUndef \<or> a = JNull then b else a)"

definition authority_capture :: "jsval \<Rightarrow> jsval \<Rightarrow> RequirementTestLifecycleAuthority res" where
  "authority_capture state planDescriptor =
     (let leaf = coalesce (at_last (propq state ''current'')) (coalesce (propq state ''currentNodeId'') JNull);
          att = propq state ''attempt'' in
      new_RequirementTestLifecycleAuthority (JObj
        [(''runId'', propq state ''runId''), (''specId'', propq state ''specId''), (''leaf'', leaf),
         (''attempt'', if att = JUndef \<or> att = JNull then JNull
            else JObj [(''id'', propq att ''id''), (''sequence'', propq att ''sequence'')]),
         (''planPublication'', planDescriptor),
         (''autoApprove'', JBool (propq (propq state ''policy'') ''autoApprove'' = JBool True))]))"

definition RequirementTestLifecycleAuthority_toJSON :: "RequirementTestLifecycleAuthority \<Rightarrow> jsval" where
  "RequirementTestLifecycleAuthority_toJSON a = JObj
     [(''runId'', JStr (rla_runId a)), (''specId'', JStr (rla_specId a)), (''leaf'', JStr (rla_leaf a)),
      (''attempt'', RequirementTestSourceAttempt_toJSON (rla_attempt a)),
      (''planPublication'', RequirementTestPlanPublication_toJSON (rla_planPublication a)),
      (''autoApprove'', JBool (rla_autoApprove a))]"

definition wf_RequirementTestLifecycleAuthority :: "RequirementTestLifecycleAuthority \<Rightarrow> bool" where
  "wf_RequirementTestLifecycleAuthority a \<longleftrightarrow> is_text (rla_runId a) \<and> is_text (rla_specId a) \<and>
     rla_leaf a \<in> set LIFECYCLE_LEAVES \<and> wf_RequirementTestSourceAttempt (rla_attempt a) \<and>
     wf_RequirementTestPlanPublication (rla_planPublication a)"

interpretation authority: json_codec new_RequirementTestLifecycleAuthority wf_RequirementTestLifecycleAuthority
  RequirementTestLifecycleAuthority_toJSON
proof (unfold_locales, goal_cases)
  case (1 v x)
  then show ?case
    by (auto simp: new_RequirementTestLifecycleAuthority_def wf_RequirementTestLifecycleAuthority_def
        dest: source_attempt.mk_wf plan_publication.mk_wf)
next
  case (2 x)
  then show ?case
    by (simp add: new_RequirementTestLifecycleAuthority_def wf_RequirementTestLifecycleAuthority_def
        RequirementTestLifecycleAuthority_toJSON_def source_attempt.mk_js plan_publication.mk_js)
qed (simp add: RequirementTestLifecycleAuthority_toJSON_def)

end
