(* ===== verification/Requirement_Test_Plan.thy ===== *)
theory Requirement_Test_Plan
  imports Requirement_Test_Values
begin

section \<open>Requirement test bundles, work items and the plan\<close>

text \<open>
  The composite values of \<open>src/flow/lib/requirement-test-lifecycle.js\<close>: the lineage and revision of a
  candidate bundle, the work item of one Requirement and the ordered plan with its frontier
  (\<open>activeWorkItem\<close>, \<open>nextPendingWorkItem\<close>, \<open>settled\<close>), and the settled evidence that downstream test
  execution requires.  A copy the code makes from typed parts (\<open>withState\<close>, \<open>withWorkItem\<close>) runs the same
  final checks as the constructor (\<open>checked_work_item\<close>, \<open>checked_plan\<close>); the codec laws show that the
  other checks of a constructor pass on typed parts.
\<close>

subsection \<open>Bundle lineage\<close>

record RequirementTestBundleLineage =
  rbl_requirementId :: string
  rbl_specRevision :: SpecRevisionIdentity
  rbl_bundleRevision :: nat
  rbl_predecessorRevision :: "nat option"
  rbl_sourceAttempt :: RequirementTestSourceAttempt
  rbl_sourceFindingFingerprints :: "string list"

definition fingerprint_list :: "jsval \<Rightarrow> string list res" where
  "fingerprint_list v =
     (let e = Error ''Requirement test bundle lineage sourceFindingFingerprints must be unique SHA-256 digests'' in
      bindE (array_of e (sha_text e) v) (\<lambda>fs. if distinct fs then Inr fs else Inl e))"

definition new_RequirementTestBundleLineage :: "jsval \<Rightarrow> RequirementTestBundleLineage res" where
  "new_RequirementTestBundleLineage arg = bindE (destructure arg) (\<lambda>ob.
     bindE (gt_text ''Requirement test bundle lineage requirementId'' (fld ob ''requirementId'')) (\<lambda>i.
     bindE (new_SpecRevisionIdentity (fld ob ''specRevision'')) (\<lambda>s.
     bindE (positiveInteger ''Requirement test bundle lineage revision'' (fld ob ''bundleRevision'')) (\<lambda>r.
     bindE (nullable (positiveInteger ''Requirement test bundle lineage predecessorRevision'') (fld ob ''predecessorRevision'')) (\<lambda>p.
     bindE (sourceAttempt_fromJSON (fld ob ''sourceAttempt'')) (\<lambda>a.
     bindE (fingerprint_list (fld ob ''sourceFindingFingerprints'')) (\<lambda>fs.
     if r = 1 \<and> (p \<noteq> None \<or> fs \<noteq> [])
     then Inl (Error ''Initial Requirement test bundle lineage cannot carry repair evidence'')
     else if r \<noteq> 1 \<and> (p \<noteq> Some (r - 1) \<or> fs = [])
     then Inl (Error ''Repair Requirement test bundle lineage requires the preceding revision and source findings'')
     else Inr \<lparr>rbl_requirementId = i, rbl_specRevision = s, rbl_bundleRevision = r, rbl_predecessorRevision = p,
       rbl_sourceAttempt = a, rbl_sourceFindingFingerprints = fs\<rparr>)))))))"

definition lineage_fromJSON :: "jsval \<Rightarrow> RequirementTestBundleLineage res" where
  "lineage_fromJSON v = bindE (exactKeys [''requirementId'', ''specRevision'', ''bundleRevision'', ''predecessorRevision'',
     ''sourceAttempt'', ''sourceFindingFingerprints''] ''Requirement test bundle lineage'' v)
     (\<lambda>_. new_RequirementTestBundleLineage v)"

definition RequirementTestBundleLineage_toJSON :: "RequirementTestBundleLineage \<Rightarrow> jsval" where
  "RequirementTestBundleLineage_toJSON l = JObj
     [(''requirementId'', JStr (rbl_requirementId l)), (''specRevision'', SpecRevisionIdentity_toJSON (rbl_specRevision l)),
      (''bundleRevision'', JInt (int (rbl_bundleRevision l))),
      (''predecessorRevision'', js_opt (\<lambda>n. JInt (int n)) (rbl_predecessorRevision l)),
      (''sourceAttempt'', RequirementTestSourceAttempt_toJSON (rbl_sourceAttempt l)),
      (''sourceFindingFingerprints'', JArr (map JStr (rbl_sourceFindingFingerprints l)))]"

definition wf_RequirementTestBundleLineage :: "RequirementTestBundleLineage \<Rightarrow> bool" where
  "wf_RequirementTestBundleLineage l \<longleftrightarrow> is_text (rbl_requirementId l) \<and> wf_SpecRevisionIdentity (rbl_specRevision l) \<and>
     is_safe (rbl_bundleRevision l) \<and> 1 \<le> rbl_bundleRevision l \<and>
     rbl_predecessorRevision l = (if rbl_bundleRevision l = 1 then None else Some (rbl_bundleRevision l - 1)) \<and>
     wf_RequirementTestSourceAttempt (rbl_sourceAttempt l) \<and>
     list_all is_sha256 (rbl_sourceFindingFingerprints l) \<and> distinct (rbl_sourceFindingFingerprints l) \<and>
     (rbl_bundleRevision l = 1 \<longleftrightarrow> rbl_sourceFindingFingerprints l = [])"

lemma fingerprint_list_wf: "fingerprint_list v = Inr fs \<Longrightarrow> list_all is_sha256 fs \<and> distinct fs"
  by (auto simp: fingerprint_list_def Let_def split: if_splits elim: array_of_wf)

lemma fingerprint_list_js [simp]:
  "list_all is_sha256 fs \<Longrightarrow> distinct fs \<Longrightarrow> fingerprint_list (JArr (map JStr fs)) = Inr fs"
  by (simp add: fingerprint_list_def Let_def array_of_js [where P = is_sha256])

lemma trimmed_text: "js_trim s = t \<Longrightarrow> t \<noteq> [] \<Longrightarrow> is_text t"
  by auto

lemma safe_pred: "is_safe n \<Longrightarrow> is_safe (n - Suc 0)"
  by (auto simp: is_safe_def)

interpretation bundle_lineage: json_codec lineage_fromJSON wf_RequirementTestBundleLineage RequirementTestBundleLineage_toJSON
proof (unfold_locales, goal_cases)
  case (1 v x)
  then show ?case
    by (auto simp: lineage_fromJSON_def new_RequirementTestBundleLineage_def wf_RequirementTestBundleLineage_def
        dest!: positiveInteger_wf fingerprint_list_wf dest: spec_revision.mk_wf source_attempt.mk_wf
        split: if_splits)
next
  case (2 x)
  then have "nullable (positiveInteger f) (js_opt (\<lambda>n. JInt (int n)) (rbl_predecessorRevision x)) =
      Inr (rbl_predecessorRevision x)" for f
    by (intro nullable_opt [where P = "\<lambda>n. is_safe n \<and> 1 \<le> n"])
      (auto simp: wf_RequirementTestBundleLineage_def safe_pred)
  with 2 show ?case
    by (auto simp: lineage_fromJSON_def new_RequirementTestBundleLineage_def wf_RequirementTestBundleLineage_def
        RequirementTestBundleLineage_toJSON_def spec_revision.mk_js source_attempt.mk_js split: if_splits)
qed (simp add: RequirementTestBundleLineage_toJSON_def)

subsection \<open>Bundle revisions\<close>

record RequirementTestBundleRevision =
  rbr_requirementId :: string
  rbr_specRevision :: SpecRevisionIdentity
  rbr_revision :: nat
  rbr_paths :: "string list"
  rbr_lineage :: RequirementTestBundleLineage

definition bundle_paths :: "jsval \<Rightarrow> string list res" where
  "bundle_paths v = (case v of
     JArr vs \<Rightarrow> if vs = [] then Inl (Error ''Requirement test bundle paths must be non-empty'') else
       bindE (mapE (\<lambda>(i, e). canonicalRelativePath (''Requirement test bundle paths['' @ nat_text i @ '']'') e) (enumerate 0 vs))
       (\<lambda>ps. if distinct ps then Inr ps else Inl (Error ''Requirement test bundle paths must be unique''))
   | _ \<Rightarrow> Inl (Error ''Requirement test bundle paths must be non-empty''))"

definition new_RequirementTestBundleRevision :: "jsval \<Rightarrow> RequirementTestBundleRevision res" where
  "new_RequirementTestBundleRevision arg = bindE (destructure arg) (\<lambda>ob.
     bindE (gt_text ''Requirement test bundle requirementId'' (fld ob ''requirementId'')) (\<lambda>i.
     bindE (new_SpecRevisionIdentity (fld ob ''specRevision'')) (\<lambda>s.
     bindE (positiveInteger ''Requirement test bundle revision'' (fld ob ''revision'')) (\<lambda>r.
     bindE (bundle_paths (fld ob ''paths'')) (\<lambda>ps.
     bindE (lineage_fromJSON (fld ob ''lineage'')) (\<lambda>l.
     if i \<noteq> rbl_requirementId l \<or> \<not> sri_equals s (rbl_specRevision l) \<or> r \<noteq> rbl_bundleRevision l
     then Inl (Error ''Requirement test bundle revision and lineage identity do not match'')
     else Inr \<lparr>rbr_requirementId = i, rbr_specRevision = s, rbr_revision = r, rbr_paths = ps, rbr_lineage = l\<rparr>))))))"

definition bundle_fromJSON :: "jsval \<Rightarrow> RequirementTestBundleRevision res" where
  "bundle_fromJSON v = bindE (exactKeys [''requirementId'', ''specRevision'', ''revision'', ''paths'', ''lineage'']
     ''Requirement test bundle revision'' v) (\<lambda>_. new_RequirementTestBundleRevision v)"

definition artifactParameters :: "RequirementTestBundleRevision \<Rightarrow> jsval" where
  "artifactParameters b = JObj
     [(''specRevision'', JStr (nat_text (sri_revision (rbr_specRevision b)))), (''requirementId'', JStr (rbr_requirementId b)),
      (''bundleRevision'', JStr (nat_text (rbr_revision b)))]"

definition RequirementTestBundleRevision_toJSON :: "RequirementTestBundleRevision \<Rightarrow> jsval" where
  "RequirementTestBundleRevision_toJSON b = JObj
     [(''requirementId'', JStr (rbr_requirementId b)), (''specRevision'', SpecRevisionIdentity_toJSON (rbr_specRevision b)),
      (''revision'', JInt (int (rbr_revision b))), (''paths'', JArr (map JStr (rbr_paths b))),
      (''lineage'', RequirementTestBundleLineage_toJSON (rbr_lineage b))]"

definition wf_RequirementTestBundleRevision :: "RequirementTestBundleRevision \<Rightarrow> bool" where
  "wf_RequirementTestBundleRevision b \<longleftrightarrow> is_text (rbr_requirementId b) \<and> wf_SpecRevisionIdentity (rbr_specRevision b) \<and>
     is_safe (rbr_revision b) \<and> 1 \<le> rbr_revision b \<and> rbr_paths b \<noteq> [] \<and> distinct (rbr_paths b) \<and>
     list_all (\<lambda>p. is_text p \<and> canonical_path p) (rbr_paths b) \<and> wf_RequirementTestBundleLineage (rbr_lineage b) \<and>
     rbl_requirementId (rbr_lineage b) = rbr_requirementId b \<and> rbl_specRevision (rbr_lineage b) = rbr_specRevision b \<and>
     rbl_bundleRevision (rbr_lineage b) = rbr_revision b"

lemma enumerated_paths:
  "mapE (\<lambda>(i, e). canonicalRelativePath (f i) e) (enumerate n vs) = Inr ps \<longleftrightarrow>
   vs = map JStr ps \<and> list_all (\<lambda>p. is_text p \<and> canonical_path p) ps"
  by (induction vs arbitrary: n ps) (auto simp: canonicalRelativePath_eq_Inr)

lemma bundle_paths_eq_Inr:
  "bundle_paths v = Inr ps \<longleftrightarrow>
   v = JArr (map JStr ps) \<and> ps \<noteq> [] \<and> distinct ps \<and> list_all (\<lambda>p. is_text p \<and> canonical_path p) ps"
  by (auto simp: bundle_paths_def enumerated_paths split: jsval.splits if_splits)

lemma bundle_paths_js:
  "ps \<noteq> [] \<Longrightarrow> distinct ps \<Longrightarrow> list_all (\<lambda>p. is_text p \<and> canonical_path p) ps \<Longrightarrow>
   bundle_paths (JArr (map JStr ps)) = Inr ps"
  by (simp add: bundle_paths_eq_Inr)

interpretation bundle_revision: json_codec bundle_fromJSON wf_RequirementTestBundleRevision RequirementTestBundleRevision_toJSON
proof (unfold_locales, goal_cases)
  case (1 v x)
  then show ?case
    by (auto simp: bundle_fromJSON_def new_RequirementTestBundleRevision_def wf_RequirementTestBundleRevision_def
        bundle_paths_eq_Inr dest!: positiveInteger_wf trimmed_text dest: spec_revision.mk_wf bundle_lineage.mk_wf split: if_splits)
next
  case (2 x)
  then show ?case
    by (simp add: bundle_fromJSON_def new_RequirementTestBundleRevision_def wf_RequirementTestBundleRevision_def
        RequirementTestBundleRevision_toJSON_def spec_revision.mk_js bundle_lineage.mk_js bundle_paths_js
        del: bindE_eq_Inr)
qed (simp add: RequirementTestBundleRevision_toJSON_def)

lemma bundle_json_plain: "json_plain (RequirementTestBundleRevision_toJSON b)"
  by (auto simp: RequirementTestBundleRevision_toJSON_def RequirementTestBundleLineage_toJSON_def
      SpecRevisionIdentity_toJSON_def RequirementTestSourceAttempt_toJSON_def list_all_iff js_opt_def split: option.split)

lemma bundle_json_eq:
  assumes "wf_RequirementTestBundleRevision a" "wf_RequirementTestBundleRevision b"
  shows "JSON_stringify (RequirementTestBundleRevision_toJSON a) = JSON_stringify (RequirementTestBundleRevision_toJSON b)
    \<longleftrightarrow> a = b"
  using assms JSON_stringify_inj bundle_json_plain bundle_revision.js_inj by metis

subsection \<open>Work items\<close>

record RequirementTestWorkItem =
  wi_requirementId :: string
  wi_specRevision :: SpecRevisionIdentity
  wi_expectation :: string
  wi_status :: string
  wi_bundleRevision :: "RequirementTestBundleRevision option"
  wi_budget :: RequirementTestBudget
  wi_semanticFindings :: "RequirementTestSemanticFinding list"

definition EXPECTATIONS :: "string list" where
  "EXPECTATIONS = [''fail'', ''pass'']"

definition STATUSES :: "string list" where
  "STATUSES = [''pending'', ''in_progress'', ''candidate_saved'', ''reviewed'', ''promoted'', ''deferred'']"

definition RequirementTestExpectation_from :: "jsval \<Rightarrow> string res" where
  "RequirementTestExpectation_from = lit_of EXPECTATIONS (Error ''Requirement test expectation must be fail or pass'')"

definition checked_work_item :: "RequirementTestWorkItem \<Rightarrow> RequirementTestWorkItem res" where
  "checked_work_item w =
     (if wi_status w \<notin> set STATUSES then Inl (Error ''Requirement test work item status is invalid'')
      else if list_ex (\<lambda>f. rsf_requirementId f \<noteq> wi_requirementId w) (wi_semanticFindings w)
        \<or> \<not> distinct (map (\<lambda>f. JSON_stringify (RequirementTestSemanticFinding_toJSON f)) (wi_semanticFindings w))
      then Inl (Error ''Requirement test semantic findings do not match this Requirement'')
      else if wi_status w \<in> {''pending'', ''in_progress''} \<and> wi_bundleRevision w \<noteq> None
      then Inl (Error ''Requirement test pending work cannot carry a bundle revision'')
      else if wi_status w \<in> {''candidate_saved'', ''reviewed'', ''promoted''} \<and> wi_bundleRevision w = None
      then Inl (Error ''Requirement test candidate state requires a bundle revision'')
      else if (case wi_bundleRevision w of None \<Rightarrow> False
         | Some b \<Rightarrow> wi_requirementId w \<noteq> rbr_requirementId b \<or> \<not> sri_equals (wi_specRevision w) (rbr_specRevision b))
      then Inl (Error ''Requirement test work item and bundle revision identity do not match'')
      else Inr w)"

definition new_RequirementTestWorkItem :: "jsval \<Rightarrow> RequirementTestWorkItem res" where
  "new_RequirementTestWorkItem arg = bindE (destructure arg) (\<lambda>ob.
     bindE (gt_text ''Requirement test work item requirementId'' (fld ob ''requirementId'')) (\<lambda>i.
     bindE (new_SpecRevisionIdentity (fld ob ''specRevision'')) (\<lambda>s.
     bindE (RequirementTestExpectation_from (fld ob ''expectation'')) (\<lambda>e.
     bindE (lit_of STATUSES (Error ''Requirement test work item status is invalid'')
              (fld_or ob ''status'' (JStr ''pending''))) (\<lambda>st.
     bindE (nullable bundle_fromJSON (fld_or ob ''bundleRevision'' JNull)) (\<lambda>b.
     bindE (if fld ob ''budget'' = JUndef then Inr initial_budget else budget_fromJSON (fld ob ''budget'')) (\<lambda>g.
     bindE (array_of (Error ''Requirement test semantic findings must be an array'') finding_fromJSON
              (fld_or ob ''semanticFindings'' (JArr []))) (\<lambda>fs.
     checked_work_item \<lparr>wi_requirementId = i, wi_specRevision = s, wi_expectation = e, wi_status = st,
       wi_bundleRevision = b, wi_budget = g, wi_semanticFindings = fs\<rparr>))))))))"

definition workItem_fromJSON :: "jsval \<Rightarrow> RequirementTestWorkItem res" where
  "workItem_fromJSON v = bindE (exactKeys [''requirementId'', ''specRevision'', ''expectation'', ''status'', ''bundleRevision'',
     ''budget'', ''semanticFindings''] ''Requirement test work item'' v) (\<lambda>_. new_RequirementTestWorkItem v)"

definition withState :: "RequirementTestWorkItem \<Rightarrow> string \<Rightarrow> RequirementTestBundleRevision option \<Rightarrow> RequirementTestBudget \<Rightarrow>
    RequirementTestSemanticFinding list \<Rightarrow> RequirementTestWorkItem res" where
  "withState w status bundle bud findings = checked_work_item (w\<lparr>wi_status := status, wi_bundleRevision := bundle,
     wi_budget := bud, wi_semanticFindings := findings\<rparr>)"

definition hasSemanticFinding :: "RequirementTestWorkItem \<Rightarrow> RequirementTestSemanticFinding \<Rightarrow> bool" where
  "hasSemanticFinding w f \<longleftrightarrow> list_ex (\<lambda>e. rsf_equals e f) (wi_semanticFindings w)"

definition RequirementTestWorkItem_toJSON :: "RequirementTestWorkItem \<Rightarrow> jsval" where
  "RequirementTestWorkItem_toJSON w = JObj
     [(''requirementId'', JStr (wi_requirementId w)), (''specRevision'', SpecRevisionIdentity_toJSON (wi_specRevision w)),
      (''expectation'', JStr (wi_expectation w)), (''status'', JStr (wi_status w)),
      (''bundleRevision'', js_opt RequirementTestBundleRevision_toJSON (wi_bundleRevision w)),
      (''budget'', RequirementTestBudget_toJSON (wi_budget w)),
      (''semanticFindings'', JArr (map RequirementTestSemanticFinding_toJSON (wi_semanticFindings w)))]"

text \<open>The state rules of a work item, as the final checks leave them.\<close>

definition item_rules :: "RequirementTestWorkItem \<Rightarrow> bool" where
  "item_rules w \<longleftrightarrow> wi_status w \<in> set STATUSES \<and>
     list_all (\<lambda>f. rsf_requirementId f = wi_requirementId w) (wi_semanticFindings w) \<and> distinct (wi_semanticFindings w) \<and>
     (wi_status w \<in> {''pending'', ''in_progress''} \<longrightarrow> wi_bundleRevision w = None) \<and>
     (wi_status w \<in> {''candidate_saved'', ''reviewed'', ''promoted''} \<longrightarrow> wi_bundleRevision w \<noteq> None) \<and>
     pred_option (\<lambda>b. rbr_requirementId b = wi_requirementId w \<and> rbr_specRevision b = wi_specRevision w) (wi_bundleRevision w)"

definition wf_RequirementTestWorkItem :: "RequirementTestWorkItem \<Rightarrow> bool" where
  "wf_RequirementTestWorkItem w \<longleftrightarrow> is_text (wi_requirementId w) \<and> wf_SpecRevisionIdentity (wi_specRevision w) \<and>
     wi_expectation w \<in> set EXPECTATIONS \<and> pred_option wf_RequirementTestBundleRevision (wi_bundleRevision w) \<and>
     wf_RequirementTestBudget (wi_budget w) \<and> list_all wf_RequirementTestSemanticFinding (wi_semanticFindings w) \<and>
     item_rules w"

lemma distinct_findings:
  "distinct (map (\<lambda>f. JSON_stringify (RequirementTestSemanticFinding_toJSON f)) fs) \<longleftrightarrow> distinct fs"
  by (simp add: distinct_map inj_on_def finding_json_inj)

lemma checked_work_item_eq_Inr: "checked_work_item w = Inr x \<longleftrightarrow> x = w \<and> item_rules w"
proof -
  have "checked_work_item w = Inr x \<longleftrightarrow> x = w \<and> wi_status w \<in> set STATUSES
      \<and> \<not> (list_ex (\<lambda>f. rsf_requirementId f \<noteq> wi_requirementId w) (wi_semanticFindings w) \<or> \<not> distinct (wi_semanticFindings w))
      \<and> \<not> (wi_status w \<in> {''pending'', ''in_progress''} \<and> wi_bundleRevision w \<noteq> None)
      \<and> \<not> (wi_status w \<in> {''candidate_saved'', ''reviewed'', ''promoted''} \<and> wi_bundleRevision w = None)
      \<and> \<not> (case wi_bundleRevision w of None \<Rightarrow> False
         | Some b \<Rightarrow> wi_requirementId w \<noteq> rbr_requirementId b \<or> \<not> sri_equals (wi_specRevision w) (rbr_specRevision b))"
    unfolding checked_work_item_def distinct_findings by (simp only: if_refused) auto
  also have "\<dots> \<longleftrightarrow> x = w \<and> item_rules w"
    by (cases "wi_bundleRevision w") (auto simp: item_rules_def list_ex_iff list_all_iff)
  finally show ?thesis .
qed

lemma hasSemanticFinding_iff [simp]: "hasSemanticFinding w f \<longleftrightarrow> f \<in> set (wi_semanticFindings w)"
  by (auto simp: hasSemanticFinding_def list_ex_iff)

lemma initial_budget_wf: "wf_RequirementTestBudget initial_budget"
  by (simp add: initial_budget_def wf_RequirementTestBudget_def is_safe_def max_safe_def)

lemma work_item_parts:
  assumes "new_RequirementTestWorkItem v = Inr w"
  shows "is_text (wi_requirementId w) \<and> wf_SpecRevisionIdentity (wi_specRevision w) \<and>
     wi_expectation w \<in> set EXPECTATIONS \<and> pred_option wf_RequirementTestBundleRevision (wi_bundleRevision w) \<and>
     wf_RequirementTestBudget (wi_budget w) \<and> list_all wf_RequirementTestSemanticFinding (wi_semanticFindings w) \<and>
     item_rules w"
proof -
  obtain ob i s e st b g fs where
    parts: "gt_text ''Requirement test work item requirementId'' (fld ob ''requirementId'') = Inr i"
      "new_SpecRevisionIdentity (fld ob ''specRevision'') = Inr s"
      "RequirementTestExpectation_from (fld ob ''expectation'') = Inr e"
      "nullable bundle_fromJSON (fld_or ob ''bundleRevision'' JNull) = Inr b"
      "(if fld ob ''budget'' = JUndef then Inr initial_budget else budget_fromJSON (fld ob ''budget'')) = Inr g"
      "array_of (Error ''Requirement test semantic findings must be an array'') finding_fromJSON
         (fld_or ob ''semanticFindings'' (JArr [])) = Inr fs"
      and w: "checked_work_item \<lparr>wi_requirementId = i, wi_specRevision = s, wi_expectation = e, wi_status = st,
         wi_bundleRevision = b, wi_budget = g, wi_semanticFindings = fs\<rparr> = Inr w"
    using assms unfolding new_RequirementTestWorkItem_def bindE_eq_Inr by blast
  have "wf_RequirementTestBudget g"
    using parts(5) by (cases "fld ob ''budget'' = JUndef") (auto simp: initial_budget_wf dest: budget.mk_wf)
  moreover have "list_all wf_RequirementTestSemanticFinding fs"
    by (rule array_of_wf [OF parts(6)]) (rule semantic_finding.mk_wf)
  moreover have "is_text i" using parts(1) by (auto dest: trimmed_text)
  moreover have "e \<in> set EXPECTATIONS" using parts(3) by (simp add: RequirementTestExpectation_from_def)
  ultimately show ?thesis
    using w spec_revision.mk_wf [OF parts(2)] bundle_revision.nullable_mk_wf [OF parts(4)]
    by (auto simp: checked_work_item_eq_Inr)
qed

interpretation work_item: json_codec workItem_fromJSON wf_RequirementTestWorkItem RequirementTestWorkItem_toJSON
proof (unfold_locales, goal_cases)
  case (1 v x)
  then show ?case
    using work_item_parts [of v x] by (simp add: workItem_fromJSON_def wf_RequirementTestWorkItem_def)
next
  case (2 x)
  then show ?case
    by (simp add: workItem_fromJSON_def new_RequirementTestWorkItem_def wf_RequirementTestWorkItem_def item_rules_def
        checked_work_item_eq_Inr RequirementTestExpectation_from_def RequirementTestWorkItem_toJSON_def
        spec_revision.mk_js bundle_revision.nullable_mk_js budget.mk_js
        array_of_js [where P = wf_RequirementTestSemanticFinding] semantic_finding.mk_js)
qed (simp add: RequirementTestWorkItem_toJSON_def)

subsection \<open>The plan\<close>

record RequirementTestPlan =
  rtp_specRevision :: SpecRevisionIdentity
  rtp_workItems :: "RequirementTestWorkItem list"

definition checked_plan :: "RequirementTestPlan \<Rightarrow> RequirementTestPlan res" where
  "checked_plan p =
     (if \<not> distinct (map wi_requirementId (rtp_workItems p))
      then Inl (Error ''Requirement test plan requirementIds must be unique'')
      else if list_ex (\<lambda>w. \<not> sri_equals (rtp_specRevision p) (wi_specRevision w)) (rtp_workItems p)
      then Inl (Error ''Requirement test plan and work item Spec revisions do not match'')
      else Inr p)"

definition new_RequirementTestPlan :: "jsval \<Rightarrow> RequirementTestPlan res" where
  "new_RequirementTestPlan arg = bindE (destructure arg) (\<lambda>ob.
     bindE (new_SpecRevisionIdentity (fld ob ''specRevision'')) (\<lambda>s.
     bindE (array_of (Error ''Requirement test plan workItems must be an array'') workItem_fromJSON (fld ob ''workItems'')) (\<lambda>ws.
     checked_plan \<lparr>rtp_specRevision = s, rtp_workItems = ws\<rparr>)))"

definition plan_fromJSON :: "jsval \<Rightarrow> RequirementTestPlan res" where
  "plan_fromJSON v = bindE (exactKeys [''specRevision'', ''workItems''] ''Requirement test plan'' v)
     (\<lambda>_. new_RequirementTestPlan v)"

definition RequirementTestPlan_toJSON :: "RequirementTestPlan \<Rightarrow> jsval" where
  "RequirementTestPlan_toJSON p = JObj
     [(''specRevision'', SpecRevisionIdentity_toJSON (rtp_specRevision p)),
      (''workItems'', JArr (map RequirementTestWorkItem_toJSON (rtp_workItems p)))]"

definition requirement_valid :: "nat \<Rightarrow> jsval \<Rightarrow> string res" where
  "requirement_valid index v =
     (let e = Error (''Requirement test plan Requirement '' @ nat_text index @ '' has invalid identity or testability'') in
      bindE (object_or e v) (\<lambda>ob.
      bindE (text_or e (fld ob ''id'')) (\<lambda>i.
      bindE (bool_or e (fld_or ob ''testable'' (JBool True))) (\<lambda>testable.
      if testable then RequirementTestExpectation_from (fld ob ''preimplementation_test_expectation'') else Inr []))))"

definition pending_item :: "SpecRevisionIdentity \<Rightarrow> jsval \<Rightarrow> RequirementTestWorkItem res" where
  "pending_item s r =
     bindE (gt_text ''Requirement test work item requirementId'' (propq r ''id'')) (\<lambda>i.
     bindE (RequirementTestExpectation_from (propq r ''preimplementation_test_expectation'')) (\<lambda>e.
     checked_work_item \<lparr>wi_requirementId = i, wi_specRevision = s, wi_expectation = e, wi_status = ''pending'',
       wi_bundleRevision = None, wi_budget = initial_budget, wi_semanticFindings = []\<rparr>))"

definition fromApprovedSpec :: "jsval \<Rightarrow> jsval \<Rightarrow> RequirementTestPlan res" where
  "fromApprovedSpec spec revision =
     (case propq spec ''requirements'' of
        JArr rs \<Rightarrow>
          bindE (mapE (\<lambda>(i, r). requirement_valid i r) (enumerate 0 rs)) (\<lambda>_.
          bindE (new_SpecRevisionIdentity revision) (\<lambda>s.
          bindE (mapE (pending_item s) (filter (\<lambda>r. propq r ''testable'' \<noteq> JBool False) rs)) (\<lambda>ws.
          checked_plan \<lparr>rtp_specRevision = s, rtp_workItems = ws\<rparr>)))
      | _ \<Rightarrow> Inl (Error ''Requirement test plan requires a validated approved Spec with Requirements''))"

definition plan_workItem :: "RequirementTestPlan \<Rightarrow> string \<Rightarrow> RequirementTestWorkItem option res" where
  "plan_workItem p requirementId = bindE (gt_text ''Requirement test plan lookup requirementId'' (JStr requirementId)) (\<lambda>i.
     Inr (find (\<lambda>w. wi_requirementId w = i) (rtp_workItems p)))"

definition withWorkItem :: "RequirementTestPlan \<Rightarrow> RequirementTestWorkItem \<Rightarrow> RequirementTestPlan res" where
  "withWorkItem p next_item =
     (let index = length (takeWhile (\<lambda>w. wi_requirementId w \<noteq> wi_requirementId next_item) (rtp_workItems p)) in
      if index = length (rtp_workItems p)
      then Inl (Error (''Requirement test plan does not contain '' @ wi_requirementId next_item))
      else if \<not> sri_equals (rtp_specRevision p) (wi_specRevision next_item)
      then Inl (Error ''Requirement test plan replacement has a stale Spec revision'')
      else checked_plan (p\<lparr>rtp_workItems := (rtp_workItems p)[index := next_item]\<rparr>))"

definition activeWorkItem :: "RequirementTestPlan \<Rightarrow> RequirementTestWorkItem option res" where
  "activeWorkItem p =
     (let items = rtp_workItems p;
          generating = filter (\<lambda>w. wi_status w = ''in_progress'') items;
          staged = filter (\<lambda>w. wi_status w \<in> {''candidate_saved'', ''reviewed''}) items;
          reviewed = filter (\<lambda>w. wi_status w = ''reviewed'') staged in
      if length generating > 1 then Inl (Error ''Requirement test plan contains multiple generating work items'')
      else if length generating = 1 then
        if list_ex (\<lambda>w. wi_status w = ''reviewed'') items
        then Inl (Error ''Requirement test plan cannot generate while a Requirement is under review'')
        else Inr (Some (hd generating))
      else if staged = [] then Inr None
      else if length reviewed > 1 then Inl (Error ''Requirement test plan contains multiple reviewed work items'')
      else Inr (Some (if reviewed = [] then hd staged else hd reviewed)))"

definition nextPendingWorkItem :: "RequirementTestPlan \<Rightarrow> RequirementTestWorkItem option" where
  "nextPendingWorkItem p = find (\<lambda>w. wi_status w = ''pending'') (rtp_workItems p)"

definition plan_settled :: "RequirementTestPlan \<Rightarrow> bool" where
  "plan_settled p \<longleftrightarrow> list_all (\<lambda>w. wi_status w = ''promoted'' \<or> wi_status w = ''deferred'') (rtp_workItems p)"

definition plan_rules :: "RequirementTestPlan \<Rightarrow> bool" where
  "plan_rules p \<longleftrightarrow> distinct (map wi_requirementId (rtp_workItems p)) \<and>
     list_all (\<lambda>w. wi_specRevision w = rtp_specRevision p) (rtp_workItems p)"

definition wf_RequirementTestPlan :: "RequirementTestPlan \<Rightarrow> bool" where
  "wf_RequirementTestPlan p \<longleftrightarrow> wf_SpecRevisionIdentity (rtp_specRevision p) \<and>
     list_all wf_RequirementTestWorkItem (rtp_workItems p) \<and> plan_rules p"

lemma checked_plan_eq_Inr: "checked_plan p = Inr q \<longleftrightarrow> q = p \<and> plan_rules p"
  by (auto simp: checked_plan_def plan_rules_def list_ex_iff list_all_iff eq_commute)

interpretation test_plan: json_codec plan_fromJSON wf_RequirementTestPlan RequirementTestPlan_toJSON
proof (unfold_locales, goal_cases)
  case (1 v x)
  then show ?case
    using array_of_wf [OF _ work_item.mk_wf]
    by (auto simp: plan_fromJSON_def new_RequirementTestPlan_def wf_RequirementTestPlan_def checked_plan_eq_Inr
        dest: spec_revision.mk_wf)
next
  case (2 x)
  then show ?case
    by (simp add: plan_fromJSON_def new_RequirementTestPlan_def wf_RequirementTestPlan_def checked_plan_eq_Inr
        RequirementTestPlan_toJSON_def spec_revision.mk_js array_of_js [where P = wf_RequirementTestWorkItem]
        work_item.mk_js plan_rules_def)
qed (simp add: RequirementTestPlan_toJSON_def)

subsection \<open>Replacing a work item\<close>

text \<open>\<open>put p w\<close>: the plan in which \<open>w\<close> stands for the item of its Requirement.\<close>

definition put :: "RequirementTestPlan \<Rightarrow> RequirementTestWorkItem \<Rightarrow> RequirementTestPlan" where
  "put p w = p\<lparr>rtp_workItems := map (\<lambda>x. if wi_requirementId x = wi_requirementId w then w else x) (rtp_workItems p)\<rparr>"

lemma update_first:
  "distinct (map f xs) \<Longrightarrow> xs[length (takeWhile (\<lambda>x. f x \<noteq> f w) xs) := w] = map (\<lambda>x. if f x = f w then w else x) xs"
proof (induction xs)
  case (Cons a xs)
  have "map (\<lambda>x. if f x = f w then w else x) xs = xs" if "f w \<notin> f ` set xs"
    using that by (intro map_idI) (metis imageI)
  with Cons show ?case by (cases "f a = f w") auto
qed simp

lemma takeWhile_all: "length (takeWhile P xs) = length xs \<longleftrightarrow> (\<forall>x \<in> set xs. P x)"
  by (induction xs) auto

lemma put_ids [simp]: "map wi_requirementId (rtp_workItems (put p w)) = map wi_requirementId (rtp_workItems p)"
  by (auto simp: put_def)

lemma put_rules: "plan_rules p \<Longrightarrow> wi_specRevision w = rtp_specRevision p \<Longrightarrow> plan_rules (put p w)"
  unfolding plan_rules_def put_ids by (auto simp: put_def list_all_iff)

lemma withWorkItem_ok:
  assumes "plan_rules p" "x \<in> set (rtp_workItems p)" "wi_requirementId w = wi_requirementId x"
    "wi_specRevision w = rtp_specRevision p"
  shows "withWorkItem p w = Inr (put p w)"
proof -
  let ?i = "length (takeWhile (\<lambda>y. wi_requirementId y \<noteq> wi_requirementId w) (rtp_workItems p))"
  have "?i \<noteq> length (rtp_workItems p)" using assms(2,3) by (auto simp: takeWhile_all)
  moreover have "p\<lparr>rtp_workItems := (rtp_workItems p)[?i := w]\<rparr> = put p w"
    using assms(1) by (simp add: put_def plan_rules_def update_first)
  ultimately show ?thesis
    using put_rules [OF assms(1,4)] by (simp add: withWorkItem_def Let_def assms(4) checked_plan_eq_Inr)
qed

lemma put_wf:
  assumes "wf_RequirementTestPlan p" "wf_RequirementTestWorkItem w" "wi_specRevision w = rtp_specRevision p"
  shows "wf_RequirementTestPlan (put p w)"
  using assms put_rules by (auto simp: wf_RequirementTestPlan_def put_def list_all_iff)

lemma unique_item:
  "plan_rules p \<Longrightarrow> x \<in> set (rtp_workItems p) \<Longrightarrow> y \<in> set (rtp_workItems p) \<Longrightarrow> wi_requirementId x = wi_requirementId y \<Longrightarrow> x = y"
  by (auto simp: plan_rules_def distinct_map dest: inj_onD)

lemma put_items:
  assumes "plan_rules p" "x \<in> set (rtp_workItems p)" "wi_requirementId w = wi_requirementId x"
  shows "set (rtp_workItems (put p w)) = insert w (set (rtp_workItems p) - {x})"
  using assms by (auto simp: put_def image_iff dest: unique_item)

lemma find_unique: "plan_rules p \<Longrightarrow> x \<in> set (rtp_workItems p) \<Longrightarrow>
  find (\<lambda>w. wi_requirementId w = wi_requirementId x) (rtp_workItems p) = Some x"
proof -
  assume p: "plan_rules p" and x: "x \<in> set (rtp_workItems p)"
  then obtain y where "find (\<lambda>w. wi_requirementId w = wi_requirementId x) (rtp_workItems p) = Some y"
    by (cases "find (\<lambda>w. wi_requirementId w = wi_requirementId x) (rtp_workItems p)") (auto simp: find_None_iff)
  moreover from this have "y \<in> set (rtp_workItems p)" "wi_requirementId y = wi_requirementId x"
    by (auto simp: find_Some_iff)
  ultimately show ?thesis using unique_item [OF p _ x] by simp
qed

subsection \<open>The frontier\<close>

text \<open>At most one Requirement is generated or under review at a time.\<close>

definition busy :: "RequirementTestWorkItem \<Rightarrow> bool" where
  "busy w \<longleftrightarrow> wi_status w = ''in_progress'' \<or> wi_status w = ''reviewed''"

definition frontier_ok :: "RequirementTestPlan \<Rightarrow> bool" where
  "frontier_ok p \<longleftrightarrow> length (filter busy (rtp_workItems p)) \<le> 1"

definition active_item :: "RequirementTestPlan \<Rightarrow> RequirementTestWorkItem option" where
  "active_item p = (case find busy (rtp_workItems p) of
     Some w \<Rightarrow> Some w | None \<Rightarrow> find (\<lambda>w. wi_status w = ''candidate_saved'') (rtp_workItems p))"

lemma find_filter: "find P xs = (if filter P xs = [] then None else Some (hd (filter P xs)))"
  by (induction xs) auto

lemma filter_busy:
  "filter (\<lambda>w. wi_status w = ''in_progress'') ws = filter (\<lambda>w. wi_status w = ''in_progress'') (filter busy ws)"
  "filter (\<lambda>w. wi_status w = ''reviewed'') ws = filter (\<lambda>w. wi_status w = ''reviewed'') (filter busy ws)"
  by (auto simp: busy_def intro!: filter_cong)

lemma filter_staged:
  "filter (\<lambda>w. wi_status w = ''reviewed'') (filter (\<lambda>w. wi_status w \<in> {''candidate_saved'', ''reviewed''}) ws) =
   filter (\<lambda>w. wi_status w = ''reviewed'') (filter busy ws)"
  by (auto simp: busy_def intro!: filter_cong)

lemma activeWorkItem_ok:
  assumes "frontier_ok p"
  shows "activeWorkItem p = Inr (active_item p)"
proof (cases "filter busy (rtp_workItems p)")
  case Nil
  have staged: "filter (\<lambda>w. wi_status w \<in> {''candidate_saved'', ''reviewed''}) (rtp_workItems p) =
      filter (\<lambda>w. wi_status w = ''candidate_saved'') (rtp_workItems p)"
    using Nil by (auto simp: filter_empty_conv busy_def intro!: filter_cong)
  have none: "filter (\<lambda>w. wi_status w = ''in_progress'') (rtp_workItems p) = []"
    using filter_busy(1) [of "rtp_workItems p"] by (simp add: Nil)
  show ?thesis
    unfolding activeWorkItem_def Let_def filter_staged unfolding none Nil staged
    by (simp add: active_item_def find_filter Nil)
next
  case (Cons w ws)
  with assms have one: "filter busy (rtp_workItems p) = [w]" by (cases ws) (auto simp: frontier_ok_def)
  then have w: "busy w" "w \<in> set (rtp_workItems p)" by (auto dest: filter_eq_ConsD)
  have g: "filter (\<lambda>w. wi_status w = ''in_progress'') (rtp_workItems p) = (if wi_status w = ''in_progress'' then [w] else [])"
    using filter_busy(1) [of "rtp_workItems p"] by (simp add: one)
  show ?thesis
  proof (cases "wi_status w = ''in_progress''")
    case True
    have "\<not> list_ex (\<lambda>w. wi_status w = ''reviewed'') (rtp_workItems p)"
      using filter_busy(2) [of "rtp_workItems p"] True
      by (simp add: one list_ex_iff filter_empty_conv)
    with True show ?thesis
      unfolding activeWorkItem_def Let_def g by (simp add: active_item_def find_filter one)
  next
    case False
    with w have r: "wi_status w = ''reviewed''" by (simp add: busy_def)
    then have "filter (\<lambda>w. wi_status w \<in> {''candidate_saved'', ''reviewed''}) (rtp_workItems p) \<noteq> []"
      using w(2) by (auto simp: filter_empty_conv)
    with r show ?thesis
      unfolding activeWorkItem_def Let_def filter_staged unfolding g one
      by (simp add: active_item_def find_filter one)
  qed
qed

lemma active_item_in: "active_item p = Some w \<Longrightarrow> w \<in> set (rtp_workItems p)"
  by (auto simp: active_item_def find_Some_iff split: option.splits)

lemma active_item_status:
  "active_item p = Some w \<Longrightarrow> wi_status w \<in> {''in_progress'', ''reviewed'', ''candidate_saved''}"
  by (auto simp: active_item_def find_Some_iff busy_def split: option.splits)

lemma active_item_busy:
  assumes "frontier_ok p" "busy w" "w \<in> set (rtp_workItems p)"
  shows "active_item p = Some w"
proof -
  have "w \<in> set (filter busy (rtp_workItems p))" using assms(2,3) by simp
  then have "filter busy (rtp_workItems p) = [w]"
    using assms(1) unfolding frontier_ok_def by (cases "filter busy (rtp_workItems p)") auto
  then show ?thesis by (simp add: active_item_def find_filter)
qed

end
