(* ===== verification/Requirement_Test_Artifacts.thy ===== *)
theory Requirement_Test_Artifacts
  imports Requirement_Test_Plan
begin

section \<open>Requirement test artifacts\<close>

text \<open>
  The candidate side of \<open>src/flow/lib/requirement-test-artifacts.js\<close>: support artifacts, staged sources, the
  manifest of a candidate bundle with its digest, and the Gate observation of one named test with the
  finding derived from it.

  The members of a bundle are sorted with \<open>String.prototype.localeCompare\<close>, whose order depends on the
  locale data of the host.  It is a parameter \<open>lc\<close> of the model: \<open>lc a b\<close> is the number the comparison
  returns.  What the language promises of it, a total consistent order, is \<open>collation lc\<close>.
\<close>

subsection \<open>Sorting with a comparison function\<close>

type_synonym compare = "string \<Rightarrow> string \<Rightarrow> int"

definition collation :: "compare \<Rightarrow> bool" where
  "collation lc \<longleftrightarrow> (\<forall>a b. lc a b \<le> 0 \<or> lc b a \<le> 0) \<and> (\<forall>a b c. lc a b \<le> 0 \<longrightarrow> lc b c \<le> 0 \<longrightarrow> lc a c \<le> 0)"

fun insert_by :: "compare \<Rightarrow> ('a \<Rightarrow> string) \<Rightarrow> 'a \<Rightarrow> 'a list \<Rightarrow> 'a list" where
  "insert_by lc key x [] = [x]"
| "insert_by lc key x (y # ys) = (if lc (key x) (key y) \<le> 0 then x # y # ys else y # insert_by lc key x ys)"

definition sort_by :: "compare \<Rightarrow> ('a \<Rightarrow> string) \<Rightarrow> 'a list \<Rightarrow> 'a list" where
  "sort_by lc key xs = foldr (insert_by lc key) xs []"

lemma set_insert_by [simp]: "set (insert_by lc key x ys) = insert x (set ys)"
  by (induction ys) auto

lemma set_sort_by [simp]: "set (sort_by lc key xs) = set xs"
  unfolding sort_by_def by (induction xs) auto

lemma sorted_insert_by:
  assumes "collation lc" "sorted_wrt (\<lambda>a b. lc (key a) (key b) \<le> 0) ys"
  shows "sorted_wrt (\<lambda>a b. lc (key a) (key b) \<le> 0) (insert_by lc key x ys)"
  using assms(2)
proof (induction ys)
  case (Cons y ys)
  have "lc (key y) (key x) \<le> 0" if "\<not> lc (key x) (key y) \<le> 0"
    using assms(1) that unfolding collation_def by metis
  moreover have "lc (key x) (key z) \<le> 0" if "lc (key x) (key y) \<le> 0" "z \<in> set ys" for z
    using assms(1) that Cons.prems unfolding collation_def by auto
  ultimately show ?case using Cons by auto
qed simp

lemma sorted_sort_by: "collation lc \<Longrightarrow> sorted_wrt (\<lambda>a b. lc (key a) (key b) \<le> 0) (sort_by lc key xs)"
  unfolding sort_by_def by (induction xs) (auto intro: sorted_insert_by)

lemma insert_by_first:
  "sorted_wrt (\<lambda>a b. lc (key a) (key b) \<le> 0) (x # ys) \<Longrightarrow> insert_by lc key x ys = x # ys"
  by (cases ys) auto

lemma sort_by_sorted: "sorted_wrt (\<lambda>a b. lc (key a) (key b) \<le> 0) xs \<Longrightarrow> sort_by lc key xs = xs"
  unfolding sort_by_def by (induction xs) (use insert_by_first in fastforce)+

lemma sort_by_idem: "collation lc \<Longrightarrow> sort_by lc key (sort_by lc key xs) = sort_by lc key xs"
  by (intro sort_by_sorted sorted_sort_by)

subsection \<open>Validators\<close>

definition artifact_digest :: "string \<Rightarrow> jsval \<Rightarrow> string res" where
  "artifact_digest field v = bindE (gt_text field v) (\<lambda>d.
     if is_sha256 d then Inr d else Inl (Error (field @ '' must be a lowercase SHA-256 digest'')))"

definition starts_with :: "string \<Rightarrow> string \<Rightarrow> bool" where
  "starts_with pre s \<longleftrightarrow> take (length pre) s = pre"

definition canonicalTestPath :: "string \<Rightarrow> jsval \<Rightarrow> string res" where
  "canonicalTestPath field v = bindE (gt_text field v) (\<lambda>s.
     if \<not> starts_with ''tests/'' s \<or> length s = length ''tests/'' \<or> \<not> canonical_path s
     then Inl (Error (field @ '' must be a canonical path below tests/'')) else Inr s)"

definition canonicalSupportPath :: "string \<Rightarrow> jsval \<Rightarrow> string res" where
  "canonicalSupportPath field v = bindE (canonicalTestPath field v) (\<lambda>s.
     if starts_with ''tests/support/'' s then Inr s else Inl (Error (field @ '' must be below tests/support/'')))"

definition test_path :: "string \<Rightarrow> bool" where
  "test_path s \<longleftrightarrow> is_text s \<and> starts_with ''tests/'' s \<and> length s \<noteq> 6 \<and> canonical_path s"

lemma artifact_digest_wf: "artifact_digest f v = Inr d \<Longrightarrow> is_sha256 d"
  by (auto simp: artifact_digest_def split: if_splits)

lemma artifact_digest_js [simp]: "is_sha256 d \<Longrightarrow> artifact_digest f (JStr d) = Inr d"
  by (simp add: artifact_digest_def is_sha256_text del: bindE_eq_Inr)

lemma canonicalTestPath_wf: "canonicalTestPath f v = Inr s \<Longrightarrow> test_path s"
  by (auto simp: canonicalTestPath_def test_path_def split: if_splits)

lemma canonicalTestPath_js [simp]: "test_path s \<Longrightarrow> canonicalTestPath f (JStr s) = Inr s"
  by (simp add: canonicalTestPath_def test_path_def del: bindE_eq_Inr)

subsection \<open>Support artifacts and candidate sources\<close>

record RequirementTestSupportArtifact =
  tsa_ownerRequirementId :: string
  tsa_supportPath :: string
  tsa_digest :: string
  tsa_byteLength :: nat

definition new_RequirementTestSupportArtifact :: "jsval \<Rightarrow> RequirementTestSupportArtifact res" where
  "new_RequirementTestSupportArtifact arg = bindE (destructure arg) (\<lambda>ob.
     bindE (gt_text ''Requirement test support ownerRequirementId'' (fld ob ''ownerRequirementId'')) (\<lambda>i.
     bindE (canonicalSupportPath ''Requirement test support path'' (fld ob ''supportPath'')) (\<lambda>p.
     bindE (artifact_digest ''Requirement test support digest'' (fld ob ''digest'')) (\<lambda>d.
     bindE (nonNegativeInteger ''Requirement test support byteLength'' (fld ob ''byteLength'')) (\<lambda>n.
     Inr \<lparr>tsa_ownerRequirementId = i, tsa_supportPath = p, tsa_digest = d, tsa_byteLength = n\<rparr>)))))"

definition support_fromJSON :: "jsval \<Rightarrow> RequirementTestSupportArtifact res" where
  "support_fromJSON v = bindE (exactKeys [''ownerRequirementId'', ''supportPath'', ''digest'', ''byteLength'']
     ''Requirement test support artifact'' v) (\<lambda>_. new_RequirementTestSupportArtifact v)"

definition RequirementTestSupportArtifact_toJSON :: "RequirementTestSupportArtifact \<Rightarrow> jsval" where
  "RequirementTestSupportArtifact_toJSON a = JObj
     [(''ownerRequirementId'', JStr (tsa_ownerRequirementId a)), (''supportPath'', JStr (tsa_supportPath a)),
      (''digest'', JStr (tsa_digest a)), (''byteLength'', JInt (int (tsa_byteLength a)))]"

definition wf_RequirementTestSupportArtifact :: "RequirementTestSupportArtifact \<Rightarrow> bool" where
  "wf_RequirementTestSupportArtifact a \<longleftrightarrow> is_text (tsa_ownerRequirementId a) \<and> test_path (tsa_supportPath a) \<and>
     starts_with ''tests/support/'' (tsa_supportPath a) \<and> is_sha256 (tsa_digest a) \<and> is_safe (tsa_byteLength a)"

interpretation support_artifact: json_codec support_fromJSON wf_RequirementTestSupportArtifact
  RequirementTestSupportArtifact_toJSON
proof (unfold_locales, goal_cases)
  case (1 v x)
  then show ?case
    by (auto simp: support_fromJSON_def new_RequirementTestSupportArtifact_def wf_RequirementTestSupportArtifact_def
        canonicalSupportPath_def dest: canonicalTestPath_wf artifact_digest_wf nonNegativeInteger_wf split: if_splits)
next
  case (2 x)
  then show ?case
    by (simp add: support_fromJSON_def new_RequirementTestSupportArtifact_def wf_RequirementTestSupportArtifact_def
        canonicalSupportPath_def RequirementTestSupportArtifact_toJSON_def del: bindE_eq_Inr)
qed (simp add: RequirementTestSupportArtifact_toJSON_def)

record RequirementTestCandidateSource =
  tcs_testPath :: string
  tcs_digest :: string
  tcs_byteLength :: nat

definition new_RequirementTestCandidateSource :: "jsval \<Rightarrow> RequirementTestCandidateSource res" where
  "new_RequirementTestCandidateSource arg = bindE (destructure arg) (\<lambda>ob.
     bindE (canonicalTestPath ''Requirement test candidate source path'' (fld ob ''testPath'')) (\<lambda>p.
     if starts_with ''tests/support/'' p
     then Inl (Error ''Requirement test candidate source must not be a support artifact'') else
     bindE (artifact_digest ''Requirement test candidate source digest'' (fld ob ''digest'')) (\<lambda>d.
     bindE (nonNegativeInteger ''Requirement test candidate source byteLength'' (fld ob ''byteLength'')) (\<lambda>n.
     Inr \<lparr>tcs_testPath = p, tcs_digest = d, tcs_byteLength = n\<rparr>))))"

definition source_fromJSON :: "jsval \<Rightarrow> RequirementTestCandidateSource res" where
  "source_fromJSON v = bindE (exactKeys [''testPath'', ''digest'', ''byteLength''] ''Requirement test candidate source'' v)
     (\<lambda>_. new_RequirementTestCandidateSource v)"

definition RequirementTestCandidateSource_toJSON :: "RequirementTestCandidateSource \<Rightarrow> jsval" where
  "RequirementTestCandidateSource_toJSON s = JObj
     [(''testPath'', JStr (tcs_testPath s)), (''digest'', JStr (tcs_digest s)), (''byteLength'', JInt (int (tcs_byteLength s)))]"

definition wf_RequirementTestCandidateSource :: "RequirementTestCandidateSource \<Rightarrow> bool" where
  "wf_RequirementTestCandidateSource s \<longleftrightarrow> test_path (tcs_testPath s) \<and> \<not> starts_with ''tests/support/'' (tcs_testPath s) \<and>
     is_sha256 (tcs_digest s) \<and> is_safe (tcs_byteLength s)"

interpretation candidate_source: json_codec source_fromJSON wf_RequirementTestCandidateSource
  RequirementTestCandidateSource_toJSON
proof (unfold_locales, goal_cases)
  case (1 v x)
  then show ?case
    by (auto simp: source_fromJSON_def new_RequirementTestCandidateSource_def wf_RequirementTestCandidateSource_def
        dest: canonicalTestPath_wf artifact_digest_wf nonNegativeInteger_wf split: if_splits)
next
  case (2 x)
  then show ?case
    by (simp add: source_fromJSON_def new_RequirementTestCandidateSource_def wf_RequirementTestCandidateSource_def
        RequirementTestCandidateSource_toJSON_def del: bindE_eq_Inr)
qed (simp add: RequirementTestCandidateSource_toJSON_def)

text \<open>A \<open>Buffer\<close> is the list of its bytes; \<open>createHash("sha256").update(bytes).digest("hex")\<close>.\<close>

definition bytes_digest :: "nat list \<Rightarrow> string" where
  "bytes_digest bytes = concat (map word_hex (sha256_words bytes))"

definition source_fromBytes :: "jsval \<Rightarrow> nat list \<Rightarrow> RequirementTestCandidateSource res" where
  "source_fromBytes testPath bytes = new_RequirementTestCandidateSource (JObj
     [(''testPath'', testPath), (''digest'', JStr (bytes_digest bytes)), (''byteLength'', JInt (int (length bytes)))])"

definition support_fromBytes :: "jsval \<Rightarrow> jsval \<Rightarrow> nat list \<Rightarrow> RequirementTestSupportArtifact res" where
  "support_fromBytes owner supportPath bytes = new_RequirementTestSupportArtifact (JObj
     [(''ownerRequirementId'', owner), (''supportPath'', supportPath), (''digest'', JStr (bytes_digest bytes)),
      (''byteLength'', JInt (int (length bytes)))])"

definition tsa_matchesBytes :: "RequirementTestSupportArtifact \<Rightarrow> nat list \<Rightarrow> bool" where
  "tsa_matchesBytes a bytes \<longleftrightarrow> length bytes = tsa_byteLength a \<and> bytes_digest bytes = tsa_digest a"

lemma bytes_digest_sha: "is_sha256 (bytes_digest bytes)"
  unfolding bytes_digest_def is_sha256_def
  using concat_word_hex [of "sha256_words bytes"] by (simp add: length_sha256_words)

lemma support_matches_own_bytes: "support_fromBytes owner p bytes = Inr a \<Longrightarrow> tsa_matchesBytes a bytes"
  by (auto simp: support_fromBytes_def new_RequirementTestSupportArtifact_def tsa_matchesBytes_def nonNegativeInteger_def
      artifact_digest_def bytes_digest_sha is_sha256_text split: if_splits)

subsection \<open>Candidate bundles\<close>

record RequirementTestCandidateBundle =
  rcb_bundle :: RequirementTestBundleRevision
  rcb_sources :: "RequirementTestCandidateSource list"
  rcb_support :: "RequirementTestSupportArtifact list"
  rcb_digest :: string

definition source_line :: "RequirementTestCandidateSource \<Rightarrow> string" where
  "source_line s = ''source'' @ [CHR 0x00] @ tcs_testPath s @ [CHR 0x00] @ tcs_digest s @ [CHR 0x00] @ nat_text (tcs_byteLength s)"

definition support_line :: "RequirementTestSupportArtifact \<Rightarrow> string" where
  "support_line a = ''support'' @ [CHR 0x00] @ tsa_ownerRequirementId a @ [CHR 0x00] @ tsa_supportPath a @ [CHR 0x00]
     @ tsa_digest a @ [CHR 0x00] @ nat_text (tsa_byteLength a)"

definition candidate_digest :: "RequirementTestCandidateSource list \<Rightarrow> RequirementTestSupportArtifact list \<Rightarrow> string" where
  "candidate_digest sources support =
     sha256_hex (join [CHR 0x0A] (map source_line sources @ map support_line support))"

definition candidate_sources :: "compare \<Rightarrow> jsval \<Rightarrow> RequirementTestCandidateSource list res" where
  "candidate_sources lc v = (case v of
     JArr vs \<Rightarrow> if vs = [] then Inl (Error ''Requirement test candidate bundle sources must be non-empty'') else
       bindE (mapE source_fromJSON vs) (\<lambda>parsed. let sources = sort_by lc tcs_testPath parsed in
       if distinct (map tcs_testPath sources) then Inr sources
       else Inl (Error ''Requirement test candidate bundle sources must be unique''))
   | _ \<Rightarrow> Inl (Error ''Requirement test candidate bundle sources must be non-empty''))"

definition candidate_support :: "compare \<Rightarrow> jsval \<Rightarrow> RequirementTestSupportArtifact list res" where
  "candidate_support lc v =
     bindE (array_of (Error ''Requirement test candidate bundle support must be an array'') support_fromJSON v)
       (\<lambda>parsed. let support = sort_by lc tsa_supportPath parsed in
     if distinct (map tsa_supportPath support) then Inr support
     else Inl (Error ''Requirement test candidate bundle support paths must be unique''))"

definition new_RequirementTestCandidateBundle :: "compare \<Rightarrow> jsval \<Rightarrow> RequirementTestCandidateBundle res" where
  "new_RequirementTestCandidateBundle lc arg = bindE (destructure arg) (\<lambda>ob.
     bindE (bundle_fromJSON (fld ob ''bundle'')) (\<lambda>b.
     bindE (candidate_sources lc (fld ob ''sources'')) (\<lambda>sources.
     bindE (candidate_support lc (fld_or ob ''support'' (JArr []))) (\<lambda>support.
     if list_ex (\<lambda>a. tsa_supportPath a \<in> set (map tcs_testPath sources)) support
     then Inl (Error ''Requirement test candidate bundle cannot use one path as source and support'')
     else if sort (rbr_paths b) \<noteq> map tcs_testPath sources
     then Inl (Error ''Requirement test candidate bundle sources must exactly match bundle paths'')
     else Inr \<lparr>rcb_bundle = b, rcb_sources = sources, rcb_support = support, rcb_digest = candidate_digest sources support\<rparr>))))"

definition candidate_fromJSON :: "compare \<Rightarrow> jsval \<Rightarrow> RequirementTestCandidateBundle res" where
  "candidate_fromJSON lc v =
     bindE (exactKeys [''bundle'', ''sources'', ''support'', ''digest''] ''Requirement test candidate bundle'' v) (\<lambda>ob.
     bindE (new_RequirementTestCandidateBundle lc v) (\<lambda>c.
     if fld ob ''digest'' = JStr (rcb_digest c) then Inr c
     else Inl (Error ''Requirement test candidate bundle digest does not match sources'')))"

definition RequirementTestCandidateBundle_toJSON :: "RequirementTestCandidateBundle \<Rightarrow> jsval" where
  "RequirementTestCandidateBundle_toJSON c = JObj
     [(''bundle'', RequirementTestBundleRevision_toJSON (rcb_bundle c)),
      (''sources'', JArr (map RequirementTestCandidateSource_toJSON (rcb_sources c))),
      (''support'', JArr (map RequirementTestSupportArtifact_toJSON (rcb_support c))),
      (''digest'', JStr (rcb_digest c))]"

definition wf_RequirementTestCandidateBundle :: "compare \<Rightarrow> RequirementTestCandidateBundle \<Rightarrow> bool" where
  "wf_RequirementTestCandidateBundle lc c \<longleftrightarrow> wf_RequirementTestBundleRevision (rcb_bundle c) \<and>
     rcb_sources c \<noteq> [] \<and> list_all wf_RequirementTestCandidateSource (rcb_sources c) \<and>
     sort_by lc tcs_testPath (rcb_sources c) = rcb_sources c \<and> distinct (map tcs_testPath (rcb_sources c)) \<and>
     list_all wf_RequirementTestSupportArtifact (rcb_support c) \<and>
     sort_by lc tsa_supportPath (rcb_support c) = rcb_support c \<and> distinct (map tsa_supportPath (rcb_support c)) \<and>
     list_all (\<lambda>a. tsa_supportPath a \<notin> set (map tcs_testPath (rcb_sources c))) (rcb_support c) \<and>
     sort (rbr_paths (rcb_bundle c)) = map tcs_testPath (rcb_sources c) \<and>
     rcb_digest c = candidate_digest (rcb_sources c) (rcb_support c)"

lemma candidate_sources_wf:
  "collation lc \<Longrightarrow> candidate_sources lc v = Inr xs \<Longrightarrow> xs \<noteq> [] \<and> list_all wf_RequirementTestCandidateSource xs \<and>
   sort_by lc tcs_testPath xs = xs \<and> distinct (map tcs_testPath xs)"
proof -
  assume lc: "collation lc" and "candidate_sources lc v = Inr xs"
  then obtain vs ys where "vs \<noteq> []" "mapE source_fromJSON vs = Inr ys" and xs: "xs = sort_by lc tcs_testPath ys"
    "distinct (map tcs_testPath xs)"
    by (auto simp: candidate_sources_def Let_def split: jsval.splits if_splits)
  moreover from this have "list_all wf_RequirementTestCandidateSource ys" "ys \<noteq> []"
    by (auto simp: mapE_eq_Inr list_all2_conv_all_nth list_all_length intro: candidate_source.mk_wf)
  ultimately show ?thesis
    using sort_by_idem [OF lc] set_sort_by [of lc tcs_testPath ys]
    by (auto simp: list_all_iff simp del: set_sort_by)
qed

lemma candidate_support_wf:
  "collation lc \<Longrightarrow> candidate_support lc v = Inr xs \<Longrightarrow> list_all wf_RequirementTestSupportArtifact xs \<and>
   sort_by lc tsa_supportPath xs = xs \<and> distinct (map tsa_supportPath xs)"
proof -
  assume lc: "collation lc" and "candidate_support lc v = Inr xs"
  then obtain ys where ys: "array_of (Error ''Requirement test candidate bundle support must be an array'') support_fromJSON v = Inr ys"
    and xs: "xs = sort_by lc tsa_supportPath ys" "distinct (map tsa_supportPath xs)"
    by (auto simp: candidate_support_def Let_def split: if_splits)
  have "list_all wf_RequirementTestSupportArtifact ys"
    by (rule array_of_wf [OF ys]) (rule support_artifact.mk_wf)
  with xs show ?thesis using sort_by_idem [OF lc] by (auto simp: list_all_iff)
qed

lemma candidate_mk_wf:
  assumes "collation lc" "new_RequirementTestCandidateBundle lc v = Inr c"
  shows "wf_RequirementTestCandidateBundle lc c"
  using assms(2) candidate_sources_wf [OF assms(1)] candidate_support_wf [OF assms(1)]
  unfolding new_RequirementTestCandidateBundle_def wf_RequirementTestCandidateBundle_def bindE_eq_Inr if_refused
  by (fastforce simp: list_all_iff list_ex_iff dest: bundle_revision.mk_wf)

lemma candidate_mk_js:
  assumes "wf_RequirementTestCandidateBundle lc c"
  shows "candidate_fromJSON lc (RequirementTestCandidateBundle_toJSON c) = Inr c"
proof -
  have "mapE source_fromJSON (map RequirementTestCandidateSource_toJSON (rcb_sources c)) = Inr (rcb_sources c)"
    using assms array_of_js [of wf_RequirementTestCandidateSource "rcb_sources c" source_fromJSON
      RequirementTestCandidateSource_toJSON undefined] candidate_source.mk_js
    by (simp add: wf_RequirementTestCandidateBundle_def array_of_def)
  then have "candidate_sources lc (JArr (map RequirementTestCandidateSource_toJSON (rcb_sources c))) = Inr (rcb_sources c)"
    using assms by (simp add: candidate_sources_def wf_RequirementTestCandidateBundle_def)
  moreover have "candidate_support lc (JArr (map RequirementTestSupportArtifact_toJSON (rcb_support c))) = Inr (rcb_support c)"
    using assms by (simp add: candidate_support_def wf_RequirementTestCandidateBundle_def
        array_of_js [where P = wf_RequirementTestSupportArtifact] support_artifact.mk_js)
  ultimately show ?thesis
    using assms
    by (simp add: candidate_fromJSON_def new_RequirementTestCandidateBundle_def RequirementTestCandidateBundle_toJSON_def
        wf_RequirementTestCandidateBundle_def bundle_revision.mk_js list_ex_iff list_all_iff)
qed

text \<open>
  The sources are compared in \<open>localeCompare\<close> order with the bundle paths in code unit order: an accepted
  bundle has paths on which both orders agree.
\<close>

lemma candidate_orders_agree:
  "new_RequirementTestCandidateBundle lc v = Inr c \<Longrightarrow>
   map tcs_testPath (rcb_sources c) = sort (rbr_paths (rcb_bundle c)) \<and> sorted (map tcs_testPath (rcb_sources c))"
  unfolding new_RequirementTestCandidateBundle_def bindE_eq_Inr if_refused by auto (metis sorted_sort)

subsection \<open>Gate observations and their findings\<close>

lemma lit_of_literal: "t \<in> set S \<Longrightarrow> lit_of S e (JStr t) = Inr t"
  by simp

definition OBSERVATIONS :: "string list" where
  "OBSERVATIONS = [''assertion_failed'', ''assertion_passed'', ''invalid_test'', ''tooling_failure'', ''skipped'', ''missing'']"

record RequirementTestGateObservation =
  tgo_requirementId :: string
  tgo_specRevision :: SpecRevisionIdentity
  tgo_bundleRevision :: nat
  tgo_candidateDigest :: string
  tgo_testName :: string
  tgo_kind :: string
  tgo_sourceAttempt :: RequirementTestSourceAttempt

definition new_RequirementTestGateObservation :: "jsval \<Rightarrow> RequirementTestGateObservation res" where
  "new_RequirementTestGateObservation arg = bindE (destructure arg) (\<lambda>ob.
     bindE (gt_text ''Requirement test gate observation requirementId'' (fld ob ''requirementId'')) (\<lambda>i.
     bindE (new_SpecRevisionIdentity (fld ob ''specRevision'')) (\<lambda>s.
     bindE (positiveInteger ''Requirement test gate observation bundleRevision'' (fld ob ''bundleRevision'')) (\<lambda>r.
     bindE (artifact_digest ''Requirement test gate observation candidateDigest'' (fld ob ''candidateDigest'')) (\<lambda>d.
     bindE (gt_text ''Requirement test gate observation testName'' (fld ob ''testName'')) (\<lambda>n.
     bindE (lit_of OBSERVATIONS (Error ''Requirement test gate observation kind is invalid'') (fld ob ''kind'')) (\<lambda>k.
     bindE (sourceAttempt_fromJSON (fld ob ''sourceAttempt'')) (\<lambda>a.
     Inr \<lparr>tgo_requirementId = i, tgo_specRevision = s, tgo_bundleRevision = r, tgo_candidateDigest = d, tgo_testName = n,
       tgo_kind = k, tgo_sourceAttempt = a\<rparr>))))))))"

definition gateObservation_fromJSON :: "jsval \<Rightarrow> RequirementTestGateObservation res" where
  "gateObservation_fromJSON v = bindE (exactKeys [''requirementId'', ''specRevision'', ''bundleRevision'', ''candidateDigest'',
     ''testName'', ''kind'', ''sourceAttempt''] ''Requirement test gate observation'' v)
     (\<lambda>_. new_RequirementTestGateObservation v)"

definition RequirementTestGateObservation_toJSON :: "RequirementTestGateObservation \<Rightarrow> jsval" where
  "RequirementTestGateObservation_toJSON o1 = JObj
     [(''requirementId'', JStr (tgo_requirementId o1)), (''specRevision'', SpecRevisionIdentity_toJSON (tgo_specRevision o1)),
      (''bundleRevision'', JInt (int (tgo_bundleRevision o1))), (''candidateDigest'', JStr (tgo_candidateDigest o1)),
      (''testName'', JStr (tgo_testName o1)), (''kind'', JStr (tgo_kind o1)),
      (''sourceAttempt'', RequirementTestSourceAttempt_toJSON (tgo_sourceAttempt o1))]"

definition wf_RequirementTestGateObservation :: "RequirementTestGateObservation \<Rightarrow> bool" where
  "wf_RequirementTestGateObservation o1 \<longleftrightarrow> is_text (tgo_requirementId o1) \<and> wf_SpecRevisionIdentity (tgo_specRevision o1) \<and>
     is_safe (tgo_bundleRevision o1) \<and> 1 \<le> tgo_bundleRevision o1 \<and> is_sha256 (tgo_candidateDigest o1) \<and>
     is_text (tgo_testName o1) \<and> tgo_kind o1 \<in> set OBSERVATIONS \<and> wf_RequirementTestSourceAttempt (tgo_sourceAttempt o1)"

interpretation gate_observation: json_codec gateObservation_fromJSON wf_RequirementTestGateObservation
  RequirementTestGateObservation_toJSON
proof (unfold_locales, goal_cases)
  case (1 v x)
  then show ?case
    unfolding gateObservation_fromJSON_def new_RequirementTestGateObservation_def wf_RequirementTestGateObservation_def
    by (auto dest: positiveInteger_wf artifact_digest_wf spec_revision.mk_wf source_attempt.mk_wf)
next
  case (2 x)
  then show ?case
    by (simp add: gateObservation_fromJSON_def new_RequirementTestGateObservation_def wf_RequirementTestGateObservation_def
        RequirementTestGateObservation_toJSON_def spec_revision.mk_js source_attempt.mk_js lit_of_literal
        del: bindE_eq_Inr)
qed (simp add: RequirementTestGateObservation_toJSON_def)

record RequirementTestGateFinding =
  tgf_findingId :: string
  tgf_requirementId :: string
  tgf_category :: string
  tgf_reason :: string
  tgf_fingerprint :: string

definition new_RequirementTestGateFinding :: "jsval \<Rightarrow> RequirementTestGateFinding res" where
  "new_RequirementTestGateFinding arg = bindE (destructure arg) (\<lambda>ob.
     bindE (gt_text ''Requirement test Gate finding id'' (fld ob ''findingId'')) (\<lambda>i.
     bindE (gt_text ''Requirement test Gate finding requirementId'' (fld ob ''requirementId'')) (\<lambda>r.
     bindE (gt_text ''Requirement test Gate finding category'' (fld ob ''category'')) (\<lambda>c.
     bindE (gt_text ''Requirement test Gate finding reason'' (fld ob ''reason'')) (\<lambda>m.
     bindE (artifact_digest ''Requirement test Gate finding fingerprint'' (fld ob ''fingerprint'')) (\<lambda>f.
     Inr \<lparr>tgf_findingId = i, tgf_requirementId = r, tgf_category = c, tgf_reason = m, tgf_fingerprint = f\<rparr>))))))"

definition gateFinding_fromJSON :: "jsval \<Rightarrow> RequirementTestGateFinding res" where
  "gateFinding_fromJSON v = bindE (exactKeys [''findingId'', ''requirementId'', ''category'', ''reason'', ''fingerprint'']
     ''Requirement test Gate finding'' v) (\<lambda>_. new_RequirementTestGateFinding v)"

definition RequirementTestGateFinding_toJSON :: "RequirementTestGateFinding \<Rightarrow> jsval" where
  "RequirementTestGateFinding_toJSON f = JObj
     [(''findingId'', JStr (tgf_findingId f)), (''requirementId'', JStr (tgf_requirementId f)),
      (''category'', JStr (tgf_category f)), (''reason'', JStr (tgf_reason f)), (''fingerprint'', JStr (tgf_fingerprint f))]"

definition gate_finding_content :: "RequirementTestGateObservation \<Rightarrow> jsfields" where
  "gate_finding_content o1 =
     [(''findingId'', JStr (tgo_requirementId o1 @ ''-gate-'' @ nat_text (tgo_bundleRevision o1) @ ''-'' @ tgo_kind o1)),
      (''requirementId'', JStr (tgo_requirementId o1)), (''category'', JStr (tgo_kind o1)),
      (''reason'', JStr (''Requirement test Gate observed '' @ tgo_kind o1 @ '' for '' @ tgo_testName o1))]"

definition gateFinding_fromObservation :: "RequirementTestGateObservation \<Rightarrow> RequirementTestGateFinding res" where
  "gateFinding_fromObservation o1 = new_RequirementTestGateFinding (JObj (gate_finding_content o1 @
     [(''fingerprint'', JStr (sha256_hex (the (JSON_stringify (JObj (gate_finding_content o1))))))]))"

definition wf_RequirementTestGateFinding :: "RequirementTestGateFinding \<Rightarrow> bool" where
  "wf_RequirementTestGateFinding f \<longleftrightarrow> is_text (tgf_findingId f) \<and> is_text (tgf_requirementId f) \<and> is_text (tgf_category f) \<and>
     is_text (tgf_reason f) \<and> is_sha256 (tgf_fingerprint f)"

interpretation gate_finding: json_codec gateFinding_fromJSON wf_RequirementTestGateFinding RequirementTestGateFinding_toJSON
proof (unfold_locales, goal_cases)
  case (1 v x)
  then show ?case
    unfolding gateFinding_fromJSON_def new_RequirementTestGateFinding_def wf_RequirementTestGateFinding_def
    by (auto dest: artifact_digest_wf)
next
  case (2 x)
  then show ?case
    by (simp add: gateFinding_fromJSON_def new_RequirementTestGateFinding_def wf_RequirementTestGateFinding_def
        RequirementTestGateFinding_toJSON_def del: bindE_eq_Inr)
qed (simp add: RequirementTestGateFinding_toJSON_def)

text \<open>Every observation has its finding.\<close>

lemma observation_kind_text: "k \<in> set OBSERVATIONS \<Longrightarrow> is_text k"
  by (auto simp: OBSERVATIONS_def is_text_def js_trim_def js_ws_def)

lemma gate_finding_total:
  assumes "wf_RequirementTestGateObservation o1"
  shows "\<exists>f. gateFinding_fromObservation o1 = Inr f \<and> tgf_requirementId f = tgo_requirementId o1 \<and> tgf_category f = tgo_kind o1"
proof -
  have t: "is_text (tgo_requirementId o1)" "is_text (tgo_kind o1)" "is_text (tgo_testName o1)"
    using assms observation_kind_text by (auto simp: wf_RequirementTestGateObservation_def)
  have R: "is_text ''Requirement''" by (simp add: is_text_def js_trim_def js_ws_def)
  have "is_text (tgo_requirementId o1 @ (''-gate-'' @ nat_text (tgo_bundleRevision o1) @ ''-'') @ tgo_kind o1)"
    "is_text (''Requirement'' @ ('' test Gate observed '' @ tgo_kind o1 @ '' for '') @ tgo_testName o1)"
    by (intro is_text_append t R)+
  with t show ?thesis
    by (simp add: gateFinding_fromObservation_def new_RequirementTestGateFinding_def gate_finding_content_def
        sha256_hex_shape del: JSON_stringify.simps bindE_eq_Inr)
qed

end
