(* ===== verification/Requirement_Test_Lifecycle.thy ===== *)
theory Requirement_Test_Lifecycle
  imports Requirement_Test_Artifacts
begin

section \<open>The Requirement test lifecycle policy\<close>

text \<open>
  Definition's policy for the preimplementation tests of one Requirement at a time
  (\<open>src/flow/definition.js\<close>, the part between \<open>RequirementTestStepObservation\<close> and
  \<open>resolveRequirementTestLifecycle\<close>), the connector instruction it selects
  (\<open>src/flow/lib/requirement-test-transition.js\<close>) with its application to the plan, the frontier
  projection of \<open>src/flow/engine/step-result.js\<close>, and the initial route.

  A value that the code checks with \<open>instanceof\<close> is a typed argument here.  An object literal handed to a
  constructor is a field list, so that a selection reads as in the source.
\<close>

subsection \<open>Observations\<close>

definition REQUIREMENT_TEST_SEMANTIC_LIMIT :: nat where
  "REQUIREMENT_TEST_SEMANTIC_LIMIT = 5"

definition REQUIREMENT_TEST_TOOLING_LIMIT :: nat where
  "REQUIREMENT_TEST_TOOLING_LIMIT = 3"

definition REQUIREMENT_TEST_STEP_OBSERVATIONS :: "string list" where
  "REQUIREMENT_TEST_STEP_OBSERVATIONS =
     [''review_pass'', ''review_advisory'', ''semantic_rejection'', ''tooling_failure'', ''external_blocked'']"

record RequirementTestStepObservation =
  rso_requirementId :: string
  rso_specRevision :: SpecRevisionIdentity
  rso_bundleRevision :: "nat option"
  rso_candidateDigest :: jsval
  rso_sourceAttempt :: "(string \<times> nat) option"
  rso_kind :: string
  rso_semanticFindingFingerprint :: "string option"

text \<open>\<open>sourceAttempt\<close> of an observation: a non-empty id, kept as it is, and a positive sequence.\<close>

definition observed_attempt :: "jsval \<Rightarrow> (string \<times> nat) res" where
  "observed_attempt v =
     (let e = Error ''Requirement test observation source Attempt is invalid'' in
      case propq v ''id'' of
        JStr i \<Rightarrow> if i = [] then Inl e else bindE (int_from 1 e (propq v ''sequence'')) (\<lambda>n. Inr (i, n))
      | _ \<Rightarrow> Inl e)"

definition new_RequirementTestStepObservation ::
  "SpecRevisionIdentity option \<Rightarrow> jsfields \<Rightarrow> RequirementTestStepObservation res" where
  "new_RequirementTestStepObservation specRevision ob =
     bindE (text_or (Error ''Requirement test observation requirementId is required'') (fld ob ''requirementId'')) (\<lambda>i.
     case specRevision of
       None \<Rightarrow> Inl (Error ''Requirement test observation Spec revision must be typed'')
     | Some s \<Rightarrow>
     bindE (nullable (positiveInteger ''Requirement test observation bundle revision'') (fld_or ob ''bundleRevision'' JNull)) (\<lambda>r.
     let d = fld_or ob ''candidateDigest'' JNull; a = fld_or ob ''sourceAttempt'' JNull in
     if (d = JNull) \<noteq> (a = JNull)
     then Inl (Error ''Requirement test observation candidate identity must be wholly present or absent'')
     else if d \<noteq> JNull \<and> \<not> sha256_test d then Inl (Error ''Requirement test observation candidate digest is invalid'') else
     bindE (nullable observed_attempt a) (\<lambda>att.
     bindE (lit_of REQUIREMENT_TEST_STEP_OBSERVATIONS (Error ''Requirement test step observation kind is invalid'')
              (fld ob ''kind'')) (\<lambda>k.
     bindE (nullable (sha_text (Error ''Requirement test semantic observation fingerprint is invalid''))
              (fld_or ob ''semanticFindingFingerprint'' JNull)) (\<lambda>f.
     if (k = ''semantic_rejection'') \<noteq> (f \<noteq> None)
     then Inl (Error ''Requirement test semantic rejection must bind one canonical finding fingerprint'')
     else Inr \<lparr>rso_requirementId = i, rso_specRevision = s, rso_bundleRevision = r, rso_candidateDigest = d,
       rso_sourceAttempt = att, rso_kind = k, rso_semanticFindingFingerprint = f\<rparr>)))))"

definition wf_RequirementTestStepObservation :: "RequirementTestStepObservation \<Rightarrow> bool" where
  "wf_RequirementTestStepObservation s \<longleftrightarrow> is_text (rso_requirementId s) \<and>
     pred_option (\<lambda>n. is_safe n \<and> 1 \<le> n) (rso_bundleRevision s) \<and>
     (rso_candidateDigest s = JNull \<longleftrightarrow> rso_sourceAttempt s = None) \<and>
     (rso_candidateDigest s \<noteq> JNull \<longrightarrow> sha256_test (rso_candidateDigest s)) \<and>
     pred_option (\<lambda>(i, n). i \<noteq> [] \<and> is_safe n \<and> 1 \<le> n) (rso_sourceAttempt s) \<and>
     rso_kind s \<in> set REQUIREMENT_TEST_STEP_OBSERVATIONS \<and> pred_option is_sha256 (rso_semanticFindingFingerprint s) \<and>
     (rso_kind s = ''semantic_rejection'' \<longleftrightarrow> rso_semanticFindingFingerprint s \<noteq> None)"

text \<open>A structural rejection binds the finding document of a repair
  (\<open>src/flow/lib/test-review-repair.js\<close>) to its candidate.\<close>

record TestReviewRepairFinding =
  trrf_findingId :: string
  trrf_fingerprint :: string
  trrf_document :: jsval

definition requiredString :: "string \<Rightarrow> nat \<Rightarrow> jsval \<Rightarrow> string res" where
  "requiredString field maxLength v =
     bindE (text_or (Error (field @ '' must be a non-empty string'')) v) (\<lambda>s.
     if length s > maxLength then Inl (Error (field @ '' exceeds '' @ nat_text maxLength @ '' characters'')) else Inr s)"

definition requiredDigest :: "string \<Rightarrow> jsval \<Rightarrow> string res" where
  "requiredDigest field v = bindE (requiredString field 64 v) (\<lambda>d.
     if is_sha256 d then Inr d else Inl (Error (field @ '' must be a SHA-256 digest'')))"

definition new_TestReviewRepairFinding :: "jsval \<Rightarrow> TestReviewRepairFinding res" where
  "new_TestReviewRepairFinding v =
     (let input = (if v = JUndef then JObj [] else v) in
      bindE (prop_of input ''findingId'') (\<lambda>i0.
      bindE (requiredString ''test review repair findingId'' 500 i0) (\<lambda>i.
      bindE (requiredDigest ''test review repair finding fingerprint'' (propq input ''fingerprint'')) (\<lambda>f.
      bindE (object_or (Error ''test review repair finding must be an object'') input) (\<lambda>_.
      Inr \<lparr>trrf_findingId = i, trrf_fingerprint = f, trrf_document = input\<rparr>)))))"

text \<open>\<open>String(v)\<close> and the falsy values.\<close>

fun js_String :: "jsval \<Rightarrow> string" where
  "js_String JUndef = ''undefined''"
| "js_String JNull = ''null''"
| "js_String (JBool b) = (if b then ''true'' else ''false'')"
| "js_String (JInt n) = int_text n"
| "js_String (JNum t) = t"
| "js_String (JStr s) = s"
| "js_String (JArr vs) = join '','' (map (\<lambda>v. if v = JNull \<or> v = JUndef then [] else js_String v) vs)"
| "js_String (JObj ob) = ''[object Object]''"

definition falsy :: "jsval \<Rightarrow> bool" where
  "falsy v \<longleftrightarrow> v \<in> {JUndef, JNull, JBool False, JInt 0, JNum ''NaN'', JStr []}"

record RequirementTestStructuralRejectionObservation =
  rsr_stepId :: string
  rsr_requirementId :: string
  rsr_specRevision :: SpecRevisionIdentity
  rsr_bundleRevision :: nat
  rsr_sourceAttempt :: RequirementTestSourceAttempt
  rsr_candidate :: RequirementTestCandidateBundle
  rsr_finding :: TestReviewRepairFinding
  rsr_semanticFindingFingerprint :: string

definition candidate_bound ::
  "RequirementTestCandidateBundle \<Rightarrow> string \<Rightarrow> SpecRevisionIdentity \<Rightarrow> nat \<Rightarrow> RequirementTestSourceAttempt \<Rightarrow> bool" where
  "candidate_bound c i s r a \<longleftrightarrow> rbr_requirementId (rcb_bundle c) = i \<and> sri_equals (rbr_specRevision (rcb_bundle c)) s \<and>
     rbr_revision (rcb_bundle c) = r \<and> rsa_id (rbl_sourceAttempt (rbr_lineage (rcb_bundle c))) = rsa_id a \<and>
     rsa_sequence (rbl_sourceAttempt (rbr_lineage (rcb_bundle c))) = rsa_sequence a"

definition finding_bound ::
  "jsval \<Rightarrow> RequirementTestCandidateBundle \<Rightarrow> string \<Rightarrow> SpecRevisionIdentity \<Rightarrow> nat \<Rightarrow> RequirementTestSourceAttempt \<Rightarrow> bool" where
  "finding_bound doc c i s r a \<longleftrightarrow> propq doc ''requirementId'' = JStr i \<and> propq doc ''bundleRevision'' = JInt (int r) \<and>
     propq doc ''candidateDigest'' = JStr (rcb_digest c) \<and> propq (propq doc ''sourceAttempt'') ''id'' = JStr (rsa_id a) \<and>
     propq (propq doc ''sourceAttempt'') ''sequence'' = JInt (int (rsa_sequence a)) \<and>
     JSON_stringify (propq doc ''specRevision'') = JSON_stringify (SpecRevisionIdentity_toJSON s)"

definition new_RequirementTestStructuralRejectionObservation ::
  "jsval \<Rightarrow> jsval \<Rightarrow> RequirementTestCandidateBundle option \<Rightarrow> jsval \<Rightarrow> RequirementTestStructuralRejectionObservation res" where
  "new_RequirementTestStructuralRejectionObservation stepId binding candidate finding =
     bindE (lit_of [''test-generate'', ''test-repair''] (Error ''Requirement test structural rejection leaf is invalid'') stepId) (\<lambda>step.
     bindE (object_or (Error ''Requirement test structural rejection binding is required'') binding) (\<lambda>ob.
     let i = js_trim (if falsy (fld ob ''requirementId'') then [] else js_String (fld ob ''requirementId'')) in
     if i = [] then Inl (Error ''Requirement test structural rejection Requirement is required'') else
     bindE (new_SpecRevisionIdentity (fld ob ''specRevision'')) (\<lambda>s.
     bindE (positiveInteger ''Requirement test structural rejection bundle revision'' (fld ob ''bundleRevision'')) (\<lambda>r.
     bindE (sourceAttempt_fromJSON (fld ob ''sourceAttempt'')) (\<lambda>a.
     case candidate of
       None \<Rightarrow> Inl (Error ''Requirement test structural rejection candidate does not match its binding'')
     | Some c \<Rightarrow>
     if \<not> candidate_bound c i s r a
     then Inl (Error ''Requirement test structural rejection candidate does not match its binding'') else
     bindE (new_TestReviewRepairFinding finding) (\<lambda>f.
     if \<not> finding_bound (trrf_document f) c i s r a
     then Inl (Error ''Requirement test structural rejection finding does not bind its candidate'')
     else Inr \<lparr>rsr_stepId = step, rsr_requirementId = i, rsr_specRevision = s, rsr_bundleRevision = r, rsr_sourceAttempt = a,
       rsr_candidate = c, rsr_finding = f, rsr_semanticFindingFingerprint = trrf_fingerprint f\<rparr>))))))"

definition wf_structural :: "compare \<Rightarrow> RequirementTestStructuralRejectionObservation \<Rightarrow> bool" where
  "wf_structural lc o1 \<longleftrightarrow> wf_RequirementTestCandidateBundle lc (rsr_candidate o1) \<and>
     candidate_bound (rsr_candidate o1) (rsr_requirementId o1) (rsr_specRevision o1) (rsr_bundleRevision o1) (rsr_sourceAttempt o1) \<and>
     is_sha256 (rsr_semanticFindingFingerprint o1)"

datatype observation =
    GateObs RequirementTestGateObservation
  | CandidateObs RequirementTestCandidateBundle
  | StepObs RequirementTestStepObservation
  | StructuralObs RequirementTestStructuralRejectionObservation

fun observation_requirementId :: "observation \<Rightarrow> string" where
  "observation_requirementId (GateObs g) = tgo_requirementId g"
| "observation_requirementId (CandidateObs c) = rbr_requirementId (rcb_bundle c)"
| "observation_requirementId (StepObs s) = rso_requirementId s"
| "observation_requirementId (StructuralObs r) = rsr_requirementId r"

fun observation_specRevision :: "observation \<Rightarrow> SpecRevisionIdentity" where
  "observation_specRevision (GateObs g) = tgo_specRevision g"
| "observation_specRevision (CandidateObs c) = rbr_specRevision (rcb_bundle c)"
| "observation_specRevision (StepObs s) = rso_specRevision s"
| "observation_specRevision (StructuralObs r) = rsr_specRevision r"

fun observation_kind :: "observation \<Rightarrow> string" where
  "observation_kind (GateObs g) = tgo_kind g"
| "observation_kind (CandidateObs c) = ''candidate_saved''"
| "observation_kind (StepObs s) = rso_kind s"
| "observation_kind (StructuralObs r) = ''structural_rejection''"

text \<open>The candidate an observation carries, and the fingerprint it charges.\<close>

fun observed_candidate :: "observation \<Rightarrow> RequirementTestCandidateBundle option" where
  "observed_candidate (CandidateObs c) = Some c"
| "observed_candidate (StructuralObs r) = Some (rsr_candidate r)"
| "observed_candidate _ = None"

fun observation_fingerprint :: "observation \<Rightarrow> string option" where
  "observation_fingerprint (StepObs s) = rso_semanticFindingFingerprint s"
| "observation_fingerprint (StructuralObs r) = Some (rsr_semanticFindingFingerprint r)"
| "observation_fingerprint _ = None"

fun observation_bundleRevision :: "observation \<Rightarrow> nat option" where
  "observation_bundleRevision (GateObs g) = Some (tgo_bundleRevision g)"
| "observation_bundleRevision (StepObs s) = rso_bundleRevision s"
| "observation_bundleRevision (CandidateObs c) = Some (rbr_revision (rcb_bundle c))"
| "observation_bundleRevision (StructuralObs r) = Some (rsr_bundleRevision r)"

fun wf_observation :: "compare \<Rightarrow> observation \<Rightarrow> bool" where
  "wf_observation lc (GateObs g) = wf_RequirementTestGateObservation g"
| "wf_observation lc (CandidateObs c) = wf_RequirementTestCandidateBundle lc c"
| "wf_observation lc (StepObs s) = wf_RequirementTestStepObservation s"
| "wf_observation lc (StructuralObs r) = wf_structural lc r"

subsection \<open>Lifecycle facts\<close>

record RequirementTestLifecycleFacts =
  rlf_authority :: RequirementTestLifecycleAuthority
  rlf_plan :: RequirementTestPlan
  rlf_leaf :: string
  rlf_workItem :: RequirementTestWorkItem
  rlf_observation :: observation
  rlf_observationKind :: string
  rlf_candidateBundle :: "RequirementTestCandidateBundle option"

fun observation_fits :: "string \<Rightarrow> observation \<Rightarrow> bool" where
  "observation_fits leaf (GateObs g) \<longleftrightarrow> leaf = ''test-gate''"
| "observation_fits leaf (StepObs s) \<longleftrightarrow> leaf \<noteq> ''test-gate''"
| "observation_fits leaf _ \<longleftrightarrow> leaf = ''test-generate'' \<or> leaf = ''test-repair''"

definition permitted :: "string \<Rightarrow> string \<Rightarrow> string option" where
  "permitted leaf kind =
     (if leaf = ''test-generate'' then map_of [(''candidate_saved'', ''in_progress''), (''structural_rejection'', ''in_progress''),
        (''tooling_failure'', ''in_progress''), (''external_blocked'', ''in_progress'')] kind
      else if leaf = ''test-review'' then map_of [(''review_pass'', ''candidate_saved''), (''review_advisory'', ''candidate_saved''),
        (''semantic_rejection'', ''candidate_saved''), (''tooling_failure'', ''candidate_saved''),
        (''external_blocked'', ''candidate_saved'')] kind
      else if leaf = ''test-repair'' then map_of [(''candidate_saved'', ''reviewed''), (''structural_rejection'', ''reviewed''),
        (''tooling_failure'', ''reviewed''), (''external_blocked'', ''reviewed'')] kind
      else map_of [(''assertion_failed'', ''reviewed''), (''assertion_passed'', ''reviewed''), (''invalid_test'', ''reviewed''),
        (''skipped'', ''reviewed''), (''missing'', ''reviewed''), (''tooling_failure'', ''reviewed'')] kind)"

text \<open>A produced candidate belongs to the active producer Attempt and directly follows the bundle of the
  work item.\<close>

definition produced_check ::
  "RequirementTestLifecycleAuthority \<Rightarrow> string \<Rightarrow> RequirementTestWorkItem \<Rightarrow> RequirementTestCandidateBundle \<Rightarrow> unit res" where
  "produced_check authority leaf w c =
     (let producer = rbl_sourceAttempt (rbr_lineage (rcb_bundle c)) in
      if rsa_id producer \<noteq> rsa_id (rla_attempt authority) \<or> rsa_sequence producer \<noteq> rsa_sequence (rla_attempt authority)
      then Inl (Error ''Requirement test candidate lineage does not match its active producer Attempt'')
      else if leaf = ''test-generate'' then
        if wi_status w \<noteq> ''in_progress'' \<or> rbr_revision (rcb_bundle c) \<noteq> 1
        then Inl (Error ''Requirement test generation candidate requires in-progress revision 1 facts'') else Inr ()
      else if wi_status w \<noteq> ''reviewed''
      then Inl (Error ''Requirement test repair candidate must immediately succeed the reviewed bundle'')
      else case wi_bundleRevision w of
        None \<Rightarrow> Inl (TypeError ''Cannot read properties of null'')
      | Some b \<Rightarrow> if rbr_revision (rcb_bundle c) \<noteq> rbr_revision b + 1
            \<or> rbl_predecessorRevision (rbr_lineage (rcb_bundle c)) \<noteq> Some (rbr_revision b)
          then Inl (Error ''Requirement test repair candidate must immediately succeed the reviewed bundle'') else Inr ())"

text \<open>Other observations away from generation speak about the current candidate and its lineage.\<close>

definition current_check :: "RequirementTestWorkItem \<Rightarrow> RequirementTestCandidateBundle option \<Rightarrow> unit res" where
  "current_check w bound = (case bound of
     None \<Rightarrow> Inl (Error ''Requirement test lifecycle candidate bundle is not current'')
   | Some c \<Rightarrow> (case wi_bundleRevision w of
       None \<Rightarrow> Inl (TypeError ''Cannot read properties of null'')
     | Some b \<Rightarrow> if JSON_stringify (RequirementTestBundleRevision_toJSON (rcb_bundle c)) \<noteq>
           JSON_stringify (RequirementTestBundleRevision_toJSON b)
         then Inl (Error ''Requirement test lifecycle candidate bundle is not current'') else Inr ()))"

fun lineage_bound :: "observation \<Rightarrow> RequirementTestCandidateBundle option \<Rightarrow> RequirementTestBundleRevision option \<Rightarrow> bool" where
  "lineage_bound (StepObs s) (Some c) (Some b) \<longleftrightarrow> rso_candidateDigest s = JStr (rcb_digest c) \<and>
     rso_sourceAttempt s = Some (rsa_id (rbl_sourceAttempt (rbr_lineage b)), rsa_sequence (rbl_sourceAttempt (rbr_lineage b)))"
| "lineage_bound (GateObs g) (Some c) (Some b) \<longleftrightarrow> tgo_candidateDigest g = rcb_digest c \<and>
     rsa_id (tgo_sourceAttempt g) = rsa_id (rbl_sourceAttempt (rbr_lineage b)) \<and>
     rsa_sequence (tgo_sourceAttempt g) = rsa_sequence (rbl_sourceAttempt (rbr_lineage b))"
| "lineage_bound _ _ _ \<longleftrightarrow> False"

definition new_RequirementTestLifecycleFacts ::
  "RequirementTestLifecycleAuthority \<Rightarrow> RequirementTestPlan \<Rightarrow> string \<Rightarrow> observation \<Rightarrow> RequirementTestCandidateBundle option \<Rightarrow>
   RequirementTestLifecycleFacts res" where
  "new_RequirementTestLifecycleFacts authority p leaf obs candidateBundle =
     (if leaf \<notin> set LIFECYCLE_LEAVES then Inl (Error ''Requirement test lifecycle leaf is invalid'')
      else if rla_leaf authority \<noteq> leaf then Inl (Error ''Requirement test lifecycle authority does not match its leaf'') else
      bindE (activeWorkItem p) (\<lambda>active. case active of
        None \<Rightarrow> Inl (Error ''Requirement test lifecycle requires one active work item'')
      | Some w \<Rightarrow>
      if \<not> observation_fits leaf obs
      then Inl (Error ''Requirement test lifecycle observation type does not match its leaf'')
      else if observation_requirementId obs \<noteq> wi_requirementId w \<or> \<not> sri_equals (wi_specRevision w) (observation_specRevision obs)
      then Inl (Error ''Requirement test lifecycle observation has stale Requirement or Spec identity'') else
      let produced = observed_candidate obs; bound = (case produced of None \<Rightarrow> candidateBundle | Some c \<Rightarrow> Some c) in
      bindE (case produced of
          Some c \<Rightarrow> produced_check authority leaf w c
        | None \<Rightarrow> if observation_bundleRevision obs \<noteq> map_option rbr_revision (wi_bundleRevision w)
            then Inl (Error ''Requirement test lifecycle observation has a stale bundle revision'') else Inr ()) (\<lambda>_.
      if permitted leaf (observation_kind obs) \<noteq> Some (wi_status w)
      then Inl (Error ''Requirement test lifecycle leaf, observation, and status do not match'') else
      bindE (if leaf \<noteq> ''test-generate'' \<and> produced = None then current_check w bound else Inr ()) (\<lambda>_.
      if leaf \<noteq> ''test-generate'' \<and> produced = None \<and> \<not> lineage_bound obs bound (wi_bundleRevision w)
      then Inl (Error (if leaf = ''test-gate'' then ''Requirement test Gate observation is not bound to current candidate lineage''
        else ''Requirement test lifecycle observation is not bound to current candidate lineage''))
      else Inr \<lparr>rlf_authority = authority, rlf_plan = p, rlf_leaf = leaf, rlf_workItem = w, rlf_observation = obs,
        rlf_observationKind = observation_kind obs, rlf_candidateBundle = bound\<rparr>))))"

subsection \<open>Connector decisions\<close>

definition REQUIREMENT_TEST_LEAF_IDS :: "string list" where
  "REQUIREMENT_TEST_LEAF_IDS = [''test-generate'', ''test-review'', ''test-repair'', ''test-gate'']"

definition TARGETS :: "string list" where
  "TARGETS = REQUIREMENT_TEST_LEAF_IDS @ [''implement'']"

definition DISPOSITIONS :: "string list" where
  "DISPOSITIONS = [''advance'', ''semantic_retry'', ''tooling_retry'', ''promote'', ''defer'', ''external_blocked'']"

definition DECISION_STATUSES :: "string list" where
  "DECISION_STATUSES = [''in_progress'', ''candidate_saved'', ''reviewed'', ''promoted'', ''deferred'']"

record RequirementTestLifecycleDecision =
  rtd_disposition :: string
  rtd_target :: string
  rtd_nextStatus :: string
  rtd_budgetIncrement :: "string option"
  rtd_requirementId :: string
  rtd_nextRequirementId :: "string option"
  rtd_repairRequired :: "bool option"
  rtd_acceptanceHandoff :: bool
  rtd_candidateBundle :: "RequirementTestCandidateBundle option"
  rtd_semanticFinding :: "RequirementTestSemanticFinding option"
  rtd_facts :: "RequirementTestLifecycleFacts option"

definition nonempty_text :: "jserr \<Rightarrow> jsval \<Rightarrow> string res" where
  "nonempty_text e v = (case v of JStr s \<Rightarrow> if s = [] then Inl e else Inr s | _ \<Rightarrow> Inl e)"

definition repair_mode :: "string \<Rightarrow> string \<Rightarrow> string \<Rightarrow> jsval" where
  "repair_mode disposition target nextStatus =
     (if target = ''test-repair'' then JBool True
      else if target = ''test-gate'' \<and> disposition = ''advance'' \<and> nextStatus = ''reviewed'' then JBool False else JNull)"

definition carriesCandidate :: "string \<Rightarrow> string \<Rightarrow> string \<Rightarrow> bool" where
  "carriesCandidate disposition target nextStatus \<longleftrightarrow> disposition = ''advance'' \<and> nextStatus = ''candidate_saved''
     \<or> disposition = ''semantic_retry'' \<and> target = ''test-repair'' \<or> disposition = ''defer''"

definition new_RequirementTestLifecycleDecision ::
  "jsfields \<Rightarrow> RequirementTestCandidateBundle option \<Rightarrow> RequirementTestSemanticFinding option \<Rightarrow>
   RequirementTestLifecycleFacts option \<Rightarrow> RequirementTestLifecycleDecision res" where
  "new_RequirementTestLifecycleDecision ob candidateBundle semanticFinding facts =
     bindE (lit_of DISPOSITIONS (Error ''Requirement test lifecycle disposition is invalid'') (fld ob ''disposition'')) (\<lambda>d.
     bindE (lit_of TARGETS (Error ''Requirement test lifecycle target is invalid'') (fld ob ''target'')) (\<lambda>t.
     bindE (lit_of DECISION_STATUSES (Error ''Requirement test lifecycle next status is invalid'') (fld ob ''nextStatus'')) (\<lambda>st.
     bindE (nullable (lit_of BUDGET_KINDS (Error ''Requirement test lifecycle budget increment is invalid''))
              (fld_or ob ''budgetIncrement'' JNull)) (\<lambda>bi.
     if (bi = Some ''autoSemantic'' \<or> bi = Some ''manualSemantic'') \<noteq> (semanticFinding \<noteq> None)
     then Inl (Error ''Requirement test lifecycle semantic budget increment must bind one canonical finding'') else
     bindE (nonempty_text (Error ''Requirement test lifecycle requirementId is required'') (fld ob ''requirementId'')) (\<lambda>i.
     bindE (nullable (nonempty_text (Error ''Requirement test lifecycle nextRequirementId is invalid''))
              (fld_or ob ''nextRequirementId'' JNull)) (\<lambda>n.
     if fld_or ob ''repairRequired'' JNull \<noteq> repair_mode d t st
     then Inl (Error ''Requirement test lifecycle repair mode does not match target'')
     else if fld_or ob ''acceptanceHandoff'' (JBool False) \<noteq> JBool (d = ''defer'')
     then Inl (Error ''Requirement test lifecycle acceptance handoff does not match disposition'')
     else if candidateBundle \<noteq> None \<and> \<not> carriesCandidate d t st
       \<or> t = ''test-generate'' \<and> d = ''advance'' \<and> st = ''candidate_saved'' \<and> candidateBundle = None
     then Inl (Error ''Requirement test lifecycle candidate bundle does not match decision'')
     else Inr \<lparr>rtd_disposition = d, rtd_target = t, rtd_nextStatus = st, rtd_budgetIncrement = bi, rtd_requirementId = i,
       rtd_nextRequirementId = n,
       rtd_repairRequired = (case repair_mode d t st of JBool b \<Rightarrow> Some b | _ \<Rightarrow> None),
       rtd_acceptanceHandoff = (d = ''defer''), rtd_candidateBundle = candidateBundle, rtd_semanticFinding = semanticFinding,
       rtd_facts = facts\<rparr>))))))"

definition decision_fromJSON :: "compare \<Rightarrow> jsval \<Rightarrow> RequirementTestLifecycleDecision res" where
  "decision_fromJSON lc v =
     bindE (exactKeys [''disposition'', ''target'', ''nextStatus'', ''budgetIncrement'', ''requirementId'', ''nextRequirementId'',
        ''repairRequired'', ''acceptanceHandoff'', ''candidateBundle'', ''semanticFinding'']
        ''Requirement test lifecycle decision'' v) (\<lambda>ob.
     bindE (nullable (candidate_fromJSON lc) (fld ob ''candidateBundle'')) (\<lambda>c.
     bindE (nullable finding_fromJSON (fld ob ''semanticFinding'')) (\<lambda>f.
     new_RequirementTestLifecycleDecision ob c f None)))"

definition RequirementTestLifecycleDecision_toJSON :: "RequirementTestLifecycleDecision \<Rightarrow> jsval" where
  "RequirementTestLifecycleDecision_toJSON d = JObj
     [(''disposition'', JStr (rtd_disposition d)), (''target'', JStr (rtd_target d)), (''nextStatus'', JStr (rtd_nextStatus d)),
      (''budgetIncrement'', js_opt JStr (rtd_budgetIncrement d)), (''requirementId'', JStr (rtd_requirementId d)),
      (''nextRequirementId'', js_opt JStr (rtd_nextRequirementId d)), (''repairRequired'', js_opt JBool (rtd_repairRequired d)),
      (''acceptanceHandoff'', JBool (rtd_acceptanceHandoff d)),
      (''candidateBundle'', js_opt RequirementTestCandidateBundle_toJSON (rtd_candidateBundle d)),
      (''semanticFinding'', js_opt RequirementTestSemanticFinding_toJSON (rtd_semanticFinding d))]"

definition sameRequirementTestLifecycleDecision ::
  "RequirementTestLifecycleDecision \<Rightarrow> RequirementTestLifecycleDecision \<Rightarrow> bool" where
  "sameRequirementTestLifecycleDecision a b \<longleftrightarrow>
     JSON_stringify (RequirementTestLifecycleDecision_toJSON a) = JSON_stringify (RequirementTestLifecycleDecision_toJSON b)"

definition continuesSourceAttempt :: "RequirementTestLifecycleDecision \<Rightarrow> bool" where
  "continuesSourceAttempt d \<longleftrightarrow> rtd_disposition d = ''advance'' \<and> rtd_target d = ''test-generate'' \<and>
     rtd_nextStatus d = ''candidate_saved'' \<and> rtd_nextRequirementId d \<noteq> None \<and> rtd_candidateBundle d \<noteq> None"

text \<open>The next Requirement is claimed in the plan that already carries the settled work item.\<close>

definition claim_next :: "string option \<Rightarrow> RequirementTestPlan \<Rightarrow> RequirementTestPlan res" where
  "claim_next next_id p = (case next_id of
     None \<Rightarrow> Inr p
   | Some i \<Rightarrow> bindE (plan_workItem p i) (\<lambda>found. case found of
       None \<Rightarrow> Inl (Error ''Requirement test lifecycle next Requirement is not pending'')
     | Some w \<Rightarrow> if wi_status w \<noteq> ''pending''
         then Inl (Error ''Requirement test lifecycle next Requirement is not pending'')
         else bindE (withState w ''in_progress'' (wi_bundleRevision w) (wi_budget w) (wi_semanticFindings w)) (withWorkItem p)))"

definition apply_decision :: "RequirementTestLifecycleDecision \<Rightarrow> RequirementTestPlan \<Rightarrow> RequirementTestPlan res" where
  "apply_decision d p =
     bindE (plan_workItem p (rtd_requirementId d)) (\<lambda>found. case found of
       None \<Rightarrow> Inl (Error ''Requirement test lifecycle decision does not match the active work item'')
     | Some w \<Rightarrow>
     bindE (activeWorkItem p) (\<lambda>active.
     if map_option wi_requirementId active \<noteq> Some (rtd_requirementId d)
     then Inl (Error ''Requirement test lifecycle decision does not match the active work item'')
     else if rtd_disposition d = ''external_blocked'' then
       if map_option rlf_leaf (rtd_facts d) \<noteq> Some (rtd_target d) \<or> rtd_nextStatus d \<noteq> wi_status w
         \<or> rtd_budgetIncrement d \<noteq> None \<or> rtd_semanticFinding d \<noteq> None \<or> rtd_nextRequirementId d \<noteq> None
         \<or> rtd_candidateBundle d \<noteq> None
       then Inl (Error ''Requirement test external block must preserve its active work item'') else Inr p
     else
     bindE (case rtd_budgetIncrement d of None \<Rightarrow> Inr (wi_budget w) | Some k \<Rightarrow> rtb_increment (wi_budget w) k) (\<lambda>bud.
     if (case rtd_semanticFinding d of None \<Rightarrow> False | Some f \<Rightarrow> hasSemanticFinding w f)
     then Inl (Error ''Requirement test lifecycle cannot consume an already counted semantic finding'') else
     bindE (withState w (rtd_nextStatus d)
         (case rtd_candidateBundle d of Some c \<Rightarrow> Some (rcb_bundle c) | None \<Rightarrow> wi_bundleRevision w) bud
         (wi_semanticFindings w @ (case rtd_semanticFinding d of None \<Rightarrow> [] | Some f \<Rightarrow> [f]))) (\<lambda>w'.
     bindE (withWorkItem p w') (claim_next (rtd_nextRequirementId d))))))"

subsection \<open>The frontier projection\<close>

record RequirementTestResultFrontierItem =
  rfi_requirementId :: string
  rfi_specRevision :: SpecRevisionIdentity
  rfi_status :: string

record RequirementTestResultFrontier =
  rrf_staged :: "RequirementTestResultFrontierItem list"
  rrf_pending :: "RequirementTestResultFrontierItem list"

definition fromWorkItem :: "RequirementTestWorkItem \<Rightarrow> RequirementTestResultFrontierItem res" where
  "fromWorkItem w =
     (if js_trim (wi_requirementId w) = [] then Inl (TypeError ''frontier.requirementId requires text'')
      else if wi_status w \<notin> set STATUSES then Inl (TypeError ''frontier status is invalid'')
      else Inr \<lparr>rfi_requirementId = wi_requirementId w, rfi_specRevision = wi_specRevision w, rfi_status = wi_status w\<rparr>)"

definition new_RequirementTestResultFrontier ::
  "RequirementTestWorkItem list \<Rightarrow> RequirementTestWorkItem list \<Rightarrow> RequirementTestResultFrontier res" where
  "new_RequirementTestResultFrontier staged pending =
     bindE (mapE fromWorkItem staged) (\<lambda>ss.
     bindE (mapE fromWorkItem pending) (\<lambda>ps.
     if list_ex (\<lambda>i. rfi_status i \<noteq> ''pending'') ps
       \<or> list_ex (\<lambda>i. rfi_status i \<notin> {''candidate_saved'', ''reviewed''}) ss
     then Inl (TypeError ''frontier groups do not match their statuses'')
     else if \<not> distinct (map rfi_requirementId (ss @ ps)) then Inl (TypeError ''frontier duplicates a Requirement'')
     else if list_ex (\<lambda>i. \<not> sri_equals (rfi_specRevision i) (rfi_specRevision (hd (ss @ ps)))) (ss @ ps)
     then Inl (TypeError ''frontier mixes Spec revisions'')
     else Inr \<lparr>rrf_staged = ss, rrf_pending = ps\<rparr>))"

definition frontier_fromPlan :: "RequirementTestPlan \<Rightarrow> string \<Rightarrow> RequirementTestResultFrontier res" where
  "frontier_fromPlan p activeRequirementId =
     (if \<not> list_ex (\<lambda>w. wi_requirementId w = activeRequirementId) (rtp_workItems p)
      then Inl (TypeError ''Requirement frontier active identity is absent from its plan'') else
      let remaining = filter (\<lambda>w. wi_requirementId w \<noteq> activeRequirementId) (rtp_workItems p) in
      new_RequirementTestResultFrontier
        (filter (\<lambda>w. wi_status w \<in> {''candidate_saved'', ''reviewed''}) remaining)
        (filter (\<lambda>w. wi_status w = ''pending'') remaining))"

subsection \<open>Selection\<close>

record selection =
  sel_facts :: "RequirementTestLifecycleFacts option"
  sel_leaf :: string
  sel_observation :: string
  sel_requirementId :: string
  sel_status :: string
  sel_budget :: RequirementTestBudget
  sel_autoApprove :: bool
  sel_findings :: "RequirementTestSemanticFinding list"
  sel_candidateBundle :: "RequirementTestCandidateBundle option"
  sel_semanticFinding :: "RequirementTestSemanticFinding option"
  sel_frontier :: RequirementTestResultFrontier
  sel_expectation :: "string option"

definition selectedRequirementTestDecision ::
  "selection \<Rightarrow> jsfields \<Rightarrow> RequirementTestCandidateBundle option \<Rightarrow> RequirementTestSemanticFinding option \<Rightarrow>
   RequirementTestLifecycleDecision res" where
  "selectedRequirementTestDecision s input c f =
     new_RequirementTestLifecycleDecision ((''requirementId'', JStr (sel_requirementId s)) # input) c f (sel_facts s)"

text \<open>The plan after the terminal status of the active work item, and what is left on its frontier.\<close>

definition terminal_plan ::
  "RequirementTestLifecycleFacts \<Rightarrow> string \<Rightarrow> RequirementTestCandidateBundle option \<Rightarrow> RequirementTestPlan res" where
  "terminal_plan f nextStatus candidateBundle =
     (let w = rlf_workItem f in
      bindE (withState w nextStatus (case candidateBundle of Some c \<Rightarrow> Some (rcb_bundle c) | None \<Rightarrow> wi_bundleRevision w)
        (wi_budget w) (wi_semanticFindings w)) (withWorkItem (rlf_plan f)))"

definition first_id :: "RequirementTestResultFrontierItem list \<Rightarrow> string option" where
  "first_id is = (case is of [] \<Rightarrow> None | i # _ \<Rightarrow> Some (rfi_requirementId i))"

definition requirementTestTerminalDecision ::
  "selection \<Rightarrow> string \<Rightarrow> RequirementTestCandidateBundle option \<Rightarrow> RequirementTestLifecycleDecision res" where
  "requirementTestTerminalDecision s disposition candidateBundle =
     (let nextStatus = (if disposition = ''promote'' then ''promoted'' else ''deferred'') in
      bindE (case sel_facts s of
          None \<Rightarrow> Inr (first_id (rrf_staged (sel_frontier s)))
        | Some f \<Rightarrow> bindE (terminal_plan f nextStatus candidateBundle) (\<lambda>p.
            bindE (activeWorkItem p) (\<lambda>w. Inr (map_option wi_requirementId w)))) (\<lambda>staged.
      bindE (case sel_facts s of
          None \<Rightarrow> Inr (first_id (rrf_pending (sel_frontier s)))
        | Some f \<Rightarrow> bindE (terminal_plan f nextStatus candidateBundle) (\<lambda>p.
            Inr (map_option wi_requirementId (nextPendingWorkItem p)))) (\<lambda>pending.
      selectedRequirementTestDecision s
        [(''disposition'', JStr disposition),
         (''target'', JStr (if staged \<noteq> None then ''test-review'' else if pending \<noteq> None then ''test-generate'' else ''implement'')),
         (''nextStatus'', JStr nextStatus),
         (''nextRequirementId'', if staged \<noteq> None then JNull else js_opt JStr pending),
         (''acceptanceHandoff'', JBool (disposition = ''defer''))] candidateBundle None)))"

definition semantic_attempts :: "RequirementTestBudget \<Rightarrow> bool \<Rightarrow> nat" where
  "semantic_attempts b auto_mode = (if auto_mode then rtb_autoSemantic b else rtb_manualSemantic b)"

definition resolveRequirementTestSelection :: "selection \<Rightarrow> RequirementTestLifecycleDecision res" where
  "resolveRequirementTestSelection s =
     (let leaf = sel_leaf s; obs = sel_observation s;
          repair = (if leaf = ''test-repair'' then JBool True else JNull) in
      if obs = ''external_blocked'' then
        selectedRequirementTestDecision s
          [(''disposition'', JStr ''external_blocked''), (''target'', JStr leaf), (''nextStatus'', JStr (sel_status s)),
           (''repairRequired'', repair)] None None
      else if obs = ''candidate_saved'' then
        let next_id = (if leaf = ''test-generate'' then first_id (rrf_pending (sel_frontier s)) else None) in
        selectedRequirementTestDecision s
          [(''disposition'', JStr ''advance''),
           (''target'', JStr (if next_id = None then ''test-review'' else ''test-generate'')),
           (''nextStatus'', JStr ''candidate_saved''), (''nextRequirementId'', js_opt JStr next_id)] (sel_candidateBundle s) None
      else if obs = ''review_pass'' \<or> obs = ''review_advisory'' then
        selectedRequirementTestDecision s
          [(''disposition'', JStr ''advance''), (''target'', JStr ''test-gate''), (''nextStatus'', JStr ''reviewed''),
           (''repairRequired'', JBool False)] None None
      else if obs = ''tooling_failure'' then
        if rtb_tooling (sel_budget s) < REQUIREMENT_TEST_TOOLING_LIMIT then
          selectedRequirementTestDecision s
            [(''disposition'', JStr ''tooling_retry''), (''target'', JStr leaf), (''nextStatus'', JStr (sel_status s)),
             (''budgetIncrement'', JStr ''tooling''), (''repairRequired'', repair)] None None
        else requirementTestTerminalDecision s ''defer'' None
      else if obs = ''structural_rejection'' \<or> obs = ''semantic_rejection'' then
        if obs = ''semantic_rejection'' \<and> sel_semanticFinding s = None
        then Inl (TypeError ''Requirement test semantic selection requires its canonical finding'') else
        let duplicate = (case sel_semanticFinding s of None \<Rightarrow> False | Some f \<Rightarrow> list_ex (\<lambda>g. rsf_equals g f) (sel_findings s));
            budgetIncrement = (if sel_autoApprove s then ''autoSemantic'' else ''manualSemantic'');
            retained = (if obs = ''structural_rejection'' then sel_candidateBundle s else None) in
        if duplicate \<or> semantic_attempts (sel_budget s) (sel_autoApprove s) < REQUIREMENT_TEST_SEMANTIC_LIMIT then
          selectedRequirementTestDecision s
            [(''disposition'', JStr ''semantic_retry''), (''target'', JStr ''test-repair''), (''nextStatus'', JStr ''reviewed''),
             (''budgetIncrement'', if duplicate then JNull else JStr budgetIncrement), (''repairRequired'', JBool True)]
            retained (if duplicate then None else sel_semanticFinding s)
        else requirementTestTerminalDecision s ''defer'' retained
      else if leaf = ''test-gate'' then
        if obs = (if sel_expectation s = Some ''fail'' then ''assertion_failed'' else ''assertion_passed'')
        then requirementTestTerminalDecision s ''promote'' None
        else selectedRequirementTestDecision s
          [(''disposition'', JStr ''advance''), (''target'', JStr ''test-review''), (''nextStatus'', JStr ''candidate_saved'')] None None
      else Inl (TypeError (''Requirement test lifecycle has no selection for '' @ leaf @ ''/'' @ obs)))"

definition charged_finding :: "RequirementTestLifecycleFacts \<Rightarrow> RequirementTestSemanticFinding option res" where
  "charged_finding f = (case observation_fingerprint (rlf_observation f) of
     None \<Rightarrow> Inr None
   | Some fp \<Rightarrow> bindE (new_RequirementTestSemanticFinding (JObj
       [(''requirementId'', JStr (wi_requirementId (rlf_workItem f))),
        (''bundleRevision'', case rlf_candidateBundle f of
            Some c \<Rightarrow> JInt (int (rbr_revision (rcb_bundle c)))
          | None \<Rightarrow> (case wi_bundleRevision (rlf_workItem f) of None \<Rightarrow> JUndef | Some b \<Rightarrow> JInt (int (rbr_revision b)))),
        (''fingerprint'', JStr fp)])) (\<lambda>x. Inr (Some x)))"

definition live_selection ::
  "RequirementTestLifecycleFacts \<Rightarrow> RequirementTestSemanticFinding option \<Rightarrow> RequirementTestResultFrontier \<Rightarrow> selection" where
  "live_selection f finding frontier = \<lparr>sel_facts = Some f, sel_leaf = rlf_leaf f, sel_observation = rlf_observationKind f,
     sel_requirementId = wi_requirementId (rlf_workItem f), sel_status = wi_status (rlf_workItem f),
     sel_budget = wi_budget (rlf_workItem f), sel_autoApprove = rla_autoApprove (rlf_authority f),
     sel_findings = wi_semanticFindings (rlf_workItem f), sel_candidateBundle = rlf_candidateBundle f,
     sel_semanticFinding = finding, sel_frontier = frontier, sel_expectation = Some (wi_expectation (rlf_workItem f))\<rparr>"

definition resolveRequirementTestLifecycle :: "RequirementTestLifecycleFacts \<Rightarrow> RequirementTestLifecycleDecision res" where
  "resolveRequirementTestLifecycle f =
     bindE (charged_finding f) (\<lambda>finding.
     bindE (frontier_fromPlan (rlf_plan f) (wi_requirementId (rlf_workItem f))) (\<lambda>frontier.
     resolveRequirementTestSelection (live_selection f finding frontier)))"

subsection \<open>Initialization\<close>

record RequirementTestInitializationDecision =
  rid_plan :: RequirementTestPlan
  rid_target :: string
  rid_skippedLeafIds :: "string list"

definition new_RequirementTestInitializationEffect :: "jsval \<Rightarrow> jsval \<Rightarrow> (string \<times> string list) res" where
  "new_RequirementTestInitializationEffect target skippedLeafIds =
     bindE (lit_of [''test-generate'', ''implement''] (Error ''Requirement test initialization target is invalid'') target) (\<lambda>t.
     let expected = (if t = ''implement'' then REQUIREMENT_TEST_LEAF_IDS else []) in
     case skippedLeafIds of
       JArr vs \<Rightarrow> if JSON_stringify (JArr vs) \<noteq> JSON_stringify (JArr (map JStr expected))
         then Inl (Error ''Requirement test initialization skipped leaves do not match its target'') else Inr (t, expected)
     | _ \<Rightarrow> Inl (Error ''Requirement test initialization skipped leaves do not match its target''))"

definition initializationEffect_fromJSON :: "jsval \<Rightarrow> (string \<times> string list) res" where
  "initializationEffect_fromJSON v =
     (let e = Error ''Requirement test initialization effect has an invalid schema'' in
      bindE (object_or e v) (\<lambda>ob.
      if sort (own_keys v) \<noteq> [''skippedLeafIds'', ''target''] then Inl e
      else new_RequirementTestInitializationEffect (fld ob ''target'') (fld_or ob ''skippedLeafIds'' (JArr []))))"

definition new_RequirementTestInitializationDecision ::
  "RequirementTestPlan \<Rightarrow> string \<Rightarrow> string list \<Rightarrow> RequirementTestInitializationDecision res" where
  "new_RequirementTestInitializationDecision p target skippedLeafIds =
     bindE (new_RequirementTestInitializationEffect (JStr target) (JArr (map JStr skippedLeafIds))) (\<lambda>(t, skipped).
     if (t = ''implement'') \<noteq> plan_settled p
     then Inl (Error ''Requirement test initialization target does not match plan settlement'')
     else Inr \<lparr>rid_plan = p, rid_target = t, rid_skippedLeafIds = skipped\<rparr>)"

definition initializeRequirementTestLifecycle :: "jsval \<Rightarrow> jsval \<Rightarrow> RequirementTestInitializationDecision res" where
  "initializeRequirementTestLifecycle spec specRevision =
     bindE (fromApprovedSpec spec specRevision) (\<lambda>p.
     case nextPendingWorkItem p of
       None \<Rightarrow> new_RequirementTestInitializationDecision p ''implement'' LIFECYCLE_LEAVES
     | Some w \<Rightarrow>
         bindE (withState w ''in_progress'' (wi_bundleRevision w) (wi_budget w) (wi_semanticFindings w)) (\<lambda>w'.
         bindE (withWorkItem p w') (\<lambda>p'.
         new_RequirementTestInitializationDecision p' ''test-generate'' [])))"

end
