(* ===== verification/Requirement_Test_Policy.thy ===== *)
theory Requirement_Test_Policy
  imports Requirement_Test_Lifecycle
begin

section \<open>The Requirement test policy as a table\<close>

text \<open>
  The specification of \<open>resolveRequirementTestLifecycle\<close> and of \<open>RequirementTestLifecycleDecision.apply\<close>: the
  outcome of an observation (\<open>rt_policy\<close>), what it does to the active work item (\<open>rt_item\<close>), the decision
  that carries it out (\<open>rt_decision\<close>) and the leaf and plan afterwards (\<open>rt_after\<close>).  The last lemmas show
  that the code implements the table on every accepted set of facts, and never throws there.
\<close>

subsection \<open>Accepted facts\<close>

text \<open>What the constructor of the facts guarantees for a well-formed plan.\<close>

definition accepted :: "compare \<Rightarrow> RequirementTestLifecycleFacts \<Rightarrow> bool" where
  "accepted lc f \<longleftrightarrow>
     (let w = rlf_workItem f; obs = rlf_observation f; c = observed_candidate obs in
      wf_RequirementTestPlan (rlf_plan f) \<and> frontier_ok (rlf_plan f) \<and> active_item (rlf_plan f) = Some w \<and>
      rlf_leaf f \<in> set LIFECYCLE_LEAVES \<and> rlf_observationKind f = observation_kind obs \<and>
      permitted (rlf_leaf f) (observation_kind obs) = Some (wi_status w) \<and> observation_fits (rlf_leaf f) obs \<and>
      wf_observation lc obs \<and>
      pred_option (\<lambda>c. rlf_candidateBundle f = Some c \<and> wf_RequirementTestCandidateBundle lc c \<and>
        rbr_requirementId (rcb_bundle c) = wi_requirementId w \<and> rbr_specRevision (rcb_bundle c) = wi_specRevision w \<and>
        rbr_revision (rcb_bundle c) = (case wi_bundleRevision w of None \<Rightarrow> 1 | Some b \<Rightarrow> Suc (rbr_revision b))) c \<and>
      (c = None \<and> rlf_leaf f \<noteq> ''test-generate'' \<longrightarrow> map_option rcb_bundle (rlf_candidateBundle f) = wi_bundleRevision w))"

lemma structural_bound:
  "wf_structural lc r \<Longrightarrow> wf_RequirementTestCandidateBundle lc (rsr_candidate r) \<and>
     rbr_requirementId (rcb_bundle (rsr_candidate r)) = rsr_requirementId r \<and>
     rbr_specRevision (rcb_bundle (rsr_candidate r)) = rsr_specRevision r"
  by (auto simp: wf_structural_def candidate_bound_def)

lemma observed_candidate_bound:
  "observed_candidate obs = Some c \<Longrightarrow> wf_observation lc obs \<Longrightarrow> wf_RequirementTestCandidateBundle lc c \<and>
     rbr_requirementId (rcb_bundle c) = observation_requirementId obs \<and>
     rbr_specRevision (rcb_bundle c) = observation_specRevision obs"
  by (cases obs) (auto dest: structural_bound)

lemma active_wf: "wf_RequirementTestPlan p \<Longrightarrow> active_item p = Some w \<Longrightarrow> wf_RequirementTestWorkItem w"
  by (auto simp: wf_RequirementTestPlan_def list_all_iff dest: active_item_in)

lemma facts_accepted:
  assumes "new_RequirementTestLifecycleFacts authority p leaf obs cand = Inr f"
    "wf_RequirementTestPlan p" "frontier_ok p" "wf_observation lc obs" "pred_option (wf_RequirementTestCandidateBundle lc) cand"
  shows "accepted lc f \<and> rlf_plan f = p \<and> rlf_leaf f = leaf \<and> rlf_authority f = authority \<and> rlf_observation f = obs"
proof -
  let ?bound = "case observed_candidate obs of None \<Rightarrow> cand | Some c \<Rightarrow> Some c"
  from assms(1) have leaf: "leaf \<in> set LIFECYCLE_LEAVES"
    by (simp add: new_RequirementTestLifecycleFacts_def split: if_splits)
  from assms(1) obtain w where act: "active_item p = Some w"
    and fits: "observation_fits leaf obs"
    and ids: "observation_requirementId obs = wi_requirementId w" "observation_specRevision obs = wi_specRevision w"
    and produced: "\<And>c. observed_candidate obs = Some c \<Longrightarrow> produced_check authority leaf w c = Inr ()"
    and perm: "permitted leaf (observation_kind obs) = Some (wi_status w)"
    and curr: "leaf \<noteq> ''test-generate'' \<and> observed_candidate obs = None \<Longrightarrow> current_check w ?bound = Inr ()"
    and f: "f = \<lparr>rlf_authority = authority, rlf_plan = p, rlf_leaf = leaf, rlf_workItem = w, rlf_observation = obs,
        rlf_observationKind = observation_kind obs, rlf_candidateBundle = ?bound\<rparr>"
    unfolding new_RequirementTestLifecycleFacts_def activeWorkItem_ok [OF assms(3)] Let_def
    by (auto simp: if_refused split: option.splits if_splits)
  have w: "wf_RequirementTestWorkItem w" by (rule active_wf [OF assms(2) act])
  have status: "wi_status w = ''in_progress'' \<Longrightarrow> wi_bundleRevision w = None"
    using w by (simp add: wf_RequirementTestWorkItem_def item_rules_def)
  have rev: "rbr_revision (rcb_bundle c) = (case wi_bundleRevision w of None \<Rightarrow> 1 | Some b \<Rightarrow> Suc (rbr_revision b))"
    if "observed_candidate obs = Some c" for c
    using produced [OF that] status by (auto simp: produced_check_def Let_def split: if_splits option.splits)
  have cand: "map_option rcb_bundle cand = wi_bundleRevision w" if "leaf \<noteq> ''test-generate''" "observed_candidate obs = None"
  proof -
    have "current_check w cand = Inr ()" using curr that by simp
    then obtain c b where cb: "cand = Some c" "wi_bundleRevision w = Some b"
      and eq: "JSON_stringify (RequirementTestBundleRevision_toJSON (rcb_bundle c)) = JSON_stringify (RequirementTestBundleRevision_toJSON b)"
      by (auto simp: current_check_def split: option.splits if_splits)
    have "wf_RequirementTestBundleRevision (rcb_bundle c)" "wf_RequirementTestBundleRevision b"
      using assms(5) w cb by (auto simp: wf_RequirementTestCandidateBundle_def wf_RequirementTestWorkItem_def)
    then show ?thesis using eq cb by (simp add: bundle_json_eq)
  qed
  show ?thesis
    using assms act fits ids perm leaf rev cand observed_candidate_bound [of obs _ lc]
    by (cases "observed_candidate obs") (simp_all add: f accepted_def Let_def)
qed

subsection \<open>The table\<close>

datatype rt_outcome =
    Blocked
  | ToolingRetry
  | Saved RequirementTestCandidateBundle
  | Passed
  | Rejected RequirementTestSemanticFinding "RequirementTestCandidateBundle option"
  | Repeated "RequirementTestCandidateBundle option"
  | Reopened
  | Settled string "RequirementTestCandidateBundle option"

text \<open>The finding an observation charges: its fingerprint on the revision of the observed bundle.\<close>

definition rt_charge :: "RequirementTestLifecycleFacts \<Rightarrow> RequirementTestSemanticFinding option" where
  "rt_charge f = map_option (\<lambda>fp. \<lparr>rsf_requirementId = wi_requirementId (rlf_workItem f),
     rsf_bundleRevision = (case observed_candidate (rlf_observation f) of
        Some c \<Rightarrow> rbr_revision (rcb_bundle c) | None \<Rightarrow> rbr_revision (the (wi_bundleRevision (rlf_workItem f)))),
     rsf_fingerprint = fp\<rparr>) (observation_fingerprint (rlf_observation f))"

definition rt_expected :: "RequirementTestWorkItem \<Rightarrow> string" where
  "rt_expected w = (if wi_expectation w = ''fail'' then ''assertion_failed'' else ''assertion_passed'')"

definition rt_policy :: "RequirementTestLifecycleFacts \<Rightarrow> rt_outcome" where
  "rt_policy f =
     (let k = rlf_observationKind f; w = rlf_workItem f; c = observed_candidate (rlf_observation f) in
      if k = ''external_blocked'' then Blocked
      else if k = ''candidate_saved'' then Saved (the c)
      else if k = ''review_pass'' \<or> k = ''review_advisory'' then Passed
      else if k = ''tooling_failure'' then if rtb_tooling (wi_budget w) < 3 then ToolingRetry else Settled ''deferred'' None
      else if k = ''structural_rejection'' \<or> k = ''semantic_rejection'' then
        if the (rt_charge f) \<in> set (wi_semanticFindings w) then Repeated c
        else if semantic_attempts (wi_budget w) (rla_autoApprove (rlf_authority f)) < 5 then Rejected (the (rt_charge f)) c
        else Settled ''deferred'' c
      else if k = rt_expected w then Settled ''promoted'' None
      else Reopened)"

definition with_bundle :: "RequirementTestCandidateBundle option \<Rightarrow> RequirementTestWorkItem \<Rightarrow> RequirementTestWorkItem" where
  "with_bundle c w = (case c of None \<Rightarrow> w | Some x \<Rightarrow> w\<lparr>wi_bundleRevision := Some (rcb_bundle x)\<rparr>)"

definition charge_budget :: "bool \<Rightarrow> RequirementTestBudget \<Rightarrow> RequirementTestBudget" where
  "charge_budget auto_mode b = (if auto_mode then b\<lparr>rtb_autoSemantic := Suc (rtb_autoSemantic b)\<rparr>
     else b\<lparr>rtb_manualSemantic := Suc (rtb_manualSemantic b)\<rparr>)"

fun rt_item :: "bool \<Rightarrow> RequirementTestWorkItem \<Rightarrow> rt_outcome \<Rightarrow> RequirementTestWorkItem" where
  "rt_item auto_mode w Blocked = w"
| "rt_item auto_mode w ToolingRetry = w\<lparr>wi_budget := (wi_budget w)\<lparr>rtb_tooling := Suc (rtb_tooling (wi_budget w))\<rparr>\<rparr>"
| "rt_item auto_mode w (Saved c) = (with_bundle (Some c) w)\<lparr>wi_status := ''candidate_saved''\<rparr>"
| "rt_item auto_mode w Passed = w\<lparr>wi_status := ''reviewed''\<rparr>"
| "rt_item auto_mode w (Rejected g c) = (with_bundle c w)\<lparr>wi_status := ''reviewed'',
     wi_budget := charge_budget auto_mode (wi_budget w), wi_semanticFindings := wi_semanticFindings w @ [g]\<rparr>"
| "rt_item auto_mode w (Repeated c) = (with_bundle c w)\<lparr>wi_status := ''reviewed''\<rparr>"
| "rt_item auto_mode w Reopened = w\<lparr>wi_status := ''candidate_saved''\<rparr>"
| "rt_item auto_mode w (Settled st c) = (with_bundle c w)\<lparr>wi_status := st\<rparr>"

definition claim :: "RequirementTestPlan \<Rightarrow> RequirementTestWorkItem \<Rightarrow> RequirementTestPlan" where
  "claim p w = put p (w\<lparr>wi_status := ''in_progress''\<rparr>)"

fun rt_after :: "string \<Rightarrow> RequirementTestPlan \<Rightarrow> rt_outcome \<Rightarrow> string \<times> RequirementTestPlan" where
  "rt_after leaf p Blocked = (leaf, p)"
| "rt_after leaf p ToolingRetry = (leaf, p)"
| "rt_after leaf p (Saved c) = (if leaf = ''test-generate'' then
     (case nextPendingWorkItem p of None \<Rightarrow> (''test-review'', p) | Some n \<Rightarrow> (''test-generate'', claim p n))
     else (''test-review'', p))"
| "rt_after leaf p Passed = (''test-gate'', p)"
| "rt_after leaf p (Rejected g c) = (''test-repair'', p)"
| "rt_after leaf p (Repeated c) = (''test-repair'', p)"
| "rt_after leaf p Reopened = (''test-review'', p)"
| "rt_after leaf p (Settled st c) = (if active_item p \<noteq> None then (''test-review'', p)
     else (case nextPendingWorkItem p of None \<Rightarrow> (''implement'', p) | Some n \<Rightarrow> (''test-generate'', claim p n)))"

text \<open>The active item after the outcome, and the plan that carries it.\<close>

definition rt_new_item :: "RequirementTestLifecycleFacts \<Rightarrow> RequirementTestWorkItem" where
  "rt_new_item f = rt_item (rla_autoApprove (rlf_authority f)) (rlf_workItem f) (rt_policy f)"

definition rt_plan :: "RequirementTestLifecycleFacts \<Rightarrow> RequirementTestPlan" where
  "rt_plan f = put (rlf_plan f) (rt_new_item f)"

definition rt_next :: "RequirementTestLifecycleFacts \<Rightarrow> string \<times> RequirementTestPlan" where
  "rt_next f = rt_after (rlf_leaf f) (rt_plan f) (rt_policy f)"

subsection \<open>The frontier after a replacement\<close>

lemma others_idle:
  assumes "frontier_ok p" "plan_rules p" "active_item p = Some w" "x \<in> set (rtp_workItems p)"
    "wi_requirementId x \<noteq> wi_requirementId w"
  shows "\<not> busy x"
  using active_item_busy [OF assms(1) _ assms(4)] assms(3,5) by auto

lemma filter_at_most_one: "distinct xs \<Longrightarrow> (\<And>x. x \<in> set xs \<Longrightarrow> P x \<Longrightarrow> x = a) \<Longrightarrow> length (filter P xs) \<le> 1"
proof -
  assume "distinct xs" and a: "\<And>x. x \<in> set xs \<Longrightarrow> P x \<Longrightarrow> x = a"
  then have "length (filter P xs) = card (set (filter P xs))"
    using distinct_card [of "filter P xs"] by simp
  also have "\<dots> \<le> card {a}" using a by (intro card_mono) auto
  finally show ?thesis by simp
qed

lemma find_map_same: "(\<And>x. x \<in> set xs \<Longrightarrow> P (g x) = P x \<and> (P x \<longrightarrow> g x = x)) \<Longrightarrow> find P (map g xs) = find P xs"
  by (induction xs) auto

lemma put_frontier:
  assumes "frontier_ok p" "plan_rules p" "active_item p = Some w" "wi_requirementId w' = wi_requirementId w"
    "wi_specRevision w' = rtp_specRevision p"
  shows "frontier_ok (put p w')"
proof -
  have "distinct (rtp_workItems (put p w'))"
    using put_rules [OF assms(2,5)] unfolding plan_rules_def by (metis distinct_map)
  moreover have "x = w'" if "x \<in> set (rtp_workItems (put p w'))" "busy x" for x
    using that put_items [OF assms(2) active_item_in [OF assms(3)] assms(4)] others_idle [OF assms(1-3), of x]
      unique_item [OF assms(2) _ active_item_in [OF assms(3)], of x] by auto
  ultimately show ?thesis unfolding frontier_ok_def by (rule filter_at_most_one)
qed

lemma put_pending:
  assumes "plan_rules p" "w \<in> set (rtp_workItems p)" "wi_requirementId w' = wi_requirementId w"
    "wi_status w \<noteq> ''pending''" "wi_status w' \<noteq> ''pending''"
  shows "nextPendingWorkItem (put p w') = nextPendingWorkItem p"
proof -
  let ?g = "\<lambda>x. if wi_requirementId x = wi_requirementId w' then w' else x"
  have "(wi_status (?g x) = ''pending'') = (wi_status x = ''pending'') \<and> (wi_status x = ''pending'' \<longrightarrow> ?g x = x)"
    if "x \<in> set (rtp_workItems p)" for x
    using unique_item [OF assms(1) that assms(2)] assms(3-5) by (cases "wi_requirementId x = wi_requirementId w") auto
  then show ?thesis
    using find_map_same [of "rtp_workItems p" "\<lambda>w. wi_status w = ''pending''" ?g]
    by (simp add: nextPendingWorkItem_def put_def)
qed

text \<open>The first staged Requirement besides the active one.\<close>

definition other_staged :: "RequirementTestPlan \<Rightarrow> RequirementTestWorkItem \<Rightarrow> RequirementTestWorkItem option" where
  "other_staged p w = find (\<lambda>x. wi_status x = ''candidate_saved'' \<and> wi_requirementId x \<noteq> wi_requirementId w) (rtp_workItems p)"

lemma find_replaced:
  "wi_status w' \<noteq> ''candidate_saved'' \<Longrightarrow>
   find (\<lambda>x. wi_status x = ''candidate_saved'') (map (\<lambda>x. if wi_requirementId x = wi_requirementId w then w' else x) xs) =
   find (\<lambda>x. wi_status x = ''candidate_saved'' \<and> wi_requirementId x \<noteq> wi_requirementId w) xs"
  by (induction xs) auto

lemma put_settled_active:
  assumes "frontier_ok p" "plan_rules p" "active_item p = Some w" "wi_requirementId w' = wi_requirementId w"
    "wi_status w' = ''promoted'' \<or> wi_status w' = ''deferred''"
  shows "active_item (put p w') = other_staged p w"
proof -
  have "find busy (rtp_workItems (put p w')) = None"
    using put_items [OF assms(2) active_item_in [OF assms(3)] assms(4)] others_idle [OF assms(1-3)] assms(5)
      unique_item [OF assms(2) _ active_item_in [OF assms(3)]]
    by (auto simp: find_None_iff busy_def)
  moreover have "find (\<lambda>w. wi_status w = ''candidate_saved'') (rtp_workItems (put p w')) = other_staged p w"
    using find_replaced [of w' w "rtp_workItems p"] assms(4,5) by (auto simp: other_staged_def put_def)
  ultimately show ?thesis by (simp add: active_item_def)
qed

lemma put_busy_active:
  assumes "frontier_ok p" "plan_rules p" "active_item p = Some w" "wi_requirementId w' = wi_requirementId w"
    "wi_specRevision w' = rtp_specRevision p" "busy w'"
  shows "active_item (put p w') = Some w'"
  using put_items [OF assms(2) active_item_in [OF assms(3)] assms(4)]
  by (intro active_item_busy put_frontier [OF assms(1-5)] assms(6)) simp

subsection \<open>Outcomes of accepted facts\<close>

definition bound_to :: "compare \<Rightarrow> RequirementTestWorkItem \<Rightarrow> RequirementTestCandidateBundle \<Rightarrow> bool" where
  "bound_to lc w c \<longleftrightarrow> wf_RequirementTestCandidateBundle lc c \<and> rbr_requirementId (rcb_bundle c) = wi_requirementId w \<and>
     rbr_specRevision (rcb_bundle c) = wi_specRevision w"

fun outcome_ok :: "compare \<Rightarrow> bool \<Rightarrow> RequirementTestWorkItem \<Rightarrow> rt_outcome \<Rightarrow> bool" where
  "outcome_ok lc m w Blocked = True"
| "outcome_ok lc m w ToolingRetry = (rtb_tooling (wi_budget w) < 3)"
| "outcome_ok lc m w (Saved c) = bound_to lc w c"
| "outcome_ok lc m w Passed = (wi_bundleRevision w \<noteq> None)"
| "outcome_ok lc m w (Rejected g c) = (wf_RequirementTestSemanticFinding g \<and> rsf_requirementId g = wi_requirementId w \<and>
     g \<notin> set (wi_semanticFindings w) \<and> semantic_attempts (wi_budget w) m < 5 \<and> pred_option (bound_to lc w) c \<and>
     (c = None \<longrightarrow> wi_bundleRevision w \<noteq> None))"
| "outcome_ok lc m w (Repeated c) = (pred_option (bound_to lc w) c \<and> (c = None \<longrightarrow> wi_bundleRevision w \<noteq> None))"
| "outcome_ok lc m w Reopened = (wi_bundleRevision w \<noteq> None)"
| "outcome_ok lc m w (Settled st c) = ((st = ''promoted'' \<and> c = None \<and> wi_bundleRevision w \<noteq> None \<or> st = ''deferred'') \<and>
     pred_option (bound_to lc w) c)"

lemma permitted_status:
  "permitted leaf k = Some st \<Longrightarrow> leaf \<in> set LIFECYCLE_LEAVES \<Longrightarrow>
   st = (if leaf = ''test-generate'' then ''in_progress'' else if leaf = ''test-review'' then ''candidate_saved'' else ''reviewed'')"
  by (auto simp: permitted_def LIFECYCLE_LEAVES_def split: if_splits)

lemma permitted_kinds:
  assumes "permitted leaf k = Some st" "leaf \<in> set LIFECYCLE_LEAVES"
  shows "k = ''external_blocked'' \<Longrightarrow> leaf \<noteq> ''test-gate''"
    and "k \<in> {''review_pass'', ''review_advisory'', ''semantic_rejection''} \<Longrightarrow> leaf = ''test-review''"
    and "k \<in> {''candidate_saved'', ''structural_rejection''} \<Longrightarrow> leaf \<in> {''test-generate'', ''test-repair''}"
    and "k \<notin> {''external_blocked'', ''review_pass'', ''review_advisory'', ''semantic_rejection'', ''candidate_saved'',
      ''structural_rejection'', ''tooling_failure''} \<Longrightarrow> leaf = ''test-gate''"
  using assms by (auto simp: permitted_def LIFECYCLE_LEAVES_def split: if_splits)

lemma accepted_parts:
  assumes "accepted lc f"
  shows "wf_RequirementTestPlan (rlf_plan f)" "plan_rules (rlf_plan f)" "frontier_ok (rlf_plan f)"
    "active_item (rlf_plan f) = Some (rlf_workItem f)" "rlf_workItem f \<in> set (rtp_workItems (rlf_plan f))"
    "wf_RequirementTestWorkItem (rlf_workItem f)" "wi_specRevision (rlf_workItem f) = rtp_specRevision (rlf_plan f)"
    "rlf_leaf f \<in> set LIFECYCLE_LEAVES" "rlf_observationKind f = observation_kind (rlf_observation f)"
    "permitted (rlf_leaf f) (rlf_observationKind f) = Some (wi_status (rlf_workItem f))"
    "observation_fits (rlf_leaf f) (rlf_observation f)" "wf_observation lc (rlf_observation f)"
proof -
  show "wf_RequirementTestPlan (rlf_plan f)" and act: "active_item (rlf_plan f) = Some (rlf_workItem f)"
    using assms by (auto simp: accepted_def Let_def)
  then show "plan_rules (rlf_plan f)" and "wf_RequirementTestWorkItem (rlf_workItem f)"
    and "wi_specRevision (rlf_workItem f) = rtp_specRevision (rlf_plan f)"
    using active_item_in [OF act] active_wf by (auto simp: wf_RequirementTestPlan_def plan_rules_def list_all_iff)
qed (use assms in \<open>auto simp: accepted_def Let_def dest: active_item_in\<close>)

lemma accepted_status:
  assumes "accepted lc f"
  shows "wi_status (rlf_workItem f) = (if rlf_leaf f = ''test-generate'' then ''in_progress''
     else if rlf_leaf f = ''test-review'' then ''candidate_saved'' else ''reviewed'')"
  using permitted_status [OF accepted_parts(10,8) [OF assms]] .

lemma accepted_bundle:
  assumes "accepted lc f"
  shows "wi_bundleRevision (rlf_workItem f) = None \<longleftrightarrow> rlf_leaf f = ''test-generate''"
  using accepted_parts(6) [OF assms] accepted_status [OF assms]
  by (auto simp: wf_RequirementTestWorkItem_def item_rules_def split: if_splits)

lemma accepted_candidate:
  assumes "accepted lc f" "observed_candidate (rlf_observation f) = Some c"
  shows "bound_to lc (rlf_workItem f) c" "rlf_candidateBundle f = Some c"
    "rbr_revision (rcb_bundle c) = (case wi_bundleRevision (rlf_workItem f) of None \<Rightarrow> 1 | Some b \<Rightarrow> Suc (rbr_revision b))"
  using assms by (auto simp: accepted_def Let_def bound_to_def)

lemma rejection_charge:
  assumes "accepted lc f" "rlf_observationKind f = ''structural_rejection'' \<or> rlf_observationKind f = ''semantic_rejection''"
  obtains g where "rt_charge f = Some g" "wf_RequirementTestSemanticFinding g" "rsf_requirementId g = wi_requirementId (rlf_workItem f)"
    "rsf_bundleRevision g = (case observed_candidate (rlf_observation f) of
        Some c \<Rightarrow> rbr_revision (rcb_bundle c) | None \<Rightarrow> rbr_revision (the (wi_bundleRevision (rlf_workItem f))))"
    "observed_candidate (rlf_observation f) = None \<longleftrightarrow> rlf_observationKind f = ''semantic_rejection''"
    "observed_candidate (rlf_observation f) = None \<Longrightarrow> wi_bundleRevision (rlf_workItem f) \<noteq> None"
proof -
  note parts = accepted_parts [OF assms(1)]
  have id: "is_text (wi_requirementId (rlf_workItem f))" using parts(6) by (simp add: wf_RequirementTestWorkItem_def)
  have bnd: "wf_RequirementTestBundleRevision b" if "wi_bundleRevision (rlf_workItem f) = Some b" for b
    using parts(6) that by (simp add: wf_RequirementTestWorkItem_def)
  show ?thesis
  proof (cases "rlf_observation f")
    case (StepObs s)
    then have k: "rso_kind s = ''semantic_rejection''" "rlf_leaf f = ''test-review''"
      using assms(2) parts(9,12) permitted_kinds(2) [OF parts(10,8)]
      by (auto simp: wf_RequirementTestStepObservation_def REQUIREMENT_TEST_STEP_OBSERVATIONS_def)
    obtain b where "wi_bundleRevision (rlf_workItem f) = Some b" using k(2) accepted_bundle [OF assms(1)] by auto
    moreover obtain fp where "rso_semanticFindingFingerprint s = Some fp"
      using parts(12) StepObs k(1) by (auto simp: wf_RequirementTestStepObservation_def)
    moreover from this have "is_sha256 fp" using parts(12) StepObs by (simp add: wf_RequirementTestStepObservation_def)
    ultimately show ?thesis
      using that [of "the (rt_charge f)"] StepObs id bnd [of b] k parts(9)
      by (auto simp: rt_charge_def wf_RequirementTestSemanticFinding_def wf_RequirementTestBundleRevision_def)
  next
    case (StructuralObs r)
    then show ?thesis
      using that [of "the (rt_charge f)"] id parts(9,12) accepted_candidate(1) [OF assms(1), of "rsr_candidate r"]
      by (auto simp: rt_charge_def wf_RequirementTestSemanticFinding_def wf_structural_def bound_to_def
          wf_RequirementTestCandidateBundle_def wf_RequirementTestBundleRevision_def)
  qed (use assms(2) parts(9,12) in \<open>auto simp: wf_RequirementTestGateObservation_def OBSERVATIONS_def\<close>)
qed

lemma saved_candidate:
  assumes "accepted lc f" "rlf_observationKind f = ''candidate_saved''"
  obtains c where "observed_candidate (rlf_observation f) = Some c"
  using assms(2) accepted_parts(9,12) [OF assms(1)]
  by (cases "rlf_observation f") (auto simp: wf_RequirementTestGateObservation_def OBSERVATIONS_def
      wf_RequirementTestStepObservation_def REQUIREMENT_TEST_STEP_OBSERVATIONS_def)

lemma policy_ok:
  assumes "accepted lc f"
  shows "outcome_ok lc (rla_autoApprove (rlf_authority f)) (rlf_workItem f) (rt_policy f)"
proof -
  let ?k = "rlf_observationKind f" and ?w = "rlf_workItem f"
  note parts = accepted_parts [OF assms]
  note kinds = permitted_kinds [OF parts(10,8)]
  consider "?k = ''external_blocked''" | "?k = ''candidate_saved''" | "?k \<in> {''review_pass'', ''review_advisory''}"
    | "?k = ''tooling_failure''" | "?k = ''structural_rejection'' \<or> ?k = ''semantic_rejection''"
    | "?k \<notin> {''external_blocked'', ''review_pass'', ''review_advisory'', ''semantic_rejection'', ''candidate_saved'',
      ''structural_rejection'', ''tooling_failure''}" by blast
  then show ?thesis
  proof cases
    case 2
    then obtain c where "observed_candidate (rlf_observation f) = Some c" by (rule saved_candidate [OF assms])
    with 2 show ?thesis by (simp add: rt_policy_def accepted_candidate(1) [OF assms])
  next
    case 3
    then have "rlf_leaf f = ''test-review''" using kinds(2) by blast
    with 3 show ?thesis using accepted_bundle [OF assms] by (auto simp: rt_policy_def)
  next
    case 5
    obtain g where g: "rt_charge f = Some g" "wf_RequirementTestSemanticFinding g" "rsf_requirementId g = wi_requirementId ?w"
      "observed_candidate (rlf_observation f) = None \<Longrightarrow> wi_bundleRevision ?w \<noteq> None"
      using rejection_charge [OF assms 5] by metis
    have "pred_option (bound_to lc ?w) (observed_candidate (rlf_observation f))"
      using accepted_candidate(1) [OF assms] by (cases "observed_candidate (rlf_observation f)") auto
    then show ?thesis using 5 g by (auto simp: rt_policy_def Let_def)
  next
    case 6
    then have "rlf_leaf f = ''test-gate''" using kinds(4) by blast
    with 6 show ?thesis using accepted_bundle [OF assms] by (auto simp: rt_policy_def Let_def)
  qed (auto simp: rt_policy_def)
qed

subsection \<open>The new work item\<close>

lemma small_counter_safe: "n < 6 \<Longrightarrow> is_safe n"
  by (simp add: is_safe_def max_safe_def)

lemma with_bundle_sel [simp]:
  "wi_requirementId (with_bundle c w) = wi_requirementId w" "wi_specRevision (with_bundle c w) = wi_specRevision w"
  "wi_expectation (with_bundle c w) = wi_expectation w" "wi_budget (with_bundle c w) = wi_budget w"
  "wi_semanticFindings (with_bundle c w) = wi_semanticFindings w" "wi_status (with_bundle c w) = wi_status w"
  "wi_bundleRevision (with_bundle c w) = (case c of None \<Rightarrow> wi_bundleRevision w | Some x \<Rightarrow> Some (rcb_bundle x))"
  by (auto simp: with_bundle_def split: option.split)

lemma rt_item_sel [simp]:
  "wi_requirementId (rt_item m w out) = wi_requirementId w" "wi_specRevision (rt_item m w out) = wi_specRevision w"
  by (cases out; simp)+

text \<open>A state change keeps the item well formed when the new state obeys the rules of its status.\<close>

lemma wf_state_change:
  assumes "wf_RequirementTestWorkItem w" "st \<in> set STATUSES"
    "st \<in> {''pending'', ''in_progress''} \<Longrightarrow> b = None" "st \<in> {''candidate_saved'', ''reviewed'', ''promoted''} \<Longrightarrow> b \<noteq> None"
    "pred_option (\<lambda>x. wf_RequirementTestBundleRevision x \<and> rbr_requirementId x = wi_requirementId w
        \<and> rbr_specRevision x = wi_specRevision w) b"
    "wf_RequirementTestBudget g"
    "list_all (\<lambda>x. wf_RequirementTestSemanticFinding x \<and> rsf_requirementId x = wi_requirementId w) fs" "distinct fs"
  shows "wf_RequirementTestWorkItem (w\<lparr>wi_status := st, wi_bundleRevision := b, wi_budget := g, wi_semanticFindings := fs\<rparr>)"
  using assms by (cases b; simp add: wf_RequirementTestWorkItem_def item_rules_def list_all_iff; blast)

lemma wf_item_state:
  "wf_RequirementTestWorkItem w \<Longrightarrow> wf_RequirementTestBudget (wi_budget w) \<and> distinct (wi_semanticFindings w) \<and>
     list_all (\<lambda>x. wf_RequirementTestSemanticFinding x \<and> rsf_requirementId x = wi_requirementId w) (wi_semanticFindings w) \<and>
     pred_option (\<lambda>x. wf_RequirementTestBundleRevision x \<and> rbr_requirementId x = wi_requirementId w
        \<and> rbr_specRevision x = wi_specRevision w) (wi_bundleRevision w)"
  by (cases "wi_bundleRevision w") (auto simp: wf_RequirementTestWorkItem_def item_rules_def list_all_iff)

lemma bound_bundle:
  "wf_RequirementTestWorkItem w \<Longrightarrow> pred_option (bound_to lc w) c \<Longrightarrow>
   pred_option (\<lambda>x. wf_RequirementTestBundleRevision x \<and> rbr_requirementId x = wi_requirementId w
     \<and> rbr_specRevision x = wi_specRevision w) (wi_bundleRevision (with_bundle c w))"
  using wf_item_state [of w]
  by (cases c) (auto simp: bound_to_def wf_RequirementTestCandidateBundle_def)

lemma item_as_update:
  "rt_item m w ToolingRetry = w\<lparr>wi_status := wi_status w, wi_bundleRevision := wi_bundleRevision w,
     wi_budget := (wi_budget w)\<lparr>rtb_tooling := Suc (rtb_tooling (wi_budget w))\<rparr>, wi_semanticFindings := wi_semanticFindings w\<rparr>"
  "rt_item m w (Saved c) = w\<lparr>wi_status := ''candidate_saved'', wi_bundleRevision := wi_bundleRevision (with_bundle (Some c) w),
     wi_budget := wi_budget w, wi_semanticFindings := wi_semanticFindings w\<rparr>"
  "rt_item m w Passed = w\<lparr>wi_status := ''reviewed'', wi_bundleRevision := wi_bundleRevision w,
     wi_budget := wi_budget w, wi_semanticFindings := wi_semanticFindings w\<rparr>"
  "rt_item m w (Rejected g d) = w\<lparr>wi_status := ''reviewed'', wi_bundleRevision := wi_bundleRevision (with_bundle d w),
     wi_budget := charge_budget m (wi_budget w), wi_semanticFindings := wi_semanticFindings w @ [g]\<rparr>"
  "rt_item m w (Repeated d) = w\<lparr>wi_status := ''reviewed'', wi_bundleRevision := wi_bundleRevision (with_bundle d w),
     wi_budget := wi_budget w, wi_semanticFindings := wi_semanticFindings w\<rparr>"
  "rt_item m w Reopened = w\<lparr>wi_status := ''candidate_saved'', wi_bundleRevision := wi_bundleRevision w,
     wi_budget := wi_budget w, wi_semanticFindings := wi_semanticFindings w\<rparr>"
  "rt_item m w (Settled st d) = w\<lparr>wi_status := st, wi_bundleRevision := wi_bundleRevision (with_bundle d w),
     wi_budget := wi_budget w, wi_semanticFindings := wi_semanticFindings w\<rparr>"
  by (simp_all add: with_bundle_def split: option.split)

lemma rt_item_wf:
  assumes w: "wf_RequirementTestWorkItem w" and ok: "outcome_ok lc m w out"
  shows "wf_RequirementTestWorkItem (rt_item m w out)"
proof (cases out)
  case ToolingRetry
  have "wf_RequirementTestBudget ((wi_budget w)\<lparr>rtb_tooling := Suc (rtb_tooling (wi_budget w))\<rparr>)"
    using wf_item_state [OF w] ok ToolingRetry by (simp add: wf_RequirementTestBudget_def small_counter_safe)
  then show ?thesis
    unfolding ToolingRetry item_as_update using w wf_item_state [OF w]
    by (intro wf_state_change) (auto simp: wf_RequirementTestWorkItem_def item_rules_def)
next
  case (Saved c)
  with ok have "pred_option (bound_to lc w) (Some c)" by simp
  then show ?thesis
    unfolding Saved item_as_update using wf_item_state [OF w] bound_bundle [OF w, of lc "Some c"]
    by (intro wf_state_change w) (simp_all add: STATUSES_def)
next
  case (Rejected g c)
  have "wf_RequirementTestBudget (charge_budget m (wi_budget w))"
    using wf_item_state [OF w] ok Rejected
    by (simp add: wf_RequirementTestBudget_def charge_budget_def semantic_attempts_def small_counter_safe split: if_splits)
  then show ?thesis
    unfolding Rejected item_as_update using wf_item_state [OF w] bound_bundle [OF w, of lc c] ok Rejected
    by (intro wf_state_change w) (simp_all add: STATUSES_def split: option.splits)
next
  case (Repeated c)
  then show ?thesis
    unfolding Repeated item_as_update using wf_item_state [OF w] bound_bundle [OF w, of lc c] ok Repeated
    by (intro wf_state_change w) (simp_all add: STATUSES_def split: option.splits)
next
  case (Settled st c)
  then show ?thesis
    unfolding Settled item_as_update using wf_item_state [OF w] bound_bundle [OF w, of lc c] ok Settled
    by (intro wf_state_change w) (auto simp add: STATUSES_def split: option.splits)
next
  case Passed
  then show ?thesis
    unfolding Passed item_as_update using wf_item_state [OF w] ok Passed
    by (intro wf_state_change w) (simp_all add: STATUSES_def)
next
  case Reopened
  then show ?thesis
    unfolding Reopened item_as_update using wf_item_state [OF w] ok Reopened
    by (intro wf_state_change w) (simp_all add: STATUSES_def)
qed (use w in simp)

subsection \<open>The decision of an outcome\<close>

definition decision_of :: "string \<Rightarrow> string \<Rightarrow> string \<Rightarrow> string option \<Rightarrow> string \<Rightarrow> string option \<Rightarrow>
    RequirementTestCandidateBundle option \<Rightarrow> RequirementTestSemanticFinding option \<Rightarrow> RequirementTestLifecycleFacts option \<Rightarrow>
    RequirementTestLifecycleDecision" where
  "decision_of d t st bi i n c g x = \<lparr>rtd_disposition = d, rtd_target = t, rtd_nextStatus = st, rtd_budgetIncrement = bi,
     rtd_requirementId = i, rtd_nextRequirementId = n,
     rtd_repairRequired = (case repair_mode d t st of JBool b \<Rightarrow> Some b | _ \<Rightarrow> None),
     rtd_acceptanceHandoff = (d = ''defer''), rtd_candidateBundle = c, rtd_semanticFinding = g, rtd_facts = x\<rparr>"

lemma nullable_member: "pred_option (\<lambda>t. t \<in> set S) x \<Longrightarrow> nullable (lit_of S e) (js_opt JStr x) = Inr x"
  by (rule nullable_opt [where P = "\<lambda>t. t \<in> set S"]) auto

lemma nullable_nonempty_text: "pred_option (\<lambda>t. t \<noteq> []) x \<Longrightarrow> nullable (nonempty_text e) (js_opt JStr x) = Inr x"
  by (rule nullable_opt [where P = "\<lambda>t. t \<noteq> []"]) (auto simp: nonempty_text_def)

lemma new_lifecycle_decision_ok:
  assumes "fld ob ''disposition'' = JStr d" "fld ob ''target'' = JStr t" "fld ob ''nextStatus'' = JStr st"
    "fld_or ob ''budgetIncrement'' JNull = js_opt JStr bi" "fld ob ''requirementId'' = JStr i"
    "fld_or ob ''nextRequirementId'' JNull = js_opt JStr n" "fld_or ob ''repairRequired'' JNull = repair_mode d t st"
    "fld_or ob ''acceptanceHandoff'' (JBool False) = JBool (d = ''defer'')"
    and lits: "d \<in> set DISPOSITIONS" "t \<in> set TARGETS" "st \<in> set DECISION_STATUSES" "pred_option (\<lambda>k. k \<in> set BUDGET_KINDS) bi"
    and "i \<noteq> []" "pred_option (\<lambda>j. j \<noteq> []) n"
    and "(bi = Some ''autoSemantic'' \<or> bi = Some ''manualSemantic'') \<longleftrightarrow> g \<noteq> None"
    and "c = None \<or> carriesCandidate d t st"
    and "t = ''test-generate'' \<and> d = ''advance'' \<and> st = ''candidate_saved'' \<longrightarrow> c \<noteq> None"
  shows "new_RequirementTestLifecycleDecision ob c g x = Inr (decision_of d t st bi i n c g x)"
  using assms
  by (simp add: new_RequirementTestLifecycleDecision_def decision_of_def lit_of_literal nullable_member nullable_nonempty_text
      nonempty_text_def del: lit_of_eq_Inr bindE_eq_Inr)

definition rt_claimed :: "RequirementTestLifecycleFacts \<Rightarrow> string option" where
  "rt_claimed f = (case rt_policy f of
     Saved c \<Rightarrow> if rlf_leaf f = ''test-generate'' then map_option wi_requirementId (nextPendingWorkItem (rt_plan f)) else None
   | Settled st c \<Rightarrow> if active_item (rt_plan f) \<noteq> None then None else map_option wi_requirementId (nextPendingWorkItem (rt_plan f))
   | _ \<Rightarrow> None)"

fun rt_disposition :: "rt_outcome \<Rightarrow> string" where
  "rt_disposition Blocked = ''external_blocked''"
| "rt_disposition ToolingRetry = ''tooling_retry''"
| "rt_disposition (Rejected g c) = ''semantic_retry''"
| "rt_disposition (Repeated c) = ''semantic_retry''"
| "rt_disposition (Settled st c) = (if st = ''promoted'' then ''promote'' else ''defer'')"
| "rt_disposition _ = ''advance''"

fun rt_increment :: "bool \<Rightarrow> rt_outcome \<Rightarrow> string option" where
  "rt_increment auto_mode ToolingRetry = Some ''tooling''"
| "rt_increment auto_mode (Rejected g c) = Some (if auto_mode then ''autoSemantic'' else ''manualSemantic'')"
| "rt_increment auto_mode _ = None"

fun rt_candidate :: "rt_outcome \<Rightarrow> RequirementTestCandidateBundle option" where
  "rt_candidate (Saved c) = Some c"
| "rt_candidate (Rejected g c) = c"
| "rt_candidate (Repeated c) = c"
| "rt_candidate (Settled st c) = c"
| "rt_candidate _ = None"

fun rt_finding :: "rt_outcome \<Rightarrow> RequirementTestSemanticFinding option" where
  "rt_finding (Rejected g c) = Some g"
| "rt_finding _ = None"

definition rt_decision :: "RequirementTestLifecycleFacts \<Rightarrow> RequirementTestLifecycleFacts option \<Rightarrow> RequirementTestLifecycleDecision" where
  "rt_decision f x = decision_of (rt_disposition (rt_policy f)) (fst (rt_next f)) (wi_status (rt_new_item f))
     (rt_increment (rla_autoApprove (rlf_authority f)) (rt_policy f)) (wi_requirementId (rlf_workItem f)) (rt_claimed f)
     (rt_candidate (rt_policy f)) (rt_finding (rt_policy f)) x"

text \<open>The operands of a selection agree with the facts, live or read back from a saved Result.\<close>

definition selects :: "RequirementTestLifecycleFacts \<Rightarrow> selection \<Rightarrow> bool" where
  "selects f s \<longleftrightarrow> (sel_facts s = None \<or> sel_facts s = Some f) \<and> sel_leaf s = rlf_leaf f \<and>
     sel_observation s = rlf_observationKind f \<and> sel_requirementId s = wi_requirementId (rlf_workItem f) \<and>
     sel_status s = wi_status (rlf_workItem f) \<and> sel_budget s = wi_budget (rlf_workItem f) \<and>
     sel_autoApprove s = rla_autoApprove (rlf_authority f) \<and> sel_findings s = wi_semanticFindings (rlf_workItem f) \<and>
     (observed_candidate (rlf_observation f) \<noteq> None \<longrightarrow> sel_candidateBundle s = observed_candidate (rlf_observation f)) \<and>
     sel_semanticFinding s = rt_charge f \<and>
     (rlf_leaf f = ''test-gate'' \<longrightarrow> sel_expectation s = Some (wi_expectation (rlf_workItem f))) \<and>
     first_id (rrf_pending (sel_frontier s)) = map_option wi_requirementId (nextPendingWorkItem (rlf_plan f)) \<and>
     first_id (rrf_staged (sel_frontier s)) = map_option wi_requirementId (other_staged (rlf_plan f) (rlf_workItem f))"

lemma target_literals: "LIFECYCLE_LEAVES = REQUIREMENT_TEST_LEAF_IDS" "l \<in> set LIFECYCLE_LEAVES \<Longrightarrow> l \<in> set TARGETS"
  by (auto simp: LIFECYCLE_LEAVES_def REQUIREMENT_TEST_LEAF_IDS_def TARGETS_def)

lemma plan_parts:
  assumes "accepted lc f"
  shows "wf_RequirementTestWorkItem (rt_new_item f)" "wi_requirementId (rt_new_item f) = wi_requirementId (rlf_workItem f)"
    "wi_specRevision (rt_new_item f) = rtp_specRevision (rlf_plan f)"
    "withWorkItem (rlf_plan f) (rt_new_item f) = Inr (rt_plan f)" "wf_RequirementTestPlan (rt_plan f)" "frontier_ok (rt_plan f)"
proof -
  note parts = accepted_parts [OF assms]
  show w: "wf_RequirementTestWorkItem (rt_new_item f)"
    unfolding rt_new_item_def by (rule rt_item_wf [OF parts(6) policy_ok [OF assms]])
  show i: "wi_requirementId (rt_new_item f) = wi_requirementId (rlf_workItem f)"
    and sp: "wi_specRevision (rt_new_item f) = rtp_specRevision (rlf_plan f)"
    using parts(7) by (simp_all add: rt_new_item_def)
  show "withWorkItem (rlf_plan f) (rt_new_item f) = Inr (rt_plan f)"
    unfolding rt_plan_def by (rule withWorkItem_ok [OF parts(2,5) i sp])
  show "wf_RequirementTestPlan (rt_plan f)" unfolding rt_plan_def by (rule put_wf [OF parts(1) w sp])
  show "frontier_ok (rt_plan f)" unfolding rt_plan_def by (rule put_frontier [OF parts(3,2,4) i sp])
qed

lemma new_status:
  assumes "accepted lc f"
  shows "wi_status (rt_new_item f) \<in> set DECISION_STATUSES"
  using policy_ok [OF assms] accepted_status [OF assms]
  by (cases "rt_policy f") (auto simp: rt_new_item_def DECISION_STATUSES_def)

lemma plan_pending:
  assumes "accepted lc f"
  shows "nextPendingWorkItem (rt_plan f) = nextPendingWorkItem (rlf_plan f)"
  unfolding rt_plan_def
proof (rule put_pending [OF accepted_parts(2,5) [OF assms] plan_parts(2) [OF assms]])
  show "wi_status (rlf_workItem f) \<noteq> ''pending''" using accepted_status [OF assms] by simp
  show "wi_status (rt_new_item f) \<noteq> ''pending''" using new_status [OF assms] by (auto simp: DECISION_STATUSES_def)
qed

lemma pending_id:
  assumes "wf_RequirementTestPlan p" "nextPendingWorkItem p = Some n"
  shows "n \<in> set (rtp_workItems p)" "wi_status n = ''pending''" "wf_RequirementTestWorkItem n" "wi_requirementId n \<noteq> []"
    "wi_specRevision n = rtp_specRevision p"
proof -
  show n: "n \<in> set (rtp_workItems p)" and "wi_status n = ''pending''"
    using assms(2) by (auto simp: nextPendingWorkItem_def find_Some_iff)
  show w: "wf_RequirementTestWorkItem n" and "wi_specRevision n = rtp_specRevision p"
    using assms(1) n by (auto simp: wf_RequirementTestPlan_def plan_rules_def list_all_iff)
  show "wi_requirementId n \<noteq> []" using w by (auto simp: wf_RequirementTestWorkItem_def)
qed

lemma decision_literals:
  assumes "accepted lc f"
  defines "m \<equiv> rla_autoApprove (rlf_authority f)"
  shows "rt_disposition (rt_policy f) \<in> set DISPOSITIONS" "fst (rt_next f) \<in> set TARGETS"
    "pred_option (\<lambda>k. k \<in> set BUDGET_KINDS) (rt_increment m (rt_policy f))"
    "wi_requirementId (rlf_workItem f) \<noteq> []" "pred_option (\<lambda>j. j \<noteq> []) (rt_claimed f)"
    "(rt_increment m (rt_policy f) = Some ''autoSemantic'' \<or> rt_increment m (rt_policy f) = Some ''manualSemantic'')
       \<longleftrightarrow> rt_finding (rt_policy f) \<noteq> None"
    "rt_candidate (rt_policy f) = None \<or> carriesCandidate (rt_disposition (rt_policy f)) (fst (rt_next f)) (wi_status (rt_new_item f))"
    "fst (rt_next f) = ''test-generate'' \<and> rt_disposition (rt_policy f) = ''advance'' \<and> wi_status (rt_new_item f) = ''candidate_saved''
       \<longrightarrow> rt_candidate (rt_policy f) \<noteq> None"
proof -
  note parts = accepted_parts [OF assms(1)]
  note ok = policy_ok [OF assms(1)]
  show "rt_disposition (rt_policy f) \<in> set DISPOSITIONS" by (cases "rt_policy f") (simp_all add: DISPOSITIONS_def)
  show "fst (rt_next f) \<in> set TARGETS"
    using target_literals(2) [OF parts(8)]
    by (cases "rt_policy f") (auto simp: rt_next_def TARGETS_def REQUIREMENT_TEST_LEAF_IDS_def split: option.split)
  show "pred_option (\<lambda>k. k \<in> set BUDGET_KINDS) (rt_increment m (rt_policy f))"
    by (cases "rt_policy f") (simp_all add: BUDGET_KINDS_def)
  show "wi_requirementId (rlf_workItem f) \<noteq> []" using parts(6) by (auto simp: wf_RequirementTestWorkItem_def)
  show "pred_option (\<lambda>j. j \<noteq> []) (rt_claimed f)"
    using pending_id(4) [OF plan_parts(5) [OF assms(1)]]
    by (cases "nextPendingWorkItem (rt_plan f)"; cases "rt_policy f") (simp_all add: rt_claimed_def)
  show "(rt_increment m (rt_policy f) = Some ''autoSemantic'' \<or> rt_increment m (rt_policy f) = Some ''manualSemantic'')
       \<longleftrightarrow> rt_finding (rt_policy f) \<noteq> None"
    by (cases "rt_policy f") simp_all
  show "rt_candidate (rt_policy f) = None \<or> carriesCandidate (rt_disposition (rt_policy f)) (fst (rt_next f)) (wi_status (rt_new_item f))"
    using ok by (cases "rt_policy f") (auto simp: carriesCandidate_def rt_next_def rt_new_item_def)
  show "fst (rt_next f) = ''test-generate'' \<and> rt_disposition (rt_policy f) = ''advance'' \<and> wi_status (rt_new_item f) = ''candidate_saved''
       \<longrightarrow> rt_candidate (rt_policy f) \<noteq> None"
    by (cases "rt_policy f") (simp_all add: rt_next_def rt_new_item_def)
qed

lemma select_ok:
  assumes "accepted lc f" "sel_requirementId s = wi_requirementId (rlf_workItem f)"
    "fld input ''disposition'' = JStr (rt_disposition (rt_policy f))" "fld input ''target'' = JStr (fst (rt_next f))"
    "fld input ''nextStatus'' = JStr (wi_status (rt_new_item f))"
    "fld_or input ''budgetIncrement'' JNull = js_opt JStr (rt_increment (rla_autoApprove (rlf_authority f)) (rt_policy f))"
    "fld_or input ''nextRequirementId'' JNull = js_opt JStr (rt_claimed f)"
    "fld_or input ''repairRequired'' JNull = repair_mode (rt_disposition (rt_policy f)) (fst (rt_next f)) (wi_status (rt_new_item f))"
    "fld_or input ''acceptanceHandoff'' (JBool False) = JBool (rt_disposition (rt_policy f) = ''defer'')"
    "c = rt_candidate (rt_policy f)" "g = rt_finding (rt_policy f)"
  shows "selectedRequirementTestDecision s input c g = Inr (rt_decision f (sel_facts s))"
  unfolding selectedRequirementTestDecision_def rt_decision_def assms(10,11)
  by (rule new_lifecycle_decision_ok) (simp_all add: assms(2-9) decision_literals [OF assms(1)] new_status [OF assms(1)])

lemma terminal_ok:
  assumes "accepted lc f" "selects f s" "rt_policy f = Settled st c"
  shows "requirementTestTerminalDecision s (rt_disposition (rt_policy f)) c = Inr (rt_decision f (sel_facts s))"
proof -
  note parts = accepted_parts [OF assms(1)] and plan = plan_parts [OF assms(1)]
  have st: "st = ''promoted'' \<or> st = ''deferred''" using policy_ok [OF assms(1)] assms(3) by auto
  have new: "rt_new_item f = (rlf_workItem f)\<lparr>wi_status := st, wi_bundleRevision := wi_bundleRevision (with_bundle c (rlf_workItem f)),
     wi_budget := wi_budget (rlf_workItem f), wi_semanticFindings := wi_semanticFindings (rlf_workItem f)\<rparr>"
    unfolding rt_new_item_def assms(3) item_as_update ..
  have ns: "(if rt_disposition (rt_policy f) = ''promote'' then ''promoted'' else ''deferred'') = st"
    using st assms(3) by auto
  have tp: "terminal_plan f st c = Inr (rt_plan f)"
    using plan(1,4) unfolding terminal_plan_def Let_def withState_def
    by (cases c) (simp_all add: new checked_work_item_eq_Inr wf_RequirementTestWorkItem_def)
  have staged: "active_item (rt_plan f) = other_staged (rlf_plan f) (rlf_workItem f)"
    unfolding rt_plan_def using st
    by (intro put_settled_active [OF parts(3,2,4) plan(2)]) (auto simp: new)
  have x: "sel_facts s = None \<or> sel_facts s = Some f" using assms(2) by (simp add: selects_def)
  have frontier: "first_id (rrf_pending (sel_frontier s)) = map_option wi_requirementId (nextPendingWorkItem (rt_plan f))"
    "first_id (rrf_staged (sel_frontier s)) = map_option wi_requirementId (active_item (rt_plan f))"
    using assms(2) plan_pending [OF assms(1)] staged by (simp_all add: selects_def)
  have "requirementTestTerminalDecision s (rt_disposition (rt_policy f)) c = selectedRequirementTestDecision s
        [(''disposition'', JStr (rt_disposition (rt_policy f))),
         (''target'', JStr (if active_item (rt_plan f) \<noteq> None then ''test-review''
            else if nextPendingWorkItem (rt_plan f) \<noteq> None then ''test-generate'' else ''implement'')),
         (''nextStatus'', JStr st),
         (''nextRequirementId'', if active_item (rt_plan f) \<noteq> None then JNull
            else js_opt JStr (map_option wi_requirementId (nextPendingWorkItem (rt_plan f)))),
         (''acceptanceHandoff'', JBool (rt_disposition (rt_policy f) = ''defer''))] c None"
    using x frontier tp activeWorkItem_ok [OF plan(6)]
    unfolding requirementTestTerminalDecision_def Let_def ns by auto
  also have "\<dots> = Inr (rt_decision f (sel_facts s))"
    using assms(2,3) st
    by (intro select_ok [OF assms(1)])
      (auto simp: selects_def rt_next_def rt_claimed_def repair_mode_def rt_new_item_def split: option.splits)
  finally show ?thesis .
qed

subsection \<open>The code implements the table\<close>

lemma outcome_kinds:
  assumes "accepted lc f"
  obtains (blocked) "rlf_observationKind f = ''external_blocked''" "rt_policy f = Blocked"
  | (saved) c where "rlf_observationKind f = ''candidate_saved''" "rt_policy f = Saved c"
      "observed_candidate (rlf_observation f) = Some c"
  | (passed) "rlf_observationKind f = ''review_pass'' \<or> rlf_observationKind f = ''review_advisory''" "rt_policy f = Passed"
  | (tooling) "rlf_observationKind f = ''tooling_failure''"
  | (rejection) "rlf_observationKind f = ''structural_rejection'' \<or> rlf_observationKind f = ''semantic_rejection''"
  | (gate) "rlf_observationKind f \<notin> {''external_blocked'', ''review_pass'', ''review_advisory'', ''semantic_rejection'',
      ''candidate_saved'', ''structural_rejection'', ''tooling_failure''}" "rlf_leaf f = ''test-gate''"
proof -
  let ?k = "rlf_observationKind f"
  consider "?k = ''external_blocked''" | "?k = ''candidate_saved''" | "?k \<in> {''review_pass'', ''review_advisory''}"
    | "?k = ''tooling_failure''" | "?k = ''structural_rejection'' \<or> ?k = ''semantic_rejection''"
    | "?k \<notin> {''external_blocked'', ''review_pass'', ''review_advisory'', ''semantic_rejection'', ''candidate_saved'',
      ''structural_rejection'', ''tooling_failure''}" by blast
  then show ?thesis
  proof cases
    case 1
    then show ?thesis by (intro blocked) (simp_all add: rt_policy_def)
  next
    case 2
    then obtain c where "observed_candidate (rlf_observation f) = Some c" by (rule saved_candidate [OF assms])
    with 2 show ?thesis by (intro saved [of c]) (simp_all add: rt_policy_def)
  next
    case 3
    then show ?thesis by (intro passed) (auto simp: rt_policy_def)
  next
    case 6
    then show ?thesis using permitted_kinds(4) [OF accepted_parts(10,8) [OF assms]] by (intro gate) blast+
  qed (use tooling rejection in blast)+
qed

lemma saved_next:
  assumes "rt_policy f = Saved c"
  shows "fst (rt_next f) = (if rt_claimed f = None then ''test-review'' else ''test-generate'')"
  using assms by (simp add: rt_next_def rt_claimed_def split: option.split)

lemma resolve_rejection:
  assumes "accepted lc f" "selects f s"
    "rlf_observationKind f = ''structural_rejection'' \<or> rlf_observationKind f = ''semantic_rejection''"
  shows "resolveRequirementTestSelection s = Inr (rt_decision f (sel_facts s))"
proof -
  obtain g where g: "rt_charge f = Some g"
    and none: "observed_candidate (rlf_observation f) = None \<longleftrightarrow> rlf_observationKind f = ''semantic_rejection''"
    using rejection_charge [OF assms(1,3)] by metis
  let ?w = "rlf_workItem f" and ?m = "rla_autoApprove (rlf_authority f)" and ?c = "observed_candidate (rlf_observation f)"
  have dup: "list_ex (\<lambda>h. h = g) (wi_semanticFindings ?w) \<longleftrightarrow> g \<in> set (wi_semanticFindings ?w)"
    by (auto simp: list_ex_iff)
  have ret: "(if sel_observation s = ''structural_rejection'' then sel_candidateBundle s else None) = ?c"
    using assms(2,3) none by (auto simp: selects_def)
  have sel: "sel_semanticFinding s = Some g" "sel_findings s = wi_semanticFindings ?w" "sel_budget s = wi_budget ?w"
    "sel_autoApprove s = ?m" "sel_observation s = rlf_observationKind f" "sel_requirementId s = wi_requirementId ?w"
    using assms(2) g by (simp_all add: selects_def)
  have kind: "sel_observation s = ''structural_rejection'' \<or> sel_observation s = ''semantic_rejection''" using assms(3) sel(5) by simp
  have res: "resolveRequirementTestSelection s =
     (if g \<in> set (wi_semanticFindings ?w) \<or> semantic_attempts (wi_budget ?w) ?m < 5 then
        selectedRequirementTestDecision s
          [(''disposition'', JStr ''semantic_retry''), (''target'', JStr ''test-repair''), (''nextStatus'', JStr ''reviewed''),
           (''budgetIncrement'', if g \<in> set (wi_semanticFindings ?w) then JNull
              else JStr (if ?m then ''autoSemantic'' else ''manualSemantic'')), (''repairRequired'', JBool True)]
          ?c (if g \<in> set (wi_semanticFindings ?w) then None else Some g)
      else requirementTestTerminalDecision s ''defer'' ?c)"
    using kind unfolding resolveRequirementTestSelection_def Let_def ret
    by (elim disjE) (simp_all add: sel dup REQUIREMENT_TEST_SEMANTIC_LIMIT_def del: bindE_eq_Inr)
  have pol: "rt_policy f = (if g \<in> set (wi_semanticFindings ?w) then Repeated ?c
      else if semantic_attempts (wi_budget ?w) ?m < 5 then Rejected g ?c else Settled ''deferred'' ?c)"
    using assms(3) g by (auto simp: rt_policy_def Let_def)
  consider (rep) "g \<in> set (wi_semanticFindings ?w)" "rt_policy f = Repeated ?c"
    | (rej) "g \<notin> set (wi_semanticFindings ?w)" "semantic_attempts (wi_budget ?w) ?m < 5" "rt_policy f = Rejected g ?c"
    | (def) "g \<notin> set (wi_semanticFindings ?w)" "\<not> semantic_attempts (wi_budget ?w) ?m < 5" "rt_policy f = Settled ''deferred'' ?c"
    using pol by presburger
  then show ?thesis
  proof cases
    case rep
    then have "resolveRequirementTestSelection s = selectedRequirementTestDecision s
        [(''disposition'', JStr ''semantic_retry''), (''target'', JStr ''test-repair''), (''nextStatus'', JStr ''reviewed''),
         (''budgetIncrement'', JNull), (''repairRequired'', JBool True)] ?c None"
      unfolding res by simp
    also have "\<dots> = Inr (rt_decision f (sel_facts s))"
      by (intro select_ok [OF assms(1)]) (simp_all add: rep sel rt_next_def rt_claimed_def rt_new_item_def repair_mode_def)
    finally show ?thesis .
  next
    case rej
    then have "resolveRequirementTestSelection s = selectedRequirementTestDecision s
        [(''disposition'', JStr ''semantic_retry''), (''target'', JStr ''test-repair''), (''nextStatus'', JStr ''reviewed''),
         (''budgetIncrement'', JStr (if ?m then ''autoSemantic'' else ''manualSemantic'')), (''repairRequired'', JBool True)] ?c (Some g)"
      unfolding res by simp
    also have "\<dots> = Inr (rt_decision f (sel_facts s))"
      by (intro select_ok [OF assms(1)]) (simp_all add: rej sel rt_next_def rt_claimed_def rt_new_item_def repair_mode_def)
    finally show ?thesis .
  next
    case def
    then show ?thesis using terminal_ok [OF assms(1,2) def(3)] by (simp add: res)
  qed
qed

lemma resolve_gate:
  assumes "accepted lc f" "selects f s" "rlf_leaf f = ''test-gate''"
    "rlf_observationKind f \<notin> {''external_blocked'', ''review_pass'', ''review_advisory'', ''semantic_rejection'',
      ''candidate_saved'', ''structural_rejection'', ''tooling_failure''}"
  shows "resolveRequirementTestSelection s = Inr (rt_decision f (sel_facts s))"
proof -
  have sel: "sel_observation s = rlf_observationKind f" "sel_leaf s = ''test-gate''"
    "sel_expectation s = Some (wi_expectation (rlf_workItem f))" "sel_requirementId s = wi_requirementId (rlf_workItem f)"
    using assms(2,3) by (auto simp: selects_def)
  have res: "resolveRequirementTestSelection s =
     (if rlf_observationKind f = rt_expected (rlf_workItem f) then requirementTestTerminalDecision s ''promote'' None
      else selectedRequirementTestDecision s
        [(''disposition'', JStr ''advance''), (''target'', JStr ''test-review''), (''nextStatus'', JStr ''candidate_saved'')] None None)"
    using assms(4) unfolding resolveRequirementTestSelection_def Let_def sel
    by (simp add: rt_expected_def)
  show ?thesis
  proof (cases "rlf_observationKind f = rt_expected (rlf_workItem f)")
    case True
    then have pol: "rt_policy f = Settled ''promoted'' None" using assms(4) by (auto simp: rt_policy_def Let_def)
    then show ?thesis using terminal_ok [OF assms(1,2) pol] True by (simp add: res)
  next
    case False
    then have pol: "rt_policy f = Reopened" using assms(4) by (auto simp: rt_policy_def Let_def)
    have "selectedRequirementTestDecision s [(''disposition'', JStr ''advance''), (''target'', JStr ''test-review''),
        (''nextStatus'', JStr ''candidate_saved'')] None None = Inr (rt_decision f (sel_facts s))"
      by (intro select_ok [OF assms(1)]) (simp_all add: pol sel rt_next_def rt_claimed_def rt_new_item_def repair_mode_def)
    with False show ?thesis by (simp add: res)
  qed
qed

lemma resolve_tooling:
  assumes "accepted lc f" "selects f s" "rlf_observationKind f = ''tooling_failure''"
  shows "resolveRequirementTestSelection s = Inr (rt_decision f (sel_facts s))"
proof -
  have sel: "sel_observation s = ''tooling_failure''" "sel_leaf s = rlf_leaf f" "sel_status s = wi_status (rlf_workItem f)"
    "sel_budget s = wi_budget (rlf_workItem f)" "sel_requirementId s = wi_requirementId (rlf_workItem f)"
    using assms(2,3) by (auto simp: selects_def)
  show ?thesis
  proof (cases "rtb_tooling (wi_budget (rlf_workItem f)) < 3")
    case True
    then have pol: "rt_policy f = ToolingRetry" using assms(3) by (simp add: rt_policy_def)
    have "resolveRequirementTestSelection s = selectedRequirementTestDecision s
        [(''disposition'', JStr ''tooling_retry''), (''target'', JStr (rlf_leaf f)),
         (''nextStatus'', JStr (wi_status (rlf_workItem f))), (''budgetIncrement'', JStr ''tooling''),
         (''repairRequired'', if rlf_leaf f = ''test-repair'' then JBool True else JNull)] None None"
      unfolding resolveRequirementTestSelection_def Let_def sel using True by (simp add: REQUIREMENT_TEST_TOOLING_LIMIT_def)
    also have "\<dots> = Inr (rt_decision f (sel_facts s))"
      by (intro select_ok [OF assms(1)]) (simp_all add: pol sel rt_next_def rt_claimed_def rt_new_item_def repair_mode_def)
    finally show ?thesis .
  next
    case False
    then have pol: "rt_policy f = Settled ''deferred'' None" using assms(3) by (simp add: rt_policy_def)
    then show ?thesis
      unfolding resolveRequirementTestSelection_def Let_def sel using False terminal_ok [OF assms(1,2) pol]
      by (simp add: REQUIREMENT_TEST_TOOLING_LIMIT_def)
  qed
qed

lemma resolve_selected:
  assumes "accepted lc f" "selects f s"
  shows "resolveRequirementTestSelection s = Inr (rt_decision f (sel_facts s))"
  using assms(1)
proof (cases rule: outcome_kinds)
  case blocked
  have sel: "sel_observation s = ''external_blocked''" "sel_leaf s = rlf_leaf f" "sel_status s = wi_status (rlf_workItem f)"
    "sel_requirementId s = wi_requirementId (rlf_workItem f)"
    using assms(2) blocked by (auto simp: selects_def)
  have "resolveRequirementTestSelection s = selectedRequirementTestDecision s
      [(''disposition'', JStr ''external_blocked''), (''target'', JStr (rlf_leaf f)),
       (''nextStatus'', JStr (wi_status (rlf_workItem f))),
       (''repairRequired'', if rlf_leaf f = ''test-repair'' then JBool True else JNull)] None None"
    unfolding resolveRequirementTestSelection_def Let_def sel by simp
  also have "\<dots> = Inr (rt_decision f (sel_facts s))"
    by (intro select_ok [OF assms(1)]) (simp_all add: blocked sel rt_next_def rt_claimed_def rt_new_item_def repair_mode_def)
  finally show ?thesis .
next
  case (saved c)
  have sel: "sel_observation s = ''candidate_saved''" "sel_leaf s = rlf_leaf f" "sel_candidateBundle s = Some c"
    "sel_requirementId s = wi_requirementId (rlf_workItem f)"
    using assms(2) saved by (auto simp: selects_def)
  have claimed: "(if rlf_leaf f = ''test-generate'' then first_id (rrf_pending (sel_frontier s)) else None) = rt_claimed f"
    using assms(2) saved plan_pending [OF assms(1)] by (simp add: selects_def rt_claimed_def)
  have "resolveRequirementTestSelection s = selectedRequirementTestDecision s
      [(''disposition'', JStr ''advance''), (''target'', JStr (if rt_claimed f = None then ''test-review'' else ''test-generate'')),
       (''nextStatus'', JStr ''candidate_saved''), (''nextRequirementId'', js_opt JStr (rt_claimed f))] (Some c) None"
    unfolding resolveRequirementTestSelection_def Let_def sel claimed by simp
  also have "\<dots> = Inr (rt_decision f (sel_facts s))"
    by (intro select_ok [OF assms(1)]) (simp_all add: saved saved_next [OF saved(2)] sel rt_new_item_def repair_mode_def)
  finally show ?thesis .
next
  case passed
  have sel: "sel_observation s = rlf_observationKind f" "sel_requirementId s = wi_requirementId (rlf_workItem f)"
    using assms(2) by (auto simp: selects_def)
  have "resolveRequirementTestSelection s = selectedRequirementTestDecision s
      [(''disposition'', JStr ''advance''), (''target'', JStr ''test-gate''), (''nextStatus'', JStr ''reviewed''),
       (''repairRequired'', JBool False)] None None"
    unfolding resolveRequirementTestSelection_def Let_def sel using passed(1) by auto
  also have "\<dots> = Inr (rt_decision f (sel_facts s))"
    by (intro select_ok [OF assms(1)]) (simp_all add: passed sel rt_next_def rt_claimed_def rt_new_item_def repair_mode_def)
  finally show ?thesis .
qed (use assms resolve_tooling resolve_rejection resolve_gate in blast)+

subsection \<open>The live selection\<close>

lemma charged_finding_ok:
  assumes "accepted lc f"
  shows "charged_finding f = Inr (rt_charge f)"
proof (cases "observation_fingerprint (rlf_observation f)")
  case None
  then show ?thesis by (simp add: charged_finding_def rt_charge_def)
next
  case (Some fp)
  note parts = accepted_parts [OF assms]
  have kind: "rlf_observationKind f = ''structural_rejection'' \<or> rlf_observationKind f = ''semantic_rejection''"
    using Some parts(9,12) by (cases "rlf_observation f") (auto simp: wf_RequirementTestStepObservation_def)
  obtain g where g: "rt_charge f = Some g" "wf_RequirementTestSemanticFinding g"
    and semantic: "observed_candidate (rlf_observation f) = None \<longleftrightarrow> rlf_observationKind f = ''semantic_rejection''"
    using rejection_charge [OF assms kind] by metis
  have "(case rlf_candidateBundle f of Some c \<Rightarrow> JInt (int (rbr_revision (rcb_bundle c)))
      | None \<Rightarrow> (case wi_bundleRevision (rlf_workItem f) of None \<Rightarrow> JUndef | Some b \<Rightarrow> JInt (int (rbr_revision b)))) =
    JInt (int (rsf_bundleRevision g))"
  proof (cases "observed_candidate (rlf_observation f)")
    case None
    then have leaf: "rlf_leaf f = ''test-review''" using semantic permitted_kinds(2) [OF parts(10,8)] by blast
    then obtain b where b: "wi_bundleRevision (rlf_workItem f) = Some b" using accepted_bundle [OF assms] by auto
    have "map_option rcb_bundle (rlf_candidateBundle f) = wi_bundleRevision (rlf_workItem f)"
      using assms None leaf by (simp add: accepted_def Let_def)
    then show ?thesis using None g(1) b Some by (auto simp: rt_charge_def)
  next
    case (Some c)
    then show ?thesis using g(1) accepted_candidate(2) [OF assms Some] by (auto simp: rt_charge_def)
  qed
  moreover have "new_RequirementTestSemanticFinding (JObj [(''requirementId'', JStr (rsf_requirementId g)),
      (''bundleRevision'', JInt (int (rsf_bundleRevision g))), (''fingerprint'', JStr (rsf_fingerprint g))]) = Inr g"
    using g(2) by (simp add: new_RequirementTestSemanticFinding_def wf_RequirementTestSemanticFinding_def)
  moreover have "wi_requirementId (rlf_workItem f) = rsf_requirementId g" "fp = rsf_fingerprint g"
    using g(1) Some by (auto simp: rt_charge_def)
  ultimately show ?thesis by (simp add: charged_finding_def Some g(1) del: bindE_eq_Inr)
qed

text \<open>The frontier of a plan around one work item.\<close>

definition frontier_item :: "RequirementTestWorkItem \<Rightarrow> RequirementTestResultFrontierItem" where
  "frontier_item w = \<lparr>rfi_requirementId = wi_requirementId w, rfi_specRevision = wi_specRevision w, rfi_status = wi_status w\<rparr>"

lemma first_id_map: "first_id (map frontier_item (filter P ws)) = map_option wi_requirementId (find P ws)"
  by (induction ws) (auto simp: first_id_def frontier_item_def)

lemma frontier_items_ok:
  assumes "\<And>w. w \<in> set ws \<Longrightarrow> wf_RequirementTestWorkItem w"
  shows "mapE fromWorkItem ws = Inr (map frontier_item ws)"
proof (rule mapE_Inr_map)
  fix w assume "w \<in> set ws"
  then have "is_text (wi_requirementId w)" "wi_status w \<in> set STATUSES"
    using assms by (auto simp: wf_RequirementTestWorkItem_def item_rules_def)
  then show "fromWorkItem w = Inr (frontier_item w)" by (auto simp: fromWorkItem_def frontier_item_def is_text_def)
qed

lemma new_frontier_ok:
  assumes "wf_RequirementTestPlan p" "set ss \<union> set ps \<subseteq> set (rtp_workItems p)" "distinct (map wi_requirementId (ss @ ps))"
    "\<And>w. w \<in> set ss \<Longrightarrow> wi_status w \<in> {''candidate_saved'', ''reviewed''}" "\<And>w. w \<in> set ps \<Longrightarrow> wi_status w = ''pending''"
  shows "new_RequirementTestResultFrontier ss ps = Inr \<lparr>rrf_staged = map frontier_item ss, rrf_pending = map frontier_item ps\<rparr>"
proof -
  let ?all = "map frontier_item ss @ map frontier_item ps"
  have items: "wf_RequirementTestWorkItem w \<and> wi_specRevision w = rtp_specRevision p" if "w \<in> set (ss @ ps)" for w
    using assms(1,2) that by (auto simp: wf_RequirementTestPlan_def plan_rules_def list_all_iff)
  have "rfi_specRevision i = rtp_specRevision p" if "i \<in> set ?all" for i
    using that items by (auto simp: frontier_item_def)
  moreover from this have "?all \<noteq> [] \<Longrightarrow> rfi_specRevision (hd ?all) = rtp_specRevision p" using hd_in_set by blast
  ultimately have spec: "\<not> list_ex (\<lambda>i. \<not> sri_equals (rfi_specRevision i) (rfi_specRevision (hd ?all))) ?all"
    by (cases "?all = []") (simp_all add: list_ex_iff del: map_append)
  have ids: "map rfi_requirementId ?all = map wi_requirementId (ss @ ps)" by (simp add: frontier_item_def)
  have status: "\<not> (list_ex (\<lambda>i. rfi_status i \<noteq> ''pending'') (map frontier_item ps)
      \<or> list_ex (\<lambda>i. rfi_status i \<notin> {''candidate_saved'', ''reviewed''}) (map frontier_item ss))"
    using assms(4,5) by (auto simp: list_ex_iff frontier_item_def)
  have "mapE fromWorkItem ss = Inr (map frontier_item ss)" "mapE fromWorkItem ps = Inr (map frontier_item ps)"
    using items by (auto intro: frontier_items_ok)
  then show ?thesis
    unfolding new_RequirementTestResultFrontier_def
    by (simp only: bindE.simps status spec ids assms(3) if_False not_True_eq_False simp_thms)
qed

lemma disjoint_ids:
  assumes "plan_rules p" "set ss \<subseteq> set (rtp_workItems p)" "set ps \<subseteq> set (rtp_workItems p)" "set ss \<inter> set ps = {}"
  shows "set (map wi_requirementId ss) \<inter> set (map wi_requirementId ps) = {}"
proof -
  have "wi_requirementId x \<noteq> wi_requirementId y" if "x \<in> set ss" "y \<in> set ps" for x y
    using that unique_item [OF assms(1), of x y] assms(2-4) by auto
  then show ?thesis by fastforce
qed

lemma frontier_ok_plan:
  assumes "accepted lc f"
  obtains fr where "frontier_fromPlan (rlf_plan f) (wi_requirementId (rlf_workItem f)) = Inr fr"
    "first_id (rrf_pending fr) = map_option wi_requirementId (nextPendingWorkItem (rlf_plan f))"
    "first_id (rrf_staged fr) = map_option wi_requirementId (other_staged (rlf_plan f) (rlf_workItem f))"
proof -
  note parts = accepted_parts [OF assms]
  let ?w = "rlf_workItem f" and ?ws = "rtp_workItems (rlf_plan f)"
  let ?rest = "filter (\<lambda>w. wi_requirementId w \<noteq> wi_requirementId ?w) ?ws"
  let ?ss = "filter (\<lambda>w. wi_status w \<in> {''candidate_saved'', ''reviewed''}) ?rest" and ?ps = "filter (\<lambda>w. wi_status w = ''pending'') ?rest"
  have ids: "distinct (map wi_requirementId (?ss @ ?ps))"
  proof -
    have "distinct (map wi_requirementId ?ws)" using parts(2) by (simp add: plan_rules_def)
    then have "distinct (map wi_requirementId ?ss)" "distinct (map wi_requirementId ?ps)" by (simp_all add: distinct_map_filter)
    moreover have "set (map wi_requirementId ?ss) \<inter> set (map wi_requirementId ?ps) = {}"
      by (rule disjoint_ids [OF parts(2)]) auto
    ultimately show ?thesis unfolding map_append distinct_append by blast
  qed
  have fr: "frontier_fromPlan (rlf_plan f) (wi_requirementId ?w) = Inr \<lparr>rrf_staged = map frontier_item ?ss, rrf_pending = map frontier_item ?ps\<rparr>"
    unfolding frontier_fromPlan_def Let_def using parts(5)
    by (subst new_frontier_ok [OF parts(1) _ ids]) (auto simp: list_ex_iff)
  have pending: "?ps = filter (\<lambda>w. wi_status w = ''pending'') ?ws"
  proof -
    have "wi_status (rlf_workItem f) \<noteq> ''pending''" using accepted_status [OF assms] by simp
    then have "wi_requirementId x \<noteq> wi_requirementId ?w" if "x \<in> set ?ws" "wi_status x = ''pending''" for x
      using unique_item [OF parts(2) that(1) parts(5)] that(2) by auto
    then show ?thesis unfolding filter_filter by (intro filter_cong) auto
  qed
  have staged: "?ss = filter (\<lambda>x. wi_status x = ''candidate_saved'' \<and> wi_requirementId x \<noteq> wi_requirementId ?w) ?ws"
    using others_idle [OF parts(3,2,4)] by (auto simp: busy_def intro!: filter_cong)
  show ?thesis
    by (rule that [OF fr]) (simp_all only: RequirementTestResultFrontier.simps pending staged first_id_map
        nextPendingWorkItem_def other_staged_def)
qed

theorem live_resolution:
  assumes "accepted lc f"
  shows "resolveRequirementTestLifecycle f = Inr (rt_decision f (Some f))"
proof -
  obtain fr where fr: "frontier_fromPlan (rlf_plan f) (wi_requirementId (rlf_workItem f)) = Inr fr"
    "first_id (rrf_pending fr) = map_option wi_requirementId (nextPendingWorkItem (rlf_plan f))"
    "first_id (rrf_staged fr) = map_option wi_requirementId (other_staged (rlf_plan f) (rlf_workItem f))"
    by (rule frontier_ok_plan [OF assms])
  have "observed_candidate (rlf_observation f) \<noteq> None \<Longrightarrow> rlf_candidateBundle f = observed_candidate (rlf_observation f)"
    using accepted_candidate(2) [OF assms] by auto
  then have "selects f (live_selection f (rt_charge f) fr)" by (simp add: selects_def live_selection_def fr(2,3))
  from resolve_selected [OF assms this] show ?thesis
    by (simp add: resolveRequirementTestLifecycle_def charged_finding_ok [OF assms] fr(1) live_selection_def)
qed

subsection \<open>Applying the decision\<close>

lemma claim_ok:
  assumes "wf_RequirementTestPlan p" "nextPendingWorkItem p = Some n"
  shows "claim_next (Some (wi_requirementId n)) p = Inr (claim p n)"
proof -
  note n = pending_id [OF assms]
  have rules: "plan_rules p" using assms(1) by (simp add: wf_RequirementTestPlan_def)
  have txtid: "is_text (wi_requirementId n)" using n(3) by (simp add: wf_RequirementTestWorkItem_def)
  have "plan_workItem p (wi_requirementId n) = Inr (Some n)"
    using find_unique [OF rules n(1)] txtid by (simp add: plan_workItem_def del: bindE_eq_Inr)
  moreover have "withState n ''in_progress'' (wi_bundleRevision n) (wi_budget n) (wi_semanticFindings n) =
      Inr (n\<lparr>wi_status := ''in_progress''\<rparr>)"
    using n(2,3) by (simp add: withState_def checked_work_item_eq_Inr wf_RequirementTestWorkItem_def item_rules_def STATUSES_def)
  moreover have "withWorkItem p (n\<lparr>wi_status := ''in_progress''\<rparr>) = Inr (claim p n)"
    unfolding claim_def by (rule withWorkItem_ok [OF rules n(1)]) (simp_all add: n(5))
  ultimately show ?thesis by (simp add: claim_next_def n(2) del: bindE_eq_Inr)
qed

lemma claimed_plan:
  assumes "accepted lc f"
  shows "claim_next (rt_claimed f) (rt_plan f) = Inr (snd (rt_next f))"
  using claim_ok [OF plan_parts(5) [OF assms]]
  by (cases "rt_policy f"; cases "nextPendingWorkItem (rt_plan f)")
    (auto simp: rt_claimed_def rt_next_def claim_next_def [of None])

lemma new_item_state:
  assumes "accepted lc f"
  defines "d \<equiv> rt_decision f (Some f)" and "w \<equiv> rlf_workItem f"
  shows "(case rtd_budgetIncrement d of None \<Rightarrow> Inr (wi_budget w) | Some k \<Rightarrow> rtb_increment (wi_budget w) k) = Inr (wi_budget (rt_new_item f))"
    and "(case rtd_candidateBundle d of Some c \<Rightarrow> Some (rcb_bundle c) | None \<Rightarrow> wi_bundleRevision w) = wi_bundleRevision (rt_new_item f)"
    and "wi_semanticFindings w @ (case rtd_semanticFinding d of None \<Rightarrow> [] | Some g \<Rightarrow> [g]) = wi_semanticFindings (rt_new_item f)"
    and "\<not> (case rtd_semanticFinding d of None \<Rightarrow> False | Some g \<Rightarrow> hasSemanticFinding w g)"
    and "w\<lparr>wi_status := wi_status (rt_new_item f), wi_bundleRevision := wi_bundleRevision (rt_new_item f),
      wi_budget := wi_budget (rt_new_item f), wi_semanticFindings := wi_semanticFindings (rt_new_item f)\<rparr> = rt_new_item f"
proof -
  have b: "wf_RequirementTestBudget (wi_budget (rt_new_item f))"
    using wf_item_state [OF plan_parts(1) [OF assms(1)]] by simp
  show "(case rtd_budgetIncrement d of None \<Rightarrow> Inr (wi_budget w) | Some k \<Rightarrow> rtb_increment (wi_budget w) k) = Inr (wi_budget (rt_new_item f))"
    using b unfolding d_def w_def rt_decision_def decision_of_def
    by (cases "rt_policy f") (auto simp: rt_new_item_def rtb_increment_def BUDGET_KINDS_def new_RequirementTestBudget_def
        budget_counter_def wf_RequirementTestBudget_def charge_budget_def is_safe_def)
  show "\<not> (case rtd_semanticFinding d of None \<Rightarrow> False | Some g \<Rightarrow> hasSemanticFinding w g)"
    using policy_ok [OF assms(1)] unfolding d_def w_def rt_decision_def decision_of_def
    by (cases "rt_policy f") auto
qed (unfold d_def w_def rt_decision_def decision_of_def rt_new_item_def;
    cases "rt_policy f"; simp add: with_bundle_def split: option.split)+

lemma put_own:
  assumes "plan_rules p" "w \<in> set (rtp_workItems p)"
  shows "put p w = p"
proof -
  have "map (\<lambda>x. if wi_requirementId x = wi_requirementId w then w else x) (rtp_workItems p) = rtp_workItems p"
    by (rule map_idI) (use unique_item [OF assms(1) _ assms(2)] in auto)
  then show ?thesis by (simp add: put_def)
qed

theorem apply_ok:
  assumes "accepted lc f"
  shows "apply_decision (rt_decision f (Some f)) (rlf_plan f) = Inr (snd (rt_next f))"
proof -
  note parts = accepted_parts [OF assms] and state = new_item_state [OF assms] and plan = plan_parts [OF assms]
  let ?d = "rt_decision f (Some f)" and ?w = "rlf_workItem f"
  have id: "rtd_requirementId ?d = wi_requirementId ?w" "rtd_nextRequirementId ?d = rt_claimed f"
    "rtd_nextStatus ?d = wi_status (rt_new_item f)"
    by (simp_all add: rt_decision_def decision_of_def)
  have txtid: "is_text (wi_requirementId ?w)" using parts(6) by (simp add: wf_RequirementTestWorkItem_def)
  have found: "plan_workItem (rlf_plan f) (wi_requirementId ?w) = Inr (Some ?w)"
    using find_unique [OF parts(2,5)] txtid by (simp add: plan_workItem_def del: bindE_eq_Inr)
  have active: "activeWorkItem (rlf_plan f) = Inr (Some ?w)" using activeWorkItem_ok [OF parts(3)] parts(4) by simp
  show ?thesis
  proof (cases "rt_policy f = Blocked")
    case True
    have "put (rlf_plan f) ?w = rlf_plan f" by (rule put_own [OF parts(2,5)])
    with True show ?thesis
      unfolding apply_decision_def id found
      by (simp add: active rt_decision_def decision_of_def rt_next_def rt_plan_def rt_new_item_def rt_claimed_def)
  next
    case False
    then have disp: "rtd_disposition ?d \<noteq> ''external_blocked''"
      by (cases "rt_policy f") (simp_all add: rt_decision_def decision_of_def)
    have "withState ?w (wi_status (rt_new_item f)) (wi_bundleRevision (rt_new_item f)) (wi_budget (rt_new_item f))
        (wi_semanticFindings (rt_new_item f)) = Inr (rt_new_item f)"
      unfolding withState_def state(5) using plan(1) by (simp add: checked_work_item_eq_Inr wf_RequirementTestWorkItem_def)
    then show ?thesis
      unfolding apply_decision_def id
      by (simp only: found active state(1-4) disp plan(4) bindE.simps option.case option.map if_False if_True
          simp_thms claimed_plan [OF assms])
  qed
qed

end
