(* ===== verification/Requirement_Test_Machine.thy ===== *)
theory Requirement_Test_Machine
  imports Requirement_Test_Policy
begin

section \<open>The Requirement test lifecycle as a machine\<close>

text \<open>
  The composition of the lifecycle: the initial route from the approved Spec, then one step per accepted
  observation, which resolves the facts, applies the decision to the plan and continues at its target
  leaf.  The invariant of the reachable states ties the leaf to the status of the active work item and the
  counters of every work item to its findings and to the revision of its bundle.
\<close>

subsection \<open>Runs with a potential\<close>

inductive run :: "('s \<Rightarrow> 'l \<Rightarrow> 's \<Rightarrow> bool) \<Rightarrow> 's \<Rightarrow> 'l list \<Rightarrow> 's \<Rightarrow> bool" for step where
  run_nil: "run step s [] s"
| run_cons: "step s l t \<Longrightarrow> run step t ls u \<Longrightarrow> run step s (l # ls) u"

locale potential_machine =
  fixes step :: "'s \<Rightarrow> 'l \<Rightarrow> 's \<Rightarrow> bool"
    and inv :: "'s \<Rightarrow> bool"
    and charged :: "'l \<Rightarrow> bool"
    and potential :: "'s \<Rightarrow> nat"
  assumes inv_step: "inv s \<Longrightarrow> step s l t \<Longrightarrow> inv t"
    and charged_step: "inv s \<Longrightarrow> step s l t \<Longrightarrow> charged l \<Longrightarrow> potential t < potential s"
    and free_step: "inv s \<Longrightarrow> step s l t \<Longrightarrow> \<not> charged l \<Longrightarrow> potential t \<le> potential s"
begin

lemma inv_run: "run step s ls t \<Longrightarrow> inv s \<Longrightarrow> inv t"
  by (induction rule: run.induct) (auto dest: inv_step)

lemma charged_bound: "run step s ls t \<Longrightarrow> inv s \<Longrightarrow> length (filter charged ls) + potential t \<le> potential s"
proof (induction rule: run.induct)
  case (run_cons s l t ls u)
  then have "length (filter charged ls) + potential u \<le> potential t" using inv_step by blast
  then show ?case using charged_step [OF run_cons.prems run_cons.hyps(1)] free_step [OF run_cons.prems run_cons.hyps(1)] by auto
qed simp

end

subsection \<open>Steps and reachable states\<close>

type_synonym rt_state = "string \<times> RequirementTestPlan"

inductive rt_step :: "compare \<Rightarrow> rt_state \<Rightarrow> RequirementTestLifecycleDecision \<Rightarrow> rt_state \<Rightarrow> bool" for lc where
  observe: "new_RequirementTestLifecycleFacts authority p leaf obs cand = Inr f \<Longrightarrow> wf_observation lc obs \<Longrightarrow>
    pred_option (wf_RequirementTestCandidateBundle lc) cand \<Longrightarrow> resolveRequirementTestLifecycle f = Inr d \<Longrightarrow>
    apply_decision d p = Inr p' \<Longrightarrow> rt_step lc (leaf, p) d (rtd_target d, p')"

inductive rt_reachable :: "compare \<Rightarrow> rt_state \<Rightarrow> bool" for lc where
  initial: "initializeRequirementTestLifecycle spec revision = Inr i \<Longrightarrow> rt_reachable lc (rid_target i, rid_plan i)"
| continue: "rt_reachable lc s \<Longrightarrow> rt_step lc s d t \<Longrightarrow> rt_reachable lc t"

inductive_cases rt_stepE: "rt_step lc (leaf, p) d t"

text \<open>The counters of a work item: findings are charged one per bundle revision, in order; outside the
  repair leaf the current revision is the one after the last charged revision.\<close>

definition counters_ok :: "RequirementTestWorkItem \<Rightarrow> bool" where
  "counters_ok w \<longleftrightarrow> rtb_tooling (wi_budget w) \<le> 3 \<and> rtb_autoSemantic (wi_budget w) \<le> 5 \<and> rtb_manualSemantic (wi_budget w) \<le> 5 \<and>
     rtb_autoSemantic (wi_budget w) + rtb_manualSemantic (wi_budget w) = length (wi_semanticFindings w) \<and>
     map rsf_bundleRevision (wi_semanticFindings w) = [1..<Suc (length (wi_semanticFindings w))]"

definition revision_ok :: "string \<Rightarrow> RequirementTestWorkItem \<Rightarrow> bool" where
  "revision_ok leaf w \<longleftrightarrow>
     (let n = length (wi_semanticFindings w); r = map_option rbr_revision (wi_bundleRevision w); st = wi_status w in
      (st = ''pending'' \<or> st = ''in_progress'' \<longrightarrow> n = 0) \<and>
      (st = ''candidate_saved'' \<or> st = ''promoted'' \<or> st = ''reviewed'' \<and> leaf \<noteq> ''test-repair'' \<longrightarrow> r = Some (Suc n)) \<and>
      (st = ''reviewed'' \<and> leaf = ''test-repair'' \<longrightarrow> r = Some n) \<and>
      (st = ''deferred'' \<longrightarrow> pred_option (\<lambda>k. k \<le> Suc n) r))"

definition item_account :: "string \<Rightarrow> RequirementTestWorkItem \<Rightarrow> bool" where
  "item_account leaf w \<longleftrightarrow> counters_ok w \<and> revision_ok leaf w"

definition leaf_status :: "string \<Rightarrow> string" where
  "leaf_status leaf = (if leaf = ''test-generate'' then ''in_progress''
     else if leaf = ''test-review'' then ''candidate_saved'' else ''reviewed'')"

definition at_leaf :: "string \<Rightarrow> RequirementTestPlan \<Rightarrow> bool" where
  "at_leaf leaf p \<longleftrightarrow> (case active_item p of
     None \<Rightarrow> leaf = ''implement'' \<and> plan_settled p
   | Some w \<Rightarrow> leaf \<in> set LIFECYCLE_LEAVES \<and> wi_status w = leaf_status leaf)"

fun rt_inv :: "rt_state \<Rightarrow> bool" where
  "rt_inv (leaf, p) \<longleftrightarrow> wf_RequirementTestPlan p \<and> frontier_ok p \<and> at_leaf leaf p \<and> (\<forall>w \<in> set (rtp_workItems p). item_account leaf w)"

lemma account_idle: "\<not> busy w \<Longrightarrow> item_account l w \<longleftrightarrow> item_account l' w"
  by (simp add: item_account_def revision_ok_def busy_def)

lemma accountD:
  assumes "item_account leaf w"
  shows "wi_status w = ''in_progress'' \<Longrightarrow> wi_semanticFindings w = []"
    and "wi_status w = ''reviewed'' \<Longrightarrow> leaf = ''test-repair'' \<Longrightarrow> wi_bundleRevision w = Some b \<Longrightarrow> rbr_revision b = length (wi_semanticFindings w)"
    and "wi_status w = ''candidate_saved'' \<or> wi_status w = ''reviewed'' \<and> leaf \<noteq> ''test-repair'' \<Longrightarrow> wi_bundleRevision w = Some b \<Longrightarrow>
      rbr_revision b = Suc (length (wi_semanticFindings w))"
    and "map rsf_bundleRevision (wi_semanticFindings w) = [1..<Suc (length (wi_semanticFindings w))]"
    and "wi_status w = ''candidate_saved'' \<or> wi_status w = ''reviewed'' \<Longrightarrow> wi_bundleRevision w \<noteq> None"
  using assms unfolding item_account_def counters_ok_def revision_ok_def Let_def by auto

subsection \<open>The work item of an outcome\<close>

lemma status_leaf:
  "accepted lc f \<Longrightarrow> wi_status (rlf_workItem f) = leaf_status (rlf_leaf f)"
  by (simp add: leaf_status_def accepted_status)

text \<open>The revision a candidate of the next outcome has, and the revision a rejection charges.\<close>

lemma observed_revision:
  assumes "accepted lc f" "item_account (rlf_leaf f) (rlf_workItem f)" "observed_candidate (rlf_observation f) = Some c"
  shows "rbr_revision (rcb_bundle c) = Suc (length (wi_semanticFindings (rlf_workItem f)))"
proof -
  have "rlf_leaf f = ''test-generate'' \<or> rlf_leaf f = ''test-repair''"
    using assms(3) accepted_parts(11) [OF assms(1)] by (cases "rlf_observation f") auto
  then show ?thesis
  proof
    assume leaf: "rlf_leaf f = ''test-generate''"
    then have "wi_status (rlf_workItem f) = ''in_progress''" using status_leaf [OF assms(1)] by (simp add: leaf_status_def)
    moreover have "wi_bundleRevision (rlf_workItem f) = None" using leaf accepted_bundle [OF assms(1)] by simp
    ultimately show ?thesis using accepted_candidate(3) [OF assms(1,3)] accountD(1) [OF assms(2)] by simp
  next
    assume leaf: "rlf_leaf f = ''test-repair''"
    then have "wi_status (rlf_workItem f) = ''reviewed''" using status_leaf [OF assms(1)] by (simp add: leaf_status_def)
    moreover obtain b where "wi_bundleRevision (rlf_workItem f) = Some b" using leaf accepted_bundle [OF assms(1)] by auto
    ultimately show ?thesis using accepted_candidate(3) [OF assms(1,3)] accountD(2) [OF assms(2)] leaf by simp
  qed
qed

lemma charged_revision:
  assumes "accepted lc f" "item_account (rlf_leaf f) (rlf_workItem f)" "rt_charge f = Some g"
    "rlf_observationKind f = ''structural_rejection'' \<or> rlf_observationKind f = ''semantic_rejection''"
  shows "rsf_bundleRevision g = Suc (length (wi_semanticFindings (rlf_workItem f)))"
proof (cases "observed_candidate (rlf_observation f)")
  case (Some c)
  then show ?thesis using assms(3) observed_revision [OF assms(1,2) Some] by (auto simp: rt_charge_def)
next
  case None
  then have "rlf_observationKind f = ''semantic_rejection''" using rejection_charge [OF assms(1,4)] by metis
  then have leaf: "rlf_leaf f = ''test-review''" using permitted_kinds(2) [OF accepted_parts(10,8) [OF assms(1)]] by blast
  then have "wi_status (rlf_workItem f) = ''candidate_saved''" using status_leaf [OF assms(1)] by (simp add: leaf_status_def)
  moreover obtain b where "wi_bundleRevision (rlf_workItem f) = Some b" using leaf accepted_bundle [OF assms(1)] by auto
  ultimately show ?thesis using None assms(3) accountD(3) [OF assms(2)] by (auto simp: rt_charge_def)
qed

lemma never_repeated:
  assumes "accepted lc f" "item_account (rlf_leaf f) (rlf_workItem f)"
  shows "rt_policy f \<noteq> Repeated c"
proof
  assume rep: "rt_policy f = Repeated c"
  then have kind: "rlf_observationKind f = ''structural_rejection'' \<or> rlf_observationKind f = ''semantic_rejection''"
    by (auto simp: rt_policy_def Let_def split: if_splits)
  then obtain g where g: "rt_charge f = Some g" by (rule rejection_charge [OF assms(1)])
  have "g \<in> set (wi_semanticFindings (rlf_workItem f))"
    using rep g by (auto simp: rt_policy_def Let_def split: if_splits)
  then have "rsf_bundleRevision g \<in> set (map rsf_bundleRevision (wi_semanticFindings (rlf_workItem f)))" by simp
  then have "rsf_bundleRevision g \<le> length (wi_semanticFindings (rlf_workItem f))"
    using accountD(4) [OF assms(2)] by (auto simp del: set_map)
  then show False using charged_revision [OF assms g kind] by simp
qed

lemma candidate_outcomes:
  assumes "accepted lc f"
  shows "rt_policy f = Saved c \<Longrightarrow> observed_candidate (rlf_observation f) = Some c"
    and "rt_policy f = Rejected g d \<Longrightarrow> observed_candidate (rlf_observation f) = d \<and> rt_charge f = Some g \<and>
      (rlf_observationKind f = ''structural_rejection'' \<or> rlf_observationKind f = ''semantic_rejection'')"
    and "rt_policy f = Settled st d \<Longrightarrow> d = None \<or> observed_candidate (rlf_observation f) = d"
    and "rt_policy f = Settled ''promoted'' d \<Longrightarrow> rlf_leaf f = ''test-gate''"
    and "rt_policy f = Passed \<Longrightarrow> rlf_leaf f = ''test-review''"
    and "rt_policy f = Reopened \<Longrightarrow> rlf_leaf f = ''test-gate''"
proof -
  note kinds = permitted_kinds [OF accepted_parts(10,8) [OF assms]]
  show "rt_policy f = Saved c \<Longrightarrow> observed_candidate (rlf_observation f) = Some c"
    using assms by (cases rule: outcome_kinds) (auto simp: rt_policy_def Let_def split: if_splits)
  show "rt_policy f = Rejected g d \<Longrightarrow> observed_candidate (rlf_observation f) = d \<and> rt_charge f = Some g \<and>
      (rlf_observationKind f = ''structural_rejection'' \<or> rlf_observationKind f = ''semantic_rejection'')"
  proof -
    assume rej: "rt_policy f = Rejected g d"
    then have kind: "rlf_observationKind f = ''structural_rejection'' \<or> rlf_observationKind f = ''semantic_rejection''"
      by (auto simp: rt_policy_def Let_def split: if_splits)
    obtain h where "rt_charge f = Some h" by (rule rejection_charge [OF assms kind])
    with rej kind show ?thesis by (auto simp: rt_policy_def Let_def split: if_splits)
  qed
  show "rt_policy f = Settled st d \<Longrightarrow> d = None \<or> observed_candidate (rlf_observation f) = d"
    by (auto simp: rt_policy_def Let_def split: if_splits)
  show "rt_policy f = Settled ''promoted'' d \<Longrightarrow> rlf_leaf f = ''test-gate''"
    "rt_policy f = Passed \<Longrightarrow> rlf_leaf f = ''test-review''" "rt_policy f = Reopened \<Longrightarrow> rlf_leaf f = ''test-gate''"
    using kinds by (auto simp: rt_policy_def Let_def split: if_splits)
qed

lemma new_counters:
  assumes "accepted lc f" "item_account (rlf_leaf f) (rlf_workItem f)"
  shows "counters_ok (rt_new_item f)"
proof (cases "rt_policy f")
  case (Rejected g c)
  note out = candidate_outcomes(2) [OF assms(1) Rejected]
  have "rsf_bundleRevision g = Suc (length (wi_semanticFindings (rlf_workItem f)))"
    using charged_revision [OF assms] out by blast
  moreover have "semantic_attempts (wi_budget (rlf_workItem f)) (rla_autoApprove (rlf_authority f)) < 5"
    using policy_ok [OF assms(1)] Rejected by simp
  ultimately show ?thesis
    using assms(2) Rejected
    by (auto simp: item_account_def counters_ok_def rt_new_item_def charge_budget_def semantic_attempts_def)
qed (use assms(2) policy_ok [OF assms(1)] in \<open>auto simp: item_account_def counters_ok_def rt_new_item_def\<close>)

lemma new_revision:
  assumes "accepted lc f" "item_account (rlf_leaf f) (rlf_workItem f)"
  shows "revision_ok (fst (rt_next f)) (rt_new_item f)"
proof -
  let ?w = "rlf_workItem f"
  have r: "revision_ok (rlf_leaf f) ?w" using assms(2) by (simp add: item_account_def)
  have any: "pred_option (\<lambda>k. k \<le> Suc (length (wi_semanticFindings ?w))) (map_option rbr_revision (wi_bundleRevision ?w))"
    using r status_leaf [OF assms(1)] accepted_bundle [OF assms(1)]
    by (cases "wi_bundleRevision ?w") (auto simp: revision_ok_def Let_def leaf_status_def split: if_splits)
  show ?thesis
  proof (cases "rt_policy f")
    case (Saved c)
    then show ?thesis using observed_revision [OF assms candidate_outcomes(1) [OF assms(1) Saved]]
      by (simp add: revision_ok_def rt_new_item_def)
  next
    case (Rejected g c)
    have "map_option rbr_revision (wi_bundleRevision (rt_new_item f)) = Some (Suc (length (wi_semanticFindings ?w)))"
    proof (cases c)
      case None
      with candidate_outcomes(2) [OF assms(1) Rejected] have "rlf_observationKind f = ''semantic_rejection''"
        using rejection_charge [OF assms(1)] by metis
      then have leaf: "rlf_leaf f = ''test-review''" using permitted_kinds(2) [OF accepted_parts(10,8) [OF assms(1)]] by blast
      then show ?thesis using None Rejected r status_leaf [OF assms(1)] by (simp add: rt_new_item_def revision_ok_def leaf_status_def)
    next
      case (Some d)
      then show ?thesis using candidate_outcomes(2) [OF assms(1) Rejected] observed_revision [OF assms, of d] Rejected
        by (simp add: rt_new_item_def)
    qed
    with Rejected show ?thesis by (simp add: revision_ok_def rt_next_def rt_new_item_def)
  next
    case (Repeated c)
    then show ?thesis using never_repeated [OF assms] by blast
  next
    case (Settled st c)
    show ?thesis
    proof (cases "st = ''promoted''")
      case True
      then have "rlf_leaf f = ''test-gate''" "c = None"
        using Settled candidate_outcomes(4) [OF assms(1)] policy_ok [OF assms(1)] by auto
      then show ?thesis using Settled True r status_leaf [OF assms(1)] by (simp add: revision_ok_def rt_new_item_def leaf_status_def)
    next
      case False
      then have "st = ''deferred''" using Settled policy_ok [OF assms(1)] by simp
      moreover have "pred_option (\<lambda>k. k \<le> Suc (length (wi_semanticFindings ?w))) (map_option rbr_revision (wi_bundleRevision (rt_new_item f)))"
        using any candidate_outcomes(3) [OF assms(1) Settled] observed_revision [OF assms] Settled
        by (cases c) (auto simp: rt_new_item_def)
      ultimately show ?thesis using Settled by (simp add: revision_ok_def rt_new_item_def)
    qed
  next
    case Passed
    then show ?thesis using candidate_outcomes(5) [OF assms(1)] r status_leaf [OF assms(1)]
      by (simp add: revision_ok_def rt_new_item_def rt_next_def leaf_status_def)
  next
    case Reopened
    then show ?thesis using candidate_outcomes(6) [OF assms(1)] r status_leaf [OF assms(1)]
      by (simp add: revision_ok_def rt_new_item_def leaf_status_def)
  qed (use r in \<open>simp_all add: revision_ok_def rt_new_item_def rt_next_def\<close>)
qed

subsection \<open>Every step keeps the invariant\<close>

lemma claim_parts:
  assumes "wf_RequirementTestPlan p" "frontier_ok p" "find busy (rtp_workItems p) = None" "nextPendingWorkItem p = Some n"
  shows "wf_RequirementTestPlan (claim p n)" "frontier_ok (claim p n)" "active_item (claim p n) = Some (n\<lparr>wi_status := ''in_progress''\<rparr>)"
    "set (rtp_workItems (claim p n)) = insert (n\<lparr>wi_status := ''in_progress''\<rparr>) (set (rtp_workItems p) - {n})"
proof -
  note n = pending_id [OF assms(1,4)]
  have rules: "plan_rules p" using assms(1) by (simp add: wf_RequirementTestPlan_def)
  let ?n = "n\<lparr>wi_status := ''in_progress''\<rparr>"
  have wf: "wf_RequirementTestWorkItem ?n"
    using n(2,3) by (simp add: wf_RequirementTestWorkItem_def item_rules_def STATUSES_def)
  show "wf_RequirementTestPlan (claim p n)" unfolding claim_def by (rule put_wf [OF assms(1) wf]) (simp add: n(5))
  show items: "set (rtp_workItems (claim p n)) = insert ?n (set (rtp_workItems p) - {n})"
    unfolding claim_def by (rule put_items [OF rules n(1)]) simp
  have "plan_rules (claim p n)" unfolding claim_def by (rule put_rules [OF rules]) (simp add: n(5))
  then have "distinct (map wi_requirementId (rtp_workItems (claim p n)))" by (simp add: plan_rules_def)
  then have "distinct (rtp_workItems (claim p n))" unfolding distinct_map by blast
  moreover have only: "x = ?n" if "x \<in> set (rtp_workItems (claim p n))" "busy x" for x
    using that items assms(3) by (auto simp: find_None_iff)
  ultimately show fr: "frontier_ok (claim p n)" unfolding frontier_ok_def by (rule filter_at_most_one)
  show "active_item (claim p n) = Some ?n"
    by (rule active_item_busy [OF fr]) (simp_all add: busy_def items)
qed

lemma mid_items:
  assumes "accepted lc f"
  shows "set (rtp_workItems (rt_plan f)) = insert (rt_new_item f) (set (rtp_workItems (rlf_plan f)) - {rlf_workItem f})"
    and "x \<in> set (rtp_workItems (rlf_plan f)) - {rlf_workItem f} \<Longrightarrow> \<not> busy x"
proof -
  note parts = accepted_parts [OF assms]
  show "set (rtp_workItems (rt_plan f)) = insert (rt_new_item f) (set (rtp_workItems (rlf_plan f)) - {rlf_workItem f})"
    unfolding rt_plan_def by (rule put_items [OF parts(2,5) plan_parts(2) [OF assms]])
  show "\<not> busy x" if "x \<in> set (rtp_workItems (rlf_plan f)) - {rlf_workItem f}"
    using that others_idle [OF parts(3,2,4), of x] unique_item [OF parts(2) _ parts(5), of x] by auto
qed

lemma mid_account:
  assumes "accepted lc f" "rt_inv (rlf_leaf f, rlf_plan f)" "x \<in> set (rtp_workItems (rt_plan f))"
  shows "item_account (fst (rt_next f)) x"
proof -
  have w: "item_account (rlf_leaf f) (rlf_workItem f)" using assms(2) accepted_parts(5) [OF assms(1)] by simp
  have "item_account (fst (rt_next f)) x" if "x \<in> set (rtp_workItems (rlf_plan f)) - {rlf_workItem f}"
    using that assms(2) account_idle [OF mid_items(2) [OF assms(1) that], of "rlf_leaf f" "fst (rt_next f)"] by simp
  then show ?thesis
    using assms(3) mid_items(1) [OF assms(1)] new_counters [OF assms(1) w] new_revision [OF assms(1) w]
    by (auto simp: item_account_def)
qed

lemma mid_idle:
  assumes "accepted lc f" "\<not> busy (rt_new_item f)"
  shows "find busy (rtp_workItems (rt_plan f)) = None"
  using assms(2) mid_items [OF assms(1)] by (auto simp: find_None_iff)

lemma staged_active:
  assumes "find busy (rtp_workItems p) = None" "w \<in> set (rtp_workItems p)" "wi_status w = ''candidate_saved''"
  obtains x where "active_item p = Some x" "wi_status x = ''candidate_saved''"
proof -
  obtain x where x: "find (\<lambda>w. wi_status w = ''candidate_saved'') (rtp_workItems p) = Some x"
    using assms(2,3) by (cases "find (\<lambda>w. wi_status w = ''candidate_saved'') (rtp_workItems p)") (auto simp: find_None_iff)
  then have "wi_status x = ''candidate_saved''" by (auto simp: find_Some_iff)
  with x assms(1) that show ?thesis by (simp add: active_item_def)
qed

lemma mid_at_leaf:
  assumes "accepted lc f" "wi_status (rt_new_item f) = leaf_status (fst (rt_next f))" "fst (rt_next f) \<in> set LIFECYCLE_LEAVES"
  shows "at_leaf (fst (rt_next f)) (rt_plan f)"
proof (cases "busy (rt_new_item f)")
  case True
  then have "active_item (rt_plan f) = Some (rt_new_item f)"
    unfolding rt_plan_def
    by (intro put_busy_active [OF accepted_parts(3,2,4) [OF assms(1)] plan_parts(2,3) [OF assms(1)]])
  then show ?thesis using assms(2,3) by (simp add: at_leaf_def)
next
  case False
  then have st: "wi_status (rt_new_item f) = ''candidate_saved''" "leaf_status (fst (rt_next f)) = ''candidate_saved''"
    using assms(2) by (auto simp: busy_def leaf_status_def split: if_splits)
  have "rt_new_item f \<in> set (rtp_workItems (rt_plan f))" using mid_items(1) [OF assms(1)] by simp
  then show ?thesis
    using assms(3) st by (elim staged_active [OF mid_idle [OF assms(1) False]]) (simp_all add: at_leaf_def)
qed

lemma claim_inv:
  assumes "wf_RequirementTestPlan p" "frontier_ok p" "find busy (rtp_workItems p) = None" "nextPendingWorkItem p = Some n"
    "\<And>x. x \<in> set (rtp_workItems p) \<Longrightarrow> item_account ''test-generate'' x"
  shows "rt_inv (''test-generate'', claim p n)"
proof -
  note c = claim_parts [OF assms(1-4)] and n = pending_id [OF assms(1,4)]
  have "item_account ''test-generate'' (n\<lparr>wi_status := ''in_progress''\<rparr>)"
    using assms(5) [OF n(1)] n(2) by (simp add: item_account_def counters_ok_def revision_ok_def)
  then show ?thesis
    using c assms(5) by (auto simp: at_leaf_def leaf_status_def LIFECYCLE_LEAVES_def)
qed

lemma idle_settled:
  assumes "wf_RequirementTestPlan p" "active_item p = None" "nextPendingWorkItem p = None"
  shows "plan_settled p"
proof -
  have "wi_status w = ''promoted'' \<or> wi_status w = ''deferred''" if "w \<in> set (rtp_workItems p)" for w
  proof -
    have "wi_status w \<in> set STATUSES"
      using assms(1) that by (auto simp: wf_RequirementTestPlan_def wf_RequirementTestWorkItem_def item_rules_def list_all_iff)
    moreover have "\<not> busy w" "wi_status w \<noteq> ''candidate_saved''" "wi_status w \<noteq> ''pending''"
      using assms(2,3) that by (auto simp: active_item_def nextPendingWorkItem_def find_None_iff split: option.splits)
    ultimately show ?thesis by (auto simp: STATUSES_def busy_def)
  qed
  then show ?thesis by (simp add: plan_settled_def list_all_iff)
qed

theorem next_inv:
  assumes "accepted lc f" "rt_inv (rlf_leaf f, rlf_plan f)"
  shows "rt_inv (rt_next f)"
proof -
  note plan = plan_parts [OF assms(1)]
  have acc: "item_account (fst (rt_next f)) x" if "x \<in> set (rtp_workItems (rt_plan f))" for x
    by (rule mid_account [OF assms that])
  have mid: "rt_inv (fst (rt_next f), rt_plan f)" if "at_leaf (fst (rt_next f)) (rt_plan f)"
    using plan(5,6) that acc by simp
  have leaf: "rlf_leaf f \<in> set LIFECYCLE_LEAVES" by (rule accepted_parts(8) [OF assms(1)])
  have stay: "rt_inv (rt_next f)" if "snd (rt_next f) = rt_plan f" "wi_status (rt_new_item f) = leaf_status (fst (rt_next f))"
    "fst (rt_next f) \<in> set LIFECYCLE_LEAVES"
    using mid [OF mid_at_leaf [OF assms(1) that(2,3)]] that(1) by (metis prod.collapse)
  show ?thesis
  proof (cases "rt_policy f")
    case (Saved c)
    then have idle: "find busy (rtp_workItems (rt_plan f)) = None"
      by (intro mid_idle [OF assms(1)]) (simp add: rt_new_item_def busy_def)
    show ?thesis
    proof (cases "rlf_leaf f = ''test-generate'' \<and> nextPendingWorkItem (rt_plan f) \<noteq> None")
      case True
      then obtain n where n: "nextPendingWorkItem (rt_plan f) = Some n" by auto
      then have "rt_next f = (''test-generate'', claim (rt_plan f) n)" using True Saved by (simp add: rt_next_def)
      moreover from this have "rt_inv (''test-generate'', claim (rt_plan f) n)"
        using acc by (intro claim_inv [OF plan(5,6) idle n]) simp
      ultimately show ?thesis by simp
    next
      case False
      then show ?thesis using Saved by (intro stay) (auto simp: rt_next_def rt_new_item_def leaf_status_def LIFECYCLE_LEAVES_def split: option.splits)
    qed
  next
    case (Settled st c)
    then have fin: "wi_status (rt_new_item f) = ''promoted'' \<or> wi_status (rt_new_item f) = ''deferred''"
      using policy_ok [OF assms(1)] by (auto simp: rt_new_item_def)
    then have idle: "find busy (rtp_workItems (rt_plan f)) = None"
      by (intro mid_idle [OF assms(1)]) (auto simp: busy_def)
    show ?thesis
    proof (cases "active_item (rt_plan f)")
      case (Some x)
      then have "wi_status x = ''candidate_saved''"
        using idle by (auto simp: active_item_def find_Some_iff)
      moreover have "rt_next f = (''test-review'', rt_plan f)" using Settled Some by (simp add: rt_next_def)
      ultimately show ?thesis using mid Some by (simp add: at_leaf_def leaf_status_def LIFECYCLE_LEAVES_def)
    next
      case None
      show ?thesis
      proof (cases "nextPendingWorkItem (rt_plan f)")
        case (Some n)
        then have "rt_next f = (''test-generate'', claim (rt_plan f) n)" using None Settled by (simp add: rt_next_def)
        moreover from this have "rt_inv (''test-generate'', claim (rt_plan f) n)"
          using acc by (intro claim_inv [OF plan(5,6) idle Some]) simp
        ultimately show ?thesis by simp
      next
        case pending: None
        have "rt_next f = (''implement'', rt_plan f)" using None pending Settled by (simp add: rt_next_def)
        then show ?thesis using mid None idle_settled [OF plan(5) None pending] by (simp add: at_leaf_def)
      qed
    qed
  qed (rule stay; use status_leaf [OF assms(1)] leaf in
      \<open>simp add: rt_next_def rt_new_item_def leaf_status_def LIFECYCLE_LEAVES_def\<close>)+
qed

subsection \<open>Reachable states\<close>

lemma step_next:
  assumes "rt_step lc (leaf, p) d t" "rt_inv (leaf, p)"
  obtains f where "accepted lc f" "rlf_plan f = p" "rlf_leaf f = leaf" "d = rt_decision f (Some f)" "t = rt_next f"
proof -
  from assms(1) obtain authority obs cand f p' where 1: "t = (rtd_target d, p')"
    "new_RequirementTestLifecycleFacts authority p leaf obs cand = Inr f" "wf_observation lc obs"
    "pred_option (wf_RequirementTestCandidateBundle lc) cand" "resolveRequirementTestLifecycle f = Inr d"
    "apply_decision d p = Inr p'"
    by (elim rt_stepE) blast
  have acc: "accepted lc f" "rlf_plan f = p" "rlf_leaf f = leaf"
    using facts_accepted [OF 1(2)] 1(3,4) assms(2) by auto
  have d: "d = rt_decision f (Some f)" using live_resolution [OF acc(1)] 1(5) by simp
  have "p' = snd (rt_next f)" using apply_ok [OF acc(1)] 1(6) d acc(2) by simp
  moreover have "rtd_target d = fst (rt_next f)" by (simp add: d rt_decision_def decision_of_def)
  ultimately show ?thesis using that [OF acc d] 1(1) by simp
qed

lemma facts_step:
  assumes "new_RequirementTestLifecycleFacts authority p leaf obs cand = Inr f" "rt_inv (leaf, p)" "wf_observation lc obs"
    "pred_option (wf_RequirementTestCandidateBundle lc) cand"
  shows "accepted lc f" "rlf_plan f = p" "rlf_leaf f = leaf" "rlf_observation f = obs" "rlf_authority f = authority"
    "rt_step lc (leaf, p) (rt_decision f (Some f)) (rt_next f)"
proof -
  show f: "accepted lc f" "rlf_plan f = p" "rlf_leaf f = leaf" "rlf_observation f = obs" "rlf_authority f = authority"
    using facts_accepted [OF assms(1)] assms(2-4) by auto
  have "rtd_target (rt_decision f (Some f)) = fst (rt_next f)" by (simp add: rt_decision_def decision_of_def)
  then show "rt_step lc (leaf, p) (rt_decision f (Some f)) (rt_next f)"
    using rt_step.observe [OF assms(1,3,4) live_resolution [OF f(1)] apply_ok [OF f(1), unfolded f(2)]] by simp
qed

lemma step_inv: "rt_inv s \<Longrightarrow> rt_step lc s d t \<Longrightarrow> rt_inv t"
  by (cases s) (metis step_next next_inv)

lemma approved_plan:
  assumes "fromApprovedSpec spec revision = Inr p"
  shows "wf_RequirementTestPlan p" "w \<in> set (rtp_workItems p) \<Longrightarrow> wi_status w = ''pending'' \<and> wi_semanticFindings w = [] \<and> wi_budget w = initial_budget"
proof -
  obtain rs s ws where s: "new_SpecRevisionIdentity revision = Inr s"
    and ws: "mapE (pending_item s) (filter (\<lambda>r. propq r ''testable'' \<noteq> JBool False) rs) = Inr ws"
    and p: "checked_plan \<lparr>rtp_specRevision = s, rtp_workItems = ws\<rparr> = Inr p"
    using assms by (auto simp: fromApprovedSpec_def split: jsval.splits)
  have items: "wf_RequirementTestWorkItem w \<and> wi_status w = ''pending'' \<and> wi_semanticFindings w = [] \<and> wi_budget w = initial_budget"
    if w: "w \<in> set ws" for w
  proof -
    obtain r where r: "pending_item s r = Inr w"
      using ws w by (auto simp: mapE_eq_Inr list_all2_conv_all_nth in_set_conv_nth)
    then show ?thesis
      using spec_revision.mk_wf [OF s] initial_budget_wf
      by (auto simp: pending_item_def RequirementTestExpectation_from_def checked_work_item_eq_Inr
          wf_RequirementTestWorkItem_def dest: trimmed_text)
  qed
  then show "wf_RequirementTestPlan p" "w \<in> set (rtp_workItems p) \<Longrightarrow> wi_status w = ''pending'' \<and> wi_semanticFindings w = [] \<and> wi_budget w = initial_budget"
    using p spec_revision.mk_wf [OF s] by (auto simp: checked_plan_eq_Inr wf_RequirementTestPlan_def list_all_iff)
qed

lemma pending_account: "wi_status w = ''pending'' \<Longrightarrow> wi_semanticFindings w = [] \<Longrightarrow> wi_budget w = initial_budget \<Longrightarrow> item_account l w"
  by (simp add: item_account_def counters_ok_def revision_ok_def initial_budget_def)

lemma initial_inv:
  assumes "initializeRequirementTestLifecycle spec revision = Inr i"
  shows "rt_inv (rid_target i, rid_plan i)"
proof -
  obtain p where p: "fromApprovedSpec spec revision = Inr p"
    using assms by (auto simp: initializeRequirementTestLifecycle_def)
  note plan = approved_plan [OF p]
  have idle: "find busy (rtp_workItems p) = None" using plan(2) by (auto simp: find_None_iff busy_def)
  have fr: "frontier_ok p" using plan(2) by (auto simp: frontier_ok_def busy_def filter_empty_conv)
  have acc: "item_account l x" if "x \<in> set (rtp_workItems p)" for x l using plan(2) [OF that] pending_account by blast
  show ?thesis
  proof (cases "nextPendingWorkItem p")
    case None
    then have none: "rtp_workItems p = []"
      using plan(2) by (cases "rtp_workItems p") (auto simp: nextPendingWorkItem_def)
    then have "rid_plan i = p" "rid_target i = ''implement''"
      using assms p None
      by (auto simp: initializeRequirementTestLifecycle_def new_RequirementTestInitializationDecision_def
          new_RequirementTestInitializationEffect_def Let_def split: if_splits)
    then show ?thesis using plan(1) fr none by (simp add: at_leaf_def active_item_def plan_settled_def)
  next
    case (Some n)
    note n = pending_id [OF plan(1) Some]
    have rules: "plan_rules p" using plan(1) by (simp add: wf_RequirementTestPlan_def)
    have "withState n ''in_progress'' (wi_bundleRevision n) (wi_budget n) (wi_semanticFindings n) = Inr (n\<lparr>wi_status := ''in_progress''\<rparr>)"
      using n(2,3) by (simp add: withState_def checked_work_item_eq_Inr wf_RequirementTestWorkItem_def item_rules_def STATUSES_def)
    moreover have "withWorkItem p (n\<lparr>wi_status := ''in_progress''\<rparr>) = Inr (claim p n)"
      unfolding claim_def by (rule withWorkItem_ok [OF rules n(1)]) (simp_all add: n(5))
    ultimately have "rid_plan i = claim p n" "rid_target i = ''test-generate''"
      using assms p Some
      by (auto simp: initializeRequirementTestLifecycle_def new_RequirementTestInitializationDecision_def
          new_RequirementTestInitializationEffect_def Let_def split: if_splits)
    then show ?thesis using claim_inv [OF plan(1) fr idle Some] acc by simp
  qed
qed

theorem reachable_inv: "rt_reachable lc s \<Longrightarrow> rt_inv s"
  by (induction rule: rt_reachable.induct) (auto intro: initial_inv step_inv simp del: rt_inv.simps)

subsection \<open>The potential of a plan\<close>

text \<open>What is left of the budgets of a work item: tooling retries, two steps (rejection and repaired
  candidate) per semantic finding, and the phase of the item.\<close>

definition item_weight :: "string \<Rightarrow> RequirementTestWorkItem \<Rightarrow> nat" where
  "item_weight leaf w =
     (let left = (3 - rtb_tooling (wi_budget w)) + 2 * (10 - length (wi_semanticFindings w)); st = wi_status w in
      if st = ''pending'' \<or> st = ''in_progress'' then left + 2
      else if st = ''reviewed'' \<and> leaf = ''test-repair'' then left + 2
      else if st = ''candidate_saved'' \<or> st = ''reviewed'' then left + 1 else 0)"

fun rt_potential :: "rt_state \<Rightarrow> nat" where
  "rt_potential (leaf, p) = sum_list (map (item_weight leaf) (rtp_workItems p))"

text \<open>External blocks, review passes and Gate reopenings are free; every other decision is charged.\<close>

definition rt_charged :: "RequirementTestLifecycleDecision \<Rightarrow> bool" where
  "rt_charged d \<longleftrightarrow> rtd_disposition d \<noteq> ''external_blocked'' \<and> (rtd_disposition d = ''advance'' \<longrightarrow> rtd_candidateBundle d \<noteq> None)"

lemma charged_outcome: "rt_charged (rt_decision f x) \<longleftrightarrow> rt_policy f \<notin> {Blocked, Passed, Reopened}"
  by (cases "rt_policy f") (simp_all add: rt_charged_def rt_decision_def decision_of_def)

lemma weight_idle: "\<not> busy w \<Longrightarrow> item_weight l w = item_weight l' w"
  by (simp add: item_weight_def busy_def Let_def)

lemma weight_at:
  assumes "accepted lc f" "item_account (rlf_leaf f) (rlf_workItem f)"
  defines "n \<equiv> length (wi_semanticFindings (rlf_workItem f))" and "t \<equiv> rtb_tooling (wi_budget (rlf_workItem f))"
  shows "item_weight (rlf_leaf f) (rlf_workItem f) = (3 - t) + 2 * (10 - n) +
     (if rlf_leaf f = ''test-generate'' \<or> rlf_leaf f = ''test-repair'' then 2 else 1)"
  using status_leaf [OF assms(1)] unfolding n_def t_def by (simp add: item_weight_def leaf_status_def)

lemma weight_drop:
  assumes "accepted lc f" "item_account (rlf_leaf f) (rlf_workItem f)"
  shows "rt_policy f \<notin> {Blocked, Passed, Reopened} \<Longrightarrow>
      item_weight (fst (rt_next f)) (rt_new_item f) < item_weight (rlf_leaf f) (rlf_workItem f)"
    and "item_weight (fst (rt_next f)) (rt_new_item f) \<le> item_weight (rlf_leaf f) (rlf_workItem f)"
proof -
  let ?w = "rlf_workItem f" and ?v = "item_weight (fst (rt_next f)) (rt_new_item f)"
  note w = weight_at [OF assms] and ok = policy_ok [OF assms(1)]
  have st: "wi_status ?w = leaf_status (rlf_leaf f)" by (rule status_leaf [OF assms(1)])
  have n: "length (wi_semanticFindings ?w) = rtb_autoSemantic (wi_budget ?w) + rtb_manualSemantic (wi_budget ?w)"
    "rtb_autoSemantic (wi_budget ?w) \<le> 5" "rtb_manualSemantic (wi_budget ?w) \<le> 5"
    using assms(2) by (simp_all add: item_account_def counters_ok_def)
  have "(rt_policy f \<notin> {Blocked, Passed, Reopened} \<longrightarrow> ?v < item_weight (rlf_leaf f) ?w) \<and> ?v \<le> item_weight (rlf_leaf f) ?w"
  proof (cases "rt_policy f")
    case ToolingRetry
    then have "?v = (3 - Suc (rtb_tooling (wi_budget ?w))) + 2 * (10 - length (wi_semanticFindings ?w)) +
        (if rlf_leaf f = ''test-generate'' \<or> rlf_leaf f = ''test-repair'' then 2 else 1)"
      using st by (simp add: rt_next_def rt_new_item_def item_weight_def leaf_status_def)
    with ToolingRetry ok show ?thesis unfolding w by auto
  next
    case (Saved c)
    have "rlf_leaf f = ''test-generate'' \<or> rlf_leaf f = ''test-repair''"
      using candidate_outcomes(1) [OF assms(1) Saved] accepted_parts(11) [OF assms(1)] by (cases "rlf_observation f") auto
    moreover have "?v = (3 - rtb_tooling (wi_budget ?w)) + 2 * (10 - length (wi_semanticFindings ?w)) + 1"
      using Saved by (simp add: rt_new_item_def item_weight_def)
    ultimately show ?thesis unfolding w by auto
  next
    case (Rejected g c)
    then have "length (wi_semanticFindings ?w) < 10"
      using ok n by (auto simp: semantic_attempts_def split: if_splits)
    moreover have "?v = (3 - rtb_tooling (wi_budget ?w)) + 2 * (10 - Suc (length (wi_semanticFindings ?w))) + 2"
      using Rejected by (simp add: rt_next_def rt_new_item_def item_weight_def charge_budget_def)
    ultimately show ?thesis unfolding w by auto
  next
    case (Repeated c)
    then show ?thesis using never_repeated [OF assms] by blast
  next
    case (Settled st c)
    then have "?v = 0" using ok by (auto simp: rt_new_item_def item_weight_def)
    then show ?thesis unfolding w by auto
  next
    case Passed
    then show ?thesis using candidate_outcomes(5) [OF assms(1)] unfolding w
      by (simp add: rt_next_def rt_new_item_def item_weight_def)
  next
    case Reopened
    then show ?thesis using candidate_outcomes(6) [OF assms(1)] unfolding w
      by (simp add: rt_new_item_def item_weight_def)
  qed (simp add: rt_next_def rt_new_item_def)
  then show "rt_policy f \<notin> {Blocked, Passed, Reopened} \<Longrightarrow> ?v < item_weight (rlf_leaf f) ?w" "?v \<le> item_weight (rlf_leaf f) ?w"
    by blast+
qed

lemma sum_replace:
  fixes g :: "'a \<Rightarrow> nat"
  assumes "distinct (map k xs)" "w \<in> set xs" "k v = k w"
  shows "sum_list (map g (map (\<lambda>x. if k x = k v then v else x) xs)) + g w = sum_list (map g xs) + g v"
  using assms
proof (induction xs)
  case (Cons a xs)
  have same: "map (\<lambda>x. if k x = k v then v else x) xs = xs" if "k v \<notin> k ` set xs"
    using that by (intro map_idI) (metis imageI)
  show ?case
  proof (cases "a = w")
    case True
    then show ?thesis using Cons.prems same by auto
  next
    case False
    with Cons.prems have "k a \<noteq> k v" "w \<in> set xs" by auto
    then show ?thesis using Cons by auto
  qed
qed simp

lemma sum_put:
  assumes "plan_rules p" "w \<in> set (rtp_workItems p)" "wi_requirementId v = wi_requirementId w"
  shows "sum_list (map g (rtp_workItems (put p v))) + (g w :: nat) = sum_list (map g (rtp_workItems p)) + g v"
  using sum_replace [of wi_requirementId "rtp_workItems p" w v g] assms by (simp add: put_def plan_rules_def)

lemma claim_weight:
  assumes "wf_RequirementTestPlan p" "nextPendingWorkItem p = Some n"
  shows "sum_list (map (item_weight l) (rtp_workItems (claim p n))) = sum_list (map (item_weight l) (rtp_workItems p))"
proof -
  note n = pending_id [OF assms]
  have "plan_rules p" using assms(1) by (simp add: wf_RequirementTestPlan_def)
  from sum_put [OF this n(1), of "n\<lparr>wi_status := ''in_progress''\<rparr>" "item_weight l"]
  show ?thesis using n(2) by (simp add: claim_def item_weight_def)
qed

lemma next_potential:
  assumes "accepted lc f"
  shows "rt_potential (rt_next f) + item_weight (rlf_leaf f) (rlf_workItem f) =
    rt_potential (rlf_leaf f, rlf_plan f) + item_weight (fst (rt_next f)) (rt_new_item f)"
proof -
  let ?l = "rlf_leaf f" and ?m = "fst (rt_next f)" and ?w = "rlf_workItem f"
  note parts = accepted_parts [OF assms] and plan = plan_parts [OF assms]
  have "rt_potential (rt_next f) = sum_list (map (item_weight ?m) (rtp_workItems (rt_plan f)))"
    using claim_weight [OF plan(5)] by (cases "rt_policy f") (auto simp: rt_next_def split: option.splits)
  moreover have "sum_list (map (item_weight ?m) (rtp_workItems (rt_plan f))) + item_weight ?m ?w =
      sum_list (map (item_weight ?m) (rtp_workItems (rlf_plan f))) + item_weight ?m (rt_new_item f)"
    unfolding rt_plan_def by (rule sum_put [OF parts(2,5) plan(2)])
  moreover have "sum_list (map (item_weight ?m) (rtp_workItems (rlf_plan f))) + item_weight ?l ?w =
      sum_list (map (item_weight ?l) (rtp_workItems (rlf_plan f))) + item_weight ?m ?w"
  proof -
    have same: "item_weight ?m x = item_weight ?l x" if "x \<in> set (rtp_workItems (rlf_plan f))" "x \<noteq> ?w" for x
      using mid_items(2) [OF assms] that weight_idle by blast
    obtain us vs where split: "rtp_workItems (rlf_plan f) = us @ ?w # vs" using parts(5) split_list by metis
    have "distinct (map wi_requirementId (rtp_workItems (rlf_plan f)))" using parts(2) by (simp add: plan_rules_def)
    then have "?w \<notin> set us" "?w \<notin> set vs" using split by auto
    then have "\<forall>x \<in> set us \<union> set vs. item_weight ?m x = item_weight ?l x" using same by (metis Un_iff list.set_intros(2) set_append split)
    then have "sum_list (map (item_weight ?m) us) = sum_list (map (item_weight ?l) us)"
      "sum_list (map (item_weight ?m) vs) = sum_list (map (item_weight ?l) vs)"
      by (metis (mono_tags, lifting) UnI1 UnI2 map_eq_conv)+
    then show ?thesis by (simp add: split)
  qed
  ultimately show ?thesis by simp
qed

interpretation requirement_tests: potential_machine "rt_step lc" rt_inv rt_charged rt_potential for lc
proof (unfold_locales, goal_cases)
  case (1 s l t)
  then show ?case by (rule step_inv)
next
  case (2 s l t)
  obtain leaf p where s: "s = (leaf, p)" by (cases s)
  obtain f where f: "accepted lc f" "rlf_plan f = p" "rlf_leaf f = leaf" "l = rt_decision f (Some f)" "t = rt_next f"
    using step_next 2(1,2) unfolding s by blast
  have "item_account (rlf_leaf f) (rlf_workItem f)" using 2(1) accepted_parts(5) [OF f(1)] by (simp add: s f(2,3))
  then show ?case
    using weight_drop(1) [OF f(1)] next_potential [OF f(1)] 2(3) f(2-5) by (simp add: s charged_outcome)
next
  case (3 s l t)
  obtain leaf p where s: "s = (leaf, p)" by (cases s)
  obtain f where f: "accepted lc f" "rlf_plan f = p" "rlf_leaf f = leaf" "l = rt_decision f (Some f)" "t = rt_next f"
    using step_next 3(1,2) unfolding s by blast
  have "item_account (rlf_leaf f) (rlf_workItem f)" using 3(1) accepted_parts(5) [OF f(1)] by (simp add: s f(2,3))
  then show ?case
    using weight_drop(2) [OF f(1)] next_potential [OF f(1)] f(2-5) by (simp add: s)
qed

lemma potential_bound: "rt_potential (leaf, p) \<le> 25 * length (rtp_workItems p)"
proof -
  have left: "3 - a + 2 * (10 - b) \<le> (23 :: nat)" for a b by arith
  have "item_weight leaf w \<le> 25" for w
    using left [of "rtb_tooling (wi_budget w)" "length (wi_semanticFindings w)"] unfolding item_weight_def Let_def by auto
  then have "sum_list (map (item_weight leaf) ws) \<le> 25 * length ws" for ws by (induction ws) (simp_all add: add_mono)
  then show ?thesis by simp
qed

end
