(* ===== verification/Requirement_Test_Properties.thy ===== *)
theory Requirement_Test_Properties
  imports Requirement_Test_Machine
begin

section \<open>Properties of the Requirement test lifecycle\<close>

text \<open>
  The claims about the lifecycle as a whole, over the reachable states of its machine, and a run of one
  Requirement from the approved Spec to the implementation that the witnesses use.
\<close>

subsection \<open>Sample run\<close>

definition sample_sha :: string where
  "sample_sha = replicate 64 (CHR ''a'')"

definition rt_sample_revision :: SpecRevisionIdentity where
  "rt_sample_revision = \<lparr>sri_specId = ''spec'', sri_revision = 1, sri_digest = sample_sha, sri_byteLength = 0\<rparr>"

definition rt_sample_spec :: jsval where
  "rt_sample_spec = JObj [(''requirements'', JArr [JObj [(''id'', JStr ''R1''), (''preimplementation_test_expectation'', JStr ''fail'')]])]"

definition rt_sample_attempt :: RequirementTestSourceAttempt where
  "rt_sample_attempt = \<lparr>rsa_id = ''a1'', rsa_sequence = 1\<rparr>"

definition rt_sample_bundle :: RequirementTestBundleRevision where
  "rt_sample_bundle = \<lparr>rbr_requirementId = ''R1'', rbr_specRevision = rt_sample_revision, rbr_revision = 1,
     rbr_paths = [''tests/a.test.js''], rbr_lineage = \<lparr>rbl_requirementId = ''R1'', rbl_specRevision = rt_sample_revision,
       rbl_bundleRevision = 1, rbl_predecessorRevision = None, rbl_sourceAttempt = rt_sample_attempt,
       rbl_sourceFindingFingerprints = []\<rparr>\<rparr>"

definition rt_sample_sources :: "RequirementTestCandidateSource list" where
  "rt_sample_sources = [\<lparr>tcs_testPath = ''tests/a.test.js'', tcs_digest = sample_sha, tcs_byteLength = 0\<rparr>]"

definition rt_sample_candidate :: RequirementTestCandidateBundle where
  "rt_sample_candidate = \<lparr>rcb_bundle = rt_sample_bundle, rcb_sources = rt_sample_sources, rcb_support = [],
     rcb_digest = candidate_digest rt_sample_sources []\<rparr>"

definition rt_sample_plan :: "string \<Rightarrow> RequirementTestBundleRevision option \<Rightarrow> RequirementTestPlan" where
  "rt_sample_plan st b = \<lparr>rtp_specRevision = rt_sample_revision, rtp_workItems = [\<lparr>wi_requirementId = ''R1'',
     wi_specRevision = rt_sample_revision, wi_expectation = ''fail'', wi_status = st, wi_bundleRevision = b,
     wi_budget = initial_budget, wi_semanticFindings = []\<rparr>]\<rparr>"

definition rt_sample_authority :: "string \<Rightarrow> RequirementTestLifecycleAuthority" where
  "rt_sample_authority leaf = \<lparr>rla_runId = ''run'', rla_specId = ''spec'', rla_leaf = leaf, rla_attempt = rt_sample_attempt,
     rla_planPublication = \<lparr>rpp_logicalKey = ''test.requirement.plan'', rpp_relativePath = ''steps/test-generate/plan.json'',
       rpp_hash = sample_sha, rpp_size = 0, rpp_activityId = ''act''\<rparr>, rla_autoApprove = True\<rparr>"

definition rt_sample_review :: observation where
  "rt_sample_review = StepObs \<lparr>rso_requirementId = ''R1'', rso_specRevision = rt_sample_revision, rso_bundleRevision = Some 1,
     rso_candidateDigest = JStr (rcb_digest rt_sample_candidate), rso_sourceAttempt = Some (''a1'', 1), rso_kind = ''review_pass'',
     rso_semanticFindingFingerprint = None\<rparr>"

definition rt_sample_gate :: observation where
  "rt_sample_gate = GateObs \<lparr>tgo_requirementId = ''R1'', tgo_specRevision = rt_sample_revision, tgo_bundleRevision = 1,
     tgo_candidateDigest = rcb_digest rt_sample_candidate, tgo_testName = ''t'', tgo_kind = ''assertion_failed'',
     tgo_sourceAttempt = rt_sample_attempt\<rparr>"

definition rt_sample_facts :: "string \<Rightarrow> string \<Rightarrow> RequirementTestBundleRevision option \<Rightarrow> observation \<Rightarrow> RequirementTestLifecycleFacts" where
  "rt_sample_facts leaf st b obs = \<lparr>rlf_authority = rt_sample_authority leaf, rlf_plan = rt_sample_plan st b, rlf_leaf = leaf,
     rlf_workItem = hd (rtp_workItems (rt_sample_plan st b)), rlf_observation = obs, rlf_observationKind = observation_kind obs,
     rlf_candidateBundle = Some rt_sample_candidate\<rparr>"

lemma sample_sha_ok: "is_sha256 sample_sha"
  by (simp add: is_sha256_def sample_sha_def hex_digit_def list_all_iff)

lemma rt_sample_texts: "is_text ''R1''" "is_text ''spec''" "is_text ''a1''" "is_text ''t''" "is_text ''tests/a.test.js''"
  by (simp_all add: is_text_def js_trim_def js_ws_def)

lemma rt_sample_revision_ok: "wf_SpecRevisionIdentity rt_sample_revision"
  "new_SpecRevisionIdentity (SpecRevisionIdentity_toJSON rt_sample_revision) = Inr rt_sample_revision"
proof -
  show wf: "wf_SpecRevisionIdentity rt_sample_revision"
    by (simp add: wf_SpecRevisionIdentity_def rt_sample_revision_def rt_sample_texts sample_sha_ok is_safe_def max_safe_def)
  show "new_SpecRevisionIdentity (SpecRevisionIdentity_toJSON rt_sample_revision) = Inr rt_sample_revision"
    by (rule spec_revision.mk_js [OF wf])
qed

lemma rt_sample_bundle_ok: "wf_RequirementTestBundleRevision rt_sample_bundle"
  using rt_sample_revision_ok(1)
  by (simp add: wf_RequirementTestBundleRevision_def wf_RequirementTestBundleLineage_def rt_sample_bundle_def
      wf_RequirementTestSourceAttempt_def rt_sample_attempt_def rt_sample_texts is_safe_def max_safe_def canonical_path_def)

lemma rt_sample_candidate_ok: "wf_RequirementTestCandidateBundle lc rt_sample_candidate"
  using rt_sample_bundle_ok
  by (simp add: wf_RequirementTestCandidateBundle_def rt_sample_candidate_def rt_sample_sources_def sort_by_def
      wf_RequirementTestCandidateSource_def test_path_def starts_with_def canonical_path_def rt_sample_texts sample_sha_ok
      is_safe_def max_safe_def rt_sample_bundle_def)

lemma rt_sample_digest: "is_sha256 (rcb_digest rt_sample_candidate)"
  by (simp add: rt_sample_candidate_def candidate_digest_def sha256_hex_shape)

lemma rt_sample_initial:
  "initializeRequirementTestLifecycle rt_sample_spec (SpecRevisionIdentity_toJSON rt_sample_revision) =
    Inr \<lparr>rid_plan = rt_sample_plan ''in_progress'' None, rid_target = ''test-generate'', rid_skippedLeafIds = []\<rparr>"
proof -
  have "fromApprovedSpec rt_sample_spec (SpecRevisionIdentity_toJSON rt_sample_revision) = Inr (rt_sample_plan ''pending'' None)"
    by (simp add: fromApprovedSpec_def rt_sample_spec_def requirement_valid_def RequirementTestExpectation_from_def EXPECTATIONS_def
        rt_sample_revision_ok pending_item_def rt_sample_texts checked_work_item_def STATUSES_def rt_sample_plan_def
        checked_plan_def enumerate_eq_zip lit_of_def one_of_def bool_or_def del: bindE_eq_Inr)
  then show ?thesis
    by (simp add: initializeRequirementTestLifecycle_def nextPendingWorkItem_def rt_sample_plan_def withState_def
        checked_work_item_def STATUSES_def withWorkItem_def checked_plan_def new_RequirementTestInitializationDecision_def
        new_RequirementTestInitializationEffect_def lit_of_def one_of_def plan_settled_def Let_def del: bindE_eq_Inr)
qed

definition rt_sample_run :: "(string \<times> string \<times> RequirementTestBundleRevision option \<times> observation) list" where
  "rt_sample_run = [(''test-generate'', ''in_progress'', None, CandidateObs rt_sample_candidate),
     (''test-review'', ''candidate_saved'', Some rt_sample_bundle, rt_sample_review),
     (''test-gate'', ''reviewed'', Some rt_sample_bundle, rt_sample_gate)]"

lemma rt_sample_observations:
  "(leaf, st, b, obs) \<in> set rt_sample_run \<Longrightarrow> wf_observation lc obs"
  using rt_sample_candidate_ok rt_sample_digest rt_sample_revision_ok(1)
  by (auto simp: rt_sample_run_def rt_sample_review_def rt_sample_gate_def wf_RequirementTestStepObservation_def
      wf_RequirementTestGateObservation_def rt_sample_texts is_safe_def max_safe_def REQUIREMENT_TEST_STEP_OBSERVATIONS_def
      OBSERVATIONS_def wf_RequirementTestSourceAttempt_def rt_sample_attempt_def)

lemma rt_sample_sel [simp]:
  "rcb_bundle rt_sample_candidate = rt_sample_bundle" "rbr_requirementId rt_sample_bundle = ''R1''"
  "rbr_specRevision rt_sample_bundle = rt_sample_revision" "rbr_revision rt_sample_bundle = 1"
  "rbl_sourceAttempt (rbr_lineage rt_sample_bundle) = rt_sample_attempt"
  "rla_leaf (rt_sample_authority l) = l" "rla_attempt (rt_sample_authority l) = rt_sample_attempt"
  by (simp_all add: rt_sample_candidate_def rt_sample_bundle_def rt_sample_authority_def)

lemma rt_sample_active:
  "st \<in> {''in_progress'', ''candidate_saved'', ''reviewed''} \<Longrightarrow>
   activeWorkItem (rt_sample_plan st b) = Inr (Some (hd (rtp_workItems (rt_sample_plan st b))))"
  by (auto simp: activeWorkItem_def rt_sample_plan_def)

lemma rt_sample_item [simp]:
  "wi_requirementId (hd (rtp_workItems (rt_sample_plan st b))) = ''R1''"
  "wi_specRevision (hd (rtp_workItems (rt_sample_plan st b))) = rt_sample_revision"
  "wi_status (hd (rtp_workItems (rt_sample_plan st b))) = st"
  "wi_bundleRevision (hd (rtp_workItems (rt_sample_plan st b))) = b"
  by (simp_all add: rt_sample_plan_def)

lemma rt_sample_built:
  assumes "(leaf, st, b, obs) \<in> set rt_sample_run"
  shows "new_RequirementTestLifecycleFacts (rt_sample_authority leaf) (rt_sample_plan st b) leaf obs (Some rt_sample_candidate) =
   Inr (rt_sample_facts leaf st b obs)"
proof -
  consider "leaf = ''test-generate''" "st = ''in_progress''" "b = None" "obs = CandidateObs rt_sample_candidate"
    | "leaf = ''test-review''" "st = ''candidate_saved''" "b = Some rt_sample_bundle" "obs = rt_sample_review"
    | "leaf = ''test-gate''" "st = ''reviewed''" "b = Some rt_sample_bundle" "obs = rt_sample_gate"
    using assms by (auto simp: rt_sample_run_def)
  then show ?thesis
    by cases (simp_all add: new_RequirementTestLifecycleFacts_def rt_sample_active LIFECYCLE_LEAVES_def produced_check_def
        permitted_def rt_sample_review_def rt_sample_gate_def current_check_def rt_sample_facts_def rt_sample_attempt_def)
qed

lemma rt_sample_next:
  "rt_next (rt_sample_facts ''test-generate'' ''in_progress'' None (CandidateObs rt_sample_candidate)) =
     (''test-review'', rt_sample_plan ''candidate_saved'' (Some rt_sample_bundle))"
  "rt_next (rt_sample_facts ''test-review'' ''candidate_saved'' (Some rt_sample_bundle) rt_sample_review) =
     (''test-gate'', rt_sample_plan ''reviewed'' (Some rt_sample_bundle))"
  "rt_next (rt_sample_facts ''test-gate'' ''reviewed'' (Some rt_sample_bundle) rt_sample_gate) =
     (''implement'', rt_sample_plan ''promoted'' (Some rt_sample_bundle))"
  by (simp_all add: rt_next_def rt_plan_def rt_new_item_def rt_policy_def rt_sample_facts_def rt_sample_plan_def put_def
      nextPendingWorkItem_def with_bundle_def rt_sample_candidate_def rt_sample_review_def rt_sample_gate_def rt_expected_def
      active_item_def busy_def)

abbreviation rt_sample_decision :: "string \<Rightarrow> string \<Rightarrow> RequirementTestBundleRevision option \<Rightarrow> observation \<Rightarrow> RequirementTestLifecycleDecision" where
  "rt_sample_decision leaf st b obs \<equiv> rt_decision (rt_sample_facts leaf st b obs) (Some (rt_sample_facts leaf st b obs))"

lemma rt_sample_steps:
  assumes "rt_reachable lc (leaf, rt_sample_plan st b)" "(leaf, st, b, obs) \<in> set rt_sample_run"
  shows "rt_step lc (leaf, rt_sample_plan st b) (rt_sample_decision leaf st b obs) (rt_next (rt_sample_facts leaf st b obs))"
  using facts_step(6) [OF rt_sample_built [OF assms(2)] reachable_inv [OF assms(1)] rt_sample_observations [OF assms(2)]]
    rt_sample_candidate_ok by simp

lemma rt_sample_reachable:
  "rt_reachable lc (''test-generate'', rt_sample_plan ''in_progress'' None)"
  "rt_reachable lc (''test-review'', rt_sample_plan ''candidate_saved'' (Some rt_sample_bundle))"
  "rt_reachable lc (''test-gate'', rt_sample_plan ''reviewed'' (Some rt_sample_bundle))"
proof -
  show g: "rt_reachable lc (''test-generate'', rt_sample_plan ''in_progress'' None)"
    using rt_reachable.initial [OF rt_sample_initial, of lc] by simp
  show r: "rt_reachable lc (''test-review'', rt_sample_plan ''candidate_saved'' (Some rt_sample_bundle))"
    using rt_reachable.continue [OF g rt_sample_steps [OF g, of "CandidateObs rt_sample_candidate"]]
    by (simp add: rt_sample_run_def rt_sample_next)
  show "rt_reachable lc (''test-gate'', rt_sample_plan ''reviewed'' (Some rt_sample_bundle))"
    using rt_reachable.continue [OF r rt_sample_steps [OF r, of rt_sample_review]]
    by (simp add: rt_sample_run_def rt_sample_next)
qed

subsection \<open>Settling outcomes\<close>

lemma promoted_outcome:
  assumes "accepted lc f"
  shows "rt_disposition (rt_policy f) = ''promote'' \<longleftrightarrow>
    rlf_leaf f = ''test-gate'' \<and> rlf_observationKind f = rt_expected (rlf_workItem f)"
proof -
  note kinds = permitted_kinds [OF accepted_parts(10,8) [OF assms]]
  have "rt_expected (rlf_workItem f) \<in> {''assertion_failed'', ''assertion_passed''}" by (simp add: rt_expected_def)
  then have "rlf_observationKind f = rt_expected (rlf_workItem f) \<Longrightarrow> rlf_leaf f = ''test-gate''" using kinds(4) by auto
  moreover have "rt_disposition (rt_policy f) = ''promote'' \<longleftrightarrow> rlf_observationKind f = rt_expected (rlf_workItem f)"
    by (auto simp: rt_policy_def Let_def rt_expected_def split: if_splits)
  ultimately show ?thesis by blast
qed

lemma deferred_outcome:
  assumes "accepted lc f" "item_account (rlf_leaf f) (rlf_workItem f)"
  shows "rt_disposition (rt_policy f) = ''defer'' \<longleftrightarrow>
    rlf_observationKind f = ''tooling_failure'' \<and> rtb_tooling (wi_budget (rlf_workItem f)) = 3 \<or>
    rlf_observationKind f \<in> {''structural_rejection'', ''semantic_rejection''} \<and>
      semantic_attempts (wi_budget (rlf_workItem f)) (rla_autoApprove (rlf_authority f)) = 5"
proof -
  have "rtb_tooling (wi_budget (rlf_workItem f)) \<le> 3"
    "semantic_attempts (wi_budget (rlf_workItem f)) (rla_autoApprove (rlf_authority f)) \<le> 5"
    using assms(2) by (simp_all add: item_account_def counters_ok_def semantic_attempts_def)
  then show ?thesis
    using never_repeated [OF assms, of "observed_candidate (rlf_observation f)"]
    by (auto simp: rt_policy_def Let_def rt_expected_def split: if_splits)
qed

lemma settled_kept:
  assumes "accepted lc f" "x \<in> set (rtp_workItems (rlf_plan f))" "wi_status x \<in> {''promoted'', ''deferred''}"
  shows "x \<in> set (rtp_workItems (snd (rt_next f)))"
proof -
  note plan = plan_parts [OF assms(1)]
  have "x \<noteq> rlf_workItem f" using assms(3) accepted_status [OF assms(1)] by (auto split: if_splits)
  then have mid: "x \<in> set (rtp_workItems (rt_plan f))" using assms(2) mid_items(1) [OF assms(1)] by simp
  have "x \<in> set (rtp_workItems (claim (rt_plan f) n))" if n: "nextPendingWorkItem (rt_plan f) = Some n" for n
  proof -
    note n' = pending_id [OF plan(5) n]
    have "plan_rules (rt_plan f)" using plan(5) by (simp add: wf_RequirementTestPlan_def)
    from put_items [OF this n'(1), of "n\<lparr>wi_status := ''in_progress''\<rparr>"] have
      "set (rtp_workItems (claim (rt_plan f) n)) = insert (n\<lparr>wi_status := ''in_progress''\<rparr>) (set (rtp_workItems (rt_plan f)) - {n})"
      by (simp add: claim_def)
    moreover have "x \<noteq> n" using assms(3) n'(2) by auto
    ultimately show ?thesis using mid by blast
  qed
  then show ?thesis using mid by (cases "rt_policy f") (auto simp: rt_next_def split: option.splits)
qed

subsection \<open>Facts of the reachable states\<close>

lemma reachable_frontier:
  assumes "rt_reachable lc (leaf, p)"
  shows "plan_fromJSON (RequirementTestPlan_toJSON p) = Inr p"
    "leaf = ''implement'' \<longleftrightarrow> plan_settled p"
    "leaf = ''implement'' \<and> activeWorkItem p = Inr None \<or>
     leaf \<in> set LIFECYCLE_LEAVES \<and> (\<exists>w \<in> set (rtp_workItems p). activeWorkItem p = Inr (Some w) \<and> wi_status w = leaf_status leaf)"
proof -
  have inv: "wf_RequirementTestPlan p" "frontier_ok p" "at_leaf leaf p" using reachable_inv [OF assms] by simp_all
  show "plan_fromJSON (RequirementTestPlan_toJSON p) = Inr p" by (rule test_plan.mk_js [OF inv(1)])
  note act = activeWorkItem_ok [OF inv(2)]
  show "leaf = ''implement'' \<and> activeWorkItem p = Inr None \<or>
     leaf \<in> set LIFECYCLE_LEAVES \<and> (\<exists>w \<in> set (rtp_workItems p). activeWorkItem p = Inr (Some w) \<and> wi_status w = leaf_status leaf)"
    using inv(3) active_item_in act by (auto simp: at_leaf_def split: option.splits)
  show "leaf = ''implement'' \<longleftrightarrow> plan_settled p"
  proof (cases "active_item p")
    case None
    then show ?thesis using inv(3) by (simp add: at_leaf_def)
  next
    case (Some w)
    then have "leaf \<in> set LIFECYCLE_LEAVES" "wi_status w = leaf_status leaf" using inv(3) by (simp_all add: at_leaf_def)
    then show ?thesis using active_item_in [OF Some]
      by (auto simp: plan_settled_def list_all_iff leaf_status_def LIFECYCLE_LEAVES_def dest!: bspec)
  qed
qed

lemma reachable_budget:
  assumes "rt_reachable lc (leaf, p)" "w \<in> set (rtp_workItems p)"
  shows "rtb_tooling (wi_budget w) \<le> 3 \<and> rtb_autoSemantic (wi_budget w) \<le> 5 \<and> rtb_manualSemantic (wi_budget w) \<le> 5"
    "rtb_autoSemantic (wi_budget w) + rtb_manualSemantic (wi_budget w) = length (wi_semanticFindings w)"
    "map rsf_bundleRevision (wi_semanticFindings w) = [1..<Suc (length (wi_semanticFindings w))]"
    "wi_bundleRevision w = Some b \<Longrightarrow> rbr_revision b \<le> Suc (length (wi_semanticFindings w)) \<and> rbr_revision b \<le> 11"
proof -
  have inv: "wf_RequirementTestPlan p" "item_account leaf w" using reachable_inv [OF assms(1)] assms(2) by simp_all
  have counters: "counters_ok w" and rev: "revision_ok leaf w" using inv(2) by (simp_all add: item_account_def)
  show bounds: "rtb_tooling (wi_budget w) \<le> 3 \<and> rtb_autoSemantic (wi_budget w) \<le> 5 \<and> rtb_manualSemantic (wi_budget w) \<le> 5"
    and sum: "rtb_autoSemantic (wi_budget w) + rtb_manualSemantic (wi_budget w) = length (wi_semanticFindings w)"
    and "map rsf_bundleRevision (wi_semanticFindings w) = [1..<Suc (length (wi_semanticFindings w))]"
    using counters by (simp_all add: counters_ok_def)
  have rules: "item_rules w" using inv(1) assms(2)
    by (simp add: wf_RequirementTestPlan_def wf_RequirementTestWorkItem_def list_all_iff)
  assume b: "wi_bundleRevision w = Some b"
  then have "wi_status w \<notin> {''pending'', ''in_progress''}" "wi_status w \<in> set STATUSES" using rules by (auto simp: item_rules_def)
  then have "rbr_revision b \<le> Suc (length (wi_semanticFindings w))"
    using rev b by (auto simp: revision_ok_def Let_def STATUSES_def)
  then show "rbr_revision b \<le> Suc (length (wi_semanticFindings w)) \<and> rbr_revision b \<le> 11" using bounds sum by simp
qed

lemma reachable_settlement:
  assumes "rt_reachable lc (leaf, p)" "new_RequirementTestLifecycleFacts authority p leaf obs cand = Inr f" "wf_observation lc obs"
    "pred_option (wf_RequirementTestCandidateBundle lc) cand" "resolveRequirementTestLifecycle f = Inr d" "apply_decision d p = Inr p'"
  defines "w \<equiv> rlf_workItem f"
  shows "rtd_disposition d = ''promote'' \<longleftrightarrow> leaf = ''test-gate'' \<and>
      observation_kind obs = (if wi_expectation w = ''fail'' then ''assertion_failed'' else ''assertion_passed'')"
    "rtd_disposition d = ''defer'' \<longleftrightarrow> observation_kind obs = ''tooling_failure'' \<and> rtb_tooling (wi_budget w) = 3 \<or>
      observation_kind obs \<in> {''structural_rejection'', ''semantic_rejection''} \<and>
        (if rla_autoApprove authority then rtb_autoSemantic (wi_budget w) = 5 else rtb_manualSemantic (wi_budget w) = 5)"
    "rtd_acceptanceHandoff d \<longleftrightarrow> rtd_disposition d = ''defer''"
    "x \<in> set (rtp_workItems p) \<Longrightarrow> wi_status x \<in> {''promoted'', ''deferred''} \<Longrightarrow> x \<in> set (rtp_workItems p')"
proof -
  note f = facts_step [OF assms(2) reachable_inv [OF assms(1)] assms(3,4)] and parts = accepted_parts [OF f(1)]
  have w: "item_account (rlf_leaf f) (rlf_workItem f)" using reachable_inv [OF assms(1)] parts(5) by (simp add: f(2,3))
  have d: "d = rt_decision f (Some f)" using live_resolution [OF f(1)] assms(5) by simp
  have disp: "rtd_disposition d = rt_disposition (rt_policy f)" by (simp add: d rt_decision_def decision_of_def)
  have kind: "rlf_observationKind f = observation_kind obs" using parts(9) f(4) by simp
  show "rtd_acceptanceHandoff d \<longleftrightarrow> rtd_disposition d = ''defer''" by (simp add: d rt_decision_def decision_of_def)
  show "rtd_disposition d = ''promote'' \<longleftrightarrow> leaf = ''test-gate'' \<and>
      observation_kind obs = (if wi_expectation w = ''fail'' then ''assertion_failed'' else ''assertion_passed'')"
    unfolding disp promoted_outcome [OF f(1)] w_def kind f(3) rt_expected_def by (rule refl)
  show "rtd_disposition d = ''defer'' \<longleftrightarrow> observation_kind obs = ''tooling_failure'' \<and> rtb_tooling (wi_budget w) = 3 \<or>
      observation_kind obs \<in> {''structural_rejection'', ''semantic_rejection''} \<and>
        (if rla_autoApprove authority then rtb_autoSemantic (wi_budget w) = 5 else rtb_manualSemantic (wi_budget w) = 5)"
    unfolding disp deferred_outcome [OF f(1) w] w_def kind semantic_attempts_def f(5) by auto
  assume x: "x \<in> set (rtp_workItems p)" "wi_status x \<in> {''promoted'', ''deferred''}"
  have "p' = snd (rt_next f)" using apply_ok [OF f(1)] assms(6) d f(2) by simp
  then show "x \<in> set (rtp_workItems p')" using settled_kept [OF f(1), of x] x f(2) by simp
qed

subsection \<open>Claims\<close>

text \<open>Claim C5.  In every reachable state the lifecycle never throws on accepted facts: the resolver selects a
  decision, the decision applies to the plan, and target and plan are those of the policy table
  (\<open>rt_policy\<close>, \<open>rt_item\<close>, \<open>rt_after\<close>).\<close>

theorem requirement_test_step_refines:
  assumes "rt_reachable lc (leaf, p)" "new_RequirementTestLifecycleFacts authority p leaf obs cand = Inr f" "wf_observation lc obs"
    "pred_option (wf_RequirementTestCandidateBundle lc) cand"
  shows "\<exists>d. resolveRequirementTestLifecycle f = Inr d \<and> rtd_disposition d = rt_disposition (rt_policy f) \<and>
    apply_decision d p = Inr (snd (rt_next f)) \<and> rtd_target d = fst (rt_next f) \<and> rt_reachable lc (rt_next f)"
proof -
  note f = facts_step [OF assms(2) reachable_inv [OF assms(1)] assms(3,4)]
  have "rt_reachable lc (rt_next f)" by (rule rt_reachable.continue [OF assms(1) f(6)])
  then show ?thesis
    using live_resolution [OF f(1)] apply_ok [OF f(1)] f(2) by (auto simp: rt_decision_def decision_of_def)
qed

text \<open>Witness: the Gate observes the expected failure and the Requirement is promoted.\<close>

theorem requirement_test_step_refines_witness:
  "\<exists>d. resolveRequirementTestLifecycle (rt_sample_facts ''test-gate'' ''reviewed'' (Some rt_sample_bundle) rt_sample_gate) = Inr d \<and>
    rtd_disposition d = ''promote'' \<and>
    apply_decision d (rt_sample_plan ''reviewed'' (Some rt_sample_bundle)) = Inr (rt_sample_plan ''promoted'' (Some rt_sample_bundle)) \<and>
    rtd_target d = ''implement''"
proof -
  have run: "(''test-gate'', ''reviewed'', Some rt_sample_bundle, rt_sample_gate) \<in> set rt_sample_run" by (simp add: rt_sample_run_def)
  have "rt_policy (rt_sample_facts ''test-gate'' ''reviewed'' (Some rt_sample_bundle) rt_sample_gate) = Settled ''promoted'' None"
    by (simp add: rt_policy_def rt_sample_facts_def rt_sample_gate_def rt_sample_plan_def rt_expected_def)
  then show ?thesis
    using requirement_test_step_refines [OF rt_sample_reachable(3) rt_sample_built [OF run] rt_sample_observations [OF run]]
      rt_sample_candidate_ok by (auto simp: rt_sample_next)
qed

text \<open>Claim C9.  In every reachable state the stored plan is well formed and survives being written and read back,
  its active work item is unambiguous and has the status of the current leaf, and the lifecycle is at the
  implementation exactly when every Requirement is settled.\<close>

theorem requirement_test_frontier:
  assumes "rt_reachable lc (leaf, p)"
  shows "plan_fromJSON (RequirementTestPlan_toJSON p) = Inr p \<and> (leaf = ''implement'' \<longleftrightarrow> plan_settled p) \<and>
    (leaf = ''implement'' \<and> activeWorkItem p = Inr None \<or>
     leaf \<in> set LIFECYCLE_LEAVES \<and> (\<exists>w \<in> set (rtp_workItems p). activeWorkItem p = Inr (Some w) \<and> wi_status w = leaf_status leaf))"
  by (intro conjI reachable_frontier [OF assms])

text \<open>Witness: the sample run before its Gate.\<close>

theorem requirement_test_frontier_witness:
  "plan_fromJSON (RequirementTestPlan_toJSON (rt_sample_plan ''reviewed'' (Some rt_sample_bundle))) =
     Inr (rt_sample_plan ''reviewed'' (Some rt_sample_bundle)) \<and>
   \<not> plan_settled (rt_sample_plan ''reviewed'' (Some rt_sample_bundle))"
  using requirement_test_frontier [OF rt_sample_reachable(3)] by simp

text \<open>Claim C7.  Every work item of a reachable state has used at most three tooling retries and five semantic
  attempts in each mode; its semantic attempts are exactly its findings, one per bundle revision in order, and
  its bundle is at most one revision ahead of them, so no bundle has a revision above eleven.\<close>

theorem requirement_test_budget_bounds:
  assumes "rt_reachable lc (leaf, p)" "w \<in> set (rtp_workItems p)"
  shows "rtb_tooling (wi_budget w) \<le> 3 \<and> rtb_autoSemantic (wi_budget w) \<le> 5 \<and> rtb_manualSemantic (wi_budget w) \<le> 5 \<and>
    rtb_autoSemantic (wi_budget w) + rtb_manualSemantic (wi_budget w) = length (wi_semanticFindings w) \<and>
    map rsf_bundleRevision (wi_semanticFindings w) = [1..<Suc (length (wi_semanticFindings w))] \<and>
    pred_option (\<lambda>b. rbr_revision b \<le> Suc (length (wi_semanticFindings w)) \<and> rbr_revision b \<le> 11) (wi_bundleRevision w)"
proof -
  have "pred_option (\<lambda>b. rbr_revision b \<le> Suc (length (wi_semanticFindings w)) \<and> rbr_revision b \<le> 11) (wi_bundleRevision w)"
    using reachable_budget(4) [OF assms] by (cases "wi_bundleRevision w") auto
  then show ?thesis using reachable_budget(1-3) [OF assms] by blast
qed

text \<open>Witness: the work item of the sample run.\<close>

theorem requirement_test_budget_bounds_witness:
  "rbr_revision rt_sample_bundle \<le> Suc (length (wi_semanticFindings (hd (rtp_workItems (rt_sample_plan ''reviewed'' (Some rt_sample_bundle)))))) \<and>
   rbr_revision rt_sample_bundle \<le> 11"
proof -
  have "hd (rtp_workItems (rt_sample_plan ''reviewed'' (Some rt_sample_bundle))) \<in>
      set (rtp_workItems (rt_sample_plan ''reviewed'' (Some rt_sample_bundle)))" by (simp add: rt_sample_plan_def)
  from requirement_test_budget_bounds [OF rt_sample_reachable(3) this] show ?thesis by (simp del: rt_sample_sel)
qed

text \<open>Claim C8.  A Requirement is promoted exactly when the Gate observes the assertion its expectation asks for, and
  deferred exactly when a tooling failure meets three used retries or a new rejection meets five used attempts of
  the current mode; only a deferral is handed to the acceptance.  A settled work item is never changed again.\<close>

theorem requirement_test_settlement:
  assumes "rt_reachable lc (leaf, p)" "new_RequirementTestLifecycleFacts authority p leaf obs cand = Inr f" "wf_observation lc obs"
    "pred_option (wf_RequirementTestCandidateBundle lc) cand" "resolveRequirementTestLifecycle f = Inr d" "apply_decision d p = Inr p'"
  defines "w \<equiv> rlf_workItem f"
  shows "(rtd_disposition d = ''promote'' \<longleftrightarrow> leaf = ''test-gate'' \<and>
      observation_kind obs = (if wi_expectation w = ''fail'' then ''assertion_failed'' else ''assertion_passed'')) \<and>
    (rtd_disposition d = ''defer'' \<longleftrightarrow> observation_kind obs = ''tooling_failure'' \<and> rtb_tooling (wi_budget w) = 3 \<or>
      observation_kind obs \<in> {''structural_rejection'', ''semantic_rejection''} \<and>
        (if rla_autoApprove authority then rtb_autoSemantic (wi_budget w) = 5 else rtb_manualSemantic (wi_budget w) = 5)) \<and>
    (rtd_acceptanceHandoff d \<longleftrightarrow> rtd_disposition d = ''defer'') \<and>
    {x \<in> set (rtp_workItems p). wi_status x \<in> {''promoted'', ''deferred''}} \<subseteq> set (rtp_workItems p')"
  unfolding w_def by (intro conjI subsetI) (use reachable_settlement [OF assms(1-6)] in blast)+

text \<open>Witness: the promotion of the sample run.\<close>

theorem requirement_test_settlement_witness:
  "rtd_disposition (rt_sample_decision ''test-gate'' ''reviewed'' (Some rt_sample_bundle) rt_sample_gate) = ''promote''"
proof -
  let ?f = "rt_sample_facts ''test-gate'' ''reviewed'' (Some rt_sample_bundle) rt_sample_gate"
  have run: "(''test-gate'', ''reviewed'', Some rt_sample_bundle, rt_sample_gate) \<in> set rt_sample_run" by (simp add: rt_sample_run_def)
  have cand: "pred_option (wf_RequirementTestCandidateBundle lc) (Some rt_sample_candidate)" for lc using rt_sample_candidate_ok by simp
  note f = facts_step [OF rt_sample_built [OF run] reachable_inv [OF rt_sample_reachable(3)] rt_sample_observations [OF run] cand]
  show ?thesis
    using requirement_test_settlement [OF rt_sample_reachable(3) rt_sample_built [OF run] rt_sample_observations [OF run] cand
        live_resolution [OF f(1)] apply_ok [OF f(1), unfolded f(2)]]
    by (simp add: rt_sample_facts_def rt_sample_plan_def rt_sample_gate_def)
qed

text \<open>Claim C6.  From the initial route on, at most twenty-five decisions per work item save, retry, reject or settle
  a candidate, however the observations are ordered: only external blocks, review passes and Gate
  reopenings are not paid for by a counter of the plan.\<close>

theorem requirement_test_bounded:
  assumes "initializeRequirementTestLifecycle spec revision = Inr i" "run (rt_step lc) (rid_target i, rid_plan i) ds t"
  shows "length (filter rt_charged ds) \<le> 25 * length (rtp_workItems (rid_plan i))"
  using requirement_tests.charged_bound [OF assms(2) initial_inv [OF assms(1)]] potential_bound [of "rid_target i" "rid_plan i"]
  by simp

text \<open>Witness: the sample run from the approved Spec to the implementation; its saved candidate and its promotion are
  charged.\<close>

theorem requirement_test_bounded_witness:
  "length (filter rt_charged [rt_sample_decision ''test-generate'' ''in_progress'' None (CandidateObs rt_sample_candidate),
     rt_sample_decision ''test-review'' ''candidate_saved'' (Some rt_sample_bundle) rt_sample_review,
     rt_sample_decision ''test-gate'' ''reviewed'' (Some rt_sample_bundle) rt_sample_gate]) \<le> 25"
proof -
  note reach = rt_sample_reachable [where lc = "\<lambda>_ _. 0"]
  have "run (rt_step (\<lambda>_ _. 0)) (''test-generate'', rt_sample_plan ''in_progress'' None)
     [rt_sample_decision ''test-generate'' ''in_progress'' None (CandidateObs rt_sample_candidate),
      rt_sample_decision ''test-review'' ''candidate_saved'' (Some rt_sample_bundle) rt_sample_review,
      rt_sample_decision ''test-gate'' ''reviewed'' (Some rt_sample_bundle) rt_sample_gate]
     (''implement'', rt_sample_plan ''promoted'' (Some rt_sample_bundle))"
    using rt_sample_steps [OF reach(1), of "CandidateObs rt_sample_candidate"] rt_sample_steps [OF reach(2), of rt_sample_review]
      rt_sample_steps [OF reach(3), of rt_sample_gate]
    by (auto simp: rt_sample_run_def rt_sample_next intro!: run.intros)
  then show ?thesis using requirement_test_bounded [OF rt_sample_initial] by (simp add: rt_sample_plan_def)
qed

lemma distinct_insert_by: "distinct (map key (insert_by lc key x ys)) \<longleftrightarrow> key x \<notin> key ` set ys \<and> distinct (map key ys)"
  by (induction ys) auto

lemma distinct_sort_by: "distinct (map key (sort_by lc key xs)) \<longleftrightarrow> distinct (map key xs)"
  unfolding sort_by_def by (induction xs) (simp_all add: distinct_insert_by sort_by_def [symmetric])

text \<open>Claim C40.  A candidate bundle whose sources are exactly its bundle paths is refused as soon as the collation of
  the host orders two of them differently from their code units, whatever the number and order of the sources and
  whatever the support: the sources are sorted with \<open>localeCompare\<close>, the paths they are compared with by code
  unit.  The refusal is the one for sources that do not match, unless the sources or the support are refused
  before.\<close>

theorem candidate_order_refused:
  assumes "collation lc" "bundle_fromJSON (fld ob ''bundle'') = Inr b" "fld ob ''sources'' = JArr vs" "mapE source_fromJSON vs = Inr xs"
    "distinct (map tcs_testPath xs)" "set (rbr_paths b) = set (map tcs_testPath xs)"
    "x \<in> set xs" "y \<in> set xs" "tcs_testPath x < tcs_testPath y" "0 < lc (tcs_testPath x) (tcs_testPath y)"
  shows "new_RequirementTestCandidateBundle lc (JObj ob) =
    bindE (candidate_support lc (fld_or ob ''support'' (JArr []))) (\<lambda>support.
      if list_ex (\<lambda>a. tsa_supportPath a \<in> set (map tcs_testPath xs)) support
      then Inl (Error ''Requirement test candidate bundle cannot use one path as source and support'')
      else Inl (Error ''Requirement test candidate bundle sources must exactly match bundle paths''))"
proof -
  let ?s = "sort_by lc tcs_testPath xs"
  have s: "sorted_wrt (\<lambda>a b. lc (tcs_testPath a) (tcs_testPath b) \<le> 0) ?s" by (rule sorted_sort_by [OF assms(1)])
  have "candidate_sources lc (JArr vs) = Inr ?s" using assms(4,5,7) by (auto simp: candidate_sources_def Let_def distinct_sort_by)
  moreover have "sort (rbr_paths b) \<noteq> map tcs_testPath ?s"
  proof
    assume e: "sort (rbr_paths b) = map tcs_testPath ?s"
    obtain i j where i: "i < length ?s" "?s ! i = x" and j: "j < length ?s" "?s ! j = y"
      using assms(7,8) set_sort_by [of lc tcs_testPath xs] by (metis in_set_conv_nth)
    have "sorted (map tcs_testPath ?s)" using e by (metis sorted_sort)
    then have "\<not> j \<le> i" using i j assms(9) sorted_nth_mono [of "map tcs_testPath ?s" j i] by auto
    then have "lc (tcs_testPath x) (tcs_testPath y) \<le> 0" using s i j by (auto simp: sorted_wrt_iff_nth_less)
    then show False using assms(10) by simp
  qed
  ultimately show ?thesis
    using assms(2,3) by (cases "candidate_support lc (fld_or ob ''support'' (JArr []))")
      (simp_all add: new_RequirementTestCandidateBundle_def del: bindE_eq_Inr)
qed

text \<open>Witness: a collation that puts the underscore before the full stop, as the Unicode default does.\<close>

definition underscore_first :: compare where
  "underscore_first a b = (let k = map (\<lambda>c. if c = CHR ''_'' then CHR ''!'' else c) in
     if k a = k b then 0 else if k a < k b then -1 else 1)"

definition rt_sample_two :: RequirementTestBundleRevision where
  "rt_sample_two = rt_sample_bundle\<lparr>rbr_paths := [''tests/a.test.js'', ''tests/a_b.test.js'']\<rparr>"

definition rt_sample_source :: "string \<Rightarrow> RequirementTestCandidateSource" where
  "rt_sample_source t = \<lparr>tcs_testPath = t, tcs_digest = sample_sha, tcs_byteLength = 0\<rparr>"

lemma underscore_collation: "collation underscore_first"
  unfolding collation_def underscore_first_def Let_def by (auto split: if_splits)

theorem candidate_order_refused_witness:
  "new_RequirementTestCandidateBundle underscore_first (JObj [(''bundle'', RequirementTestBundleRevision_toJSON rt_sample_two),
     (''sources'', JArr [RequirementTestCandidateSource_toJSON (rt_sample_source ''tests/a.test.js''),
        RequirementTestCandidateSource_toJSON (rt_sample_source ''tests/a_b.test.js'')])]) =
   Inl (Error ''Requirement test candidate bundle sources must exactly match bundle paths'')"
proof -
  have two: "wf_RequirementTestBundleRevision rt_sample_two"
    using rt_sample_bundle_ok
    by (simp add: wf_RequirementTestBundleRevision_def rt_sample_two_def rt_sample_bundle_def canonical_path_def is_text_def js_trim_def js_ws_def)
  have source: "wf_RequirementTestCandidateSource (rt_sample_source t)" if "t \<in> {''tests/a.test.js'', ''tests/a_b.test.js''}" for t
    using that sample_sha_ok by (auto simp: rt_sample_source_def wf_RequirementTestCandidateSource_def test_path_def starts_with_def
        canonical_path_def is_safe_def max_safe_def is_text_def js_trim_def js_ws_def)
  have "mapE source_fromJSON [RequirementTestCandidateSource_toJSON (rt_sample_source ''tests/a.test.js''),
      RequirementTestCandidateSource_toJSON (rt_sample_source ''tests/a_b.test.js'')] =
    Inr [rt_sample_source ''tests/a.test.js'', rt_sample_source ''tests/a_b.test.js'']"
    using candidate_source.mk_js [OF source] by simp
  note parsed = this
  let ?ob = "[(''bundle'', RequirementTestBundleRevision_toJSON rt_sample_two),
     (''sources'', JArr [RequirementTestCandidateSource_toJSON (rt_sample_source ''tests/a.test.js''),
        RequirementTestCandidateSource_toJSON (rt_sample_source ''tests/a_b.test.js'')])]"
  have "bundle_fromJSON (fld ?ob ''bundle'') = Inr rt_sample_two" using bundle_revision.mk_js [OF two] by simp
  from candidate_order_refused [OF underscore_collation this _ parsed, of "rt_sample_source ''tests/a.test.js''" "rt_sample_source ''tests/a_b.test.js''"]
  show ?thesis
    by (simp add: rt_sample_two_def rt_sample_source_def underscore_first_def candidate_support_def array_of_def sort_by_def)
qed

end
