(* ===== verification/Step_Tree.thy ===== *)
theory Step_Tree
  imports Js_Values
begin

section \<open>Trees of steps\<close>

text \<open>
  The nested steps of a flow and the nested nodes of its definition have the same shape: a node carries
  its data and, when it is a branch, the list of its children (an empty list is still a branch).  This
  theory holds the traversals of \<open>lib/step-tree.js\<close> with their depth limit, the leaves in document order as
  their reference, and the effects of a route between two leaves.
\<close>

datatype 'a node = Node (node_data: 'a) (node_children: "'a node list option")

text \<open>The reference: leaves in document order, all nodes in preorder, and the nesting depth.\<close>

fun leaves :: "'a node list \<Rightarrow> 'a list" where
  "leaves [] = []"
| "leaves (Node x None # ns) = x # leaves ns"
| "leaves (Node x (Some cs) # ns) = leaves cs @ leaves ns"

fun preorder :: "'a node list \<Rightarrow> 'a node list" where
  "preorder [] = []"
| "preorder (Node x None # ns) = Node x None # preorder ns"
| "preorder (Node x (Some cs) # ns) = Node x (Some cs) # preorder cs @ preorder ns"

fun levels :: "'a node list \<Rightarrow> nat" where
  "levels [] = 1"
| "levels (Node x None # ns) = levels ns"
| "levels (Node x (Some cs) # ns) = max (Suc (levels cs)) (levels ns)"

lemma levels_pos [simp]: "1 \<le> levels ns" "0 < levels ns"
  by (induction ns rule: levels.induct) auto

lemma find_append: "find P (xs @ ys) = (case find P xs of None \<Rightarrow> find P ys | Some x \<Rightarrow> Some x)"
  by (induction xs) auto

lemma find_ne_None: "find P xs \<noteq> None \<longleftrightarrow> (\<exists>x \<in> set xs. P x)"
  by (auto simp: find_None_iff)

lemma leaves_preorder: "leaves ns = map node_data (filter (\<lambda>n. node_children n = None) (preorder ns))"
  by (induction ns rule: leaves.induct) auto

subsection \<open>Depth-limited traversals\<close>

text \<open>\<open>walk\<close> collects the leaves of \<open>nodes\<close> at depth \<open>d\<close>; entering a child list deeper than the limit throws.\<close>

definition descend :: "nat \<Rightarrow> jserr \<Rightarrow> nat \<Rightarrow> 'b res \<Rightarrow> 'b res" where
  "descend lim e d m = (if lim < d then Inl e else m)"

lemma descend_cong [fundef_cong]: "lim = lim' \<Longrightarrow> e = e' \<Longrightarrow> d = d' \<Longrightarrow> (\<not> lim' < d' \<Longrightarrow> m = m') \<Longrightarrow> descend lim e d m = descend lim' e' d' m'"
  by (simp add: descend_def)

fun walk :: "nat \<Rightarrow> jserr \<Rightarrow> nat \<Rightarrow> 'a node list \<Rightarrow> 'a list res" where
  "walk lim e d [] = Inr []"
| "walk lim e d (Node x None # ns) = bindE (walk lim e d ns) (\<lambda>r. Inr (x # r))"
| "walk lim e d (Node x (Some cs) # ns) =
     bindE (descend lim e (Suc d) (walk lim e (Suc d) cs)) (\<lambda>a. bindE (walk lim e d ns) (\<lambda>b. Inr (a @ b)))"

fun find_leaf :: "nat \<Rightarrow> jserr \<Rightarrow> ('a \<Rightarrow> bool) \<Rightarrow> nat \<Rightarrow> 'a node list \<Rightarrow> 'a option res" where
  "find_leaf lim e P d [] = Inr None"
| "find_leaf lim e P d (Node x None # ns) = (if P x then Inr (Some x) else find_leaf lim e P d ns)"
| "find_leaf lim e P d (Node x (Some cs) # ns) =
     bindE (descend lim e (Suc d) (find_leaf lim e P (Suc d) cs)) (\<lambda>found. case found of
       Some y \<Rightarrow> Inr (Some y) | None \<Rightarrow> find_leaf lim e P d ns)"

fun find_node :: "nat \<Rightarrow> jserr \<Rightarrow> ('a \<Rightarrow> bool) \<Rightarrow> nat \<Rightarrow> 'a node list \<Rightarrow> 'a node option res" where
  "find_node lim e P d [] = Inr None"
| "find_node lim e P d (Node x None # ns) = (if P x then Inr (Some (Node x None)) else find_node lim e P d ns)"
| "find_node lim e P d (Node x (Some cs) # ns) =
     (if P x then Inr (Some (Node x (Some cs))) else
      bindE (descend lim e (Suc d) (find_node lim e P (Suc d) cs)) (\<lambda>found. case found of
        Some y \<Rightarrow> Inr (Some y) | None \<Rightarrow> find_node lim e P d ns))"

lemma walk_ok: "d + levels ns \<le> Suc lim \<Longrightarrow> walk lim e d ns = Inr (leaves ns)"
proof (induction lim e d ns rule: walk.induct)
  case (3 lim e d x cs ns)
  then have d: "\<not> lim < Suc d" using levels_pos(1) [of cs] by simp
  then have "walk lim e (Suc d) cs = Inr (leaves cs)" using 3 by simp
  then show ?case using 3 d by (simp add: descend_def)
qed simp_all

lemma walk_too_deep: "Suc lim < d + levels ns \<Longrightarrow> d \<le> lim \<Longrightarrow> walk lim e d ns = Inl e"
proof (induction lim e d ns rule: walk.induct)
  case (3 lim e d x cs ns)
  show ?case
  proof (cases "Suc lim < Suc d + levels cs")
    case True
    then show ?thesis using 3 by (cases "lim < Suc d") (simp_all add: descend_def)
  next
    case False
    then have "walk lim e (Suc d) cs = Inr (leaves cs)" by (intro walk_ok) simp
    moreover have d: "\<not> lim < Suc d" using False levels_pos(1) [of cs] by simp
    moreover have "walk lim e d ns = Inl e"
      using 3(2) [unfolded descend_def] 3(3,4) False calculation by (simp add: max_def split: if_splits)
    ultimately show ?thesis by (simp add: descend_def)
  qed
qed auto

lemma find_leaf_ok: "d + levels ns \<le> Suc lim \<Longrightarrow> find_leaf lim e P d ns = Inr (find P (leaves ns))"
proof (induction lim e P d ns rule: find_leaf.induct)
  case (3 lim e P d x cs ns)
  then have d: "\<not> lim < Suc d" using levels_pos(1) [of cs] by simp
  then have "find_leaf lim e P (Suc d) cs = Inr (find P (leaves cs))" using 3 by simp
  then show ?case using 3 d by (cases "find P (leaves cs)") (simp_all add: descend_def find_append)
qed simp_all

lemma find_node_ok: "d + levels ns \<le> Suc lim \<Longrightarrow> find_node lim e P d ns = Inr (find (\<lambda>n. P (node_data n)) (preorder ns))"
proof (induction lim e P d ns rule: find_node.induct)
  case (3 lim e P d x cs ns)
  then have d: "\<not> lim < Suc d" using levels_pos(1) [of cs] by simp
  then have "\<not> P x \<Longrightarrow> find_node lim e P (Suc d) cs = Inr (find (\<lambda>n. P (node_data n)) (preorder cs))" using 3 by simp
  then show ?case using 3 d by (cases "find (\<lambda>n. P (node_data n)) (preorder cs)") (simp_all add: descend_def find_append)
qed simp_all

subsection \<open>Steps\<close>

record step =
  step_id :: string
  step_status :: string

type_synonym steps = "step node list"

definition MAX_STEP_TREE_DEPTH :: nat where
  "MAX_STEP_TREE_DEPTH = 10"

definition step_depth_error :: jserr where
  "step_depth_error = Error ''step tree depth exceeds maximum (10)''"

definition flattenSteps :: "steps \<Rightarrow> step list res" where
  "flattenSteps ns = walk MAX_STEP_TREE_DEPTH step_depth_error 1 ns"

fun findStepById :: "string \<Rightarrow> steps \<Rightarrow> step node option" where
  "findStepById i [] = None"
| "findStepById i (Node x None # ns) = (if step_id x = i then Some (Node x None) else findStepById i ns)"
| "findStepById i (Node x (Some cs) # ns) = (if step_id x = i then Some (Node x (Some cs)) else
     case findStepById i cs of Some y \<Rightarrow> Some y | None \<Rightarrow> findStepById i ns)"

fun findFirstPendingLeaf :: "steps \<Rightarrow> step option" where
  "findFirstPendingLeaf [] = None"
| "findFirstPendingLeaf (Node x None # ns) = (if step_status x = ''pending'' then Some x else findFirstPendingLeaf ns)"
| "findFirstPendingLeaf (Node x (Some cs) # ns) = (case findFirstPendingLeaf cs of Some y \<Rightarrow> Some y | None \<Rightarrow> findFirstPendingLeaf ns)"

definition in_progress :: "step \<Rightarrow> bool" where
  "in_progress s \<longleftrightarrow> step_status s = ''in_progress''"

definition findInProgressLeaf :: "steps \<Rightarrow> step option res" where
  "findInProgressLeaf ns = find_leaf MAX_STEP_TREE_DEPTH step_depth_error in_progress 0 ns"

definition findInProgressLeaves :: "steps \<Rightarrow> step list res" where
  "findInProgressLeaves ns = bindE (walk MAX_STEP_TREE_DEPTH step_depth_error 0 ns) (\<lambda>xs. Inr (filter in_progress xs))"

definition promoteNextPendingLeaf :: "steps \<Rightarrow> step option res" where
  "promoteNextPendingLeaf ns =
     bindE (findE (\<lambda>n. case node_children n of
         Some cs \<Rightarrow> bindE (findInProgressLeaf cs) (\<lambda>found. Inr (found \<noteq> None))
       | None \<Rightarrow> Inr (in_progress (node_data n))) ns) (\<lambda>active.
     Inr (if active \<noteq> None then None else findFirstPendingLeaf ns))"

lemma flattenSteps_ok: "levels ns \<le> 10 \<Longrightarrow> flattenSteps ns = Inr (leaves ns)"
  by (simp add: flattenSteps_def MAX_STEP_TREE_DEPTH_def walk_ok)

lemma flattenSteps_deep: "10 < levels ns \<Longrightarrow> flattenSteps ns = Inl step_depth_error"
  by (simp add: flattenSteps_def MAX_STEP_TREE_DEPTH_def walk_too_deep)

lemma findStepById_find: "findStepById i ns = find (\<lambda>n. step_id (node_data n) = i) (preorder ns)"
  by (induction i ns rule: findStepById.induct) (auto simp: find_append split: option.splits)

lemma findFirstPendingLeaf_find: "findFirstPendingLeaf ns = find (\<lambda>s. step_status s = ''pending'') (leaves ns)"
  by (induction ns rule: findFirstPendingLeaf.induct) (auto simp: find_append split: option.splits)

lemma findInProgressLeaf_ok: "levels ns \<le> 11 \<Longrightarrow> findInProgressLeaf ns = Inr (find in_progress (leaves ns))"
  by (simp add: findInProgressLeaf_def MAX_STEP_TREE_DEPTH_def find_leaf_ok)

lemma findInProgressLeaves_ok: "levels ns \<le> 11 \<Longrightarrow> findInProgressLeaves ns = Inr (filter in_progress (leaves ns))"
  by (simp add: findInProgressLeaves_def MAX_STEP_TREE_DEPTH_def walk_ok)

lemma levels_child: "Node x (Some cs) \<in> set ns \<Longrightarrow> Suc (levels cs) \<le> levels ns"
  by (induction ns rule: levels.induct) auto

lemma leaves_active:
  "(\<exists>s \<in> set (leaves ns). in_progress s) \<longleftrightarrow>
   (\<exists>n \<in> set ns. case node_children n of Some cs \<Rightarrow> (\<exists>s \<in> set (leaves cs). in_progress s) | None \<Rightarrow> in_progress (node_data n))"
  by (induction ns rule: leaves.induct) auto

lemma promoteNextPendingLeaf_ok:
  assumes "levels ns \<le> 12"
  shows "promoteNextPendingLeaf ns = Inr (if \<exists>s \<in> set (leaves ns). in_progress s then None
    else find (\<lambda>s. step_status s = ''pending'') (leaves ns))"
proof -
  let ?P = "\<lambda>n. case node_children n of Some cs \<Rightarrow> (\<exists>s \<in> set (leaves cs). in_progress s) | None \<Rightarrow> in_progress (node_data n)"
  have "findE (\<lambda>n. case node_children n of
         Some cs \<Rightarrow> bindE (findInProgressLeaf cs) (\<lambda>found. Inr (found \<noteq> None))
       | None \<Rightarrow> Inr (in_progress (node_data n))) ns = Inr (find ?P ns)"
  proof (rule findE_total)
    fix n assume n: "n \<in> set ns"
    show "(case node_children n of Some cs \<Rightarrow> bindE (findInProgressLeaf cs) (\<lambda>found. Inr (found \<noteq> None))
       | None \<Rightarrow> Inr (in_progress (node_data n))) = Inr (?P n)"
    proof (cases n)
      case (Node x c)
      show ?thesis
      proof (cases c)
        case (Some cs)
        then have "levels cs \<le> 11" using levels_child [of x cs ns] n Node assms by simp
        then show ?thesis using Node Some find_ne_None [of in_progress "leaves cs"] by (simp add: findInProgressLeaf_ok)
      qed (simp add: Node)
    qed
  qed
  moreover have "(\<exists>s \<in> set (leaves ns). in_progress s) \<longleftrightarrow> find ?P ns \<noteq> None"
    unfolding leaves_active [of ns] find_ne_None ..
  ultimately show ?thesis
    by (simp only: promoteNextPendingLeaf_def bindE.simps findFirstPendingLeaf_find)
qed

subsection \<open>Writing a leaf\<close>

text \<open>The tree after the first leaf with a property was assigned to, as the callers of the search do.\<close>

fun update_first :: "('a \<Rightarrow> bool) \<Rightarrow> ('a \<Rightarrow> 'a) \<Rightarrow> 'a node list \<Rightarrow> 'a node list option" where
  "update_first P f [] = None"
| "update_first P f (Node x None # ns) = (if P x then Some (Node (f x) None # ns)
     else map_option (Cons (Node x None)) (update_first P f ns))"
| "update_first P f (Node x (Some cs) # ns) = (case update_first P f cs of
     Some cs' \<Rightarrow> Some (Node x (Some cs') # ns)
   | None \<Rightarrow> map_option (Cons (Node x (Some cs))) (update_first P f ns))"

lemma update_first_leaves:
  "update_first P f ns = None \<longleftrightarrow> (\<forall>x \<in> set (leaves ns). \<not> P x)"
  "update_first P f ns = Some ns' \<Longrightarrow> \<exists>us x vs. leaves ns = us @ x # vs \<and> (\<forall>u \<in> set us. \<not> P u) \<and> P x \<and> leaves ns' = us @ f x # vs"
proof (induction P f ns arbitrary: ns' and ns' rule: update_first.induct)
  case (2 P f x ns)
  {
    case 1
    show ?case using 2 by auto
  next
    case 2
    show ?case
    proof (cases "P x")
      case False
      then obtain ms where ms: "update_first P f ns = Some ms" "ns' = Node x None # ms" using "2.prems" by auto
      then obtain us y vs where "leaves ns = us @ y # vs" "\<forall>u \<in> set us. \<not> P u" "P y" "leaves ms = us @ f y # vs"
        using "2.IH"(2) False by metis
      then show ?thesis using ms(2) False by (intro exI [of _ "x # us"]) auto
    qed (use "2.prems" in \<open>auto intro!: exI [of _ "[]"]\<close>)
  }
next
  case (3 P f x cs ns)
  {
    case 1
    show ?case using 3 by (auto split: option.splits)
  next
    case 2
    show ?case
    proof (cases "update_first P f cs")
      case None
      then obtain ms where ms: "update_first P f ns = Some ms" "ns' = Node x (Some cs) # ms" using "2.prems" by auto
      then obtain us y vs where "leaves ns = us @ y # vs" "\<forall>u \<in> set us. \<not> P u" "P y" "leaves ms = us @ f y # vs"
        using "3.IH"(4) None by metis
      moreover have "\<forall>u \<in> set (leaves cs). \<not> P u" using "3.IH"(1) None by simp
      ultimately show ?thesis using ms(2) by (intro exI [of _ "leaves cs @ us"]) auto
    next
      case (Some cs')
      then obtain us y vs where "leaves cs = us @ y # vs" "\<forall>u \<in> set us. \<not> P u" "P y" "leaves cs' = us @ f y # vs"
        using "3.IH"(2) by metis
      then show ?thesis using "2.prems" Some by (intro exI [of _ us] exI [of _ y] exI [of _ "vs @ leaves ns"]) auto
    qed
  }
qed simp_all

lemma update_first_levels: "update_first P f ns = Some ns' \<Longrightarrow> levels ns' = levels ns"
  by (induction P f ns arbitrary: ns' rule: update_first.induct) (auto split: if_splits option.splits)

end
