(* ===== verification/Flow_Definition.thy ===== *)
theory Flow_Definition
  imports Step_Tree
begin

section \<open>The step tree of a flow\<close>

text \<open>
  The definition trees of \<open>definition.js\<close>: the flow with its plan and implementation branches, and the steps
  of a Task.  A \<open>FlowNode\<close> is a node of \<open>Step_Tree\<close> whose data are the fields of the class; \<open>new_FlowNode\<close> performs
  the checks of its constructor and is shown to accept every node below.  The lookups walk the tree with
  the depth limit of the source.
\<close>

subsection \<open>Commands\<close>

record FlowExecutionCommand =
  fec_group :: string
  fec_subcommand :: string
  fec_args :: "string list"

definition arg_token :: "jsval \<Rightarrow> bool" where
  "arg_token a = (case a of JStr t \<Rightarrow> CHR 0x00 \<notin> set t | _ \<Rightarrow> False)"

definition token_text :: "jsval \<Rightarrow> string" where
  "token_text a = (case a of JStr t \<Rightarrow> t | _ \<Rightarrow> [])"

definition new_FlowExecutionCommand :: "jsval \<Rightarrow> FlowExecutionCommand res" where
  "new_FlowExecutionCommand v = bindE (destructure v) (\<lambda>ob.
     let group = fld ob ''group''; subcommand = fld ob ''subcommand''; args = fld_or ob ''args'' (JArr []) in
     if group \<noteq> JStr ''run'' \<and> group \<noteq> JStr ''set''
     then Inl (Error ''flow execution command group must be run or set'')
     else if (case subcommand of JStr s \<Rightarrow> s = [] \<or> list_ex (\<lambda>c. js_ws c \<or> c = CHR 0x00) s | _ \<Rightarrow> True)
     then Inl (Error ''flow execution command subcommand must be a non-empty command token'')
     else if (case args of JArr vs \<Rightarrow> \<not> list_all arg_token vs | _ \<Rightarrow> True)
     then Inl (Error ''flow execution command args must be NUL-free strings'')
     else Inr \<lparr>fec_group = token_text group, fec_subcommand = token_text subcommand,
       fec_args = (case args of JArr vs \<Rightarrow> map token_text vs | _ \<Rightarrow> [])\<rparr>)"

definition command_fromStored :: "jsval \<Rightarrow> FlowExecutionCommand res" where
  "command_fromStored v = (case v of
     JObj ob \<Rightarrow> if sort (map fst ob) \<noteq> [''args'', ''group'', ''subcommand'']
       then Inl (Error ''stored flow execution command must contain group, subcommand and args'')
       else new_FlowExecutionCommand v
   | _ \<Rightarrow> Inl (Error ''stored flow execution command must contain group, subcommand and args''))"

definition FlowExecutionCommand_toJSON :: "FlowExecutionCommand \<Rightarrow> jsval" where
  "FlowExecutionCommand_toJSON c = JObj [(''group'', JStr (fec_group c)), (''subcommand'', JStr (fec_subcommand c)),
     (''args'', JArr (map JStr (fec_args c)))]"

text \<open>\<open>toString\<close>: tokens outside the plain alphabet are quoted for display.\<close>

definition between :: "char \<times> char \<Rightarrow> char \<Rightarrow> bool" where
  "between r x \<longleftrightarrow> fst r \<le> x \<and> x \<le> snd r"

definition plain_char :: "char \<Rightarrow> bool" where
  "plain_char x \<longleftrightarrow> x \<in> set ''_./:=+-'' \<or>
     list_ex (\<lambda>r. between r x) [(CHR ''0'', CHR ''9''), (CHR ''A'', CHR ''Z''), (CHR ''a'', CHR ''z'')]"

definition displayToken :: "string \<Rightarrow> string" where
  "displayToken t = (if t \<noteq> [] \<and> list_all plain_char t then t else
     [CHR 0x27] @ concat (map (\<lambda>c. if c = CHR 0x27 then [CHR 0x27, CHR 0x22, CHR 0x27, CHR 0x22, CHR 0x27] else [c]) t) @ [CHR 0x27])"

fun join_spaces :: "string list \<Rightarrow> string" where
  "join_spaces [] = []"
| "join_spaces [t] = t"
| "join_spaces (t # ts) = t @ '' '' @ join_spaces ts"

definition command_toString :: "FlowExecutionCommand \<Rightarrow> string" where
  "command_toString c = join_spaces (map displayToken ([''sennel'', ''flow'', fec_group c, fec_subcommand c] @ fec_args c))"

definition runArguments :: "FlowExecutionCommand \<Rightarrow> string list" where
  "runArguments c = fec_subcommand c # fec_args c"

definition wf_FlowExecutionCommand :: "FlowExecutionCommand \<Rightarrow> bool" where
  "wf_FlowExecutionCommand c \<longleftrightarrow> fec_group c \<in> {''run'', ''set''} \<and> fec_subcommand c \<noteq> [] \<and>
     list_all (\<lambda>x. \<not> js_ws x \<and> x \<noteq> CHR 0x00) (fec_subcommand c) \<and> list_all (\<lambda>t. CHR 0x00 \<notin> set t) (fec_args c)"

lemma new_command_eq_Inr:
  "new_FlowExecutionCommand (JObj ob) = Inr c \<longleftrightarrow>
   (\<exists>g s vs. fld ob ''group'' = JStr g \<and> fld ob ''subcommand'' = JStr s \<and> fld_or ob ''args'' (JArr []) = JArr vs \<and>
     g \<in> {''run'', ''set''} \<and> \<not> (s = [] \<or> list_ex (\<lambda>c. js_ws c \<or> c = CHR 0x00) s) \<and> list_all arg_token vs \<and>
     c = \<lparr>fec_group = g, fec_subcommand = s, fec_args = map token_text vs\<rparr>)"
proof -
  have "(case sub of JStr s \<Rightarrow> P s | _ \<Rightarrow> True) \<longleftrightarrow> \<not> (\<exists>s. sub = JStr s \<and> \<not> P s)" for sub P by (cases sub) auto
  moreover have "(case args of JArr vs \<Rightarrow> \<not> list_all arg_token vs | _ \<Rightarrow> True) \<longleftrightarrow> \<not> (\<exists>vs. args = JArr vs \<and> list_all arg_token vs)"
    for args by (cases args) auto
  ultimately show ?thesis
    unfolding new_FlowExecutionCommand_def Let_def destructure_simps bindE.simps if_refused
    by (auto simp: token_text_def)
qed

interpretation execution_command: json_codec command_fromStored wf_FlowExecutionCommand FlowExecutionCommand_toJSON
proof (unfold_locales, goal_cases)
  case (1 v x)
  then obtain ob where "new_FlowExecutionCommand (JObj ob) = Inr x"
    unfolding command_fromStored_def by (cases v) (simp_all only: jsval.case if_refused, blast+)
  moreover have "arg_token a \<Longrightarrow> CHR 0x00 \<notin> set (token_text a)" for a by (cases a) (auto simp: arg_token_def token_text_def)
  ultimately show ?case
    unfolding new_command_eq_Inr wf_FlowExecutionCommand_def list_all_iff list_ex_iff by fastforce
next
  case (2 x)
  have args: "list_all arg_token (map JStr (fec_args x))" "map token_text (map JStr (fec_args x)) = fec_args x"
    using 2 by (simp_all add: wf_FlowExecutionCommand_def list.pred_map comp_def arg_token_def token_text_def)
  have sub: "\<not> (fec_subcommand x = [] \<or> list_ex (\<lambda>c. js_ws c \<or> c = CHR 0x00) (fec_subcommand x))"
    using 2 unfolding wf_FlowExecutionCommand_def list_ex_iff list_all_iff by blast
  have group: "fec_group x \<in> {''run'', ''set''}" using 2 unfolding wf_FlowExecutionCommand_def by blast
  have "new_FlowExecutionCommand (FlowExecutionCommand_toJSON x) = Inr x"
    unfolding FlowExecutionCommand_toJSON_def new_command_eq_Inr
    by (intro exI conjI, simp, simp, simp, rule group, rule sub, rule args(1)) (simp only: args(2), simp)
  then show ?case by (simp add: command_fromStored_def FlowExecutionCommand_toJSON_def)
qed (simp add: FlowExecutionCommand_toJSON_def)

subsection \<open>Failure ownership and failure policy\<close>

datatype DefinitionFailureOwnership =
  DispatcherPrimary | CommandPrimaryDispatcherFallback | CommandExclusive | LifecycleOutbox

fun ownership_kind :: "DefinitionFailureOwnership \<Rightarrow> string" where
  "ownership_kind DispatcherPrimary = ''dispatcher-primary''"
| "ownership_kind CommandPrimaryDispatcherFallback = ''command-primary-dispatcher-fallback''"
| "ownership_kind CommandExclusive = ''command-self''"
| "ownership_kind LifecycleOutbox = ''lifecycle-outbox''"

fun allowsDispatcherFallback :: "DefinitionFailureOwnership \<Rightarrow> bool" where
  "allowsDispatcherFallback DispatcherPrimary = True"
| "allowsDispatcherFallback CommandPrimaryDispatcherFallback = True"
| "allowsDispatcherFallback _ = False"

definition ownership_from :: "string \<Rightarrow> DefinitionFailureOwnership res" where
  "ownership_from s =
     (if s = ''dispatcher-primary'' then Inr DispatcherPrimary
      else if s = ''command-primary-dispatcher-fallback'' then Inr CommandPrimaryDispatcherFallback
      else if s = ''command-self'' then Inr CommandExclusive
      else if s = ''lifecycle-outbox'' then Inr LifecycleOutbox
      else Inl (TypeError (''invalid definition failure ownership: '' @ s)))"

lemma ownership_roundtrip: "ownership_from (ownership_kind o') = Inr o'" "ownership_from s = Inr o' \<Longrightarrow> ownership_kind o' = s"
  by (cases o') (auto simp: ownership_from_def split: if_splits)

definition FAILURE_POLICIES :: "string list" where
  "FAILURE_POLICIES = [''retry'', ''retry-block'', ''record'', ''amend-spec'', ''block'', ''step-definition'', ''test-chain-retry'',
     ''test-chain-repair'']"

record DefinitionFailurePolicy =
  dfp_value :: string
  dfp_targetNodeId :: "string option"

definition targeted :: "string \<Rightarrow> bool" where
  "targeted p \<longleftrightarrow> p \<in> {''amend-spec'', ''test-chain-repair''}"

definition new_DefinitionFailurePolicy :: "string \<Rightarrow> string option \<Rightarrow> DefinitionFailurePolicy res" where
  "new_DefinitionFailurePolicy p t =
     (if p \<notin> set FAILURE_POLICIES then Inl (Error (''definition.action.failurePolicy is invalid: '' @ p))
      else if \<not> pred_option (\<lambda>i. js_trim i \<noteq> []) t
      then Inl (Error ''definition.action.failurePolicy.targetNodeId must be a non-empty string'')
      else if targeted p \<noteq> (t \<noteq> None)
      then Inl (Error ''targeted failure policy requires exactly one definition-owned target node'')
      else Inr \<lparr>dfp_value = p, dfp_targetNodeId = t\<rparr>)"

subsection \<open>Attempt limits\<close>

datatype max_attempts = ScalarMaxAttempts int | ModeMaxAttempts int int

definition new_max_attempts :: "max_attempts \<Rightarrow> max_attempts res" where
  "new_max_attempts m = (case m of
     ScalarMaxAttempts n \<Rightarrow> if n \<le> 0 then Inl (Error ''invalid maxAttempts: expected a positive integer'') else Inr m
   | ModeMaxAttempts a b \<Rightarrow> if a \<le> 0 \<or> b \<le> 0 then Inl (Error ''invalid maxAttempts: auto/manual must be positive integers'') else Inr m)"

fun resolve_attempts :: "max_attempts \<Rightarrow> bool \<Rightarrow> int" where
  "resolve_attempts (ScalarMaxAttempts n) autoApprove = n"
| "resolve_attempts (ModeMaxAttempts a m) autoApprove = (if autoApprove then a else m)"

subsection \<open>Nodes\<close>

record node_info =
  fn_id :: string
  fn_label :: string
  fn_action :: "string option"
  fn_instructionsKey :: "string option"
  fn_contextKinds :: "string list"
  fn_outputSchemaRef :: "string option"
  fn_requiresApproval :: bool
  fn_autoApproveChoiceId :: "string option"
  fn_skippable :: bool
  fn_maxAttempts :: max_attempts
  fn_toolingMaxAttempts :: "max_attempts option"
  fn_sideEffects :: "string list option"
  fn_gatePhase :: "string list option"
  fn_failurePolicy :: "string option"
  fn_failureTargetId :: "string option"
  fn_definitionLifecycleOwned :: bool
  fn_executionCommand :: "FlowExecutionCommand option"
  fn_failureOwnership :: "DefinitionFailureOwnership option"

type_synonym FlowNode = "node_info node"

definition node_defaults :: node_info where
  "node_defaults = \<lparr>fn_id = [], fn_label = [], fn_action = None, fn_instructionsKey = None, fn_contextKinds = [],
     fn_outputSchemaRef = None, fn_requiresApproval = False, fn_autoApproveChoiceId = None, fn_skippable = False,
     fn_maxAttempts = ScalarMaxAttempts 1, fn_toolingMaxAttempts = None, fn_sideEffects = None, fn_gatePhase = None,
     fn_failurePolicy = None, fn_failureTargetId = None, fn_definitionLifecycleOwned = False, fn_executionCommand = None,
     fn_failureOwnership = None\<rparr>"

definition new_FlowNode :: "node_info \<Rightarrow> FlowNode list option \<Rightarrow> FlowNode res" where
  "new_FlowNode i children =
     (if fn_autoApproveChoiceId i \<noteq> None \<and> (\<not> fn_requiresApproval i \<or> fn_autoApproveChoiceId i \<noteq> Some ''1'')
      then Inl (Error ''autoApproveChoiceId must be choice id=1 on an approval-required step'') else
      bindE (new_max_attempts (fn_maxAttempts i)) (\<lambda>_.
      bindE (case fn_toolingMaxAttempts i of None \<Rightarrow> Inr (ScalarMaxAttempts 1) | Some m \<Rightarrow> new_max_attempts m) (\<lambda>_.
      bindE (if \<not> fn_definitionLifecycleOwned i then Inr () else case fn_action i of
          None \<Rightarrow> Inl (TypeError ''Cannot read properties of undefined'')
        | Some a \<Rightarrow> if take 4 a \<noteq> ''run-'' then Inl (Error (''definition lifecycle-owned action must start with run-: '' @ a)) else Inr ()) (\<lambda>_.
      if fn_definitionLifecycleOwned i \<and> fn_executionCommand i = None
      then Inl (Error (''definition lifecycle-owned step must declare executionCommand: '' @ fn_id i))
      else if \<not> fn_definitionLifecycleOwned i \<and> fn_executionCommand i \<noteq> None
      then Inl (Error (''only definition lifecycle-owned steps may declare executionCommand: '' @ fn_id i))
      else if fn_definitionLifecycleOwned i \<and> fn_failureOwnership i = None
      then Inl (Error (''definition lifecycle-owned step must declare failureOwnership: '' @ fn_id i))
      else if \<not> fn_definitionLifecycleOwned i \<and> fn_failureOwnership i \<noteq> None
      then Inl (Error (''only definition lifecycle-owned steps may declare failureOwnership: '' @ fn_id i))
      else if fn_failurePolicy i = None \<and> fn_failureTargetId i \<noteq> None
      then Inl (Error (''failureTargetId requires a failurePolicy: '' @ fn_id i))
      else bindE (case fn_failurePolicy i of None \<Rightarrow> Inr () | Some p \<Rightarrow>
          bindE (new_DefinitionFailurePolicy p (fn_failureTargetId i)) (\<lambda>_. Inr ())) (\<lambda>_.
      Inr (Node i children))))))"

definition leaf :: "node_info \<Rightarrow> FlowNode" where
  "leaf i = Node i None"

definition branch :: "string \<Rightarrow> string \<Rightarrow> FlowNode list \<Rightarrow> FlowNode" where
  "branch i label children = Node (node_defaults\<lparr>fn_id := i, fn_label := label\<rparr>) (Some children)"

definition command :: "string \<Rightarrow> string list \<Rightarrow> FlowExecutionCommand" where
  "command sub args = \<lparr>fec_group = ''run'', fec_subcommand = sub, fec_args = args\<rparr>"

subsection \<open>Tables the nodes are built from\<close>

definition SCHEMA_REF_BY_STEP :: "(string \<times> string) list" where
  "SCHEMA_REF_BY_STEP =
     [(''implement'', ''next-action/source-worker-effect-implement.schema.json''),
      (''impl-triage'', ''next-action/source-worker-effect-impl-triage.schema.json''),
      (''impl-repair'', ''next-action/source-worker-effect-impl-repair.schema.json''),
      (''task-repair'', ''next-action/source-worker-effect-task-repair.schema.json''),
      (''task-impl'', ''next-action/source-worker-effect-task-impl.schema.json'')]"

definition sourceWorkerEffectSchemaRef :: "string \<Rightarrow> string res" where
  "sourceWorkerEffectSchemaRef s = (case map_of SCHEMA_REF_BY_STEP s of
     None \<Rightarrow> Inl (Error (''source worker effect schema is unsupported for '' @ s)) | Some r \<Rightarrow> Inr r)"

definition TASK_CONTEXT_KINDS :: "(string \<times> string list) list" where
  "TASK_CONTEXT_KINDS =
     [(''task-impl'', [''task_spec'', ''requirements'', ''overview'']),
      (''task-review'', [''task_spec'', ''requirements'', ''source'']),
      (''task-triage'', [''task_spec'', ''requirements'', ''source'']),
      (''task-repair'', [''task_spec'', ''requirements'', ''source'']),
      (''task-gate'', [''task_spec'', ''requirements'', ''overview'', ''source'', ''guardrail''])]"

definition canonicalTaskContextKinds :: "string \<Rightarrow> string list res" where
  "canonicalTaskContextKinds s =
     (if js_trim s = [] then Inl (Error ''canonical Task Step id is required'') else
      case map_of TASK_CONTEXT_KINDS (js_trim s) of
        None \<Rightarrow> Inl (Error (''canonical Task context does not support Step: '' @ s)) | Some ks \<Rightarrow> Inr ks)"

text \<open>Both are called with literals they support; the nodes carry the result.\<close>

definition schema_ref :: "string \<Rightarrow> string option" where
  "schema_ref s = (case sourceWorkerEffectSchemaRef s of Inr r \<Rightarrow> Some r | Inl _ \<Rightarrow> None)"

definition task_kinds :: "string \<Rightarrow> string list" where
  "task_kinds s = (case canonicalTaskContextKinds s of Inr ks \<Rightarrow> ks | Inl _ \<Rightarrow> [])"

record DraftReviewRoute =
  drr_key :: string
  drr_label :: string
  drr_retryPhase :: string
  drr_reviewStepId :: string
  drr_triageStepId :: string
  drr_repairStepId :: string
  drr_reviewArtifact :: string
  drr_reviewLogicalKey :: string
  drr_triageArtifact :: string
  drr_repairArtifact :: string
  drr_passNextStepId :: string
  drr_sourceStepIds :: "string list"

definition route_text :: "string \<Rightarrow> string \<Rightarrow> unit res" where
  "route_text field s = (if js_trim s = [] then Inl (Error (''invalid draft review route: '' @ field @ '' must be non-empty'')) else Inr ())"

definition new_DraftReviewRoute :: "DraftReviewRoute \<Rightarrow> DraftReviewRoute res" where
  "new_DraftReviewRoute r =
     bindE (mapE (\<lambda>(field, v). route_text field v)
       [(''key'', drr_key r), (''label'', drr_label r), (''retryPhase'', drr_retryPhase r), (''reviewStepId'', drr_reviewStepId r),
        (''triageStepId'', drr_triageStepId r), (''repairStepId'', drr_repairStepId r), (''reviewArtifact'', drr_reviewArtifact r),
        (''reviewLogicalKey'', drr_reviewLogicalKey r), (''triageArtifact'', drr_triageArtifact r),
        (''repairArtifact'', drr_repairArtifact r), (''passNextStepId'', drr_passNextStepId r)]) (\<lambda>_.
     if drr_sourceStepIds r = [] then Inl (Error ''invalid draft review route: sourceStepIds must be a non-empty array'') else
     bindE (mapE (route_text ''sourceStepIds entry'') (drr_sourceStepIds r)) (\<lambda>_.
     if \<not> distinct (drr_sourceStepIds r) then Inl (Error ''invalid draft review route: sourceStepIds must be unique'') else Inr r))"

definition DRAFT_QUESTIONS_ROUTE :: DraftReviewRoute where
  "DRAFT_QUESTIONS_ROUTE = \<lparr>drr_key = ''questions'', drr_label = ''Draft questions'', drr_retryPhase = ''draft-questions'',
     drr_reviewStepId = ''draft-questions-review'', drr_triageStepId = ''draft-questions-triage'',
     drr_repairStepId = ''draft-questions-repair'',
     drr_reviewArtifact = ''draft-review-questions.json'', drr_reviewLogicalKey = ''draft.questions.review'',
     drr_triageArtifact = ''draft-questions-triage.json'', drr_repairArtifact = ''draft-questions-repair.json'', drr_passNextStepId = ''draft-refine'',
     drr_sourceStepIds = [''draft'', ''draft-questions-repair'']\<rparr>"

definition DRAFT_COVERAGE_ROUTE :: DraftReviewRoute where
  "DRAFT_COVERAGE_ROUTE = \<lparr>drr_key = ''coverage'', drr_label = ''Draft coverage'', drr_retryPhase = ''draft-coverage'',
     drr_reviewStepId = ''draft-coverage-review'', drr_triageStepId = ''draft-coverage-triage'',
     drr_repairStepId = ''draft-coverage-repair'',
     drr_reviewArtifact = ''draft-review-coverage.json'', drr_reviewLogicalKey = ''draft.coverage.review'',
     drr_triageArtifact = ''draft-coverage-triage.json'', drr_repairArtifact = ''draft-coverage-repair.json'', drr_passNextStepId = ''draft-gate'',
     drr_sourceStepIds = [''draft'', ''draft-questions-repair'', ''draft-refine'', ''draft-gate-repair'', ''draft-coverage-repair'']\<rparr>"

definition DRAFT_REVIEW_ROUTES :: "DraftReviewRoute list" where
  "DRAFT_REVIEW_ROUTES = [DRAFT_QUESTIONS_ROUTE, DRAFT_COVERAGE_ROUTE]"

lemma draft_routes_constructed: "list_all (\<lambda>r. new_DraftReviewRoute r = Inr r) DRAFT_REVIEW_ROUTES"
  by (simp add: DRAFT_REVIEW_ROUTES_def DRAFT_QUESTIONS_ROUTE_def DRAFT_COVERAGE_ROUTE_def new_DraftReviewRoute_def route_text_def
      js_trim_def js_ws_def)

definition draftReviewRouteForRetryPhase :: "string \<Rightarrow> DraftReviewRoute option" where
  "draftReviewRouteForRetryPhase p = find (\<lambda>r. drr_retryPhase r = p) DRAFT_REVIEW_ROUTES"

definition draftReviewRouteForKey :: "string \<Rightarrow> DraftReviewRoute option" where
  "draftReviewRouteForKey k = find (\<lambda>r. drr_key r = k) DRAFT_REVIEW_ROUTES"

definition draftReviewRouteForStepId :: "string \<Rightarrow> DraftReviewRoute option" where
  "draftReviewRouteForStepId s = find (\<lambda>r. s \<in> {drr_reviewStepId r, drr_triageStepId r, drr_repairStepId r}) DRAFT_REVIEW_ROUTES"

definition PLAN_REVIEW_MAX_ATTEMPTS_BY_ID :: "(string \<times> max_attempts) list" where
  "PLAN_REVIEW_MAX_ATTEMPTS_BY_ID = [(''draft-questions-review'', ModeMaxAttempts 1 1), (''draft-coverage-review'', ModeMaxAttempts 1 1),
     (''spec-review'', ModeMaxAttempts 4 4), (''test-review'', ModeMaxAttempts 5 5)]"

definition createPlanReviewNode :: "string \<Rightarrow> string \<Rightarrow> string list \<Rightarrow> FlowExecutionCommand \<Rightarrow> FlowNode" where
  "createPlanReviewNode i label kinds cmd = leaf (node_defaults\<lparr>fn_id := i, fn_label := label, fn_action := Some ''run-review'',
     fn_instructionsKey := Some (''plan.'' @ i), fn_contextKinds := kinds, fn_outputSchemaRef := Some ''next-action/review.schema.json'',
     fn_maxAttempts := (case map_of PLAN_REVIEW_MAX_ATTEMPTS_BY_ID i of Some m \<Rightarrow> m | None \<Rightarrow> ScalarMaxAttempts 1),
     fn_toolingMaxAttempts := Some (ScalarMaxAttempts 1), fn_failurePolicy := Some ''retry'', fn_definitionLifecycleOwned := True,
     fn_executionCommand := Some cmd, fn_failureOwnership := Some CommandPrimaryDispatcherFallback\<rparr>)"

definition createDraftReviewLeafNode :: "string \<Rightarrow> string \<Rightarrow> FlowNode" where
  "createDraftReviewLeafNode i label = leaf (node_defaults\<lparr>fn_id := i, fn_label := label, fn_action := Some ''write-draft'',
     fn_instructionsKey := Some (''plan.'' @ i), fn_contextKinds := [''draft'', ''issue'', ''guardrail''],
     fn_outputSchemaRef := Some ''next-action/worker-artifact-handoff.schema.json'', fn_maxAttempts := ScalarMaxAttempts 1\<rparr>)"

definition createDraftReviewRouteNodes :: "DraftReviewRoute \<Rightarrow> FlowNode list" where
  "createDraftReviewRouteNodes r = [createDraftReviewLeafNode (drr_triageStepId r) (drr_label r @ '' triage''),
     createDraftReviewLeafNode (drr_repairStepId r) (drr_label r @ '' repair'')]"

subsection \<open>The trees\<close>

definition plan_steps :: "FlowNode list" where
  "plan_steps =
     [leaf (node_defaults\<lparr>fn_id := ''branch'', fn_label := ''Branch'', fn_action := Some ''create-branch'',
        fn_instructionsKey := Some ''plan.branch'', fn_contextKinds := [], fn_skippable := True\<rparr>),
      leaf (node_defaults\<lparr>fn_id := ''prepare-spec'', fn_label := ''Prepare spec'', fn_action := Some ''prepare-spec'',
        fn_instructionsKey := Some ''plan.prepare-spec'', fn_contextKinds := []\<rparr>),
      leaf (node_defaults\<lparr>fn_id := ''draft'', fn_label := ''Draft'', fn_action := Some ''write-draft'',
        fn_instructionsKey := Some ''plan.draft'', fn_contextKinds := [''issue'', ''guardrail'', ''project_overview''],
        fn_outputSchemaRef := Some ''next-action/worker-artifact-handoff.schema.json'',
        fn_maxAttempts := ScalarMaxAttempts 1\<rparr>),
      createPlanReviewNode ''draft-questions-review'' ''Review (draft questions)'' [''draft'', ''issue'']
        (command ''review'' [''--phase'', ''draft''])] @
     createDraftReviewRouteNodes DRAFT_QUESTIONS_ROUTE @
     [leaf (node_defaults\<lparr>fn_id := ''draft-refine'', fn_label := ''Draft refine'', fn_action := Some ''write-draft'',
        fn_instructionsKey := Some ''plan.draft-refine'',
        fn_contextKinds := [''draft'', ''issue'', ''guardrail'', ''project_overview''],
        fn_outputSchemaRef := Some ''next-action/worker-artifact-handoff.schema.json'',
        fn_maxAttempts := ScalarMaxAttempts 1\<rparr>),
      leaf (node_defaults\<lparr>fn_id := ''draft-gate-repair'', fn_label := ''Draft Gate repair'', fn_action := Some ''write-draft'',
        fn_instructionsKey := Some ''plan.draft-gate-repair'',
        fn_contextKinds := [''draft'', ''issue'', ''guardrail'', ''project_overview''],
        fn_outputSchemaRef := Some ''next-action/worker-artifact-handoff.schema.json'',
        fn_maxAttempts := ScalarMaxAttempts 1\<rparr>),
      createPlanReviewNode ''draft-coverage-review'' ''Review (draft coverage)'' [''draft'', ''issue'']
        (command ''review'' [''--phase'', ''draft''])] @
     createDraftReviewRouteNodes DRAFT_COVERAGE_ROUTE @
     [leaf (node_defaults\<lparr>fn_id := ''draft-gate'', fn_label := ''Gate (draft)'', fn_action := Some ''run-gate'',
        fn_instructionsKey := Some ''plan.draft-gate'', fn_contextKinds := [''draft'', ''guardrail''],
        fn_outputSchemaRef := Some ''next-action/gate.schema.json'', fn_maxAttempts := ScalarMaxAttempts 5,
        fn_gatePhase := Some [''draft''], fn_failurePolicy := Some ''step-definition'',
        fn_definitionLifecycleOwned := True, fn_executionCommand := Some (command ''gate'' []),
        fn_failureOwnership := Some CommandPrimaryDispatcherFallback\<rparr>),
      leaf (node_defaults\<lparr>fn_id := ''spec'', fn_label := ''Spec'', fn_action := Some ''write-spec'',
        fn_instructionsKey := Some ''plan.spec'', fn_contextKinds := [''draft'', ''guardrail''],
        fn_outputSchemaRef := Some ''next-action/worker-artifact-handoff.schema.json''\<rparr>),
      createPlanReviewNode ''spec-review'' ''Review (spec)'' [''spec'', ''guardrail'']
        (command ''review'' [''--phase'', ''spec'']),
      leaf (node_defaults\<lparr>fn_id := ''spec-triage'', fn_label := ''Spec review triage'', fn_action := Some ''write-spec'',
        fn_instructionsKey := Some ''plan.spec-triage'', fn_contextKinds := [''spec'', ''guardrail''],
        fn_outputSchemaRef := Some ''next-action/worker-artifact-handoff.schema.json'',
        fn_maxAttempts := ScalarMaxAttempts 1\<rparr>),
      leaf (node_defaults\<lparr>fn_id := ''spec-repair'', fn_label := ''Spec repair'', fn_action := Some ''write-spec'',
        fn_instructionsKey := Some ''plan.spec-repair'', fn_contextKinds := [''spec'', ''guardrail''],
        fn_outputSchemaRef := Some ''next-action/worker-artifact-handoff.schema.json'',
        fn_maxAttempts := ScalarMaxAttempts 1\<rparr>),
      leaf (node_defaults\<lparr>fn_id := ''spec-gate'', fn_label := ''Gate (spec)'', fn_action := Some ''run-gate'',
        fn_instructionsKey := Some ''plan.spec-gate'', fn_contextKinds := [''spec'', ''guardrail''],
        fn_outputSchemaRef := Some ''next-action/gate.schema.json'', fn_maxAttempts := ScalarMaxAttempts 5,
        fn_gatePhase := Some [''spec'', ''task-spec''], fn_failurePolicy := Some ''step-definition'',
        fn_definitionLifecycleOwned := True, fn_executionCommand := Some (command ''gate'' []),
        fn_failureOwnership := Some CommandPrimaryDispatcherFallback\<rparr>),
      leaf (node_defaults\<lparr>fn_id := ''spec-gate-repair'', fn_label := ''Spec Gate repair'', fn_action := Some ''write-spec'',
        fn_instructionsKey := Some ''plan.spec-gate-repair'', fn_contextKinds := [''spec'', ''guardrail''],
        fn_outputSchemaRef := Some ''next-action/worker-artifact-handoff.schema.json'',
        fn_maxAttempts := ScalarMaxAttempts 1\<rparr>),
      leaf (node_defaults\<lparr>fn_id := ''approval'', fn_label := ''Approval'', fn_action := Some ''await-approval'',
        fn_instructionsKey := Some ''plan.approval'', fn_contextKinds := [''spec''],
        fn_outputSchemaRef := Some ''next-action/approval.schema.json'', fn_requiresApproval := True,
        fn_autoApproveChoiceId := Some ''1'', fn_sideEffects := Some [''syncSpecTasks'']\<rparr>),
      leaf (node_defaults\<lparr>fn_id := ''test-generate'', fn_label := ''Generate Requirement Test'', fn_action := Some ''write-tests'',
        fn_instructionsKey := Some ''plan.test'', fn_contextKinds := [''spec'', ''guardrail''],
        fn_outputSchemaRef := Some ''next-action/worker-artifact-handoff.schema.json''\<rparr>),
      leaf (node_defaults\<lparr>fn_id := ''test-review'', fn_label := ''Review Requirement Test'', fn_action := Some ''run-review'',
        fn_instructionsKey := Some ''plan.test-review'', fn_contextKinds := [''spec'', ''test'', ''guardrail''],
        fn_outputSchemaRef := Some ''next-action/review.schema.json'', fn_maxAttempts := ScalarMaxAttempts 1,
        fn_definitionLifecycleOwned := True, fn_executionCommand := Some (command ''review'' [''--phase'', ''test'']),
        fn_failureOwnership := Some CommandPrimaryDispatcherFallback\<rparr>),
      leaf (node_defaults\<lparr>fn_id := ''test-repair'', fn_label := ''Repair Requirement Test'', fn_action := Some ''write-tests'',
        fn_instructionsKey := Some ''plan.test-repair'', fn_contextKinds := [''spec'', ''test'', ''guardrail''],
        fn_outputSchemaRef := Some ''next-action/worker-artifact-handoff.schema.json'',
        fn_maxAttempts := ScalarMaxAttempts 1\<rparr>),
      leaf (node_defaults\<lparr>fn_id := ''test-gate'', fn_label := ''Gate Requirement Test'', fn_action := Some ''run-requirement-test-gate'',
        fn_instructionsKey := Some ''plan.test-gate'', fn_contextKinds := [''spec'', ''test''],
        fn_outputSchemaRef := Some ''next-action/requirement-test-gate.schema.json'',
        fn_maxAttempts := ScalarMaxAttempts 3, fn_definitionLifecycleOwned := True,
        fn_executionCommand := Some (command ''requirement-test-gate'' []),
        fn_failureOwnership := Some DispatcherPrimary\<rparr>)]"

definition finalize_steps :: "FlowNode list" where
  "finalize_steps =
     [leaf (node_defaults\<lparr>fn_id := ''finalize-commit'', fn_label := ''Commit'', fn_action := Some ''run-finalize-commit'',
        fn_instructionsKey := Some ''impl.finalize-commit'', fn_contextKinds := [''spec'', ''diff''],
        fn_outputSchemaRef := Some ''next-action/finalize.schema.json'', fn_requiresApproval := True,
        fn_autoApproveChoiceId := Some ''1'', fn_definitionLifecycleOwned := True,
        fn_executionCommand := Some (command ''finalize-commit'' []), fn_failureOwnership := Some LifecycleOutbox\<rparr>),
      leaf (node_defaults\<lparr>fn_id := ''finalize-merge'', fn_label := ''Merge'', fn_action := Some ''run-finalize-merge'',
        fn_instructionsKey := Some ''impl.finalize-merge'', fn_contextKinds := [''spec'', ''diff''],
        fn_outputSchemaRef := Some ''next-action/finalize.schema.json'', fn_definitionLifecycleOwned := True,
        fn_executionCommand := Some (command ''finalize-merge'' []), fn_failureOwnership := Some LifecycleOutbox\<rparr>),
      leaf (node_defaults\<lparr>fn_id := ''finalize-sync'', fn_label := ''Sync'', fn_action := Some ''run-finalize-sync'',
        fn_instructionsKey := Some ''impl.finalize-sync'', fn_contextKinds := [''spec''],
        fn_outputSchemaRef := Some ''next-action/finalize.schema.json'', fn_skippable := True,
        fn_definitionLifecycleOwned := True, fn_executionCommand := Some (command ''finalize-sync'' []),
        fn_failureOwnership := Some LifecycleOutbox\<rparr>),
      leaf (node_defaults\<lparr>fn_id := ''finalize-cleanup'', fn_label := ''Cleanup'', fn_action := Some ''run-finalize-cleanup'',
        fn_instructionsKey := Some ''impl.finalize-cleanup'', fn_contextKinds := [''spec''],
        fn_outputSchemaRef := Some ''next-action/finalize.schema.json'', fn_definitionLifecycleOwned := True,
        fn_executionCommand := Some (command ''finalize-cleanup'' []), fn_failureOwnership := Some LifecycleOutbox\<rparr>)]"

definition impl_steps :: "FlowNode list" where
  "impl_steps =
     [leaf (node_defaults\<lparr>fn_id := ''implement'', fn_label := ''Implement'', fn_action := Some ''run-impl'',
        fn_instructionsKey := Some ''impl.implement'', fn_contextKinds := [''spec'', ''test'', ''overview''],
        fn_outputSchemaRef := schema_ref ''implement'', fn_maxAttempts := ScalarMaxAttempts 3\<rparr>),
      leaf (node_defaults\<lparr>fn_id := ''test-execute'', fn_label := ''Test Execute'', fn_action := Some ''run-test-execute'',
        fn_instructionsKey := Some ''impl.test-execute'', fn_contextKinds := [''spec'', ''test''],
        fn_outputSchemaRef := Some ''next-action/test-execute.schema.json'', fn_maxAttempts := ScalarMaxAttempts 3,
        fn_failurePolicy := Some ''test-chain-retry'', fn_definitionLifecycleOwned := True,
        fn_executionCommand := Some (command ''test-execute'' []), fn_failureOwnership := Some DispatcherPrimary\<rparr>),
      leaf (node_defaults\<lparr>fn_id := ''test-result-review'', fn_label := ''Test Result Review'',
        fn_action := Some ''run-test-result-review'', fn_instructionsKey := Some ''impl.test-result-review'',
        fn_contextKinds := [''spec'', ''test''],
        fn_outputSchemaRef := Some ''next-action/test-result-review.schema.json'',
        fn_maxAttempts := ScalarMaxAttempts 3, fn_failurePolicy := Some ''test-chain-retry'',
        fn_definitionLifecycleOwned := True, fn_executionCommand := Some (command ''test-result-review'' []),
        fn_failureOwnership := Some DispatcherPrimary\<rparr>),
      leaf (node_defaults\<lparr>fn_id := ''impl-review'', fn_label := ''Review'', fn_action := Some ''run-review'',
        fn_instructionsKey := Some ''impl.impl-review'', fn_contextKinds := [''spec'', ''diff'', ''testlog''],
        fn_outputSchemaRef := Some ''next-action/review.schema.json'', fn_maxAttempts := ScalarMaxAttempts 4,
        fn_toolingMaxAttempts := Some (ScalarMaxAttempts 1), fn_failurePolicy := Some ''retry'',
        fn_definitionLifecycleOwned := True, fn_executionCommand := Some (command ''review'' [''--phase'', ''impl'']),
        fn_failureOwnership := Some CommandPrimaryDispatcherFallback\<rparr>),
      leaf (node_defaults\<lparr>fn_id := ''impl-triage'', fn_label := ''Implementation review triage'',
        fn_action := Some ''write-impl-triage'', fn_instructionsKey := Some ''impl.impl-triage'',
        fn_contextKinds := [''spec'', ''diff''], fn_outputSchemaRef := schema_ref ''impl-triage'',
        fn_maxAttempts := ScalarMaxAttempts 1\<rparr>),
      leaf (node_defaults\<lparr>fn_id := ''impl-repair'', fn_label := ''Implementation repair'', fn_action := Some ''run-impl-repair'',
        fn_instructionsKey := Some ''impl.impl-repair'', fn_contextKinds := [''spec'', ''diff''],
        fn_outputSchemaRef := schema_ref ''impl-repair'', fn_maxAttempts := ScalarMaxAttempts 3\<rparr>),
      leaf (node_defaults\<lparr>fn_id := ''impl-gate'', fn_label := ''Gate (impl)'', fn_action := Some ''run-gate'',
        fn_instructionsKey := Some ''impl.impl-gate'', fn_contextKinds := [''spec'', ''diff'', ''testlog''],
        fn_outputSchemaRef := Some ''next-action/gate.schema.json'', fn_maxAttempts := ScalarMaxAttempts 5,
        fn_gatePhase := Some [''integration'', ''task-impl''], fn_failurePolicy := Some ''block'',
        fn_definitionLifecycleOwned := True, fn_executionCommand := Some (command ''gate'' []),
        fn_failureOwnership := Some CommandPrimaryDispatcherFallback\<rparr>),
      leaf (node_defaults\<lparr>fn_id := ''retro'', fn_label := ''Retrospective'', fn_action := Some ''run-retro'',
        fn_instructionsKey := Some ''impl.retro'', fn_contextKinds := [''spec'', ''test''],
        fn_outputSchemaRef := Some ''next-action/retro.schema.json'', fn_maxAttempts := ScalarMaxAttempts 2,
        fn_definitionLifecycleOwned := True, fn_executionCommand := Some (command ''retro'' []),
        fn_failureOwnership := Some DispatcherPrimary\<rparr>),
      leaf (node_defaults\<lparr>fn_id := ''acceptance-review'', fn_label := ''Acceptance Review'', fn_action := Some ''run-acceptance-review'',
        fn_instructionsKey := Some ''impl.acceptance-review'',
        fn_contextKinds := [''spec'', ''diff'', ''test'', ''issue-log'', ''retro'', ''report''],
        fn_outputSchemaRef := Some ''next-action/acceptance-review.schema.json'',
        fn_maxAttempts := ScalarMaxAttempts 1, fn_sideEffects := Some [''promoteFinalRegression''],
        fn_failurePolicy := Some ''amend-spec'', fn_failureTargetId := Some ''spec'',
        fn_definitionLifecycleOwned := True, fn_executionCommand := Some (command ''acceptance-review'' []),
        fn_failureOwnership := Some CommandPrimaryDispatcherFallback\<rparr>),
      leaf (node_defaults\<lparr>fn_id := ''acceptance-decision'', fn_label := ''Acceptance decision'',
        fn_action := Some ''set-acceptance-decision'', fn_instructionsKey := Some ''impl.acceptance-decision'',
        fn_contextKinds := [''spec'', ''diff'', ''test''],
        fn_outputSchemaRef := Some ''next-action/acceptance-review.schema.json'',
        fn_maxAttempts := ScalarMaxAttempts 1\<rparr>),
      leaf (node_defaults\<lparr>fn_id := ''final-regression'', fn_label := ''Final Regression'', fn_action := Some ''run-final-regression'',
        fn_instructionsKey := Some ''impl.final-regression'', fn_contextKinds := [''spec'', ''test''],
        fn_outputSchemaRef := Some ''next-action/final-regression.schema.json'', fn_maxAttempts := ScalarMaxAttempts 2,
        fn_failurePolicy := Some ''step-definition'', fn_definitionLifecycleOwned := True,
        fn_executionCommand := Some (command ''final-regression'' []),
        fn_failureOwnership := Some CommandPrimaryDispatcherFallback\<rparr>),
      leaf (node_defaults\<lparr>fn_id := ''report'', fn_label := ''Report'', fn_action := Some ''run-report'',
        fn_instructionsKey := Some ''impl.report'',
        fn_contextKinds := [''spec'', ''diff'', ''test'', ''issue-log'', ''retro''],
        fn_outputSchemaRef := Some ''next-action/report.schema.json'', fn_maxAttempts := ScalarMaxAttempts 2,
        fn_definitionLifecycleOwned := True, fn_executionCommand := Some (command ''report'' []),
        fn_failureOwnership := Some LifecycleOutbox\<rparr>),
      branch ''finalize'' ''Finalize'' finalize_steps]"

definition FLOW_DEFINITION :: "FlowNode list" where
  "FLOW_DEFINITION = [branch ''plan'' ''Plan'' plan_steps, branch ''impl'' ''Implementation'' impl_steps]"

definition TASK_DEFINITION :: "FlowNode list" where
  "TASK_DEFINITION =
     [leaf (node_defaults\<lparr>fn_id := ''task-impl'', fn_label := ''Task impl'', fn_action := Some ''run-impl'',
        fn_instructionsKey := Some ''task.task-impl'', fn_contextKinds := task_kinds ''task-impl'',
        fn_outputSchemaRef := schema_ref ''task-impl'', fn_maxAttempts := ScalarMaxAttempts 2\<rparr>),
      leaf (node_defaults\<lparr>fn_id := ''task-review'', fn_label := ''Task review'', fn_action := Some ''run-review'',
        fn_instructionsKey := Some ''task.task-review'', fn_contextKinds := task_kinds ''task-review'',
        fn_outputSchemaRef := Some ''next-action/review.schema.json'', fn_maxAttempts := ScalarMaxAttempts 4,
        fn_toolingMaxAttempts := Some (ScalarMaxAttempts 1), fn_failurePolicy := Some ''retry'',
        fn_definitionLifecycleOwned := True, fn_executionCommand := Some (command ''review'' [''--phase'', ''impl'']),
        fn_failureOwnership := Some CommandPrimaryDispatcherFallback\<rparr>),
      leaf (node_defaults\<lparr>fn_id := ''task-triage'', fn_label := ''Task review filter'', fn_action := Some ''filter-task-review'',
        fn_instructionsKey := Some ''task.task-review-filter'',
        fn_contextKinds := task_kinds ''task-triage'', fn_outputSchemaRef := None, fn_skippable := True,
        fn_maxAttempts := ScalarMaxAttempts 1\<rparr>),
      leaf (node_defaults\<lparr>fn_id := ''task-repair'', fn_label := ''Task repair'', fn_action := Some ''run-task-repair'',
        fn_instructionsKey := Some ''task.task-repair'', fn_contextKinds := task_kinds ''task-repair'',
        fn_outputSchemaRef := schema_ref ''task-repair'', fn_skippable := True,
        fn_maxAttempts := ScalarMaxAttempts 3, fn_toolingMaxAttempts := Some (ScalarMaxAttempts 1),
        fn_failurePolicy := Some ''retry-block''\<rparr>),
      leaf (node_defaults\<lparr>fn_id := ''task-gate'', fn_label := ''Task gate'', fn_action := Some ''run-gate'',
        fn_instructionsKey := Some ''impl.impl-gate'', fn_contextKinds := task_kinds ''task-gate'',
        fn_outputSchemaRef := Some ''next-action/gate.schema.json'', fn_skippable := True,
        fn_maxAttempts := ScalarMaxAttempts 5, fn_failurePolicy := Some ''block'', fn_definitionLifecycleOwned := True,
        fn_executionCommand := Some (command ''gate'' []),
        fn_failureOwnership := Some CommandPrimaryDispatcherFallback\<rparr>)]"

subsection \<open>Lookups\<close>

definition MAX_DEPTH :: nat where
  "MAX_DEPTH = 3"

definition depth_error :: jserr where
  "depth_error = Error ''definition depth exceeds maximum (3)''"

definition collectLeafIds :: "FlowNode list \<Rightarrow> string list res" where
  "collectLeafIds ns = bindE (walk MAX_DEPTH depth_error 1 ns) (\<lambda>xs. Inr (map fn_id xs))"

definition collectFlowLeafIds :: "string list res" where
  "collectFlowLeafIds = collectLeafIds FLOW_DEFINITION"

definition index_of :: "string \<Rightarrow> string list \<Rightarrow> nat option" where
  "index_of x xs = (if x \<in> set xs then Some (length (takeWhile (\<lambda>y. y \<noteq> x) xs)) else None)"

definition flowLeafIdsBetween :: "string \<Rightarrow> string \<Rightarrow> string list res" where
  "flowLeafIdsBetween startId endId = bindE collectFlowLeafIds (\<lambda>ids. case (index_of startId ids, index_of endId ids) of
     (Some a, Some b) \<Rightarrow> if b < a then Inl (Error (''flow definition range not found: '' @ startId @ ''..'' @ endId))
        else Inr (drop a (take (Suc b) ids))
   | _ \<Rightarrow> Inl (Error (''flow definition range not found: '' @ startId @ ''..'' @ endId)))"

definition resolveNodeFor :: "FlowNode list \<Rightarrow> string \<Rightarrow> FlowNode option res" where
  "resolveNodeFor ns i = find_node MAX_DEPTH depth_error (\<lambda>n. fn_id n = i) 1 ns"

definition getFlowNode :: "string \<Rightarrow> FlowNode option res" where
  "getFlowNode i = resolveNodeFor FLOW_DEFINITION i"

definition getTaskNode :: "string \<Rightarrow> FlowNode option res" where
  "getTaskNode i = resolveNodeFor TASK_DEFINITION i"

definition scopeNode :: "string \<Rightarrow> string \<Rightarrow> FlowNode option res" where
  "scopeNode scope stepId = (if scope = ''task'' then getTaskNode stepId else getFlowNode stepId)"

text \<open>The phase map assigns to every leaf the id of its branch; a later leaf with the same id overwrites.\<close>

fun phase_entries :: "string option \<Rightarrow> nat \<Rightarrow> FlowNode list \<Rightarrow> (string \<times> string option) list res" where
  "phase_entries parent d [] = Inr []"
| "phase_entries parent d (Node x None # ns) = bindE (phase_entries parent d ns) (\<lambda>r. Inr ((fn_id x, parent) # r))"
| "phase_entries parent d (Node x (Some cs) # ns) =
     bindE (descend MAX_DEPTH depth_error (Suc d) (phase_entries (Some (fn_id x)) (Suc d) cs)) (\<lambda>a.
     bindE (phase_entries parent d ns) (\<lambda>b. Inr (a @ b)))"

definition derivePhaseMap :: "FlowNode list \<Rightarrow> (string \<rightharpoonup> string option) res" where
  "derivePhaseMap ns = bindE (phase_entries None 1 ns) (\<lambda>es. Inr (map_of (rev es)))"

definition gate_entries :: "node_info \<Rightarrow> (string \<times> string) list" where
  "gate_entries x = (case fn_gatePhase x of None \<Rightarrow> [] | Some ps \<Rightarrow> map (\<lambda>p. (p, fn_id x)) ps)"

definition collectGatePhaseEntries :: "(string \<times> string) list res" where
  "collectGatePhaseEntries = bindE (walk MAX_DEPTH depth_error 1 FLOW_DEFINITION) (\<lambda>a.
     bindE (walk MAX_DEPTH depth_error 1 TASK_DEFINITION) (\<lambda>b. Inr (concat (map gate_entries (a @ b)))))"

definition resolveMaxAttempts :: "string \<Rightarrow> string \<Rightarrow> bool \<Rightarrow> int option res" where
  "resolveMaxAttempts scope stepId autoApprove = bindE (scopeNode scope stepId) (\<lambda>n.
     Inr (map_option (\<lambda>n. resolve_attempts (fn_maxAttempts (node_data n)) autoApprove) n))"

definition resolveToolingMaxAttempts :: "string \<Rightarrow> string \<Rightarrow> bool \<Rightarrow> int option res" where
  "resolveToolingMaxAttempts scope stepId autoApprove = bindE (scopeNode scope stepId) (\<lambda>n.
     Inr (case n of None \<Rightarrow> None
       | Some n \<Rightarrow> map_option (\<lambda>m. resolve_attempts m autoApprove) (fn_toolingMaxAttempts (node_data n))))"

definition resolveSideEffects :: "string \<Rightarrow> string \<Rightarrow> string list option res" where
  "resolveSideEffects scope stepId = bindE (scopeNode scope stepId) (\<lambda>n.
     Inr (case n of None \<Rightarrow> None | Some n \<Rightarrow> fn_sideEffects (node_data n)))"

definition IMPL_REVIEW_UNEXECUTED_COMPLETION_LEAF_IDS :: "string list" where
  "IMPL_REVIEW_UNEXECUTED_COMPLETION_LEAF_IDS = [''impl-triage'', ''impl-repair'']"

definition isDefinitionLifecycleOwnedStep :: "string \<Rightarrow> string \<Rightarrow> bool res" where
  "isDefinitionLifecycleOwnedStep scope stepId = bindE (scopeNode scope stepId) (\<lambda>n. Inr (case n of
     None \<Rightarrow> False
   | Some n \<Rightarrow> fn_definitionLifecycleOwned (node_data n)
       \<or> scope = ''flow'' \<and> fn_id (node_data n) \<in> set IMPL_REVIEW_UNEXECUTED_COMPLETION_LEAF_IDS))"

definition resolveDispatcherOwnedFlowAction :: "string \<Rightarrow> string \<Rightarrow> (string option \<times> FlowExecutionCommand option) option res" where
  "resolveDispatcherOwnedFlowAction scope stepId = bindE (scopeNode scope stepId) (\<lambda>n. Inr (case n of
     None \<Rightarrow> None
   | Some n \<Rightarrow> if fn_definitionLifecycleOwned (node_data n)
       then Some (fn_action (node_data n), fn_executionCommand (node_data n)) else None))"

definition getFlowBranchLeafIds :: "string \<Rightarrow> string list res" where
  "getFlowBranchLeafIds parentId = bindE (getFlowNode parentId) (\<lambda>n. case n of
     None \<Rightarrow> Inr []
   | Some n \<Rightarrow> (case node_children n of None \<Rightarrow> Inr []
       | Some cs \<Rightarrow> bindE (walk MAX_STEP_TREE_DEPTH step_depth_error 1 cs) (\<lambda>xs. Inr (map fn_id xs))))"

subsection \<open>Prerequisites\<close>

fun first_index :: "('a \<Rightarrow> bool res) \<Rightarrow> 'a list \<Rightarrow> nat option res" where
  "first_index f [] = Inr None"
| "first_index f (x # xs) = bindE (f x) (\<lambda>b. if b then Inr (Some 0) else bindE (first_index f xs) (\<lambda>r. Inr (map_option Suc r)))"

definition findBranchIndexForLeaf :: "FlowNode list \<Rightarrow> string \<Rightarrow> nat option res" where
  "findBranchIndexForLeaf ns leafId = first_index (\<lambda>b. if fn_id (node_data b) = leafId then Inr True
     else if node_children b = None then Inr False
     else bindE (resolveNodeFor [b] leafId) (\<lambda>r. Inr (r \<noteq> None))) ns"

text \<open>\<open>getLastLeaf\<close> scans from the end and has no depth limit.\<close>

fun getLastLeaf :: "FlowNode list \<Rightarrow> node_info option" where
  "getLastLeaf [] = None"
| "getLastLeaf (Node x None # ns) = (case getLastLeaf ns of Some y \<Rightarrow> Some y | None \<Rightarrow> Some x)"
| "getLastLeaf (Node x (Some cs) # ns) = (case getLastLeaf ns of Some y \<Rightarrow> Some y | None \<Rightarrow> getLastLeaf cs)"

definition derivePrereqs :: "FlowNode list \<Rightarrow> string \<Rightarrow> string list res" where
  "derivePrereqs ns targetId = bindE (findBranchIndexForLeaf ns targetId) (\<lambda>i. Inr (case i of
     None \<Rightarrow> []
   | Some k \<Rightarrow> concat (map (\<lambda>b. case node_children b of None \<Rightarrow> []
       | Some cs \<Rightarrow> (case getLastLeaf cs of None \<Rightarrow> [] | Some x \<Rightarrow> [fn_id x])) (take k ns))))"

definition findBranchForLeaf :: "FlowNode list \<Rightarrow> string \<Rightarrow> FlowNode option res" where
  "findBranchForLeaf ns leafId = findE (\<lambda>b. if node_children b = None then Inr False
     else bindE (resolveNodeFor [b] leafId) (\<lambda>r. Inr (r \<noteq> None))) ns"

lemma getLastLeaf_last: "getLastLeaf ns = (if leaves ns = [] then None else Some (last (leaves ns)))"
  by (induction ns rule: getLastLeaf.induct) auto

end
