(* ===== verification/Flow_Steps.thy ===== *)
theory Flow_Steps
  imports Flow_Definition
begin

section \<open>Steps of a running flow\<close>

text \<open>
  How \<open>definition.js\<close> builds the nested steps of a new flow from its definition, finds the active leaf in them,
  and derives the effects of a route between two leaves.
\<close>

subsection \<open>The flow definition, evaluated\<close>

definition flow_leaf_ids :: "string list" where
  "flow_leaf_ids = [''branch'', ''prepare-spec'', ''draft'', ''draft-questions-review'', ''draft-questions-triage'',
     ''draft-questions-repair'', ''draft-refine'', ''draft-gate-repair'', ''draft-coverage-review'', ''draft-coverage-triage'',
     ''draft-coverage-repair'', ''draft-gate'', ''spec'', ''spec-review'', ''spec-triage'', ''spec-repair'', ''spec-gate'',
     ''spec-gate-repair'', ''approval'', ''test-generate'', ''test-review'', ''test-repair'', ''test-gate'', ''implement'',
     ''test-execute'', ''test-result-review'', ''impl-review'', ''impl-triage'', ''impl-repair'', ''impl-gate'', ''retro'',
     ''acceptance-review'', ''acceptance-decision'', ''final-regression'', ''report'', ''finalize-commit'', ''finalize-merge'',
     ''finalize-sync'', ''finalize-cleanup'']"

lemmas definition_defs = FLOW_DEFINITION_def TASK_DEFINITION_def plan_steps_def impl_steps_def finalize_steps_def
  createPlanReviewNode_def createDraftReviewRouteNodes_def createDraftReviewLeafNode_def DRAFT_QUESTIONS_ROUTE_def
  DRAFT_COVERAGE_ROUTE_def leaf_def branch_def node_defaults_def

lemma flow_leaves: "map fn_id (leaves FLOW_DEFINITION) = flow_leaf_ids" "levels FLOW_DEFINITION = 3"
  by (simp_all add: definition_defs flow_leaf_ids_def)

lemma task_leaves: "map fn_id (leaves TASK_DEFINITION) = [''task-impl'', ''task-review'', ''task-triage'', ''task-repair'', ''task-gate'']"
  "levels TASK_DEFINITION = 1"
  by (simp_all add: definition_defs)

lemma flow_ids_distinct: "distinct (map (fn_id \<circ> node_data) (preorder FLOW_DEFINITION))"
  by (simp add: definition_defs)

lemma flow_nodes_constructed: "list_all (\<lambda>n. new_FlowNode (node_data n) (node_children n) = Inr n) (preorder FLOW_DEFINITION)"
  by (simp add: definition_defs new_FlowNode_def new_max_attempts_def new_DefinitionFailurePolicy_def FAILURE_POLICIES_def
      PLAN_REVIEW_MAX_ATTEMPTS_BY_ID_def targeted_def js_trim_def js_ws_def)

lemma task_nodes_constructed: "list_all (\<lambda>n. new_FlowNode (node_data n) (node_children n) = Inr n) (preorder TASK_DEFINITION)"
  by (simp add: definition_defs new_FlowNode_def new_max_attempts_def new_DefinitionFailurePolicy_def FAILURE_POLICIES_def
      targeted_def)

lemma worker_tables:
  "list_all (\<lambda>s. schema_ref s \<noteq> None) [''implement'', ''impl-triage'', ''impl-repair'', ''task-impl'', ''task-repair'']"
  "list_all (\<lambda>s. canonicalTaskContextKinds s = Inr (task_kinds s)) (map fn_id (leaves TASK_DEFINITION))"
  unfolding task_leaves
  by (simp_all add: schema_ref_def sourceWorkerEffectSchemaRef_def SCHEMA_REF_BY_STEP_def canonicalTaskContextKinds_def
      TASK_CONTEXT_KINDS_def task_kinds_def js_trim_def js_ws_def)

lemma collectFlowLeafIds_eq: "collectFlowLeafIds = Inr flow_leaf_ids"
  using flow_leaves by (simp add: collectFlowLeafIds_def collectLeafIds_def MAX_DEPTH_def walk_ok)

lemma flow_leaf_ids_distinct: "distinct flow_leaf_ids"
  by (simp add: flow_leaf_ids_def)

lemma preorder_levels: "Node x (Some cs) \<in> set (preorder ns) \<Longrightarrow> Suc (levels cs) \<le> levels ns"
  by (induction ns rule: preorder.induct) auto

lemma resolveNodeFor_ok:
  "levels ns \<le> 3 \<Longrightarrow> resolveNodeFor ns i = Inr (find (\<lambda>n. fn_id (node_data n) = i) (preorder ns))"
  by (simp add: resolveNodeFor_def MAX_DEPTH_def find_node_ok)

lemma find_distinct:
  "distinct (map f xs) \<Longrightarrow> x \<in> set xs \<Longrightarrow> find (\<lambda>y. f y = f x) xs = Some x"
  by (induction xs) auto

lemma getFlowNode_unique: "n \<in> set (preorder FLOW_DEFINITION) \<Longrightarrow> getFlowNode (fn_id (node_data n)) = Inr (Some n)"
  using find_distinct [OF flow_ids_distinct, of n] flow_leaves(2) by (simp add: getFlowNode_def resolveNodeFor_ok)

lemma getTaskNode_unique: "n \<in> set (preorder TASK_DEFINITION) \<Longrightarrow> getTaskNode (fn_id (node_data n)) = Inr (Some n)"
proof -
  assume n: "n \<in> set (preorder TASK_DEFINITION)"
  have "distinct (map (fn_id \<circ> node_data) (preorder TASK_DEFINITION))" by (simp add: definition_defs)
  from find_distinct [OF this n] show ?thesis using task_leaves by (simp add: getTaskNode_def resolveNodeFor_ok)
qed

subsection \<open>New flows\<close>

fun pending_step :: "FlowNode \<Rightarrow> step node" where
  "pending_step (Node x None) = Node \<lparr>step_id = fn_id x, step_status = ''pending''\<rparr> None"
| "pending_step (Node x (Some cs)) = Node \<lparr>step_id = fn_id x, step_status = ''pending''\<rparr> (Some (map pending_step cs))"

definition buildInitialNestedSteps :: "FlowNode list \<Rightarrow> steps" where
  "buildInitialNestedSteps ns =
     (let steps = map pending_step ns in
      case update_first (\<lambda>s. step_status s = ''pending'') (\<lambda>s. s\<lparr>step_status := ''in_progress''\<rparr>) steps of
        None \<Rightarrow> steps | Some steps' \<Rightarrow> steps')"

definition buildInitialTaskSteps :: steps where
  "buildInitialTaskSteps = map (\<lambda>n. Node \<lparr>step_id = fn_id (node_data n), step_status = ''pending''\<rparr> None) TASK_DEFINITION"

lemma pending_leaves: "leaves (map pending_step ns) = map (\<lambda>x. \<lparr>step_id = fn_id x, step_status = ''pending''\<rparr>) (leaves ns)"
  by (induction ns rule: leaves.induct) auto

lemma pending_levels: "levels (map pending_step ns) = levels ns"
  by (induction ns rule: levels.induct) auto

lemma initial_leaves:
  "leaves (buildInitialNestedSteps ns) = (case leaves ns of [] \<Rightarrow> []
     | x # xs \<Rightarrow> \<lparr>step_id = fn_id x, step_status = ''in_progress''\<rparr> #
         map (\<lambda>y. \<lparr>step_id = fn_id y, step_status = ''pending''\<rparr>) xs)"
proof (cases "update_first (\<lambda>s. step_status s = ''pending'') (\<lambda>s. s\<lparr>step_status := ''in_progress''\<rparr>) (map pending_step ns)")
  case None
  then have "leaves ns = []" unfolding update_first_leaves(1) pending_leaves by (cases "leaves ns") auto
  then show ?thesis using None by (simp add: buildInitialNestedSteps_def pending_leaves)
next
  case (Some ms)
  from update_first_leaves(2) [OF this] obtain us x vs where
    "leaves (map pending_step ns) = us @ x # vs" "\<forall>u \<in> set us. step_status u \<noteq> ''pending''"
    "leaves ms = us @ x\<lparr>step_status := ''in_progress''\<rparr> # vs" by blast
  moreover from this have "us = []" unfolding pending_leaves by (cases us) (auto simp: map_eq_Cons_conv)
  ultimately show ?thesis using Some by (auto simp: buildInitialNestedSteps_def pending_leaves map_eq_Cons_conv)
qed

lemma initial_levels: "levels (buildInitialNestedSteps ns) = levels ns"
  by (auto simp: buildInitialNestedSteps_def Let_def pending_levels dest!: update_first_levels split: option.splits)

subsection \<open>The active leaf\<close>

record scan_state =
  sc_step :: "step option"
  sc_unknown :: "step option"
  sc_index :: nat
  sc_scanned :: nat

definition MAX_IN_PROGRESS_STEP_SCAN :: nat where
  "MAX_IN_PROGRESS_STEP_SCAN = 500"

definition visit :: "(string \<rightharpoonup> nat) \<Rightarrow> step \<Rightarrow> scan_state \<Rightarrow> scan_state" where
  "visit order x st = (if step_status x \<noteq> ''in_progress'' then st else case order (step_id x) of
     None \<Rightarrow> if sc_unknown st = None then st\<lparr>sc_unknown := Some x\<rparr> else st
   | Some i \<Rightarrow> if sc_step st = None \<or> sc_index st \<le> i then st\<lparr>sc_step := Some x, sc_index := i\<rparr> else st)"

fun scanLatestInProgressLeaf :: "(string \<rightharpoonup> nat) \<Rightarrow> nat \<Rightarrow> steps \<Rightarrow> scan_state \<Rightarrow> scan_state res" where
  "scanLatestInProgressLeaf order d [] st = Inr st"
| "scanLatestInProgressLeaf order d (Node x c # ns) st =
     (if MAX_IN_PROGRESS_STEP_SCAN < Suc (sc_scanned st)
      then Inl (Error ''too many flow steps while resolving active step (max 500)'')
      else bindE (case c of
          Some cs \<Rightarrow> descend MAX_DEPTH depth_error (Suc d)
            (scanLatestInProgressLeaf order (Suc d) cs (st\<lparr>sc_scanned := Suc (sc_scanned st)\<rparr>))
        | None \<Rightarrow> Inr (visit order x (st\<lparr>sc_scanned := Suc (sc_scanned st)\<rparr>)))
        (scanLatestInProgressLeaf order d ns))"

definition orderMapForDefinition :: "FlowNode list \<Rightarrow> (string \<rightharpoonup> nat) res" where
  "orderMapForDefinition ns = bindE (collectLeafIds ns) (\<lambda>ids. Inr (map_of (rev (zip ids [0..<length ids]))))"

definition findLatestInProgressLeaf :: "steps \<Rightarrow> FlowNode list \<Rightarrow> step option res" where
  "findLatestInProgressLeaf steps ns = bindE (orderMapForDefinition ns) (\<lambda>order.
     bindE (scanLatestInProgressLeaf order 1 steps \<lparr>sc_step = None, sc_unknown = None, sc_index = 0, sc_scanned = 0\<rparr>) (\<lambda>st.
     Inr (case sc_unknown st of Some u \<Rightarrow> Some u | None \<Rightarrow> sc_step st)))"

record active_node =
  an_scope :: string
  an_taskId :: "string option"
  an_stepId :: string

definition findActiveNode :: "steps \<Rightarrow> (string \<times> steps) list option \<Rightarrow> string option \<Rightarrow> active_node option res" where
  "findActiveNode steps tasks currentTaskId =
     (let flow = bindE (findLatestInProgressLeaf steps FLOW_DEFINITION) (\<lambda>s.
        Inr (map_option (\<lambda>s. \<lparr>an_scope = ''flow'', an_taskId = None, an_stepId = step_id s\<rparr>) s)) in
      case (currentTaskId, tasks) of
        (Some t, Some ts) \<Rightarrow> (case find (\<lambda>x. fst x = t) ts of
            None \<Rightarrow> flow
          | Some x \<Rightarrow> bindE (findLatestInProgressLeaf (snd x) TASK_DEFINITION) (\<lambda>s. case s of
              Some s \<Rightarrow> Inr (Some \<lparr>an_scope = ''task'', an_taskId = Some t, an_stepId = step_id s\<rparr>)
            | None \<Rightarrow> flow))
      | _ \<Rightarrow> flow)"

definition taskIdForResolvedStep :: "active_node option \<Rightarrow> string \<Rightarrow> string option" where
  "taskIdForResolvedStep a targetStepId = (case a of None \<Rightarrow> None
     | Some a \<Rightarrow> if an_stepId a = targetStepId then an_taskId a else None)"

text \<open>Within the limits the scan is a fold over the leaves.\<close>

lemma visit_scanned [simp]: "sc_scanned (visit order x st) = sc_scanned st"
  "visit order x (st\<lparr>sc_scanned := k\<rparr>) = (visit order x st)\<lparr>sc_scanned := k\<rparr>"
  by (auto simp: visit_def split: option.splits)

lemma fold_visit_scanned [simp]:
  "fold (visit order) xs (st\<lparr>sc_scanned := k\<rparr>) = (fold (visit order) xs st)\<lparr>sc_scanned := k\<rparr>"
  by (induction xs arbitrary: st) simp_all

lemma scan_fold:
  "d + levels ns \<le> 4 \<Longrightarrow> sc_scanned st + length (preorder ns) \<le> 500 \<Longrightarrow>
   scanLatestInProgressLeaf order d ns st =
     Inr ((fold (visit order) (leaves ns) st)\<lparr>sc_scanned := sc_scanned st + length (preorder ns)\<rparr>)"
proof (induction order d ns st rule: scanLatestInProgressLeaf.induct)
  case (2 order d x c ns st)
  let ?st = "st\<lparr>sc_scanned := Suc (sc_scanned st)\<rparr>"
  have lim: "\<not> MAX_IN_PROGRESS_STEP_SCAN < Suc (sc_scanned st)"
    using "2.prems"(2) by (cases c) (simp_all add: MAX_IN_PROGRESS_STEP_SCAN_def)
  show ?case
  proof (cases c)
    case None
    then show ?thesis using 2 lim by simp
  next
    case (Some cs)
    have d: "\<not> MAX_DEPTH < Suc d" using "2.prems"(1) Some levels_pos(1) [of cs] by (simp add: MAX_DEPTH_def)
    have "scanLatestInProgressLeaf order (Suc d) cs ?st =
        Inr ((fold (visit order) (leaves cs) ?st)\<lparr>sc_scanned := sc_scanned ?st + length (preorder cs)\<rparr>)"
      by (rule "2.IH"(1) [OF lim Some d]) (use "2.prems" Some in simp_all)
    then show ?thesis using "2.IH"(2) [OF lim] "2.prems" Some lim d by (simp add: descend_def)
  qed
qed simp

text \<open>What the fold selects: the first active leaf outside the definition, else the latest active leaf.\<close>

definition selects_latest :: "(string \<rightharpoonup> nat) \<Rightarrow> step list \<Rightarrow> step option \<Rightarrow> bool" where
  "selects_latest order xs r \<longleftrightarrow> (case r of
     None \<Rightarrow> \<forall>x \<in> set xs. \<not> (in_progress x \<and> order (step_id x) \<noteq> None)
   | Some s \<Rightarrow> s \<in> set xs \<and> in_progress s \<and> order (step_id s) \<noteq> None \<and>
       (\<forall>x \<in> set xs. in_progress x \<and> order (step_id x) \<noteq> None \<longrightarrow> the (order (step_id x)) \<le> the (order (step_id s))))"

definition scan_ok :: "(string \<rightharpoonup> nat) \<Rightarrow> step list \<Rightarrow> scan_state \<Rightarrow> bool" where
  "scan_ok order xs st \<longleftrightarrow> sc_unknown st = find (\<lambda>x. in_progress x \<and> order (step_id x) = None) xs \<and>
     selects_latest order xs (sc_step st) \<and> pred_option (\<lambda>s. order (step_id s) = Some (sc_index st)) (sc_step st)"

lemma scan_ok_visit: "scan_ok order xs st \<Longrightarrow> scan_ok order (xs @ [x]) (visit order x st)"
  unfolding scan_ok_def selects_latest_def
  by (cases "order (step_id x)"; cases "sc_step st")
    (auto simp: visit_def in_progress_def Step_Tree.find_append split: option.splits intro: order_trans)

lemma scan_ok_fold:
  "scan_ok order xs (fold (visit order) xs \<lparr>sc_step = None, sc_unknown = None, sc_index = 0, sc_scanned = k\<rparr>)"
proof (induction xs rule: rev_induct)
  case (snoc x xs)
  then show ?case using scan_ok_visit by simp
qed (simp add: scan_ok_def selects_latest_def)

lemma map_of_rev_distinct: "distinct (map fst xs) \<Longrightarrow> map_of (rev xs) = map_of xs"
  using map_of_inject_set [of "rev xs" xs] by (simp add: rev_map [symmetric])

lemma orderMap_ok:
  assumes "levels ns \<le> 3" "distinct (map fn_id (leaves ns))"
  obtains order where "orderMapForDefinition ns = Inr order" "dom order = fn_id ` set (leaves ns)"
    "\<forall>i < length (leaves ns). order (fn_id (leaves ns ! i)) = Some i"
proof -
  let ?ids = "map fn_id (leaves ns)"
  let ?z = "zip ?ids [0..<length ?ids]"
  have fst: "map fst ?z = ?ids" by simp
  then have "distinct (map fst ?z)" using assms(2) by simp
  then have rev: "map_of (rev ?z) = map_of ?z" by (rule map_of_rev_distinct)
  have "orderMapForDefinition ns = Inr (map_of (rev ?z))"
    using assms(1) by (simp add: orderMapForDefinition_def collectLeafIds_def MAX_DEPTH_def walk_ok)
  moreover have "dom (map_of (rev ?z)) = fn_id ` set (leaves ns)" unfolding rev by (simp add: dom_map_of_zip)
  moreover have "map_of (rev ?z) (fn_id (leaves ns ! i)) = Some i" if "i < length (leaves ns)" for i
    unfolding rev using map_of_zip_nth [of ?ids "[0..<length ?ids]" i] assms(2) that by simp
  ultimately show ?thesis by (intro that) blast+
qed

theorem latest_leaf:
  assumes "levels ns \<le> 3" "distinct (map fn_id (leaves ns))" "levels steps \<le> 3" "length (preorder steps) \<le> 500"
  obtains order where "orderMapForDefinition ns = Inr order" "dom order = fn_id ` set (leaves ns)"
    "\<forall>i < length (leaves ns). order (fn_id (leaves ns ! i)) = Some i"
    "findLatestInProgressLeaf steps ns = Inr (case find (\<lambda>x. in_progress x \<and> order (step_id x) = None) (leaves steps) of
       Some u \<Rightarrow> Some u | None \<Rightarrow> sc_step (fold (visit order) (leaves steps)
         \<lparr>sc_step = None, sc_unknown = None, sc_index = 0, sc_scanned = 0\<rparr>))"
    "selects_latest order (leaves steps) (sc_step (fold (visit order) (leaves steps)
         \<lparr>sc_step = None, sc_unknown = None, sc_index = 0, sc_scanned = 0\<rparr>))"
proof -
  obtain order where o: "orderMapForDefinition ns = Inr order" "dom order = fn_id ` set (leaves ns)"
    "\<forall>i < length (leaves ns). order (fn_id (leaves ns ! i)) = Some i" by (rule orderMap_ok [OF assms(1,2)])
  let ?st = "\<lparr>sc_step = None, sc_unknown = None, sc_index = 0, sc_scanned = 0\<rparr>"
  have ok: "scan_ok order (leaves steps) (fold (visit order) (leaves steps) ?st)" by (rule scan_ok_fold)
  have "scanLatestInProgressLeaf order 1 steps ?st = Inr ((fold (visit order) (leaves steps) ?st)\<lparr>sc_scanned := length (preorder steps)\<rparr>)"
    using scan_fold [of 1 steps ?st order] assms(3,4) by simp
  then have "findLatestInProgressLeaf steps ns = Inr (case find (\<lambda>x. in_progress x \<and> order (step_id x) = None) (leaves steps) of
       Some u \<Rightarrow> Some u | None \<Rightarrow> sc_step (fold (visit order) (leaves steps) ?st))"
    using ok by (simp add: findLatestInProgressLeaf_def o(1) scan_ok_def split: option.split)
  with o ok show ?thesis by (intro that) (auto simp: scan_ok_def)
qed

subsection \<open>Action metadata\<close>

record next_action =
  na_action :: "string option"
  na_instructionsKey :: "string option"
  na_contextKinds :: "string list"
  na_outputSchemaRef :: "string option"
  na_requiresApproval :: bool
  na_autoApproveChoiceId :: "string option"
  na_maxAttempts :: int
  na_sideEffects :: "string list option"
  na_failurePolicy :: "string option"
  na_executionCommand :: "string option"

definition deriveNextAction :: "string \<Rightarrow> string \<Rightarrow> bool \<Rightarrow> next_action option res" where
  "deriveNextAction scope stepId autoApprove =
     bindE (resolveNodeFor (if scope = ''task'' then TASK_DEFINITION else FLOW_DEFINITION) stepId) (\<lambda>n. Inr (map_option (\<lambda>n.
       let i = node_data n in
       \<lparr>na_action = fn_action i, na_instructionsKey = fn_instructionsKey i, na_contextKinds = fn_contextKinds i,
        na_outputSchemaRef = fn_outputSchemaRef i, na_requiresApproval = fn_requiresApproval i,
        na_autoApproveChoiceId = fn_autoApproveChoiceId i, na_maxAttempts = resolve_attempts (fn_maxAttempts i) autoApprove,
        na_sideEffects = fn_sideEffects i, na_failurePolicy = fn_failurePolicy i,
        na_executionCommand = map_option command_toString (fn_executionCommand i)\<rparr>) n))"

subsection \<open>Route effects\<close>

record route_effects =
  rfx_skipStepIds :: "string list"
  rfx_resetStepIds :: "string list"

definition contiguousLeafRouteEffects :: "string list \<Rightarrow> string \<Rightarrow> string \<Rightarrow> route_effects res" where
  "contiguousLeafRouteEffects leafIds sourceId targetId = (case (index_of sourceId leafIds, index_of targetId leafIds) of
     (Some s, Some t) \<Rightarrow> Inr (if s < t then \<lparr>rfx_skipStepIds = drop (Suc s) (take t leafIds), rfx_resetStepIds = []\<rparr>
        else \<lparr>rfx_skipStepIds = [], rfx_resetStepIds = drop t leafIds\<rparr>)
   | _ \<Rightarrow> Inl (TypeError ''route source or target is absent''))"

record UnexecutedStepCompletion =
  usc_stepId :: string
  usc_reason :: string
  usc_attemptSequence :: nat

definition completion_text :: "string \<Rightarrow> jsval \<Rightarrow> string res" where
  "completion_text field v = (case v of
     JStr t \<Rightarrow> if js_trim t = [] then Inl (TypeError (field @ '' must be non-empty text'')) else Inr (js_trim t)
   | _ \<Rightarrow> Inl (TypeError (field @ '' must be non-empty text'')))"

definition new_UnexecutedStepCompletion :: "jsval \<Rightarrow> UnexecutedStepCompletion res" where
  "new_UnexecutedStepCompletion v = bindE (destructure v) (\<lambda>ob.
     bindE (completion_text ''unexecuted completion Step'' (fld ob ''stepId'')) (\<lambda>s.
     bindE (completion_text ''unexecuted completion reason'' (fld ob ''reason'')) (\<lambda>r.
     bindE (int_from 0 (TypeError ''unexecuted completion requires its existing recipient cursor'') (fld ob ''attemptSequence'')) (\<lambda>k.
     Inr \<lparr>usc_stepId = s, usc_reason = r, usc_attemptSequence = k\<rparr>))))"

definition unexecuted_fromJSON :: "jsval \<Rightarrow> UnexecutedStepCompletion res" where
  "unexecuted_fromJSON v = (case v of
     JObj ob \<Rightarrow> if length ob \<noteq> 3 \<or> \<not> {''stepId'', ''reason'', ''attemptSequence''} \<subseteq> fst ` set ob
       then Inl (TypeError ''unexecuted completion requires its exact declared fields'') else new_UnexecutedStepCompletion v
   | _ \<Rightarrow> Inl (TypeError ''unexecuted completion requires its exact declared fields''))"

definition UnexecutedStepCompletion_toJSON :: "UnexecutedStepCompletion \<Rightarrow> jsval" where
  "UnexecutedStepCompletion_toJSON c = JObj [(''stepId'', JStr (usc_stepId c)), (''reason'', JStr (usc_reason c)),
     (''attemptSequence'', JInt (int (usc_attemptSequence c)))]"

definition wf_UnexecutedStepCompletion :: "UnexecutedStepCompletion \<Rightarrow> bool" where
  "wf_UnexecutedStepCompletion c \<longleftrightarrow> is_text (usc_stepId c) \<and> is_text (usc_reason c) \<and> is_safe (usc_attemptSequence c)"

lemma completion_text_eq: "completion_text f v = Inr t \<longleftrightarrow> (\<exists>s. v = JStr s \<and> js_trim s = t \<and> t \<noteq> [])"
  by (cases v) (auto simp: completion_text_def)

interpretation unexecuted_completion: json_codec unexecuted_fromJSON wf_UnexecutedStepCompletion UnexecutedStepCompletion_toJSON
proof (unfold_locales, goal_cases)
  case (1 v x)
  then show ?case
    by (cases v) (auto simp: unexecuted_fromJSON_def new_UnexecutedStepCompletion_def completion_text_eq if_refused
        wf_UnexecutedStepCompletion_def is_safe_def)
next
  case (2 x)
  then show ?case
    by (simp add: unexecuted_fromJSON_def UnexecutedStepCompletion_toJSON_def new_UnexecutedStepCompletion_def
        wf_UnexecutedStepCompletion_def completion_text_def is_text_ne del: bindE_eq_Inr)
qed (simp add: UnexecutedStepCompletion_toJSON_def)

record StepRouteEffects = route_effects +
  sre_completions :: "UnexecutedStepCompletion list"

definition new_UnexecutedStepCompletionSet :: "UnexecutedStepCompletion list \<Rightarrow> UnexecutedStepCompletion list res" where
  "new_UnexecutedStepCompletionSet cs = (if \<not> distinct (map usc_stepId cs)
     then Inl (TypeError ''unexecuted completion recipients must be unique'') else Inr cs)"

definition assertDisjoint :: "UnexecutedStepCompletion list \<Rightarrow> string list \<Rightarrow> UnexecutedStepCompletion list res" where
  "assertDisjoint cs ids = (if list_ex (\<lambda>c. usc_stepId c \<in> set ids) cs
     then Inl (TypeError ''unexecuted completions must be disjoint from other route effects'') else Inr cs)"

definition step_ids :: "string \<Rightarrow> string list \<Rightarrow> unit res" where
  "step_ids field ids = (if [] \<in> set ids then Inl (TypeError (''Step route '' @ field @ '' must contain Step IDs''))
     else if \<not> distinct ids then Inl (TypeError (''Step route '' @ field @ '' must not contain duplicates'')) else Inr ())"

definition new_StepRouteEffects :: "string list \<Rightarrow> string list \<Rightarrow> UnexecutedStepCompletion list \<Rightarrow> StepRouteEffects res" where
  "new_StepRouteEffects skip reset completions =
     bindE (step_ids ''skipStepIds'' skip) (\<lambda>_.
     bindE (step_ids ''resetStepIds'' reset) (\<lambda>_.
     if list_ex (\<lambda>i. i \<in> set reset) skip then Inl (TypeError ''Step route effects cannot skip and reset the same Step'') else
     bindE (new_UnexecutedStepCompletionSet completions) (\<lambda>cs.
     bindE (assertDisjoint cs (skip @ reset)) (\<lambda>cs.
     Inr \<lparr>rfx_skipStepIds = skip, rfx_resetStepIds = reset, sre_completions = cs\<rparr>))))"

definition StepRouteEffects_toJSON :: "StepRouteEffects \<Rightarrow> jsval" where
  "StepRouteEffects_toJSON e = JObj ([(''skipStepIds'', JArr (map JStr (rfx_skipStepIds e))),
     (''resetStepIds'', JArr (map JStr (rfx_resetStepIds e)))] @
     (if sre_completions e = [] then []
      else [(''unexecutedStepCompletions'', JArr (map UnexecutedStepCompletion_toJSON (sre_completions e)))]))"

definition draftRouteEffects :: "string \<Rightarrow> string \<Rightarrow> StepRouteEffects res" where
  "draftRouteEffects sourceStepId targetStepId = bindE collectFlowLeafIds (\<lambda>ids.
     bindE (contiguousLeafRouteEffects ids sourceStepId targetStepId) (\<lambda>e.
     new_StepRouteEffects (rfx_skipStepIds e) (rfx_resetStepIds e) []))"

definition retainedSourceRouteEffects :: "string \<Rightarrow> string \<Rightarrow> StepRouteEffects res" where
  "retainedSourceRouteEffects sourceStepId targetStepId = bindE (draftRouteEffects sourceStepId targetStepId) (\<lambda>e.
     new_StepRouteEffects [] (filter (\<lambda>i. i \<noteq> sourceStepId) (rfx_resetStepIds e)) [])"

end
