(* ===== verification/Node_Contract.thy ===== *)
theory Node_Contract
  imports Flow_Steps Retry_Recovery Non_Gate_Facts Requirement_Test_Lifecycle
begin

section \<open>Contracts of definition nodes\<close>

text \<open>
  The contract part of \<open>lib/current-flow-state.js\<close>: what a leaf of the definition permits (status transitions,
  retry budgets, resource coverage, the authorities for skipping and retaining leaves), the metadata of its
  action, and \<open>DefinitionFailurePolicy.decide\<close>, which turns a failed attempt into retry, record, rewind or block.
  Constructors take typed arguments where the source is only called with typed values; their checks are kept.
\<close>

subsection \<open>Shared checks\<close>

definition cfs_text :: "string \<Rightarrow> string \<Rightarrow> unit res" where
  "cfs_text field s = (if js_trim s = [] then Inl (Error (field @ '' must be a non-empty string'')) else Inr ())"

definition cfs_optional :: "string \<Rightarrow> string option \<Rightarrow> unit res" where
  "cfs_optional field s = (case s of None \<Rightarrow> Inr () | Some s \<Rightarrow> cfs_text field s)"

definition cfs_strings :: "string \<Rightarrow> string list \<Rightarrow> unit res" where
  "cfs_strings field xs =
     (if list_ex (\<lambda>s. js_trim s = []) xs then Inl (Error (field @ '' must be an array of non-empty strings''))
      else if \<not> distinct xs then Inl (Error (field @ '' must not contain duplicates'')) else Inr ())"

definition cfs_integer :: "string \<Rightarrow> int \<Rightarrow> int \<Rightarrow> unit res" where
  "cfs_integer field lo n = (if n < lo \<or> max_safe < n
     then Inl (Error (field @ '' must be a '' @ (if lo = 0 then ''non-negative'' else ''positive'') @ '' integer'')) else Inr ())"

lemma cfs_text_ok: "cfs_text f s = Inr u \<longleftrightarrow> js_trim s \<noteq> []"
  by (simp add: cfs_text_def)

lemma cfs_strings_ok: "cfs_strings f xs = Inr u \<longleftrightarrow> list_all (\<lambda>s. js_trim s \<noteq> []) xs \<and> distinct xs"
  by (auto simp: cfs_strings_def list_ex_iff list_all_iff)

lemma cfs_integer_ok: "cfs_integer f lo n = Inr u \<longleftrightarrow> lo \<le> n \<and> n \<le> max_safe"
  by (auto simp: cfs_integer_def)

lemmas cfs_ok = cfs_text_ok cfs_strings_ok cfs_integer_ok

definition NODE_KINDS :: "string list" where
  "NODE_KINDS = [''flow'', ''step'', ''task'']"

definition CANONICAL_NODE_STATUSES :: "string list" where
  "CANONICAL_NODE_STATUSES = [''pending'', ''in_progress'', ''done'', ''skipped'', ''failed'', ''invalidated'', ''archived'']"

definition RETRY_KINDS :: "string list" where
  "RETRY_KINDS = [''semantic'', ''tooling'']"

definition RECORDING_FAILURE_POLICIES :: "string list" where
  "RECORDING_FAILURE_POLICIES = [''retry'', ''record'', ''step-definition'']"

subsection \<open>Resources\<close>

record AttemptOperationClaim =
  aoc_operation :: string
  aoc_resources :: "string list"

record AttemptIncompleteClaim =
  aic_code :: string
  aic_message :: string
  aic_operation :: "string option"
  aic_resources :: "string list"

record ResourceContract =
  rct_required :: "string list"

definition new_ResourceContract :: "string list \<Rightarrow> ResourceContract res" where
  "new_ResourceContract required = bindE (cfs_strings ''resourceContract.required'' required) (\<lambda>_. Inr \<lparr>rct_required = required\<rparr>)"

fun join_commas :: "string list \<Rightarrow> string" where
  "join_commas [] = []"
| "join_commas [t] = t"
| "join_commas (t # ts) = t @ '', '' @ join_commas ts"

fun record_claims :: "ResourceContract \<Rightarrow> string \<Rightarrow> string list \<Rightarrow> string list \<Rightarrow> string list res" where
  "record_claims rc nodeId seen [] = Inr seen"
| "record_claims rc nodeId seen (r # rs) =
     (if r \<notin> set (rct_required rc)
      then Inl (Error (''attempt resource claim exceeds definition contract for '' @ nodeId))
      else if r \<in> set seen
      then Inl (Error (''attempt resource claim duplicates or conflicts for '' @ nodeId @ '': '' @ r))
      else record_claims rc nodeId (r # seen) rs)"

definition assertClaims :: "ResourceContract \<Rightarrow> AttemptOperationClaim list \<Rightarrow> AttemptIncompleteClaim list \<Rightarrow> string \<Rightarrow> unit res" where
  "assertClaims rc operationClaims incompleteClaims nodeId =
     bindE (record_claims rc nodeId [] (concat (map aoc_resources operationClaims))) (\<lambda>seen.
     bindE (record_claims rc nodeId seen (concat (map aic_resources incompleteClaims))) (\<lambda>seen.
     let missing = filter (\<lambda>r. r \<notin> set seen) (rct_required rc) in
     if missing \<noteq> [] then Inl (Error (''Attempt does not cover required definition resources for '' @ nodeId @ '': '' @ join_commas missing))
     else Inr ()))"

lemma record_claims_ok:
  "distinct seen \<Longrightarrow> record_claims rc n seen rs = Inr out \<longleftrightarrow>
   set rs \<subseteq> set (rct_required rc) \<and> distinct (seen @ rs) \<and> out = rev rs @ seen"
  by (induction rs arbitrary: seen) auto

subsection \<open>Authorities of a node\<close>

text \<open>
  What the authorities read of a step result and of its settlement receipt: \<open>StepResult\<close> and
  \<open>DraftStepSettlementReceiptValue\<close> are represented by the fields the checks use.
\<close>

record attempt_binding =
  abd_runId :: string
  abd_specId :: string
  abd_stepId :: string
  abd_attemptId :: string
  abd_attemptSequence :: nat

record step_result =
  srs_stepId :: string
  srs_kind :: string
  srs_type :: string
  srs_acceptedDecision :: bool
  srs_evidence :: "attempt_binding option"
  srs_identity :: "NonGateTargetBinding option"

record settlement_receipt =
  srp_settlementKind :: string
  srp_targetStepId :: "string option"
  srp_effects :: "StepRouteEffects option"
  srp_binding :: attempt_binding

record UnexecutedStepCompletionAuthority =
  uca_sourceStepId :: string
  uca_resultKinds :: "string list"

definition authorityResultKinds :: "string \<Rightarrow> string list \<Rightarrow> string list res" where
  "authorityResultKinds field kinds =
     (if kinds = [] then Inl (TypeError (field @ '' requires Result kinds'')) else
      bindE (mapE (\<lambda>k. completion_text (field @ '' Result kind'') (JStr k)) kinds) (\<lambda>ks.
      if \<not> distinct ks then Inl (TypeError (field @ '' Result kinds must be unique'')) else Inr ks))"

definition new_UnexecutedStepCompletionAuthority :: "string \<Rightarrow> string list \<Rightarrow> UnexecutedStepCompletionAuthority res" where
  "new_UnexecutedStepCompletionAuthority source kinds =
     bindE (completion_text ''unexecuted completion authority source'' (JStr source)) (\<lambda>s.
     bindE (authorityResultKinds ''unexecuted completion authority'' kinds) (\<lambda>ks.
     Inr \<lparr>uca_sourceStepId = s, uca_resultKinds = ks\<rparr>))"

definition completion_permits :: "UnexecutedStepCompletionAuthority \<Rightarrow> step_result option \<Rightarrow> bool" where
  "completion_permits a result = (case result of None \<Rightarrow> False | Some r \<Rightarrow>
     srs_stepId r = uca_sourceStepId a \<and> srs_kind r \<in> set (uca_resultKinds a)
     \<and> (srs_type r = ''completed'' \<or> srs_kind r = ''impl-review-tooling'' \<and> srs_acceptedDecision r))"

record RetainedRouteSourceAuthority =
  rra_sourceStepId :: string
  rra_resultKinds :: "string list"
  rra_targetStepId :: string
  rra_resetStepIds :: "string list"
  rra_nonGate :: bool

definition new_RetainedRouteSourceAuthority ::
  "bool \<Rightarrow> string \<Rightarrow> string \<Rightarrow> string list \<Rightarrow> string list \<Rightarrow> RetainedRouteSourceAuthority res" where
  "new_RetainedRouteSourceAuthority nonGate source target kinds resets =
     bindE (completion_text ''retained source Step'' (JStr source)) (\<lambda>s.
     bindE (authorityResultKinds ''retained source'' kinds) (\<lambda>ks.
     bindE (completion_text ''retained source recovery target'' (JStr target)) (\<lambda>t.
     bindE (authorityResultKinds ''retained source reset Steps'' resets) (\<lambda>rs.
     Inr \<lparr>rra_sourceStepId = s, rra_resultKinds = ks, rra_targetStepId = t, rra_resetStepIds = rs, rra_nonGate = nonGate\<rparr>))))"

definition matchesBinding :: "RetainedRouteSourceAuthority \<Rightarrow> step_result \<Rightarrow> settlement_receipt \<Rightarrow> bool" where
  "matchesBinding a result receipt =
     (let b = srp_binding receipt in
      if rra_nonGate a
      then (case srs_identity result of None \<Rightarrow> False | Some i \<Rightarrow>
        ntb_runId i = abd_runId b \<and> ntb_specId i = abd_specId b \<and> ntb_stepId i = abd_stepId b
        \<and> nai_matches (ntb_attempt i) \<lparr>nai_id = abd_attemptId b, nai_sequence = abd_attemptSequence b\<rparr>)
      else srs_evidence result = Some b)"

definition retained_permits :: "RetainedRouteSourceAuthority \<Rightarrow> step_result option \<Rightarrow> settlement_receipt option \<Rightarrow> bool" where
  "retained_permits a result receipt = (case (result, receipt) of
     (Some r, Some p) \<Rightarrow> srs_stepId r = rra_sourceStepId a \<and> srs_type r = ''loop-required''
       \<and> srs_kind r \<in> set (rra_resultKinds a) \<and> srp_settlementKind p = ''target-connection''
       \<and> srp_targetStepId p = Some (rra_targetStepId a)
       \<and> (case srp_effects p of None \<Rightarrow> False | Some e \<Rightarrow> rfx_skipStepIds e = [] \<and> sre_completions e = []
            \<and> rfx_resetStepIds e = rra_resetStepIds a)
       \<and> matchesBinding a r p
   | _ \<Rightarrow> False)"

subsection \<open>Node contracts\<close>

record NodeContract =
  nct_semanticRetryLimit :: int
  nct_toolingRetryLimit :: "int option"
  nct_transitions :: "string list"
  nct_resourceContract :: ResourceContract
  nct_completionAuthorities :: "UnexecutedStepCompletionAuthority list"
  nct_routeSkipAuthorities :: "UnexecutedStepCompletionAuthority list"
  nct_retainedAuthorities :: "RetainedRouteSourceAuthority list"

definition lower_char :: "char \<Rightarrow> bool" where
  "lower_char x \<longleftrightarrow> x = CHR ''_'' \<or> between (CHR ''a'', CHR ''z'') x"

text \<open>\<open>transition.split(":")\<close> of a string with one colon.\<close>

definition split_transition :: "string \<Rightarrow> string \<times> string" where
  "split_transition s = (takeWhile (\<lambda>c. c \<noteq> CHR '':'') s, tl (dropWhile (\<lambda>c. c \<noteq> CHR '':'') s))"

definition transition_shape :: "string \<Rightarrow> bool" where
  "transition_shape s = (let (a, b) = split_transition s in
     CHR '':'' \<in> set s \<and> a \<noteq> [] \<and> b \<noteq> [] \<and> list_all lower_char a \<and> list_all lower_char b)"

definition new_NodeContract :: "NodeContract \<Rightarrow> NodeContract res" where
  "new_NodeContract c =
     bindE (cfs_integer ''contract.semanticRetryLimit'' 0 (nct_semanticRetryLimit c)) (\<lambda>_.
     bindE (case nct_toolingRetryLimit c of None \<Rightarrow> Inr () | Some n \<Rightarrow> cfs_integer ''contract.toolingRetryLimit'' 0 n) (\<lambda>_.
     if \<not> list_all transition_shape (nct_transitions c) then Inl (Error ''contract.transitions must be transition strings'')
     else if \<not> distinct (nct_transitions c) then Inl (Error ''contract.transitions must not contain duplicates'')
     else if \<not> list_all (\<lambda>t. fst (split_transition t) \<in> set CANONICAL_NODE_STATUSES \<and> snd (split_transition t) \<in> set CANONICAL_NODE_STATUSES)
       (nct_transitions c)
     then Inl (Error ''contract.transitions must use known node statuses'') else
     bindE (new_ResourceContract (rct_required (nct_resourceContract c))) (\<lambda>_. Inr c)))"

definition permits :: "NodeContract \<Rightarrow> string \<Rightarrow> string \<Rightarrow> bool" where
  "permits c a b \<longleftrightarrow> a @ '':'' @ b \<in> set (nct_transitions c)"

definition permitsStatus :: "NodeContract \<Rightarrow> string \<Rightarrow> bool" where
  "permitsStatus c status \<longleftrightarrow> status \<in> set CANONICAL_NODE_STATUSES \<and>
     (status = ''skipped'' \<and> nct_completionAuthorities c \<noteq> [] \<or> status = ''pending''
      \<or> list_ex (\<lambda>t. ends_with t ('':'' @ status)) (nct_transitions c))"

definition authorizesUnexecutedCompletion :: "NodeContract \<Rightarrow> step_result option \<Rightarrow> bool" where
  "authorizesUnexecutedCompletion c r \<longleftrightarrow> list_ex (\<lambda>a. completion_permits a r) (nct_completionAuthorities c)"

definition permitsUnexecutedCompletion :: "NodeContract \<Rightarrow> step_result option \<Rightarrow> string \<Rightarrow> bool" where
  "permitsUnexecutedCompletion c r fromStatus \<longleftrightarrow>
     fromStatus \<in> {''pending'', ''invalidated''} \<and> authorizesUnexecutedCompletion c r"

definition authorizesRouteSkip :: "NodeContract \<Rightarrow> step_result option \<Rightarrow> bool" where
  "authorizesRouteSkip c r \<longleftrightarrow> list_ex (\<lambda>a. completion_permits a r) (nct_routeSkipAuthorities c)"

definition authorizesRetainedRouteSource :: "NodeContract \<Rightarrow> step_result option \<Rightarrow> settlement_receipt option \<Rightarrow> bool" where
  "authorizesRetainedRouteSource c r p \<longleftrightarrow> list_ex (\<lambda>a. retained_permits a r p) (nct_retainedAuthorities c)"

definition authorizesUnexecutedRouteTail :: "NodeContract \<Rightarrow> step_result option \<Rightarrow> settlement_receipt option \<Rightarrow> bool" where
  "authorizesUnexecutedRouteTail c r p \<longleftrightarrow> list_ex (\<lambda>a. rra_nonGate a \<and> retained_permits a r p) (nct_retainedAuthorities c)"

definition authorizesInvalidatedRouteSource :: "NodeContract \<Rightarrow> step_result option \<Rightarrow> settlement_receipt option \<Rightarrow> bool" where
  "authorizesInvalidatedRouteSource c r p \<longleftrightarrow> list_ex (\<lambda>a. rra_nonGate a \<and> retained_permits a r p) (nct_retainedAuthorities c)"

definition requiresSourceSkipProof :: "NodeContract \<Rightarrow> bool" where
  "requiresSourceSkipProof c \<longleftrightarrow> nct_completionAuthorities c \<noteq> [] \<or> nct_routeSkipAuthorities c \<noteq> []"

record AttemptConsumption =
  atc_semantic :: int
  atc_tooling :: int

definition new_AttemptConsumption :: "int \<Rightarrow> int \<Rightarrow> AttemptConsumption res" where
  "new_AttemptConsumption s t =
     bindE (cfs_integer ''attempt.consumption.semantic'' 0 s) (\<lambda>_.
     bindE (cfs_integer ''attempt.consumption.tooling'' 0 t) (\<lambda>_. Inr \<lparr>atc_semantic = s, atc_tooling = t\<rparr>))"

definition retry_limit :: "NodeContract \<Rightarrow> string \<Rightarrow> int" where
  "retry_limit c kind = (if kind = ''semantic'' then nct_semanticRetryLimit c
     else case nct_toolingRetryLimit c of None \<Rightarrow> 0 | Some n \<Rightarrow> n)"

definition consumed :: "AttemptConsumption \<Rightarrow> string \<Rightarrow> int" where
  "consumed u kind = (if kind = ''semantic'' then atc_semantic u else atc_tooling u)"

definition remainingRetries :: "NodeContract \<Rightarrow> AttemptConsumption \<Rightarrow> string \<Rightarrow> int res" where
  "remainingRetries c u kind = (if kind \<notin> set RETRY_KINDS
     then Inl (Error ''retry budget lookup requires typed consumption and retry kind'')
     else Inr (retry_limit c kind - consumed u kind))"

subsection \<open>Actions\<close>

record ArtifactAuthorityPolicy =
  aap_sourceScopes :: "string list"

definition new_ArtifactAuthorityPolicy :: "string list \<Rightarrow> ArtifactAuthorityPolicy res" where
  "new_ArtifactAuthorityPolicy scopes =
     bindE (cfs_strings ''definition.action.artifactAuthority.sourceScopes'' scopes) (\<lambda>_.
     if \<not> set scopes \<subseteq> {''same_task'', ''flow'', ''all_tasks''}
     then Inl (Error ''definition action artifact authority contains an invalid source scope'')
     else Inr \<lparr>aap_sourceScopes = scopes\<rparr>)"

record DefinitionAction =
  dac_action :: "string option"
  dac_instructionsKey :: "string option"
  dac_contextKinds :: "string list"
  dac_outputSchemaRef :: "string option"
  dac_requiresApproval :: bool
  dac_autoApproveChoiceId :: "string option"
  dac_maxAttempts :: int
  dac_sideEffects :: "string list option"
  dac_failurePolicy :: "DefinitionFailurePolicy option"
  dac_executionCommand :: "string option"
  dac_failureOwnership :: "DefinitionFailureOwnership option"
  dac_artifactAuthority :: ArtifactAuthorityPolicy

definition new_DefinitionAction :: "DefinitionAction \<Rightarrow> DefinitionAction res" where
  "new_DefinitionAction a =
     bindE (cfs_optional ''definition.action.action'' (dac_action a)) (\<lambda>_.
     bindE (cfs_optional ''definition.action.instructionsKey'' (dac_instructionsKey a)) (\<lambda>_.
     bindE (cfs_strings ''definition.action.contextKinds'' (dac_contextKinds a)) (\<lambda>_.
     bindE (cfs_optional ''definition.action.outputSchemaRef'' (dac_outputSchemaRef a)) (\<lambda>_.
     bindE (cfs_optional ''definition.action.autoApproveChoiceId'' (dac_autoApproveChoiceId a)) (\<lambda>_.
     if dac_autoApproveChoiceId a \<noteq> None \<and> \<not> dac_requiresApproval a
     then Inl (Error ''definition.action.autoApproveChoiceId requires approval'') else
     bindE (cfs_integer ''definition.action.maxAttempts'' 1 (dac_maxAttempts a)) (\<lambda>_.
     bindE (case dac_sideEffects a of None \<Rightarrow> Inr () | Some xs \<Rightarrow> cfs_strings ''definition.action.sideEffects'' xs) (\<lambda>_.
     bindE (cfs_optional ''definition.action.executionCommand'' (dac_executionCommand a)) (\<lambda>_.
     if dac_executionCommand a \<noteq> None \<and> dac_failureOwnership a = None
     then Inl (Error ''definition.action.executionCommand requires failureOwnership'')
     else if dac_executionCommand a = None \<and> dac_failureOwnership a \<noteq> None
     then Inl (Error ''definition.action.failureOwnership requires executionCommand'') else
     bindE (new_ArtifactAuthorityPolicy (aap_sourceScopes (dac_artifactAuthority a))) (\<lambda>_. Inr a)))))))))"

definition DefinitionFailurePolicy_toJSON :: "DefinitionFailurePolicy \<Rightarrow> jsval" where
  "DefinitionFailurePolicy_toJSON p = JObj [(''kind'', JStr (dfp_value p)), (''targetNodeId'', js_opt JStr (dfp_targetNodeId p))]"

definition DefinitionAction_toJSON :: "DefinitionAction \<Rightarrow> jsval" where
  "DefinitionAction_toJSON a = JObj
     [(''action'', js_opt JStr (dac_action a)), (''instructionsKey'', js_opt JStr (dac_instructionsKey a)),
      (''contextKinds'', JArr (map JStr (dac_contextKinds a))), (''outputSchemaRef'', js_opt JStr (dac_outputSchemaRef a)),
      (''requiresApproval'', JBool (dac_requiresApproval a)), (''autoApproveChoiceId'', js_opt JStr (dac_autoApproveChoiceId a)),
      (''maxAttempts'', JInt (dac_maxAttempts a)), (''sideEffects'', js_opt (\<lambda>xs. JArr (map JStr xs)) (dac_sideEffects a)),
      (''failurePolicy'', js_opt DefinitionFailurePolicy_toJSON (dac_failurePolicy a)),
      (''executionCommand'', js_opt JStr (dac_executionCommand a)),
      (''failureOwnership'', js_opt (\<lambda>k. JStr (ownership_kind k)) (dac_failureOwnership a)),
      (''artifactAuthority'', JObj [(''sourceScopes'', JArr (map JStr (aap_sourceScopes (dac_artifactAuthority a)))),
         (''selection'', JStr ''latest_upstream'')])]"

subsection \<open>Failure decisions\<close>

record DefinitionFailureDecision =
  dfd_policy :: DefinitionFailurePolicy
  dfd_operation :: string
  dfd_retryKind :: "string option"
  dfd_remaining :: int
  dfd_targetNodeId :: "string option"
  dfd_reason :: string

definition new_DefinitionFailureDecision :: "DefinitionFailureDecision \<Rightarrow> DefinitionFailureDecision res" where
  "new_DefinitionFailureDecision d =
     (if dfd_operation d \<notin> {''retry'', ''record'', ''rewind'', ''blocked'', ''resolve-step-definition''}
      then Inl (Error ''failure decision operation is invalid'')
      else if \<not> pred_option (\<lambda>k. k \<in> set RETRY_KINDS) (dfd_retryKind d)
      then Inl (Error ''failure decision retryKind is invalid'') else
      bindE (cfs_integer ''failure decision remaining'' 0 (dfd_remaining d)) (\<lambda>_.
      if (dfd_operation d = ''retry'') \<noteq> (dfd_retryKind d \<noteq> None \<and> 0 < dfd_remaining d)
      then Inl (Error ''only a retry decision may expose retry accounting'')
      else if (dfd_operation d = ''rewind'') \<noteq> (dfd_targetNodeId d \<noteq> None)
      then Inl (Error ''only a rewind decision may identify a target node'') else
      bindE (cfs_text ''failure decision reason'' (dfd_reason d)) (\<lambda>_. Inr d)))"

definition settle :: "DefinitionFailurePolicy \<Rightarrow> string \<Rightarrow> string option \<Rightarrow> string \<Rightarrow> DefinitionFailureDecision res" where
  "settle p operation target reason = new_DefinitionFailureDecision \<lparr>dfd_policy = p, dfd_operation = operation,
     dfd_retryKind = None, dfd_remaining = 0, dfd_targetNodeId = target, dfd_reason = reason\<rparr>"

definition authorize_retry :: "DefinitionFailurePolicy \<Rightarrow> ActivityFailure \<Rightarrow> int \<Rightarrow> string \<Rightarrow> DefinitionFailureDecision res" where
  "authorize_retry p f remaining reason = new_DefinitionFailureDecision \<lparr>dfd_policy = p, dfd_operation = ''retry'',
     dfd_retryKind = acf_retryKind f, dfd_remaining = remaining, dfd_targetNodeId = None, dfd_reason = reason\<rparr>"

definition js_retryKind :: "ActivityFailure \<Rightarrow> string" where
  "js_retryKind f = (case acf_retryKind f of None \<Rightarrow> ''null'' | Some k \<Rightarrow> k)"

definition decide_policy :: "DefinitionFailurePolicy \<Rightarrow> ActivityFailure \<Rightarrow> int \<Rightarrow> DefinitionFailureDecision res" where
  "decide_policy p f remaining =
     (if dfp_value p = ''step-definition''
      then settle p ''resolve-step-definition'' None ''the active Step Definition must resolve this failure from canonical facts''
      else if dfp_value p = ''test-chain-retry''
      then (if acf_code f = ''TEST_CHAIN_REJECTED'' \<and> acf_retryable f \<and> 0 < remaining
         then authorize_retry p f remaining (''the Definition-selected test-chain retry has '' @ int_text remaining @ '' remaining'')
         else settle p ''blocked'' None ''the Definition-selected test-chain failure is terminal'')
      else if dfp_value p = ''test-chain-repair''
      then (if acf_code f = ''SCENARIO_VALIDITY_REJECTED''
         then settle p ''rewind'' (dfp_targetNodeId p) ''the Definition-selected scenario repair rewinds to the test handoff''
         else settle p ''blocked'' None ''the Definition-selected scenario tooling failure is terminal'')
      else if dfp_value p \<in> {''retry'', ''retry-block''} \<and> acf_retryable f \<and> 0 < remaining
      then authorize_retry p f remaining (''the definition authorizes a '' @ js_retryKind f @ '' retry with '' @ int_text remaining @ '' remaining'')
      else if dfp_value p = ''retry-block''
      then settle p ''blocked'' None ''the definition exhausted the bounded retry policy without a completed producer result''
      else if dfp_value p = ''retry''
      then settle p ''record'' None ''the definition records the exhausted or non-retryable failure before continuing''
      else if dfp_value p = ''record''
      then settle p ''record'' None ''the definition records this terminal failure before continuing''
      else if dfp_value p = ''amend-spec''
      then settle p ''rewind'' (dfp_targetNodeId p) ''the definition rewinds to its specification amendment target''
      else settle p ''blocked'' None ''the definition blocks after this terminal failure'')"

definition decide_failure :: "DefinitionFailurePolicy \<Rightarrow> ActivityFailure \<Rightarrow> AttemptConsumption \<Rightarrow> NodeContract \<Rightarrow> DefinitionAction
    \<Rightarrow> DefinitionFailureDecision res" where
  "decide_failure p f consumption contract action =
     bindE (case acf_retryKind f of None \<Rightarrow> Inr 0
        | Some k \<Rightarrow> bindE (remainingRetries contract consumption k) (\<lambda>r. Inr (max 0 r))) (\<lambda>remaining.
     if acf_category f = ''source-integrity''
     then settle p ''blocked'' None ''unaccepted source effects require explicit reconciliation before execution can continue''
     else if acf_category f = ''step-result-error''
     then settle p ''blocked'' None ''the Draft Step returned an Error and requires explicit recovery before execution can continue''
     else if dac_action action = Some ''run-review'' \<and> acf_code f = ''AGENT_TIMEOUT'' \<and> acf_stopConfirmed f \<noteq> Some True
     then settle p ''blocked'' None ''the Review provider process tree stop is uncertain and cannot authorize retry or settlement''
     else if acf_code f = ''AGENT_TIMEOUT'' \<and> acf_stopConfirmed f = Some False
     then settle p ''blocked'' None ''the provider process tree stop is uncertain and cannot authorize retry or settlement''
     else decide_policy p f remaining)"

text \<open>The policy in one table: what stops every failure, when a retry is admitted, and where each policy ends.\<close>

definition wf_ActivityFailure :: "ActivityFailure \<Rightarrow> bool" where
  "wf_ActivityFailure f \<longleftrightarrow> pred_option (\<lambda>k. k \<in> set RETRY_KINDS) (acf_retryKind f) \<and> (acf_retryable f \<longrightarrow> acf_retryKind f \<noteq> None)"

definition wf_AttemptConsumption :: "AttemptConsumption \<Rightarrow> bool" where
  "wf_AttemptConsumption u \<longleftrightarrow> 0 \<le> atc_semantic u \<and> 0 \<le> atc_tooling u"

definition failure_halted :: "ActivityFailure \<Rightarrow> DefinitionAction \<Rightarrow> bool" where
  "failure_halted f a \<longleftrightarrow> acf_category f \<in> {''source-integrity'', ''step-result-error''} \<or>
     acf_code f = ''AGENT_TIMEOUT'' \<and> (acf_stopConfirmed f = Some False \<or> dac_action a = Some ''run-review'' \<and> acf_stopConfirmed f = None)"

definition failure_retries :: "string \<Rightarrow> ActivityFailure \<Rightarrow> AttemptConsumption \<Rightarrow> NodeContract \<Rightarrow> bool" where
  "failure_retries p f u c \<longleftrightarrow> acf_retryable f \<and> consumed u (the (acf_retryKind f)) < retry_limit c (the (acf_retryKind f)) \<and>
     (p \<in> {''retry'', ''retry-block''} \<or> p = ''test-chain-retry'' \<and> acf_code f = ''TEST_CHAIN_REJECTED'')"

definition failure_operation :: "string \<Rightarrow> ActivityFailure \<Rightarrow> AttemptConsumption \<Rightarrow> NodeContract \<Rightarrow> DefinitionAction \<Rightarrow> string" where
  "failure_operation p f u c a =
     (if failure_halted f a then ''blocked''
      else if p = ''step-definition'' then ''resolve-step-definition''
      else if failure_retries p f u c then ''retry''
      else if p \<in> {''retry'', ''record''} then ''record''
      else if p = ''amend-spec'' \<or> p = ''test-chain-repair'' \<and> acf_code f = ''SCENARIO_VALIDITY_REJECTED'' then ''rewind''
      else ''blocked'')"

lemma settle_ok:
  "op \<in> {''record'', ''blocked'', ''resolve-step-definition''} \<and> t = None \<or> op = ''rewind'' \<and> t \<noteq> None \<Longrightarrow> js_trim r \<noteq> [] \<Longrightarrow>
   settle p op t r = Inr \<lparr>dfd_policy = p, dfd_operation = op, dfd_retryKind = None, dfd_remaining = 0, dfd_targetNodeId = t, dfd_reason = r\<rparr>"
  by (elim disjE conjE insertE) (simp_all add: settle_def new_DefinitionFailureDecision_def cfs_integer_def cfs_text_def max_safe_def)

lemma authorize_retry_ok:
  "acf_retryKind f = Some k \<Longrightarrow> k \<in> set RETRY_KINDS \<Longrightarrow> 0 < n \<Longrightarrow> n \<le> max_safe \<Longrightarrow> js_trim r \<noteq> [] \<Longrightarrow>
   authorize_retry p f n r = Inr \<lparr>dfd_policy = p, dfd_operation = ''retry'', dfd_retryKind = Some k, dfd_remaining = n,
     dfd_targetNodeId = None, dfd_reason = r\<rparr>"
  by (simp add: authorize_retry_def new_DefinitionFailureDecision_def cfs_integer_def cfs_text_def)

lemma trim_text: "\<not> js_ws c \<Longrightarrow> js_trim (c # s) \<noteq> []"
  by (auto simp: js_trim_def dropWhile_eq_Nil_conv)

lemma decision_reasons [simp]: "js_trim (CHR ''t'' # s) \<noteq> []" "js_trim (CHR ''u'' # s) \<noteq> []"
  by (simp_all add: trim_text js_ws_def)

lemma settled_if: "(b \<Longrightarrow> \<exists>d. x = Inr d \<and> P d) \<Longrightarrow> (\<not> b \<Longrightarrow> \<exists>d. y = Inr d \<and> P d) \<Longrightarrow> \<exists>d. (if b then x else y) = Inr d \<and> P d"
  by simp

definition failure_decision :: "DefinitionFailurePolicy \<Rightarrow> ActivityFailure \<Rightarrow> AttemptConsumption \<Rightarrow> NodeContract \<Rightarrow> DefinitionAction
    \<Rightarrow> DefinitionFailureDecision \<Rightarrow> bool" where
  "failure_decision p f u c a d \<longleftrightarrow> (let op = failure_operation (dfp_value p) f u c a; k = the (acf_retryKind f) in
     dfd_policy d = p \<and> dfd_operation d = op
     \<and> dfd_retryKind d = (if op = ''retry'' then acf_retryKind f else None)
     \<and> dfd_remaining d = (if op = ''retry'' then retry_limit c k - consumed u k else 0)
     \<and> dfd_targetNodeId d = (if op = ''rewind'' then dfp_targetNodeId p else None))"

lemma settle_decision:
  assumes "failure_operation (dfp_value p) f u c a = op" "op \<noteq> ''retry''" "op = ''rewind'' \<longleftrightarrow> t \<noteq> None"
    "op \<in> {''record'', ''blocked'', ''resolve-step-definition'', ''rewind''}" "js_trim r \<noteq> []" "t = None \<or> t = dfp_targetNodeId p"
  shows "\<exists>d. settle p op t r = Inr d \<and> failure_decision p f u c a d"
  using assms settle_ok [of op t r p] by (auto simp: failure_decision_def)

lemma retry_decision:
  assumes "failure_operation (dfp_value p) f u c a = ''retry''" "acf_retryKind f = Some k" "k \<in> set RETRY_KINDS"
    "n = retry_limit c k - consumed u k" "0 < n" "n \<le> max_safe" "js_trim r \<noteq> []"
  shows "\<exists>d. authorize_retry p f n r = Inr d \<and> failure_decision p f u c a d"
  using assms authorize_retry_ok [OF assms(2,3,5-7)] by (auto simp: failure_decision_def)

lemma contract_limits:
  assumes "new_NodeContract c = Inr c'" "wf_AttemptConsumption u"
  shows "c' = c" "0 \<le> retry_limit c k" "retry_limit c k - consumed u k \<le> max_safe"
  using assms by (auto simp: new_NodeContract_def cfs_integer_ok if_refused retry_limit_def consumed_def wf_AttemptConsumption_def
      max_safe_def split: option.splits)

lemma policy_target:
  "new_DefinitionFailurePolicy v t = Inr p \<Longrightarrow> dfp_value p = v \<and> dfp_targetNodeId p = t \<and> v \<in> set FAILURE_POLICIES \<and> (targeted v \<longleftrightarrow> t \<noteq> None)"
  by (auto simp: new_DefinitionFailurePolicy_def if_refused simp del: not_None_eq)

lemma decide_policy_exact:
  assumes pol: "new_DefinitionFailurePolicy v t = Inr p" and con: "new_NodeContract c = Inr c'"
    and f: "wf_ActivityFailure f" and u: "wf_AttemptConsumption u" and run: "\<not> failure_halted f a"
    and m: "acf_retryKind f \<noteq> None \<longrightarrow> m = max 0 (retry_limit c (the (acf_retryKind f)) - consumed u (the (acf_retryKind f)))"
  shows "\<exists>d. decide_policy p f m = Inr d \<and> failure_decision p f u c a d"
proof -
  let ?k = "the (acf_retryKind f)"
  have kind: "acf_retryable f \<Longrightarrow> acf_retryKind f = Some ?k \<and> ?k \<in> set RETRY_KINDS"
    using f by (auto simp: wf_ActivityFailure_def)
  have left: "acf_retryable f \<Longrightarrow> 0 < m \<longleftrightarrow> consumed u ?k < retry_limit c ?k" using kind m by auto
  have retry: "\<exists>d. authorize_retry p f m r = Inr d \<and> failure_decision p f u c a d"
    if "acf_retryable f" "0 < m" "failure_operation (dfp_value p) f u c a = ''retry''" "js_trim r \<noteq> []" for r
    using kind that m contract_limits(3) [OF con u, of ?k] by (intro retry_decision [of _ _ _ _ _ ?k]) auto
  have stop: "\<exists>d. settle p op None r = Inr d \<and> failure_decision p f u c a d"
    if "failure_operation (dfp_value p) f u c a = op" "op \<in> {''record'', ''blocked'', ''resolve-step-definition''}" "js_trim r \<noteq> []" for op r
    using that by (intro settle_decision) auto
  have rew: "\<exists>d. settle p ''rewind'' (dfp_targetNodeId p) r = Inr d \<and> failure_decision p f u c a d"
    if "failure_operation (dfp_value p) f u c a = ''rewind''" "targeted (dfp_value p)" "js_trim r \<noteq> []" for r
    using that policy_target [OF pol] by (intro settle_decision) auto
  note op = failure_operation_def failure_retries_def
  show ?thesis
    unfolding decide_policy_def
    by (intro settled_if; (rule retry | rule stop | rule rew); auto simp: op run left targeted_def)
qed

text \<open>Claim C17. The failure policy of a node is total and exact.  For every policy, contract, consumption and failure that
  their constructors accept, the decision is made without error; a violated source, a failed step result and a provider
  whose stop is not confirmed always block; a retry is chosen exactly when the failure is retryable, its budget is not used
  up and the policy admits it, and it reports what remains; a rewind goes to the target of the policy; otherwise the failure
  is recorded, handed to the step's own definition, or blocks.\<close>

theorem failure_decision_exact:
  assumes pol: "new_DefinitionFailurePolicy v t = Inr p" and con: "new_NodeContract c = Inr c'"
    and f: "wf_ActivityFailure f" and u: "wf_AttemptConsumption u"
  shows "\<exists>d. decide_failure p f u c a = Inr d \<and> failure_decision p f u c a d"
proof -
  let ?k = "the (acf_retryKind f)"
  obtain m where rem: "(case acf_retryKind f of None \<Rightarrow> Inr 0
      | Some k \<Rightarrow> bindE (remainingRetries c u k) (\<lambda>r. Inr (max 0 r))) = (Inr m :: int res)"
    and m: "acf_retryKind f \<noteq> None \<longrightarrow> m = max 0 (retry_limit c ?k - consumed u ?k)"
    using f by (cases "acf_retryKind f") (auto simp: remainingRetries_def wf_ActivityFailure_def)
  have halt: "\<exists>d. settle p ''blocked'' None r = Inr d \<and> failure_decision p f u c a d"
    if "failure_halted f a" "js_trim r \<noteq> []" for r
    using that by (intro settle_decision) (simp_all add: failure_operation_def)
  have run: "\<exists>d. decide_policy p f m = Inr d \<and> failure_decision p f u c a d" if "\<not> failure_halted f a"
    using decide_policy_exact [OF pol con f u that m] .
  show ?thesis
    unfolding decide_failure_def rem bindE.simps
    by (intro settled_if; (rule run | rule halt); auto simp: failure_halted_def)
qed

definition sample_failure :: ActivityFailure where
  "sample_failure = \<lparr>acf_category = ''semantic'', acf_code = ''REVIEW_REJECTED'', acf_retryable = True, acf_retryKind = Some ''semantic'',
     acf_stopConfirmed = None, acf_completion = None\<rparr>"

definition sample_contract :: NodeContract where
  "sample_contract = \<lparr>nct_semanticRetryLimit = 3, nct_toolingRetryLimit = None, nct_transitions = [''pending:in_progress''],
     nct_resourceContract = \<lparr>rct_required = [''spec'']\<rparr>, nct_completionAuthorities = [], nct_routeSkipAuthorities = [],
     nct_retainedAuthorities = []\<rparr>"

definition sample_action :: DefinitionAction where
  "sample_action = \<lparr>dac_action = Some ''run-review'', dac_instructionsKey = None, dac_contextKinds = [''spec''], dac_outputSchemaRef = None,
     dac_requiresApproval = False, dac_autoApproveChoiceId = None, dac_maxAttempts = 4, dac_sideEffects = None,
     dac_failurePolicy = None, dac_executionCommand = None, dac_failureOwnership = None,
     dac_artifactAuthority = \<lparr>aap_sourceScopes = []\<rparr>\<rparr>"

lemma sample_contract_ok: "new_NodeContract sample_contract = Inr sample_contract"
  by (simp add: sample_contract_def new_NodeContract_def cfs_integer_def max_safe_def transition_shape_def split_transition_def
      lower_char_def between_def CANONICAL_NODE_STATUSES_def new_ResourceContract_def cfs_strings_def js_trim_def js_ws_def less_eq_char_def)

theorem failure_decision_exact_witness:
  "\<exists>p d. new_DefinitionFailurePolicy ''retry'' None = Inr p
     \<and> decide_failure p sample_failure \<lparr>atc_semantic = 1, atc_tooling = 0\<rparr> sample_contract sample_action = Inr d
     \<and> dfd_operation d = ''retry'' \<and> dfd_remaining d = 2"
proof -
  have pol: "new_DefinitionFailurePolicy ''retry'' None = Inr \<lparr>dfp_value = ''retry'', dfp_targetNodeId = None\<rparr>"
    by (simp add: new_DefinitionFailurePolicy_def FAILURE_POLICIES_def targeted_def)
  have "wf_ActivityFailure sample_failure" "wf_AttemptConsumption \<lparr>atc_semantic = 1, atc_tooling = 0\<rparr>"
    by (simp_all add: wf_ActivityFailure_def wf_AttemptConsumption_def sample_failure_def RETRY_KINDS_def)
  from failure_decision_exact [OF pol sample_contract_ok this, of sample_action] show ?thesis
    unfolding pol by (auto simp: failure_decision_def failure_operation_def failure_halted_def failure_retries_def sample_failure_def
        sample_contract_def retry_limit_def consumed_def Let_def)
qed

lemma record_claims_cover:
  "(\<exists>seen. record_claims rc n [] xs = Inr seen \<and> (\<exists>out. record_claims rc n seen ys = Inr out \<and> set (rct_required rc) \<subseteq> set out))
   \<longleftrightarrow> distinct (xs @ ys) \<and> set (xs @ ys) = set (rct_required rc)"
proof -
  let ?R = "set (rct_required rc)"
  have one: "record_claims rc n [] xs = Inr seen \<longleftrightarrow> set xs \<subseteq> ?R \<and> distinct xs \<and> seen = rev xs" for seen
    using record_claims_ok [of "[]" rc n xs seen] by simp
  have two: "record_claims rc n (rev xs) ys = Inr out \<longleftrightarrow> set ys \<subseteq> ?R \<and> distinct (xs @ ys) \<and> out = rev ys @ rev xs"
    if "distinct xs" for out using record_claims_ok [of "rev xs" rc n ys out] that by simp
  show ?thesis
  proof (cases "distinct xs")
    case True
    have "(\<exists>seen. record_claims rc n [] xs = Inr seen \<and> (\<exists>out. record_claims rc n seen ys = Inr out \<and> ?R \<subseteq> set out)) \<longleftrightarrow>
        set xs \<subseteq> ?R \<and> set ys \<subseteq> ?R \<and> distinct (xs @ ys) \<and> ?R \<subseteq> set (rev ys @ rev xs)"
      unfolding one using two [OF True] True by (metis (no_types))
    then show ?thesis by auto
  qed (simp add: one)
qed

text \<open>An attempt's resource claims are accepted exactly when, over completed and incomplete operations together, no
  resource is claimed twice and the claimed resources are those the contract requires: none missing, none beyond it.\<close>

theorem resource_claims_exact:
  "assertClaims rc ops incs n = Inr () \<longleftrightarrow>
     (let claims = concat (map aoc_resources ops) @ concat (map aic_resources incs) in
      distinct claims \<and> set claims = set (rct_required rc))"
proof -
  have "filter (\<lambda>r. r \<notin> set out) xs = [] \<longleftrightarrow> set xs \<subseteq> set out" for out xs :: "string list"
    by (auto simp: filter_empty_conv)
  then show ?thesis
    using record_claims_cover [of rc n "concat (map aoc_resources ops)" "concat (map aic_resources incs)"]
    by (simp add: assertClaims_def Let_def if_refused del: set_concat distinct_append set_append)
qed

end
