(* ===== verification/Flow_Properties.thy ===== *)
theory Flow_Properties
  imports Flow_Steps Gate_Decision
begin

section \<open>Properties of the flow definition and its steps\<close>

text \<open>
  What the traversals of \<^verbatim>\<open>definition.js\<close> and \<^verbatim>\<open>lib/step-tree.js\<close> guarantee on the program's own definition:
  its trees are well formed, a new flow has exactly one active leaf, the active leaf of a running flow is the
  latest one, and a route between two leaves writes exactly the leaves it should.
\<close>

subsection \<open>Helper lemmas\<close>

lemma index_of_nth: "distinct xs \<Longrightarrow> i < length xs \<Longrightarrow> index_of (xs ! i) xs = Some i"
  by (induction xs arbitrary: i) (auto simp: index_of_def nth_Cons split: nat.splits if_splits)

lemma index_of_Some: "index_of x xs = Some i \<Longrightarrow> i < length xs \<and> xs ! i = x"
  by (induction xs arbitrary: i) (auto simp: index_of_def split: if_splits)

lemma contiguous_nth:
  assumes "distinct xs" "s < length xs" "t < length xs"
  shows "contiguousLeafRouteEffects xs (xs ! s) (xs ! t) =
    Inr \<lparr>rfx_skipStepIds = (if s < t then drop (Suc s) (take t xs) else []),
         rfx_resetStepIds = (if s < t then [] else drop t xs)\<rparr>"
  using assms by (simp add: contiguousLeafRouteEffects_def index_of_nth)

lemma drop_upt: "t \<le> length xs \<Longrightarrow> drop k (take t xs) = map ((!) xs) [k..<t]"
  by (auto intro: nth_equalityI)

lemma flow_leaf_ids_nonempty: "[] \<notin> set flow_leaf_ids"
  by (simp add: flow_leaf_ids_def)

lemma new_StepRouteEffects_ok:
  "distinct skip \<Longrightarrow> distinct reset \<Longrightarrow> [] \<notin> set skip \<Longrightarrow> [] \<notin> set reset \<Longrightarrow> set skip \<inter> set reset = {} \<Longrightarrow>
   new_StepRouteEffects skip reset [] = Inr \<lparr>rfx_skipStepIds = skip, rfx_resetStepIds = reset, sre_completions = []\<rparr>"
  by (auto simp: new_StepRouteEffects_def step_ids_def new_UnexecutedStepCompletionSet_def assertDisjoint_def list_ex_iff)

lemma draftRouteEffects_nth:
  assumes "s < length flow_leaf_ids" "t < length flow_leaf_ids"
  shows "draftRouteEffects (flow_leaf_ids ! s) (flow_leaf_ids ! t) =
    Inr \<lparr>rfx_skipStepIds = (if s < t then drop (Suc s) (take t flow_leaf_ids) else []),
         rfx_resetStepIds = (if s < t then [] else drop t flow_leaf_ids), sre_completions = []\<rparr>"
  using contiguous_nth [OF flow_leaf_ids_distinct assms] flow_leaf_ids_nonempty flow_leaf_ids_distinct
  by (auto simp: draftRouteEffects_def collectFlowLeafIds_eq intro!: new_StepRouteEffects_ok
      dest: in_set_dropD in_set_takeD)

lemma retainedSourceRouteEffects_nth:
  assumes "s < length flow_leaf_ids" "t < length flow_leaf_ids"
  shows "retainedSourceRouteEffects (flow_leaf_ids ! s) (flow_leaf_ids ! t) =
      Inr \<lparr>rfx_skipStepIds = [], rfx_resetStepIds = (if s < t then []
             else map ((!) flow_leaf_ids) (filter (\<lambda>i. i \<noteq> s) [t..<length flow_leaf_ids])), sre_completions = []\<rparr>"
proof -
  let ?L = flow_leaf_ids
  have reset: "drop t ?L = map ((!) ?L) [t..<length ?L]" using drop_upt [of "length ?L" ?L t] by simp
  have filt: "filter (\<lambda>i. i \<noteq> ?L ! s) (map ((!) ?L) [t..<length ?L]) = map ((!) ?L) (filter (\<lambda>i. i \<noteq> s) [t..<length ?L])"
    unfolding filter_map o_def using assms(1)
    by (intro arg_cong [of _ _ "map _"] filter_cong) (auto simp: nth_eq_iff_index_eq [OF flow_leaf_ids_distinct])
  have ok: "new_StepRouteEffects [] (filter P (drop t ?L)) [] =
      Inr \<lparr>rfx_skipStepIds = [], rfx_resetStepIds = filter P (drop t ?L), sre_completions = []\<rparr>" for P
    using flow_leaf_ids_nonempty flow_leaf_ids_distinct by (intro new_StepRouteEffects_ok) (auto dest: in_set_dropD)
  have empty: "new_StepRouteEffects [] [] [] = Inr \<lparr>rfx_skipStepIds = [], rfx_resetStepIds = [], sre_completions = []\<rparr>"
    by (intro new_StepRouteEffects_ok) simp_all
  show ?thesis using ok [of "\<lambda>i. i \<noteq> ?L ! s", unfolded reset filt] filt empty
    by (simp add: retainedSourceRouteEffects_def draftRouteEffects_nth [OF assms] reset)
qed

lemma initial_active:
  assumes "levels ns \<le> 3" "leaves ns = x # xs"
  shows "findInProgressLeaves (buildInitialNestedSteps ns) = Inr [\<lparr>step_id = fn_id x, step_status = ''in_progress''\<rparr>]"
    "promoteNextPendingLeaf (buildInitialNestedSteps ns) = Inr None"
  using assms by (simp_all add: findInProgressLeaves_ok promoteNextPendingLeaf_ok initial_levels initial_leaves in_progress_def
      filter_empty_conv)

subsection \<open>The definition\<close>

text \<open>The two definition trees are well formed: every node, as written, is accepted unchanged by the
  node constructor with all its checks, no two nodes of a tree share an id (branches included), both stay
  within the depth limit, the leaves of both are collected in document order without error (for a Task, the five the
  Gate and review components use), and every node of either tree is the one its lookup finds by id.\<close>

theorem flow_definition_wellformed:
  "list_all (\<lambda>n. new_FlowNode (node_data n) (node_children n) = Inr n) (preorder FLOW_DEFINITION @ preorder TASK_DEFINITION)
   \<and> distinct (map (fn_id \<circ> node_data) (preorder FLOW_DEFINITION))
   \<and> distinct (map (fn_id \<circ> node_data) (preorder TASK_DEFINITION))
   \<and> levels FLOW_DEFINITION \<le> MAX_DEPTH \<and> levels TASK_DEFINITION \<le> MAX_DEPTH
   \<and> collectFlowLeafIds = Inr flow_leaf_ids
   \<and> collectLeafIds TASK_DEFINITION = Inr collectTaskLeafIds
   \<and> list_all (\<lambda>n. getFlowNode (fn_id (node_data n)) = Inr (Some n)) (preorder FLOW_DEFINITION)
   \<and> list_all (\<lambda>n. getTaskNode (fn_id (node_data n)) = Inr (Some n)) (preorder TASK_DEFINITION)"
proof (intro conjI)
  show "list_all (\<lambda>n. new_FlowNode (node_data n) (node_children n) = Inr n) (preorder FLOW_DEFINITION @ preorder TASK_DEFINITION)"
    using flow_nodes_constructed task_nodes_constructed by simp
  show "distinct (map (fn_id \<circ> node_data) (preorder TASK_DEFINITION))" by (simp add: definition_defs)
  show "collectLeafIds TASK_DEFINITION = Inr collectTaskLeafIds"
    using task_leaves by (simp add: collectLeafIds_def MAX_DEPTH_def walk_ok collectTaskLeafIds_def)
  show "list_all (\<lambda>n. getFlowNode (fn_id (node_data n)) = Inr (Some n)) (preorder FLOW_DEFINITION)"
    by (simp add: list_all_iff getFlowNode_unique)
  show "list_all (\<lambda>n. getTaskNode (fn_id (node_data n)) = Inr (Some n)) (preorder TASK_DEFINITION)"
    by (simp add: list_all_iff getTaskNode_unique)
qed (simp_all add: flow_ids_distinct flow_leaves task_leaves MAX_DEPTH_def collectFlowLeafIds_eq)

text \<open>A branch is found for a leaf exactly when the leaf's id is one of its ids.\<close>

definition branch_ids :: "FlowNode \<Rightarrow> string list" where
  "branch_ids b = map (fn_id \<circ> node_data) (preorder [b])"

lemma in_branch:
  assumes "levels [b] \<le> 3" "node_children b \<noteq> None"
  shows "(if fn_id (node_data b) = i then Inr True else if node_children b = None then Inr False
     else bindE (resolveNodeFor [b] i) (\<lambda>r. Inr (r \<noteq> None))) = (Inr (i \<in> set (branch_ids b)) :: bool res)"
proof (cases "fn_id (node_data b) = i")
  case False
  have "find (\<lambda>n. fn_id (node_data n) = i) (preorder [b]) \<noteq> None \<longleftrightarrow> i \<in> set (branch_ids b)"
    unfolding find_ne_None branch_ids_def by auto
  then show ?thesis using False assms(2) by (auto simp: resolveNodeFor_ok [OF assms(1)])
qed (cases b; use assms(2) in \<open>auto simp: branch_ids_def\<close>)

lemma branch_index:
  assumes "list_all (\<lambda>b. levels [b] \<le> 3 \<and> node_children b \<noteq> None) ns"
  shows "findBranchIndexForLeaf ns i = Inr (if \<exists>b \<in> set ns. i \<in> set (branch_ids b)
    then Some (length (takeWhile (\<lambda>b. i \<notin> set (branch_ids b)) ns)) else None)"
  unfolding findBranchIndexForLeaf_def using assms
proof (induction ns)
  case (Cons b ns)
  then have "levels [b] \<le> 3" "node_children b \<noteq> None" by simp_all
  note step = in_branch [OF this, of i]
  show ?case unfolding first_index.simps step using Cons by auto
qed simp

lemma plan_branch: "map fn_id (leaves plan_steps) = take 23 flow_leaf_ids" "levels plan_steps = 1"
  "branch_ids (branch ''plan'' ''Plan'' plan_steps) = ''plan'' # take 23 flow_leaf_ids"
  by (simp_all add: branch_ids_def definition_defs flow_leaf_ids_def)

lemma impl_branch: "levels impl_steps = 2" "set (drop 23 flow_leaf_ids) \<subseteq> set (branch_ids (branch ''impl'' ''Implementation'' impl_steps))"
  by (simp_all add: branch_ids_def definition_defs flow_leaf_ids_def)

lemma flow_branch_ids: "i \<in> set (drop 23 flow_leaf_ids) \<Longrightarrow> i \<noteq> ''plan'' \<and> i \<notin> set (take 23 flow_leaf_ids)"
  unfolding flow_leaf_ids_def by (simp, elim disjE) simp_all

lemma plan_last: "map_option fn_id (getLastLeaf plan_steps) = Some ''test-gate''"
proof -
  have "last (map fn_id (leaves plan_steps)) = ''test-gate''" "leaves plan_steps \<noteq> []"
    using plan_branch(1) by (auto simp: flow_leaf_ids_def simp flip: map_is_Nil_conv [of fn_id])
  then show ?thesis by (simp add: getLastLeaf_last last_map)
qed

lemma flow_branches: "list_all (\<lambda>b. levels [b] \<le> 3 \<and> node_children b \<noteq> None) FLOW_DEFINITION"
  by (simp add: FLOW_DEFINITION_def branch_def plan_branch impl_branch)

text \<open>The prerequisites of a flow leaf are only the last leaf of each branch before its own: none for the
  leaves of the plan branch, and the single leaf \<^verbatim>\<open>test-gate\<close> for every leaf of the implementation branch,
  although twenty-three leaves come before it.  The comment of \<open>derivePrereqs\<close> promises all of them.\<close>

lemma flow_prereqs_exact:
  "list_all (\<lambda>i. derivePrereqs FLOW_DEFINITION i = Inr []) (take 23 flow_leaf_ids)
   \<and> list_all (\<lambda>i. derivePrereqs FLOW_DEFINITION i = Inr [''test-gate'']) (drop 23 flow_leaf_ids)"
proof -
  obtain x where last: "getLastLeaf plan_steps = Some x" "fn_id x = ''test-gate''" using plan_last by auto
  have kids: "node_children (branch i l cs) = Some cs" for i l cs by (simp add: branch_def)
  have "derivePrereqs FLOW_DEFINITION i = Inr []" if "i \<in> set (take 23 flow_leaf_ids)" for i
    unfolding derivePrereqs_def branch_index [OF flow_branches]
    using that by (simp add: FLOW_DEFINITION_def plan_branch(3))
  moreover have "derivePrereqs FLOW_DEFINITION i = Inr [''test-gate'']" if "i \<in> set (drop 23 flow_leaf_ids)" for i
    unfolding derivePrereqs_def branch_index [OF flow_branches]
    using flow_branch_ids [OF that] subsetD [OF impl_branch(2) that] last
    by (simp add: FLOW_DEFINITION_def plan_branch(3) kids)
  ultimately show ?thesis by (simp add: list_all_iff)
qed

subsection \<open>New and running flows\<close>

text \<open>A new flow starts at exactly one place: for every definition within the depth limit that has a leaf, the
  initial steps list the definition's leaves in document order, the first of them is the only one in progress and
  all others are pending, and the promotion step then has nothing to promote.\<close>

theorem initial_steps_frontier:
  assumes "levels ns \<le> 3" "leaves ns = x # xs"
  shows "flattenSteps (buildInitialNestedSteps ns) = Inr (\<lparr>step_id = fn_id x, step_status = ''in_progress''\<rparr> #
      map (\<lambda>y. \<lparr>step_id = fn_id y, step_status = ''pending''\<rparr>) xs)
    \<and> findInProgressLeaves (buildInitialNestedSteps ns) = Inr [\<lparr>step_id = fn_id x, step_status = ''in_progress''\<rparr>]
    \<and> promoteNextPendingLeaf (buildInitialNestedSteps ns) = Inr None
    \<and> levels (buildInitialNestedSteps ns) = levels ns"
  using initial_active [OF assms] assms by (simp add: flattenSteps_ok initial_levels initial_leaves)

theorem initial_steps_frontier_witness:
  "findInProgressLeaves (buildInitialNestedSteps FLOW_DEFINITION) = Inr [\<lparr>step_id = ''branch'', step_status = ''in_progress''\<rparr>]
   \<and> promoteNextPendingLeaf (buildInitialNestedSteps FLOW_DEFINITION) = Inr None"
proof -
  obtain x xs where l: "leaves FLOW_DEFINITION = x # xs" "fn_id x = ''branch''"
    using flow_leaves(1) unfolding flow_leaf_ids_def by (auto simp: map_eq_Cons_conv)
  show ?thesis using initial_steps_frontier [OF _ l(1)] l(2) flow_leaves(2) by simp
qed

text \<open>The position of a step in the flow.\<close>

definition at_position :: "step \<Rightarrow> nat \<Rightarrow> bool" where
  "at_position s i \<longleftrightarrow> i < length flow_leaf_ids \<and> flow_leaf_ids ! i = step_id s"

lemma at_position_iff: "at_position s i \<longleftrightarrow> index_of (step_id s) flow_leaf_ids = Some i"
  using index_of_nth [OF flow_leaf_ids_distinct, of i] index_of_Some [of "step_id s" flow_leaf_ids i] by (auto simp: at_position_def)

lemma index_of_None: "index_of x xs = None \<longleftrightarrow> x \<notin> set xs"
  by (simp add: index_of_def)

lemma flow_order:
  assumes "dom order = fn_id ` set (leaves FLOW_DEFINITION)"
    "\<forall>i < length (leaves FLOW_DEFINITION). order (fn_id (leaves FLOW_DEFINITION ! i)) = Some i"
  shows "order i = index_of i flow_leaf_ids"
proof (cases "index_of i flow_leaf_ids")
  case None
  have "dom order = set flow_leaf_ids" unfolding assms(1) flow_leaves(1) [symmetric] by simp
  moreover from None have "i \<notin> set flow_leaf_ids" by (simp add: index_of_None)
  ultimately show ?thesis using None domIff [of i order] by simp
next
  case (Some k)
  then have "k < length flow_leaf_ids" "flow_leaf_ids ! k = i" using index_of_Some by blast+
  then show ?thesis using assms(2) Some unfolding flow_leaves(1) [symmetric] by auto
qed

text \<open>Claim C18. The search for the active leaf of a flow is exact within its limits (three levels, five hundred nodes):
  it never throws; when some leaf in progress is not a leaf of the definition it returns the first such leaf;
  otherwise it returns a leaf in progress whose position in the definition is the greatest among all leaves in
  progress, and nothing exactly when no leaf is in progress.\<close>

theorem latest_in_progress_exact:
  assumes "levels steps \<le> 3" "length (preorder steps) \<le> 500"
  shows "\<exists>r. findLatestInProgressLeaf steps FLOW_DEFINITION = Inr r \<and>
    (case find (\<lambda>x. in_progress x \<and> step_id x \<notin> set flow_leaf_ids) (leaves steps) of
       Some u \<Rightarrow> r = Some u
     | None \<Rightarrow> (case r of
         None \<Rightarrow> \<forall>x \<in> set (leaves steps). \<not> in_progress x
       | Some s \<Rightarrow> s \<in> set (leaves steps) \<and> in_progress s \<and> (\<exists>i. at_position s i \<and>
           (\<forall>x \<in> set (leaves steps). \<forall>j. in_progress x \<and> at_position x j \<longrightarrow> j \<le> i))))"
proof -
  have d: "levels FLOW_DEFINITION \<le> 3" "distinct (map fn_id (leaves FLOW_DEFINITION))"
    by (simp_all add: flow_leaves flow_leaf_ids_distinct)
  obtain order r where o: "dom order = fn_id ` set (leaves FLOW_DEFINITION)"
      "\<forall>i < length (leaves FLOW_DEFINITION). order (fn_id (leaves FLOW_DEFINITION ! i)) = Some i"
    and f: "findLatestInProgressLeaf steps FLOW_DEFINITION =
      Inr (case find (\<lambda>x. in_progress x \<and> order (step_id x) = None) (leaves steps) of Some u \<Rightarrow> Some u | None \<Rightarrow> r)"
    and sel: "selects_latest order (leaves steps) r"
    by (rule latest_leaf [OF d assms]) blast
  have ord: "order i = None \<longleftrightarrow> i \<notin> set flow_leaf_ids" for i by (simp add: flow_order [OF o] index_of_None)
  have pos: "at_position x j \<longleftrightarrow> order (step_id x) = Some j" for x j by (simp add: flow_order [OF o] at_position_iff)
  show ?thesis
  proof (cases "find (\<lambda>x. in_progress x \<and> step_id x \<notin> set flow_leaf_ids) (leaves steps)")
    case None
    have all: "\<forall>x \<in> set (leaves steps). in_progress x \<longrightarrow> order (step_id x) \<noteq> None"
      using None by (simp add: find_None_iff ord)
    have "case r of None \<Rightarrow> \<forall>x \<in> set (leaves steps). \<not> in_progress x
       | Some s \<Rightarrow> s \<in> set (leaves steps) \<and> in_progress s \<and> (\<exists>i. at_position s i \<and>
           (\<forall>x \<in> set (leaves steps). \<forall>j. in_progress x \<and> at_position x j \<longrightarrow> j \<le> i))"
      using sel all unfolding pos selects_latest_def by (cases r) fastforce+
    then show ?thesis using f None by (simp add: ord)
  qed (simp add: f ord)
qed

definition active_pair :: steps where
  "active_pair = [Node \<lparr>step_id = ''plan'', step_status = ''in_progress''\<rparr> (Some
     [Node \<lparr>step_id = ''spec'', step_status = ''in_progress''\<rparr> None, Node \<lparr>step_id = ''draft'', step_status = ''in_progress''\<rparr> None])]"

theorem latest_in_progress_exact_witness:
  "levels active_pair \<le> 3 \<and> length (preorder active_pair) \<le> 500
   \<and> findLatestInProgressLeaf active_pair FLOW_DEFINITION = Inr (Some \<lparr>step_id = ''spec'', step_status = ''in_progress''\<rparr>)"
proof -
  have lim: "levels active_pair \<le> 3" "length (preorder active_pair) \<le> 500" by (simp_all add: active_pair_def)
  have leaf: "leaves active_pair = [\<lparr>step_id = ''spec'', step_status = ''in_progress''\<rparr>, \<lparr>step_id = ''draft'', step_status = ''in_progress''\<rparr>]"
    by (simp add: active_pair_def)
  have none: "find (\<lambda>x. in_progress x \<and> step_id x \<notin> set flow_leaf_ids) (leaves active_pair) = None"
    by (simp add: leaf flow_leaf_ids_def)
  have at: "at_position \<lparr>step_id = ''spec'', step_status = ''in_progress''\<rparr> i \<longleftrightarrow> i = 12"
      "at_position \<lparr>step_id = ''draft'', step_status = ''in_progress''\<rparr> i \<longleftrightarrow> i = 2" for i
    unfolding at_position_iff by (auto simp: index_of_def flow_leaf_ids_def)
  show ?thesis
    using latest_in_progress_exact [OF lim] lim at unfolding none by (auto simp: leaf in_progress_def split: option.splits)
qed

subsection \<open>Routes between leaves\<close>

text \<open>Claim C19. The effects of a route between any two leaves of the flow are total and exact.  A forward route skips
  exactly the leaves strictly between source and target, in order, and resets nothing; a route back, or to the source
  itself, skips nothing and resets exactly the leaves from the target to the end of the flow.  The variant that keeps its
  source skips nothing and resets the same leaves without the source.  No effect names an unexecuted completion.\<close>

theorem draft_route_effects_exact:
  assumes "s < length flow_leaf_ids" "t < length flow_leaf_ids"
  shows "draftRouteEffects (flow_leaf_ids ! s) (flow_leaf_ids ! t) =
      Inr \<lparr>rfx_skipStepIds = map ((!) flow_leaf_ids) [Suc s..<t],
           rfx_resetStepIds = (if s < t then [] else map ((!) flow_leaf_ids) [t..<length flow_leaf_ids]), sre_completions = []\<rparr>
    \<and> retainedSourceRouteEffects (flow_leaf_ids ! s) (flow_leaf_ids ! t) =
      Inr \<lparr>rfx_skipStepIds = [], rfx_resetStepIds = (if s < t then []
             else map ((!) flow_leaf_ids) (filter (\<lambda>i. i \<noteq> s) [t..<length flow_leaf_ids])), sre_completions = []\<rparr>"
proof -
  have "drop t flow_leaf_ids = map ((!) flow_leaf_ids) [t..<length flow_leaf_ids]"
    using drop_upt [of "length flow_leaf_ids" flow_leaf_ids t] by simp
  then show ?thesis
    unfolding draftRouteEffects_nth [OF assms] retainedSourceRouteEffects_nth [OF assms] using assms(2) by (simp add: drop_upt)
qed

theorem draft_route_effects_exact_witness:
  "draftRouteEffects ''draft-questions-review'' ''draft-refine'' =
     Inr \<lparr>rfx_skipStepIds = [''draft-questions-triage'', ''draft-questions-repair''], rfx_resetStepIds = [], sre_completions = []\<rparr>
   \<and> retainedSourceRouteEffects ''finalize-cleanup'' ''finalize-merge'' =
     Inr \<lparr>rfx_skipStepIds = [], rfx_resetStepIds = [''finalize-merge'', ''finalize-sync''], sre_completions = []\<rparr>"
  using draft_route_effects_exact [of 3 6] draft_route_effects_exact [of 38 36] by (simp add: flow_leaf_ids_def upt_rec)

end
