(* ===== verification/Current_Definition.thy ===== *)
theory Current_Definition
  imports Node_Contract Flow_Properties "HOL-Library.Sublist"
begin

section \<open>The definition of the canonical state\<close>

text \<open>
  \<open>buildCurrentFlowDefinition\<close> of \<open>definition.js\<close> adapts the definition trees to the typed nodes of
  \<open>lib/current-flow-state.js\<close>: every leaf receives its contract (transitions, retry budgets, resources,
  authorities) and its action.  \<open>FlowDefinitionNode\<close> and \<open>CurrentFlowDefinition\<close> check the result.
\<close>

subsection \<open>Definition nodes\<close>

datatype definition_node = DefNode (dn_kind: string) (dn_id: string) (dn_key: string) (dn_contract: NodeContract)
  (dn_action: "DefinitionAction option") (dn_steps: "definition_node list")

definition leaf_checks :: "string \<Rightarrow> NodeContract \<Rightarrow> DefinitionAction \<Rightarrow> unit res" where
  "leaf_checks i contract action = (case dac_failurePolicy action of
     None \<Rightarrow> Inl (Error (''definition leaf requires an explicit failure policy: '' @ i))
   | Some p \<Rightarrow>
       if dfp_value p \<in> set RECORDING_FAILURE_POLICIES \<and> \<not> permits contract ''in_progress'' ''failed''
       then Inl (Error (''recording failure policy requires an in_progress:failed transition: '' @ i))
       else if dfp_value p \<notin> set RECORDING_FAILURE_POLICIES \<and> permits contract ''in_progress'' ''failed''
       then Inl (Error (''non-recording failure policy forbids an in_progress:failed transition: '' @ i))
       else if dac_maxAttempts action \<noteq> nct_semanticRetryLimit contract + 1
       then Inl (Error (''definition action maxAttempts must equal semanticRetryLimit + 1: '' @ i))
       else if dac_contextKinds action \<noteq> rct_required (nct_resourceContract contract)
       then Inl (Error (''definition action contextKinds must equal required resource contract: '' @ i))
       else Inr ())"

definition new_FlowDefinitionNode :: "string \<Rightarrow> string \<Rightarrow> string \<Rightarrow> definition_node list \<Rightarrow> NodeContract \<Rightarrow> DefinitionAction option
    \<Rightarrow> definition_node res" where
  "new_FlowDefinitionNode kind i key steps contract action =
     (if kind \<notin> set NODE_KINDS then Inl (Error (''definition.kind is invalid: '' @ kind)) else
      bindE (cfs_text ''definition.id'' i) (\<lambda>_.
      bindE (cfs_text ''definition.key'' key) (\<lambda>_.
      bindE (case action of None \<Rightarrow> Inr None | Some a \<Rightarrow> bindE (new_DefinitionAction a) (\<lambda>a. Inr (Some a))) (\<lambda>action.
      bindE (if steps = [] then (case action of
            None \<Rightarrow> Inl (Error (''definition leaf requires action metadata: '' @ i))
          | Some a \<Rightarrow> leaf_checks i contract a)
        else if action \<noteq> None then Inl (Error (''definition branch must not carry action metadata: '' @ i))
        else if list_ex (\<lambda>t. ends_with t '':failed'') (nct_transitions contract)
        then Inl (Error (''definition branch cannot transition to failed: '' @ i))
        else Inr ()) (\<lambda>_.
      Inr (DefNode kind i key contract action steps))))))"

fun collectDefinitionNodes :: "definition_node list \<Rightarrow> definition_node list" where
  "collectDefinitionNodes [] = []"
| "collectDefinitionNodes (DefNode kind i key c a steps # ns) =
     DefNode kind i key c a steps # collectDefinitionNodes steps @ collectDefinitionNodes ns"

subsection \<open>The definition value\<close>

record CurrentFlowDefinition =
  cfd_root :: definition_node
  cfd_taskTemplate :: definition_node
  cfd_dynamicTaskContainerId :: string
  cfd_dynamicTaskInsertionAfterId :: string

fun duplicate_id :: "string list \<Rightarrow> definition_node list \<Rightarrow> unit res" where
  "duplicate_id seen [] = Inr ()"
| "duplicate_id seen (n # ns) = (if dn_id n \<in> set seen
     then Inl (Error (''definition duplicates stable id: '' @ dn_id n)) else duplicate_id (dn_id n # seen) ns)"

fun template_checks :: "bool \<Rightarrow> string list \<Rightarrow> string list \<Rightarrow> definition_node list \<Rightarrow> unit res" where
  "template_checks isRoot ids keys [] = Inr ()"
| "template_checks isRoot ids keys (n # ns) =
     (if dn_id n \<in> set ids then Inl (Error (''definition task template duplicates relative id: '' @ dn_id n))
      else if dn_key n \<in> set keys then Inl (Error (''definition task template duplicates semantic key: '' @ dn_key n))
      else if \<not> isRoot \<and> dn_kind n \<noteq> ''step'' then Inl (Error ''definition Task descendants must be Step nodes'')
      else template_checks False (dn_id n # ids) (dn_key n # keys) ns)"

definition definition_leaves :: "definition_node list \<Rightarrow> definition_node list" where
  "definition_leaves ns = filter (\<lambda>n. dn_steps n = []) ns"

definition failure_target :: "definition_node \<Rightarrow> string option" where
  "failure_target n = (case dn_action n of None \<Rightarrow> None | Some a \<Rightarrow>
     (case dac_failurePolicy a of None \<Rightarrow> None | Some p \<Rightarrow> dfp_targetNodeId p))"

text \<open>Positions are doubled so that the insertion point, half way behind its anchor, is an integer.\<close>

definition leaf_position :: "definition_node list \<Rightarrow> string \<Rightarrow> int" where
  "leaf_position lvs i = (case index_of i (map dn_id lvs) of None \<Rightarrow> - 2 | Some k \<Rightarrow> 2 * int k)"

definition target_check :: "definition_node list \<Rightarrow> int \<Rightarrow> definition_node \<Rightarrow> unit res" where
  "target_check lvs position source = (case failure_target source of None \<Rightarrow> Inr () | Some t \<Rightarrow>
     (case find (\<lambda>n. dn_id n = t) lvs of
        None \<Rightarrow> Inl (Error (''definition failure policy target must identify a static leaf: '' @ t))
      | Some n \<Rightarrow> if position \<le> leaf_position lvs t \<or> \<not> permits (dn_contract n) ''done'' ''in_progress''
          then Inl (Error (''definition failure policy target must be an earlier rewindable leaf: '' @ t))
          else Inr ()))"

fun eachE :: "('a \<Rightarrow> unit res) \<Rightarrow> 'a list \<Rightarrow> unit res" where
  "eachE f [] = Inr ()"
| "eachE f (x # xs) = bindE (f x) (\<lambda>_. eachE f xs)"

lemma eachE_ok: "eachE f xs = Inr () \<longleftrightarrow> (\<forall>x \<in> set xs. f x = Inr ())"
  by (induction xs) auto

definition new_CurrentFlowDefinition :: "definition_node \<Rightarrow> definition_node \<Rightarrow> string \<Rightarrow> string \<Rightarrow> CurrentFlowDefinition res" where
  "new_CurrentFlowDefinition root template containerId afterId =
     (if dn_kind root \<noteq> ''flow'' then Inl (Error ''definition.root.kind must be flow'')
      else if dn_kind template \<noteq> ''task'' then Inl (Error ''definition.taskTemplate.kind must be task'') else
      bindE (cfs_text ''definition.dynamicTaskContainerId'' containerId) (\<lambda>_.
      bindE (cfs_text ''definition.dynamicTaskInsertionAfterId'' afterId) (\<lambda>_.
      let static = collectDefinitionNodes [root]; templates = collectDefinitionNodes [template]; lvs = definition_leaves static in
      bindE (duplicate_id [] static) (\<lambda>_.
      bindE (template_checks True [] [] templates) (\<lambda>_.
      case find (\<lambda>n. dn_id n = containerId) static of
        None \<Rightarrow> Inl (Error ''definition.dynamicTaskContainerId must identify a static node'')
      | Some container \<Rightarrow> (case find (\<lambda>n. dn_id n = afterId) (dn_steps container) of
          None \<Rightarrow> Inl (Error ''definition.dynamicTaskInsertionAfterId must identify a direct dynamic-container child'')
        | Some anchor \<Rightarrow>
            let anchorLeaves = definition_leaves (collectDefinitionNodes [anchor]);
                insertion = (if anchorLeaves = [] then - 1 else leaf_position lvs (dn_id (last anchorLeaves)) + 1) in
            bindE (eachE (\<lambda>n. target_check lvs (leaf_position lvs (dn_id n)) n) static) (\<lambda>_.
            bindE (eachE (target_check lvs insertion) templates) (\<lambda>_.
            Inr \<lparr>cfd_root = root, cfd_taskTemplate = template, cfd_dynamicTaskContainerId = containerId,
              cfd_dynamicTaskInsertionAfterId = afterId\<rparr>))))))))"

subsection \<open>Adapting the flow definition\<close>

definition ADVISORY_SKIPPABLE_LEAF_IDS :: "string list" where
  "ADVISORY_SKIPPABLE_LEAF_IDS = [''branch'', ''draft-questions-triage'', ''draft-questions-repair'', ''draft-coverage-triage'',
     ''draft-coverage-repair'', ''acceptance-decision'']"

definition definitionNodeIsSkippable :: "string \<Rightarrow> string \<Rightarrow> bool res" where
  "definitionNodeIsSkippable scope stepId = bindE (scopeNode scope stepId) (\<lambda>n.
     Inr ((case n of None \<Rightarrow> False | Some n \<Rightarrow> fn_skippable (node_data n)) \<or> stepId \<in> set ADVISORY_SKIPPABLE_LEAF_IDS))"

definition isConditionalDraftWorkerStep :: "string \<Rightarrow> bool" where
  "isConditionalDraftWorkerStep stepId \<longleftrightarrow> stepId \<in> {''draft-refine'', ''draft-gate-repair''}"

record transition_flags =
  tfl_skippable :: bool
  tfl_triageNoRepair :: bool
  tfl_taskStageBypass :: bool
  tfl_draftReviewBypass :: bool
  tfl_gateRepairBypass :: bool
  tfl_conditionalWorker :: bool
  tfl_requirementTestInitialization :: bool
  tfl_taskOverrunRecovery :: bool
  tfl_existingImplementation :: bool
  tfl_finalizationRoute :: bool
  tfl_failurePolicy :: "string option"

definition bypass :: "bool \<Rightarrow> string list" where
  "bypass b = (if b then [''pending:skipped'', ''invalidated:skipped''] else [])"

definition transitionsFor :: "transition_flags \<Rightarrow> string list" where
  "transitionsFor f =
     [''pending:in_progress'', ''in_progress:done'']
     @ (if tfl_skippable f then [''in_progress:skipped''] else [])
     @ bypass (tfl_triageNoRepair f)
     @ bypass (tfl_taskStageBypass f)
     @ bypass (tfl_draftReviewBypass f)
     @ bypass (tfl_gateRepairBypass f)
     @ bypass (tfl_conditionalWorker f)
     @ bypass (tfl_requirementTestInitialization f)
     @ (if tfl_taskOverrunRecovery f then [''invalidated:done''] else [])
     @ (if tfl_existingImplementation f then [''pending:done''] else [])
     @ (if tfl_finalizationRoute f then [''pending:skipped'', ''skipped:pending''] else [])
     @ (if tfl_failurePolicy f \<in> {Some ''retry'', Some ''record'', Some ''step-definition''}
        then [''in_progress:failed'', ''failed:in_progress'', ''failed:invalidated''] else [])
     @ [''done:in_progress'', ''skipped:in_progress'', ''invalidated:in_progress'', ''pending:invalidated'',
        ''in_progress:invalidated'', ''done:invalidated'', ''skipped:invalidated'']"

definition no_flags :: transition_flags where
  "no_flags = \<lparr>tfl_skippable = False, tfl_triageNoRepair = False, tfl_taskStageBypass = False, tfl_draftReviewBypass = False,
     tfl_gateRepairBypass = False, tfl_conditionalWorker = False, tfl_requirementTestInitialization = False,
     tfl_taskOverrunRecovery = False, tfl_existingImplementation = False, tfl_finalizationRoute = False, tfl_failurePolicy = None\<rparr>"

definition node_flags :: "node_info \<Rightarrow> string \<Rightarrow> bool \<Rightarrow> transition_flags" where
  "node_flags n scope skippable =
     \<lparr>tfl_skippable = skippable,
      tfl_triageNoRepair = (fn_id n = ''impl-repair''),
      tfl_taskStageBypass = (scope = ''task'' \<and> fn_id n \<in> {''task-triage'', ''task-repair'', ''task-gate''}),
      tfl_draftReviewBypass = (scope = ''flow'' \<and> fn_id n \<in> {drr_triageStepId DRAFT_QUESTIONS_ROUTE, drr_repairStepId DRAFT_QUESTIONS_ROUTE,
         drr_triageStepId DRAFT_COVERAGE_ROUTE, drr_repairStepId DRAFT_COVERAGE_ROUTE}),
      tfl_gateRepairBypass = (fn_id n = ''spec-gate-repair''),
      tfl_conditionalWorker = isConditionalDraftWorkerStep (fn_id n),
      tfl_requirementTestInitialization = (fn_id n \<in> set REQUIREMENT_TEST_LEAF_IDS),
      tfl_taskOverrunRecovery = (scope = ''task'' \<and> fn_id n \<in> {''task-review'', ''task-triage'', ''task-repair''}),
      tfl_existingImplementation = (fn_id n = ''implement''),
      tfl_finalizationRoute = (fn_id n \<in> {''finalize-sync'', ''finalize-cleanup''}),
      tfl_failurePolicy = fn_failurePolicy n\<rparr>"

definition completion_authorities :: "node_info \<Rightarrow> string \<Rightarrow> UnexecutedStepCompletionAuthority list res" where
  "completion_authorities n scope =
     (if scope = ''flow'' \<and> fn_id n \<in> set IMPL_REVIEW_UNEXECUTED_COMPLETION_LEAF_IDS
      then bindE (new_UnexecutedStepCompletionAuthority ''impl-review'' [''impl-review-passed'', ''impl-review-advisory'', ''impl-review-tooling''])
        (\<lambda>a. Inr [a])
      else if scope = ''flow'' \<and> fn_id n = ''acceptance-decision''
      then bindE (new_UnexecutedStepCompletionAuthority ''acceptance-review'' [''acceptance-review-passed'']) (\<lambda>a. Inr [a])
      else Inr [])"

definition route_skip_authorities :: "node_info \<Rightarrow> string \<Rightarrow> UnexecutedStepCompletionAuthority list res" where
  "route_skip_authorities n scope =
     (if scope = ''flow'' \<and> fn_id n = ''impl-repair''
      then bindE (new_UnexecutedStepCompletionAuthority ''impl-triage'' [''impl-triage-gate-required'']) (\<lambda>a. Inr [a])
      else Inr [])"

definition retained_authorities :: "node_info \<Rightarrow> string \<Rightarrow> RetainedRouteSourceAuthority list res" where
  "retained_authorities n scope =
     (if scope = ''flow'' \<and> fn_id n = ''impl-repair''
      then bindE (retainedSourceRouteEffects ''impl-repair'' ''test-execute'') (\<lambda>e.
        bindE (new_RetainedRouteSourceAuthority False ''impl-repair'' ''test-execute'' [''impl-repair-applied'', ''impl-repair-quality-issue'']
          (rfx_resetStepIds e)) (\<lambda>a. Inr [a]))
      else if scope = ''flow'' \<and> fn_id n = ''retro''
      then bindE (retainedSourceRouteEffects ''retro'' ''test-execute'') (\<lambda>e.
        bindE (new_RetainedRouteSourceAuthority True ''retro'' ''test-execute'' [''retro-evidence-refresh''] (rfx_resetStepIds e)) (\<lambda>a. Inr [a]))
      else Inr [])"

definition transitionContract :: "node_info \<Rightarrow> string \<Rightarrow> NodeContract res" where
  "transitionContract n scope =
     bindE (completion_authorities n scope) (\<lambda>completion.
     bindE (route_skip_authorities n scope) (\<lambda>skips.
     bindE (retained_authorities n scope) (\<lambda>retained.
     bindE (definitionNodeIsSkippable scope (fn_id n)) (\<lambda>skippable.
     new_NodeContract
       \<lparr>nct_semanticRetryLimit = resolve_attempts (fn_maxAttempts n) False - 1,
        nct_toolingRetryLimit = map_option (\<lambda>m. resolve_attempts m False) (fn_toolingMaxAttempts n),
        nct_transitions = transitionsFor (node_flags n scope skippable),
        nct_resourceContract = \<lparr>rct_required = fn_contextKinds n\<rparr>,
        nct_completionAuthorities = completion, nct_routeSkipAuthorities = skips, nct_retainedAuthorities = retained\<rparr>))))"

definition actionMetadata :: "node_info \<Rightarrow> string list \<Rightarrow> DefinitionAction res" where
  "actionMetadata n sourceScopes =
     bindE (new_DefinitionFailurePolicy (case fn_failurePolicy n of None \<Rightarrow> ''block'' | Some p \<Rightarrow> p) (fn_failureTargetId n)) (\<lambda>p.
     Inr \<lparr>dac_action = fn_action n, dac_instructionsKey = fn_instructionsKey n, dac_contextKinds = fn_contextKinds n,
       dac_outputSchemaRef = fn_outputSchemaRef n, dac_requiresApproval = fn_requiresApproval n,
       dac_autoApproveChoiceId = fn_autoApproveChoiceId n, dac_maxAttempts = resolve_attempts (fn_maxAttempts n) False,
       dac_sideEffects = fn_sideEffects n, dac_failurePolicy = Some p,
       dac_executionCommand = map_option command_toString (fn_executionCommand n),
       dac_failureOwnership = fn_failureOwnership n, dac_artifactAuthority = \<lparr>aap_sourceScopes = sourceScopes\<rparr>\<rparr>)"

definition node_key :: "node_info \<Rightarrow> string" where
  "node_key n = (case fn_instructionsKey n of None \<Rightarrow> fn_id n | Some k \<Rightarrow> if k = [] then fn_id n else k)"

definition adapt_leaf :: "string list \<Rightarrow> string \<Rightarrow> node_info \<Rightarrow> definition_node res" where
  "adapt_leaf sourceScopes scope n =
     bindE (transitionContract n scope) (\<lambda>contract.
     bindE (actionMetadata n sourceScopes) (\<lambda>action.
     new_FlowDefinitionNode ''step'' (fn_id n) (node_key n) [] contract (Some action)))"

fun adapt :: "string list \<Rightarrow> string \<Rightarrow> FlowNode list \<Rightarrow> definition_node list res" where
  "adapt sourceScopes scope [] = Inr []"
| "adapt sourceScopes scope (Node n None # ns) =
     bindE (adapt_leaf sourceScopes scope n) (\<lambda>d. bindE (adapt sourceScopes scope ns) (\<lambda>ds. Inr (d # ds)))"
| "adapt sourceScopes scope (Node n (Some cs) # ns) =
     bindE (transitionContract n scope) (\<lambda>contract.
     bindE (adapt sourceScopes scope cs) (\<lambda>steps.
     bindE (new_FlowDefinitionNode ''step'' (fn_id n) (node_key n) steps contract None) (\<lambda>d.
     bindE (adapt sourceScopes scope ns) (\<lambda>ds. Inr (d # ds)))))"

definition root_contract :: "NodeContract res" where
  "root_contract = new_NodeContract \<lparr>nct_semanticRetryLimit = 0, nct_toolingRetryLimit = None,
     nct_transitions = transitionsFor no_flags, nct_resourceContract = \<lparr>rct_required = []\<rparr>, nct_completionAuthorities = [],
     nct_routeSkipAuthorities = [], nct_retainedAuthorities = []\<rparr>"

definition buildCurrentFlowDefinition :: "CurrentFlowDefinition res" where
  "buildCurrentFlowDefinition =
     bindE root_contract (\<lambda>contract.
     bindE (adapt [''all_tasks'', ''flow''] ''flow'' FLOW_DEFINITION) (\<lambda>steps.
     bindE (new_FlowDefinitionNode ''flow'' ''flow'' ''flow'' steps contract None) (\<lambda>root.
     bindE (adapt [''same_task'', ''flow''] ''task'' TASK_DEFINITION) (\<lambda>taskSteps.
     bindE (new_FlowDefinitionNode ''task'' ''task'' ''task'' taskSteps contract None) (\<lambda>template.
     new_CurrentFlowDefinition root template ''impl'' ''implement'')))))"

subsection \<open>The transitions of a contract\<close>

definition exclusive :: "transition_flags \<Rightarrow> bool" where
  "exclusive f \<longleftrightarrow> (let bs = filter (\<lambda>b. b) [tfl_triageNoRepair f, tfl_taskStageBypass f, tfl_draftReviewBypass f, tfl_gateRepairBypass f,
     tfl_conditionalWorker f, tfl_requirementTestInitialization f] in length bs \<le> 1 \<and> (tfl_finalizationRoute f \<longrightarrow> bs = []))"

lemma distinct_subseq: "subseq xs ys \<Longrightarrow> distinct ys \<Longrightarrow> distinct xs"
  by (auto simp: subseq_conv_nths distinct_nthsI)

lemma set_subseq: "subseq xs ys \<Longrightarrow> set xs \<subseteq> set ys"
  by (auto simp: subseq_conv_nths dest: in_set_nthsD)

lemma subseq_if: "subseq (if b then xs else []) xs"
  by simp

definition all_transitions :: "bool \<Rightarrow> string list" where
  "all_transitions final = [''pending:in_progress'', ''in_progress:done''] @ [''in_progress:skipped'']
     @ (if final then [] else [''pending:skipped'', ''invalidated:skipped'']) @ [''invalidated:done''] @ [''pending:done'']
     @ (if final then [''pending:skipped'', ''skipped:pending''] else [])
     @ [''in_progress:failed'', ''failed:in_progress'', ''failed:invalidated'']
     @ [''done:in_progress'', ''skipped:in_progress'', ''invalidated:in_progress'', ''pending:invalidated'',
        ''in_progress:invalidated'', ''done:invalidated'', ''skipped:invalidated'']"

lemma all_transitions_ok: "distinct (all_transitions b)" "list_all transition_shape (all_transitions b)"
  "list_all (\<lambda>t. fst (split_transition t) \<in> set CANONICAL_NODE_STATUSES \<and> snd (split_transition t) \<in> set CANONICAL_NODE_STATUSES) (all_transitions b)"
  by (cases b; simp add: all_transitions_def transition_shape_def split_transition_def lower_char_def between_def less_eq_char_def CANONICAL_NODE_STATUSES_def)+

lemma transitionsFor_subseq: "exclusive f \<Longrightarrow> subseq (transitionsFor f) (all_transitions (tfl_finalizationRoute f))"
proof -
  assume ex: "exclusive f"
  let ?six = "bypass (tfl_triageNoRepair f) @ bypass (tfl_taskStageBypass f) @ bypass (tfl_draftReviewBypass f) @ bypass (tfl_gateRepairBypass f)
     @ bypass (tfl_conditionalWorker f) @ bypass (tfl_requirementTestInitialization f)"
  have six: "subseq ?six (if tfl_finalizationRoute f then [] else [''pending:skipped'', ''invalidated:skipped''])"
    using ex unfolding exclusive_def bypass_def Let_def by (auto split: if_splits)
  have "transitionsFor f = [''pending:in_progress'', ''in_progress:done''] @ (if tfl_skippable f then [''in_progress:skipped''] else [])
     @ ?six @ (if tfl_taskOverrunRecovery f then [''invalidated:done''] else [])
     @ (if tfl_existingImplementation f then [''pending:done''] else [])
     @ (if tfl_finalizationRoute f then [''pending:skipped'', ''skipped:pending''] else [])
     @ (if tfl_failurePolicy f \<in> {Some ''retry'', Some ''record'', Some ''step-definition''}
        then [''in_progress:failed'', ''failed:in_progress'', ''failed:invalidated''] else [])
     @ [''done:in_progress'', ''skipped:in_progress'', ''invalidated:in_progress'', ''pending:invalidated'',
        ''in_progress:invalidated'', ''done:invalidated'', ''skipped:invalidated'']"
    by (simp only: transitionsFor_def append_assoc)
  then show ?thesis
    unfolding all_transitions_def by (simp only:) (intro list_emb_append_mono subseq_if six subseq_order.order_refl)
qed

lemma transitionsFor_ok:
  assumes "exclusive f"
  shows "distinct (transitionsFor f)" "list_all transition_shape (transitionsFor f)"
    "list_all (\<lambda>t. fst (split_transition t) \<in> set CANONICAL_NODE_STATUSES \<and> snd (split_transition t) \<in> set CANONICAL_NODE_STATUSES) (transitionsFor f)"
proof -
  note sub = transitionsFor_subseq [OF assms]
  show "distinct (transitionsFor f)" by (rule distinct_subseq [OF sub all_transitions_ok(1)])
  show "list_all transition_shape (transitionsFor f)"
    using all_transitions_ok(2) set_subseq [OF sub] unfolding list_all_iff by blast
  show "list_all (\<lambda>t. fst (split_transition t) \<in> set CANONICAL_NODE_STATUSES \<and> snd (split_transition t) \<in> set CANONICAL_NODE_STATUSES) (transitionsFor f)"
    using all_transitions_ok(3) set_subseq [OF sub] unfolding list_all_iff by blast
qed

lemma transitionsFor_failed:
  "''in_progress:failed'' \<in> set (transitionsFor f) \<longleftrightarrow> tfl_failurePolicy f \<in> {Some ''retry'', Some ''record'', Some ''step-definition''}"
  by (simp add: transitionsFor_def bypass_def)

lemma transitionsFor_rewindable: "''done:in_progress'' \<in> set (transitionsFor f)"
  by (simp add: transitionsFor_def)

lemma transitionsFor_never_failed:
  "exclusive f \<Longrightarrow> tfl_failurePolicy f = None \<Longrightarrow> \<not> list_ex (\<lambda>t. ends_with t '':failed'') (transitionsFor f)"
proof -
  assume f: "exclusive f" "tfl_failurePolicy f = None"
  have all: "list_all (\<lambda>t. t = ''in_progress:failed'' \<or> \<not> ends_with t '':failed'') (all_transitions b)" for b
    by (cases b) (simp_all add: all_transitions_def ends_with_def)
  have no: "''in_progress:failed'' \<notin> set (transitionsFor f)" using transitionsFor_failed [of f] f(2) by simp
  show ?thesis
  proof
    assume "list_ex (\<lambda>t. ends_with t '':failed'') (transitionsFor f)"
    then obtain t where t: "t \<in> set (transitionsFor f)" "ends_with t '':failed''" unfolding list_ex_iff by blast
    then have "t \<in> set (all_transitions (tfl_finalizationRoute f))" using set_subseq [OF transitionsFor_subseq [OF f(1)]] by blast
    then have "t = ''in_progress:failed''" using all [of "tfl_finalizationRoute f"] t(2) unfolding list_all_iff by blast
    then show False using no t(1) by blast
  qed
qed

subsection \<open>Adapting a node\<close>

definition authorities :: "'a list res \<Rightarrow> 'a list" where
  "authorities m = (case m of Inr xs \<Rightarrow> xs | Inl _ \<Rightarrow> [])"

definition skippable_node :: "node_info \<Rightarrow> string \<Rightarrow> bool" where
  "skippable_node n scope = (case definitionNodeIsSkippable scope (fn_id n) of Inr b \<Rightarrow> b | Inl _ \<Rightarrow> False)"

definition contract_of :: "node_info \<Rightarrow> string \<Rightarrow> NodeContract" where
  "contract_of n scope = \<lparr>nct_semanticRetryLimit = resolve_attempts (fn_maxAttempts n) False - 1,
     nct_toolingRetryLimit = map_option (\<lambda>m. resolve_attempts m False) (fn_toolingMaxAttempts n),
     nct_transitions = transitionsFor (node_flags n scope (skippable_node n scope)),
     nct_resourceContract = \<lparr>rct_required = fn_contextKinds n\<rparr>,
     nct_completionAuthorities = authorities (completion_authorities n scope),
     nct_routeSkipAuthorities = authorities (route_skip_authorities n scope),
     nct_retainedAuthorities = authorities (retained_authorities n scope)\<rparr>"

definition attempts_ok :: "max_attempts \<Rightarrow> bool" where
  "attempts_ok m \<longleftrightarrow> 1 \<le> resolve_attempts m False \<and> resolve_attempts m False \<le> 100"

definition contract_ready :: "node_info \<Rightarrow> string \<Rightarrow> bool" where
  "contract_ready n scope \<longleftrightarrow> exclusive (node_flags n scope False) \<and> attempts_ok (fn_maxAttempts n) \<and>
     pred_option attempts_ok (fn_toolingMaxAttempts n) \<and> list_all (\<lambda>s. js_trim s \<noteq> []) (fn_contextKinds n) \<and> distinct (fn_contextKinds n)"

lemma exclusive_skippable: "exclusive (node_flags n scope b) \<longleftrightarrow> exclusive (node_flags n scope c)"
  by (simp add: exclusive_def node_flags_def)

lemma completion_text_id: "is_text s \<Longrightarrow> completion_text f (JStr s) = Inr s"
  by (simp add: completion_text_def is_text_def)

lemma authorityResultKinds_ok: "ks \<noteq> [] \<Longrightarrow> list_all is_text ks \<Longrightarrow> distinct ks \<Longrightarrow> authorityResultKinds f ks = Inr ks"
proof -
  assume ks: "ks \<noteq> []" "list_all is_text ks" "distinct ks"
  then have "mapE (\<lambda>k. completion_text (f @ '' Result kind'') (JStr k)) ks = Inr (map (\<lambda>k. k) ks)"
    by (intro mapE_Inr_map) (auto simp: completion_text_id list_all_iff)
  then show ?thesis using ks by (simp add: authorityResultKinds_def)
qed

lemma flow_leaf_texts: "list_all is_text flow_leaf_ids"
  by (simp add: flow_leaf_ids_def is_text_def js_trim_def js_ws_def)

lemma completion_authorities_ok: "\<exists>xs. completion_authorities n scope = Inr xs" "\<exists>xs. route_skip_authorities n scope = Inr xs"
  by (simp_all add: completion_authorities_def route_skip_authorities_def new_UnexecutedStepCompletionAuthority_def
      authorityResultKinds_ok completion_text_id is_text_def js_trim_def js_ws_def)

lemma retained_resets:
  assumes "t < s" "s < length flow_leaf_ids"
  shows "\<exists>e. retainedSourceRouteEffects (flow_leaf_ids ! s) (flow_leaf_ids ! t) = Inr e \<and>
    authorityResultKinds f (rfx_resetStepIds e) = Inr (rfx_resetStepIds e)"
proof -
  let ?is = "filter (\<lambda>i. i \<noteq> s) [t..<length flow_leaf_ids]"
  let ?r = "map ((!) flow_leaf_ids) ?is"
  have "t \<in> set ?is" using assms by simp
  then have "?r \<noteq> []" by (auto simp: filter_empty_conv)
  moreover have "list_all is_text ?r" using flow_leaf_texts by (auto simp: list_all_iff)
  moreover have "distinct ?r"
    using flow_leaf_ids_distinct by (auto simp: distinct_map inj_on_def nth_eq_iff_index_eq)
  ultimately have "authorityResultKinds f ?r = Inr ?r" by (rule authorityResultKinds_ok)
  then show ?thesis using retainedSourceRouteEffects_nth [of s t] assms by simp
qed

lemma retained_authorities_ok: "\<exists>xs. retained_authorities n scope = Inr xs"
proof -
  have ids: "flow_leaf_ids ! 24 = ''test-execute''" "flow_leaf_ids ! 28 = ''impl-repair''" "flow_leaf_ids ! 30 = ''retro''"
    "length flow_leaf_ids = 39" by (simp_all add: flow_leaf_ids_def)
  note simps = new_RetainedRouteSourceAuthority_def authorityResultKinds_ok completion_text_id is_text_def js_trim_def js_ws_def
  show ?thesis
    using retained_resets [of 24 28 "''retained source reset Steps''"] retained_resets [of 24 30 "''retained source reset Steps''"]
    by (auto simp: ids retained_authorities_def simps)
qed

lemma scopeNode_ok: "\<exists>r. scopeNode scope i = Inr r"
  by (simp add: scopeNode_def getTaskNode_def getFlowNode_def resolveNodeFor_ok flow_leaves task_leaves)

lemma transitionContract_ok:
  assumes "contract_ready n scope"
  shows "transitionContract n scope = Inr (contract_of n scope)"
proof -
  obtain xs ys zs b where a: "completion_authorities n scope = Inr xs" "route_skip_authorities n scope = Inr ys"
    "retained_authorities n scope = Inr zs" "definitionNodeIsSkippable scope (fn_id n) = Inr b"
    using completion_authorities_ok retained_authorities_ok scopeNode_ok [of scope "fn_id n"]
    by (metis definitionNodeIsSkippable_def bindE.simps(2))
  have ex: "exclusive (node_flags n scope b)" using assms exclusive_skippable [of n scope False b] by (simp add: contract_ready_def)
  have lim: "cfs_integer f 0 (resolve_attempts (fn_maxAttempts n) False - 1) = Inr ()"
    "(case map_option (\<lambda>m. resolve_attempts m False) (fn_toolingMaxAttempts n) of None \<Rightarrow> Inr () | Some n \<Rightarrow> cfs_integer g 0 n) = Inr ()" for f g
    using assms by (auto simp: contract_ready_def attempts_ok_def cfs_integer_ok max_safe_def split: option.split)
  have "new_ResourceContract (fn_contextKinds n) = Inr \<lparr>rct_required = fn_contextKinds n\<rparr>"
    using assms by (simp add: new_ResourceContract_def contract_ready_def cfs_strings_ok)
  with lim transitionsFor_ok [OF ex] a show ?thesis
    by (simp add: transitionContract_def new_NodeContract_def contract_of_def authorities_def skippable_node_def del: bindE_eq_Inr)
qed

definition policy_of :: "node_info \<Rightarrow> DefinitionFailurePolicy" where
  "policy_of n = \<lparr>dfp_value = (case fn_failurePolicy n of None \<Rightarrow> ''block'' | Some p \<Rightarrow> p), dfp_targetNodeId = fn_failureTargetId n\<rparr>"

definition action_of :: "node_info \<Rightarrow> string list \<Rightarrow> DefinitionAction" where
  "action_of n scopes = \<lparr>dac_action = fn_action n, dac_instructionsKey = fn_instructionsKey n, dac_contextKinds = fn_contextKinds n,
       dac_outputSchemaRef = fn_outputSchemaRef n, dac_requiresApproval = fn_requiresApproval n,
       dac_autoApproveChoiceId = fn_autoApproveChoiceId n, dac_maxAttempts = resolve_attempts (fn_maxAttempts n) False,
       dac_sideEffects = fn_sideEffects n, dac_failurePolicy = Some (policy_of n),
       dac_executionCommand = map_option command_toString (fn_executionCommand n),
       dac_failureOwnership = fn_failureOwnership n, dac_artifactAuthority = \<lparr>aap_sourceScopes = scopes\<rparr>\<rparr>"

definition filled :: "string option \<Rightarrow> bool" where
  "filled s \<longleftrightarrow> pred_option (\<lambda>t. js_trim t \<noteq> []) s"

definition leaf_ready :: "node_info \<Rightarrow> string \<Rightarrow> bool" where
  "leaf_ready n scope \<longleftrightarrow> contract_ready n scope \<and> js_trim (fn_id n) \<noteq> [] \<and> filled (fn_action n) \<and> filled (fn_instructionsKey n) \<and>
     filled (fn_outputSchemaRef n) \<and> pred_option (\<lambda>xs. list_all (\<lambda>s. js_trim s \<noteq> []) xs \<and> distinct xs) (fn_sideEffects n)"

definition scopes_ok :: "string list \<Rightarrow> bool" where
  "scopes_ok xs \<longleftrightarrow> xs \<in> {[''all_tasks'', ''flow''], [''same_task'', ''flow'']}"

lemma cfs_optional_ok: "filled s \<Longrightarrow> cfs_optional f s = Inr ()"
  by (cases s) (simp_all add: cfs_optional_def filled_def cfs_text_def)

lemma command_text: "js_trim (command_toString c) \<noteq> []"
proof -
  have "displayToken ''sennel'' = ''sennel''" by (simp add: displayToken_def plain_char_def between_def less_eq_char_def)
  then show ?thesis unfolding command_toString_def by (simp add: trim_text js_ws_def)
qed

lemma new_FlowNode_D:
  assumes "new_FlowNode n c = Inr x"
  shows "fn_autoApproveChoiceId n = None \<or> fn_requiresApproval n \<and> fn_autoApproveChoiceId n = Some ''1''"
    "fn_executionCommand n = None \<longleftrightarrow> fn_failureOwnership n = None"
    "new_DefinitionFailurePolicy (case fn_failurePolicy n of None \<Rightarrow> ''block'' | Some p \<Rightarrow> p) (fn_failureTargetId n) = Inr (policy_of n)"
proof -
  note D = assms [unfolded new_FlowNode_def if_refused bindE_eq_Inr]
  show "fn_autoApproveChoiceId n = None \<or> fn_requiresApproval n \<and> fn_autoApproveChoiceId n = Some ''1''" using D by blast
  show "fn_executionCommand n = None \<longleftrightarrow> fn_failureOwnership n = None" using D by blast
  show "new_DefinitionFailurePolicy (case fn_failurePolicy n of None \<Rightarrow> ''block'' | Some p \<Rightarrow> p) (fn_failureTargetId n) = Inr (policy_of n)"
  proof (cases "fn_failurePolicy n")
    case None
    then show ?thesis using D by (auto simp: new_DefinitionFailurePolicy_def FAILURE_POLICIES_def targeted_def policy_of_def)
  next
    case (Some p)
    then obtain q where "new_DefinitionFailurePolicy p (fn_failureTargetId n) = Inr q" using D by auto
    then show ?thesis using Some policy_target [of p "fn_failureTargetId n" q] by (simp add: policy_of_def)
  qed
qed

lemma action_ok:
  assumes "leaf_ready n scope" "new_FlowNode n c = Inr x" "scopes_ok scopes"
  shows "actionMetadata n scopes = Inr (action_of n scopes)" "new_DefinitionAction (action_of n scopes) = Inr (action_of n scopes)"
proof -
  note D = new_FlowNode_D [OF assms(2)]
  show "actionMetadata n scopes = Inr (action_of n scopes)" by (simp add: actionMetadata_def D(3) action_of_def)
  have scopes: "new_ArtifactAuthorityPolicy scopes = Inr \<lparr>aap_sourceScopes = scopes\<rparr>"
    using assms(3) by (auto simp: scopes_ok_def new_ArtifactAuthorityPolicy_def cfs_strings_ok js_trim_def js_ws_def)
  have strings: "cfs_strings f (fn_contextKinds n) = Inr ()"
      "(case fn_sideEffects n of None \<Rightarrow> Inr () | Some xs \<Rightarrow> cfs_strings f xs) = Inr ()" for f
    using assms(1) by (auto simp: leaf_ready_def contract_ready_def cfs_strings_ok split: option.split)
  have ints: "cfs_integer f 1 (resolve_attempts (fn_maxAttempts n) False) = Inr ()" for f
    using assms(1) by (simp add: leaf_ready_def contract_ready_def attempts_ok_def cfs_integer_ok max_safe_def)
  have texts: "filled (fn_action n)" "filled (fn_instructionsKey n)" "filled (fn_outputSchemaRef n)"
    using assms(1) by (simp_all add: leaf_ready_def)
  have choice: "filled (fn_autoApproveChoiceId n)" using D(1) by (auto simp: filled_def js_trim_def js_ws_def)
  have run: "filled (map_option command_toString (fn_executionCommand n))"
    unfolding filled_def using command_text by (cases "fn_executionCommand n") simp_all
  show "new_DefinitionAction (action_of n scopes) = Inr (action_of n scopes)"
    using D(1,2) by (auto simp: new_DefinitionAction_def action_of_def strings ints scopes cfs_optional_ok [OF texts(1)]
        cfs_optional_ok [OF texts(2)] cfs_optional_ok [OF texts(3)] cfs_optional_ok [OF choice] cfs_optional_ok [OF run])
qed

definition adapted_leaf :: "string list \<Rightarrow> string \<Rightarrow> node_info \<Rightarrow> definition_node" where
  "adapted_leaf scopes scope n = DefNode ''step'' (fn_id n) (node_key n) (contract_of n scope) (Some (action_of n scopes)) []"

lemma node_key_filled: "leaf_ready n scope \<Longrightarrow> js_trim (node_key n) \<noteq> []"
  by (auto simp: leaf_ready_def filled_def node_key_def split: option.splits)

lemma contract_failed: "permits (contract_of n scope) ''in_progress'' ''failed'' \<longleftrightarrow> dfp_value (policy_of n) \<in> set RECORDING_FAILURE_POLICIES"
proof -
  have "permits (contract_of n scope) ''in_progress'' ''failed'' \<longleftrightarrow> fn_failurePolicy n \<in> {Some ''retry'', Some ''record'', Some ''step-definition''}"
    using transitionsFor_failed [of "node_flags n scope (skippable_node n scope)"] by (simp add: permits_def contract_of_def node_flags_def)
  then show ?thesis by (cases "fn_failurePolicy n") (simp_all add: policy_of_def RECORDING_FAILURE_POLICIES_def)
qed

lemma adapt_leaf_ok:
  assumes "leaf_ready n scope" "new_FlowNode n c = Inr x" "scopes_ok scopes"
  shows "adapt_leaf scopes scope n = Inr (adapted_leaf scopes scope n)"
proof -
  have "leaf_checks (fn_id n) (contract_of n scope) (action_of n scopes) = Inr ()"
    unfolding leaf_checks_def contract_failed [of n scope] by (simp add: action_of_def contract_of_def)
  moreover have "contract_ready n scope" "js_trim (fn_id n) \<noteq> []" using assms(1) by (simp_all add: leaf_ready_def)
  ultimately show ?thesis
    using action_ok [OF assms] node_key_filled [OF assms(1)] transitionContract_ok [of n scope]
    by (simp add: adapt_leaf_def new_FlowDefinitionNode_def NODE_KINDS_def cfs_text_def adapted_leaf_def)
qed

definition branch_ready :: "node_info \<Rightarrow> string \<Rightarrow> bool" where
  "branch_ready n scope \<longleftrightarrow> contract_ready n scope \<and> js_trim (fn_id n) \<noteq> [] \<and> fn_instructionsKey n = None \<and> fn_failurePolicy n = None"

fun adapted :: "string list \<Rightarrow> string \<Rightarrow> FlowNode list \<Rightarrow> definition_node list" where
  "adapted scopes scope [] = []"
| "adapted scopes scope (Node n None # ns) = adapted_leaf scopes scope n # adapted scopes scope ns"
| "adapted scopes scope (Node n (Some cs) # ns) =
     DefNode ''step'' (fn_id n) (fn_id n) (contract_of n scope) None (adapted scopes scope cs) # adapted scopes scope ns"

fun nodes_ready :: "string \<Rightarrow> FlowNode list \<Rightarrow> bool" where
  "nodes_ready scope [] = True"
| "nodes_ready scope (Node n None # ns) = (leaf_ready n scope \<and> new_FlowNode n None = Inr (Node n None) \<and> nodes_ready scope ns)"
| "nodes_ready scope (Node n (Some cs) # ns) = (branch_ready n scope \<and> cs \<noteq> [] \<and> nodes_ready scope cs \<and> nodes_ready scope ns)"

lemma branch_contract: "branch_ready n scope \<Longrightarrow> \<not> list_ex (\<lambda>t. ends_with t '':failed'') (nct_transitions (contract_of n scope))"
proof -
  assume r: "branch_ready n scope"
  then have "exclusive (node_flags n scope (skippable_node n scope))"
    using exclusive_skippable [of n scope False "skippable_node n scope"] by (simp add: branch_ready_def contract_ready_def)
  then show ?thesis using r transitionsFor_never_failed by (simp add: contract_of_def branch_ready_def node_flags_def)
qed

lemma adapted_Nil: "adapted scopes scope ns = [] \<longleftrightarrow> ns = []"
  by (cases "(scopes, scope, ns)" rule: adapted.cases) simp_all

lemma adapt_ok: "nodes_ready scope ns \<Longrightarrow> scopes_ok scopes \<Longrightarrow> adapt scopes scope ns = Inr (adapted scopes scope ns)"
proof (induction scopes scope ns rule: adapted.induct)
  case (2 scopes scope n ns)
  then show ?case using adapt_leaf_ok [of n scope None "Node n None" scopes] by simp
next
  case (3 scopes scope n cs ns)
  then have n: "branch_ready n scope" "cs \<noteq> []" "adapt scopes scope cs = Inr (adapted scopes scope cs)"
    "adapt scopes scope ns = Inr (adapted scopes scope ns)" by simp_all
  then have "transitionContract n scope = Inr (contract_of n scope)" "node_key n = fn_id n"
    by (simp_all add: branch_ready_def transitionContract_ok node_key_def)
  moreover have "js_trim (fn_id n) \<noteq> []" using n(1) by (simp add: branch_ready_def)
  ultimately show ?case
    using n branch_contract [OF n(1)] adapted_Nil [of scopes scope cs]
    by (simp add: new_FlowDefinitionNode_def NODE_KINDS_def cfs_text_def)
qed simp

fun node_ready :: "string \<Rightarrow> FlowNode \<Rightarrow> bool" where
  "node_ready scope (Node n None) = leaf_ready n scope"
| "node_ready scope (Node n (Some cs)) = (branch_ready n scope \<and> cs \<noteq> [])"

lemma nodes_readyI:
  "list_all (\<lambda>n. new_FlowNode (node_data n) (node_children n) = Inr n) (preorder ns) \<Longrightarrow> list_all (node_ready scope) (preorder ns) \<Longrightarrow>
   nodes_ready scope ns"
  by (induction scope ns rule: nodes_ready.induct) simp_all

lemmas ready_defs = leaf_ready_def branch_ready_def contract_ready_def attempts_ok_def filled_def exclusive_def node_flags_def
  isConditionalDraftWorkerStep_def REQUIREMENT_TEST_LEAF_IDS_def

lemma flow_nodes_ready: "nodes_ready ''flow'' FLOW_DEFINITION"
  by (rule nodes_readyI [OF flow_nodes_constructed])
    (simp add: definition_defs ready_defs PLAN_REVIEW_MAX_ATTEMPTS_BY_ID_def schema_ref_def sourceWorkerEffectSchemaRef_def
      SCHEMA_REF_BY_STEP_def trim_text js_ws_def)

lemma task_nodes_ready: "nodes_ready ''task'' TASK_DEFINITION"
  by (rule nodes_readyI [OF task_nodes_constructed])
    (simp add: definition_defs ready_defs schema_ref_def sourceWorkerEffectSchemaRef_def task_kinds_def canonicalTaskContextKinds_def
      TASK_CONTEXT_KINDS_def SCHEMA_REF_BY_STEP_def js_trim_def js_ws_def)

subsection \<open>The adapted trees\<close>

lemma collect_append: "collectDefinitionNodes (xs @ ys) = collectDefinitionNodes xs @ collectDefinitionNodes ys"
  by (induction xs rule: collectDefinitionNodes.induct) simp_all

lemma adapted_ids: "map dn_id (collectDefinitionNodes (adapted scopes scope ns)) = map (fn_id \<circ> node_data) (preorder ns)"
  by (induction scopes scope ns rule: adapted.induct) (simp_all add: adapted_leaf_def)

lemma adapted_leaves:
  "nodes_ready scope ns \<Longrightarrow> definition_leaves (collectDefinitionNodes (adapted scopes scope ns)) = map (adapted_leaf scopes scope) (leaves ns)"
  by (induction scopes scope ns rule: adapted.induct) (simp_all add: adapted_leaf_def definition_leaves_def adapted_Nil)

lemma adapted_kinds: "list_all (\<lambda>n. dn_kind n = ''step'') (collectDefinitionNodes (adapted scopes scope ns))"
  by (induction scopes scope ns rule: adapted.induct) (simp_all add: adapted_leaf_def)

lemma failure_target_leaf: "failure_target (adapted_leaf scopes scope n) = fn_failureTargetId n"
  by (simp add: failure_target_def adapted_leaf_def action_of_def policy_of_def)

lemma adapted_targets:
  "x \<in> set (collectDefinitionNodes (adapted scopes scope ns)) \<Longrightarrow>
   failure_target x = None \<or> (\<exists>n \<in> set (leaves ns). x = adapted_leaf scopes scope n)"
proof (induction scopes scope ns rule: adapted.induct)
  case (2 scopes scope n ns)
  then show ?case by (auto simp: adapted_leaf_def)
next
  case (3 scopes scope n cs ns)
  then show ?case by (auto simp: failure_target_def)
qed simp

lemma duplicate_id_ok: "duplicate_id seen ns = Inr () \<longleftrightarrow> distinct (map dn_id ns) \<and> set (map dn_id ns) \<inter> set seen = {}"
  by (induction ns arbitrary: seen) auto

lemma template_ok:
  "distinct (map dn_id ns) \<Longrightarrow> distinct (map dn_key ns) \<Longrightarrow> set (map dn_id ns) \<inter> set ids = {} \<Longrightarrow> set (map dn_key ns) \<inter> set keys = {} \<Longrightarrow>
   list_all (\<lambda>n. dn_kind n = ''step'') (if r then tl ns else ns) \<Longrightarrow> template_checks r ids keys ns = Inr ()"
proof (induction ns arbitrary: r ids keys)
  case (Cons n ns)
  then have "template_checks False (dn_id n # ids) (dn_key n # keys) ns = Inr ()" by (auto split: if_splits)
  then show ?case using Cons.prems by (auto split: if_splits)
qed simp

definition flow_contract :: NodeContract where
  "flow_contract = \<lparr>nct_semanticRetryLimit = 0, nct_toolingRetryLimit = None,
     nct_transitions = transitionsFor no_flags, nct_resourceContract = \<lparr>rct_required = []\<rparr>, nct_completionAuthorities = [],
     nct_routeSkipAuthorities = [], nct_retainedAuthorities = []\<rparr>"

definition flow_root :: definition_node where
  "flow_root = DefNode ''flow'' ''flow'' ''flow'' flow_contract None (adapted [''all_tasks'', ''flow''] ''flow'' FLOW_DEFINITION)"

definition task_template :: definition_node where
  "task_template = DefNode ''task'' ''task'' ''task'' flow_contract None (adapted [''same_task'', ''flow''] ''task'' TASK_DEFINITION)"

lemma root_contract_ok: "root_contract = Inr flow_contract" "\<not> list_ex (\<lambda>t. ends_with t '':failed'') (nct_transitions flow_contract)"
proof -
  have ex: "exclusive no_flags" by (simp add: exclusive_def no_flags_def)
  have "tfl_failurePolicy no_flags = None" by (simp add: no_flags_def)
  note ok = transitionsFor_ok [OF ex] transitionsFor_never_failed [OF ex this]
  show "root_contract = Inr flow_contract"
    using ok by (simp add: root_contract_def new_NodeContract_def cfs_integer_def max_safe_def new_ResourceContract_def cfs_strings_def
        flow_contract_def)
  show "\<not> list_ex (\<lambda>t. ends_with t '':failed'') (nct_transitions flow_contract)" using ok(4) by (simp add: flow_contract_def)
qed

lemma built_nodes:
  "new_FlowDefinitionNode ''flow'' ''flow'' ''flow'' (adapted [''all_tasks'', ''flow''] ''flow'' FLOW_DEFINITION) flow_contract None = Inr flow_root"
  "new_FlowDefinitionNode ''task'' ''task'' ''task'' (adapted [''same_task'', ''flow''] ''task'' TASK_DEFINITION) flow_contract None = Inr task_template"
proof -
  have "FLOW_DEFINITION \<noteq> []" "TASK_DEFINITION \<noteq> []" by (simp_all add: FLOW_DEFINITION_def TASK_DEFINITION_def)
  then show "new_FlowDefinitionNode ''flow'' ''flow'' ''flow'' (adapted [''all_tasks'', ''flow''] ''flow'' FLOW_DEFINITION) flow_contract None = Inr flow_root"
    "new_FlowDefinitionNode ''task'' ''task'' ''task'' (adapted [''same_task'', ''flow''] ''task'' TASK_DEFINITION) flow_contract None = Inr task_template"
    using root_contract_ok by (simp_all add: new_FlowDefinitionNode_def NODE_KINDS_def cfs_text_def trim_text js_ws_def adapted_Nil
        task_template_def) (simp add: flow_root_def)
qed

lemma leaf_position_nth: "k < length flow_leaf_ids \<Longrightarrow> map dn_id lvs = flow_leaf_ids \<Longrightarrow> leaf_position lvs (flow_leaf_ids ! k) = 2 * int k"
  by (simp add: leaf_position_def index_of_nth flow_leaf_ids_distinct)

lemma flow_targets: "list_all (\<lambda>n. fn_failureTargetId n = None \<or> fn_id n = ''acceptance-review'' \<and> fn_failureTargetId n = Some ''spec'') (leaves FLOW_DEFINITION)"
  "list_all (\<lambda>n. fn_failureTargetId n = None) (leaves TASK_DEFINITION)"
  by (simp_all add: definition_defs)

abbreviation flow_leaf_nodes :: "definition_node list" where
  "flow_leaf_nodes \<equiv> map (adapted_leaf [''all_tasks'', ''flow''] ''flow'') (leaves FLOW_DEFINITION)"

lemma flow_leaf_nodes_ids: "map dn_id flow_leaf_nodes = flow_leaf_ids"
  unfolding flow_leaves(1) [symmetric] by (simp add: adapted_leaf_def comp_def)

lemma static_leaves: "definition_leaves (collectDefinitionNodes [flow_root]) = flow_leaf_nodes"
  using adapted_leaves [OF flow_nodes_ready, of "[''all_tasks'', ''flow'']"] adapted_Nil [of _ _ FLOW_DEFINITION]
  by (simp add: flow_root_def definition_leaves_def FLOW_DEFINITION_def)

lemma contract_rewindable: "permits (contract_of n scope) ''done'' ''in_progress''"
  using transitionsFor_rewindable by (simp add: permits_def contract_of_def)

lemma static_source:
  assumes "x \<in> set (collectDefinitionNodes [flow_root])"
  shows "failure_target x = None \<or> (\<exists>n \<in> set (leaves FLOW_DEFINITION). x = adapted_leaf [''all_tasks'', ''flow''] ''flow'' n)"
proof (cases "x = flow_root")
  case True
  then show ?thesis by (simp add: flow_root_def failure_target_def)
next
  case False
  then have "x \<in> set (collectDefinitionNodes (adapted [''all_tasks'', ''flow''] ''flow'' FLOW_DEFINITION))"
    using assms by (simp add: flow_root_def)
  then show ?thesis by (rule adapted_targets)
qed

lemma static_target_ok:
  assumes "x \<in> set (collectDefinitionNodes [flow_root])"
  shows "target_check flow_leaf_nodes (leaf_position flow_leaf_nodes (dn_id x)) x = Inr ()"
proof (cases "failure_target x")
  case (Some t)
  then obtain n where n: "n \<in> set (leaves FLOW_DEFINITION)" "x = adapted_leaf [''all_tasks'', ''flow''] ''flow'' n"
    using static_source [OF assms] by auto
  then have id: "fn_id n = ''acceptance-review''" "t = ''spec''"
    using Some flow_targets(1) by (auto simp: failure_target_leaf list_all_iff)
  have pos: "leaf_position flow_leaf_nodes ''acceptance-review'' = 62" "leaf_position flow_leaf_nodes ''spec'' = 24"
    using leaf_position_nth [OF _ flow_leaf_nodes_ids, of 31] leaf_position_nth [OF _ flow_leaf_nodes_ids, of 12]
    by (simp_all add: flow_leaf_ids_def)
  have "''spec'' \<in> set (map dn_id flow_leaf_nodes)" unfolding flow_leaf_nodes_ids by (simp add: flow_leaf_ids_def)
  then obtain m where m: "find (\<lambda>n. dn_id n = ''spec'') flow_leaf_nodes = Some m"
    by (cases "find (\<lambda>n. dn_id n = ''spec'') flow_leaf_nodes") (auto simp: find_None_iff)
  then have "permits (dn_contract m) ''done'' ''in_progress''"
    using contract_rewindable by (auto simp: find_Some_iff adapted_leaf_def)
  then show ?thesis using Some id m pos n(2) by (simp add: target_check_def adapted_leaf_def)
qed (simp add: target_check_def)

lemma static_ids: "map dn_id (collectDefinitionNodes [flow_root]) = ''flow'' # map (fn_id \<circ> node_data) (preorder FLOW_DEFINITION)"
  by (simp add: flow_root_def adapted_ids)

lemma static_distinct: "distinct (map dn_id (collectDefinitionNodes [flow_root]))"
  unfolding static_ids by (simp add: definition_defs)

lemma template_nodes: "collectDefinitionNodes [task_template] = task_template # map (adapted_leaf [''same_task'', ''flow''] ''task'') (leaves TASK_DEFINITION)"
  by (simp add: task_template_def TASK_DEFINITION_def leaf_def adapted_leaf_def)

lemma template_checks_ok: "template_checks True [] [] (collectDefinitionNodes [task_template]) = Inr ()"
proof (rule template_ok)
  have id: "dn_id \<circ> adapted_leaf s c = fn_id" "dn_key \<circ> adapted_leaf s c = node_key" for s c by (auto simp: adapted_leaf_def)
  show "distinct (map dn_id (collectDefinitionNodes [task_template]))" "distinct (map dn_key (collectDefinitionNodes [task_template]))"
    unfolding template_nodes by (simp_all add: task_template_def id) (simp_all add: definition_defs node_key_def)
  show "list_all (\<lambda>n. dn_kind n = ''step'') (if True then tl (collectDefinitionNodes [task_template]) else collectDefinitionNodes [task_template])"
    unfolding template_nodes by (simp add: list_all_iff adapted_leaf_def)
qed simp_all

lemma template_target_ok: "x \<in> set (collectDefinitionNodes [task_template]) \<Longrightarrow> target_check lvs k x = Inr ()"
  unfolding template_nodes using flow_targets(2)
  by (auto simp: target_check_def failure_target_leaf list_all_iff) (simp add: task_template_def failure_target_def)

lemma dynamic_container:
  "\<exists>c anchor. find (\<lambda>n. dn_id n = ''impl'') (collectDefinitionNodes [flow_root]) = Some c \<and>
     find (\<lambda>n. dn_id n = ''implement'') (dn_steps c) = Some anchor \<and> dn_steps anchor = []"
proof -
  obtain x y where xy: "FLOW_DEFINITION = [Node x (Some plan_steps), Node y (Some impl_steps)]" "fn_id y = ''impl''"
    by (simp add: FLOW_DEFINITION_def branch_def)
  obtain n ns where n: "impl_steps = Node n None # ns" "fn_id n = ''implement''"
    by (simp add: impl_steps_def leaf_def)
  let ?A = "adapted [''all_tasks'', ''flow''] ''flow''"
  let ?c = "DefNode ''step'' ''impl'' ''impl'' (contract_of y ''flow'') None (?A impl_steps)"
  have "?c \<in> set (collectDefinitionNodes [flow_root])" 
    unfolding flow_root_def xy(1) using xy(2) by (simp add: collect_append)
  from find_distinct [OF static_distinct this] have "find (\<lambda>n. dn_id n = ''impl'') (collectDefinitionNodes [flow_root]) = Some ?c" by simp
  moreover have "find (\<lambda>n. dn_id n = ''implement'') (?A impl_steps) = Some (adapted_leaf [''all_tasks'', ''flow''] ''flow'' n)"
    unfolding n(1) using n(2) by (simp add: adapted_leaf_def)
  ultimately show ?thesis by (auto simp: adapted_leaf_def)
qed

lemma skipping_transitions:
  "''pending:skipped'' \<in> set (transitionsFor f) \<longleftrightarrow> tfl_triageNoRepair f \<or> tfl_taskStageBypass f \<or> tfl_draftReviewBypass f \<or> tfl_gateRepairBypass f
     \<or> tfl_conditionalWorker f \<or> tfl_requirementTestInitialization f \<or> tfl_finalizationRoute f"
  by (simp add: transitionsFor_def bypass_def)

definition built_definition :: CurrentFlowDefinition where
  "built_definition = \<lparr>cfd_root = flow_root, cfd_taskTemplate = task_template, cfd_dynamicTaskContainerId = ''impl'',
     cfd_dynamicTaskInsertionAfterId = ''implement''\<rparr>"

lemma build_ok: "buildCurrentFlowDefinition = Inr built_definition"
proof -
  obtain c anchor where c: "find (\<lambda>n. dn_id n = ''impl'') (collectDefinitionNodes [flow_root]) = Some c"
    "find (\<lambda>n. dn_id n = ''implement'') (dn_steps c) = Some anchor" using dynamic_container by blast
  have dup: "duplicate_id [] (collectDefinitionNodes [flow_root]) = Inr ()" using static_distinct by (simp add: duplicate_id_ok)
  have static: "eachE (\<lambda>n. target_check flow_leaf_nodes (leaf_position flow_leaf_nodes (dn_id n)) n) (collectDefinitionNodes [flow_root]) = Inr ()"
    unfolding eachE_ok using static_target_ok by blast
  have template: "eachE (target_check lvs k) (collectDefinitionNodes [task_template]) = Inr ()" for lvs k
    unfolding eachE_ok using template_target_ok by blast
  have "new_CurrentFlowDefinition flow_root task_template ''impl'' ''implement'' = Inr built_definition"
    unfolding new_CurrentFlowDefinition_def Let_def static_leaves dup template_checks_ok bindE.simps c option.case static template
    by (simp add: cfs_text_def trim_text js_ws_def flow_root_def task_template_def built_definition_def)
  moreover have "scopes_ok [''all_tasks'', ''flow'']" "scopes_ok [''same_task'', ''flow'']" by (simp_all add: scopes_ok_def)
  ultimately show ?thesis
    unfolding buildCurrentFlowDefinition_def root_contract_ok(1)
    by (simp add: adapt_ok [OF flow_nodes_ready] adapt_ok [OF task_nodes_ready] built_nodes)
qed

definition leaf_contract_ok :: "definition_node \<Rightarrow> bool" where
  "leaf_contract_ok l \<longleftrightarrow> (\<exists>a p. dn_action l = Some a \<and> dac_failurePolicy a = Some p
     \<and> (permits (dn_contract l) ''in_progress'' ''failed'' \<longleftrightarrow> dfp_value p \<in> set RECORDING_FAILURE_POLICIES)
     \<and> nct_semanticRetryLimit (dn_contract l) + 1 = dac_maxAttempts a)"

lemma adapted_leaf_contract: "leaf_contract_ok (adapted_leaf s c n)"
  using contract_failed [of n c] by (simp add: leaf_contract_ok_def adapted_leaf_def action_of_def contract_of_def)

text \<open>Claim C16. The canonical definition is built without error: every contract, action, node and failure target passes its checks.
  Its leaves are the flow's leaves in order, and the leaves of its Task template are the five Task steps.  A leaf can fail
  (\<^verbatim>\<open>in_progress:failed\<close>) exactly when its failure policy records failures, its retry budget is one less than its
  attempts, and the flow leaves that may be skipped before they ran are exactly the fourteen conditional ones.\<close>

theorem current_definition_builds:
  "\<exists>D. buildCurrentFlowDefinition = Inr D
     \<and> (let lvs = definition_leaves (collectDefinitionNodes [cfd_root D]) in
        map dn_id lvs = flow_leaf_ids
        \<and> map dn_id (dn_steps (cfd_taskTemplate D)) = collectTaskLeafIds
        \<and> list_all leaf_contract_ok (lvs @ dn_steps (cfd_taskTemplate D))
        \<and> map dn_id (filter (\<lambda>l. permits (dn_contract l) ''pending'' ''skipped'') lvs) =
            [''draft-questions-triage'', ''draft-questions-repair'', ''draft-refine'', ''draft-gate-repair'', ''draft-coverage-triage'',
             ''draft-coverage-repair'', ''spec-gate-repair'', ''test-generate'', ''test-review'', ''test-repair'', ''test-gate'',
             ''impl-repair'', ''finalize-sync'', ''finalize-cleanup''])"
proof -
  let ?skip = "\<lambda>i. i \<in> {''impl-repair'', ''draft-questions-triage'', ''draft-questions-repair'', ''draft-coverage-triage'', ''draft-coverage-repair'',
     ''spec-gate-repair'', ''draft-refine'', ''draft-gate-repair'', ''test-generate'', ''test-review'', ''test-repair'', ''test-gate'',
     ''finalize-sync'', ''finalize-cleanup''}"
  have skip: "permits (contract_of n ''flow'') ''pending'' ''skipped'' \<longleftrightarrow> ?skip (fn_id n)" for n
    by (simp add: permits_def contract_of_def skipping_transitions node_flags_def isConditionalDraftWorkerStep_def REQUIREMENT_TEST_LEAF_IDS_def
        DRAFT_QUESTIONS_ROUTE_def DRAFT_COVERAGE_ROUTE_def)
  have steps: "dn_steps task_template = map (adapted_leaf [''same_task'', ''flow''] ''task'') (leaves TASK_DEFINITION)"
    using template_nodes by (simp add: task_template_def TASK_DEFINITION_def leaf_def)
  have "map dn_id (filter (\<lambda>l. permits (dn_contract l) ''pending'' ''skipped'') flow_leaf_nodes) = filter ?skip (map fn_id (leaves FLOW_DEFINITION))"
    by (simp add: filter_map comp_def adapted_leaf_def skip)
  also have "\<dots> = [''draft-questions-triage'', ''draft-questions-repair'', ''draft-refine'', ''draft-gate-repair'', ''draft-coverage-triage'',
             ''draft-coverage-repair'', ''spec-gate-repair'', ''test-generate'', ''test-review'', ''test-repair'', ''test-gate'',
             ''impl-repair'', ''finalize-sync'', ''finalize-cleanup'']"
    unfolding flow_leaves(1) by (simp add: flow_leaf_ids_def)
  finally have filt: "map dn_id (filter (\<lambda>l. permits (dn_contract l) ''pending'' ''skipped'') flow_leaf_nodes) = \<dots>" .
  have tasks: "map dn_id (dn_steps task_template) = collectTaskLeafIds"
    unfolding steps collectTaskLeafIds_def task_leaves(1) [symmetric] by (simp add: adapted_leaf_def)
  have "list_all leaf_contract_ok (flow_leaf_nodes @ dn_steps task_template)"
    unfolding steps by (auto simp: list_all_iff adapted_leaf_contract)
  with filt tasks flow_leaf_nodes_ids show ?thesis
    unfolding build_ok Let_def by (intro exI [of _ built_definition]) (simp only: static_leaves built_definition_def CurrentFlowDefinition.simps)
qed

end
