(* ===== verification/Flow_State.thy ===== *)
theory Flow_State
  imports Current_Definition
begin

section \<open>The canonical state tree\<close>

text \<open>
  The node tree of \<open>lib/current-flow-state.js\<close>: materialization of the definition, dynamic Tasks, lookup and
  replacement of nodes, and the check that a tree has the shape of its definition.  A subclass of
  \<open>CurrentFlowNode\<close> is told by its kind.  \<open>with\<close> rebuilds a node from checked fields, so it is a field update.
\<close>

subsection \<open>Nodes\<close>

text \<open>
  A node result with what the state checks read of its step result and settlement receipt.  \<open>nsr_digest\<close> is the
  value of \<open>stepResultDigest\<close>, \<open>nsr_accepted\<close> the value of \<open>acceptedStepDecision\<close>.
\<close>

record accepted_decision =
  acd_sourceReceiptId :: string
  acd_settlementAttempt :: NonGateAttemptIdentity

record node_step_result =
  nsr_result :: step_result
  nsr_digest :: string
  nsr_accepted :: "accepted_decision option"

record node_receipt =
  nrc_id :: string
  nrc_resultKind :: string
  nrc_resultDigest :: string
  nrc_receipt :: settlement_receipt

record artifact_reference =
  arf_kind :: string
  arf_id :: string

record NodeResult =
  nrs_outcome :: string
  nrs_summary :: string
  nrs_confirmedAt :: string
  nrs_artifactRefs :: "artifact_reference list"
  nrs_stepResult :: "node_step_result option"
  nrs_receipt :: "node_receipt option"

datatype flow_node = FNode (nd_kind: string) (nd_id: string) (nd_key: string) (nd_status: string) (nd_result: "NodeResult option")
  (nd_attemptSequence: int) (nd_steps: "flow_node list")

definition TERMINAL_NODE_STATUSES :: "string list" where
  "TERMINAL_NODE_STATUSES = [''done'', ''skipped'', ''failed'']"

definition EXECUTABLE_NODE_STATUSES :: "string list" where
  "EXECUTABLE_NODE_STATUSES = [''pending'', ''invalidated'']"

text \<open>The checks of the constructor on the node's own fields.\<close>

definition node_check :: "flow_node \<Rightarrow> unit res" where
  "node_check n =
     (if nd_kind n \<notin> set NODE_KINDS then Inl (Error (''node.kind is invalid: '' @ nd_kind n)) else
      bindE (cfs_text ''node.id'' (nd_id n)) (\<lambda>_.
      bindE (cfs_text ''node.key'' (nd_key n)) (\<lambda>_.
      if nd_status n \<notin> set CANONICAL_NODE_STATUSES then Inl (Error (''node.status is invalid: '' @ nd_status n)) else
      cfs_integer ''node.attemptSequence'' 0 (nd_attemptSequence n))))"

fun collectNodes :: "flow_node \<Rightarrow> flow_node list" where
  "collectNodes (FNode k i y s r a ss) = FNode k i y s r a ss # concat (map collectNodes ss)"

definition leaf_node :: "flow_node \<Rightarrow> bool" where
  "leaf_node n \<longleftrightarrow> nd_steps n = []"

definition state_leaves :: "flow_node \<Rightarrow> flow_node list" where
  "state_leaves root = filter leaf_node (collectNodes root)"

definition findNodeInRoot :: "flow_node \<Rightarrow> string \<Rightarrow> flow_node option" where
  "findNodeInRoot root i = find (\<lambda>n. nd_id n = i) (collectNodes root)"

fun findPathInRoot :: "string \<Rightarrow> string list \<Rightarrow> flow_node \<Rightarrow> string list option"
  and findPathInSteps :: "string \<Rightarrow> string list \<Rightarrow> flow_node list \<Rightarrow> string list option" where
  "findPathInRoot t trail (FNode k i y s r a ss) = (if i = t then Some (trail @ [i]) else findPathInSteps t (trail @ [i]) ss)"
| "findPathInSteps t trail [] = None"
| "findPathInSteps t trail (n # ns) = (case findPathInRoot t trail n of Some p \<Rightarrow> Some p | None \<Rightarrow> findPathInSteps t trail ns)"

fun walkPath :: "flow_node \<Rightarrow> string list \<Rightarrow> flow_node res" where
  "walkPath n [] = Inr n"
| "walkPath n (i # is) = (case find (\<lambda>c. nd_id c = i) (nd_steps n) of
     None \<Rightarrow> Inl (Error ''current.path must be a root-to-leaf parent-child path'') | Some c \<Rightarrow> walkPath c is)"

definition nodeAtPath :: "flow_node \<Rightarrow> string list \<Rightarrow> flow_node res" where
  "nodeAtPath root path = (if path = [] \<or> hd path \<noteq> nd_id root
     then Inl (Error ''current.path must begin with root stable id'') else walkPath root (tl path))"

fun replaceNode :: "string \<Rightarrow> flow_node \<Rightarrow> flow_node \<Rightarrow> flow_node" where
  "replaceNode t new (FNode k i y s r a ss) = (if i = t then new else FNode k i y s r a (map (replaceNode t new) ss))"

subsection \<open>Definition lookup\<close>

definition definitionNodeFor :: "CurrentFlowDefinition \<Rightarrow> flow_node \<Rightarrow> definition_node res" where
  "definitionNodeFor D n = (case find (\<lambda>d. dn_id d = nd_id n) (collectDefinitionNodes [cfd_root D]) of
     Some d \<Rightarrow> Inr d
   | None \<Rightarrow> if nd_kind n = ''task'' then Inr (cfd_taskTemplate D)
       else (case find (\<lambda>d. dn_key d = nd_key n) (collectDefinitionNodes [cfd_taskTemplate D]) of
         Some d \<Rightarrow> Inr d
       | None \<Rightarrow> Inl (Error (''definition has no node for current state: '' @ nd_id n))))"

definition contractForNode :: "CurrentFlowDefinition \<Rightarrow> flow_node \<Rightarrow> NodeContract res" where
  "contractForNode D n = bindE (definitionNodeFor D n) (\<lambda>d. Inr (dn_contract d))"

definition actionFor :: "CurrentFlowDefinition \<Rightarrow> flow_node \<Rightarrow> string \<Rightarrow> DefinitionAction res" where
  "actionFor D root i = (case findNodeInRoot root i of
     None \<Rightarrow> Inl (Error (''definition action lookup requires a current-state node: '' @ i))
   | Some n \<Rightarrow> bindE (definitionNodeFor D n) (\<lambda>d. case dn_action d of
       None \<Rightarrow> Inl (Error (''definition action lookup requires a leaf node: '' @ i))
     | Some a \<Rightarrow> Inr a))"

definition pathFor :: "flow_node \<Rightarrow> string \<Rightarrow> string list res" where
  "pathFor root i = (case findPathInRoot i [] root of
     None \<Rightarrow> Inl (Error (''definition path lookup requires a current-state node: '' @ i)) | Some p \<Rightarrow> Inr p)"

subsection \<open>Materialization\<close>

fun materialize :: "definition_node \<Rightarrow> flow_node" where
  "materialize (DefNode kind i key c a steps) = FNode kind i key ''pending'' None 0 (map materialize steps)"

definition materializeRoot :: "CurrentFlowDefinition \<Rightarrow> flow_node" where
  "materializeRoot D = materialize (cfd_root D)"

definition materializedTaskStepId :: "string \<Rightarrow> string \<Rightarrow> string res" where
  "materializedTaskStepId parentId definitionId = bindE (fromDefinitionId (JStr parentId) (JStr definitionId)) (\<lambda>r.
     Inr (case r of Some i \<Rightarrow> tsi_nodeId i | None \<Rightarrow> parentId @ ''-'' @ definitionId))"

fun materializeTaskStep :: "string \<Rightarrow> definition_node \<Rightarrow> flow_node res"
  and materializeTaskSteps :: "string \<Rightarrow> definition_node list \<Rightarrow> flow_node list res" where
  "materializeTaskStep parentId (DefNode kind i key c a steps) = bindE (materializedTaskStepId parentId i) (\<lambda>nodeId.
     bindE (materializeTaskSteps nodeId steps) (\<lambda>children. Inr (FNode ''step'' nodeId key ''pending'' None 0 children)))"
| "materializeTaskSteps parentId [] = Inr []"
| "materializeTaskSteps parentId (d # ds) = bindE (materializeTaskStep parentId d) (\<lambda>n.
     bindE (materializeTaskSteps parentId ds) (\<lambda>ns. Inr (n # ns)))"

definition taskFrom :: "CurrentFlowDefinition \<Rightarrow> string \<Rightarrow> string \<Rightarrow> flow_node res" where
  "taskFrom D i key = bindE (cfs_text ''task.id'' i) (\<lambda>_.
     bindE (materializeTaskSteps i (dn_steps (cfd_taskTemplate D))) (\<lambda>steps.
     let task = FNode ''task'' i key ''pending'' None 0 steps in bindE (node_check task) (\<lambda>_. Inr task)))"

subsection \<open>Shape\<close>

lemma eachE_cong [fundef_cong]: "xs = ys \<Longrightarrow> (\<And>x. x \<in> set ys \<Longrightarrow> f x = g x) \<Longrightarrow> eachE f xs = eachE g ys"
  by (induction xs arbitrary: ys) auto

function assertTaskStepShape :: "definition_node \<Rightarrow> flow_node \<Rightarrow> string \<Rightarrow> unit res" where
  "assertTaskStepShape (DefNode kind i key c a steps) n parentId = bindE (materializedTaskStepId parentId i) (\<lambda>nodeId.
     if nd_kind n \<noteq> ''step'' \<or> nd_id n \<noteq> nodeId \<or> nd_key n \<noteq> key \<or> length (nd_steps n) \<noteq> length steps
     then Inl (Error ''Task.steps does not match task template'')
     else eachE (\<lambda>p. assertTaskStepShape (fst p) (snd p) (nd_id n)) (zip steps (nd_steps n)))"
  by pat_completeness auto
termination by (relation "measure (\<lambda>(d, n, p). size d)") (auto dest!: set_zip_leftD simp: less_Suc_eq_le intro: size_list_estimation')

definition assertTaskShape :: "definition_node \<Rightarrow> flow_node \<Rightarrow> unit res" where
  "assertTaskShape template task =
     (if nd_kind task \<noteq> ''task'' then Inl (Error ''dynamic container may contain Task nodes only'')
      else if length (nd_steps task) \<noteq> length (dn_steps template) then Inl (Error ''Task.steps does not match task template'')
      else eachE (\<lambda>p. assertTaskStepShape (fst p) (snd p) (nd_id task)) (zip (dn_steps template) (nd_steps task)))"

definition task_start :: "CurrentFlowDefinition \<Rightarrow> definition_node list \<Rightarrow> nat" where
  "task_start D steps = (case index_of (cfd_dynamicTaskInsertionAfterId D) (map dn_id steps) of None \<Rightarrow> 0 | Some k \<Rightarrow> Suc k)"

function assertStaticShape :: "CurrentFlowDefinition \<Rightarrow> definition_node \<Rightarrow> flow_node \<Rightarrow> unit res" where
  "assertStaticShape D (DefNode kind i key c a steps) n =
     (if kind \<noteq> nd_kind n \<or> i \<noteq> nd_id n \<or> key \<noteq> nd_key n then Inl (Error (''state node does not match definition: '' @ i))
      else if i = cfd_dynamicTaskContainerId D then
        (if length (nd_steps n) < length steps then Inl (Error ''dynamic container is missing static definition nodes'') else
         let start = task_start D steps; count = length (nd_steps n) - length steps in
         bindE (eachE (\<lambda>p. assertStaticShape D (fst p) (snd p)) (zip (take start steps) (nd_steps n))) (\<lambda>_.
         bindE (eachE (assertTaskShape (cfd_taskTemplate D)) (take count (drop start (nd_steps n)))) (\<lambda>_.
         eachE (\<lambda>p. assertStaticShape D (fst p) (snd p)) (zip (drop start steps) (drop (start + count) (nd_steps n))))))
      else if length steps \<noteq> length (nd_steps n) then Inl (Error (''state children do not match definition: '' @ i))
      else eachE (\<lambda>p. assertStaticShape D (fst p) (snd p)) (zip steps (nd_steps n)))"
  by pat_completeness auto
termination by (relation "measure (\<lambda>(D, d, n). size d)")
  (auto dest!: set_zip_leftD in_set_takeD in_set_dropD simp: less_Suc_eq_le intro: size_list_estimation')

definition assertStateShape :: "CurrentFlowDefinition \<Rightarrow> flow_node \<Rightarrow> unit res" where
  "assertStateShape D root = (if nd_kind root \<noteq> ''flow'' then Inl (Error ''state.root must be a FlowRootNode'')
     else assertStaticShape D (cfd_root D) root)"

definition orderedLeaves :: "CurrentFlowDefinition \<Rightarrow> flow_node \<Rightarrow> flow_node list res" where
  "orderedLeaves D root = bindE (assertStateShape D root) (\<lambda>_. Inr (state_leaves root))"

definition nextExecutableLeaf :: "CurrentFlowDefinition \<Rightarrow> flow_node \<Rightarrow> flow_node option res" where
  "nextExecutableLeaf D root = bindE (orderedLeaves D root) (\<lambda>ls. Inr (find (\<lambda>n. nd_status n \<in> set EXECUTABLE_NODE_STATUSES) ls))"

definition dynamic_container_node :: "CurrentFlowDefinition \<Rightarrow> definition_node option" where
  "dynamic_container_node D = find (\<lambda>n. dn_id n = cfd_dynamicTaskContainerId D) (collectDefinitionNodes [cfd_root D])"

definition taskInsertionIndex :: "CurrentFlowDefinition \<Rightarrow> flow_node \<Rightarrow> nat" where
  "taskInsertionIndex D container =
     (let start = (case dynamic_container_node D of None \<Rightarrow> 0 | Some c \<Rightarrow> task_start D (dn_steps c)) in
      start + length (takeWhile (\<lambda>n. nd_kind n = ''task'') (drop start (nd_steps container))))"

definition canAddTask :: "CurrentFlowDefinition \<Rightarrow> flow_node \<Rightarrow> bool res" where
  "canAddTask D root = (case findNodeInRoot root (cfd_dynamicTaskContainerId D) of
     None \<Rightarrow> Inl (TypeError ''Cannot read properties of undefined or null'')
   | Some container \<Rightarrow> Inr (list_all (\<lambda>n. list_all (\<lambda>lf. nd_status lf = ''pending'') (state_leaves n))
       (drop (taskInsertionIndex D container) (nd_steps container))))"

end
