(* ===== verification/State_Lifecycle.thy ===== *)
theory State_Lifecycle
  imports Flow_State
begin

section \<open>Checks of a canonical state\<close>

text \<open>
  What \<open>CurrentFlowState\<close> demands of a tree with its cursor and Attempt: the lifecycle of leaves and branches, the
  execution frontier, the contract of the active Attempt, and the proofs by receipt that admit a leaf outside the
  linear order.  A Flow without history is modelled (\<open>history\<close> is null, as \<open>create\<close> leaves it).  The fields no check
  below and no operation of the next theory reads are left out: Flow and version id, issue, request, execution, policy,
  context, artifacts, migration checkpoint and confirmation order.
\<close>

subsection \<open>Attempts and states\<close>

record CurrentAttempt =
  cat_id :: string
  cat_nodeId :: string
  cat_sequence :: int
  cat_startedAt :: string
  cat_consumption :: AttemptConsumption
  cat_failure :: "ActivityFailure option"
  cat_blocker :: "(string \<times> string) option"
  cat_incomplete :: "AttemptIncompleteClaim list"
  cat_operationClaims :: "AttemptOperationClaim list"

text \<open>\<open>dateOk\<close> tells whether \<open>Date.parse\<close> of a text is a number.\<close>

definition new_CurrentAttempt :: "(string \<Rightarrow> bool) \<Rightarrow> CurrentAttempt \<Rightarrow> CurrentAttempt res" where
  "new_CurrentAttempt dateOk a =
     bindE (cfs_text ''attempt.id'' (cat_id a)) (\<lambda>_.
     bindE (cfs_text ''attempt.nodeId'' (cat_nodeId a)) (\<lambda>_.
     bindE (cfs_integer ''attempt.sequence'' 1 (cat_sequence a)) (\<lambda>_.
     bindE (cfs_text ''attempt.startedAt'' (cat_startedAt a)) (\<lambda>_.
     if \<not> dateOk (cat_startedAt a) then Inl (Error ''attempt.startedAt must be an ISO timestamp'') else
     bindE (new_AttemptConsumption (atc_semantic (cat_consumption a)) (atc_tooling (cat_consumption a))) (\<lambda>_.
     if cat_sequence a \<le> atc_semantic (cat_consumption a) + atc_tooling (cat_consumption a)
     then Inl (Error ''attempt retry consumption must be lower than its per-node sequence'') else Inr a)))))"

record CurrentFlowState =
  cst_runId :: string
  cst_specId :: string
  cst_lifecycle :: string
  cst_root :: flow_node
  cst_current :: "string list option"
  cst_attempt :: "CurrentAttempt option"
  cst_outbox :: "jsval list"

subsection \<open>Leaf and branch lifecycle\<close>

record lifecycle_options =
  lop_requirementTestSkip :: "flow_node \<Rightarrow> bool"
  lop_routeCompletion :: "flow_node \<Rightarrow> bool"
  lop_declaredRouteSkip :: "flow_node \<Rightarrow> bool"
  lop_requiresSourceSkipProof :: "flow_node \<Rightarrow> bool"
  lop_invalidatedRouteSource :: "flow_node \<Rightarrow> bool"

definition outcome_is :: "flow_node \<Rightarrow> string \<Rightarrow> bool" where
  "outcome_is n outcome = (case nd_result n of None \<Rightarrow> False | Some r \<Rightarrow> nrs_outcome r = outcome)"

definition acceptedStepDecision :: "NodeResult option \<Rightarrow> accepted_decision option" where
  "acceptedStepDecision r = Option.bind (Option.bind r nrs_stepResult) nsr_accepted"

definition accepted_cursor_ok :: "flow_node \<Rightarrow> accepted_decision \<Rightarrow> bool" where
  "accepted_cursor_ok n d = (case nd_result n of None \<Rightarrow> False | Some r \<Rightarrow> (case (nrs_stepResult r, nrs_receipt r) of
     (Some sr, Some rc) \<Rightarrow>
       let b = srp_binding (nrc_receipt rc); a = acd_settlementAttempt d in
       nd_status n = ''done'' \<and> nrs_outcome r = ''passed''
       \<and> srp_settlementKind (nrc_receipt rc) = ''target-connection'' \<and> nrc_id rc \<noteq> acd_sourceReceiptId d
       \<and> (case srs_identity (nsr_result sr) of None \<Rightarrow> False | Some i \<Rightarrow> ntb_stepId i = nd_id n)
       \<and> nd_attemptSequence n = int (nai_sequence a) \<and> abd_attemptId b = nai_id a \<and> abd_attemptSequence b = nai_sequence a
   | _ \<Rightarrow> False))"

definition NO_TESTABLE_REQUIREMENTS :: string where
  "NO_TESTABLE_REQUIREMENTS = ''approved Spec has no testable Requirements''"

definition unexecuted_test_skip :: "flow_node \<Rightarrow> bool" where
  "unexecuted_test_skip n \<longleftrightarrow> nd_status n = ''skipped'' \<and> nd_attemptSequence n = 0 \<and> outcome_is n ''skipped''
     \<and> (case nd_result n of None \<Rightarrow> False | Some r \<Rightarrow> nrs_summary r = NO_TESTABLE_REQUIREMENTS)"

definition has_completion_reference :: "flow_node \<Rightarrow> bool" where
  "has_completion_reference n = (case nd_result n of None \<Rightarrow> False
     | Some r \<Rightarrow> list_ex (\<lambda>ref. arf_kind ref = ''source-step-settlement'') (nrs_artifactRefs r))"

definition assertLeafLifecycle :: "lifecycle_options \<Rightarrow> flow_node \<Rightarrow> unit res" where
  "assertLeafLifecycle opts n =
     (if (case acceptedStepDecision (nd_result n) of None \<Rightarrow> False | Some d \<Rightarrow> \<not> accepted_cursor_ok n d)
      then Inl (Error (''accepted Gate deferral has an invalid decision cursor or terminal receipt: '' @ nd_id n))
      else if nd_status n = ''pending'' \<and> nd_attemptSequence n \<noteq> 0
      then Inl (Error (''pending leaf must have a zero Attempt sequence cursor: '' @ nd_id n))
      else if lop_requirementTestSkip opts n then (if \<not> unexecuted_test_skip n
        then Inl (Error (''unexecuted Requirement test skip is invalid: '' @ nd_id n)) else Inr ())
      else if lop_routeCompletion opts n then Inr ()
      else if has_completion_reference n
      then Inl (Error (''unexecuted completion lacks its actual source receipt: '' @ nd_id n))
      else if nd_status n = ''skipped'' \<and> lop_requiresSourceSkipProof opts n \<and> \<not> lop_declaredRouteSkip opts n
      then Inl (Error (''skipped leaf requires its declared source completion proof: '' @ nd_id n))
      else if nd_status n \<in> set TERMINAL_NODE_STATUSES \<and> nd_attemptSequence n = 0
      then Inl (Error (''terminal leaf requires an Attempt sequence cursor: '' @ nd_id n))
      else if nd_status n = ''done'' \<and> \<not> outcome_is n ''passed''
      then Inl (Error (''done leaf requires a passed result: '' @ nd_id n))
      else if nd_status n = ''skipped'' \<and> \<not> outcome_is n ''skipped''
      then Inl (Error (''skipped leaf requires a skipped result: '' @ nd_id n))
      else if nd_status n = ''failed'' \<and> \<not> outcome_is n ''failed'' \<and> \<not> outcome_is n ''incomplete''
      then Inl (Error (''failed leaf requires a failed or incomplete result: '' @ nd_id n))
      else if nd_status n \<in> {''pending'', ''in_progress'', ''invalidated''} \<and> nd_result n \<noteq> None
        \<and> \<not> (nd_status n = ''invalidated'' \<and> lop_invalidatedRouteSource opts n)
      then Inl (Error (nd_status n @ '' leaf must not retain a result: '' @ nd_id n))
      else Inr ())"

definition completion_result :: "flow_node list \<Rightarrow> NodeResult option" where
  "completion_result steps = (case find (\<lambda>c. nd_result c \<noteq> None) (rev steps) of None \<Rightarrow> None | Some c \<Rightarrow> nd_result c)"

definition branch_check :: "flow_node \<Rightarrow> unit res" where
  "branch_check n =
     (let statuses = map nd_status (nd_steps n);
          allTerminal = list_all (\<lambda>s. s \<in> set TERMINAL_NODE_STATUSES) statuses;
          completion = completion_result (nd_steps n) in
      if nd_status n = ''pending'' then
        (if nd_result n \<noteq> None \<or> \<not> list_all (\<lambda>s. s = ''pending'') statuses
         then Inl (Error (''pending branch must contain only pending children: '' @ nd_id n)) else Inr ())
      else if nd_status n = ''done'' then
        (if \<not> allTerminal \<or> completion = None \<or> nd_result n \<noteq> completion
         then Inl (Error (''done branch requires terminal children and the definition completion result: '' @ nd_id n)) else Inr ())
      else if nd_status n = ''skipped'' then
        (if \<not> list_all (\<lambda>s. s = ''skipped'') statuses \<or> completion = None \<or> nd_result n \<noteq> completion
         then Inl (Error (''skipped branch requires skipped children and the definition completion result: '' @ nd_id n)) else Inr ())
      else if nd_status n = ''invalidated'' then
        (if nd_result n \<noteq> None \<or> ''invalidated'' \<notin> set statuses
         then Inl (Error (''invalidated branch requires an invalidated child and no result: '' @ nd_id n)) else Inr ())
      else if nd_status n \<noteq> ''in_progress''
      then Inl (Error (''branch status is incompatible with completion lifecycle: '' @ nd_id n))
      else if allTerminal then Inl (Error (''in_progress branch cannot retain an all-terminal child set: '' @ nd_id n))
      else if \<not> list_ex (\<lambda>s. s \<noteq> ''pending'') statuses
      then Inl (Error (''in_progress branch requires progressed child state: '' @ nd_id n))
      else Inr ())"

fun assertNodeLifecycle :: "lifecycle_options \<Rightarrow> flow_node \<Rightarrow> unit res"
  and assertStepsLifecycle :: "lifecycle_options \<Rightarrow> flow_node list \<Rightarrow> unit res" where
  "assertNodeLifecycle opts (FNode k i y s r a ss) =
     (if ss = [] then assertLeafLifecycle opts (FNode k i y s r a ss)
      else if a \<noteq> 0 then Inl (Error (''branch node must not carry an Attempt sequence cursor: '' @ i))
      else bindE (assertStepsLifecycle opts ss) (\<lambda>_. branch_check (FNode k i y s r a ss)))"
| "assertStepsLifecycle opts [] = Inr ()"
| "assertStepsLifecycle opts (n # ns) = bindE (assertNodeLifecycle opts n) (\<lambda>_. assertStepsLifecycle opts ns)"

subsection \<open>The execution frontier\<close>

record frontier_state =
  frs_frontier :: "flow_node option"
  frs_suffix :: "string option"
  frs_taskGateRepair :: bool
  frs_routeTail :: bool

definition task_nodes :: "flow_node list \<Rightarrow> flow_node list" where
  "task_nodes nodes = filter (\<lambda>n. nd_kind n = ''task'') nodes"

definition fully_pending :: "flow_node \<Rightarrow> bool" where
  "fully_pending n \<longleftrightarrow> list_all (\<lambda>l. nd_status l = ''pending'') (state_leaves n)"

text \<open>\<open>taskIdByLeafId\<close>: a later Task overwrites an earlier one.\<close>

definition taskIdByLeafId :: "flow_node list \<Rightarrow> string \<Rightarrow> string option" where
  "taskIdByLeafId nodes i = map_option nd_id (find (\<lambda>t. list_ex (\<lambda>l. nd_id l = i) (state_leaves t)) (rev (task_nodes nodes)))"

definition fullyPendingTaskIds :: "flow_node list \<Rightarrow> string list" where
  "fullyPendingTaskIds nodes = map nd_id (filter fully_pending (task_nodes nodes))"

definition UNIFORM_SUFFIX :: string where
  "UNIFORM_SUFFIX = ''execution frontier must have one active leaf and a uniform pending or invalidated suffix''"

fun join_with :: "string \<Rightarrow> string list \<Rightarrow> string" where
  "join_with sep [] = []"
| "join_with sep [x] = x"
| "join_with sep (x # y # xs) = x @ sep @ join_with sep (y # xs)"

definition frontier_error :: "flow_node list \<Rightarrow> jserr" where
  "frontier_error nodes = Error (UNIFORM_SUFFIX @ '': '' @ join_with '','' (map (\<lambda>l. nd_id l @ ''='' @ nd_status l) (filter leaf_node nodes)))"

definition frontier_leaf :: "bool \<Rightarrow> flow_node list \<Rightarrow> (flow_node \<Rightarrow> flow_node \<Rightarrow> bool) \<Rightarrow> (flow_node \<Rightarrow> flow_node \<Rightarrow> bool)
    \<Rightarrow> flow_node \<Rightarrow> frontier_state \<Rightarrow> frontier_state res" where
  "frontier_leaf downstream nodes retained tail lf st =
     (case frs_frontier st of
        None \<Rightarrow> if nd_status lf \<in> set TERMINAL_NODE_STATUSES then Inr st
          else Inr (st\<lparr>frs_frontier := Some lf, frs_suffix := (if nd_status lf = ''in_progress'' then None else Some (nd_status lf))\<rparr>)
      | Some f \<Rightarrow>
          if nd_status lf \<in> set TERMINAL_NODE_STATUSES then
            (if downstream \<and> nd_status lf = ''skipped'' \<and> nd_id lf \<in> {''finalize-sync'', ''finalize-cleanup''} then Inr st
             else if retained lf f then Inr st
             else Inl (Error (''execution frontier cannot contain terminal '' @ nd_id lf @ '' after unfinished work'')))
          else if frs_routeTail st then
            (if tail lf f then Inr st else Inl (Error ''retained route requires an untouched pending tail''))
          else if frs_taskGateRepair st then (if nd_status lf \<noteq> ''pending'' then Inl (Error UNIFORM_SUFFIX) else Inr st)
          else
            let leafTask = taskIdByLeafId nodes (nd_id lf); frontierTask = taskIdByLeafId nodes (nd_id f) in
            if nd_status lf = ''pending'' \<and> (case leafTask of None \<Rightarrow> False | Some t \<Rightarrow> t \<in> set (fullyPendingTaskIds nodes)) then Inr st
            else let suffix = (case frs_suffix st of None \<Rightarrow> nd_status lf | Some s \<Rightarrow> s); st = st\<lparr>frs_suffix := Some suffix\<rparr> in
            if suffix = ''invalidated'' \<and> nd_status lf = ''pending'' \<and> frontierTask \<noteq> None \<and> leafTask \<noteq> frontierTask
            then Inr (st\<lparr>frs_taskGateRepair := True\<rparr>)
            else if suffix = ''invalidated'' \<and> tail lf f then Inr (st\<lparr>frs_routeTail := True\<rparr>)
            else if suffix \<notin> set EXECUTABLE_NODE_STATUSES \<or> nd_status lf \<noteq> suffix then Inl (frontier_error nodes)
            else Inr st)"

fun frontier_loop :: "(flow_node \<Rightarrow> frontier_state \<Rightarrow> frontier_state res) \<Rightarrow> flow_node list \<Rightarrow> frontier_state \<Rightarrow> frontier_state res" where
  "frontier_loop f [] st = Inr st"
| "frontier_loop f (lf # ls) st = bindE (f lf st) (frontier_loop f ls)"

definition no_frontier :: frontier_state where
  "no_frontier = \<lparr>frs_frontier = None, frs_suffix = None, frs_taskGateRepair = False, frs_routeTail = False\<rparr>"

definition assertExecutionFrontier :: "flow_node list \<Rightarrow> string list option \<Rightarrow> flow_node list \<Rightarrow> (flow_node \<Rightarrow> flow_node \<Rightarrow> bool)
    \<Rightarrow> (flow_node \<Rightarrow> flow_node \<Rightarrow> bool) \<Rightarrow> unit res" where
  "assertExecutionFrontier lvs currentPath nodes retained tail =
     bindE (frontier_loop (frontier_leaf (case currentPath of None \<Rightarrow> False | Some p \<Rightarrow> last p = ''finalize-merge'') nodes retained tail)
       lvs no_frontier) (\<lambda>st.
     case frs_frontier st of
       None \<Rightarrow> if currentPath \<noteq> None then Inl (Error ''current path requires the execution frontier active leaf'') else Inr ()
     | Some f \<Rightarrow>
         if nd_status f = ''in_progress'' then
           (if (case currentPath of None \<Rightarrow> True | Some p \<Rightarrow> nd_id f \<noteq> last p)
            then Inl (Error ''execution frontier active leaf must match current path'') else Inr ())
         else if currentPath \<noteq> None then Inl (Error ''current path requires the execution frontier active leaf'') else Inr ())"

subsection \<open>Proofs by receipt\<close>

text \<open>A settled leaf of the run: what a receipt must say of the node that holds it.\<close>

definition receipt_binds :: "CurrentFlowState \<Rightarrow> flow_node \<Rightarrow> node_step_result \<Rightarrow> node_receipt \<Rightarrow> bool" where
  "receipt_binds s n sr rc = (let b = srp_binding (nrc_receipt rc) in
     abd_runId b = cst_runId s \<and> abd_specId b = cst_specId s \<and> abd_stepId b = nd_id n \<and> int (abd_attemptSequence b) = nd_attemptSequence n
     \<and> nrc_resultDigest rc = nsr_digest sr)"

definition decision_attempt_id :: "node_step_result \<Rightarrow> string option" where
  "decision_attempt_id sr = (case nsr_accepted sr of
     Some d \<Rightarrow> Some (nai_id (acd_settlementAttempt d))
   | None \<Rightarrow> map_option (\<lambda>i. nai_id (ntb_attempt i)) (srs_identity (nsr_result sr)))"

text \<open>A contract is looked up only for nodes of a checked tree; \<open>contract_of_node\<close> applies a test to it.\<close>

definition contract_of_node :: "CurrentFlowDefinition \<Rightarrow> flow_node \<Rightarrow> (NodeContract \<Rightarrow> bool) \<Rightarrow> bool" where
  "contract_of_node D n P = (case contractForNode D n of Inl e \<Rightarrow> False | Inr c \<Rightarrow> P c)"

definition settled_by :: "flow_node \<Rightarrow> (NodeResult \<Rightarrow> node_step_result \<Rightarrow> node_receipt \<Rightarrow> bool) \<Rightarrow> bool" where
  "settled_by n P = (case nd_result n of None \<Rightarrow> False | Some r \<Rightarrow> (case (nrs_stepResult r, nrs_receipt r) of
     (Some sr, Some rc) \<Rightarrow> P r sr rc | _ \<Rightarrow> False))"

definition receipt_id_is :: "string \<Rightarrow> flow_node \<Rightarrow> bool" where
  "receipt_id_is i n = settled_by n (\<lambda>r sr rc. nrc_id rc = i)"

definition unexecuted_recipient :: "flow_node \<Rightarrow> NodeResult \<Rightarrow> bool" where
  "unexecuted_recipient lf r \<longleftrightarrow> nd_status lf = ''skipped'' \<and> nrs_outcome r = ''skipped'' \<and> nrs_stepResult r = None \<and> nrs_receipt r = None"

definition allowsUnexecutedRouteCompletion :: "CurrentFlowDefinition \<Rightarrow> CurrentFlowState \<Rightarrow> flow_node \<Rightarrow> bool" where
  "allowsUnexecutedRouteCompletion D s lf = (case nd_result lf of None \<Rightarrow> False | Some lr \<Rightarrow>
     unexecuted_recipient lf lr \<and> (case nrs_artifactRefs lr of
       [ref] \<Rightarrow> arf_kind ref = ''source-step-settlement'' \<and>
         (case find (\<lambda>n. leaf_node n \<and> nd_status n = ''done'' \<and> receipt_id_is (arf_id ref) n) (collectNodes (cst_root s)) of
            None \<Rightarrow> False
          | Some source \<Rightarrow> settled_by source (\<lambda>r sr rc.
              nrs_outcome r = ''passed'' \<and> contract_of_node D lf (\<lambda>c. authorizesUnexecutedCompletion c (Some (nsr_result sr)))
              \<and> srp_settlementKind (nrc_receipt rc) = ''target-connection''
              \<and> receipt_binds s source sr rc \<and> nrc_resultKind rc = srs_kind (nsr_result sr)
              \<and> decision_attempt_id sr = Some (abd_attemptId (srp_binding (nrc_receipt rc)))
              \<and> (case srp_effects (nrc_receipt rc) of None \<Rightarrow> False | Some e \<Rightarrow>
                  (case find (\<lambda>x. usc_stepId x = nd_id lf) (sre_completions e) of None \<Rightarrow> False | Some x \<Rightarrow>
                    nd_attemptSequence lf = int (usc_attemptSequence x) \<and> nrs_summary lr = usc_reason x
                    \<and> nrs_confirmedAt lr = nrs_confirmedAt r))))
     | _ \<Rightarrow> False))"

definition hasRetainedRouteSourceProof :: "CurrentFlowDefinition \<Rightarrow> CurrentFlowState \<Rightarrow> flow_node \<Rightarrow> bool" where
  "hasRetainedRouteSourceProof D s lf = settled_by lf (\<lambda>r sr rc. contract_of_node D lf (\<lambda>c.
     (nd_status lf = ''done'' \<or> nd_status lf = ''invalidated''
        \<and> authorizesInvalidatedRouteSource c (Some (nsr_result sr)) (Some (nrc_receipt rc)))
     \<and> nrs_outcome r = ''passed'' \<and> authorizesRetainedRouteSource c (Some (nsr_result sr)) (Some (nrc_receipt rc)))
     \<and> receipt_binds s lf sr rc
     \<and> (case srp_effects (nrc_receipt rc) of None \<Rightarrow> False | Some e \<Rightarrow> nd_id lf \<notin> set (rfx_resetStepIds e))
     \<and> nrc_resultKind rc = srs_kind (nsr_result sr))"

definition leaf_index :: "CurrentFlowState \<Rightarrow> string \<Rightarrow> nat option" where
  "leaf_index s i = index_of i (map nd_id (state_leaves (cst_root s)))"

definition resets :: "node_receipt \<Rightarrow> string \<Rightarrow> bool" where
  "resets rc i = (case srp_effects (nrc_receipt rc) of None \<Rightarrow> False | Some e \<Rightarrow> i \<in> set (rfx_resetStepIds e))"

definition allowsRetainedRouteSourceCompletion :: "CurrentFlowDefinition \<Rightarrow> CurrentFlowState \<Rightarrow> flow_node \<Rightarrow> flow_node \<Rightarrow> bool" where
  "allowsRetainedRouteSourceCompletion D s lf frontier \<longleftrightarrow> hasRetainedRouteSourceProof D s lf \<and>
     settled_by lf (\<lambda>r sr rc.
       (case (Option.bind (srp_targetStepId (nrc_receipt rc)) (leaf_index s), leaf_index s (nd_id lf), leaf_index s (nd_id frontier)) of
          (Some t, Some i, Some f) \<Rightarrow> t \<le> f \<and> (f < i \<and> resets rc (nd_id frontier) \<or> f = i \<and> nd_status lf = ''invalidated'')
        | _ \<Rightarrow> False))"

definition allowsUnexecutedRouteTail :: "CurrentFlowDefinition \<Rightarrow> CurrentFlowState \<Rightarrow> flow_node \<Rightarrow> flow_node \<Rightarrow> bool" where
  "allowsUnexecutedRouteTail D s lf frontier \<longleftrightarrow>
     nd_status lf = ''pending'' \<and> nd_attemptSequence lf = 0 \<and> nd_result lf = None \<and>
     (case leaf_index s (nd_id lf) of None \<Rightarrow> False | Some i \<Rightarrow>
       list_ex (\<lambda>source. allowsRetainedRouteSourceCompletion D s source frontier \<and>
         settled_by source (\<lambda>r sr rc. resets rc (nd_id lf) \<and>
           contract_of_node D source (\<lambda>c. authorizesUnexecutedRouteTail c (Some (nsr_result sr)) (Some (nrc_receipt rc)))))
       (take i (state_leaves (cst_root s))))"

definition allowsDeclaredRouteSkip :: "CurrentFlowDefinition \<Rightarrow> CurrentFlowState \<Rightarrow> flow_node \<Rightarrow> bool" where
  "allowsDeclaredRouteSkip D s lf = (case nd_result lf of None \<Rightarrow> False | Some lr \<Rightarrow>
     unexecuted_recipient lf lr \<and> 1 \<le> nd_attemptSequence lf \<and> nrs_artifactRefs lr = [] \<and>
     list_ex (\<lambda>source. leaf_node source \<and> nd_status source = ''done'' \<and> settled_by source (\<lambda>r sr rc.
         nrs_outcome r = ''passed'' \<and> contract_of_node D lf (\<lambda>c. authorizesRouteSkip c (Some (nsr_result sr)))
         \<and> srp_settlementKind (nrc_receipt rc) = ''target-connection''
         \<and> (case srp_effects (nrc_receipt rc) of None \<Rightarrow> False | Some e \<Rightarrow> nd_id lf \<in> set (rfx_skipStepIds e))
         \<and> receipt_binds s source sr rc \<and> nrs_confirmedAt lr = nrs_confirmedAt r
         \<and> (nrs_summary lr = ''implementation triage rejected every finding''
            \<or> nrs_summary lr = ''Draft route from '' @ nd_id source @ '' bypassed '' @ nd_id lf)))
       (collectNodes (cst_root s)))"

subsection \<open>The whole check\<close>

definition noTestableRequirementSkips :: "CurrentFlowState \<Rightarrow> bool" where
  "noTestableRequirementSkips s \<longleftrightarrow> list_all (\<lambda>i. case findNodeInRoot (cst_root s) i of None \<Rightarrow> False | Some n \<Rightarrow> unexecuted_test_skip n)
     REQUIREMENT_TEST_LEAF_IDS"

definition state_options :: "CurrentFlowDefinition \<Rightarrow> CurrentFlowState \<Rightarrow> lifecycle_options" where
  "state_options D s =
     \<lparr>lop_requirementTestSkip = (\<lambda>n. noTestableRequirementSkips s \<and> nd_id n \<in> set REQUIREMENT_TEST_LEAF_IDS),
      lop_routeCompletion = allowsUnexecutedRouteCompletion D s,
      lop_declaredRouteSkip = allowsDeclaredRouteSkip D s,
      lop_requiresSourceSkipProof = (\<lambda>n. contract_of_node D n requiresSourceSkipProof),
      lop_invalidatedRouteSource = hasRetainedRouteSourceProof D s\<rparr>"

fun status_checks :: "CurrentFlowDefinition \<Rightarrow> string list \<Rightarrow> flow_node list \<Rightarrow> unit res" where
  "status_checks D ids [] = Inr ()"
| "status_checks D ids (n # ns) =
     (if nd_id n \<in> set ids then Inl (Error (''state duplicates stable id: '' @ nd_id n)) else
      bindE (contractForNode D n) (\<lambda>c. if \<not> permitsStatus c (nd_status n)
        then Inl (Error (''state status is unreachable in the definition transition graph for '' @ nd_id n @ '': '' @ nd_status n))
        else status_checks D (nd_id n # ids) ns))"

definition assertAttemptContractForLeaf :: "CurrentFlowDefinition \<Rightarrow> flow_node \<Rightarrow> CurrentAttempt \<Rightarrow> unit res" where
  "assertAttemptContractForLeaf D lf next = bindE (contractForNode D lf) (\<lambda>c.
     if nct_semanticRetryLimit c < atc_semantic (cat_consumption next)
     then Inl (Error (''attempt semantic consumption exceeds definition semanticRetryLimit for '' @ nd_id lf))
     else if nct_toolingRetryLimit c = None \<and> atc_tooling (cat_consumption next) \<noteq> 0
     then Inl (Error (''attempt tooling consumption is not authorized for '' @ nd_id lf))
     else if (case nct_toolingRetryLimit c of None \<Rightarrow> False | Some m \<Rightarrow> m < atc_tooling (cat_consumption next))
     then Inl (Error (''attempt tooling consumption exceeds definition toolingRetryLimit for '' @ nd_id lf))
     else assertClaims (nct_resourceContract c) (cat_operationClaims next) (cat_incomplete next) (nd_id lf))"

definition assertDefinitionExecutionCurrent :: "CurrentFlowDefinition \<Rightarrow> CurrentFlowState \<Rightarrow> unit res" where
  "assertDefinitionExecutionCurrent D s =
     (let nodes = collectNodes (cst_root s); leaves = state_leaves (cst_root s);
          active = filter (\<lambda>n. nd_status n = ''in_progress'') leaves in
      bindE (assertExecutionFrontier leaves (cst_current s) nodes (allowsRetainedRouteSourceCompletion D s) (allowsUnexecutedRouteTail D s)) (\<lambda>_.
      if cst_lifecycle s = ''finalized'' \<and> (cst_current s \<noteq> None \<or> cst_attempt s \<noteq> None)
      then Inl (Error ''finalized Flow must not retain an active Attempt'')
      else if cst_lifecycle s = ''finalized'' \<and> cst_outbox s \<noteq> []
      then Inl (Error ''finalized Flow must not retain unfinished outbox operations'')
      else if cst_lifecycle s = ''finalized'' \<and> list_ex (\<lambda>n. nd_status n \<notin> set TERMINAL_NODE_STATUSES) leaves
      then Inl (Error ''finalized Flow requires every leaf to be terminal'')
      else case cst_current s of
        None \<Rightarrow> if cst_attempt s \<noteq> None then Inl (Error ''attempt requires a current path'')
          else if active \<noteq> [] then Inl (Error ''an in-progress leaf requires current path and attempt'') else Inr ()
      | Some path \<Rightarrow> (case cst_attempt s of
          None \<Rightarrow> Inl (Error ''current path requires an active Attempt'')
        | Some a \<Rightarrow> bindE (nodeAtPath (cst_root s) path) (\<lambda>lf.
            if nd_steps lf \<noteq> [] then Inl (Error ''current.path must end at a leaf'')
            else if nd_status lf \<noteq> ''in_progress'' then Inl (Error ''current leaf must be in_progress'')
            else if nd_attemptSequence lf \<noteq> cat_sequence a then Inl (Error ''current Attempt sequence must match the active leaf cursor'')
            else if cat_nodeId a \<noteq> nd_id lf then Inl (Error ''current Attempt nodeId must match the active leaf cursor'') else
            bindE (assertAttemptContractForLeaf D lf a) (\<lambda>_.
            if map nd_id active \<noteq> [nd_id lf] then Inl (Error ''current path must identify the sole active leaf'')
            else if list_ex (\<lambda>i. (case findNodeInRoot (cst_root s) i of None \<Rightarrow> True | Some n \<Rightarrow> nd_status n \<noteq> ''in_progress'')) (butlast path)
            then Inl (Error ''every current path ancestor must be in_progress'') else Inr ())))))"

definition assertDefinitionCurrent :: "CurrentFlowDefinition \<Rightarrow> CurrentFlowState \<Rightarrow> unit res" where
  "assertDefinitionCurrent D s =
     bindE (assertStateShape D (cst_root s)) (\<lambda>_.
     bindE (status_checks D [] (collectNodes (cst_root s))) (\<lambda>_.
     bindE (assertNodeLifecycle (state_options D s) (cst_root s)) (\<lambda>_.
     assertDefinitionExecutionCurrent D s)))"

definition LIFECYCLE_STATES :: "string list" where
  "LIFECYCLE_STATES = [''active'', ''parked'', ''finalized'']"

text \<open>The constructor: the cursor is given by the id of its leaf and resolved to a path.\<close>

definition new_CurrentFlowState :: "CurrentFlowDefinition \<Rightarrow> CurrentFlowState \<Rightarrow> CurrentFlowState res" where
  "new_CurrentFlowState D s =
     (if cst_lifecycle s \<notin> set LIFECYCLE_STATES then Inl (Error (''lifecycle.state is invalid: '' @ cst_lifecycle s))
      else if nd_kind (cst_root s) \<noteq> ''flow'' then Inl (Error ''FlowRootNode.kind must be flow'') else
      bindE (eachE node_check (collectNodes (cst_root s))) (\<lambda>_.
      bindE (case cst_current s of None \<Rightarrow> Inr None
        | Some p \<Rightarrow> bindE (cfs_text ''current id'' (last p)) (\<lambda>_. bindE (pathFor (cst_root s) (last p)) (\<lambda>q. Inr (Some q)))) (\<lambda>current.
      let s = s\<lparr>cst_current := current\<rparr> in
      bindE (assertDefinitionCurrent D s) (\<lambda>_. Inr s))))"

end
