(* ===== verification/Flow_Operations.thy ===== *)
theory Flow_Operations
  imports State_Lifecycle
begin

section \<open>Operations of a canonical state\<close>

text \<open>
  The operations of \<open>CurrentFlowState\<close> that need no journal: lifecycle changes, dynamic Tasks, starting, failing,
  retrying, recording and confirming Attempts with the routes of their receipts, rewinding and recovering, and the
  queries that name the next action.  Every operation ends in the constructor, which checks the new state.
  Results and Attempts are values of their classes.  The state has no history, so \<open>resumeHistoricalContinuation\<close> is
  \<open>replaceRoot\<close>; the completion of a contract is always \<open>all_children_terminal\<close>, the only value its constructor
  accepts.
\<close>

subsection \<open>Tree transitions\<close>

definition with_node :: "flow_node \<Rightarrow> string \<Rightarrow> NodeResult option \<Rightarrow> int \<Rightarrow> flow_node list \<Rightarrow> flow_node" where
  "with_node n status result attempts steps = FNode (nd_kind n) (nd_id n) (nd_key n) status result attempts steps"

definition transitionNode :: "CurrentFlowDefinition \<Rightarrow> string \<Rightarrow> NodeResult option \<Rightarrow> int \<Rightarrow> flow_node list \<Rightarrow> flow_node \<Rightarrow> flow_node res" where
  "transitionNode D status result attempts steps n =
     bindE (if nd_status n = status then Inr () else bindE (contractForNode D n) (\<lambda>c. if permits c (nd_status n) status then Inr ()
       else Inl (Error (''definition forbids transition '' @ nd_status n @ '':'' @ status @ '' for '' @ nd_id n)))) (\<lambda>_.
     Inr (with_node n status result attempts steps))"

fun reconcileInvalidatedParents :: "CurrentFlowDefinition \<Rightarrow> flow_node \<Rightarrow> flow_node res"
  and reconcileInvalidatedSteps :: "CurrentFlowDefinition \<Rightarrow> flow_node list \<Rightarrow> flow_node list res" where
  "reconcileInvalidatedParents D (FNode k i y s r a ss) =
     (if ss = [] then Inr (FNode k i y s r a ss) else
      bindE (reconcileInvalidatedSteps D ss) (\<lambda>steps.
      if list_ex (\<lambda>n. nd_status n = ''invalidated'') steps then transitionNode D ''invalidated'' None a steps (FNode k i y s r a ss)
      else Inr (FNode k i y s r a steps)))"
| "reconcileInvalidatedSteps D [] = Inr []"
| "reconcileInvalidatedSteps D (n # ns) = bindE (reconcileInvalidatedParents D n) (\<lambda>m.
     bindE (reconcileInvalidatedSteps D ns) (\<lambda>ms. Inr (m # ms)))"

fun reconcileCompletedParents :: "CurrentFlowDefinition \<Rightarrow> flow_node \<Rightarrow> flow_node res"
  and reconcileCompletedSteps :: "CurrentFlowDefinition \<Rightarrow> flow_node list \<Rightarrow> flow_node list res" where
  "reconcileCompletedParents D (FNode k i y s r a ss) =
     (if ss = [] then Inr (FNode k i y s r a ss) else
      bindE (reconcileCompletedSteps D ss) (\<lambda>steps.
      if list_all (\<lambda>n. nd_status n \<in> set TERMINAL_NODE_STATUSES) steps
      then transitionNode D ''done'' (completion_result steps) a steps (FNode k i y s r a ss)
      else if list_ex (\<lambda>n. nd_status n = ''in_progress'') steps then transitionNode D ''in_progress'' r a steps (FNode k i y s r a ss)
      else Inr (FNode k i y s r a steps)))"
| "reconcileCompletedSteps D [] = Inr []"
| "reconcileCompletedSteps D (n # ns) = bindE (reconcileCompletedParents D n) (\<lambda>m.
     bindE (reconcileCompletedSteps D ns) (\<lambda>ms. Inr (m # ms)))"

text \<open>One step of the loops that transition nodes by id: the node is read from the tree built so far.\<close>

definition update_node :: "flow_node \<Rightarrow> string \<Rightarrow> (flow_node \<Rightarrow> flow_node res) \<Rightarrow> flow_node res" where
  "update_node root i f = (case findNodeInRoot root i of
     None \<Rightarrow> Inl (TypeError ''Cannot read properties of undefined or null'')
   | Some n \<Rightarrow> bindE (f n) (\<lambda>m. Inr (replaceNode i m root)))"

fun update_nodes :: "(flow_node \<Rightarrow> flow_node res) \<Rightarrow> string list \<Rightarrow> flow_node \<Rightarrow> flow_node res" where
  "update_nodes f [] root = Inr root"
| "update_nodes f (i # is) root = bindE (update_node root i f) (update_nodes f is)"

definition invalidate :: "CurrentFlowDefinition \<Rightarrow> flow_node \<Rightarrow> flow_node res" where
  "invalidate D n = transitionNode D ''invalidated'' None (nd_attemptSequence n) (nd_steps n) n"

subsection \<open>Construction and lifecycle\<close>

definition create :: "CurrentFlowDefinition \<Rightarrow> string \<Rightarrow> string \<Rightarrow> CurrentFlowState res" where
  "create D runId specId = new_CurrentFlowState D \<lparr>cst_runId = runId, cst_specId = specId, cst_lifecycle = ''active'',
     cst_root = materializeRoot D, cst_current = None, cst_attempt = None, cst_outbox = []\<rparr>"

definition replaceRoot :: "CurrentFlowDefinition \<Rightarrow> CurrentFlowState \<Rightarrow> flow_node \<Rightarrow> string list option \<Rightarrow> CurrentAttempt option
    \<Rightarrow> CurrentFlowState res" where
  "replaceRoot D s root current attempt = new_CurrentFlowState D (s\<lparr>cst_root := root, cst_current := current, cst_attempt := attempt\<rparr>)"

definition findNode :: "CurrentFlowState \<Rightarrow> string \<Rightarrow> flow_node option" where
  "findNode s i = findNodeInRoot (cst_root s) i"

definition err_message :: "jserr \<Rightarrow> string" where
  "err_message e = (case e of Error m \<Rightarrow> m | TypeError m \<Rightarrow> m)"

definition assertTransitionHandler :: "CurrentFlowDefinition \<Rightarrow> CurrentFlowState \<Rightarrow> string \<Rightarrow> unit res" where
  "assertTransitionHandler D s nodeId =
     bindE (cfs_text ''transition handler nodeId'' nodeId) (\<lambda>_.
     case findNode s nodeId of
       None \<Rightarrow> Inl (Error ''transition handler requires a saved state node'')
     | Some n \<Rightarrow> (case bindE (definitionNodeFor D n) (\<lambda>_.
           if nd_id n \<noteq> nd_id (cst_root s) \<and> nd_steps n = [] then bindE (actionFor D (cst_root s) (nd_id n)) (\<lambda>_. Inr ()) else Inr ()) of
         Inl e \<Rightarrow> Inl (Error (''current Flow definition has no handler for historical node '' @ nd_id n @ '': '' @ err_message e))
       | Inr u \<Rightarrow> Inr ()))"

definition cursor_id :: "CurrentFlowState \<Rightarrow> string" where
  "cursor_id s = (case cst_current s of None \<Rightarrow> nd_id (cst_root s) | Some p \<Rightarrow> last p)"

definition assertExecutionActive :: "CurrentFlowDefinition \<Rightarrow> CurrentFlowState \<Rightarrow> unit res" where
  "assertExecutionActive D s = bindE (assertTransitionHandler D s (cursor_id s)) (\<lambda>_.
     if cst_lifecycle s \<noteq> ''active'' then Inl (Error ''step transitions require an active Flow lifecycle'') else Inr ())"

definition replaceLifecycle :: "CurrentFlowDefinition \<Rightarrow> CurrentFlowState \<Rightarrow> string \<Rightarrow> CurrentFlowState res" where
  "replaceLifecycle D s state = new_CurrentFlowState D (s\<lparr>cst_lifecycle := state\<rparr>)"

definition park :: "CurrentFlowDefinition \<Rightarrow> CurrentFlowState \<Rightarrow> CurrentFlowState res" where
  "park D s = bindE (assertTransitionHandler D s (nd_id (cst_root s))) (\<lambda>_.
     if cst_lifecycle s \<noteq> ''active'' then Inl (Error ''only an active Flow may be parked'') else replaceLifecycle D s ''parked'')"

definition resume :: "CurrentFlowDefinition \<Rightarrow> CurrentFlowState \<Rightarrow> CurrentFlowState res" where
  "resume D s = bindE (assertTransitionHandler D s (nd_id (cst_root s))) (\<lambda>_.
     if cst_lifecycle s \<noteq> ''parked'' then Inl (Error ''only a parked Flow may be resumed'') else replaceLifecycle D s ''active'')"

definition withOutbox :: "CurrentFlowDefinition \<Rightarrow> CurrentFlowState \<Rightarrow> jsval list \<Rightarrow> CurrentFlowState res" where
  "withOutbox D s outbox = bindE (assertTransitionHandler D s (nd_id (cst_root s))) (\<lambda>_.
     if cst_lifecycle s = ''finalized'' then Inl (Error ''finalized Flow outbox is immutable'')
     else new_CurrentFlowState D (s\<lparr>cst_outbox := outbox\<rparr>))"

definition finalize :: "CurrentFlowDefinition \<Rightarrow> CurrentFlowState \<Rightarrow> CurrentFlowState res" where
  "finalize D s =
     (if cst_lifecycle s \<noteq> ''active'' then Inl (Error ''only an active Flow may be finalized'')
      else if cst_current s \<noteq> None \<or> cst_attempt s \<noteq> None then Inl (Error ''cannot finalize a Flow with an active Attempt'')
      else if list_ex (\<lambda>n. nd_status n \<notin> set TERMINAL_NODE_STATUSES) (state_leaves (cst_root s))
      then Inl (Error ''cannot finalize a Flow with unfinished leaves'')
      else replaceLifecycle D s ''finalized'')"

subsection \<open>Dynamic Tasks\<close>

definition insertTask :: "CurrentFlowDefinition \<Rightarrow> CurrentFlowState \<Rightarrow> flow_node \<Rightarrow> string \<Rightarrow> string \<Rightarrow> CurrentFlowState res" where
  "insertTask D s container i key = bindE (taskFrom D i key) (\<lambda>task.
     let k = taskInsertionIndex D container;
         container' = with_node container (nd_status container) (nd_result container) (nd_attemptSequence container)
           (take k (nd_steps container) @ [task] @ drop k (nd_steps container)) in
     replaceRoot D s (replaceNode (nd_id container) container' (cst_root s)) (cst_current s) (cst_attempt s))"

definition addTask :: "CurrentFlowDefinition \<Rightarrow> CurrentFlowState \<Rightarrow> string \<Rightarrow> string \<Rightarrow> CurrentFlowState res" where
  "addTask D s i key = bindE (assertExecutionActive D s) (\<lambda>_.
     case findNode s (cfd_dynamicTaskContainerId D) of
       None \<Rightarrow> Inl (Error ''dynamic Task container is missing'')
     | Some container \<Rightarrow>
         if findNode s i \<noteq> None then Inl (Error (''dynamic Task duplicates stable id: '' @ i)) else
         bindE (canAddTask D (cst_root s)) (\<lambda>open.
         if \<not> open then Inl (Error ''dynamic Task insertion is closed after the definition-owned flow suffix begins'')
         else if (case cst_current s of None \<Rightarrow> False | Some p \<Rightarrow> last p \<noteq> ''approval'')
         then Inl (Error ''dynamic Task insertion requires no active Attempt outside approval'')
         else insertTask D s container i key))"

subsection \<open>Starting and retrying Attempts\<close>

definition assertInitialAttempt :: "CurrentFlowDefinition \<Rightarrow> flow_node \<Rightarrow> CurrentAttempt \<Rightarrow> unit res" where
  "assertInitialAttempt D lf next =
     (if cat_nodeId next \<noteq> nd_id lf then Inl (Error ''Attempt nodeId must match its target leaf'') else
      bindE (assertAttemptContractForLeaf D lf next) (\<lambda>_.
      if cat_sequence next \<noteq> nd_attemptSequence lf + 1 \<or> atc_semantic (cat_consumption next) \<noteq> 0 \<or> atc_tooling (cat_consumption next) \<noteq> 0
      then Inl (Error ''a new Attempt episode must advance the node sequence and reset retry consumption'')
      else if cat_failure next \<noteq> None then Inl (Error ''a new Attempt must not begin failed'') else Inr ()))"

definition assertRetryAttempt :: "CurrentFlowDefinition \<Rightarrow> flow_node \<Rightarrow> CurrentAttempt \<Rightarrow> CurrentAttempt \<Rightarrow> string \<Rightarrow> unit res" where
  "assertRetryAttempt D lf next previous kind =
     (if cat_nodeId next \<noteq> nd_id lf then Inl (Error ''Attempt nodeId must match its target leaf'') else
      bindE (assertAttemptContractForLeaf D lf next) (\<lambda>_.
      let u = cat_consumption next; v = cat_consumption previous in
      if kind \<notin> set RETRY_KINDS then Inl (Error ''retry Attempt kind must be semantic or tooling'')
      else if cat_sequence next \<noteq> cat_sequence previous + 1 \<or> cat_sequence next \<noteq> nd_attemptSequence lf + 1
      then Inl (Error ''retry Attempt sequence must immediately follow the active Attempt and node cursor'')
      else if cat_id next = cat_id previous then Inl (Error ''retry Attempt must have a new stable id'')
      else if cat_failure next \<noteq> None then Inl (Error ''a retry Attempt must not begin failed'')
      else if kind = ''semantic''
      then (if atc_semantic u \<noteq> atc_semantic v + 1 \<or> atc_tooling u \<noteq> atc_tooling v
        then Inl (Error ''semantic retry must increment only semantic consumption by one'') else Inr ())
      else if atc_semantic u \<noteq> atc_semantic v \<or> atc_tooling u \<noteq> atc_tooling v + 1
      then Inl (Error ''tooling retry must increment only tooling consumption by one'') else Inr ()))"

definition activate_node :: "CurrentFlowDefinition \<Rightarrow> string \<Rightarrow> CurrentAttempt \<Rightarrow> flow_node \<Rightarrow> flow_node res" where
  "activate_node D leafId a n =
     (if nd_status n \<noteq> ''in_progress'' \<or> nd_id n = leafId \<and> nd_attemptSequence n \<noteq> cat_sequence a
      then transitionNode D ''in_progress'' (if nd_id n = leafId then None else nd_result n)
        (if nd_id n = leafId then cat_sequence a else nd_attemptSequence n) (nd_steps n) n
      else Inr n)"

fun join_or :: "string list \<Rightarrow> string" where
  "join_or xs = join_with '' or '' xs"

definition activateAttempt :: "CurrentFlowDefinition \<Rightarrow> CurrentFlowState \<Rightarrow> string list \<Rightarrow> CurrentAttempt \<Rightarrow> string list \<Rightarrow> string
    \<Rightarrow> CurrentFlowState res" where
  "activateAttempt D s path a allowed operation = bindE (assertExecutionActive D s) (\<lambda>_.
     if cst_current s \<noteq> None then Inl (Error ''a current Attempt is already active'') else
     bindE (nodeAtPath (cst_root s) path) (\<lambda>lf.
     bindE (assertTransitionHandler D s (nd_id lf)) (\<lambda>_.
     if nd_steps lf \<noteq> [] then Inl (Error ''Attempt target must be a leaf'')
     else if nd_status lf \<notin> set allowed then Inl (Error (operation @ '' may target only a '' @ join_or allowed @ '' leaf'')) else
     bindE (assertInitialAttempt D lf a) (\<lambda>_.
     bindE (update_nodes (activate_node D (nd_id lf) a) path (cst_root s)) (\<lambda>root.
     replaceRoot D s root (Some path) (Some a))))))"

definition activateAttemptFromRoot :: "CurrentFlowDefinition \<Rightarrow> CurrentFlowState \<Rightarrow> flow_node \<Rightarrow> string list \<Rightarrow> CurrentAttempt \<Rightarrow> string list \<Rightarrow> string
    \<Rightarrow> CurrentFlowState res" where
  "activateAttemptFromRoot D s root path a allowed operation =
     bindE (nodeAtPath root path) (\<lambda>lf.
     bindE (assertTransitionHandler D s (nd_id lf)) (\<lambda>_.
     if nd_steps lf \<noteq> [] \<or> nd_status lf \<notin> set allowed
     then Inl (Error (operation @ '' may target only a '' @ join_or allowed @ '' leaf'')) else
     bindE (assertInitialAttempt D lf a) (\<lambda>_.
     bindE (update_nodes (activate_node D (nd_id lf) a) path root) (\<lambda>root.
     replaceRoot D s root (Some path) (Some a)))))"

definition startAttempt :: "CurrentFlowDefinition \<Rightarrow> CurrentFlowState \<Rightarrow> string list \<Rightarrow> CurrentAttempt \<Rightarrow> CurrentFlowState res" where
  "startAttempt D s path a = bindE (nextExecutableLeaf D (cst_root s)) (\<lambda>expected.
     if path = [] \<or> (case expected of None \<Rightarrow> True | Some l \<Rightarrow> nd_id l \<noteq> last path \<or> nd_status l \<noteq> ''pending'')
     then Inl (Error (''startAttempt must target the definition-owned next executable leaf: expected ''
       @ (case expected of None \<Rightarrow> ''none=absent'' | Some l \<Rightarrow> nd_id l @ ''='' @ nd_status l)
       @ '', got '' @ (if path = [] then ''none'' else last path)))
     else activateAttempt D s path a [''pending''] ''startAttempt'')"

definition current_leaf :: "CurrentFlowState \<Rightarrow> flow_node option res" where
  "current_leaf s = (case cst_current s of None \<Rightarrow> Inr None | Some p \<Rightarrow> bindE (nodeAtPath (cst_root s) p) (\<lambda>n. Inr (Some n)))"

definition with_sequence :: "flow_node \<Rightarrow> int \<Rightarrow> flow_node" where
  "with_sequence n k = with_node n (nd_status n) (nd_result n) k (nd_steps n)"

definition replaceFailedAttemptForRetry :: "CurrentFlowDefinition \<Rightarrow> CurrentFlowState \<Rightarrow> CurrentAttempt \<Rightarrow> string \<Rightarrow> CurrentFlowState res" where
  "replaceFailedAttemptForRetry D s next kind = bindE (assertExecutionActive D s) (\<lambda>_.
     case (cst_current s, cst_attempt s) of
       (Some path, Some previous) \<Rightarrow> bindE (nodeAtPath (cst_root s) path) (\<lambda>lf.
         case cat_failure previous of
           None \<Rightarrow> Inl (Error ''retryCurrentAttempt requires a retryable failed active Attempt'')
         | Some f \<Rightarrow>
             if \<not> acf_retryable f then Inl (Error ''retryCurrentAttempt requires a retryable failed active Attempt'')
             else if Some kind \<noteq> acf_retryKind f then Inl (Error ''retry kind must match the active Attempt failure decision'')
             else if cat_nodeId next \<noteq> nd_id lf then Inl (Error ''retry Attempt nodeId must match the active leaf'') else
             bindE (assertRetryAttempt D lf next previous kind) (\<lambda>_.
             replaceRoot D s (replaceNode (nd_id lf) (with_sequence lf (cat_sequence next)) (cst_root s)) (cst_current s) (Some next)))
     | _ \<Rightarrow> Inl (Error ''retryCurrentAttempt requires an active Attempt''))"

subsection \<open>Failures\<close>

record CurrentFailureDisposition =
  cfp_attemptId :: string
  cfp_sequence :: int
  cfp_policy :: DefinitionFailurePolicy
  cfp_operation :: string
  cfp_outcome :: string
  cfp_retryKind :: "string option"
  cfp_remaining :: int
  cfp_targetPath :: "string list option"
  cfp_reason :: string

definition new_CurrentFailureDisposition :: "CurrentAttempt \<Rightarrow> DefinitionFailureDecision \<Rightarrow> string \<Rightarrow> string list option
    \<Rightarrow> CurrentFailureDisposition res" where
  "new_CurrentFailureDisposition a d outcome targetPath =
     (if cat_failure a = None then Inl (Error ''failure disposition requires a failed current Attempt'')
      else if outcome \<notin> {''failed'', ''incomplete''} then Inl (Error ''failure disposition outcome must be failed or incomplete'')
      else if targetPath = Some [] then Inl (Error ''failure disposition target path must be null or a stable-id path'')
      else if (dfd_operation d = ''rewind'') \<noteq> (targetPath \<noteq> None)
      then Inl (Error ''rewind failure disposition requires exactly one target path'')
      else if (case targetPath of None \<Rightarrow> False | Some p \<Rightarrow> Some (last p) \<noteq> dfd_targetNodeId d)
      then Inl (Error ''failure disposition path must end at the definition target node'')
      else Inr \<lparr>cfp_attemptId = cat_id a, cfp_sequence = cat_sequence a, cfp_policy = dfd_policy d, cfp_operation = dfd_operation d,
        cfp_outcome = outcome, cfp_retryKind = dfd_retryKind d, cfp_remaining = dfd_remaining d, cfp_targetPath = targetPath,
        cfp_reason = dfd_reason d\<rparr>)"

definition failure_decision_for :: "CurrentFlowDefinition \<Rightarrow> CurrentFlowState \<Rightarrow> flow_node \<Rightarrow> CurrentAttempt \<Rightarrow> ActivityFailure
    \<Rightarrow> DefinitionFailureDecision res" where
  "failure_decision_for D s lf a f = bindE (actionFor D (cst_root s) (nd_id lf)) (\<lambda>action.
     case dac_failurePolicy action of
       None \<Rightarrow> Inl (TypeError ''Cannot read properties of undefined or null'')
     | Some p \<Rightarrow> bindE (contractForNode D lf) (\<lambda>c. decide_failure p f (cat_consumption a) c action))"

definition failureDisposition :: "CurrentFlowDefinition \<Rightarrow> CurrentFlowState \<Rightarrow> CurrentFailureDisposition option res" where
  "failureDisposition D s = (case (cst_current s, cst_attempt s) of
     (Some path, Some a) \<Rightarrow> (case cat_failure a of None \<Rightarrow> Inr None | Some f \<Rightarrow>
       bindE (nodeAtPath (cst_root s) path) (\<lambda>lf.
       bindE (failure_decision_for D s lf a f) (\<lambda>d.
       bindE (case dfd_targetNodeId d of None \<Rightarrow> Inr None | Some t \<Rightarrow> bindE (pathFor (cst_root s) t) (\<lambda>p. Inr (Some p))) (\<lambda>targetPath.
       bindE (new_CurrentFailureDisposition a d (if cat_incomplete a \<noteq> [] then ''incomplete'' else ''failed'') targetPath) (\<lambda>x. Inr (Some x))))))
   | _ \<Rightarrow> Inr None)"

definition disposed :: "CurrentFlowDefinition \<Rightarrow> CurrentFlowState \<Rightarrow> string \<Rightarrow> jserr \<Rightarrow> CurrentFailureDisposition res" where
  "disposed D s operation e = bindE (failureDisposition D s) (\<lambda>d. case d of
     None \<Rightarrow> Inl (TypeError ''Cannot read properties of undefined or null'')
   | Some d \<Rightarrow> if cfp_operation d \<noteq> operation then Inl e else Inr d)"

definition retryCurrentAttempt :: "CurrentFlowDefinition \<Rightarrow> CurrentFlowState \<Rightarrow> CurrentAttempt \<Rightarrow> string \<Rightarrow> CurrentFlowState res" where
  "retryCurrentAttempt D s next kind = bindE (assertExecutionActive D s) (\<lambda>_.
     case (cst_current s, cst_attempt s) of
       (Some path, Some a) \<Rightarrow>
         if (case cat_failure a of None \<Rightarrow> True | Some f \<Rightarrow> \<not> acf_retryable f)
         then Inl (Error ''retryCurrentAttempt requires a retryable failed active Attempt'') else
         bindE (disposed D s ''retry'' (Error ''the definition failure policy does not authorize retry'')) (\<lambda>_.
         replaceFailedAttemptForRetry D s next kind)
     | _ \<Rightarrow> Inl (Error ''retryCurrentAttempt requires an active Attempt''))"

definition task_gate_cursor :: "CurrentFlowState \<Rightarrow> flow_node \<Rightarrow> bool res" where
  "task_gate_cursor s lf = (case cst_current s of None \<Rightarrow> Inr False | Some p \<Rightarrow>
     (case (if length p < 2 then None else findNode s (last (butlast p))) of None \<Rightarrow> Inr False | Some task \<Rightarrow>
       if nd_kind task \<noteq> ''task'' then Inr False else
       bindE (new_TaskStepIdentity (JStr (nd_id task)) (JStr ''gate'')) (\<lambda>i. Inr (nd_id lf = tsi_nodeId i))))"

definition retryGateAttempt :: "CurrentFlowDefinition \<Rightarrow> CurrentFlowState \<Rightarrow> CurrentAttempt \<Rightarrow> CurrentFlowState res" where
  "retryGateAttempt D s next = bindE (assertExecutionActive D s) (\<lambda>_. bindE (current_leaf s) (\<lambda>l.
     let e = Error ''definition-owned Gate retry requires a failed semantic Gate Attempt'' in
     case l of None \<Rightarrow> Inl e | Some lf \<Rightarrow> bindE (task_gate_cursor s lf) (\<lambda>taskGate.
       if nd_id lf \<notin> {''draft-gate'', ''spec-gate'', ''impl-gate''} \<and> \<not> taskGate
         \<or> Option.bind (Option.bind (cst_attempt s) cat_failure) (\<lambda>f. Some (acf_category f)) \<noteq> Some ''semantic''
       then Inl e else replaceFailedAttemptForRetry D s next ''semantic'')))"

definition retryFinalRegressionAttempt :: "CurrentFlowDefinition \<Rightarrow> CurrentFlowState \<Rightarrow> CurrentAttempt \<Rightarrow> CurrentFlowState res" where
  "retryFinalRegressionAttempt D s next = bindE (current_leaf s) (\<lambda>l.
     let e = Error ''final-regression repair requires a current-change failed Attempt'' in
     case (l, Option.bind (cst_attempt s) cat_failure) of
       (Some lf, Some f) \<Rightarrow>
         if nd_id lf \<noteq> ''final-regression'' \<or> acf_category f \<noteq> ''caused_by_current_change'' \<or> acf_retryKind f \<noteq> Some ''semantic''
         then Inl e else replaceFailedAttemptForRetry D s next ''semantic''
     | _ \<Rightarrow> Inl e)"

definition failCurrentAttempt :: "CurrentFlowDefinition \<Rightarrow> CurrentFlowState \<Rightarrow> ActivityFailure \<Rightarrow> NodeResult \<Rightarrow> CurrentFlowState res" where
  "failCurrentAttempt D s failure completed = bindE (assertExecutionActive D s) (\<lambda>_.
     case (cst_current s, cst_attempt s) of
       (Some path, Some a) \<Rightarrow>
         if cat_failure a \<noteq> None then Inl (Error ''active Attempt failure is already recorded'')
         else if nrs_outcome completed \<notin> {''failed'', ''incomplete''} then Inl (Error ''failed Attempt result must be failed or incomplete'')
         else if (nrs_outcome completed = ''incomplete'') \<noteq> (cat_incomplete a \<noteq> [])
         then Inl (Error ''incomplete Attempt result and typed incomplete operation/resource claims must agree'') else
         bindE (nodeAtPath (cst_root s) path) (\<lambda>lf.
         let a' = a\<lparr>cat_failure := Some failure\<rparr> in
         bindE (assertAttemptContractForLeaf D lf a') (\<lambda>_. replaceRoot D s (cst_root s) (cst_current s) (Some a')))
     | _ \<Rightarrow> Inl (Error ''failCurrentAttempt requires an active Attempt''))"

definition settle_leaf :: "CurrentFlowDefinition \<Rightarrow> CurrentFlowState \<Rightarrow> string \<Rightarrow> string \<Rightarrow> NodeResult \<Rightarrow> flow_node res" where
  "settle_leaf D s leafId status result =
     bindE (update_node (cst_root s) leafId (\<lambda>n. transitionNode D status (Some result) (nd_attemptSequence n) (nd_steps n) n))
       (reconcileCompletedParents D)"

definition recordCurrentFailure :: "CurrentFlowDefinition \<Rightarrow> CurrentFlowState \<Rightarrow> NodeResult \<Rightarrow> CurrentFlowState res" where
  "recordCurrentFailure D s recorded = bindE (assertExecutionActive D s) (\<lambda>_.
     case (cst_current s, Option.bind (cst_attempt s) cat_failure) of
       (Some path, Some f) \<Rightarrow>
         bindE (disposed D s ''record'' (Error ''the definition failure policy does not authorize recording this failure'')) (\<lambda>d.
         if nrs_outcome recorded \<noteq> cfp_outcome d then Inl (Error ''recorded failure result must match the active failure outcome'') else
         bindE (settle_leaf D s (last path) ''failed'' recorded) (\<lambda>root. replaceRoot D s root None None))
     | _ \<Rightarrow> Inl (Error ''recordCurrentFailure requires a failed active Attempt''))"

definition replaceCurrentAttempt :: "CurrentFlowDefinition \<Rightarrow> CurrentFlowState \<Rightarrow> CurrentAttempt \<Rightarrow> CurrentFlowState res" where
  "replaceCurrentAttempt D s next = bindE (assertExecutionActive D s) (\<lambda>_.
     case (cst_current s, cst_attempt s) of
       (Some path, Some a) \<Rightarrow> bindE (nodeAtPath (cst_root s) path) (\<lambda>lf.
         if cat_failure a \<noteq> None then Inl (Error ''failed Attempt facts are immutable; retry or recovery is required'')
         else if cat_id next \<noteq> cat_id a \<or> cat_nodeId next \<noteq> cat_nodeId a \<or> cat_sequence next \<noteq> cat_sequence a
           \<or> cat_startedAt next \<noteq> cat_startedAt a \<or> cat_consumption next \<noteq> cat_consumption a \<or> cat_failure next \<noteq> cat_failure a
         then Inl (Error ''active Attempt replacement must preserve attempt identity and retry consumption'') else
         bindE (assertAttemptContractForLeaf D lf next) (\<lambda>_. replaceRoot D s (cst_root s) (cst_current s) (Some next)))
     | _ \<Rightarrow> Inl (Error ''replaceCurrentAttempt requires an active Attempt''))"

definition retryExhaustedAttempt :: "CurrentFlowDefinition \<Rightarrow> CurrentFlowState \<Rightarrow> CurrentAttempt \<Rightarrow> CurrentFlowState res" where
  "retryExhaustedAttempt D s next = bindE (assertExecutionActive D s) (\<lambda>_.
     case (cst_current s, cst_attempt s) of
       (Some path, Some a) \<Rightarrow> (case cat_failure a of
           None \<Rightarrow> Inl (Error ''exhausted retry requires a failed active Attempt'')
         | Some f \<Rightarrow> bindE (nodeAtPath (cst_root s) path) (\<lambda>lf. bindE (contractForNode D lf) (\<lambda>c.
             if cat_nodeId next \<noteq> nd_id lf \<or> cat_sequence next \<noteq> cat_sequence a + 1 \<or> cat_failure next \<noteq> None
             then Inl (Error ''exhausted retry Attempt identity is invalid'')
             else if \<not> (acf_retryKind f = Some ''tooling'' \<or> acf_category f = ''tooling'' \<or> acf_category f = ''provider'')
               \<or> atc_tooling (cat_consumption next) \<noteq> (case nct_toolingRetryLimit c of None \<Rightarrow> 0 | Some m \<Rightarrow> m)
             then Inl (Error ''exhausted retry recovery requires a fully consumed tooling budget'') else
             bindE (assertAttemptContractForLeaf D lf next) (\<lambda>_.
             replaceRoot D s (replaceNode (nd_id lf) (with_sequence lf (cat_sequence next)) (cst_root s)) (cst_current s) (Some next)))))
     | (Some path, None) \<Rightarrow> Inl (TypeError ''Cannot read properties of undefined or null'')
     | _ \<Rightarrow> Inl (Error ''exhausted retry requires a failed active Attempt''))"

subsection \<open>Queries\<close>

record CurrentNextActionDescriptor =
  nad_path :: "string list"
  nad_node :: flow_node
  nad_operation :: string
  nad_action :: DefinitionAction
  nad_failureDisposition :: "CurrentFailureDisposition option"

definition FAILURE_OPERATIONS :: "string list" where
  "FAILURE_OPERATIONS = [''retry'', ''record'', ''rewind'', ''blocked'', ''resolve-step-definition'']"

definition new_CurrentNextActionDescriptor :: "CurrentNextActionDescriptor \<Rightarrow> CurrentNextActionDescriptor res" where
  "new_CurrentNextActionDescriptor d =
     (if nad_path d = [] then Inl (Error ''next action path must be a non-empty stable-id array'')
      else if nad_operation d \<notin> set ([''start'', ''recover'', ''resume''] @ FAILURE_OPERATIONS) then Inl (Error ''next action operation is invalid'')
      else if (nad_operation d \<in> set FAILURE_OPERATIONS) \<noteq> (nad_failureDisposition d \<noteq> None)
      then Inl (Error ''failed next action requires exactly one typed failure disposition'')
      else Inr d)"

definition nextAction :: "CurrentFlowDefinition \<Rightarrow> CurrentFlowState \<Rightarrow> CurrentNextActionDescriptor option res" where
  "nextAction D s = (case cst_current s of
     Some path \<Rightarrow>
       bindE (nodeAtPath (cst_root s) path) (\<lambda>n.
       bindE (assertTransitionHandler D s (nd_id n)) (\<lambda>_.
       bindE (failureDisposition D s) (\<lambda>fd.
       let p = (case Option.bind fd cfp_targetPath of None \<Rightarrow> path | Some t \<Rightarrow> t) in
       bindE (nodeAtPath (cst_root s) p) (\<lambda>m.
       bindE (actionFor D (cst_root s) (nd_id m)) (\<lambda>action.
       bindE (new_CurrentNextActionDescriptor \<lparr>nad_path = p, nad_node = m,
         nad_operation = (case fd of None \<Rightarrow> ''resume'' | Some f \<Rightarrow> cfp_operation f), nad_action = action, nad_failureDisposition = fd\<rparr>)
         (\<lambda>d. Inr (Some d)))))))
   | None \<Rightarrow> bindE (nextExecutableLeaf D (cst_root s)) (\<lambda>l. case l of None \<Rightarrow> Inr None | Some n \<Rightarrow>
       bindE (assertTransitionHandler D s (nd_id n)) (\<lambda>_.
       bindE (pathFor (cst_root s) (nd_id n)) (\<lambda>p.
       bindE (actionFor D (cst_root s) (nd_id n)) (\<lambda>action.
       bindE (new_CurrentNextActionDescriptor \<lparr>nad_path = p, nad_node = n,
         nad_operation = (if nd_status n = ''invalidated'' then ''recover'' else ''start''), nad_action = action, nad_failureDisposition = None\<rparr>)
         (\<lambda>d. Inr (Some d)))))))"

record CurrentRetryEligibility =
  cre_path :: "string list option"
  cre_attempt :: "CurrentAttempt option"
  cre_semanticRemaining :: "int option"
  cre_toolingRemaining :: "int option"

definition retryEligibility :: "CurrentFlowDefinition \<Rightarrow> CurrentFlowState \<Rightarrow> CurrentRetryEligibility res" where
  "retryEligibility D s = (case (cst_current s, cst_attempt s) of
     (Some path, Some a) \<Rightarrow>
       bindE (nodeAtPath (cst_root s) path) (\<lambda>lf.
       bindE (case cat_failure a of None \<Rightarrow> Inr None | Some f \<Rightarrow> bindE (failure_decision_for D s lf a f) (\<lambda>d. Inr (Some d))) (\<lambda>d.
       let remaining = (\<lambda>kind. case d of None \<Rightarrow> 0
         | Some d \<Rightarrow> if dfd_operation d = ''retry'' \<and> dfd_retryKind d = Some kind then dfd_remaining d else 0) in
       bindE (cfs_integer ''retry eligibility semanticRemaining'' 0 (remaining ''semantic'')) (\<lambda>_.
       bindE (cfs_integer ''retry eligibility toolingRemaining'' 0 (remaining ''tooling'')) (\<lambda>_.
       Inr \<lparr>cre_path = Some path, cre_attempt = Some a, cre_semanticRemaining = Some (remaining ''semantic''),
         cre_toolingRemaining = Some (remaining ''tooling'')\<rparr>))))
   | _ \<Rightarrow> Inr \<lparr>cre_path = None, cre_attempt = None, cre_semanticRemaining = None, cre_toolingRemaining = None\<rparr>)"

record CurrentRecoveryTarget =
  crt_path :: "string list"
  crt_operation :: string
  crt_legal :: bool
  crt_reason :: string

definition recoveryTarget :: "CurrentFlowDefinition \<Rightarrow> CurrentFlowState \<Rightarrow> string list \<Rightarrow> CurrentRecoveryTarget res" where
  "recoveryTarget D s path =
     bindE (nodeAtPath (cst_root s) path) (\<lambda>target.
     bindE (contractForNode D target) (\<lambda>c.
     let terminal = (nd_steps target = [] \<and> nd_status target \<in> set TERMINAL_NODE_STATUSES); reenter = permits c (nd_status target) ''in_progress'' in
     if cst_current s \<noteq> None then
       bindE (failureDisposition D s) (\<lambda>fd.
       let legal = ((case fd of None \<Rightarrow> False | Some f \<Rightarrow> cfp_operation f = ''rewind'' \<and> cfp_targetPath f = Some path) \<and> terminal \<and> reenter) in
       Inr \<lparr>crt_path = path, crt_operation = (if legal then ''rewind'' else ''unavailable''), crt_legal = legal,
         crt_reason = (if legal then ''the active failure policy authorizes rewind to this definition target''
           else ''an active Attempt permits only its definition-owned failure recovery target'')\<rparr>)
     else
       bindE (nextExecutableLeaf D (cst_root s)) (\<lambda>next.
       let invalidated = (nd_steps target = [] \<and> nd_status target = ''invalidated'' \<and> map_option nd_id next = Some (nd_id target));
           legal = ((terminal \<or> invalidated) \<and> reenter) in
       Inr \<lparr>crt_path = path, crt_operation = (if terminal then ''rewind'' else if invalidated then ''recover'' else ''unavailable''), crt_legal = legal,
         crt_reason = (if \<not> legal then ''recovery requires a transition-authorized terminal leaf or next invalidated leaf''
           else if terminal then ''terminal leaf may be rewound'' else ''next invalidated leaf may be recovered'')\<rparr>)))"

definition assertLegal :: "CurrentRecoveryTarget \<Rightarrow> CurrentRecoveryTarget res" where
  "assertLegal t = (if \<not> crt_legal t then Inl (Error (''recovery target is not legal: '' @ crt_reason t)) else Inr t)"

subsection \<open>Rewinding and recovering\<close>

definition leaves_after :: "flow_node \<Rightarrow> string \<Rightarrow> flow_node list" where
  "leaves_after root i = (case index_of i (map nd_id (state_leaves root)) of None \<Rightarrow> state_leaves root | Some k \<Rightarrow> drop (Suc k) (state_leaves root))"

definition rewind :: "CurrentFlowDefinition \<Rightarrow> CurrentFlowState \<Rightarrow> string list \<Rightarrow> CurrentAttempt \<Rightarrow> CurrentFlowState res" where
  "rewind D s path a = bindE (assertExecutionActive D s) (\<lambda>_.
     bindE (bindE (recoveryTarget D s path) assertLegal) (\<lambda>t.
     if crt_operation t \<noteq> ''rewind'' then Inl (Error ''rewind requires a terminal recovery target'') else
     bindE (nodeAtPath (cst_root s) path) (\<lambda>target.
     bindE (update_nodes (invalidate D) (map nd_id (leaves_after (cst_root s) (nd_id target))) (cst_root s)) (\<lambda>root.
     bindE (reconcileInvalidatedParents D root) (\<lambda>root.
     bindE (replaceRoot D s root None None) (\<lambda>s'.
     activateAttempt D s' path a [''done'', ''skipped'', ''failed'', ''invalidated''] ''rewind''))))))"

definition recover :: "CurrentFlowDefinition \<Rightarrow> CurrentFlowState \<Rightarrow> string list \<Rightarrow> CurrentAttempt \<Rightarrow> CurrentFlowState res" where
  "recover D s path a = bindE (assertExecutionActive D s) (\<lambda>_.
     bindE (bindE (recoveryTarget D s path) assertLegal) (\<lambda>t.
     if crt_operation t \<noteq> ''recover'' then Inl (Error ''recover requires the next invalidated recovery target'')
     else activateAttempt D s path a [''invalidated''] ''recover''))"

definition recoverMissingProducerArtifact :: "CurrentFlowDefinition \<Rightarrow> CurrentFlowState \<Rightarrow> string list \<Rightarrow> CurrentAttempt \<Rightarrow> CurrentFlowState res" where
  "recoverMissingProducerArtifact D s path restored = bindE (assertExecutionActive D s) (\<lambda>_.
     bindE (nodeAtPath (cst_root s) path) (\<lambda>producer.
     let enter = (\<lambda>n. transitionNode D ''in_progress'' None (nd_attemptSequence n) (nd_steps n) n);
         open_path = update_nodes (\<lambda>n. if nd_status n \<noteq> ''in_progress'' then enter n else Inr n) path;
         after = leaves_after (cst_root s) (nd_id producer) in
     if nd_steps producer \<noteq> [] \<or> nd_id producer \<noteq> cat_nodeId restored
     then Inl (Error ''missing producer artifact recovery must restore its exact producer leaf'')
     else if nd_status producer \<noteq> ''failed'' \<or> nd_attemptSequence producer \<noteq> cat_sequence restored \<or> cat_failure restored = None
     then Inl (Error ''missing producer artifact recovery requires the recorded failed producer Attempt'')
     else if (cst_current s = None) \<noteq> (cst_attempt s = None)
     then Inl (Error ''missing producer artifact recovery has an invalid active cursor'')
     else if leaf_index s (nd_id producer) = None
     then Inl (Error ''missing producer artifact recovery requires a definition producer leaf'')
     else bindE (case cst_current s of
         None \<Rightarrow> if list_ex (\<lambda>n. nd_status n \<notin> set EXECUTABLE_NODE_STATUSES) after
           then Inl (Error ''missing producer artifact recovery cannot cross a completed downstream leaf'') else Inr (cst_root s)
       | Some p \<Rightarrow> if \<not> list_ex (\<lambda>n. nd_id n = last p) after
           then Inl (Error ''missing producer artifact recovery requires a downstream consumer'')
           else update_nodes (invalidate D) (map nd_id after) (cst_root s)) (\<lambda>root.
     bindE (update_node root (nd_id producer) enter) (\<lambda>root.
     bindE (reconcileInvalidatedParents D root) (\<lambda>root.
     bindE (open_path root) (\<lambda>root.
     replaceRoot D s root (Some path) (Some restored)))))))"

subsection \<open>Task Gates\<close>

record ActivityGateTaskLifecycle =
  gtl_operation :: string
  gtl_taskId :: string
  gtl_resetStepIds :: "string list"
  gtl_successorStepId :: "string option"

definition assertTaskGateLifecycle :: "CurrentFlowDefinition \<Rightarrow> CurrentFlowState \<Rightarrow> string \<Rightarrow> ActivityGateTaskLifecycle option \<Rightarrow> string
    \<Rightarrow> (string \<times> string) option res" where
  "assertTaskGateLifecycle D s leafId lifecycle operation =
     (let tasks = (case findNode s (cfd_dynamicTaskContainerId D) of None \<Rightarrow> [] | Some c \<Rightarrow> filter (\<lambda>n. nd_kind n = ''task'') (nd_steps c)) in
      case find (\<lambda>t. list_ex (\<lambda>n. nd_id n = leafId) (nd_steps t)) tasks of
        None \<Rightarrow> if lifecycle \<noteq> None then Inl (Error ''non-Task Gate transition cannot carry a Task lifecycle effect'') else Inr None
      | Some task \<Rightarrow> bindE (mapE (\<lambda>role. bindE (new_TaskStepIdentity (JStr (nd_id task)) (JStr role)) (\<lambda>i. Inr (tsi_nodeId i)))
            [''impl'', ''review'', ''triage'', ''repair'', ''gate'']) (\<lambda>expected.
          if leafId \<noteq> last expected then
            (if lifecycle \<noteq> None then Inl (Error ''Task lifecycle effects may target only a materialized Task Gate'') else Inr None)
          else if map nd_id (nd_steps task) \<noteq> expected
          then Inl (Error ''Task Gate lifecycle requires its exact materialized Task Step identity'')
          else (case lifecycle of
              None \<Rightarrow> Inl (Error ''Task Gate transition requires its exact sealed lifecycle effect'')
            | Some g \<Rightarrow>
              if gtl_operation g \<noteq> operation \<or> gtl_taskId g \<noteq> nd_id task \<or> gtl_resetStepIds g \<noteq> []
              then Inl (Error ''Task Gate transition requires its exact sealed lifecycle effect'') else
              bindE (orderedLeaves D (cst_root s)) (\<lambda>ls.
              let successor = (if leafId \<notin> set (map nd_id ls) then None
                else map_option nd_id (find (\<lambda>n. nd_status n \<in> set EXECUTABLE_NODE_STATUSES) (leaves_after (cst_root s) leafId))) in
              case successor of
                None \<Rightarrow> Inl (Error ''Task Gate lifecycle has no canonical executable successor'')
              | Some i \<Rightarrow> if gtl_successorStepId g \<noteq> Some i
                  then Inl (Error ''Task Gate lifecycle successor does not match the persisted Task frontier'')
                  else Inr (Some (nd_id task, i))))))"

definition assertTaskGateSuccessor :: "CurrentFlowDefinition \<Rightarrow> CurrentFlowState \<Rightarrow> (string \<times> string) option \<Rightarrow> unit res" where
  "assertTaskGateSuccessor D next lifecycle = (case lifecycle of None \<Rightarrow> Inr () | Some (taskId, successorStepId) \<Rightarrow>
     if (case findNode next taskId of None \<Rightarrow> True | Some t \<Rightarrow> nd_kind t \<noteq> ''task'' \<or> nd_status t \<noteq> ''done'')
     then Inl (Error ''Task Gate lifecycle did not complete its Task atomically'') else
     bindE (nextAction D next) (\<lambda>d. if map_option (\<lambda>d. nd_id (nad_node d)) d \<noteq> Some successorStepId
       then Inl (Error ''Task Gate lifecycle did not reach its sealed successor'') else Inr ()))"

subsection \<open>Claims\<close>

record ExecutableStepClaim =
  esc_path :: "string list"
  esc_node :: flow_node
  esc_operation :: string
  esc_attempt :: CurrentAttempt

definition new_ExecutableStepClaim :: "string list \<Rightarrow> flow_node \<Rightarrow> string \<Rightarrow> CurrentAttempt \<Rightarrow> ExecutableStepClaim res" where
  "new_ExecutableStepClaim path n operation a =
     (if path = [] \<or> last path \<noteq> nd_id n then Inl (Error ''executable Step claim path must terminate at its node'')
      else if operation \<notin> {''active'', ''start'', ''recover''} then Inl (Error ''executable Step claim operation and origin are invalid'')
      else if cat_nodeId a \<noteq> nd_id n then Inl (Error ''executable Step claim Attempt does not belong to its node'')
      else if cat_sequence a \<noteq> (if operation = ''active'' then nd_attemptSequence n else nd_attemptSequence n + 1)
      then Inl (Error ''executable Step claim Attempt sequence is not canonical'')
      else if nd_status n \<noteq> (if operation = ''active'' then ''in_progress'' else if operation = ''start'' then ''pending'' else ''invalidated'')
      then Inl (Error ''executable Step claim lifecycle status is not canonical'')
      else if cat_failure a \<noteq> None \<or> cat_blocker a \<noteq> None \<or> cat_incomplete a \<noteq> []
      then Inl (Error ''executable Step claim requires a runnable Attempt'')
      else Inr \<lparr>esc_path = path, esc_node = n, esc_operation = operation, esc_attempt = a\<rparr>)"

definition assertPassiveExecutableTarget :: "CurrentNextActionDescriptor \<Rightarrow> string \<Rightarrow> unit res" where
  "assertPassiveExecutableTarget d nodeId =
     (let e = Error ''target is not the canonical passive executable next action'' in
      if nad_operation d \<notin> {''start'', ''recover''} then Inl e else
      bindE (cfs_text ''passive executable target nodeId'' nodeId) (\<lambda>_. if nd_id (nad_node d) \<noteq> nodeId then Inl e else Inr ()))"

definition executableStepClaim :: "CurrentFlowDefinition \<Rightarrow> CurrentFlowState \<Rightarrow> string \<Rightarrow> CurrentAttempt \<Rightarrow> ExecutableStepClaim res" where
  "executableStepClaim D s nodeId a = bindE (assertExecutionActive D s) (\<lambda>_.
     bindE (cfs_text ''executable Step claim nodeId'' nodeId) (\<lambda>_.
     case cst_current s of
       Some path \<Rightarrow> bindE (nodeAtPath (cst_root s) path) (\<lambda>active. case cst_attempt s of
           None \<Rightarrow> Inl (Error ''executable Step claim does not own the active Attempt'')
         | Some own \<Rightarrow>
             if nd_id active \<noteq> nodeId then Inl (Error ''executable Step claim does not own the active Attempt'')
             else if cat_id a \<noteq> cat_id own \<or> cat_sequence a \<noteq> cat_sequence own
             then Inl (Error ''executable Step claim Attempt identity is stale'')
             else new_ExecutableStepClaim path active ''active'' own)
     | None \<Rightarrow> bindE (nextAction D s) (\<lambda>d. case d of
           None \<Rightarrow> Inl (Error ''Flow has no canonical executable next action'')
         | Some d \<Rightarrow> bindE (assertPassiveExecutableTarget d nodeId) (\<lambda>_.
             new_ExecutableStepClaim (nad_path d) (nad_node d) (nad_operation d) a))))"

definition materialize_claim :: "CurrentFlowDefinition \<Rightarrow> CurrentFlowState \<Rightarrow> ExecutableStepClaim \<Rightarrow> CurrentFlowState res" where
  "materialize_claim D s c =
     (if esc_operation c = ''active'' then Inr s
      else if esc_operation c = ''recover'' then recover D s (esc_path c) (esc_attempt c)
      else startAttempt D s (esc_path c) (esc_attempt c))"

subsection \<open>Confirmation and routes\<close>

definition retainedRouteSourceRequiresReentry :: "CurrentFlowDefinition \<Rightarrow> CurrentFlowState \<Rightarrow> string \<Rightarrow> string option \<Rightarrow> bool" where
  "retainedRouteSourceRequiresReentry D s sourceStepId targetStepId = (case (findNode s sourceStepId, Option.bind targetStepId (findNode s)) of
     (Some source, Some target) \<Rightarrow> (case cst_current s of None \<Rightarrow> False | Some p \<Rightarrow> last p = sourceStepId)
       \<and> nd_status source = ''in_progress'' \<and> nd_status target = ''done'' \<and> allowsRetainedRouteSourceCompletion D s target source
   | _ \<Rightarrow> False)"

text \<open>\<open>TaskStepIdentity.fromStateNode(state, nodeId)?.definitionId ?? nodeId\<close>.\<close>

definition settled_step_id :: "CurrentFlowDefinition \<Rightarrow> CurrentFlowState \<Rightarrow> string \<Rightarrow> string res" where
  "settled_step_id D s nodeId = (case findNode s nodeId of None \<Rightarrow> Inr nodeId | Some n \<Rightarrow>
     bindE (definitionNodeFor D n) (\<lambda>d.
     bindE (pathFor (cst_root s) nodeId) (\<lambda>p.
     case find (\<lambda>t. nd_kind t = ''task'') (List.map_filter (findNode s) p) of
       None \<Rightarrow> Inr nodeId
     | Some t \<Rightarrow> if starts_with ''task-'' (dn_id d) \<and> drop 5 (dn_id d) \<in> set TASK_STEP_ROLES
         then bindE (new_TaskStepIdentity (JStr (nd_id t)) (JStr (drop 5 (dn_id d)))) (\<lambda>i. Inr (tsi_definitionId i)) else Inr nodeId)))"

definition skipped_result :: "string \<Rightarrow> string \<Rightarrow> artifact_reference list \<Rightarrow> NodeResult" where
  "skipped_result summary confirmedAt refs = \<lparr>nrs_outcome = ''skipped'', nrs_summary = summary, nrs_confirmedAt = confirmedAt,
     nrs_artifactRefs = refs, nrs_stepResult = None, nrs_receipt = None\<rparr>"

text \<open>A loop over ids whose body replaces the node or throws.\<close>

fun route_each :: "(flow_node option \<Rightarrow> 'a \<Rightarrow> flow_node option res) \<Rightarrow> ('a \<Rightarrow> string) \<Rightarrow> 'a list \<Rightarrow> flow_node \<Rightarrow> flow_node res" where
  "route_each f ident [] root = Inr root"
| "route_each f ident (x # xs) root = bindE (f (findNodeInRoot root (ident x)) x) (\<lambda>m.
     route_each f ident xs (case m of None \<Rightarrow> root | Some m \<Rightarrow> replaceNode (ident x) m root))"

definition route_skip :: "CurrentFlowDefinition \<Rightarrow> string \<Rightarrow> NodeResult \<Rightarrow> flow_node option \<Rightarrow> string \<Rightarrow> flow_node option res" where
  "route_skip D sourceStepId result n stepId = (case n of
     None \<Rightarrow> Inl (Error (''Draft route cannot skip '' @ stepId))
   | Some n \<Rightarrow> if nd_steps n \<noteq> [] \<or> nd_status n \<notin> set EXECUTABLE_NODE_STATUSES then Inl (Error (''Draft route cannot skip '' @ stepId)) else
       bindE (transitionNode D ''skipped''
         (Some (skipped_result (''Draft route from '' @ sourceStepId @ '' bypassed '' @ nd_id n) (nrs_confirmedAt result) []))
         (nd_attemptSequence n + 1) (nd_steps n) n) (\<lambda>m. Inr (Some m)))"

definition route_complete :: "CurrentFlowDefinition \<Rightarrow> NodeResult \<Rightarrow> node_step_result \<Rightarrow> node_receipt \<Rightarrow> flow_node option \<Rightarrow> UnexecutedStepCompletion
    \<Rightarrow> flow_node option res" where
  "route_complete D result sr rc n completion =
     (let e = Error (''Definition does not authorize unexecuted completion of '' @ usc_stepId completion) in
      case n of None \<Rightarrow> Inl e
      | Some n \<Rightarrow> if nd_steps n \<noteq> [] \<or> nd_attemptSequence n \<noteq> int (usc_attemptSequence completion) then Inl e else
          bindE (contractForNode D n) (\<lambda>c.
          if \<not> permitsUnexecutedCompletion c (Some (nsr_result sr)) (nd_status n) then Inl e
          else Inr (Some (with_node n ''skipped'' (Some (skipped_result (usc_reason completion) (nrs_confirmedAt result)
            [\<lparr>arf_kind = ''source-step-settlement'', arf_id = nrc_id rc\<rparr>])) (nd_attemptSequence n) (nd_steps n)))))"

definition route_reset :: "CurrentFlowDefinition \<Rightarrow> CurrentFlowState \<Rightarrow> string \<Rightarrow> bool \<Rightarrow> flow_node option \<Rightarrow> string \<Rightarrow> flow_node option res" where
  "route_reset D s sourceStepId preserveTail n stepId = (case n of
     None \<Rightarrow> Inl (Error (''Draft route cannot reset '' @ stepId))
   | Some n \<Rightarrow> if nd_steps n \<noteq> [] then Inl (Error (''Draft route cannot reset '' @ stepId))
       else if preserveTail \<and> nd_status n = ''pending'' \<and> nd_attemptSequence n = 0 \<and> nd_result n = None
         \<and> (case (leaf_index s stepId, leaf_index s sourceStepId) of (Some i, Some j) \<Rightarrow> j < i | (Some i, None) \<Rightarrow> True | _ \<Rightarrow> False)
       then Inr None else bindE (invalidate D n) (\<lambda>m. Inr (Some m)))"

definition resetSelectedRouteLeaves :: "CurrentFlowDefinition \<Rightarrow> CurrentFlowState \<Rightarrow> flow_node \<Rightarrow> string \<Rightarrow> node_step_result \<Rightarrow> node_receipt \<Rightarrow> StepRouteEffects
    \<Rightarrow> flow_node res" where
  "resetSelectedRouteLeaves D s root sourceStepId sr rc effects = (case findNodeInRoot root sourceStepId of
     None \<Rightarrow> Inl (TypeError ''Cannot read properties of undefined or null'')
   | Some source \<Rightarrow>
       let preserveTail = (hasRetainedRouteSourceProof D s source \<and>
         contract_of_node D source (\<lambda>c. authorizesUnexecutedRouteTail c (Some (nsr_result sr)) (Some (nrc_receipt rc)))) in
       route_each (route_reset D s sourceStepId preserveTail) (\<lambda>i. i) (rfx_resetStepIds effects) root)"

definition applyDraftStepRoute :: "CurrentFlowDefinition \<Rightarrow> CurrentFlowState \<Rightarrow> flow_node \<Rightarrow> string \<Rightarrow> NodeResult \<Rightarrow> CurrentAttempt option \<Rightarrow> flow_node res" where
  "applyDraftStepRoute D s root sourceStepId result decisionAttempt = (case (nrs_stepResult result, nrs_receipt result) of
     (Some sr, Some rc) \<Rightarrow> (let p = nrc_receipt rc; b = srp_binding p in
       if nrs_outcome result \<notin> {''passed'', ''skipped''} \<or> srp_settlementKind p \<noteq> ''target-connection'' \<or> srp_effects p = None
       then Inl (Error ''Draft route requires a passed StepResult result'') else
       bindE (settled_step_id D s sourceStepId) (\<lambda>stepId.
       if cst_runId s \<noteq> abd_runId b \<or> cst_specId s \<noteq> abd_specId b \<or> stepId \<noteq> abd_stepId b
         \<or> map_option cat_id decisionAttempt \<noteq> Some (abd_attemptId b)
         \<or> map_option cat_sequence decisionAttempt \<noteq> Some (int (abd_attemptSequence b))
       then Inl (Error ''Draft settlement receipt binding is stale'') else
       case Option.bind (srp_targetStepId p) (findNode s) of
         None \<Rightarrow> Inl (Error ''Draft route target is absent'')
       | Some target \<Rightarrow> bindE (assertTransitionHandler D s (nd_id target)) (\<lambda>_.
           let effects = the (srp_effects p) in
           bindE (route_each (route_skip D sourceStepId result) (\<lambda>i. i) (rfx_skipStepIds effects) root) (\<lambda>root.
           bindE (route_each (route_complete D result sr rc) usc_stepId (sre_completions effects) root) (\<lambda>root.
           bindE (resetSelectedRouteLeaves D s root sourceStepId sr rc effects) (\<lambda>root.
           bindE (if retainedRouteSourceRequiresReentry D s sourceStepId (srp_targetStepId p)
             then update_node root (nd_id target) (invalidate D) else Inr root) (\<lambda>root.
           bindE (reconcileCompletedParents D root) (\<lambda>root.
           bindE (reconcileInvalidatedParents D root) (\<lambda>root.
           bindE (nextExecutableLeaf D root) (\<lambda>selected.
           if map_option nd_id selected \<noteq> srp_targetStepId p
           then Inl (Error ''Draft route did not reach its Definition-selected successor'') else Inr root))))))))))
   | _ \<Rightarrow> Inl (Error ''Draft route requires a passed StepResult result''))"

definition assertAttemptConfirmable :: "CurrentFlowDefinition \<Rightarrow> CurrentFlowState \<Rightarrow> unit res" where
  "assertAttemptConfirmable D s = bindE (assertExecutionActive D s) (\<lambda>_. case cst_current s of
     None \<Rightarrow> Inl (Error ''confirmCurrentAttempt requires an active Attempt'')
   | Some p \<Rightarrow> (case cst_attempt s of
       None \<Rightarrow> Inl (TypeError ''Cannot read properties of undefined or null'')
     | Some a \<Rightarrow> if cat_failure a \<noteq> None then Inl (Error ''a failed Attempt cannot be confirmed without a new retry Attempt'')
         else if cat_blocker a \<noteq> None \<or> cat_incomplete a \<noteq> [] then Inl (Error ''a blocked or incomplete Attempt cannot be confirmed'')
         else Inr ()))"

definition connection_target :: "NodeResult \<Rightarrow> string option option" where
  "connection_target r = (case nrs_receipt r of None \<Rightarrow> None
     | Some rc \<Rightarrow> if srp_settlementKind (nrc_receipt rc) = ''target-connection'' then Some (srp_targetStepId (nrc_receipt rc)) else None)"

definition confirmCurrentAttempt :: "CurrentFlowDefinition \<Rightarrow> CurrentFlowState \<Rightarrow> NodeResult \<Rightarrow> string \<Rightarrow> ActivityGateTaskLifecycle option
    \<Rightarrow> CurrentAttempt option \<Rightarrow> CurrentFlowState res" where
  "confirmCurrentAttempt D s confirmed status gateTaskLifecycle targetAttempt = bindE (assertAttemptConfirmable D s) (\<lambda>_.
     if status \<notin> {''done'', ''skipped''} then Inl (Error ''confirmed current Attempt status must be done or skipped'')
     else if (case nrs_stepResult confirmed of None \<Rightarrow> False | Some sr \<Rightarrow> srs_type (nsr_result sr) = ''error'')
     then Inl (Error ''Error StepResult must settle a failed Attempt'')
     else if status = ''done'' \<and> nrs_outcome confirmed \<noteq> ''passed'' then Inl (Error ''done confirmation requires a passed result'')
     else if status = ''skipped'' \<and> nrs_outcome confirmed \<noteq> ''skipped'' then Inl (Error ''skipped confirmation requires a skipped result'') else
     let leafId = cursor_id s; target = connection_target confirmed in
     bindE (assertTaskGateLifecycle D s leafId gateTaskLifecycle ''complete-and-advance'') (\<lambda>lifecycle.
     bindE (settle_leaf D s leafId status confirmed) (\<lambda>root.
     bindE (if target = None then Inr root else applyDraftStepRoute D s root leafId confirmed (cst_attempt s)) (\<lambda>routed.
     if target \<noteq> None \<and> retainedRouteSourceRequiresReentry D s leafId (the target) then
       (case targetAttempt of
          None \<Rightarrow> Inl (Error ''retained route source re-entry requires its selected real target Attempt'')
        | Some a \<Rightarrow> if Some (Some (cat_nodeId a)) \<noteq> target
            then Inl (Error ''retained route source re-entry requires its selected real target Attempt'') else
            bindE (pathFor routed (cat_nodeId a)) (\<lambda>path.
            activateAttemptFromRoot D s routed path a [''invalidated''] ''retained route source re-entry''))
     else
       bindE (replaceRoot D s routed None None) (\<lambda>next.
       bindE (assertTaskGateSuccessor D next lifecycle) (\<lambda>_.
       case targetAttempt of None \<Rightarrow> Inr next
       | Some a \<Rightarrow> if target \<noteq> Some (Some (cat_nodeId a))
           then Inl (Error ''Confirmation target Attempt requires its selected connection receipt'') else
           bindE (executableStepClaim D next (cat_nodeId a) a) (materialize_claim D next)))))))"

definition settleConditionalWorker :: "(string \<Rightarrow> bool) \<Rightarrow> CurrentFlowDefinition \<Rightarrow> CurrentFlowState \<Rightarrow> string \<Rightarrow> string \<Rightarrow> string \<Rightarrow> CurrentFlowState res" where
  "settleConditionalWorker dateOk D s stepId status confirmedAt = bindE (assertExecutionActive D s) (\<lambda>_.
     if cst_current s \<noteq> None \<or> cst_attempt s \<noteq> None \<or> status \<noteq> ''skipped''
     then Inl (Error ''passive conditional worker settlement requires skipped with no active Attempt'')
     else if \<not> isConditionalDraftWorkerStep stepId then Inl (Error ''conditional worker settlement target is not authorized'') else
     bindE (cfs_text ''conditional worker settlement confirmedAt'' confirmedAt) (\<lambda>_.
     if \<not> dateOk confirmedAt then Inl (Error ''conditional worker settlement confirmedAt must be an ISO timestamp'') else
     case findNode s stepId of
       None \<Rightarrow> Inl (Error ''conditional worker settlement requires a passive frontier leaf'')
     | Some n \<Rightarrow> if nd_status n \<notin> set EXECUTABLE_NODE_STATUSES
         then Inl (Error ''conditional worker settlement requires a passive frontier leaf'') else
         bindE (nextAction D s) (\<lambda>d. if map_option (\<lambda>d. nd_id (nad_node d)) d \<noteq> Some stepId
           then Inl (Error ''conditional worker settlement target is not the canonical frontier'') else
         bindE (reconcileCompletedParents D (replaceNode stepId (with_node n ''skipped''
           (Some (skipped_result (''Definition skipped conditional worker '' @ stepId) confirmedAt [])) (nd_attemptSequence n + 1) (nd_steps n))
           (cst_root s))) (\<lambda>root. replaceRoot D s root None None))))"

definition downstream_step :: "string \<Rightarrow> string \<Rightarrow> flow_node option \<Rightarrow> string \<Rightarrow> flow_node option res" where
  "downstream_step status confirmedAt n stepId = (case n of
     None \<Rightarrow> Inl (Error (''finalization downstream Step is absent: '' @ stepId))
   | Some n \<Rightarrow>
       if stepId \<notin> {''finalize-sync'', ''finalize-cleanup''} then Inl (Error (''finalization downstream Step is not authorized: '' @ stepId)) else
       let allowed = (if status = ''skipped'' then ''pending'' else ''skipped'') in
       if nd_status n \<noteq> allowed
       then Inl (Error (''finalization downstream '' @ stepId @ '' must be '' @ allowed @ '', got '' @ nd_status n))
       else Inr (Some (if status = ''skipped''
         then with_node n status (Some (skipped_result ''finalize-merge downstream route skipped'' confirmedAt [])) (nd_attemptSequence n + 1) (nd_steps n)
         else with_node n status None 0 (nd_steps n))))"

definition finalizeDownstream :: "(string \<Rightarrow> bool) \<Rightarrow> CurrentFlowDefinition \<Rightarrow> CurrentFlowState \<Rightarrow> string list \<Rightarrow> string \<Rightarrow> string \<Rightarrow> CurrentFlowState res" where
  "finalizeDownstream dateOk D s stepIds status confirmedAt = bindE (assertExecutionActive D s) (\<lambda>_.
     if map_option last (cst_current s) \<noteq> Some ''finalize-merge''
     then Inl (Error ''finalization downstream transition requires the active finalize-merge Attempt'')
     else if stepIds = [] \<or> status \<notin> {''skipped'', ''pending''} then Inl (Error ''finalization downstream transition is invalid'') else
     bindE (if status = ''skipped'' then bindE (cfs_text ''finalization downstream confirmedAt'' confirmedAt) (\<lambda>_.
        if dateOk confirmedAt then Inr () else Inl (Error ''finalization downstream confirmedAt must be an ISO timestamp'')) else Inr ()) (\<lambda>_.
     bindE (route_each (downstream_step status confirmedAt) (\<lambda>i. i) stepIds (cst_root s)) (\<lambda>root.
     bindE (reconcileCompletedParents D root) (\<lambda>root. replaceRoot D s root (cst_current s) (cst_attempt s)))))"

end
