(* ===== verification/State_Structure.thy ===== *)
theory State_Structure
  imports Flow_Operations
begin

section \<open>Structure of state trees\<close>

text \<open>
  The skeleton of a tree is the tree without statuses, results and cursors.  Shape, paths and contracts depend on
  the skeleton only, so an operation that keeps the skeleton only has to account for the statuses it changes.
\<close>

subsection \<open>Skeletons\<close>

fun skel :: "flow_node \<Rightarrow> flow_node" where
  "skel (FNode k i y s r a ss) = FNode k i y [] None 0 (map skel ss)"

abbreviation ids :: "flow_node \<Rightarrow> string list" where
  "ids n \<equiv> map nd_id (collectNodes n)"

lemma skel_fields [simp]: "nd_kind (skel n) = nd_kind n" "nd_id (skel n) = nd_id n" "nd_key (skel n) = nd_key n"
  "nd_steps (skel n) = map skel (nd_steps n)" "leaf_node (skel n) = leaf_node n"
  by (cases n; simp add: leaf_node_def)+

lemma collect_skel: "collectNodes (skel n) = map skel (collectNodes n)"
  by (induction n) (simp add: map_concat comp_def cong: map_cong)

lemma self_collect [simp]: "n \<in> set (collectNodes n)"
  by (cases n) simp

lemma collect_ne [simp]: "collectNodes n \<noteq> []"
  by (cases n) simp

lemma collect_unfold: "collectNodes n = n # concat (map collectNodes (nd_steps n))"
  by (cases n) simp

lemma ids_skel: "ids (skel n) = ids n"
  by (simp add: collect_skel comp_def)

lemma skel_ids: "skel n = skel m \<Longrightarrow> ids n = ids m"
  using ids_skel by metis

lemma skel_same: "skel n = skel m \<Longrightarrow> nd_kind n = nd_kind m \<and> nd_id n = nd_id m \<and> nd_key n = nd_key m \<and> leaf_node n = leaf_node m"
  using skel_fields by metis

lemma definitionNodeFor_skel: "skel n = skel m \<Longrightarrow> definitionNodeFor D n = definitionNodeFor D m"
  by (drule skel_same, elim conjE) (simp only: definitionNodeFor_def)

lemma contractForNode_skel: "skel n = skel m \<Longrightarrow> contractForNode D n = contractForNode D m"
  unfolding contractForNode_def by (subst definitionNodeFor_skel) auto

lemma eachE_map: "eachE f (map h xs) = eachE (f \<circ> h) xs"
  by (induction xs) auto

lemma zip_map_right: "zip xs (map h ys) = map (\<lambda>p. (fst p, h (snd p))) (zip xs ys)"
  by (induction xs ys rule: list_induct2') auto

lemma task_step_shape_skel: "assertTaskStepShape d (skel n) p = assertTaskStepShape d n p"
proof (induction d n p rule: assertTaskStepShape.induct)
  case (1 kind i key c a steps n parentId)
  have "eachE (\<lambda>p. assertTaskStepShape (fst p) (snd p) (nd_id n)) (zip steps (map skel (nd_steps n)))
      = eachE (\<lambda>p. assertTaskStepShape (fst p) (snd p) (nd_id n)) (zip steps (nd_steps n))"
    if "materializedTaskStepId parentId i = Inr x" "nd_id n = x" "nd_kind n = ''step''" "nd_key n = key" "length (nd_steps n) = length steps" for x
    unfolding zip_map_right eachE_map using 1 that by (intro eachE_cong) (auto simp: comp_def)
  then show ?case by (cases "materializedTaskStepId parentId i") auto
qed

lemma task_shape_skel: "assertTaskShape t (skel n) = assertTaskShape t n"
  by (simp add: assertTaskShape_def zip_map_right eachE_map comp_def task_step_shape_skel)

lemma static_shape_skel: "assertStaticShape D d (skel n) = assertStaticShape D d n"
proof (induction D d n rule: assertStaticShape.induct)
  case (1 D kind i key c a steps n)
  let ?start = "task_start D steps" and ?count = "length (nd_steps n) - length steps"
  let ?each = "\<lambda>xs ys. eachE (\<lambda>p. assertStaticShape D (fst p) (snd p)) (zip xs ys)"
  show ?case
  proof (cases "kind \<noteq> nd_kind n \<or> i \<noteq> nd_id n \<or> key \<noteq> nd_key n")
    case False
    note same = this
    show ?thesis
    proof (cases "i = cfd_dynamicTaskContainerId D")
      case True
      show ?thesis
      proof (cases "length (nd_steps n) < length steps")
        case False
        have pre: "?each (take ?start steps) (map skel (nd_steps n)) = ?each (take ?start steps) (nd_steps n)"
          unfolding zip_map_right eachE_map using 1(1) [OF same True False refl refl] by (intro eachE_cong) auto
        have post: "?each (drop ?start steps) (map skel (drop (?start + ?count) (nd_steps n))) = ?each (drop ?start steps) (drop (?start + ?count) (nd_steps n))"
          if "?each (take ?start steps) (nd_steps n) = Inr ()" "eachE (assertTaskShape (cfd_taskTemplate D)) (take ?count (drop ?start (nd_steps n))) = Inr ()"
          unfolding zip_map_right eachE_map using 1(2) [OF same True False refl refl that] by (intro eachE_cong) auto
        have tasks: "eachE (assertTaskShape (cfd_taskTemplate D)) (map skel xs) = eachE (assertTaskShape (cfd_taskTemplate D)) xs" for xs
          by (simp add: eachE_map comp_def task_shape_skel)
        show ?thesis
        proof (cases "?each (take ?start steps) (nd_steps n)")
          case (Inr u)
          then show ?thesis
            by (cases "eachE (assertTaskShape (cfd_taskTemplate D)) (take ?count (drop ?start (nd_steps n)))")
              (use same True False pre post tasks in \<open>simp_all add: Let_def drop_map take_map\<close>)
        qed (use same True False pre in \<open>simp add: Let_def\<close>)
      qed (use same True in simp)
    next
      case False
      have "?each steps (map skel (nd_steps n)) = ?each steps (nd_steps n)" if "length steps = length (nd_steps n)"
        unfolding zip_map_right eachE_map using 1(3) [OF same False] that by (intro eachE_cong) auto
      then show ?thesis using same False by simp
    qed
  qed auto
qed

lemma state_shape_skel: "skel n = skel m \<Longrightarrow> assertStateShape D n = assertStateShape D m"
  using static_shape_skel skel_same by (metis assertStateShape_def)

lemma path_skel: "findPathInRoot t trail (skel n) = findPathInRoot t trail n"
  and "findPathInSteps t trail (map skel ns) = findPathInSteps t trail ns"
  by (induction t trail n and t trail ns rule: findPathInRoot_findPathInSteps.induct) (auto split: option.splits)

lemma skel_paths: "skel n = skel m \<Longrightarrow> findPathInRoot t trail n = findPathInRoot t trail m"
  using path_skel by metis

subsection \<open>Lookup\<close>

lemma find_unique_node: "distinct (map f xs) \<Longrightarrow> x \<in> set xs \<Longrightarrow> find (\<lambda>y. f y = f x) xs = Some x"
  by (induction xs) auto

lemma found: "findNodeInRoot r i = Some n \<Longrightarrow> n \<in> set (collectNodes r) \<and> nd_id n = i"
  by (auto simp: findNodeInRoot_def find_Some_iff)

lemma found_ids: "findNodeInRoot r i = None \<longleftrightarrow> i \<notin> set (ids r)"
  by (auto simp: findNodeInRoot_def find_None_iff)

lemma lookup: "distinct (ids r) \<Longrightarrow> n \<in> set (collectNodes r) \<Longrightarrow> findNodeInRoot r (nd_id n) = Some n"
  unfolding findNodeInRoot_def by (rule find_unique_node)

lemma same_node: "distinct (ids r) \<Longrightarrow> n \<in> set (collectNodes r) \<Longrightarrow> m \<in> set (collectNodes r) \<Longrightarrow> nd_id n = nd_id m \<Longrightarrow> n = m"
  using lookup by (metis option.inject)

lemma collect_trans: "n \<in> set (collectNodes r) \<Longrightarrow> m \<in> set (collectNodes n) \<Longrightarrow> m \<in> set (collectNodes r)"
  by (induction r) auto

lemma child_collect: "c \<in> set (nd_steps n) \<Longrightarrow> c \<in> set (collectNodes n)"
  by (cases n) (auto intro!: bexI [of _ c])

lemma collect_child: "m \<in> set (collectNodes n) \<Longrightarrow> m = n \<or> (\<exists>c \<in> set (nd_steps n). m \<in> set (collectNodes c))"
  using collect_unfold [of n] by auto

lemma distinct_child: "distinct (ids n) \<Longrightarrow> c \<in> set (nd_steps n) \<Longrightarrow> distinct (ids c)"
  using collect_unfold [of n] by (auto simp: map_concat distinct_concat_iff)

lemma distinct_sub: "distinct (ids r) \<Longrightarrow> n \<in> set (collectNodes r) \<Longrightarrow> distinct (ids n)"
proof (induction r)
  case (FNode k i y s r a ss)
  then show ?case using distinct_child [of "FNode k i y s r a ss"] by auto
qed

lemma leaf_collect: "leaf_node n \<Longrightarrow> m \<in> set (collectNodes n) \<Longrightarrow> m = n"
  using collect_unfold [of n] by (simp add: leaf_node_def)

lemma leaves_unfold: "state_leaves n = (if leaf_node n then [n] else concat (map state_leaves (nd_steps n)))"
  by (cases n) (auto simp: state_leaves_def [abs_def] leaf_node_def filter_concat comp_def)

lemma leaves_segment: "n \<in> set (collectNodes r) \<Longrightarrow> \<exists>xs ys. state_leaves r = xs @ state_leaves n @ ys"
proof (induction r)
  case (FNode k i y s q a ss)
  show ?case
  proof (cases "n = FNode k i y s q a ss")
    case True
    then show ?thesis by (intro exI [of _ "[]"]) simp
  next
    case False
    then obtain c where c: "c \<in> set ss" "n \<in> set (collectNodes c)" using FNode.prems by auto
    from FNode.IH [OF this] obtain xs ys where xy: "state_leaves c = xs @ state_leaves n @ ys" by blast
    from c(1) obtain us vs where "ss = us @ c # vs" by (meson split_list)
    then show ?thesis using xy leaves_unfold [of "FNode k i y s q a ss"]
      by (intro exI [of _ "concat (map state_leaves us) @ xs"] exI [of _ "ys @ concat (map state_leaves vs)"]) (simp add: leaf_node_def)
  qed
qed

subsection \<open>Paths\<close>

lemma path_none: "findPathInRoot t trail n = None \<longleftrightarrow> t \<notin> set (ids n)"
  and "findPathInSteps t trail ns = None \<longleftrightarrow> (\<forall>c \<in> set ns. t \<notin> set (ids c))"
  by (induction t trail n and t trail ns rule: findPathInRoot_findPathInSteps.induct) (auto split: option.splits)

lemma path_steps: "findPathInSteps t trail ns = (case find (\<lambda>c. t \<in> set (ids c)) ns of None \<Rightarrow> None | Some c \<Rightarrow> findPathInRoot t trail c)"
proof (induction ns)
  case (Cons n ns)
  then show ?case using path_none [of t trail n] by (auto split: option.splits)
qed simp

lemma concat_block: "distinct (concat (map f xs)) \<Longrightarrow> a \<in> set xs \<Longrightarrow> b \<in> set xs \<Longrightarrow> z \<in> set (f a) \<Longrightarrow> z \<in> set (f b) \<Longrightarrow> a = b"
  by (induction xs) auto

lemma child_block: "distinct (ids n) \<Longrightarrow> c \<in> set (nd_steps n) \<Longrightarrow> d \<in> set (nd_steps n) \<Longrightarrow> z \<in> set (ids c) \<Longrightarrow> z \<in> set (ids d) \<Longrightarrow> c = d"
  using concat_block [of ids "nd_steps n" c d z] collect_unfold [of n] by (simp add: map_concat comp_def)

lemma path_walk:
  "findPathInRoot t trail n = Some p \<Longrightarrow> distinct (ids n) \<Longrightarrow>
     \<exists>q m. p = trail @ nd_id n # q \<and> walkPath n q = Inr m \<and> m \<in> set (collectNodes n) \<and> nd_id m = t \<and> last (nd_id n # q) = t
       \<and> (\<forall>x \<in> set (collectNodes n). nd_id x \<in> set (nd_id n # q) \<longleftrightarrow> t \<in> set (ids x)) \<and> set (nd_id n # q) \<subseteq> set (ids n) \<and> distinct (nd_id n # q)"
proof (induction n arbitrary: trail)
  case (FNode k i y s r a ss)
  let ?n = "FNode k i y s r a ss"
  show ?case
  proof (cases "i = t")
    case True
    have "t \<in> set (ids x) \<Longrightarrow> x = ?n" if n: "x \<in> set (collectNodes ?n)" for x
    proof (rule ccontr)
      assume x: "t \<in> set (ids x)" "x \<noteq> ?n"
      then obtain c where "c \<in> set ss" "x \<in> set (collectNodes c)" using collect_child [OF n] x(2) by auto
      then have "t \<in> set (map nd_id (concat (map collectNodes ss)))" using x(1) by (auto intro: collect_trans)
      then show False using FNode.prems(2) True by simp
    qed
    note only = this
    have own: "nd_id x \<in> set (ids x)" for x by simp
    have "nd_id x \<in> set (nd_id ?n # []) \<longleftrightarrow> t \<in> set (ids x)" if x: "x \<in> set (collectNodes ?n)" for x
    proof
      assume "nd_id x \<in> set (nd_id ?n # [])"
      then have "nd_id x = t" using True by simp
      then show "t \<in> set (ids x)" using own [of x] by (simp only:)
    next
      assume "t \<in> set (ids x)"
      then have "x = ?n" by (rule only [OF x])
      then show "nd_id x \<in> set (nd_id ?n # [])" by simp
    qed
    then show ?thesis using FNode.prems(1) True by (intro exI [of _ "[]"] exI [of _ ?n]) simp
  next
    case False
    then obtain c where c: "find (\<lambda>c. t \<in> set (ids c)) ss = Some c" "findPathInRoot t (trail @ [i]) c = Some p"
      using FNode.prems(1) by (auto simp: path_steps split: option.splits)
    have cs: "c \<in> set ss" "t \<in> set (ids c)" using c(1) by (auto simp: find_Some_iff)
    have dc: "distinct (ids c)" using distinct_child [OF FNode.prems(2)] cs by simp
    from FNode.IH [OF cs(1) c(2) dc] obtain q m where q: "p = (trail @ [i]) @ nd_id c # q" "walkPath c q = Inr m" "m \<in> set (collectNodes c)"
      "nd_id m = t" "last (nd_id c # q) = t" "\<forall>x \<in> set (collectNodes c). nd_id x \<in> set (nd_id c # q) \<longleftrightarrow> t \<in> set (ids x)"
      "set (nd_id c # q) \<subseteq> set (ids c)" "distinct (nd_id c # q)" by blast
    have other: "d = c" if "d \<in> set ss" "z \<in> set (ids d)" "z \<in> set (ids c)" for d z
      using child_block [OF FNode.prems(2), of d c z] that cs(1) by simp
    have ic: "i \<notin> set (ids d)" if "d \<in> set ss" for d using FNode.prems(2) that by auto
    have "find (\<lambda>d. nd_id d = nd_id c) ss = Some c"
    proof -
      have "d = c" if "d \<in> set ss" "nd_id d = nd_id c" for d using other [OF that(1), of "nd_id c"] that by (metis image_eqI list.set_map self_collect)
      then show ?thesis using cs(1) by (induction ss) auto
    qed
    moreover have "\<forall>x \<in> set (collectNodes ?n). nd_id x \<in> set (i # nd_id c # q) \<longleftrightarrow> t \<in> set (ids x)"
    proof
      fix x assume "x \<in> set (collectNodes ?n)"
      then consider "x = ?n" | d where "d \<in> set ss" "x \<in> set (collectNodes d)" by auto
      then show "nd_id x \<in> set (i # nd_id c # q) \<longleftrightarrow> t \<in> set (ids x)"
      proof cases
        case 1
        then show ?thesis using cs by auto
      next
        case (2 d)
        show ?thesis
        proof (cases "d = c")
          case True
          then show ?thesis using 2 q(6) ic [OF 2(1)] by auto
        next
          case False
          have xd: "nd_id x \<in> set (ids d)" using 2 by simp
          have "nd_id x \<notin> set (nd_id c # q)" using other [OF 2(1) xd] q(7) False by blast
          moreover have "nd_id x \<noteq> i" using ic [OF 2(1)] xd by auto
          moreover have "t \<notin> set (ids x)"
          proof
            assume "t \<in> set (ids x)"
            then have "t \<in> set (ids d)" using collect_trans [OF 2(2)] by auto
            then show False using other [OF 2(1) _ cs(2)] False by blast
          qed
          ultimately show ?thesis by simp
        qed
      qed
    qed
    moreover have "i \<notin> set (nd_id c # q)" using ic [OF cs(1)] q(7) by blast
    moreover have "set (i # nd_id c # q) \<subseteq> set (ids ?n)"
    proof -
      have "set (ids c) \<subseteq> set (ids ?n)" using cs(1) by auto
      then show ?thesis using q(7) by (metis collectNodes.simps flow_node.sel(2) insert_subset list.set_intros(1) list.simps(15) list.simps(9) subset_trans)
    qed
    moreover have "m \<in> set (collectNodes ?n)" using q(3) cs(1) by auto
    ultimately show ?thesis using q(1,2,4,5,8)
      by (intro exI [of _ "nd_id c # q"] exI [of _ m] conjI) (simp_all only: append_assoc append_Cons append_Nil flow_node.sel(2,7) walkPath.simps
          option.case last_ConsR distinct.simps list.distinct not_False_eq_True)
  qed
qed

definition path_to :: "flow_node \<Rightarrow> flow_node \<Rightarrow> string list \<Rightarrow> bool" where
  "path_to r l p \<longleftrightarrow> distinct p \<and> set p \<subseteq> set (ids r) \<and> (\<forall>x \<in> set (collectNodes r). nd_id x \<in> set p \<longleftrightarrow> nd_id l \<in> set (ids x))"

lemma path_toD: "path_to r l p \<Longrightarrow> distinct p" "path_to r l p \<Longrightarrow> set p \<subseteq> set (ids r)"
  "path_to r l p \<Longrightarrow> x \<in> set (collectNodes r) \<Longrightarrow> nd_id x \<in> set p \<longleftrightarrow> nd_id l \<in> set (ids x)"
  by (simp_all add: path_to_def)

lemma path_at:
  assumes "distinct (ids r)" "n \<in> set (collectNodes r)"
  obtains p where "findPathInRoot (nd_id n) [] r = Some p" "p \<noteq> []" "nodeAtPath r p = Inr n" "last p = nd_id n" "path_to r n p"
proof -
  have "findPathInRoot (nd_id n) [] r \<noteq> None" using assms(2) by (simp add: path_none)
  then obtain p where p: "findPathInRoot (nd_id n) [] r = Some p" by blast
  from path_walk [OF this assms(1)] obtain q m where q: "p = nd_id r # q" "walkPath r q = Inr m" "m \<in> set (collectNodes r)" "nd_id m = nd_id n"
    "last (nd_id r # q) = nd_id n" "\<forall>x \<in> set (collectNodes r). nd_id x \<in> set (nd_id r # q) \<longleftrightarrow> nd_id n \<in> set (ids x)"
    "set (nd_id r # q) \<subseteq> set (ids r)" "distinct (nd_id r # q)" by auto
  have "m = n" using same_node [OF assms(1)] q(3,4) assms(2) by blast
  then have "nodeAtPath r p = Inr n" using q by (simp add: nodeAtPath_def)
  moreover have "path_to r n p" unfolding path_to_def q(1) using q(6-8) by blast
  ultimately show ?thesis using that [OF p] q(1,5) by simp
qed

end
