(* ===== verification/State_Update.thy ===== *)
theory State_Update
  imports State_Structure
begin

section \<open>Updates of state trees\<close>

text \<open>
  Replacing nodes one after the other by id is a simultaneous update of the statuses, results and cursors of a
  tree.  The checks of a state are split into what each node, the leaves in order, and the cursor have to satisfy.
\<close>

subsection \<open>Simultaneous updates\<close>

type_synonym progress = "string \<times> NodeResult option \<times> int"

fun tmap :: "(string \<Rightarrow> progress \<Rightarrow> progress) \<Rightarrow> flow_node \<Rightarrow> flow_node" where
  "tmap g (FNode k i y s r a ss) = (case g i (s, r, a) of (s', r', a') \<Rightarrow> FNode k i y s' r' a' (map (tmap g) ss))"

definition progress_of :: "flow_node \<Rightarrow> progress" where
  "progress_of n = (nd_status n, nd_result n, nd_attemptSequence n)"

lemma tmap_fields [simp]: "nd_kind (tmap g n) = nd_kind n" "nd_id (tmap g n) = nd_id n" "nd_key (tmap g n) = nd_key n"
  "nd_steps (tmap g n) = map (tmap g) (nd_steps n)" "leaf_node (tmap g n) = leaf_node n"
  "progress_of (tmap g n) = g (nd_id n) (progress_of n)"
  by (cases n; simp add: leaf_node_def progress_of_def split: prod.splits)+

lemma tmap_skel [simp]: "skel (tmap g n) = skel n"
  by (induction n) (simp split: prod.splits cong: map_cong)

lemma tmap_collect: "collectNodes (tmap g n) = map (tmap g) (collectNodes n)"
  by (induction n) (simp add: map_concat comp_def split: prod.splits cong: map_cong)

lemma tmap_leaves: "state_leaves (tmap g n) = map (tmap g) (state_leaves n)"
  by (simp add: state_leaves_def tmap_collect filter_map comp_def)

lemma tmap_cong: "(\<And>m. m \<in> set (collectNodes n) \<Longrightarrow> g (nd_id m) (progress_of m) = h (nd_id m) (progress_of m)) \<Longrightarrow> tmap g n = tmap h n"
proof (induction n)
  case (FNode k i y s r a ss)
  have "map (tmap g) ss = map (tmap h) ss" using FNode by auto
  moreover have "g i (s, r, a) = h i (s, r, a)" using FNode.prems [of "FNode k i y s r a ss"] by (simp add: progress_of_def)
  ultimately show ?case by (simp only: tmap.simps)
qed

lemma tmap_id: "tmap (\<lambda>i x. x) n = n"
  by (induction n) (simp cong: map_cong)

lemma tmap_unchanged: "(\<And>m. m \<in> set (collectNodes n) \<Longrightarrow> g (nd_id m) (progress_of m) = progress_of m) \<Longrightarrow> tmap g n = n"
  using tmap_cong [of n g "\<lambda>i x. x"] tmap_id by simp

lemma tmap_tmap: "tmap g (tmap h n) = tmap (\<lambda>i x. g i (h i x)) n"
  by (induction n) (simp split: prod.splits cong: map_cong)

lemma tmap_leaf: "leaf_node n \<Longrightarrow> tmap g n = (case g (nd_id n) (progress_of n) of (s, r, a) \<Rightarrow> with_node n s r a (nd_steps n))"
  by (cases n) (simp add: leaf_node_def progress_of_def with_node_def split: prod.splits)

definition put_progress :: "string \<Rightarrow> progress \<Rightarrow> string \<Rightarrow> progress \<Rightarrow> progress" where
  "put_progress i v j x = (if j = i then v else x)"

lemma put_progress_simps [simp]: "put_progress i v i x = v" "j \<noteq> i \<Longrightarrow> put_progress i v j x = x"
  by (simp_all add: put_progress_def)

lemma replace_absent: "i \<notin> set (ids n) \<Longrightarrow> replaceNode i m n = n"
  by (induction n) (auto intro!: map_idI)

lemma replace_tmap:
  "distinct (ids r) \<Longrightarrow> n \<in> set (collectNodes r) \<Longrightarrow>
     replaceNode (nd_id n) (with_node n s' r' a' (nd_steps n)) r = tmap (put_progress (nd_id n) (s', r', a')) r"
proof (induction r)
  case (FNode k i y s q a ss)
  let ?r = "FNode k i y s q a ss" and ?g = "put_progress (nd_id n) (s', r', a')"
  have stay: "tmap ?g c = c" if "nd_id n \<notin> set (ids c)" for c
    using that by (intro tmap_unchanged) (metis image_eqI list.set_map put_progress_def)
  show ?case
  proof (cases "n = ?r")
    case True
    have "map (tmap ?g) ss = ss" using FNode.prems(1) True by (intro map_idI stay) auto
    then show ?thesis using True by (simp add: with_node_def)
  next
    case False
    then have "nd_id n \<noteq> i" using same_node [OF FNode.prems(1,2), of ?r] by auto
    moreover have "replaceNode (nd_id n) (with_node n s' r' a' (nd_steps n)) c = tmap ?g c" if c: "c \<in> set ss" for c
    proof (cases "n \<in> set (collectNodes c)")
      case True
      have "distinct (ids c)" using distinct_child [OF FNode.prems(1)] c by simp
      from FNode.IH [OF c this True] show ?thesis .
    next
      case False
      have "nd_id n \<notin> set (ids c)"
      proof
        assume "nd_id n \<in> set (ids c)"
        then obtain m where "m \<in> set (collectNodes c)" "nd_id m = nd_id n" by auto
        moreover have "m \<in> set (collectNodes ?r)" using c calculation(1) by auto
        ultimately show False using same_node [OF FNode.prems(1)] FNode.prems(2) False by metis
      qed
      then show ?thesis using stay replace_absent by simp
    qed
    ultimately show ?thesis by (simp cong: map_cong)
  qed
qed

lemma update_node_tmap:
  assumes "distinct (ids r)" "n \<in> set (collectNodes r)" "f n = Inr (with_node n s' r' a' (nd_steps n))"
  shows "update_node r (nd_id n) f = Inr (tmap (put_progress (nd_id n) (s', r', a')) r)"
  using assms by (simp add: update_node_def lookup replace_tmap)

lemma update_nodes_tmap:
  assumes "distinct (ids r)" "distinct is" "set is \<subseteq> set (ids r)"
    "\<And>n. n \<in> set (collectNodes r) \<Longrightarrow> nd_id n \<in> set is \<Longrightarrow>
       \<exists>s' r' a'. h (nd_id n) (progress_of n) = (s', r', a') \<and> (\<forall>ss. f (with_node n (nd_status n) (nd_result n) (nd_attemptSequence n) ss)
         = Inr (with_node n s' r' a' ss))"
  shows "update_nodes f is r = Inr (tmap (\<lambda>i x. if i \<in> set is then h i x else x) r)"
  using assms
proof (induction "is" arbitrary: r)
  case Nil
  then show ?case by (simp add: tmap_id)
next
  case (Cons i "is")
  then obtain n where n: "n \<in> set (collectNodes r)" "nd_id n = i" by auto
  obtain s' r' a' where h: "h (nd_id n) (progress_of n) = (s', r', a')"
    and f: "f (with_node n (nd_status n) (nd_result n) (nd_attemptSequence n) (nd_steps n)) = Inr (with_node n s' r' a' (nd_steps n))"
    using Cons.prems(4) [OF n(1)] n(2) by auto
  then have "f n = Inr (with_node n s' r' a' (nd_steps n))" by (cases n) (simp add: with_node_def)
  from update_node_tmap [of r n f, OF Cons.prems(1) n(1) this] have one: "update_node r i f = Inr (tmap (put_progress i (s', r', a')) r)" using n(2) by simp
  let ?r = "tmap (put_progress i (s', r', a')) r"
  have ids: "ids ?r = ids r" by (intro skel_ids) simp
  have "update_nodes f is ?r = Inr (tmap (\<lambda>j x. if j \<in> set is then h j x else x) ?r)"
  proof (rule Cons.IH)
    fix m assume m: "m \<in> set (collectNodes ?r)" "nd_id m \<in> set is"
    then obtain n' where n': "n' \<in> set (collectNodes r)" "m = tmap (put_progress i (s', r', a')) n'" by (auto simp: tmap_collect)
    then have "nd_id n' \<noteq> i" using Cons.prems(2) m(2) by auto
    then have p: "progress_of m = progress_of n'" using n'(2) by (simp add: put_progress_def)
    have "with_node m u v w ss = with_node n' u v w ss" for u v w ss using n'(2) by (simp add: with_node_def)
    moreover have "nd_status m = nd_status n'" "nd_result m = nd_result n'" "nd_attemptSequence m = nd_attemptSequence n'"
      using p by (auto simp: progress_of_def)
    ultimately show "\<exists>s' r' a'. h (nd_id m) (progress_of m) = (s', r', a') \<and>
        (\<forall>ss. f (with_node m (nd_status m) (nd_result m) (nd_attemptSequence m) ss) = Inr (with_node m s' r' a' ss))"
      using Cons.prems(4) [OF n'(1)] m(2) n'(2) p by simp
  qed (use Cons.prems ids in auto)
  moreover have "tmap (\<lambda>j x. if j \<in> set is then h j x else x) ?r = tmap (\<lambda>j x. if j \<in> set (i # is) then h j x else x) r"
  proof -
    have "i \<notin> set is" using Cons.prems(2) by simp
    moreover have "h i (progress_of m) = (s', r', a')" if "m \<in> set (collectNodes r)" "nd_id m = i" for m
      using same_node [OF Cons.prems(1) that(1) n(1)] that(2) n(2) h by simp
    ultimately show ?thesis unfolding tmap_tmap by (intro tmap_cong) (auto simp: put_progress_def)
  qed
  ultimately show ?case using one by simp
qed

end
