(* ===== verification/State_Checks.thy ===== *)
theory State_Checks
  imports State_Update
begin

section \<open>The checks of a state, node by node\<close>

text \<open>
  \<open>new_CurrentFlowState\<close> accepts a state exactly when \<open>wf_state\<close> holds: a check of every node, of the order of the
  leaves, and of the cursor.  The proofs by receipt depend only on the settled leaves of the tree.
\<close>

subsection \<open>Decomposition\<close>

definition node_life :: "lifecycle_options \<Rightarrow> flow_node \<Rightarrow> bool" where
  "node_life opts m \<longleftrightarrow> (if leaf_node m then assertLeafLifecycle opts m = Inr ()
     else nd_attemptSequence m = 0 \<and> branch_check m = Inr ())"

lemma lifecycle_nodes: "assertNodeLifecycle opts n = Inr () \<longleftrightarrow> (\<forall>m \<in> set (collectNodes n). node_life opts m)"
  and "assertStepsLifecycle opts ns = Inr () \<longleftrightarrow> (\<forall>n \<in> set ns. \<forall>m \<in> set (collectNodes n). node_life opts m)"
proof (induction opts n and opts ns rule: assertNodeLifecycle_assertStepsLifecycle.induct)
  case (1 opts k i y s r a ss)
  then show ?case by (cases "ss = []") (auto simp: node_life_def leaf_node_def)
qed auto

definition status_ok :: "CurrentFlowDefinition \<Rightarrow> flow_node \<Rightarrow> bool" where
  "status_ok D n \<longleftrightarrow> (\<exists>c. contractForNode D n = Inr c \<and> permitsStatus c (nd_status n))"

lemma status_checks_ok: "status_checks D seen ns = Inr () \<longleftrightarrow>
    distinct (map nd_id ns) \<and> set (map nd_id ns) \<inter> set seen = {} \<and> (\<forall>n \<in> set ns. status_ok D n)"
  by (induction D seen ns rule: status_checks.induct) (auto simp: status_ok_def)

definition wf_state :: "CurrentFlowDefinition \<Rightarrow> CurrentFlowState \<Rightarrow> bool" where
  "wf_state D s \<longleftrightarrow> cst_lifecycle s \<in> set LIFECYCLE_STATES \<and> nd_kind (cst_root s) = ''flow''
     \<and> (\<forall>n \<in> set (collectNodes (cst_root s)). node_check n = Inr ())
     \<and> (\<forall>p. cst_current s = Some p \<longrightarrow> findPathInRoot (last p) [] (cst_root s) = Some p \<and> js_trim (last p) \<noteq> [])
     \<and> assertStateShape D (cst_root s) = Inr () \<and> distinct (ids (cst_root s))
     \<and> (\<forall>n \<in> set (collectNodes (cst_root s)). status_ok D n \<and> node_life (state_options D s) n)
     \<and> assertDefinitionExecutionCurrent D s = Inr ()"

lemma current_checked: "assertDefinitionCurrent D s = Inr () \<longleftrightarrow>
    assertStateShape D (cst_root s) = Inr () \<and> distinct (ids (cst_root s))
    \<and> (\<forall>n \<in> set (collectNodes (cst_root s)). status_ok D n \<and> node_life (state_options D s) n) \<and> assertDefinitionExecutionCurrent D s = Inr ()"
  by (auto simp: assertDefinitionCurrent_def status_checks_ok lifecycle_nodes)

lemma path_last: "findPathInRoot t trail n = Some p \<Longrightarrow> last p = t"
  and "findPathInSteps t trail ns = Some p \<Longrightarrow> last p = t"
  by (induction t trail n and t trail ns rule: findPathInRoot_findPathInSteps.induct) (auto split: if_splits option.splits)

lemma pathFor_ok: "pathFor r i = Inr p \<longleftrightarrow> findPathInRoot i [] r = Some p"
  by (simp add: pathFor_def split: option.splits)

lemma constructed: "new_CurrentFlowState D s = Inr s' \<longleftrightarrow>
    s' = s\<lparr>cst_current := cst_current s'\<rparr> \<and> map_option last (cst_current s') = map_option last (cst_current s) \<and> wf_state D s'"
proof (cases "cst_current s")
  case None
  have "s\<lparr>cst_current := None\<rparr> = s" using None by simp
  then show ?thesis using None
    by (auto simp: new_CurrentFlowState_def wf_state_def eachE_ok current_checked Let_def)
next
  case (Some p)
  have "new_CurrentFlowState D s = Inr s' \<longleftrightarrow> (\<exists>q. findPathInRoot (last p) [] (cst_root s) = Some q \<and> js_trim (last p) \<noteq> [] \<and>
      s' = s\<lparr>cst_current := Some q\<rparr> \<and> wf_state D s')"
    using Some by (auto simp: new_CurrentFlowState_def wf_state_def eachE_ok current_checked Let_def pathFor_ok cfs_text_ok) (frule path_last, simp)+
  also have "\<dots> \<longleftrightarrow> s' = s\<lparr>cst_current := cst_current s'\<rparr> \<and> map_option last (cst_current s') = map_option last (cst_current s) \<and> wf_state D s'"
    using Some by (cases s; cases s') (auto simp: wf_state_def dest: path_last)
  finally show ?thesis .
qed

lemma state_ok: "new_CurrentFlowState D s = Inr s \<longleftrightarrow> wf_state D s"
  by (cases s) (auto simp: constructed)

lemma constructed_wf: "new_CurrentFlowState D s = Inr s' \<Longrightarrow> wf_state D s'"
  by (simp add: constructed)

subsection \<open>The frontier\<close>

lemma terminal_cases: "x \<in> set TERMINAL_NODE_STATUSES \<longleftrightarrow> x = ''done'' \<or> x = ''skipped'' \<or> x = ''failed''"
  by (auto simp: TERMINAL_NODE_STATUSES_def)

lemma executable_cases: "x \<in> set EXECUTABLE_NODE_STATUSES \<longleftrightarrow> x = ''pending'' \<or> x = ''invalidated''"
  by (auto simp: EXECUTABLE_NODE_STATUSES_def)

definition terminal :: "flow_node \<Rightarrow> bool" where
  "terminal n \<longleftrightarrow> nd_status n \<in> set TERMINAL_NODE_STATUSES"

lemma frontier_prefix: "list_all terminal pre \<Longrightarrow> frontier_loop (frontier_leaf dn nodes ret tail) (pre @ post) no_frontier
    = frontier_loop (frontier_leaf dn nodes ret tail) post no_frontier"
  by (induction pre) (auto simp: frontier_leaf_def no_frontier_def terminal_def)

definition at_frontier :: "flow_node \<Rightarrow> frontier_state" where
  "at_frontier f = \<lparr>frs_frontier = Some f, frs_suffix = (if nd_status f = ''in_progress'' then None else Some (nd_status f)),
     frs_taskGateRepair = False, frs_routeTail = False\<rparr>"

lemma frontier_first: "\<not> terminal f \<Longrightarrow> frontier_loop (frontier_leaf dn nodes ret tail) (f # post) no_frontier
    = frontier_loop (frontier_leaf dn nodes ret tail) post (at_frontier f)"
  by (simp add: frontier_leaf_def no_frontier_def terminal_def at_frontier_def)

lemma frontier_leaf_kept:
  assumes "frontier_leaf dn nodes ret tail l st = Inr st'" "frs_frontier st = Some f" "\<And>l f. tail l f \<Longrightarrow> nd_status l = ''pending''"
  shows "frs_frontier st' = Some f \<and> nd_status l \<noteq> ''in_progress''"
  using assms by (auto simp: frontier_leaf_def Let_def terminal_cases executable_cases split: if_splits option.splits)

lemma frontier_loop_kept:
  "frontier_loop (frontier_leaf dn nodes ret tail) ls st = Inr st' \<Longrightarrow> frs_frontier st = Some f \<Longrightarrow> (\<And>l f. tail l f \<Longrightarrow> nd_status l = ''pending'') \<Longrightarrow>
     frs_frontier st' = Some f \<and> (\<forall>l \<in> set ls. nd_status l \<noteq> ''in_progress'')"
proof (induction ls arbitrary: st)
  case (Cons l ls)
  then obtain st1 where st1: "frontier_leaf dn nodes ret tail l st = Inr st1" "frontier_loop (frontier_leaf dn nodes ret tail) ls st1 = Inr st'"
    by auto
  then show ?case using frontier_leaf_kept [OF st1(1) Cons.prems(2,3)] Cons.IH [OF st1(2)] Cons.prems(3) by simp
qed simp

text \<open>Behind a pending or active frontier, pending leaves and retained sources are accepted.\<close>

definition pending_suffix :: "flow_node \<Rightarrow> frontier_state \<Rightarrow> bool" where
  "pending_suffix f st \<longleftrightarrow> frs_frontier st = Some f \<and> frs_suffix st \<in> {None, Some ''pending''} \<and> \<not> frs_taskGateRepair st \<and> \<not> frs_routeTail st"

lemma pending_status: "''pending'' \<notin> set TERMINAL_NODE_STATUSES" "''pending'' \<in> set EXECUTABLE_NODE_STATUSES" "''pending'' \<noteq> ''invalidated''"
  by (simp_all add: terminal_cases executable_cases)

lemma pending_leaf_ok:
  assumes "pending_suffix f st" "nd_status l = ''pending'' \<or> terminal l \<and> ret l f"
  shows "\<exists>st'. frontier_leaf dn nodes ret tail l st = Inr st' \<and> pending_suffix f st'"
proof (cases "terminal l")
  case True
  then have "ret l f" using assms(2) pending_status(1) by (auto simp: terminal_def)
  then show ?thesis using assms(1) True by (simp add: frontier_leaf_def pending_suffix_def terminal_def)
next
  case False
  then have "nd_status l = ''pending''" using assms(2) by simp
  then show ?thesis using assms(1) False pending_status
    by (cases "frs_suffix st") (simp_all add: frontier_leaf_def pending_suffix_def terminal_def Let_def split: option.splits)
qed

lemma pending_loop_ok:
  "pending_suffix f st \<Longrightarrow> (\<forall>l \<in> set ls. nd_status l = ''pending'' \<or> terminal l \<and> ret l f) \<Longrightarrow>
     \<exists>st'. frontier_loop (frontier_leaf dn nodes ret tail) ls st = Inr st' \<and> frs_frontier st' = Some f"
proof (induction ls arbitrary: st)
  case (Cons l ls)
  then obtain st1 where "frontier_leaf dn nodes ret tail l st = Inr st1" "pending_suffix f st1" using pending_leaf_ok by (metis list.set_intros(1))
  then show ?case using Cons.IH Cons.prems(2) by simp
qed (simp add: pending_suffix_def)

lemma pending_leaf_only:
  assumes "frontier_leaf False nodes ret tail l st = Inr st'" "pending_suffix f st" "frs_suffix st = Some ''pending''"
  shows "(nd_status l = ''pending'' \<or> terminal l \<and> ret l f) \<and> pending_suffix f st' \<and> frs_suffix st' = Some ''pending''"
  using assms by (auto simp: frontier_leaf_def pending_suffix_def Let_def terminal_def terminal_cases executable_cases split: if_splits option.splits)

lemma pending_loop_only:
  "frontier_loop (frontier_leaf False nodes ret tail) ls st = Inr st' \<Longrightarrow> pending_suffix f st \<Longrightarrow> frs_suffix st = Some ''pending'' \<Longrightarrow>
     \<forall>l \<in> set ls. nd_status l = ''pending'' \<or> terminal l \<and> ret l f"
proof (induction ls arbitrary: st)
  case (Cons l ls)
  then obtain st1 where st1: "frontier_leaf False nodes ret tail l st = Inr st1" "frontier_loop (frontier_leaf False nodes ret tail) ls st1 = Inr st'"
    by auto
  then show ?case using pending_leaf_only [OF st1(1) Cons.prems(2,3)] Cons.IH [OF st1(2)] by simp
qed simp

lemma split_terminal: obtains pre where "list_all terminal pre" "ls = pre" | pre f post where "list_all terminal pre" "\<not> terminal f" "ls = pre @ f # post"
proof (cases "list_all terminal ls")
  case False
  then obtain pre f post where "ls = pre @ f # post" "\<not> terminal f" "\<forall>x \<in> set pre. terminal x"
    using split_list_first_prop [of ls "\<lambda>x. \<not> terminal x"] by (auto simp: list_all_iff)
  then show ?thesis using that(2) by (auto simp: list_all_iff)
qed (use that(1) in blast)

lemma frontier_shape:
  assumes "assertExecutionFrontier ls cur nodes ret tail = Inr ()" "\<And>l f. tail l f \<Longrightarrow> nd_status l = ''pending''"
  shows "list_all terminal ls \<and> cur = None \<or>
    (\<exists>pre f post. ls = pre @ f # post \<and> list_all terminal pre \<and> \<not> terminal f \<and> list_all (\<lambda>l. nd_status l \<noteq> ''in_progress'') post
       \<and> (if nd_status f = ''in_progress'' then map_option last cur = Some (nd_id f) else cur = None))"
proof -
  let ?f = "frontier_leaf (case cur of None \<Rightarrow> False | Some p \<Rightarrow> last p = ''finalize-merge'') nodes ret tail"
  obtain st where st: "frontier_loop ?f ls no_frontier = Inr st" using assms(1) by (auto simp: assertExecutionFrontier_def)
  have fin: "case frs_frontier st of None \<Rightarrow> cur = None | Some f \<Rightarrow> if nd_status f = ''in_progress'' then map_option last cur = Some (nd_id f) else cur = None"
    using assms(1) st by (simp add: assertExecutionFrontier_def split: option.splits if_splits)
  show ?thesis
  proof (cases rule: split_terminal [of ls])
    case (1 pre)
    then have "st = no_frontier" using st frontier_prefix [of ls _ nodes ret tail "[]"] by simp
    then show ?thesis using 1 fin by (simp add: no_frontier_def)
  next
    case (2 pre f post)
    have "frontier_loop ?f post (at_frontier f) = Inr st" using st unfolding 2(3) frontier_prefix [OF 2(1)] frontier_first [OF 2(2)] .
    from frontier_loop_kept [OF this _ assms(2)] have "frs_frontier st = Some f" "\<forall>l \<in> set post. nd_status l \<noteq> ''in_progress''"
      by (simp_all add: at_frontier_def)
    then have "ls = pre @ f # post \<and> list_all terminal pre \<and> \<not> terminal f \<and> list_all (\<lambda>l. nd_status l \<noteq> ''in_progress'') post
       \<and> (if nd_status f = ''in_progress'' then map_option last cur = Some (nd_id f) else cur = None)"
      using 2 fin by (simp add: list_all_iff)
    then show ?thesis by blast
  qed
qed

subsection \<open>Proofs by receipt depend on settled leaves\<close>

lemma tail_pending: "allowsUnexecutedRouteTail D s l f \<Longrightarrow> nd_status l = ''pending''"
  by (simp add: allowsUnexecutedRouteTail_def)

definition inert :: "flow_node \<Rightarrow> bool" where
  "inert n \<longleftrightarrow> \<not> unexecuted_test_skip n \<and> (leaf_node n \<longrightarrow> nd_status n \<noteq> ''done'' \<or> (\<forall>P. \<not> settled_by n P))"

definition same_run :: "CurrentFlowState \<Rightarrow> CurrentFlowState \<Rightarrow> bool" where
  "same_run s t \<longleftrightarrow> cst_runId s = cst_runId t \<and> cst_specId s = cst_specId t"

definition settled_alike :: "flow_node \<Rightarrow> flow_node \<Rightarrow> bool" where
  "settled_alike n m \<longleftrightarrow> skel n = skel m \<and> (n = m \<or> inert n \<and> inert m)"

definition alike :: "CurrentFlowState \<Rightarrow> CurrentFlowState \<Rightarrow> bool" where
  "alike s t \<longleftrightarrow> same_run s t \<and> list_all2 settled_alike (collectNodes (cst_root s)) (collectNodes (cst_root t))"

lemma find_alike: "list_all2 (\<lambda>n m. P n = P m \<and> (P n \<longrightarrow> n = m)) ns ms \<Longrightarrow> find P ns = find P ms"
  by (induction rule: list_all2_induct) (simp, metis find.simps(2))

lemma list_ex_alike: "list_all2 (\<lambda>n m. P n = P m) ns ms \<Longrightarrow> list_ex P ns = list_ex P ms"
  by (induction rule: list_all2_induct) auto

lemma case_find_alike: "list_all2 (\<lambda>n m. P n = P m \<and> Q n = Q m) ns ms \<Longrightarrow>
    (case find P ns of None \<Rightarrow> False | Some n \<Rightarrow> Q n) = (case find P ms of None \<Rightarrow> False | Some n \<Rightarrow> Q n)"
  by (induction rule: list_all2_induct) auto

lemma alike_leaf_ids: "alike s t \<Longrightarrow> map nd_id (state_leaves (cst_root s)) = map nd_id (state_leaves (cst_root t))"
proof -
  have "list_all2 settled_alike ns ms \<Longrightarrow> map nd_id (filter leaf_node ns) = map nd_id (filter leaf_node ms)" for ns ms
    by (induction rule: list_all2_induct) (auto simp: settled_alike_def dest: skel_same)
  then show "alike s t \<Longrightarrow> ?thesis" by (simp add: alike_def state_leaves_def)
qed

lemma receipt_binds_run: "same_run s t \<Longrightarrow> receipt_binds s = receipt_binds t"
  by (simp add: fun_eq_iff receipt_binds_def same_run_def)

lemma retained_proof_run: "same_run s t \<Longrightarrow> hasRetainedRouteSourceProof D s = hasRetainedRouteSourceProof D t"
  by (simp add: fun_eq_iff hasRetainedRouteSourceProof_def receipt_binds_run)

lemma retained_alike:
  assumes "alike s t" "nd_id f = nd_id f'"
  shows "allowsRetainedRouteSourceCompletion D s l f = allowsRetainedRouteSourceCompletion D t l f'"
proof -
  have "leaf_index s = leaf_index t" using alike_leaf_ids [OF assms(1)] by (simp add: fun_eq_iff leaf_index_def)
  moreover have "hasRetainedRouteSourceProof D s = hasRetainedRouteSourceProof D t" using assms(1) retained_proof_run by (simp add: alike_def)
  ultimately show ?thesis using assms(2) by (simp only: allowsRetainedRouteSourceCompletion_def)
qed

lemma completion_alike:
  assumes "alike s t"
  shows "allowsUnexecutedRouteCompletion D s l = allowsUnexecutedRouteCompletion D t l"
proof -
  have "find (\<lambda>n. leaf_node n \<and> nd_status n = ''done'' \<and> receipt_id_is i n) (collectNodes (cst_root s))
      = find (\<lambda>n. leaf_node n \<and> nd_status n = ''done'' \<and> receipt_id_is i n) (collectNodes (cst_root t))" for i
  proof (rule find_alike)
    show "list_all2 (\<lambda>n m. (leaf_node n \<and> nd_status n = ''done'' \<and> receipt_id_is i n) = (leaf_node m \<and> nd_status m = ''done'' \<and> receipt_id_is i m)
        \<and> (leaf_node n \<and> nd_status n = ''done'' \<and> receipt_id_is i n \<longrightarrow> n = m)) (collectNodes (cst_root s)) (collectNodes (cst_root t))"
      using assms unfolding alike_def by (elim conjE, elim list_all2_mono) (auto simp: settled_alike_def inert_def receipt_id_is_def)
  qed
  moreover have "receipt_binds s = receipt_binds t" using assms receipt_binds_run by (simp add: alike_def)
  ultimately show ?thesis by (simp only: allowsUnexecutedRouteCompletion_def)
qed

lemma route_skip_alike:
  assumes "alike s t"
  shows "allowsDeclaredRouteSkip D s l = allowsDeclaredRouteSkip D t l"
proof -
  have "list_ex (\<lambda>n. leaf_node n \<and> nd_status n = ''done'' \<and> settled_by n (P n)) (collectNodes (cst_root s))
      = list_ex (\<lambda>n. leaf_node n \<and> nd_status n = ''done'' \<and> settled_by n (P n)) (collectNodes (cst_root t))" for P
  proof (rule list_ex_alike)
    show "list_all2 (\<lambda>n m. (leaf_node n \<and> nd_status n = ''done'' \<and> settled_by n (P n)) = (leaf_node m \<and> nd_status m = ''done'' \<and> settled_by m (P m)))
        (collectNodes (cst_root s)) (collectNodes (cst_root t))"
      using assms unfolding alike_def by (elim conjE, elim list_all2_mono) (auto simp: settled_alike_def inert_def)
  qed
  moreover have "receipt_binds s = receipt_binds t" using assms receipt_binds_run by (simp add: alike_def)
  ultimately show ?thesis by (simp only: allowsDeclaredRouteSkip_def)
qed

lemma test_skips_alike:
  assumes "alike s t"
  shows "noTestableRequirementSkips s = noTestableRequirementSkips t"
proof -
  have "(case findNodeInRoot (cst_root s) i of None \<Rightarrow> False | Some n \<Rightarrow> unexecuted_test_skip n)
      = (case findNodeInRoot (cst_root t) i of None \<Rightarrow> False | Some n \<Rightarrow> unexecuted_test_skip n)" for i
    unfolding findNodeInRoot_def
  proof (rule case_find_alike)
    show "list_all2 (\<lambda>n m. (nd_id n = i) = (nd_id m = i) \<and> unexecuted_test_skip n = unexecuted_test_skip m)
        (collectNodes (cst_root s)) (collectNodes (cst_root t))"
      using assms unfolding alike_def by (elim conjE, elim list_all2_mono) (auto simp: settled_alike_def inert_def dest: skel_same)
  qed
  then show ?thesis by (simp add: noTestableRequirementSkips_def)
qed

lemma options_alike: "alike s t \<Longrightarrow> state_options D s = state_options D t"
  using completion_alike route_skip_alike test_skips_alike
  by (simp add: state_options_def fun_eq_iff retained_proof_run [of s t] alike_def)

end
