(* ===== verification/Definition_Laws.thy ===== *)
theory Definition_Laws
  imports State_Checks "HOL-Library.Multiset"
begin

section \<open>What the state relies on in its definition\<close>

text \<open>
  The locale \<open>definition_laws\<close> is the interface between the canonical state and its definition: the laws on ids,
  contracts and actions that the operations of a state use.  \<open>built_definition\<close> satisfies them.
\<close>

definition all_nodes :: "CurrentFlowDefinition \<Rightarrow> definition_node list" where
  "all_nodes D = collectDefinitionNodes [cfd_root D] @ collectDefinitionNodes [cfd_taskTemplate D]"

locale definition_laws =
  fixes D :: CurrentFlowDefinition
  assumes static_unique: "distinct (map dn_id (collectDefinitionNodes [cfd_root D]))"
    and root_kind: "dn_kind (cfd_root D) = ''flow''"
    and container_tail: "d \<in> set (collectDefinitionNodes [cfd_root D]) \<Longrightarrow> dn_id d = cfd_dynamicTaskContainerId D \<Longrightarrow>
      task_start D (dn_steps d) < length (dn_steps d)"
    and template_steps: "dn_steps (cfd_taskTemplate D) \<noteq> []" "d \<in> set (dn_steps (cfd_taskTemplate D)) \<Longrightarrow> dn_steps d = []"
    and static_kinds: "d \<in> set (collectDefinitionNodes [cfd_root D]) \<Longrightarrow> dn_kind d \<noteq> ''task''"
    and template_ids: "map dn_id (dn_steps (cfd_taskTemplate D)) = map (\<lambda>r. ''task-'' @ r) [''impl'', ''review'', ''triage'', ''repair'', ''gate'']"
    and template_keys: "distinct (map dn_key (collectDefinitionNodes [cfd_taskTemplate D]))"
    and enterable: "d \<in> set (all_nodes D) \<Longrightarrow> x \<in> {''pending'', ''invalidated'', ''done'', ''skipped''} \<Longrightarrow> permits (dn_contract d) x ''in_progress''"
    and finishable: "d \<in> set (all_nodes D) \<Longrightarrow> permits (dn_contract d) ''in_progress'' ''done''"
    and never_archived: "d \<in> set (all_nodes D) \<Longrightarrow> \<not> permitsStatus (dn_contract d) ''archived''"
    and branch_statuses: "d \<in> set (all_nodes D) \<Longrightarrow> dn_steps d \<noteq> [] \<Longrightarrow> \<not> permitsStatus (dn_contract d) ''skipped''"
    and node_fields: "d \<in> set (all_nodes D) \<Longrightarrow> dn_kind d \<in> set NODE_KINDS \<and> js_trim (dn_id d) \<noteq> [] \<and> js_trim (dn_key d) \<noteq> []"
    and budgets: "d \<in> set (all_nodes D) \<Longrightarrow> 0 \<le> nct_semanticRetryLimit (dn_contract d) \<and> pred_option (\<lambda>m. 0 \<le> m) (nct_toolingRetryLimit (dn_contract d))
      \<and> distinct (rct_required (nct_resourceContract (dn_contract d)))"
    and leaf_actions: "d \<in> set (all_nodes D) \<Longrightarrow> dn_steps d = [] \<Longrightarrow> dn_action d \<noteq> None"

subsection \<open>Static and dynamic nodes\<close>

definition static_match :: "definition_node \<Rightarrow> flow_node \<Rightarrow> bool" where
  "static_match d n \<longleftrightarrow> dn_kind d = nd_kind n \<and> dn_id d = nd_id n \<and> dn_key d = nd_key n \<and> (dn_steps d = [] \<longleftrightarrow> nd_steps n = [])"

definition dynamic_node :: "CurrentFlowDefinition \<Rightarrow> flow_node \<Rightarrow> bool" where
  "dynamic_node D n \<longleftrightarrow> nd_kind n = ''task'' \<and> nd_steps n \<noteq> []
     \<or> nd_kind n = ''step'' \<and> nd_steps n = [] \<and> nd_key n \<in> dn_key ` set (dn_steps (cfd_taskTemplate D))"

definition shaped :: "CurrentFlowDefinition \<Rightarrow> definition_node list \<Rightarrow> flow_node list \<Rightarrow> bool" where
  "shaped D ds ns \<longleftrightarrow> (\<exists>S T. mset (concat (map collectNodes ns)) = mset S + mset T
     \<and> list_all2 static_match (collectDefinitionNodes ds) S \<and> list_all (dynamic_node D) T)"

lemma collect_definition_append: "collectDefinitionNodes (ds @ es) = collectDefinitionNodes ds @ collectDefinitionNodes es"
  by (induction ds rule: collectDefinitionNodes.induct) auto

lemma collect_definition_self: "d \<in> set (collectDefinitionNodes [d])"
  by (cases d) simp

lemma collect_definition_mem: "x \<in> set ds \<Longrightarrow> set (collectDefinitionNodes [x]) \<subseteq> set (collectDefinitionNodes ds)"
proof -
  assume "x \<in> set ds"
  then obtain us vs where "ds = us @ [x] @ vs" by (auto dest: split_list)
  then show ?thesis using collect_definition_append [of us "[x] @ vs"] collect_definition_append [of "[x]" vs] by auto
qed

lemma collect_definition_child: "x \<in> set (dn_steps d) \<Longrightarrow> x \<in> set (collectDefinitionNodes [d])"
  using collect_definition_mem collect_definition_self [of x] by (cases d) auto

lemma shaped_append: "shaped D ds ns \<Longrightarrow> shaped D es ms \<Longrightarrow> shaped D (ds @ es) (ns @ ms)"
proof -
  assume "shaped D ds ns" "shaped D es ms"
  then obtain S T U V where "mset (concat (map collectNodes ns)) = mset S + mset T" "list_all2 static_match (collectDefinitionNodes ds) S"
    "list_all (dynamic_node D) T" "mset (concat (map collectNodes ms)) = mset U + mset V" "list_all2 static_match (collectDefinitionNodes es) U"
    "list_all (dynamic_node D) V" by (auto simp: shaped_def)
  then show ?thesis unfolding shaped_def
    by (intro exI [of _ "S @ U"] exI [of _ "T @ V"]) (simp add: collect_definition_append list_all2_appendI)
qed

lemma zip_prefix: "k \<le> length xs \<Longrightarrow> k \<le> length ys \<Longrightarrow> zip (take k xs) (take k ys) = zip (take k xs) ys"
  by (induction xs ys arbitrary: k rule: list_induct2') (auto simp: take_Cons')

lemma shaped_nil: "shaped D [] []"
  unfolding shaped_def by (intro exI [of _ "[]"]) simp

lemma shaped_each:
  "length ds = length ns \<Longrightarrow> (\<And>d n. (d, n) \<in> set (zip ds ns) \<Longrightarrow> shaped D [d] [n]) \<Longrightarrow> shaped D ds ns"
proof (induction ds ns rule: list_induct2)
  case (Cons d ds n ns)
  then show ?case using shaped_append [of D "[d]" "[n]" ds ns] by simp
qed (rule shaped_nil)

lemma shaped_zip:
  assumes "length ds = length ns" "\<forall>p \<in> set (zip ds ns). assertStaticShape D (fst p) (snd p) = Inr ()"
    "\<And>x m. x \<in> set ds \<Longrightarrow> assertStaticShape D x m = Inr () \<Longrightarrow> shaped D [x] [m]"
  shows "shaped D ds ns"
proof (rule shaped_each [OF assms(1)])
  fix d n assume z: "(d, n) \<in> set (zip ds ns)"
  then have "d \<in> set ds" by (rule set_zip_leftD)
  then show "shaped D [d] [n]" using bspec [OF assms(2) z] by (intro assms(3)) simp_all
qed

lemma list_all2_right: "list_all2 P xs ys \<Longrightarrow> y \<in> set ys \<Longrightarrow> \<exists>x \<in> set xs. P x y"
  by (induction rule: list_all2_induct) auto

lemma shaped_node:
  assumes "shaped D ds (nd_steps n)" "static_match (DefNode kind i key c a ds) n"
  shows "shaped D [DefNode kind i key c a ds] [n]"
proof -
  obtain S T where "mset (concat (map collectNodes (nd_steps n))) = mset S + mset T" "list_all2 static_match (collectDefinitionNodes ds) S"
    "list_all (dynamic_node D) T" using assms(1) by (auto simp: shaped_def)
  then show ?thesis using assms(2) unfolding shaped_def
    by (intro exI [of _ "n # S"] exI [of _ T]) (simp add: collect_unfold [of n])
qed

lemma shaped_dynamic: "list_all (\<lambda>n. list_all (dynamic_node D) (collectNodes n)) ns \<Longrightarrow> shaped D [] ns"
  unfolding shaped_def by (intro exI [of _ "[]"] exI [of _ "concat (map collectNodes ns)"]) (auto simp: list_all_iff)

context definition_laws
begin

lemma container_steps: "d \<in> set (collectDefinitionNodes [cfd_root D]) \<Longrightarrow> dn_id d = cfd_dynamicTaskContainerId D \<Longrightarrow> dn_steps d \<noteq> []"
  using container_tail [of d] by auto

lemma task_step_dynamic:
  assumes "d \<in> set (dn_steps (cfd_taskTemplate D))" "assertTaskStepShape d n p = Inr ()"
  shows "collectNodes n = [n] \<and> dynamic_node D n"
proof -
  have "dn_steps d = []" using assms(1) template_steps(2) by simp
  then have "nd_steps n = []" "nd_kind n = ''step''" "nd_key n = dn_key d"
    using assms(2) by (cases d; auto split: if_splits)+
  then show ?thesis using assms(1) collect_unfold [of n] by (auto simp: dynamic_node_def)
qed

lemma task_dynamic:
  assumes "assertTaskShape (cfd_taskTemplate D) n = Inr ()"
  shows "list_all (dynamic_node D) (collectNodes n)"
proof -
  have len: "length (nd_steps n) = length (dn_steps (cfd_taskTemplate D))" "nd_kind n = ''task''"
    and each: "\<forall>p \<in> set (zip (dn_steps (cfd_taskTemplate D)) (nd_steps n)). assertTaskStepShape (fst p) (snd p) (nd_id n) = Inr ()"
    using assms by (auto simp: assertTaskShape_def eachE_ok split: if_splits)
  have "list_all (dynamic_node D) (collectNodes c)" if c: "c \<in> set (nd_steps n)" for c
  proof -
    obtain k where k: "k < length (nd_steps n)" "c = nd_steps n ! k" using c by (auto simp: in_set_conv_nth)
    then have "(dn_steps (cfd_taskTemplate D) ! k, c) \<in> set (zip (dn_steps (cfd_taskTemplate D)) (nd_steps n))"
      using len by (auto simp: set_zip)
    then have "assertTaskStepShape (dn_steps (cfd_taskTemplate D) ! k) c (nd_id n) = Inr ()" using each by auto
    from task_step_dynamic [OF _ this] show ?thesis using k len by simp
  qed
  moreover have "dynamic_node D n" using len template_steps(1) by (auto simp: dynamic_node_def)
  ultimately show ?thesis using collect_unfold [of n] by (auto simp: list_all_iff)
qed

lemma static_shaped:
  "assertStaticShape D d n = Inr () \<Longrightarrow> (\<forall>e \<in> set (collectDefinitionNodes [d]). dn_id e = cfd_dynamicTaskContainerId D \<longrightarrow> dn_steps e \<noteq> [])
    \<Longrightarrow> shaped D [d] [n]"
proof (induction d arbitrary: n)
  case (DefNode kind i key c a steps)
  let ?start = "task_start D steps" and ?count = "length (nd_steps n) - length steps"
  have same: "kind = nd_kind n" "i = nd_id n" "key = nd_key n" using DefNode.prems(1) by (auto split: if_splits)
  have IH: "shaped D [x] [m]" if "x \<in> set steps" "assertStaticShape D x m = Inr ()" for x m
    using DefNode.IH [OF that] DefNode.prems(2) collect_definition_mem [OF that(1)] by auto
  have "shaped D steps (nd_steps n) \<and> (steps = [] \<longleftrightarrow> nd_steps n = [])"
  proof (cases "i = cfd_dynamicTaskContainerId D")
    case True
    then have le: "length steps \<le> length (nd_steps n)" and ne: "steps \<noteq> []"
      and pre: "\<forall>p \<in> set (zip (take ?start steps) (nd_steps n)). assertStaticShape D (fst p) (snd p) = Inr ()"
      and mid: "\<forall>t \<in> set (take ?count (drop ?start (nd_steps n))). assertTaskShape (cfd_taskTemplate D) t = Inr ()"
      and post: "\<forall>p \<in> set (zip (drop ?start steps) (drop (?start + ?count) (nd_steps n))). assertStaticShape D (fst p) (snd p) = Inr ()"
      using DefNode.prems same by (auto simp: eachE_ok Let_def split: if_splits)
    have start: "?start \<le> length steps"
      by (auto simp: task_start_def split: option.splits dest: index_of_Some)
    have "shaped D (take ?start steps) (take ?start (nd_steps n))"
    proof (rule shaped_zip)
      show "\<forall>p \<in> set (zip (take ?start steps) (take ?start (nd_steps n))). assertStaticShape D (fst p) (snd p) = Inr ()"
        using start le pre by (simp add: zip_prefix)
    qed (use start le in \<open>auto intro: IH dest: in_set_takeD\<close>)
    moreover have "shaped D [] (take ?count (drop ?start (nd_steps n)))"
      using mid task_dynamic unfolding list_all_iff by (intro shaped_dynamic) (auto simp: list_all_iff)
    moreover have "shaped D (drop ?start steps) (drop (?start + ?count) (nd_steps n))"
    proof (rule shaped_zip)
      show "\<forall>p \<in> set (zip (drop ?start steps) (drop (?start + ?count) (nd_steps n))). assertStaticShape D (fst p) (snd p) = Inr ()"
        by (rule post)
    qed (use start le in \<open>auto intro: IH dest: in_set_dropD\<close>)
    ultimately have "shaped D (take ?start steps @ [] @ drop ?start steps)
        (take ?start (nd_steps n) @ take ?count (drop ?start (nd_steps n)) @ drop (?start + ?count) (nd_steps n))"
      by (intro shaped_append)
    moreover have "take ?start (nd_steps n) @ take ?count (drop ?start (nd_steps n)) @ drop (?start + ?count) (nd_steps n) = nd_steps n"
      by (metis add.commute append_take_drop_id drop_drop)
    ultimately show ?thesis using ne le by auto
  next
    case False
    then have len: "length steps = length (nd_steps n)" and each: "\<forall>p \<in> set (zip steps (nd_steps n)). assertStaticShape D (fst p) (snd p) = Inr ()"
      using DefNode.prems(1) same by (auto simp: eachE_ok split: if_splits)
    have "shaped D steps (nd_steps n)" by (rule shaped_zip [OF len each IH])
    then show ?thesis using len by auto
  qed
  then show ?case using same by (intro shaped_node) (auto simp: static_match_def)
qed

lemma state_shaped:
  assumes "assertStateShape D r = Inr ()" "distinct (ids r)"
  obtains S T where "mset (collectNodes r) = mset S + mset T" "list_all2 static_match (collectDefinitionNodes [cfd_root D]) S"
    "list_all (dynamic_node D) T" "\<forall>t \<in> set T. nd_id t \<notin> set (map dn_id (collectDefinitionNodes [cfd_root D]))"
proof -
  have "shaped D [cfd_root D] [r]" using assms(1) container_steps by (intro static_shaped) (auto simp: assertStateShape_def split: if_splits)
  then obtain S T where st: "mset (collectNodes r) = mset S + mset T" "list_all2 static_match (collectDefinitionNodes [cfd_root D]) S"
    "list_all (dynamic_node D) T" by (auto simp: shaped_def)
  have "mset (ids r) = mset (map nd_id S @ map nd_id T)" using st(1) by (metis image_mset_union mset_append mset_map)
  then have "distinct (map nd_id S @ map nd_id T)" using assms(2) by (metis mset_eq_imp_distinct_iff)
  moreover have "map dn_id (collectDefinitionNodes [cfd_root D]) = map nd_id S"
    using st(2) by (intro nth_equalityI) (auto simp: list_all2_conv_all_nth static_match_def)
  ultimately have "\<forall>t \<in> set T. nd_id t \<notin> set (map dn_id (collectDefinitionNodes [cfd_root D]))" by auto
  then show ?thesis by (rule that [OF st])
qed

lemma definition_of_node:
  assumes "assertStateShape D r = Inr ()" "distinct (ids r)" "n \<in> set (collectNodes r)"
  shows "\<exists>d. definitionNodeFor D n = Inr d \<and> d \<in> set (all_nodes D) \<and> (dn_steps d = [] \<longleftrightarrow> leaf_node n)"
proof -
  obtain S T where st: "mset (collectNodes r) = mset S + mset T" "list_all2 static_match (collectDefinitionNodes [cfd_root D]) S"
    "list_all (dynamic_node D) T" "\<forall>t \<in> set T. nd_id t \<notin> set (map dn_id (collectDefinitionNodes [cfd_root D]))"
    by (rule state_shaped [OF assms(1,2)])
  have "n \<in> set S \<or> n \<in> set T" using assms(3) st(1) by (metis set_mset_mset set_mset_union Un_iff)
  then show ?thesis
  proof
    assume "n \<in> set S"
    then obtain d where d: "d \<in> set (collectDefinitionNodes [cfd_root D])" "static_match d n"
      using list_all2_right [OF st(2)] by blast
    then have "find (\<lambda>d. dn_id d = nd_id n) (collectDefinitionNodes [cfd_root D]) = Some d"
      using find_unique_node [OF static_unique d(1)] by (simp add: static_match_def)
    then show ?thesis using d by (auto simp: definitionNodeFor_def all_nodes_def static_match_def leaf_node_def)
  next
    assume n: "n \<in> set T"
    then have none: "find (\<lambda>d. dn_id d = nd_id n) (collectDefinitionNodes [cfd_root D]) = None"
    proof -
      have "dn_id d \<noteq> nd_id n" if d: "d \<in> set (collectDefinitionNodes [cfd_root D])" for d
      proof
        assume eq: "dn_id d = nd_id n"
        have "dn_id d \<in> dn_id ` set (collectDefinitionNodes [cfd_root D])" by (rule imageI [OF d])
        then show False using bspec [OF st(4) n] unfolding eq set_map by contradiction
      qed
      then show ?thesis unfolding find_None_iff by blast
    qed
    have dyn: "dynamic_node D n" using n st(3) by (auto simp: list_all_iff)
    show ?thesis
    proof (cases "nd_kind n = ''task''")
      case True
      then show ?thesis using none dyn template_steps(1) collect_definition_self [of "cfd_taskTemplate D"]
        by (auto simp: definitionNodeFor_def all_nodes_def dynamic_node_def leaf_node_def)
    next
      case False
      then obtain d where d: "d \<in> set (dn_steps (cfd_taskTemplate D))" "dn_key d = nd_key n" and l: "leaf_node n"
        using dyn by (auto simp: dynamic_node_def leaf_node_def)
      have m: "d \<in> set (collectDefinitionNodes [cfd_taskTemplate D])" using d(1) collect_definition_child by blast
      then have "find (\<lambda>d. dn_key d = nd_key n) (collectDefinitionNodes [cfd_taskTemplate D]) = Some d"
        using find_unique_node [OF template_keys m] d(2) by simp
      then show ?thesis using none False m l template_steps(2) [OF d(1)] by (auto simp: definitionNodeFor_def all_nodes_def)
    qed
  qed
qed

end

end
