(* ===== verification/State_Progress.thy ===== *)
theory State_Progress
  imports Definition_Laws
begin

section \<open>Progress of a canonical state\<close>

text \<open>
  A checked state can always go on: the next leaf can be started, the active leaf can be confirmed, and both lead
  to states that pass every check.
\<close>

subsection \<open>Facts of a checked state\<close>

lemma wf_stateD:
  assumes "wf_state D s"
  shows "distinct (ids (cst_root s))" "assertStateShape D (cst_root s) = Inr ()" "assertDefinitionExecutionCurrent D s = Inr ()"
    "n \<in> set (collectNodes (cst_root s)) \<Longrightarrow> node_check n = Inr ()" "n \<in> set (collectNodes (cst_root s)) \<Longrightarrow> status_ok D n"
    "n \<in> set (collectNodes (cst_root s)) \<Longrightarrow> node_life (state_options D s) n" "nd_kind (cst_root s) = ''flow''"
    "cst_current s = Some p \<Longrightarrow> findPathInRoot (last p) [] (cst_root s) = Some p" "cst_lifecycle s \<in> set LIFECYCLE_STATES"
  using assms by (auto simp: wf_state_def)

lemma wf_update:
  assumes "wf_state D s" "alike s t" "skel (cst_root t) = skel (cst_root s)" "cst_lifecycle t \<in> set LIFECYCLE_STATES"
    "\<And>n. n \<in> set (collectNodes (cst_root t)) \<Longrightarrow> node_check n = Inr () \<and> status_ok D n \<and> node_life (state_options D s) n"
    "\<And>p. cst_current t = Some p \<Longrightarrow> findPathInRoot (last p) [] (cst_root t) = Some p \<and> js_trim (last p) \<noteq> []"
    "assertDefinitionExecutionCurrent D t = Inr ()"
  shows "wf_state D t"
  using assms(1,4-7) state_shape_skel [OF assms(3), of D] skel_ids [OF assms(3)] skel_same [OF assms(3)] options_alike [OF assms(2), of D]
  by (simp add: wf_state_def)

lemma alike_tmap:
  assumes "same_run s t" "cst_root t = tmap g (cst_root s)"
    "\<And>n. n \<in> set (collectNodes (cst_root s)) \<Longrightarrow> tmap g n = n \<or> inert n \<and> inert (tmap g n)"
  shows "alike s t"
proof -
  have "list_all2 settled_alike ns (map (tmap g) ns)" if "set ns \<subseteq> set (collectNodes (cst_root s))" for ns
    using that assms(3) by (induction ns) (simp_all add: settled_alike_def, metis)
  then show ?thesis using assms(1,2) by (simp add: alike_def tmap_collect)
qed

lemma replaceRoot_ok:
  assumes "wf_state D (s\<lparr>cst_root := root, cst_current := current, cst_attempt := attempt\<rparr>)"
  shows "replaceRoot D s root current attempt = Inr (s\<lparr>cst_root := root, cst_current := current, cst_attempt := attempt\<rparr>)"
  using assms state_ok by (simp add: replaceRoot_def)

lemma permits_status: "permits c x y \<Longrightarrow> y \<in> set CANONICAL_NODE_STATUSES \<Longrightarrow> permitsStatus c y"
  unfolding permits_def permitsStatus_def list_ex_iff using ends_with_append [of x "'':'' @ y"] by (auto intro!: bexI)

lemma leaf_in: "l \<in> set (state_leaves r) \<longleftrightarrow> l \<in> set (collectNodes r) \<and> leaf_node l"
  by (auto simp: state_leaves_def)

lemma active_not_terminal: "''in_progress'' \<notin> set TERMINAL_NODE_STATUSES"
  by (simp add: terminal_cases)

lemma leaf_ids: "leaf_node n \<Longrightarrow> ids n = [nd_id n]"
  using collect_unfold [of n] by (simp add: leaf_node_def)

lemma branch_status:
  "branch_check n = Inr () \<Longrightarrow> nd_status n \<in> {''pending'', ''done'', ''skipped'', ''invalidated'', ''in_progress''}"
  by (auto simp: branch_check_def Let_def split: if_splits)

lemma pending_leaf_fresh: "assertLeafLifecycle opts n = Inr () \<Longrightarrow> nd_status n = ''pending'' \<Longrightarrow> nd_attemptSequence n = 0"
  by (auto simp: assertLeafLifecycle_def split: if_splits option.splits)

lemma pending_leaf_result: "assertLeafLifecycle opts n = Inr () \<Longrightarrow> nd_status n = ''pending'' \<Longrightarrow> \<not> lop_routeCompletion opts n \<Longrightarrow> nd_result n = None"
  by (auto simp: assertLeafLifecycle_def unexecuted_test_skip_def split: if_splits option.splits)

lemma route_completion_skipped: "lop_routeCompletion (state_options D s) n \<Longrightarrow> nd_status n = ''skipped''"
  by (auto simp: state_options_def allowsUnexecutedRouteCompletion_def unexecuted_recipient_def split: option.splits)

lemma pending_unsettled:
  assumes "node_life (state_options D s) n" "leaf_node n" "nd_status n = ''pending''"
  shows "nd_result n = None"
proof -
  have "\<not> lop_routeCompletion (state_options D s) n" using route_completion_skipped [of D s n] assms(3) by auto
  then show ?thesis using assms pending_leaf_result by (simp add: node_life_def)
qed

lemma active_leaf_ok: "nd_status n = ''in_progress'' \<Longrightarrow> nd_result n = None \<Longrightarrow> \<not> lop_requirementTestSkip opts n \<Longrightarrow> assertLeafLifecycle opts n = Inr ()"
  by (simp add: assertLeafLifecycle_def acceptedStepDecision_def has_completion_reference_def TERMINAL_NODE_STATUSES_def)

lemma inert_unsettled: "nd_result n = None \<Longrightarrow> inert n"
  by (simp add: inert_def unexecuted_test_skip_def outcome_is_def settled_by_def)

lemma inert_branch: "\<not> leaf_node n \<Longrightarrow> nd_status n \<noteq> ''skipped'' \<Longrightarrow> inert n"
  by (simp add: inert_def unexecuted_test_skip_def)

lemma contractForNode_with: "contractForNode D (with_node n s r a ss) = contractForNode D n"
  unfolding contractForNode_def definitionNodeFor_def with_node_def flow_node.sel ..

lemma state_frontier:
  assumes "wf_state D s"
  shows "list_all terminal (state_leaves (cst_root s)) \<and> cst_current s = None \<or>
    (\<exists>pre f post. state_leaves (cst_root s) = pre @ f # post \<and> list_all terminal pre \<and> \<not> terminal f \<and> list_all (\<lambda>l. nd_status l \<noteq> ''in_progress'') post
       \<and> (if nd_status f = ''in_progress'' then map_option last (cst_current s) = Some (nd_id f) else cst_current s = None))"
proof (rule frontier_shape)
  show "assertExecutionFrontier (state_leaves (cst_root s)) (cst_current s) (collectNodes (cst_root s))
      (allowsRetainedRouteSourceCompletion D s) (allowsUnexecutedRouteTail D s) = Inr ()"
    using wf_stateD(3) [OF assms] by (auto simp: assertDefinitionExecutionCurrent_def Let_def)
qed (rule tail_pending)

context definition_laws
begin

lemma node_definition:
  assumes "wf_state D s" "n \<in> set (collectNodes (cst_root s))"
  obtains d where "definitionNodeFor D n = Inr d" "contractForNode D n = Inr (dn_contract d)" "d \<in> set (all_nodes D)" "dn_steps d = [] \<longleftrightarrow> leaf_node n"
  using definition_of_node [OF wf_stateD(2,1) [OF assms(1)] assms(2)] that by (auto simp: contractForNode_def)

lemma handler_ok:
  assumes "wf_state D s" "n \<in> set (collectNodes (cst_root s))"
  shows "assertTransitionHandler D s (nd_id n) = Inr ()" "leaf_node n \<Longrightarrow> \<exists>a. actionFor D (cst_root s) (nd_id n) = Inr a"
proof -
  obtain d where d: "definitionNodeFor D n = Inr d" "d \<in> set (all_nodes D)" "dn_steps d = [] \<longleftrightarrow> leaf_node n"
    by (rule node_definition [OF assms])
  have found: "findNodeInRoot (cst_root s) (nd_id n) = Some n" using lookup [OF wf_stateD(1) [OF assms(1)] assms(2)] .
  show action: "\<exists>a. actionFor D (cst_root s) (nd_id n) = Inr a" if "leaf_node n"
    using leaf_actions [OF d(2)] d that found by (auto simp: actionFor_def)
  have "js_trim (nd_id n) \<noteq> []" using wf_stateD(4) [OF assms] by (auto simp: node_check_def cfs_text_ok split: if_splits)
  then show "assertTransitionHandler D s (nd_id n) = Inr ()"
    using found d(1) action by (auto simp: assertTransitionHandler_def findNode_def leaf_node_def cfs_text_def)
qed

lemma active_ok: "wf_state D s \<Longrightarrow> cst_lifecycle s = ''active'' \<Longrightarrow> cst_current s = None \<Longrightarrow> assertExecutionActive D s = Inr ()"
  using handler_ok(1) [of s "cst_root s"] by (simp add: assertExecutionActive_def cursor_id_def)

lemma branch_not_skipped:
  assumes "wf_state D s" "n \<in> set (collectNodes (cst_root s))" "\<not> leaf_node n"
  shows "nd_status n \<noteq> ''skipped''"
proof -
  obtain d where "contractForNode D n = Inr (dn_contract d)" "d \<in> set (all_nodes D)" "dn_steps d \<noteq> []"
    using node_definition [OF assms(1,2)] assms(3) by metis
  then show ?thesis using wf_stateD(5) [OF assms(1,2)] branch_statuses by (auto simp: status_ok_def)
qed

lemma idle_shape:
  assumes "wf_state D s" "cst_current s = None"
  shows "list_all terminal (state_leaves (cst_root s)) \<or>
    (\<exists>pre f post. state_leaves (cst_root s) = pre @ f # post \<and> list_all terminal pre \<and> nd_status f \<in> set EXECUTABLE_NODE_STATUSES
       \<and> list_all (\<lambda>l. nd_status l \<noteq> ''in_progress'') (state_leaves (cst_root s)))"
proof -
  from state_frontier [OF assms(1)] assms(2)
  consider "list_all terminal (state_leaves (cst_root s))" | pre f post where "state_leaves (cst_root s) = pre @ f # post" "list_all terminal pre"
    "\<not> terminal f" "nd_status f \<noteq> ''in_progress''" "list_all (\<lambda>l. nd_status l \<noteq> ''in_progress'') post" by (auto split: if_splits)
  then show ?thesis
  proof cases
    case (2 pre f post)
    have "f \<in> set (state_leaves (cst_root s))" using 2(1) by simp
    then have fc: "f \<in> set (collectNodes (cst_root s))" by (simp add: leaf_in)
    then have ok: "node_check f = Inr ()" "status_ok D f" using wf_stateD(4,5) [OF assms(1)] by auto
    have "nd_status f \<noteq> ''archived''" using ok(2) never_archived node_definition [OF assms(1) fc] by (metis status_ok_def sum.inject(2))
    then have "nd_status f \<in> set EXECUTABLE_NODE_STATUSES"
      using ok(1) 2(3,4) by (auto simp: node_check_def CANONICAL_NODE_STATUSES_def terminal_def terminal_cases executable_cases split: if_splits)
    moreover have "list_all (\<lambda>l. nd_status l \<noteq> ''in_progress'') (state_leaves (cst_root s))"
      using 2 by (auto simp: list_all_iff terminal_def terminal_cases)
    ultimately show ?thesis using 2 by blast
  qed simp
qed

subsection \<open>Starting an Attempt\<close>

definition entered :: "string \<Rightarrow> int \<Rightarrow> string \<Rightarrow> progress \<Rightarrow> progress" where
  "entered lid k i x = (''in_progress'', if i = lid then None else fst (snd x), if i = lid then k else snd (snd x))"

definition started :: "string list \<Rightarrow> string \<Rightarrow> int \<Rightarrow> flow_node \<Rightarrow> flow_node" where
  "started p lid k = tmap (\<lambda>i x. if i \<in> set p then entered lid k i x else x)"

lemma activate_path:
  assumes "wf_state D s" "l \<in> set (collectNodes (cst_root s))" "leaf_node l" "nd_status l = ''pending''"
    "path_to (cst_root s) l p"
  shows "update_nodes (activate_node D (nd_id l) a) p (cst_root s) = Inr (started p (nd_id l) (cat_sequence a) (cst_root s))"
  unfolding started_def
proof (rule update_nodes_tmap [OF wf_stateD(1) [OF assms(1)] path_toD(1,2) [OF assms(5)]])
  fix n assume n: "n \<in> set (collectNodes (cst_root s))" "nd_id n \<in> set p"
  obtain d where d: "contractForNode D n = Inr (dn_contract d)" "d \<in> set (all_nodes D)" by (rule node_definition [OF assms(1) n(1)])
  have leaf: "n = l" if "leaf_node n"
    using path_toD(3) [OF assms(5) n(1)] n(2) leaf_ids [OF that] same_node [OF wf_stateD(1) [OF assms(1)] n(1) assms(2)] by simp
  have life: "node_life (state_options D s) n" by (rule wf_stateD(6) [OF assms(1) n(1)])
  have "nd_status n \<in> {''pending'', ''done'', ''skipped'', ''invalidated'', ''in_progress''}"
    using life leaf assms(4) branch_status by (cases "leaf_node n") (auto simp: node_life_def)
  then have "nd_status n = ''in_progress'' \<or> permits (dn_contract d) (nd_status n) ''in_progress''"
    using enterable [OF d(2)] by auto
  moreover have "nd_id n = nd_id l \<Longrightarrow> nd_status n \<noteq> ''in_progress''"
    using same_node [OF wf_stateD(1) [OF assms(1)] n(1) assms(2)] assms(4) by auto
  ultimately show "\<exists>s' r' a'. entered (nd_id l) (cat_sequence a) (nd_id n) (progress_of n) = (s', r', a') \<and>
      (\<forall>ss. activate_node D (nd_id l) a (with_node n (nd_status n) (nd_result n) (nd_attemptSequence n) ss) = Inr (with_node n s' r' a' ss))"
    using d(1) by (auto simp: entered_def progress_of_def activate_node_def transitionNode_def contractForNode_with) (auto simp: with_node_def)
qed

lemma started_node:
  assumes "wf_state D s" "l \<in> set (collectNodes (cst_root s))" "leaf_node l" "n \<in> set (collectNodes (cst_root s))"
    "path_to (cst_root s) l p"
  shows "nd_id l \<notin> set (ids n) \<Longrightarrow> started p (nd_id l) k n = n"
    "nd_id l \<in> set (ids n) \<Longrightarrow> nd_status (started p (nd_id l) k n) = ''in_progress''"
    "n \<noteq> l \<Longrightarrow> nd_result (started p (nd_id l) k n) = nd_result n \<and> nd_attemptSequence (started p (nd_id l) k n) = nd_attemptSequence n"
    "nd_result (started p (nd_id l) k l) = None \<and> nd_attemptSequence (started p (nd_id l) k l) = k"
proof -
  have prog: "progress_of (started p (nd_id l) k x) = (if nd_id l \<in> set (ids x) then entered (nd_id l) k (nd_id x) (progress_of x) else progress_of x)"
    if "x \<in> set (collectNodes (cst_root s))" for x
    using path_toD(3) [OF assms(5) that] by (simp add: started_def)
  show "started p (nd_id l) k n = n" if "nd_id l \<notin> set (ids n)"
    unfolding started_def
  proof (rule tmap_unchanged)
    fix m assume m: "m \<in> set (collectNodes n)"
    then have mr: "m \<in> set (collectNodes (cst_root s))" using collect_trans [OF assms(4)] by blast
    have "nd_id l \<notin> set (ids m)" using that collect_trans [OF m] by auto
    then show "(if nd_id m \<in> set p then entered (nd_id l) k (nd_id m) (progress_of m) else progress_of m) = progress_of m"
      using path_toD(3) [OF assms(5) mr] by simp
  qed
  show "nd_status (started p (nd_id l) k n) = ''in_progress''" if "nd_id l \<in> set (ids n)"
    using prog [OF assms(4)] that by (simp add: progress_of_def entered_def)
  show "nd_result (started p (nd_id l) k n) = nd_result n \<and> nd_attemptSequence (started p (nd_id l) k n) = nd_attemptSequence n" if "n \<noteq> l"
  proof -
    have "nd_id n \<noteq> nd_id l" using same_node [OF wf_stateD(1) [OF assms(1)] assms(4,2)] that by auto
    then show ?thesis using prog [OF assms(4)] by (simp add: progress_of_def entered_def split: if_splits)
  qed
  show "nd_result (started p (nd_id l) k l) = None \<and> nd_attemptSequence (started p (nd_id l) k l) = k"
    using prog [OF assms(2)] leaf_ids [OF assms(3)] by (simp add: progress_of_def entered_def)
qed

lemma started_branch:
  assumes "wf_state D s" "l \<in> set (collectNodes (cst_root s))" "leaf_node l" "n \<in> set (collectNodes (cst_root s))"
    "path_to (cst_root s) l p" "nd_id l \<in> set (ids n)" "\<not> leaf_node n"
  shows "branch_check (started p (nd_id l) k n) = Inr ()"
proof -
  obtain m where m: "m \<in> set (collectNodes n)" "nd_id m = nd_id l" using assms(6) by auto
  then have "m = l" using same_node [OF wf_stateD(1) [OF assms(1)] collect_trans [OF assms(4) m(1)] assms(2)] by simp
  then have "l \<in> set (collectNodes n)" "l \<noteq> n" using m(1) assms(3,7) by auto
  then obtain c where c: "c \<in> set (nd_steps n)" "l \<in> set (collectNodes c)" using collect_child by blast
  have "c \<in> set (collectNodes (cst_root s))" using collect_trans [OF assms(4) child_collect [OF c(1)]] .
  from started_node(2) [OF assms(1-3) this assms(5)] have child: "nd_status (started p (nd_id l) k c) = ''in_progress''" using c(2) by auto
  have steps: "nd_steps (started p (nd_id l) k n) = map (started p (nd_id l) k) (nd_steps n)" by (simp add: started_def)
  have mem: "''in_progress'' \<in> set (map nd_status (nd_steps (started p (nd_id l) k n)))" unfolding steps using child c(1) by force
  have st: "nd_status (started p (nd_id l) k n) = ''in_progress''" by (rule started_node(2) [OF assms(1-6)])
  have "\<not> list_all (\<lambda>s. s \<in> set TERMINAL_NODE_STATUSES) (map nd_status (nd_steps (started p (nd_id l) k n)))"
    using mem active_not_terminal unfolding list_all_iff by blast
  moreover have "list_ex (\<lambda>s. s \<noteq> ''pending'') (map nd_status (nd_steps (started p (nd_id l) k n)))"
    unfolding list_ex_iff by (rule bexI [OF _ mem]) simp
  ultimately show ?thesis by (simp only: branch_check_def st Let_def) simp
qed

lemma start_nodes:
  assumes "wf_state D s" "l \<in> set (collectNodes (cst_root s))" "leaf_node l" "nd_status l = ''pending''" "k = nd_attemptSequence l + 1"
    "path_to (cst_root s) l p"
    "m \<in> set (collectNodes (started p (nd_id l) k (cst_root s)))"
  shows "node_check m = Inr () \<and> status_ok D m \<and> node_life (state_options D s) m"
proof -
  obtain n where n: "n \<in> set (collectNodes (cst_root s))" "m = started p (nd_id l) k n"
    using assms(7) by (auto simp: started_def tmap_collect)
  have old: "node_check n = Inr ()" "status_ok D n" "node_life (state_options D s) n" using wf_stateD(4-6) [OF assms(1) n(1)] by auto
  note nd = started_node [OF assms(1-3) n(1) assms(6)]
  show ?thesis
  proof (cases "nd_id l \<in> set (ids n)")
    case False
    then show ?thesis using old n(2) nd(1) by simp
  next
    case True
    have same: "nd_kind m = nd_kind n" "nd_id m = nd_id n" "nd_key m = nd_key n" "leaf_node m = leaf_node n" using n(2) by (simp_all add: started_def)
    have st: "nd_status m = ''in_progress''" using nd(2) [OF True] n(2) by simp
    have l0: "nd_attemptSequence l = 0"
      using wf_stateD(6) [OF assms(1,2)] assms(3,4) pending_leaf_fresh by (auto simp: node_life_def)
    have "0 \<le> nd_attemptSequence m \<and> nd_attemptSequence m \<le> max_safe"
    proof (cases "n = l")
      case True
      then show ?thesis using nd(4) n(2) l0 assms(5) by (simp add: max_safe_def)
    next
      case False
      then show ?thesis using nd(3) n(2) old(1) by (auto simp: node_check_def cfs_integer_ok split: if_splits)
    qed
    then have "node_check m = Inr ()"
      using old(1) st same by (auto simp: node_check_def cfs_integer_ok cfs_text_ok CANONICAL_NODE_STATUSES_def split: if_splits)
    moreover have "status_ok D m"
    proof -
      obtain d where d: "contractForNode D n = Inr (dn_contract d)" "d \<in> set (all_nodes D)" by (rule node_definition [OF assms(1) n(1)])
      have "contractForNode D m = contractForNode D n" using same(1-3) by (simp only: contractForNode_def definitionNodeFor_def)
      moreover have "permitsStatus (dn_contract d) ''in_progress''"
        by (rule permits_status [OF enterable [OF d(2), of "''pending''"]]) (simp_all add: CANONICAL_NODE_STATUSES_def)
      ultimately show ?thesis using d(1) st by (simp add: status_ok_def)
    qed
    moreover have "node_life (state_options D s) m"
    proof (cases "leaf_node n")
      case leaf: True
      then have nl: "n = l" using True leaf_ids [OF leaf] same_node [OF wf_stateD(1) [OF assms(1)] n(1) assms(2)] by simp
      have "\<not> lop_requirementTestSkip (state_options D s) m"
      proof
        assume r: "lop_requirementTestSkip (state_options D s) m"
        then have i: "nd_id l \<in> set REQUIREMENT_TEST_LEAF_IDS" "noTestableRequirementSkips s" using same(2) nl by (simp_all add: state_options_def)
        have "findNodeInRoot (cst_root s) (nd_id l) = Some l" by (rule lookup [OF wf_stateD(1) [OF assms(1)] assms(2)])
        then have "unexecuted_test_skip l" using i unfolding noTestableRequirementSkips_def list_all_iff by fastforce
        then show False using assms(4) by (simp add: unexecuted_test_skip_def)
      qed
      moreover have "nd_result m = None" using nd(4) n(2) nl by simp
      ultimately show ?thesis using leaf same(4) active_leaf_ok [OF st] by (simp add: node_life_def)
    next
      case branch: False
      then have "nd_attemptSequence m = nd_attemptSequence n" using nd(3) n(2) assms(3) by auto
      then show ?thesis using branch old(3) same(4) started_branch [OF assms(1-3) n(1) assms(6) True branch] n(2) by (simp add: node_life_def)
    qed
    ultimately show ?thesis by blast
  qed
qed

lemma start_execution:
  assumes "wf_state D s" "state_leaves (cst_root s) = pre @ l # post" "list_all terminal pre" "nd_status l = ''pending''" "cst_current s = None"
    "path_to (cst_root s) l p" "p \<noteq> []" "last p = nd_id l" "nodeAtPath (started p (nd_id l) k (cst_root s)) p = Inr (started p (nd_id l) k l)"
    "k = cat_sequence a" "cat_nodeId a = nd_id l" "assertAttemptContractForLeaf D l a = Inr ()" "cst_lifecycle s = ''active''"
    "t = s\<lparr>cst_root := started p (nd_id l) k (cst_root s), cst_current := Some p, cst_attempt := Some a\<rparr>" "alike s t"
  shows "assertDefinitionExecutionCurrent D t = Inr ()"
proof -
  let ?S = "started p (nd_id l) k"
  have l: "l \<in> set (collectNodes (cst_root s))" "leaf_node l" using assms(2) leaf_in [of l "cst_root s"] by auto
  have dis: "distinct (ids (cst_root s))" by (rule wf_stateD(1) [OF assms(1)])
  note nd = started_node [OF assms(1) l _ assms(6), of _ k]
  have other: "?S m = m" if "m \<in> set (state_leaves (cst_root s))" "m \<noteq> l" for m
  proof -
    have m: "m \<in> set (collectNodes (cst_root s))" "leaf_node m" using that(1) leaf_in by auto
    have "nd_id m \<noteq> nd_id l" using same_node [OF dis m(1) l(1)] that(2) by auto
    then show ?thesis using nd(1) [OF m(1)] leaf_ids [OF m(2)] by simp
  qed
  have dl: "distinct (map nd_id (pre @ l # post))" using dis distinct_filter [of "collectNodes (cst_root s)"]
    unfolding assms(2) [symmetric] state_leaves_def by (simp add: distinct_map_filter)
  then have "l \<notin> set pre" "l \<notin> set post" by auto
  then have leaves: "state_leaves (cst_root t) = pre @ ?S l # post"
    using assms(2,14) other by (simp add: started_def tmap_leaves) (auto intro!: map_idI simp: started_def [symmetric])
  have st: "nd_status (?S l) = ''in_progress''" "nd_id (?S l) = nd_id l" using nd(2) [OF l(1)] by (simp_all add: started_def)
  have front: "assertExecutionFrontier (state_leaves (cst_root s)) None (collectNodes (cst_root s)) (allowsRetainedRouteSourceCompletion D s) (allowsUnexecutedRouteTail D s) = Inr ()"
    using wf_stateD(3) [OF assms(1)] assms(5) by (auto simp: assertDefinitionExecutionCurrent_def Let_def)
  have nl: "\<not> terminal l" using assms(4) by (simp add: terminal_def terminal_cases)
  obtain st1 where "frontier_loop (frontier_leaf False (collectNodes (cst_root s)) (allowsRetainedRouteSourceCompletion D s) (allowsUnexecutedRouteTail D s)) post (at_frontier l) = Inr st1"
    using front unfolding assertExecutionFrontier_def assms(2) option.case frontier_prefix [OF assms(3)] frontier_first [OF nl] by auto
  from pending_loop_only [OF this] have post: "\<forall>m \<in> set post. nd_status m = ''pending'' \<or> terminal m \<and> allowsRetainedRouteSourceCompletion D s m l"
    using assms(4) by (simp add: pending_suffix_def at_frontier_def)
  have nS: "\<not> terminal (?S l)" using st(1) by (simp add: terminal_def terminal_cases)
  obtain st2 where st2: "frontier_loop (frontier_leaf (last p = ''finalize-merge'') (collectNodes (cst_root t)) (allowsRetainedRouteSourceCompletion D t) (allowsUnexecutedRouteTail D t))
      post (at_frontier (?S l)) = Inr st2" "frs_frontier st2 = Some (?S l)"
  proof -
    have "pending_suffix (?S l) (at_frontier (?S l))" using st(1) by (simp add: pending_suffix_def at_frontier_def)
    moreover have "\<forall>m \<in> set post. nd_status m = ''pending'' \<or> terminal m \<and> allowsRetainedRouteSourceCompletion D t m (?S l)"
      using post retained_alike [OF assms(15), of l "?S l"] st(2) by simp
    ultimately show ?thesis using that pending_loop_ok by blast
  qed
  have frontier: "assertExecutionFrontier (state_leaves (cst_root t)) (Some p) (collectNodes (cst_root t)) (allowsRetainedRouteSourceCompletion D t) (allowsUnexecutedRouteTail D t) = Inr ()"
    unfolding assertExecutionFrontier_def leaves option.case frontier_prefix [OF assms(3)] frontier_first [OF nS] st2(1) bindE.simps st2(2)
    using st assms(8) by simp
  have idle: "list_all (\<lambda>m. nd_status m \<noteq> ''in_progress'') (pre @ post)"
    using idle_shape [OF assms(1,5)] assms(2,3) nl by (auto simp: list_all_iff)
  have active: "filter (\<lambda>n. nd_status n = ''in_progress'') (state_leaves (cst_root t)) = [?S l]"
    unfolding leaves using idle st(1) by (auto simp: list_all_iff filter_empty_conv)
  have contract: "assertAttemptContractForLeaf D (?S l) a = Inr ()"
  proof -
    have "contractForNode D (?S l) = contractForNode D l" by (rule contractForNode_skel) (simp add: started_def)
    then show ?thesis using assms(12) by (simp only: assertAttemptContractForLeaf_def st(2))
  qed
  have ancestors: "\<not> list_ex (\<lambda>i. case findNodeInRoot (cst_root t) i of None \<Rightarrow> True | Some n \<Rightarrow> nd_status n \<noteq> ''in_progress'') (butlast p)"
  proof -
    have "(case findNodeInRoot (cst_root t) i of None \<Rightarrow> True | Some n \<Rightarrow> nd_status n \<noteq> ''in_progress'') = False" if "i \<in> set p" for i
    proof -
      obtain n where n: "n \<in> set (collectNodes (cst_root s))" "nd_id n = i" using path_toD(2) [OF assms(6)] \<open>i \<in> set p\<close> by auto
      have "?S n \<in> set (collectNodes (cst_root t))" using n(1) assms(14) by (simp add: started_def tmap_collect)
      moreover have "distinct (ids (cst_root t))" using dis assms(14) by (simp add: started_def tmap_collect comp_def)
      ultimately have "findNodeInRoot (cst_root t) i = Some (?S n)" using lookup [of "cst_root t" "?S n"] n(2) by (simp add: started_def)
      then show ?thesis using nd(2) [OF n(1)] path_toD(3) [OF assms(6) n(1)] n(2) that by simp
    qed
    then show ?thesis unfolding list_ex_iff by (meson in_set_butlastD)
  qed
  have leaf: "nd_steps (?S l) = []" "nd_attemptSequence (?S l) = cat_sequence a" using l(2) nd(4) [OF l(1)] assms(10) by (simp_all add: started_def leaf_node_def)
  have fields: "cst_current t = Some p" "cst_attempt t = Some a" "cst_lifecycle t \<noteq> ''finalized''" "nodeAtPath (cst_root t) p = Inr (?S l)"
    using assms(9,13,14) by simp_all
  show ?thesis
    unfolding assertDefinitionExecutionCurrent_def Let_def fields(1,2) frontier bindE.simps option.case fields(4)
    using fields(3) leaf st assms(11) contract active ancestors by simp
qed

lemma start_alike:
  assumes "wf_state D s" "l \<in> set (collectNodes (cst_root s))" "leaf_node l" "nd_status l = ''pending''" "path_to (cst_root s) l p"
    "same_run s t" "cst_root t = started p (nd_id l) k (cst_root s)"
  shows "alike s t"
proof (rule alike_tmap [OF assms(6) assms(7) [unfolded started_def]])
  fix n assume n: "n \<in> set (collectNodes (cst_root s))"
  note nd = started_node [OF assms(1-3) n assms(5), of k]
  have "started p (nd_id l) k n = n \<or> inert n \<and> inert (started p (nd_id l) k n)"
  proof (cases "nd_id l \<in> set (ids n)")
    case True
    show ?thesis
    proof (cases "leaf_node n")
      case leaf: True
      then have "n = l" using True leaf_ids [OF leaf] same_node [OF wf_stateD(1) [OF assms(1)] n assms(2)] by simp
      moreover have "nd_result l = None"
        by (rule pending_unsettled [OF wf_stateD(6) [OF assms(1,2)] assms(3,4)])
      ultimately show ?thesis using inert_unsettled nd(4) by simp
    next
      case False
      then show ?thesis using inert_branch branch_not_skipped [OF assms(1) n] nd(2) [OF True] by (simp add: started_def)
    qed
  qed (use nd(1) in simp)
  then show "tmap (\<lambda>i x. if i \<in> set p then entered (nd_id l) k i x else x) n = n \<or>
      inert n \<and> inert (tmap (\<lambda>i x. if i \<in> set p then entered (nd_id l) k i x else x) n)" by (simp add: started_def)
qed

lemma next_leaf:
  assumes "wf_state D s" "cst_current s = None" "nextExecutableLeaf D (cst_root s) = Inr (Some l)"
  obtains pre post where "state_leaves (cst_root s) = pre @ l # post" "list_all terminal pre"
proof -
  have f: "find (\<lambda>n. nd_status n \<in> set EXECUTABLE_NODE_STATUSES) (state_leaves (cst_root s)) = Some l"
    using assms(3) by (auto simp: nextExecutableLeaf_def orderedLeaves_def)
  from idle_shape [OF assms(1,2)] show ?thesis
  proof
    assume "list_all terminal (state_leaves (cst_root s))"
    moreover have "l \<in> set (state_leaves (cst_root s))" "nd_status l \<in> set EXECUTABLE_NODE_STATUSES" using f by (auto simp: find_Some_iff)
    ultimately show ?thesis by (auto simp: list_all_iff terminal_def terminal_cases executable_cases)
  next
    assume "\<exists>pre f post. state_leaves (cst_root s) = pre @ f # post \<and> list_all terminal pre \<and> nd_status f \<in> set EXECUTABLE_NODE_STATUSES
       \<and> list_all (\<lambda>l. nd_status l \<noteq> ''in_progress'') (state_leaves (cst_root s))"
    then obtain pre f' post where x: "state_leaves (cst_root s) = pre @ f' # post" "list_all terminal pre" "nd_status f' \<in> set EXECUTABLE_NODE_STATUSES"
      by blast
    have "find (\<lambda>n. nd_status n \<in> set EXECUTABLE_NODE_STATUSES) pre = None"
      using x(2) by (auto simp: find_None_iff list_all_iff terminal_def terminal_cases executable_cases)
    then have "l = f'" using f x by (simp add: find_append)
    then show ?thesis using that x by blast
  qed
qed

lemma start_ok:
  assumes "wf_state D s" "cst_current s = None" "cst_lifecycle s = ''active''" "nextExecutableLeaf D (cst_root s) = Inr (Some l)"
    "nd_status l = ''pending''" "assertInitialAttempt D l a = Inr ()"
  obtains p where "path_to (cst_root s) l p" "last p = nd_id l" "findPathInRoot (nd_id l) [] (cst_root s) = Some p"
    "startAttempt D s p a = Inr (s\<lparr>cst_root := started p (nd_id l) (cat_sequence a) (cst_root s), cst_current := Some p, cst_attempt := Some a\<rparr>)"
    "wf_state D (s\<lparr>cst_root := started p (nd_id l) (cat_sequence a) (cst_root s), cst_current := Some p, cst_attempt := Some a\<rparr>)"
proof -
  obtain pre post where split: "state_leaves (cst_root s) = pre @ l # post" "list_all terminal pre" by (rule next_leaf [OF assms(1,2,4)])
  have l: "l \<in> set (collectNodes (cst_root s))" "leaf_node l" using split(1) leaf_in [of l "cst_root s"] by auto
  have dis: "distinct (ids (cst_root s))" by (rule wf_stateD(1) [OF assms(1)])
  obtain p where p: "findPathInRoot (nd_id l) [] (cst_root s) = Some p" "p \<noteq> []" "nodeAtPath (cst_root s) p = Inr l" "last p = nd_id l"
    and path: "path_to (cst_root s) l p" by (rule path_at [OF dis l(1)])
  have a: "cat_nodeId a = nd_id l" "assertAttemptContractForLeaf D l a = Inr ()" "cat_sequence a = nd_attemptSequence l + 1"
    using assms(6) by (auto simp: assertInitialAttempt_def split: if_splits)
  let ?r = "started p (nd_id l) (cat_sequence a) (cst_root s)"
  define t where t: "t = s\<lparr>cst_root := ?r, cst_current := Some p, cst_attempt := Some a\<rparr>"
  have skel: "skel ?r = skel (cst_root s)" by (simp add: started_def)
  have alike: "alike s t" using start_alike [OF assms(1) l assms(5) path] t by (simp add: same_run_def)
  have at: "nodeAtPath ?r p = Inr (started p (nd_id l) (cat_sequence a) l)"
  proof -
    have m: "started p (nd_id l) (cat_sequence a) l \<in> set (collectNodes ?r)" using l(1) by (simp add: started_def tmap_collect)
    have d: "distinct (ids ?r)" using dis skel_ids [OF skel] by simp
    obtain q where "findPathInRoot (nd_id (started p (nd_id l) (cat_sequence a) l)) [] ?r = Some q" "nodeAtPath ?r q = Inr (started p (nd_id l) (cat_sequence a) l)"
      by (rule path_at [OF d m])
    then show ?thesis using p(1) skel_paths [OF skel] by (simp add: started_def)
  qed
  have exec: "assertDefinitionExecutionCurrent D t = Inr ()"
    by (rule start_execution [OF assms(1) split assms(5,2) path p(2,4) at refl a(1,2) assms(3) t alike])
  have trim: "js_trim (nd_id l) \<noteq> []" using wf_stateD(4) [OF assms(1) l(1)] by (auto simp: node_check_def cfs_text_ok split: if_splits)
  have wf: "wf_state D t"
  proof (rule wf_update [OF assms(1) alike _ _ _ _ exec])
    fix n assume "n \<in> set (collectNodes (cst_root t))"
    then show "node_check n = Inr () \<and> status_ok D n \<and> node_life (state_options D s) n"
      using start_nodes [OF assms(1) l assms(5) a(3) path, of n] t by simp
  next
    fix q assume "cst_current t = Some q"
    then show "findPathInRoot (last q) [] (cst_root t) = Some q \<and> js_trim (last q) \<noteq> []"
      using p(1,4) skel_paths [OF skel] trim t by simp
  qed (use t skel assms(3) in \<open>simp_all add: LIFECYCLE_STATES_def\<close>)
  have "startAttempt D s p a = activateAttempt D s p a [''pending''] ''startAttempt''"
    using assms(4,5) p(2,4) by (simp add: startAttempt_def)
  also have "\<dots> = replaceRoot D s ?r (Some p) (Some a)"
    using active_ok [OF assms(1,3,2)] assms(2,5,6) p(3) handler_ok(1) [OF assms(1) l(1)] l(2) activate_path [OF assms(1) l assms(5) path]
    by (simp add: activateAttempt_def leaf_node_def)
  also have "\<dots> = Inr t" unfolding t by (rule replaceRoot_ok [OF wf [unfolded t]])
  finally show ?thesis using that [OF path p(4,1)] wf t by simp
qed

end

end
