(* ===== verification/State_Completion.thy ===== *)
theory State_Completion
  imports State_Progress
begin

section \<open>Confirming Attempts\<close>

text \<open>
  Confirming the active leaf completes every branch whose children are all terminal.  When the leaves behind it are
  pending, the new state passes every check; repeated, this runs a Flow to its end.
\<close>

subsection \<open>Completing branches\<close>

lemma reconcile_steps: "reconcileCompletedSteps D ns = mapE (reconcileCompletedParents D) ns"
  by (induction ns) simp_all

lemma list_all2_concat: "list_all2 (list_all2 R) xss yss \<Longrightarrow> list_all2 R (concat xss) (concat yss)"
  by (induction rule: list_all2_induct) (auto intro: list_all2_appendI)

definition settled_node :: "flow_node \<Rightarrow> bool" where
  "settled_node n \<longleftrightarrow> (terminal n \<longrightarrow> nd_result n \<noteq> None) \<and> (terminal n \<or> nd_status n = ''pending'')"

definition open_branch :: "flow_node \<Rightarrow> bool" where
  "open_branch n \<longleftrightarrow>
     nd_status n = ''pending'' \<and> nd_result n = None \<and> list_all (\<lambda>c. nd_status c = ''pending'') (nd_steps n)
     \<or> nd_status n = ''done'' \<and> list_all terminal (nd_steps n)
     \<or> nd_status n = ''in_progress'' \<and> list_ex (\<lambda>c. nd_status c \<noteq> ''pending'') (nd_steps n)"

definition completable :: "CurrentFlowDefinition \<Rightarrow> flow_node \<Rightarrow> bool" where
  "completable D n \<longleftrightarrow> (if leaf_node n then settled_node n
     else open_branch n \<and> (\<exists>c. contractForNode D n = Inr c \<and> permits c ''in_progress'' ''done''))"

definition completed_node :: "flow_node \<Rightarrow> flow_node \<Rightarrow> bool" where
  "completed_node m m' \<longleftrightarrow> skel m = skel m' \<and> nd_attemptSequence m = nd_attemptSequence m' \<and>
     (if leaf_node m then m' = m else branch_check m' = Inr () \<and> nd_status m' \<in> {''pending'', ''done'', ''in_progress''})"

definition completion_of :: "flow_node \<Rightarrow> flow_node \<Rightarrow> bool" where
  "completion_of n n' \<longleftrightarrow> list_all2 completed_node (collectNodes n) (collectNodes n')
     \<and> (nd_status n' = nd_status n \<or> nd_status n = ''in_progress'' \<and> nd_status n' = ''done'') \<and> (terminal n' \<longrightarrow> nd_result n' \<noteq> None)"

lemma completion_result_some: "ns \<noteq> [] \<Longrightarrow> list_all (\<lambda>n. nd_result n \<noteq> None) ns \<Longrightarrow> completion_result ns \<noteq> None"
  by (cases ns rule: rev_cases) (auto simp: completion_result_def)

lemma terminal_statuses: "terminal n \<longleftrightarrow> nd_status n = ''done'' \<or> nd_status n = ''skipped'' \<or> nd_status n = ''failed''"
  by (simp add: terminal_def terminal_cases)

lemma list_all_terminal: "list_all (\<lambda>s. s \<in> set TERMINAL_NODE_STATUSES) (map nd_status ns) \<longleftrightarrow> list_all terminal ns"
  by (simp add: list_all_iff terminal_def)

lemma list_all_terminal_nodes: "list_all (\<lambda>n. nd_status n \<in> set TERMINAL_NODE_STATUSES) ns \<longleftrightarrow> list_all terminal ns"
  by (simp add: list_all_iff terminal_def)

lemma branch_done: "nd_status n = ''done'' \<Longrightarrow> list_all terminal (nd_steps n) \<Longrightarrow> completion_result (nd_steps n) \<noteq> None \<Longrightarrow>
    nd_result n = completion_result (nd_steps n) \<Longrightarrow> branch_check n = Inr ()"
  by (simp add: branch_check_def list_all_terminal)

lemma branch_pending: "nd_status n = ''pending'' \<Longrightarrow> nd_result n = None \<Longrightarrow> list_all (\<lambda>c. nd_status c = ''pending'') (nd_steps n) \<Longrightarrow> branch_check n = Inr ()"
  by (simp add: branch_check_def list_all_iff)

lemma branch_active: "nd_status n = ''in_progress'' \<Longrightarrow> \<not> list_all terminal (nd_steps n) \<Longrightarrow> list_ex (\<lambda>c. nd_status c \<noteq> ''pending'') (nd_steps n) \<Longrightarrow>
    branch_check n = Inr ()"
  unfolding branch_check_def Let_def list_all_terminal by (simp add: list_ex_iff)

lemma completion_children:
  assumes "\<And>c. c \<in> set ss \<Longrightarrow> completion_of c (f c)" "nd_steps n = ss" "nd_steps n' = map f ss" "\<not> leaf_node n"
    "nd_kind n' = nd_kind n" "nd_id n' = nd_id n" "nd_key n' = nd_key n" "nd_attemptSequence n' = nd_attemptSequence n"
    "branch_check n' = Inr ()" "nd_status n' \<in> {''pending'', ''done'', ''in_progress''}"
  shows "list_all2 completed_node (collectNodes n) (collectNodes n')"
proof -
  have "list_all2 (list_all2 completed_node) (map collectNodes ss) (map (collectNodes \<circ> f) ss)"
    using assms(1) by (induction ss) (auto simp: completion_of_def)
  then have sub: "list_all2 completed_node (concat (map collectNodes (nd_steps n))) (concat (map collectNodes (nd_steps n')))"
    using assms(2,3) list_all2_concat by (simp add: comp_def)
  have "skel (f c) = skel c" if "c \<in> set ss" for c
    using assms(1) [OF that] collect_unfold [of c] collect_unfold [of "f c"] by (auto simp: completion_of_def completed_node_def)
  then have "map skel (map f ss) = map skel ss" by simp
  then have "skel n = skel n'" using assms(2,3,5-7) by (cases n; cases n') auto
  then have "completed_node n n'" using assms(4,8-10) by (simp add: completed_node_def)
  then show ?thesis using sub collect_unfold [of n] collect_unfold [of n'] by simp
qed

lemma reconcile_completes:
  "(\<forall>m \<in> set (collectNodes n). completable D m) \<Longrightarrow> \<exists>n'. reconcileCompletedParents D n = Inr n' \<and> completion_of n n'"
proof (induction n)
  case (FNode k i y s r a ss)
  let ?n = "FNode k i y s r a ss"
  have self: "completable D ?n" using FNode.prems by simp
  show ?case
  proof (cases "ss = []")
    case True
    then show ?thesis using self by (auto simp: completion_of_def completed_node_def completable_def settled_node_def leaf_node_def)
  next
    case False
    define f where "f c = projr (reconcileCompletedParents D c)" for c
    have child: "reconcileCompletedParents D c = Inr (f c)" "completion_of c (f c)" if c: "c \<in> set ss" for c
      using FNode.IH [OF c] FNode.prems c by (auto simp: f_def)
    then have steps: "reconcileCompletedSteps D ss = Inr (map f ss)" unfolding reconcile_steps by (intro mapE_Inr_map) simp
    have st: "nd_status (f c) = nd_status c \<or> nd_status c = ''in_progress'' \<and> nd_status (f c) = ''done''" if "c \<in> set ss" for c
      using child(2) [OF that] by (simp add: completion_of_def)
    have branch: "open_branch ?n" "\<exists>c. contractForNode D ?n = Inr c \<and> permits c ''in_progress'' ''done''"
      using self False by (simp_all add: completable_def leaf_node_def)
    have some_child: "\<exists>c. c \<in> set ss" using False by (cases ss) auto
    have pend: "list_all (\<lambda>c. nd_status c = ''pending'') (map f ss)" if "s = ''pending''"
      using branch(1) that st by (fastforce simp: open_branch_def list_all_iff)
    have don: "list_all terminal (map f ss)" if "s = ''done''"
      using branch(1) that st by (fastforce simp: open_branch_def list_all_iff terminal_statuses)
    have act: "list_ex (\<lambda>c. nd_status c \<noteq> ''pending'') (map f ss)" if run: "s = ''in_progress''"
    proof -
      obtain c where c: "c \<in> set ss" "nd_status c \<noteq> ''pending''" using branch(1) run by (auto simp: open_branch_def list_ex_iff)
      then have "nd_status (f c) \<noteq> ''pending''" using st [OF c(1)] by auto
      then show ?thesis using c(1) by (auto simp: list_ex_iff)
    qed
    have cases: "s = ''pending'' \<or> s = ''done'' \<or> s = ''in_progress''" using branch(1) by (auto simp: open_branch_def)
    note close = completion_children [OF child(2), of ss ?n]
    consider (all) "list_all terminal (map f ss)" | (some) "\<not> list_all terminal (map f ss)" by blast
    then show ?thesis
    proof cases
      case all
      then have "s \<noteq> ''pending''" using pend some_child by (auto simp: list_all_iff terminal_statuses)
      then have s: "s = ''done'' \<or> s = ''in_progress''" using cases by blast
      let ?m = "FNode k i y ''done'' (completion_result (map f ss)) a (map f ss)"
      have comp: "completion_result (map f ss) \<noteq> None"
        using all child(2) False by (intro completion_result_some) (auto simp: list_all_iff completion_of_def)
      have "reconcileCompletedParents D ?n = Inr ?m"
        using s branch(2) steps all False by (auto simp: transitionNode_def with_node_def list_all_iff terminal_def)
      moreover have "branch_check ?m = Inr ()" using all comp by (intro branch_done) simp_all
      moreover have "list_all2 completed_node (collectNodes ?n) (collectNodes ?m)"
        by (rule completion_children [OF child(2)]) (use False calculation(2) in \<open>simp_all add: leaf_node_def\<close>)
      ultimately show ?thesis using s comp by (auto simp: completion_of_def simp del: collectNodes.simps)
    next
      case some
      then have nd: "s \<noteq> ''done''" using don by blast
      let ?m = "FNode k i y s r a (map f ss)"
      have rec: "reconcileCompletedParents D ?n = Inr ?m"
      proof (cases "list_ex (\<lambda>n. nd_status n = ''in_progress'') (map f ss)")
        case True
        then have "s = ''in_progress''" using cases nd pend by (auto simp: list_all_iff list_ex_iff)
        then show ?thesis using steps some False True by (simp add: transitionNode_def with_node_def list_all_terminal_nodes)
      next
        case False
        then show ?thesis using steps some \<open>ss \<noteq> []\<close> by (simp add: list_all_terminal_nodes)
      qed
      have "branch_check ?m = Inr ()"
      proof (cases "s = ''pending''")
        case True
        then show ?thesis using pend branch(1) by (intro branch_pending) (auto simp: open_branch_def)
      next
        case False
        then show ?thesis using cases nd some act by (intro branch_active) auto
      qed
      moreover have "list_all2 completed_node (collectNodes ?n) (collectNodes ?m)"
        by (rule completion_children [OF child(2)]) (use False calculation cases in \<open>simp_all add: leaf_node_def\<close>)
      ultimately show ?thesis using rec cases nd by (auto simp: completion_of_def terminal_statuses simp del: collectNodes.simps)
    qed
  qed
qed

subsection \<open>Settling the active leaf\<close>

lemma terminal_leaf_result:
  assumes "node_life (state_options D s) n" "leaf_node n" "terminal n"
  shows "nd_result n \<noteq> None"
proof -
  have ok: "assertLeafLifecycle (state_options D s) n = Inr ()" using assms(1,2) by (simp add: node_life_def)
  have "lop_routeCompletion (state_options D s) n \<Longrightarrow> nd_result n \<noteq> None"
    by (auto simp: state_options_def allowsUnexecutedRouteCompletion_def split: option.splits)
  then show ?thesis using ok assms(3)
    by (auto simp: assertLeafLifecycle_def terminal_statuses outcome_is_def unexecuted_test_skip_def split: if_splits option.splits)
qed

lemma no_invalidated:
  "(\<forall>m \<in> set (collectNodes n). if leaf_node m then nd_status m \<noteq> ''invalidated'' else branch_check m = Inr ()) \<Longrightarrow> nd_status n \<noteq> ''invalidated''"
proof (induction n)
  case (FNode k i y s r a ss)
  have kids: "nd_status c \<noteq> ''invalidated''" if "c \<in> set ss" for c using FNode.IH [OF that] FNode.prems that by auto
  have self: "if leaf_node (FNode k i y s r a ss) then s \<noteq> ''invalidated'' else branch_check (FNode k i y s r a ss) = Inr ()"
    using FNode.prems by (auto simp: leaf_node_def)
  show ?case
  proof (cases "ss = []")
    case True
    then show ?thesis using self by (simp add: leaf_node_def)
  next
    case False
    then have "branch_check (FNode k i y s r a ss) = Inr ()" using self by (simp add: leaf_node_def)
    moreover have "''invalidated'' \<notin> set (map nd_status ss)"
    proof
      assume "''invalidated'' \<in> set (map nd_status ss)"
      then obtain c where "c \<in> set ss" "''invalidated'' = nd_status c" by auto
      then show False using kids [of c] by simp
    qed
    ultimately show ?thesis by (auto simp: branch_check_def Let_def split: if_splits)
  qed
qed

lemma open_branch_checked: "branch_check n = Inr () \<Longrightarrow> nd_status n \<noteq> ''skipped'' \<Longrightarrow> nd_status n \<noteq> ''invalidated'' \<Longrightarrow> open_branch n"
  by (auto simp: branch_check_def open_branch_def Let_def terminal_def list_all_iff list_ex_iff split: if_splits)

definition plain_result :: "NodeResult \<Rightarrow> bool" where
  "plain_result r \<longleftrightarrow> nrs_outcome r = ''passed'' \<and> nrs_stepResult r = None \<and> nrs_receipt r = None
     \<and> \<not> list_ex (\<lambda>ref. arf_kind ref = ''source-step-settlement'') (nrs_artifactRefs r)"

text \<open>A state whose leaves are terminal up to the active leaf and pending behind it.\<close>

definition running_at :: "CurrentFlowState \<Rightarrow> flow_node list \<Rightarrow> flow_node \<Rightarrow> flow_node list \<Rightarrow> CurrentAttempt \<Rightarrow> bool" where
  "running_at s pre l post a \<longleftrightarrow> state_leaves (cst_root s) = pre @ l # post \<and> list_all terminal pre \<and> nd_status l = ''in_progress''
     \<and> list_all (\<lambda>m. nd_status m = ''pending'') post \<and> cst_attempt s = Some a \<and> map_option last (cst_current s) = Some (nd_id l)
     \<and> 0 < nd_attemptSequence l \<and> cat_failure a = None \<and> cat_blocker a = None \<and> cat_incomplete a = [] \<and> cst_lifecycle s = ''active''"

definition settled :: "flow_node \<Rightarrow> NodeResult \<Rightarrow> flow_node \<Rightarrow> flow_node" where
  "settled l r = tmap (put_progress (nd_id l) (''done'', Some r, nd_attemptSequence l))"

context definition_laws
begin

lemma settled_completable:
  assumes "wf_state D s" "running_at s pre l post a" "m \<in> set (collectNodes (settled l r (cst_root s)))"
  shows "completable D m"
proof -
  obtain n where n: "n \<in> set (collectNodes (cst_root s))" "m = settled l r n" using assms(3) by (auto simp: settled_def tmap_collect)
  have run: "state_leaves (cst_root s) = pre @ l # post" "list_all terminal pre" "nd_status l = ''in_progress''" "list_all (\<lambda>m. nd_status m = ''pending'') post"
    using assms(2) by (auto simp: running_at_def)
  have l: "l \<in> set (collectNodes (cst_root s))" "leaf_node l" using run(1) leaf_in [of l "cst_root s"] by auto
  have eq: "x = l" if "x \<in> set (collectNodes (cst_root s))" "nd_id x = nd_id l" for x
    using same_node [OF wf_stateD(1) [OF assms(1)] that(1) l(1) that(2)] .
  have status: "nd_status (settled l r x) = (if x = l then ''done'' else nd_status x)" "x \<noteq> l \<Longrightarrow> nd_result (settled l r x) = nd_result x"
    "x = l \<Longrightarrow> nd_result (settled l r x) = Some r" if x: "x \<in> set (collectNodes (cst_root s))" for x
  proof -
    have "progress_of (settled l r x) = (if x = l then (''done'', Some r, nd_attemptSequence l) else progress_of x)"
      using eq [OF x] by (auto simp: settled_def put_progress_def)
    then show "nd_status (settled l r x) = (if x = l then ''done'' else nd_status x)" "x \<noteq> l \<Longrightarrow> nd_result (settled l r x) = nd_result x"
      "x = l \<Longrightarrow> nd_result (settled l r x) = Some r" by (auto simp: progress_of_def split: if_splits)
  qed
  have leafm: "leaf_node m = leaf_node n" using n(2) by (simp add: settled_def)
  show ?thesis
  proof (cases "leaf_node n")
    case True
    then have "n \<in> set (pre @ l # post)" using n(1) run(1) leaf_in [of n "cst_root s"] by simp
    then have "n = l \<or> terminal n \<or> nd_status n = ''pending''" using run(2,4) by (auto simp: list_all_iff)
    moreover have "terminal n \<Longrightarrow> nd_result n \<noteq> None" using terminal_leaf_result [OF wf_stateD(6) [OF assms(1) n(1)] True] .
    ultimately show ?thesis using True leafm status [OF n(1)] n(2) unfolding completable_def settled_node_def terminal_statuses
      by (cases "n = l") auto
  next
    case False
    have ok: "branch_check n = Inr ()" using wf_stateD(6) [OF assms(1) n(1)] False by (simp add: node_life_def)
    have "if leaf_node x then nd_status x \<noteq> ''invalidated'' else branch_check x = Inr ()" if "x \<in> set (collectNodes n)" for x
    proof -
      have xr: "x \<in> set (collectNodes (cst_root s))" by (rule collect_trans [OF n(1) that])
      show ?thesis
      proof (cases "leaf_node x")
        case True
        then have "x \<in> set (pre @ l # post)" using xr run(1) leaf_in [of x "cst_root s"] by simp
        then show ?thesis using True run(2-4) by (auto simp: list_all_iff terminal_statuses)
      qed (use wf_stateD(6) [OF assms(1) xr] in \<open>simp add: node_life_def\<close>)
    qed
    then have op: "open_branch n" using no_invalidated open_branch_checked [OF ok branch_not_skipped [OF assms(1) n(1) False]] by blast
    have kid: "nd_status (settled l r c) = (if c = l then ''done'' else nd_status c)" if "c \<in> set (nd_steps n)" for c
      by (rule status(1)) (rule collect_trans [OF n(1) child_collect [OF that]])
    have "n \<noteq> l" using False l(2) by auto
    then have st: "nd_status m = nd_status n" "nd_result m = nd_result n" using status [OF n(1)] n(2) by simp_all
    have steps: "nd_steps m = map (settled l r) (nd_steps n)" using n(2) by (simp add: settled_def)
    have "open_branch m"
    proof -
      consider (pend) "nd_status n = ''pending''" "nd_result n = None" "list_all (\<lambda>c. nd_status c = ''pending'') (nd_steps n)"
        | (fin) "nd_status n = ''done''" "list_all terminal (nd_steps n)"
        | (run) "nd_status n = ''in_progress''" "list_ex (\<lambda>c. nd_status c \<noteq> ''pending'') (nd_steps n)"
        using op unfolding open_branch_def by (elim disjE conjE) simp_all
      then show ?thesis
      proof cases
        case pend
        then have "l \<notin> set (nd_steps n)" using run(3) by (auto simp: list_all_iff)
        then show ?thesis using pend kid st steps by (auto simp: open_branch_def list_all_iff)
      next
        case fin
        then have "l \<notin> set (nd_steps n)" using run(3) by (auto simp: list_all_iff terminal_statuses)
        then show ?thesis using fin kid st steps by (auto simp: open_branch_def list_all_iff terminal_statuses)
      next
        case run
        then obtain c where "c \<in> set (nd_steps n)" "nd_status c \<noteq> ''pending''" by (auto simp: list_ex_iff)
        then have "nd_status (settled l r c) \<noteq> ''pending''" using kid [of c] by simp
        then have "list_ex (\<lambda>c. nd_status c \<noteq> ''pending'') (nd_steps m)" using \<open>c \<in> set (nd_steps n)\<close> unfolding steps by (auto simp: list_ex_iff)
        then show ?thesis using run(1) st by (simp add: open_branch_def)
      qed
    qed
    moreover obtain d where d: "contractForNode D n = Inr (dn_contract d)" "d \<in> set (all_nodes D)" by (rule node_definition [OF assms(1) n(1)])
    moreover have "contractForNode D m = contractForNode D n" using n(2) by (intro contractForNode_skel) (simp add: settled_def)
    ultimately show ?thesis using False leafm finishable [OF d(2)] by (simp add: completable_def)
  qed
qed

lemma settled_root:
  assumes "wf_state D s" "running_at s pre l post a"
  obtains root where "settle_leaf D s (nd_id l) ''done'' r = Inr root" "completion_of (settled l r (cst_root s)) root"
proof -
  have run: "state_leaves (cst_root s) = pre @ l # post" "nd_status l = ''in_progress''" using assms(2) by (auto simp: running_at_def)
  have l: "l \<in> set (collectNodes (cst_root s))" "leaf_node l" using run(1) leaf_in [of l "cst_root s"] by auto
  obtain d where d: "contractForNode D l = Inr (dn_contract d)" "d \<in> set (all_nodes D)" by (rule node_definition [OF assms(1) l(1)])
  have "transitionNode D ''done'' (Some r) (nd_attemptSequence l) (nd_steps l) l = Inr (with_node l ''done'' (Some r) (nd_attemptSequence l) (nd_steps l))"
    using d(1) finishable [OF d(2)] run(2) by (simp add: transitionNode_def)
  then have up: "update_node (cst_root s) (nd_id l) (\<lambda>n. transitionNode D ''done'' (Some r) (nd_attemptSequence n) (nd_steps n) n) = Inr (settled l r (cst_root s))"
    using update_node_tmap [OF wf_stateD(1) [OF assms(1)] l(1)] by (simp add: settled_def)
  have "\<forall>m \<in> set (collectNodes (settled l r (cst_root s))). completable D m" using settled_completable [OF assms] by blast
  from reconcile_completes [OF this] obtain root where "reconcileCompletedParents D (settled l r (cst_root s)) = Inr root"
    "completion_of (settled l r (cst_root s)) root" by blast
  then show ?thesis using that up by (simp add: settle_leaf_def)
qed

lemma completion_leaves: "list_all2 completed_node ns ms \<Longrightarrow> filter leaf_node ns = filter leaf_node ms"
proof (induction rule: list_all2_induct)
  case (Cons x xs y ys)
  have "leaf_node x = leaf_node y" using Cons(1) skel_same [of x y] by (simp add: completed_node_def)
  moreover have "leaf_node x \<Longrightarrow> y = x" using Cons(1) by (simp add: completed_node_def)
  ultimately show ?case using Cons.IH by (cases "leaf_node x") simp_all
qed simp

lemma completion_skel: "completion_of n n' \<Longrightarrow> skel n' = skel n"
  using collect_unfold [of n] collect_unfold [of n'] by (auto simp: completion_of_def completed_node_def)

lemma list_all2_left: "list_all2 P xs ys \<Longrightarrow> y \<in> set ys \<Longrightarrow> \<exists>x \<in> set xs. P x y"
  by (induction rule: list_all2_induct) auto

lemma done_leaf_ok:
  "nd_status n = ''done'' \<Longrightarrow> nd_result n = Some r \<Longrightarrow> plain_result r \<Longrightarrow> 0 < nd_attemptSequence n \<Longrightarrow> \<not> lop_requirementTestSkip opts n \<Longrightarrow>
    \<not> lop_routeCompletion opts n \<Longrightarrow> assertLeafLifecycle opts n = Inr ()"
  by (simp add: assertLeafLifecycle_def acceptedStepDecision_def has_completion_reference_def plain_result_def outcome_is_def)

lemma settled_active:
  assumes "wf_state D s" "running_at s pre l post a" "n \<in> set (collectNodes (cst_root s))"
  shows "l \<in> set (collectNodes (cst_root s))" "leaf_node l" "n \<noteq> l \<Longrightarrow> progress_of (settled l r n) = progress_of n" "n \<noteq> l \<Longrightarrow> leaf_node n \<Longrightarrow> settled l r n = n"
    "nd_status (settled l r l) = ''done''" "nd_result (settled l r l) = Some r" "nd_attemptSequence (settled l r l) = nd_attemptSequence l"
proof -
  show l: "l \<in> set (collectNodes (cst_root s))" "leaf_node l" using assms(2) leaf_in [of l "cst_root s"] by (auto simp: running_at_def)
  have id: "n \<noteq> l \<Longrightarrow> nd_id n \<noteq> nd_id l" using same_node [OF wf_stateD(1) [OF assms(1)] assms(3) l(1)] by auto
  show "progress_of (settled l r n) = progress_of n" if "n \<noteq> l" using id [OF that] by (simp add: settled_def)
  show "settled l r n = n" if "n \<noteq> l" "leaf_node n"
    unfolding settled_def using id [OF that(1)] by (intro tmap_unchanged) (metis leaf_collect [OF that(2)] put_progress_simps(2))
  show "nd_status (settled l r l) = ''done''" "nd_result (settled l r l) = Some r" "nd_attemptSequence (settled l r l) = nd_attemptSequence l"
    using tmap_fields(6) [of "put_progress (nd_id l) (''done'', Some r, nd_attemptSequence l)" l] by (auto simp: settled_def progress_of_def)
qed

lemma confirmed_alike:
  assumes "wf_state D s" "running_at s pre l post a" "plain_result r" "n \<in> set (collectNodes (cst_root s))" "completed_node (settled l r n) m"
  shows "settled_alike n m"
proof -
  note act = settled_active [OF assms(1,2,4)]
  have skel: "skel n = skel m" using assms(5) by (simp add: completed_node_def settled_def)
  have leaf: "leaf_node (settled l r n) = leaf_node n" by (simp add: settled_def)
  show ?thesis
  proof (cases "leaf_node n")
    case True
    then have m: "m = settled l r n" using assms(5) leaf by (simp add: completed_node_def)
    show ?thesis
    proof (cases "n = l")
      case nl: True
      have "inert l" using assms(2) by (simp add: inert_def unexecuted_test_skip_def running_at_def)
      moreover have "inert (settled l r l)" using act(5,6) assms(3) by (simp add: inert_def unexecuted_test_skip_def settled_by_def plain_result_def)
      ultimately show ?thesis using m nl by (simp add: settled_alike_def settled_def)
    qed (use m True act(4) in \<open>simp add: settled_alike_def\<close>)
  next
    case False
    then have "nd_status m \<in> {''pending'', ''done'', ''in_progress''}" using assms(5) leaf by (simp add: completed_node_def)
    moreover have "\<not> leaf_node m" using skel_same [OF skel] False by simp
    ultimately have "inert n" "inert m" using inert_branch branch_not_skipped [OF assms(1,4) False] False by auto
    then show ?thesis using skel by (simp add: settled_alike_def)
  qed
qed

lemma not_test_skip:
  assumes "wf_state D s" "n \<in> set (collectNodes (cst_root s))" "\<not> unexecuted_test_skip n" "nd_id m = nd_id n"
  shows "\<not> lop_requirementTestSkip (state_options D s) m"
proof
  assume "lop_requirementTestSkip (state_options D s) m"
  then have i: "nd_id n \<in> set REQUIREMENT_TEST_LEAF_IDS" "noTestableRequirementSkips s" using assms(4) by (simp_all add: state_options_def)
  have "findNodeInRoot (cst_root s) (nd_id n) = Some n" by (rule lookup [OF wf_stateD(1) [OF assms(1)] assms(2)])
  then show False using i assms(3) unfolding noTestableRequirementSkips_def list_all_iff by fastforce
qed

lemma confirmed_node:
  assumes "wf_state D s" "running_at s pre l post a" "plain_result r" "n \<in> set (collectNodes (cst_root s))" "completed_node (settled l r n) m"
  shows "node_check m = Inr () \<and> status_ok D m \<and> node_life (state_options D s) m"
proof -
  note act = settled_active [OF assms(1,2,4)]
  have old: "node_check n = Inr ()" "status_ok D n" "node_life (state_options D s) n" using wf_stateD(4-6) [OF assms(1,4)] by auto
  have skel: "skel n = skel m" using assms(5) by (simp add: completed_node_def settled_def)
  have same: "nd_kind m = nd_kind n" "nd_id m = nd_id n" "nd_key m = nd_key n" "leaf_node m = leaf_node n" using skel_same [OF skel] by auto
  have leaf: "leaf_node (settled l r n) = leaf_node n" by (simp add: settled_def)
  obtain d where d: "contractForNode D n = Inr (dn_contract d)" "d \<in> set (all_nodes D)" by (rule node_definition [OF assms(1,4)])
  have contract: "contractForNode D m = Inr (dn_contract d)" using contractForNode_skel [OF skel] d(1) by simp
  have permitted: "permitsStatus (dn_contract d) x" if "x \<in> {''pending'', ''done'', ''in_progress''}" for x
    using that permits_status [OF finishable [OF d(2)]] permits_status [OF enterable [OF d(2), of "''pending''"]]
    by (auto simp: CANONICAL_NODE_STATUSES_def) (simp add: permitsStatus_def CANONICAL_NODE_STATUSES_def)
  show ?thesis
  proof (cases "leaf_node n \<and> n \<noteq> l")
    case True
    then have "m = n" using assms(5) leaf act(4) by (simp add: completed_node_def)
    then show ?thesis using old by simp
  next
    case False
    have st: "nd_status m \<in> {''pending'', ''done'', ''in_progress''}" and seq: "nd_attemptSequence m = nd_attemptSequence n"
    proof -
      show "nd_status m \<in> {''pending'', ''done'', ''in_progress''}"
        using assms(5) leaf False act(5) by (cases "leaf_node n") (auto simp: completed_node_def)
      have "nd_attemptSequence (settled l r n) = nd_attemptSequence n" using act(3,7) by (cases "n = l") (auto simp: progress_of_def)
      then show "nd_attemptSequence m = nd_attemptSequence n" using assms(5) by (simp add: completed_node_def)
    qed
    have "node_check m = Inr ()" using old(1) st seq same by (auto simp: node_check_def CANONICAL_NODE_STATUSES_def split: if_splits)
    moreover have "status_ok D m" using contract permitted [OF st] by (simp add: status_ok_def)
    moreover have "node_life (state_options D s) m"
    proof (cases "leaf_node n")
      case True
      then have nl: "n = l" and m: "m = settled l r l" using False assms(5) leaf by (auto simp: completed_node_def)
      have "\<not> unexecuted_test_skip n" using assms(2) nl by (simp add: unexecuted_test_skip_def running_at_def)
      from not_test_skip [OF assms(1,4) this same(2)] have "\<not> lop_requirementTestSkip (state_options D s) m" .
      moreover have "\<not> lop_routeCompletion (state_options D s) m" using route_completion_skipped [of D s m] act(5) m by auto
      moreover have "0 < nd_attemptSequence m" using assms(2) m act(7) by (simp add: running_at_def)
      ultimately have "assertLeafLifecycle (state_options D s) m = Inr ()" using done_leaf_ok assms(3) act(5,6) m by simp
      then show ?thesis using True same(4) by (simp add: node_life_def)
    next
      case branch: False
      then show ?thesis using assms(5) leaf same(4) seq old(3) by (simp add: node_life_def completed_node_def)
    qed
    ultimately show ?thesis by blast
  qed
qed

lemma pending_suffix_frontier:
  assumes "list_all terminal pre" "list_all (\<lambda>m. nd_status m = ''pending'') post"
  shows "assertExecutionFrontier (pre @ post) None nodes ret tail = Inr ()"
proof (cases post)
  case Nil
  then show ?thesis using frontier_prefix [OF assms(1), of False nodes ret tail "[]"] by (simp add: assertExecutionFrontier_def no_frontier_def)
next
  case (Cons f ps)
  then have f: "nd_status f = ''pending''" "\<not> terminal f" using assms(2) by (auto simp: terminal_statuses)
  have "pending_suffix f (at_frontier f)" using f(1) by (simp add: pending_suffix_def at_frontier_def)
  moreover have "\<forall>m \<in> set ps. nd_status m = ''pending'' \<or> terminal m \<and> ret m f" using assms(2) Cons by (simp add: list_all_iff)
  ultimately obtain st where st: "frontier_loop (frontier_leaf False nodes ret tail) ps (at_frontier f) = Inr st" "frs_frontier st = Some f"
    using pending_loop_ok by blast
  show ?thesis
    unfolding assertExecutionFrontier_def option.case Cons frontier_prefix [OF assms(1)] frontier_first [OF f(2)] st(1) bindE.simps st(2)
    using f(1) by simp
qed

lemma confirmed_wf:
  assumes "wf_state D s" "running_at s pre l post a" "plain_result r" "completion_of (settled l r (cst_root s)) root"
    "t = s\<lparr>cst_root := root, cst_current := None, cst_attempt := None\<rparr>"
  shows "wf_state D t \<and> state_leaves root = pre @ settled l r l # post \<and> terminal (settled l r l)"
proof -
  let ?r1 = "settled l r (cst_root s)"
  have run: "state_leaves (cst_root s) = pre @ l # post" "list_all terminal pre" "nd_status l = ''in_progress''"
    "list_all (\<lambda>m. nd_status m = ''pending'') post" "0 < nd_attemptSequence l" "cst_lifecycle s = ''active''"
    using assms(2) by (auto simp: running_at_def)
  have l: "l \<in> set (collectNodes (cst_root s))" "leaf_node l" using run(1) leaf_in [of l "cst_root s"] by auto
  have dis: "distinct (ids (cst_root s))" by (rule wf_stateD(1) [OF assms(1)])
  have other: "settled l r x = x" if "x \<in> set (state_leaves (cst_root s))" "x \<noteq> l" for x
  proof -
    have x: "x \<in> set (collectNodes (cst_root s))" "leaf_node x" using that(1) leaf_in by auto
    then have "nd_id x \<noteq> nd_id l" using same_node [OF dis x(1) l(1)] that(2) by auto
    then show ?thesis unfolding settled_def by (intro tmap_unchanged) (metis leaf_collect [OF x(2)] put_progress_simps(2))
  qed
  have lf: "nd_status (settled l r l) = ''done''" "nd_result (settled l r l) = Some r" "nd_attemptSequence (settled l r l) = nd_attemptSequence l"
    using tmap_fields(6) [of "put_progress (nd_id l) (''done'', Some r, nd_attemptSequence l)" l] by (auto simp: settled_def progress_of_def)
  have fin: "terminal (settled l r l)" using lf(1) by (simp add: terminal_statuses)
  have dl: "distinct (map nd_id (pre @ l # post))" unfolding run(1) [symmetric] state_leaves_def using dis by (simp add: distinct_map_filter)
  then have "l \<notin> set pre" "l \<notin> set post" by auto
  then have "state_leaves ?r1 = pre @ settled l r l # post"
    using run(1) other by (simp add: settled_def tmap_leaves) (auto intro!: map_idI simp: settled_def [symmetric])
  then have leaves: "state_leaves root = pre @ settled l r l # post"
    using assms(4) completion_leaves [of "collectNodes ?r1" "collectNodes root"] by (simp add: completion_of_def state_leaves_def)
  have skel: "skel root = skel (cst_root s)" using completion_skel [OF assms(4)] by (simp add: settled_def)
  have node: "\<exists>n \<in> set (collectNodes (cst_root s)). completed_node (settled l r n) m" if "m \<in> set (collectNodes root)" for m
    using list_all2_left [of completed_node "collectNodes ?r1" "collectNodes root" m] assms(4) that
    by (auto simp: completion_of_def settled_def tmap_collect)
  have alike: "alike s t"
  proof -
    have "settled_alike n m" if "n \<in> set (collectNodes (cst_root s))" "completed_node (settled l r n) m" for n m
      by (rule confirmed_alike [OF assms(1-3) that])
    moreover have "list_all2 (\<lambda>n. completed_node (settled l r n)) (collectNodes (cst_root s)) (collectNodes root)"
      using assms(4) by (simp add: completion_of_def settled_def tmap_collect list_all2_map1)
    ultimately have "list_all2 settled_alike (collectNodes (cst_root s)) (collectNodes root)"
      by (auto elim!: list.rel_mono_strong)
    then show ?thesis using assms(5) by (simp add: alike_def same_run_def)
  qed
  have exec: "assertDefinitionExecutionCurrent D t = Inr ()"
  proof -
    have "assertExecutionFrontier (state_leaves root) None nodes ret tail = Inr ()" for nodes ret tail
      using pending_suffix_frontier [of "pre @ [settled l r l]" post] run(2,4) fin leaves by simp
    moreover have "filter (\<lambda>n. nd_status n = ''in_progress'') (state_leaves root) = []"
      unfolding leaves using run(2,4) lf(1) by (auto simp: filter_empty_conv list_all_iff terminal_statuses)
    ultimately show ?thesis using assms(5) run(6) by (simp add: assertDefinitionExecutionCurrent_def Let_def)
  qed
  have "wf_state D t"
  proof (rule wf_update [OF assms(1) alike _ _ _ _ exec])
    fix m assume "m \<in> set (collectNodes (cst_root t))"
    then obtain n where "n \<in> set (collectNodes (cst_root s))" "completed_node (settled l r n) m" using node assms(5) by auto
    then show "node_check m = Inr () \<and> status_ok D m \<and> node_life (state_options D s) m" by (rule confirmed_node [OF assms(1-3)])
  qed (use assms(5) skel run(6) in \<open>simp_all add: LIFECYCLE_STATES_def\<close>)
  then show ?thesis using leaves fin by blast
qed

end

end
