(* ===== verification/State_Run.thy ===== *)
theory State_Run
  imports State_Completion
begin

section \<open>Running a Flow leaf by leaf\<close>

text \<open>
  What a checked state offers next, and what happens when its Attempts are started and confirmed one after the other.
\<close>

text \<open>A state with no Attempt whose leaves are terminal up to some point and pending from there.\<close>

definition paused_at :: "CurrentFlowState \<Rightarrow> flow_node list \<Rightarrow> flow_node list \<Rightarrow> bool" where
  "paused_at s pre post \<longleftrightarrow> state_leaves (cst_root s) = pre @ post \<and> list_all terminal pre \<and> list_all (\<lambda>m. nd_status m = ''pending'') post
     \<and> cst_current s = None \<and> cst_lifecycle s = ''active''"

context definition_laws
begin

subsection \<open>The next action\<close>

lemma find_first: "list_all (\<lambda>x. \<not> P x) pre \<Longrightarrow> P f \<Longrightarrow> find P (pre @ f # post) = Some f"
  by (induction pre) auto

lemma next_leaf_at:
  assumes "wf_state D s" "state_leaves (cst_root s) = pre @ f # post" "list_all terminal pre" "nd_status f \<in> set EXECUTABLE_NODE_STATUSES"
  shows "nextExecutableLeaf D (cst_root s) = Inr (Some f)"
proof -
  have "list_all (\<lambda>n. nd_status n \<notin> set EXECUTABLE_NODE_STATUSES) pre"
    using assms(3) by (auto simp: list_all_iff terminal_def terminal_cases executable_cases)
  then show ?thesis using find_first [of "\<lambda>n. nd_status n \<in> set EXECUTABLE_NODE_STATUSES" pre f post] assms(4) wf_stateD(2) [OF assms(1)]
    by (simp add: nextExecutableLeaf_def orderedLeaves_def assms(2))
qed

lemma next_at:
  assumes "wf_state D s" "cst_current s = None" "state_leaves (cst_root s) = pre @ f # post" "list_all terminal pre"
    "nd_status f \<in> set EXECUTABLE_NODE_STATUSES"
  obtains d where "nextAction D s = Inr (Some d)" "nad_node d = f" "findPathInRoot (nd_id f) [] (cst_root s) = Some (nad_path d)"
    "nad_operation d = (if nd_status f = ''invalidated'' then ''recover'' else ''start'')"
proof -
  have f: "f \<in> set (collectNodes (cst_root s))" "leaf_node f" using assms(3) leaf_in [of f "cst_root s"] by auto
  obtain p where p: "findPathInRoot (nd_id f) [] (cst_root s) = Some p" "p \<noteq> []" by (rule path_at [OF wf_stateD(1) [OF assms(1)] f(1)])
  obtain a where a: "actionFor D (cst_root s) (nd_id f) = Inr a" using handler_ok(2) [OF assms(1) f] by blast
  let ?d = "\<lparr>nad_path = p, nad_node = f, nad_operation = if nd_status f = ''invalidated'' then ''recover'' else ''start'',
    nad_action = a, nad_failureDisposition = None\<rparr>"
  have "new_CurrentNextActionDescriptor ?d = Inr ?d" using p(2) by (simp add: new_CurrentNextActionDescriptor_def FAILURE_OPERATIONS_def)
  then have "nextAction D s = Inr (Some ?d)"
    using next_leaf_at [OF assms(1,3-5)] handler_ok(1) [OF assms(1) f(1)] a p(1) assms(2) by (simp add: nextAction_def pathFor_def)
  then show ?thesis by (rule that) (simp_all add: p(1))
qed

lemma idle_done:
  assumes "wf_state D s" "cst_current s = None" "list_all terminal (state_leaves (cst_root s))"
  shows "nextAction D s = Inr None"
proof -
  have "find (\<lambda>n. nd_status n \<in> set EXECUTABLE_NODE_STATUSES) (state_leaves (cst_root s)) = None"
    using assms(3) by (auto simp: find_None_iff list_all_iff terminal_def terminal_cases executable_cases)
  then show ?thesis using wf_stateD(2) [OF assms(1)] assms(2) by (simp add: nextAction_def nextExecutableLeaf_def orderedLeaves_def)
qed

lemma active_leaf:
  assumes "wf_state D s" "cst_current s = Some p"
  obtains l a where "nodeAtPath (cst_root s) p = Inr l" "leaf_node l" "nd_status l = ''in_progress''" "cst_attempt s = Some a" "nd_attemptSequence l = cat_sequence a"
    "cat_nodeId a = nd_id l" "l \<in> set (collectNodes (cst_root s))" "last p = nd_id l" "map nd_id (filter (\<lambda>n. nd_status n = ''in_progress'') (state_leaves (cst_root s))) = [nd_id l]"
proof -
  have e: "assertDefinitionExecutionCurrent D s = Inr ()" by (rule wf_stateD(3) [OF assms(1)])
  have fp: "findPathInRoot (last p) [] (cst_root s) = Some p" by (rule wf_stateD(8) [OF assms])
  then obtain m where "m \<in> set (collectNodes (cst_root s))" "nd_id m = last p" using path_none [of "last p" "[]" "cst_root s"] by auto
  with path_at [OF wf_stateD(1) [OF assms(1)] this(1)] fp have m: "nodeAtPath (cst_root s) p = Inr m" "m \<in> set (collectNodes (cst_root s))" "last p = nd_id m"
    by (metis option.inject)+
  show ?thesis using e m that unfolding assertDefinitionExecutionCurrent_def Let_def assms(2)
    by (auto simp: leaf_node_def split: option.splits if_splits)
qed

subsection \<open>Confirming\<close>

lemma confirm_ok:
  assumes "wf_state D s" "running_at s pre l post a" "plain_result r" "assertTaskGateLifecycle D s (nd_id l) g ''complete-and-advance'' = Inr lc"
  obtains t where "confirmCurrentAttempt D s r ''done'' g None = bindE (assertTaskGateSuccessor D t lc) (\<lambda>_. Inr t)" "wf_state D t"
    "state_leaves (cst_root t) = pre @ settled l r l # post" "terminal (settled l r l)" "completion_of (settled l r (cst_root s)) (cst_root t)"
    "t = s\<lparr>cst_root := cst_root t, cst_current := None, cst_attempt := None\<rparr>"
proof -
  obtain root where root: "settle_leaf D s (nd_id l) ''done'' r = Inr root" "completion_of (settled l r (cst_root s)) root"
    by (rule settled_root [OF assms(1,2)])
  define t where t: "t = s\<lparr>cst_root := root, cst_current := None, cst_attempt := None\<rparr>"
  note wf = confirmed_wf [OF assms(1-3) root(2) t]
  have "l \<in> set (state_leaves (cst_root s))" using assms(2) by (simp add: running_at_def)
  then have l: "l \<in> set (collectNodes (cst_root s))" by (simp add: leaf_in)
  obtain p where p: "cst_current s = Some p" "last p = nd_id l" using assms(2) by (auto simp: running_at_def)
  have run: "cst_attempt s = Some a" "cat_failure a = None" "cat_blocker a = None" "cat_incomplete a = []" "cst_lifecycle s = ''active''"
    using assms(2) by (auto simp: running_at_def)
  have "assertExecutionActive D s = Inr ()" using handler_ok(1) [OF assms(1) l] p run(5) by (simp add: assertExecutionActive_def cursor_id_def)
  then have "assertAttemptConfirmable D s = Inr ()" using p(1) run by (simp add: assertAttemptConfirmable_def)
  moreover have "nrs_stepResult r = None" "nrs_outcome r = ''passed''" "connection_target r = None"
    using assms(3) by (auto simp: plain_result_def connection_target_def)
  moreover have "cursor_id s = nd_id l" using p by (simp add: cursor_id_def)
  moreover have "replaceRoot D s root None None = Inr t" unfolding t by (rule replaceRoot_ok) (use wf t in simp)
  ultimately have "confirmCurrentAttempt D s r ''done'' g None = bindE (assertTaskGateSuccessor D t lc) (\<lambda>_. Inr t)"
    using assms(4) root(1) by (simp add: confirmCurrentAttempt_def Let_def del: bindE_eq_Inr)
  then show ?thesis by (rule that) (use wf t root(2) in simp_all)
qed

subsection \<open>One leaf after the other\<close>

lemma start_running:
  assumes "wf_state D s" "paused_at s pre (l # post)" "assertInitialAttempt D l a = Inr ()" "cat_blocker a = None" "cat_incomplete a = []"
  obtains p t l' where "findPathInRoot (nd_id l) [] (cst_root s) = Some p" "startAttempt D s p a = Inr t" "wf_state D t" "running_at t pre l' post a"
    "nd_id l' = nd_id l" "nd_attemptSequence l' = cat_sequence a" "cst_outbox t = cst_outbox s"
proof -
  have at: "state_leaves (cst_root s) = pre @ l # post" "list_all terminal pre" "nd_status l = ''pending''" "list_all (\<lambda>m. nd_status m = ''pending'') post"
    "cst_current s = None" "cst_lifecycle s = ''active''" using assms(2) by (auto simp: paused_at_def)
  have nx: "nextExecutableLeaf D (cst_root s) = Inr (Some l)" by (rule next_leaf_at [OF assms(1) at(1,2)]) (simp add: at(3) executable_cases)
  obtain p where p: "path_to (cst_root s) l p" "last p = nd_id l" "findPathInRoot (nd_id l) [] (cst_root s) = Some p"
    and st: "startAttempt D s p a = Inr (s\<lparr>cst_root := started p (nd_id l) (cat_sequence a) (cst_root s), cst_current := Some p, cst_attempt := Some a\<rparr>)"
    and wf: "wf_state D (s\<lparr>cst_root := started p (nd_id l) (cat_sequence a) (cst_root s), cst_current := Some p, cst_attempt := Some a\<rparr>)"
    by (rule start_ok [OF assms(1) at(5,6) nx at(3) assms(3)])
  let ?t = "s\<lparr>cst_root := started p (nd_id l) (cat_sequence a) (cst_root s), cst_current := Some p, cst_attempt := Some a\<rparr>"
  let ?l = "started p (nd_id l) (cat_sequence a) l"
  have l: "l \<in> set (collectNodes (cst_root s))" "leaf_node l" using at(1) leaf_in [of l "cst_root s"] by auto
  have dis: "distinct (ids (cst_root s))" by (rule wf_stateD(1) [OF assms(1)])
  have other: "started p (nd_id l) k x = x" if "x \<in> set (pre @ post)" for x k
  proof -
    have x: "x \<in> set (collectNodes (cst_root s))" "leaf_node x" using that at(1) leaf_in [of x "cst_root s"] by auto
    have "distinct (map nd_id (pre @ l # post))" unfolding at(1) [symmetric] state_leaves_def using dis by (simp add: distinct_map_filter)
    then have "nd_id x \<noteq> nd_id l" using that by (metis Un_iff distinct_map distinct_append list.map(2) map_append not_distinct_conv_prefix rev_image_eqI set_append distinct.simps(2) list.set_map)
    then show ?thesis using started_node(1) [OF assms(1) l x(1) p(1)] leaf_ids [OF x(2)] by simp
  qed
  have leaves: "state_leaves (cst_root ?t) = pre @ ?l # post"
    using at(1) other by (simp add: started_def tmap_leaves) (auto intro!: map_idI simp: started_def [symmetric])
  have self: "nd_id l \<in> set (ids l)" using leaf_ids [OF l(2)] by simp
  have seq: "cat_sequence a = nd_attemptSequence l + 1" "cat_failure a = None" using assms(3) by (auto simp: assertInitialAttempt_def split: if_splits)
  have "0 \<le> nd_attemptSequence l" using wf_stateD(4) [OF assms(1) l(1)] by (auto simp: node_check_def cfs_integer_def split: if_splits)
  then have "running_at ?t pre ?l post a"
    using leaves at(2,4,6) seq assms(4,5) p(2) started_node(2) [OF assms(1) l l(1) p(1) self, of "cat_sequence a"] started_node(4) [OF assms(1) l l(1) p(1), of "cat_sequence a"]
    by (simp add: running_at_def started_def)
  moreover have "nd_attemptSequence ?l = cat_sequence a" using started_node(4) [OF assms(1) l l(1) p(1)] by blast
  ultimately show ?thesis using that [OF p(3) st wf] by (simp add: started_def)
qed

subsection \<open>Queries and lifecycle\<close>

lemma active_next:
  assumes "wf_state D s" "cst_current s = Some p" "cst_attempt s = Some a" "cat_failure a = None"
  obtains d where "nextAction D s = Inr (Some d)" "nad_path d = p" "nad_operation d = ''resume''" "nad_failureDisposition d = None" "nd_id (nad_node d) = cat_nodeId a"
proof -
  obtain l where l: "nodeAtPath (cst_root s) p = Inr l" "leaf_node l" "cst_attempt s = Some a" "cat_nodeId a = nd_id l" "l \<in> set (collectNodes (cst_root s))" "last p = nd_id l"
    using active_leaf [OF assms(1,2)] assms(3) by (metis option.inject)
  obtain x where x: "actionFor D (cst_root s) (nd_id l) = Inr x" using handler_ok(2) [OF assms(1) l(5,2)] by blast
  have "p \<noteq> []" using l(1) by (auto simp: nodeAtPath_def split: if_splits)
  let ?d = "\<lparr>nad_path = p, nad_node = l, nad_operation = ''resume'', nad_action = x, nad_failureDisposition = None\<rparr>"
  have "new_CurrentNextActionDescriptor ?d = Inr ?d" using \<open>p \<noteq> []\<close> by (simp add: new_CurrentNextActionDescriptor_def FAILURE_OPERATIONS_def)
  then have "nextAction D s = Inr (Some ?d)"
    using assms(2-4) l(1) handler_ok(1) [OF assms(1) l(5)] x by (simp add: nextAction_def failureDisposition_def)
  then show ?thesis by (rule that) (simp_all add: l(4))
qed

lemma lifecycle_changed:
  assumes "wf_state D s" "cst_lifecycle s \<noteq> ''finalized''" "x \<in> {''active'', ''parked''}"
  shows "wf_state D (s\<lparr>cst_lifecycle := x\<rparr>)"
proof -
  let ?t = "s\<lparr>cst_lifecycle := x\<rparr>"
  have alike: "alike s ?t" by (simp add: alike_def same_run_def settled_alike_def list_all2_same)
  have ret: "allowsRetainedRouteSourceCompletion D s = allowsRetainedRouteSourceCompletion D ?t"
    using retained_alike [OF alike refl] by (intro ext)
  have tail: "allowsUnexecutedRouteTail D s = allowsUnexecutedRouteTail D ?t"
  proof -
    have "cst_root ?t = cst_root s" by simp
    then show ?thesis unfolding allowsUnexecutedRouteTail_def leaf_index_def ret by (simp only:)
  qed
  have "assertDefinitionExecutionCurrent D ?t = assertDefinitionExecutionCurrent D s"
  proof -
    have "cst_root ?t = cst_root s" "cst_current ?t = cst_current s" "cst_attempt ?t = cst_attempt s" "cst_lifecycle ?t \<noteq> ''finalized''" using assms(3) by auto
    then show ?thesis using assms(2) unfolding assertDefinitionExecutionCurrent_def Let_def ret [symmetric] tail [symmetric] by (simp only: simp_thms)
  qed
  then show ?thesis
    using wf_update [OF assms(1) alike] wf_stateD [OF assms(1)] assms(1,3) by (auto simp: LIFECYCLE_STATES_def wf_state_def)
qed

end

end
