(* ===== verification/State_Tasks.thy ===== *)
theory State_Tasks
  imports State_Run
begin

section \<open>Tasks of a state\<close>

text \<open>
  The Tasks of a checked state stand between the static children of their container, have the five template steps,
  and are completed by the confirmation of their Gate.
\<close>

lemma collect_infix:
  "c \<in> set (collectNodes n) \<Longrightarrow> \<exists>A B. collectNodes n = A @ collectNodes c @ B"
proof (induction n)
  case (FNode k i y s r a ss)
  let ?n = "FNode k i y s r a ss"
  show ?case
  proof (cases "c = ?n")
    case True
    then show ?thesis by (intro exI [of _ "[]"]) simp
  next
    case False
    then obtain m where m: "m \<in> set ss" "c \<in> set (collectNodes m)" using FNode.prems by auto
    then obtain us vs where ss: "ss = us @ m # vs" by (meson split_list)
    obtain A B where "collectNodes m = A @ collectNodes c @ B" using FNode.IH [OF m] by blast
    then have "collectNodes ?n = (?n # concat (map collectNodes us) @ A) @ collectNodes c @ B @ concat (map collectNodes vs)" using ss by simp
    then show ?thesis by blast
  qed
qed

lemma leaves_infix: "c \<in> set (collectNodes n) \<Longrightarrow> \<exists>A B. state_leaves n = A @ state_leaves c @ B"
proof -
  assume "c \<in> set (collectNodes n)"
  then obtain A B where "collectNodes n = A @ collectNodes c @ B" using collect_infix by blast
  then have "state_leaves n = filter leaf_node A @ state_leaves c @ filter leaf_node B" by (simp add: state_leaves_def)
  then show ?thesis by blast
qed

lemma leaves_branch: "\<not> leaf_node n \<Longrightarrow> state_leaves n = concat (map state_leaves (nd_steps n))"
  using collect_unfold [of n] by (simp add: state_leaves_def [abs_def] filter_concat comp_def)

lemma leaves_leaf: "leaf_node n \<Longrightarrow> state_leaves n = [n]"
  using collect_unfold [of n] by (simp add: state_leaves_def leaf_node_def)

lemma state_leaves_nonempty: "state_leaves n \<noteq> []"
proof (induction n)
  case (FNode k i y s r a ss)
  then show ?case
    using leaves_leaf [of "FNode k i y s r a ss"] leaves_branch [of "FNode k i y s r a ss"] by (cases ss) (auto simp: leaf_node_def)
qed

lemma find_hit: "find P xs = Some x \<Longrightarrow> x \<in> set xs \<and> P x"
  by (auto simp: find_Some_iff)

lemma find_self: "r \<in> set xs \<Longrightarrow> find (\<lambda>c. r = c) xs = Some r"
  by (induction xs) auto

lemma mapE_compose: "mapE f (map g xs) = mapE (f \<circ> g) xs"
  by (induction xs) simp_all

lemma mapE_same: "(\<And>x. x \<in> set xs \<Longrightarrow> f x = g x) \<Longrightarrow> mapE f xs = mapE g xs"
  by (induction xs) simp_all

definition task_effect :: "CurrentFlowState \<Rightarrow> flow_node \<Rightarrow> string \<Rightarrow> ActivityGateTaskLifecycle" where
  "task_effect s tk i = \<lparr>gtl_operation = ''complete-and-advance'', gtl_taskId = nd_id tk, gtl_resetStepIds = [],
     gtl_successorStepId = map_option nd_id (find (\<lambda>n. nd_status n \<in> set EXECUTABLE_NODE_STATUSES) (leaves_after (cst_root s) i))\<rparr>"

text \<open>The effect a Gate result carries: none unless the leaf is the Gate of a Task.\<close>

definition owning_task :: "CurrentFlowDefinition \<Rightarrow> CurrentFlowState \<Rightarrow> string \<Rightarrow> flow_node option" where
  "owning_task D s i = find (\<lambda>t. list_ex (\<lambda>n. nd_id n = i) (nd_steps t))
     (case findNode s (cfd_dynamicTaskContainerId D) of None \<Rightarrow> [] | Some c \<Rightarrow> filter (\<lambda>n. nd_kind n = ''task'') (nd_steps c))"

definition gate_effect :: "CurrentFlowDefinition \<Rightarrow> CurrentFlowState \<Rightarrow> string \<Rightarrow> ActivityGateTaskLifecycle option" where
  "gate_effect D s i = (case owning_task D s i of None \<Rightarrow> None
     | Some tk \<Rightarrow> if i = nd_id (last (nd_steps tk)) then Some (task_effect s tk i) else None)"

context definition_laws
begin

lemma container_shape:
  "assertStaticShape D d n = Inr () \<Longrightarrow> set (collectDefinitionNodes [d]) \<subseteq> set (collectDefinitionNodes [cfd_root D]) \<Longrightarrow> distinct (ids n) \<Longrightarrow>
   c \<in> set (collectNodes n) \<Longrightarrow> nd_id c = cfd_dynamicTaskContainerId D \<Longrightarrow> tk \<in> set (nd_steps c) \<Longrightarrow> nd_kind tk = ''task'' \<Longrightarrow>
   assertTaskShape (cfd_taskTemplate D) tk = Inr () \<and> (\<exists>us v vs. nd_steps c = us @ tk # v # vs)"
proof (induction d arbitrary: n)
  case (DefNode kind i key ct a steps)
  let ?d = "DefNode kind i key ct a steps"
  have same: "i = nd_id n" using DefNode.prems(1) by (auto split: if_splits)
  have child: "set (collectDefinitionNodes [x]) \<subseteq> set (collectDefinitionNodes [cfd_root D])" if "x \<in> set steps" for x
    using collect_definition_mem [OF that] DefNode.prems(2) by auto
  show ?case
  proof (cases "i = cfd_dynamicTaskContainerId D")
    case True
    then have c: "c = n" using same_node [OF DefNode.prems(3,4)] DefNode.prems(5) same by simp
    let ?start = "task_start D steps" and ?count = "length (nd_steps n) - length steps"
    have le: "length steps \<le> length (nd_steps n)"
      and pre: "\<forall>p \<in> set (zip (take ?start steps) (nd_steps n)). assertStaticShape D (fst p) (snd p) = Inr ()"
      and mid: "\<forall>t \<in> set (take ?count (drop ?start (nd_steps n))). assertTaskShape (cfd_taskTemplate D) t = Inr ()"
      and post: "\<forall>p \<in> set (zip (drop ?start steps) (drop (?start + ?count) (nd_steps n))). assertStaticShape D (fst p) (snd p) = Inr ()"
      using DefNode.prems(1) True by (auto simp: eachE_ok Let_def split: if_splits)
    have start: "?start < length steps" using container_tail [of ?d] DefNode.prems(2) True by simp
    have static: "nd_kind m \<noteq> ''task''" if "x \<in> set steps" "assertStaticShape D x m = Inr ()" for x m
    proof -
      have "dn_kind x = nd_kind m" using that(2) by (cases x) (auto split: if_splits)
      then show ?thesis using static_kinds [of x] child [OF that(1)] collect_definition_self [of x] by auto
    qed
    have split: "nd_steps n = take ?start (nd_steps n) @ take ?count (drop ?start (nd_steps n)) @ drop (?start + ?count) (nd_steps n)"
      by (metis add.commute append_take_drop_id drop_drop)
    have "tk \<notin> set (take ?start (nd_steps n))"
    proof
      assume "tk \<in> set (take ?start (nd_steps n))"
      then obtain k where k: "k < ?start" "k < length (nd_steps n)" "tk = nd_steps n ! k" by (auto simp: in_set_conv_nth)
      then have "(steps ! k, tk) \<in> set (zip (take ?start steps) (nd_steps n))"
        using start by (auto simp: set_zip intro!: exI [of _ k])
      then show False using pre static [of "steps ! k" tk] DefNode.prems(7) k start by auto
    qed
    moreover have "tk \<notin> set (drop (?start + ?count) (nd_steps n))"
    proof
      assume "tk \<in> set (drop (?start + ?count) (nd_steps n))"
      then obtain k where k: "k < length (nd_steps n) - (?start + ?count)" "tk = drop (?start + ?count) (nd_steps n) ! k" by (auto simp: in_set_conv_nth)
      then have "(drop ?start steps ! k, tk) \<in> set (zip (drop ?start steps) (drop (?start + ?count) (nd_steps n)))" "?start + k < length steps"
        using start le by (auto simp: set_zip)
      then show False using post static [of "steps ! (?start + k)" tk] DefNode.prems(7) by fastforce
    qed
    ultimately have m: "tk \<in> set (take ?count (drop ?start (nd_steps n)))" using split DefNode.prems(6) c by (metis Un_iff set_append)
    then obtain us vs where us: "take ?count (drop ?start (nd_steps n)) = us @ tk # vs" by (meson split_list)
    have "drop (?start + ?count) (nd_steps n) \<noteq> []" using start le by simp
    then obtain w ws where "vs @ drop (?start + ?count) (nd_steps n) = w # ws" by (cases "vs @ drop (?start + ?count) (nd_steps n)") auto
    then have "nd_steps n = (take ?start (nd_steps n) @ us) @ tk # w # ws" using split us by (metis append.assoc append_Cons)
    then show ?thesis using mid m c by blast
  next
    case False
    then have len: "length steps = length (nd_steps n)" and each: "\<forall>p \<in> set (zip steps (nd_steps n)). assertStaticShape D (fst p) (snd p) = Inr ()"
      using DefNode.prems(1) by (auto simp: eachE_ok split: if_splits)
    have "c \<noteq> n" using False same DefNode.prems(5) by auto
    then obtain m where m: "m \<in> set (nd_steps n)" "c \<in> set (collectNodes m)" using DefNode.prems(4) collect_unfold [of n] by auto
    then obtain k where k: "k < length (nd_steps n)" "m = nd_steps n ! k" by (auto simp: in_set_conv_nth)
    then have "(steps ! k, m) \<in> set (zip steps (nd_steps n))" using len by (auto simp: set_zip)
    then have sh: "assertStaticShape D (steps ! k) m = Inr ()" using each by auto
    have x: "steps ! k \<in> set steps" using k len by simp
    have "distinct (ids m)" by (rule distinct_child [OF DefNode.prems(3) m(1)])
    then show ?thesis using DefNode.IH [OF x sh child [OF x] _ m(2)] DefNode.prems(5-7) by blast
  qed
qed

lemma task_expected:
  assumes "assertTaskShape (cfd_taskTemplate D) tk = Inr ()"
  shows "mapE (\<lambda>role. bindE (new_TaskStepIdentity (JStr (nd_id tk)) (JStr role)) (\<lambda>i. Inr (tsi_nodeId i)))
      [''impl'', ''review'', ''triage'', ''repair'', ''gate''] = Inr (map nd_id (nd_steps tk))" "nd_steps tk \<noteq> []" "list_all leaf_node (nd_steps tk)"
proof -
  let ?ds = "dn_steps (cfd_taskTemplate D)" and ?m = "materializedTaskStepId (nd_id tk)"
  have len: "length (nd_steps tk) = length ?ds"
    and each: "\<forall>p \<in> set (zip ?ds (nd_steps tk)). assertTaskStepShape (fst p) (snd p) (nd_id tk) = Inr ()"
    using assms by (auto simp: assertTaskShape_def eachE_ok split: if_splits)
  have step: "?m (dn_id d) = Inr (nd_id n) \<and> leaf_node n" if "d \<in> set ?ds" "assertTaskStepShape d n (nd_id tk) = Inr ()" for d n
    using that(2) template_steps(2) [OF that(1)] by (cases d) (auto simp: leaf_node_def split: if_splits)
  have all: "list_all2 (\<lambda>d n. ?m (dn_id d) = Inr (nd_id n) \<and> leaf_node n) ?ds (nd_steps tk)"
    unfolding list_all2_iff
  proof (intro conjI ballI)
    fix p assume p: "p \<in> set (zip ?ds (nd_steps tk))"
    then have "fst p \<in> set ?ds" by (metis prod.collapse set_zip_leftD)
    then show "case p of (d, n) \<Rightarrow> ?m (dn_id d) = Inr (nd_id n) \<and> leaf_node n" using step bspec [OF each p] by (simp add: case_prod_beta)
  qed (use len in simp)
  show "nd_steps tk \<noteq> []" using len template_steps(1) by auto
  show "list_all leaf_node (nd_steps tk)" using all by (auto simp: list_all2_conv_all_nth list_all_length)
  have map: "mapE ?m (map dn_id ds) = Inr (map nd_id ns)" if "list_all2 (\<lambda>d n. ?m (dn_id d) = Inr (nd_id n) \<and> leaf_node n) ds ns" for ds ns
    using that by (induction rule: list_all2_induct) simp_all
  have role: "?m (''task-'' @ r) = bindE (new_TaskStepIdentity (JStr (nd_id tk)) (JStr r)) (\<lambda>i. Inr (tsi_nodeId i))"
    if "r \<in> set TASK_STEP_ROLES" for r
    using find_self [OF that] by (cases "new_TaskStepIdentity (JStr (nd_id tk)) (JStr r)") (simp_all add: materializedTaskStepId_def fromDefinitionId_def)
  have roles: "set [''impl'', ''review'', ''triage'', ''repair'', ''gate''] \<subseteq> set TASK_STEP_ROLES" by (simp add: TASK_STEP_ROLES_def)
  let ?roles = "[''impl'', ''review'', ''triage'', ''repair'', ''gate'']"
  have "mapE (\<lambda>role. bindE (new_TaskStepIdentity (JStr (nd_id tk)) (JStr role)) (\<lambda>i. Inr (tsi_nodeId i))) ?roles = mapE (\<lambda>r. ?m (''task-'' @ r)) ?roles"
    by (rule mapE_same [symmetric], rule role, erule subsetD [OF roles])
  also have "\<dots> = mapE ?m (map (\<lambda>r. ''task-'' @ r) ?roles)" unfolding mapE_compose comp_def ..
  also have "\<dots> = Inr (map nd_id (nd_steps tk))" using map [OF all] unfolding template_ids .
  finally show "mapE (\<lambda>role. bindE (new_TaskStepIdentity (JStr (nd_id tk)) (JStr role)) (\<lambda>i. Inr (tsi_nodeId i))) ?roles = Inr (map nd_id (nd_steps tk))" .
qed

lemma owning_task_facts:
  assumes "wf_state D s" "owning_task D s i = Some tk"
  obtains A B where "tk \<in> set (collectNodes (cst_root s))" "nd_kind tk = ''task''" "assertTaskShape (cfd_taskTemplate D) tk = Inr ()"
    "state_leaves (cst_root s) = A @ nd_steps tk @ B" "B \<noteq> []" "i \<in> nd_id ` set (nd_steps tk)"
proof -
  obtain c where c: "findNode s (cfd_dynamicTaskContainerId D) = Some c" "tk \<in> set (nd_steps c)" "nd_kind tk = ''task''"
    "list_ex (\<lambda>n. nd_id n = i) (nd_steps tk)"
    using assms(2) by (auto simp: owning_task_def split: option.splits dest!: find_hit)
  have cc: "c \<in> set (collectNodes (cst_root s))" "nd_id c = cfd_dynamicTaskContainerId D"
    using c(1) by (auto simp: findNode_def findNodeInRoot_def find_Some_iff)
  have root: "assertStaticShape D (cfd_root D) (cst_root s) = Inr ()"
    using wf_stateD(2) [OF assms(1)] by (auto simp: assertStateShape_def split: if_splits)
  from container_shape [OF root _ wf_stateD(1) [OF assms(1)] cc c(2,3)] obtain us v vs
    where sh: "assertTaskShape (cfd_taskTemplate D) tk = Inr ()" "nd_steps c = us @ tk # v # vs" by auto
  have "\<not> leaf_node tk" "\<not> leaf_node c" using task_expected(2) [OF sh(1)] sh(2) by (auto simp: leaf_node_def)
  then have tl: "state_leaves tk = nd_steps tk" and cl: "state_leaves c = concat (map state_leaves us) @ state_leaves tk @ state_leaves v @ concat (map state_leaves vs)"
    using leaves_branch [of tk] leaves_branch [of c] sh(2) leaves_leaf task_expected(3) [OF sh(1)]
    by (simp_all add: list_all_iff) (simp add: concat_map_singleton [of id, simplified] cong: map_cong)
  obtain A B where "state_leaves (cst_root s) = A @ state_leaves c @ B" using leaves_infix [OF cc(1)] by blast
  then have "state_leaves (cst_root s) = (A @ concat (map state_leaves us)) @ nd_steps tk @ (state_leaves v @ concat (map state_leaves vs) @ B)"
    using tl cl by simp
  moreover have "tk \<in> set (collectNodes (cst_root s))" using collect_trans [OF cc(1), of tk] collect_unfold [of c] collect_unfold [of tk] c(2) by force
  moreover have "state_leaves v @ concat (map state_leaves vs) @ B \<noteq> []" using state_leaves_nonempty [of v] by simp
  moreover have "i \<in> nd_id ` set (nd_steps tk)" using c(4) by (auto simp: list_ex_iff)
  ultimately show ?thesis using that [OF _ c(3) sh(1)] by blast
qed

lemma leaves_after_at: "distinct (map nd_id (pre @ l # post)) \<Longrightarrow> state_leaves r = pre @ l # post \<Longrightarrow> leaves_after r (nd_id l) = post"
proof -
  assume d: "distinct (map nd_id (pre @ l # post))" and r: "state_leaves r = pre @ l # post"
  have "takeWhile (\<lambda>y. y \<noteq> nd_id l) (map nd_id pre @ nd_id l # map nd_id post) = map nd_id pre"
  proof (subst takeWhile_append2)
    show "x \<noteq> nd_id l" if "x \<in> set (map nd_id pre)" for x
      using that d by (metis disjoint_iff distinct_append list.set_intros(1) list.simps(9) map_append)
  qed simp
  then show ?thesis by (simp add: leaves_after_def r index_of_def)
qed

lemma leaf_ids_distinct: "wf_state D s \<Longrightarrow> distinct (map nd_id (state_leaves (cst_root s)))"
  using wf_stateD(1) [of D s] by (simp add: state_leaves_def distinct_map_filter)

lemma gate_position:
  assumes "wf_state D s" "running_at s pre l post a" "owning_task D s (nd_id l) = Some tk" "nd_id l = nd_id (last (nd_steps tk))"
  obtains A where "pre = A @ butlast (nd_steps tk)" "l = last (nd_steps tk)" "post \<noteq> []"
proof -
  obtain A B where tk: "assertTaskShape (cfd_taskTemplate D) tk = Inr ()" "state_leaves (cst_root s) = A @ nd_steps tk @ B" "B \<noteq> []"
    by (rule owning_task_facts [OF assms(1,3)])
  have run: "state_leaves (cst_root s) = pre @ l # post" using assms(2) by (auto simp: running_at_def)
  have dl: "distinct (map nd_id (pre @ l # post))" using leaf_ids_distinct [OF assms(1)] run by simp
  have e: "pre @ l # post = (A @ butlast (nd_steps tk)) @ last (nd_steps tk) # B"
    unfolding run [symmetric] tk(2) using append_butlast_last_id [OF task_expected(2) [OF tk(1)]] by (metis append.assoc append_Cons append_Nil)
  have l: "l = last (nd_steps tk)" using e assms(4) dl by (metis (no_types, lifting) distinct_map in_set_conv_decomp inj_on_def)
  moreover have "l \<notin> set pre" "l \<notin> set post" using dl by auto
  ultimately have "pre = A @ butlast (nd_steps tk) \<and> post = B" using e by (metis append_Cons_eq_iff)
  then show ?thesis using that l tk(3) by blast
qed

lemma gate_accepted:
  assumes "wf_state D s" "running_at s pre l post a"
  shows "assertTaskGateLifecycle D s (nd_id l) (gate_effect D s (nd_id l)) ''complete-and-advance'' =
    Inr (case owning_task D s (nd_id l) of None \<Rightarrow> None
      | Some tk \<Rightarrow> if nd_id l = nd_id (last (nd_steps tk)) then Some (nd_id tk, nd_id (hd post)) else None)"
proof (cases "owning_task D s (nd_id l)")
  case None
  then show ?thesis by (simp add: assertTaskGateLifecycle_def gate_effect_def owning_task_def Let_def)
next
  case (Some tk)
  obtain A B where tk: "nd_kind tk = ''task''" "assertTaskShape (cfd_taskTemplate D) tk = Inr ()"
    "state_leaves (cst_root s) = A @ nd_steps tk @ B" "B \<noteq> []" "nd_id l \<in> nd_id ` set (nd_steps tk)" by (rule owning_task_facts [OF assms(1) Some])
  note exp = task_expected [OF tk(2)]
  have last: "last (map nd_id (nd_steps tk)) = nd_id (last (nd_steps tk))" using exp(2) by (simp add: last_map)
  show ?thesis
  proof (cases "nd_id l = nd_id (last (nd_steps tk))")
    case False
    then show ?thesis using Some exp(1) last unfolding assertTaskGateLifecycle_def gate_effect_def Let_def owning_task_def [symmetric]
      by (simp del: mapE.simps)
  next
    case True
    have run: "state_leaves (cst_root s) = pre @ l # post" "list_all (\<lambda>m. nd_status m = ''pending'') post" using assms(2) by (auto simp: running_at_def)
    have dl: "distinct (map nd_id (pre @ l # post))" using leaf_ids_distinct [OF assms(1)] run(1) by simp
    have "post \<noteq> []" by (rule gate_position [OF assms Some True])
    then obtain q ps where post: "post = q # ps" by (cases post) auto
    have after: "leaves_after (cst_root s) (nd_id l) = post" by (rule leaves_after_at [OF dl run(1)])
    have succ: "find (\<lambda>n. nd_status n \<in> set EXECUTABLE_NODE_STATUSES) post = Some q" using run(2) post by (simp add: executable_cases)
    have "assertStateShape D (cst_root s) = Inr ()" by (rule wf_stateD(2) [OF assms(1)])
    then show ?thesis using Some exp(1) last True after succ post run(1)
      unfolding assertTaskGateLifecycle_def gate_effect_def Let_def owning_task_def [symmetric]
      by (simp add: task_effect_def orderedLeaves_def del: mapE.simps)
  qed
qed

lemma list_all2_forward: "list_all2 P xs ys \<Longrightarrow> x \<in> set xs \<Longrightarrow> \<exists>y \<in> set ys. P x y"
  by (induction rule: list_all2_induct) auto

lemma branch_finished:
  "branch_check n = Inr () \<Longrightarrow> nd_status n \<in> {''pending'', ''done'', ''in_progress''} \<Longrightarrow> list_all terminal (nd_steps n) \<Longrightarrow> nd_steps n \<noteq> [] \<Longrightarrow> nd_status n = ''done''"
proof -
  assume c: "branch_check n = Inr ()" "nd_status n \<in> {''pending'', ''done'', ''in_progress''}" "list_all terminal (nd_steps n)" "nd_steps n \<noteq> []"
  have all: "list_all (\<lambda>s. s \<in> set TERMINAL_NODE_STATUSES) (map nd_status (nd_steps n))" using c(3) by (simp add: list_all_terminal)
  obtain x where x: "x \<in> set (nd_steps n)" using c(4) by (cases "nd_steps n") auto
  then have "terminal x" using c(3) by (auto simp: list_all_iff)
  then have "\<not> list_all (\<lambda>s. s = ''pending'') (map nd_status (nd_steps n))" using x by (auto simp: list_all_iff terminal_statuses intro!: bexI [of _ x])
  then show ?thesis using c(1,2) all by (auto simp: branch_check_def Let_def)
qed

lemma task_completed:
  assumes "wf_state D s" "running_at s pre l post a" "owning_task D s (nd_id l) = Some tk" "nd_id l = nd_id (last (nd_steps tk))"
    "wf_state D u" "state_leaves (cst_root u) = pre @ settled l r l # post" "terminal (settled l r l)" "completion_of (settled l r (cst_root s)) (cst_root u)"
  obtains m where "findNode u (nd_id tk) = Some m" "nd_kind m = ''task''" "nd_status m = ''done''"
proof -
  obtain A where pre: "pre = A @ butlast (nd_steps tk)" "l = last (nd_steps tk)" by (rule gate_position [OF assms(1-4)])
  have tk: "tk \<in> set (collectNodes (cst_root s))" "nd_kind tk = ''task''" "assertTaskShape (cfd_taskTemplate D) tk = Inr ()"
    using owning_task_facts [OF assms(1,3)] by metis+
  note exp = task_expected [OF tk(3)]
  have "settled l r tk \<in> set (collectNodes (settled l r (cst_root s)))" using tk(1) by (simp add: settled_def tmap_collect)
  then obtain m where m: "m \<in> set (collectNodes (cst_root u))" "completed_node (settled l r tk) m"
    using list_all2_forward assms(8) unfolding completion_of_def by meson
  have skel: "skel m = skel tk" using m(2) by (simp add: completed_node_def settled_def)
  note same = skel_same [OF skel]
  have steps: "map skel (nd_steps m) = map skel (nd_steps tk)" using skel by (cases m; cases tk) auto
  have br: "\<not> leaf_node tk" using exp(2) by (simp add: leaf_node_def)
  have fin: "terminal c" if c: "c \<in> set (nd_steps m)" for c
  proof -
    obtain d where d: "d \<in> set (nd_steps tk)" "skel c = skel d" using c steps by (metis in_set_conv_nth length_map nth_map)
    have "leaf_node c" using skel_same [OF d(2)] exp(3) d(1) by (auto simp: list_all_iff)
    moreover have "c \<in> set (collectNodes (cst_root u))" using collect_trans [OF m(1), of c] collect_unfold [of m] collect_unfold [of c] c by force
    ultimately have cl: "c \<in> set (pre @ settled l r l # post)" using assms(6) by (metis leaf_in)
    have "set (nd_steps tk) \<subseteq> set (pre @ [l])" using pre append_butlast_last_id [OF exp(2)] by (metis Un_iff set_append subsetI)
    then have "nd_id c \<in> nd_id ` set (pre @ [l])" using d skel_same [OF d(2)] by auto
    moreover have "distinct (map nd_id (pre @ [l]) @ map nd_id post)" using leaf_ids_distinct [OF assms(1)] assms(2) by (simp add: running_at_def)
    ultimately have "c \<notin> set post" unfolding distinct_append set_map by (metis disjoint_iff imageI)
    then show ?thesis using cl assms(2,7) by (auto simp: running_at_def list_all_iff)
  qed
  have "nd_status m = ''done''"
  proof (rule branch_finished)
    show "branch_check m = Inr ()" "nd_status m \<in> {''pending'', ''done'', ''in_progress''}" using m(2) br by (simp_all add: completed_node_def settled_def)
    show "list_all terminal (nd_steps m)" using fin by (simp add: list_all_iff)
    show "nd_steps m \<noteq> []" using steps exp(2) by auto
  qed
  moreover have "findNode u (nd_id m) = Some m" unfolding findNode_def by (rule lookup [OF wf_stateD(1) [OF assms(5)] m(1)])
  ultimately show ?thesis using that same tk(2) by simp
qed

subsection \<open>One leaf after the other\<close>

lemma leaf_step:
  assumes "wf_state D s" "paused_at s pre (l # post)" "assertInitialAttempt D l a = Inr ()" "cat_blocker a = None" "cat_incomplete a = []" "plain_result r"
  obtains p t u l' where "findPathInRoot (nd_id l) [] (cst_root s) = Some p" "startAttempt D s p a = Inr t"
    "confirmCurrentAttempt D t r ''done'' (gate_effect D t (nd_id l)) None = Inr u" "wf_state D u" "paused_at u (pre @ [l']) post"
    "cst_outbox u = cst_outbox s" "nd_id l' = nd_id l" "nd_status l' = ''done''" "nd_result l' = Some r" "nd_attemptSequence l' = cat_sequence a"
    "\<forall>tk. owning_task D t (nd_id l) = Some tk \<and> nd_id l = nd_id (last (nd_steps tk)) \<longrightarrow> (\<exists>n. findNode u (nd_id tk) = Some n \<and> nd_status n = ''done'')"
proof -
  obtain p t m where t: "findPathInRoot (nd_id l) [] (cst_root s) = Some p" "startAttempt D s p a = Inr t" "wf_state D t" "running_at t pre m post a"
    "nd_id m = nd_id l" "nd_attemptSequence m = cat_sequence a" "cst_outbox t = cst_outbox s" by (rule start_running [OF assms(1-5)])
  from confirm_ok [OF t(3,4) assms(6) gate_accepted [OF t(3,4)]] obtain u where
    u: "confirmCurrentAttempt D t r ''done'' (gate_effect D t (nd_id m)) None = bindE (assertTaskGateSuccessor D u (case owning_task D t (nd_id m) of None \<Rightarrow> None
      | Some tk \<Rightarrow> if nd_id m = nd_id (last (nd_steps tk)) then Some (nd_id tk, nd_id (hd post)) else None)) (\<lambda>_. Inr u)"
    "wf_state D u" "state_leaves (cst_root u) = pre @ settled m r m # post" "terminal (settled m r m)" "completion_of (settled m r (cst_root t)) (cst_root u)"
    "u = t\<lparr>cst_root := cst_root u, cst_current := None, cst_attempt := None\<rparr>" by blast
  have "cst_lifecycle u = cst_lifecycle (t\<lparr>cst_root := cst_root u, cst_current := None, cst_attempt := None\<rparr>)"
    "cst_current u = cst_current (t\<lparr>cst_root := cst_root u, cst_current := None, cst_attempt := None\<rparr>)"
    "cst_outbox u = cst_outbox (t\<lparr>cst_root := cst_root u, cst_current := None, cst_attempt := None\<rparr>)" using u(6) by metis+
  then have rest: "cst_lifecycle u = cst_lifecycle t" "cst_current u = None" "cst_outbox u = cst_outbox t" by simp_all
  have pause: "paused_at u (pre @ [settled m r m]) post" using u(3,4) t(4) rest by (simp add: paused_at_def running_at_def)
  have succ: "assertTaskGateSuccessor D u (Some (nd_id tk, nd_id (hd post))) = Inr ()"
    if own: "owning_task D t (nd_id m) = Some tk" "nd_id m = nd_id (last (nd_steps tk))" for tk
  proof -
    have "post \<noteq> []" by (rule gate_position [OF t(3,4) own])
    then obtain q ps where post: "post = q # ps" by (cases post) auto
    then have q: "nd_status q \<in> set EXECUTABLE_NODE_STATUSES" using pause by (simp add: paused_at_def executable_cases)
    obtain d where d: "nextAction D u = Inr (Some d)" "nad_node d = q"
      by (rule next_at [OF u(2) rest(2), of "pre @ [settled m r m]" q ps]) (use pause post q in \<open>auto simp: paused_at_def\<close>)
    obtain n where "findNode u (nd_id tk) = Some n" "nd_kind n = ''task''" "nd_status n = ''done''" by (rule task_completed [OF t(3,4) own u(2-5)])
    then show ?thesis using d post by (simp add: assertTaskGateSuccessor_def)
  qed
  have none: "assertTaskGateSuccessor D u None = Inr ()" by (simp add: assertTaskGateSuccessor_def)
  have "confirmCurrentAttempt D t r ''done'' (gate_effect D t (nd_id m)) None = Inr u"
  proof (cases "owning_task D t (nd_id m)")
    case (Some tk)
    then show ?thesis using u(1) none succ [OF Some] by (cases "nd_id m = nd_id (last (nd_steps tk))") simp_all
  qed (use u(1) none in simp)
  moreover have "m \<in> set (collectNodes (cst_root t))" using t(4) leaf_in [of m "cst_root t"] by (simp add: running_at_def)
  note act = settled_active [OF t(3,4) this]
  have "nd_id (settled m r m) = nd_id l" using t(5) by (simp add: settled_def)
  moreover have "\<forall>tk. owning_task D t (nd_id m) = Some tk \<and> nd_id m = nd_id (last (nd_steps tk)) \<longrightarrow> (\<exists>n. findNode u (nd_id tk) = Some n \<and> nd_status n = ''done'')"
    using task_completed [OF t(3,4) _ _ u(2-5)] by metis
  ultimately show ?thesis using that [of p t u "settled m r m"] t(1,2,5-7) u(2) pause rest(3) act(5-7) by simp
qed

end

end
