(* ===== verification/Flow_Run.thy ===== *)
theory Flow_Run
  imports State_Tasks
begin

section \<open>Whole runs\<close>

text \<open>
  A fresh state passes its constructor, and a driver that follows \<open>nextAction\<close>, starts an Attempt at the named leaf
  and confirms it brings every state with a pending rest to its end, Task Gates included.
\<close>

definition fresh_attempt :: "CurrentFlowDefinition \<Rightarrow> flow_node \<Rightarrow> CurrentAttempt" where
  "fresh_attempt D n = \<lparr>cat_id = nd_id n @ ''-attempt'', cat_nodeId = nd_id n, cat_sequence = nd_attemptSequence n + 1,
     cat_startedAt = ''2026-01-01T00:00:00.000Z'', cat_consumption = \<lparr>atc_semantic = 0, atc_tooling = 0\<rparr>, cat_failure = None, cat_blocker = None,
     cat_incomplete = [], cat_operationClaims = [\<lparr>aoc_operation = ''execute'', aoc_resources =
       (case contractForNode D n of Inl e \<Rightarrow> [] | Inr c \<Rightarrow> rct_required (nct_resourceContract c))\<rparr>]\<rparr>"

fun run_flow :: "CurrentFlowDefinition \<Rightarrow> NodeResult \<Rightarrow> nat \<Rightarrow> CurrentFlowState \<Rightarrow> CurrentFlowState res" where
  "run_flow D r 0 s = Inr s"
| "run_flow D r (Suc k) s = bindE (nextAction D s) (\<lambda>d. case d of None \<Rightarrow> Inr s
     | Some d \<Rightarrow> bindE (startAttempt D s (nad_path d) (fresh_attempt D (nad_node d))) (\<lambda>t.
         bindE (confirmCurrentAttempt D t r ''done'' (gate_effect D t (nd_id (nad_node d))) None) (run_flow D r k)))"

lemma collect_materialize: "collectNodes (materialize d) = map materialize (collectDefinitionNodes [d])"
proof (induction d)
  case (DefNode kind i key c a steps)
  have "concat (map (collectNodes \<circ> materialize) ds) = map materialize (collectDefinitionNodes ds)" if "set ds \<subseteq> set steps" for ds
    using that
  proof (induction ds)
    case (Cons d ds)
    then show ?case using DefNode.IH [of d] collect_append [of "[d]" ds] by simp
  qed simp
  then show ?case by (simp add: comp_def)
qed

lemma materialize_fields: "nd_kind (materialize d) = dn_kind d" "nd_id (materialize d) = dn_id d" "nd_key (materialize d) = dn_key d"
  "nd_status (materialize d) = ''pending''" "nd_result (materialize d) = None" "nd_attemptSequence (materialize d) = 0"
  "nd_steps (materialize d) = map materialize (dn_steps d)"
  by (cases d; simp)+

lemma materialize_shape: "assertStaticShape D d (materialize d) = Inr ()"
proof (induction d)
  case (DefNode kind i key c a steps)
  have pair: "assertStaticShape D (fst p) (snd p) = Inr ()" if "fst p \<in> set steps" "snd p = materialize (fst p)" for p using DefNode.IH that by simp
  have "\<forall>p \<in> set (zip (take k steps) (map materialize steps)). fst p \<in> set steps \<and> snd p = materialize (fst p)"
    "\<forall>p \<in> set (zip (drop k steps) (drop k (map materialize steps))). fst p \<in> set steps \<and> snd p = materialize (fst p)"
    "\<forall>p \<in> set (zip steps (map materialize steps)). fst p \<in> set steps \<and> snd p = materialize (fst p)" for k
    by (auto simp: set_zip)
  then show ?case using pair by (simp add: eachE_ok Let_def)
qed

context definition_laws
begin

lemma fresh_ok:
  assumes "wf_state D s" "l \<in> set (collectNodes (cst_root s))"
  shows "assertInitialAttempt D l (fresh_attempt D l) = Inr ()"
proof -
  obtain d where d: "contractForNode D l = Inr (dn_contract d)" "d \<in> set (all_nodes D)" by (rule node_definition [OF assms])
  note b = budgets [OF d(2)]
  have "assertClaims (nct_resourceContract (dn_contract d)) (cat_operationClaims (fresh_attempt D l)) (cat_incomplete (fresh_attempt D l)) (nd_id l) = Inr ()"
    using b d(1) by (simp add: assertClaims_def fresh_attempt_def Let_def record_claims_ok filter_empty_conv)
  moreover have "atc_semantic (cat_consumption (fresh_attempt D l)) = 0" "atc_tooling (cat_consumption (fresh_attempt D l)) = 0"
    by (simp_all add: fresh_attempt_def)
  ultimately have "assertAttemptContractForLeaf D l (fresh_attempt D l) = Inr ()"
    using b d(1) by (auto simp: assertAttemptContractForLeaf_def split: option.splits)
  then show ?thesis by (simp add: assertInitialAttempt_def) (simp add: fresh_attempt_def)
qed

lemma run_completes:
  "wf_state D s \<Longrightarrow> paused_at s pre post \<Longrightarrow> plain_result r \<Longrightarrow>
     \<exists>t fin. run_flow D r (length post) s = Inr t \<and> wf_state D t \<and> paused_at t (pre @ fin) [] \<and> cst_outbox t = cst_outbox s"
proof (induction post arbitrary: s pre)
  case Nil
  then show ?case by (intro exI [of _ s] exI [of _ "[]"]) simp
next
  case (Cons l post)
  have at: "cst_current s = None" "state_leaves (cst_root s) = pre @ l # post" "list_all terminal pre" "nd_status l \<in> set EXECUTABLE_NODE_STATUSES"
    using Cons.prems(2) by (auto simp: paused_at_def executable_cases)
  have l: "l \<in> set (collectNodes (cst_root s))" using at(2) leaf_in [of l "cst_root s"] by auto
  obtain d where d: "nextAction D s = Inr (Some d)" "nad_node d = l" "findPathInRoot (nd_id l) [] (cst_root s) = Some (nad_path d)"
    by (rule next_at [OF Cons.prems(1) at])
  obtain p t u l' where u: "findPathInRoot (nd_id l) [] (cst_root s) = Some p" "startAttempt D s p (fresh_attempt D l) = Inr t"
    "confirmCurrentAttempt D t r ''done'' (gate_effect D t (nd_id l)) None = Inr u" "wf_state D u" "paused_at u (pre @ [l']) post" "cst_outbox u = cst_outbox s"
    by (rule leaf_step [OF Cons.prems(1,2) fresh_ok [OF Cons.prems(1) l] _ _ Cons.prems(3)]) (simp_all add: fresh_attempt_def)
  obtain v fin where v: "run_flow D r (length post) u = Inr v" "wf_state D v" "paused_at v ((pre @ [l']) @ fin) []" "cst_outbox v = cst_outbox u"
    using Cons.IH [OF u(4,5) Cons.prems(3)] by blast
  have "run_flow D r (length (l # post)) s = Inr v" using d u v(1) by simp
  then show ?case using v u(6) by (intro exI [of _ v] exI [of _ "l' # fin"]) simp
qed

lemma create_ok:
  obtains s where "create D i j = Inr s" "wf_state D s" "paused_at s [] (state_leaves (cst_root s))" "cst_outbox s = []" "cst_root s = materializeRoot D"
proof -
  let ?root = "materializeRoot D"
  define s where s: "s = \<lparr>cst_runId = i, cst_specId = j, cst_lifecycle = ''active'', cst_root = ?root, cst_current = None, cst_attempt = None, cst_outbox = []\<rparr>"
  have shape: "assertStateShape D ?root = Inr ()"
    using root_kind materialize_shape by (simp add: assertStateShape_def materializeRoot_def materialize_fields)
  have ids: "ids ?root = map dn_id (collectDefinitionNodes [cfd_root D])"
    by (simp add: materializeRoot_def collect_materialize materialize_fields comp_def)
  then have dis: "distinct (ids ?root)" using static_unique by simp
  have pend: "nd_status n = ''pending'' \<and> nd_result n = None \<and> nd_attemptSequence n = 0 \<and> node_check n = Inr () \<and> list_all (\<lambda>c. nd_status c = ''pending'') (nd_steps n)"
    if n: "n \<in> set (collectNodes ?root)" for n
  proof -
    obtain d where d: "n = materialize d" "d \<in> set (collectDefinitionNodes [cfd_root D])" using n by (auto simp: materializeRoot_def collect_materialize)
    then show ?thesis using node_fields [of d]
      by (simp add: materialize_fields node_check_def cfs_text_def cfs_integer_def max_safe_def CANONICAL_NODE_STATUSES_def all_nodes_def list_all_iff)
  qed
  have root: "cst_root s = ?root" by (simp add: s)
  have noskip: "\<not> noTestableRequirementSkips s"
  proof
    assume "noTestableRequirementSkips s"
    moreover obtain x where "x \<in> set REQUIREMENT_TEST_LEAF_IDS" by (auto simp: REQUIREMENT_TEST_LEAF_IDS_def)
    ultimately obtain n where n: "findNodeInRoot ?root x = Some n" "unexecuted_test_skip n"
      unfolding noTestableRequirementSkips_def list_all_iff root by (fastforce split: option.splits)
    then have "n \<in> set (collectNodes ?root)" by (auto simp: findNodeInRoot_def dest: find_hit)
    then show False using pend n(2) by (simp add: unexecuted_test_skip_def)
  qed
  have life: "node_life (state_options D s) n" "status_ok D n" if n: "n \<in> set (collectNodes ?root)" for n
  proof -
    have "\<not> lop_routeCompletion (state_options D s) n" using route_completion_skipped [of D s n] pend [OF n] by auto
    moreover have "\<not> lop_requirementTestSkip (state_options D s) n" using noskip by (simp add: state_options_def)
    ultimately have "assertLeafLifecycle (state_options D s) n = Inr ()" using pend [OF n]
      by (simp add: assertLeafLifecycle_def acceptedStepDecision_def has_completion_reference_def TERMINAL_NODE_STATUSES_def)
    then show "node_life (state_options D s) n" using pend [OF n] branch_pending [of n] by (simp add: node_life_def)
    obtain d where "contractForNode D n = Inr (dn_contract d)" using definition_of_node [OF shape dis n] by (auto simp: contractForNode_def)
    then show "status_ok D n" using pend [OF n] by (simp add: status_ok_def permitsStatus_def CANONICAL_NODE_STATUSES_def)
  qed
  have leaves: "list_all (\<lambda>m. nd_status m = ''pending'') (state_leaves ?root)" using pend by (auto simp: state_leaves_def list_all_iff)
  have "assertExecutionFrontier (state_leaves ?root) None nodes ret tail = Inr ()" for nodes ret tail
    using pending_suffix_frontier [of "[]" "state_leaves ?root"] leaves by simp
  then have "assertDefinitionExecutionCurrent D s = Inr ()"
    using leaves by (auto simp: assertDefinitionExecutionCurrent_def s Let_def filter_empty_conv list_all_iff)
  then have "wf_state D s" using shape dis pend life root_kind
    by (simp add: wf_state_def s LIFECYCLE_STATES_def materializeRoot_def materialize_fields)
  then have "create D i j = Inr s" using state_ok by (simp add: create_def s)
  then show ?thesis using that \<open>wf_state D s\<close> leaves by (simp add: paused_at_def s)
qed

lemma finalize_ok:
  assumes "wf_state D s" "paused_at s pre []" "cst_outbox s = []"
  shows "finalize D s = Inr (s\<lparr>cst_lifecycle := ''finalized''\<rparr>)"
proof -
  let ?t = "s\<lparr>cst_lifecycle := ''finalized''\<rparr>"
  have at: "state_leaves (cst_root s) = pre" "list_all terminal pre" "cst_current s = None" "cst_lifecycle s = ''active''"
    using assms(2) by (auto simp: paused_at_def)
  have e: "assertDefinitionExecutionCurrent D s = Inr ()" by (rule wf_stateD(3) [OF assms(1)])
  have none: "cst_attempt s = None" using e at(3) unfolding assertDefinitionExecutionCurrent_def Let_def
    by (auto split: if_splits)
  have fin: "\<not> list_ex (\<lambda>n. nd_status n \<notin> set TERMINAL_NODE_STATUSES) (state_leaves (cst_root s))"
    using at(1,2) by (auto simp: list_ex_iff list_all_iff terminal_def)
  have "alike s ?t" by (simp add: alike_def same_run_def settled_alike_def list_all2_same)
  moreover have "assertDefinitionExecutionCurrent D ?t = Inr ()"
  proof -
    have "assertExecutionFrontier (state_leaves (cst_root s)) None nodes ret tail = Inr ()" for nodes ret tail
      using pending_suffix_frontier [of pre "[]"] at(1,2) by simp
    moreover have "filter (\<lambda>n. nd_status n = ''in_progress'') (state_leaves (cst_root s)) = []"
      using at(1,2) by (auto simp: filter_empty_conv list_all_iff terminal_statuses)
    ultimately show ?thesis using at(3) none fin assms(3) by (simp add: assertDefinitionExecutionCurrent_def Let_def)
  qed
  ultimately have "wf_state D ?t"
    using wf_update [OF assms(1), of ?t] wf_stateD(4-6) [OF assms(1)] at(3) by (simp add: LIFECYCLE_STATES_def)
  then show ?thesis using at none fin state_ok by (simp add: finalize_def replaceLifecycle_def)
qed

end

end
