(* ===== verification/Attempt_Retries.thy ===== *)
theory Attempt_Retries
  imports State_Run Requirement_Test_Machine
begin

section \<open>The retry budget of an Attempt\<close>

text \<open>
  The operations on an active Attempt that keep its leaf: failing it, replacing its claims, and the three ways to
  retry it.  A retry consumes one unit of the budget of its leaf, so the machine of these operations is an
  instance of \<open>potential_machine\<close>.
\<close>

datatype attempt_event = Failed ActivityFailure NodeResult | Replaced CurrentAttempt | Retried CurrentAttempt string
  | GateRetried CurrentAttempt | RegressionRetried CurrentAttempt

fun attempt_apply :: "CurrentFlowDefinition \<Rightarrow> CurrentFlowState \<Rightarrow> attempt_event \<Rightarrow> CurrentFlowState res" where
  "attempt_apply D s (Failed f r) = failCurrentAttempt D s f r"
| "attempt_apply D s (Replaced a) = replaceCurrentAttempt D s a"
| "attempt_apply D s (Retried a kind) = retryCurrentAttempt D s a kind"
| "attempt_apply D s (GateRetried a) = retryGateAttempt D s a"
| "attempt_apply D s (RegressionRetried a) = retryFinalRegressionAttempt D s a"

definition attempt_step :: "CurrentFlowDefinition \<Rightarrow> CurrentFlowState \<Rightarrow> attempt_event \<Rightarrow> CurrentFlowState \<Rightarrow> bool" where
  "attempt_step D s e t \<longleftrightarrow> attempt_apply D s e = Inr t"

fun is_retry :: "attempt_event \<Rightarrow> bool" where
  "is_retry (Failed f r) = False"
| "is_retry (Replaced a) = False"
| "is_retry e = True"

definition retry_budget :: "NodeContract \<Rightarrow> int" where
  "retry_budget c = nct_semanticRetryLimit c + (case nct_toolingRetryLimit c of None \<Rightarrow> 0 | Some m \<Rightarrow> m)"

definition spent :: "CurrentAttempt \<Rightarrow> int" where
  "spent a = atc_semantic (cat_consumption a) + atc_tooling (cat_consumption a)"

definition active_contract :: "CurrentFlowDefinition \<Rightarrow> CurrentFlowState \<Rightarrow> NodeContract res" where
  "active_contract D s = (case cst_current s of None \<Rightarrow> Inl (Error []) | Some p \<Rightarrow> bindE (nodeAtPath (cst_root s) p) (contractForNode D))"

definition remaining_budget :: "CurrentFlowDefinition \<Rightarrow> CurrentFlowState \<Rightarrow> nat" where
  "remaining_budget D s = (case (active_contract D s, cst_attempt s) of (Inr c, Some a) \<Rightarrow> nat (retry_budget c - spent a) | _ \<Rightarrow> 0)"

lemma within_budget:
  assumes "contractForNode D l = Inr c" "assertAttemptContractForLeaf D l a = Inr ()"
  shows "atc_semantic (cat_consumption a) \<le> nct_semanticRetryLimit c" "atc_tooling (cat_consumption a) \<le> (case nct_toolingRetryLimit c of None \<Rightarrow> 0 | Some m \<Rightarrow> m)"
    "spent a \<le> retry_budget c"
  using assms by (auto simp: assertAttemptContractForLeaf_def retry_budget_def spent_def split: if_splits option.splits)

text \<open>An Attempt operation replaces the Attempt, and the tree keeps its shape, paths and cursor.\<close>

definition attempt_replaced :: "CurrentFlowDefinition \<Rightarrow> CurrentFlowState \<Rightarrow> CurrentAttempt \<Rightarrow> CurrentFlowState \<Rightarrow> bool" where
  "attempt_replaced D s a t \<longleftrightarrow> (\<exists>root. skel root = skel (cst_root s) \<and> replaceRoot D s root (cst_current s) (Some a) = Inr t)"

lemma retry_replaces:
  assumes "replaceFailedAttemptForRetry D s a kind = Inr t" "wf_state D s"
  shows "\<exists>l b. nodeAtPath (cst_root s) (the (cst_current s)) = Inr l \<and> cst_attempt s = Some b \<and> attempt_replaced D s a t
    \<and> assertAttemptContractForLeaf D l a = Inr () \<and> spent a = spent b + 1"
proof -
  obtain p b l f where b: "cst_current s = Some p" "cst_attempt s = Some b" "nodeAtPath (cst_root s) p = Inr l"
    "assertRetryAttempt D l a b kind = Inr ()"
    "replaceRoot D s (replaceNode (nd_id l) (with_sequence l (cat_sequence a)) (cst_root s)) (cst_current s) (Some a) = Inr t"
    using assms(1) by (auto simp: replaceFailedAttemptForRetry_def split: option.splits if_splits)
  have "findPathInRoot (last p) [] (cst_root s) = Some p" by (rule wf_stateD(8) [OF assms(2) b(1)])
  then obtain m where m: "m \<in> set (collectNodes (cst_root s))" "nd_id m = last p" using path_none [of "last p" "[]" "cst_root s"] by auto
  with path_at [OF wf_stateD(1) [OF assms(2)] this(1)] wf_stateD(8) [OF assms(2) b(1)] have "nodeAtPath (cst_root s) p = Inr m" by (metis option.inject)
  then have l: "l \<in> set (collectNodes (cst_root s))" using m(1) b(3) by simp
  have "skel (replaceNode (nd_id l) (with_sequence l (cat_sequence a)) (cst_root s)) = skel (cst_root s)"
    using replace_tmap [OF wf_stateD(1) [OF assms(2)] l] by (simp add: with_sequence_def)
  then have "attempt_replaced D s a t" using b(5) by (auto simp: attempt_replaced_def)
  moreover have "assertAttemptContractForLeaf D l a = Inr ()" "spent a = spent b + 1"
    using b(4) by (auto simp: assertRetryAttempt_def Let_def spent_def split: if_splits)
  ultimately show ?thesis using b(1-3) by auto
qed

lemma retry_event:
  assumes "replaceFailedAttemptForRetry D s a kind = Inr t" "wf_state D s" "is_retry e"
  shows "\<exists>l a b. nodeAtPath (cst_root s) (the (cst_current s)) = Inr l \<and> cst_attempt s = Some b \<and> attempt_replaced D s a t
    \<and> assertAttemptContractForLeaf D l a = Inr () \<and> spent a = spent b + (if is_retry e then 1 else 0)"
  unfolding if_P [OF assms(3)] using retry_replaces [OF assms(1,2)] by blast

lemma attempt_replaces:
  assumes "attempt_apply D s e = Inr t" "wf_state D s"
  shows "\<exists>l a b. nodeAtPath (cst_root s) (the (cst_current s)) = Inr l \<and> cst_attempt s = Some b \<and> attempt_replaced D s a t
    \<and> assertAttemptContractForLeaf D l a = Inr () \<and> spent a = spent b + (if is_retry e then 1 else 0)"
proof (cases e)
  case (Failed f r)
  let ?a = "\<lambda>b. b\<lparr>cat_failure := Some f\<rparr>"
  obtain p b l where b: "cst_current s = Some p" "cst_attempt s = Some b" "nodeAtPath (cst_root s) p = Inr l" "assertAttemptContractForLeaf D l (?a b) = Inr ()"
    "replaceRoot D s (cst_root s) (cst_current s) (Some (?a b)) = Inr t"
    using assms(1) Failed by (auto simp: failCurrentAttempt_def Let_def split: option.splits if_splits)
  then have "attempt_replaced D s (?a b) t" "spent (?a b) = spent b" by (auto simp: attempt_replaced_def spent_def)
  then show ?thesis using b Failed by (intro exI [of _ l] exI [of _ "?a b"] exI [of _ b]) simp
next
  case (Replaced a)
  obtain p b l where b: "cst_current s = Some p" "cst_attempt s = Some b" "nodeAtPath (cst_root s) p = Inr l" "assertAttemptContractForLeaf D l a = Inr ()"
    "cat_consumption a = cat_consumption b" "replaceRoot D s (cst_root s) (cst_current s) (Some a) = Inr t"
    using assms(1) Replaced by (auto simp: replaceCurrentAttempt_def split: option.splits if_splits)
  then have "attempt_replaced D s a t" "spent a = spent b" by (auto simp: attempt_replaced_def spent_def)
  then show ?thesis using b Replaced by (intro exI [of _ l] exI [of _ a] exI [of _ b]) simp
next
  case (Retried a kind)
  then have "replaceFailedAttemptForRetry D s a kind = Inr t" using assms(1) by (auto simp: retryCurrentAttempt_def split: option.splits if_splits)
  then show ?thesis using retry_event [OF _ assms(2), of _ _ _ e] Retried by simp
next
  case (GateRetried a)
  then have "replaceFailedAttemptForRetry D s a ''semantic'' = Inr t"
    using assms(1) by (auto simp: retryGateAttempt_def Let_def split: option.splits if_splits)
  then show ?thesis using retry_event [OF _ assms(2), of _ _ _ e] GateRetried by simp
next
  case (RegressionRetried a)
  then have "replaceFailedAttemptForRetry D s a ''semantic'' = Inr t"
    using assms(1) by (auto simp: retryFinalRegressionAttempt_def Let_def split: option.splits if_splits)
  then show ?thesis using retry_event [OF _ assms(2), of _ _ _ e] RegressionRetried by simp
qed

context definition_laws
begin

lemma attempt_replaced_state:
  assumes "wf_state D s" "cst_current s = Some p" "attempt_replaced D s a t"
  shows "wf_state D t" "cst_current t = Some p" "cst_attempt t = Some a" "active_contract D t = active_contract D s"
proof -
  obtain root where root: "skel root = skel (cst_root s)" "replaceRoot D s root (Some p) (Some a) = Inr t"
    using assms(2,3) by (auto simp: attempt_replaced_def)
  let ?n = "s\<lparr>cst_root := root, cst_current := Some p, cst_attempt := Some a\<rparr>"
  have c: "t = ?n\<lparr>cst_current := cst_current t\<rparr> \<and> map_option last (cst_current t) = map_option last (cst_current ?n) \<and> wf_state D t"
    using root(2) unfolding replaceRoot_def constructed .
  have t: "t = ?n\<lparr>cst_current := cst_current t\<rparr>" by (rule conjunct1 [OF c])
  have la: "map_option last (cst_current t) = Some (last p)" using conjunct1 [OF conjunct2 [OF c]] by simp
  have wf: "wf_state D t" using c by blast
  show "wf_state D t" by (rule wf)
  obtain q where q: "cst_current t = Some q" "last q = last p" using la by auto
  have rt: "cst_root t = root" "cst_attempt t = Some a" by (subst t, simp)+
  have "findPathInRoot (last p) [] (cst_root t) = Some q" "findPathInRoot (last p) [] (cst_root s) = Some p"
    using wf_stateD(8) [OF wf q(1)] wf_stateD(8) [OF assms(1,2)] q(2) by simp_all
  then show cur: "cst_current t = Some p" using skel_paths [OF root(1)] rt(1) q(1) by simp
  show "cst_attempt t = Some a" by (rule rt(2))
  obtain l where l: "nodeAtPath (cst_root s) p = Inr l" "l \<in> set (collectNodes (cst_root s))" "last p = nd_id l" by (rule active_leaf [OF assms(1,2)])
  obtain m where m: "nodeAtPath (cst_root t) p = Inr m" "m \<in> set (collectNodes (cst_root t))" "last p = nd_id m" by (rule active_leaf [OF wf cur])
  have "skel m = skel l"
  proof -
    have "map skel (collectNodes (cst_root t)) = map skel (collectNodes (cst_root s))" using collect_skel root(1) rt(1) by metis
    then obtain l' where l': "l' \<in> set (collectNodes (cst_root s))" "skel l' = skel m" using m(2) by (metis (no_types, lifting) image_iff list.set_map)
    then have "nd_id l' = nd_id l" using skel_same [of l' m] l(3) m(3) by simp
    then show ?thesis using same_node [OF wf_stateD(1) [OF assms(1)] l'(1) l(2)] l'(2) by simp
  qed
  then have "contractForNode D m = contractForNode D l" by (rule contractForNode_skel)
  then show "active_contract D t = active_contract D s" unfolding active_contract_def cur assms(2) option.case l(1) m(1) bindE.simps .
qed

lemma attempt_advances:
  assumes "wf_state D s" "cst_current s = Some p" "attempt_step D s e t"
  shows "wf_state D t" "cst_current t = Some p" "remaining_budget D s = remaining_budget D t + (if is_retry e then 1 else 0)"
proof -
  obtain l a b where x: "nodeAtPath (cst_root s) (the (cst_current s)) = Inr l" "cst_attempt s = Some b" "attempt_replaced D s a t"
    "assertAttemptContractForLeaf D l a = Inr ()" "spent a = spent b + (if is_retry e then 1 else 0)"
    using attempt_replaces [of D s e t] assms(1,3) by (auto simp: attempt_step_def)
  note st = attempt_replaced_state [OF assms(1,2) x(3)]
  show "wf_state D t" "cst_current t = Some p" by (rule st)+
  obtain c where c: "contractForNode D l = Inr c" using x(4) by (auto simp: assertAttemptContractForLeaf_def)
  then have "active_contract D s = Inr c" using x(1) assms(2) by (simp add: active_contract_def)
  moreover have "spent a \<le> retry_budget c" by (rule within_budget(3) [OF c x(4)])
  ultimately show "remaining_budget D s = remaining_budget D t + (if is_retry e then 1 else 0)"
    using st(3,4) x(2,5) by (cases "is_retry e") (simp_all add: remaining_budget_def)
qed

text \<open>Recording a failure replaces the Attempt only, so it is always accepted.\<close>

lemma attempt_changed:
  assumes "wf_state D s" "cst_current s = Some p" "cst_attempt s = Some a" "nodeAtPath (cst_root s) p = Inr l"
    "cat_nodeId b = cat_nodeId a" "cat_sequence b = cat_sequence a" "assertAttemptContractForLeaf D l b = Inr ()"
  shows "wf_state D (s\<lparr>cst_attempt := Some b\<rparr>)"
proof -
  let ?t = "s\<lparr>cst_attempt := Some b\<rparr>"
  have alike: "alike s ?t" by (simp add: alike_def same_run_def settled_alike_def list_all2_same)
  have ret: "allowsRetainedRouteSourceCompletion D s = allowsRetainedRouteSourceCompletion D ?t"
    using retained_alike [OF alike refl] by (intro ext)
  have root: "cst_root ?t = cst_root s" "cst_current ?t = Some p" "cst_attempt ?t = Some b" "cst_lifecycle ?t = cst_lifecycle s" "cst_outbox ?t = cst_outbox s"
    using assms(2) by simp_all
  have tail: "allowsUnexecutedRouteTail D s = allowsUnexecutedRouteTail D ?t"
    unfolding allowsUnexecutedRouteTail_def leaf_index_def ret root(1) ..
  have "assertDefinitionExecutionCurrent D ?t = assertDefinitionExecutionCurrent D s"
    using wf_stateD(3) [OF assms(1)] assms(4-7)
    unfolding assertDefinitionExecutionCurrent_def Let_def ret [symmetric] tail [symmetric] root assms(2,3)
    by (auto split: if_splits)
  then show ?thesis
    using wf_update [OF assms(1) alike] wf_stateD [OF assms(1)] assms(1) by (auto simp: wf_state_def)
qed

lemma fail_ok:
  assumes "wf_state D s" "cst_lifecycle s = ''active''" "cst_current s = Some p" "cst_attempt s = Some a" "cat_failure a = None"
    "nrs_outcome r = (if cat_incomplete a = [] then ''failed'' else ''incomplete'')"
  shows "failCurrentAttempt D s f r = Inr (s\<lparr>cst_attempt := Some (a\<lparr>cat_failure := Some f\<rparr>)\<rparr>)"
proof -
  let ?a = "a\<lparr>cat_failure := Some f\<rparr>"
  obtain l where l: "nodeAtPath (cst_root s) p = Inr l" "l \<in> set (collectNodes (cst_root s))" "last p = nd_id l" by (rule active_leaf [OF assms(1,3)])
  have "assertAttemptContractForLeaf D l a = Inr ()"
    using wf_stateD(3) [OF assms(1)] assms(3,4) l(1) by (simp add: assertDefinitionExecutionCurrent_def Let_def split: if_splits)
  moreover have "cat_consumption ?a = cat_consumption a" "cat_operationClaims ?a = cat_operationClaims a" "cat_incomplete ?a = cat_incomplete a" by simp_all
  ultimately have c: "assertAttemptContractForLeaf D l ?a = Inr ()" unfolding assertAttemptContractForLeaf_def by metis
  have "wf_state D (s\<lparr>cst_attempt := Some ?a\<rparr>)" by (rule attempt_changed [OF assms(1,3,4) l(1) _ _ c]) simp_all
  moreover have "s\<lparr>cst_root := cst_root s, cst_current := Some p, cst_attempt := Some ?a\<rparr> = s\<lparr>cst_attempt := Some ?a\<rparr>" using assms(3) by simp
  ultimately have "replaceRoot D s (cst_root s) (Some p) (Some ?a) = Inr (s\<lparr>cst_attempt := Some ?a\<rparr>)"
    by (metis replaceRoot_ok)
  moreover have "assertExecutionActive D s = Inr ()"
    using handler_ok(1) [OF assms(1) l(2)] l(3) assms(2,3) by (simp add: assertExecutionActive_def cursor_id_def)
  ultimately show ?thesis using assms(3-6) l(1) c by (simp add: failCurrentAttempt_def Let_def)
qed

sublocale retries: potential_machine "attempt_step D" "\<lambda>s. wf_state D s \<and> cst_current s \<noteq> None" is_retry "remaining_budget D"
proof
  fix s e t assume "wf_state D s \<and> cst_current s \<noteq> None" "attempt_step D s e t"
  then obtain p where p: "wf_state D s" "cst_current s = Some p" "attempt_step D s e t" by blast
  note adv = attempt_advances [OF p]
  show "wf_state D t \<and> cst_current t \<noteq> None" using adv(1,2) by simp
  show "remaining_budget D t < remaining_budget D s" if "is_retry e" using adv(3) that by simp
  show "remaining_budget D t \<le> remaining_budget D s" using adv(3) by simp
qed

end

end
