(* ===== verification/Built_Laws.thy ===== *)
theory Built_Laws
  imports Flow_Run Attempt_Retries
begin

section \<open>The definition of the program satisfies the laws\<close>

text \<open>
  \<open>built_definition\<close>, the value of \<open>buildCurrentFlowDefinition\<close>, is an instance of \<open>definition_laws\<close>.
\<close>

lemma adapted_cases:
  "x \<in> set (collectDefinitionNodes (adapted scopes scope ns)) \<Longrightarrow>
   (\<exists>n. Node n None \<in> set (preorder ns) \<and> x = adapted_leaf scopes scope n) \<or>
   (\<exists>n cs. Node n (Some cs) \<in> set (preorder ns) \<and> x = DefNode ''step'' (fn_id n) (fn_id n) (contract_of n scope) None (adapted scopes scope cs))"
proof (induction scopes scope ns rule: adapted.induct)
  case (2 scopes scope n ns)
  then show ?case by (auto simp: adapted_leaf_def)
next
  case (3 scopes scope n cs ns)
  then show ?case by (auto simp: preorder.simps)
qed simp

lemma nodes_ready_each: "nodes_ready scope ns \<Longrightarrow> m \<in> set (preorder ns) \<Longrightarrow> node_ready scope m"
  by (induction scope ns rule: nodes_ready.induct) auto

lemma flow_branch_nodes:
  "list_all (\<lambda>m. node_children m = None \<or> fn_id (node_data m) \<in> {''plan'', ''impl'', ''finalize''} \<and> \<not> fn_skippable (node_data m)) (preorder FLOW_DEFINITION)"
  by (simp add: definition_defs)

text \<open>The nodes of the built definition: the root, the template, and the adapted nodes.\<close>

lemma built_node_cases:
  assumes "d \<in> set (all_nodes built_definition)"
  obtains "dn_contract d = flow_contract" "dn_kind d \<in> {''flow'', ''task''}" "dn_id d \<in> {''flow'', ''task''}" "dn_key d \<in> {''flow'', ''task''}" "dn_steps d \<noteq> []"
  | s n scope where "d = adapted_leaf s scope n" "leaf_ready n scope"
  | n cs s where "d = DefNode ''step'' (fn_id n) (fn_id n) (contract_of n ''flow'') None (adapted s ''flow'' cs)" "branch_ready n ''flow''" "cs \<noteq> []"
      "fn_id n \<in> {''plan'', ''impl'', ''finalize''}" "\<not> skippable_node n ''flow''"
proof -
  have root: "cfd_root built_definition = flow_root" "cfd_taskTemplate built_definition = task_template" by (simp_all add: built_definition_def)
  have ne: "FLOW_DEFINITION \<noteq> []" "TASK_DEFINITION \<noteq> []" by (simp_all add: FLOW_DEFINITION_def TASK_DEFINITION_def)
  consider "d = flow_root \<or> d = task_template" | "d \<in> set (collectDefinitionNodes (adapted [''all_tasks'', ''flow''] ''flow'' FLOW_DEFINITION))"
    | "d \<in> set (map (adapted_leaf [''same_task'', ''flow''] ''task'') (leaves TASK_DEFINITION))"
    using assms unfolding all_nodes_def root template_nodes by (auto simp: flow_root_def)
  then show ?thesis
  proof cases
    case 1
    then show ?thesis by (intro that(1)) (auto simp: flow_root_def task_template_def adapted_Nil ne)
  next
    case 2
    from adapted_cases [OF this] show ?thesis
    proof
      assume "\<exists>n. Node n None \<in> set (preorder FLOW_DEFINITION) \<and> d = adapted_leaf [''all_tasks'', ''flow''] ''flow'' n"
      then obtain n where n: "Node n None \<in> set (preorder FLOW_DEFINITION)" "d = adapted_leaf [''all_tasks'', ''flow''] ''flow'' n" by blast
      then show ?thesis using that(2) nodes_ready_each [OF flow_nodes_ready n(1)] by simp
    next
      assume "\<exists>n cs. Node n (Some cs) \<in> set (preorder FLOW_DEFINITION) \<and>
        d = DefNode ''step'' (fn_id n) (fn_id n) (contract_of n ''flow'') None (adapted [''all_tasks'', ''flow''] ''flow'' cs)"
      then obtain n cs where n: "Node n (Some cs) \<in> set (preorder FLOW_DEFINITION)"
        "d = DefNode ''step'' (fn_id n) (fn_id n) (contract_of n ''flow'') None (adapted [''all_tasks'', ''flow''] ''flow'' cs)" by blast
      have id: "fn_id n \<in> {''plan'', ''impl'', ''finalize''}" "\<not> fn_skippable n" using flow_branch_nodes n(1) by (auto simp: list_all_iff)
      have "getFlowNode (fn_id n) = Inr (Some (Node n (Some cs)))" using getFlowNode_unique [OF n(1)] by simp
      then have "\<not> skippable_node n ''flow''" using id
        by (auto simp: skippable_node_def definitionNodeIsSkippable_def scopeNode_def ADVISORY_SKIPPABLE_LEAF_IDS_def)
      then show ?thesis using that(3) [OF n(2)] nodes_ready_each [OF flow_nodes_ready n(1)] id(1) by simp
    qed
  next
    case 3
    then obtain n where n: "n \<in> set (leaves TASK_DEFINITION)" "d = adapted_leaf [''same_task'', ''flow''] ''task'' n" by auto
    have "Node n None \<in> set (preorder TASK_DEFINITION)" using n(1) by (auto simp: TASK_DEFINITION_def leaf_def)
    then show ?thesis using that(2) [OF n(2)] nodes_ready_each [OF task_nodes_ready] by fastforce
  qed
qed

lemma transitions_always: "x \<in> {''pending'', ''invalidated'', ''done'', ''skipped''} \<Longrightarrow> x @ '':in_progress'' \<in> set (transitionsFor f)" "''in_progress:done'' \<in> set (transitionsFor f)"
  by (auto simp: transitionsFor_def)

lemma transitions_not_archived: "\<not> list_ex (\<lambda>t. ends_with t '':archived'') (transitionsFor f)"
  by (simp add: transitionsFor_def bypass_def ends_with_def)

lemma transitions_not_skipped:
  "\<not> (tfl_skippable f \<or> tfl_triageNoRepair f \<or> tfl_taskStageBypass f \<or> tfl_draftReviewBypass f \<or> tfl_gateRepairBypass f
     \<or> tfl_conditionalWorker f \<or> tfl_requirementTestInitialization f \<or> tfl_finalizationRoute f) \<Longrightarrow>
   \<not> list_ex (\<lambda>t. ends_with t '':skipped'') (transitionsFor f)"
  by (simp add: transitionsFor_def bypass_def ends_with_def)

lemma built_transitions:
  assumes "d \<in> set (all_nodes built_definition)"
  obtains f where "nct_transitions (dn_contract d) = transitionsFor f"
  using assms by (cases rule: built_node_cases) (auto simp: flow_contract_def contract_of_def adapted_leaf_def)

lemma built_branch:
  assumes "d \<in> set (all_nodes built_definition)" "dn_steps d \<noteq> []"
  shows "\<not> permitsStatus (dn_contract d) ''skipped''"
  using assms(1)
proof (cases rule: built_node_cases)
  case 1
  then show ?thesis using transitions_not_skipped [of no_flags] by (simp add: permitsStatus_def flow_contract_def no_flags_def)
next
  case (2 s n scope)
  then show ?thesis using assms(2) by (simp add: adapted_leaf_def)
next
  case (3 n cs s)
  have "completion_authorities n ''flow'' = Inr []"
    using 3(4) by (auto simp: completion_authorities_def IMPL_REVIEW_UNEXECUTED_COMPLETION_LEAF_IDS_def)
  moreover have "\<not> list_ex (\<lambda>t. ends_with t '':skipped'') (transitionsFor (node_flags n ''flow'' (skippable_node n ''flow'')))"
    using 3(4,5) by (intro transitions_not_skipped)
      (auto simp: node_flags_def isConditionalDraftWorkerStep_def REQUIREMENT_TEST_LEAF_IDS_def DRAFT_QUESTIONS_ROUTE_def DRAFT_COVERAGE_ROUTE_def)
  ultimately show ?thesis using 3(1) by (simp add: permitsStatus_def contract_of_def authorities_def)
qed

lemma leaf_ready_id: "leaf_ready n scope \<Longrightarrow> js_trim (fn_id n) \<noteq> []"
  by (simp add: leaf_ready_def)

lemma contract_budgets:
  "contract_ready n scope \<Longrightarrow> 0 \<le> nct_semanticRetryLimit (contract_of n scope)
     \<and> pred_option (\<lambda>m. 0 \<le> m) (nct_toolingRetryLimit (contract_of n scope)) \<and> distinct (rct_required (nct_resourceContract (contract_of n scope)))"
  by (cases "fn_toolingMaxAttempts n") (auto simp: contract_of_def contract_ready_def attempts_ok_def)

lemma built_container:
  assumes "d \<in> set (collectDefinitionNodes [flow_root])" "dn_id d = ''impl''"
  shows "task_start built_definition (dn_steps d) < length (dn_steps d)"
proof -
  obtain x y where xy: "FLOW_DEFINITION = [Node x (Some plan_steps), Node y (Some impl_steps)]" "fn_id y = ''impl''"
    by (simp add: FLOW_DEFINITION_def branch_def)
  obtain n m ns where n: "impl_steps = Node n None # m # ns" "fn_id n = ''implement''" by (simp add: impl_steps_def leaf_def)
  let ?A = "adapted [''all_tasks'', ''flow''] ''flow''"
  let ?c = "DefNode ''step'' ''impl'' ''impl'' (contract_of y ''flow'') None (?A impl_steps)"
  have c: "?c \<in> set (collectDefinitionNodes [flow_root])" unfolding flow_root_def xy(1) using xy(2) by (simp add: collect_append)
  have "find (\<lambda>n. dn_id n = ''impl'') (collectDefinitionNodes [flow_root]) = Some ?c" using find_distinct [OF static_distinct c] by simp
  moreover have "find (\<lambda>n. dn_id n = ''impl'') (collectDefinitionNodes [flow_root]) = Some d" using find_distinct [OF static_distinct assms(1)] assms(2) by simp
  ultimately have d: "dn_steps d = ?A impl_steps" by auto
  have "index_of ''implement'' (map dn_id (?A impl_steps)) = Some 0" unfolding n(1) using n(2) by (simp add: adapted_leaf_def index_of_def)
  moreover have "2 \<le> length (?A impl_steps)" unfolding n(1) using adapted_Nil [of "[''all_tasks'', ''flow'']" "''flow''" "m # ns"]
    by (cases "?A (m # ns)") simp_all
  ultimately show ?thesis unfolding d by (simp add: task_start_def built_definition_def)
qed

interpretation built: definition_laws built_definition
proof
  show "distinct (map dn_id (collectDefinitionNodes [cfd_root built_definition]))" using static_distinct by (simp add: built_definition_def)
  show "dn_kind (cfd_root built_definition) = ''flow''" by (simp add: built_definition_def flow_root_def)
  show "map dn_id (dn_steps (cfd_taskTemplate built_definition)) = map (\<lambda>r. ''task-'' @ r) [''impl'', ''review'', ''triage'', ''repair'', ''gate'']"
    by (simp add: built_definition_def task_template_def TASK_DEFINITION_def leaf_def adapted_leaf_def)
  show "dn_steps (cfd_taskTemplate built_definition) \<noteq> []" by (simp add: built_definition_def task_template_def adapted_Nil TASK_DEFINITION_def)
  show "distinct (map dn_key (collectDefinitionNodes [cfd_taskTemplate built_definition]))"
  proof -
    have id: "dn_key \<circ> adapted_leaf s c = node_key" for s c by (auto simp: adapted_leaf_def)
    show ?thesis unfolding built_definition_def CurrentFlowDefinition.simps template_nodes
      by (simp add: task_template_def id) (simp add: definition_defs node_key_def)
  qed
next
  fix d assume d: "d \<in> set (collectDefinitionNodes [cfd_root built_definition])" "dn_id d = cfd_dynamicTaskContainerId built_definition"
  then show "task_start built_definition (dn_steps d) < length (dn_steps d)" by (intro built_container) (simp_all add: built_definition_def)
next
  fix d assume "d \<in> set (collectDefinitionNodes [cfd_root built_definition])"
  then show "dn_kind d \<noteq> ''task''"
    using adapted_kinds [of "[''all_tasks'', ''flow'']" "''flow''" FLOW_DEFINITION] by (auto simp: built_definition_def flow_root_def list_all_iff)
next
  fix d assume d: "d \<in> set (dn_steps (cfd_taskTemplate built_definition))"
  then show "dn_steps d = []" by (simp add: built_definition_def task_template_def TASK_DEFINITION_def leaf_def adapted_leaf_def) auto
next
  fix d x assume d: "d \<in> set (all_nodes built_definition)" and x: "x \<in> {''pending'', ''invalidated'', ''done'', ''skipped''}"
  obtain f where "nct_transitions (dn_contract d) = transitionsFor f" by (rule built_transitions [OF d])
  then show "permits (dn_contract d) x ''in_progress''" using transitions_always(1) [OF x] by (simp add: permits_def)
next
  fix d assume d: "d \<in> set (all_nodes built_definition)"
  obtain f where f: "nct_transitions (dn_contract d) = transitionsFor f" by (rule built_transitions [OF d])
  then show "permits (dn_contract d) ''in_progress'' ''done''" using transitions_always(2) by (simp add: permits_def)
  show "\<not> permitsStatus (dn_contract d) ''archived''" using f transitions_not_archived by (simp add: permitsStatus_def)
  show "dn_steps d \<noteq> [] \<Longrightarrow> \<not> permitsStatus (dn_contract d) ''skipped''" by (rule built_branch [OF d])
  show "dn_kind d \<in> set NODE_KINDS \<and> js_trim (dn_id d) \<noteq> [] \<and> js_trim (dn_key d) \<noteq> []"
    using d by (cases rule: built_node_cases)
      (auto simp: NODE_KINDS_def adapted_leaf_def branch_ready_def trim_text js_ws_def node_key_filled leaf_ready_id)
  show "0 \<le> nct_semanticRetryLimit (dn_contract d) \<and> pred_option (\<lambda>m. 0 \<le> m) (nct_toolingRetryLimit (dn_contract d))
      \<and> distinct (rct_required (nct_resourceContract (dn_contract d)))"
    using d by (cases rule: built_node_cases) (simp_all add: flow_contract_def adapted_leaf_def leaf_ready_def branch_ready_def contract_budgets)
  show "dn_steps d = [] \<Longrightarrow> dn_action d \<noteq> None"
    using d by (cases rule: built_node_cases) (auto simp: adapted_leaf_def adapted_Nil)
qed

end
