(* ===== verification/Flow_State_Properties.thy ===== *)
theory Flow_State_Properties
  imports Built_Laws
begin

section \<open>Properties of the canonical state\<close>

text \<open>
  The claims on \<open>CurrentFlowState\<close> with the definition \<open>buildCurrentFlowDefinition\<close> returns.  A state is
  accepted when its constructor returns it; the laws of \<open>definition_laws\<close> are used through their
  interpretation \<open>built\<close>.
\<close>

subsection \<open>A sample result and a sample Attempt\<close>

definition sample_result :: NodeResult where
  "sample_result = \<lparr>nrs_outcome = ''passed'', nrs_summary = ''done'', nrs_confirmedAt = ''2026-01-01T00:00:00.000Z'',
     nrs_artifactRefs = [], nrs_stepResult = None, nrs_receipt = None\<rparr>"

lemma sample_result_plain: "plain_result sample_result"
  by (simp add: plain_result_def sample_result_def)

lemma fresh_leaves: "map nd_id (state_leaves (materializeRoot built_definition)) = flow_leaf_ids"
proof -
  have leaf: "leaf_node \<circ> materialize = (\<lambda>d. dn_steps d = [])" by (auto simp: leaf_node_def materialize_fields)
  have "state_leaves (materializeRoot built_definition) = map materialize (definition_leaves (collectDefinitionNodes [flow_root]))"
    by (simp add: state_leaves_def materializeRoot_def built_definition_def collect_materialize filter_map leaf definition_leaves_def)
  then have "map nd_id (state_leaves (materializeRoot built_definition)) = map dn_id (definition_leaves (collectDefinitionNodes [flow_root]))"
    by (simp add: comp_def materialize_fields)
  then show ?thesis unfolding static_leaves flow_leaf_nodes_ids .
qed

text \<open>The fresh state, as the constructor returns it.\<close>

lemma fresh_state:
  obtains s l post where "create built_definition i j = Inr s" "new_CurrentFlowState built_definition s = Inr s"
    "state_leaves (cst_root s) = l # post" "paused_at s [] (l # post)" "cst_outbox s = []" "length (l # post) = length flow_leaf_ids"
    "map nd_id (l # post) = flow_leaf_ids"
proof -
  obtain s where s: "create built_definition i j = Inr s" "wf_state built_definition s" "paused_at s [] (state_leaves (cst_root s))"
    "cst_outbox s = []" "cst_root s = materializeRoot built_definition" by (rule built.create_ok)
  obtain l post where l: "state_leaves (cst_root s) = l # post" using state_leaves_nonempty [of "cst_root s"] by (cases "state_leaves (cst_root s)") auto
  have ids: "map nd_id (l # post) = flow_leaf_ids" using fresh_leaves s(5) l by simp
  then have "length (l # post) = length flow_leaf_ids" by (metis length_map)
  then show ?thesis using that s state_ok l ids by simp
qed

lemma idle_attempt: "wf_state D s \<Longrightarrow> cst_current s = None \<Longrightarrow> cst_attempt s = None"
  using wf_stateD(3) [of D s] unfolding assertDefinitionExecutionCurrent_def Let_def by (auto split: if_splits)

lemma inactive: "cst_lifecycle s \<noteq> ''active'' \<Longrightarrow> \<exists>e. assertExecutionActive D s = Inl e"
  by (cases "assertTransitionHandler D s (cursor_id s)") (simp_all add: assertExecutionActive_def)

lemma refused: "m = Inl e \<Longrightarrow> isl (bindE m f)"
  by simp

lemma inactive_refused:
  assumes "cst_lifecycle s \<noteq> ''active''"
  shows "isl (startAttempt D s p a)" "isl (attempt_apply D s ev)" "isl (confirmCurrentAttempt D s r st g b)" "isl (addTask D s i k)"
proof -
  obtain e where e: "assertExecutionActive D s = Inl e" using inactive [OF assms] by blast
  have act: "activateAttempt D s p a xs y = Inl e" for xs y unfolding activateAttempt_def e by simp
  show "isl (startAttempt D s p a)" unfolding startAttempt_def act by (cases "nextExecutableLeaf D (cst_root s)") simp_all
  have ret: "replaceFailedAttemptForRetry D s n kind = Inl e" for n kind unfolding replaceFailedAttemptForRetry_def e by simp
  show "isl (attempt_apply D s ev)"
  proof (cases ev)
    case (RegressionRetried n)
    then show ?thesis by (cases "current_leaf s") (simp_all add: retryFinalRegressionAttempt_def ret Let_def split: option.split)
  qed (simp_all add: failCurrentAttempt_def replaceCurrentAttempt_def retryCurrentAttempt_def retryGateAttempt_def e)
  show "isl (confirmCurrentAttempt D s r st g b)" by (simp add: confirmCurrentAttempt_def assertAttemptConfirmable_def e)
  show "isl (addTask D s i k)" by (simp add: addTask_def e)
qed

subsection \<open>What every accepted state satisfies\<close>

text \<open>Claim C10. Every accepted state has one place of work.  Without a cursor there is no Attempt and no leaf in progress;
  with a cursor its path leads to the only leaf in progress, and the Attempt belongs to that leaf and carries its
  sequence number.  Node ids are unique, and every leaf before the first unfinished leaf is terminal while no leaf
  after it is in progress.\<close>

theorem accepted_state_single_cursor:
  assumes "new_CurrentFlowState built_definition x = Inr s"
  shows "distinct (map nd_id (collectNodes (cst_root s)))
    \<and> (cst_current s = None \<longrightarrow> cst_attempt s = None \<and> filter (\<lambda>n. nd_status n = ''in_progress'') (state_leaves (cst_root s)) = [])
    \<and> (\<forall>p. cst_current s = Some p \<longrightarrow> (\<exists>l a. nodeAtPath (cst_root s) p = Inr l \<and> nd_steps l = []
        \<and> filter (\<lambda>n. nd_status n = ''in_progress'') (state_leaves (cst_root s)) = [l]
        \<and> cst_attempt s = Some a \<and> cat_nodeId a = nd_id l \<and> cat_sequence a = nd_attemptSequence l))
    \<and> (\<exists>pre post. state_leaves (cst_root s) = pre @ post \<and> list_all terminal pre
        \<and> (post = [] \<or> \<not> terminal (hd post) \<and> list_all (\<lambda>n. nd_status n \<noteq> ''in_progress'') (tl post)))"
proof (intro conjI impI allI)
  have wf: "wf_state built_definition s" by (rule constructed_wf [OF assms])
  show dis: "distinct (map nd_id (collectNodes (cst_root s)))" by (rule wf_stateD(1) [OF wf])
  note exec = wf_stateD(3) [OF wf]
  show "cst_attempt s = None" "filter (\<lambda>n. nd_status n = ''in_progress'') (state_leaves (cst_root s)) = []" if "cst_current s = None"
    using exec that unfolding assertDefinitionExecutionCurrent_def Let_def by (auto split: if_splits)
  show "\<exists>l a. nodeAtPath (cst_root s) p = Inr l \<and> nd_steps l = []
        \<and> filter (\<lambda>n. nd_status n = ''in_progress'') (state_leaves (cst_root s)) = [l]
        \<and> cst_attempt s = Some a \<and> cat_nodeId a = nd_id l \<and> cat_sequence a = nd_attemptSequence l" if p: "cst_current s = Some p" for p
  proof -
    obtain l a where l: "nodeAtPath (cst_root s) p = Inr l" "leaf_node l" "nd_status l = ''in_progress''" "cst_attempt s = Some a" "nd_attemptSequence l = cat_sequence a"
      "cat_nodeId a = nd_id l" "l \<in> set (collectNodes (cst_root s))" "map nd_id (filter (\<lambda>n. nd_status n = ''in_progress'') (state_leaves (cst_root s))) = [nd_id l]"
      by (rule built.active_leaf [OF wf p])
    obtain m where m: "filter (\<lambda>n. nd_status n = ''in_progress'') (state_leaves (cst_root s)) = [m]" "nd_id m = nd_id l" using l(8) by auto
    have "m \<in> set (state_leaves (cst_root s))" using m(1) by (metis filter_is_subset list.set_intros(1) subsetD)
    then have "m = l" using same_node [OF dis _ l(7) m(2)] by (simp add: state_leaves_def)
    then show ?thesis using l m(1) by (simp add: leaf_node_def)
  qed
  show "\<exists>pre post. state_leaves (cst_root s) = pre @ post \<and> list_all terminal pre
        \<and> (post = [] \<or> \<not> terminal (hd post) \<and> list_all (\<lambda>n. nd_status n \<noteq> ''in_progress'') (tl post))"
    using state_frontier [OF wf]
  proof
    assume "list_all terminal (state_leaves (cst_root s)) \<and> cst_current s = None"
    then show ?thesis by (intro exI [of _ "state_leaves (cst_root s)"] exI [of _ "[]"]) simp
  next
    assume "\<exists>pre f post. state_leaves (cst_root s) = pre @ f # post \<and> list_all terminal pre \<and> \<not> terminal f \<and> list_all (\<lambda>l. nd_status l \<noteq> ''in_progress'') post
       \<and> (if nd_status f = ''in_progress'' then map_option last (cst_current s) = Some (nd_id f) else cst_current s = None)"
    then obtain pre f post where "state_leaves (cst_root s) = pre @ f # post" "list_all terminal pre" "\<not> terminal f" "list_all (\<lambda>l. nd_status l \<noteq> ''in_progress'') post"
      by blast
    then show ?thesis by (intro exI [of _ pre] exI [of _ "f # post"]) simp
  qed
qed

theorem accepted_state_single_cursor_witness:
  "\<exists>s. create built_definition ''run'' ''spec'' = Inr s \<and> distinct (map nd_id (collectNodes (cst_root s))) \<and> cst_attempt s = None"
proof -
  obtain s l post where s: "create built_definition ''run'' ''spec'' = Inr s" "new_CurrentFlowState built_definition s = Inr s" "paused_at s [] (l # post)"
    by (rule fresh_state)
  then show ?thesis using accepted_state_single_cursor [OF s(2)] by (simp add: paused_at_def)
qed

text \<open>Claim C13. The next action of an accepted state is never missing or refused.  Without a cursor it is none exactly
  when every leaf is terminal, and otherwise it starts or recovers the first unfinished leaf; with a cursor whose
  Attempt has not failed it resumes that Attempt.\<close>

theorem next_action_total:
  assumes "new_CurrentFlowState built_definition x = Inr s"
  shows "(cst_current s = None \<longrightarrow>
      (nextAction built_definition s = Inr None \<longleftrightarrow> list_all terminal (state_leaves (cst_root s)))
      \<and> (\<not> list_all terminal (state_leaves (cst_root s)) \<longrightarrow> (\<exists>d. nextAction built_definition s = Inr (Some d)
          \<and> find (\<lambda>n. \<not> terminal n) (state_leaves (cst_root s)) = Some (nad_node d)
          \<and> nad_operation d = (if nd_status (nad_node d) = ''invalidated'' then ''recover'' else ''start''))))
    \<and> (\<forall>p a. cst_current s = Some p \<and> cst_attempt s = Some a \<and> cat_failure a = None \<longrightarrow> (\<exists>d. nextAction built_definition s = Inr (Some d)
        \<and> nad_path d = p \<and> nad_operation d = ''resume'' \<and> nd_id (nad_node d) = cat_nodeId a))"
proof (intro conjI impI allI)
  have wf: "wf_state built_definition s" by (rule constructed_wf [OF assms])
  have idle: "nextAction built_definition s = Inr None \<and> list_all terminal (state_leaves (cst_root s)) \<or>
    (\<exists>d. nextAction built_definition s = Inr (Some d) \<and> find (\<lambda>n. \<not> terminal n) (state_leaves (cst_root s)) = Some (nad_node d)
       \<and> nad_operation d = (if nd_status (nad_node d) = ''invalidated'' then ''recover'' else ''start''))" if none: "cst_current s = None"
    using built.idle_shape [OF wf none]
  proof
    assume t: "list_all terminal (state_leaves (cst_root s))"
    then show ?thesis using built.idle_done [OF wf none t] by blast
  next
    assume "\<exists>pre f post. state_leaves (cst_root s) = pre @ f # post \<and> list_all terminal pre \<and> nd_status f \<in> set EXECUTABLE_NODE_STATUSES
       \<and> list_all (\<lambda>l. nd_status l \<noteq> ''in_progress'') (state_leaves (cst_root s))"
    then obtain pre f post where f: "state_leaves (cst_root s) = pre @ f # post" "list_all terminal pre" "nd_status f \<in> set EXECUTABLE_NODE_STATUSES" by blast
    obtain d where d: "nextAction built_definition s = Inr (Some d)" "nad_node d = f" "nad_operation d = (if nd_status f = ''invalidated'' then ''recover'' else ''start'')"
      by (rule built.next_at [OF wf none f])
    have "\<not> terminal f" using f(3) by (auto simp: terminal_def terminal_cases executable_cases)
    then have "find (\<lambda>n. \<not> terminal n) (state_leaves (cst_root s)) = Some f" unfolding f(1) using f(2) by (intro built.find_first) simp_all
    then show ?thesis using d by blast
  qed
  show "nextAction built_definition s = Inr None \<longleftrightarrow> list_all terminal (state_leaves (cst_root s))" if none: "cst_current s = None"
    using idle [OF none] by (auto simp: find_Some_iff list_all_iff)
  show "\<exists>d. nextAction built_definition s = Inr (Some d) \<and> find (\<lambda>n. \<not> terminal n) (state_leaves (cst_root s)) = Some (nad_node d)
       \<and> nad_operation d = (if nd_status (nad_node d) = ''invalidated'' then ''recover'' else ''start'')"
    if "cst_current s = None" "\<not> list_all terminal (state_leaves (cst_root s))" using idle that by blast
  show "\<exists>d. nextAction built_definition s = Inr (Some d) \<and> nad_path d = p \<and> nad_operation d = ''resume'' \<and> nd_id (nad_node d) = cat_nodeId a"
    if "cst_current s = Some p \<and> cst_attempt s = Some a \<and> cat_failure a = None" for p a using built.active_next [OF wf, of p a] that by blast
qed

theorem next_action_total_witness:
  "\<exists>s d. create built_definition ''run'' ''spec'' = Inr s \<and> nextAction built_definition s = Inr (Some d) \<and> nad_operation d = ''start''"
proof -
  obtain s l post where s: "create built_definition ''run'' ''spec'' = Inr s" "new_CurrentFlowState built_definition s = Inr s"
    "state_leaves (cst_root s) = l # post" "paused_at s [] (l # post)" by (rule fresh_state)
  have "nd_status l = ''pending''" "\<not> terminal l" "cst_current s = None" using s(4) by (auto simp: paused_at_def terminal_def terminal_cases)
  then show ?thesis using next_action_total [OF s(2)] s(1,3) by auto
qed

subsection \<open>Running a Flow\<close>

text \<open>Claim C12. A pending leaf can always be worked off.  In an accepted active state whose leaves are terminal up to
  the first pending one and pending from there on, the next action is to start that leaf; starting it with any
  initial Attempt that is neither blocked nor incomplete succeeds, and so does its confirmation with a passed
  result and, for a Task Gate, the effect sealed to its Task and successor.  Afterwards the leaf is done with that
  result, every other leaf is as before, no Attempt is left, and the Task of a confirmed Task Gate is done.\<close>

theorem pending_leaf_advances:
  assumes "new_CurrentFlowState built_definition x = Inr s" "paused_at s pre (l # post)"
    "assertInitialAttempt built_definition l a = Inr ()" "cat_blocker a = None" "cat_incomplete a = []" "plain_result r"
  shows "\<exists>d t u l'. nextAction built_definition s = Inr (Some d) \<and> nad_node d = l \<and> nad_operation d = ''start''
    \<and> startAttempt built_definition s (nad_path d) a = Inr t
    \<and> confirmCurrentAttempt built_definition t r ''done'' (gate_effect built_definition t (nd_id l)) None = Inr u
    \<and> state_leaves (cst_root u) = pre @ l' # post \<and> nd_id l' = nd_id l \<and> nd_status l' = ''done'' \<and> nd_result l' = Some r
    \<and> nd_attemptSequence l' = cat_sequence a \<and> cst_current u = None \<and> cst_attempt u = None
    \<and> (\<forall>tk. owning_task built_definition t (nd_id l) = Some tk \<and> nd_id l = nd_id (last (nd_steps tk)) \<longrightarrow>
        (\<exists>n. findNode u (nd_id tk) = Some n \<and> nd_status n = ''done''))"
proof -
  have wf: "wf_state built_definition s" by (rule constructed_wf [OF assms(1)])
  have at: "cst_current s = None" "state_leaves (cst_root s) = pre @ l # post" "list_all terminal pre" "nd_status l = ''pending''"
    using assms(2) by (auto simp: paused_at_def)
  have ex: "nd_status l \<in> set EXECUTABLE_NODE_STATUSES" using at(4) by (simp add: executable_cases)
  obtain d where d: "nextAction built_definition s = Inr (Some d)" "nad_node d = l" "findPathInRoot (nd_id l) [] (cst_root s) = Some (nad_path d)"
    "nad_operation d = (if nd_status l = ''invalidated'' then ''recover'' else ''start'')" by (rule built.next_at [OF wf at(1-3) ex])
  obtain p t u l' where u: "findPathInRoot (nd_id l) [] (cst_root s) = Some p" "startAttempt built_definition s p a = Inr t"
    "confirmCurrentAttempt built_definition t r ''done'' (gate_effect built_definition t (nd_id l)) None = Inr u" "wf_state built_definition u"
    "paused_at u (pre @ [l']) post" "nd_id l' = nd_id l" "nd_status l' = ''done''" "nd_result l' = Some r" "nd_attemptSequence l' = cat_sequence a"
    "\<forall>tk. owning_task built_definition t (nd_id l) = Some tk \<and> nd_id l = nd_id (last (nd_steps tk)) \<longrightarrow>
        (\<exists>n. findNode u (nd_id tk) = Some n \<and> nd_status n = ''done'')"
    by (rule built.leaf_step [OF wf assms(2-6)])
  have "cst_current u = None" "state_leaves (cst_root u) = pre @ l' # post" using u(5) by (simp_all add: paused_at_def)
  moreover have "cst_attempt u = None" by (rule idle_attempt [OF u(4) calculation(1)])
  moreover have "p = nad_path d" "nad_operation d = ''start''" using d(3,4) u(1) at(4) by simp_all
  ultimately show ?thesis using d(1,2) u(2,3,6-10) by blast
qed

theorem pending_leaf_advances_witness:
  "\<exists>s d t u. create built_definition ''run'' ''spec'' = Inr s \<and> nextAction built_definition s = Inr (Some d)
     \<and> startAttempt built_definition s (nad_path d) (fresh_attempt built_definition (nad_node d)) = Inr t
     \<and> confirmCurrentAttempt built_definition t sample_result ''done'' (gate_effect built_definition t (nd_id (nad_node d))) None = Inr u
     \<and> cst_attempt u = None"
proof -
  obtain s l post where s: "create built_definition ''run'' ''spec'' = Inr s" "new_CurrentFlowState built_definition s = Inr s"
    "state_leaves (cst_root s) = l # post" "paused_at s [] (l # post)" by (rule fresh_state)
  have "l \<in> set (collectNodes (cst_root s))" using s(3) leaf_in [of l "cst_root s"] by simp
  from built.fresh_ok [OF constructed_wf [OF s(2)] this] have "assertInitialAttempt built_definition l (fresh_attempt built_definition l) = Inr ()" .
  from pending_leaf_advances [OF s(2,4) this _ _ sample_result_plain] s(1) show ?thesis by (simp add: fresh_attempt_def) metis
qed

text \<open>Claim C11. Every Flow can be completed: from an accepted active state with an empty outbox whose leaves are terminal
  up to some point and pending from there on, following the next action, one start and one confirmation for each
  pending leaf, makes every leaf terminal, Task Gates included; then no action is left and the Flow can be
  finalized.\<close>

theorem pending_flow_completes:
  assumes "new_CurrentFlowState built_definition x = Inr s" "paused_at s pre post" "cst_outbox s = []" "plain_result r"
  shows "\<exists>t. run_flow built_definition r (length post) s = Inr t \<and> list_all terminal (state_leaves (cst_root t))
    \<and> nextAction built_definition t = Inr None \<and> finalize built_definition t = Inr (t\<lparr>cst_lifecycle := ''finalized''\<rparr>)"
proof -
  have wf: "wf_state built_definition s" by (rule constructed_wf [OF assms(1)])
  obtain t fin where t: "run_flow built_definition r (length post) s = Inr t" "wf_state built_definition t" "paused_at t (pre @ fin) []" "cst_outbox t = cst_outbox s"
    using built.run_completes [OF wf assms(2,4)] by blast
  have "list_all terminal (state_leaves (cst_root t))" "cst_current t = None" using t(3) by (simp_all add: paused_at_def)
  then show ?thesis using t built.idle_done [OF t(2)] built.finalize_ok [OF t(2,3)] assms(3) by simp
qed

theorem pending_flow_completes_witness:
  "\<exists>s t. create built_definition ''run'' ''spec'' = Inr s \<and> map nd_id (state_leaves (cst_root s)) = flow_leaf_ids
     \<and> run_flow built_definition sample_result (length flow_leaf_ids) s = Inr t
     \<and> finalize built_definition t = Inr (t\<lparr>cst_lifecycle := ''finalized''\<rparr>)"
proof -
  obtain s l post where s: "create built_definition ''run'' ''spec'' = Inr s" "new_CurrentFlowState built_definition s = Inr s"
    "state_leaves (cst_root s) = l # post" "paused_at s [] (l # post)" "cst_outbox s = []" "length (l # post) = length flow_leaf_ids" "map nd_id (l # post) = flow_leaf_ids"
    by (rule fresh_state)
  then show ?thesis using pending_flow_completes [OF s(2,4,5) sample_result_plain] unfolding s(6) by auto
qed

text \<open>Claim C14. The retries of an Attempt are bounded by the contract of its leaf: however often the active Attempt of an
  accepted state fails, is replaced and is retried in any of the three ways, the number of accepted retries plus the
  retries it had consumed is at most the semantic limit plus the tooling limit of the leaf, and the cursor stays
  where it is.\<close>

theorem attempt_retries_bounded:
  assumes "new_CurrentFlowState built_definition x = Inr s" "cst_current s = Some p" "cst_attempt s = Some a"
    "nodeAtPath (cst_root s) p = Inr l" "contractForNode built_definition l = Inr c" "run (attempt_step built_definition) s es t"
  shows "int (length (filter is_retry es)) + atc_semantic (cat_consumption a) + atc_tooling (cat_consumption a)
      \<le> nct_semanticRetryLimit c + (case nct_toolingRetryLimit c of None \<Rightarrow> 0 | Some m \<Rightarrow> m)
    \<and> cst_current t = Some p"
proof -
  have wf: "wf_state built_definition s" by (rule constructed_wf [OF assms(1)])
  have c: "active_contract built_definition s = Inr c" using assms(2,4,5) by (simp add: active_contract_def)
  have "assertAttemptContractForLeaf built_definition l a = Inr ()"
    using wf_stateD(3) [OF wf] assms(2-4) by (simp add: assertDefinitionExecutionCurrent_def Let_def split: if_splits)
  from within_budget(3) [OF assms(5) this] have le: "spent a \<le> retry_budget c" .
  have "length (filter is_retry es) + remaining_budget built_definition t \<le> remaining_budget built_definition s"
    by (rule built.retries.charged_bound [OF assms(6)]) (use wf assms(2) in simp)
  then have "int (length (filter is_retry es)) + spent a \<le> retry_budget c"
    using c assms(3) le by (simp add: remaining_budget_def)
  moreover have "cst_current t = Some p" using assms(6) wf assms(2)
  proof (induction rule: run.induct)
    case (run_cons s e t es u)
    then show ?case using built.attempt_advances [of s p e t] by blast
  qed
  ultimately show ?thesis by (simp add: spent_def retry_budget_def)
qed

text \<open>Witness: the first leaf of a new Flow, whose Attempt fails.\<close>

definition sample_attempt_failure :: ActivityFailure where
  "sample_attempt_failure = \<lparr>acf_category = ''tooling'', acf_code = ''TIMEOUT'', acf_retryable = True, acf_retryKind = Some ''tooling'',
     acf_stopConfirmed = Some True, acf_completion = None\<rparr>"

definition failed_result :: NodeResult where
  "failed_result = sample_result\<lparr>nrs_outcome := ''failed''\<rparr>"

theorem attempt_retries_bounded_witness:
  "\<exists>s p l t q n c u. create built_definition ''run'' ''spec'' = Inr s
     \<and> startAttempt built_definition s p (fresh_attempt built_definition l) = Inr t
     \<and> cst_current t = Some q \<and> nodeAtPath (cst_root t) q = Inr n \<and> contractForNode built_definition n = Inr c
     \<and> attempt_apply built_definition t (Failed sample_attempt_failure failed_result) = Inr u \<and> cst_current u = Some q
     \<and> 0 \<le> nct_semanticRetryLimit c + (case nct_toolingRetryLimit c of None \<Rightarrow> 0 | Some m \<Rightarrow> m)"
proof -
  obtain s l post where s: "create built_definition ''run'' ''spec'' = Inr s" "new_CurrentFlowState built_definition s = Inr s"
    "state_leaves (cst_root s) = l # post" "paused_at s [] (l # post)" by (rule fresh_state)
  let ?a = "fresh_attempt built_definition l"
  have "l \<in> set (collectNodes (cst_root s))" using s(3) leaf_in [of l "cst_root s"] by simp
  note ini = built.fresh_ok [OF constructed_wf [OF s(2)] this]
  obtain p t l' where t: "findPathInRoot (nd_id l) [] (cst_root s) = Some p" "startAttempt built_definition s p ?a = Inr t"
    "wf_state built_definition t" "running_at t [] l' post ?a" "nd_id l' = nd_id l"
    by (rule built.start_running [OF constructed_wf [OF s(2)] s(4) ini]) (simp_all add: fresh_attempt_def)
  have at: "cst_attempt t = Some ?a" "cst_lifecycle t = ''active''" "cat_failure ?a = None" "cat_incomplete ?a = []"
    and spent: "atc_semantic (cat_consumption ?a) = 0" "atc_tooling (cat_consumption ?a) = 0"
    using t(4) by (simp_all add: running_at_def fresh_attempt_def)
  obtain q where q: "cst_current t = Some q" using t(4) by (auto simp: running_at_def)
  obtain n where n: "nodeAtPath (cst_root t) q = Inr n" by (rule built.active_leaf [OF t(3) q])
  have "assertAttemptContractForLeaf built_definition n ?a = Inr ()"
    using wf_stateD(3) [OF t(3)] q at(1) n by (simp add: assertDefinitionExecutionCurrent_def Let_def split: if_splits)
  then obtain c where c: "contractForNode built_definition n = Inr c" by (auto simp: assertAttemptContractForLeaf_def)
  have "\<exists>u. attempt_apply built_definition t (Failed sample_attempt_failure failed_result) = Inr u"
    using built.fail_ok [OF t(3) at(2) q at(1,3), of failed_result] at(4) by (simp add: failed_result_def)
  then obtain u where u: "attempt_apply built_definition t (Failed sample_attempt_failure failed_result) = Inr u" by blast
  then have "run (attempt_step built_definition) t [Failed sample_attempt_failure failed_result] u"
    by (auto simp: attempt_step_def intro: run.intros)
  from attempt_retries_bounded [OF _ q at(1) n c this, of t] state_ok t(3) spent
  have "cst_current u = Some q" "0 \<le> nct_semanticRetryLimit c + (case nct_toolingRetryLimit c of None \<Rightarrow> 0 | Some m \<Rightarrow> m)" by auto
  then show ?thesis using s(1) t(2) q n c u by blast
qed

text \<open>Claim C15. Parking is reversible and closed: an accepted active state can be parked, resuming it gives back the very
  same state, and while it is parked no Attempt can be started, failed, replaced, confirmed or retried, no Task
  added, and the Flow neither parked again nor finalized.\<close>

theorem park_resume_roundtrip:
  assumes "new_CurrentFlowState built_definition x = Inr s" "cst_lifecycle s = ''active''"
  shows "\<exists>t. park built_definition s = Inr t \<and> resume built_definition t = Inr s \<and> isl (park built_definition t) \<and> isl (finalize built_definition t)
    \<and> (\<forall>p a e r st g b i k. isl (startAttempt built_definition t p a) \<and> isl (attempt_apply built_definition t e)
        \<and> isl (confirmCurrentAttempt built_definition t r st g b) \<and> isl (addTask built_definition t i k))"
proof -
  have wf: "wf_state built_definition s" by (rule constructed_wf [OF assms(1)])
  let ?t = "s\<lparr>cst_lifecycle := ''parked''\<rparr>"
  have t: "wf_state built_definition ?t" by (rule built.lifecycle_changed [OF wf]) (use assms(2) in simp_all)
  have same: "?t\<lparr>cst_lifecycle := ''active''\<rparr> = s" using assms(2) by simp
  have root: "assertTransitionHandler built_definition s' (nd_id (cst_root s')) = Inr ()" if "wf_state built_definition s'" for s'
    by (rule built.handler_ok(1) [OF that]) simp
  have "park built_definition s = Inr ?t" using root [OF wf] assms(2) t state_ok by (simp add: park_def replaceLifecycle_def)
  moreover have "resume built_definition ?t = Inr s" using root [OF t] wf state_ok same by (simp add: resume_def replaceLifecycle_def)
  moreover have "isl (park built_definition ?t)" "isl (finalize built_definition ?t)" using root [OF t] by (simp_all add: park_def finalize_def)
  moreover note inactive_refused [of ?t built_definition]
  ultimately show ?thesis by auto
qed

theorem park_resume_roundtrip_witness:
  "\<exists>s t. create built_definition ''run'' ''spec'' = Inr s \<and> park built_definition s = Inr t \<and> resume built_definition t = Inr s
     \<and> isl (finalize built_definition t)"
proof -
  obtain s l post where s: "create built_definition ''run'' ''spec'' = Inr s" "new_CurrentFlowState built_definition s = Inr s" "paused_at s [] (l # post)"
    by (rule fresh_state)
  then show ?thesis using park_resume_roundtrip [OF s(2)] by (auto simp: paused_at_def)
qed

end
