(* ===== verification/Spec2Isabelle.thy ===== *)
theory Spec2Isabelle
  imports Task_Review_Funnel Gate_Properties Finalization_Recovery Retry_Recovery Non_Gate_Properties Requirement_Test_Properties
    Flow_State_Properties
begin

text \<open>
  \<^bold>\<open>Sennel's flow engine.\<close>

  Sennel drives a development flow (plan, implement, finalize) made of steps.  Workers, reviewers and
  test runners only produce evidence; which step comes next is decided by deterministic code, the
  "Definition" (\<open>src/src/flow/definition.js\<close>), from immutable fact objects that are validated when
  they are built and persisted as JSON.  The runners read the facts from the store, ask Definition for
  a decision, and apply the sealed plan that comes with it.  This development models that
  deterministic core: the fact classes, the resolvers, and the plans they seal.

  \<^bold>\<open>How the code is modelled.\<close>  Plain JavaScript data is \<open>jsval\<close>; a throw is \<open>Inl\<close> of a \<open>jserr\<close> with its message
  and \<open>bindE\<close> sequences computations so that the first throw wins.  A class is a record; its
  constructor \<open>new_C\<close> takes the destructured argument as \<open>jsval\<close> and performs the checks of the source
  in their order; \<open>C_toJSON\<close> is its JSON form.  Classes whose constructors take a private token are
  only built inside the module, so their arguments are typed here and their remaining checks kept.
  Canonical JSON and SHA-256 are real functions, so fingerprints evaluate.  Numbers are kept within
  \<open>Number.isSafeInteger\<close>; nothing needs fuel, all functions are total.  \<open>Date.parse\<close> is a parameter of the
  definitions that use it, the decoder of persisted step facts a parameter of \<open>non_gate_fromPersisted\<close>,
  as in the source; \<open>localeCompare\<close> is a parameter of the candidate bundles.

  \<^bold>\<open>Theories.\<close>
  \<^item> \<open>Js_Values\<close>: the language part (values, errors, property access, strings, safe integers) and the
    locale \<open>json_codec\<close>, the contract of a value class: what the constructor accepts is well formed and
    a well-formed value is rebuilt unchanged from its own JSON.  It is interpreted for every class.
  \<^item> \<open>Sha256\<close>, \<open>Canonical_Json\<close>: SHA-256, \<open>JSON.stringify\<close> and \<open>stableGateJson\<close>; the canonical text
    determines a value up to key order.
  \<^item> \<open>Task_Step\<close>: \<open>task-step-identity.js\<close> and \<open>task-execution-policy.js\<close>; identities are recovered from node
    ids, and an execution overrun is decided from the exact recorded facts.
  \<^item> \<open>Task_Review_Stage\<close>, \<open>Task_Review_Funnel\<close>: \<open>task-review-stage-transition.js\<close> and
    \<open>task-review-accounting.js\<close>; the review funnel of a Task as a transition system, its table of
    operations, its frontier invariant, the exact conditions under which it returns to an earlier stage
    (four Reviews, one return to the implementation), and the exact list of stages without a plan.
  \<^item> \<open>Gate_Facts\<close>, \<open>Gate_Transition_Facts\<close>: \<open>gate-transition.js\<close>, every class and the integrity check.
  \<^item> \<open>Gate_Routes\<close>: \<open>nonblocking-route.js\<close> and the routes of \<open>plan-gate-repair.js\<close> (step ids of a route are
    limited to 100 characters).
  \<^item> \<open>Gate_Decision\<close>, \<open>Gate_Resolver\<close>: dispositions, effects, connectors, plans and action identity, and
    the resolvers of \<open>definition.js\<close> 1102-2242 (classification, advisory eligibility, publication and
    settlement recovery, admission, public outcome; Spec cycles are bounded by 4).
  \<^item> \<open>Gate_Plan\<close>, \<open>Gate_Policy\<close>, \<open>Gate_Properties\<close>: closed forms of the plan, the abstract policy table of a
    Gate, the refinement of the policy by the resolver, and from it the safety, bounds and liveness
    properties: when a Gate passes, retries, repairs, is carried forward or stops.
  \<^item> \<open>Non_Gate_Facts\<close>, \<open>Non_Gate_Steps\<close>, \<open>Non_Gate_Transition_Facts\<close>: \<open>non-gate-transition.js\<close>,
    \<open>final-regression-transition.js\<close>, \<open>test-chain-observation-values.js\<close>.
  \<^item> \<open>Non_Gate_Decision\<close>, \<open>Non_Gate_Resolver\<close>: the common reducer of \<open>definition.js\<close> 2428-3036, the Step
    Definitions of the final regression and the test chain, and the failure classification of
    \<open>nonblocking-evidence.js\<close>.
  \<^item> \<open>Non_Gate_Policy\<close>, \<open>Non_Gate_Properties\<close>: the reducer never throws on well-formed typed facts and
    implements the policy table; when a step is done, a retry counted, a repair asked for, a user
    action offered or an advisory observation recorded, each as an equivalence.
  \<^item> \<open>Finalization_Recovery\<close>: \<open>definition.js\<close> 2243-2426; every finalization step has one recovery route, an
    exact replay is safe and happens once.
  \<^item> \<open>Retry_Recovery\<close>: \<open>definition.js\<close> 278-585 with the getters of \<open>ActivityFailure\<close>; which evidence supports
    the recovery of an exhausted retry.
  \<^item> \<open>Requirement_Test_Values\<close>, \<open>Requirement_Test_Plan\<close>: \<open>requirement-test-lifecycle.js\<close> and
    \<open>spec-revision-identity.js\<close>; budgets, findings, bundle lineage, work items and the plan with its active
    work item.
  \<^item> \<open>Requirement_Test_Artifacts\<close>: the sources, bundles and Gate observations of
    \<open>requirement-test-artifacts.js\<close>.  \<open>localeCompare\<close> is a parameter; a lemma shows the manifests that are refused
    because two orders are mixed.
  \<^item> \<open>Requirement_Test_Lifecycle\<close>: observations, facts, the selection policy, decisions and initialization
    (\<open>definition.js\<close> 640-970, \<open>requirement-test-transition.js\<close>).
  \<^item> \<open>Requirement_Test_Policy\<close>, \<open>Requirement_Test_Machine\<close>, \<open>Requirement_Test_Properties\<close>: the policy table the
    resolver and \<open>apply\<close> implement; the lifecycle as a machine over leaves and plans with its invariant; a
    potential (locale \<open>potential_machine\<close>) that bounds the charged decisions by 25 per Requirement: 3 tooling
    retries, 2 steps for each of 10 findings, and 2 for the first candidate and the settlement.
  \<^item> \<open>Step_Tree\<close>, \<open>Flow_Definition\<close>, \<open>Flow_Steps\<close>, \<open>Flow_Properties\<close>: \<open>step-tree.js\<close> and the declared flow
    of \<open>definition.js\<close> 5460-6036 and 6209-6650.  Steps are rose trees; the declared tree is at most three levels
    deep and the operations of \<open>step-tree.js\<close> descend at most ten.  The declared flow is well formed, its
    prerequisites are the last leaves of the earlier branches, the initial frontier and the latest running step are
    characterized, and the route of a draft review fixes its effects.
  \<^item> \<open>Node_Contract\<close>: \<open>current-flow-state.js\<close> 2428-2488 and 2872-3300 (contracts, resource claims, authorities,
    Definition actions, failure policy); a failure is decided by an abstract table, and claims cover exactly
    their resources.
  \<^item> \<open>Current_Definition\<close>: \<open>current-flow-state.js\<close> 3303-3553; the canonical Definition is adapted node by node
    from the declared flow, and \<open>buildCurrentFlowDefinition\<close> succeeds.
  \<^item> \<open>Flow_State\<close>, \<open>State_Lifecycle\<close>, \<open>Flow_Operations\<close>: \<open>CurrentFlowState\<close> of \<open>current-flow-state.js\<close>, the
    canonical state of a running Flow: the node tree with its dynamic Tasks, the complete check its constructor
    makes (shape, leaf and branch lifecycle, execution frontier, cursor and Attempt, proofs by receipt), and the
    operations that need no journal.
  \<^item> \<open>State_Structure\<close>, \<open>State_Update\<close>, \<open>State_Checks\<close>: paths and lookups in trees with unique ids, updates that
    keep the shape, and the check of a state as one predicate on nodes, leaves and cursor.
  \<^item> \<open>Definition_Laws\<close>: the locale \<open>definition_laws\<close>, what the state needs of a definition (unique ids, a handler
    for every leaf, the transitions of the run, the Task template); \<open>State_Progress\<close>, \<open>State_Completion\<close>,
    \<open>State_Run\<close>, \<open>State_Tasks\<close>, \<open>Flow_Run\<close> and \<open>Attempt_Retries\<close> prove in it that starting and confirming
    keep the check, that a Flow runs to its end, and that retries consume a potential.
  \<^item> \<open>Built_Laws\<close>, \<open>Flow_State_Properties\<close>: the laws hold of the definition \<open>buildCurrentFlowDefinition\<close> returns;
    one place of work, the next action, progress and completion, the retry bound, and parking.

  \<^bold>\<open>Not modelled.\<close>  States with a history or a migration checkpoint and the operations of \<open>CurrentFlowState\<close> that
  verify the Activity journal (approval Tasks, Gate and review stage transitions, nonblocking acceptance, plan
  repair, finalization outbox recovery); the lifecycle plans of \<open>definition.js\<close> 3262-3925 and the Results and
  settlements of \<open>step-result.js\<close> sealed from it (a receipt is represented by the fields the state reads), the
  approval routes (\<open>definition.js\<close> 3038-3204), the \<open>TestChainResultEvidence\<close> and the settled evidence of
  \<open>RequirementTestExecutionLifecycle\<close>.  The
  file-backed canonical store and worker handoff, the runners that build prompts and supervise
  processes, locks and leases, and everything outside the flow engine (documentation generator, setup,
  plugins, presets, metrics, migration, queries, command line) perform I/O around the decisions
  modelled here.  Provider failures are classified by matching free text and are not modelled.  An
  argument that is already an instance of the class under construction is passed through by the
  sources and is not a separate case.
\<close>

end
